(* ===== verification/Go_Prelude.thy ===== *)
theory Go_Prelude
  imports Main "HOL-Library.Product_Lexorder" "HOL-Library.Char_ord" "HOL-Library.List_Lexorder" "HOL-Library.Sublist"
begin

text \<open>
  The part of the Go language and of its standard library that the modelled packages use, and
  the generic lemmas the component theories share.

  A Go \<open>string\<close> is a sequence of bytes, which is what HOL's \<^typ>\<open>string\<close> (a list of the 256
  values of \<^typ>\<open>char\<close>) is; \<open>len\<close> is \<^const>\<open>length\<close> and \<open>a < b\<close> on strings is the bytewise
  lexicographic order. A Go \<open>int\<close> is 64 bits wide: it is an \<^typ>\<open>int\<close> here, with the
  wrap-around (\<open>wrap64\<close>) written out wherever the code computes a value that can leave the
  range. A Go map is an association list with distinct keys, in the order the runtime iterates
  over it, wherever the code ranges over it; the order is arbitrary, so a theorem about such a
  function holds for every order.
\<close>

named_theorems go_simps \<open>unfolding rules for the standard-library functions\<close>

type_synonym gostring = string
type_synonym ('k, 'v) gomap = "('k \<times> 'v) list"

section \<open>Bytes and characters\<close>

definition byte :: "char \<Rightarrow> nat" where
  "byte c = of_char c"

definition chr :: "nat \<Rightarrow> char" where
  "chr n = char_of n"

lemma byte_less_256: "byte c < 256"
  by (simp add: byte_def)

lemma byte_inj [simp]: "byte c = byte d \<longleftrightarrow> c = d"
  by (simp add: byte_def)

lemma byte_chr: "n < 256 \<Longrightarrow> byte (chr n) = n"
  by (simp add: byte_def chr_def)

lemma chr_byte [simp]: "chr (byte c) = c"
  by (simp add: byte_def chr_def)

lemma byte_lt_iff: "byte c < byte d \<longleftrightarrow> c < d"
  by (simp add: byte_def less_char_def)

text \<open>Non-ASCII literals of the source, as their UTF-8 bytes.\<close>

abbreviation em_dash :: gostring where
  "em_dash \<equiv> [CHR 0xE2, CHR 0x80, CHR 0x94]"

abbreviation mid_dot :: gostring where
  "mid_dot \<equiv> [CHR 0xC2, CHR 0xB7]"

abbreviation left_arrow :: gostring where
  "left_arrow \<equiv> [CHR 0xE2, CHR 0x86, CHR 0x90]"

abbreviation check_mark :: gostring where
  "check_mark \<equiv> [CHR 0xE2, CHR 0x9C, CHR 0x85]"

abbreviation warn_sign :: gostring where
  "warn_sign \<equiv> [CHR 0xE2, CHR 0x9A, CHR 0xA0]"

abbreviation variation_selector :: gostring where
  "variation_selector \<equiv> [CHR 0xEF, CHR 0xB8, CHR 0x8F]"

abbreviation newline :: gostring where
  "newline \<equiv> [CHR 0x0A]"

section \<open>Package strings\<close>

text \<open>\<open>strings.IndexByte\<close> and \<open>strings.LastIndexByte\<close>; \<^const>\<open>None\<close> is Go's \<open>-1\<close>.\<close>

fun index_byte :: "gostring \<Rightarrow> char \<Rightarrow> nat option" where
  "index_byte [] c = None"
| "index_byte (d # s) c = (if d = c then Some 0 else map_option Suc (index_byte s c))"

fun last_index_byte :: "gostring \<Rightarrow> char \<Rightarrow> nat option" where
  "last_index_byte [] c = None"
| "last_index_byte (d # s) c =
     (case last_index_byte s c of
        Some i \<Rightarrow> Some (Suc i)
      | None \<Rightarrow> (if d = c then Some 0 else None))"

definition has_prefix :: "gostring \<Rightarrow> gostring \<Rightarrow> bool" where
  "has_prefix s p \<longleftrightarrow> take (length p) s = p"

lemma has_prefix_code [code]:
  "has_prefix s [] = True"
  "has_prefix [] (d # p) = False"
  "has_prefix (c # s) (d # p) = (if c = d then has_prefix s p else False)"
  by (simp_all add: has_prefix_def)

definition has_suffix :: "gostring \<Rightarrow> gostring \<Rightarrow> bool" where
  "has_suffix s p \<longleftrightarrow> length p \<le> length s \<and> drop (length s - length p) s = p"

definition trim_prefix :: "gostring \<Rightarrow> gostring \<Rightarrow> gostring" where
  "trim_prefix s p = (if has_prefix s p then drop (length p) s else s)"

definition trim_suffix :: "gostring \<Rightarrow> gostring \<Rightarrow> gostring" where
  "trim_suffix s p = (if has_suffix s p then take (length s - length p) s else s)"

text \<open>\<open>strings.CutPrefix\<close>: \<^const>\<open>None\<close> when the prefix is absent.\<close>

definition cut_prefix :: "gostring \<Rightarrow> gostring \<Rightarrow> gostring option" where
  "cut_prefix s p = (if has_prefix s p then Some (drop (length p) s) else None)"

fun contains :: "gostring \<Rightarrow> gostring \<Rightarrow> bool" where
  "contains [] p \<longleftrightarrow> p = []"
| "contains (c # s) p \<longleftrightarrow> has_prefix (c # s) p \<or> contains s p"

text \<open>\<open>strings.Split(s, sep)\<close> for a one-byte separator, and \<open>strings.SplitN\<close> with a limit.\<close>

fun split_byte :: "gostring \<Rightarrow> char \<Rightarrow> gostring list" where
  "split_byte [] c = [[]]"
| "split_byte (d # s) c =
     (if d = c then [] # split_byte s c
      else (case split_byte s c of w # ws \<Rightarrow> (d # w) # ws | [] \<Rightarrow> [[d]]))"

fun splitn_byte :: "nat \<Rightarrow> gostring \<Rightarrow> char \<Rightarrow> gostring list" where
  "splitn_byte 0 s c = []"
| "splitn_byte (Suc 0) s c = [s]"
| "splitn_byte (Suc (Suc n)) s c =
     (case index_byte s c of
        None \<Rightarrow> [s]
      | Some i \<Rightarrow> take i s # splitn_byte (Suc n) (drop (Suc i) s) c)"

fun join :: "gostring list \<Rightarrow> gostring \<Rightarrow> gostring" where
  "join [] sep = []"
| "join [w] sep = w"
| "join (w # ws) sep = w @ sep @ join ws sep"

text \<open>\<open>strings.ReplaceAll\<close> with a one-byte pattern.\<close>

fun replace_byte :: "gostring \<Rightarrow> char \<Rightarrow> gostring \<Rightarrow> gostring" where
  "replace_byte [] c r = []"
| "replace_byte (d # s) c r = (if d = c then r else [d]) @ replace_byte s c r"

lemma split_byte_not_Nil [simp]: "split_byte s c \<noteq> []"
  by (induction s c rule: split_byte.induct) (auto split: list.splits)

lemma split_byte_append:
  "split_byte (a @ c # b) c = split_byte a c @ split_byte b c"
  by (induction a) (auto split: list.splits simp: Cons_eq_append_conv)

lemma split_byte_line: "c \<notin> set l \<Longrightarrow> split_byte l c = [l]"
  by (induction l) auto

lemma split_byte_no_sep: "l \<in> set (split_byte s c) \<Longrightarrow> c \<notin> set l"
  by (induction s c arbitrary: l rule: split_byte.induct) (auto split: if_splits list.splits)

text \<open>
  \<open>unicode.IsSpace\<close> as the UTF-8 encodings of the White\_Space code points. Every encoding
  starts with an ASCII byte or a lead byte, so looking for one of them byte by byte finds
  exactly the runes that Go's rune iteration finds.
\<close>

definition ws_runes :: "gostring list" where
  "ws_runes =
     [[CHR 0x09], [CHR 0x0A], [CHR 0x0B], [CHR 0x0C], [CHR 0x0D], [CHR 0x20],
      [CHR 0xC2, CHR 0x85], [CHR 0xC2, CHR 0xA0], [CHR 0xE1, CHR 0x9A, CHR 0x80],
      [CHR 0xE2, CHR 0x80, CHR 0x80], [CHR 0xE2, CHR 0x80, CHR 0x81],
      [CHR 0xE2, CHR 0x80, CHR 0x82], [CHR 0xE2, CHR 0x80, CHR 0x83],
      [CHR 0xE2, CHR 0x80, CHR 0x84], [CHR 0xE2, CHR 0x80, CHR 0x85],
      [CHR 0xE2, CHR 0x80, CHR 0x86], [CHR 0xE2, CHR 0x80, CHR 0x87],
      [CHR 0xE2, CHR 0x80, CHR 0x88], [CHR 0xE2, CHR 0x80, CHR 0x89],
      [CHR 0xE2, CHR 0x80, CHR 0x8A], [CHR 0xE2, CHR 0x80, CHR 0xA8],
      [CHR 0xE2, CHR 0x80, CHR 0xA9], [CHR 0xE2, CHR 0x80, CHR 0xAF],
      [CHR 0xE2, CHR 0x81, CHR 0x9F], [CHR 0xE3, CHR 0x80, CHR 0x80]]"

definition match_any :: "gostring list \<Rightarrow> gostring \<Rightarrow> nat" where
  "match_any ws s = (case find (has_prefix s) ws of None \<Rightarrow> 0 | Some w \<Rightarrow> length w)"

function strip_left :: "gostring list \<Rightarrow> gostring \<Rightarrow> gostring" where
  "strip_left ws s =
     (if s = [] \<or> match_any ws s = 0 then s else strip_left ws (drop (match_any ws s) s))"
  by pat_completeness auto
termination
  by (relation "measure (\<lambda>(ws, s). length s)") auto

declare strip_left.simps [simp del]

lemma match_any_Nil [simp]: "match_any ws [] = 0"
  by (induction ws) (auto simp: match_any_def has_prefix_def)

lemma strip_left_code [code]:
  "strip_left ws s =
     (let k = match_any ws s in if k = 0 then s else strip_left ws (drop k s))"
  by (cases "s = []") (simp_all add: strip_left.simps [of ws s] strip_left.simps [of ws "[]"] Let_def)

definition trim_space :: "gostring \<Rightarrow> gostring" where
  "trim_space s = rev (strip_left (map rev ws_runes) (rev (strip_left ws_runes s)))"

text \<open>\<open>strings.Fields\<close>: the maximal runs of non-space characters.\<close>

fun break_space :: "gostring \<Rightarrow> gostring \<times> gostring" where
  "break_space [] = ([], [])"
| "break_space (c # s) =
     (if match_any ws_runes (c # s) \<noteq> 0 then ([], c # s)
      else (case break_space s of (w, r) \<Rightarrow> (c # w, r)))"

lemma break_space_append: "break_space s = (w, r) \<Longrightarrow> w @ r = s"
  by (induction s arbitrary: w r) (auto split: if_splits prod.splits)

lemma strip_left_length: "length (strip_left ws s) \<le> length s"
proof (induction ws s rule: strip_left.induct)
  case (1 ws s)
  then show ?case by (subst strip_left.simps) (auto simp: le_diff_conv intro: order_trans)
qed

lemma strip_left_fixed: "strip_left ws s = [] \<or> match_any ws (strip_left ws s) = 0"
proof (induction ws s rule: strip_left.induct)
  case (1 ws s)
  then show ?case by (subst (1 2) strip_left.simps) auto
qed

function fields :: "gostring \<Rightarrow> gostring list" where
  "fields s =
     (let t = strip_left ws_runes s
      in if t = [] then [] else fst (break_space t) # fields (snd (break_space t)))"
  by pat_completeness auto
termination
proof (relation "measure length", simp)
  fix s t :: gostring
  assume t: "t = strip_left ws_runes s" and ne: "t \<noteq> []"
  obtain w r where wr: "break_space t = (w, r)" by fastforce
  have "match_any ws_runes t = 0"
    using strip_left_fixed [of ws_runes s] t ne by auto
  with wr ne have "w \<noteq> []" by (cases t) (auto split: if_splits prod.splits)
  moreover have "w @ r = t" using wr by (rule break_space_append)
  ultimately have "length r < length t" by (cases w) auto
  moreover have "length t \<le> length s" using t strip_left_length by simp
  ultimately show "(snd (break_space t), s) \<in> measure length" using wr by simp
qed

declare fields.simps [simp del]

text \<open>
  \<open>strings.ToLower\<close>/\<open>ToUpper\<close> on ASCII text; bytes outside ASCII are left as they are (the
  check names, levels and distribution names the code lowers are ASCII).
\<close>

definition lower_char :: "char \<Rightarrow> char" where
  "lower_char c = (if 65 \<le> byte c \<and> byte c \<le> 90 then chr (byte c + 32) else c)"

definition upper_char :: "char \<Rightarrow> char" where
  "upper_char c = (if 97 \<le> byte c \<and> byte c \<le> 122 then chr (byte c - 32) else c)"

definition to_lower :: "gostring \<Rightarrow> gostring" where
  "to_lower s = map lower_char s"

definition to_upper :: "gostring \<Rightarrow> gostring" where
  "to_upper s = map upper_char s"

text \<open>\<open>strings.EqualFold\<close> on ASCII text.\<close>

definition equal_fold :: "gostring \<Rightarrow> gostring \<Rightarrow> bool" where
  "equal_fold a b \<longleftrightarrow> to_lower a = to_lower b"

section \<open>Package strconv and integer formatting\<close>

definition is_digit_char :: "char \<Rightarrow> bool" where
  "is_digit_char c \<longleftrightarrow> 48 \<le> byte c \<and> byte c \<le> 57"

definition digits_value :: "gostring \<Rightarrow> nat" where
  "digits_value s = foldl (\<lambda>n c. 10 * n + (byte c - 48)) 0 s"

definition max_int64 :: int where "max_int64 = 9223372036854775807"
definition min_int64 :: int where "min_int64 = -9223372036854775808"

text \<open>\<open>strconv.Atoi\<close> on a 64-bit platform; \<^const>\<open>None\<close> is a non-nil error.\<close>

definition atoi :: "gostring \<Rightarrow> int option" where
  "atoi s =
     (let neg = (case s of c # _ \<Rightarrow> c = CHR ''-'' | [] \<Rightarrow> False);
          ds = (case s of c # r \<Rightarrow> if c = CHR ''-'' \<or> c = CHR ''+'' then r else s | [] \<Rightarrow> s);
          v = (if neg then - int (digits_value ds) else int (digits_value ds))
      in if ds = [] \<or> \<not> list_all is_digit_char ds then None
         else if v < min_int64 \<or> max_int64 < v then None
         else Some v)"

text \<open>Large numbers are evaluated as integers, which are binary.\<close>

definition digits_int :: "gostring \<Rightarrow> int" where
  "digits_int s = foldl (\<lambda>n c. 10 * n + (int (byte c) - 48)) 0 s"

lemma digits_int_foldl:
  "list_all is_digit_char s \<Longrightarrow>
     foldl (\<lambda>n c. 10 * n + (int (byte c) - 48)) (int m) s =
     int (foldl (\<lambda>n c. 10 * n + (byte c - 48)) m s)"
proof (induction s arbitrary: m)
  case (Cons c s)
  then have "10 * int m + (int (byte c) - 48) = int (10 * m + (byte c - 48))"
    by (simp add: is_digit_char_def of_nat_diff)
  then show ?case
    using Cons.IH [of "10 * m + (byte c - 48)"] Cons.prems by (simp only: foldl_Cons list.pred_inject)
qed simp

lemma digits_int_value: "list_all is_digit_char s \<Longrightarrow> digits_int s = int (digits_value s)"
  using digits_int_foldl [of s 0] by (simp add: digits_int_def digits_value_def)

lemma atoi_code [code]:
  "atoi s =
     (let neg = (case s of c # _ \<Rightarrow> c = CHR ''-'' | [] \<Rightarrow> False);
          ds = (case s of c # r \<Rightarrow> if c = CHR ''-'' \<or> c = CHR ''+'' then r else s | [] \<Rightarrow> s)
      in if ds = [] \<or> \<not> list_all is_digit_char ds then None
         else let v = (if neg then - digits_int ds else digits_int ds)
              in if v < min_int64 \<or> max_int64 < v then None else Some v)"
  by (auto simp: atoi_def Let_def digits_int_value)

lemma atoi_range: "atoi s = Some v \<Longrightarrow> min_int64 \<le> v \<and> v \<le> max_int64"
  by (auto simp: atoi_def Let_def split: if_splits)

text \<open>Two's-complement wrap-around of a 64-bit \<open>int\<close>.\<close>

definition wrap64 :: "int \<Rightarrow> int" where
  "wrap64 x = (x + 9223372036854775808) mod 18446744073709551616 - 9223372036854775808"

lemma wrap64_id: "min_int64 \<le> x \<Longrightarrow> x \<le> max_int64 \<Longrightarrow> wrap64 x = x"
  by (simp add: wrap64_def min_int64_def max_int64_def)

text \<open>The verb \<open>%d\<close>.\<close>

fun nat_digits :: "nat \<Rightarrow> gostring" where
  "nat_digits n =
     (if n < 10 then [chr (48 + n)] else nat_digits (n div 10) @ [chr (48 + n mod 10)])"

declare nat_digits.simps [simp del]

definition itoa :: "int \<Rightarrow> gostring" where
  "itoa i = (if i < 0 then ''-'' @ nat_digits (nat (- i)) else nat_digits (nat i))"

lemma is_digit_char_chr: "n < 10 \<Longrightarrow> is_digit_char (chr (48 + n))"
  by (simp add: is_digit_char_def byte_chr)

lemma nat_digits_digits: "list_all is_digit_char (nat_digits n)"
proof (induction n rule: nat_digits.induct)
  case (1 n)
  then show ?case
    by (subst nat_digits.simps) (simp add: is_digit_char_chr)
qed

lemma nat_digits_nonempty: "nat_digits n \<noteq> []"
  by (subst nat_digits.simps) simp

lemma itoa_nonempty: "itoa i \<noteq> []"
  by (simp add: itoa_def nat_digits_nonempty)

lemma itoa_chars: "c \<in> set (itoa i) \<Longrightarrow> is_digit_char c \<or> c = CHR ''-''"
  using nat_digits_digits by (auto simp: itoa_def list_all_iff split: if_splits)

text \<open>A printed number does not start with a letter.\<close>

lemma itoa_append_letter: "\<not> is_digit_char c \<Longrightarrow> c \<noteq> CHR ''-'' \<Longrightarrow> itoa i @ s \<noteq> c # t"
  using itoa_chars [of c i] itoa_nonempty [of i] by (cases "itoa i") auto

lemma digits_value_snoc: "digits_value (s @ [c]) = 10 * digits_value s + (byte c - 48)"
  by (simp add: digits_value_def)

lemma digits_value_nat_digits: "digits_value (nat_digits n) = n"
proof (induction n rule: nat_digits.induct)
  case (1 n)
  show ?case
  proof (cases "n < 10")
    case True
    then show ?thesis by (subst nat_digits.simps) (simp add: digits_value_def byte_chr)
  next
    case False
    then have "digits_value (nat_digits n) = 10 * (n div 10) + n mod 10"
      using 1 by (subst nat_digits.simps) (simp add: digits_value_snoc byte_chr)
    then show ?thesis by simp
  qed
qed

section \<open>Slices\<close>

text \<open>
  The idiom \<open>seen := map[string]bool{}; if !seen[x] { seen[x] = true; out = append(out, x) }\<close>:
  the first occurrence of every element, in order.
\<close>

fun first_seen :: "'a list \<Rightarrow> 'a list \<Rightarrow> 'a list" where
  "first_seen seen [] = []"
| "first_seen seen (x # xs) =
     (if x \<in> set seen then first_seen seen xs else x # first_seen (x # seen) xs)"

lemma set_first_seen: "set (first_seen seen xs) = set xs - set seen"
  by (induction xs arbitrary: seen) auto

lemma distinct_first_seen: "distinct (first_seen seen xs)"
  by (induction xs arbitrary: seen) (auto simp: set_first_seen)

lemma length_first_seen: "length (first_seen [] xs) = card (set xs)"
  using distinct_card [OF distinct_first_seen] set_first_seen by (metis Diff_empty list.set(1))

text \<open>Lookup in a Go map: the zero value when the key is absent.\<close>

definition map_get :: "'v \<Rightarrow> ('k, 'v) gomap \<Rightarrow> 'k \<Rightarrow> 'v" where
  "map_get z m k = (case map_of m k of None \<Rightarrow> z | Some v \<Rightarrow> v)"

definition map_has :: "('k, 'v) gomap \<Rightarrow> 'k \<Rightarrow> bool" where
  "map_has m k \<longleftrightarrow> k \<in> fst ` set m"

text \<open>Assignment \<open>m[k] = v\<close>: an existing key keeps its place, a new one is added.\<close>

fun map_put :: "('k, 'v) gomap \<Rightarrow> 'k \<Rightarrow> 'v \<Rightarrow> ('k, 'v) gomap" where
  "map_put [] k v = [(k, v)]"
| "map_put ((k', v') # m) k v = (if k' = k then (k, v) # m else (k', v') # map_put m k v)"

lemma map_of_map_put [simp]: "map_of (map_put m k v) = (map_of m)(k \<mapsto> v)"
  by (induction m k v rule: map_put.induct) auto

text \<open>Filling a map in a loop: the last value of a key stays.\<close>

lemma map_of_fold_put:
  "map_of (foldl (\<lambda>m x. map_put m (f x) (g x)) m xs) = map_of m ++ map_of (rev (map (\<lambda>x. (f x, g x)) xs))"
  by (induction xs arbitrary: m) (simp_all add: map_add_def fun_eq_iff split: option.splits)

lemma keys_map_put [simp]: "fst ` set (map_put m k v) = insert k (fst ` set m)"
  by (induction m k v rule: map_put.induct) auto

lemma distinct_map_put [simp]:
  "distinct (map fst m) \<Longrightarrow> distinct (map fst (map_put m k v))"
proof (induction m k v rule: map_put.induct)
  case (2 k' v' m k v)
  moreover have "set (map fst (map_put m k v)) = insert k (set (map fst m))"
    using keys_map_put [of m k v] by simp
  ultimately show ?case by auto
qed simp

lemma map_has_iff: "map_has m k \<longleftrightarrow> map_of m k \<noteq> None"
  by (auto simp: map_has_def map_of_eq_None_iff)

lemma length_dropWhile_lt: "s \<noteq> [] \<Longrightarrow> P (hd s) \<Longrightarrow> length (dropWhile P s) < length s"
  by (cases s) (simp_all add: le_imp_less_Suc length_dropWhile_le)

lemma find_cong_set: "(\<And>x. x \<in> set xs \<Longrightarrow> P x = Q x) \<Longrightarrow> find P xs = find Q xs"
  by (induction xs) auto

lemma set_map_filter: "set (List.map_filter f xs) = {y. \<exists>x \<in> set xs. f x = Some y}"
  by (induction xs) (auto simp: List.map_filter_simps split: option.splits)

end
