(* ===== verification/Version_Order.thy ===== *)
theory Version_Order
  imports Go_Prelude "HOL-Library.Product_Lexorder"
begin

text \<open>
  The contract of a three-way version comparison, shared by the RPM and dpkg comparators of
  \<open>internal/cvedata\<close> and the release comparator of \<open>internal/selfupdate\<close>: the locale
  \<open>comparator\<close> states the laws of a total preorder on the result \<open>-1/0/1\<close> and proves what
  the callers rely on; the locale \<open>keyed_comparator\<close> gives them for every comparison that is
  the linear order of a key. Also the numeric reading of digit strings that both package
  comparators implement by length and bytes.
\<close>

section \<open>Three-way comparison\<close>

text \<open>\<open>strings.Compare\<close>, \<open>cmp.Compare\<close>: the result of a linear order as \<open>-1/0/1\<close>.\<close>

definition cmp3 :: "'a::linorder \<Rightarrow> 'a \<Rightarrow> int" where
  "cmp3 x y = (if x < y then -1 else if x = y then 0 else 1)"

lemma cmp3_refl [simp]: "cmp3 x x = 0"
  by (simp add: cmp3_def)

lemma cmp3_iffs [simp]:
  "cmp3 x y = 0 \<longleftrightarrow> x = y" "cmp3 x y = -1 \<longleftrightarrow> x < y" "cmp3 x y = 1 \<longleftrightarrow> y < x"
  "cmp3 x y < 0 \<longleftrightarrow> x < y" "0 < cmp3 x y \<longleftrightarrow> y < x" "cmp3 x y \<le> 0 \<longleftrightarrow> x \<le> y"
  by (auto simp: cmp3_def)

lemma cmp3_swap: "cmp3 y x = - cmp3 x y"
  by (auto simp: cmp3_def)

lemma cmp3_range: "cmp3 x y \<in> {-1, 0, 1}"
  by (simp add: cmp3_def)

lemma cmp3_Cons:
  "cmp3 (x # xs) (y # ys) = (if cmp3 x y \<noteq> 0 then cmp3 x y else cmp3 xs ys)"
  by (auto simp: cmp3_def)

lemma cmp3_Pair:
  "cmp3 (a, b) (c, d) = (if cmp3 a c \<noteq> 0 then cmp3 a c else cmp3 b d)"
  by (auto simp: cmp3_def less_prod_def)

locale comparator =
  fixes cmp :: "'a \<Rightarrow> 'a \<Rightarrow> int"
  assumes range: "cmp a b \<in> {-1, 0, 1}"
    and swap: "cmp b a = - cmp a b"
    and trans: "cmp a b \<le> 0 \<Longrightarrow> cmp b c \<le> 0 \<Longrightarrow> cmp a c \<le> 0"
begin

lemma refl: "cmp a a = 0"
  using swap [of a a] by simp

lemma total: "cmp a b \<le> 0 \<or> cmp b a \<le> 0"
  using swap [of a b] by linarith

lemma less_trans: "cmp a b < 0 \<Longrightarrow> cmp b c \<le> 0 \<Longrightarrow> cmp a c < 0"
proof (rule ccontr)
  assume ab: "cmp a b < 0" and bc: "cmp b c \<le> 0" and "\<not> cmp a c < 0"
  then have "cmp c a \<le> 0" using swap [of c a] by linarith
  with bc have "cmp b a \<le> 0" by (rule trans)
  with ab show False using swap [of a b] by linarith
qed

lemma le_less_trans: "cmp a b \<le> 0 \<Longrightarrow> cmp b c < 0 \<Longrightarrow> cmp a c < 0"
proof (rule ccontr)
  assume ab: "cmp a b \<le> 0" and bc: "cmp b c < 0" and "\<not> cmp a c < 0"
  then have "cmp c a \<le> 0" using swap [of c a] by linarith
  then have "cmp c b \<le> 0" using ab by (rule trans)
  with bc show False using swap [of b c] by linarith
qed

text \<open>Versions that compare equal are interchangeable.\<close>

lemma equal_subst: "cmp a b = 0 \<Longrightarrow> cmp a c = cmp b c"
proof -
  assume ab: "cmp a b = 0"
  then have le: "cmp a b \<le> 0" and ge: "cmp b a \<le> 0" using swap [of a b] by auto
  have "cmp a c < 0 \<longleftrightarrow> cmp b c < 0" using le ge le_less_trans by blast
  moreover have "cmp a c \<le> 0 \<longleftrightarrow> cmp b c \<le> 0" using le ge trans by blast
  ultimately show ?thesis using range [of a c] range [of b c] by auto
qed

text \<open>
  The use the scanners make of a comparator: a package is vulnerable when it is older than the
  first fixed version. Upgrading never makes it vulnerable again.
\<close>

lemma upgrade_stays_fixed: "\<not> cmp inst fixed < 0 \<Longrightarrow> cmp inst inst' \<le> 0 \<Longrightarrow> \<not> cmp inst' fixed < 0"
  using le_less_trans by blast

lemma later_fix_covers_earlier: "cmp inst fixed < 0 \<Longrightarrow> cmp fixed fixed' \<le> 0 \<Longrightarrow> cmp inst fixed' < 0"
  using less_trans by blast

end

locale keyed_comparator =
  fixes cmp :: "'a \<Rightarrow> 'a \<Rightarrow> int" and key :: "'a \<Rightarrow> 'k::linorder"
  assumes cmp_key: "cmp a b = cmp3 (key a) (key b)"
begin

lemma equal_iff: "cmp a b = 0 \<longleftrightarrow> key a = key b"
  by (simp add: cmp_key)

lemma older_iff: "cmp a b < 0 \<longleftrightarrow> key a < key b"
  by (simp add: cmp_key)

end

sublocale keyed_comparator \<subseteq> comparator cmp
proof unfold_locales
  show "cmp a b \<in> {-1, 0, 1}" for a b
    unfolding cmp_key by (rule cmp3_range)
  show "cmp b a = - cmp a b" for a b
    unfolding cmp_key by (rule cmp3_swap)
  show "cmp a b \<le> 0 \<Longrightarrow> cmp b c \<le> 0 \<Longrightarrow> cmp a c \<le> 0" for a b c
    by (simp add: cmp_key)
qed

text \<open>Comparators compose: one decides, the next breaks its ties; and they pull back.\<close>

definition lex_cmp :: "('a \<Rightarrow> 'a \<Rightarrow> int) \<Rightarrow> ('a \<Rightarrow> 'a \<Rightarrow> int) \<Rightarrow> 'a \<Rightarrow> 'a \<Rightarrow> int" where
  "lex_cmp c1 c2 a b = (if c1 a b \<noteq> 0 then c1 a b else c2 a b)"

lemma comparator_lex:
  assumes "comparator c1" and "comparator c2"
  shows "comparator (lex_cmp c1 c2)"
proof
  note r1 = comparator.range [OF assms(1)] and s1 = comparator.swap [OF assms(1)]
  note r2 = comparator.range [OF assms(2)] and s2 = comparator.swap [OF assms(2)]
  show "lex_cmp c1 c2 a b \<in> {-1, 0, 1}" for a b
    using r1 [of a b] r2 [of a b] unfolding lex_cmp_def by (cases "c1 a b = 0") simp_all
  show "lex_cmp c1 c2 b a = - lex_cmp c1 c2 a b" for a b
    using s1 [of b a] s2 [of b a] by (simp add: lex_cmp_def)
  show "lex_cmp c1 c2 a c \<le> 0" if ab: "lex_cmp c1 c2 a b \<le> 0" and bc: "lex_cmp c1 c2 b c \<le> 0" for a b c
  proof (cases "c1 a b = 0 \<and> c1 b c = 0")
    case True
    moreover from True have "c1 a c = 0"
      using comparator.equal_subst [OF assms(1), of a b c] by simp
    ultimately show ?thesis
      using ab bc comparator.trans [OF assms(2)] by (simp add: lex_cmp_def)
  next
    case False
    have le: "c1 a b \<le> 0" "c1 b c \<le> 0" using ab bc by (auto simp: lex_cmp_def split: if_splits)
    with False have "c1 a b < 0 \<or> c1 b c < 0" by linarith
    then have "c1 a c < 0"
      using le comparator.less_trans [OF assms(1)] comparator.le_less_trans [OF assms(1)] by blast
    then show ?thesis by (simp add: lex_cmp_def)
  qed
qed

lemma comparator_pullback: "comparator c \<Longrightarrow> comparator (\<lambda>a b. c (f a) (f b))"
  unfolding comparator_def by blast

lemma comparator_cmp3: "comparator cmp3"
  by (rule comparator.intro) (rule cmp3_range, rule cmp3_swap, simp)

section \<open>Digit strings as numbers\<close>

lemma digits_value_foldl:
  "foldl (\<lambda>n c. 10 * n + (byte c - 48)) m s = m * 10 ^ length s + digits_value s"
  unfolding digits_value_def
proof (induction s arbitrary: m)
  case (Cons c s)
  show ?case
    using Cons [of "10 * m + (byte c - 48)"] Cons [of "byte c - 48"]
    by (simp add: algebra_simps)
qed simp

lemma digits_value_Cons:
  "digits_value (c # s) = (byte c - 48) * 10 ^ length s + digits_value s"
  using digits_value_foldl [of "byte c - 48" s] by (simp add: digits_value_def)

lemma digits_value_Nil [simp]: "digits_value [] = 0"
  by (simp add: digits_value_def)

lemma digits_value_bound: "list_all is_digit_char s \<Longrightarrow> digits_value s < 10 ^ length s"
proof (induction s)
  case (Cons c s)
  then have "byte c - 48 \<le> 9" and "digits_value s < 10 ^ length s"
    by (auto simp: is_digit_char_def)
  then have "(byte c - 48) * 10 ^ length s \<le> 9 * 10 ^ length s" by (intro mult_le_mono1)
  with \<open>digits_value s < 10 ^ length s\<close>
  have "(byte c - 48) * 10 ^ length s + digits_value s < 9 * 10 ^ length s + 10 ^ length s"
    by linarith
  then show ?case by (simp add: digits_value_Cons)
qed simp

lemma digits_value_lower:
  assumes "is_digit_char c" and "c \<noteq> CHR ''0''"
  shows "10 ^ length s \<le> digits_value (c # s)"
proof -
  have "byte c \<noteq> byte (CHR ''0'')" using assms(2) by (simp del: One_nat_def)
  moreover have "byte (CHR ''0'') = 48" by (simp add: byte_def)
  moreover have "48 \<le> byte c" using assms(1) by (simp add: is_digit_char_def)
  ultimately have "1 \<le> byte c - 48" by linarith
  then have "1 * 10 ^ length s \<le> (byte c - 48) * 10 ^ length s" by (rule mult_le_mono1)
  then show ?thesis by (simp only: digits_value_Cons mult_1 trans_le_add1)
qed

lemma digits_value_less_iff:
  "length s = length t \<Longrightarrow> list_all is_digit_char s \<Longrightarrow> list_all is_digit_char t \<Longrightarrow>
     cmp3 (digits_value s) (digits_value t) = cmp3 s t"
proof (induction s t rule: list_induct2)
  case (Cons c s d t)
  have bs: "digits_value s < 10 ^ length s" "digits_value t < 10 ^ length s"
    using Cons digits_value_bound [of s] digits_value_bound [of t] by auto
  have cd: "48 \<le> byte c" "48 \<le> byte d" using Cons by (auto simp: is_digit_char_def)
  consider "byte c = byte d" | "byte c < byte d" | "byte d < byte c" by linarith
  then show ?case
  proof cases
    case 1
    then have "cmp3 (digits_value (c # s)) (digits_value (d # t)) = cmp3 (digits_value s) (digits_value t)"
      using Cons.hyps by (simp add: digits_value_Cons cmp3_def)
    also have "\<dots> = cmp3 s t" using Cons by simp
    also have "\<dots> = cmp3 (c # s) (d # t)" using 1 by (simp add: cmp3_Cons)
    finally show ?thesis .
  next
    case 2
    then have "(byte c - 48 + 1) * 10 ^ length s \<le> (byte d - 48) * 10 ^ length s"
      using cd by (intro mult_le_mono1) simp
    then have "digits_value (c # s) < digits_value (d # t)"
      using bs Cons.hyps by (simp add: digits_value_Cons)
    moreover have "c # s < d # t" using 2 by (simp add: byte_lt_iff)
    ultimately show ?thesis by (simp add: cmp3_def)
  next
    case 3
    then have "(byte d - 48 + 1) * 10 ^ length s \<le> (byte c - 48) * 10 ^ length s"
      using cd by (intro mult_le_mono1) simp
    then have "digits_value (d # t) < digits_value (c # s)"
      using bs Cons.hyps by (simp add: digits_value_Cons)
    moreover have "d # t < c # s" using 3 by (simp add: byte_lt_iff)
    ultimately show ?thesis by (auto simp: cmp3_def)
  qed
qed simp

text \<open>A digit string without its leading zeros, \<open>strings.TrimLeft(s, "0")\<close>.\<close>

definition strip_zeros :: "gostring \<Rightarrow> gostring" where
  "strip_zeros s = dropWhile (\<lambda>c. c = CHR ''0'') s"

lemma digits_value_strip_zeros [simp]: "digits_value (strip_zeros s) = digits_value s"
  unfolding strip_zeros_def by (induction s) (auto simp: digits_value_Cons byte_def)

lemma list_all_strip_zeros: "list_all P s \<Longrightarrow> list_all P (strip_zeros s)"
  unfolding strip_zeros_def by (induction s) auto

lemma strip_zeros_hd: "strip_zeros s \<noteq> [] \<Longrightarrow> hd (strip_zeros s) \<noteq> CHR ''0''"
  unfolding strip_zeros_def using hd_dropWhile [of "\<lambda>c. c = CHR ''0''" s] by auto

text \<open>Without leading zeros, the longer of two digit strings is the larger number.\<close>

lemma digits_value_shorter:
  assumes "list_all is_digit_char s" and "list_all is_digit_char t"
    and "length (strip_zeros s) < length (strip_zeros t)"
  shows "digits_value s < digits_value t"
proof -
  obtain c u where cu: "strip_zeros t = c # u" using assms(3) by (cases "strip_zeros t") auto
  have "c \<noteq> CHR ''0''" using strip_zeros_hd [of t] cu by simp
  moreover have "is_digit_char c"
    using list_all_strip_zeros [OF assms(2)] cu by simp
  ultimately have lower: "10 ^ length u \<le> digits_value (strip_zeros t)"
    using digits_value_lower cu by metis
  have "digits_value (strip_zeros s) < 10 ^ length (strip_zeros s)"
    using digits_value_bound list_all_strip_zeros assms(1) by blast
  also have "(10::nat) ^ length (strip_zeros s) \<le> 10 ^ length u"
    using assms(3) cu by (intro power_increasing) auto
  finally show ?thesis using lower by simp
qed

end
