(* ===== verification/Rpm_Version.thy ===== *)
theory Rpm_Version
  imports Version_Order
begin

text \<open>
  \<open>internal/cvedata/version.go\<close> and the use of it in \<open>rpm.go\<close>: the pure-Go \<open>rpmvercmp\<close>, the
  EVR comparison on top of it and \<open>IsVulnerable\<close>. A cursor into a string is the rest of the
  string it points at. The abstract view of a version is its list of tokens (\<open>rpm_key\<close>);
  the code's comparison is proved to be the lexicographic order of the tokens, and so a total
  preorder.
\<close>

section \<open>The segment loop\<close>

definition isDigit :: "char \<Rightarrow> bool" where
  "isDigit c \<longleftrightarrow> byte (CHR ''0'') \<le> byte c \<and> byte c \<le> byte (CHR ''9'')"

definition isAlpha :: "char \<Rightarrow> bool" where
  "isAlpha c \<longleftrightarrow> (byte (CHR ''a'') \<le> byte c \<and> byte c \<le> byte (CHR ''z'')) \<or>
                 (byte (CHR ''A'') \<le> byte c \<and> byte c \<le> byte (CHR ''Z''))"

definition isAlnum :: "char \<Rightarrow> bool" where
  "isAlnum c \<longleftrightarrow> isDigit c \<or> isAlpha c"

lemma isDigit_iff: "isDigit c = is_digit_char c"
  by (simp add: isDigit_def is_digit_char_def byte_def)

lemma digit_not_alpha: "isDigit c \<Longrightarrow> \<not> isAlpha c"
  by (auto simp: isDigit_def isAlpha_def byte_def)

lemma alnum_not_marks: "isAlnum c \<Longrightarrow> c \<noteq> CHR ''~'' \<and> c \<noteq> CHR ''^''"
  by (auto simp: isAlnum_def isDigit_def isAlpha_def byte_def)

text \<open>
  What one helper of the loop says: nothing was decided (the cursors may have moved), the
  comparison is decided, or both cursors consumed a marker and the loop goes on
  (\<open>res = continueLoop\<close>).
\<close>

datatype decision =
    Undecided gostring gostring
  | Decided int
  | ContinueLoop gostring gostring

definition skipSeparators :: "gostring \<Rightarrow> gostring" where
  "skipSeparators s = dropWhile (\<lambda>c. \<not> isAlnum c \<and> c \<noteq> CHR ''~'' \<and> c \<noteq> CHR ''^'') s"

definition starts_with :: "gostring \<Rightarrow> char \<Rightarrow> bool" where
  "starts_with s c \<longleftrightarrow> s \<noteq> [] \<and> hd s = c"

definition compareTilde :: "gostring \<Rightarrow> gostring \<Rightarrow> decision" where
  "compareTilde a b =
     (let aTilde = starts_with a (CHR ''~''); bTilde = starts_with b (CHR ''~'')
      in if \<not> aTilde \<and> \<not> bTilde then Undecided a b
         else if \<not> aTilde then Decided 1
         else if \<not> bTilde then Decided (-1)
         else ContinueLoop (tl a) (tl b))"

definition compareCaret :: "gostring \<Rightarrow> gostring \<Rightarrow> decision" where
  "compareCaret a b =
     (let aCaret = starts_with a (CHR ''^''); bCaret = starts_with b (CHR ''^'')
      in if \<not> aCaret \<and> \<not> bCaret then Undecided a b
         else if a = [] then Decided (-1)
         else if b = [] then Decided 1
         else if \<not> aCaret then Decided 1
         else if \<not> bCaret then Decided (-1)
         else ContinueLoop (tl a) (tl b))"

text \<open>Only called with both cursors inside their string.\<close>

definition compareSegment :: "gostring \<Rightarrow> gostring \<Rightarrow> decision" where
  "compareSegment a b =
     (let isNum = isDigit (hd a);
          run = (if isNum then isDigit else isAlpha);
          segA = takeWhile run a; a' = dropWhile run a;
          segB = takeWhile run b; b' = dropWhile run b
      in if segB = [] then Decided (if isNum then 1 else -1)
         else
           let sA = (if isNum then strip_zeros segA else segA);
               sB = (if isNum then strip_zeros segB else segB)
           in if isNum \<and> length sB < length sA then Decided 1
              else if isNum \<and> length sA < length sB then Decided (-1)
              else if cmp3 sA sB \<noteq> 0 then Decided (if cmp3 sA sB < 0 then -1 else 1)
              else Undecided a' b')"

lemma compareSegment_progress:
  "compareSegment a b = Undecided a' b' \<Longrightarrow>
     length b' < length b \<and> length a' \<le> length a"
proof -
  assume u: "compareSegment a b = Undecided a' b'"
  define run where "run = (if isDigit (hd a) then isDigit else isAlpha)"
  from u have "takeWhile run b \<noteq> []" and ab: "a' = dropWhile run a" "b' = dropWhile run b"
    by (auto simp: compareSegment_def Let_def run_def split: if_splits)
  then have "length b' < length b"
    by (metis add_less_same_cancel2 append_eq_conv_conj length_append length_greater_0_conv
        linorder_not_less not_add_less2 takeWhile_dropWhile_id trans_less_add2 less_add_same_cancel2)
  then show ?thesis by (simp add: ab length_dropWhile_le)
qed

lemma skipSeparators_length: "length (skipSeparators s) \<le> length s"
  by (simp add: skipSeparators_def length_dropWhile_le)

definition rpm_ended :: "gostring \<Rightarrow> gostring \<Rightarrow> int" where
  "rpm_ended a b = (if a = [] \<and> b = [] then 0 else if a = [] then -1 else 1)"

function rpm_loop :: "gostring \<Rightarrow> gostring \<Rightarrow> int" where
  "rpm_loop a b =
     (if a = [] \<and> b = [] then rpm_ended a b
      else
        let a1 = skipSeparators a; b1 = skipSeparators b
        in case compareTilde a1 b1 of
             Decided r \<Rightarrow> r
           | ContinueLoop a2 b2 \<Rightarrow> rpm_loop a2 b2
           | Undecided _ _ \<Rightarrow>
             (case compareCaret a1 b1 of
                Decided r \<Rightarrow> r
              | ContinueLoop a2 b2 \<Rightarrow> rpm_loop a2 b2
              | Undecided _ _ \<Rightarrow>
                  if a1 = [] \<or> b1 = [] then rpm_ended a1 b1
                  else (case compareSegment a1 b1 of
                          Decided r \<Rightarrow> r
                        | ContinueLoop a2 b2 \<Rightarrow> rpm_loop a2 b2
                        | Undecided a2 b2 \<Rightarrow> rpm_loop a2 b2)))"
  by pat_completeness auto
termination
proof (relation "measure (\<lambda>(a, b). length a + length b)", goal_cases)
  case 1
  show ?case by simp
next
  case (2 a b a1 b1 x y x' y' a2 b2)
  then have "length b2 < length b1 \<and> length a2 \<le> length a1"
    using compareSegment_progress by blast
  then show ?case using 2 skipSeparators_length [of a] skipSeparators_length [of b] by simp
next
  case (3 a b a1 b1 x y x' y' a2 b2)
  then show ?case by (auto simp: compareSegment_def Let_def split: if_splits)
next
  case (4 a b a1 b1 x y a2 b2)
  then have "length a2 < length a1" "length b2 < length b1"
    by (auto simp: compareCaret_def starts_with_def Let_def split: if_splits)
  then show ?case using 4 skipSeparators_length [of a] skipSeparators_length [of b] by simp
next
  case (5 a b a1 b1 a2 b2)
  then have "length a2 < length a1" "length b2 < length b1"
    by (auto simp: compareTilde_def starts_with_def Let_def split: if_splits)
  then show ?case using 5 skipSeparators_length [of a] skipSeparators_length [of b] by simp
qed

declare rpm_loop.simps [simp del]

definition rpmvercmp :: "gostring \<Rightarrow> gostring \<Rightarrow> int" where
  "rpmvercmp a b = (if a = b then 0 else rpm_loop a b)"

section \<open>Versions as token lists\<close>

text \<open>
  The order of the tokens is what the loop implements: a tilde sorts before the end of the
  version, the end before a caret, a caret before a letter run and a letter run before a number.
  A token is a triple (rank, numeric value, letters).
\<close>

type_synonym rpm_token = "nat \<times> nat \<times> gostring"

abbreviation tok_tilde :: rpm_token where "tok_tilde \<equiv> (0, 0, [])"
abbreviation tok_end :: rpm_token where "tok_end \<equiv> (1, 0, [])"
abbreviation tok_caret :: rpm_token where "tok_caret \<equiv> (2, 0, [])"
abbreviation tok_alpha :: "gostring \<Rightarrow> rpm_token" where "tok_alpha s \<equiv> (3, 0, s)"
abbreviation tok_num :: "nat \<Rightarrow> rpm_token" where "tok_num n \<equiv> (4, n, [])"

function rpm_key :: "gostring \<Rightarrow> rpm_token list" where
  "rpm_key s =
     (case skipSeparators s of
        [] \<Rightarrow> [tok_end]
      | c # r \<Rightarrow>
          if c = CHR ''~'' then tok_tilde # rpm_key r
          else if c = CHR ''^'' then tok_caret # rpm_key r
          else if isDigit c then
            tok_num (digits_value (takeWhile isDigit (c # r))) # rpm_key (dropWhile isDigit (c # r))
          else if isAlpha c then
            tok_alpha (takeWhile isAlpha (c # r)) # rpm_key (dropWhile isAlpha (c # r))
          else [tok_end])"
  by pat_completeness auto
termination
proof (relation "measure length", goal_cases)
  case 1
  show ?case by simp
next
  case (2 s c r)
  then show ?case using skipSeparators_length [of s] by simp
next
  case (3 s c r)
  then show ?case using skipSeparators_length [of s] by simp
next
  case (4 s c r)
  then show ?case
    using skipSeparators_length [of s] length_dropWhile_le [of isDigit r] by simp
next
  case (5 s c r)
  then show ?case
    using skipSeparators_length [of s] length_dropWhile_le [of isAlpha r] by simp
qed

declare rpm_key.simps [simp del]

lemma skipSeparators_idem [simp]: "skipSeparators (skipSeparators s) = skipSeparators s"
  by (simp add: skipSeparators_def)

lemma rpm_key_skip: "rpm_key (skipSeparators s) = rpm_key s"
  by (simp add: rpm_key.simps [of s] rpm_key.simps [of "skipSeparators s"])

text \<open>After skipping, a cursor is at the end, at a marker or at a segment.\<close>

lemma skipSeparators_cases:
  assumes "skipSeparators s = t"
  obtains "t = []"
  | r where "t = CHR ''~'' # r"
  | r where "t = CHR ''^'' # r"
  | c r where "t = c # r" "isAlnum c"
proof (cases t)
  case (Cons c r)
  then have "isAlnum c \<or> c = CHR ''~'' \<or> c = CHR ''^''"
    using assms hd_dropWhile [of "\<lambda>c. \<not> isAlnum c \<and> c \<noteq> CHR ''~'' \<and> c \<noteq> CHR ''^''" s]
    by (auto simp: skipSeparators_def)
  with Cons that show thesis by blast
qed (use that in blast)

lemma rpm_key_Nil: "skipSeparators s = [] \<Longrightarrow> rpm_key s = [tok_end]"
  by (simp add: rpm_key.simps)

lemma rpm_key_tilde: "skipSeparators s = CHR ''~'' # r \<Longrightarrow> rpm_key s = tok_tilde # rpm_key r"
  by (simp add: rpm_key.simps [of s])

lemma rpm_key_caret: "skipSeparators s = CHR ''^'' # r \<Longrightarrow> rpm_key s = tok_caret # rpm_key r"
  by (simp add: rpm_key.simps [of s])

lemma rpm_key_num:
  "skipSeparators s = c # r \<Longrightarrow> isDigit c \<Longrightarrow>
     rpm_key s = tok_num (digits_value (takeWhile isDigit (c # r))) # rpm_key (dropWhile isDigit (c # r))"
  using alnum_not_marks [of c] by (simp add: rpm_key.simps [of s] isAlnum_def)

lemma rpm_key_alpha:
  "skipSeparators s = c # r \<Longrightarrow> isAlpha c \<Longrightarrow>
     rpm_key s = tok_alpha (takeWhile isAlpha (c # r)) # rpm_key (dropWhile isAlpha (c # r))"
  using alnum_not_marks [of c] digit_not_alpha [of c]
  by (auto simp: rpm_key.simps [of s] isAlnum_def)

lemmas rpm_key_eqs = rpm_key_Nil rpm_key_tilde rpm_key_caret rpm_key_num rpm_key_alpha

lemma takeWhile_isDigit_digits: "list_all is_digit_char (takeWhile isDigit s)"
  by (induction s) (auto simp: isDigit_iff)

text \<open>Two numeric segments compare as numbers, two letter segments as strings.\<close>

lemma compareSegment_num:
  assumes "isDigit c" and "isDigit d"
  shows "compareSegment (c # r) (d # t) =
    (let m = digits_value (takeWhile isDigit (c # r)); n = digits_value (takeWhile isDigit (d # t))
     in if m = n then Undecided (dropWhile isDigit (c # r)) (dropWhile isDigit (d # t))
        else Decided (cmp3 m n))"
proof -
  define u v where uv: "u = takeWhile isDigit (c # r)" "v = takeWhile isDigit (d # t)"
  have ne: "v \<noteq> []" and du: "list_all is_digit_char u" and dv: "list_all is_digit_char v"
    unfolding uv using assms takeWhile_isDigit_digits by (simp, blast+)
  have cs: "compareSegment (c # r) (d # t) =
    (if length (strip_zeros v) < length (strip_zeros u) then Decided 1
     else if length (strip_zeros u) < length (strip_zeros v) then Decided (-1)
     else if cmp3 (strip_zeros u) (strip_zeros v) \<noteq> 0
          then Decided (if cmp3 (strip_zeros u) (strip_zeros v) < 0 then -1 else 1)
     else Undecided (dropWhile isDigit (c # r)) (dropWhile isDigit (d # t)))"
    using assms ne unfolding compareSegment_def uv [symmetric] by (simp add: Let_def uv)
  consider "length (strip_zeros v) < length (strip_zeros u)"
    | "length (strip_zeros u) < length (strip_zeros v)"
    | "length (strip_zeros u) = length (strip_zeros v)" by linarith
  then show ?thesis
  proof cases
    case 1
    then have "digits_value v < digits_value u" using du dv digits_value_shorter by blast
    then show ?thesis using 1 cs unfolding uv [symmetric] by (simp add: Let_def cmp3_def)
  next
    case 2
    then have "digits_value u < digits_value v" using du dv digits_value_shorter by blast
    then show ?thesis using 2 cs unfolding uv [symmetric] by (simp add: Let_def cmp3_def)
  next
    case 3
    then have "cmp3 (digits_value u) (digits_value v) = cmp3 (strip_zeros u) (strip_zeros v)"
      using digits_value_less_iff [of "strip_zeros u" "strip_zeros v"]
        list_all_strip_zeros [OF du] list_all_strip_zeros [OF dv] by simp
    then show ?thesis using 3 cs unfolding uv [symmetric]
      by (auto simp: Let_def cmp3_def split: if_splits)
  qed
qed

lemma compareSegment_alpha:
  assumes "isAlpha c" and "isAlpha d"
  shows "compareSegment (c # r) (d # t) =
    (let u = takeWhile isAlpha (c # r); v = takeWhile isAlpha (d # t)
     in if u = v then Undecided (dropWhile isAlpha (c # r)) (dropWhile isAlpha (d # t))
        else Decided (cmp3 u v))"
  using assms digit_not_alpha [of c]
  by (auto simp: compareSegment_def Let_def cmp3_def)

lemma compareSegment_mixed:
  "isDigit c \<Longrightarrow> isAlpha d \<Longrightarrow> compareSegment (c # r) (d # t) = Decided 1"
  "isAlpha c \<Longrightarrow> isDigit d \<Longrightarrow> compareSegment (c # r) (d # t) = Decided (-1)"
  using digit_not_alpha [of c] digit_not_alpha [of d]
  by (auto simp: compareSegment_def Let_def)


text \<open>A segment step with both cursors on a segment, in terms of the first tokens.\<close>

lemma compareSegment_tokens:
  assumes a: "skipSeparators a = c # r" "isAlnum c" and b: "skipSeparators b = d # t" "isAlnum d"
  shows "(\<exists>k. compareSegment (c # r) (d # t) = Decided k \<and> k = cmp3 (rpm_key a) (rpm_key b)) \<or>
    (\<exists>a' b'. compareSegment (c # r) (d # t) = Undecided a' b' \<and>
       cmp3 (rpm_key a) (rpm_key b) = cmp3 (rpm_key a') (rpm_key b'))"
proof -
  consider "isDigit c" "isDigit d" | "isDigit c" "isAlpha d" | "isAlpha c" "isDigit d"
    | "isAlpha c" "isAlpha d"
    using a(2) b(2) by (auto simp: isAlnum_def)
  then show ?thesis
  proof cases
    case 1
    then show ?thesis
      using rpm_key_num [OF a(1)] rpm_key_num [OF b(1)] compareSegment_num [of c d r t]
      by (auto simp: Let_def cmp3_Cons cmp3_Pair simp del: takeWhile.simps dropWhile.simps)
  next
    case 2
    then show ?thesis
      using rpm_key_num [OF a(1)] rpm_key_alpha [OF b(1)] compareSegment_mixed
      by (auto simp: cmp3_Cons cmp3_Pair cmp3_def simp del: takeWhile.simps dropWhile.simps)
  next
    case 3
    then show ?thesis
      using rpm_key_alpha [OF a(1)] rpm_key_num [OF b(1)] compareSegment_mixed
      by (auto simp: cmp3_Cons cmp3_Pair cmp3_def simp del: takeWhile.simps dropWhile.simps)
  next
    case 4
    then show ?thesis
      using rpm_key_alpha [OF a(1)] rpm_key_alpha [OF b(1)] compareSegment_alpha [of c d r t]
      by (auto simp: Let_def cmp3_Cons cmp3_Pair simp del: takeWhile.simps dropWhile.simps)
  qed
qed

lemma first_token_alnum:
  assumes "skipSeparators s = c # r" and "isAlnum c"
  obtains k n u ts where "rpm_key s = (k, n, u) # ts" and "3 \<le> k"
  using assms rpm_key_num [OF assms(1)] rpm_key_alpha [OF assms(1)] that
  by (fastforce simp: isAlnum_def simp del: takeWhile.simps dropWhile.simps)

lemma rpm_loop_key: "rpm_loop a b = cmp3 (rpm_key a) (rpm_key b)"
proof (induction a b rule: rpm_loop.induct)
  case (1 a b)
  show ?case
  proof (cases "a = [] \<and> b = []")
    case True
    then show ?thesis by (simp add: rpm_loop.simps rpm_ended_def)
  next
    case False
    note IH = 1 [OF False refl refl]
    note unf = trans [OF rpm_loop.simps [of a b] if_not_P [OF False]]
    define a1 b1 where ab1: "a1 = skipSeparators a" "b1 = skipSeparators b"
    note k1 = ab1 [symmetric]
    note steps = compareTilde_def compareCaret_def starts_with_def rpm_ended_def
    show ?thesis
    proof (rule skipSeparators_cases [OF k1(1)];
        rule skipSeparators_cases [OF k1(2)])
      fix r t assume h: "a1 = CHR ''~'' # r" "b1 = CHR ''~'' # t"
      have "rpm_loop r t = cmp3 (rpm_key r) (rpm_key t)"
        using IH(4) h k1 by (simp add: steps Let_def)
      then show ?thesis
        using h k1 False unf rpm_key_tilde [of a r] rpm_key_tilde [of b t]
        by (simp add: steps Let_def cmp3_Cons)
    next
      fix r t assume h: "a1 = CHR ''^'' # r" "b1 = CHR ''^'' # t"
      have "rpm_loop r t = cmp3 (rpm_key r) (rpm_key t)"
        using IH(3) h k1 by (simp add: steps Let_def)
      then show ?thesis
        using h k1 False unf rpm_key_caret [of a r] rpm_key_caret [of b t]
        by (simp add: steps Let_def cmp3_Cons)
    next
      fix c r d t assume h: "a1 = c # r" "isAlnum c" "b1 = d # t" "isAlnum d"
      have undec: "compareTilde a1 b1 = Undecided a1 b1" "compareCaret a1 b1 = Undecided a1 b1"
        using h alnum_not_marks [of c] alnum_not_marks [of d] by (simp_all add: steps Let_def)
      from compareSegment_tokens [of a c r b d t] h k1
      consider k where "compareSegment a1 b1 = Decided k" "k = cmp3 (rpm_key a) (rpm_key b)"
        | a' b' where "compareSegment a1 b1 = Undecided a' b'"
            "cmp3 (rpm_key a) (rpm_key b) = cmp3 (rpm_key a') (rpm_key b')" by auto
      then show ?thesis
      proof cases
        case 1
        then show ?thesis using unf False undec h k1 by (simp add: Let_def)
      next
        case 2
        have "rpm_loop a' b' = cmp3 (rpm_key a') (rpm_key b')"
          using IH(1) undec h k1 2 by simp
        then show ?thesis using unf False undec h k1 2 by (simp add: Let_def)
      qed
    qed (use k1 False unf in \<open>auto simp: steps Let_def cmp3_Cons cmp3_Pair rpm_key_eqs
          dest: alnum_not_marks elim!: first_token_alnum simp: cmp3_def\<close>)
  qed
qed

text \<open>The whole comparison, the shortcut for equal strings included, is the order of the keys.\<close>

lemma rpmvercmp_key: "rpmvercmp a b = cmp3 (rpm_key a) (rpm_key b)"
  by (simp add: rpmvercmp_def rpm_loop_key)

interpretation rpm: keyed_comparator rpmvercmp rpm_key
  by unfold_locales (rule rpmvercmp_key)

section \<open>EVR strings\<close>

text \<open>\<open>splitEVR\<close>: epoch before the first colon (default 0), release after the last dash.\<close>

definition splitEVR :: "gostring \<Rightarrow> gostring \<times> gostring \<times> gostring" where
  "splitEVR evr =
     (let (epoch, rest) =
            (case index_byte evr (CHR '':'') of
               Some i \<Rightarrow> (take i evr, drop (i + 1) evr)
             | None \<Rightarrow> (''0'', evr))
      in case last_index_byte rest (CHR ''-'') of
           Some i \<Rightarrow> (epoch, take i rest, drop (i + 1) rest)
         | None \<Rightarrow> (epoch, rest, []))"

definition parseEpoch :: "gostring \<Rightarrow> int" where
  "parseEpoch s = (case atoi (trim_space s) of Some n \<Rightarrow> n | None \<Rightarrow> 0)"

definition compareEpoch :: "gostring \<Rightarrow> gostring \<Rightarrow> int" where
  "compareEpoch a b =
     (let ea = parseEpoch a; eb = parseEpoch b
      in if ea < eb then -1 else if eb < ea then 1 else 0)"

definition compareEVR :: "gostring \<Rightarrow> gostring \<Rightarrow> int" where
  "compareEVR a b =
     (let (ea, va, ra) = splitEVR a; (eb, vb, rb) = splitEVR b
      in if compareEpoch ea eb \<noteq> 0 then compareEpoch ea eb
         else if rpmvercmp va vb \<noteq> 0 then rpmvercmp va vb
         else rpmvercmp ra rb)"

definition IsVulnerable :: "gostring \<Rightarrow> gostring \<Rightarrow> bool" where
  "IsVulnerable installed fixedIn \<longleftrightarrow> compareEVR installed fixedIn < 0"

definition evr_key :: "gostring \<Rightarrow> int \<times> rpm_token list \<times> rpm_token list" where
  "evr_key evr =
     (let (e, v, r) = splitEVR evr in (parseEpoch e, rpm_key v, rpm_key r))"

lemma compareEpoch_cmp3: "compareEpoch a b = cmp3 (parseEpoch a) (parseEpoch b)"
  by (auto simp: compareEpoch_def cmp3_def Let_def)

lemma compareEVR_key: "compareEVR a b = cmp3 (evr_key a) (evr_key b)"
  by (simp add: compareEVR_def evr_key_def compareEpoch_cmp3 rpmvercmp_key cmp3_Pair
      split: prod.split)

interpretation evr: keyed_comparator compareEVR evr_key
  by unfold_locales (rule compareEVR_key)

section \<open>Dotted numbers\<close>

text \<open>The tokens of a version made of numbers and dots.\<close>

definition dotted :: "nat list \<Rightarrow> gostring" where
  "dotted ns = join (map nat_digits ns) ''.''"

lemma nat_digits_not_Nil [simp]: "nat_digits n \<noteq> []"
  by (subst nat_digits.simps) simp

lemma skipSeparators_digit: "isDigit c \<Longrightarrow> skipSeparators (c # r) = c # r"
  by (simp add: skipSeparators_def isAlnum_def)

lemma takeWhile_digits_append:
  assumes "list_all isDigit u" and "r = [] \<or> \<not> isDigit (hd r)"
  shows "takeWhile isDigit (u @ r) = u" and "dropWhile isDigit (u @ r) = r"
  using assms by (induction u; cases r; simp)+

lemma rpm_key_number:
  assumes "r = [] \<or> \<not> isDigit (hd r)"
  shows "rpm_key (nat_digits n @ r) = tok_num n # rpm_key r"
proof -
  have all: "list_all isDigit (nat_digits n)"
    using nat_digits_digits [of n] isDigit_iff by (simp add: list_all_iff)
  obtain c u where cu: "nat_digits n = c # u" by (cases "nat_digits n") auto
  then have c: "isDigit c" using all by simp
  show ?thesis
    using rpm_key_num [OF skipSeparators_digit [OF c, of "u @ r"] c]
      takeWhile_digits_append [OF all assms] digits_value_nat_digits [of n]
    by (simp add: cu)
qed

lemma rpm_key_dot: "rpm_key (CHR ''.'' # r) = rpm_key r"
proof -
  have "skipSeparators (CHR ''.'' # r) = skipSeparators r"
    by (simp add: skipSeparators_def isAlnum_def isDigit_def isAlpha_def byte_def)
  then show ?thesis by (metis rpm_key_skip)
qed

lemma rpm_key_dotted: "rpm_key (dotted ns) = map tok_num ns @ [tok_end]"
proof (induction ns)
  case Nil
  show ?case by (simp add: dotted_def rpm_key_Nil skipSeparators_def)
next
  case (Cons n ns)
  have "\<not> isDigit (CHR ''.'')" by (simp add: isDigit_def byte_def)
  with Cons rpm_key_number [of "[]" n] show ?case
    by (cases ns)
      (simp_all add: dotted_def rpm_key_number rpm_key_dot rpm_key_Nil skipSeparators_def)
qed

lemma tok_nums_order: "cmp3 (map tok_num ms @ [tok_end]) (map tok_num ns @ [tok_end]) = cmp3 ms ns"
proof (induction ms arbitrary: ns)
  case Nil
  show ?case by (cases ns) (simp_all add: cmp3_def less_prod_def)
next
  case step: (Cons m ms)
  show ?case
  proof (cases ns)
    case Nil
    then show ?thesis by (simp add: cmp3_def less_prod_def)
  next
    case (Cons n ns')
    have "cmp3 (tok_num m) (tok_num n) = cmp3 m n" by (simp add: cmp3_def less_prod_def)
    then show ?thesis using Cons step.IH [of ns'] by (simp add: cmp3_Cons)
  qed
qed

section \<open>Properties\<close>

text \<open>C17: the cursor loop of \<open>rpmvercmp\<close> terminates on every pair of byte strings and is the
  lexicographic order of the versions' tokens, in which a tilde is below the end, the end below
  a caret, a caret below letters, letters below numbers, and numbers compare by value.\<close>

theorem rpmvercmp_token_order: "rpmvercmp a b = cmp3 (rpm_key a) (rpm_key b)"
  by (rule rpm.cmp_key)

text \<open>on versions made of dotted numbers \<open>rpmvercmp\<close> compares the lists of numbers, so that
  3.0.9 is older than 3.0.10 and a prefix is older than what extends it.\<close>

theorem rpmvercmp_dotted: "rpmvercmp (dotted ms) (dotted ns) = cmp3 ms ns"
  unfolding rpmvercmp_key rpm_key_dotted by (rule tok_nums_order)

text \<open>C22: \<open>IsVulnerable\<close> is monotone in both arguments: a package at most as new as a vulnerable
  one is vulnerable to every fix at least as new. The comparison behind it is antisymmetric.\<close>

theorem IsVulnerable_monotone:
  assumes "IsVulnerable inst fixedIn" and "compareEVR inst' inst \<le> 0" and "compareEVR fixedIn fixedIn' \<le> 0"
  shows "IsVulnerable inst' fixedIn' \<and> \<not> IsVulnerable fixedIn' inst'"
proof -
  have "compareEVR inst' fixedIn' < 0"
    using assms evr.less_trans evr.le_less_trans unfolding IsVulnerable_def by blast
  then show ?thesis
    using evr.swap [of inst' fixedIn'] by (simp add: IsVulnerable_def)
qed

theorem IsVulnerable_monotone_witness:
  "IsVulnerable ''1:3.0.9~rc1-4.el9'' ''1:3.0.10-1.el9''"
proof -
  have "IsVulnerable ''1:3.0.9-4.el9'' ''1:3.0.9-5.el9''"
    "compareEVR ''1:3.0.9~rc1-4.el9'' ''1:3.0.9-4.el9'' \<le> 0"
    "compareEVR ''1:3.0.9-5.el9'' ''1:3.0.10-1.el9'' \<le> 0"
    by code_simp+
  from IsVulnerable_monotone [OF this] show ?thesis by simp
qed

end
