(* ===== verification/Dpkg_Version.thy ===== *)
theory Dpkg_Version
  imports Rpm_Version
begin

text \<open>
  \<open>internal/cvedata/version_dpkg.go\<close>: the Debian comparison. dpkg alternates non-digit runs,
  compared by the order \<open>debOrder\<close> in which a tilde is below the end of the string, with digit
  runs, compared as numbers. The abstract view of a version part is the list \<open>dpkg_key\<close> of
  orders and numbers it stands for, extended by zeros; \<open>verrevcmp\<close> is proved to be the
  lexicographic order of these lists, and so a total preorder. The epoch comparison subtracts
  two 64-bit integers and is correct as long as the subtraction does not wrap.
\<close>

section \<open>Character order\<close>

definition sign :: "int \<Rightarrow> int" where
  "sign x = (if x < 0 then -1 else if 0 < x then 1 else 0)"

definition debOrder :: "char \<Rightarrow> int" where
  "debOrder c =
     (if byte (CHR ''0'') \<le> byte c \<and> byte c \<le> byte (CHR ''9'') then 0
      else if (byte (CHR ''a'') \<le> byte c \<and> byte c \<le> byte (CHR ''z'')) \<or>
              (byte (CHR ''A'') \<le> byte c \<and> byte c \<le> byte (CHR ''Z'')) then int (byte c)
      else if c = CHR ''~'' then -1
      else int (byte c) + 256)"

lemma debOrder_alt:
  "debOrder c = (if isDigit c then 0 else if isAlpha c then int (byte c)
     else if c = CHR ''~'' then -1 else int (byte c) + 256)"
  by (simp add: debOrder_def isDigit_def isAlpha_def)

lemma debOrder_zero: "debOrder c = 0 \<longleftrightarrow> isDigit c"
  by (auto simp: debOrder_alt isAlpha_def byte_def)

section \<open>The comparison loop\<close>

definition at_nondigit :: "gostring \<Rightarrow> bool" where
  "at_nondigit s \<longleftrightarrow> s \<noteq> [] \<and> \<not> isDigit (hd s)"

definition at_digit :: "gostring \<Rightarrow> bool" where
  "at_digit s \<longleftrightarrow> s \<noteq> [] \<and> isDigit (hd s)"

text \<open>The non-digit phase: \<^const>\<open>Inl\<close> is an early return, \<^const>\<open>Inr\<close> the cursors after it.\<close>

function nondigit_phase :: "gostring \<Rightarrow> gostring \<Rightarrow> int + (gostring \<times> gostring)" where
  "nondigit_phase a b =
     (if at_nondigit a \<or> at_nondigit b then
        let ac = (if a \<noteq> [] then debOrder (hd a) else 0);
            bc = (if b \<noteq> [] then debOrder (hd b) else 0)
        in if ac \<noteq> bc then Inl (sign (ac - bc)) else nondigit_phase (tl a) (tl b)
      else Inr (a, b))"
  by pat_completeness auto
termination
proof (relation "measure (\<lambda>(a, b). length a + length b)", goal_cases)
  case 1
  show ?case by simp
next
  case (2 a b x xa)
  then have "a \<noteq> [] \<or> b \<noteq> []" by (auto simp: at_nondigit_def)
  then show ?case by (cases a; cases b) simp_all
qed

declare nondigit_phase.simps [simp del]

fun digit_phase :: "gostring \<Rightarrow> gostring \<Rightarrow> int \<Rightarrow> gostring \<times> gostring \<times> int" where
  "digit_phase (c # a) (d # b) firstDiff =
     (if isDigit c \<and> isDigit d then
        digit_phase a b (if firstDiff = 0 then int (byte c) - int (byte d) else firstDiff)
      else (c # a, d # b, firstDiff))"
| "digit_phase a b firstDiff = (a, b, firstDiff)"

lemma nondigit_phase_suffix:
  "nondigit_phase a b = Inr (a1, b1) \<Longrightarrow>
     suffix a1 a \<and> suffix b1 b \<and> \<not> at_nondigit a1 \<and> \<not> at_nondigit b1"
proof (induction a b rule: nondigit_phase.induct)
  case (1 a b)
  then show ?case
    by (subst (asm) (2) nondigit_phase.simps)
      (auto simp: Let_def split: if_splits intro: suffix_order.trans [OF _ suffix_tl])
qed

lemma digit_phase_suffix:
  "digit_phase a b f = (a2, b2, g) \<Longrightarrow> suffix a2 a \<and> suffix b2 b"
  by (induction a b f rule: digit_phase.induct)
    (auto split: if_splits intro: suffix_ConsI)

lemma strip_zeros_suffix: "suffix (strip_zeros s) s"
  by (simp add: strip_zeros_def suffix_dropWhile)

function verrevcmp :: "gostring \<Rightarrow> gostring \<Rightarrow> int" where
  "verrevcmp a b =
     (if a = [] \<and> b = [] then 0
      else case nondigit_phase a b of
             Inl r \<Rightarrow> r
           | Inr (a1, b1) \<Rightarrow>
             (case digit_phase (strip_zeros a1) (strip_zeros b1) 0 of
                (a2, b2, firstDiff) \<Rightarrow>
                  if at_digit a2 then 1
                  else if at_digit b2 then -1
                  else if firstDiff \<noteq> 0 then sign firstDiff
                  else verrevcmp a2 b2))"
  by pat_completeness auto
termination
proof (relation "measure (\<lambda>(a, b). length a + length b)", goal_cases)
  case 1
  show ?case by simp
next
  case (2 a b ab a1 b1 a2 p b2 f)
  then have n: "suffix a1 a" "suffix b1 b" "\<not> at_nondigit a1" "\<not> at_nondigit b1"
    using nondigit_phase_suffix [of a b a1 b1] by auto
  have d: "suffix a2 a1" "suffix b2 b1"
    using 2 digit_phase_suffix strip_zeros_suffix suffix_order.trans by metis+
  have "a2 \<noteq> a \<or> b2 \<noteq> b"
  proof (rule ccontr)
    assume "\<not> ?thesis"
    then have "a1 = a" "b1 = b" "a2 = a" "b2 = b"
      using n d by (auto intro: suffix_order.antisym)
    with 2 n show False by (auto simp: at_nondigit_def at_digit_def)
  qed
  moreover have "suffix a2 a" "suffix b2 b" using n d suffix_order.trans by blast+
  ultimately show ?case
    by (auto simp: suffix_def)
qed

declare verrevcmp.simps [simp del]

section \<open>Versions as lists of orders and numbers\<close>

text \<open>Lexicographic comparison of two lists, each continued by zeros.\<close>

fun padcmp :: "int list \<Rightarrow> int list \<Rightarrow> int" where
  "padcmp [] [] = 0"
| "padcmp (x # xs) [] = (if x \<noteq> 0 then sign x else padcmp xs [])"
| "padcmp [] (y # ys) = (if y \<noteq> 0 then sign (- y) else padcmp [] ys)"
| "padcmp (x # xs) (y # ys) = (if x \<noteq> y then sign (x - y) else padcmp xs ys)"

function dpkg_key :: "gostring \<Rightarrow> int list" where
  "dpkg_key s =
     (if s = [] then []
      else
        let rest = dropWhile (\<lambda>c. \<not> isDigit c) s
        in map debOrder (takeWhile (\<lambda>c. \<not> isDigit c) s) @
           [0, int (digits_value (takeWhile isDigit rest))] @ dpkg_key (dropWhile isDigit rest))"
  by pat_completeness auto
termination
proof (relation "measure length", goal_cases)
  case 1
  show ?case by simp
next
  case (2 s rest)
  then have le: "length (dropWhile isDigit rest) \<le> length rest" "length rest \<le> length s"
    by (simp_all add: length_dropWhile_le)
  show ?case
  proof (cases "isDigit (hd s)")
    case True
    then have "rest = s" using 2 by (cases s) simp_all
    then show ?thesis using 2 True length_dropWhile_lt [of s isDigit] by simp
  next
    case False
    then show ?thesis using 2 le length_dropWhile_lt [of s "\<lambda>c. \<not> isDigit c"] by simp
  qed
qed

declare dpkg_key.simps [simp del]


lemma sign_minus: "sign (- x) = - sign x"
  by (simp add: sign_def)

lemma sign_range: "sign x \<in> {-1, 0, 1}"
  by (simp add: sign_def)

lemma sign_iffs [simp]: "sign x = 0 \<longleftrightarrow> x = 0" "sign x \<le> 0 \<longleftrightarrow> x \<le> 0" "sign x < 0 \<longleftrightarrow> x < 0"
  by (auto simp: sign_def)

lemma sign_diff_cmp3: "sign (int m - int n) = cmp3 m n"
  by (simp add: sign_def cmp3_def)

text \<open>Padded comparison is a comparator: the zero list stands for the end of both.\<close>

lemma padcmp_swap: "padcmp ys xs = - padcmp xs ys"
  by (induction xs ys rule: padcmp.induct) (auto simp: sign_def)

lemma padcmp_range: "padcmp xs ys \<in> {-1, 0, 1}"
  by (induction xs ys rule: padcmp.induct) (auto simp: sign_def)

text \<open>One element at a time, with the missing element of a shorter list read as zero.\<close>

definition pad_hd :: "int list \<Rightarrow> int" where
  "pad_hd xs = (if xs = [] then 0 else hd xs)"

lemma padcmp_step:
  "padcmp xs ys = (if pad_hd xs \<noteq> pad_hd ys then sign (pad_hd xs - pad_hd ys) else padcmp (tl xs) (tl ys))"
  by (induction xs ys rule: padcmp.induct) (auto simp: pad_hd_def)

lemma padcmp_trans: "padcmp xs ys \<le> 0 \<Longrightarrow> padcmp ys zs \<le> 0 \<Longrightarrow> padcmp xs zs \<le> 0"
proof (induction "length xs + length ys + length zs" arbitrary: xs ys zs rule: less_induct)
  case less
  show ?case
  proof (cases "xs = [] \<and> ys = [] \<and> zs = []")
    case True
    then show ?thesis by simp
  next
    case False
    then have shorter: "length (tl xs) + length (tl ys) + length (tl zs) < length xs + length ys + length zs"
      by (cases xs; cases ys; cases zs) simp_all
    note steps = padcmp_step [of xs ys] padcmp_step [of ys zs] padcmp_step [of xs zs]
    show ?thesis
    proof (cases "pad_hd xs = pad_hd ys \<and> pad_hd ys = pad_hd zs")
      case True
      then show ?thesis using less.hyps [OF shorter] less.prems steps by simp
    next
      case False
      then show ?thesis using less.prems steps by (auto split: if_splits)
    qed
  qed
qed

lemma comparator_padcmp: "comparator padcmp"
  by (rule comparator.intro) (rule padcmp_range, rule padcmp_swap, rule padcmp_trans)

lemma padcmp_zero: "padcmp [0] ys = padcmp [] ys"
  by (cases ys) simp_all

lemma padcmp_zeros: "padcmp [0, 0] ys = padcmp [] ys" "padcmp xs [0, 0] = padcmp xs []"
proof -
  show left: "padcmp [0, 0] ys = padcmp [] ys" for ys
    by (cases ys) (simp_all add: padcmp_zero)
  show "padcmp xs [0, 0] = padcmp xs []"
    using left [of xs] padcmp_swap [of xs "[0, 0]"] padcmp_swap [of xs "[]"] by simp
qed

text \<open>The key of any string, the empty one included, begins with a block; the rest is the next key.\<close>

definition dpkg_block :: "gostring \<Rightarrow> int list" where
  "dpkg_block s =
     map debOrder (takeWhile (\<lambda>c. \<not> isDigit c) s) @
       [0, int (digits_value (takeWhile isDigit (dropWhile (\<lambda>c. \<not> isDigit c) s)))]"

definition dpkg_rest :: "gostring \<Rightarrow> gostring" where
  "dpkg_rest s = dropWhile isDigit (dropWhile (\<lambda>c. \<not> isDigit c) s)"

lemma dpkg_key_block: "s \<noteq> [] \<Longrightarrow> dpkg_key s = dpkg_block s @ dpkg_key (dpkg_rest s)"
  by (simp add: dpkg_key.simps [of s] dpkg_block_def dpkg_rest_def Let_def)

lemma dpkg_key_Nil [simp]: "dpkg_key [] = []"
  by (simp add: dpkg_key.simps)

lemma padcmp_key_blocks:
  "padcmp (dpkg_key a) (dpkg_key b) =
     padcmp (dpkg_block a @ dpkg_key (dpkg_rest a)) (dpkg_block b @ dpkg_key (dpkg_rest b))"
  by (cases "a = []"; cases "b = []")
    (simp_all add: dpkg_key_block padcmp_zeros dpkg_block_def dpkg_rest_def)

text \<open>The non-digit phase compares the orders up to the zero that ends them.\<close>

lemma nondigit_phase_padcmp:
  "case nondigit_phase a b of
     Inl r \<Rightarrow> padcmp (map debOrder (takeWhile (\<lambda>c. \<not> isDigit c) a) @ 0 # x)
                     (map debOrder (takeWhile (\<lambda>c. \<not> isDigit c) b) @ 0 # y) = r
   | Inr (a1, b1) \<Rightarrow>
       a1 = dropWhile (\<lambda>c. \<not> isDigit c) a \<and> b1 = dropWhile (\<lambda>c. \<not> isDigit c) b \<and>
       padcmp (map debOrder (takeWhile (\<lambda>c. \<not> isDigit c) a) @ 0 # x)
              (map debOrder (takeWhile (\<lambda>c. \<not> isDigit c) b) @ 0 # y) = padcmp x y"
proof (induction a b rule: nondigit_phase.induct)
  case (1 a b)
  show ?case
  proof (cases "at_nondigit a \<or> at_nondigit b")
    case False
    then have "nondigit_phase a b = Inr (a, b)" by (simp add: nondigit_phase.simps [of a b])
    with False show ?thesis by (cases a; cases b) (auto simp: at_nondigit_def)
  next
    case True
    define ac where "ac = (if a \<noteq> [] then debOrder (hd a) else 0)"
    define bc where "bc = (if b \<noteq> [] then debOrder (hd b) else 0)"
    note unf = nondigit_phase.simps [of a b] True ac_def [symmetric] bc_def [symmetric]
    have heads:
      "pad_hd (map debOrder (takeWhile (\<lambda>c. \<not> isDigit c) a) @ 0 # x) = ac"
      "pad_hd (map debOrder (takeWhile (\<lambda>c. \<not> isDigit c) b) @ 0 # y) = bc"
      by (cases a; cases b; simp add: pad_hd_def ac_def bc_def debOrder_zero)+
    show ?thesis
    proof (cases "ac = bc")
      case False
      then show ?thesis using heads by (simp add: unf padcmp_step)
    next
      case eq: True
      then obtain c r d t where ab: "a = c # r" "b = d # t" "\<not> isDigit c" "\<not> isDigit d"
        using True
        by (cases a; cases b)
          (auto simp: ac_def bc_def at_nondigit_def debOrder_zero [symmetric] split: if_splits)
      have "nondigit_phase a b = nondigit_phase r t"
        using unf(1) True eq ab by (simp add: ac_def bc_def)
      moreover have "debOrder c = debOrder d" using eq ab by (simp add: ac_def bc_def)
      ultimately show ?thesis
        using 1 [OF True ac_def bc_def] eq ab by (auto split: sum.splits)
    qed
  qed
qed

text \<open>The digit phase compares numbers.\<close>

lemma digit_phase_run:
  assumes "list_all isDigit u" and "list_all isDigit v" and "\<not> at_digit r" and "\<not> at_digit t"
  shows "length u < length v \<Longrightarrow>
      \<exists>a2 b2 g. digit_phase (u @ r) (v @ t) f = (a2, b2, g) \<and> \<not> at_digit a2 \<and> at_digit b2"
    and "length v < length u \<Longrightarrow>
      \<exists>a2 b2 g. digit_phase (u @ r) (v @ t) f = (a2, b2, g) \<and> at_digit a2"
    and "length u = length v \<Longrightarrow>
      \<exists>g. digit_phase (u @ r) (v @ t) f = (r, t, g) \<and>
          (if f \<noteq> 0 then g = f else sign g = cmp3 u v)"
  using assms
proof (induction u arbitrary: v f)
  case Nil
  { case 1
    then show ?case by (cases v; cases r) (auto simp: at_digit_def)
  next
    case 2
    then show ?case by simp
  next
    case 3
    then show ?case by (cases r; cases t) (auto simp: at_digit_def) }
next
  case (Cons c u)
  { case 1
    then show ?case using Cons.IH(1) by (cases v) auto
  next
    case 2
    then show ?case using Cons.IH(2)
      by (cases v; cases t) (auto simp: at_digit_def)
  next
    case 3
    then obtain d w where v: "v = d # w" by (cases v) auto
    define f' where "f' = (if f = 0 then int (byte c) - int (byte d) else f)"
    have "digit_phase ((c # u) @ r) (v @ t) f = digit_phase (u @ r) (w @ t) f'"
      using 3 v by (simp add: f'_def)
    moreover obtain g where g: "digit_phase (u @ r) (w @ t) f' = (r, t, g)"
      "if f' \<noteq> 0 then g = f' else sign g = cmp3 u w"
      using Cons.IH(3) [of w f'] 3 v by auto
    moreover have "if f \<noteq> 0 then g = f else sign g = cmp3 (c # u) v"
    proof (cases "c = d \<or> f \<noteq> 0")
      case True
      then show ?thesis using g(2) v by (auto simp: f'_def cmp3_Cons)
    next
      case False
      then have "g = int (byte c) - int (byte d)"
        using g(2) by (auto simp: f'_def split: if_splits)
      then have "sign g = cmp3 (byte c) (byte d)" by (simp add: sign_diff_cmp3)
      then show ?thesis using False v by (simp add: cmp3_Cons cmp3_def byte_lt_iff)
    qed
    ultimately show ?case by auto }
qed

lemma takeWhile_digits: "list_all isDigit (takeWhile isDigit s)"
  by (induction s) auto

lemma not_at_digit_dropWhile: "\<not> at_digit (dropWhile isDigit s)"
  using hd_dropWhile [of isDigit s] by (auto simp: at_digit_def)

lemma strip_zeros_digits:
  "strip_zeros s = strip_zeros (takeWhile isDigit s) @ dropWhile isDigit s"
  unfolding strip_zeros_def
proof (induction s)
  case (Cons c s)
  have "isDigit (CHR ''0'')" by (simp add: isDigit_def byte_def)
  with Cons show ?case by auto
qed simp

lemma digit_phase_numbers:
  fixes a b :: gostring
  defines "m \<equiv> digits_value (takeWhile isDigit a)" and "n \<equiv> digits_value (takeWhile isDigit b)"
  shows "case digit_phase (strip_zeros a) (strip_zeros b) 0 of (a2, b2, g) \<Rightarrow>
     (at_digit a2 \<longrightarrow> n < m) \<and> (\<not> at_digit a2 \<and> at_digit b2 \<longrightarrow> m < n) \<and>
     (\<not> at_digit a2 \<and> \<not> at_digit b2 \<longrightarrow>
        sign g = cmp3 m n \<and> a2 = dropWhile isDigit a \<and> b2 = dropWhile isDigit b)"
proof -
  define u v where uv: "u = strip_zeros (takeWhile isDigit a)" "v = strip_zeros (takeWhile isDigit b)"
  have digs: "list_all is_digit_char (takeWhile isDigit a)" "list_all is_digit_char (takeWhile isDigit b)"
    by (rule takeWhile_isDigit_digits)+
  have du: "list_all isDigit u" and dv: "list_all isDigit v"
    unfolding uv by (rule list_all_strip_zeros, rule takeWhile_digits)+
  note run = digit_phase_run [OF du dv not_at_digit_dropWhile [of a] not_at_digit_dropWhile [of b], of 0]
  note eqs = strip_zeros_digits [of a] strip_zeros_digits [of b]
  consider "length u < length v" | "length v < length u" | "length u = length v" by linarith
  then show ?thesis
  proof cases
    case 1
    then have "m < n" unfolding m_def n_def uv by (rule digits_value_shorter [OF digs])
    then show ?thesis using run(1) [OF 1] unfolding uv eqs [symmetric] by auto
  next
    case 2
    then have "n < m" unfolding m_def n_def uv by (rule digits_value_shorter [OF digs(2,1)])
    then show ?thesis using run(2) [OF 2] unfolding uv eqs [symmetric] by auto
  next
    case 3
    have "list_all is_digit_char u" "list_all is_digit_char v"
      unfolding uv using digs list_all_strip_zeros by blast+
    then have "cmp3 m n = cmp3 u v"
      using digits_value_less_iff [OF 3] by (simp add: m_def n_def uv)
    then show ?thesis
      using run(3) [OF 3] not_at_digit_dropWhile unfolding uv eqs [symmetric] by auto
  qed
qed

lemma verrevcmp_key: "verrevcmp a b = padcmp (dpkg_key a) (dpkg_key b)"
proof (induction a b rule: verrevcmp.induct)
  case (1 a b)
  show ?case
  proof (cases "a = [] \<and> b = []")
    case True
    then show ?thesis by (simp add: verrevcmp.simps)
  next
    case False
    note unf = trans [OF verrevcmp.simps [of a b] if_not_P [OF False]]
    note blocks = padcmp_key_blocks [where a = a and b = b] dpkg_block_def append_assoc append.simps
    show ?thesis
    proof (cases "nondigit_phase a b")
      case (Inl r)
      then show ?thesis
        using nondigit_phase_padcmp [where a = a and b = b] by (simp add: unf blocks)
    next
      case (Inr p)
      then obtain a1 b1 where p: "nondigit_phase a b = Inr (a1, b1)" by (cases p) auto
      obtain a2 b2 g where d: "digit_phase (strip_zeros a1) (strip_zeros b1) 0 = (a2, b2, g)"
        using prod_cases3 by blast
      have ab1: "a1 = dropWhile (\<lambda>c. \<not> isDigit c) a" "b1 = dropWhile (\<lambda>c. \<not> isDigit c) b"
        using nondigit_phase_padcmp [where a = a and b = b] p by auto
      let ?m = "digits_value (takeWhile isDigit a1)" and ?n = "digits_value (takeWhile isDigit b1)"
      have key: "padcmp (dpkg_key a) (dpkg_key b) =
          padcmp (int ?m # dpkg_key (dropWhile isDigit a1)) (int ?n # dpkg_key (dropWhile isDigit b1))"
        using nondigit_phase_padcmp [where a = a and b = b] p
        by (simp add: blocks dpkg_rest_def ab1 del: padcmp.simps)
      note num = digit_phase_numbers [where a = a1 and b = b1, unfolded d prod.case]
      have IH: "\<not> at_digit a2 \<Longrightarrow> \<not> at_digit b2 \<Longrightarrow> g = 0 \<Longrightarrow>
          verrevcmp a2 b2 = padcmp (dpkg_key a2) (dpkg_key b2)"
        using 1 [OF False p refl d [symmetric] refl] by simp
      show ?thesis
        using num IH sign_iffs(1) [of g] unfolding unf p key
        by (auto simp: d cmp3_iffs) (auto simp: sign_def cmp3_def split: if_splits)
    qed
  qed
qed

interpretation deb: comparator verrevcmp
  using comparator_pullback [OF comparator_padcmp, of dpkg_key]
  by (simp add: verrevcmp_key [abs_def])

section \<open>Whole Debian versions\<close>

definition dpkgNotInstalled :: gostring where
  "dpkgNotInstalled = ''(none)''"

text \<open>\<open>splitDebVersion\<close>: trimmed; epoch before the first colon, revision after the last dash.\<close>

definition splitDebVersion :: "gostring \<Rightarrow> int \<times> gostring \<times> gostring" where
  "splitDebVersion v0 =
     (let v = trim_space v0;
          (epoch, rest) =
            (case index_byte v (CHR '':'') of
               Some i \<Rightarrow> (parseEpoch (take i v), drop (i + 1) v)
             | None \<Rightarrow> (0, v))
      in case last_index_byte rest (CHR ''-'') of
           Some i \<Rightarrow> (epoch, take i rest, drop (i + 1) rest)
         | None \<Rightarrow> (epoch, rest, []))"

text \<open>The subtraction of the epochs is the machine's, \<open>sign(ea - eb)\<close> on 64 bits.\<close>

definition CompareDpkg :: "gostring \<Rightarrow> gostring \<Rightarrow> int" where
  "CompareDpkg a b =
     (if a = dpkgNotInstalled \<and> b = dpkgNotInstalled then 0
      else if a = dpkgNotInstalled then -1
      else if b = dpkgNotInstalled then 1
      else
        let (ea, ua, ra) = splitDebVersion a; (eb, ub, rb) = splitDebVersion b
        in if ea \<noteq> eb then sign (wrap64 (ea - eb))
           else if verrevcmp ua ub \<noteq> 0 then verrevcmp ua ub
           else verrevcmp ra rb)"

definition deb_epoch :: "gostring \<Rightarrow> int" where
  "deb_epoch v = fst (splitDebVersion v)"

lemma parseEpoch_range: "min_int64 \<le> parseEpoch s \<and> parseEpoch s \<le> max_int64"
  using atoi_range [of "trim_space s"]
  by (auto simp: parseEpoch_def min_int64_def max_int64_def split: option.splits)

lemma deb_epoch_range: "min_int64 \<le> deb_epoch v \<and> deb_epoch v \<le> max_int64"
  using parseEpoch_range
  by (auto simp: deb_epoch_def splitDebVersion_def Let_def min_int64_def max_int64_def split: option.splits)

text \<open>
  The exact comparison: not-installed first, then the epochs as numbers, the upstream version
  and the revision, each deciding only the ties of the one before.
\<close>

definition deb_spec :: "gostring \<Rightarrow> gostring \<Rightarrow> int" where
  "deb_spec =
     lex_cmp (\<lambda>a b. cmp3 (if a = dpkgNotInstalled then 0 else 1 :: nat) (if b = dpkgNotInstalled then 0 else 1))
       (lex_cmp (\<lambda>a b. cmp3 (deb_epoch a) (deb_epoch b))
         (lex_cmp (\<lambda>a b. verrevcmp (fst (snd (splitDebVersion a))) (fst (snd (splitDebVersion b))))
                  (\<lambda>a b. verrevcmp (snd (snd (splitDebVersion a))) (snd (snd (splitDebVersion b))))))"

lemma comparator_verrevcmp: "comparator verrevcmp"
  by unfold_locales

interpretation debspec: comparator deb_spec
  unfolding deb_spec_def
  by (intro comparator_lex comparator_pullback [OF comparator_verrevcmp]
      comparator_pullback [OF comparator_cmp3])

lemma verrevcmp_same [simp]: "verrevcmp a a = 0"
  by (rule deb.refl)

lemma cmp3_same [simp]: "cmp3 x x = 0"
  by (simp add: cmp3_def)

lemma sign_wrap64:
  "min_int64 \<le> x - y \<Longrightarrow> x - y \<le> max_int64 \<Longrightarrow> sign (wrap64 (x - y)) = cmp3 x y"
  by (simp add: wrap64_id sign_def cmp3_def)

lemma CompareDpkg_spec:
  assumes "min_int64 \<le> deb_epoch a - deb_epoch b" and "deb_epoch a - deb_epoch b \<le> max_int64"
  shows "CompareDpkg a b = deb_spec a b"
proof (cases "a = dpkgNotInstalled \<and> b = dpkgNotInstalled")
  case True
  then show ?thesis using debspec.refl by (simp add: CompareDpkg_def)
next
  case False
  obtain ea ua ra eb ub rb where s: "splitDebVersion a = (ea, ua, ra)" "splitDebVersion b = (eb, ub, rb)"
    by (metis prod_cases3)
  have sub: "sign (wrap64 (ea - eb)) = cmp3 ea eb"
    using sign_wrap64 assms s by (simp add: deb_epoch_def)
  show ?thesis
    using False
    by (auto simp: CompareDpkg_def deb_spec_def lex_cmp_def deb_epoch_def s sub)
      (simp_all add: cmp3_def)
qed

lemma epoch_diff_range:
  "0 \<le> deb_epoch a \<Longrightarrow> 0 \<le> deb_epoch b \<Longrightarrow>
     min_int64 \<le> deb_epoch a - deb_epoch b \<and> deb_epoch a - deb_epoch b \<le> max_int64"
  using deb_epoch_range [of a] deb_epoch_range [of b] by (auto simp: min_int64_def max_int64_def)

section \<open>Properties\<close>

text \<open>C18: on parts that are there, the port of dpkg's \<open>verrevcmp\<close> terminates and is the lexicographic
  comparison of their character orders and numbers, continued by zeros past the end: leading
  zeros do not count and a tilde sorts below the end of the string. A missing part, which the
  comment in front of \<open>splitDebVersion\<close> ranks below every other, is not in the claim: see
  \<open>verrevcmp_missing_revision\<close> for what the code does with it.\<close>

theorem verrevcmp_order:
  assumes "a \<noteq> []" and "b \<noteq> []"
  shows "verrevcmp a b = padcmp (dpkg_key a) (dpkg_key b)"
  by (rule verrevcmp_key)

theorem verrevcmp_order_witness:
  "verrevcmp ''1.0~rc1'' ''1.0'' = -1 \<and> verrevcmp ''1.09'' ''1.9'' = 0"
proof -
  have "padcmp (dpkg_key ''1.0~rc1'') (dpkg_key ''1.0'') = -1"
    and "padcmp (dpkg_key ''1.09'') (dpkg_key ''1.9'') = 0"
    by code_simp+
  then show ?thesis
    using verrevcmp_order [of "''1.0~rc1''" "''1.0''"] verrevcmp_order [of "''1.09''" "''1.9''"] by simp
qed

text \<open>C23: on versions with non-negative epochs \<open>CompareDpkg\<close> is a total preorder with values
  in -1, 0 and 1 in which versions that compare equal are interchangeable.\<close>

theorem CompareDpkg_preorder:
  assumes "0 \<le> deb_epoch a" and "0 \<le> deb_epoch b" and "0 \<le> deb_epoch c"
  shows "CompareDpkg a b \<in> {-1, 0, 1} \<and> CompareDpkg b a = - CompareDpkg a b \<and>
    (CompareDpkg a b \<le> 0 \<longrightarrow> CompareDpkg b c \<le> 0 \<longrightarrow> CompareDpkg a c \<le> 0) \<and>
    (CompareDpkg a b = 0 \<longrightarrow> CompareDpkg a c = CompareDpkg b c)"
proof -
  have eq: "CompareDpkg x y = deb_spec x y" if "x \<in> {a, b, c}" "y \<in> {a, b, c}" for x y
    using CompareDpkg_spec [of x y] epoch_diff_range [of x y] that assms by auto
  show ?thesis
    using debspec.range [of a b] debspec.swap [of a b] debspec.trans [of a b c]
      debspec.equal_subst [of a b c] by (simp add: eq)
qed

theorem CompareDpkg_preorder_witness:
  "CompareDpkg ''1:2.0~rc1-1'' ''1:2.0-0'' = -1 \<and> CompareDpkg ''1:2.0-0'' ''1:2.0'' = 0 \<and>
   CompareDpkg ''1:2.0~rc1-1'' ''1:2.0'' \<le> 0"
proof -
  have pos: "0 \<le> deb_epoch ''1:2.0~rc1-1''" "0 \<le> deb_epoch ''1:2.0-0''" "0 \<le> deb_epoch ''1:2.0''"
    by code_simp+
  have "CompareDpkg ''1:2.0~rc1-1'' ''1:2.0-0'' = -1" and "CompareDpkg ''1:2.0-0'' ''1:2.0'' = 0"
    by code_simp+
  then show ?thesis using CompareDpkg_preorder [OF pos] by simp
qed

text \<open>the epochs are compared by a 64-bit subtraction, which wraps: an epoch of the largest
  \<open>int\<close> is reported older than an epoch of -1, and as newer than an epoch of 0, which is itself
  newer than -1. The comparison is then not transitive.\<close>

theorem CompareDpkg_epoch_wraps:
  "CompareDpkg ''9223372036854775807:1'' ''-1:1'' = -1 \<and> CompareDpkg ''-1:1'' ''0:1'' = -1 \<and>
   CompareDpkg ''9223372036854775807:1'' ''0:1'' = 1"
  by (intro conjI) code_simp+

text \<open>a missing revision is the revision 0, not lower than every revision: \<open>verrevcmp\<close> puts
  the empty string level with a zero and above a tilde.\<close>

theorem verrevcmp_missing_revision:
  "verrevcmp [] ''0'' = 0 \<and> verrevcmp [] ''~1'' = 1 \<and> CompareDpkg ''1.0'' ''1.0-0'' = 0"
  by (intro conjI) code_simp+

end
