(* ===== verification/Go_Float.thy ===== *)
theory Go_Float
  imports Complex_Main Go_Prelude
begin

text \<open>
  Go's \<open>float64\<close>: an exact rational or one of the special values, with the IEEE rules for comparison
  and arithmetic rounded to the nearest double, ties to even, and the formatting verb \<open>%.nf\<close>, which
  prints the exact value rounded to \<open>n\<close> decimals. Negative zero is not told from zero.
\<close>

section \<open>Values and comparison\<close>

datatype f64 = Fin rat | PInf | NInf | NaN

fun fle :: "f64 \<Rightarrow> f64 \<Rightarrow> bool" where
  "fle (Fin x) (Fin y) = (x \<le> y)"
| "fle NaN _ = False"
| "fle _ NaN = False"
| "fle NInf _ = True"
| "fle _ PInf = True"
| "fle PInf _ = False"
| "fle _ NInf = False"

fun flt :: "f64 \<Rightarrow> f64 \<Rightarrow> bool" where
  "flt (Fin x) (Fin y) = (x < y)"
| "flt NaN _ = False"
| "flt _ NaN = False"
| "flt NInf NInf = False"
| "flt PInf _ = False"
| "flt NInf _ = True"
| "flt _ PInf = True"
| "flt _ NInf = False"

definition feq :: "f64 \<Rightarrow> f64 \<Rightarrow> bool" where
  "feq x y \<longleftrightarrow> x = y \<and> x \<noteq> NaN"

fun IsInf :: "f64 \<Rightarrow> bool" where
  "IsInf PInf = True" | "IsInf NInf = True" | "IsInf _ = False"

fun IsNaN :: "f64 \<Rightarrow> bool" where
  "IsNaN NaN = True" | "IsNaN _ = False"

lemma fle_refl: "x \<noteq> NaN \<Longrightarrow> fle x x"
  by (cases x) simp_all

lemma fle_trans: "fle x y \<Longrightarrow> fle y z \<Longrightarrow> fle x z"
  by (cases x; cases y; cases z) simp_all

lemma flt_fle: "flt x y \<Longrightarrow> fle x y"
  by (cases x; cases y) simp_all

lemma fle_flt_trans: "fle x y \<Longrightarrow> flt y z \<Longrightarrow> flt x z"
  by (cases x; cases y; cases z) simp_all

lemma flt_fle_trans: "flt x y \<Longrightarrow> fle y z \<Longrightarrow> flt x z"
  by (cases x; cases y; cases z) simp_all

lemma not_fle: "x \<noteq> NaN \<Longrightarrow> y \<noteq> NaN \<Longrightarrow> \<not> fle x y \<longleftrightarrow> flt y x"
  by (cases x; cases y) auto

section \<open>Rounding\<close>

definition round_half_even :: "rat \<Rightarrow> int" where
  "round_half_even q =
     (let f = \<lfloor>q\<rfloor>; d = q - of_int f
      in if d < 1 / 2 then f else if 1 / 2 < d then f + 1 else if even f then f else f + 1)"

fun bit_count :: "nat \<Rightarrow> nat" where
  "bit_count n = (if n = 0 then 0 else Suc (bit_count (n div 2)))"

declare bit_count.simps [simp del]

definition pow2 :: "int \<Rightarrow> rat" where
  "pow2 k = (if 0 \<le> k then 2 ^ nat k else 1 / 2 ^ nat (- k))"

text \<open>The exponent of the leading bit of a positive rational.\<close>

definition lead_exp :: "rat \<Rightarrow> int" where
  "lead_exp q =
     (let (n, d) = quotient_of q; k = int (bit_count (nat n)) - int (bit_count (nat d))
      in if pow2 k \<le> q then k else k - 1)"

definition rounded :: "rat \<Rightarrow> rat" where
  "rounded q =
     (let u = max (lead_exp q - 52) (- 1074) in of_int (round_half_even (q / pow2 u)) * pow2 u)"

definition round64 :: "rat \<Rightarrow> f64" where
  "round64 r =
     (if r = 0 then Fin 0
      else let m = rounded \<bar>r\<bar>
           in if pow2 1024 \<le> m then (if r < 0 then NInf else PInf)
              else Fin (if r < 0 then - m else m))"

section \<open>Arithmetic\<close>

fun fneg :: "f64 \<Rightarrow> f64" where
  "fneg (Fin x) = Fin (- x)" | "fneg PInf = NInf" | "fneg NInf = PInf" | "fneg NaN = NaN"

fun fabs :: "f64 \<Rightarrow> f64" where
  "fabs (Fin x) = Fin \<bar>x\<bar>" | "fabs NaN = NaN" | "fabs _ = PInf"

fun fadd :: "f64 \<Rightarrow> f64 \<Rightarrow> f64" where
  "fadd (Fin x) (Fin y) = round64 (x + y)"
| "fadd NaN _ = NaN"
| "fadd _ NaN = NaN"
| "fadd PInf NInf = NaN"
| "fadd NInf PInf = NaN"
| "fadd PInf _ = PInf"
| "fadd _ PInf = PInf"
| "fadd NInf _ = NInf"
| "fadd _ NInf = NInf"

definition fsub :: "f64 \<Rightarrow> f64 \<Rightarrow> f64" where
  "fsub x y = fadd x (fneg y)"

definition finf :: "bool \<Rightarrow> f64" where
  "finf neg = (if neg then NInf else PInf)"

fun fmul :: "f64 \<Rightarrow> f64 \<Rightarrow> f64" where
  "fmul (Fin x) (Fin y) = round64 (x * y)"
| "fmul NaN _ = NaN"
| "fmul _ NaN = NaN"
| "fmul (Fin x) y = (if x = 0 then NaN else finf ((x < 0) \<noteq> (y = NInf)))"
| "fmul x (Fin y) = (if y = 0 then NaN else finf ((y < 0) \<noteq> (x = NInf)))"
| "fmul x y = finf ((x = NInf) \<noteq> (y = NInf))"

text \<open>A zero divisor counts as positive.\<close>

fun fdiv :: "f64 \<Rightarrow> f64 \<Rightarrow> f64" where
  "fdiv (Fin x) (Fin y) = (if y = 0 then (if x = 0 then NaN else finf (x < 0)) else round64 (x / y))"
| "fdiv NaN _ = NaN"
| "fdiv _ NaN = NaN"
| "fdiv (Fin x) _ = Fin 0"
| "fdiv x (Fin y) = finf ((y < 0) \<noteq> (x = NInf))"
| "fdiv _ _ = NaN"

definition f_of_int :: "int \<Rightarrow> f64" where
  "f_of_int n = round64 (of_int n)"

section \<open>Formatting\<close>

definition pad_zeros :: "nat \<Rightarrow> gostring \<Rightarrow> gostring" where
  "pad_zeros n s = replicate (n - length s) CHR ''0'' @ s"

definition decimal :: "nat \<Rightarrow> nat \<Rightarrow> gostring" where
  "decimal n k =
     (if n = 0 then nat_digits k
      else nat_digits (k div 10 ^ n) @ ''.'' @ pad_zeros n (nat_digits (k mod 10 ^ n)))"

fun fmt_f :: "nat \<Rightarrow> f64 \<Rightarrow> gostring" where
  "fmt_f n (Fin r) =
     (if r < 0 then ''-'' else []) @ decimal n (nat (round_half_even (\<bar>r\<bar> * 10 ^ n)))"
| "fmt_f n PInf = ''+Inf''"
| "fmt_f n NInf = ''-Inf''"
| "fmt_f n NaN = ''NaN''"

section \<open>Exactness on small integers\<close>

lemma round_half_even_of_int [simp]: "round_half_even (of_int k) = k"
  by (simp add: round_half_even_def)

lemma pow2_pos [simp]: "0 < pow2 k"
  by (simp add: pow2_def)

lemma pow2_sign [simp]: "pow2 k \<noteq> 0" "\<not> pow2 k < 0" "0 \<le> pow2 k"
  using pow2_pos [of k] by linarith+

lemma pow2_0 [simp]: "pow2 0 = 1"
  by (simp add: pow2_def)

lemma pow2_add: "pow2 (a + b) = pow2 a * pow2 b"
proof (cases "0 \<le> a"; cases "0 \<le> b")
  assume ab: "0 \<le> a" "0 \<le> b"
  then show ?thesis by (simp add: pow2_def nat_add_distrib power_add)
next
  assume ab: "0 \<le> a" "\<not> 0 \<le> b"
  show ?thesis
  proof (cases "0 \<le> a + b")
    case True
    with ab have "nat a = nat (a + b) + nat (- b)" by simp
    with ab True show ?thesis by (simp add: pow2_def power_add)
  next
    case False
    with ab have "nat (- b) = nat (- (a + b)) + nat a" by simp
    with ab False show ?thesis by (simp add: pow2_def power_add)
  qed
next
  assume ab: "\<not> 0 \<le> a" "0 \<le> b"
  show ?thesis
  proof (cases "0 \<le> a + b")
    case True
    with ab have "nat b = nat (a + b) + nat (- a)" by simp
    with ab True show ?thesis by (simp add: pow2_def power_add)
  next
    case False
    with ab have "nat (- a) = nat (- (a + b)) + nat b" by simp
    with ab False show ?thesis by (simp add: pow2_def power_add)
  qed
next
  assume ab: "\<not> 0 \<le> a" "\<not> 0 \<le> b"
  then have "nat (- (a + b)) = nat (- a) + nat (- b)" by simp
  with ab show ?thesis by (simp add: pow2_def power_add)
qed

lemma pow2_diff: "pow2 (a - b) = pow2 a / pow2 b"
  using pow2_add [of "a - b" b] by simp

lemma pow2_mono: "a \<le> b \<Longrightarrow> pow2 a \<le> pow2 b"
proof -
  assume "a \<le> b"
  then have "pow2 b = pow2 a * 2 ^ nat (b - a)" using pow2_add [of a "b - a"] by (simp add: pow2_def [of "b - a"])
  then show ?thesis by (simp add: mult_le_cancel_left1)
qed

lemma bit_count_bounds: "0 < n \<Longrightarrow> 2 ^ (bit_count n - 1) \<le> n \<and> n < 2 ^ bit_count n \<and> 0 < bit_count n"
proof (induction n rule: bit_count.induct)
  case (1 n)
  show ?case
  proof (cases "n div 2 = 0")
    case True
    with 1 have "n = 1" by simp
    then show ?thesis by (simp add: bit_count.simps)
  next
    case False
    define k where "k = bit_count (n div 2) - 1"
    from 1 False have "2 ^ k \<le> n div 2" "n div 2 < 2 ^ bit_count (n div 2)" "0 < bit_count (n div 2)"
      by (auto simp: k_def)
    moreover from this have k: "bit_count (n div 2) = Suc k" by (simp add: k_def)
    moreover have "bit_count n = Suc (Suc k)" using 1 k by (simp add: bit_count.simps [of n])
    moreover have "n = 2 * (n div 2) + n mod 2" "n mod 2 < 2" by simp_all
    ultimately show ?thesis by (simp only: power_Suc diff_Suc_1) linarith
  qed
qed

lemma pow2_nat: "pow2 (int k) = 2 ^ k"
  by (simp add: pow2_def)

lemma lead_exp_bounds:
  assumes "0 < q"
  shows "pow2 (lead_exp q) \<le> q \<and> q < pow2 (lead_exp q + 1)"
proof -
  obtain n d where nd: "quotient_of q = (n, d)" by (cases "quotient_of q")
  have q: "q = of_int n / of_int d" and d: "0 < d" using nd by (simp_all add: quotient_of_div quotient_of_denom_pos)
  with assms have n: "0 < n" by (simp add: zero_less_divide_iff)
  let ?a = "bit_count (nat n)" and ?b = "bit_count (nat d)"
  have bits: "pow2 (int (bit_count (nat m)) - 1) \<le> of_int m \<and> of_int m < pow2 (int (bit_count (nat m)))"
    if m: "0 < m" for m :: int
  proof -
    have b: "2 ^ (bit_count (nat m) - 1) \<le> nat m" "nat m < 2 ^ bit_count (nat m)" "0 < bit_count (nat m)"
      using bit_count_bounds [of "nat m"] m by auto
    have "(of_nat (2 ^ (bit_count (nat m) - 1)) :: rat) \<le> of_nat (nat m)"
      "(of_nat (nat m) :: rat) < of_nat (2 ^ bit_count (nat m))"
      unfolding of_nat_le_iff of_nat_less_iff by (fact b(1), fact b(2))
    then have "(2::rat) ^ (bit_count (nat m) - 1) \<le> of_nat (nat m)" "(of_nat (nat m) :: rat) < 2 ^ bit_count (nat m)"
      unfolding of_nat_power of_nat_numeral by blast+
    moreover have "int (bit_count (nat m)) - 1 = int (bit_count (nat m) - 1)" using b(3) by simp
    moreover have "(of_nat (nat m) :: rat) = of_int m" using m by simp
    ultimately show ?thesis by (simp only: pow2_nat)
  qed
  define k where "k = int ?a - int ?b"
  have up: "q < pow2 (k + 1)"
  proof -
    have "q < pow2 (int ?a) / pow2 (int ?b - 1)"
      unfolding q using bits [OF n] bits [OF d] n d by (intro frac_less) auto
    then show ?thesis by (simp add: pow2_diff [symmetric] k_def algebra_simps)
  qed
  have low: "pow2 (k - 1) \<le> q"
  proof -
    have "pow2 (int ?a - 1) / pow2 (int ?b) \<le> q"
      unfolding q using bits [OF n] bits [OF d] n d by (intro frac_le) auto
    then show ?thesis by (simp add: pow2_diff [symmetric] k_def algebra_simps)
  qed
  have "lead_exp q = (if pow2 k \<le> q then k else k - 1)" by (simp add: lead_exp_def nd k_def Let_def)
  with up low show ?thesis by simp
qed

lemma round_half_even_near: "\<bar>of_int (round_half_even q) - q\<bar> \<le> 1 / 2"
proof -
  have "of_int \<lfloor>q\<rfloor> \<le> q" "q < of_int \<lfloor>q\<rfloor> + 1" by linarith+
  then show ?thesis unfolding round_half_even_def Let_def by (auto simp: abs_le_iff)
qed

lemma round_half_even_mono: "p \<le> q \<Longrightarrow> round_half_even p \<le> round_half_even q"
proof -
  assume pq: "p \<le> q"
  then have f: "\<lfloor>p\<rfloor> \<le> \<lfloor>q\<rfloor>" by (rule floor_mono)
  have b: "\<lfloor>x\<rfloor> \<le> round_half_even x" "round_half_even x \<le> \<lfloor>x\<rfloor> + 1" for x :: rat
    by (auto simp: round_half_even_def Let_def)
  show ?thesis
  proof (cases "\<lfloor>p\<rfloor> = \<lfloor>q\<rfloor>")
    case True
    with pq show ?thesis by (auto simp: round_half_even_def Let_def)
  next
    case False
    with f b(2) [of p] b(1) [of q] show ?thesis by linarith
  qed
qed

section \<open>Rounding is monotone\<close>

lemma rounded_nonneg: "0 \<le> q \<Longrightarrow> 0 \<le> rounded q"
  using round_half_even_mono [of 0 "q / pow2 (max (lead_exp q - 52) (- 1074))"] round_half_even_of_int [of 0]
  by (simp add: rounded_def Let_def)

lemma scaled_int: "u \<le> k \<Longrightarrow> round_half_even (pow2 k / pow2 u) = 2 ^ nat (k - u)"
  using round_half_even_of_int [of "2 ^ nat (k - u)"] by (simp add: pow2_diff [symmetric]) (simp add: pow2_def)

lemma scaled_back: "u \<le> k \<Longrightarrow> of_int (2 ^ nat (k - u)) * pow2 u = pow2 k"
  using pow2_add [of "k - u" u] by (simp add: pow2_def [of "k - u"])

lemma rounded_le_pow2:
  assumes "q \<le> pow2 k" and "max (lead_exp q - 52) (- 1074) \<le> k"
  shows "rounded q \<le> pow2 k"
proof -
  let ?u = "max (lead_exp q - 52) (- 1074)"
  have "round_half_even (q / pow2 ?u) \<le> round_half_even (pow2 k / pow2 ?u)"
    using assms(1) by (intro round_half_even_mono divide_right_mono) simp_all
  then have "of_int (round_half_even (q / pow2 ?u)) \<le> (of_int (2 ^ nat (k - ?u)) :: rat)"
    unfolding scaled_int [OF assms(2)] by (simp only: of_int_le_iff)
  then have "rounded q \<le> of_int (2 ^ nat (k - ?u)) * pow2 ?u"
    unfolding rounded_def Let_def by (rule mult_right_mono) simp
  then show ?thesis by (simp only: scaled_back [OF assms(2)])
qed

lemma pow2_le_rounded:
  assumes "pow2 k \<le> q" and "max (lead_exp q - 52) (- 1074) \<le> k"
  shows "pow2 k \<le> rounded q"
proof -
  let ?u = "max (lead_exp q - 52) (- 1074)"
  have "round_half_even (pow2 k / pow2 ?u) \<le> round_half_even (q / pow2 ?u)"
    using assms(1) by (intro round_half_even_mono divide_right_mono) simp_all
  then have "(of_int (2 ^ nat (k - ?u)) :: rat) \<le> of_int (round_half_even (q / pow2 ?u))"
    unfolding scaled_int [OF assms(2)] by (simp only: of_int_le_iff)
  then have "of_int (2 ^ nat (k - ?u)) * pow2 ?u \<le> rounded q"
    unfolding rounded_def Let_def by (rule mult_right_mono) simp
  then show ?thesis by (simp only: scaled_back [OF assms(2)])
qed

lemma pow2_less_cancel: "pow2 a < pow2 b \<Longrightarrow> a < b"
  using pow2_mono [of b a] by linarith

lemma rounded_mono:
  assumes "0 < p" and "p \<le> q"
  shows "rounded p \<le> rounded q"
proof -
  let ?u = "\<lambda>x. max (lead_exp x - 52) (- 1074)"
  have lp: "pow2 (lead_exp p) \<le> p" "p < pow2 (lead_exp p + 1)"
    and lq: "pow2 (lead_exp q) \<le> q" "q < pow2 (lead_exp q + 1)"
    using lead_exp_bounds [of p] lead_exp_bounds [of q] assms by auto
  then have le: "lead_exp p \<le> lead_exp q" using assms pow2_less_cancel [of "lead_exp p" "lead_exp q + 1"] by linarith
  show ?thesis
  proof (cases "?u p = ?u q")
    case True
    have "round_half_even (p / pow2 (?u q)) \<le> round_half_even (q / pow2 (?u q))"
      using assms by (intro round_half_even_mono divide_right_mono) simp_all
    then show ?thesis unfolding rounded_def Let_def True by (intro mult_right_mono) simp_all
  next
    case False
    with le have e: "lead_exp p < lead_exp q" "- 1074 < lead_exp q - 52" by linarith+
    have "p \<le> pow2 (lead_exp q)" using lp(2) pow2_mono [of "lead_exp p + 1" "lead_exp q"] e(1) by linarith
    then have "rounded p \<le> pow2 (lead_exp q)" using e by (intro rounded_le_pow2) simp_all
    moreover have "pow2 (lead_exp q) \<le> rounded q" using lq(1) e by (intro pow2_le_rounded) simp_all
    ultimately show ?thesis by linarith
  qed
qed

theorem round64_mono:
  assumes "x \<le> y"
  shows "fle (round64 x) (round64 y)"
proof -
  have pos: "fle (round64 p) (round64 q)" if "0 < p" "p \<le> q" for p q :: rat
    using rounded_mono [OF that] that by (auto simp: round64_def Let_def)
  have neg: "round64 (- p) = fneg (round64 p)" for p :: rat
    by (simp add: round64_def Let_def)
  have sgn: "fle (Fin 0) (round64 p)" if "0 \<le> p" for p :: rat
    using that rounded_nonneg [of p] by (auto simp: round64_def Let_def)
  consider "0 < x" | "y < 0" | "x \<le> 0" "0 \<le> y" by linarith
  then show ?thesis
  proof cases
    case 1
    with assms show ?thesis by (intro pos)
  next
    case 2
    then have "fle (round64 (- y)) (round64 (- x))" using assms by (intro pos) simp_all
    then show ?thesis unfolding neg by (cases "round64 x"; cases "round64 y") simp_all
  next
    case 3
    have "fle (round64 x) (Fin 0)" using sgn [of "- x"] 3(1) unfolding neg by (cases "round64 x") simp_all
    then show ?thesis using sgn [OF 3(2)] by (rule fle_trans)
  qed
qed

section \<open>Integers are exact\<close>

text \<open>Every integer of up to 53 bits is a double.\<close>

theorem f_of_int_exact:
  assumes "\<bar>n\<bar> \<le> 2 ^ 53"
  shows "f_of_int n = Fin (of_int n)"
proof (cases "n = 0")
  case False
  let ?q = "of_int \<bar>n\<bar> :: rat"
  have q: "0 < ?q" using False by simp
  have q53: "?q \<le> 2 ^ 53"
    using of_int_le_iff [where 'a = rat, THEN iffD2, OF assms] by simp
  have le: "lead_exp ?q \<le> 53"
  proof (rule ccontr)
    assume "\<not> lead_exp ?q \<le> 53"
    then have "pow2 54 \<le> pow2 (lead_exp ?q)" by (intro pow2_mono) simp
    then have "pow2 54 \<le> ?q" using lead_exp_bounds [OF q] by linarith
    with q53 show False by (simp add: pow2_def)
  qed
  have exact: "rounded ?q = ?q"
  proof (cases "lead_exp ?q \<le> 52")
    case True
    let ?u = "max (lead_exp ?q - 52) (- 1074)"
    from True have "?q / pow2 ?u = of_int (\<bar>n\<bar> * 2 ^ nat (- ?u))" by (auto simp: pow2_def)
    then show ?thesis unfolding rounded_def Let_def by (simp only: round_half_even_of_int) (simp add: field_simps)
  next
    case False
    with le have e: "lead_exp ?q = 53" by simp
    have "pow2 53 \<le> ?q" using lead_exp_bounds [OF q] e by simp
    moreover have "?q \<le> pow2 53" using q53 by (simp add: pow2_def)
    ultimately show ?thesis
      using rounded_le_pow2 [of ?q 53] pow2_le_rounded [of 53 ?q] e by simp
  qed
  have "pow2 53 < pow2 1024" by (simp add: pow2_def)
  with q53 have "?q < pow2 1024" by (simp add: pow2_def)
  then show ?thesis using False exact
    by (auto simp: f_of_int_def round64_def Let_def abs_if not_le split: if_splits)
qed (simp add: f_of_int_def round64_def)

end
