(* ===== verification/Run_Model.thy ===== *)
theory Run_Model
  imports Go_Prelude
begin

text \<open>
  The values every stage of a run passes on: \<open>models.Insight\<close> (\<open>internal/models/insight.go\<close>), the
  collector result \<open>runner.Result\<close> with its error (\<open>internal/runner/runner.go\<close>), the availability
  contract (\<open>internal/runner/availability.go\<close>), and the coverage vocabulary
  (\<open>internal/models/coverage.go\<close>).
\<close>

section \<open>Insights\<close>

record details =
  DType :: gostring
  Title :: gostring
  Columns :: "gostring list"
  Rows :: "gostring list list"
  KV :: "(gostring, gostring) gomap"
  Note :: gostring

record insight =
  Level :: gostring
  Check :: gostring
  Message :: gostring
  Hints :: "gostring list"
  Details :: "details option"
  Unverified :: bool
  NeedsRoot :: bool
  UnverifiedReason :: gostring

text \<open>The levels; \<open>Level\<close> is a string in the code, so any other value can occur.\<close>

abbreviation CRIT :: gostring where "CRIT \<equiv> ''CRIT''"
abbreviation WARN :: gostring where "WARN \<equiv> ''WARN''"
abbreviation INFO :: gostring where "INFO \<equiv> ''INFO''"
abbreviation OK :: gostring where "OK \<equiv> ''OK''"

text \<open>An insight given by level, check and message, as a composite literal leaves the rest zero.\<close>

definition mk_insight :: "gostring \<Rightarrow> gostring \<Rightarrow> gostring \<Rightarrow> insight" where
  "mk_insight l c m =
     \<lparr>Level = l, Check = c, Message = m, Hints = [], Details = None,
      Unverified = False, NeedsRoot = False, UnverifiedReason = []\<rparr>"

lemma mk_insight_sel [simp]:
  "Level (mk_insight l c m) = l" "Check (mk_insight l c m) = c" "Message (mk_insight l c m) = m"
  "Hints (mk_insight l c m) = []" "Unverified (mk_insight l c m) = False"
  "NeedsRoot (mk_insight l c m) = False" "UnverifiedReason (mk_insight l c m) = []"
  by (simp_all add: mk_insight_def)

section \<open>Errors and results\<close>

text \<open>
  What the code asks of an error value: its text, and which sentinels \<open>errors.Is\<close> finds in its
  chain. The message is never inspected to classify an error.
\<close>

datatype sentinel =
    DeadlineExceeded | ErrNotRecorded | ErrPermission | ErrParse | ErrNotExist | ErrExecNotFound

record go_error =
  ErrText :: gostring
  ErrChain :: "sentinel list"

definition errors_Is :: "go_error \<Rightarrow> sentinel \<Rightarrow> bool" where
  "errors_Is e s \<longleftrightarrow> s \<in> set (ErrChain e)"

text \<open>
  The \<open>any\<close>-typed data of a result, up to what the generic code observes of it: whether it is nil,
  and the answer of its \<open>IsAvailable\<close> method if its type has one.
\<close>

datatype data = NilData | Data "bool option"

record result =
  Name :: gostring
  RData :: data
  Err :: "go_error option"
  Duration :: int
  Absent :: gostring
  NotRecorded :: bool

definition IsAvailable :: "data \<Rightarrow> bool" where
  "IsAvailable d = (case d of NilData \<Rightarrow> False | Data (Some a) \<Rightarrow> a | Data None \<Rightarrow> True)"

definition mk_result :: "gostring \<Rightarrow> data \<Rightarrow> go_error option \<Rightarrow> result" where
  "mk_result n d e =
     \<lparr>Name = n, RData = d, Err = e, Duration = 0, Absent = [], NotRecorded = False\<rparr>"

lemma mk_result_sel [simp]:
  "Name (mk_result n d e) = n" "RData (mk_result n d e) = d" "Err (mk_result n d e) = e"
  "Absent (mk_result n d e) = []" "Duration (mk_result n d e) = 0" "NotRecorded (mk_result n d e) = False"
  by (simp_all add: mk_result_def)

section \<open>Coverage vocabulary\<close>

definition CoverageChecked :: gostring where "CoverageChecked = ''checked''"
definition CoverageNotChecked :: gostring where "CoverageNotChecked = ''not_checked''"
definition CoverageNotApplicable :: gostring where "CoverageNotApplicable = ''not_applicable''"

definition ReasonNeedsRoot :: gostring where "ReasonNeedsRoot = ''needs_root''"
definition ReasonTimeout :: gostring where "ReasonTimeout = ''timeout''"
definition ReasonUnreadable :: gostring where "ReasonUnreadable = ''unreadable''"
definition ReasonCollectorError :: gostring where "ReasonCollectorError = ''collector_error''"
definition ReasonParse :: gostring where "ReasonParse = ''parse''"
definition ReasonNotRecorded :: gostring where "ReasonNotRecorded = ''not_recorded''"
definition ReasonUnverified :: gostring where "ReasonUnverified = ''unverified''"
definition ReasonNotPresent :: gostring where "ReasonNotPresent = ''not_present''"
definition ReasonNotSupportedPlatform :: gostring where
  "ReasonNotSupportedPlatform = ''not_supported_platform''"

lemmas coverage_consts =
  CoverageChecked_def CoverageNotChecked_def CoverageNotApplicable_def
lemmas reason_consts =
  ReasonNeedsRoot_def ReasonTimeout_def ReasonUnreadable_def ReasonCollectorError_def ReasonParse_def
  ReasonNotRecorded_def ReasonUnverified_def ReasonNotPresent_def ReasonNotSupportedPlatform_def

definition CoverageReasons :: "gostring list" where
  "CoverageReasons =
     [ReasonNeedsRoot, ReasonTimeout, ReasonUnreadable, ReasonCollectorError, ReasonParse,
      ReasonNotRecorded, ReasonUnverified, ReasonNotPresent, ReasonNotSupportedPlatform]"

definition UnverifiedReasons :: "gostring list" where
  "UnverifiedReasons =
     [ReasonNeedsRoot, ReasonTimeout, ReasonUnreadable, ReasonCollectorError, ReasonParse,
      ReasonNotRecorded]"

definition ReasonOfErr :: "go_error \<Rightarrow> gostring" where
  "ReasonOfErr e =
     (if errors_Is e DeadlineExceeded then ReasonTimeout
      else if errors_Is e ErrNotRecorded then ReasonNotRecorded
      else if errors_Is e ErrPermission then ReasonUnreadable
      else if errors_Is e ErrParse then ReasonParse
      else ReasonCollectorError)"

record sub_check =
  SCheck :: gostring
  SReason :: gostring
  SMessage :: gostring

record check_coverage =
  CName :: gostring
  Coverage :: gostring
  Reason :: gostring
  NotCheckedSubchecks :: "sub_check list"

record coverage_summary =
  Checked :: int
  NotChecked :: int
  NotApplicable :: int
  Partial :: int
  Reasons :: "(gostring, int) gomap"
  Checks :: "check_coverage list"

lemma ReasonOfErr_unverified: "ReasonOfErr e \<in> set UnverifiedReasons \<and> ReasonOfErr e \<noteq> ReasonNeedsRoot"
  by (simp add: ReasonOfErr_def UnverifiedReasons_def reason_consts)

section \<open>Counting\<close>

text \<open>\<open>m[k] = struct{}{}\<close> on a map used as a set.\<close>

definition set_put :: "'a \<Rightarrow> 'a list \<Rightarrow> 'a list" where
  "set_put k xs = (if k \<in> set xs then xs else xs @ [k])"

lemma set_set_put [simp]: "set (set_put k xs) = insert k (set xs)"
  by (auto simp: set_put_def)

lemma distinct_set_put [simp]: "distinct xs \<Longrightarrow> distinct (set_put k xs)"
  by (simp add: set_put_def)

definition count_by :: "('a \<Rightarrow> bool) \<Rightarrow> 'a list \<Rightarrow> int" where
  "count_by P xs = int (length (filter P xs))"

lemma count_by_simps [simp]:
  "count_by P [] = 0"
  "count_by P (x # xs) = (if P x then 1 else 0) + count_by P xs"
  by (simp_all add: count_by_def)

lemma count_by_append [simp]: "count_by P (xs @ ys) = count_by P xs + count_by P ys"
  by (simp add: count_by_def)

lemma count_by_nonneg [simp]: "0 \<le> count_by P xs"
  by (simp add: count_by_def)

lemma count_by_pos: "0 < count_by P xs \<longleftrightarrow> (\<exists>x \<in> set xs. P x)"
  by (induction xs) (auto intro: add_pos_nonneg)

lemma count_by_zero: "count_by P xs = 0 \<longleftrightarrow> (\<forall>x \<in> set xs. \<not> P x)"
  by (induction xs) (auto simp: add_nonneg_eq_0_iff)

lemma count_by_mono: "(\<And>x. P x \<Longrightarrow> Q x) \<Longrightarrow> count_by P xs \<le> count_by Q xs"
  by (induction xs) auto

lemma count_by_split: "count_by P xs = count_by (\<lambda>x. P x \<and> Q x) xs + count_by (\<lambda>x. P x \<and> \<not> Q x) xs"
  by (induction xs) auto

end
