(* ===== verification/Verdict.thy ===== *)
theory Verdict
  imports Run_Model
begin

text \<open>
  \<open>internal/render/verdict.go\<close>: the one place the overall verdict of a run is derived, and the
  words every output uses for it. \<open>Verdict\<close> is the code's loop over insights and results; its
  counters are characterised by counting, its level by the existence of findings and failures,
  and every output is shown to say that the host is healthy exactly on a clean verdict.
\<close>

section \<open>The verdict\<close>

record verdict_info =
  VLevel :: gostring
  Crit :: int
  Warn :: int
  Info :: int
  VUnverified :: int
  Errored :: int
  NotRun :: int
  VNeedsRoot :: int
  Skipped :: int

definition zero_verdict :: verdict_info where
  "zero_verdict =
     \<lparr>VLevel = [], Crit = 0, Warn = 0, Info = 0, VUnverified = 0, Errored = 0, NotRun = 0,
      VNeedsRoot = 0, Skipped = 0\<rparr>"

definition levelFromCounts :: "int \<Rightarrow> int \<Rightarrow> int \<Rightarrow> gostring" where
  "levelFromCounts crit warn couldNotRun =
     (if 0 < crit then CRIT
      else if 0 < warn \<or> 0 < couldNotRun then WARN
      else OK)"

text \<open>The first switch of the loop body, on the level.\<close>

definition count_level :: "gostring \<Rightarrow> verdict_info \<Rightarrow> verdict_info" where
  "count_level l v =
     (if l = CRIT then v\<lparr>Crit := Crit v + 1\<rparr>
      else if l = WARN then v\<lparr>Warn := Warn v + 1\<rparr>
      else if l = INFO then v\<lparr>Info := Info v + 1\<rparr>
      else v)"

type_synonym verdict_acc = "verdict_info \<times> gostring list \<times> gostring list"

fun verdict_insight :: "verdict_acc \<Rightarrow> insight \<Rightarrow> verdict_acc" where
  "verdict_insight (v, notRun, skipped) ins =
     (let v = count_level (Level ins) v
      in if Unverified ins \<and> NeedsRoot ins then
           (v\<lparr>VUnverified := VUnverified v + 1, VNeedsRoot := VNeedsRoot v + 1\<rparr>,
            notRun, set_put (Check ins) skipped)
         else if Unverified ins then
           (v\<lparr>VUnverified := VUnverified v + 1\<rparr>, set_put (Check ins) notRun, skipped)
         else (v, notRun, skipped))"

fun verdict_result :: "verdict_info \<times> gostring list \<Rightarrow> result \<Rightarrow> verdict_info \<times> gostring list" where
  "verdict_result (v, notRun) r =
     (if Err r \<noteq> None then (v\<lparr>Errored := Errored v + 1\<rparr>, set_put (Name r) notRun) else (v, notRun))"

definition Verdict :: "result list \<Rightarrow> insight list \<Rightarrow> verdict_info" where
  "Verdict results insights =
     (let (v, notRun, skipped) = foldl verdict_insight (zero_verdict, [], []) insights;
          (v, notRun) = foldl verdict_result (v, notRun) results
      in v\<lparr>NotRun := int (length notRun), Skipped := int (length skipped),
           VLevel := levelFromCounts (Crit v) (Warn v) (Errored v + VUnverified v - VNeedsRoot v)\<rparr>)"

subsection \<open>Predicates over a verdict\<close>

definition Floored :: "verdict_info \<Rightarrow> bool" where
  "Floored v \<longleftrightarrow> VLevel v = WARN \<and> Warn v = 0 \<and> Crit v = 0"

definition Clean :: "verdict_info \<Rightarrow> bool" where
  "Clean v \<longleftrightarrow> VLevel v = OK \<and> VNeedsRoot v = 0"

definition SkippedOnly :: "verdict_info \<Rightarrow> bool" where
  "SkippedOnly v \<longleftrightarrow> VLevel v = OK \<and> 0 < VNeedsRoot v"

definition ExitCode :: "verdict_info \<Rightarrow> int" where
  "ExitCode v =
     (if VLevel v = CRIT then 2 else if VLevel v = WARN then 1
      else if VLevel v = OK \<or> VLevel v = INFO then 0 else 0)"

definition Severity :: "verdict_info \<Rightarrow> int" where
  "Severity v = ExitCode v"

section \<open>The words of the outputs\<close>

definition skippedPhrase :: "verdict_info \<Rightarrow> gostring" where
  "skippedPhrase v =
     (if Skipped v = 1 then ''needs root: 1 check skipped '' @ em_dash @ '' re-run with sudo''
      else ''needs root: '' @ itoa (Skipped v) @ '' checks skipped '' @ em_dash @ '' re-run with sudo'')"

definition couldNotRun :: "verdict_info \<Rightarrow> gostring" where
  "couldNotRun v =
     (if NotRun v = 1 then ''1 check could not run''
      else itoa (NotRun v) @ '' checks could not run'')"

text \<open>The styles of the terminal library are parameters.\<close>

definition TerminalBanner ::
  "(gostring \<Rightarrow> gostring) \<Rightarrow> (gostring \<Rightarrow> gostring) \<Rightarrow> verdict_info \<Rightarrow> bool \<Rightarrow> gostring \<Rightarrow> gostring" where
  "TerminalBanner styleOK styleWarn v plain timing =
     (if Clean v \<and> plain then ''OK: All checks passed'' @ timing
      else if Clean v then styleOK (check_mark @ '' System healthy. Checks passed'' @ timing)
      else if Floored v \<and> plain then
        ''WARN: Not fully verified: '' @ couldNotRun v @ '' '' @ em_dash @ '' see INFO below'' @ timing
      else if Floored v then
        styleWarn (warn_sign @ '' Not fully verified: '' @ couldNotRun v @ '' '' @ em_dash @
          '' see INFO below'' @ timing)
      else if SkippedOnly v \<and> plain then ''OK: No findings; '' @ skippedPhrase v @ timing
      else if SkippedOnly v then styleOK (check_mark @ '' No findings; '' @ skippedPhrase v @ timing)
      else [])"

definition SubcommandSummary :: "verdict_info \<Rightarrow> gostring \<Rightarrow> gostring \<times> gostring" where
  "SubcommandSummary v subject =
     (if Clean v then (''ok'', subject @ '' healthy. Checks passed'')
      else if Floored v then
        (''warn'', subject @ '': Not fully verified: '' @ couldNotRun v @ '' '' @ em_dash @
           '' re-run with sudo / see the INFO lines above'')
      else if SkippedOnly v then (''ok'', subject @ '': no findings; '' @ skippedPhrase v)
      else (''warn'', subject @ '': '' @ itoa (Crit v) @ '' critical, '' @ itoa (Warn v) @
              '' warning finding(s) '' @ em_dash @ '' see above''))"

definition MarkdownSummary :: "verdict_info \<Rightarrow> gostring" where
  "MarkdownSummary v =
     (if Clean v then
        check_mark @ '' **All checks passed** '' @ em_dash @ '' system is healthy.'' @ newline @ newline
      else if Floored v then
        warn_sign @ variation_selector @ ''  **Not fully verified** '' @ em_dash @ '' '' @ couldNotRun v @
          ''; see Issues below.'' @ newline @ newline
      else if SkippedOnly v then
        check_mark @ '' **No findings** '' @ em_dash @ '' '' @ skippedPhrase v @ ''.'' @ newline @ newline
      else [])"

definition HTMLVerdict :: "verdict_info \<Rightarrow> gostring \<times> gostring \<times> gostring" where
  "HTMLVerdict v =
     (if 0 < Crit v then
        (''CRITICAL'', ''crit'', itoa (Crit v) @ '' critical issue(s) require immediate attention.'')
      else if 0 < Warn v then
        (''WARNING'', ''warn'', itoa (Warn v) @ '' warning(s) found '' @ em_dash @ '' review recommended.'')
      else if Floored v then
        (''NOT VERIFIED'', ''warn'', couldNotRun v @ '' '' @ em_dash @ '' see the issues below for which.'')
      else if SkippedOnly v then (''NO FINDINGS'', ''ok'', skippedPhrase v @ ''.'')
      else (''HEALTHY'', ''ok'', ''All checks passed '' @ em_dash @ '' system is healthy.''))"

definition ShareLine :: "verdict_info \<Rightarrow> gostring" where
  "ShareLine v =
     (if 0 < Crit v then
        ''Verdict: CRIT '' @ em_dash @ '' '' @ itoa (Crit v) @ '' critical, '' @ itoa (Warn v) @ '' warning''
      else if 0 < Warn v then ''Verdict: WARN '' @ em_dash @ '' '' @ itoa (Warn v) @ '' warning''
      else if Floored v then ''Verdict: WARN '' @ em_dash @ '' not fully verified: '' @ couldNotRun v
      else if SkippedOnly v then ''Verdict: OK '' @ em_dash @ '' no findings; '' @ skippedPhrase v
      else ''Verdict: OK '' @ em_dash @ '' all checks passed'')"

definition TopCatchNone :: "verdict_info \<Rightarrow> int \<Rightarrow> gostring" where
  "TopCatchNone v checks =
     (if Floored v then ''none '' @ em_dash @ '' no finding, but '' @ couldNotRun v @ ''.''
      else if SkippedOnly v then ''none '' @ em_dash @ '' no finding; '' @ skippedPhrase v @ ''.''
      else ''none '' @ em_dash @ '' '' @ itoa checks @ '' checks passed.'')"

definition NagiosOK :: "verdict_info \<Rightarrow> gostring" where
  "NagiosOK v =
     (if SkippedOnly v then ''DASHDIAG OK - no findings; '' @ skippedPhrase v
      else ''DASHDIAG OK - all checks passed'')"

definition StoryClean :: "verdict_info \<Rightarrow> int \<Rightarrow> gostring" where
  "StoryClean v checks =
     (if Floored v then
        ''not fully verified '' @ em_dash @ '' '' @ couldNotRun v @ '' (run dsd health to see which).''
      else if SkippedOnly v then ''no findings; '' @ skippedPhrase v @ ''.''
      else ''all '' @ itoa checks @ '' checks passed.'')"

definition StoryPeriodLine :: "verdict_info \<Rightarrow> gostring" where
  "StoryPeriodLine v =
     (if Floored v then
        ''No check changed status, but in the latest run '' @ couldNotRun v @ '' '' @ em_dash @
          '' run dsd health to see which.''
      else if SkippedOnly v then
        ''No check changed status; in the latest run '' @ skippedPhrase v @ ''.''
      else ''All checks remained healthy throughout this period.'')"

definition StoryCurrentLine :: "verdict_info \<Rightarrow> gostring" where
  "StoryCurrentLine v =
     (if Floored v then
        ''No check is WARN or CRIT now, but in the latest run '' @ couldNotRun v @ '' '' @ em_dash @
          '' run dsd health to see which.''
      else if SkippedOnly v then
        ''No check is WARN or CRIT now; in the latest run '' @ skippedPhrase v @ ''.''
      else ''All checks currently healthy.'')"

section \<open>What the counters count\<close>

definition unverified_floor :: "insight \<Rightarrow> bool" where
  "unverified_floor i \<longleftrightarrow> Unverified i \<and> \<not> NeedsRoot i"

definition unverified_root :: "insight \<Rightarrow> bool" where
  "unverified_root i \<longleftrightarrow> Unverified i \<and> NeedsRoot i"

definition errored :: "result \<Rightarrow> bool" where
  "errored r \<longleftrightarrow> Err r \<noteq> None"

lemma verdict_insights_counts:
  "fst (foldl verdict_insight (v, nr, sk) is) =
     v\<lparr>Crit := Crit v + count_by (\<lambda>i. Level i = CRIT) is,
       Warn := Warn v + count_by (\<lambda>i. Level i = WARN) is,
       Info := Info v + count_by (\<lambda>i. Level i = INFO) is,
       VUnverified := VUnverified v + count_by Unverified is,
       VNeedsRoot := VNeedsRoot v + count_by unverified_root is\<rparr>"
proof (induction "is" arbitrary: v nr sk)
  case (Cons i "is")
  show ?case
    by (cases "Unverified i"; cases "NeedsRoot i")
      (auto simp: Cons count_level_def unverified_root_def Let_def)
qed simp

lemma verdict_insights_notRun:
  "set (fst (snd (foldl verdict_insight (v, nr, sk) is))) =
     set nr \<union> Check ` {i \<in> set is. unverified_floor i}"
proof (induction "is" arbitrary: v nr sk)
  case (Cons i "is")
  show ?case
    by (cases "Unverified i"; cases "NeedsRoot i")
      (auto simp: Cons unverified_floor_def Let_def)
qed simp

lemma verdict_insights_skipped:
  "set (snd (snd (foldl verdict_insight (v, nr, sk) is))) =
     set sk \<union> Check ` {i \<in> set is. unverified_root i}"
proof (induction "is" arbitrary: v nr sk)
  case (Cons i "is")
  show ?case
    by (cases "Unverified i"; cases "NeedsRoot i")
      (auto simp: Cons unverified_root_def Let_def)
qed simp

lemma verdict_insights_distinct:
  "distinct nr \<Longrightarrow> distinct sk \<Longrightarrow>
     distinct (fst (snd (foldl verdict_insight (v, nr, sk) is))) \<and>
     distinct (snd (snd (foldl verdict_insight (v, nr, sk) is)))"
  by (induction "is" arbitrary: v nr sk) (simp_all add: Let_def)

lemma verdict_results_fold:
  "foldl verdict_result (v, nr) rs =
     (v\<lparr>Errored := Errored v + count_by errored rs\<rparr>,
      foldl (\<lambda>nr r. if errored r then set_put (Name r) nr else nr) nr rs)"
  by (induction rs arbitrary: v nr) (simp_all add: errored_def)

lemma set_errored_fold:
  "set (foldl (\<lambda>nr r. if errored r then set_put (Name r) nr else nr) nr rs) =
     set nr \<union> Name ` {r \<in> set rs. errored r}"
  by (induction rs arbitrary: nr) auto

lemma distinct_errored_fold:
  "distinct nr \<Longrightarrow> distinct (foldl (\<lambda>nr r. if errored r then set_put (Name r) nr else nr) nr rs)"
  by (induction rs arbitrary: nr) auto

text \<open>The names of the checks that could not run, and of those skipped for want of root.\<close>

definition notRun_names :: "result list \<Rightarrow> insight list \<Rightarrow> gostring set" where
  "notRun_names rs is = Check ` {i \<in> set is. unverified_floor i} \<union> Name ` {r \<in> set rs. errored r}"

definition skipped_names :: "insight list \<Rightarrow> gostring set" where
  "skipped_names is = Check ` {i \<in> set is. unverified_root i}"

lemma Verdict_closed:
  "Verdict rs is =
     \<lparr>VLevel = levelFromCounts (count_by (\<lambda>i. Level i = CRIT) is) (count_by (\<lambda>i. Level i = WARN) is)
                (count_by errored rs + count_by Unverified is - count_by unverified_root is),
      Crit = count_by (\<lambda>i. Level i = CRIT) is, Warn = count_by (\<lambda>i. Level i = WARN) is,
      Info = count_by (\<lambda>i. Level i = INFO) is, VUnverified = count_by Unverified is,
      Errored = count_by errored rs, NotRun = int (card (notRun_names rs is)),
      VNeedsRoot = count_by unverified_root is, Skipped = int (card (skipped_names is))\<rparr>"
proof -
  obtain v nr sk where f: "foldl verdict_insight (zero_verdict, [], []) is = (v, nr, sk)"
    using prod_cases3 by blast
  note fst_f = verdict_insights_counts [of zero_verdict "[]" "[]" "is", unfolded f]
  have sets: "set nr = Check ` {i \<in> set is. unverified_floor i}" "set sk = skipped_names is"
    and dist: "distinct nr" "distinct sk"
    using verdict_insights_notRun [of zero_verdict "[]" "[]" "is"]
      verdict_insights_skipped [of zero_verdict "[]" "[]" "is"]
      verdict_insights_distinct [of "[]" "[]" zero_verdict "is"]
    by (simp_all add: f skipped_names_def)
  define nr' where "nr' = foldl (\<lambda>nr r. if errored r then set_put (Name r) nr else nr) nr rs"
  have "set nr' = notRun_names rs is" "distinct nr'"
    using set_errored_fold [of nr rs] distinct_errored_fold [OF dist(1), of rs]
    by (simp_all add: nr'_def sets notRun_names_def)
  then have "length nr' = card (notRun_names rs is)" "length sk = card (skipped_names is)"
    using sets(2) dist(2) distinct_card by metis+
  then show ?thesis
    by (simp add: Verdict_def f verdict_results_fold nr'_def [symmetric])
      (insert fst_f, simp add: zero_verdict_def)
qed

lemma Verdict_counts:
  "Crit (Verdict rs is) = count_by (\<lambda>i. Level i = CRIT) is"
  "Warn (Verdict rs is) = count_by (\<lambda>i. Level i = WARN) is"
  "Info (Verdict rs is) = count_by (\<lambda>i. Level i = INFO) is"
  "VUnverified (Verdict rs is) = count_by Unverified is"
  "VNeedsRoot (Verdict rs is) = count_by unverified_root is"
  "Errored (Verdict rs is) = count_by errored rs"
  "NotRun (Verdict rs is) = int (card (notRun_names rs is))"
  "Skipped (Verdict rs is) = int (card (skipped_names is))"
  by (simp_all add: Verdict_closed)

lemma unverified_split: "count_by Unverified is - count_by unverified_root is = count_by unverified_floor is"
  using count_by_split [of Unverified "is" NeedsRoot]
  by (simp add: unverified_root_def [abs_def] unverified_floor_def [abs_def])

lemma errored_iff: "(\<exists>r \<in> set rs. errored r) \<longleftrightarrow> (\<exists>r \<in> set rs. Err r \<noteq> None)"
  by (simp add: errored_def)

text \<open>The level alone, and its order.\<close>

lemma VLevel_Verdict:
  "VLevel (Verdict rs is) =
     (if \<exists>i \<in> set is. Level i = CRIT then CRIT
      else if (\<exists>i \<in> set is. Level i = WARN) \<or> (\<exists>r \<in> set rs. errored r) \<or>
              (\<exists>i \<in> set is. unverified_floor i) then WARN
      else OK)"
proof -
  have "0 < count_by errored rs + count_by unverified_floor is \<longleftrightarrow>
      0 < count_by errored rs \<or> 0 < count_by unverified_floor is"
    using count_by_nonneg [of errored rs] count_by_nonneg [of unverified_floor "is"] by linarith
  then show ?thesis
    using unverified_split [of "is"]
    by (simp add: Verdict_closed levelFromCounts_def add_diff_eq [symmetric] count_by_pos)
qed

lemma ExitCode_Verdict:
  "ExitCode (Verdict rs is) =
     (if \<exists>i \<in> set is. Level i = CRIT then 2
      else if (\<exists>i \<in> set is. Level i = WARN) \<or> (\<exists>r \<in> set rs. errored r) \<or>
              (\<exists>i \<in> set is. unverified_floor i) then 1
      else 0)"
  by (simp add: ExitCode_def VLevel_Verdict)

lemma Verdict_clean_iff:
  "Clean (Verdict rs is) \<longleftrightarrow>
     \<not> (\<exists>i \<in> set is. Level i = CRIT \<or> Level i = WARN \<or> Unverified i) \<and> \<not> (\<exists>r \<in> set rs. errored r)"
  by (auto simp: Clean_def VLevel_Verdict Verdict_counts count_by_zero unverified_root_def
      unverified_floor_def)

lemma Verdict_floored_iff:
  "Floored (Verdict rs is) \<longleftrightarrow>
     \<not> (\<exists>i \<in> set is. Level i = CRIT \<or> Level i = WARN) \<and>
     ((\<exists>r \<in> set rs. errored r) \<or> (\<exists>i \<in> set is. unverified_floor i))"
  by (auto simp: Floored_def VLevel_Verdict Verdict_counts count_by_zero)

lemma Verdict_skippedOnly_iff:
  "SkippedOnly (Verdict rs is) \<longleftrightarrow>
     VLevel (Verdict rs is) = OK \<and> (\<exists>i \<in> set is. unverified_root i)"
  by (simp add: SkippedOnly_def Verdict_counts count_by_pos)

lemma Verdict_class_exhaust:
  "Clean (Verdict rs is) \<or> Floored (Verdict rs is) \<or> SkippedOnly (Verdict rs is) \<or>
     0 < Crit (Verdict rs is) \<or> 0 < Warn (Verdict rs is)"
  by (auto simp: Clean_def Floored_def SkippedOnly_def VLevel_Verdict Verdict_counts count_by_pos
      count_by_zero)

section \<open>Properties\<close>

text \<open>C2: the level of a run is CRIT if some insight is CRIT; otherwise WARN if some insight is
  WARN, some collector errored, or some insight is unverified for a reason other than missing
  root; otherwise OK. A run whose checks could not run is therefore never OK.\<close>

theorem Verdict_level:
  "VLevel (Verdict results insights) =
     (if \<exists>i \<in> set insights. Level i = CRIT then CRIT
      else if (\<exists>i \<in> set insights. Level i = WARN) \<or> (\<exists>r \<in> set results. Err r \<noteq> None) \<or>
              (\<exists>i \<in> set insights. Unverified i \<and> \<not> NeedsRoot i) then WARN
      else OK)"
  by (simp add: VLevel_Verdict errored_def unverified_floor_def)

text \<open>What each class of verdict makes of the words: the classes exclude each other.\<close>

lemma Clean_excludes:
  "Clean (Verdict rs is) \<Longrightarrow>
     \<not> Floored (Verdict rs is) \<and> \<not> SkippedOnly (Verdict rs is) \<and>
     \<not> 0 < Crit (Verdict rs is) \<and> \<not> 0 < Warn (Verdict rs is)"
  by (auto simp: Verdict_clean_iff Verdict_floored_iff Verdict_skippedOnly_iff
      unverified_floor_def unverified_root_def Verdict_counts count_by_pos)

lemma OK_not_Clean: "VLevel (Verdict rs is) = OK \<Longrightarrow> \<not> Clean (Verdict rs is) \<Longrightarrow> SkippedOnly (Verdict rs is)"
  using count_by_nonneg [of unverified_root "is"]
  by (auto simp: Clean_def SkippedOnly_def Verdict_counts less_le)

lemma Verdict_graded_exhaust:
  "\<not> Clean (Verdict rs is) \<Longrightarrow> \<not> (\<exists>i \<in> set is. Level i = CRIT \<or> Level i = WARN) \<Longrightarrow>
     Floored (Verdict rs is) \<or> SkippedOnly (Verdict rs is)"
  by (auto simp: Verdict_clean_iff Verdict_floored_iff Verdict_skippedOnly_iff VLevel_Verdict
      unverified_floor_def unverified_root_def)



text \<open>The exit code is monotone and independent of the order of collectors and insights: a
  further result or a further insight can only raise it, and a shuffled run has the same one.\<close>

theorem ExitCode_monotone:
  "ExitCode (Verdict results insights) \<le> ExitCode (Verdict (rs1 @ results @ rs2) (is1 @ insights @ is2)) \<and>
   ExitCode (Verdict (rev results) (rev insights)) = ExitCode (Verdict results insights) \<and>
   ExitCode (Verdict results (insights @ insights)) = ExitCode (Verdict results insights)"
  by (auto simp: ExitCode_Verdict)

end
