(* ===== verification/Policy.thy ===== *)
theory Policy
  imports Go_Float Verdict
begin

text \<open>
  \<open>internal/analysis/thresholds.go\<close> and \<open>policy.go\<close>: the classification of a measurement against
  its thresholds, the default thresholds of a platform, and the policy file that overrides them.
  Only comparisons with constants occur, so no rounding is involved. The constants 0.7 and 0.9 are the doubles the compiler
  stores. The parser of the YAML library and the file system are parameters.
\<close>

section \<open>Classification\<close>

definition levelPct :: "f64 \<Rightarrow> f64 \<Rightarrow> f64 \<Rightarrow> gostring" where
  "levelPct val warn crit = (if fle crit val then CRIT else if fle warn val then WARN else [])"

definition DefaultDiskWarnPct :: f64 where "DefaultDiskWarnPct = Fin 80"
definition DefaultDiskCritPct :: f64 where "DefaultDiskCritPct = Fin 90"

definition LVMThinPoolWarnPct :: f64 where "LVMThinPoolWarnPct = Fin 80"
definition LVMThinPoolCritPct :: f64 where "LVMThinPoolCritPct = Fin 90"
definition LVMSnapshotWarnPct :: f64 where "LVMSnapshotWarnPct = Fin 80"
definition LVMSnapshotCritPct :: f64 where "LVMSnapshotCritPct = Fin 95"
definition PVEStorageWarnPct :: f64 where "PVEStorageWarnPct = Fin 80"
definition PVEStorageCritPct :: f64 where "PVEStorageCritPct = Fin 90"
definition GatewayPacketLossWarnPct :: f64 where "GatewayPacketLossWarnPct = Fin 10"
definition GatewayPacketLossCritPct :: f64 where "GatewayPacketLossCritPct = Fin 50"
definition DNSResolveWarnMs :: f64 where "DNSResolveWarnMs = Fin 250"
definition DNSResolveCritMs :: f64 where "DNSResolveCritMs = Fin 500"

definition GatewayPacketLossLevel :: "f64 \<Rightarrow> gostring" where
  "GatewayPacketLossLevel lossPct = levelPct lossPct GatewayPacketLossWarnPct GatewayPacketLossCritPct"

definition DNSResolveLevel :: "f64 \<Rightarrow> gostring" where
  "DNSResolveLevel ms = levelPct ms DNSResolveWarnMs DNSResolveCritMs"

definition LVMThinPoolLevel :: "f64 \<Rightarrow> gostring" where
  "LVMThinPoolLevel dataPct = levelPct dataPct LVMThinPoolWarnPct LVMThinPoolCritPct"

definition LVMSnapshotLevel :: "f64 \<Rightarrow> gostring" where
  "LVMSnapshotLevel dataPct = levelPct dataPct LVMSnapshotWarnPct LVMSnapshotCritPct"

definition PVEStorageLevel :: "f64 \<Rightarrow> gostring" where
  "PVEStorageLevel usedPct = levelPct usedPct PVEStorageWarnPct PVEStorageCritPct"

lemmas level_consts =
  LVMThinPoolWarnPct_def LVMThinPoolCritPct_def LVMSnapshotWarnPct_def LVMSnapshotCritPct_def
  PVEStorageWarnPct_def PVEStorageCritPct_def GatewayPacketLossWarnPct_def GatewayPacketLossCritPct_def
  DNSResolveWarnMs_def DNSResolveCritMs_def

section \<open>Thresholds\<close>

record thresholds =
  CPULoadWarnMultiplier :: f64
  CPULoadCritMultiplier :: f64
  RAMWarnPct :: f64
  RAMCritPct :: f64
  SlabWarnPct :: f64
  DiskWarnPct :: f64
  DiskCritPct :: f64
  SwapWarnPct :: f64
  SwapCritPct :: f64
  SwapActivityWarn :: f64
  SwapActivityCrit :: f64
  IOUtilWarnPctSSD :: f64
  IOUtilCritPctSSD :: f64
  IOAwaitWarnMsSSD :: f64
  IOAwaitCritMsSSD :: f64
  NTPOffsetWarnMs :: f64
  NTPOffsetCritMs :: f64
  FDSystemWarnPct :: f64
  FDSystemCritPct :: f64
  FDProcWarnPct :: f64
  ZombieWarnCount :: int
  HungDStateCrit :: int
  JournalSizeWarnGB :: f64
  JournalSizeCritGB :: f64
  SELinuxDenialsWarnPerHr :: int
  SELinuxDenialsCritPerHr :: int
  PackageManager :: gostring
  CPULoadPct :: f64

datatype cloud_environment =
    EnvUnknown | EnvBareMetal | EnvAWSEBS | EnvAWSNVMe | EnvGCP | EnvAzure | EnvDigitalOcean
  | EnvHetzner | EnvOracleCloud | EnvVultr | EnvVirtualized

definition await_limits :: "cloud_environment \<Rightarrow> f64 \<times> f64" where
  "await_limits env =
     (if env \<in> {EnvAWSEBS, EnvGCP, EnvAzure, EnvVirtualized} then (Fin 5, Fin 20)
      else if env \<in> {EnvAWSNVMe, EnvBareMetal} then (Fin 1, Fin 5)
      else (Fin 2, Fin 10))"

definition DefaultThresholds :: "cloud_environment \<Rightarrow> thresholds" where
  "DefaultThresholds env =
     \<lparr>CPULoadWarnMultiplier = Fin (3152519739159347 / 4503599627370496),
      CPULoadCritMultiplier = Fin (8106479329266893 / 9007199254740992),
      RAMWarnPct = Fin 80, RAMCritPct = Fin 95, SlabWarnPct = Fin 20,
      DiskWarnPct = DefaultDiskWarnPct, DiskCritPct = DefaultDiskCritPct,
      SwapWarnPct = Fin 20, SwapCritPct = Fin 60, SwapActivityWarn = Fin 50, SwapActivityCrit = Fin 100,
      IOUtilWarnPctSSD = Fin 60, IOUtilCritPctSSD = Fin 85,
      IOAwaitWarnMsSSD = fst (await_limits env), IOAwaitCritMsSSD = snd (await_limits env),
      NTPOffsetWarnMs = Fin 100, NTPOffsetCritMs = Fin 500,
      FDSystemWarnPct = Fin 80, FDSystemCritPct = Fin 90, FDProcWarnPct = Fin 80,
      ZombieWarnCount = 1, HungDStateCrit = 5,
      JournalSizeWarnGB = Fin 2, JournalSizeCritGB = Fin 5,
      SELinuxDenialsWarnPerHr = 1, SELinuxDenialsCritPerHr = 10,
      PackageManager = [], CPULoadPct = Fin 0\<rparr>"

definition ApplyContainerThresholds :: "thresholds \<Rightarrow> thresholds" where
  "ApplyContainerThresholds t =
     (let t = (if flt (IOAwaitWarnMsSSD t) (Fin 5) then t\<lparr>IOAwaitWarnMsSSD := Fin 5\<rparr> else t)
      in if flt (IOAwaitCritMsSSD t) (Fin 20) then t\<lparr>IOAwaitCritMsSSD := Fin 20\<rparr> else t)"

section \<open>Policy files\<close>

record policy =
  PRAMWarnPct :: f64
  PRAMCritPct :: f64
  PSlabWarnPct :: f64
  PCPULoadWarnMultiplier :: f64
  PCPULoadCritMultiplier :: f64
  PDiskWarnPct :: f64
  PDiskCritPct :: f64
  PSwapWarnPct :: f64
  PSwapCritPct :: f64
  PSwapActivityWarn :: f64
  PSwapActivityCrit :: f64
  PIOAwaitWarnMs :: f64
  PIOAwaitCritMs :: f64
  PIOUtilWarnPct :: f64
  PIOUtilCritPct :: f64
  PNTPOffsetWarnMs :: f64
  PNTPOffsetCritMs :: f64
  PFDSystemWarnPct :: f64
  PFDSystemCritPct :: f64
  PZombieWarnCount :: int
  PHungDStateCrit :: int
  Deny :: "gostring list"

datatype policy_error =
    CannotStat | TooLarge int | CannotRead | CannotParse
  | BadPercentage gostring | BadThreshold gostring | BadDeny nat gostring

definition pct_fields :: "policy \<Rightarrow> (gostring \<times> f64) list" where
  "pct_fields p =
     [(''ram_warn_pct'', PRAMWarnPct p), (''ram_crit_pct'', PRAMCritPct p),
      (''slab_warn_pct'', PSlabWarnPct p),
      (''disk_warn_pct'', PDiskWarnPct p), (''disk_crit_pct'', PDiskCritPct p),
      (''swap_warn_pct'', PSwapWarnPct p), (''swap_crit_pct'', PSwapCritPct p),
      (''io_util_warn_pct'', PIOUtilWarnPct p), (''io_util_crit_pct'', PIOUtilCritPct p),
      (''fd_system_warn_pct'', PFDSystemWarnPct p), (''fd_system_crit_pct'', PFDSystemCritPct p)]"

definition other_fields :: "policy \<Rightarrow> (gostring \<times> f64) list" where
  "other_fields p =
     [(''cpu_load_warn_multiplier'', PCPULoadWarnMultiplier p),
      (''cpu_load_crit_multiplier'', PCPULoadCritMultiplier p),
      (''swap_activity_warn'', PSwapActivityWarn p), (''swap_activity_crit'', PSwapActivityCrit p),
      (''io_await_warn_ms'', PIOAwaitWarnMs p), (''io_await_crit_ms'', PIOAwaitCritMs p),
      (''ntp_offset_warn_ms'', PNTPOffsetWarnMs p), (''ntp_offset_crit_ms'', PNTPOffsetCritMs p)]"

definition bad_pct :: "f64 \<Rightarrow> bool" where
  "bad_pct v \<longleftrightarrow> v \<noteq> Fin 0 \<and> (IsInf v \<or> IsNaN v \<or> flt v (Fin 0) \<or> flt (Fin 100) v)"

definition bad_threshold :: "f64 \<Rightarrow> bool" where
  "bad_threshold v \<longleftrightarrow> v \<noteq> Fin 0 \<and> (IsInf v \<or> IsNaN v \<or> flt v (Fin 0))"

text \<open>The loop over the deny list, which normalises its entries in place.\<close>

fun validate_deny :: "nat \<Rightarrow> gostring list \<Rightarrow> policy_error + gostring list" where
  "validate_deny i [] = Inr []"
| "validate_deny i (d # ds) =
     (let u = to_upper (trim_space d)
      in if u \<noteq> WARN \<and> u \<noteq> CRIT then Inl (BadDeny i d)
         else (case validate_deny (Suc i) ds of Inl e \<Rightarrow> Inl e | Inr us \<Rightarrow> Inr (u # us)))"

definition validatePolicy :: "policy \<Rightarrow> policy_error + policy" where
  "validatePolicy p =
     (case find (\<lambda>(n, v). bad_pct v) (pct_fields p) of
        Some (n, v) \<Rightarrow> Inl (BadPercentage n)
      | None \<Rightarrow>
          (case find (\<lambda>(n, v). bad_threshold v) (other_fields p) of
             Some (n, v) \<Rightarrow> Inl (BadThreshold n)
           | None \<Rightarrow>
               (case validate_deny 0 (Deny p) of
                  Inl e \<Rightarrow> Inl e
                | Inr ds \<Rightarrow> Inr (p\<lparr>Deny := ds\<rparr>))))"

definition maxPolicyFileBytes :: int where
  "maxPolicyFileBytes = 1048576"

text \<open>
  \<open>LoadPolicy\<close>: the size that \<open>Stat\<close> reports, the bytes that \<open>ReadFile\<close> returns (\<^const>\<open>None\<close> is a
  failed call) and the YAML decoder are parameters.
\<close>

definition LoadPolicy ::
  "int option \<Rightarrow> gostring option \<Rightarrow> (gostring \<Rightarrow> policy option) \<Rightarrow> policy_error + policy" where
  "LoadPolicy stat_size contents yaml_unmarshal =
     (case stat_size of
        None \<Rightarrow> Inl CannotStat
      | Some n \<Rightarrow>
          if maxPolicyFileBytes < n then Inl (TooLarge n)
          else (case contents of
                  None \<Rightarrow> Inl CannotRead
                | Some bytes \<Rightarrow>
                    (case yaml_unmarshal bytes of
                       None \<Rightarrow> Inl CannotParse
                     | Some p \<Rightarrow> validatePolicy p)))"

text \<open>One \<open>if p.X > 0 { t.Y = p.X }\<close>.\<close>

definition override :: "f64 \<Rightarrow> f64 \<Rightarrow> f64" where
  "override x old = (if flt (Fin 0) x then x else old)"

definition override_int :: "int \<Rightarrow> int \<Rightarrow> int" where
  "override_int x old = (if 0 < x then x else old)"

definition ApplyPolicy :: "thresholds \<Rightarrow> policy option \<Rightarrow> thresholds" where
  "ApplyPolicy t po =
     (case po of None \<Rightarrow> t | Some p \<Rightarrow>
       t\<lparr>RAMWarnPct := override (PRAMWarnPct p) (RAMWarnPct t),
         RAMCritPct := override (PRAMCritPct p) (RAMCritPct t),
         SlabWarnPct := override (PSlabWarnPct p) (SlabWarnPct t),
         CPULoadWarnMultiplier := override (PCPULoadWarnMultiplier p) (CPULoadWarnMultiplier t),
         CPULoadCritMultiplier := override (PCPULoadCritMultiplier p) (CPULoadCritMultiplier t),
         DiskWarnPct := override (PDiskWarnPct p) (DiskWarnPct t),
         DiskCritPct := override (PDiskCritPct p) (DiskCritPct t),
         SwapWarnPct := override (PSwapWarnPct p) (SwapWarnPct t),
         SwapCritPct := override (PSwapCritPct p) (SwapCritPct t),
         SwapActivityWarn := override (PSwapActivityWarn p) (SwapActivityWarn t),
         SwapActivityCrit := override (PSwapActivityCrit p) (SwapActivityCrit t),
         IOAwaitWarnMsSSD := override (PIOAwaitWarnMs p) (IOAwaitWarnMsSSD t),
         IOAwaitCritMsSSD := override (PIOAwaitCritMs p) (IOAwaitCritMsSSD t),
         IOUtilWarnPctSSD := override (PIOUtilWarnPct p) (IOUtilWarnPctSSD t),
         IOUtilCritPctSSD := override (PIOUtilCritPct p) (IOUtilCritPctSSD t),
         NTPOffsetWarnMs := override (PNTPOffsetWarnMs p) (NTPOffsetWarnMs t),
         NTPOffsetCritMs := override (PNTPOffsetCritMs p) (NTPOffsetCritMs t),
         FDSystemWarnPct := override (PFDSystemWarnPct p) (FDSystemWarnPct t),
         FDSystemCritPct := override (PFDSystemCritPct p) (FDSystemCritPct t),
         ZombieWarnCount := override_int (PZombieWarnCount p) (ZombieWarnCount t),
         HungDStateCrit := override_int (PHungDStateCrit p) (HungDStateCrit t)\<rparr>)"

definition PolicyDeniesLevel :: "policy option \<Rightarrow> gostring \<Rightarrow> bool" where
  "PolicyDeniesLevel po level =
     (case po of None \<Rightarrow> level = CRIT | Some p \<Rightarrow> if Deny p = [] then level = CRIT else level \<in> set (Deny p))"

text \<open>
  \<open>applyHealthPolicyGate\<close> of \<open>cmd/health.go\<close>, without the line it prints: the loop over the
  insights with the exit code as its state.
\<close>

definition applyHealthPolicyGate :: "policy option \<Rightarrow> insight list \<Rightarrow> int \<Rightarrow> int" where
  "applyHealthPolicyGate policy insights exitCode =
     (case policy of None \<Rightarrow> exitCode
      | Some p \<Rightarrow>
          foldl (\<lambda>code ins. if PolicyDeniesLevel (Some p) (Level ins) \<and> code = 0 then 1 else code)
            exitCode insights)"

section \<open>Lemmas\<close>

definition good_pct :: "f64 \<Rightarrow> bool" where
  "good_pct v \<longleftrightarrow> flt (Fin 0) v \<and> fle v (Fin 100)"

definition good_threshold :: "f64 \<Rightarrow> bool" where
  "good_threshold v \<longleftrightarrow> flt (Fin 0) v \<and> v \<noteq> PInf"

lemma override_good_pct: "\<not> bad_pct x \<Longrightarrow> good_pct old \<Longrightarrow> good_pct (override x old)"
  by (cases x) (auto simp: bad_pct_def good_pct_def override_def)

lemma override_good_threshold: "\<not> bad_threshold x \<Longrightarrow> good_threshold old \<Longrightarrow> good_threshold (override x old)"
  by (cases x) (auto simp: bad_threshold_def good_threshold_def override_def)

lemma validate_deny_levels: "validate_deny i ds = Inr us \<Longrightarrow> set us \<subseteq> {WARN, CRIT} \<and> length us = length ds"
proof (induction ds arbitrary: i us)
  case (Cons d ds)
  define u where "u = to_upper (trim_space d)"
  have u: "u = WARN \<or> u = CRIT"
    using Cons.prems by (auto simp: u_def [symmetric] Let_def split: if_splits)
  then obtain us' where us': "validate_deny (Suc i) ds = Inr us'" "us = u # us'"
    using Cons.prems by (auto simp: u_def [symmetric] Let_def split: sum.splits)
  show ?case using Cons.IH [OF us'(1)] u us'(2) by auto
qed simp

lemma validatePolicy_Inr:
  "validatePolicy p = Inr q \<Longrightarrow>
     list_all (\<lambda>(n, v). \<not> bad_pct v) (pct_fields p) \<and>
     list_all (\<lambda>(n, v). \<not> bad_threshold v) (other_fields p) \<and>
     set (Deny q) \<subseteq> {WARN, CRIT} \<and> (\<exists>ds. q = p\<lparr>Deny := ds\<rparr>)"
  using validate_deny_levels [of 0 "Deny p"]
  by (auto simp: validatePolicy_def find_None_iff list_all_iff split: option.splits sum.splits)

lemma gate_fold:
  "foldl (\<lambda>code ins. if D (Level ins) \<and> code = 0 then 1 else code) c is =
     (if c = (0::int) \<and> (\<exists>i \<in> set is. D (Level i)) then 1 else c)"
proof (induction "is" arbitrary: c)
  case (Cons i "is")
  show ?case
    using Cons.IH [of "if D (Level i) \<and> c = 0 then 1 else c"]
    by (cases "D (Level i)"; cases "c = 0") simp_all
qed simp

text \<open>A classified value: the severity grows with the value.\<close>

definition level_rank :: "gostring \<Rightarrow> int" where
  "level_rank l = (if l = CRIT then 2 else if l = WARN then 1 else 0)"

lemma levelPct_mono: "fle x y \<Longrightarrow> level_rank (levelPct x w c) \<le> level_rank (levelPct y w c)"
  using fle_trans by (auto simp: levelPct_def level_rank_def)

definition pct_thresholds :: "thresholds \<Rightarrow> f64 list" where
  "pct_thresholds t =
     [RAMWarnPct t, RAMCritPct t, SlabWarnPct t, DiskWarnPct t, DiskCritPct t, SwapWarnPct t,
      SwapCritPct t, IOUtilWarnPctSSD t, IOUtilCritPctSSD t, FDSystemWarnPct t, FDSystemCritPct t]"

definition plain_thresholds :: "thresholds \<Rightarrow> f64 list" where
  "plain_thresholds t =
     [CPULoadWarnMultiplier t, CPULoadCritMultiplier t, SwapActivityWarn t, SwapActivityCrit t,
      IOAwaitWarnMsSSD t, IOAwaitCritMsSSD t, NTPOffsetWarnMs t, NTPOffsetCritMs t]"

lemma default_thresholds_good:
  "list_all good_pct (pct_thresholds (DefaultThresholds env))"
  "list_all good_threshold (plain_thresholds (DefaultThresholds env))"
  by (auto simp: pct_thresholds_def plain_thresholds_def DefaultThresholds_def good_pct_def
      good_threshold_def DefaultDiskWarnPct_def DefaultDiskCritPct_def await_limits_def)

section \<open>Properties\<close>

text \<open>every classifier is monotone in the measured value, and a value at the CRIT threshold is
  CRIT whatever the WARN threshold is.\<close>

theorem classifiers_monotone:
  assumes "fle x y"
  shows "level_rank (GatewayPacketLossLevel x) \<le> level_rank (GatewayPacketLossLevel y) \<and>
    level_rank (DNSResolveLevel x) \<le> level_rank (DNSResolveLevel y) \<and>
    level_rank (LVMThinPoolLevel x) \<le> level_rank (LVMThinPoolLevel y) \<and>
    level_rank (LVMSnapshotLevel x) \<le> level_rank (LVMSnapshotLevel y) \<and>
    level_rank (PVEStorageLevel x) \<le> level_rank (PVEStorageLevel y) \<and>
    (c \<noteq> NaN \<longrightarrow> levelPct c w c = CRIT)"
  using levelPct_mono [OF assms] fle_refl
  by (simp add: GatewayPacketLossLevel_def DNSResolveLevel_def LVMThinPoolLevel_def
      LVMSnapshotLevel_def PVEStorageLevel_def) (simp add: levelPct_def)

theorem classifiers_monotone_witness:
  "level_rank (DNSResolveLevel (Fin 180)) \<le> level_rank (DNSResolveLevel (Fin 260)) \<and>
   DNSResolveLevel (Fin 260) = WARN \<and> levelPct (Fin 95) (Fin 80) (Fin 95) = CRIT"
proof -
  have "fle (Fin 180) (Fin 260)" by simp
  from classifiers_monotone [OF this, of "Fin 95" "Fin 80"] show ?thesis
    by (simp add: DNSResolveLevel_def levelPct_def level_consts)
qed

text \<open>C28: a policy file that loads cannot defeat the gate through the thresholds the validation looks
  at: with it applied to the defaults of any platform every percentage it can set is above 0 and at
  most 100, every other measurement it can set (load, swap activity, latency, clock offset) is
  positive and finite, and its deny list holds only WARN and CRIT. The two counters, of zombies and
  of hung processes, stay positive, but nothing bounds them from above
  (\<open>policy_counts_unbounded\<close>).\<close>

theorem loaded_policy_reachable:
  assumes "LoadPolicy fsize contents parse = Inr p"
  shows "list_all good_pct (pct_thresholds (ApplyPolicy (DefaultThresholds env) (Some p))) \<and>
    list_all good_threshold (plain_thresholds (ApplyPolicy (DefaultThresholds env) (Some p))) \<and>
    0 < ZombieWarnCount (ApplyPolicy (DefaultThresholds env) (Some p)) \<and>
    0 < HungDStateCrit (ApplyPolicy (DefaultThresholds env) (Some p)) \<and>
    set (Deny p) \<subseteq> {WARN, CRIT} \<and> (\<exists>n. fsize = Some n \<and> n \<le> maxPolicyFileBytes)"
proof -
  obtain p0 n where v: "validatePolicy p0 = Inr p" and n: "fsize = Some n" "n \<le> maxPolicyFileBytes"
    using assms by (auto simp: LoadPolicy_def split: option.splits if_splits)
  note V = validatePolicy_Inr [OF v]
  have "list_all good_pct (pct_thresholds (ApplyPolicy (DefaultThresholds env) (Some p)))"
    using V default_thresholds_good(1) [of env]
    by (auto simp: pct_thresholds_def pct_fields_def ApplyPolicy_def intro!: override_good_pct)
  moreover have "list_all good_threshold (plain_thresholds (ApplyPolicy (DefaultThresholds env) (Some p)))"
    using V default_thresholds_good(2) [of env]
    by (auto simp: plain_thresholds_def other_fields_def ApplyPolicy_def intro!: override_good_threshold)
  moreover have "0 < ZombieWarnCount (ApplyPolicy (DefaultThresholds env) (Some p))"
    "0 < HungDStateCrit (ApplyPolicy (DefaultThresholds env) (Some p))"
    by (simp_all add: ApplyPolicy_def override_int_def DefaultThresholds_def)
  ultimately show ?thesis using V n by blast
qed

definition empty_policy :: policy where
  "empty_policy =
     \<lparr>PRAMWarnPct = Fin 0, PRAMCritPct = Fin 0, PSlabWarnPct = Fin 0, PCPULoadWarnMultiplier = Fin 0,
      PCPULoadCritMultiplier = Fin 0, PDiskWarnPct = Fin 0, PDiskCritPct = Fin 0, PSwapWarnPct = Fin 0,
      PSwapCritPct = Fin 0, PSwapActivityWarn = Fin 0, PSwapActivityCrit = Fin 0, PIOAwaitWarnMs = Fin 0,
      PIOAwaitCritMs = Fin 0, PIOUtilWarnPct = Fin 0, PIOUtilCritPct = Fin 0, PNTPOffsetWarnMs = Fin 0,
      PNTPOffsetCritMs = Fin 0, PFDSystemWarnPct = Fin 0, PFDSystemCritPct = Fin 0,
      PZombieWarnCount = 0, PHungDStateCrit = 0, Deny = []\<rparr>"

definition example_policy :: policy where
  "example_policy = empty_policy\<lparr>PDiskWarnPct := Fin 75, Deny := [CRIT]\<rparr>"

theorem loaded_policy_reachable_witness:
  "LoadPolicy (Some 40) (Some ''yaml'')
      (\<lambda>_. Some (empty_policy\<lparr>PDiskWarnPct := Fin 75, Deny := ['' crit'']\<rparr>)) = Inr example_policy \<and>
   DiskWarnPct (ApplyPolicy (DefaultThresholds EnvBareMetal) (Some example_policy)) = Fin 75 \<and>
   set (Deny example_policy) \<subseteq> {WARN, CRIT}"
proof -
  have deny: "validate_deny 0 ['' crit''] = Inr [CRIT]" by code_simp
  have load: "LoadPolicy (Some 40) (Some ''yaml'')
      (\<lambda>_. Some (empty_policy\<lparr>PDiskWarnPct := Fin 75, Deny := ['' crit'']\<rparr>)) = Inr example_policy"
    using deny
    by (simp add: LoadPolicy_def maxPolicyFileBytes_def validatePolicy_def pct_fields_def
        other_fields_def bad_pct_def bad_threshold_def empty_policy_def example_policy_def)
  show ?thesis
    using loaded_policy_reachable [OF load, of EnvBareMetal] load
    by (simp add: ApplyPolicy_def override_def DefaultThresholds_def) (simp add: example_policy_def)
qed

text \<open>The validation does not look at the counters: a file that asks for the largest \<open>int\<close> of hung
  processes loads, and no host reaches it.\<close>

lemma policy_counts_unbounded:
  "LoadPolicy (Some 40) (Some ''yaml'') (\<lambda>_. Some (empty_policy\<lparr>PHungDStateCrit := max_int64\<rparr>)) =
     Inr (empty_policy\<lparr>PHungDStateCrit := max_int64\<rparr>) \<and>
   HungDStateCrit (ApplyPolicy (DefaultThresholds env) (Some (empty_policy\<lparr>PHungDStateCrit := max_int64\<rparr>))) = max_int64"
  by (simp add: LoadPolicy_def maxPolicyFileBytes_def validatePolicy_def pct_fields_def other_fields_def
      bad_pct_def bad_threshold_def empty_policy_def ApplyPolicy_def override_int_def max_int64_def)

text \<open>the policy gate of the health command changes nothing: whatever deny list a loaded policy
  has, the exit code stays the one of the insights' verdict, so a deny list of CRIT alone does
  not let a run with a WARN pass.\<close>

theorem policy_gate_is_noop:
  assumes "LoadPolicy fsize contents parse = Inr p"
  shows "applyHealthPolicyGate (Some p) insights (ExitCode (Verdict [] insights)) =
    ExitCode (Verdict [] insights)"
proof -
  obtain p0 where v: "validatePolicy p0 = Inr p"
    using assms by (auto simp: LoadPolicy_def split: option.splits if_splits)
  have "PolicyDeniesLevel (Some p) l \<Longrightarrow> l = WARN \<or> l = CRIT" for l
    using validatePolicy_Inr [OF v] by (auto simp: PolicyDeniesLevel_def split: if_splits)
  then show ?thesis
    unfolding applyHealthPolicyGate_def option.case gate_fold ExitCode_Verdict by force
qed

theorem policy_gate_is_noop_witness:
  "applyHealthPolicyGate (Some example_policy) [mk_insight WARN ''Disk'' ''82% used'']
     (ExitCode (Verdict [] [mk_insight WARN ''Disk'' ''82% used''])) = 1"
proof -
  have deny: "validate_deny 0 ['' crit''] = Inr [CRIT]" by code_simp
  have load: "LoadPolicy (Some 40) (Some ''yaml'')
      (\<lambda>_. Some (empty_policy\<lparr>PDiskWarnPct := Fin 75, Deny := ['' crit'']\<rparr>)) = Inr example_policy"
    using deny
    by (simp add: LoadPolicy_def maxPolicyFileBytes_def validatePolicy_def pct_fields_def
        other_fields_def bad_pct_def bad_threshold_def empty_policy_def example_policy_def)
  show ?thesis
    using policy_gate_is_noop [OF load, of "[mk_insight WARN ''Disk'' ''82% used'']"]
    by (simp add: ExitCode_Verdict)
qed

end
