(* ===== verification/Exit_Codes.thy ===== *)
theory Exit_Codes
  imports Policy
begin

text \<open>
  \<open>cmd/exitcode.go\<close>: the exit code a standalone subcommand leaves for \<open>Execute\<close> to apply, the one
  of the health command (\<open>exitCodeFromInsights\<close> in \<open>internal/render/health.go\<close>), and the code of a
  command error. The pending exit code is a package variable: the operations take and return it.
\<close>

definition recordExitCode :: "int \<Rightarrow> int \<Rightarrow> int" where
  "recordExitCode code pending = (if pending < code then code else pending)"

definition record_insight :: "int \<Rightarrow> insight \<Rightarrow> int" where
  "record_insight pending ins =
     (let pending = (if Level ins = CRIT then recordExitCode 2 pending
                     else if Level ins = WARN then recordExitCode 1 pending else pending)
      in if Unverified ins then recordExitCode 1 pending else pending)"

definition recordWorstInsight :: "insight list \<Rightarrow> int \<Rightarrow> int" where
  "recordWorstInsight insights pending = foldl record_insight pending insights"

definition exitCodeFromInsights :: "insight list \<Rightarrow> int" where
  "exitCodeFromInsights insights = ExitCode (Verdict [] insights)"

text \<open>The heuristics that turn results into insights are a parameter here.\<close>

definition subcommandVerdict :: "(result list \<Rightarrow> insight list) \<Rightarrow> result list \<Rightarrow> verdict_info" where
  "subcommandVerdict apply_thresholds results = Verdict results (apply_thresholds results)"

definition recordResultSeverity ::
  "(result list \<Rightarrow> insight list) \<Rightarrow> result list \<Rightarrow> int \<Rightarrow> verdict_info \<times> int" where
  "recordResultSeverity apply_thresholds results pending =
     (let v = subcommandVerdict apply_thresholds results in (v, recordExitCode (ExitCode v) pending))"

text \<open>A command error, and whether \<open>errors.As\<close> finds a preflight error in its chain.\<close>

datatype command_error = FatalPreflight command_error | OrdinaryError gostring | Wrapped gostring command_error

fun is_fatal :: "command_error \<Rightarrow> bool" where
  "is_fatal (FatalPreflight e) = True"
| "is_fatal (OrdinaryError _) = False"
| "is_fatal (Wrapped _ e) = is_fatal e"

definition fatalPreflight :: "command_error option \<Rightarrow> command_error option" where
  "fatalPreflight err = map_option FatalPreflight err"

definition exitCodeForExecuteError :: "command_error \<Rightarrow> int" where
  "exitCodeForExecuteError err = (if is_fatal err then 3 else 1)"

definition subcommandSummary ::
  "(gostring \<Rightarrow> gostring) \<Rightarrow> (gostring \<Rightarrow> gostring) \<Rightarrow> verdict_info \<Rightarrow> gostring \<Rightarrow> gostring \<Rightarrow> gostring \<Rightarrow>
   gostring \<Rightarrow> gostring" where
  "subcommandSummary styleOK styleWarn v subject okPrefix warnPrefix timing =
     (let (level, txt) = SubcommandSummary v subject
      in if level = ''ok'' then styleOK (okPrefix @ txt @ timing)
         else styleWarn (warnPrefix @ txt @ timing))"

lemma record_insight_max:
  "record_insight p i =
     max p (if Level i = CRIT then 2 else if Level i = WARN \<or> Unverified i then 1 else 0)" if "0 \<le> p"
  using that by (auto simp: record_insight_def recordExitCode_def Let_def)

lemma recordWorstInsight_value:
  assumes "0 \<le> p"
  shows "recordWorstInsight is p =
     max p (if \<exists>i \<in> set is. Level i = CRIT then 2
            else if \<exists>i \<in> set is. Level i = WARN \<or> Unverified i then 1 else 0)"
  using assms unfolding recordWorstInsight_def
proof (induction "is" arbitrary: p)
  case (Cons i "is")
  have "0 \<le> record_insight p i" using Cons.prems by (simp add: record_insight_max)
  from Cons.IH [OF this] show ?case
    using Cons.prems by (auto simp: record_insight_max max_def)
qed simp

section \<open>Properties\<close>

text \<open>a subcommand's exit code is the worst of what was pending and the verdict of its results,
  so an errored collector or an unverified insight never exits 0; a command that failed before
  any collector ran exits 3 and any other command error 1, however often it is wrapped.\<close>

theorem subcommand_exit_code:
  "(0 \<le> pending \<longrightarrow>
     snd (recordResultSeverity heuristics results pending) =
       max pending (ExitCode (Verdict results (heuristics results))) \<and>
     ((\<exists>r \<in> set results. Err r \<noteq> None) \<longrightarrow> 1 \<le> snd (recordResultSeverity heuristics results pending))) \<and>
   map_option exitCodeForExecuteError (fatalPreflight err) = map_option (\<lambda>_. 3) err \<and>
   exitCodeForExecuteError (Wrapped m e) = exitCodeForExecuteError e"
proof -
  have sev: "snd (recordResultSeverity heuristics results pending) =
      max pending (ExitCode (Verdict results (heuristics results)))"
    by (simp add: recordResultSeverity_def subcommandVerdict_def recordExitCode_def Let_def max_def)
  have "(\<exists>r \<in> set results. Err r \<noteq> None) \<Longrightarrow> 1 \<le> ExitCode (Verdict results (heuristics results))"
    by (auto simp: ExitCode_Verdict errored_def)
  then show ?thesis
    using sev
    by (simp add: fatalPreflight_def exitCodeForExecuteError_def option.map_comp comp_def le_max_iff_disj)
qed

theorem subcommand_exit_code_witness:
  "1 \<le> snd (recordResultSeverity (\<lambda>_. []) [mk_result ''Disk'' NilData (Some \<lparr>ErrText = [], ErrChain = []\<rparr>)] 0)"
  using subcommand_exit_code [where pending = 0 and heuristics = "\<lambda>_. []" and err = None and m = "[]"
      and e = "OrdinaryError []"
      and results = "[mk_result ''Disk'' NilData (Some \<lparr>ErrText = [], ErrChain = []\<rparr>)]"]
  by simp

text \<open>the two exit codes that are meant to be in lockstep agree on every list of insights without
  a root-only one, and disagree on the ordinary run without root: a single needs-root insight
  gives 1 through \<open>recordWorstInsight\<close> and 0 through \<open>exitCodeFromInsights\<close>.\<close>

theorem worst_insight_lockstep:
  "(if \<exists>i \<in> set insights. Unverified i \<and> NeedsRoot i then True
    else recordWorstInsight insights 0 = exitCodeFromInsights insights) \<and>
   recordWorstInsight [(mk_insight INFO ''Auditd'' ''needs root'')\<lparr>Unverified := True, NeedsRoot := True\<rparr>] 0 = 1 \<and>
   exitCodeFromInsights [(mk_insight INFO ''Auditd'' ''needs root'')\<lparr>Unverified := True, NeedsRoot := True\<rparr>] = 0"
  by (auto simp: recordWorstInsight_value exitCodeFromInsights_def ExitCode_Verdict unverified_floor_def)

end
