(* ===== verification/Sanitize.thy ===== *)
theory Sanitize
  imports Go_Prelude
begin

text \<open>
  UTF-8 as Go decodes it (\<open>unicode/utf8\<close>, \<open>range\<close> over a string, \<open>strings.Map\<close>) and the two
  sanitizers built on it: \<open>internal/output/sanitize.go\<close>, the choke point in front of the
  terminal, and its copy \<open>internal/source/textsafety.go\<close>. The output sanitizer always yields
  valid UTF-8 without control characters; the copy does so only on valid UTF-8.
\<close>

section \<open>UTF-8\<close>

definition rune_error :: nat where
  "rune_error = 65533"

definition valid_rune :: "nat \<Rightarrow> bool" where
  "valid_rune r \<longleftrightarrow> r < 55296 \<or> (57344 \<le> r \<and> r \<le> 1114111)"

text \<open>The admissible second bytes of a lead byte, and the width it announces.\<close>

definition lead_range :: "nat \<Rightarrow> nat \<times> nat" where
  "lead_range b =
     (if b = 224 then (160, 191) else if b = 237 then (128, 159)
      else if b = 240 then (144, 191) else if b = 244 then (128, 143) else (128, 191))"

definition lead_width :: "nat \<Rightarrow> nat" where
  "lead_width b =
     (if b < 128 then 1 else if 194 \<le> b \<and> b \<le> 223 then 2 else if 224 \<le> b \<and> b \<le> 239 then 3
      else if 240 \<le> b \<and> b \<le> 244 then 4 else 0)"

definition cont :: "nat \<Rightarrow> bool" where
  "cont b \<longleftrightarrow> 128 \<le> b \<and> b \<le> 191"

definition lead_base :: "nat \<Rightarrow> nat" where
  "lead_base w = (if w = 2 then 192 else if w = 3 then 224 else 240)"

definition tail_ok :: "nat \<Rightarrow> nat list \<Rightarrow> bool" where
  "tail_ok b cs \<longleftrightarrow>
     Suc (length cs) = lead_width b \<and> cs \<noteq> [] \<and>
     fst (lead_range b) \<le> hd cs \<and> hd cs \<le> snd (lead_range b) \<and> list_all cont (tl cs)"

text \<open>\<open>utf8.DecodeRuneInString\<close> on the byte values: the rune and how many bytes it took. An
  ill-formed sequence is the replacement character, one byte wide.\<close>

fun decode_bytes :: "nat list \<Rightarrow> nat \<times> nat" where
  "decode_bytes [] = (rune_error, 0)"
| "decode_bytes (b # bs) =
     (let w = lead_width b; cs = take (w - 1) bs
      in if w = 1 then (b, 1)
         else if tail_ok b cs then (foldl (\<lambda>n c. n * 64 + (c - 128)) (b - lead_base w) cs, w)
         else (rune_error, 1))"

definition decode_rune :: "gostring \<Rightarrow> nat \<times> nat" where
  "decode_rune s = decode_bytes (map byte s)"

text \<open>\<open>utf8.AppendRune\<close> on a valid rune.\<close>

definition encode_bytes :: "nat \<Rightarrow> nat list" where
  "encode_bytes r =
     (if r < 128 then [r]
      else if r < 2048 then [192 + r div 64, 128 + r mod 64]
      else if r < 65536 then [224 + r div 4096, 128 + (r div 64) mod 64, 128 + r mod 64]
      else [240 + r div 262144, 128 + (r div 4096) mod 64, 128 + (r div 64) mod 64, 128 + r mod 64])"

definition encode_rune :: "nat \<Rightarrow> gostring" where
  "encode_rune r = map chr (encode_bytes r)"

lemma decode_width_pos: "bs \<noteq> [] \<Longrightarrow> 0 < snd (decode_bytes bs)"
  by (cases bs) (auto simp: Let_def tail_ok_def)

text \<open>\<open>for _, r := range s\<close>: the runes with their widths.\<close>

function runes :: "gostring \<Rightarrow> (nat \<times> nat) list" where
  "runes s = (if s = [] then [] else decode_rune s # runes (drop (snd (decode_rune s)) s))"
  by pat_completeness auto
termination
proof (relation "measure length", simp)
  fix s :: gostring
  assume "s \<noteq> []"
  then have "0 < snd (decode_rune s)" using decode_width_pos [of "map byte s"] by (simp add: decode_rune_def)
  then show "(drop (snd (decode_rune s)) s, s) \<in> measure length" using \<open>s \<noteq> []\<close> by simp
qed

declare runes.simps [simp del]

lemma runes_Nil [simp]: "runes [] = []"
  by (simp add: runes.simps)

text \<open>A replacement character one byte wide is an encoding error.\<close>

definition valid_string :: "gostring \<Rightarrow> bool" where
  "valid_string s \<longleftrightarrow> (rune_error, 1) \<notin> set (runes s)"

subsection \<open>Decoding an encoded rune\<close>

lemma encode_bytes_small: "valid_rune r \<Longrightarrow> list_all (\<lambda>b. b < 256) (encode_bytes r)"
  by (auto simp: encode_bytes_def valid_rune_def)

lemma base64_digits:
  fixes r :: nat
  shows "r = r div 64 * 64 + r mod 64"
    and "r = (r div 4096 * 64 + r div 64 mod 64) * 64 + r mod 64"
    and "r = ((r div 262144 * 64 + r div 4096 mod 64) * 64 + r div 64 mod 64) * 64 + r mod 64"
proof -
  have d: "r div 4096 = r div 64 div 64" "r div 262144 = r div 64 div 64 div 64"
    by (simp_all add: div_mult2_eq [symmetric])
  show "r = r div 64 * 64 + r mod 64"
    and "r = (r div 4096 * 64 + r div 64 mod 64) * 64 + r mod 64"
    and "r = ((r div 262144 * 64 + r div 4096 mod 64) * 64 + r div 64 mod 64) * 64 + r mod 64"
    unfolding d by (simp_all only: div_mult_mod_eq)
qed

lemmas utf8_defs = lead_width_def lead_range_def lead_base_def tail_ok_def cont_def

lemma decode_encode_bytes:
  assumes "valid_rune r"
  shows "decode_bytes (encode_bytes r @ t) = (r, length (encode_bytes r))"
proof -
  consider "r < 128" | "128 \<le> r" "r < 2048" | "2048 \<le> r" "r < 65536" | "65536 \<le> r" by linarith
  then show ?thesis
  proof cases
    case 1
    then show ?thesis by (simp add: encode_bytes_def lead_width_def Let_def)
  next
    case 2
    define a b where ab: "a = r div 64" "b = r mod 64"
    have r: "r = a * 64 + b" unfolding ab by (rule base64_digits)
    have e: "encode_bytes r = [192 + a, 128 + b]" and b: "b < 64"
      using 2 by (simp_all add: encode_bytes_def ab)
    from r b have "2 \<le> a" "a < 32" using 2 by linarith+
    then show ?thesis unfolding e using b by (simp add: utf8_defs r)
  next
    case 3
    define a b c where abc: "a = r div 4096" "b = r div 64 mod 64" "c = r mod 64"
    have r: "r = (a * 64 + b) * 64 + c" unfolding abc by (rule base64_digits)
    have e: "encode_bytes r = [224 + a, 128 + b, 128 + c]" and bc: "b < 64" "c < 64"
      using 3 by (simp_all add: encode_bytes_def abc)
    have "a < 16" using 3 by (simp add: abc)
    moreover have "a = 0 \<Longrightarrow> 32 \<le> b" "a = 13 \<Longrightarrow> b < 32"
      using 3 assms bc by (auto simp: r valid_rune_def)
    ultimately show ?thesis unfolding e using bc by (simp add: utf8_defs r) linarith
  next
    case 4
    define a b c d where abcd:
      "a = r div 262144" "b = r div 4096 mod 64" "c = r div 64 mod 64" "d = r mod 64"
    have r: "r = ((a * 64 + b) * 64 + c) * 64 + d" unfolding abcd by (rule base64_digits)
    have e: "encode_bytes r = [240 + a, 128 + b, 128 + c, 128 + d]"
      and bcd: "b < 64" "c < 64" "d < 64"
      using 4 by (simp_all add: encode_bytes_def abcd)
    have "a < 5" using 4 assms by (simp add: abcd valid_rune_def)
    moreover have "a = 0 \<Longrightarrow> 16 \<le> b" "a = 4 \<Longrightarrow> b < 16"
      using 4 assms bcd by (auto simp: r valid_rune_def)
    ultimately show ?thesis unfolding e using bcd by (simp add: utf8_defs r) linarith
  qed
qed

lemma decode_encode:
  assumes "valid_rune r"
  shows "decode_rune (encode_rune r @ t) = (r, length (encode_rune r))"
proof -
  have "map byte (encode_rune r) = encode_bytes r"
    using encode_bytes_small [OF assms]
    by (simp add: encode_rune_def list_all_iff byte_chr map_idI)
  then show ?thesis
    using decode_encode_bytes [OF assms] by (simp add: decode_rune_def encode_rune_def)
qed

lemma encode_rune_not_Nil [simp]: "encode_rune r \<noteq> []"
  by (simp add: encode_rune_def encode_bytes_def)

lemma runes_encode:
  "valid_rune r \<Longrightarrow> runes (encode_rune r @ t) = (r, length (encode_rune r)) # runes t"
  by (subst runes.simps) (simp add: decode_encode)

lemma encode_error_width: "length (encode_rune rune_error) = 3"
  by (simp add: encode_rune_def encode_bytes_def rune_error_def)

text \<open>The three shapes of a decoded tail.\<close>

lemma tail_ok_cases:
  assumes "tail_ok b cs"
  obtains c where "cs = [c]" "194 \<le> b" "b \<le> 223" "cont c" "lead_width b = 2"
  | c d where "cs = [c, d]" "224 \<le> b" "b \<le> 239" "cont c" "cont d" "lead_width b = 3"
      "b = 224 \<longrightarrow> 160 \<le> c" "b = 237 \<longrightarrow> c \<le> 159"
  | c d e where "cs = [c, d, e]" "240 \<le> b" "b \<le> 244" "cont c" "cont d" "cont e" "lead_width b = 4"
      "b = 240 \<longrightarrow> 144 \<le> c" "b = 244 \<longrightarrow> c \<le> 143"
proof -
  have len: "Suc (length cs) = lead_width b" and ne: "cs \<noteq> []" using assms by (auto simp: tail_ok_def)
  then consider "194 \<le> b" "b \<le> 223" "length cs = 1" | "224 \<le> b" "b \<le> 239" "length cs = 2"
    | "240 \<le> b" "b \<le> 244" "length cs = 3"
    by (auto simp: lead_width_def split: if_splits)
  then show thesis
  proof cases
    case 1
    then obtain c where "cs = [c]" by (auto simp: length_Suc_conv)
    then show ?thesis using 1 assms that(1) [of c] by (auto simp: utf8_defs split: if_splits)
  next
    case 2
    then obtain c d where "cs = [c, d]" by (auto simp: length_Suc_conv numeral_2_eq_2)
    then show ?thesis using 2 assms that(2) [of c d] by (auto simp: utf8_defs split: if_splits)
  next
    case 3
    then obtain c d e where "cs = [c, d, e]" by (auto simp: length_Suc_conv numeral_3_eq_3)
    then show ?thesis using 3 assms that(3) [of c d e] by (auto simp: utf8_defs split: if_splits)
  qed
qed

lemma decode_valid:
  assumes "bs \<noteq> []"
  shows "valid_rune (fst (decode_bytes bs))"
proof -
  obtain b t where bs: "bs = b # t" using assms by (cases bs) auto
  define cs where "cs = take (lead_width b - 1) t"
  show ?thesis
  proof (cases "tail_ok b cs \<and> lead_width b \<noteq> 1")
    case False
    then show ?thesis
      by (auto simp: bs cs_def Let_def valid_rune_def rune_error_def lead_width_def split: if_splits)
  next
    case True
    then have v: "fst (decode_bytes bs) = foldl (\<lambda>n c. n * 64 + (c - 128)) (b - lead_base (lead_width b)) cs"
      by (simp add: bs cs_def Let_def)
    from True have "tail_ok b cs" by simp
    then show ?thesis unfolding v
    proof (cases rule: tail_ok_cases)
      case (2 c d)
      then have "b \<le> 236 \<or> (b = 237 \<and> c \<le> 159) \<or> 238 \<le> b" by linarith
      then show "valid_rune (foldl (\<lambda>n c. n * 64 + (c - 128)) (b - lead_base (lead_width b)) cs)"
        using 2 by (auto simp: lead_base_def valid_rune_def cont_def)
    qed (auto simp: lead_base_def valid_rune_def cont_def)
  qed
qed

lemma runes_valid: "(r, w) \<in> set (runes s) \<Longrightarrow> valid_rune r"
proof (induction s rule: runes.induct)
  case (1 s)
  show ?case
  proof (cases "s = []")
    case False
    have "valid_rune (fst (decode_rune s))"
      using False decode_valid [of "map byte s"] by (simp add: decode_rune_def)
    then show ?thesis
      using 1 False by (cases "decode_rune s") (auto simp: runes.simps [of s])
  qed (use 1 in simp)
qed

section \<open>Stripping control characters\<close>

text \<open>\<open>unicode.IsControl\<close>: the ASCII and C1 controls.\<close>

definition is_control :: "nat \<Rightarrow> bool" where
  "is_control r \<longleftrightarrow> r < 32 \<or> (127 \<le> r \<and> r \<le> 159)"

definition contains_control :: "gostring \<Rightarrow> bool" where
  "contains_control s \<longleftrightarrow> list_ex (\<lambda>(r, w). is_control r) (runes s)"

text \<open>\<open>strings.Map\<close> with the closure that drops control runes; an invalid byte is a
  replacement character and is written as its three bytes.\<close>

definition map_drop_control :: "gostring \<Rightarrow> gostring" where
  "map_drop_control s = concat (map (\<lambda>(r, w). if is_control r then [] else encode_rune r) (runes s))"

definition output_SanitizeControl :: "gostring \<Rightarrow> gostring" where
  "output_SanitizeControl s =
     (if valid_string s \<and> \<not> contains_control s then s else map_drop_control s)"

definition source_SanitizeControl :: "gostring \<Rightarrow> gostring" where
  "source_SanitizeControl s = (if \<not> contains_control s then s else map_drop_control s)"

lemma runes_concat_encode:
  "list_all (\<lambda>(r, w). valid_rune r) rs \<Longrightarrow>
     runes (concat (map (\<lambda>(r, w). if is_control r then [] else encode_rune r) rs)) =
     map (\<lambda>(r, w). (r, length (encode_rune r))) (filter (\<lambda>(r, w). \<not> is_control r) rs)"
  by (induction rs) (auto simp: runes_encode)

lemma runes_map_drop_control:
  "runes (map_drop_control s) =
     map (\<lambda>(r, w). (r, length (encode_rune r))) (filter (\<lambda>(r, w). \<not> is_control r) (runes s))"
  unfolding map_drop_control_def
  by (rule runes_concat_encode) (auto simp: list_all_iff intro: runes_valid)

lemma map_drop_control_safe:
  "valid_string (map_drop_control s) \<and> \<not> contains_control (map_drop_control s)"
  using encode_error_width
  by (auto simp: valid_string_def contains_control_def runes_map_drop_control list_ex_iff)

text \<open>Below 128 a byte of the string is itself a rune of a valid string.\<close>

lemma decode_first_ascii:
  "byte c < 128 \<Longrightarrow> decode_rune (c # s) = (byte c, 1)"
  by (simp add: decode_rune_def lead_width_def Let_def split: prod.split)

lemma decode_bytes_high:
  assumes "decode_bytes bs = (r, w)" and "i < w" and "1 < w"
  shows "i < length bs \<and> 128 \<le> bs ! i"
proof (cases bs)
  case (Cons b t)
  define cs where "cs = take (lead_width b - 1) t"
  have w: "w = lead_width b" and ok: "tail_ok b cs"
    using assms by (auto simp: Cons cs_def Let_def split: if_splits)
  have "bs = b # cs @ drop (lead_width b - 1) t" by (simp add: Cons cs_def)
  moreover have "length cs = w - 1" using ok w by (metis diff_Suc_1 tail_ok_def)
  ultimately have nth: "bs ! i = (b # cs) ! i" and len: "i < length bs"
    using assms by (auto simp: nth_append nth_Cons' )
  have "list_all (\<lambda>x. 128 \<le> x) (b # cs)"
    using ok by (cases rule: tail_ok_cases) (auto simp: cont_def)
  then have "128 \<le> (b # cs) ! i"
    using \<open>length cs = w - 1\<close> assms unfolding list_all_length by simp
  then show ?thesis using nth len by simp
qed (use assms in simp)

lemma ascii_byte_is_rune:
  "valid_string s \<Longrightarrow> c \<in> set s \<Longrightarrow> byte c < 128 \<Longrightarrow> \<exists>w. (byte c, w) \<in> set (runes s)"
proof (induction s rule: runes.induct)
  case (1 s)
  then have ne: "s \<noteq> []" by auto
  obtain r w where rw: "decode_rune s = (r, w)" by fastforce
  have ok: "(r, w) \<noteq> (rune_error, 1)" and rest: "valid_string (drop w s)"
    using 1(2) ne rw by (auto simp: valid_string_def runes.simps [of s])
  have pos: "0 < w" using decode_width_pos [of "map byte s"] ne rw by (simp add: decode_rune_def)
  have "c \<in> set (take w s) \<or> c \<in> set (drop w s)"
    using 1(3) by (metis Un_iff append_take_drop_id set_append)
  then show ?case
  proof
    assume "c \<in> set (drop w s)"
    then show ?thesis using 1(1) [OF ne] rest 1(4) rw ne by (auto simp: runes.simps [of s])
  next
    assume "c \<in> set (take w s)"
    then obtain i where i: "i < w" "i < length s" "s ! i = c" by (auto simp: in_set_conv_nth)
    show ?thesis
    proof (cases "w = 1")
      case True
      then have c: "s = c # tl s" using i ne by (cases s) auto
      have "decode_rune s = (byte c, 1)" by (subst c) (rule decode_first_ascii [OF 1(4)])
      then show ?thesis using ne by (auto simp: runes.simps [of s])
    next
      case False
      then have "128 \<le> map byte s ! i"
        using decode_bytes_high [of "map byte s" r w i] rw i pos by (simp add: decode_rune_def)
      then show ?thesis using i 1(4) by simp
    qed
  qed
qed

lemma no_control_bytes:
  assumes "valid_string s" and "\<not> contains_control s" and "c \<in> set s"
  shows "32 \<le> byte c \<and> byte c \<noteq> 127"
proof (rule ccontr)
  assume "\<not> ?thesis"
  then have "byte c < 128" and "is_control (byte c)" by (auto simp: is_control_def)
  then show False
    using ascii_byte_is_rune [OF assms(1,3)] assms(2) by (auto simp: contains_control_def list_ex_iff)
qed

lemma output_SanitizeControl_clean:
  "valid_string (output_SanitizeControl s) \<and> \<not> contains_control (output_SanitizeControl s)"
  using map_drop_control_safe by (simp add: output_SanitizeControl_def)

lemma csi_runes: "runes [CHR 0x9B] = [(rune_error, 1)]"
  by (simp add: runes.simps [of "[CHR 0x9B]"] decode_rune_def byte_def utf8_defs)

text \<open>Printable ASCII passes unchanged: the common case, and the one evaluated first.\<close>

lemma runes_printable:
  "list_all (\<lambda>c. 32 \<le> byte c \<and> byte c < 127) s \<Longrightarrow> runes s = map (\<lambda>c. (byte c, 1)) s"
  by (induction s) (simp_all add: runes.simps [of "_ # _"] decode_first_ascii)

lemma printable_clean:
  "list_all (\<lambda>c. 32 \<le> byte c \<and> byte c < 127) s \<Longrightarrow> valid_string s \<and> \<not> contains_control s"
  by (auto simp: valid_string_def contains_control_def runes_printable list_ex_iff list_all_iff
      is_control_def rune_error_def)

lemma output_SanitizeControl_code [code]:
  "output_SanitizeControl s =
     (if list_all (\<lambda>c. 32 \<le> byte c \<and> byte c < 127) s then s
      else if valid_string s \<and> \<not> contains_control s then s else map_drop_control s)"
  using printable_clean [of s] by (simp add: output_SanitizeControl_def)

section \<open>Properties\<close>

text \<open>C24: whatever bytes it is given, the output sanitizer returns valid UTF-8 without a control
  rune and without a byte of an ASCII control character, and applying it again changes nothing.\<close>

theorem output_SanitizeControl_safe:
  "valid_string (output_SanitizeControl s) \<and> \<not> contains_control (output_SanitizeControl s) \<and>
   {c \<in> set (output_SanitizeControl s). byte c < 32 \<or> byte c = 127} = {} \<and>
   output_SanitizeControl (output_SanitizeControl s) = output_SanitizeControl s"
proof -
  note safe = output_SanitizeControl_clean [of s]
  have "{c \<in> set (output_SanitizeControl s). byte c < 32 \<or> byte c = 127} = {}"
    using no_control_bytes [of "output_SanitizeControl s"] safe by fastforce
  moreover have "output_SanitizeControl t = t" if "valid_string t" "\<not> contains_control t" for t
    using that by (simp add: output_SanitizeControl_def)
  ultimately show ?thesis using safe by blast
qed

text \<open>the copy in the source package agrees with the output sanitizer on valid UTF-8, but it
  is not the same function: a raw 8-bit CSI byte passes through it unchanged.\<close>

theorem source_SanitizeControl_differs:
  "(if valid_string s then source_SanitizeControl s = output_SanitizeControl s else True) \<and>
   source_SanitizeControl [CHR 0x9B] = [CHR 0x9B] \<and>
   output_SanitizeControl [CHR 0x9B] = [CHR 0xEF, CHR 0xBF, CHR 0xBD]"
proof -
  have "source_SanitizeControl [CHR 0x9B] = [CHR 0x9B]"
    "output_SanitizeControl [CHR 0x9B] = [CHR 0xEF, CHR 0xBF, CHR 0xBD]"
    by (simp_all add: source_SanitizeControl_def output_SanitizeControl_def contains_control_def
        map_drop_control_def csi_runes valid_string_def is_control_def rune_error_def encode_rune_def
        encode_bytes_def chr_def char_of_def bit_0)
  then show ?thesis by (simp add: source_SanitizeControl_def output_SanitizeControl_def)
qed

end
