(* ===== verification/Coverage_Model.thy ===== *)
theory Coverage_Model
  imports Verdict Sanitize "HOL-Library.Multiset"
begin

text \<open>
  \<open>internal/render/coverage.go\<close>: what a run looked at. Every insight is assigned to the collector
  result that owns it, every result gets one coverage value, and the things that were not looked
  at are counted once per name. The summary's counters are proved to agree with its list and,
  where errors are reported under the collector's own name, with the verdict, except that a check the
  verdict counts both as not run and as skipped is counted once.
\<close>

section \<open>Owners\<close>

record owned_insights =
  OCount :: int
  OUnverified :: "sub_check list"

definition no_owned :: owned_insights where
  "no_owned = \<lparr>OCount = 0, OUnverified = []\<rparr>"

definition subCheckOf :: "insight \<Rightarrow> sub_check" where
  "subCheckOf ins =
     \<lparr>SCheck = Check ins,
      SReason = (if NeedsRoot ins then ReasonNeedsRoot
                 else if UnverifiedReason ins \<noteq> [] then UnverifiedReason ins
                 else ReasonUnverified),
      SMessage = output_SanitizeControl (Message ins)\<rparr>"

fun owner_loop :: "gostring \<Rightarrow> gostring \<Rightarrow> gostring list \<Rightarrow> gostring" where
  "owner_loop check best [] = best"
| "owner_loop check best (n # ns) =
     (if n = check then n
      else if (has_prefix check (n @ ''/'') \<or> has_prefix check (n @ '' '')) \<and> length best < length n
      then owner_loop check n ns
      else owner_loop check best ns)"

definition insightOwner :: "gostring \<Rightarrow> gostring list \<Rightarrow> gostring" where
  "insightOwner check names = owner_loop check [] names"

fun own_step ::
  "gostring list \<Rightarrow> (gostring, owned_insights) gomap \<times> sub_check list \<Rightarrow> insight \<Rightarrow>
   (gostring, owned_insights) gomap \<times> sub_check list" where
  "own_step names (owned, orphans) ins =
     (let owner = insightOwner (Check ins) names
      in if owner = [] then
           (owned, if Unverified ins then orphans @ [subCheckOf ins] else orphans)
         else
           let pc = map_get no_owned owned owner;
               pc = pc\<lparr>OCount := OCount pc + 1\<rparr>;
               pc = (if Unverified ins then pc\<lparr>OUnverified := OUnverified pc @ [subCheckOf ins]\<rparr> else pc)
           in (map_put owned owner pc, orphans))"

definition ownInsights ::
  "result list \<Rightarrow> insight list \<Rightarrow> (gostring, owned_insights) gomap \<times> sub_check list" where
  "ownInsights results insights = foldl (own_step (map Name results)) ([], []) insights"

section \<open>One result\<close>

definition worstReason :: "sub_check list \<Rightarrow> gostring" where
  "worstReason subs =
     (case find (\<lambda>s. SReason s \<noteq> ReasonNeedsRoot) subs of
        Some s \<Rightarrow> SReason s
      | None \<Rightarrow> ReasonNeedsRoot)"

definition errReason :: "go_error \<Rightarrow> gostring" where
  "errReason e = ReasonOfErr e"

definition classifyResult :: "result \<Rightarrow> owned_insights \<Rightarrow> check_coverage" where
  "classifyResult r pc =
     (let cc = \<lparr>CName = Name r, Coverage = CoverageChecked, Reason = [], NotCheckedSubchecks = []\<rparr>
      in if Absent r \<noteq> [] then cc\<lparr>Coverage := CoverageNotApplicable, Reason := Absent r\<rparr>
         else (case Err r of
           Some e \<Rightarrow> cc\<lparr>Coverage := CoverageNotChecked, Reason := errReason e\<rparr>
         | None \<Rightarrow>
             if RData r \<noteq> NilData \<and> IsAvailable (RData r) then cc\<lparr>NotCheckedSubchecks := OUnverified pc\<rparr>
             else if OUnverified pc \<noteq> [] then
               cc\<lparr>Coverage := CoverageNotChecked, Reason := worstReason (OUnverified pc),
                  NotCheckedSubchecks := OUnverified pc\<rparr>
             else if 0 < OCount pc then cc
             else if RData r = NilData then
               cc\<lparr>Coverage := CoverageNotApplicable, Reason := ReasonNotSupportedPlatform\<rparr>
             else cc\<lparr>Coverage := CoverageNotApplicable, Reason := ReasonNotPresent\<rparr>))"

section \<open>The summary\<close>

definition map_del :: "('k, 'v) gomap \<Rightarrow> 'k \<Rightarrow> ('k, 'v) gomap" where
  "map_del m k = filter (\<lambda>(k', v). k' \<noteq> k) m"

definition addReasonDelta :: "coverage_summary \<Rightarrow> gostring \<Rightarrow> int \<Rightarrow> coverage_summary" where
  "addReasonDelta s reason d =
     (let n = map_get 0 (Reasons s) reason + d
      in s\<lparr>Reasons := (if n = 0 then map_del (Reasons s) reason else map_put (Reasons s) reason n)\<rparr>)"

definition addReason :: "coverage_summary \<Rightarrow> gostring \<Rightarrow> coverage_summary" where
  "addReason s reason = addReasonDelta s reason 1"

type_synonym cov_acc = "coverage_summary \<times> (gostring, gostring) gomap"

text \<open>The closure \<open>addItem\<close>: a name counts once; a root-only reason gives way to another one.\<close>

fun addItem :: "cov_acc \<Rightarrow> gostring \<Rightarrow> gostring \<Rightarrow> cov_acc" where
  "addItem (sm, seenItem) name reason =
     (case map_of seenItem name of
        None \<Rightarrow> (addReason (sm\<lparr>NotChecked := NotChecked sm + 1\<rparr>) reason, map_put seenItem name reason)
      | Some prev \<Rightarrow>
          if prev = ReasonNeedsRoot \<and> reason \<noteq> ReasonNeedsRoot then
            (addReason (addReasonDelta sm prev (-1)) reason, map_put seenItem name reason)
          else (sm, seenItem))"

definition addItems :: "cov_acc \<Rightarrow> (gostring \<times> gostring) list \<Rightarrow> cov_acc" where
  "addItems = foldl (\<lambda>acc (n, reason). addItem acc n reason)"

text \<open>The items one classified result adds, in order.\<close>

definition items_of :: "check_coverage \<Rightarrow> (gostring \<times> gostring) list" where
  "items_of cc =
     (if Coverage cc = CoverageNotChecked then [(CName cc, Reason cc)] else []) @
     map (\<lambda>sc. (SCheck sc, SReason sc)) (NotCheckedSubchecks cc)"

definition count_class :: "check_coverage \<Rightarrow> coverage_summary \<Rightarrow> coverage_summary" where
  "count_class cc sm =
     (if Coverage cc = CoverageChecked then
        (let sm = sm\<lparr>Checked := Checked sm + 1\<rparr>
         in if NotCheckedSubchecks cc \<noteq> [] then sm\<lparr>Partial := Partial sm + 1\<rparr> else sm)
      else if Coverage cc = CoverageNotApplicable then sm\<lparr>NotApplicable := NotApplicable sm + 1\<rparr>
      else sm)"

fun cov_result ::
  "(gostring, owned_insights) gomap \<Rightarrow> cov_acc \<times> gostring list \<Rightarrow> result \<Rightarrow> cov_acc \<times> gostring list" where
  "cov_result owned (acc, seenResult) r =
     (if Name r \<in> set seenResult then (acc, seenResult)
      else
        let cc = classifyResult r (map_get no_owned owned (Name r));
            (sm, seen) = addItems acc (items_of cc);
            sm = count_class cc sm
        in ((sm\<lparr>Checks := Checks sm @ [cc]\<rparr>, seen), Name r # seenResult))"

fun cov_orphan :: "cov_acc \<Rightarrow> sub_check \<Rightarrow> cov_acc" where
  "cov_orphan acc sc =
     (let (sm, seen) = addItem acc (SCheck sc) (SReason sc)
      in (sm\<lparr>Checks := Checks sm @
             [\<lparr>CName = SCheck sc, Coverage = CoverageNotChecked, Reason = SReason sc,
               NotCheckedSubchecks = []\<rparr>]\<rparr>, seen))"

definition zero_summary :: coverage_summary where
  "zero_summary =
     \<lparr>Checked = 0, NotChecked = 0, NotApplicable = 0, Partial = 0, Reasons = [], Checks = []\<rparr>"

definition CoverageOf :: "result list \<Rightarrow> insight list \<Rightarrow> coverage_summary" where
  "CoverageOf results insights =
     (let (owned, orphans) = ownInsights results insights;
          (acc, _) = foldl (cov_result owned) ((zero_summary, []), []) results;
          (sm, _) = foldl cov_orphan acc orphans
      in sm\<lparr>Checks := sort_key CName (Checks sm)\<rparr>)"

section \<open>Display\<close>

definition CoverageAction :: "gostring \<Rightarrow> gostring" where
  "CoverageAction reason =
     (if reason = ReasonNeedsRoot then ''re-run with sudo''
      else if reason = ReasonTimeout then ''re-run; if it repeats, run this check on its own''
      else if reason = ReasonUnreadable then ''check file permissions or re-run with sudo''
      else if reason = ReasonCollectorError then ''run this check on its own for the error''
      else if reason = ReasonParse then
        ''the tool's output was not recognised; report it with the INFO line''
      else if reason = ReasonNotRecorded then
        ''replay only: this bundle never recorded the input; re-capture with a current dsd''
      else if reason = ReasonUnverified then ''see the INFO line for what could not be read''
      else [])"

record not_checked_item =
  NCheck :: gostring
  NReason :: gostring
  NMessage :: gostring

definition Action :: "not_checked_item \<Rightarrow> gostring" where
  "Action it = CoverageAction (NReason it)"

definition add_display :: "not_checked_item list \<Rightarrow> not_checked_item \<Rightarrow> not_checked_item list" where
  "add_display out it = (if NCheck it \<in> NCheck ` set out then out else out @ [it])"

definition display_items :: "check_coverage \<Rightarrow> not_checked_item list" where
  "display_items c =
     (if Coverage c = CoverageNotChecked
      then [\<lparr>NCheck = CName c, NReason = Reason c, NMessage = []\<rparr>] else []) @
     map (\<lambda>sc. \<lparr>NCheck = SCheck sc, NReason = SReason sc,
               NMessage = output_SanitizeControl (SMessage sc)\<rparr>) (NotCheckedSubchecks c)"

definition NotCheckedItems :: "coverage_summary \<Rightarrow> not_checked_item list" where
  "NotCheckedItems s =
     sort_key NCheck (foldl add_display [] (concat (map display_items (Checks s))))"

definition NotApplicableChecks :: "coverage_summary \<Rightarrow> check_coverage list" where
  "NotApplicableChecks s = filter (\<lambda>c. Coverage c = CoverageNotApplicable) (Checks s)"

text \<open>The reasons, the most frequent first and then by name.\<close>

definition reasonCounts :: "coverage_summary \<Rightarrow> gostring" where
  "reasonCounts s =
     join (map (\<lambda>(r, n). replace_byte r (CHR ''_'') '' '' @ '': '' @ itoa n)
            (sort_key (\<lambda>(r, n). (- n, r)) (Reasons s))) '', ''"

definition CoverageLine :: "coverage_summary \<Rightarrow> gostring" where
  "CoverageLine s =
     join
       ([itoa (Checked s) @ '' checked''] @
        (if 0 < NotChecked s then [itoa (NotChecked s) @ '' not checked ('' @ reasonCounts s @ '')''] else []) @
        (if 0 < NotApplicable s then [itoa (NotApplicable s) @ '' not applicable''] else []))
       ('' '' @ mid_dot @ '' '')"

section \<open>Lemmas on the accumulator\<close>

lemma map_get_map_put [simp]: "map_get z (map_put m k v) k' = (if k' = k then v else map_get z m k')"
  by (simp add: map_get_def)

lemma length_map_put:
  "length (map_put m k v) = (if k \<in> fst ` set m then length m else Suc (length m))"
  by (induction m k v rule: map_put.induct) auto

definition total_of :: "('k, int) gomap \<Rightarrow> int" where
  "total_of m = sum_list (map snd m)"

lemma total_of_put:
  "distinct (map fst m) \<Longrightarrow> total_of (map_put m k v) = total_of m - map_get 0 m k + v"
  by (induction m k v rule: map_put.induct) (auto simp: total_of_def map_get_def)

lemma total_of_absent: "k \<notin> fst ` set m \<Longrightarrow> map_del m k = m \<and> map_get 0 m k = 0"
  by (induction m) (auto simp: map_del_def map_get_def)

lemma total_of_del:
  "distinct (map fst m) \<Longrightarrow> total_of (map_del m k) = total_of m - map_get 0 m k"
proof (induction m)
  case (Cons kv m)
  show ?case
  proof (cases "fst kv = k")
    case True
    then have "k \<notin> fst ` set m" using Cons.prems by auto
    then show ?thesis
      using True total_of_absent [of k m] by (cases kv) (simp add: total_of_def map_del_def map_get_def)
  next
    case False
    then show ?thesis
      using Cons by (cases kv) (simp add: total_of_def map_del_def map_get_def)
  qed
qed (simp add: total_of_def map_del_def map_get_def)

lemma distinct_map_del: "distinct (map fst m) \<Longrightarrow> distinct (map fst (map_del m k))"
  unfolding map_del_def by (rule distinct_map_filter)

lemma addReasonDelta_total:
  assumes "distinct (map fst (Reasons s))"
  shows "total_of (Reasons (addReasonDelta s r d)) = total_of (Reasons s) + d"
    and "distinct (map fst (Reasons (addReasonDelta s r d)))"
    and "NotChecked (addReasonDelta s r d) = NotChecked s"
    and "Checks (addReasonDelta s r d) = Checks s"
  using assms
  by (simp_all add: addReasonDelta_def Let_def total_of_put total_of_del distinct_map_del)

definition cov_inv :: "cov_acc \<Rightarrow> bool" where
  "cov_inv acc \<longleftrightarrow>
     distinct (map fst (snd acc)) \<and> NotChecked (fst acc) = int (length (snd acc)) \<and>
     distinct (map fst (Reasons (fst acc))) \<and> total_of (Reasons (fst acc)) = NotChecked (fst acc)"

definition seen_names :: "cov_acc \<Rightarrow> gostring set" where
  "seen_names acc = fst ` set (snd acc)"

lemma seen_names_pair [simp]: "seen_names (sm, seen) = fst ` set seen"
  by (simp add: seen_names_def)

lemma addItem_inv: "cov_inv acc \<Longrightarrow> cov_inv (addItem acc n r)"
proof (cases acc)
  case (Pair sm seen)
  assume inv: "cov_inv acc"
  show ?thesis
  proof (cases "map_of seen n")
    case None
    then have "n \<notin> fst ` set seen" by (simp add: map_of_eq_None_iff)
    then show ?thesis
      using inv None Pair addReasonDelta_total [of "sm\<lparr>NotChecked := NotChecked sm + 1\<rparr>" r 1]
      by (simp add: cov_inv_def addReason_def length_map_put)
  next
    case (Some prev)
    then have mem: "n \<in> fst ` set seen" by (metis domI dom_map_of_conv_image_fst)
    have d: "distinct (map fst (Reasons sm))" using inv Pair by (simp add: cov_inv_def)
    show ?thesis
      using inv Some Pair mem addReasonDelta_total [OF d, of prev "-1"]
        addReasonDelta_total [of "addReasonDelta sm prev (-1)" r 1]
      by (auto simp: cov_inv_def addReason_def length_map_put)
  qed
qed

lemma addItem_names: "seen_names (addItem acc n r) = insert n (seen_names acc)"
proof (cases acc)
  case (Pair sm seen)
  have "map_of seen n = Some x \<Longrightarrow> n \<in> fst ` set seen" for x
    by (metis domI dom_map_of_conv_image_fst)
  then show ?thesis using Pair by (auto split: option.splits)
qed

lemma addItem_checks: "Checks (fst (addItem acc n r)) = Checks (fst acc)"
  by (cases acc) (auto simp: addReason_def addReasonDelta_def Let_def split: option.splits)

lemma addItems_inv: "cov_inv acc \<Longrightarrow> cov_inv (addItems acc is)"
  unfolding addItems_def by (induction "is" arbitrary: acc) (auto simp: addItem_inv split: prod.splits)

lemma addItems_names: "seen_names (addItems acc is) = fst ` set is \<union> seen_names acc"
  unfolding addItems_def by (induction "is" arbitrary: acc) (auto simp: addItem_names split: prod.splits)

lemma addItems_checks: "Checks (fst (addItems acc is)) = Checks (fst acc)"
  unfolding addItems_def by (induction "is" arbitrary: acc) (auto simp: addItem_checks split: prod.splits)

text \<open>The counters that an item does not touch.\<close>

definition classes :: "coverage_summary \<Rightarrow> int \<times> int \<times> int" where
  "classes s = (Checked s, Partial s, NotApplicable s)"

lemma addItems_classes: "classes (fst (addItems acc is)) = classes (fst acc)"
proof (induction "is" arbitrary: acc)
  case (Cons i "is")
  have "classes (fst (addItem acc n r)) = classes (fst acc)" for n r
    by (cases acc) (auto simp: classes_def addReason_def addReasonDelta_def Let_def split: option.splits)
  then show ?case using Cons by (auto simp: addItems_def split: prod.splits)
qed (simp add: addItems_def)

lemma count_class_frame:
  "cov_inv (count_class cc sm, seen) \<longleftrightarrow> cov_inv (sm, seen)"
  "Checks (count_class cc sm) = Checks sm"
  by (auto simp: count_class_def cov_inv_def Let_def)

section \<open>Who owns what\<close>

abbreviation owner_in :: "result list \<Rightarrow> insight \<Rightarrow> gostring" where
  "owner_in results i \<equiv> insightOwner (Check i) (map Name results)"

lemma own_step_fold:
  assumes "foldl (own_step names) (owned, orphans) is = (owned', orphans')" and "n \<noteq> []"
  shows "map_get no_owned owned' n =
      \<lparr>OCount = OCount (map_get no_owned owned n) + count_by (\<lambda>i. insightOwner (Check i) names = n) is,
       OUnverified = OUnverified (map_get no_owned owned n) @
         map subCheckOf (filter (\<lambda>i. insightOwner (Check i) names = n \<and> Unverified i) is)\<rparr> \<and>
    orphans' = orphans @ map subCheckOf (filter (\<lambda>i. insightOwner (Check i) names = [] \<and> Unverified i) is)"
  using assms
proof (induction "is" arbitrary: owned orphans)
  case (Cons i "is")
  obtain o1 r1 where s: "own_step names (owned, orphans) i = (o1, r1)" by fastforce
  then have "foldl (own_step names) (o1, r1) is = (owned', orphans')" using Cons.prems by simp
  note IH = Cons.IH [OF this Cons.prems(2)]
  show ?case
    using IH s Cons.prems(2) by (auto simp: Let_def split: if_splits)
qed simp

lemma ownInsights_owned:
  "n \<noteq> [] \<Longrightarrow> map_get no_owned (fst (ownInsights rs is)) n =
     \<lparr>OCount = count_by (\<lambda>i. owner_in rs i = n) is,
      OUnverified = map subCheckOf (filter (\<lambda>i. owner_in rs i = n \<and> Unverified i) is)\<rparr>"
  using own_step_fold [of "map Name rs" "[]" "[]" "is" "fst (ownInsights rs is)" "snd (ownInsights rs is)" n]
  by (simp add: ownInsights_def map_get_def no_owned_def)

lemma ownInsights_orphans:
  "snd (ownInsights rs is) = map subCheckOf (filter (\<lambda>i. owner_in rs i = [] \<and> Unverified i) is)"
  using own_step_fold [of "map Name rs" "[]" "[]" "is" "fst (ownInsights rs is)" "snd (ownInsights rs is)" "''x''"]
  by (simp add: ownInsights_def)

text \<open>The owner is a result name the check is qualified by, and the exact name when there is one.\<close>

lemma owner_loop_mem: "owner_loop c best ns \<in> insert best (set ns)"
  by (induction c best ns rule: owner_loop.induct) auto

definition qualified_by :: "gostring \<Rightarrow> gostring \<Rightarrow> bool" where
  "qualified_by c n \<longleftrightarrow> n = c \<or> has_prefix c (n @ ''/'') \<or> has_prefix c (n @ '' '')"

lemma owner_loop_qualified:
  "best = [] \<or> qualified_by c best \<Longrightarrow> owner_loop c best ns = [] \<or> qualified_by c (owner_loop c best ns)"
  by (induction c best ns rule: owner_loop.induct) (auto simp: qualified_by_def)

lemma insightOwner_qualified:
  "insightOwner c ns \<noteq> [] \<Longrightarrow> qualified_by c (insightOwner c ns)"
  using owner_loop_qualified [of "[]" c ns] by (auto simp: insightOwner_def)

lemma owner_loop_exact: "c \<in> set ns \<Longrightarrow> owner_loop c best ns = c"
  by (induction c best ns rule: owner_loop.induct) auto

lemma insightOwner_exact: "c \<in> set ns \<Longrightarrow> insightOwner c ns = c"
  by (simp add: insightOwner_def owner_loop_exact)

lemma insightOwner_mem: "insightOwner c ns \<noteq> [] \<Longrightarrow> insightOwner c ns \<in> set ns"
  using owner_loop_mem [of c "[]" ns] by (auto simp: insightOwner_def)

section \<open>The summary of a run\<close>

declare addItem.simps [simp del] cov_orphan.simps [simp del] cov_result.simps [simp del]

text \<open>The coverage of one result of a run.\<close>

definition result_coverage :: "result list \<Rightarrow> insight list \<Rightarrow> result \<Rightarrow> check_coverage" where
  "result_coverage rs is r = classifyResult r (map_get no_owned (fst (ownInsights rs is)) (Name r))"

text \<open>The results that count: the first of each name.\<close>

fun first_named :: "gostring list \<Rightarrow> result list \<Rightarrow> result list" where
  "first_named seen [] = []"
| "first_named seen (r # rs) =
     (if Name r \<in> set seen then first_named seen rs else r # first_named (Name r # seen) rs)"

lemma first_named_distinct: "distinct (map Name rs) \<Longrightarrow> set (map Name rs) \<inter> set seen = {} \<Longrightarrow> first_named seen rs = rs"
  by (induction rs arbitrary: seen) auto

definition orphan_coverage :: "sub_check \<Rightarrow> check_coverage" where
  "orphan_coverage sc =
     \<lparr>CName = SCheck sc, Coverage = CoverageNotChecked, Reason = SReason sc, NotCheckedSubchecks = []\<rparr>"

definition class_count :: "(check_coverage \<Rightarrow> bool) \<Rightarrow> check_coverage list \<Rightarrow> int" where
  "class_count P ccs = count_by P ccs"

abbreviation is_checked :: "check_coverage \<Rightarrow> bool" where
  "is_checked cc \<equiv> Coverage cc = CoverageChecked"
abbreviation is_partial :: "check_coverage \<Rightarrow> bool" where
  "is_partial cc \<equiv> Coverage cc = CoverageChecked \<and> NotCheckedSubchecks cc \<noteq> []"
abbreviation is_not_applicable :: "check_coverage \<Rightarrow> bool" where
  "is_not_applicable cc \<equiv> Coverage cc = CoverageNotApplicable"

lemma cov_results_fold:
  fixes owned rs
  defines "ccs \<equiv> \<lambda>seen rs. map (\<lambda>r. classifyResult r (map_get no_owned owned (Name r))) (first_named seen rs)"
  assumes "foldl (cov_result owned) (acc, seen) rs = (acc', seen')" and "cov_inv acc"
  shows "cov_inv acc' \<and> Checks (fst acc') = Checks (fst acc) @ ccs seen rs \<and>
     seen_names acc' = seen_names acc \<union> fst ` set (concat (map items_of (ccs seen rs))) \<and>
     classes (fst acc') =
       (Checked (fst acc) + count_by is_checked (ccs seen rs),
        Partial (fst acc) + count_by is_partial (ccs seen rs),
        NotApplicable (fst acc) + count_by is_not_applicable (ccs seen rs))"
  using assms(2,3)
proof (induction rs arbitrary: acc seen)
  case Nil
  then show ?case by (simp add: ccs_def classes_def)
next
  case (Cons r rs)
  show ?case
  proof (cases "Name r \<in> set seen")
    case True
    then have "cov_result owned (acc, seen) r = (acc, seen)" by (simp add: cov_result.simps)
    then show ?thesis using Cons True by (simp add: ccs_def)
  next
    case False
    define cc where "cc = classifyResult r (map_get no_owned owned (Name r))"
    obtain s1 n1 where it: "addItems acc (items_of cc) = (s1, n1)" by fastforce
    define acc1 where "acc1 = ((count_class cc s1)\<lparr>Checks := Checks (count_class cc s1) @ [cc]\<rparr>, n1)"
    have step: "cov_result owned (acc, seen) r = (acc1, Name r # seen)"
      using False it by (simp add: cov_result.simps acc1_def cc_def Let_def)
    have inv1: "cov_inv acc1"
      using addItems_inv [OF Cons.prems(2), of "items_of cc"] it count_class_frame(1) [of cc s1 n1]
      by (simp add: acc1_def cov_inv_def)
    have names: "seen_names acc1 = fst ` set (items_of cc) \<union> seen_names acc"
      using addItems_names [of acc "items_of cc"] it by (simp add: acc1_def)
    have checks: "Checks (fst acc1) = Checks (fst acc) @ [cc]"
      using addItems_checks [of acc "items_of cc"] it by (simp add: acc1_def count_class_frame)
    have cls: "classes s1 = classes (fst acc)"
      using addItems_classes [of acc "items_of cc"] it by simp
    have cls1: "classes (fst acc1) =
      (Checked (fst acc) + count_by is_checked [cc], Partial (fst acc) + count_by is_partial [cc],
       NotApplicable (fst acc) + count_by is_not_applicable [cc])"
      using cls by (auto simp: acc1_def classes_def count_class_def Let_def coverage_consts)
    have "foldl (cov_result owned) (acc1, Name r # seen) rs = (acc', seen')"
      using Cons.prems(1) step by simp
    note IH = Cons.IH [OF this inv1]
    have "ccs seen (r # rs) = cc # ccs (Name r # seen) rs"
      using False by (simp add: ccs_def cc_def)
    then show ?thesis using IH names checks cls1 by (auto simp: classes_def)
  qed
qed

lemma cov_orphans_fold:
  assumes "cov_inv acc"
  shows "cov_inv (foldl cov_orphan acc os) \<and>
    seen_names (foldl cov_orphan acc os) = seen_names acc \<union> SCheck ` set os \<and>
    Checks (fst (foldl cov_orphan acc os)) = Checks (fst acc) @ map orphan_coverage os \<and>
    classes (fst (foldl cov_orphan acc os)) = classes (fst acc)"
  using assms
proof (induction os arbitrary: acc)
  case (Cons o1 os)
  obtain s1 n1 where it: "addItem acc (SCheck o1) (SReason o1) = (s1, n1)" by fastforce
  have i1: "cov_inv (s1, n1)" using addItem_inv [OF Cons.prems] it by metis
  have n1: "fst ` set n1 = insert (SCheck o1) (seen_names acc)"
    using addItem_names [of acc "SCheck o1" "SReason o1"] it by simp
  have c1: "Checks s1 = Checks (fst acc)" "classes s1 = classes (fst acc)"
    using addItem_checks [of acc "SCheck o1" "SReason o1"] it
      addItems_classes [of acc "[(SCheck o1, SReason o1)]"] by (simp_all add: addItems_def)
  have step: "cov_orphan acc o1 = (s1\<lparr>Checks := Checks s1 @ [orphan_coverage o1]\<rparr>, n1)"
    using it by (simp add: cov_orphan.simps orphan_coverage_def)
  have "cov_inv (cov_orphan acc o1)" using i1 by (simp add: step cov_inv_def)
  from Cons.IH [OF this] show ?case
    using n1 c1 unfolding foldl_Cons step by (auto simp: classes_def)
qed simp

definition run_checks :: "result list \<Rightarrow> insight list \<Rightarrow> check_coverage list" where
  "run_checks rs is =
     map (result_coverage rs is) (first_named [] rs) @ map orphan_coverage (snd (ownInsights rs is))"

text \<open>Everything that was not looked at, by name.\<close>

definition not_looked_at :: "result list \<Rightarrow> insight list \<Rightarrow> gostring set" where
  "not_looked_at rs is = fst ` set (concat (map items_of (run_checks rs is)))"

lemma items_of_orphan: "items_of (orphan_coverage sc) = [(SCheck sc, SReason sc)]"
  by (simp add: items_of_def orphan_coverage_def)

lemma CoverageOf_spec:
  "Checks (CoverageOf rs is) = sort_key CName (run_checks rs is) \<and>
   NotChecked (CoverageOf rs is) = int (card (not_looked_at rs is)) \<and>
   total_of (Reasons (CoverageOf rs is)) = NotChecked (CoverageOf rs is) \<and>
   classes (CoverageOf rs is) =
     (count_by is_checked (run_checks rs is), count_by is_partial (run_checks rs is),
      count_by is_not_applicable (run_checks rs is))"
proof -
  obtain owned os where oo: "ownInsights rs is = (owned, os)" by fastforce
  obtain acc seen where f1: "foldl (cov_result owned) ((zero_summary, []), []) rs = (acc, seen)" by fastforce
  have z: "cov_inv (zero_summary, [])" "seen_names (zero_summary, []) = {}" "Checks zero_summary = []"
    "classes zero_summary = (0, 0, 0)"
    by (simp_all add: cov_inv_def zero_summary_def total_of_def classes_def)
  note R = cov_results_fold [OF f1 z(1)]
  obtain s n where f2: "foldl cov_orphan acc os = (s, n)" by fastforce
  note O = cov_orphans_fold [of acc os]
  define ccs where "ccs = map (result_coverage rs is) (first_named [] rs)"
  have ccs: "map (\<lambda>r. classifyResult r (map_get no_owned owned (Name r))) (first_named [] rs) = ccs"
    by (simp add: ccs_def result_coverage_def oo)
  have checks: "Checks s = run_checks rs is"
    using R O f2 z by (simp add: run_checks_def ccs_def [symmetric] ccs oo)
  have inv: "cov_inv (s, n)" using R O f2 by metis
  have "seen_names (s, n) = fst ` set (concat (map items_of ccs)) \<union> SCheck ` set os"
    using R O f2 z by (simp add: ccs)
  also have "\<dots> = not_looked_at rs is"
    by (simp add: not_looked_at_def run_checks_def ccs_def [symmetric] oo items_of_orphan image_Un
        image_UN image_image comp_def)
  finally have "fst ` set n = not_looked_at rs is" by simp
  then have len: "int (length n) = int (card (not_looked_at rs is))"
    using inv by (metis cov_inv_def distinct_card length_map set_map snd_conv)
  have cls: "classes s = (count_by is_checked ccs, count_by is_partial ccs, count_by is_not_applicable ccs)"
    using R O f2 z by (simp add: ccs) (simp add: zero_summary_def)
  have orphan_cls: "count_by is_checked (map orphan_coverage os) = 0"
    "count_by is_partial (map orphan_coverage os) = 0"
    "count_by is_not_applicable (map orphan_coverage os) = 0"
    by (simp_all add: count_by_zero orphan_coverage_def coverage_consts)
  have eq: "CoverageOf rs is = s\<lparr>Checks := sort_key CName (Checks s)\<rparr>"
    by (simp add: CoverageOf_def oo f1 f2)
  show ?thesis
    using inv len checks cls orphan_cls
    by (simp add: eq cov_inv_def) (simp add: classes_def run_checks_def ccs_def [symmetric] oo)
qed

section \<open>Agreement with the verdict\<close>

text \<open>
  What the runner and the analysis guarantee of a run: names are distinct and not empty; a result
  that was never run has no error and no unverified insight; the unverified insight that an
  error raises carries the collector's own name, and so does one about an absent collector.
\<close>

definition unverified_owned :: "result list \<Rightarrow> insight list \<Rightarrow> result \<Rightarrow> insight list" where
  "unverified_owned rs is r = filter (\<lambda>i. owner_in rs i = Name r \<and> Unverified i) is"

definition result_reported :: "result list \<Rightarrow> insight list \<Rightarrow> result \<Rightarrow> bool" where
  "result_reported rs is r \<longleftrightarrow>
     (let us = unverified_owned rs is r
      in Name r \<noteq> [] \<and>
         (if Absent r \<noteq> [] then Err r = None \<and> us = []
          else if Err r \<noteq> None then list_all (\<lambda>i. Check i = Name r) us
          else if RData r \<noteq> NilData \<and> IsAvailable (RData r) then True
          else us = [] \<or> list_ex (\<lambda>i. Check i = Name r) us))"

definition run_reported :: "result list \<Rightarrow> insight list \<Rightarrow> bool" where
  "run_reported rs is \<longleftrightarrow> distinct (map Name rs) \<and> list_all (result_reported rs is) rs"

lemma SCheck_subCheckOf [simp]: "SCheck (subCheckOf i) = Check i"
  by (simp add: subCheckOf_def)

text \<open>The names one reported result contributes.\<close>

lemma result_items:
  assumes "result_reported rs is r"
  shows "fst ` set (items_of (result_coverage rs is r)) =
     (if errored r then {Name r} else {}) \<union> Check ` set (unverified_owned rs is r)"
proof -
  define us where "us = unverified_owned rs is r"
  have ne: "Name r \<noteq> []" using assms by (simp add: result_reported_def Let_def)
  have o: "map_get no_owned (fst (ownInsights rs is)) (Name r) =
      \<lparr>OCount = count_by (\<lambda>i. owner_in rs i = Name r) is, OUnverified = map subCheckOf us\<rparr>"
    using ownInsights_owned [OF ne] by (simp add: us_def unverified_owned_def)
  have img: "fst ` (\<lambda>x. (Check x, SReason (subCheckOf x))) ` set us = Check ` set us"
    by (auto simp: image_image)
  note defs = result_coverage_def classifyResult_def items_of_def o Let_def errored_def coverage_consts
  show ?thesis
    using assms img unfolding us_def [symmetric] result_reported_def Let_def
    by (auto simp: defs list_all_iff list_ex_iff image_image intro: rev_image_eqI [OF _ sym]
        split: option.splits if_splits)
qed

lemma not_looked_at_reported:
  assumes "run_reported rs is"
  shows "not_looked_at rs is = notRun_names rs is \<union> skipped_names is"
proof -
  have first: "first_named [] rs = rs"
    using assms by (simp add: run_reported_def first_named_distinct)
  have rep: "r \<in> set rs \<Longrightarrow> result_reported rs is r" for r
    using assms by (simp add: run_reported_def list_all_iff)
  have "not_looked_at rs is =
      (\<Union>r \<in> set rs. fst ` set (items_of (result_coverage rs is r))) \<union>
      Check ` {i \<in> set is. owner_in rs i = [] \<and> Unverified i}"
    by (simp add: not_looked_at_def run_checks_def first ownInsights_orphans items_of_orphan
        image_Un image_UN image_image comp_def)
  also have "(\<Union>r \<in> set rs. fst ` set (items_of (result_coverage rs is r))) =
      Name ` {r \<in> set rs. errored r} \<union> (\<Union>r \<in> set rs. Check ` set (unverified_owned rs is r))"
    using result_items [OF rep] by (auto split: if_splits)
  also have "(\<Union>r \<in> set rs. Check ` set (unverified_owned rs is r)) =
      Check ` {i \<in> set is. owner_in rs i \<noteq> [] \<and> Unverified i}"
  proof -
    have "owner_in rs i \<noteq> [] \<longleftrightarrow> (\<exists>r \<in> set rs. owner_in rs i = Name r)" for i
      using insightOwner_mem [of "Check i" "map Name rs"] rep
      by (fastforce simp: result_reported_def Let_def)
    then show ?thesis by (auto simp: unverified_owned_def)
  qed
  finally show ?thesis
    by (auto simp: notRun_names_def skipped_names_def unverified_floor_def unverified_root_def)
qed

section \<open>Properties\<close>

text \<open>C25: the coverage summary accounts for itself: its list is sorted by name, has one entry per
  collector name and per unowned unverified insight, its counters are the numbers of the entries
  of each kind, and the reasons add up to the number of things not looked at.\<close>

theorem Coverage_accounts:
  "sorted (map CName (Checks (CoverageOf rs is))) \<and>
   mset (Checks (CoverageOf rs is)) = mset (run_checks rs is) \<and>
   Checked (CoverageOf rs is) = count_by is_checked (Checks (CoverageOf rs is)) \<and>
   Partial (CoverageOf rs is) = count_by is_partial (Checks (CoverageOf rs is)) \<and>
   NotApplicable (CoverageOf rs is) = count_by is_not_applicable (Checks (CoverageOf rs is)) \<and>
   sum_list (map snd (Reasons (CoverageOf rs is))) = NotChecked (CoverageOf rs is)"
proof -
  have perm: "count_by P (sort_key CName xs) = count_by P xs" for P xs
    by (simp add: count_by_def filter_sort)
  show ?thesis
    using CoverageOf_spec [of rs "is"] by (simp add: perm classes_def total_of_def)
qed

text \<open>On a run in which the errors and the insights of unavailable collectors are reported under the
  collector's own name, what coverage counts as not looked at is exactly what the verdict counts as
  not run or skipped, each name once; the two counts add up to it unless a name is in both.\<close>

theorem Coverage_agrees_with_Verdict:
  assumes "run_reported rs is"
  shows "NotChecked (CoverageOf rs is) = int (card (notRun_names rs is \<union> skipped_names is)) \<and>
    (notRun_names rs is \<inter> skipped_names is = {} \<longrightarrow>
       NotChecked (CoverageOf rs is) = NotRun (Verdict rs is) + Skipped (Verdict rs is)) \<and>
    (NotChecked (CoverageOf rs is) = 0 \<longleftrightarrow>
       NotRun (Verdict rs is) = 0 \<and> Skipped (Verdict rs is) = 0)"
proof -
  have fin: "finite (notRun_names rs is)" "finite (skipped_names is)"
    by (simp_all add: notRun_names_def skipped_names_def)
  show ?thesis
    using CoverageOf_spec [of rs "is"] not_looked_at_reported [OF assms] fin
    by (auto simp: Verdict_counts card_Un_disjoint)
qed

text \<open>A check with one unverified insight that lacks root and one that does not is in both counts of the
  verdict and once in the coverage: the sum that the coverage comment promises is then one more.\<close>

lemma coverage_overlap:
  "(let rs = [mk_result ''Hardening'' (Data None) None];
        is = [(mk_insight INFO ''Hardening'' ''sshd configuration'')\<lparr>Unverified := True\<rparr>,
              (mk_insight INFO ''Hardening'' ''/etc/shadow'')\<lparr>Unverified := True, NeedsRoot := True\<rparr>]
    in NotRun (Verdict rs is) = 1 \<and> Skipped (Verdict rs is) = 1 \<and> NotChecked (CoverageOf rs is) = 1)"
  by code_simp

definition example_results :: "result list" where
  "example_results =
     [mk_result ''Disk'' (Data None) None,
      mk_result ''Network'' NilData (Some \<lparr>ErrText = ''x'', ErrChain = [DeadlineExceeded]\<rparr>)]"

definition example_insights :: "insight list" where
  "example_insights =
     [(mk_insight INFO ''Network'' ''check could not run'')\<lparr>Unverified := True\<rparr>,
      (mk_insight INFO ''Disk/SMART'' ''needs root'')\<lparr>Unverified := True, NeedsRoot := True\<rparr>]"

theorem Coverage_agrees_with_Verdict_witness:
  "NotChecked (CoverageOf example_results example_insights) =
     NotRun (Verdict example_results example_insights) +
     Skipped (Verdict example_results example_insights)"
proof -
  have rep: "run_reported example_results example_insights" by code_simp
  have "notRun_names example_results example_insights \<inter> skipped_names example_insights = {}"
    by (auto simp: notRun_names_def skipped_names_def example_results_def example_insights_def
        unverified_floor_def unverified_root_def errored_def)
  then show ?thesis using Coverage_agrees_with_Verdict [OF rep] by blast
qed

end
