(* ===== verification/Monitoring.thy ===== *)
theory Monitoring
  imports Coverage_Model
begin

text \<open>
  The machine-readable outputs that a monitoring system polls: the Nagios plugin line
  (\<open>internal/render/nagios.go\<close>) and the Prometheus text format
  (\<open>internal/render/prometheus.go\<close>, with \<open>sortedResults\<close> and \<open>insightForResult\<close> of
  \<open>internal/render/health.go\<close>). Both derive their severity from the verdict; the lemmas say that
  what they list beside it is complete and agrees with it.
\<close>

section \<open>Nagios\<close>

definition nagios_crit :: "insight list \<Rightarrow> gostring list" where
  "nagios_crit insights = first_seen [] (map Check (filter (\<lambda>i. Level i = CRIT) insights))"

definition nagios_warn :: "insight list \<Rightarrow> gostring list" where
  "nagios_warn insights =
     first_seen [] (map Check
       (filter (\<lambda>i. Level i = WARN \<and> Check i \<notin> set (nagios_crit insights)) insights))"

definition nagios_failed :: "result list \<Rightarrow> gostring list" where
  "nagios_failed results = first_seen [] (map Name (filter (\<lambda>r. Err r \<noteq> None) results))"

definition nagios_unverified :: "insight list \<Rightarrow> gostring list" where
  "nagios_unverified insights =
     first_seen [] (map Check
       (filter (\<lambda>i. Unverified i \<and> \<not> NeedsRoot i \<and> Level i \<noteq> CRIT \<and> Level i \<noteq> WARN) insights))"

definition nagiosStatus :: "result list \<Rightarrow> insight list \<Rightarrow> gostring \<times> int" where
  "nagiosStatus results insights =
     (let crit = nagios_crit insights; warn = nagios_warn insights;
          failed = nagios_failed results; unverified = nagios_unverified insights;
          v = Verdict results insights;
          n = int (length failed + length unverified);
          ran = (if 0 < n then '', '' @ itoa n @ '' check(s) failed to run'' else [])
      in if VLevel v = CRIT then
           (''DASHDIAG CRITICAL - '' @ itoa (int (length crit)) @ '' critical'' @
              (if warn \<noteq> [] then '', '' @ itoa (int (length warn)) @ '' warning'' else []) @ ran @
              '': '' @ join (crit @ warn @ failed @ unverified) '', '', 2)
         else if 0 < Warn v then
           (''DASHDIAG WARNING - '' @ itoa (int (length warn)) @ '' warning'' @ ran @ '': '' @
              join (if 0 < n then warn @ failed @ unverified else warn) '', '', 1)
         else if VLevel v = WARN then
           (''DASHDIAG WARNING - '' @ itoa (int (length (failed @ unverified))) @
              '' check(s) failed to run: '' @ join (failed @ unverified) '', '', 1)
         else (NagiosOK v, ExitCode v))"

definition nagiosCoverage :: "coverage_summary \<Rightarrow> gostring" where
  "nagiosCoverage cov =
     '' | checked='' @ itoa (Checked cov) @ '' not_checked='' @ itoa (NotChecked cov) @
     '' not_applicable='' @ itoa (NotApplicable cov) @
     concat (map (\<lambda>it.
       newline @ ''NOT CHECKED: '' @
       replace_byte (replace_byte (NCheck it) (CHR 0x0A) '' '') (CHR ''|'') ''/'' @ '' ('' @
       replace_byte (NReason it) (CHR ''_'') '' '' @
       (if Action it \<noteq> [] then '', '' @ Action it else []) @ '')'') (NotCheckedItems cov))"

definition NagiosLine :: "result list \<Rightarrow> insight list \<Rightarrow> gostring \<times> int" where
  "NagiosLine results insights =
     (let (line, code) = nagiosStatus results insights
      in (line @ nagiosCoverage (CoverageOf results insights), code))"

lemma set_nagios_crit: "set (nagios_crit is) = Check ` {i \<in> set is. Level i = CRIT}"
  by (auto simp: nagios_crit_def set_first_seen)

lemma set_nagios_warn:
  "set (nagios_warn is) = Check ` {i \<in> set is. Level i = WARN} - set (nagios_crit is)"
  by (auto simp: nagios_warn_def set_first_seen)

lemma set_nagios_failed: "set (nagios_failed rs) = Name ` {r \<in> set rs. errored r}"
  by (auto simp: nagios_failed_def set_first_seen errored_def)

lemma set_nagios_unverified:
  "set (nagios_unverified is) =
     Check ` {i \<in> set is. unverified_floor i \<and> Level i \<noteq> CRIT \<and> Level i \<noteq> WARN}"
  by (auto simp: nagios_unverified_def set_first_seen unverified_floor_def)

lemma nagios_crit_Nil: "nagios_crit is = [] \<longleftrightarrow> (\<forall>i \<in> set is. Level i \<noteq> CRIT)"
  using set_nagios_crit [of "is"] by (auto simp del: set_empty simp: set_empty [symmetric])

lemma distinct_nagios_crit_warn: "distinct (nagios_crit is @ nagios_warn is)"
  using set_nagios_warn [of "is"] by (simp add: nagios_crit_def nagios_warn_def distinct_first_seen)

text \<open>The status of a run that is not OK: a summary without a colon, then the names.\<close>

lemma itoa_no_colon [simp]: "CHR '':'' \<notin> set (itoa n)"
proof -
  have "\<not> is_digit_char (CHR '':'')" by (simp add: is_digit_char_def byte_def)
  moreover have "CHR '':'' \<noteq> CHR ''-''" by simp
  ultimately show ?thesis using itoa_chars by blast
qed

lemma nagiosStatus_parts:
  "\<exists>summary. CHR '':'' \<notin> set summary \<and>
     (ExitCode (Verdict rs is) \<noteq> 0 \<longrightarrow>
        fst (nagiosStatus rs is) = summary @ '': '' @
          join (nagios_crit is @ nagios_warn is @ nagios_failed rs @ nagios_unverified is) '', '')"
proof -
  have ok: "ExitCode (Verdict rs is) = 0 \<longleftrightarrow> VLevel (Verdict rs is) = OK"
    by (simp add: ExitCode_def VLevel_Verdict)
  have warn: "0 < Warn (Verdict rs is) \<longleftrightarrow> (\<exists>i \<in> set is. Level i = WARN)"
    by (simp add: Verdict_counts count_by_pos)
  have crit: "VLevel (Verdict rs is) = CRIT \<longleftrightarrow> (\<exists>i \<in> set is. Level i = CRIT)"
    by (simp add: VLevel_Verdict)
  have nocrit: "VLevel (Verdict rs is) \<noteq> CRIT \<Longrightarrow> nagios_crit is = []"
    unfolding crit nagios_crit_Nil by blast
  have three: "VLevel (Verdict rs is) \<in> {CRIT, WARN, OK}"
    by (simp add: VLevel_Verdict)
  have nowarn: "\<not> 0 < Warn (Verdict rs is) \<Longrightarrow> nagios_warn is = []"
    using warn by (simp add: nagios_warn_def)
  show ?thesis
  proof (cases "VLevel (Verdict rs is) = CRIT")
    case True
    define summary where "summary =
      (''DASHDIAG CRITICAL - '' @ itoa (int (length (nagios_crit is))) @ '' critical'' @
        (if nagios_warn is \<noteq> [] then '', '' @ itoa (int (length (nagios_warn is))) @ '' warning'' else []) @
        (if 0 < int (length (nagios_failed rs) + length (nagios_unverified is))
         then '', '' @ itoa (int (length (nagios_failed rs) + length (nagios_unverified is))) @
           '' check(s) failed to run'' else []))"
    have "CHR '':'' \<notin> set summary" by (simp add: summary_def)
    moreover have "fst (nagiosStatus rs is) = summary @ '': '' @
        join (nagios_crit is @ nagios_warn is @ nagios_failed rs @ nagios_unverified is) '', ''"
      using True by (simp add: nagiosStatus_def Let_def summary_def)
    ultimately show ?thesis by blast
  next
    case False
    note nc = nocrit [OF False]
    define n where "n = int (length (nagios_failed rs) + length (nagios_unverified is))"
    show ?thesis
    proof (cases "0 < Warn (Verdict rs is)")
      case True
      define summary where "summary =
        ''DASHDIAG WARNING - '' @ itoa (int (length (nagios_warn is))) @ '' warning'' @
          (if 0 < n then '', '' @ itoa n @ '' check(s) failed to run'' else [])"
      have "CHR '':'' \<notin> set summary" by (simp add: summary_def)
      moreover have "fst (nagiosStatus rs is) = summary @ '': '' @
          join (nagios_crit is @ nagios_warn is @ nagios_failed rs @ nagios_unverified is) '', ''"
        using True False nc
        by (cases "nagios_failed rs"; cases "nagios_unverified is")
          (simp_all add: nagiosStatus_def Let_def summary_def n_def)
      ultimately show ?thesis by blast
    next
      case nw: False
      have "CHR '':'' \<notin> set (''DASHDIAG WARNING - '' @ itoa n @ '' check(s) failed to run'')" by simp
      moreover have "ExitCode (Verdict rs is) \<noteq> 0 \<longrightarrow> fst (nagiosStatus rs is) =
          (''DASHDIAG WARNING - '' @ itoa n @ '' check(s) failed to run'') @ '': '' @
          join (nagios_crit is @ nagios_warn is @ nagios_failed rs @ nagios_unverified is) '', ''"
        using False nw nc nowarn [OF nw] ok three
        by (cases "VLevel (Verdict rs is) = WARN") (simp_all add: nagiosStatus_def Let_def n_def)
      ultimately show ?thesis by blast
    qed
  qed
qed

text \<open>The words and the code of each level.\<close>

lemma nagiosStatus_CRIT:
  "VLevel (Verdict rs is) = CRIT \<Longrightarrow>
     \<exists>t. nagiosStatus rs is = (''DASHDIAG CRITICAL'' @ t, 2)"
  by (simp only: nagiosStatus_def Let_def if_True append_assoc) simp

lemma nagiosStatus_WARN:
  assumes "VLevel (Verdict rs is) = WARN"
  shows "\<exists>t. nagiosStatus rs is = (''DASHDIAG WARNING'' @ t, 1)"
  using assms by (cases "0 < Warn (Verdict rs is)") (simp_all add: nagiosStatus_def Let_def)

lemma nagiosStatus_OK:
  assumes "VLevel (Verdict rs is) = OK"
  shows "nagiosStatus rs is = (NagiosOK (Verdict rs is), 0)"
proof -
  have "\<not> 0 < Warn (Verdict rs is)"
    using assms by (simp add: Verdict_counts count_by_pos VLevel_Verdict split: if_splits)
  then show ?thesis using assms by (simp add: nagiosStatus_def Let_def ExitCode_def)
qed

section \<open>Prometheus\<close>

definition displayOrder :: "gostring list" where
  "displayOrder =
     [''CPU Load'', ''CPU Thermal'', ''Memory'', ''Swap'', ''GPU'',
      ''Disk'', ''IO'', ''Drives'', ''LVM'', ''RAID'', ''ZFS'', ''DRBD'',
      ''Network'',
      ''Systemd'', ''Processes'', ''FDLimits'', ''Entropy'', ''Clock'', ''Logs'', ''Sysctl'',
      ''KernelSec'', ''Hardening'', ''Packages'',
      ''Kdump'', ''Tuned'', ''Kernel'', ''Ksplice'', ''ServiceRestart'',
      ''Subscription'', ''Snapshots'', ''Battery'', ''Launchd'', ''PVE'',
      ''Bonding'', ''IPMI'', ''OOM'', ''HBA'', ''Pressure'', ''Multipath'',
      ''Ceph'', ''Firewall'', ''Auth'', ''CloudMeta'', ''CloudInit'', ''Auditd'',
      ''NUMA'', ''VLAN'', ''iSCSI'', ''InfiniBand'', ''SRIOV'', ''Nspawn'',
      ''HugePages'', ''CPUFreq'',
      ''TLS'', ''Docker'', ''Containerd'', ''K8s'', ''Hardware'']"

text \<open>The position in the canonical order; unknown names are all behind it, in their own order.\<close>

definition display_pos :: "gostring \<Rightarrow> nat" where
  "display_pos n = length (takeWhile (\<lambda>m. m \<noteq> n) displayOrder)"

definition sortedResults :: "result list \<Rightarrow> result list" where
  "sortedResults results = sort_key (\<lambda>r. display_pos (Name r)) results"

definition insight_order :: "gostring \<Rightarrow> int" where
  "insight_order l = map_get 0 [(CRIT, 3), (WARN, 2), (INFO, 1), (OK, 0)] l"

definition insightForResult :: "gostring \<Rightarrow> insight list \<Rightarrow> insight option" where
  "insightForResult name insights =
     foldl (\<lambda>worst i.
       if Check i \<noteq> name \<and> \<not> has_prefix (Check i) (name @ '' '') \<and> \<not> has_prefix (Check i) (name @ ''/'')
       then worst
       else (case worst of
               None \<Rightarrow> Some i
             | Some w \<Rightarrow> if insight_order (Level w) < insight_order (Level i) then Some i else worst))
     None insights"

definition promSeverity :: "gostring \<Rightarrow> int" where
  "promSeverity level = (if level = CRIT then 2 else if level = WARN then 1 else 0)"

fun prom_label_loop :: "bool \<Rightarrow> gostring \<Rightarrow> gostring" where
  "prom_label_loop lastUnderscore [] = []"
| "prom_label_loop lastUnderscore (c # s) =
     (if (97 \<le> byte c \<and> byte c \<le> 122) \<or> is_digit_char c then c # prom_label_loop False s
      else if \<not> lastUnderscore then CHR ''_'' # prom_label_loop True s
      else prom_label_loop lastUnderscore s)"

definition trim_byte :: "gostring \<Rightarrow> char \<Rightarrow> gostring" where
  "trim_byte s c = rev (dropWhile (\<lambda>d. d = c) (rev (dropWhile (\<lambda>d. d = c) s)))"

definition promLabel :: "gostring \<Rightarrow> gostring" where
  "promLabel name = trim_byte (prom_label_loop False (to_lower name)) (CHR ''_'')"

text \<open>The base collector name of a check.\<close>

definition base_name :: "gostring \<Rightarrow> gostring" where
  "base_name check = (case index_byte check (CHR ''/'') of Some i \<Rightarrow> take i check | None \<Rightarrow> check)"

definition prom_insight :: "(gostring, int) gomap \<Rightarrow> insight \<Rightarrow> (gostring, int) gomap" where
  "prom_insight worst ins =
     (let v = promSeverity (Level ins);
          v = (if Unverified ins \<and> \<not> NeedsRoot ins \<and> v < 1 then 1 else v);
          base = base_name (Check ins)
      in if map_get 0 worst base < v then map_put worst base v else worst)"

definition prom_result :: "(gostring, int) gomap \<Rightarrow> result \<Rightarrow> (gostring, int) gomap" where
  "prom_result worst r =
     (if Err r \<noteq> None \<and> map_get 0 worst (Name r) < 1 then map_put worst (Name r) 1 else worst)"

definition worstByCheck :: "result list \<Rightarrow> insight list \<Rightarrow> (gostring, int) gomap" where
  "worstByCheck results insights = foldl prom_result (foldl prom_insight [] insights) results"

definition prom_shown :: "insight list \<Rightarrow> result \<Rightarrow> bool" where
  "prom_shown insights r \<longleftrightarrow> IsAvailable (RData r) \<or> insightForResult (Name r) insights \<noteq> None"

text \<open>One sample line: \<open>metric{label="value"} n\<close>.\<close>

definition sample :: "gostring \<Rightarrow> gostring \<Rightarrow> gostring \<Rightarrow> int \<Rightarrow> gostring" where
  "sample metric label val n =
     metric @ ''{'' @ label @ ''='' @ [CHR 0x22] @ val @ [CHR 0x22] @ ''} '' @ itoa n @ newline"

definition prom_status_series :: "result list \<Rightarrow> insight list \<Rightarrow> (gostring \<times> int) list" where
  "prom_status_series results insights =
     map (\<lambda>r. (promLabel (Name r), map_get 0 (worstByCheck results insights) (Name r)))
       (filter (prom_shown insights) (sortedResults results))"

definition prom_checked_series :: "coverage_summary \<Rightarrow> (gostring \<times> int) list" where
  "prom_checked_series cov =
     map (\<lambda>cc. (promLabel (CName cc), if Coverage cc = CoverageChecked then 1 else 0))
       (filter (\<lambda>cc. Coverage cc \<noteq> CoverageNotApplicable) (Checks cov))"

definition prom_reason_series :: "coverage_summary \<Rightarrow> (gostring \<times> int) list" where
  "prom_reason_series cov =
     map (\<lambda>reason. (reason, map_get 0 (Reasons cov) reason)) (take 5 CoverageReasons)"

definition PrometheusMetrics :: "result list \<Rightarrow> insight list \<Rightarrow> gostring" where
  "PrometheusMetrics results insights =
     (let cov = CoverageOf results insights
      in ''# HELP dsd_up 1 if the dsd health scan completed.'' @ newline @
         ''# TYPE dsd_up gauge'' @ newline @ ''dsd_up 1'' @ newline @
         ''# HELP dsd_check_status Per-subsystem health (0=OK, 1=WARN, 2=CRIT).'' @ newline @
         ''# TYPE dsd_check_status gauge'' @ newline @
         concat (map (\<lambda>(l, n). sample ''dsd_check_status'' ''check'' l n)
           (prom_status_series results insights)) @
         ''# HELP dsd_check_checked 1 if the check ran, 0 if it was not checked (errored, timed out, or its input unreadable). A check with a not-checked part still reads 1.'' @ newline @
         ''# TYPE dsd_check_checked gauge'' @ newline @
         concat (map (\<lambda>(l, n). sample ''dsd_check_checked'' ''check'' l n) (prom_checked_series cov)) @
         ''# HELP dsd_checks_coverage Number of checks by coverage: checked, not_checked (things not looked at) or not_applicable (nothing to check on this host).'' @ newline @
         ''# TYPE dsd_checks_coverage gauge'' @ newline @
         sample ''dsd_checks_coverage'' ''coverage'' ''checked'' (Checked cov) @
         sample ''dsd_checks_coverage'' ''coverage'' ''not_checked'' (NotChecked cov) @
         sample ''dsd_checks_coverage'' ''coverage'' ''not_applicable'' (NotApplicable cov) @
         ''# HELP dsd_checks_not_checked Number of things not looked at, by reason.'' @ newline @
         ''# TYPE dsd_checks_not_checked gauge'' @ newline @
         concat (map (\<lambda>(l, n). sample ''dsd_checks_not_checked'' ''reason'' l n) (prom_reason_series cov)) @
         ''# HELP dsd_health_status Worst severity across all checks (0=OK, 1=WARN, 2=CRIT).'' @ newline @
         ''# TYPE dsd_health_status gauge'' @ newline @
         ''dsd_health_status '' @ itoa (Severity (Verdict results insights)) @ newline)"

subsection \<open>The per-check gauge\<close>

lemma prom_insights_value:
  assumes "\<And>n. map_get 0 w n \<in> {0, 1, 2}"
  shows "map_get 0 (foldl prom_insight w is) n =
    max (map_get 0 w n)
      (if \<exists>i \<in> set is. base_name (Check i) = n \<and> Level i = CRIT then 2
       else if \<exists>i \<in> set is. base_name (Check i) = n \<and> (Level i = WARN \<or> unverified_floor i) then 1
       else 0)"
  using assms
proof (induction "is" arbitrary: w)
  case Nil
  have "0 \<le> map_get 0 w n" using Nil [of n] by auto
  then show ?case by simp
next
  case (Cons i "is")
  have w1: "map_get 0 (prom_insight w i) m \<in> {0, 1, 2}" for m
    using Cons.prems [of m] Cons.prems [of "base_name (Check i)"]
    by (auto simp: prom_insight_def promSeverity_def Let_def)
  have "map_get 0 (prom_insight w i) n =
      (if base_name (Check i) = n
       then max (map_get 0 w n) (if Level i = CRIT then 2 else if Level i = WARN \<or> unverified_floor i then 1 else 0)
       else map_get 0 w n)"
    using Cons.prems [of n]
    by (auto simp: prom_insight_def promSeverity_def Let_def unverified_floor_def)
  then show ?case
    using Cons.IH [OF w1] Cons.prems [of n] by (auto simp: max_def)
qed

lemma prom_results_value:
  "map_get 0 (foldl prom_result w rs) n =
    (if \<exists>r \<in> set rs. errored r \<and> Name r = n then max 1 (map_get 0 w n) else map_get 0 w n)"
proof (induction rs arbitrary: w)
  case (Cons r rs)
  have "map_get 0 (prom_result w r) n =
      (if errored r \<and> Name r = n then max 1 (map_get 0 w n) else map_get 0 w n)"
    by (auto simp: prom_result_def errored_def)
  then show ?case using Cons by auto
qed simp

lemma worstByCheck_value:
  "map_get 0 (worstByCheck rs is) n =
    (if \<exists>i \<in> set is. base_name (Check i) = n \<and> Level i = CRIT then 2
     else if (\<exists>i \<in> set is. base_name (Check i) = n \<and> (Level i = WARN \<or> unverified_floor i)) \<or>
             (\<exists>r \<in> set rs. errored r \<and> Name r = n) then 1
     else 0)"
proof -
  have z: "map_get 0 [] m = (0::int)" for m :: gostring by (simp add: map_get_def)
  have v: "map_get 0 (foldl prom_insight [] is) n =
      (if \<exists>i \<in> set is. base_name (Check i) = n \<and> Level i = CRIT then 2
       else if \<exists>i \<in> set is. base_name (Check i) = n \<and> (Level i = WARN \<or> unverified_floor i) then 1 else 0)"
    using prom_insights_value [of "[]" "is" n] by (simp add: z)
  show ?thesis unfolding worstByCheck_def prom_results_value v by auto
qed

section \<open>Properties\<close>


text \<open>A collector that failed has its error and the INFO insight that discloses it, and the status line
  counts and names it once for each.\<close>

lemma nagios_failed_twice:
  "fst (nagiosStatus [mk_result ''Network'' NilData (Some \<lparr>ErrText = ''x'', ErrChain = []\<rparr>)]
          [(mk_insight INFO ''Network'' ''check could not run'')\<lparr>Unverified := True\<rparr>]) =
     ''DASHDIAG WARNING - 2 check(s) failed to run: Network, Network''"
  by code_simp

text \<open>the gauge of a check is 2 if some insight whose base name is the check is CRIT, otherwise 1
  if one is WARN or unverified for another reason than missing root, or the collector itself
  failed, otherwise 0; no gauge exceeds the overall one.\<close>

theorem prom_check_status:
  "map_get 0 (worstByCheck rs is) n =
    (if \<exists>i \<in> set is. base_name (Check i) = n \<and> Level i = CRIT then 2
     else if (\<exists>i \<in> set is. base_name (Check i) = n \<and> (Level i = WARN \<or> (Unverified i \<and> \<not> NeedsRoot i))) \<or>
             (\<exists>r \<in> set rs. Name r = n \<and> Err r \<noteq> None) then 1
     else 0) \<and>
   map_get 0 (worstByCheck rs is) n \<le> Severity (Verdict rs is)"
proof -
  have "map_get 0 (worstByCheck rs is) n \<le> Severity (Verdict rs is)"
    unfolding Severity_def ExitCode_Verdict worstByCheck_value by auto
  then show ?thesis
    unfolding worstByCheck_value by (auto simp: unverified_floor_def errored_def)
qed

text \<open>the per-reason series leave things out: an unverified insight without a finer cause is
  counted as not checked, but its reason is the seventh of the list of which five are exported,
  so the exported reasons add up to less than the exported total.\<close>

theorem prom_reasons_incomplete:
  "(let cov = CoverageOf [mk_result ''Disk'' (Data None) None]
                [(mk_insight INFO ''Disk'' ''x'')\<lparr>Unverified := True\<rparr>]
    in NotChecked cov = 1 \<and> sum_list (map snd (prom_reason_series cov)) = 0)"
  by code_simp

end
