(* ===== verification/Baseline.thy ===== *)
theory Baseline
  imports Monitoring
begin

text \<open>
  \<open>internal/baseline/baseline.go\<close>: the snapshot a run is stored as, and the comparison of two
  snapshots; and the two functions of \<open>internal/render/verdict.go\<close> that read a snapshot,
  \<open>SnapshotVerdict\<close> and \<open>HistoryEntry\<close>. A snapshot keeps one insight per check, so the verdict
  derived from it can only be milder than the run's; the lemmas say when it is the same.
\<close>

section \<open>Snapshots\<close>

record check_result =
  BName :: gostring
  Status :: gostring
  Value :: gostring
  BUnverified :: bool
  BNeedsRoot :: bool
  Raw :: data

record snapshot =
  Hostname :: gostring
  Timestamp :: int
  SVersion :: gostring
  SChecks :: "check_result list"
  SCoverage :: "coverage_summary option"

definition statusRank :: "gostring \<Rightarrow> int" where
  "statusRank level = (if level = CRIT then 3 else if level = WARN then 2 else if level = INFO then 1 else 0)"

type_synonym snap_acc = "check_result \<times> bool \<times> int"

fun snap_insight :: "result \<Rightarrow> snap_acc \<Rightarrow> insight \<Rightarrow> snap_acc" where
  "snap_insight r (cr, hasInsight, worstRank) ins =
     (if base_name (Check ins) \<noteq> Name r then (cr, hasInsight, worstRank)
      else
        let rank = statusRank (Level ins)
        in if worstRank < rank then
             (cr\<lparr>Status := Level ins, Value := Message ins, BUnverified := Unverified ins,
                 BNeedsRoot := Unverified ins \<and> NeedsRoot ins\<rparr>, True, rank)
           else (cr, True, worstRank))"

text \<open>The check a result is stored as; \<^const>\<open>None\<close> when it is skipped.\<close>

definition snap_check :: "insight list \<Rightarrow> result \<Rightarrow> check_result option" where
  "snap_check insights r =
     (if RData r = NilData \<and> Err r = None then None
      else
        let cr = \<lparr>BName = Name r, Status = OK, Value = [], BUnverified = False, BNeedsRoot = False,
                  Raw = RData r\<rparr>;
            (cr, hasInsight, _) = foldl (snap_insight r) (cr, False, -1) insights
        in if \<not> hasInsight \<and> \<not> IsAvailable (RData r) then None else Some cr)"

text \<open>Host name, time and version come from the platform.\<close>

definition BuildSnapshot ::
  "gostring \<Rightarrow> int \<Rightarrow> gostring \<Rightarrow> result list \<Rightarrow> insight list \<Rightarrow> snapshot" where
  "BuildSnapshot hostname now version results insights =
     \<lparr>Hostname = hostname, Timestamp = now, SVersion = version,
      SChecks = List.map_filter (snap_check insights) results, SCoverage = None\<rparr>"

definition NewSnapshot ::
  "gostring \<Rightarrow> int \<Rightarrow> gostring \<Rightarrow> result list \<Rightarrow> insight list \<Rightarrow> snapshot" where
  "NewSnapshot hostname now version results insights =
     (BuildSnapshot hostname now version results insights)
       \<lparr>SCoverage := Some (CoverageOf results insights)\<rparr>"

section \<open>The verdict of a snapshot\<close>

definition snap_verdict_check :: "verdict_info \<Rightarrow> check_result \<Rightarrow> verdict_info" where
  "snap_verdict_check v c =
     (let v = count_level (Status c) v
      in if BUnverified c \<and> BNeedsRoot c then
           v\<lparr>VUnverified := VUnverified v + 1, VNeedsRoot := VNeedsRoot v + 1, Skipped := Skipped v + 1\<rparr>
         else if BUnverified c then
           v\<lparr>VUnverified := VUnverified v + 1, NotRun := NotRun v + 1\<rparr>
         else v)"

definition SnapshotVerdict :: "snapshot option \<Rightarrow> verdict_info" where
  "SnapshotVerdict snap =
     (case snap of
        None \<Rightarrow> zero_verdict\<lparr>VLevel := OK\<rparr>
      | Some s \<Rightarrow>
          let v = foldl snap_verdict_check zero_verdict (SChecks s)
          in v\<lparr>VLevel := levelFromCounts (Crit v) (Warn v) (VUnverified v - VNeedsRoot v)\<rparr>)"

record history_entry =
  HTimestamp :: int
  HHostname :: gostring
  HVersion :: gostring
  HVerdict :: gostring
  HChecks :: "(gostring, gostring) gomap"

definition HistoryEntry :: "snapshot \<Rightarrow> result list \<Rightarrow> insight list \<Rightarrow> history_entry" where
  "HistoryEntry snap results insights =
     \<lparr>HTimestamp = Timestamp snap, HHostname = Hostname snap, HVersion = SVersion snap,
      HVerdict = VLevel (Verdict results insights),
      HChecks = foldl (\<lambda>m c. map_put m (BName c) (Status c)) [] (SChecks snap)\<rparr>"

section \<open>Comparing two snapshots\<close>

record diff_entry =
  DName :: gostring
  Before :: gostring
  After :: gostring
  StatusChange :: gostring
  Changed :: bool
  Improved :: bool
  DUnverified :: bool

datatype diff_class = Degraded | Better | Unchanged

definition status_value :: "gostring \<Rightarrow> gostring \<Rightarrow> gostring" where
  "status_value st val = st @ '' '' @ val"

text \<open>The body of the first loop: the entry for a check of the later snapshot and its list.\<close>

definition diff_check :: "check_result option \<Rightarrow> check_result \<Rightarrow> diff_class \<times> diff_entry" where
  "diff_check old ac =
     (case old of
        None \<Rightarrow>
          (let d = \<lparr>DName = BName ac, Before = status_value [] [], After = status_value (Status ac) (Value ac),
                    StatusChange = ''new->'' @ Status ac, Changed = False, Improved = False,
                    DUnverified = BUnverified ac\<rparr>
           in if 0 < statusRank (Status ac) then (Degraded, d\<lparr>Changed := True\<rparr>) else (Unchanged, d))
      | Some bc \<Rightarrow>
          (let unv = BUnverified bc \<or> BUnverified ac;
               d = \<lparr>DName = BName ac, Before = status_value (Status bc) (Value bc),
                    After = status_value (Status ac) (Value ac),
                    StatusChange = Status bc @ ''->'' @ Status ac, Changed = (Status bc \<noteq> Status ac),
                    Improved = (if unv then False else statusRank (Status ac) < statusRank (Status bc)),
                    DUnverified = unv\<rparr>
           in if Changed d \<and> \<not> Improved d then (Degraded, d)
              else if Changed d \<and> Improved d then (Better, d)
              else (Unchanged, d)))"

definition diff_gone :: "check_result \<Rightarrow> diff_entry" where
  "diff_gone bc =
     \<lparr>DName = BName bc, Before = status_value (Status bc) (Value bc), After = ''absent'',
      StatusChange = Status bc @ ''->absent'', Changed = True, Improved = False,
      DUnverified = BUnverified bc\<rparr>"

definition before_map :: "snapshot \<Rightarrow> (gostring, check_result) gomap" where
  "before_map before = foldl (\<lambda>m c. map_put m (BName c) c) [] (SChecks before)"

definition diff_classified :: "snapshot \<Rightarrow> snapshot \<Rightarrow> (diff_class \<times> diff_entry) list" where
  "diff_classified before after =
     map (\<lambda>ac. diff_check (map_of (before_map before) (BName ac)) ac) (SChecks after)"

definition vanished :: "snapshot \<Rightarrow> snapshot \<Rightarrow> check_result list" where
  "vanished before after =
     filter (\<lambda>bc. \<not> (BName bc \<in> BName ` set (SChecks after) \<or> statusRank (Status bc) = 0)) (SChecks before)"

definition ComputeDiff :: "snapshot \<Rightarrow> snapshot \<Rightarrow> diff_entry list" where
  "ComputeDiff before after =
     (let es = diff_classified before after;
          of_class = (\<lambda>k. map snd (filter (\<lambda>e. fst e = k) es));
          degraded = of_class Degraded @ map diff_gone (vanished before after)
      in degraded @ of_class Better @ of_class Unchanged)"

section \<open>Lemmas on snapshots\<close>

definition matches :: "result \<Rightarrow> insight \<Rightarrow> bool" where
  "matches r i \<longleftrightarrow> base_name (Check i) = Name r"

lemma statusRank_nonneg [simp]: "0 \<le> statusRank l"
  by (simp add: statusRank_def)

text \<open>The stored check is the default or one of the matching insights, and none outranks it.\<close>

definition stored_as :: "check_result \<Rightarrow> insight \<Rightarrow> bool" where
  "stored_as c i \<longleftrightarrow>
     Status c = Level i \<and> Value c = Message i \<and> BUnverified c = Unverified i \<and>
     BNeedsRoot c = (Unverified i \<and> NeedsRoot i)"

lemma snap_insight_step:
  assumes "snap_insight r (cr, h, k) i = (c1, h1, k1)"
  shows "h1 = (h \<or> matches r i) \<and> BName c1 = BName cr \<and> k \<le> k1 \<and>
    (if matches r i \<and> k < statusRank (Level i) then stored_as c1 i \<and> k1 = statusRank (Level i)
     else c1 = cr \<and> k1 = k)"
  using assms by (auto simp: matches_def stored_as_def Let_def split: if_splits)

lemma snap_fold_induct:
  assumes "foldl (snap_insight r) (cr, h, k) is = (cr', h', k')"
  shows "h' = (h \<or> (\<exists>i \<in> set is. matches r i)) \<and> BName cr' = BName cr \<and> k \<le> k' \<and>
    ((cr' = cr \<and> k' = k) \<or>
     (\<exists>i \<in> set is. matches r i \<and> stored_as cr' i \<and> k' = statusRank (Level i))) \<and>
    (\<forall>i \<in> set is. matches r i \<longrightarrow> statusRank (Level i) \<le> k')"
  using assms
proof (induction "is" arbitrary: cr h k)
  case (Cons j "is")
  obtain c1 h1 k1 where s: "snap_insight r (cr, h, k) j = (c1, h1, k1)" by (metis prod_cases3)
  with Cons.prems have f: "foldl (snap_insight r) (c1, h1, k1) is = (cr', h', k')" by simp
  note step = snap_insight_step [OF s] and IH = Cons.IH [OF f]
  have 1: "h' = (h \<or> (\<exists>i \<in> set (j # is). matches r i))" using IH step by auto
  have 2: "BName cr' = BName cr" "k \<le> k'" using IH step by auto
  have 3: "(cr' = cr \<and> k' = k) \<or>
      (\<exists>i \<in> set (j # is). matches r i \<and> stored_as cr' i \<and> k' = statusRank (Level i))"
  proof (cases "matches r j \<and> k < statusRank (Level j)")
    case True
    then show ?thesis using IH step by (metis list.set_intros)
  next
    case False
    then have "c1 = cr" "k1 = k" using step by auto
    then show ?thesis using IH by (metis list.set_intros(2))
  qed
  have "matches r j \<Longrightarrow> statusRank (Level j) \<le> k1" using step by (auto split: if_splits)
  then have 4: "\<forall>i \<in> set (j # is). matches r i \<longrightarrow> statusRank (Level i) \<le> k'"
    using IH by force
  show ?case using 1 2 3 4 by blast
qed simp

lemma snap_insights_fold:
  assumes "foldl (snap_insight r) (cr, h, k) is = (cr', h', k')"
  shows "h' = (h \<or> (\<exists>i \<in> set is. matches r i))" and "BName cr' = BName cr" and "k \<le> k'"
    and "(cr' = cr \<and> k' = k) \<or> (\<exists>i \<in> set is. matches r i \<and> stored_as cr' i \<and> k' = statusRank (Level i))"
    and "i \<in> set is \<Longrightarrow> matches r i \<Longrightarrow> statusRank (Level i) \<le> k'"
  using snap_fold_induct [OF assms] by blast+

lemma snap_check_cases:
  assumes "snap_check is r = Some c"
  shows "BName c = Name r" and "RData r \<noteq> NilData \<or> Err r \<noteq> None"
    and "(\<exists>i \<in> set is. matches r i \<and> stored_as c i) \<or> (Status c = OK \<and> \<not> BUnverified c \<and> \<not> BNeedsRoot c)"
    and "i \<in> set is \<Longrightarrow> matches r i \<Longrightarrow> statusRank (Level i) \<le> statusRank (Status c)"
proof -
  define cr where "cr = \<lparr>BName = Name r, Status = OK, Value = [], BUnverified = False,
      BNeedsRoot = False, Raw = RData r\<rparr>"
  obtain cr' h' k' where f: "foldl (snap_insight r) (cr, False, -1) is = (cr', h', k')" by (metis prod_cases3)
  have c: "c = cr'" and d: "RData r \<noteq> NilData \<or> Err r \<noteq> None"
    using assms f by (auto simp: snap_check_def cr_def [symmetric] Let_def split: if_splits)
  note F = snap_insights_fold [OF f]
  show "BName c = Name r" using F(2) c by (simp add: cr_def)
  show "RData r \<noteq> NilData \<or> Err r \<noteq> None" by (rule d)
  have cr: "Status cr = OK" "\<not> BUnverified cr" "\<not> BNeedsRoot cr" by (simp_all add: cr_def)
  show "(\<exists>i \<in> set is. matches r i \<and> stored_as c i) \<or> (Status c = OK \<and> \<not> BUnverified c \<and> \<not> BNeedsRoot c)"
    using F(4) c cr by blast
  show "statusRank (Level i) \<le> statusRank (Status c)" if i: "i \<in> set is" "matches r i"
  proof -
    have "statusRank (Level i) \<le> k'" using F(5) i by blast
    moreover have "k' \<noteq> -1" using calculation statusRank_nonneg [of "Level i"] by linarith
    ultimately show ?thesis using F(4) c by (auto simp: stored_as_def)
  qed
qed

lemma snap_check_kept:
  assumes "RData r \<noteq> NilData \<or> Err r \<noteq> None" and "i \<in> set is" and "matches r i"
  shows "\<exists>c. snap_check is r = Some c"
proof -
  define cr where "cr = \<lparr>BName = Name r, Status = OK, Value = [], BUnverified = False,
      BNeedsRoot = False, Raw = RData r\<rparr>"
  obtain cr' h' k' where f: "foldl (snap_insight r) (cr, False, -1) is = (cr', h', k')" by (metis prod_cases3)
  have h': "h'" using snap_insights_fold(1) [OF f] assms by auto
  have "\<not> (RData r = NilData \<and> Err r = None)" using assms(1) by blast
  then have "snap_check is r = Some cr'"
    using f h' by (simp add: snap_check_def cr_def [symmetric] Let_def)
  then show ?thesis by blast
qed

definition bit1 :: "bool \<Rightarrow> int" where
  "bit1 b = (if b then 1 else 0)"

lemma snap_verdict_check_step:
  "snap_verdict_check v c =
     v\<lparr>Crit := Crit v + bit1 (Status c = CRIT), Warn := Warn v + bit1 (Status c = WARN),
       Info := Info v + bit1 (Status c = INFO), VUnverified := VUnverified v + bit1 (BUnverified c),
       VNeedsRoot := VNeedsRoot v + bit1 (BUnverified c \<and> BNeedsRoot c),
       NotRun := NotRun v + bit1 (BUnverified c \<and> \<not> BNeedsRoot c),
       Skipped := Skipped v + bit1 (BUnverified c \<and> BNeedsRoot c)\<rparr>"
  by (cases "BUnverified c"; cases "BNeedsRoot c")
    (auto simp: snap_verdict_check_def count_level_def Let_def bit1_def)

lemma count_by_bit1: "count_by P (x # xs) = bit1 (P x) + count_by P xs"
  by (simp add: bit1_def)

lemma snap_verdict_fold:
  "foldl snap_verdict_check v cs =
      v\<lparr>Crit := Crit v + count_by (\<lambda>c. Status c = CRIT) cs,
        Warn := Warn v + count_by (\<lambda>c. Status c = WARN) cs,
        Info := Info v + count_by (\<lambda>c. Status c = INFO) cs,
        VUnverified := VUnverified v + count_by BUnverified cs,
        VNeedsRoot := VNeedsRoot v + count_by (\<lambda>c. BUnverified c \<and> BNeedsRoot c) cs,
        NotRun := NotRun v + count_by (\<lambda>c. BUnverified c \<and> \<not> BNeedsRoot c) cs,
        Skipped := Skipped v + count_by (\<lambda>c. BUnverified c \<and> BNeedsRoot c) cs\<rparr>"
proof (induction cs arbitrary: v)
  case (Cons c cs)
  show ?case
    using Cons.IH [of "snap_verdict_check v c"]
    by (simp add: snap_verdict_check_step count_by_bit1 add.assoc del: count_by_simps(2))
qed simp

lemma SnapshotVerdict_level:
  "VLevel (SnapshotVerdict (Some s)) =
     (if \<exists>c \<in> set (SChecks s). Status c = CRIT then CRIT
      else if (\<exists>c \<in> set (SChecks s). Status c = WARN \<or> (BUnverified c \<and> \<not> BNeedsRoot c)) then WARN
      else OK)"
proof -
  have "count_by (\<lambda>c. BUnverified c \<and> BNeedsRoot c) cs < count_by BUnverified cs \<longleftrightarrow>
      (\<exists>c \<in> set cs. BUnverified c \<and> \<not> BNeedsRoot c)" for cs
    using count_by_split [of BUnverified cs BNeedsRoot]
      count_by_pos [of "\<lambda>c. BUnverified c \<and> \<not> BNeedsRoot c" cs] by simp
  then show ?thesis
    by (auto simp: SnapshotVerdict_def Let_def snap_verdict_fold zero_verdict_def levelFromCounts_def
        count_by_pos)
qed

lemma snap_level_witness:
  assumes "c \<in> set (SChecks (BuildSnapshot h t v rs is))"
  shows "(Status c = OK \<and> \<not> BUnverified c) \<or>
    (\<exists>i \<in> set is. Status c = Level i \<and> BUnverified c = Unverified i \<and> BNeedsRoot c = (Unverified i \<and> NeedsRoot i))"
proof -
  obtain r where "snap_check is r = Some c" using assms by (auto simp: BuildSnapshot_def set_map_filter)
  from snap_check_cases(3) [OF this] show ?thesis by (auto simp: stored_as_def)
qed

lemma snap_rank_covers:
  assumes "i \<in> set is" and "r \<in> set rs" and "matches r i" and "RData r \<noteq> NilData \<or> Err r \<noteq> None"
  shows "\<exists>c \<in> set (SChecks (BuildSnapshot h t v rs is)). statusRank (Level i) \<le> statusRank (Status c)"
proof -
  obtain c where c: "snap_check is r = Some c" using snap_check_kept [OF assms(4,1,3)] by blast
  then show ?thesis
    using snap_check_cases(4) [OF c assms(1,3)] assms(2)
    by (auto simp: BuildSnapshot_def set_map_filter intro!: bexI [of _ c])
qed

lemma statusRank_iffs:
  "3 \<le> statusRank l \<longleftrightarrow> l = CRIT" "2 \<le> statusRank l \<longleftrightarrow> l = CRIT \<or> l = WARN"
  by (auto simp: statusRank_def)

section \<open>Lemmas on differences\<close>

lemma before_map_Some:
  "map_of (before_map s) n = Some c \<Longrightarrow> c \<in> set (SChecks s) \<and> BName c = n"
  by (auto simp: before_map_def map_of_fold_put dest!: map_of_SomeD)

lemma before_map_None:
  "map_of (before_map s) n = None \<longleftrightarrow> n \<notin> BName ` set (SChecks s)"
  by (auto simp: before_map_def map_of_fold_put map_of_eq_None_iff image_image)

lemma before_map_distinct:
  assumes "distinct (map BName (SChecks s))" and "c \<in> set (SChecks s)"
  shows "map_of (before_map s) (BName c) = Some c"
proof -
  obtain d where d: "map_of (before_map s) (BName c) = Some d"
    using before_map_None [of s "BName c"] assms(2) by auto
  then have "d \<in> set (SChecks s)" "BName d = BName c" using before_map_Some by blast+
  then show ?thesis using d assms by (metis distinct_map inj_on_eq_iff)
qed

lemma set_diff_classified:
  "set (ComputeDiff b a) = snd ` set (diff_classified b a) \<union> diff_gone ` set (vanished b a)"
proof -
  have "e \<in> set xs \<Longrightarrow> fst e = Degraded \<or> fst e = Better \<or> fst e = Unchanged" for e :: "diff_class \<times> diff_entry" and xs
    by (cases "fst e") auto
  then show ?thesis
    by (auto simp: ComputeDiff_def Let_def image_iff) (metis prod.collapse)+
qed

lemma diff_check_improved:
  "Improved (snd (diff_check old ac)) \<Longrightarrow>
     \<exists>bc. old = Some bc \<and> \<not> BUnverified bc \<and> \<not> BUnverified ac \<and>
       statusRank (Status ac) < statusRank (Status bc)"
  by (auto simp: diff_check_def Let_def split: option.splits if_splits)

lemma diff_check_unchanged:
  "\<not> Changed (snd (diff_check (Some bc) ac)) \<longleftrightarrow> Status bc = Status ac"
  by (auto simp: diff_check_def Let_def)

lemma diff_check_same: "\<not> Changed (snd (diff_check (Some c) c))"
  by (simp add: diff_check_unchanged)

section \<open>Properties\<close>

text \<open>C27: the verdict derived from the snapshot of a run is never worse than the verdict of the run,
  and every WARN or CRIT insight that belongs, by its base name, to a collector that produced data
  or an error keeps its weight: with such a CRIT the snapshot is CRIT, with such a WARN it is at
  least WARN. An insight under a name that no collector of the run has is not in the snapshot at
  all (\<open>snapshot_loses_foreign\<close>), and the claim is not made for it.\<close>

theorem snapshot_verdict_bounds:
  fixes h t v rs "is"
  defines "snap \<equiv> SnapshotVerdict (Some (BuildSnapshot h t v rs is))"
  shows "ExitCode snap \<le> ExitCode (Verdict rs is) \<and>
    (\<forall>i \<in> set is. (\<exists>r \<in> set rs. base_name (Check i) = Name r \<and> (RData r \<noteq> NilData \<or> Err r \<noteq> None)) \<longrightarrow>
      (Level i = CRIT \<longrightarrow> VLevel snap = CRIT \<and> VLevel (Verdict rs is) = CRIT) \<and>
      (Level i = WARN \<longrightarrow> 1 \<le> ExitCode snap))"
proof -
  let ?cs = "SChecks (BuildSnapshot h t v rs is)"
  have snap: "VLevel snap = (if \<exists>c \<in> set ?cs. Status c = CRIT then CRIT
      else if (\<exists>c \<in> set ?cs. Status c = WARN \<or> (BUnverified c \<and> \<not> BNeedsRoot c)) then WARN else OK)"
    unfolding snap_def by (rule SnapshotVerdict_level)
  have le: "ExitCode snap \<le> ExitCode (Verdict rs is)"
    using snap_level_witness [of _ h t v rs "is"]
    by (fastforce simp: ExitCode_Verdict ExitCode_def [of snap] snap unverified_floor_def)
  have "(Level i = CRIT \<longrightarrow> VLevel snap = CRIT \<and> VLevel (Verdict rs is) = CRIT) \<and>
      (Level i = WARN \<longrightarrow> 1 \<le> ExitCode snap)"
    if i: "i \<in> set is" and owner: "\<exists>r \<in> set rs. base_name (Check i) = Name r \<and> (RData r \<noteq> NilData \<or> Err r \<noteq> None)"
    for i
  proof -
    have cover: "\<exists>c \<in> set ?cs. statusRank (Level i) \<le> statusRank (Status c)"
      using i owner snap_rank_covers [of i "is" _ rs h t v] by (auto simp: matches_def)
    have "VLevel snap = CRIT" if "Level i = CRIT"
      using cover that statusRank_iffs(1) by (auto simp: snap statusRank_def)
    moreover have "VLevel (Verdict rs is) = CRIT" if "Level i = CRIT"
      using i that by (auto simp: VLevel_Verdict)
    moreover have "1 \<le> ExitCode snap" if warn: "Level i = WARN"
    proof -
      obtain c where "c \<in> set ?cs" "2 \<le> statusRank (Status c)"
        using cover warn by (auto simp: statusRank_def)
      then have "Status c = CRIT \<or> Status c = WARN" using statusRank_iffs(2) by blast
      then show ?thesis using \<open>c \<in> set ?cs\<close> by (auto simp: ExitCode_def snap)
    qed
    ultimately show ?thesis by blast
  qed
  then show ?thesis using le by blast
qed

theorem snapshot_verdict_bounds_witness:
  "VLevel (SnapshotVerdict (Some (BuildSnapshot ''h'' 0 ''1''
     [mk_result ''Network'' (Data None) None] [mk_insight CRIT ''Network/DNS'' ''down'']))) = CRIT"
proof -
  have "mk_insight CRIT ''Network/DNS'' ''down'' \<in> set [mk_insight CRIT ''Network/DNS'' ''down'']"
    "\<exists>r \<in> set [mk_result ''Network'' (Data None) None].
       base_name (Check (mk_insight CRIT ''Network/DNS'' ''down'')) = Name r \<and> (RData r \<noteq> NilData \<or> Err r \<noteq> None)"
    "Level (mk_insight CRIT ''Network/DNS'' ''down'') = CRIT"
    by (simp_all add: base_name_def)
  with snapshot_verdict_bounds [of "''h''" 0 "''1''" "[mk_result ''Network'' (Data None) None]"
      "[mk_insight CRIT ''Network/DNS'' ''down'']"]
  show ?thesis by blast
qed

text \<open>An insight whose name is not a collector's has no snapshot entry: the cgroup check reports under
  a name of its own from the results of the collector \<open>CPUDeep\<close>, and the snapshot of a run that is CRIT
  because of it is OK.\<close>

lemma snapshot_loses_foreign:
  "(let rs = [mk_result ''CPUDeep'' (Data None) None]; is = [mk_insight CRIT ''Cgroup'' ''memory limit reached'']
    in VLevel (Verdict rs is) = CRIT \<and> VLevel (SnapshotVerdict (Some (BuildSnapshot ''h'' 0 ''1'' rs is))) = OK)"
  by code_simp

text \<open>a snapshot keeps the first of the equally ranked insights of a check, so an unverified
  INFO behind a verified one is lost: the run's verdict is WARN, not fully verified, while the
  stored snapshot's is a clean OK and the story says that all checks are healthy.\<close>

theorem snapshot_loses_unverified:
  "(let rs = [mk_result ''Disk'' (Data None) None];
        is = [mk_insight INFO ''Disk'' ''note'',
              (mk_insight INFO ''Disk'' ''could not read'')\<lparr>Unverified := True\<rparr>];
        snap = SnapshotVerdict (Some (BuildSnapshot ''h'' 0 ''1'' rs is))
    in VLevel (Verdict rs is) = WARN \<and> Floored (Verdict rs is) \<and> VLevel snap = OK \<and> Clean snap \<and>
       StoryCurrentLine snap = ''All checks currently healthy.'')"
  by code_simp

text \<open>C20: in a comparison of two snapshots an entry counts as improved only when both sides were
  verified and the rank went down; every check of the later snapshot and every vanished problem of
  the earlier one has an entry, and comparing a snapshot with itself reports no change.\<close>

theorem ComputeDiff_sound:
  "(if distinct (map BName (SChecks b)) then \<forall>e. e \<in> set (ComputeDiff b b) \<longrightarrow> \<not> Changed e else True) \<and>
   (\<forall>e. e \<in> set (ComputeDiff b a) \<longrightarrow> Improved e \<longrightarrow>
      (\<exists>bc \<in> set (SChecks b). \<exists>ac \<in> set (SChecks a).
         BName bc = DName e \<and> BName ac = DName e \<and> \<not> BUnverified bc \<and> \<not> BUnverified ac \<and>
         statusRank (Status ac) < statusRank (Status bc))) \<and>
   DName ` set (ComputeDiff b a) =
     BName ` set (SChecks a) \<union> BName ` {c \<in> set (SChecks b). 0 < statusRank (Status c)}"
proof (intro conjI)
  have dname: "DName (snd (diff_check old ac)) = BName ac" for old ac
    by (auto simp: diff_check_def Let_def split: option.splits)
  show "if distinct (map BName (SChecks b)) then \<forall>e. e \<in> set (ComputeDiff b b) \<longrightarrow> \<not> Changed e else True"
    using before_map_distinct diff_check_same
    by (auto simp: set_diff_classified diff_classified_def vanished_def)
  show "\<forall>e. e \<in> set (ComputeDiff b a) \<longrightarrow> Improved e \<longrightarrow>
      (\<exists>bc \<in> set (SChecks b). \<exists>ac \<in> set (SChecks a).
         BName bc = DName e \<and> BName ac = DName e \<and> \<not> BUnverified bc \<and> \<not> BUnverified ac \<and>
         statusRank (Status ac) < statusRank (Status bc))"
  proof (intro allI impI)
    fix e assume e: "e \<in> set (ComputeDiff b a)" "Improved e"
    then obtain ac where ac: "ac \<in> set (SChecks a)"
      "e = snd (diff_check (map_of (before_map b) (BName ac)) ac)"
      by (auto simp: set_diff_classified diff_classified_def diff_gone_def)
    then obtain bc where bc: "map_of (before_map b) (BName ac) = Some bc" "\<not> BUnverified bc"
      "\<not> BUnverified ac" "statusRank (Status ac) < statusRank (Status bc)"
      using diff_check_improved e(2) by blast
    then show "\<exists>bc \<in> set (SChecks b). \<exists>ac \<in> set (SChecks a).
         BName bc = DName e \<and> BName ac = DName e \<and> \<not> BUnverified bc \<and> \<not> BUnverified ac \<and>
         statusRank (Status ac) < statusRank (Status bc)"
      using ac before_map_Some [OF bc(1)] dname by metis
  qed
  have "0 < statusRank s \<longleftrightarrow> statusRank s \<noteq> 0" for s by (simp add: statusRank_def)
  moreover have "DName (diff_gone c) = BName c" for c by (simp add: diff_gone_def)
  ultimately show "DName ` set (ComputeDiff b a) =
     BName ` set (SChecks a) \<union> BName ` {c \<in> set (SChecks b). 0 < statusRank (Status c)}"
    by (auto simp: set_diff_classified diff_classified_def vanished_def dname image_Un image_image)
qed

definition example_snapshot :: "gostring \<Rightarrow> snapshot" where
  "example_snapshot st =
     \<lparr>Hostname = ''h'', Timestamp = 0, SVersion = ''1'',
      SChecks = [\<lparr>BName = ''Disk'', Status = st, Value = ''v'', BUnverified = False,
                 BNeedsRoot = False, Raw = Data None\<rparr>],
      SCoverage = None\<rparr>"

theorem ComputeDiff_sound_witness:
  "(\<exists>bc \<in> set (SChecks (example_snapshot CRIT)). \<exists>ac \<in> set (SChecks (example_snapshot OK)).
      statusRank (Status ac) < statusRank (Status bc)) \<and>
   \<not> Changed (hd (ComputeDiff (example_snapshot CRIT) (example_snapshot CRIT)))"
proof -
  have 1: "hd (ComputeDiff (example_snapshot CRIT) (example_snapshot OK))
      \<in> set (ComputeDiff (example_snapshot CRIT) (example_snapshot OK))"
    "Improved (hd (ComputeDiff (example_snapshot CRIT) (example_snapshot OK)))"
    by code_simp+
  have 2: "hd (ComputeDiff (example_snapshot CRIT) (example_snapshot CRIT))
      \<in> set (ComputeDiff (example_snapshot CRIT) (example_snapshot CRIT))"
    "distinct (map BName (SChecks (example_snapshot CRIT)))"
    by code_simp+
  show ?thesis
    using ComputeDiff_sound [of "example_snapshot CRIT" "example_snapshot OK"] 1 2 by fastforce
qed

end
