(* ===== verification/Hints.thy ===== *)
theory Hints
  imports Run_Model
begin

text \<open>
  The part of \<open>internal/analysis/heuristics.go\<close> that makes and rewrites insights independently of
  any collector: constructing unverified insights, collapsing the duplicate SELinux verdict, and
  adapting the fix hints to the host's package manager and init system. The regular expressions
  of the code are written out as matchers on the string. The distribution, operating system and
  init system of the host are arguments.
\<close>

section \<open>Constructing insights\<close>

definition mk_full :: "gostring \<Rightarrow> gostring \<Rightarrow> gostring \<Rightarrow> gostring list \<Rightarrow> insight" where
  "mk_full level check message hints = (mk_insight level check message)\<lparr>Hints := hints\<rparr>"

definition unverifiedInsight ::
  "gostring \<Rightarrow> gostring \<Rightarrow> gostring \<Rightarrow> gostring \<Rightarrow> gostring list \<Rightarrow> insight" where
  "unverifiedInsight reason level check message hints =
     (mk_full level check message hints)\<lparr>Unverified := True, UnverifiedReason := reason\<rparr>"

definition needsRootInsight ::
  "bool \<Rightarrow> gostring \<Rightarrow> gostring \<Rightarrow> gostring \<Rightarrow> gostring list \<Rightarrow> insight" where
  "needsRootInsight isRoot level check message hints =
     (let ins = unverifiedInsight ReasonUnreadable level check message hints;
          ins = ins\<lparr>NeedsRoot := \<not> isRoot\<rparr>
      in if NeedsRoot ins then ins\<lparr>UnverifiedReason := ReasonNeedsRoot\<rparr> else ins)"

definition markNotRecorded :: "insight list \<Rightarrow> insight list" where
  "markNotRecorded is =
     map (\<lambda>i. if \<not> Unverified i then i
              else if UnverifiedReason i \<in> {ReasonUnreadable, ReasonCollectorError, ReasonParse}
              then i\<lparr>UnverifiedReason := ReasonNotRecorded\<rparr> else i) is"

text \<open>The insights of one result in the loop of \<open>ApplyThresholds\<close>; \<open>apply_one\<close> is the dispatch to
  the check of the result's type and \<open>err_text\<close> the verb \<open>%v\<close> of an error.\<close>

definition result_insights ::
  "('a result_scheme \<Rightarrow> insight list) \<Rightarrow> 'a result_scheme \<Rightarrow> insight list" where
  "result_insights apply_one r =
     (case Err r of
        Some e \<Rightarrow>
          (let reason = ReasonOfErr e;
               reason = (if NotRecorded r \<and> reason = ReasonCollectorError then ReasonNotRecorded else reason)
           in [unverifiedInsight reason INFO (Name r)
                 (''check could not run '' @ em_dash @ '' '' @ ErrText e) []])
      | None \<Rightarrow> if NotRecorded r then markNotRecorded (apply_one r) else apply_one r)"

text \<open>\<open>range\<close> over runes accepts exactly the ASCII bytes of the allowlist.\<close>

definition safe_char :: "char \<Rightarrow> bool" where
  "safe_char c \<longleftrightarrow>
     (97 \<le> byte c \<and> byte c \<le> 122) \<or> (65 \<le> byte c \<and> byte c \<le> 90) \<or> is_digit_char c \<or>
     c \<in> {CHR ''.'', CHR ''-'', CHR ''_'', CHR '':'', CHR ''/'', CHR ''@''}"

definition looksLikeSafeToken :: "gostring \<Rightarrow> bool" where
  "looksLikeSafeToken s \<longleftrightarrow> s \<noteq> [] \<and> list_all safe_char s"

definition eccInsights :: "int \<Rightarrow> int \<Rightarrow> gostring \<Rightarrow> insight list" where
  "eccInsights corrected uncorrected check =
     (if 0 < uncorrected then
        [mk_full CRIT check
          (itoa uncorrected @ '' uncorrected ECC memory error(s) '' @ em_dash @ '' hardware RAM fault'')
          [''to inspect: edac-util -s 4'', ''to diagnose: run memtest86+ and check which DIMM'']]
      else if 100 < corrected then
        [mk_full WARN check
          (itoa corrected @ '' corrected ECC memory error(s) '' @ em_dash @ '' RAM degrading'')
          [''to inspect: edac-util -s 4'',
           ''note: rising corrected-error counts often precede an uncorrectable fault'']]
      else [])"

section \<open>The duplicate SELinux verdict\<close>

definition isDenial :: "insight \<Rightarrow> gostring \<Rightarrow> bool" where
  "isDenial ins check \<longleftrightarrow>
     Check ins = check \<and> contains (Message ins) ''SELinux denial'' \<and> contains (Message ins) ''last hour''"

definition hardening_hints :: "insight list \<Rightarrow> gostring list" where
  "hardening_hints insights =
     foldl (\<lambda>hs ins. if isDenial ins ''KernelSec'' then hs
                     else if isDenial ins ''Hardening'' then Hints ins else hs) [] insights"

text \<open>Appending the hints that are not there yet.\<close>

definition fold_hints :: "gostring list \<Rightarrow> gostring list \<Rightarrow> gostring list" where
  "fold_hints hints extra = hints @ first_seen hints extra"

definition dedupeSELinuxDenials :: "insight list \<Rightarrow> insight list" where
  "dedupeSELinuxDenials insights =
     (if \<not> (list_ex (\<lambda>i. isDenial i ''KernelSec'') insights \<and>
            list_ex (\<lambda>i. \<not> isDenial i ''KernelSec'' \<and> isDenial i ''Hardening'') insights)
      then insights
      else map (\<lambda>i. if isDenial i ''KernelSec''
                    then i\<lparr>Hints := fold_hints (Hints i) (hardening_hints insights)\<rparr> else i)
             (filter (\<lambda>i. \<not> isDenial i ''Hardening'') insights))"

section \<open>Package managers\<close>

definition idMatchesAny :: "gostring \<Rightarrow> gostring list \<Rightarrow> bool" where
  "idMatchesAny i subs \<longleftrightarrow> list_ex (contains i) subs"

definition hostInstallPM :: "gostring \<Rightarrow> gostring" where
  "hostInstallPM distroID =
     (let i = to_lower distroID
      in if i = [] \<or> contains i ''gentoo'' \<or> contains i ''nixos'' then []
         else if contains i ''photon'' then ''tdnf''
         else if contains i ''suse'' \<or> contains i ''sle'' then ''zypper''
         else if idMatchesAny i [''rhel'', ''centos'', ''almalinux'', ''alma'', ''rocky'', ''fedora'',
                                 ''oracle'', ''ol'', ''amzn'', ''rhpkg''] then ''dnf''
         else if idMatchesAny i [''arch'', ''artix'', ''manjaro'', ''endeavouros'', ''garuda'', ''arcolinux'']
         then ''pacman''
         else if contains i ''alpine'' then ''apk''
         else [])"

definition pmInstallCmd :: "gostring \<Rightarrow> gostring \<Rightarrow> gostring" where
  "pmInstallCmd pm pkg =
     (if pm = ''pacman'' then ''pacman -S '' @ pkg
      else if pm = ''apk'' then ''apk add '' @ pkg
      else pm @ '' install '' @ pkg)"

text \<open>
  \<open>rePkgInstall\<close>: at the leftmost word boundary, a manager, white space, the word \<open>install\<close>, white
  space and a package token. The token's first character excludes what follows the white space,
  so greedy matching never backtracks.
\<close>

definition re_space :: "char \<Rightarrow> bool" where
  "re_space c \<longleftrightarrow> byte c \<in> {9, 10, 12, 13, 32}"

definition word_char :: "char \<Rightarrow> bool" where
  "word_char c \<longleftrightarrow>
     (97 \<le> byte c \<and> byte c \<le> 122) \<or> (65 \<le> byte c \<and> byte c \<le> 90) \<or> is_digit_char c \<or> c = CHR ''_''"

definition alnum_char :: "char \<Rightarrow> bool" where
  "alnum_char c \<longleftrightarrow> word_char c \<and> c \<noteq> CHR ''_''"

definition pkg_char :: "char \<Rightarrow> bool" where
  "pkg_char c \<longleftrightarrow> word_char c \<or> c \<in> {CHR ''.'', CHR ''+'', CHR ''-''}"

definition skip_spaces1 :: "gostring \<Rightarrow> gostring option" where
  "skip_spaces1 s = (if s \<noteq> [] \<and> re_space (hd s) then Some (dropWhile re_space s) else None)"

definition install_arg :: "gostring \<Rightarrow> gostring option" where
  "install_arg s =
     (case skip_spaces1 s of None \<Rightarrow> None | Some t \<Rightarrow>
       (case cut_prefix t ''install'' of None \<Rightarrow> None | Some u \<Rightarrow>
         (case skip_spaces1 u of None \<Rightarrow> None | Some v \<Rightarrow>
            if v \<noteq> [] \<and> alnum_char (hd v) then Some (takeWhile pkg_char v) else None)))"

definition managers :: "gostring list" where
  "managers = [''apt-get'', ''apt'', ''dnf'', ''yum'', ''tdnf'', ''zypper'']"

fun first_some :: "('a \<Rightarrow> 'b option) \<Rightarrow> 'a list \<Rightarrow> 'b option" where
  "first_some f [] = None"
| "first_some f (x # xs) = (case f x of Some y \<Rightarrow> Some y | None \<Rightarrow> first_some f xs)"

definition pkg_here :: "gostring \<Rightarrow> gostring option" where
  "pkg_here s =
     first_some (\<lambda>m. case cut_prefix s m of None \<Rightarrow> None | Some t \<Rightarrow> install_arg t) managers"

fun pkg_search :: "bool \<Rightarrow> gostring \<Rightarrow> gostring option" where
  "pkg_search after_word [] = None"
| "pkg_search after_word (c # s) =
     (case (if after_word then None else pkg_here (c # s)) of
        Some p \<Rightarrow> Some p
      | None \<Rightarrow> pkg_search (word_char c) s)"

definition rePkgInstall :: "gostring \<Rightarrow> gostring option" where
  "rePkgInstall hint = pkg_search False hint"

text \<open>\<open>strings.Index(hint, "&&")\<close> and the trimmed tail from there.\<close>

fun amp_tail :: "gostring \<Rightarrow> gostring option" where
  "amp_tail [] = None"
| "amp_tail (c # s) = (if has_prefix (c # s) ''&&'' then Some (c # s) else amp_tail s)"

definition action_tail :: "gostring \<Rightarrow> gostring" where
  "action_tail hint = (case amp_tail hint of None \<Rightarrow> [] | Some t \<Rightarrow> '' '' @ trim_space t)"

definition hFixPrefix :: gostring where
  "hFixPrefix = ''to fix: ''"

definition distroFixHint :: "gostring \<Rightarrow> gostring \<Rightarrow> gostring" where
  "distroFixHint hint pm =
     (case rePkgInstall hint of None \<Rightarrow> hint
      | Some pkg \<Rightarrow> hFixPrefix @ pmInstallCmd pm pkg @ action_tail hint)"

definition gentooFixHint :: "gostring \<Rightarrow> gostring" where
  "gentooFixHint hint =
     (case rePkgInstall hint of None \<Rightarrow> hint
      | Some pkg \<Rightarrow> ''to fix (Gentoo): emerge '' @ pkg @ action_tail hint)"

definition transactionalFixHint :: "gostring \<Rightarrow> gostring" where
  "transactionalFixHint hint =
     (case rePkgInstall hint of None \<Rightarrow> hint
      | Some pkg \<Rightarrow> ''to fix (transactional): transactional-update pkg install '' @ pkg @ '' (then reboot)'')"

definition ostreeFixHint :: "gostring \<Rightarrow> gostring" where
  "ostreeFixHint hint =
     (case rePkgInstall hint of None \<Rightarrow> hint
      | Some pkg \<Rightarrow> ''to fix (ostree): rpm-ostree install '' @ pkg @ '' (then reboot)'')"

definition map_hints :: "(gostring \<Rightarrow> gostring) \<Rightarrow> insight list \<Rightarrow> insight list" where
  "map_hints f = map (\<lambda>i. i\<lparr>Hints := map f (Hints i)\<rparr>)"

definition hostIsGentoo :: "gostring \<Rightarrow> bool" where
  "hostIsGentoo distroID = contains (to_lower distroID) ''gentoo''"

definition hostIsTransactional :: "gostring \<Rightarrow> bool" where
  "hostIsTransactional distroID = contains (to_lower distroID) ''micro''"

definition gentooifyHints :: "insight list \<Rightarrow> insight list" where
  "gentooifyHints = map_hints gentooFixHint"

definition transactionalifyHints :: "insight list \<Rightarrow> insight list" where
  "transactionalifyHints = map_hints transactionalFixHint"

definition ostreeifyHints :: "insight list \<Rightarrow> insight list" where
  "ostreeifyHints = map_hints ostreeFixHint"

definition distroifyInstallHints :: "insight list \<Rightarrow> gostring \<Rightarrow> insight list" where
  "distroifyInstallHints insights pm = map_hints (\<lambda>h. distroFixHint h pm) insights"

section \<open>Init systems\<close>

definition hInitOpenRC :: gostring where "hInitOpenRC = ''openrc''"
definition hInitSysV :: gostring where "hInitSysV = ''sysvinit''"
definition hInitRunit :: gostring where "hInitRunit = ''runit''"

definition isNonSystemdInit :: "gostring \<Rightarrow> bool" where
  "isNonSystemdInit initSystem \<longleftrightarrow> initSystem \<in> {hInitOpenRC, hInitSysV, hInitRunit}"

definition serviceCmd :: "gostring \<Rightarrow> gostring \<Rightarrow> gostring \<Rightarrow> gostring" where
  "serviceCmd verb unt initSystem =
     (if initSystem = hInitOpenRC then ''rc-service '' @ unt @ '' '' @ verb
      else if initSystem = hInitSysV then ''service '' @ unt @ '' '' @ verb
      else if initSystem = hInitRunit then
        (let v = map_get [] [(''start'', ''up''), (''stop'', ''down''), (''restart'', ''restart''),
                             (''status'', ''status'')] verb
         in if v = [] then [] else ''sv '' @ v @ '' '' @ unt)
      else [])"

definition enableHint :: "gostring \<Rightarrow> gostring \<Rightarrow> gostring" where
  "enableHint unt initSystem =
     (if initSystem = hInitOpenRC then ''to fix: rc-update add '' @ unt @ '' && rc-service '' @ unt @ '' start''
      else if initSystem = hInitSysV then
        ''to fix: update-rc.d '' @ unt @ '' enable && service '' @ unt @ '' start''
      else if initSystem = hInitRunit then ''to fix: ln -s /etc/sv/'' @ unt @ '' /var/service/''
      else ''to fix: systemctl enable --now '' @ unt)"

definition disableHint :: "gostring \<Rightarrow> gostring \<Rightarrow> gostring" where
  "disableHint unt initSystem =
     (if initSystem = hInitOpenRC then ''to fix: rc-update del '' @ unt
      else if initSystem = hInitSysV then ''to fix: update-rc.d '' @ unt @ '' disable''
      else if initSystem = hInitRunit then ''to fix: rm /var/service/'' @ unt
      else ''to fix: systemctl disable '' @ unt)"

text \<open>The expressions: \<open>\S+\<close> to the end, \<open>\S.*\<close> to the end, and an optional \<open>\s.*\<close>.\<close>

definition nonspace_arg :: "gostring \<Rightarrow> gostring option" where
  "nonspace_arg s = (if s \<noteq> [] \<and> list_all (\<lambda>c. \<not> re_space c) s then Some s else None)"

definition line_arg :: "gostring \<Rightarrow> gostring option" where
  "line_arg s =
     (if s \<noteq> [] \<and> \<not> re_space (hd s) \<and> list_all (\<lambda>c. byte c \<noteq> 10) (tl s) then Some s else None)"

definition optional_args :: "gostring \<Rightarrow> bool" where
  "optional_args s \<longleftrightarrow> s = [] \<or> (re_space (hd s) \<and> list_all (\<lambda>c. byte c \<noteq> 10) (tl s))"

definition reSystemctlAction :: "gostring \<Rightarrow> (gostring \<times> gostring) option" where
  "reSystemctlAction hint =
     first_some (\<lambda>verb. case cut_prefix hint (''to fix: systemctl '' @ verb @ '' '') of
         None \<Rightarrow> None | Some t \<Rightarrow> map_option (Pair verb) (nonspace_arg t))
       [''restart'', ''start'', ''stop'']"

definition reSystemctlEnable :: "gostring \<Rightarrow> gostring option" where
  "reSystemctlEnable hint = Option.bind (cut_prefix hint ''to fix: systemctl enable --now '') nonspace_arg"

definition reSystemctlDisable :: "gostring \<Rightarrow> gostring option" where
  "reSystemctlDisable hint = Option.bind (cut_prefix hint ''to fix: systemctl disable '') line_arg"

definition reSystemctlStatus :: "gostring \<Rightarrow> gostring option" where
  "reSystemctlStatus hint = Option.bind (cut_prefix hint ''to inspect: systemctl status '') line_arg"

definition reTimedatectl :: "gostring \<Rightarrow> bool" where
  "reTimedatectl hint =
     (case cut_prefix hint ''to inspect: timedatectl'' of None \<Rightarrow> False | Some t \<Rightarrow> optional_args t)"

definition reJournalctl :: "gostring \<Rightarrow> bool" where
  "reJournalctl hint =
     (case cut_prefix hint ''to inspect: journalctl'' of None \<Rightarrow> False | Some t \<Rightarrow> optional_args t)"

text \<open>The unanchored \<open>&& systemctl restart (\S+)$\<close>: the text before the match and the unit.\<close>

fun reEmbeddedRestart :: "gostring \<Rightarrow> (gostring \<times> gostring) option" where
  "reEmbeddedRestart [] = None"
| "reEmbeddedRestart (c # s) =
     (case Option.bind (cut_prefix (c # s) ''&& systemctl restart '') nonspace_arg of
        Some unt \<Rightarrow> Some ([], unt)
      | None \<Rightarrow> map_option (\<lambda>(pre, unt). (c # pre, unt)) (reEmbeddedRestart s))"

text \<open>
  The replacement template of \<open>ReplaceAllString\<close> is expanded: \<open>$1\<close> is the unit, \<open>$0\<close> the match,
  \<open>$$\<close> a dollar and any other name empty.
\<close>

fun expand_loop :: "nat \<Rightarrow> gostring \<Rightarrow> gostring \<Rightarrow> gostring \<Rightarrow> gostring" where
  "expand_loop 0 m0 m1 s = []"
| "expand_loop (Suc n) m0 m1 [] = []"
| "expand_loop (Suc n) m0 m1 (c # s) =
     (if c \<noteq> CHR ''$'' then c # expand_loop n m0 m1 s
      else if s \<noteq> [] \<and> hd s = CHR ''$'' then CHR ''$'' # expand_loop n m0 m1 (tl s)
      else
        let braced = s \<noteq> [] \<and> hd s = CHR ''{'';
            body = (if braced then tl s else s);
            name = takeWhile word_char body;
            rest = dropWhile word_char body;
            ok = name \<noteq> [] \<and> (braced \<longrightarrow> rest \<noteq> [] \<and> hd rest = CHR ''}'');
            after = (if braced then tl rest else rest);
            val = (if name = ''0'' then m0 else if name = ''1'' then m1 else [])
        in if \<not> ok then CHR ''$'' # expand_loop n m0 m1 s
           else val @ expand_loop n m0 m1 after)"

definition expand_template :: "gostring \<Rightarrow> gostring \<Rightarrow> gostring \<Rightarrow> gostring" where
  "expand_template m0 m1 s = expand_loop (Suc (length s)) m0 m1 s"

text \<open>\<^const>\<open>None\<close> is a dropped hint.\<close>

definition adapt_status :: "gostring \<Rightarrow> gostring \<Rightarrow> gostring option option" where
  "adapt_status arg initSystem =
     (let svc = Go_Prelude.fields arg
      in if svc = [] \<or> has_prefix (hd svc) ''systemd-'' then Some None
         else let c = serviceCmd ''status'' (hd svc) initSystem
              in if c \<noteq> [] then Some (Some (''to inspect: '' @ c)) else None)"

definition adaptNonSystemdHint :: "gostring \<Rightarrow> gostring \<Rightarrow> gostring option" where
  "adaptNonSystemdHint hint initSystem =
     (let action = (case reSystemctlAction hint of None \<Rightarrow> [] | Some (verb, unt) \<Rightarrow> serviceCmd verb unt initSystem);
          status = (case reSystemctlStatus hint of None \<Rightarrow> None | Some arg \<Rightarrow> adapt_status arg initSystem)
      in if action \<noteq> [] then Some (hFixPrefix @ action)
         else (case status of
           Some r \<Rightarrow> r
         | None \<Rightarrow>
             if reTimedatectl hint \<or> reJournalctl hint then None
             else
               (let embedded = (case reEmbeddedRestart hint of None \<Rightarrow> None
                      | Some (pre, unt) \<Rightarrow>
                          (let c = serviceCmd ''restart'' unt initSystem
                           in if c \<noteq> []
                              then Some (pre @ expand_template (''&& systemctl restart '' @ unt) unt (''&& '' @ c))
                              else None))
                in case embedded of
                     Some h \<Rightarrow> Some h
                   | None \<Rightarrow>
                       (case reSystemctlEnable hint of
                          Some unt \<Rightarrow> Some (enableHint unt initSystem)
                        | None \<Rightarrow>
                            (case reSystemctlDisable hint of
                               Some unt \<Rightarrow> Some (disableHint unt initSystem)
                             | None \<Rightarrow> Some hint)))))"

text \<open>\<open>^to inspect: ss -t(?:u)?lnp\<close> followed by nothing or by \<open>| grep :(\d+)\<close>.\<close>

definition ss_tail :: "gostring \<Rightarrow> gostring option" where
  "ss_tail hint =
     (case cut_prefix hint ''to inspect: ss -tlnp'' of
        Some t \<Rightarrow> Some t
      | None \<Rightarrow> cut_prefix hint ''to inspect: ss -tulnp'')"

definition reSSPortGrep :: "gostring \<Rightarrow> gostring option" where
  "reSSPortGrep hint =
     (case Option.bind (ss_tail hint) (\<lambda>t. cut_prefix t '' | grep :'') of
        None \<Rightarrow> None
      | Some p \<Rightarrow> if p \<noteq> [] \<and> list_all is_digit_char p then Some p else None)"

definition adaptHint :: "gostring \<Rightarrow> gostring \<Rightarrow> gostring \<Rightarrow> gostring option" where
  "adaptHint hint goos initSystem =
     (if goos = ''darwin'' then
        (case reSSPortGrep hint of
           Some p \<Rightarrow> Some (''to inspect: lsof -nP -iTCP:'' @ p @ '' -sTCP:LISTEN'')
         | None \<Rightarrow> if ss_tail hint = Some [] then Some ''to inspect: lsof -nP -iTCP -sTCP:LISTEN'' else Some hint)
      else if isNonSystemdInit initSystem then adaptNonSystemdHint hint initSystem
      else Some hint)"

definition adaptHintsToPlatform :: "insight list \<Rightarrow> gostring \<Rightarrow> gostring \<Rightarrow> insight list" where
  "adaptHintsToPlatform insights goos initSystem =
     (if goos \<noteq> ''darwin'' \<and> \<not> isNonSystemdInit initSystem then insights
      else map (\<lambda>i. i\<lparr>Hints := List.map_filter (\<lambda>h. adaptHint h goos initSystem) (Hints i)\<rparr>) insights)"

text \<open>A dropped hint leaves the empty string, which has no prefix to trim.\<close>

definition platformServiceCmd :: "gostring \<Rightarrow> gostring \<Rightarrow> gostring \<Rightarrow> gostring" where
  "platformServiceCmd systemdCmd goos initSystem =
     trim_prefix (case adaptHint (hFixPrefix @ systemdCmd) goos initSystem of None \<Rightarrow> [] | Some h \<Rightarrow> h) hFixPrefix"

text \<open>The rewriting pipeline; the NixOS rewriter and the ostree probe are parameters.\<close>

definition AdaptHostHints ::
  "(insight list \<Rightarrow> insight list) \<Rightarrow> bool \<Rightarrow> gostring \<Rightarrow> gostring \<Rightarrow> gostring \<Rightarrow> insight list \<Rightarrow> insight list" where
  "AdaptHostHints nixosify isOstree distroID goos initSystem insights =
     (let insights = (if contains (to_lower distroID) ''nixos'' then nixosify insights else insights);
          insights = (if hostIsGentoo distroID then gentooifyHints insights else insights);
          insights = (if hostIsTransactional distroID then transactionalifyHints insights else insights);
          insights = (if isOstree then ostreeifyHints insights else insights);
          pm = hostInstallPM distroID;
          insights = (if pm \<noteq> [] then distroifyInstallHints insights pm else insights)
      in adaptHintsToPlatform insights goos initSystem)"

section \<open>Lemmas on the install matcher\<close>

lemma cut_prefix_Some: "cut_prefix s p = Some t \<longleftrightarrow> s = p @ t"
  by (auto simp: cut_prefix_def has_prefix_def) (metis append_take_drop_id)

lemma pkg_char_not_space: "pkg_char c \<Longrightarrow> \<not> re_space c"
  by (auto simp: pkg_char_def word_char_def re_space_def is_digit_char_def byte_def)

lemma install_arg_blocked:
  assumes "list_all pkg_char p"
  shows "install_arg (p @ '' (then reboot)'') = None"
proof (cases p)
  case Nil
  have "install_arg '' (then reboot)'' = None" by code_simp
  then show ?thesis using Nil by simp
next
  case (Cons c q)
  with assms show ?thesis by (simp add: install_arg_def skip_spaces1_def pkg_char_not_space)
qed

lemma install_arg_pkg: "install_arg s = Some p \<Longrightarrow> list_all pkg_char p"
  by (auto simp: install_arg_def list_all_iff split: option.splits if_splits dest: set_takeWhileD)

lemma first_some_None: "first_some f xs = None \<longleftrightarrow> (\<forall>x \<in> set xs. f x = None)"
  by (induction xs) (auto split: option.splits)

lemma first_some_Some: "first_some f xs = Some y \<Longrightarrow> \<exists>x \<in> set xs. f x = Some y"
  by (induction xs) (auto split: option.splits)

lemma pkg_here_pkg: "pkg_here s = Some p \<Longrightarrow> list_all pkg_char p"
  by (auto simp: pkg_here_def dest!: first_some_Some split: option.splits dest: install_arg_pkg)

lemma rePkgInstall_pkg: "rePkgInstall h = Some p \<Longrightarrow> list_all pkg_char p"
proof -
  have "pkg_search b s = Some p \<Longrightarrow> list_all pkg_char p" for b s
    by (induction b s rule: pkg_search.induct) (auto split: option.splits if_splits dest: pkg_here_pkg)
  then show "rePkgInstall h = Some p \<Longrightarrow> list_all pkg_char p" by (simp add: rePkgInstall_def)
qed

lemma managers_no_space: "m \<in> set managers \<Longrightarrow> CHR '' '' \<notin> set m"
  by (auto simp: managers_def)

lemma append_prefix_cases:
  "p @ CHR '' '' # r = m @ t \<Longrightarrow> CHR '' '' \<notin> set m \<Longrightarrow> \<exists>p'. p = m @ p' \<and> t = p' @ CHR '' '' # r"
  by (auto simp: append_eq_append_conv2 Cons_eq_append_conv)

lemma pkg_here_blocked:
  assumes "list_all pkg_char p"
  shows "pkg_here (p @ '' (then reboot)'') = None"
proof -
  have "install_arg t = None" if "m \<in> set managers" "p @ '' (then reboot)'' = m @ t" for m t
  proof -
    from append_prefix_cases [OF that(2) managers_no_space [OF that(1)]]
    obtain p' where "p = m @ p'" "t = p' @ '' (then reboot)''" by blast
    with assms show ?thesis by (simp add: install_arg_blocked)
  qed
  then show ?thesis
    by (auto simp: pkg_here_def first_some_None cut_prefix_Some split: option.splits)
qed

lemma pkg_search_blocked:
  "list_all pkg_char p \<Longrightarrow> pkg_search b (p @ '' (then reboot)'') = None"
proof (induction p arbitrary: b)
  case Nil
  have "pkg_search True '' (then reboot)'' = None" "pkg_search False '' (then reboot)'' = None"
    by code_simp+
  then show ?case by (cases b) simp_all
next
  case (Cons c p)
  then show ?case using pkg_here_blocked [of "c # p"] by simp
qed

text \<open>A constant head without a manager in it is skipped.\<close>

definition starts_manager :: "gostring \<Rightarrow> bool" where
  "starts_manager s \<longleftrightarrow> list_ex (has_prefix s) managers"

lemma pkg_here_no_manager: "\<not> starts_manager s \<Longrightarrow> pkg_here s = None"
  by (auto simp: pkg_here_def first_some_None starts_manager_def cut_prefix_def list_ex_iff)

lemma pkg_search_skip:
  "\<not> starts_manager (c # s) \<Longrightarrow> pkg_search b (c # s) = pkg_search (word_char c) s"
  by (simp add: pkg_here_no_manager)

lemma ostree_head_blocked:
  "list_all pkg_char p \<Longrightarrow>
     rePkgInstall (''to fix (ostree): rpm-ostree install '' @ p @ '' (then reboot)'') = None"
  by (simp add: rePkgInstall_def pkg_search_skip starts_manager_def managers_def has_prefix_code
      pkg_search_blocked del: pkg_search.simps)

lemma transactional_head_blocked:
  "list_all pkg_char p \<Longrightarrow>
     rePkgInstall (''to fix (transactional): transactional-update pkg install '' @ p @ '' (then reboot)'') = None"
  by (simp add: rePkgInstall_def pkg_search_skip starts_manager_def managers_def has_prefix_code
      pkg_search_blocked del: pkg_search.simps)

lemma serviceCmd_nonempty:
  "isNonSystemdInit i \<Longrightarrow> v \<in> {''start'', ''stop'', ''restart'', ''status''} \<Longrightarrow> serviceCmd v u i \<noteq> []"
  by (auto simp: serviceCmd_def isNonSystemdInit_def hInitOpenRC_def hInitSysV_def hInitRunit_def map_get_def)

lemma serviceCmd_no_systemctl:
  "serviceCmd v u i \<noteq> [] \<Longrightarrow> \<not> has_prefix (serviceCmd v u i) ''systemctl''"
  by (auto simp: serviceCmd_def has_prefix_code Let_def split: if_splits)

lemma reSystemctlAction_Some:
  "reSystemctlAction h = Some (v, u) \<Longrightarrow>
     v \<in> {''start'', ''stop'', ''restart''} \<and> h = ''to fix: systemctl '' @ v @ '' '' @ u"
  by (auto simp: reSystemctlAction_def cut_prefix_Some nonspace_arg_def
      dest!: first_some_Some split: option.splits if_splits)

lemma reSystemctlStatus_Some:
  "reSystemctlStatus h = Some a \<Longrightarrow> h = ''to inspect: systemctl status '' @ a"
  by (auto simp: reSystemctlStatus_def cut_prefix_Some line_arg_def split: if_splits bind_splits)

lemma has_prefix_append: "has_prefix s p \<longleftrightarrow> (\<exists>b. s = p @ b)"
  by (metis append_take_drop_id append_eq_conv_conj has_prefix_def)

lemma contains_append: "contains s p \<longleftrightarrow> (\<exists>a b. s = a @ p @ b)"
proof (induction s)
  case Nil
  show ?case by auto
next
  case (Cons c s)
  have "(\<exists>a b. c # s = a @ p @ b) \<longleftrightarrow> (\<exists>b. c # s = p @ b) \<or> (\<exists>a b. s = a @ p @ b)"
    by (auto simp: Cons_eq_append_conv [of c s _ "p @ _"])
  then show ?case using Cons.IH by (simp add: has_prefix_append)
qed

lemma contains_infix: "contains s (x @ p @ y) \<Longrightarrow> contains s p"
  by (metis contains_append append.assoc)

section \<open>Properties\<close>

text \<open>On an immutable host (rpm-ostree or transactional SUSE) an install hint that was rewritten to
  the layering command carries no further install suggestion, so the package-manager rewriter that
  runs next leaves it exactly as it is: the host never gets a live \<open>zypper\<close> or \<open>dnf\<close> line back.\<close>

theorem immutable_hint_final:
  "distroFixHint (ostreeFixHint h) pm = ostreeFixHint h
     \<and> distroFixHint (transactionalFixHint h) pm = transactionalFixHint h
     \<or> rePkgInstall h = None \<and> distroFixHint h pm = h"
proof (cases "rePkgInstall h")
  case None
  then show ?thesis by (simp add: distroFixHint_def)
next
  case (Some p)
  from rePkgInstall_pkg [OF this] Some show ?thesis
    by (simp add: distroFixHint_def ostreeFixHint_def transactionalFixHint_def
        ostree_head_blocked [simplified] transactional_head_blocked [simplified])
qed

text \<open>A hint that comes out of the non-systemd rewriter unchanged is none of the systemd-only
  commands the rewriter knows: a \<open>systemctl\<close> start/stop/restart or status line, \<open>timedatectl\<close> and
  \<open>journalctl\<close> are always rewritten to the host's init system or dropped.\<close>

theorem nonsystemd_hint_unchanged:
  assumes "isNonSystemdInit i" and "adaptNonSystemdHint h i = Some h"
  shows "reSystemctlAction h = None \<and> reSystemctlStatus h = None \<and> \<not> reTimedatectl h \<and> \<not> reJournalctl h"
proof -
  have action: "reSystemctlAction h = None"
  proof (rule ccontr)
    assume "reSystemctlAction h \<noteq> None"
    then obtain v u where vu: "reSystemctlAction h = Some (v, u)" by auto
    from reSystemctlAction_Some [OF this]
    have v: "v \<in> {''start'', ''stop'', ''restart'', ''status''}"
      and h: "h = ''to fix: systemctl '' @ v @ '' '' @ u" by auto
    from serviceCmd_nonempty [OF assms(1) v, of u] have ne: "serviceCmd v u i \<noteq> []" .
    with assms(2) vu have "hFixPrefix @ serviceCmd v u i = h" by (simp add: adaptNonSystemdHint_def)
    with h have "has_prefix (serviceCmd v u i) ''systemctl''" by (simp add: hFixPrefix_def has_prefix_code)
    with serviceCmd_no_systemctl [OF ne] show False by simp
  qed
  have status: "reSystemctlStatus h = None"
  proof (rule ccontr)
    assume "reSystemctlStatus h \<noteq> None"
    then obtain a where a: "reSystemctlStatus h = Some a" by auto
    from reSystemctlStatus_Some [OF this] have h: "h = ''to inspect: systemctl status '' @ a" .
    have ne: "serviceCmd ''status'' (hd (Go_Prelude.fields a)) i \<noteq> []"
      by (rule serviceCmd_nonempty [OF assms(1)]) simp
    from assms(2) a action ne have "h = ''to inspect: '' @ serviceCmd ''status'' (hd (Go_Prelude.fields a)) i"
      by (auto simp: adaptNonSystemdHint_def adapt_status_def Let_def split: if_splits)
    with h have "has_prefix (serviceCmd ''status'' (hd (Go_Prelude.fields a)) i) ''systemctl''"
      by (simp add: has_prefix_code)
    with serviceCmd_no_systemctl [OF ne] show False by simp
  qed
  from assms(2) action status show ?thesis
    by (auto simp: adaptNonSystemdHint_def split: if_splits)
qed

theorem nonsystemd_hint_unchanged_witness:
  "isNonSystemdInit ''openrc'' \<and> reSystemctlAction ''to inspect: df -h'' = None"
proof -
  have "isNonSystemdInit ''openrc''" by code_simp
  moreover have "adaptNonSystemdHint ''to inspect: df -h'' ''openrc'' = Some ''to inspect: df -h''"
    by code_simp
  ultimately show ?thesis
    using nonsystemd_hint_unchanged [of "''openrc''" "''to inspect: df -h''"] by blast
qed

text \<open>The pacman entry \<open>arcolinux\<close> of the host table is dead: its name contains the \<open>ol\<close> (Oracle
  Linux) pattern of the dnf case above it, so an ArcoLinux host is given dnf commands, while the
  other members of the Arch family reach pacman.\<close>

theorem arcolinux_gets_dnf:
  assumes "contains (to_lower d) ''arcolinux''"
  shows "hostInstallPM d \<noteq> ''pacman'' \<and> hostInstallPM ''arcolinux'' = ''dnf'' \<and> hostInstallPM ''arch'' = ''pacman''"
proof -
  have "hostInstallPM d \<noteq> ''pacman''"
    using contains_infix [of "to_lower d" "''arc''" "''ol''" "''inux''"] assms
    by (simp add: hostInstallPM_def idMatchesAny_def Let_def)
  moreover have "hostInstallPM ''arcolinux'' = ''dnf''" "hostInstallPM ''arch'' = ''pacman''" by code_simp+
  ultimately show ?thesis by blast
qed

theorem arcolinux_gets_dnf_witness: "hostInstallPM ''ArcoLinux'' \<noteq> ''pacman''"
proof -
  have "contains (to_lower ''ArcoLinux'') ''arcolinux''" by code_simp
  from arcolinux_gets_dnf [OF this] show ?thesis by blast
qed

end
