(* ===== verification/Correlate.thy ===== *)
theory Correlate
  imports Hints Policy "HOL-Library.Multiset"
begin

text \<open>
  \<open>internal/analysis/correlate.go\<close>: the rules that infer a cause from several insights of one
  snapshot. The index of the worst insight per check, the sixteen rules on it, and the deep rules
  on the data of the OOM, Docker, IO, sysctl and CPU collectors (of which the records keep the
  fields the rules read).
\<close>

section \<open>The index\<close>

record correlation =
  CoName :: gostring
  CoLevel :: gostring
  CoSummary :: gostring
  CoAction :: gostring
  CoChecks :: "gostring list"

definition mk_corr :: "gostring \<Rightarrow> gostring \<Rightarrow> gostring \<Rightarrow> gostring \<Rightarrow> gostring list \<Rightarrow> correlation option" where
  "mk_corr n l s a cs =
     Some \<lparr>CoName = n, CoLevel = l, CoSummary = s, CoAction = a, CoChecks = cs\<rparr>"

record index_entry =
  ELevel :: gostring
  EMessage :: gostring

type_synonym index = "gostring \<Rightarrow> index_entry option"

definition level_order :: "gostring \<Rightarrow> int" where
  "level_order l = (if l = CRIT then 3 else if l = WARN then 2 else if l = INFO then 1 else 0)"

definition indexKeys :: "gostring \<Rightarrow> gostring list" where
  "indexKeys check =
     (let lower = to_lower check
      in case index_byte lower (CHR ''/'') of
           None \<Rightarrow> [lower]
         | Some i \<Rightarrow> if 0 < i then [lower, take i lower] else [lower])"

definition index_key :: "insight \<Rightarrow> index \<Rightarrow> gostring \<Rightarrow> index" where
  "index_key ins idx k =
     (case idx k of
        None \<Rightarrow> idx(k \<mapsto> \<lparr>ELevel = Level ins, EMessage = Message ins\<rparr>)
      | Some cur \<Rightarrow>
          if level_order (ELevel cur) < level_order (Level ins)
          then idx(k \<mapsto> \<lparr>ELevel = Level ins, EMessage = Message ins\<rparr>) else idx)"

definition index_insight :: "index \<Rightarrow> insight \<Rightarrow> index" where
  "index_insight idx ins = foldl (index_key ins) idx (indexKeys (Check ins))"

definition buildIndex :: "insight list \<Rightarrow> index" where
  "buildIndex insights = foldl index_insight Map.empty insights"

definition atLeast :: "index \<Rightarrow> gostring \<Rightarrow> gostring \<Rightarrow> bool" where
  "atLeast idx key minLevel \<longleftrightarrow>
     (case idx (to_lower key) of None \<Rightarrow> False
      | Some e \<Rightarrow> level_order minLevel \<le> level_order (ELevel e))"

definition exact :: "index \<Rightarrow> gostring \<Rightarrow> gostring \<Rightarrow> bool" where
  "exact idx key level \<longleftrightarrow>
     (case idx (to_lower key) of None \<Rightarrow> False | Some e \<Rightarrow> ELevel e = level)"

definition confirmedNot :: "index \<Rightarrow> gostring \<Rightarrow> gostring \<Rightarrow> bool" where
  "confirmedNot idx key level \<longleftrightarrow>
     (case idx (to_lower key) of None \<Rightarrow> False | Some e \<Rightarrow> ELevel e \<noteq> level)"

section \<open>Rules on the index\<close>

definition ruleMemoryCascade :: "index \<Rightarrow> correlation option" where
  "ruleMemoryCascade idx =
     (let memFired = atLeast idx ''Memory'' WARN;
          swapCrit = exact idx ''Swap'' CRIT;
          processesCrit = exact idx ''Processes'' CRIT;
          logsCrit = exact idx ''Logs'' CRIT
      in if \<not> memFired \<or> \<not> swapCrit \<or> (\<not> processesCrit \<and> \<not> logsCrit) then None
         else mk_corr ''Memory Pressure Cascade'' CRIT
           (''RAM exhaustion forced swap thrashing '' @ em_dash @ '' processes stalled waiting for pages to free up'')
           ''find the memory hog: ps aux --sort=-%mem | head -10''
           ([''Memory'', ''Swap''] @ (if processesCrit then [''Processes''] else []) @
              (if logsCrit then [''Logs''] else [])))"

definition ruleHardOOM :: "index \<Rightarrow> correlation option" where
  "ruleHardOOM idx =
     (let memCrit = exact idx ''Memory'' CRIT;
          logsCrit = exact idx ''Logs'' CRIT;
          swapNotCrit = confirmedNot idx ''Swap'' CRIT
      in if \<not> memCrit \<or> \<not> logsCrit \<or> \<not> swapNotCrit then None
         else mk_corr ''Hard OOM Event'' CRIT
           (''Processes killed directly '' @ em_dash @ '' memory hit a hard ceiling with no swap acting as a buffer'')
           (''check which processes were killed: dmesg | grep -i 'out of memory'' @ [CHR 0x27])
           [''Memory'', ''Logs''])"

definition ruleIOUnderMemoryPressure :: "index \<Rightarrow> correlation option" where
  "ruleIOUnderMemoryPressure idx =
     (let ioCrit = exact idx ''IO'' CRIT;
          memFired = atLeast idx ''Memory'' WARN;
          swapCrit = exact idx ''Swap'' CRIT
      in if \<not> ioCrit \<or> \<not> memFired \<or> \<not> swapCrit then None
         else mk_corr ''IO Stall Under Memory Pressure'' CRIT
           (''Disk latency spiked while kernel is swapping '' @ em_dash @ '' page eviction and I/O compete for the same storage bandwidth'')
           ''check what is swapping: vmstat 1 5 && iotop -ao''
           [''IO'', ''Memory'', ''Swap''])"

definition ruleNetworkDegradedUnderLoad :: "index \<Rightarrow> correlation option" where
  "ruleNetworkDegradedUnderLoad idx =
     (let netCrit = exact idx ''Network'' CRIT;
          cpuLoaded = atLeast idx ''CPU Load'' WARN;
          swapCrit = exact idx ''Swap'' CRIT;
          memCrit = exact idx ''Memory'' CRIT
      in if \<not> netCrit then None
         else if \<not> cpuLoaded \<and> \<not> swapCrit \<and> \<not> memCrit then None
         else mk_corr ''Network Degraded Under System Load'' WARN
           (''Network latency spiked under system load '' @ em_dash @ '' kernel may be starved for cycles to service interrupts'')
           ''check if load clears first: uptime && ping -c5 $(ip route | awk '/default/{print $3}')''
           ([''Network''] @ (if cpuLoaded then [''CPU''] else []) @ (if swapCrit then [''Swap''] else []) @
              (if memCrit then [''Memory''] else [])))"

definition ruleGPUSustainedLoad :: "index \<Rightarrow> correlation option" where
  "ruleGPUSustainedLoad idx =
     (if \<not> atLeast idx ''GPU'' INFO then None
      else
        let thermalElevated = atLeast idx ''CPU Thermal'' WARN;
            memoryElevated = atLeast idx ''Memory'' WARN;
            vramElevated = atLeast idx ''GPU'' WARN
        in if \<not> thermalElevated \<and> \<not> memoryElevated \<and> \<not> vramElevated then None
           else mk_corr ''GPU Sustained Compute Load'' WARN
             (''GPU under sustained compute load'' @
              (if thermalElevated then '' '' @ em_dash @ '' thermal elevation likely GPU-driven'' else []) @
              (if memoryElevated then '' '' @ em_dash @ '' check if GPU and system RAM are competing'' else []) @
              (if vramElevated then '' '' @ em_dash @ '' VRAM pressure: reduce batch size or restart workload'' else []))
             ''inspect: nvidia-smi dmon -s pucvmt -d 5''
             ([''GPU''] @ (if thermalElevated then [''Thermal''] else []) @
                (if memoryElevated then [''Memory''] else [])))"

definition ruleIODrivenLoad :: "index \<Rightarrow> correlation option" where
  "ruleIODrivenLoad idx =
     (let cpuLoaded = atLeast idx ''CPU Load'' WARN;
          iowaitElevated = atLeast idx ''CPU Load/IOWait'' WARN;
          stealElevated = atLeast idx ''CPU Load/Steal'' WARN
      in if \<not> cpuLoaded \<or> \<not> iowaitElevated \<or> stealElevated then None
         else mk_corr ''IO-Driven Load Saturation'' WARN
           (''Load average is elevated but the CPU is mostly idle '' @ em_dash @ '' tasks are stalled waiting for disk I/O, not running on CPU'')
           ''iostat -x 1 5 && iotop -ao''
           [''CPU Load'', ''CPU Load/IOWait''])"

definition ruleCPUStealUnderLoad :: "index \<Rightarrow> correlation option" where
  "ruleCPUStealUnderLoad idx =
     (let cpuLoaded = atLeast idx ''CPU Load'' WARN;
          stealElevated = atLeast idx ''CPU Load/Steal'' WARN
      in if \<not> cpuLoaded \<or> \<not> stealElevated then None
         else mk_corr ''CPU Steal Under Load'' CRIT
           (''VM is under load AND losing CPU to the hypervisor '' @ em_dash @ '' the host is over-provisioned, adding vCPUs will not help'')
           ''escalate to cloud provider or migrate VM to a less-loaded host''
           [''CPU Load'', ''CPU Load/Steal''])"

definition ruleRunQueueSaturation :: "index \<Rightarrow> correlation option" where
  "ruleRunQueueSaturation idx =
     (let rqSaturated = atLeast idx ''CPU Load/RunQueue'' WARN;
          iowaitConfirmedLow = confirmedNot idx ''CPU Load/IOWait'' WARN \<and> confirmedNot idx ''CPU Load/IOWait'' CRIT;
          stealConfirmedLow = confirmedNot idx ''CPU Load/Steal'' WARN \<and> confirmedNot idx ''CPU Load/Steal'' CRIT
      in if \<not> rqSaturated \<or> \<not> iowaitConfirmedLow \<or> \<not> stealConfirmedLow then None
         else mk_corr ''CPU-Bound Run Queue Saturation'' WARN
           (''more tasks are runnable than the CPU can execute, and it is not I/O wait or hypervisor steal '' @ em_dash @ '' the workload is genuinely CPU-bound'')
           (''find the busy threads: top -H -b -n1 | head -20 '' @ em_dash @ '' then add cores or reduce concurrency'')
           [''CPU Load/RunQueue''])"

definition ruleDBusCascade :: "index \<Rightarrow> correlation option" where
  "ruleDBusCascade idx =
     (let dbusFailed = exact idx ''DBus'' CRIT;
          systemdFailed = atLeast idx ''Systemd'' CRIT
      in if \<not> dbusFailed \<or> \<not> systemdFailed then None
         else mk_corr ''D-Bus Cascade Failure'' CRIT
           (''D-Bus system message bus has failed '' @ em_dash @ '' all other service failures are likely downstream effects of this single root cause'')
           ''systemctl status dbus.service && journalctl -u dbus.service -n 20''
           [''DBus'', ''Systemd''])"

definition ruleEntropyTLSFailure :: "gostring \<Rightarrow> gostring \<Rightarrow> index \<Rightarrow> correlation option" where
  "ruleEntropyTLSFailure goos initSystem idx =
     (let entropyLow = atLeast idx ''Entropy'' WARN;
          tlsFired = atLeast idx ''TLS'' WARN
      in if \<not> entropyLow \<or> \<not> tlsFired then None
         else mk_corr ''Entropy Starvation with TLS Active'' CRIT
           (''entropy pool is critically low while TLS certificates are in use '' @ em_dash @ '' SSL handshakes and key operations will stall or time out waiting for randomness'')
           (''apt install haveged OR dnf install rng-tools && '' @
              platformServiceCmd ''systemctl enable --now rngd'' goos initSystem)
           [''Entropy'', ''TLS''])"

definition ruleDiskFullServiceFailure :: "index \<Rightarrow> correlation option" where
  "ruleDiskFullServiceFailure idx =
     (let diskCrit = exact idx ''Disk'' CRIT;
          systemdCrit = exact idx ''Systemd'' CRIT;
          logsCrit = exact idx ''Logs'' CRIT
      in if \<not> diskCrit \<or> (\<not> systemdCrit \<and> \<not> logsCrit) then None
         else mk_corr ''Disk-Full Service Failure'' CRIT
           (''A full filesystem is the likely root cause '' @ em_dash @ '' services can't write, so failures and errors are downstream symptoms, not the problem'')
           ''free space first: du -x -d1 / | sort -h | tail -10  (then restart the affected unit)''
           ([''Disk''] @ (if systemdCrit then [''Systemd''] else []) @ (if logsCrit then [''Logs''] else [])))"

definition ruleNFSStaleProcessHang :: "index \<Rightarrow> correlation option" where
  "ruleNFSStaleProcessHang idx =
     (if \<not> exact idx ''NFS'' CRIT \<or> \<not> exact idx ''Processes'' CRIT then None
      else mk_corr ''NFS Stall Process Hang'' CRIT
        (''Processes are stuck in uninterruptible sleep on a stale NFS mount '' @ em_dash @ '' they can't be killed until the mount responds or is force-unmounted'')
        ''find the bad mount: nfsstat -m; then: umount -f -l <mount>  (or restore the NFS server)''
        [''NFS'', ''Processes''])"

definition ruleClockSkewTLSAuth :: "index \<Rightarrow> correlation option" where
  "ruleClockSkewTLSAuth idx =
     (let clockCrit = exact idx ''Clock'' CRIT;
          tlsCrit = exact idx ''TLS'' CRIT;
          authFired = atLeast idx ''Auth'' WARN
      in if \<not> clockCrit \<or> (\<not> tlsCrit \<and> \<not> authFired) then None
         else mk_corr ''Clock Skew Breaking TLS/Auth'' CRIT
           (''The clock is badly skewed '' @ em_dash @ '' valid certificates read as expired/not-yet-valid and Kerberos/2FA fail. Fix time first; the certs and credentials are probably fine'')
           (''sync time: timedatectl set-ntp true  (or chronyc makestep) '' @ em_dash @ '' then re-test TLS/login'')
           ([''Clock''] @ (if tlsCrit then [''TLS''] else []) @ (if authFired then [''Auth''] else [])))"

definition ruleContainerCgroupOOM :: "index \<Rightarrow> correlation option" where
  "ruleContainerCgroupOOM idx =
     (let dockerCrit = exact idx ''Docker'' CRIT;
          cgroupCrit = exact idx ''Cgroup'' CRIT;
          hostMemOK = confirmedNot idx ''Memory'' CRIT
      in if \<not> dockerCrit \<or> \<not> cgroupCrit \<or> \<not> hostMemOK then None
         else mk_corr ''Container Memory-Limit OOM'' CRIT
           (''A container hit its own cgroup memory limit while the host still has RAM '' @ em_dash @ '' the container's limit is too low; adding host memory won't fix it'')
           ''raise the container's limit (docker update --memory / k8s resources.limits), or find its leak''
           [''Docker'', ''Cgroup''])"

definition ruleThermalThrottleUnderLoad :: "index \<Rightarrow> correlation option" where
  "ruleThermalThrottleUnderLoad idx =
     (let thermalFired = atLeast idx ''CPU Thermal'' WARN;
          cpuLoaded = atLeast idx ''CPU Load'' WARN
      in if \<not> thermalFired \<or> \<not> cpuLoaded then None
         else mk_corr ''Thermal Throttling Under Load'' (if exact idx ''CPU Thermal'' CRIT then CRIT else WARN)
           (''The CPU is throttling on temperature while busy '' @ em_dash @ '' performance is capped by heat, not by core count; more vCPUs won't help'')
           ''check cooling/airflow: sensors; reduce sustained load or improve heat dissipation''
           [''CPU Thermal'', ''CPU Load''])"

definition ruleDNSResolverNotConnectivity :: "index \<Rightarrow> correlation option" where
  "ruleDNSResolverNotConnectivity idx =
     (let dnsCrit = exact idx ''DNS'' CRIT;
          networkOK = confirmedNot idx ''Network'' CRIT
      in if \<not> dnsCrit \<or> \<not> networkOK then None
         else mk_corr ''DNS Resolver Failure (network is up)'' WARN
           (''DNS resolution is failing while the network link is healthy '' @ em_dash @ '' this is a resolver/config problem, not connectivity. Don't chase the network'')
           ''check the resolver: resolvectl status; cat /etc/resolv.conf; dig @1.1.1.1 example.com vs dig example.com''
           [''DNS''])"

definition correlate_rules :: "gostring \<Rightarrow> gostring \<Rightarrow> (index \<Rightarrow> correlation option) list" where
  "correlate_rules goos initSystem =
     [ruleMemoryCascade, ruleHardOOM, ruleIOUnderMemoryPressure, ruleNetworkDegradedUnderLoad,
      ruleGPUSustainedLoad, ruleIODrivenLoad, ruleCPUStealUnderLoad, ruleRunQueueSaturation,
      ruleDBusCascade, ruleEntropyTLSFailure goos initSystem, ruleDiskFullServiceFailure,
      ruleNFSStaleProcessHang, ruleClockSkewTLSAuth, ruleContainerCgroupOOM,
      ruleThermalThrottleUnderLoad, ruleDNSResolverNotConnectivity]"

text \<open>The effective operating system and init system are arguments.\<close>

definition Correlate :: "gostring \<Rightarrow> gostring \<Rightarrow> insight list \<Rightarrow> correlation list" where
  "Correlate goos initSystem insights =
     (if insights = [] then []
      else List.map_filter (\<lambda>r. r (buildIndex insights)) (correlate_rules goos initSystem))"

section \<open>Deep rules\<close>

text \<open>
  Time values are nanoseconds since the zero time of Go's \<open>time.Time\<close>; \<open>Sub\<close> saturates at the
  range of a 64-bit duration.
\<close>

record deep_oom_event =
  OomProcess :: gostring
  OomTimestamp :: int

record deep_oom_info =
  OomAvailable :: bool
  EventsLast24h :: int
  OomRecentEvents :: "deep_oom_event list"

record docker_event =
  DeAction :: gostring
  DeActor :: gostring
  DeTimeUnix :: int

record deep_docker_info =
  DockerAvailable :: bool
  OOMEvents :: int
  DockerRecentEvents :: "docker_event list"

record io_device =
  DevName :: gostring
  UtilPct :: f64
  AwaitMs :: f64

record deep_sysctl_info =
  UptimeSeconds :: int
  VMSwappiness :: int
  VMDirtyRatio :: int

record proc_io =
  IoPID :: int
  IoProcName :: gostring

record deep_info =
  TopIOProcs :: "proc_io list"
  TopIOProcsNeedsRoot :: bool

text \<open>\<open>%.0f\<close> rounds half to even; a negative value keeps its sign. Negative zero is not represented.\<close>

definition round_even :: "rat \<Rightarrow> int" where
  "round_even r =
     (let f = floor r; d = r - of_int f
      in if d < 1 / 2 then f else if 1 / 2 < d then f + 1 else if even f then f else f + 1)"

fun fmt0 :: "f64 \<Rightarrow> gostring" where
  "fmt0 NaN = ''NaN''"
| "fmt0 PInf = ''+Inf''"
| "fmt0 NInf = ''-Inf''"
| "fmt0 (Fin r) = (if r < 0 then ''-'' else []) @ itoa (round_even \<bar>r\<bar>)"

fun slowest :: "io_device \<Rightarrow> io_device list \<Rightarrow> io_device" where
  "slowest dev [] = dev"
| "slowest dev (d # ds) = slowest (if flt (AwaitMs dev) (AwaitMs d) then d else dev) ds"

text \<open>The arguments are the \<open>IOwaitPct\<close> of the CPU data and the devices of the IO data.\<close>

definition ruleIOWaitCulprit :: "f64 option \<Rightarrow> io_device list option \<Rightarrow> deep_info option \<Rightarrow> correlation option" where
  "ruleIOWaitCulprit cpu io deep =
     (case cpu of None \<Rightarrow> None | Some iowait \<Rightarrow>
        if flt iowait (Fin 5) then None
        else case io of None \<Rightarrow> None | Some devices \<Rightarrow>
          if devices = [] then None
          else case deep of None \<Rightarrow> None | Some dp \<Rightarrow>
            if TopIOProcs dp = [] then None
            else
              let dev = slowest (hd devices) (tl devices);
                  top = hd (TopIOProcs dp);
                  level = (if fle (Fin 40) iowait then CRIT else WARN);
                  summary = ''iowait '' @ fmt0 iowait @ ''% '' @ left_arrow @ '' '' @ DevName dev @ '' ('' @
                    fmt0 (AwaitMs dev) @ ''ms await) '' @ left_arrow @ '' '' @ IoProcName top @ '' (PID '' @
                    itoa (IoPID top) @ '')'';
                  summary = (if TopIOProcsNeedsRoot dp
                    then summary @ '' '' @ em_dash @ '' partial process visibility, run as root for full attribution''
                    else summary)
              in mk_corr ''IO Wait Culprit'' level summary
                   (''iotop -ao -p '' @ itoa (IoPID top) @ '' && iostat -x 1 5 '' @ DevName dev)
                   [''CPU Load/IOWait'', ''IO''])"

definition device_degraded :: "io_device \<Rightarrow> bool" where
  "device_degraded d \<longleftrightarrow>
     (flt (Fin 20) (AwaitMs d) \<and> fle (Fin 20) (UtilPct d)) \<or> flt (Fin 85) (UtilPct d)"

definition device_healthy :: "io_device \<Rightarrow> bool" where
  "device_healthy d \<longleftrightarrow> \<not> device_degraded d \<and> flt (AwaitMs d) (Fin 5) \<and> flt (UtilPct d) (Fin 60)"

definition ruleIOSingleDeviceDegradation :: "io_device list option \<Rightarrow> correlation option" where
  "ruleIOSingleDeviceDegradation io =
     (case io of None \<Rightarrow> None | Some devices \<Rightarrow>
        if length devices < 2 then None
        else
          let degraded = filter device_degraded devices;
              healthy = filter device_healthy devices
          in if length degraded \<noteq> 1 \<or> healthy = [] then None
             else
               let dev = hd degraded
               in mk_corr ''Single Device IO Degradation'' CRIT
                    (DevName dev @ '' has critically high IO latency ('' @ fmt0 (AwaitMs dev) @ ''ms await, '' @
                     fmt0 (UtilPct dev) @ ''% util) while '' @ itoa (int (length healthy)) @
                     '' peer device(s) are healthy '' @ em_dash @ '' likely a failing or heavily contended drive'')
                    (''smartctl -a /dev/'' @ DevName dev @ '' && iostat -x 1 5'') [''IO''])"

text \<open>\<open>counts[e.Process]++\<close>, and the selection over the map in the order \<open>iter\<close> gives it.\<close>

definition kill_step :: "(gostring, int) gomap \<Rightarrow> deep_oom_event \<Rightarrow> (gostring, int) gomap" where
  "kill_step m e =
     (if OomProcess e \<noteq> [] then map_put m (OomProcess e) (map_get 0 m (OomProcess e) + 1) else m)"

definition count_kills :: "deep_oom_event list \<Rightarrow> (gostring, int) gomap" where
  "count_kills events = foldl kill_step [] events"

definition leaker_step :: "gostring \<times> int \<Rightarrow> gostring \<times> int \<Rightarrow> gostring \<times> int" where
  "leaker_step best pn =
     (if snd best < snd pn \<or> (snd pn = snd best \<and> fst pn < fst best) then pn else best)"

definition leak_action :: "gostring \<Rightarrow> gostring" where
  "leak_action leaker =
     (if \<not> looksLikeSafeToken leaker then
        ''check the repeatedly OOM-killed process manually (ps aux / journalctl) '' @ em_dash @
        '' its name contains unexpected characters and is withheld from this command suggestion''
      else ''check '' @ leaker @ '' memory growth: ps aux | grep '' @ leaker @ '' && journalctl -u '' @ leaker @
        '' --since '24h ago' | grep -i 'memory'' @ [CHR 0x5C] @ ''|oom'' @ [CHR 0x27])"

definition ruleServiceMemoryLeak ::
  "((gostring, int) gomap \<Rightarrow> (gostring, int) gomap) \<Rightarrow> deep_oom_info option \<Rightarrow> correlation option" where
  "ruleServiceMemoryLeak iter oom =
     (case oom of None \<Rightarrow> None | Some oi \<Rightarrow>
        if EventsLast24h oi < 2 \<or> length (OomRecentEvents oi) < 2 then None
        else
          let (leaker, maxCount) = foldl leaker_step ([], 0) (iter (count_kills (OomRecentEvents oi)))
          in if maxCount < 2 \<or> leaker = [] then None
             else mk_corr (''Repeated OOM Kill '' @ em_dash @ '' Possible Memory Leak'') WARN
               (leaker @ '' was OOM-killed '' @ itoa maxCount @ '' times in the last 24h '' @ em_dash @
                '' this pattern suggests a memory leak rather than general memory pressure'')
               (leak_action leaker) [''OOM''])"

definition sysctlAllAtStockDefaults :: "deep_sysctl_info \<Rightarrow> bool" where
  "sysctlAllAtStockDefaults s \<longleftrightarrow>
     list_all (\<lambda>(cur, def). \<not> (cur \<noteq> 0 \<and> cur \<noteq> def)) [(VMSwappiness s, 60), (VMDirtyRatio s, 20)]"

definition ruleSysctlNotPersisted :: "deep_sysctl_info option \<Rightarrow> index \<Rightarrow> correlation option" where
  "ruleSysctlNotPersisted sysctl idx =
     (case sysctl of None \<Rightarrow> None | Some s \<Rightarrow>
        if UptimeSeconds s \<le> 0 \<or> 3600 \<le> UptimeSeconds s then None
        else if \<not> atLeast idx ''Sysctl'' WARN then None
        else if sysctlAllAtStockDefaults s then None
        else mk_corr ''Sysctl Parameter Not Persisted'' WARN
          (''system rebooted '' @ itoa (UptimeSeconds s div 60) @
           '' minute(s) ago with sysctl parameters at non-recommended, non-default values '' @ em_dash @
           '' if a fix was applied last boot with `sysctl -w` it did not survive the reboot; persist tuning to /etc/sysctl.d/ so it reapplies at boot'')
          ''echo 'vm.swappiness=10' >> /etc/sysctl.d/99-dsd.conf && sysctl -p /etc/sysctl.d/99-dsd.conf''
          [''Sysctl''])"

definition unix_time :: "int \<Rightarrow> int" where
  "unix_time s = wrap64 (s + 62135596800) * 1000000000"

definition time_sub :: "int \<Rightarrow> int \<Rightarrow> int" where
  "time_sub t u =
     (if max_int64 < t - u then max_int64 else if t - u < min_int64 then min_int64 else t - u)"

definition oom_window :: int where "oom_window = 300000000000"

definition near_oom :: "int \<Rightarrow> deep_oom_event \<Rightarrow> bool" where
  "near_oom deTime ke \<longleftrightarrow>
     OomTimestamp ke \<noteq> 0 \<and>
     (let diff = time_sub deTime (OomTimestamp ke);
          diff = (if diff < 0 then wrap64 (- diff) else diff)
      in diff \<le> oom_window)"

fun findTimedDockerOOM :: "deep_oom_event list \<Rightarrow> docker_event list \<Rightarrow> gostring option" where
  "findTimedDockerOOM kes [] = None"
| "findTimedDockerOOM kes (de # des) =
     (if DeAction de \<noteq> ''oom'' \<and> DeAction de \<noteq> ''die'' then findTimedDockerOOM kes des
      else if list_ex (near_oom (unix_time (DeTimeUnix de))) kes then Some (DeActor de)
      else findTimedDockerOOM kes des)"

definition docker_oom_action :: "gostring \<Rightarrow> gostring" where
  "docker_oom_action actor =
     (if actor \<noteq> [] \<and> looksLikeSafeToken actor then ''docker inspect '' @ actor @ '' && docker logs --tail=50 '' @ actor
      else if actor \<noteq> [] then
        ''docker inspect <container> && docker logs --tail=50 <container> '' @ em_dash @
        '' actor name contains unexpected characters; run `docker ps -a` to find the container''
      else ''docker stats --no-stream'')"

definition ruleDockerOOMCascade :: "deep_oom_info option \<Rightarrow> deep_docker_info option \<Rightarrow> correlation option" where
  "ruleDockerOOMCascade oom docker =
     (case (oom, docker) of
        (Some oi, Some d) \<Rightarrow>
          if \<not> OomAvailable oi \<or> EventsLast24h oi = 0 then None
          else if \<not> DockerAvailable d \<or> OOMEvents d = 0 then None
          else (case findTimedDockerOOM (OomRecentEvents oi) (DockerRecentEvents d) of
                  Some actor \<Rightarrow>
                    mk_corr ''Container OOM Cascade'' CRIT
                      (''kernel OOM killer and Docker container OOM exit confirmed within 5 minutes '' @ em_dash @
                       '' memory pressure killed a container'')
                      (docker_oom_action actor) [''OOM'', ''Docker'']
                | None \<Rightarrow>
                    mk_corr ''Container OOM Cascade'' CRIT
                      (''kernel OOM kills and Docker container OOM events co-occurred '' @ em_dash @
                       '' containers are being killed by memory pressure'')
                      ''docker stats --no-stream && docker events --filter type=container --filter event=oom''
                      [''OOM'', ''Docker''])
      | _ \<Rightarrow> None)"

definition CorrelateDeep ::
  "((gostring, int) gomap \<Rightarrow> (gostring, int) gomap) \<Rightarrow> gostring \<Rightarrow> gostring \<Rightarrow> insight list \<Rightarrow>
   deep_oom_info option \<Rightarrow> deep_docker_info option \<Rightarrow> io_device list option \<Rightarrow> deep_sysctl_info option \<Rightarrow>
   f64 option \<Rightarrow> deep_info option \<Rightarrow> correlation list" where
  "CorrelateDeep iter goos initSystem insights oom docker io sysctl cpu deep =
     Correlate goos initSystem insights @
     List.map_filter id
       [ruleDockerOOMCascade oom docker, ruleIOSingleDeviceDegradation io,
        ruleServiceMemoryLeak iter oom, ruleIOWaitCulprit cpu io deep,
        ruleSysctlNotPersisted sysctl (buildIndex insights)]"

section \<open>What the index means\<close>

text \<open>An insight speaks about a check key when the key is its check or the check's base name.\<close>

definition about :: "gostring \<Rightarrow> insight \<Rightarrow> bool" where
  "about key i \<longleftrightarrow> to_lower key \<in> set (indexKeys (Check i))"

definition measured :: "insight list \<Rightarrow> gostring \<Rightarrow> bool" where
  "measured is key \<longleftrightarrow> (\<exists>i \<in> set is. about key i)"

definition reported :: "insight list \<Rightarrow> gostring \<Rightarrow> gostring \<Rightarrow> bool" where
  "reported is key l \<longleftrightarrow> (\<exists>i \<in> set is. about key i \<and> Level i = l)"

text \<open>The severity the index holds under a key.\<close>

definition severity_at :: "index \<Rightarrow> gostring \<Rightarrow> int option" where
  "severity_at idx k = map_option (\<lambda>e. level_order (ELevel e)) (idx k)"

fun worse :: "int option \<Rightarrow> int \<Rightarrow> int option" where
  "worse None n = Some n"
| "worse (Some m) n = Some (max m n)"

lemma severity_index_key:
  "severity_at (index_key ins idx k') k =
     (if k = k' then worse (severity_at idx k) (level_order (Level ins)) else severity_at idx k)"
  by (cases "idx k'") (auto simp: index_key_def severity_at_def)

lemma severity_index_keys:
  "severity_at (foldl (index_key ins) idx ks) k =
     (if k \<in> set ks then worse (severity_at idx k) (level_order (Level ins)) else severity_at idx k)"
proof (induction ks arbitrary: idx)
  case (Cons k' ks)
  have "worse (worse s n) n = worse s n" for s n by (cases s) auto
  then show ?case using Cons.IH [of "index_key ins idx k'"] by (auto simp: severity_index_key)
qed simp

lemma severity_index_insight:
  "severity_at (index_insight idx ins) k =
     (if k \<in> set (indexKeys (Check ins)) then worse (severity_at idx k) (level_order (Level ins))
      else severity_at idx k)"
  by (simp add: index_insight_def severity_index_keys)

lemma severity_fold:
  "severity_at (foldl index_insight idx is) k = Some n \<longleftrightarrow>
     (let ls = {level_order (Level i) | i. i \<in> set is \<and> k \<in> set (indexKeys (Check i))} \<union>
               set_option (severity_at idx k)
      in n \<in> ls \<and> (\<forall>m \<in> ls. m \<le> n))"
proof (induction "is" arbitrary: idx)
  case Nil
  show ?case by auto
next
  case (Cons i "is")
  show ?case
    using Cons.IH [of "index_insight idx i"]
    by (cases "severity_at idx k") (auto simp: severity_index_insight Let_def max_def split: if_splits)
qed

lemma severity_fold_None:
  "severity_at (foldl index_insight idx is) k = None \<longleftrightarrow>
     severity_at idx k = None \<and> (\<forall>i \<in> set is. k \<notin> set (indexKeys (Check i)))"
proof (induction "is" arbitrary: idx)
  case (Cons i "is")
  have "worse s n \<noteq> None" for s n by (cases s) auto
  then show ?case using Cons.IH [of "index_insight idx i"] by (auto simp: severity_index_insight)
qed simp

lemma severity_empty [simp]: "severity_at Map.empty k = None"
  by (simp add: severity_at_def)

lemma buildIndex_measured: "severity_at (buildIndex is) (to_lower key) \<noteq> None \<longleftrightarrow> measured is key"
  by (auto simp: buildIndex_def severity_fold_None measured_def about_def)

lemma buildIndex_severity:
  "severity_at (buildIndex is) (to_lower key) = Some n \<longleftrightarrow>
     (\<exists>i \<in> set is. about key i \<and> level_order (Level i) = n) \<and>
     (\<forall>i \<in> set is. about key i \<longrightarrow> level_order (Level i) \<le> n)"
  by (auto simp: buildIndex_def severity_fold about_def Let_def)

lemma severity_set_cong: "set a = set b \<Longrightarrow> severity_at (buildIndex a) k = severity_at (buildIndex b) k"
proof -
  assume "set a = set b"
  then have "severity_at (buildIndex a) k = Some n \<longleftrightarrow> severity_at (buildIndex b) k = Some n" for n
    by (simp add: buildIndex_def severity_fold)
  then show ?thesis by (metis not_None_eq)
qed

lemma level_order_consts [simp]:
  "level_order CRIT = 3" "level_order WARN = 2" "level_order INFO = 1"
  by (simp_all add: level_order_def)

lemma level_order_CRIT: "level_order l = 3 \<longleftrightarrow> l = CRIT" "3 \<le> level_order l \<longleftrightarrow> l = CRIT"
  by (simp_all add: level_order_def)

lemma level_order_WARN: "level_order l = 2 \<longleftrightarrow> l = WARN" "2 \<le> level_order l \<longleftrightarrow> l = WARN \<or> l = CRIT"
  by (simp_all add: level_order_def)

lemma level_order_INFO: "1 \<le> level_order l \<longleftrightarrow> l \<in> {INFO, WARN, CRIT}"
  by (simp add: level_order_def)

lemma level_order_le3: "level_order l \<le> 3"
  by (simp add: level_order_def)

lemma atLeast_severity:
  "atLeast idx key m \<longleftrightarrow> (\<exists>n. severity_at idx (to_lower key) = Some n \<and> level_order m \<le> n)"
  by (auto simp: atLeast_def severity_at_def split: option.splits)

lemma exact_severity: "exact idx key CRIT \<longleftrightarrow> severity_at idx (to_lower key) = Some 3"
  by (auto simp: exact_def severity_at_def level_order_CRIT split: option.splits)

lemma confirmedNot_severity:
  "confirmedNot idx key CRIT \<longleftrightarrow> (\<exists>n. severity_at idx (to_lower key) = Some n \<and> n \<noteq> 3)"
  "confirmedNot idx key WARN \<longleftrightarrow> (\<exists>n. severity_at idx (to_lower key) = Some n \<and> n \<noteq> 2)"
  by (auto simp: confirmedNot_def severity_at_def level_order_CRIT level_order_WARN split: option.splits)

section \<open>What the rules mean\<close>

lemma exact_CRIT: "exact (buildIndex is) key CRIT \<longleftrightarrow> reported is key CRIT"
  by (auto simp: exact_severity buildIndex_severity reported_def level_order_CRIT level_order_le3)

lemma atLeast_reported:
  "atLeast (buildIndex is) key m \<longleftrightarrow> (\<exists>i \<in> set is. about key i \<and> level_order m \<le> level_order (Level i))"
proof
  assume "atLeast (buildIndex is) key m"
  then show "\<exists>i \<in> set is. about key i \<and> level_order m \<le> level_order (Level i)"
    by (auto simp: atLeast_severity buildIndex_severity)
next
  assume "\<exists>i \<in> set is. about key i \<and> level_order m \<le> level_order (Level i)"
  then obtain i where i: "i \<in> set is" "about key i" "level_order m \<le> level_order (Level i)" by blast
  then have "severity_at (buildIndex is) (to_lower key) \<noteq> None"
    unfolding buildIndex_measured measured_def by blast
  then obtain n where n: "severity_at (buildIndex is) (to_lower key) = Some n" by auto
  with i have "level_order (Level i) \<le> n" by (auto simp: buildIndex_severity)
  with i n show "atLeast (buildIndex is) key m" by (auto simp: atLeast_severity)
qed

lemma atLeast_WARN: "atLeast (buildIndex is) key WARN \<longleftrightarrow> reported is key WARN \<or> reported is key CRIT"
  by (auto simp: atLeast_reported reported_def level_order_WARN)

lemma atLeast_CRIT: "atLeast (buildIndex is) key CRIT \<longleftrightarrow> reported is key CRIT"
  by (auto simp: atLeast_reported reported_def level_order_CRIT)

lemma not_measured: "severity_at (buildIndex is) (to_lower key) = None \<longleftrightarrow> \<not> measured is key"
  using buildIndex_measured [of "is" key] by auto

lemma confirmedNot_CRIT:
  "confirmedNot (buildIndex is) key CRIT \<longleftrightarrow> measured is key \<and> \<not> reported is key CRIT"
  unfolding confirmedNot_severity exact_CRIT [symmetric] exact_severity buildIndex_measured [symmetric]
  by auto

lemma confirmedNot_low:
  "confirmedNot (buildIndex is) key WARN \<and> confirmedNot (buildIndex is) key CRIT \<longleftrightarrow>
     measured is key \<and> \<not> reported is key WARN \<and> \<not> reported is key CRIT"
proof (cases "severity_at (buildIndex is) (to_lower key)")
  case None
  then show ?thesis using buildIndex_measured [of "is" key] by (simp add: confirmedNot_severity)
next
  case (Some n)
  then have m: "measured is key" using buildIndex_measured [of "is" key] by simp
  obtain l where "n = level_order l" using Some by (auto simp: buildIndex_severity)
  then have "n \<noteq> 2 \<and> n \<noteq> 3 \<longleftrightarrow> \<not> 2 \<le> n"
    using level_order_le3 [of l] by (auto simp: level_order_def split: if_splits)
  then have "n \<noteq> 2 \<and> n \<noteq> 3 \<longleftrightarrow> \<not> atLeast (buildIndex is) key WARN"
    using Some by (simp add: atLeast_severity)
  with Some m show ?thesis by (auto simp: confirmedNot_severity atLeast_WARN)
qed

lemmas rule_defs =
  ruleMemoryCascade_def ruleHardOOM_def ruleIOUnderMemoryPressure_def ruleNetworkDegradedUnderLoad_def
  ruleGPUSustainedLoad_def ruleIODrivenLoad_def ruleCPUStealUnderLoad_def ruleRunQueueSaturation_def
  ruleDBusCascade_def ruleEntropyTLSFailure_def ruleDiskFullServiceFailure_def ruleNFSStaleProcessHang_def
  ruleClockSkewTLSAuth_def ruleContainerCgroupOOM_def ruleThermalThrottleUnderLoad_def
  ruleDNSResolverNotConnectivity_def mk_corr_def Let_def

lemma rules_severity_cong:
  assumes "\<And>k. severity_at a k = severity_at b k"
  shows "r \<in> set (correlate_rules goos init) \<Longrightarrow> r a = r b"
proof -
  have "atLeast a key m = atLeast b key m" "exact a key CRIT = exact b key CRIT"
    "confirmedNot a key CRIT = confirmedNot b key CRIT" "confirmedNot a key WARN = confirmedNot b key WARN"
    for key m
    using assms by (simp_all add: atLeast_severity exact_severity confirmedNot_severity)
  note cong = this
  assume "r \<in> set (correlate_rules goos init)"
  then show ?thesis
    by (auto simp only: correlate_rules_def list.set insert_iff empty_iff rule_defs cong)
qed

lemma map_filter_cong_set:
  "(\<And>x. x \<in> set xs \<Longrightarrow> f x = g x) \<Longrightarrow> List.map_filter f xs = List.map_filter g xs"
  by (induction xs) (auto simp: List.map_filter_def)

lemma Correlate_cong: "set a = set b \<Longrightarrow> Correlate goos init a = Correlate goos init b"
proof -
  assume eq: "set a = set b"
  have "List.map_filter (\<lambda>r. r (buildIndex a)) (correlate_rules goos init) =
    List.map_filter (\<lambda>r. r (buildIndex b)) (correlate_rules goos init)"
    by (rule map_filter_cong_set) (rule rules_severity_cong [OF severity_set_cong [OF eq]])
  moreover have "a = [] \<longleftrightarrow> b = []" using eq by (metis set_empty)
  ultimately show ?thesis by (simp add: Correlate_def)
qed

lemma Correlate_iff:
  "c \<in> set (Correlate goos init is) \<longleftrightarrow>
     is \<noteq> [] \<and> (\<exists>r \<in> set (correlate_rules goos init). r (buildIndex is) = Some c)"
  by (auto simp: Correlate_def List.map_filter_def image_iff)

lemma reported_not_empty: "reported is key l \<Longrightarrow> is \<noteq> []"
  by (auto simp: reported_def)

lemmas index_facts = atLeast_WARN atLeast_CRIT exact_CRIT confirmedNot_CRIT confirmedNot_low

text \<open>The check a listed contributor stands for: two of them are shortened in the code.\<close>

definition evidence_key :: "gostring \<Rightarrow> gostring" where
  "evidence_key ch = (if ch = ''CPU'' then ''CPU Load'' else if ch = ''Thermal'' then ''CPU Thermal'' else ch)"

definition supported :: "index \<Rightarrow> gostring \<Rightarrow> bool" where
  "supported idx ch \<longleftrightarrow> atLeast idx (evidence_key ch) WARN \<or> ch = ''GPU'' \<and> atLeast idx ''GPU'' INFO"

lemma exact_atLeast: "exact idx key CRIT \<Longrightarrow> atLeast idx key WARN"
  by (auto simp: exact_severity atLeast_severity)

lemma atLeast_CRIT_WARN: "atLeast idx key CRIT \<Longrightarrow> atLeast idx key WARN"
  by (auto simp: atLeast_severity)

lemmas evidence_simps = supported_def evidence_key_def exact_atLeast atLeast_CRIT_WARN

lemma rule_supported:
  "ruleMemoryCascade idx = Some c \<Longrightarrow> list_all (supported idx) (CoChecks c)"
  "ruleHardOOM idx = Some c \<Longrightarrow> list_all (supported idx) (CoChecks c)"
  "ruleIOUnderMemoryPressure idx = Some c \<Longrightarrow> list_all (supported idx) (CoChecks c)"
  "ruleNetworkDegradedUnderLoad idx = Some c \<Longrightarrow> list_all (supported idx) (CoChecks c)"
  "ruleGPUSustainedLoad idx = Some c \<Longrightarrow> list_all (supported idx) (CoChecks c)"
  "ruleIODrivenLoad idx = Some c \<Longrightarrow> list_all (supported idx) (CoChecks c)"
  "ruleCPUStealUnderLoad idx = Some c \<Longrightarrow> list_all (supported idx) (CoChecks c)"
  "ruleRunQueueSaturation idx = Some c \<Longrightarrow> list_all (supported idx) (CoChecks c)"
  "ruleDBusCascade idx = Some c \<Longrightarrow> list_all (supported idx) (CoChecks c)"
  "ruleEntropyTLSFailure goos init idx = Some c \<Longrightarrow> list_all (supported idx) (CoChecks c)"
  "ruleDiskFullServiceFailure idx = Some c \<Longrightarrow> list_all (supported idx) (CoChecks c)"
  "ruleNFSStaleProcessHang idx = Some c \<Longrightarrow> list_all (supported idx) (CoChecks c)"
  "ruleClockSkewTLSAuth idx = Some c \<Longrightarrow> list_all (supported idx) (CoChecks c)"
  "ruleContainerCgroupOOM idx = Some c \<Longrightarrow> list_all (supported idx) (CoChecks c)"
  "ruleThermalThrottleUnderLoad idx = Some c \<Longrightarrow> list_all (supported idx) (CoChecks c)"
  "ruleDNSResolverNotConnectivity idx = Some c \<Longrightarrow> list_all (supported idx) (CoChecks c)"
  by (auto simp: rule_defs evidence_simps split: if_splits)

lemma rules_supported:
  "r \<in> set (correlate_rules goos init) \<Longrightarrow> r idx = Some c \<Longrightarrow> list_all (supported idx) (CoChecks c)"
  unfolding correlate_rules_def list.set by (elim insertE emptyE) (simp_all add: rule_supported)

lemma rule_names:
  "ruleMemoryCascade idx = Some c \<Longrightarrow> CoName c = ''Memory Pressure Cascade''"
  "ruleHardOOM idx = Some c \<Longrightarrow> CoName c = ''Hard OOM Event''"
  "ruleIOUnderMemoryPressure idx = Some c \<Longrightarrow> CoName c = ''IO Stall Under Memory Pressure''"
  "ruleNetworkDegradedUnderLoad idx = Some c \<Longrightarrow> CoName c = ''Network Degraded Under System Load''"
  "ruleGPUSustainedLoad idx = Some c \<Longrightarrow> CoName c = ''GPU Sustained Compute Load''"
  "ruleIODrivenLoad idx = Some c \<Longrightarrow> CoName c = ''IO-Driven Load Saturation''"
  "ruleCPUStealUnderLoad idx = Some c \<Longrightarrow> CoName c = ''CPU Steal Under Load''"
  "ruleRunQueueSaturation idx = Some c \<Longrightarrow> CoName c = ''CPU-Bound Run Queue Saturation''"
  "ruleDBusCascade idx = Some c \<Longrightarrow> CoName c = ''D-Bus Cascade Failure''"
  "ruleEntropyTLSFailure goos init idx = Some c \<Longrightarrow> CoName c = ''Entropy Starvation with TLS Active''"
  "ruleDiskFullServiceFailure idx = Some c \<Longrightarrow> CoName c = ''Disk-Full Service Failure''"
  "ruleNFSStaleProcessHang idx = Some c \<Longrightarrow> CoName c = ''NFS Stall Process Hang''"
  "ruleClockSkewTLSAuth idx = Some c \<Longrightarrow> CoName c = ''Clock Skew Breaking TLS/Auth''"
  "ruleContainerCgroupOOM idx = Some c \<Longrightarrow> CoName c = ''Container Memory-Limit OOM''"
  "ruleThermalThrottleUnderLoad idx = Some c \<Longrightarrow> CoName c = ''Thermal Throttling Under Load''"
  "ruleDNSResolverNotConnectivity idx = Some c \<Longrightarrow> CoName c = ''DNS Resolver Failure (network is up)''"
  by (auto simp: rule_defs split: if_splits)

text \<open>A diagnosis is made under a name exactly when the rule of that name fires.\<close>

definition diagnosed :: "gostring \<Rightarrow> correlation list \<Rightarrow> bool" where
  "diagnosed nm cs \<longleftrightarrow> nm \<in> CoName ` set cs"

definition fires_as :: "gostring \<Rightarrow> correlation option \<Rightarrow> bool" where
  "fires_as nm x \<longleftrightarrow> (\<exists>c. x = Some c \<and> CoName c = nm)"

lemma fires_as_rule: "(\<And>c. x = Some c \<Longrightarrow> CoName c = n) \<Longrightarrow> fires_as nm x \<longleftrightarrow> nm = n \<and> x \<noteq> None"
  by (auto simp: fires_as_def)

lemmas fires_as_rules =
  fires_as_rule [OF rule_names(1)] fires_as_rule [OF rule_names(2)] fires_as_rule [OF rule_names(3)]
  fires_as_rule [OF rule_names(4)] fires_as_rule [OF rule_names(5)] fires_as_rule [OF rule_names(6)]
  fires_as_rule [OF rule_names(7)] fires_as_rule [OF rule_names(8)] fires_as_rule [OF rule_names(9)]
  fires_as_rule [OF rule_names(10)] fires_as_rule [OF rule_names(11)] fires_as_rule [OF rule_names(12)]
  fires_as_rule [OF rule_names(13)] fires_as_rule [OF rule_names(14)] fires_as_rule [OF rule_names(15)]
  fires_as_rule [OF rule_names(16)]

lemma diagnosed_fires:
  "diagnosed nm (Correlate goos init is) \<longleftrightarrow>
     is \<noteq> [] \<and> list_ex (\<lambda>r. fires_as nm (r (buildIndex is))) (correlate_rules goos init)"
proof -
  have "diagnosed nm (Correlate goos init is) \<longleftrightarrow> (\<exists>c. c \<in> set (Correlate goos init is) \<and> CoName c = nm)"
    by (auto simp: diagnosed_def)
  also have "\<dots> \<longleftrightarrow>
     is \<noteq> [] \<and> list_ex (\<lambda>r. fires_as nm (r (buildIndex is))) (correlate_rules goos init)"
    unfolding Correlate_iff list_ex_iff fires_as_def by blast
  finally show ?thesis .
qed

lemma diagnosed_not_Nil:
  "diagnosed nm (Correlate goos init is) \<longleftrightarrow>
     list_ex (\<lambda>r. fires_as nm (r (buildIndex is))) (correlate_rules goos init)"
proof (cases "is = []")
  case True
  have "atLeast Map.empty key m = False" "exact Map.empty key m = False" for key m
    by (simp_all add: atLeast_def exact_def)
  then have "fires_as nm (r Map.empty) = False" if "r \<in> set (correlate_rules goos init)" for r
    using that by (auto simp: correlate_rules_def fires_as_def rule_defs)
  with True show ?thesis by (auto simp: diagnosed_fires buildIndex_def list_ex_iff)
qed (simp add: diagnosed_fires)

lemma diagnosed_confirmed_rules:
  "diagnosed ''Hard OOM Event'' (Correlate goos init is) \<longleftrightarrow> ruleHardOOM (buildIndex is) \<noteq> None"
  "diagnosed ''CPU-Bound Run Queue Saturation'' (Correlate goos init is) \<longleftrightarrow>
     ruleRunQueueSaturation (buildIndex is) \<noteq> None"
  "diagnosed ''Container Memory-Limit OOM'' (Correlate goos init is) \<longleftrightarrow>
     ruleContainerCgroupOOM (buildIndex is) \<noteq> None"
  "diagnosed ''DNS Resolver Failure (network is up)'' (Correlate goos init is) \<longleftrightarrow>
     ruleDNSResolverNotConnectivity (buildIndex is) \<noteq> None"
  "diagnosed ''GPU Sustained Compute Load'' (Correlate goos init is) \<longleftrightarrow>
     ruleGPUSustainedLoad (buildIndex is) \<noteq> None"
  by (simp_all add: diagnosed_not_Nil correlate_rules_def fires_as_rules)

section \<open>The repeatedly killed process\<close>

definition kills :: "deep_oom_event list \<Rightarrow> gostring \<Rightarrow> int" where
  "kills events p = count_by (\<lambda>e. OomProcess e = p) events"

lemma kills_simps [simp]:
  "kills [] p = 0"
  "kills (e # es) p = (if OomProcess e = p then 1 else 0) + kills es p"
  by (simp_all add: kills_def)

lemma kills_nonneg [simp]: "0 \<le> kills es p"
  by (simp add: kills_def)

lemma kill_step_get:
  "map_get 0 (kill_step m e) p = (if OomProcess e = p \<and> p \<noteq> [] then 1 else 0) + map_get 0 m p"
  by (simp add: kill_step_def map_get_def)

lemma kill_step_key: "p \<in> fst ` set (kill_step m e) \<longleftrightarrow> OomProcess e = p \<and> p \<noteq> [] \<or> p \<in> fst ` set m"
  by (auto simp: kill_step_def)

lemma kill_fold_get:
  "p \<noteq> [] \<Longrightarrow> map_get 0 (foldl kill_step m es) p = map_get 0 m p + kills es p"
  by (induction es arbitrary: m) (simp_all add: kill_step_get)

lemma kill_fold_key:
  "p \<in> fst ` set (foldl kill_step m es) \<longleftrightarrow> p \<in> fst ` set m \<or> (p \<noteq> [] \<and> (\<exists>e \<in> set es. OomProcess e = p))"
  by (induction es arbitrary: m) (auto simp: kill_step_key)

lemma kills_pos: "0 < kills es p \<longleftrightarrow> (\<exists>e \<in> set es. OomProcess e = p)"
  by (simp add: kills_def count_by_pos)

lemma count_kills_map:
  "map_of (count_kills events) p = (if p \<noteq> [] \<and> 0 < kills events p then Some (kills events p) else None)"
proof (cases "p \<in> fst ` set (count_kills events)")
  case True
  then have "p \<noteq> [] \<and> 0 < kills events p" by (simp add: count_kills_def kill_fold_key kills_pos)
  moreover obtain n where "map_of (count_kills events) p = Some n"
    using True by (metis map_of_eq_None_iff not_None_eq)
  moreover from this have "n = kills events p"
    using kill_fold_get [of p "[]" events] calculation(1)
    by (simp add: count_kills_def map_get_def)
  ultimately show ?thesis by simp
next
  case False
  then have "\<not> (p \<noteq> [] \<and> 0 < kills events p)" by (simp add: count_kills_def kill_fold_key kills_pos)
  moreover have "map_of (count_kills events) p = None" using False by (simp add: map_of_eq_None_iff)
  ultimately show ?thesis by simp
qed

lemma count_kills_distinct: "distinct (map fst (count_kills events))"
proof -
  have "distinct (map fst m) \<Longrightarrow> distinct (map fst (foldl kill_step m events))" for m
    by (induction events arbitrary: m) (simp_all add: kill_step_def)
  from this [of "[]"] show ?thesis by (simp add: count_kills_def)
qed

lemma count_kills_entries:
  "(p, n) \<in> set (count_kills events) \<longleftrightarrow> p \<noteq> [] \<and> 0 < n \<and> n = kills events p"
  unfolding map_of_eq_Some_iff [OF count_kills_distinct, symmetric] by (auto simp: count_kills_map)

text \<open>The order in which the best entry is chosen: more kills, then the smaller name.\<close>

definition beats :: "gostring \<times> int \<Rightarrow> gostring \<times> int \<Rightarrow> bool" where
  "beats x y \<longleftrightarrow> snd y < snd x \<or> (snd x = snd y \<and> fst x \<le> fst y)"

lemma leaker_fold:
  "foldl leaker_step best xs = x \<longleftrightarrow> x \<in> insert best (set xs) \<and> (\<forall>y \<in> insert best (set xs). beats x y)"
proof (induction xs arbitrary: best)
  case Nil
  show ?case by (auto simp: beats_def)
next
  case (Cons y ys)
  show ?case
    using Cons.IH [of "leaker_step best y"]
    by (cases best; cases y; cases x)
       (auto simp: leaker_step_def beats_def split: if_splits)
qed

lemma leaker_unique:
  assumes iter: "mset (iter (count_kills es)) = mset (count_kills es)"
    and p: "p \<noteq> []" "0 < kills es p"
    and best: "\<And>q. q \<noteq> [] \<Longrightarrow> kills es q < kills es p \<or> (kills es q = kills es p \<and> p \<le> q)"
  shows "foldl leaker_step ([], 0) (iter (count_kills es)) = (p, kills es p)"
proof -
  have "set (iter (count_kills es)) = set (count_kills es)" using mset_eq_setD [OF iter] .
  then have entries: "(q, n) \<in> set (iter (count_kills es)) \<longleftrightarrow> q \<noteq> [] \<and> 0 < n \<and> n = kills es q" for q n
    by (simp add: count_kills_entries)
  have "(p, kills es p) \<in> set (iter (count_kills es))" using p by (simp add: entries)
  moreover have "beats (p, kills es p) (q, n)" if "(q, n) \<in> set (iter (count_kills es))" for q n
    using that best [of q] by (auto simp: entries beats_def)
  moreover have "beats (p, kills es p) ([], 0)" using p by (simp add: beats_def)
  ultimately show ?thesis unfolding leaker_fold by auto
qed

lemma leaker_none:
  assumes iter: "mset (iter (count_kills es)) = mset (count_kills es)"
    and few: "\<And>q. q \<noteq> [] \<Longrightarrow> kills es q < 2"
  shows "snd (foldl leaker_step ([], 0) (iter (count_kills es))) < 2"
proof -
  obtain p n where pn: "foldl leaker_step ([], 0) (iter (count_kills es)) = (p, n)" by fastforce
  then have "(p, n) \<in> insert ([], 0) (set (count_kills es))"
    using leaker_fold [of "([], 0)" "iter (count_kills es)" "(p, n)"] mset_eq_setD [OF iter] by auto
  then show ?thesis using few [of p] pn by (auto simp: count_kills_entries)
qed

definition unsafe_bytes :: "gostring \<Rightarrow> gostring" where
  "unsafe_bytes s = filter (\<lambda>c. \<not> safe_char c) s"

lemma unsafe_bytes_token: "looksLikeSafeToken p \<Longrightarrow> unsafe_bytes p = []"
  by (auto simp: looksLikeSafeToken_def unsafe_bytes_def list_all_iff filter_empty_conv)

lemma unsafe_bytes_append: "unsafe_bytes (a @ b) = unsafe_bytes a @ unsafe_bytes b"
  by (simp add: unsafe_bytes_def)

section \<open>The commands\<close>

text \<open>The commands of the rules on the index, which splice nothing in.\<close>

definition rule_commands :: "gostring \<Rightarrow> gostring \<Rightarrow> gostring list" where
  "rule_commands goos init =
     [''find the memory hog: ps aux --sort=-%mem | head -10'',
      ''check which processes were killed: dmesg | grep -i 'out of memory'' @ [CHR 0x27],
      ''check what is swapping: vmstat 1 5 && iotop -ao'',
      ''check if load clears first: uptime && ping -c5 $(ip route | awk '/default/{print $3}')'',
      ''inspect: nvidia-smi dmon -s pucvmt -d 5'',
      ''iostat -x 1 5 && iotop -ao'',
      ''escalate to cloud provider or migrate VM to a less-loaded host'',
      ''find the busy threads: top -H -b -n1 | head -20 '' @ em_dash @ '' then add cores or reduce concurrency'',
      ''systemctl status dbus.service && journalctl -u dbus.service -n 20'',
      ''apt install haveged OR dnf install rng-tools && '' @ platformServiceCmd ''systemctl enable --now rngd'' goos init,
      ''free space first: du -x -d1 / | sort -h | tail -10  (then restart the affected unit)'',
      ''find the bad mount: nfsstat -m; then: umount -f -l <mount>  (or restore the NFS server)'',
      ''sync time: timedatectl set-ntp true  (or chronyc makestep) '' @ em_dash @ '' then re-test TLS/login'',
      ''raise the container's limit (docker update --memory / k8s resources.limits), or find its leak'',
      ''check cooling/airflow: sensors; reduce sustained load or improve heat dissipation'',
      ''check the resolver: resolvectl status; cat /etc/resolv.conf; dig @1.1.1.1 example.com vs dig example.com'']"

text \<open>All commands, the deep ones with a harmless name, device and number, or with the name withheld.\<close>

definition suggested_commands :: "gostring \<Rightarrow> gostring \<Rightarrow> gostring list" where
  "suggested_commands goos init = rule_commands goos init @
     [''docker inspect '' @ ''x'' @ '' && docker logs --tail=50 '' @ ''x'',
      ''docker inspect <container> && docker logs --tail=50 <container> '' @ em_dash @
        '' actor name contains unexpected characters; run `docker ps -a` to find the container'',
      ''docker stats --no-stream'',
      ''docker stats --no-stream && docker events --filter type=container --filter event=oom'',
      ''smartctl -a /dev/'' @ ''x'' @ '' && iostat -x 1 5'',
      ''check '' @ ''x'' @ '' memory growth: ps aux | grep '' @ ''x'' @ '' && journalctl -u '' @ ''x'' @
        '' --since '24h ago' | grep -i 'memory'' @
        [CHR 0x5C] @ ''|oom'' @ [CHR 0x27],
      ''check the repeatedly OOM-killed process manually (ps aux / journalctl) '' @ em_dash @
        '' its name contains unexpected characters and is withheld from this command suggestion'',
      ''iotop -ao -p '' @ ''1'' @ '' && iostat -x 1 5 '' @ ''x'',
      ''echo 'vm.swappiness=10' >> /etc/sysctl.d/99-dsd.conf && sysctl -p /etc/sysctl.d/99-dsd.conf'']"

lemma rule_command:
  "ruleMemoryCascade idx = Some c \<Longrightarrow> CoAction c = ''find the memory hog: ps aux --sort=-%mem | head -10''"
  "ruleHardOOM idx = Some c \<Longrightarrow> CoAction c = ''check which processes were killed: dmesg | grep -i 'out of memory'' @ [CHR 0x27]"
  "ruleIOUnderMemoryPressure idx = Some c \<Longrightarrow> CoAction c = ''check what is swapping: vmstat 1 5 && iotop -ao''"
  "ruleNetworkDegradedUnderLoad idx = Some c \<Longrightarrow> CoAction c = ''check if load clears first: uptime && ping -c5 $(ip route | awk '/default/{print $3}')''"
  "ruleGPUSustainedLoad idx = Some c \<Longrightarrow> CoAction c = ''inspect: nvidia-smi dmon -s pucvmt -d 5''"
  "ruleIODrivenLoad idx = Some c \<Longrightarrow> CoAction c = ''iostat -x 1 5 && iotop -ao''"
  "ruleCPUStealUnderLoad idx = Some c \<Longrightarrow> CoAction c = ''escalate to cloud provider or migrate VM to a less-loaded host''"
  "ruleRunQueueSaturation idx = Some c \<Longrightarrow> CoAction c = ''find the busy threads: top -H -b -n1 | head -20 '' @ em_dash @ '' then add cores or reduce concurrency''"
  "ruleDBusCascade idx = Some c \<Longrightarrow> CoAction c = ''systemctl status dbus.service && journalctl -u dbus.service -n 20''"
  "ruleEntropyTLSFailure goos init idx = Some c \<Longrightarrow> CoAction c = ''apt install haveged OR dnf install rng-tools && '' @ platformServiceCmd ''systemctl enable --now rngd'' goos init"
  "ruleDiskFullServiceFailure idx = Some c \<Longrightarrow> CoAction c = ''free space first: du -x -d1 / | sort -h | tail -10  (then restart the affected unit)''"
  "ruleNFSStaleProcessHang idx = Some c \<Longrightarrow> CoAction c = ''find the bad mount: nfsstat -m; then: umount -f -l <mount>  (or restore the NFS server)''"
  "ruleClockSkewTLSAuth idx = Some c \<Longrightarrow> CoAction c = ''sync time: timedatectl set-ntp true  (or chronyc makestep) '' @ em_dash @ '' then re-test TLS/login''"
  "ruleContainerCgroupOOM idx = Some c \<Longrightarrow> CoAction c = ''raise the container's limit (docker update --memory / k8s resources.limits), or find its leak''"
  "ruleThermalThrottleUnderLoad idx = Some c \<Longrightarrow> CoAction c = ''check cooling/airflow: sensors; reduce sustained load or improve heat dissipation''"
  "ruleDNSResolverNotConnectivity idx = Some c \<Longrightarrow> CoAction c = ''check the resolver: resolvectl status; cat /etc/resolv.conf; dig @1.1.1.1 example.com vs dig example.com''"
  by (auto simp: rule_defs split: if_splits)

lemma Correlate_command: "c \<in> set (Correlate goos init is) \<Longrightarrow> CoAction c \<in> set (rule_commands goos init)"
  unfolding Correlate_iff correlate_rules_def rule_commands_def list.set
  by (elim conjE bexE insertE emptyE) (simp_all only: rule_command insert_iff simp_thms)

lemma unsafe_bytes_itoa: "unsafe_bytes (itoa n) = []"
  using itoa_chars by (fastforce simp: unsafe_bytes_def safe_char_def filter_empty_conv)

lemma unsafe_bytes_x: "unsafe_bytes ''x'' = []" "unsafe_bytes ''1'' = []"
  by code_simp+

lemma unsafe_command:
  "unsafe_bytes (leak_action p) =
     unsafe_bytes (if looksLikeSafeToken p then
         ''check '' @ ''x'' @ '' memory growth: ps aux | grep '' @ ''x'' @ '' && journalctl -u '' @ ''x'' @
        '' --since '24h ago' | grep -i 'memory'' @
         [CHR 0x5C] @ ''|oom'' @ [CHR 0x27]
       else ''check the repeatedly OOM-killed process manually (ps aux / journalctl) '' @ em_dash @
         '' its name contains unexpected characters and is withheld from this command suggestion'')"
  "unsafe_bytes (docker_oom_action p) =
     unsafe_bytes (if p \<noteq> [] \<and> looksLikeSafeToken p then ''docker inspect '' @ ''x'' @ '' && docker logs --tail=50 '' @ ''x''
       else if p \<noteq> [] then
         ''docker inspect <container> && docker logs --tail=50 <container> '' @ em_dash @
         '' actor name contains unexpected characters; run `docker ps -a` to find the container''
       else ''docker stats --no-stream'')"
  by (simp_all add: leak_action_def docker_oom_action_def unsafe_bytes_append unsafe_bytes_token unsafe_bytes_x
      del: append.simps)

lemma leak_command:
  assumes "ruleServiceMemoryLeak iter oom = Some c"
  shows "unsafe_bytes (CoAction c) \<in> unsafe_bytes ` set (suggested_commands goos init)"
proof -
  obtain p where "CoAction c = leak_action p"
    using assms by (auto simp: ruleServiceMemoryLeak_def mk_corr_def Let_def split: option.splits if_splits prod.splits)
  then show ?thesis
    unfolding suggested_commands_def by (simp add: unsafe_command(1) del: append.simps)
qed

lemma docker_command:
  assumes "ruleDockerOOMCascade oom docker = Some c"
  shows "unsafe_bytes (CoAction c) \<in> unsafe_bytes ` set (suggested_commands goos init)"
proof -
  have "(\<exists>p. CoAction c = docker_oom_action p) \<or>
      CoAction c = ''docker stats --no-stream && docker events --filter type=container --filter event=oom''"
    using assms by (auto simp: ruleDockerOOMCascade_def mk_corr_def Let_def split: option.splits if_splits)
  then show ?thesis
    unfolding suggested_commands_def by (elim disjE exE) (simp_all add: unsafe_command(2) del: append.simps)
qed

lemma slowest_mem: "slowest d ds \<in> insert d (set ds)"
  by (induction d ds rule: slowest.induct) (simp_all, metis)

lemma culprit_command:
  assumes "\<And>ds d. io = Some ds \<Longrightarrow> d \<in> set ds \<Longrightarrow> looksLikeSafeToken (DevName d)"
    and "ruleIOWaitCulprit cpu io deep = Some c"
  shows "unsafe_bytes (CoAction c) \<in> unsafe_bytes ` set (suggested_commands goos init)"
proof -
  obtain ds n where ds: "io = Some ds" "ds \<noteq> []"
    and act: "CoAction c = ''iotop -ao -p '' @ itoa n @ '' && iostat -x 1 5 '' @ DevName (slowest (hd ds) (tl ds))"
    using assms(2) by (auto simp: ruleIOWaitCulprit_def mk_corr_def Let_def split: option.splits if_splits)
  have "slowest (hd ds) (tl ds) \<in> set ds"
    using slowest_mem [of "hd ds" "tl ds"] ds(2) by (cases ds) auto
  then have "unsafe_bytes (DevName (slowest (hd ds) (tl ds))) = []"
    using assms(1) [OF ds(1)] unsafe_bytes_token by blast
  then show ?thesis
    unfolding suggested_commands_def act
    by (simp add: unsafe_bytes_append unsafe_bytes_itoa unsafe_bytes_x del: append.simps)
qed

lemma single_device_command:
  assumes "\<And>ds d. io = Some ds \<Longrightarrow> d \<in> set ds \<Longrightarrow> looksLikeSafeToken (DevName d)"
    and "ruleIOSingleDeviceDegradation io = Some c"
  shows "unsafe_bytes (CoAction c) \<in> unsafe_bytes ` set (suggested_commands goos init)"
proof -
  obtain ds where ds: "io = Some ds" "length (filter device_degraded ds) = 1"
    and act: "CoAction c = ''smartctl -a /dev/'' @ DevName (hd (filter device_degraded ds)) @ '' && iostat -x 1 5''"
    using assms(2) by (auto simp: ruleIOSingleDeviceDegradation_def mk_corr_def Let_def split: option.splits if_splits)
  have "hd (filter device_degraded ds) \<in> set (filter device_degraded ds)"
    using ds(2) by (intro hd_in_set) auto
  then have "unsafe_bytes (DevName (hd (filter device_degraded ds))) = []"
    using assms(1) [OF ds(1)] unsafe_bytes_token by auto
  then show ?thesis
    unfolding suggested_commands_def act by (simp add: unsafe_bytes_append unsafe_bytes_x del: append.simps)
qed

lemma sysctl_command:
  assumes "ruleSysctlNotPersisted sysctl idx = Some c"
  shows "CoAction c \<in> set (suggested_commands goos init)"
  using assms
  by (auto simp: ruleSysctlNotPersisted_def suggested_commands_def mk_corr_def Let_def split: option.splits if_splits)

section \<open>Properties\<close>

text \<open>C16: The diagnoses depend only on which insights were reported: not on their order, not on
  duplicates and not on which of several insights of a check the index kept.\<close>

theorem Correlate_order_independent:
  assumes "set a = set b"
  shows "Correlate goos init a = Correlate goos init b"
  using assms by (rule Correlate_cong)

theorem Correlate_order_independent_witness:
  "Correlate ''linux'' ''systemd'' [mk_insight CRIT ''DBus'' ''m'', mk_insight CRIT ''Systemd'' ''n''] =
   Correlate ''linux'' ''systemd''
     [mk_insight CRIT ''Systemd'' ''n'', mk_insight CRIT ''DBus'' ''m'', mk_insight CRIT ''Systemd'' ''n'']"
  by (rule Correlate_order_independent) auto

text \<open>C29: A diagnosis rests on evidence: every check it lists as contributing has a WARN or CRIT insight
  in the snapshot (\<open>CPU\<close> stands for the CPU Load checks and \<open>Thermal\<close> for CPU Thermal); only the GPU
  check may contribute with an INFO insight.\<close>

theorem Correlate_evidence:
  assumes "c \<in> set (Correlate goos init is)" and "ch \<in> set (CoChecks c)"
  shows "reported is (evidence_key ch) WARN \<or> reported is (evidence_key ch) CRIT \<or>
     (ch = ''GPU'' \<and> reported is ''GPU'' INFO)"
proof -
  from assms(1) obtain r where "r \<in> set (correlate_rules goos init)" "r (buildIndex is) = Some c"
    by (auto simp: Correlate_iff)
  with assms(2) have "supported (buildIndex is) ch"
    using rules_supported by (auto simp: list_all_iff)
  moreover have "atLeast (buildIndex is) ''GPU'' INFO \<longleftrightarrow>
      reported is ''GPU'' INFO \<or> reported is ''GPU'' WARN \<or> reported is ''GPU'' CRIT"
    by (auto simp: atLeast_reported reported_def level_order_INFO)
  ultimately show ?thesis by (auto simp: supported_def atLeast_WARN evidence_key_def)
qed

theorem Correlate_evidence_witness:
  "reported [mk_insight CRIT ''DBus'' ''m'', mk_insight CRIT ''Systemd'' ''n''] ''DBus'' CRIT"
proof -
  let ?is = "[mk_insight CRIT ''DBus'' ''m'', mk_insight CRIT ''Systemd'' ''n'']"
  have "ruleDBusCascade (buildIndex ?is) \<noteq> None" by code_simp
  then obtain c where c: "ruleDBusCascade (buildIndex ?is) = Some c" by auto
  then have "CoChecks c = [''DBus'', ''Systemd'']" by (auto simp: ruleDBusCascade_def mk_corr_def split: if_splits)
  moreover have "c \<in> set (Correlate ''linux'' ''systemd'' ?is)"
    using c by (auto simp: Correlate_iff correlate_rules_def)
  ultimately have "reported ?is (evidence_key ''DBus'') WARN \<or> reported ?is (evidence_key ''DBus'') CRIT \<or>
     (''DBus'' = ''GPU'' \<and> reported ?is ''GPU'' INFO)"
    by (intro Correlate_evidence) auto
  moreover have "\<not> reported ?is (evidence_key ''DBus'') WARN" by (simp add: reported_def)
  ultimately show ?thesis by (simp add: evidence_key_def)
qed

text \<open>The rules whose comment requires a signal to be confirmed clear treat an unmeasured check as
  unknown: each of the four diagnoses is made exactly when the required signals were reported and
  the excluded check was measured without the excluded severity.\<close>

theorem Correlate_confirmed_signals:
  "(diagnosed ''Hard OOM Event'' (Correlate goos init is) \<longleftrightarrow>
      reported is ''Memory'' CRIT \<and> reported is ''Logs'' CRIT \<and> measured is ''Swap'' \<and> \<not> reported is ''Swap'' CRIT)
   \<and> (diagnosed ''CPU-Bound Run Queue Saturation'' (Correlate goos init is) \<longleftrightarrow>
      (reported is ''CPU Load/RunQueue'' WARN \<or> reported is ''CPU Load/RunQueue'' CRIT) \<and>
      (measured is ''CPU Load/IOWait'' \<and> \<not> reported is ''CPU Load/IOWait'' WARN \<and> \<not> reported is ''CPU Load/IOWait'' CRIT) \<and>
      (measured is ''CPU Load/Steal'' \<and> \<not> reported is ''CPU Load/Steal'' WARN \<and> \<not> reported is ''CPU Load/Steal'' CRIT))
   \<and> (diagnosed ''Container Memory-Limit OOM'' (Correlate goos init is) \<longleftrightarrow>
      reported is ''Docker'' CRIT \<and> reported is ''Cgroup'' CRIT \<and> measured is ''Memory'' \<and> \<not> reported is ''Memory'' CRIT)
   \<and> (diagnosed ''DNS Resolver Failure (network is up)'' (Correlate goos init is) \<longleftrightarrow>
      reported is ''DNS'' CRIT \<and> measured is ''Network'' \<and> \<not> reported is ''Network'' CRIT)"
proof (intro conjI)
  show "diagnosed ''CPU-Bound Run Queue Saturation'' (Correlate goos init is) \<longleftrightarrow>
      (reported is ''CPU Load/RunQueue'' WARN \<or> reported is ''CPU Load/RunQueue'' CRIT) \<and>
      (measured is ''CPU Load/IOWait'' \<and> \<not> reported is ''CPU Load/IOWait'' WARN \<and> \<not> reported is ''CPU Load/IOWait'' CRIT) \<and>
      (measured is ''CPU Load/Steal'' \<and> \<not> reported is ''CPU Load/Steal'' WARN \<and> \<not> reported is ''CPU Load/Steal'' CRIT)"
    by (simp only: diagnosed_confirmed_rules ruleRunQueueSaturation_def Let_def mk_corr_def
        confirmedNot_low atLeast_WARN) auto
qed (simp_all add: diagnosed_confirmed_rules ruleHardOOM_def ruleContainerCgroupOOM_def
      ruleDNSResolverNotConnectivity_def mk_corr_def Let_def exact_CRIT confirmedNot_CRIT)

text \<open>The GPU diagnosis needs no compute load. Any INFO insight of the GPU check, such as the notice
  that no NVIDIA driver is installed or that the check could not run, together with a memory warning
  yields \<open>GPU Sustained Compute Load\<close>.\<close>

theorem GPU_load_without_load:
  assumes "i \<in> set is" and "Check i = ''GPU''" and "Level i = INFO"
    and "j \<in> set is" and "Check j = ''Memory''" and "Level j = WARN"
  shows "diagnosed ''GPU Sustained Compute Load'' (Correlate goos init is)"
proof -
  have keys: "about ''GPU'' i" "about ''Memory'' j"
    unfolding about_def assms(2) assms(5) by code_simp+
  have "atLeast (buildIndex is) ''GPU'' INFO"
    unfolding atLeast_reported using assms(1,3) keys(1) by (intro bexI [of _ i]) simp_all
  moreover have "atLeast (buildIndex is) ''Memory'' WARN"
    unfolding atLeast_reported using assms(4,6) keys(2) by (intro bexI [of _ j]) simp_all
  ultimately show ?thesis
    by (simp add: diagnosed_confirmed_rules ruleGPUSustainedLoad_def Let_def mk_corr_def)
qed

theorem GPU_load_without_load_witness:
  "diagnosed ''GPU Sustained Compute Load'' (Correlate ''linux'' ''systemd''
     [mk_insight INFO ''GPU'' (''NVIDIA GPU detected '' @ em_dash @ '' install driver for GPU health monitoring''),
      mk_insight WARN ''Memory'' ''RAM at 85%''])"
  by (rule GPU_load_without_load
        [of "mk_insight INFO ''GPU'' (''NVIDIA GPU detected '' @ em_dash @ '' install driver for GPU health monitoring'')"
            _ "mk_insight WARN ''Memory'' ''RAM at 85%''"]) simp_all

text \<open>The repeated-OOM rule names the process killed most often, the first by name among equals,
  whatever order the runtime iterates over the map of counts in.\<close>

theorem memory_leak_names_worst:
  assumes "\<And>m. mset (iter m) = mset m" and "2 \<le> EventsLast24h oi"
    and "p \<noteq> []" and "2 \<le> kills (OomRecentEvents oi) p"
    and "\<And>q. q \<noteq> [] \<Longrightarrow> kills (OomRecentEvents oi) q < kills (OomRecentEvents oi) p \<or>
           (kills (OomRecentEvents oi) q = kills (OomRecentEvents oi) p \<and> p \<le> q)"
  shows "\<exists>c. ruleServiceMemoryLeak iter (Some oi) = Some c \<and> CoAction c = leak_action p
     \<and> has_prefix (CoSummary c) (p @ '' was OOM-killed '' @ itoa (kills (OomRecentEvents oi) p))"
proof -
  have "kills (OomRecentEvents oi) p \<le> int (length (OomRecentEvents oi))"
    by (simp add: kills_def count_by_def)
  moreover have "foldl leaker_step ([], 0) (iter (count_kills (OomRecentEvents oi))) =
      (p, kills (OomRecentEvents oi) p)"
    using assms by (intro leaker_unique) auto
  ultimately show ?thesis
    using assms(2-4) by (auto simp: ruleServiceMemoryLeak_def mk_corr_def has_prefix_append)
qed

theorem memory_leak_names_worst_witness:
  "\<exists>c. ruleServiceMemoryLeak rev (Some \<lparr>OomAvailable = True, EventsLast24h = 3, OomRecentEvents =
       [\<lparr>OomProcess = ''java'', OomTimestamp = 0\<rparr>, \<lparr>OomProcess = ''cc'', OomTimestamp = 0\<rparr>,
        \<lparr>OomProcess = ''java'', OomTimestamp = 0\<rparr>]\<rparr>) = Some c \<and> CoAction c = leak_action ''java''"
proof -
  let ?o = "\<lparr>OomAvailable = True, EventsLast24h = 3, OomRecentEvents =
       [\<lparr>OomProcess = ''java'', OomTimestamp = 0\<rparr>, \<lparr>OomProcess = ''cc'', OomTimestamp = 0\<rparr>,
        \<lparr>OomProcess = ''java'', OomTimestamp = 0\<rparr>]\<rparr>"
  have "\<exists>c. ruleServiceMemoryLeak rev (Some ?o) = Some c \<and> CoAction c = leak_action ''java''
     \<and> has_prefix (CoSummary c) (''java'' @ '' was OOM-killed '' @ itoa (kills (OomRecentEvents ?o) ''java''))"
    by (rule memory_leak_names_worst) (auto simp: kills_def)
  then show ?thesis by blast
qed

text \<open>C30: Whatever the processes, containers and insights of a run are called and say, the bytes outside
  the allowlist in the command of a diagnosis are those of one of the \<open>suggested_commands\<close>: a fixed text
  for the rules on insights, and for the deep rules the text with a harmless name in it or the one that
  withholds the name. Device names, which come from the kernel, are spliced in as they are and are
  assumed to be tokens of the allowlist.\<close>

theorem suggested_commands_injection_free:
  assumes "\<And>ds d. io = Some ds \<Longrightarrow> d \<in> set ds \<Longrightarrow> looksLikeSafeToken (DevName d)"
    and "c \<in> set (CorrelateDeep iter goos init is oom docker io sysctl cpu deep)"
  shows "unsafe_bytes (CoAction c) \<in> unsafe_bytes ` set (suggested_commands goos init)"
proof -
  from assms(2) consider (rule) "c \<in> set (Correlate goos init is)"
    | (docker) "ruleDockerOOMCascade oom docker = Some c" | (single) "ruleIOSingleDeviceDegradation io = Some c"
    | (leak) "ruleServiceMemoryLeak iter oom = Some c" | (culprit) "ruleIOWaitCulprit cpu io deep = Some c"
    | (sysctl) "ruleSysctlNotPersisted sysctl (buildIndex is) = Some c"
    unfolding CorrelateDeep_def by (auto simp: List.map_filter_def split: if_splits)
  then show ?thesis
  proof cases
    case rule
    then show ?thesis using Correlate_command unfolding suggested_commands_def set_append image_Un by blast
  next
    case docker
    then show ?thesis by (rule docker_command)
  next
    case single
    then show ?thesis by (rule single_device_command [rotated]) (rule assms(1))
  next
    case leak
    then show ?thesis by (rule leak_command)
  next
    case culprit
    then show ?thesis by (rule culprit_command [rotated]) (rule assms(1))
  next
    case sysctl
    then show ?thesis using sysctl_command by blast
  qed
qed

definition hostile_oom :: deep_oom_info where
  "hostile_oom =
     \<lparr>OomAvailable = True, EventsLast24h = 2, OomRecentEvents =
       [\<lparr>OomProcess = ''x; reboot'', OomTimestamp = 0\<rparr>, \<lparr>OomProcess = ''x; reboot'', OomTimestamp = 0\<rparr>]\<rparr>"

theorem suggested_commands_injection_free_witness:
  "\<exists>c \<in> set (CorrelateDeep (\<lambda>m. m) ''linux'' ''systemd'' [] (Some hostile_oom) None None None None None).
     CoAction c = leak_action ''x; reboot'' \<and>
     unsafe_bytes (CoAction c) \<in> unsafe_bytes ` set (suggested_commands ''linux'' ''systemd'')"
proof -
  let ?cs = "CorrelateDeep (\<lambda>m. m) ''linux'' ''systemd'' [] (Some hostile_oom) None None None None None"
  have "map CoAction ?cs = [leak_action ''x; reboot'']" by code_simp
  then obtain c where c: "c \<in> set ?cs" "CoAction c = leak_action ''x; reboot''"
    by (cases ?cs) auto
  from suggested_commands_injection_free [OF _ c(1)] c show ?thesis by blast
qed

end
