(* ===== verification/Runner.thy ===== *)
theory Runner
  imports Run_Model "HOL-Library.Multiset"
begin

text \<open>
  \<open>internal/runner/runner.go\<close>: \<open>runOne\<close> as a step relation between the states of one collector and
  \<open>RunAll\<close> as the interleaving of these with the sends, the receives and the close of the result
  channel. What a collector does is a parameter, the set of outcomes it may have before and after its
  context is done; a collector with no outcome is stuck forever. Logging is not modelled.
\<close>

section \<open>One collector\<close>

record collector =
  ColName :: gostring
  ColTimeout :: gostring

text \<open>What \<open>Collect\<close> does: it returns, or it panics with a value that prints as the given text.\<close>

datatype outcome = Returns data "go_error option" | Panics gostring

type_synonym behaviour = "collector \<Rightarrow> bool \<Rightarrow> outcome set"

text \<open>The inner goroutine works, has put its result into the buffered channel, or was received.\<close>

datatype inner = Working | Buffered result | Received

text \<open>The outer one is in the first select, in the second, holds its result, or has sent it.\<close>

datatype outer = Waiting | InGrace | Holding result | Sent

record task =
  Inner :: inner
  Outer :: outer

definition initial_task :: task where
  "initial_task = \<lparr>Inner = Working, Outer = Waiting\<rparr>"

definition outcome_result :: "collector \<Rightarrow> outcome \<Rightarrow> result" where
  "outcome_result c oc =
     (case oc of
        Returns d e \<Rightarrow> mk_result (ColName c) d e
      | Panics m \<Rightarrow>
          mk_result (ColName c) NilData
            (Some \<lparr>ErrText = ''collector '' @ ColName c @ '' panicked: '' @ m, ErrChain = []\<rparr>))"

definition timeout_result :: "collector \<Rightarrow> result" where
  "timeout_result c =
     mk_result (ColName c) NilData
       (Some \<lparr>ErrText = ''collector '' @ ColName c @ '' timed out after '' @ ColTimeout c @
                '': context deadline exceeded'',
              ErrChain = [DeadlineExceeded]\<rparr>)"

definition context_done :: "task \<Rightarrow> bool" where
  "context_done t \<longleftrightarrow> Outer t \<noteq> Waiting"

text \<open>The duration is whatever the clock says.\<close>

inductive runOne :: "behaviour \<Rightarrow> collector \<Rightarrow> task \<Rightarrow> task \<Rightarrow> bool"
  for beh :: behaviour and c :: collector
where
  Deliver:
    "Inner t = Working \<Longrightarrow> oc \<in> beh c (context_done t) \<Longrightarrow>
     runOne beh c t (t\<lparr>Inner := Buffered (outcome_result c oc)\<rparr>)"
| Own:
    "Inner t = Buffered r \<Longrightarrow> Outer t = Waiting \<Longrightarrow>
     runOne beh c t (t\<lparr>Inner := Received, Outer := Holding (r\<lparr>Duration := d\<rparr>)\<rparr>)"
| Deadline:
    "Outer t = Waiting \<Longrightarrow> runOne beh c t (t\<lparr>Outer := InGrace\<rparr>)"
| Late:
    "Inner t = Buffered r \<Longrightarrow> Outer t = InGrace \<Longrightarrow>
     runOne beh c t (t\<lparr>Inner := Received, Outer := Holding (r\<lparr>Duration := d\<rparr>)\<rparr>)"
| Grace_Over:
    "Outer t = InGrace \<Longrightarrow>
     runOne beh c t (t\<lparr>Outer := Holding ((timeout_result c)\<lparr>Duration := d\<rparr>)\<rparr>)"

section \<open>All collectors\<close>

text \<open>
  The tasks, the contents of the result channel, whether it is closed, and what its consumer has
  received. A send blocks while the buffer, which has room for one result per collector, is full.
\<close>

record run_state =
  Tasks :: "task list"
  Channel :: "result list"
  Closed :: bool
  Consumed :: "result list"

definition initial_run :: "collector list \<Rightarrow> run_state" where
  "initial_run cs =
     \<lparr>Tasks = map (\<lambda>_. initial_task) cs, Channel = [], Closed = False, Consumed = []\<rparr>"

inductive RunAll :: "behaviour \<Rightarrow> collector list \<Rightarrow> run_state \<Rightarrow> run_state \<Rightarrow> bool"
  for beh :: behaviour and cs :: "collector list"
where
  Step:
    "i < length (Tasks s) \<Longrightarrow> runOne beh (cs ! i) (Tasks s ! i) t' \<Longrightarrow>
     RunAll beh cs s (s\<lparr>Tasks := (Tasks s)[i := t']\<rparr>)"
| Send:
    "i < length (Tasks s) \<Longrightarrow> Outer (Tasks s ! i) = Holding r \<Longrightarrow> length (Channel s) < length cs \<Longrightarrow>
     RunAll beh cs s
       (s\<lparr>Tasks := (Tasks s)[i := (Tasks s ! i)\<lparr>Outer := Sent\<rparr>], Channel := Channel s @ [r]\<rparr>)"
| Close:
    "\<not> Closed s \<Longrightarrow> \<forall>t \<in> set (Tasks s). Outer t = Sent \<Longrightarrow> RunAll beh cs s (s\<lparr>Closed := True\<rparr>)"
| Consume:
    "Channel s = r # rs \<Longrightarrow> RunAll beh cs s (s\<lparr>Channel := rs, Consumed := Consumed s @ [r]\<rparr>)"

inductive_cases runOne_cases: "runOne beh c t t'"
inductive_cases RunAll_cases: "RunAll beh cs s s'"

abbreviation reachable :: "behaviour \<Rightarrow> collector list \<Rightarrow> run_state \<Rightarrow> bool" where
  "reachable beh cs s \<equiv> (RunAll beh cs)\<^sup>*\<^sup>* (initial_run cs) s"

section \<open>Replay\<close>

text \<open>
  With \<open>GapCount\<close> set the collectors run one at a time. The counter may grow while a collector runs, by
  its own reads or by those of a collector abandoned before.
\<close>

record serial_state =
  Todo :: "collector list"
  Current :: "(collector \<times> task \<times> nat) option"
  Gaps :: nat
  SChannel :: "result list"
  SClosed :: bool

definition initial_serial :: "collector list \<Rightarrow> nat \<Rightarrow> serial_state" where
  "initial_serial cs g = \<lparr>Todo = cs, Current = None, Gaps = g, SChannel = [], SClosed = False\<rparr>"

inductive RunSerial :: "behaviour \<Rightarrow> serial_state \<Rightarrow> serial_state \<Rightarrow> bool" for beh :: behaviour where
  Begin:
    "Current s = None \<Longrightarrow> Todo s = c # cs \<Longrightarrow>
     RunSerial beh s (s\<lparr>Todo := cs, Current := Some (c, initial_task, Gaps s)\<rparr>)"
| Work:
    "Current s = Some (c, t, before) \<Longrightarrow> runOne beh c t t' \<Longrightarrow>
     RunSerial beh s (s\<lparr>Current := Some (c, t', before), Gaps := Gaps s + k\<rparr>)"
| Record:
    "Current s = Some (c, t, before) \<Longrightarrow> Outer t = Holding r \<Longrightarrow>
     RunSerial beh s
       (s\<lparr>Current := None, SChannel := SChannel s @ [r\<lparr>NotRecorded := before < Gaps s\<rparr>]\<rparr>)"
| Finish:
    "Current s = None \<Longrightarrow> Todo s = [] \<Longrightarrow> \<not> SClosed s \<Longrightarrow> RunSerial beh s (s\<lparr>SClosed := True\<rparr>)"

abbreviation serial_reachable :: "behaviour \<Rightarrow> collector list \<Rightarrow> nat \<Rightarrow> serial_state \<Rightarrow> bool" where
  "serial_reachable beh cs g s \<equiv> (RunSerial beh)\<^sup>*\<^sup>* (initial_serial cs g) s"

section \<open>Where a result comes from\<close>

text \<open>Up to the duration, a result is one the collector delivered or the synthesised timeout.\<close>

definition result_of :: "behaviour \<Rightarrow> collector \<Rightarrow> result \<Rightarrow> bool" where
  "result_of beh c r \<longleftrightarrow>
     (\<exists>d. r = (timeout_result c)\<lparr>Duration := d\<rparr> \<or>
          (\<exists>oc \<in> beh c False \<union> beh c True. r = (outcome_result c oc)\<lparr>Duration := d\<rparr>))"

lemma outcome_result_name [simp]: "Name (outcome_result c oc) = ColName c"
  by (simp add: outcome_result_def split: outcome.split)

lemma timeout_result_name [simp]: "Name (timeout_result c) = ColName c"
  by (simp add: timeout_result_def)

lemma result_of_name: "result_of beh c r \<Longrightarrow> Name r = ColName c"
  by (auto simp: result_of_def)

definition task_ok :: "behaviour \<Rightarrow> collector \<Rightarrow> task \<Rightarrow> bool" where
  "task_ok beh c t \<longleftrightarrow>
     (\<forall>r. Inner t = Buffered r \<longrightarrow> (\<exists>oc \<in> beh c False \<union> beh c True. r = outcome_result c oc)) \<and>
     (\<forall>r. Outer t = Holding r \<longrightarrow> result_of beh c r)"

lemma task_ok_initial: "task_ok beh c initial_task"
  by (simp add: task_ok_def initial_task_def)

lemma task_ok_step: "runOne beh c t t' \<Longrightarrow> task_ok beh c t \<Longrightarrow> task_ok beh c t'"
proof (induction rule: runOne.induct)
  case (Deliver t oc)
  then show ?case by (cases "context_done t") (auto simp: task_ok_def)
qed (auto simp: task_ok_def result_of_def)

lemma runOne_not_Sent: "runOne beh c t t' \<Longrightarrow> Outer t' = Sent \<longleftrightarrow> Outer t = Sent"
  by (induction rule: runOne.induct) auto

section \<open>Every run ends\<close>

fun outer_weight :: "outer \<Rightarrow> nat" where
  "outer_weight Waiting = 4"
| "outer_weight InGrace = 3"
| "outer_weight (Holding _) = 2"
| "outer_weight Sent = 0"

definition task_weight :: "task \<Rightarrow> nat" where
  "task_weight t = (if Inner t = Working then 1 else 0) + outer_weight (Outer t)"

definition run_weight :: "run_state \<Rightarrow> nat" where
  "run_weight s =
     sum_list (map task_weight (Tasks s)) + length (Channel s) + (if Closed s then 0 else 1)"

lemma sum_list_map_update:
  "i < length xs \<Longrightarrow> sum_list (map f (xs[i := y])) + f (xs ! i) = sum_list (map f xs) + (f y :: nat)"
  by (induction xs arbitrary: i) (auto split: nat.split)

lemma runOne_weight: "runOne beh c t t' \<Longrightarrow> task_weight t' < task_weight t"
  by (induction rule: runOne.induct) (auto simp: task_weight_def)

lemma RunAll_weight: "RunAll beh cs s s' \<Longrightarrow> run_weight s' < run_weight s"
proof (induction rule: RunAll.induct)
  case (Step i s t')
  then show ?case
    using sum_list_map_update [of i "Tasks s" task_weight t'] runOne_weight by (fastforce simp: run_weight_def)
next
  case (Send i s r)
  then show ?case
    using sum_list_map_update [of i "Tasks s" task_weight "(Tasks s ! i)\<lparr>Outer := Sent\<rparr>"]
    by (simp add: run_weight_def) (simp add: task_weight_def)
qed (auto simp: run_weight_def)

section \<open>What a run has produced\<close>

definition is_sent :: "run_state \<Rightarrow> nat \<Rightarrow> bool" where
  "is_sent s i \<longleftrightarrow> Outer (Tasks s ! i) = Sent"

definition sent_indices :: "run_state \<Rightarrow> nat list" where
  "sent_indices s = filter (is_sent s) [0..<length (Tasks s)]"

definition accounted :: "behaviour \<Rightarrow> collector list \<Rightarrow> run_state \<Rightarrow> (nat \<Rightarrow> result) \<Rightarrow> bool" where
  "accounted beh cs s res \<longleftrightarrow>
     (\<forall>i \<in> set (sent_indices s). result_of beh (cs ! i) (res i)) \<and>
     mset (Consumed s @ Channel s) = image_mset res (mset (sent_indices s))"

definition run_ok :: "behaviour \<Rightarrow> collector list \<Rightarrow> run_state \<Rightarrow> bool" where
  "run_ok beh cs s \<longleftrightarrow>
     length (Tasks s) = length cs \<and>
     (\<forall>i < length cs. task_ok beh (cs ! i) (Tasks s ! i)) \<and>
     (\<exists>res. accounted beh cs s res) \<and>
     (Closed s \<longrightarrow> (\<forall>t \<in> set (Tasks s). Outer t = Sent))"

lemma sent_indices_same:
  "length ts' = length (Tasks s) \<Longrightarrow> (\<And>i. i < length ts' \<Longrightarrow> Outer (ts' ! i) = Sent \<longleftrightarrow> is_sent s i) \<Longrightarrow>
     sent_indices (s\<lparr>Tasks := ts'\<rparr>) = sent_indices s"
  by (auto simp: sent_indices_def is_sent_def intro!: filter_cong)

lemma mset_filter_insert:
  "i < n \<Longrightarrow> \<not> P i \<Longrightarrow> mset (filter (\<lambda>j. j = i \<or> P j) [0..<n]) = add_mset i (mset (filter P [0..<n]))"
proof (induction n)
  case (Suc n)
  then show ?case
    by (cases "i = n") (auto simp: less_Suc_eq intro!: arg_cong [where f = mset] filter_cong)
qed simp

lemma sent_indices_Send:
  assumes "i < length (Tasks s)" and "\<not> is_sent s i"
  shows "mset (sent_indices (s\<lparr>Tasks := (Tasks s)[i := (Tasks s ! i)\<lparr>Outer := Sent\<rparr>], Channel := ch\<rparr>)) =
    add_mset i (mset (sent_indices s))"
proof -
  have "sent_indices (s\<lparr>Tasks := (Tasks s)[i := (Tasks s ! i)\<lparr>Outer := Sent\<rparr>], Channel := ch\<rparr>) =
      filter (\<lambda>j. j = i \<or> is_sent s j) [0..<length (Tasks s)]"
    using assms(1) by (auto simp: sent_indices_def is_sent_def nth_list_update intro!: filter_cong split: if_splits)
  with mset_filter_insert [where i = i and P = "is_sent s" and n = "length (Tasks s)"] assms show ?thesis by (simp add: sent_indices_def)
qed

lemma initial_not_sent: "sent_indices (initial_run cs) = []"
  by (simp add: sent_indices_def is_sent_def initial_run_def initial_task_def filter_empty_conv)

lemma run_ok_initial: "run_ok beh cs (initial_run cs)"
proof -
  have "accounted beh cs (initial_run cs) res" for res
    by (simp add: accounted_def initial_not_sent) (simp add: initial_run_def)
  then show ?thesis by (auto simp: run_ok_def initial_run_def task_ok_initial)
qed

lemma run_ok_step: "RunAll beh cs s s' \<Longrightarrow> run_ok beh cs s \<Longrightarrow> run_ok beh cs s'"
proof (induction rule: RunAll.induct)
  case (Step i s t')
  let ?s' = "s\<lparr>Tasks := (Tasks s)[i := t']\<rparr>"
  have same: "Outer ((Tasks s)[i := t'] ! j) = Sent \<longleftrightarrow> is_sent s j" if "j < length (Tasks s)" for j
    using that runOne_not_Sent [OF Step(2)] Step(1) by (auto simp: is_sent_def nth_list_update)
  then have "sent_indices ?s' = sent_indices s" by (intro sent_indices_same) simp_all
  moreover have "task_ok beh (cs ! j) ((Tasks s)[i := t'] ! j)" if "j < length cs" for j
    using Step that task_ok_step by (auto simp: run_ok_def nth_list_update)
  moreover have "Closed s \<longrightarrow> (\<forall>t \<in> set ((Tasks s)[i := t']). Outer t = Sent)"
    using same Step by (force simp: run_ok_def is_sent_def in_set_conv_nth)
  ultimately show ?case using Step(3) by (simp add: run_ok_def accounted_def)
next
  case (Send i s r)
  let ?t' = "(Tasks s ! i)\<lparr>Outer := Sent\<rparr>"
  let ?s' = "s\<lparr>Tasks := (Tasks s)[i := ?t'], Channel := Channel s @ [r]\<rparr>"
  have ok: "run_ok beh cs s" using Send by blast
  then obtain res where res: "accounted beh cs s res" by (auto simp: run_ok_def)
  have ns: "\<not> is_sent s i" using Send by (simp add: is_sent_def)
  have r: "result_of beh (cs ! i) r" using Send ok by (auto simp: run_ok_def task_ok_def)
  have ms: "mset (sent_indices ?s') = add_mset i (mset (sent_indices s))"
    using sent_indices_Send [OF Send(1) ns] .
  have notin: "i \<notin> set (sent_indices s)" using ns by (simp add: sent_indices_def)
  have "set (sent_indices ?s') = insert i (set (sent_indices s))"
    using ms by (metis set_mset_add_mset_insert set_mset_mset)
  moreover have "image_mset (res(i := r)) (mset (sent_indices s)) = image_mset res (mset (sent_indices s))"
    using notin by (intro image_mset_cong) auto
  ultimately have "accounted beh cs ?s' (res(i := r))"
    using res r ms notin by (auto simp: accounted_def)
  moreover have "task_ok beh (cs ! j) ((Tasks s)[i := ?t'] ! j)" if "j < length cs" for j
  proof -
    have "task_ok beh (cs ! j) (Tasks s ! j)" using ok that by (simp add: run_ok_def)
    then show ?thesis by (cases "j = i") (use Send(1) in \<open>simp_all add: task_ok_def\<close>)
  qed
  moreover have "Closed s \<longrightarrow> False" using ok Send by (auto simp: run_ok_def)
  ultimately show ?case using ok by (auto simp: run_ok_def)
next
  case (Close s)
  have "accounted beh cs (s\<lparr>Closed := True\<rparr>) = accounted beh cs s"
    by (simp add: accounted_def sent_indices_def is_sent_def fun_eq_iff)
  with Close show ?case by (simp add: run_ok_def)
next
  case (Consume s r rs)
  then have "accounted beh cs (s\<lparr>Channel := rs, Consumed := Consumed s @ [r]\<rparr>) = accounted beh cs s"
    by (simp add: accounted_def sent_indices_def is_sent_def fun_eq_iff)
  with Consume show ?case by (simp add: run_ok_def)
qed

lemma reachable_ok: "reachable beh cs s \<Longrightarrow> run_ok beh cs s"
  by (induction rule: rtranclp_induct) (auto simp: run_ok_initial run_ok_step)

lemma channel_room: "run_ok beh cs s \<Longrightarrow> length (Channel s) \<le> length (sent_indices s)"
proof -
  assume "run_ok beh cs s"
  then obtain res where "mset (Consumed s @ Channel s) = image_mset res (mset (sent_indices s))"
    by (auto simp: run_ok_def accounted_def)
  then have "length (Consumed s @ Channel s) = length (sent_indices s)"
    by (metis size_image_mset size_mset)
  then show ?thesis by simp
qed

lemma task_can_step:
  "Outer t = Waiting \<or> Outer t = InGrace \<Longrightarrow> \<exists>t'. runOne beh c t t'"
  by (auto intro: runOne.Deadline runOne.Grace_Over)

text \<open>No collector can block a run: whatever its tasks do, an open run has a next step.\<close>

lemma progress:
  assumes ok: "run_ok beh cs s" and stuck: "\<And>s'. \<not> RunAll beh cs s s'"
  shows "Closed s \<and> Channel s = [] \<and> (\<forall>t \<in> set (Tasks s). Outer t = Sent)"
proof -
  have len: "length (Tasks s) = length cs" using ok by (simp add: run_ok_def)
  have sent: "Outer (Tasks s ! i) = Sent" if i: "i < length (Tasks s)" for i
  proof (cases "Outer (Tasks s ! i)")
    case (Holding r)
    have "sent_indices s = filter (is_sent s) [0..<length (Tasks s)]" by (simp add: sent_indices_def)
    moreover have "\<not> is_sent s i" using Holding by (simp add: is_sent_def)
    ultimately have "length (sent_indices s) < length [0..<length (Tasks s)]"
      using i length_filter_less [of i "[0..<length (Tasks s)]" "is_sent s"] by simp
    with channel_room [OF ok] len have "length (Channel s) < length cs" by simp
    with RunAll.Send [OF i Holding] stuck show ?thesis by blast
  qed (use RunAll.Step [OF i] task_can_step stuck in \<open>blast+\<close>)
  then have all: "\<forall>t \<in> set (Tasks s). Outer t = Sent" by (auto simp: in_set_conv_nth)
  moreover from all have "Closed s" using stuck RunAll.Close by blast
  moreover have "Channel s = []" using stuck RunAll.Consume by (cases "Channel s") blast+
  ultimately show ?thesis by blast
qed

lemma accounted_complete:
  assumes ok: "run_ok beh cs s" and all: "\<forall>t \<in> set (Tasks s). Outer t = Sent" and "Channel s = []"
  shows "\<exists>rs. list_all2 (result_of beh) cs rs \<and> mset (Consumed s) = mset rs"
proof -
  obtain res where res: "accounted beh cs s res" and len: "length (Tasks s) = length cs"
    using ok by (auto simp: run_ok_def)
  have "sent_indices s = [0..<length cs]"
    using all len by (auto simp: sent_indices_def is_sent_def filter_id_conv)
  with res assms(3) have "list_all2 (result_of beh) cs (map res [0..<length cs])"
      "mset (Consumed s) = mset (map res [0..<length cs])"
    by (auto simp: accounted_def list_all2_conv_all_nth)
  then show ?thesis by blast
qed

section \<open>Replayed runs\<close>

text \<open>Up to the gap mark, a recorded result is one of its collector.\<close>

definition replay_result_of :: "behaviour \<Rightarrow> collector \<Rightarrow> result \<Rightarrow> bool" where
  "replay_result_of beh c r \<longleftrightarrow> result_of beh c (r\<lparr>NotRecorded := False\<rparr>)"

definition serial_ok :: "behaviour \<Rightarrow> collector list \<Rightarrow> nat \<Rightarrow> serial_state \<Rightarrow> bool" where
  "serial_ok beh cs g s \<longleftrightarrow>
     (\<exists>past. cs = past @ (case Current s of None \<Rightarrow> [] | Some (c, _) \<Rightarrow> [c]) @ Todo s \<and>
        list_all2 (replay_result_of beh) past (SChannel s)) \<and>
     (\<forall>c t b. Current s = Some (c, t, b) \<longrightarrow> task_ok beh c t \<and> g \<le> b \<and> b \<le> Gaps s) \<and>
     g \<le> Gaps s \<and> (Gaps s = g \<longrightarrow> (\<forall>r \<in> set (SChannel s). \<not> NotRecorded r)) \<and>
     (SClosed s \<longrightarrow> Current s = None \<and> Todo s = [])"

lemma result_of_recorded: "result_of beh c r \<Longrightarrow> \<not> NotRecorded r"
proof -
  have "\<not> NotRecorded (outcome_result c oc)" "\<not> NotRecorded (timeout_result c)" for oc
    by (cases oc; simp add: outcome_result_def) (simp add: timeout_result_def)
  then show "result_of beh c r \<Longrightarrow> \<not> NotRecorded r" by (auto simp: result_of_def)
qed

lemma result_of_replay: "result_of beh c r \<Longrightarrow> replay_result_of beh c (r\<lparr>NotRecorded := b\<rparr>)"
  using result_of_recorded [of beh c r] by (cases r) (simp add: replay_result_of_def)

lemma serial_ok_step: "RunSerial beh s s' \<Longrightarrow> serial_ok beh cs g s \<Longrightarrow> serial_ok beh cs g s'"
proof (induction rule: RunSerial.induct)
  case (Begin s c cs')
  then show ?case by (auto simp: serial_ok_def task_ok_initial)
next
  case (Work s c t before t' k)
  then show ?case using task_ok_step by (fastforce simp: serial_ok_def)
next
  case (Record s c t before r)
  then have r: "result_of beh c r" by (auto simp: serial_ok_def task_ok_def)
  obtain past where "cs = past @ [c] @ Todo s" "list_all2 (replay_result_of beh) past (SChannel s)"
    using Record by (auto simp: serial_ok_def)
  then have "cs = (past @ [c]) @ Todo s"
    "list_all2 (replay_result_of beh) (past @ [c]) (SChannel s @ [r\<lparr>NotRecorded := before < Gaps s\<rparr>])"
    using result_of_replay [OF r] by (auto intro: list_all2_appendI)
  with Record show ?case by (auto simp: serial_ok_def simp del: append_assoc)
next
  case (Finish s)
  then show ?case by (auto simp: serial_ok_def)
qed

lemma serial_reachable_ok: "serial_reachable beh cs g s \<Longrightarrow> serial_ok beh cs g s"
proof (induction rule: rtranclp_induct)
  case base
  show ?case by (simp add: serial_ok_def initial_serial_def)
qed (rule serial_ok_step)

text \<open>A run of one collector that never returns.\<close>

definition stuck_collector :: collector where
  "stuck_collector = \<lparr>ColName = ''Disk'', ColTimeout = ''5s''\<rparr>"

definition stuck_end :: run_state where
  "stuck_end =
     \<lparr>Tasks = [\<lparr>Inner = Working, Outer = Sent\<rparr>], Channel = [], Closed = True,
      Consumed = [(timeout_result stuck_collector)\<lparr>Duration := 7\<rparr>]\<rparr>"

lemma five_steps: "r a b \<Longrightarrow> r b c \<Longrightarrow> r c d \<Longrightarrow> r d e \<Longrightarrow> r e f \<Longrightarrow> r\<^sup>*\<^sup>* a f"
  by (rule converse_rtranclp_into_rtranclp, assumption)+ (rule rtranclp.rtrancl_refl)

lemma stuck_run: "reachable (\<lambda>_ _. {}) [stuck_collector] stuck_end"
proof -
  let ?b = "\<lambda>_ _. {}" and ?c = stuck_collector
  let ?r = "(timeout_result ?c)\<lparr>Duration := 7\<rparr>"
  let ?st = "\<lambda>ou ch cl co. \<lparr>Tasks = [\<lparr>Inner = Working, Outer = ou\<rparr>], Channel = ch, Closed = cl, Consumed = co\<rparr>"
  have s1: "RunAll ?b [?c] (?st Waiting [] False []) (?st InGrace [] False [])"
    using RunAll.Step [of 0 "?st Waiting [] False []" ?b "[?c]"] runOne.Deadline [of "\<lparr>Inner = Working, Outer = Waiting\<rparr>"]
    by fastforce
  have s2: "RunAll ?b [?c] (?st InGrace [] False []) (?st (Holding ?r) [] False [])"
    using RunAll.Step [of 0 "?st InGrace [] False []" ?b "[?c]" "\<lparr>Inner = Working, Outer = Holding ?r\<rparr>"]
      runOne.Grace_Over [of "\<lparr>Inner = Working, Outer = InGrace\<rparr>" ?b ?c 7] by simp
  have s3: "RunAll ?b [?c] (?st (Holding ?r) [] False []) (?st Sent [?r] False [])"
    using RunAll.Send [of 0 "?st (Holding ?r) [] False []" ?r "[?c]" ?b] by simp
  have s4: "RunAll ?b [?c] (?st Sent [?r] False []) (?st Sent [] False [?r])"
    using RunAll.Consume [of "?st Sent [?r] False []" ?r "[]" ?b "[?c]"] by simp
  have s5: "RunAll ?b [?c] (?st Sent [] False [?r]) (?st Sent [] True [?r])"
    using RunAll.Close [of "?st Sent [] False [?r]" ?b "[?c]"] by simp
  have init: "initial_run [?c] = ?st Waiting [] False []" by (simp add: initial_run_def initial_task_def)
  show ?thesis unfolding stuck_end_def init by (rule five_steps [where r = "RunAll ?b [?c]", OF s1 s2 s3 s4 s5])
qed

text \<open>A replay of the same collector, with one input refused while it waits.\<close>

definition serial_end :: serial_state where
  "serial_end =
     \<lparr>Todo = [], Current = None, Gaps = 1,
      SChannel = [(timeout_result stuck_collector)\<lparr>Duration := 7, NotRecorded := True\<rparr>], SClosed = True\<rparr>"

lemma serial_run: "serial_reachable (\<lambda>_ _. {}) [stuck_collector] 0 serial_end"
proof -
  let ?b = "\<lambda>_ _. {}" and ?c = stuck_collector
  let ?r = "(timeout_result ?c)\<lparr>Duration := 7\<rparr>"
  let ?st = "\<lambda>cu g ch cl. \<lparr>Todo = [], Current = cu, Gaps = g, SChannel = ch, SClosed = cl\<rparr>"
  let ?at = "\<lambda>ou. Some (?c, \<lparr>Inner = Working, Outer = ou\<rparr>, 0)"
  let ?fin = "[?r\<lparr>NotRecorded := True\<rparr>]"
  have s1: "RunSerial ?b (initial_serial [?c] 0) (?st (?at Waiting) 0 [] False)"
    using RunSerial.Begin [of "initial_serial [?c] 0" ?c "[]" ?b]
    by (simp add: initial_serial_def initial_task_def)
  have s2: "RunSerial ?b (?st (?at Waiting) 0 [] False) (?st (?at InGrace) 1 [] False)"
    using RunSerial.Work [of "?st (?at Waiting) 0 [] False" ?c _ 0 ?b _ 1]
      runOne.Deadline [of "\<lparr>Inner = Working, Outer = Waiting\<rparr>" ?b ?c] by fastforce
  have s3: "RunSerial ?b (?st (?at InGrace) 1 [] False) (?st (?at (Holding ?r)) 1 [] False)"
    using RunSerial.Work [of "?st (?at InGrace) 1 [] False" ?c _ 0 ?b _ 0]
      runOne.Grace_Over [of "\<lparr>Inner = Working, Outer = InGrace\<rparr>" ?b ?c 7] by fastforce
  have s4: "RunSerial ?b (?st (?at (Holding ?r)) 1 [] False) (?st None 1 ?fin False)"
    using RunSerial.Record [of "?st (?at (Holding ?r)) 1 [] False" ?c _ 0 ?r ?b] by simp
  have s5: "RunSerial ?b (?st None 1 ?fin False) (?st None 1 ?fin True)"
    using RunSerial.Finish [of "?st None 1 ?fin False" ?b] by simp
  show ?thesis unfolding serial_end_def by (rule five_steps [where r = "RunSerial ?b", OF s1 s2 s3 s4 s5])
qed

section \<open>Properties\<close>

text \<open>C11: Every run of the collectors ends: no interleaving goes on forever, whatever the collectors do,
  and a run can only stop when the result channel is closed and drained, even if every collector is
  stuck in a call that never returns.\<close>

theorem RunAll_terminates:
  "wfp (\<lambda>s' s. RunAll beh cs s s') \<and>
   (\<forall>s. reachable beh cs s \<longrightarrow> (\<exists>s'. RunAll beh cs s s') \<or> (Closed s \<and> Channel s = []))"
proof
  have "wfp (\<lambda>s' s. run_weight s' < run_weight s)"
    by (rule wfp_if_convertible_to_nat [where f = run_weight]) simp
  then show "wfp (\<lambda>s' s. RunAll beh cs s s')"
    by (rule wfp_subset) (auto dest: RunAll_weight)
  show "\<forall>s. reachable beh cs s \<longrightarrow> (\<exists>s'. RunAll beh cs s s') \<or> (Closed s \<and> Channel s = [])"
    using progress [OF reachable_ok] by blast
qed

theorem RunAll_terminates_witness:
  "\<exists>s'. RunAll (\<lambda>_ _. {}) [stuck_collector] (initial_run [stuck_collector]) s'"
proof -
  have "reachable (\<lambda>_ _. {}) [stuck_collector] (initial_run [stuck_collector])" by simp
  moreover have "\<not> Closed (initial_run [stuck_collector])" by (simp add: initial_run_def)
  ultimately show ?thesis using RunAll_terminates [of "\<lambda>_ _. {}" "[stuck_collector]"] by blast
qed

text \<open>C10: A finished run has delivered exactly one result for every collector, each the outcome of that
  collector or the synthesised timeout under its name, and the results channel is never sent to after
  it was closed.\<close>

theorem RunAll_complete:
  assumes "reachable beh cs s"
  shows "(Closed s \<longrightarrow> (\<forall>t \<in> set (Tasks s). Outer t = Sent)) \<and>
    (Closed s \<and> Channel s = [] \<longrightarrow> (\<exists>rs. list_all2 (result_of beh) cs rs \<and> mset (Consumed s) = mset rs))"
  using reachable_ok [OF assms] accounted_complete by (auto simp: run_ok_def)

theorem RunAll_complete_witness:
  "\<exists>rs. list_all2 (result_of (\<lambda>_ _. {})) [stuck_collector] rs \<and> mset (Consumed stuck_end) = mset rs"
  using RunAll_complete [OF stuck_run] by (simp add: stuck_end_def)

text \<open>C31: A replayed run delivers the results in the order of the collectors, one for each, and marks none
  as not recorded unless the replay source refused an input after the run began.\<close>

theorem RunSerial_ordered:
  assumes "serial_reachable beh cs g s" and "SClosed s"
  shows "list_all2 (replay_result_of beh) cs (SChannel s) \<and>
    (Gaps s = g \<longrightarrow> (\<forall>r \<in> set (SChannel s). \<not> NotRecorded r))"
  using serial_reachable_ok [OF assms(1)] assms(2) by (auto simp: serial_ok_def)

theorem RunSerial_ordered_witness:
  "list_all2 (replay_result_of (\<lambda>_ _. {})) [stuck_collector] (SChannel serial_end)"
  using RunSerial_ordered [OF serial_run] by (simp add: serial_end_def)

end
