(* ===== verification/Store.thy ===== *)
theory Store
  imports Sanitize Policy
begin

text \<open>
  \<open>internal/store\<close>: the time-series file of \<open>dsd health --persist\<close>, one JSON document per line.
  Appending, reading, pruning and comparing entries. The file is its bytes; the JSON codec of
  \<open>encoding/json\<close> is a pair of parameters (\<open>enc\<close> and \<open>dec\<close>), and whether an operating-system call
  fails is an oracle, so that every error path is a branch.
\<close>

section \<open>Entries\<close>

record entry =
  Timestamp :: int
  Hostname :: gostring
  Version :: gostring
  EVerdict :: gostring
  EChecks :: "(gostring, gostring) gomap"
  Metrics :: "(gostring, f64) gomap"

text \<open>The interface: what a reader of the history may ask, and the two implementations.\<close>

definition NullStore_History :: "gostring \<Rightarrow> nat \<Rightarrow> entry list" where
  "NullStore_History hostname n = []"

definition validVerdicts :: "gostring list" where
  "validVerdicts = [OK, WARN, CRIT]"

definition validCheckStatuses :: "gostring list" where
  "validCheckStatuses = [OK, WARN, CRIT, INFO, ''PENDING'']"

definition stripControl :: "gostring \<Rightarrow> gostring" where
  "stripControl s = (if \<not> contains_control s then s else map_drop_control s)"

definition validateEntry :: "entry \<Rightarrow> entry option" where
  "validateEntry e =
     (if EVerdict e \<notin> set validVerdicts then None
      else if \<exists>(name, status) \<in> set (EChecks e). status \<notin> set validCheckStatuses then None
      else Some (e\<lparr>Hostname := stripControl (Hostname e),
                   EChecks := foldl (\<lambda>clean (name, status). map_put clean (stripControl name) status)
                                [] (EChecks e)\<rparr>))"

definition maxLineSizeBytes :: int where "maxLineSizeBytes = 1048576"
definition maxReadAllEntries :: int where "maxReadAllEntries = 200000"

section \<open>Reading\<close>

definition nl :: char where "nl = CHR 0x0A"

text \<open>What a reader finds under the path of the store.\<close>

datatype file_view = Missing | OpenFails | ReadFails | Bytes gostring

datatype store_error =
    NoStorePath | OpenError | ReadError | MarshalError | WriteError | CloseError | LockError
  | TempError | RewriteError | RenameError

text \<open>The window of the last \<open>n\<close> matches, or the first \<open>maxReadAllEntries\<close> when \<open>n\<close> is not positive.\<close>

definition keep_match :: "int \<Rightarrow> entry list \<Rightarrow> entry \<Rightarrow> entry list" where
  "keep_match n ms e =
     (if 0 < n then (let ms = ms @ [e] in if n < int (length ms) then tl ms else ms)
      else if maxReadAllEntries \<le> int (length ms) then ms
      else ms @ [e])"

fun read_line :: "(gostring \<Rightarrow> entry option) \<Rightarrow> gostring \<Rightarrow> int \<Rightarrow> entry list \<times> int \<Rightarrow> gostring \<Rightarrow> entry list \<times> int" where
  "read_line dec hostname n (ms, oversized) line =
     (if maxLineSizeBytes < int (length line) then (ms, oversized + 1)
      else if line \<noteq> [] then
        (case dec line of
           None \<Rightarrow> (ms, oversized)
         | Some e \<Rightarrow>
             (case validateEntry e of
                None \<Rightarrow> (ms, oversized)
              | Some e \<Rightarrow>
                  if hostname = [] \<or> Hostname e = hostname then (keep_match n ms e, oversized)
                  else (ms, oversized)))
      else (ms, oversized))"

text \<open>\<open>ReadBytes\<close> cuts after every newline, and \<open>TrimRight\<close> takes the newline off.\<close>

definition ReadAll ::
  "(gostring \<Rightarrow> entry option) \<Rightarrow> gostring \<Rightarrow> file_view \<Rightarrow> gostring \<Rightarrow> int \<Rightarrow> store_error + entry list" where
  "ReadAll dec path view hostname n =
     (if path = [] then Inr []
      else (case view of
        Missing \<Rightarrow> Inr []
      | OpenFails \<Rightarrow> Inl OpenError
      | ReadFails \<Rightarrow> Inl ReadError
      | Bytes b \<Rightarrow> Inr (fst (foldl (read_line dec hostname n) ([], 0) (split_byte b nl)))))"

definition parseStoreLine :: "(gostring \<Rightarrow> entry option) \<Rightarrow> gostring \<Rightarrow> entry option" where
  "parseStoreLine dec line =
     (if maxLineSizeBytes < int (length line) then None
      else (case dec line of None \<Rightarrow> None | Some e \<Rightarrow> validateEntry e))"

definition readRawLines :: "gostring \<Rightarrow> gostring list" where
  "readRawLines b = filter (\<lambda>l. l \<noteq> []) (split_byte b nl)"

section \<open>Writing\<close>

text \<open>The calls that can fail. A write that fails has written some prefix of its data.\<close>

datatype os_call =
    LockDir | LockOpen | Flock | StoreDir | StoreOpen | StoreWrite | StoreClose | RawRead
  | TempCreate | TempWrite | TempRename

type_synonym faults = "os_call \<Rightarrow> bool"

text \<open>The bytes of the file after the call, and its error.\<close>

definition Append ::
  "(entry \<Rightarrow> gostring option) \<Rightarrow> faults \<Rightarrow> nat \<Rightarrow> gostring \<Rightarrow> entry \<Rightarrow> gostring \<times> store_error option" where
  "Append enc fault written b e =
     (case enc e of
        None \<Rightarrow> (b, Some MarshalError)
      | Some line \<Rightarrow>
          (let line = line @ [nl]
           in if fault StoreWrite then (b @ take written line, Some WriteError)
              else (b @ line, None)))"

definition host_indices :: "(gostring \<Rightarrow> entry option) \<Rightarrow> gostring \<Rightarrow> gostring list \<Rightarrow> nat list" where
  "host_indices dec hostname raw =
     filter (\<lambda>i. case parseStoreLine dec (raw ! i) of None \<Rightarrow> False | Some e \<Rightarrow> Hostname e = hostname)
       [0..<length raw]"

definition Prune ::
  "(gostring \<Rightarrow> entry option) \<Rightarrow> faults \<Rightarrow> gostring \<Rightarrow> gostring \<Rightarrow> int \<Rightarrow> gostring \<times> store_error option" where
  "Prune dec fault b hostname maxEntries =
     (if maxEntries \<le> 0 then (b, None)
      else if fault RawRead then (b, Some ReadError)
      else
        let raw = readRawLines b
        in if raw = [] then (b, None)
           else
             let hostIdx = host_indices dec hostname raw
             in if int (length hostIdx) \<le> maxEntries then (b, None)
                else
                  let excess = nat (int (length hostIdx) - maxEntries);
                      remove = set (take excess hostIdx)
                  in if fault TempCreate then (b, Some TempError)
                     else if fault TempWrite then (b, Some RewriteError)
                     else if fault TempRename then (b, Some RenameError)
                     else (concat (map (\<lambda>i. raw ! i @ [nl])
                             (filter (\<lambda>i. i \<notin> remove) [0..<length raw])), None))"

text \<open>\<open>withLock\<close> and what runs under it; \<open>Open\<close> creates the file, so a missing one is empty.\<close>

definition PersistAndPrune ::
  "(entry \<Rightarrow> gostring option) \<Rightarrow> (gostring \<Rightarrow> entry option) \<Rightarrow> faults \<Rightarrow> nat \<Rightarrow> gostring \<Rightarrow>
   gostring \<Rightarrow> entry \<Rightarrow> gostring \<Rightarrow> int \<Rightarrow> gostring \<times> store_error option" where
  "PersistAndPrune enc dec fault written path b e hostname maxEntries =
     (if fault LockDir \<or> fault LockOpen \<or> fault Flock then (b, Some LockError)
      else if path = [] then (b, Some NoStorePath)
      else if fault StoreDir \<or> fault StoreOpen then (b, Some OpenError)
      else (case Append enc fault written b e of
        (b, Some err) \<Rightarrow> (b, Some err)
      | (b, None) \<Rightarrow>
          if fault StoreClose then (b, Some CloseError)
          else Prune dec fault b hostname maxEntries))"

definition History ::
  "(gostring \<Rightarrow> entry option) \<Rightarrow> gostring \<Rightarrow> file_view \<Rightarrow> gostring \<Rightarrow> int \<Rightarrow> store_error + entry list" where
  "History dec path view hostname n = ReadAll dec path view hostname n"

section \<open>Comparing\<close>

record check_change =
  ChName :: gostring
  ChBefore :: gostring
  ChAfter :: gostring

definition DiffChecks :: "entry \<Rightarrow> entry \<Rightarrow> check_change list" where
  "DiffChecks prev cur =
     sort_key ChName
       (List.map_filter (\<lambda>(name, after).
            let before = map_get [] (EChecks prev) name
            in if before \<noteq> after then Some \<lparr>ChName = name, ChBefore = before, ChAfter = after\<rparr> else None)
          (EChecks cur) @
        List.map_filter (\<lambda>(name, before).
            if \<not> map_has (EChecks cur) name
            then Some \<lparr>ChName = name, ChBefore = before, ChAfter = []\<rparr> else None)
          (EChecks prev))"

section \<open>Lines\<close>

text \<open>A file whose last line is complete.\<close>

definition whole_lines :: "gostring \<Rightarrow> bool" where
  "whole_lines b \<longleftrightarrow> b = [] \<or> last b = nl"

lemma readRawLines_append:
  assumes "whole_lines b"
  shows "readRawLines (b @ l) = readRawLines b @ readRawLines l"
proof (cases "b = []")
  case False
  then have "b = butlast b @ [nl]" using assms by (metis append_butlast_last_id whole_lines_def)
  then obtain a where "b = a @ [nl]" by blast
  then show ?thesis
    using split_byte_append [of a nl l] split_byte_append [of a nl "[]"] by (simp add: readRawLines_def)
qed (simp add: readRawLines_def)

lemma readRawLines_line: "nl \<notin> set l \<Longrightarrow> l \<noteq> [] \<Longrightarrow> readRawLines (l @ [nl]) = [l]"
  using split_byte_append [of l nl "[]"] by (simp add: readRawLines_def split_byte_line)

lemma readRawLines_torn: "nl \<notin> set l \<Longrightarrow> l \<noteq> [] \<Longrightarrow> readRawLines l = [l]"
  by (simp add: readRawLines_def split_byte_line)

lemma readRawLines_concat:
  "(\<And>l. l \<in> set ls \<Longrightarrow> nl \<notin> set l \<and> l \<noteq> []) \<Longrightarrow>
     readRawLines (concat (map (\<lambda>l. l @ [nl]) ls)) = ls"
proof (induction ls)
  case (Cons l ls)
  then show ?case
    using readRawLines_append [of "l @ [nl]"] readRawLines_line [of l] by (simp add: whole_lines_def)
qed (simp add: readRawLines_def)

lemma readRawLines_elem: "l \<in> set (readRawLines b) \<Longrightarrow> nl \<notin> set l \<and> l \<noteq> []"
  by (auto simp: readRawLines_def dest: split_byte_no_sep)

section \<open>The history of a host\<close>

definition host_entry :: "(gostring \<Rightarrow> entry option) \<Rightarrow> gostring \<Rightarrow> gostring \<Rightarrow> entry option" where
  "host_entry dec hostname l =
     (case parseStoreLine dec l of
        None \<Rightarrow> None
      | Some e \<Rightarrow> if hostname = [] \<or> Hostname e = hostname then Some e else None)"

definition entries :: "(gostring \<Rightarrow> entry option) \<Rightarrow> gostring \<Rightarrow> gostring \<Rightarrow> entry list" where
  "entries dec hostname b = List.map_filter (host_entry dec hostname) (readRawLines b)"

definition last_n :: "nat \<Rightarrow> 'a list \<Rightarrow> 'a list" where
  "last_n n xs = drop (length xs - n) xs"

definition window :: "int \<Rightarrow> entry list \<Rightarrow> entry list" where
  "window n es = (if 0 < n then last_n (nat n) es else take (nat maxReadAllEntries) es)"

lemma last_n_snoc: "0 < n \<Longrightarrow> last_n n (xs @ [x]) = last_n n (last_n n xs @ [x])"
  by (cases "length xs \<le> n") (auto simp: last_n_def Suc_diff_le)

lemma keep_match_window: "keep_match n (window n es) e = window n (es @ [e])"
proof (cases "0 < n")
  case True
  have "length (last_n (nat n) es) \<le> nat n" by (simp add: last_n_def)
  with True have "keep_match n (window n es) e = last_n (nat n) (last_n (nat n) es @ [e])"
    by (auto simp: keep_match_def window_def last_n_def Let_def drop_Suc Suc_diff_le tl_drop)
  with True show ?thesis using last_n_snoc [of "nat n" es e] by (simp add: window_def)
next
  case False
  then show ?thesis by (auto simp: keep_match_def window_def maxReadAllEntries_def)
qed

lemma read_lines_window:
  "fst (foldl (read_line dec hostname n) (window n es, k) ls) =
     window n (es @ List.map_filter (host_entry dec hostname) (filter (\<lambda>l. l \<noteq> []) ls))"
proof (induction ls arbitrary: es k)
  case (Cons l ls)
  have oversize: "maxLineSizeBytes < int (length l) \<Longrightarrow> l \<noteq> []" by (auto simp: maxLineSizeBytes_def)
  show ?case
  proof (cases "l \<noteq> [] \<and> host_entry dec hostname l \<noteq> None")
    case True
    then obtain e where e: "host_entry dec hostname l = Some e" by auto
    then have "read_line dec hostname n (window n es, k) l = (window n (es @ [e]), k)"
      using True by (auto simp: host_entry_def parseStoreLine_def keep_match_window split: option.splits if_splits)
    with True e show ?thesis using Cons.IH [of "es @ [e]" k] by (simp add: List.map_filter_simps)
  next
    case False
    then have "fst (read_line dec hostname n (window n es, k) l) = window n es"
      by (auto simp: host_entry_def parseStoreLine_def split: option.splits if_splits)
    then obtain k' where "read_line dec hostname n (window n es, k) l = (window n es, k')"
      by (metis prod.collapse)
    with False show ?thesis using Cons.IH [of es k'] by (auto simp: List.map_filter_simps split: option.splits)
  qed
qed (simp add: List.map_filter_simps)

lemma window_Nil [simp]: "window n [] = []"
  by (simp add: window_def last_n_def)

lemma ReadAll_window:
  "path \<noteq> [] \<Longrightarrow> ReadAll dec path (Bytes b) hostname n = Inr (window n (entries dec hostname b))"
  using read_lines_window [of dec hostname n "[]" 0 "split_byte b nl"]
  by (simp add: ReadAll_def entries_def readRawLines_def)

section \<open>Pruning\<close>

definition is_host :: "(gostring \<Rightarrow> entry option) \<Rightarrow> gostring \<Rightarrow> gostring \<Rightarrow> bool" where
  "is_host dec hostname l \<longleftrightarrow>
     (case parseStoreLine dec l of None \<Rightarrow> False | Some e \<Rightarrow> Hostname e = hostname)"

text \<open>What pruning should do to the lines: drop the first \<open>k\<close> of the host, and nothing else.\<close>

fun drop_matching :: "('a \<Rightarrow> bool) \<Rightarrow> nat \<Rightarrow> 'a list \<Rightarrow> 'a list" where
  "drop_matching P k [] = []"
| "drop_matching P 0 xs = xs"
| "drop_matching P (Suc k) (x # xs) =
     (if P x then drop_matching P k xs else x # drop_matching P (Suc k) xs)"

lemma drop_matching_0 [simp]: "drop_matching P 0 xs = xs"
  by (cases xs) auto

lemma filter_drop_matching: "filter P (drop_matching P k xs) = drop k (filter P xs)"
  by (induction P k xs rule: drop_matching.induct) auto

lemma filter_drop_matching_other:
  "(\<And>x. Q x \<Longrightarrow> \<not> P x) \<Longrightarrow> filter Q (drop_matching P k xs) = filter Q xs"
  by (induction P k xs rule: drop_matching.induct) auto

lemma set_drop_matching: "set (drop_matching P k xs) \<subseteq> set xs"
  by (induction P k xs rule: drop_matching.induct) auto

lemma drop_matching_indices:
  "map (\<lambda>i. xs ! i) (filter (\<lambda>i. i \<notin> set (take k (filter (\<lambda>i. P (xs ! i)) [0..<length xs]))) [0..<length xs]) =
     drop_matching P k xs"
proof (induction xs arbitrary: k)
  case (Cons x xs)
  have idx: "[0..<length (x # xs)] = 0 # map Suc [0..<length xs]"
    by (simp add: upt_conv_Cons map_Suc_upt del: upt_Suc)
  have fil: "filter (\<lambda>i. P ((x # xs) ! i)) [0..<length (x # xs)] =
      (if P x then [0] else []) @ map Suc (filter (\<lambda>i. P (xs ! i)) [0..<length xs])"
    unfolding idx by (simp add: filter_map comp_def)
  show ?case
  proof (cases k)
    case 0
    then show ?thesis using map_nth [of "x # xs"] by (simp del: upt_Suc)
  next
    case (Suc k')
    show ?thesis
    proof (cases "P x")
      case True
      with Suc fil Cons.IH [of k'] show ?thesis
        unfolding idx by (simp add: filter_map comp_def inj_image_mem_iff [OF inj_Suc] zero_notin_Suc_image take_map)
    next
      case False
      with Suc fil Cons.IH [of k] show ?thesis
        unfolding idx by (simp add: filter_map comp_def inj_image_mem_iff [OF inj_Suc] zero_notin_Suc_image take_map)
    qed
  qed
qed simp

lemma host_indices_eq:
  "host_indices dec hostname raw = filter (\<lambda>i. is_host dec hostname (raw ! i)) [0..<length raw]"
  by (simp add: host_indices_def is_host_def)

lemma length_host_indices: "length (host_indices dec hostname raw) = length (filter (is_host dec hostname) raw)"
proof -
  have "map (\<lambda>i. raw ! i) (filter (\<lambda>i. P (raw ! i)) [0..<length raw]) = filter P raw" for P
    using filter_map [of P "(!) raw" "[0..<length raw]"] by (simp add: map_nth comp_def)
  then show ?thesis unfolding host_indices_eq by (metis length_map)
qed

lemma Prune_lines:
  assumes "snd (Prune dec fault b hostname m) = None" and "0 < m"
  shows "readRawLines (fst (Prune dec fault b hostname m)) =
    drop_matching (is_host dec hostname)
      (length (filter (is_host dec hostname) (readRawLines b)) - nat m) (readRawLines b)"
proof -
  let ?raw = "readRawLines b" and ?P = "is_host dec hostname"
  let ?n = "length (filter ?P ?raw)"
  show ?thesis
  proof (cases "?raw = [] \<or> int ?n \<le> m")
    case True
    then have "fst (Prune dec fault b hostname m) = b"
      by (auto simp: Prune_def Let_def length_host_indices)
    with True show ?thesis by auto
  next
    case False
    have "fst (Prune dec fault b hostname m) =
        concat (map (\<lambda>l. l @ [nl]) (drop_matching ?P (?n - nat m) ?raw))"
      using assms False
      unfolding drop_matching_indices [symmetric] host_indices_eq [symmetric]
      by (auto simp: Prune_def Let_def length_host_indices comp_def nat_diff_distrib split: if_splits)
    moreover have "readRawLines (concat (map (\<lambda>l. l @ [nl]) (drop_matching ?P (?n - nat m) ?raw))) =
        drop_matching ?P (?n - nat m) ?raw"
      by (rule readRawLines_concat) (use set_drop_matching readRawLines_elem in fast)
    ultimately show ?thesis by simp
  qed
qed

lemma entries_cong:
  "filter (\<lambda>l. host_entry dec h l \<noteq> None) (readRawLines b) = filter (\<lambda>l. host_entry dec h l \<noteq> None) (readRawLines b') \<Longrightarrow>
     entries dec h b = entries dec h b'"
  by (simp add: entries_def List.map_filter_def)

lemma is_host_entry: "h \<noteq> [] \<Longrightarrow> host_entry dec h l \<noteq> None \<longleftrightarrow> is_host dec h l"
  by (auto simp: host_entry_def is_host_def split: option.splits)

lemma entries_host:
  "h \<noteq> [] \<Longrightarrow> entries dec h b = map (\<lambda>l. the (parseStoreLine dec l)) (filter (is_host dec h) (readRawLines b))"
proof -
  assume h: "h \<noteq> []"
  have "List.map_filter (host_entry dec h) ls = map (\<lambda>l. the (parseStoreLine dec l)) (filter (is_host dec h) ls)" for ls
    using h by (induction ls) (auto simp: List.map_filter_simps host_entry_def is_host_def split: option.splits)
  then show ?thesis by (simp add: entries_def)
qed

section \<open>The reader's contract\<close>

text \<open>
  What \<open>dsd diff\<close>, \<open>dsd history\<close> and the drift line of \<open>dsd health\<close> rely on: a request for the last \<open>n\<close>
  entries of a host gives entries of that host only, never more than asked for, and a shorter
  request is the end of a longer one.
\<close>

locale history_reader =
  fixes history :: "'s \<Rightarrow> gostring \<Rightarrow> nat \<Rightarrow> entry list"
  assumes owned: "h \<noteq> [] \<Longrightarrow> e \<in> set (history s h n) \<Longrightarrow> Hostname e = h"
    and bounded: "0 < n \<Longrightarrow> length (history s h n) \<le> n"
    and nested: "0 < n \<Longrightarrow> n \<le> m \<Longrightarrow> history s h n = last_n n (history s h m)"
begin

lemma latest_agrees:
  assumes "0 < n" and "history s h n \<noteq> []" and "n \<le> m"
  shows "last (history s h n) = last (history s h m)"
  using nested [OF assms(1,3)] assms(2) by (simp add: last_n_def last_drop)

lemma empty_agrees: "0 < n \<Longrightarrow> n \<le> m \<Longrightarrow> history s h m = [] \<Longrightarrow> history s h n = []"
  using nested by (simp add: last_n_def)

end

definition read_history :: "(gostring \<Rightarrow> entry option) \<Rightarrow> gostring \<Rightarrow> gostring \<Rightarrow> nat \<Rightarrow> entry list" where
  "read_history dec b hostname n =
     (case History dec ''store.jsonl'' (Bytes b) hostname (int n) of Inl _ \<Rightarrow> [] | Inr es \<Rightarrow> es)"

lemma read_history_window: "read_history dec b h n = window (int n) (entries dec h b)"
  by (simp add: read_history_def History_def ReadAll_window)

lemma window_subset: "set (window n es) \<subseteq> set es"
  by (auto simp: window_def last_n_def dest: in_set_dropD in_set_takeD)

lemma last_n_last_n: "n \<le> m \<Longrightarrow> last_n n (last_n m xs) = last_n n xs"
proof -
  assume "n \<le> m"
  then have "length xs - (length xs - m) - n + (length xs - m) = length xs - n" by linarith
  then show ?thesis by (simp add: last_n_def add.commute)
qed

interpretation null_store: history_reader "\<lambda>(_::unit). NullStore_History"
  by unfold_locales (simp_all add: NullStore_History_def last_n_def)

interpretation jsonl: history_reader "read_history dec" for dec
proof
  show "h \<noteq> [] \<Longrightarrow> e \<in> set (read_history dec s h n) \<Longrightarrow> Hostname e = h" for h e s n
  proof -
    assume "h \<noteq> []" "e \<in> set (read_history dec s h n)"
    then have "e \<in> set (entries dec h s)" using window_subset by (auto simp: read_history_window)
    with \<open>h \<noteq> []\<close> show "Hostname e = h"
      by (auto simp: entries_def List.map_filter_def host_entry_def split: option.splits if_splits)
  qed
  show "0 < n \<Longrightarrow> length (read_history dec s h n) \<le> n" for n s h
    by (simp add: read_history_window window_def last_n_def)
  show "0 < n \<Longrightarrow> n \<le> m \<Longrightarrow> read_history dec s h n = last_n n (read_history dec s h m)" for n m s h
    by (simp add: read_history_window window_def last_n_last_n)
qed

section \<open>Appending\<close>

lemma Append_ok:
  "enc e = Some l \<Longrightarrow> \<not> fault StoreWrite \<Longrightarrow> Append enc fault k b e = (b @ l @ [nl], None)"
  by (simp add: Append_def)

lemma entries_append_line:
  assumes "whole_lines b" and "nl \<notin> set l" and "l \<noteq> []"
  shows "entries dec h (b @ l @ [nl]) =
    entries dec h b @ (case host_entry dec h l of None \<Rightarrow> [] | Some e \<Rightarrow> [e])"
  using readRawLines_append [OF assms(1), of "l @ [nl]"] readRawLines_line [OF assms(2,3)]
  by (simp add: entries_def List.map_filter_def split: option.splits)

lemma entries_torn_line:
  assumes "whole_lines b" and "nl \<notin> set t" and "nl \<notin> set l" and "l \<noteq> []"
  shows "entries dec h ((b @ t) @ l @ [nl]) =
    entries dec h b @ (case host_entry dec h (t @ l) of None \<Rightarrow> [] | Some e \<Rightarrow> [e])"
  using entries_append_line [OF assms(1), of "t @ l"] assms by simp

lemma window_snoc: "0 < n \<Longrightarrow> window n (es @ [e]) = last_n (nat n) (window n es @ [e])"
  using last_n_snoc [of "nat n"] by (simp add: window_def)

text \<open>A codec for the witnesses: the verdict byte, then the host name.\<close>

definition toy_enc :: "entry \<Rightarrow> gostring option" where
  "toy_enc e = (if EVerdict e = OK \<and> nl \<notin> set (Hostname e) then Some (CHR ''O'' # Hostname e) else None)"

definition toy_dec :: "gostring \<Rightarrow> entry option" where
  "toy_dec l =
     (if l \<noteq> [] \<and> hd l = CHR ''O'' then
        Some \<lparr>Timestamp = 0, Hostname = tl l, Version = [], EVerdict = OK, EChecks = [], Metrics = []\<rparr>
      else None)"

definition toy_entry :: entry where
  "toy_entry = \<lparr>Timestamp = 0, Hostname = ''web1'', Version = [], EVerdict = OK, EChecks = [], Metrics = []\<rparr>"

section \<open>Drift\<close>

definition appeared :: "entry \<Rightarrow> gostring \<times> gostring \<Rightarrow> check_change option" where
  "appeared prev = (\<lambda>(name, after).
     let before = map_get [] (EChecks prev) name
     in if before \<noteq> after then Some \<lparr>ChName = name, ChBefore = before, ChAfter = after\<rparr> else None)"

definition vanished_check :: "entry \<Rightarrow> gostring \<times> gostring \<Rightarrow> check_change option" where
  "vanished_check cur = (\<lambda>(name, before).
     if \<not> map_has (EChecks cur) name
     then Some \<lparr>ChName = name, ChBefore = before, ChAfter = []\<rparr> else None)"

lemma DiffChecks_parts:
  "DiffChecks prev cur =
     sort_key ChName (List.map_filter (appeared prev) (EChecks cur) @
                      List.map_filter (vanished_check cur) (EChecks prev))"
  by (simp add: DiffChecks_def appeared_def vanished_check_def)

lemma distinct_map_filter:
  "distinct (map fst m) \<Longrightarrow> (\<And>kv c. f kv = Some c \<Longrightarrow> g c = fst kv) \<Longrightarrow> distinct (map g (List.map_filter f m))"
proof (induction m)
  case (Cons kv m)
  have "g c \<noteq> fst kv" if "c \<in> set (List.map_filter f m)" for c
  proof -
    from that obtain kv' where "kv' \<in> set m" "f kv' = Some c" by (auto simp: List.map_filter_def)
    with Cons.prems(2) [of kv' c] have "g c \<in> fst ` set m" by simp
    moreover have "fst kv \<notin> fst ` set m" using Cons.prems(1) by simp
    ultimately show ?thesis by metis
  qed
  then have "fst kv \<notin> g ` set (List.map_filter f m)" by (metis imageE)
  moreover have "distinct (map g (List.map_filter f m))" using Cons by simp
  ultimately show ?case using Cons.prems(2) [of kv] by (simp add: List.map_filter_simps split: option.split)
qed (simp add: List.map_filter_simps)

lemma map_filter_map_of:
  "distinct (map fst m) \<Longrightarrow>
     c \<in> set (List.map_filter f m) \<longleftrightarrow> (\<exists>n v. map_of m n = Some v \<and> f (n, v) = Some c)"
  by (auto simp: set_map_filter)

section \<open>Properties\<close>

text \<open>C32: Appending and reading back round-trip: after a successful append to a store of whole lines the
  history of the host ends with the entry, older entries are shifted out of the window one by one, the
  histories of other hosts do not change, and the store still consists of whole lines. The codec is
  required to decode what it encoded to one line that validation accepts as it is.\<close>

theorem append_roundtrip:
  assumes "enc e = Some l" and "dec l = Some e" and "nl \<notin> set l" and "l \<noteq> []"
    and "int (length l) \<le> maxLineSizeBytes" and "validateEntry e = Some e"
    and "whole_lines b" and "\<not> fault StoreWrite" and "path \<noteq> []" and "0 < n"
    and "ReadAll dec path (Bytes b) h n = Inr es"
  shows "ReadAll dec path (Bytes (fst (Append enc fault k b e))) h n =
      Inr (if h = [] \<or> Hostname e = h then last_n (nat n) (es @ [e]) else es)
    \<and> snd (Append enc fault k b e) = None \<and> whole_lines (fst (Append enc fault k b e))"
proof -
  have "parseStoreLine dec l = Some e" using assms(2,5,6) by (simp add: parseStoreLine_def)
  then have "entries dec h (b @ l @ [nl]) = entries dec h b @ (if h = [] \<or> Hostname e = h then [e] else [])"
    using entries_append_line [OF assms(7,3,4), of dec h] by (simp add: host_entry_def)
  moreover have "es = window n (entries dec h b)" using assms(9,11) by (simp add: ReadAll_window)
  ultimately show ?thesis
    using assms(9,10) by (simp add: Append_ok [where enc = enc and fault = fault, OF assms(1,8)] ReadAll_window window_snoc whole_lines_def)
qed

theorem append_roundtrip_witness:
  "ReadAll toy_dec ''s'' (Bytes (fst (Append toy_enc (\<lambda>_. False) 0 [] toy_entry))) ''web1'' 2 = Inr [toy_entry]"
proof -
  have "ReadAll toy_dec ''s'' (Bytes (fst (Append toy_enc (\<lambda>_. False) 0 [] toy_entry))) ''web1'' 2 =
      Inr (if ''web1'' = [] \<or> Hostname toy_entry = ''web1'' then last_n (nat 2) ([] @ [toy_entry]) else [])
    \<and> snd (Append toy_enc (\<lambda>_. False) 0 [] toy_entry) = None
    \<and> whole_lines (fst (Append toy_enc (\<lambda>_. False) 0 [] toy_entry))"
  proof (rule append_roundtrip [where l = "''Oweb1''"])
    show "toy_enc toy_entry = Some ''Oweb1''" "toy_dec ''Oweb1'' = Some toy_entry" by code_simp+
    show "validateEntry toy_entry = Some toy_entry" by code_simp
    show "ReadAll toy_dec ''s'' (Bytes []) ''web1'' 2 = Inr []" by code_simp
  qed (simp_all add: nl_def whole_lines_def maxLineSizeBytes_def)
  then show ?thesis by (simp add: toy_entry_def last_n_def)
qed

text \<open>C33: Pruning is safe: a prune that fails at any point leaves the file as it was; one that succeeds
  keeps the lines in order and drops only the oldest parseable lines of the host, so that its history
  is the last \<open>m\<close> entries of what it was, the history of every other host and every line that does not
  parse are as before.\<close>

theorem prune_safe:
  assumes "0 < m" and "h \<noteq> []"
  shows "(if snd (Prune dec fault b h m) \<noteq> None then fst (Prune dec fault b h m) = b
    else
      entries dec h (fst (Prune dec fault b h m)) = last_n (nat m) (entries dec h b) \<and>
      (\<forall>h'. h' \<noteq> [] \<longrightarrow> h' \<noteq> h \<longrightarrow> entries dec h' (fst (Prune dec fault b h m)) = entries dec h' b) \<and>
      filter (\<lambda>l. parseStoreLine dec l = None) (readRawLines (fst (Prune dec fault b h m))) =
        filter (\<lambda>l. parseStoreLine dec l = None) (readRawLines b))"
proof (cases "snd (Prune dec fault b h m) = None")
  case False
  then have "fst (Prune dec fault b h m) = b" by (auto simp: Prune_def Let_def split: if_splits)
  with False show ?thesis by simp
next
  case True
  note lines = Prune_lines [OF True assms(1)]
  have other: "is_host dec h' l \<Longrightarrow> \<not> is_host dec h l" if "h' \<noteq> h" for h' l
    using that by (auto simp: is_host_def split: option.splits)
  have "entries dec h (fst (Prune dec fault b h m)) = last_n (nat m) (entries dec h b)"
    using assms(2) by (simp add: entries_host lines filter_drop_matching last_n_def drop_map)
  moreover have "entries dec h' (fst (Prune dec fault b h m)) = entries dec h' b" if "h' \<noteq> []" "h' \<noteq> h" for h'
    using that other [of h'] by (simp add: entries_host lines filter_drop_matching_other)
  moreover have "filter (\<lambda>l. parseStoreLine dec l = None) (readRawLines (fst (Prune dec fault b h m))) =
      filter (\<lambda>l. parseStoreLine dec l = None) (readRawLines b)"
    unfolding lines by (rule filter_drop_matching_other) (simp add: is_host_def)
  ultimately show ?thesis using True by simp
qed

theorem prune_safe_witness:
  "entries toy_dec ''web1'' (fst (Prune toy_dec (\<lambda>_. False) (''Oweb1'' @ [nl] @ ''Oweb1'' @ [nl]) ''web1'' 1)) =
    last_n (nat 1) (entries toy_dec ''web1'' (''Oweb1'' @ [nl] @ ''Oweb1'' @ [nl]))"
proof -
  have ok: "snd (Prune toy_dec (\<lambda>_. False) (''Oweb1'' @ [nl] @ ''Oweb1'' @ [nl]) ''web1'' 1) = None"
    by code_simp
  have "0 < (1::int)" "''web1'' \<noteq> []" by simp_all
  from prune_safe [OF this, of toy_dec "\<lambda>_. False" "''Oweb1'' @ [nl] @ ''Oweb1'' @ [nl]"]
  show ?thesis unfolding ok by simp
qed

text \<open>The drift between two entries lists every check once, in the order of the names: exactly the
  checks of the newer entry whose status differs from the older one's (an absent check counting as the
  empty status) and the checks only the older entry has.\<close>

theorem DiffChecks_complete:
  assumes "distinct (map fst (EChecks prev))" and "distinct (map fst (EChecks cur))"
  shows "sorted (map ChName (DiffChecks prev cur)) \<and> distinct (map ChName (DiffChecks prev cur)) \<and>
    (\<forall>c. c \<in> set (DiffChecks prev cur) \<longleftrightarrow>
       (let old = map_get [] (EChecks prev) (ChName c); new = map_get [] (EChecks cur) (ChName c)
        in c = \<lparr>ChName = ChName c, ChBefore = old, ChAfter = new\<rparr> \<and>
           (if map_has (EChecks cur) (ChName c) then old \<noteq> new else map_has (EChecks prev) (ChName c))))"
proof (intro conjI allI)
  let ?a = "List.map_filter (appeared prev) (EChecks cur)"
  let ?v = "List.map_filter (vanished_check cur) (EChecks prev)"
  have names: "\<And>kv c. appeared prev kv = Some c \<Longrightarrow> ChName c = fst kv"
    "\<And>kv c. vanished_check cur kv = Some c \<Longrightarrow> ChName c = fst kv"
    by (auto simp: appeared_def vanished_check_def Let_def split: prod.splits if_splits)
  show "sorted (map ChName (DiffChecks prev cur))" by (simp add: DiffChecks_parts)
  have "ChName c \<noteq> ChName c'" if "c \<in> set ?a" "c' \<in> set ?v" for c c'
    using that by (auto simp: set_map_filter appeared_def vanished_check_def Let_def map_has_def image_iff split: if_splits) (metis fst_conv)
  then have "distinct (map ChName (?a @ ?v))"
    using distinct_map_filter [OF assms(2) names(1)] distinct_map_filter [OF assms(1) names(2)] by fastforce
  then show "distinct (map ChName (DiffChecks prev cur))"
    by (simp only: DiffChecks_parts distinct_map distinct_sort set_sort)
  fix c
  have "c \<in> set ?a \<longleftrightarrow> (\<exists>v. map_of (EChecks cur) (ChName c) = Some v \<and> map_get [] (EChecks prev) (ChName c) \<noteq> v \<and>
      c = \<lparr>ChName = ChName c, ChBefore = map_get [] (EChecks prev) (ChName c), ChAfter = v\<rparr>)"
    unfolding map_filter_map_of [OF assms(2)]
    by (cases c) (auto simp: appeared_def Let_def split: if_splits)
  moreover have "c \<in> set ?v \<longleftrightarrow> (\<exists>v. map_of (EChecks prev) (ChName c) = Some v \<and> \<not> map_has (EChecks cur) (ChName c) \<and>
      c = \<lparr>ChName = ChName c, ChBefore = v, ChAfter = []\<rparr>)"
    unfolding map_filter_map_of [OF assms(1)]
    by (cases c) (auto simp: vanished_check_def split: if_splits)
  ultimately show "c \<in> set (DiffChecks prev cur) \<longleftrightarrow>
       (let old = map_get [] (EChecks prev) (ChName c); new = map_get [] (EChecks cur) (ChName c)
        in c = \<lparr>ChName = ChName c, ChBefore = old, ChAfter = new\<rparr> \<and>
           (if map_has (EChecks cur) (ChName c) then old \<noteq> new else map_has (EChecks prev) (ChName c)))"
    by (auto simp: DiffChecks_parts map_get_def map_has_iff Let_def split: option.splits)
qed

theorem DiffChecks_complete_witness:
  "distinct (map ChName (DiffChecks (toy_entry\<lparr>EChecks := [(''Disk'', OK), (''IO'', OK)]\<rparr>)
     (toy_entry\<lparr>EChecks := [(''Memory'', WARN), (''Disk'', CRIT)]\<rparr>)))"
  using DiffChecks_complete [of "toy_entry\<lparr>EChecks := [(''Disk'', OK), (''IO'', OK)]\<rparr>"
      "toy_entry\<lparr>EChecks := [(''Memory'', WARN), (''Disk'', CRIT)]\<rparr>"] by simp

text \<open>A torn line takes the next entry with it: after a write that failed part way the next append
  succeeds, but its line is glued to the torn one and, as the two together are not a document, the
  entry is not in the history.\<close>

lemma torn_write_loses_next_entry:
  assumes "enc e1 = Some l1" and "enc e2 = Some l2" and "nl \<notin> set l1" and "nl \<notin> set l2" and "l2 \<noteq> []"
    and "fault1 StoreWrite" and "\<not> fault2 StoreWrite" and "k \<le> length l1" and "dec (take k l1 @ l2) = None"
    and "whole_lines b"
  shows "entries dec h (fst (Append enc fault2 j (fst (Append enc fault1 k b e1)) e2)) = entries dec h b
    \<and> snd (Append enc fault2 j (fst (Append enc fault1 k b e1)) e2) = None"
proof -
  have "fst (Append enc fault1 k b e1) = b @ take k l1" using assms(1,6,8) by (simp add: Append_def)
  moreover have "nl \<notin> set (take k l1)" using assms(3) by (auto dest: in_set_takeD)
  moreover have "host_entry dec h (take k l1 @ l2) = None"
    using assms(9) by (simp add: host_entry_def parseStoreLine_def)
  ultimately show ?thesis
    using Append_ok [where enc = enc and fault = fault2, OF assms(2,7)] entries_torn_line [OF assms(10) _ assms(4,5), of "take k l1" dec h] by simp
qed

end
