(* ===== verification/Selfupdate.thy ===== *)
theory Selfupdate
  imports Version_Order
begin

text \<open>
  \<open>internal/selfupdate\<close>: comparing release versions, the update nudge with its cache, verifying a
  minisign signature, and \<open>Apply\<close>, which replaces the running binary. The network, the parsing of URLs,
  SHA-256, Ed25519 and Blake2b are parameters; base64 decoding is written out.
\<close>

section \<open>Versions\<close>

fun index_any :: "gostring \<Rightarrow> gostring \<Rightarrow> nat option" where
  "index_any [] cs = None"
| "index_any (c # s) cs = (if c \<in> set cs then Some 0 else map_option Suc (index_any s cs))"

text \<open>The number of a part: what is before a pre-release or build suffix.\<close>

definition part_num :: "gostring \<Rightarrow> gostring" where
  "part_num p = (case index_any p ''-+'' of None \<Rightarrow> p | Some i \<Rightarrow> take i p)"

definition bare_version :: "gostring \<Rightarrow> gostring" where
  "bare_version v = trim_prefix (trim_space v) ''v''"

definition normalize :: "gostring \<Rightarrow> gostring" where
  "normalize v =
     (let v = bare_version v
      in if v = [] \<or> v = ''dev'' then []
         else if list_all (\<lambda>p. part_num p \<noteq> [] \<and> atoi (part_num p) \<noteq> None) (splitn_byte 3 v (CHR ''.''))
         then v else [])"

definition atoi_or_0 :: "gostring \<Rightarrow> int" where
  "atoi_or_0 s = (case atoi s of None \<Rightarrow> 0 | Some n \<Rightarrow> n)"

text \<open>The array of three numbers, the missing ones zero.\<close>

definition versionParts :: "gostring \<Rightarrow> int \<times> int \<times> int" where
  "versionParts v =
     (let n = normalize v
      in if n = [] then (0, 0, 0)
         else let ns = map (\<lambda>p. atoi_or_0 (part_num p)) (splitn_byte 3 n (CHR ''.''));
                  at = (\<lambda>i. if i < length ns then ns ! i else 0)
              in (at 0, at 1, at 2))"

definition CompareVersions :: "gostring \<Rightarrow> gostring \<Rightarrow> int" where
  "CompareVersions a b =
     (let (a0, a1, a2) = versionParts a; (b0, b1, b2) = versionParts b
      in if a0 \<noteq> b0 then (if a0 < b0 then -1 else 1)
         else if a1 \<noteq> b1 then (if a1 < b1 then -1 else 1)
         else if a2 \<noteq> b2 then (if a2 < b2 then -1 else 1)
         else 0)"

definition isCleanRelease :: "gostring \<Rightarrow> bool" where
  "isCleanRelease v \<longleftrightarrow>
     (let parts = split_byte (bare_version v) (CHR ''.'')
      in \<not> (length parts < 2 \<or> 3 < length parts) \<and> list_all (\<lambda>p. p \<noteq> [] \<and> atoi p \<noteq> None) parts)"

definition IsNewer :: "gostring \<Rightarrow> gostring \<Rightarrow> bool" where
  "IsNewer current latest \<longleftrightarrow>
     isCleanRelease current \<and> isCleanRelease latest \<and> 0 < CompareVersions latest current"

lemma CompareVersions_cmp3: "CompareVersions a b = cmp3 (versionParts a) (versionParts b)"
  by (auto simp: CompareVersions_def cmp3_def less_prod_def split: prod.splits)

interpretation release: keyed_comparator CompareVersions versionParts
  by unfold_locales (rule CompareVersions_cmp3)

section \<open>The numbers of a tag\<close>

text \<open>A tag whose parts are digits only, and the numbers it denotes.\<close>

definition digit_tag :: "gostring \<Rightarrow> bool" where
  "digit_tag v \<longleftrightarrow> list_all (list_all is_digit_char) (split_byte (bare_version v) (CHR ''.''))"

definition tag_numbers :: "gostring \<Rightarrow> int \<times> int \<times> int" where
  "tag_numbers v =
     (case map (\<lambda>p. int (digits_value p)) (split_byte (bare_version v) (CHR ''.'')) of
        [a, b] \<Rightarrow> (a, b, 0) | [a, b, c] \<Rightarrow> (a, b, c) | _ \<Rightarrow> (0, 0, 0))"

lemma split_byte_index:
  "split_byte s c =
     (case index_byte s c of None \<Rightarrow> [s] | Some i \<Rightarrow> take i s # split_byte (drop (Suc i) s) c)"
  by (induction s) (auto split: option.splits)

lemma splitn_split: "length (split_byte s c) \<le> n \<Longrightarrow> splitn_byte n s c = split_byte s c"
proof (induction n s c rule: splitn_byte.induct)
  case (1 s c)
  then show ?case by simp
next
  case (2 s c)
  then show ?case
    by (subst split_byte_index, subst (asm) split_byte_index) (auto split: option.splits)
next
  case (3 n s c)
  then show ?case
    by (subst split_byte_index, subst (asm) (2) split_byte_index) (auto split: option.splits)
qed

lemma index_any_None: "set s \<inter> set cs = {} \<Longrightarrow> index_any s cs = None"
  by (induction s) auto

lemma digit_not_sign: "is_digit_char c \<Longrightarrow> c \<noteq> CHR ''-'' \<and> c \<noteq> CHR ''+''"
  by (auto simp: is_digit_char_def byte_def)

lemma part_num_digits: "list_all is_digit_char p \<Longrightarrow> part_num p = p"
  using index_any_None [of p "''-+''"] digit_not_sign by (fastforce simp: part_num_def list_all_iff)

lemma atoi_digits: "list_all is_digit_char p \<Longrightarrow> atoi p = Some n \<Longrightarrow> n = int (digits_value p)"
  using digit_not_sign by (cases p) (auto simp: atoi_def Let_def split: if_splits)

lemma clean_numbers:
  assumes "isCleanRelease v" and "digit_tag v"
  shows "versionParts v = tag_numbers v"
proof -
  let ?ps = "split_byte (bare_version v) (CHR ''.'')"
  have len: "2 \<le> length ?ps" "length ?ps \<le> 3"
    and ok: "p \<in> set ?ps \<Longrightarrow> p \<noteq> [] \<and> atoi p \<noteq> None" for p
    using assms(1) by (auto simp: isCleanRelease_def Let_def list_all_iff)
  have dig: "p \<in> set ?ps \<Longrightarrow> list_all is_digit_char p" for p
    using assms(2) by (simp add: digit_tag_def list_all_iff)
  have pn: "p \<in> set ?ps \<Longrightarrow> part_num p = p" for p
    using dig part_num_digits by blast
  have val: "p \<in> set ?ps \<Longrightarrow> atoi_or_0 p = int (digits_value p)" for p
    using ok [of p] dig [of p] atoi_digits [of p] by (auto simp: atoi_or_0_def)
  have split: "splitn_byte 3 (bare_version v) (CHR ''.'') = ?ps"
    using len by (intro splitn_split) simp
  have "bare_version v \<noteq> []" "bare_version v \<noteq> ''dev''" using len by (auto simp: eval_nat_numeral)
  then have n: "normalize v = bare_version v"
    using ok pn by (simp add: normalize_def Let_def split list_all_iff)
  have "map (\<lambda>p. atoi_or_0 (part_num p)) ?ps = map (\<lambda>p. int (digits_value p)) ?ps"
    using pn val by simp
  then have parts: "versionParts v =
      (let ns = map (\<lambda>p. int (digits_value p)) ?ps; at = (\<lambda>i. if i < length ns then ns ! i else 0)
       in (at 0, at 1, at 2))"
    using \<open>bare_version v \<noteq> []\<close> by (simp add: versionParts_def n split Let_def)
  from len consider a b where "?ps = [a, b]" | a b d where "?ps = [a, b, d]"
    by (cases ?ps rule: list.exhaust; cases "tl ?ps" rule: list.exhaust; cases "tl (tl ?ps)" rule: list.exhaust;
        cases "tl (tl (tl ?ps))") auto
  then show ?thesis unfolding parts by cases (simp_all add: tag_numbers_def)
qed

section \<open>The nudge\<close>

record check_cache =
  CheckedAt :: int
  LatestVersion :: gostring

definition nudgeTTL :: int where "nudgeTTL = 86400000000000"

definition nudge_message :: "gostring \<Rightarrow> gostring" where
  "nudge_message latest =
     [CHR 0xE2, CHR 0x84, CHR 0xB9] @ variation_selector @ ''  dsd '' @ latest @
     '' available '' @ em_dash @ '' run `dsd update`  (silence: DSD_NO_UPDATE_CHECK=1)''"

text \<open>
  The message, the cache afterwards, and whether the network was used. \<open>refresh\<close> is the tag of the
  newest release, if it could be fetched, and \<open>saved\<close> whether the cache file could be written.
\<close>

definition MaybeNudge ::
  "bool \<Rightarrow> bool \<Rightarrow> int \<Rightarrow> gostring option \<Rightarrow> bool \<Rightarrow> check_cache option \<Rightarrow> gostring \<Rightarrow>
   gostring \<times> check_cache option \<times> bool" where
  "MaybeNudge disabled networkAllowed now refresh saved cache current =
     (if disabled then ([], cache, False)
      else if \<not> isCleanRelease current then ([], cache, False)
      else
        let stale = (case cache of None \<Rightarrow> True | Some c \<Rightarrow> nudgeTTL < now - CheckedAt c);
            fetched = stale \<and> networkAllowed;
            cache = (if fetched then (case refresh of None \<Rightarrow> cache
                       | Some tag \<Rightarrow> if saved then Some \<lparr>CheckedAt = now, LatestVersion = tag\<rparr> else cache)
                     else cache)
        in ((case cache of None \<Rightarrow> []
             | Some c \<Rightarrow> if IsNewer current (LatestVersion c) then nudge_message (LatestVersion c) else []),
            cache, fetched))"

section \<open>Minisign\<close>

text \<open>\<open>base64.StdEncoding.DecodeString\<close>: carriage returns and newlines are ignored, padding is required.\<close>

definition b64_value :: "char \<Rightarrow> nat option" where
  "b64_value c =
     (let b = byte c
      in if 65 \<le> b \<and> b \<le> 90 then Some (b - 65)
         else if 97 \<le> b \<and> b \<le> 122 then Some (b - 71)
         else if 48 \<le> b \<and> b \<le> 57 then Some (b + 4)
         else if c = CHR ''+'' then Some 62
         else if c = CHR ''/'' then Some 63
         else None)"

fun b64_groups :: "gostring \<Rightarrow> gostring option" where
  "b64_groups [] = Some []"
| "b64_groups (a # b # c # d # r) =
     (case (b64_value a, b64_value b) of
        (Some va, Some vb) \<Rightarrow>
          (if c = CHR ''='' then
             (if d = CHR ''='' \<and> r = [] then Some [chr (va * 4 + vb div 16)] else None)
           else (case b64_value c of
             None \<Rightarrow> None
           | Some vc \<Rightarrow>
               if d = CHR ''='' then
                 (if r = [] then Some [chr (va * 4 + vb div 16), chr (vb mod 16 * 16 + vc div 4)] else None)
               else (case b64_value d of
                 None \<Rightarrow> None
               | Some vd \<Rightarrow>
                   map_option (\<lambda>bs. [chr (va * 4 + vb div 16), chr (vb mod 16 * 16 + vc div 4),
                                    chr (vc mod 4 * 64 + vd)] @ bs) (b64_groups r))))
      | _ \<Rightarrow> None)"
| "b64_groups _ = None"

definition b64_decode :: "gostring \<Rightarrow> gostring option" where
  "b64_decode s = b64_groups (filter (\<lambda>c. byte c \<noteq> 10 \<and> byte c \<noteq> 13) s)"

definition lastDataLine :: "gostring \<Rightarrow> gostring" where
  "lastDataLine s =
     foldl (\<lambda>lst l.
        let l = trim_space l
        in if l = [] \<or> has_prefix l ''untrusted comment:'' \<or> has_prefix l ''trusted comment:'' then lst else l)
       [] (split_byte s (CHR 0x0A))"

datatype minisign_error =
    KeyBase64 | KeyLength | KeyAlgorithm | Malformed | SigBase64 | SigLength | WrongKeyID
  | SigAlgorithm | DoesNotVerify | GlobalBase64 | CommentDoesNotVerify

definition parseMinisignPublicKey :: "gostring \<Rightarrow> minisign_error + gostring \<times> gostring" where
  "parseMinisignPublicKey pub =
     (case b64_decode (lastDataLine pub) of
        None \<Rightarrow> Inl KeyBase64
      | Some raw \<Rightarrow>
          if length raw \<noteq> 42 then Inl KeyLength
          else if take 2 raw \<noteq> ''Ed'' then Inl KeyAlgorithm
          else Inr (take 8 (drop 2 raw), drop 10 raw))"

text \<open>\<open>strings.ReplaceAll(s, "\r\n", "\n")\<close>.\<close>

fun drop_cr :: "gostring \<Rightarrow> gostring" where
  "drop_cr (c # d # s) = (if byte c = 13 \<and> byte d = 10 then d # drop_cr s else c # drop_cr (d # s))"
| "drop_cr s = s"

type_synonym verifier = "gostring \<Rightarrow> gostring \<Rightarrow> gostring \<Rightarrow> bool"

definition signed_message :: "(gostring \<Rightarrow> gostring) \<Rightarrow> gostring \<Rightarrow> gostring \<Rightarrow> gostring option" where
  "signed_message blake2b algo file =
     (if algo = ''ED'' then Some (blake2b file) else if algo = ''Ed'' then Some file else None)"

definition trusted_comment :: "gostring \<Rightarrow> gostring" where
  "trusted_comment line =
     (case cut_prefix line ''trusted comment:'' of None \<Rightarrow> [] | Some tc \<Rightarrow> trim_prefix tc '' '')"

definition verifyMinisign ::
  "verifier \<Rightarrow> (gostring \<Rightarrow> gostring) \<Rightarrow> gostring \<Rightarrow> gostring \<Rightarrow> gostring \<Rightarrow> minisign_error + gostring" where
  "verifyMinisign ed25519 blake2b pubLine file sigFile =
     (case parseMinisignPublicKey pubLine of
        Inl e \<Rightarrow> Inl e
      | Inr (keyID, pub) \<Rightarrow>
          let lines = split_byte (drop_cr sigFile) (CHR 0x0A)
          in if length lines < 4 then Inl Malformed
             else (case b64_decode (trim_space (lines ! 1)) of
               None \<Rightarrow> Inl SigBase64
             | Some sigRaw \<Rightarrow>
                 if length sigRaw \<noteq> 74 then Inl SigLength
                 else if take 8 (drop 2 sigRaw) \<noteq> keyID then Inl WrongKeyID
                 else
                   let sig = drop 10 sigRaw
                   in (case signed_message blake2b (take 2 sigRaw) file of
                     None \<Rightarrow> Inl SigAlgorithm
                   | Some msg \<Rightarrow>
                       if \<not> ed25519 pub msg sig then Inl DoesNotVerify
                       else
                         let tc = trusted_comment (lines ! 2)
                         in (case b64_decode (trim_space (lines ! 3)) of
                           None \<Rightarrow> Inl GlobalBase64
                         | Some globalSig \<Rightarrow>
                             if \<not> ed25519 pub (sig @ tc) globalSig then Inl CommentDoesNotVerify
                             else Inr tc))))"

definition trustedCommentNamesRelease :: "gostring \<Rightarrow> gostring \<Rightarrow> bool" where
  "trustedCommentNamesRelease comment tag \<longleftrightarrow> tag \<in> set (Go_Prelude.fields comment)"

section \<open>Applying a release\<close>

record asset =
  AssetName :: gostring
  AssetURL :: gostring

record release =
  TagName :: gostring
  Assets :: "asset list"

datatype update_error =
    NoAsset | NoChecksums | InvalidURL | NotHTTPS | UntrustedHost | RequestFailed | TooLarge
  | NotSigned | SignatureFetch update_error | SignatureInvalid minisign_error | OtherRelease
  | NoChecksumLine | NoExecutable | StageFailed | ChecksumMismatch | ChmodFailed | RenameFailed

definition findAsset :: "asset list \<Rightarrow> gostring \<Rightarrow> asset option" where
  "findAsset assets name = find (\<lambda>a. AssetName a = name) assets"

text \<open>
  The world of an update: the scheme and host name of a URL, the body of a successful GET, SHA-256 in
  hexadecimal, signature verification, Blake2b, and which of the calls on the file system fail.
\<close>

datatype fs_call = Executable | StageTemp | CopyBody | CloseTemp | Chmod | Rename

record world =
  ParseURL :: "gostring \<Rightarrow> (gostring \<times> gostring) option"
  Get :: "gostring \<Rightarrow> gostring option"
  Sha256 :: "gostring \<Rightarrow> gostring"
  Ed25519 :: verifier
  Blake2b :: "gostring \<Rightarrow> gostring"
  Fails :: "fs_call \<Rightarrow> bool"

definition maxAPIResponseBytes :: int where "maxAPIResponseBytes = 4194304"
definition maxDownloadBytes :: int where "maxDownloadBytes = 536870912"

definition assetURLAllowedHosts :: "gostring list" where
  "assetURLAllowedHosts =
     [''github.com'', ''objects.githubusercontent.com'', ''release-assets.githubusercontent.com'']"

definition validateAssetURL :: "world \<Rightarrow> gostring \<Rightarrow> update_error option" where
  "validateAssetURL w rawURL =
     (case ParseURL w rawURL of
        None \<Rightarrow> Some InvalidURL
      | Some (scheme, host) \<Rightarrow>
          if scheme \<noteq> ''https'' then Some NotHTTPS
          else if host \<notin> set assetURLAllowedHosts then Some UntrustedHost
          else None)"

definition httpGet :: "world \<Rightarrow> gostring \<Rightarrow> update_error + gostring" where
  "httpGet w rawURL =
     (case validateAssetURL w rawURL of
        Some e \<Rightarrow> Inl e
      | None \<Rightarrow> (case Get w rawURL of None \<Rightarrow> Inl RequestFailed | Some body \<Rightarrow> Inr body))"

definition fetchBytes :: "world \<Rightarrow> gostring \<Rightarrow> update_error + gostring" where
  "fetchBytes w url =
     (case httpGet w url of
        Inl e \<Rightarrow> Inl e
      | Inr data \<Rightarrow> if maxAPIResponseBytes < int (length data) then Inl TooLarge else Inr data)"

definition checksumFor :: "gostring \<Rightarrow> gostring \<Rightarrow> gostring option" where
  "checksumFor data assetName =
     map_option (\<lambda>line. hd (Go_Prelude.fields line))
       (find (\<lambda>line. let fs = Go_Prelude.fields line in length fs = 2 \<and> fs ! 1 = assetName)
          (split_byte data (CHR 0x0A)))"

text \<open>\<^const>\<open>None\<close> is a nil error.\<close>

definition verifyChecksumsSignatureKey ::
  "world \<Rightarrow> gostring \<Rightarrow> release \<Rightarrow> gostring \<Rightarrow> update_error option" where
  "verifyChecksumsSignatureKey w pubKey rel sumsBody =
     (if pubKey = [] then None
      else (case findAsset (Assets rel) ''checksums.txt.minisig'' of
        None \<Rightarrow> Some NotSigned
      | Some sig \<Rightarrow>
          (case fetchBytes w (AssetURL sig) of
             Inl e \<Rightarrow> Some (SignatureFetch e)
           | Inr sigBody \<Rightarrow>
               (case verifyMinisign (Ed25519 w) (Blake2b w) pubKey sumsBody sigBody of
                  Inl e \<Rightarrow> Some (SignatureInvalid e)
                | Inr comment \<Rightarrow>
                    if \<not> trustedCommentNamesRelease comment (TagName rel) then Some OtherRelease else None))))"

text \<open>The staged bytes and their checksum.\<close>

definition downloadToTemp :: "world \<Rightarrow> gostring \<Rightarrow> update_error + gostring \<times> gostring" where
  "downloadToTemp w url =
     (case httpGet w url of
        Inl e \<Rightarrow> Inl e
      | Inr body \<Rightarrow>
          if Fails w StageTemp then Inl StageFailed
          else if Fails w CopyBody then Inl RequestFailed
          else if maxDownloadBytes < int (length body) then Inl TooLarge
          else if Fails w CloseTemp then Inl StageFailed
          else Inr (body, Sha256 w body))"

text \<open>\<open>Inr\<close> is the new content of the running executable; on \<open>Inl\<close> it is as before.\<close>

definition Apply :: "world \<Rightarrow> gostring \<Rightarrow> gostring \<Rightarrow> release \<Rightarrow> update_error + gostring" where
  "Apply w signingPublicKey name rel =
     (case findAsset (Assets rel) name of
        None \<Rightarrow> Inl NoAsset
      | Some bin \<Rightarrow>
     (case findAsset (Assets rel) ''checksums.txt'' of
        None \<Rightarrow> Inl NoChecksums
      | Some sums \<Rightarrow>
     (case fetchBytes w (AssetURL sums) of
        Inl e \<Rightarrow> Inl e
      | Inr sumsBody \<Rightarrow>
     (case verifyChecksumsSignatureKey w signingPublicKey rel sumsBody of
        Some e \<Rightarrow> Inl e
      | None \<Rightarrow>
     (case checksumFor sumsBody name of
        None \<Rightarrow> Inl NoChecksumLine
      | Some wantSum \<Rightarrow>
          if Fails w Executable then Inl NoExecutable
          else
     (case downloadToTemp w (AssetURL bin) of
        Inl e \<Rightarrow> Inl e
      | Inr (tmp, gotSum) \<Rightarrow>
          if \<not> equal_fold gotSum wantSum then Inl ChecksumMismatch
          else if Fails w Chmod then Inl ChmodFailed
          else if Fails w Rename then Inl RenameFailed
          else Inr tmp))))))"

section \<open>What a successful update means\<close>

definition trusted_url :: "world \<Rightarrow> gostring \<Rightarrow> bool" where
  "trusted_url w u \<longleftrightarrow> (\<exists>host \<in> set assetURLAllowedHosts. ParseURL w u = Some (''https'', host))"

definition signed_for :: "world \<Rightarrow> gostring \<Rightarrow> gostring \<Rightarrow> gostring \<Rightarrow> bool" where
  "signed_for w pubKey tag file \<longleftrightarrow>
     (\<exists>keyID pub msg sig gsig comment.
        parseMinisignPublicKey pubKey = Inr (keyID, pub) \<and> (msg = file \<or> msg = Blake2b w file) \<and>
        Ed25519 w pub msg sig \<and> Ed25519 w pub (sig @ comment) gsig \<and>
        tag \<in> set (Go_Prelude.fields comment))"

lemma validateAssetURL_None: "validateAssetURL w u = None \<longleftrightarrow> trusted_url w u"
  by (auto simp: validateAssetURL_def trusted_url_def split: option.splits)

lemma fetchBytes_Inr: "fetchBytes w u = Inr b \<Longrightarrow> trusted_url w u \<and> Get w u = Some b"
  by (auto simp: fetchBytes_def httpGet_def validateAssetURL_None split: option.splits sum.splits if_splits)

lemma downloadToTemp_Inr:
  "downloadToTemp w u = Inr (b, h) \<Longrightarrow> trusted_url w u \<and> Get w u = Some b \<and> h = Sha256 w b"
  by (auto simp: downloadToTemp_def httpGet_def validateAssetURL_None split: option.splits sum.splits if_splits)

lemma signed_message_Some: "signed_message bl algo file = Some msg \<Longrightarrow> msg = file \<or> msg = bl file"
  by (auto simp: signed_message_def split: if_splits)

lemma verifyMinisign_Inr:
  "verifyMinisign ed bl pk file sg = Inr c \<Longrightarrow>
     \<exists>keyID pub msg sig gsig. parseMinisignPublicKey pk = Inr (keyID, pub) \<and> (msg = file \<or> msg = bl file) \<and>
       ed pub msg sig \<and> ed pub (sig @ c) gsig"
  by (auto simp: verifyMinisign_def Let_def split: sum.splits prod.splits option.splits if_splits
      dest!: signed_message_Some)

lemma signature_checked:
  "pk \<noteq> [] \<Longrightarrow> verifyChecksumsSignatureKey w pk rel sums = None \<Longrightarrow> signed_for w pk (TagName rel) sums"
  unfolding signed_for_def verifyChecksumsSignatureKey_def trustedCommentNamesRelease_def
  by (auto split: option.splits sum.splits if_splits dest!: verifyMinisign_Inr) blast+

text \<open>A world for the witness: one release with a signed checksum file.\<close>

definition demo_key :: gostring where
  "demo_key = ''RWRBQUFBQUFBQUFBQUFBQUFBQUFBQUFBQUFBQUFBQUFBQUFBQUFBQUFB''"

definition demo_signature :: gostring where
  "demo_signature =
     ''untrusted comment: x'' @ newline @
     ''RWRBQUFBQUFBQUFBQUFBQUFBQUFBQUFBQUFBQUFBQUFBQUFBQUFBQUFBQUFBQUFBQUFBQUFBQUFBQUFBQUFBQUFBQUFBQUFBQUE='' @ newline @
     ''trusted comment: dsd v1.2 checksums'' @ newline @ ''eA=='' @ newline"

definition demo_world :: world where
  "demo_world =
     \<lparr>ParseURL = (\<lambda>u. Some (''https'', ''github.com'')),
      Get = map_of [(''b'', ''binary''), (''c'', ''ab  dsd-linux-amd64'' @ newline), (''s'', demo_signature)],
      Sha256 = (\<lambda>_. ''ab''), Ed25519 = (\<lambda>_ _ _. True), Blake2b = (\<lambda>f. f), Fails = (\<lambda>_. False)\<rparr>"

definition demo_release :: release where
  "demo_release =
     \<lparr>TagName = ''v1.2'',
      Assets = [\<lparr>AssetName = ''dsd-linux-amd64'', AssetURL = ''b''\<rparr>,
                \<lparr>AssetName = ''checksums.txt'', AssetURL = ''c''\<rparr>,
                \<lparr>AssetName = ''checksums.txt.minisig'', AssetURL = ''s''\<rparr>]\<rparr>"

section \<open>Properties\<close>

text \<open>C21: The updater is fail-closed. When a signing key is built in, the binary is replaced only by bytes
  that were fetched over https from an allowed host, whose SHA-256 is the one listed for this platform
  in a checksum file that carries a valid signature by the built-in key, with a trusted comment, bound
  by the same key, that names exactly this release.\<close>

theorem Apply_authentic:
  assumes "Apply w pk name rel = Inr b" and "pk \<noteq> []"
  shows "\<exists>bin sums body want.
    findAsset (Assets rel) name = Some bin \<and> trusted_url w (AssetURL bin) \<and> Get w (AssetURL bin) = Some b \<and>
    findAsset (Assets rel) ''checksums.txt'' = Some sums \<and> trusted_url w (AssetURL sums) \<and>
    Get w (AssetURL sums) = Some body \<and> signed_for w pk (TagName rel) body \<and>
    checksumFor body name = Some want \<and> equal_fold (Sha256 w b) want"
  using assms
  by (auto simp: Apply_def split: option.splits sum.splits prod.splits if_splits
      dest!: fetchBytes_Inr downloadToTemp_Inr signature_checked)

theorem Apply_authentic_witness:
  "signed_for demo_world demo_key ''v1.2'' (''ab  dsd-linux-amd64'' @ newline)"
proof -
  have "Apply demo_world demo_key ''dsd-linux-amd64'' demo_release = Inr ''binary''" by code_simp
  moreover have "demo_key \<noteq> []" by (simp add: demo_key_def)
  ultimately show ?thesis
    using Apply_authentic [of demo_world demo_key "''dsd-linux-amd64''" demo_release "''binary''"]
    by (simp add: demo_release_def demo_world_def findAsset_def)
qed

text \<open>C34: On tags whose parts are plain digits, \<open>IsNewer\<close> compares the releases by their numbers: it holds
  exactly when both are clean tags, of two or three parts within 64 bits, and the numbers the digits
  denote, a missing third one being 0, are larger in lexicographic order. So no such version is newer
  than itself and the relation is transitive on them. A signed part, which \<open>isCleanRelease\<close> lets through, is not
  in the claim (\<open>clean_release_with_sign\<close>).\<close>

theorem IsNewer_order:
  assumes "digit_tag c" and "digit_tag l" and "digit_tag m"
  shows "(IsNewer c l \<longleftrightarrow> isCleanRelease c \<and> isCleanRelease l \<and> tag_numbers c < tag_numbers l) \<and>
    \<not> IsNewer c c \<and> (IsNewer c l \<longrightarrow> IsNewer l m \<longrightarrow> IsNewer c m)"
proof -
  have iff: "IsNewer c l \<longleftrightarrow> isCleanRelease c \<and> isCleanRelease l \<and> tag_numbers c < tag_numbers l"
    if "digit_tag c" "digit_tag l" for c l
    using that release.older_iff [of c l] release.swap [of c l] clean_numbers
    by (auto simp: IsNewer_def)
  show ?thesis using assms by (auto simp: iff)
qed

theorem IsNewer_order_witness:
  "IsNewer ''v1.9'' ''v1.10.0'' \<and> \<not> IsNewer ''v1.9'' ''v1.9.0''"
proof -
  have t: "digit_tag ''v1.9''" "digit_tag ''v1.10.0''" "digit_tag ''v1.9.0''" by code_simp+
  have c: "isCleanRelease ''v1.9''" "isCleanRelease ''v1.10.0''" by code_simp+
  have n: "tag_numbers ''v1.9'' < tag_numbers ''v1.10.0''" "\<not> tag_numbers ''v1.9'' < tag_numbers ''v1.9.0''"
    by code_simp+
  show ?thesis using IsNewer_order [OF t(1,2,2)] IsNewer_order [OF t(1,3,3)] c n by blast
qed

text \<open>The nudge uses the network only when it may, and speaks only about a newer release.\<close>

lemma MaybeNudge_policy:
  assumes "MaybeNudge disabled allowed now refresh saved cache current = (msg, cache', fetched)"
  shows "(fetched \<longrightarrow> allowed \<and> \<not> disabled) \<and> (\<not> fetched \<longrightarrow> cache' = cache) \<and>
    (msg \<noteq> [] \<longrightarrow> (\<exists>c. cache' = Some c \<and> IsNewer current (LatestVersion c) \<and> msg = nudge_message (LatestVersion c)))"
  using assms by (auto simp: MaybeNudge_def Let_def split: if_splits option.splits)

text \<open>\<open>isCleanRelease\<close> accepts signs, which \<open>strconv.Atoi\<close> reads and \<open>normalize\<close> does not.\<close>

lemma clean_release_with_sign:
  "isCleanRelease ''v1.+2'' \<and> versionParts ''v1.+2'' = (0, 0, 0)"
  by code_simp

end
