(* ===== verification/Report_Output.thy ===== *)
theory Report_Output
  imports Correlate Monitoring
begin

text \<open>
  What a run shows beside its verdict: the top catch (\<open>internal/render/topcatch.go\<close>), the JSON document
  (\<open>json.go\<close>) and the changes between two refreshes of \<open>--watch\<close> (\<open>watchdiff.go\<close>). The inline summary of a
  result, the host identity and the clock are parameters; terminal styles are not modelled.
\<close>

section \<open>The top catch\<close>

record top_catch =
  Topic :: gostring
  TSeverity :: gostring
  TSummary :: gostring
  Fix :: gostring

definition topCatchSeverityOrder :: "gostring \<Rightarrow> int" where
  "topCatchSeverityOrder l = map_get 0 [(CRIT, 2), (WARN, 1)] l"

definition topCatchFallbackFix :: gostring where
  "topCatchFallbackFix = ''dsd health --explain''"

text \<open>
  \<open>checkSlug\<close> ranges over runes: every byte of a multi-byte rune is outside the alphabet, and a run of
  such bytes gives one dash like a run of such runes.
\<close>

fun slug_loop :: "bool \<Rightarrow> gostring \<Rightarrow> gostring" where
  "slug_loop prevDash [] = []"
| "slug_loop prevDash (c # s) =
     (if (97 \<le> byte c \<and> byte c \<le> 122) \<or> is_digit_char c then c # slug_loop False s
      else if \<not> prevDash then CHR ''-'' # slug_loop True s
      else slug_loop prevDash s)"

definition checkSlug :: "gostring \<Rightarrow> gostring" where
  "checkSlug name = trim_suffix (slug_loop True (to_lower (base_name name))) ''-''"

definition max_severity :: "insight list \<Rightarrow> correlation list \<Rightarrow> int" where
  "max_severity insights corrs =
     foldl (\<lambda>m c. if m < topCatchSeverityOrder (CoLevel c) then topCatchSeverityOrder (CoLevel c) else m)
       (foldl (\<lambda>m i. if m < topCatchSeverityOrder (Level i) then topCatchSeverityOrder (Level i) else m) 0 insights)
       corrs"

definition better_catch :: "int \<Rightarrow> insight option \<Rightarrow> insight \<Rightarrow> insight option" where
  "better_catch maxSev best ins =
     (if topCatchSeverityOrder (Level ins) \<noteq> maxSev then best
      else (case best of
        None \<Rightarrow> Some ins
      | Some b \<Rightarrow>
          let bestHasFix = Hints b \<noteq> []; insHasFix = Hints ins \<noteq> []
          in if insHasFix \<noteq> bestHasFix then (if insHasFix then Some ins else best)
             else if Check ins < Check b then Some ins else best))"

definition ComputeTopCatch :: "insight list \<Rightarrow> correlation list \<Rightarrow> top_catch option" where
  "ComputeTopCatch insights corrs =
     (let maxSev = max_severity insights corrs
      in if maxSev = 0 then None
         else
           let sevName = (if maxSev = 2 then CRIT else WARN)
           in (case find (\<lambda>c. topCatchSeverityOrder (CoLevel c) = maxSev) corrs of
                 Some c \<Rightarrow>
                   Some \<lparr>Topic = (if CoChecks c \<noteq> [] then checkSlug (hd (CoChecks c)) else []),
                         TSeverity = sevName, TSummary = CoSummary c, Fix = CoAction c\<rparr>
               | None \<Rightarrow>
                   (case foldl (better_catch maxSev) None insights of
                      None \<Rightarrow> None
                    | Some best \<Rightarrow>
                        Some \<lparr>Topic = checkSlug (Check best), TSeverity = sevName, TSummary = Message best,
                              Fix = (if Hints best \<noteq> [] then hd (Hints best) else topCatchFallbackFix)\<rparr>)))"

definition TopCatchLine :: "gostring \<Rightarrow> gostring \<Rightarrow> insight list \<Rightarrow> top_catch option" where
  "TopCatchLine goos initSystem insights =
     map_option (\<lambda>t. t\<lparr>TSummary := output_SanitizeControl (TSummary t), Fix := output_SanitizeControl (Fix t)\<rparr>)
       (ComputeTopCatch insights (Correlate goos initSystem insights))"

section \<open>The JSON document\<close>

record json_check =
  JName :: gostring
  JStatus :: gostring
  JInline :: gostring
  JDuration :: int
  JError :: gostring
  JRaw :: data
  JCoverage :: gostring
  JCoverageReason :: gostring
  JNotCheckedSubchecks :: "sub_check list"

record json_counts =
  JCrit :: int
  JWarn :: int
  JInfo :: int
  JErrored :: int
  JUnverified :: int
  JNeedsRoot :: int

text \<open>The insights of the document have the fields of the insights themselves.\<close>

record json_output =
  JVerdict :: gostring
  JCounts :: json_counts
  JChecks :: "json_check list"
  JInsights :: "insight list"
  JTopCatch :: "top_catch option"
  JSummary :: coverage_summary
  JNotApplicable :: "(gostring \<times> gostring) list"

definition severityOrder :: "gostring \<Rightarrow> int" where
  "severityOrder level = (if level = CRIT then 2 else if level = WARN then 1 else 0)"

definition insight_map :: "insight list \<Rightarrow> (gostring, insight) gomap" where
  "insight_map insights =
     foldl (\<lambda>m ins. case map_of m (Check ins) of
         None \<Rightarrow> map_put m (Check ins) ins
       | Some prev \<Rightarrow>
           if severityOrder (Level prev) < severityOrder (Level ins) then map_put m (Check ins) ins else m)
       [] insights"

definition qualified_status :: "(gostring, insight) gomap \<Rightarrow> gostring \<Rightarrow> gostring" where
  "qualified_status m name =
     foldl (\<lambda>status (chk, ins).
         if (has_prefix chk (name @ '' '') \<or> has_prefix chk (name @ ''/'')) \<and>
            severityOrder status < severityOrder (Level ins)
         then Level ins else status)
       OK m"

definition json_status :: "(gostring, insight) gomap \<Rightarrow> result \<Rightarrow> gostring" where
  "json_status m r =
     (if Err r \<noteq> None then ''ERROR''
      else (case map_of m (Name r) of
        Some ins \<Rightarrow> if Level ins \<noteq> OK then Level ins else qualified_status m (Name r)
      | None \<Rightarrow> qualified_status m (Name r)))"

definition no_coverage :: check_coverage where
  "no_coverage = \<lparr>CName = [], Coverage = [], Reason = [], NotCheckedSubchecks = []\<rparr>"

definition cov_by_name :: "coverage_summary \<Rightarrow> (gostring, check_coverage) gomap" where
  "cov_by_name cov = foldl (\<lambda>m cc. map_put m (CName cc) cc) [] (Checks cov)"

definition json_check_of ::
  "(result \<Rightarrow> gostring) \<Rightarrow> (gostring, insight) gomap \<Rightarrow> (gostring, check_coverage) gomap \<Rightarrow> result \<Rightarrow>
   json_check option" where
  "json_check_of inline m byName r =
     (let cc = map_get no_coverage byName (Name r)
      in if Coverage cc = CoverageNotApplicable then None
         else Some \<lparr>JName = Name r, JStatus = json_status m r, JInline = inline r, JDuration = Duration r,
                    JError = (case Err r of None \<Rightarrow> [] | Some e \<Rightarrow> ErrText e), JRaw = RData r,
                    JCoverage = Coverage cc, JCoverageReason = Reason cc,
                    JNotCheckedSubchecks = NotCheckedSubchecks cc\<rparr>)"

definition insight_key :: "insight \<Rightarrow> int \<times> gostring \<times> gostring" where
  "insight_key i = (- severityOrder (Level i), Check i, Message i)"

definition buildOutput ::
  "(result \<Rightarrow> gostring) \<Rightarrow> gostring \<Rightarrow> gostring \<Rightarrow> result list \<Rightarrow> insight list \<Rightarrow> json_output" where
  "buildOutput inline goos initSystem results insights =
     (let m = insight_map insights;
          cov = CoverageOf results insights;
          checks = List.map_filter (json_check_of inline m (cov_by_name cov)) results;
          jsonInsights = filter (\<lambda>i. Level i \<noteq> OK) insights;
          v = Verdict results insights
      in \<lparr>JVerdict = VLevel v,
          JCounts = \<lparr>JCrit = Crit v, JWarn = Warn v, JInfo = Info v, JErrored = Errored v,
                     JUnverified = VUnverified v, JNeedsRoot = VNeedsRoot v\<rparr>,
          JChecks = sort_key JName checks,
          JInsights = sort_key insight_key jsonInsights,
          JTopCatch = ComputeTopCatch insights (Correlate goos initSystem insights),
          JSummary = cov,
          JNotApplicable = map (\<lambda>na. (CName na, Reason na)) (NotApplicableChecks cov)\<rparr>)"

section \<open>Watching\<close>

text \<open>
  The replacement of \<open>\b\d+(\.\d+)?\b\<close>: the flag says whether the byte before is a word character. A
  number glued to a word character is no match, and none of its digits starts one.
\<close>

definition at_boundary :: "gostring \<Rightarrow> bool" where
  "at_boundary s \<longleftrightarrow> s = [] \<or> \<not> word_char (hd s)"

definition number_rest :: "gostring \<Rightarrow> gostring option" where
  "number_rest s =
     (let r = dropWhile is_digit_char s
      in if r \<noteq> [] \<and> hd r = CHR ''.'' \<and> tl r \<noteq> [] \<and> is_digit_char (hd (tl r)) \<and>
            at_boundary (dropWhile is_digit_char (tl r))
         then Some (dropWhile is_digit_char (tl r))
         else if at_boundary r then Some r
         else None)"

lemma number_rest_length:
  "is_digit_char c \<Longrightarrow> number_rest (c # s) = Some r \<Longrightarrow> length r < length (c # s)"
proof -
  assume c: "is_digit_char c" and r: "number_rest (c # s) = Some r"
  let ?d = "dropWhile is_digit_char s"
  have d: "length ?d \<le> length s" by (rule length_dropWhile_le)
  have "length (dropWhile is_digit_char (tl ?d)) \<le> length ?d"
    by (metis length_dropWhile_le length_tl diff_le_self order_trans)
  with c r d show ?thesis by (auto simp: number_rest_def Let_def split: if_splits)
qed

function replace_numbers :: "bool \<Rightarrow> gostring \<Rightarrow> gostring" where
  "replace_numbers after_word [] = []"
| "replace_numbers after_word (c # s) =
     (case (if \<not> after_word \<and> is_digit_char c then number_rest (c # s) else None) of
        Some r \<Rightarrow> CHR ''#'' # replace_numbers True r
      | None \<Rightarrow> c # replace_numbers (word_char c) s)"
  by pat_completeness auto
termination
proof (relation "measure (\<lambda>(_, s). length s)", simp_all only: wf_measure in_measure prod.case)
  fix after_word c s r
  assume "(if \<not> after_word \<and> is_digit_char c then number_rest (c # s) else None) = Some r"
  then show "length r < length (c # s)" by (intro number_rest_length) (auto split: if_splits)
qed simp

definition insightSignature :: "insight \<Rightarrow> gostring" where
  "insightSignature i = Check i @ ''|'' @ replace_numbers False (Message i)"

record insight_change =
  ChInsight :: insight
  FromLevel :: gostring
  ToLevel :: gostring

definition severityRank :: "gostring \<Rightarrow> int" where
  "severityRank l = (if l = CRIT then 3 else if l = WARN then 2 else if l = INFO then 1 else 0)"

definition sortInsights :: "insight list \<Rightarrow> insight list" where
  "sortInsights = sort_key (\<lambda>i. (- severityRank (Level i), Check i))"

definition by_signature :: "insight list \<Rightarrow> (gostring, insight) gomap" where
  "by_signature is = foldl (\<lambda>m i. map_put m (insightSignature i) i) [] is"

definition InsightChanges ::
  "insight list \<Rightarrow> insight list \<Rightarrow> insight list \<times> insight list \<times> insight_change list" where
  "InsightChanges prev cur =
     (let prevBySig = by_signature prev; curBySig = by_signature cur
      in (sortInsights (filter (\<lambda>i. \<not> map_has prevBySig (insightSignature i)) cur),
          sortInsights (filter (\<lambda>i. \<not> map_has curBySig (insightSignature i)) prev),
          sort_key (\<lambda>c. Check (ChInsight c))
            (List.map_filter (\<lambda>i. case map_of prevBySig (insightSignature i) of
                 None \<Rightarrow> None
               | Some p \<Rightarrow> if Level p \<noteq> Level i
                   then Some \<lparr>ChInsight = i, FromLevel = Level p, ToLevel = Level i\<rparr> else None)
               cur)))"

section \<open>Lemmas on the top catch\<close>

lemma top_order [simp]:
  "topCatchSeverityOrder CRIT = 2" "topCatchSeverityOrder WARN = 1"
  by (simp_all add: topCatchSeverityOrder_def map_get_def)

lemma top_order_cases: "topCatchSeverityOrder l = (if l = CRIT then 2 else if l = WARN then 1 else 0)"
  by (simp add: topCatchSeverityOrder_def map_get_def)

lemma top_order_name: "topCatchSeverityOrder l = m \<Longrightarrow> m \<noteq> 0 \<Longrightarrow> l = (if m = 2 then CRIT else WARN)"
  by (auto simp: top_order_cases split: if_splits)

lemma fold_max:
  "foldl (\<lambda>m x. if m < f x then f x else m) (m0::int) xs = m \<longleftrightarrow>
     m \<in> insert m0 (f ` set xs) \<and> (\<forall>y \<in> insert m0 (f ` set xs). y \<le> m)"
proof (induction xs arbitrary: m0)
  case (Cons x xs)
  show ?case using Cons.IH [of "if m0 < f x then f x else m0"] by auto
qed auto

definition severities :: "insight list \<Rightarrow> correlation list \<Rightarrow> int set" where
  "severities is cs =
     insert 0 ((\<lambda>i. topCatchSeverityOrder (Level i)) ` set is \<union> (\<lambda>c. topCatchSeverityOrder (CoLevel c)) ` set cs)"

lemma max_severity_iff:
  "max_severity is cs = m \<longleftrightarrow> m \<in> severities is cs \<and> (\<forall>y \<in> severities is cs. y \<le> m)"
proof -
  obtain k where
    k: "foldl (\<lambda>m i. if m < topCatchSeverityOrder (Level i) then topCatchSeverityOrder (Level i) else m) 0 is = k"
    by simp
  let ?I = "insert 0 ((\<lambda>i. topCatchSeverityOrder (Level i)) ` set is)"
  let ?C = "(\<lambda>c. topCatchSeverityOrder (CoLevel c)) ` set cs"
  have m: "max_severity is cs = m \<longleftrightarrow> m \<in> insert k ?C \<and> (\<forall>y \<in> insert k ?C. y \<le> m)"
    unfolding max_severity_def k fold_max ..
  have kI: "k \<in> ?I" "\<forall>y \<in> ?I. y \<le> k"
    using k unfolding fold_max by auto
  have sv: "severities is cs = ?I \<union> ?C" by (auto simp: severities_def)
  have max_un: "m \<in> insert k C \<and> (\<forall>y \<in> insert k C. y \<le> m) \<longleftrightarrow> m \<in> I \<union> C \<and> (\<forall>y \<in> I \<union> C. y \<le> m)"
    if "k \<in> I" "\<forall>y \<in> I. y \<le> k" for I C :: "int set"
  proof
    assume l: "m \<in> insert k C \<and> (\<forall>y \<in> insert k C. y \<le> m)"
    then have "y \<le> m" if "y \<in> I" for y using that \<open>\<forall>y \<in> I. y \<le> k\<close> by force
    with l \<open>k \<in> I\<close> show "m \<in> I \<union> C \<and> (\<forall>y \<in> I \<union> C. y \<le> m)" by blast
  next
    assume r: "m \<in> I \<union> C \<and> (\<forall>y \<in> I \<union> C. y \<le> m)"
    then have "k \<le> m" using \<open>k \<in> I\<close> by blast
    moreover have "m \<le> k" if "m \<in> I" using that \<open>\<forall>y \<in> I. y \<le> k\<close> by blast
    ultimately show "m \<in> insert k C \<and> (\<forall>y \<in> insert k C. y \<le> m)" using r by force
  qed
  show ?thesis unfolding m sv by (rule max_un [OF kI])
qed

text \<open>The order of the candidates: with a fix first, then by name.\<close>

definition catch_key :: "insight \<Rightarrow> bool \<times> gostring" where
  "catch_key i = (Hints i = [], Check i)"

lemma better_catch_key:
  "better_catch m best ins =
     (if topCatchSeverityOrder (Level ins) \<noteq> m then best
      else (case best of None \<Rightarrow> Some ins | Some b \<Rightarrow> if catch_key ins < catch_key b then Some ins else best))"
  by (auto simp: better_catch_def catch_key_def Let_def less_prod_def split: option.split)

lemma better_catch_fold_Some:
  "foldl (better_catch m) (Some b) is = Some r \<Longrightarrow>
     r \<in> insert b {i \<in> set is. topCatchSeverityOrder (Level i) = m} \<and>
     (\<forall>i \<in> insert b {i \<in> set is. topCatchSeverityOrder (Level i) = m}. catch_key r \<le> catch_key i)"
proof (induction "is" arbitrary: b)
  case (Cons i "is")
  show ?case
  proof (cases "topCatchSeverityOrder (Level i) = m \<and> catch_key i < catch_key b")
    case True
    then show ?thesis using Cons.IH [of i] Cons.prems by (auto simp: better_catch_key)
  next
    case False
    then have "better_catch m (Some b) i = Some b" by (auto simp: better_catch_key)
    then have "r \<in> insert b {i \<in> set is. topCatchSeverityOrder (Level i) = m} \<and>
     (\<forall>i \<in> insert b {i \<in> set is. topCatchSeverityOrder (Level i) = m}. catch_key r \<le> catch_key i)"
      using Cons.IH [of b] Cons.prems by simp
    then show ?thesis using False by (auto simp: not_less intro: order_trans)
  qed
qed simp

lemma better_catch_fold:
  "case foldl (better_catch m) None is of
     None \<Rightarrow> \<forall>i \<in> set is. topCatchSeverityOrder (Level i) \<noteq> m
   | Some r \<Rightarrow> r \<in> set is \<and> topCatchSeverityOrder (Level r) = m \<and>
       (\<forall>i \<in> set is. topCatchSeverityOrder (Level i) = m \<longrightarrow> catch_key r \<le> catch_key i)"
proof (induction "is")
  case (Cons i "is")
  show ?case
  proof (cases "topCatchSeverityOrder (Level i) = m")
    case True
    have "foldl (better_catch m) (Some i) is \<noteq> None"
    proof -
      have "foldl (better_catch m) (Some b) is \<noteq> None" for b
        by (induction "is" arbitrary: b) (auto simp: better_catch_key)
      then show ?thesis .
    qed
    then obtain r where r: "foldl (better_catch m) (Some i) is = Some r" by auto
    moreover have "better_catch m None i = Some i" using True by (simp add: better_catch_key)
    ultimately show ?thesis using True better_catch_fold_Some [OF r] by auto
  next
    case False
    then have "better_catch m None i = None" by (simp add: better_catch_key)
    with Cons False show ?thesis by (auto split: option.splits)
  qed
qed simp

section \<open>Lemmas on the JSON document\<close>

lemma insight_map_from: "(k, i) \<in> set (insight_map is) \<Longrightarrow> i \<in> set is \<and> Check i = k"
proof -
  let ?step = "\<lambda>m ins. case map_of m (Check ins) of
         None \<Rightarrow> map_put m (Check ins) ins
       | Some prev \<Rightarrow>
           if severityOrder (Level prev) < severityOrder (Level ins) then map_put m (Check ins) ins else m"
  have put: "(k, i) \<in> set (map_put m k' i') \<Longrightarrow> (k, i) = (k', i') \<or> (k, i) \<in> set m" for m k' and i' :: insight
    by (induction m k' i' rule: map_put.induct) (auto split: if_splits)
  have "(k, i) \<in> set (foldl ?step m is) \<Longrightarrow> (k, i) \<in> set m \<or> i \<in> set is \<and> Check i = k" for m
  proof (induction "is" arbitrary: m)
    case (Cons x "is")
    then show ?case by (fastforce split: option.splits if_splits dest!: put)
  qed simp
  then show "(k, i) \<in> set (insight_map is) \<Longrightarrow> i \<in> set is \<and> Check i = k"
    unfolding insight_map_def by fastforce
qed

lemma insight_map_snoc:
  "insight_map (is @ [x]) =
     (case map_of (insight_map is) (Check x) of
        None \<Rightarrow> map_put (insight_map is) (Check x) x
      | Some prev \<Rightarrow>
          if severityOrder (Level prev) < severityOrder (Level x) then map_put (insight_map is) (Check x) x
          else insight_map is)"
  unfolding insight_map_def foldl_append foldl_Cons foldl_Nil ..

lemma insight_map_distinct: "distinct (map fst (insight_map is))"
  by (induction "is" rule: rev_induct) (auto simp: insight_map_snoc insight_map_def [of "[]"] split: option.split)

text \<open>The map holds a worst insight of every check that has one.\<close>

lemma insight_map_worst:
  "(map_of (insight_map is) n = None \<longleftrightarrow> (\<forall>j \<in> set is. Check j \<noteq> n)) \<and>
   (\<forall>i. map_of (insight_map is) n = Some i \<longrightarrow>
      (\<forall>j \<in> set is. Check j = n \<longrightarrow> severityOrder (Level j) \<le> severityOrder (Level i)))"
proof (induction "is" rule: rev_induct)
  case Nil
  then show ?case by (simp add: insight_map_def)
next
  case (snoc x "is")
  then show ?case
    by (cases "map_of (insight_map is) (Check x)"; cases "Check x = n") (auto simp: insight_map_snoc)
qed

lemma insight_map_mem:
  "map_of (insight_map is) n = Some i \<Longrightarrow> i \<in> set is \<and> Check i = n"
  using insight_map_from map_of_SomeD by fast

definition part_of :: "gostring \<Rightarrow> gostring \<Rightarrow> bool" where
  "part_of name chk \<longleftrightarrow> has_prefix chk (name @ '' '') \<or> has_prefix chk (name @ ''/'')"

lemma qualified_fold:
  fixes f name
  defines "f \<equiv> \<lambda>status (chk, ins). if part_of name chk \<and> severityOrder status < severityOrder (Level ins)
      then Level ins else status"
  shows "severityOrder st \<le> severityOrder (foldl f st m) \<and>
     (\<forall>(k, i) \<in> set m. part_of name k \<longrightarrow> severityOrder (Level i) \<le> severityOrder (foldl f st m)) \<and>
     (foldl f st m = st \<or>
       (\<exists>(k, i) \<in> set m. part_of name k \<and> foldl f st m = Level i \<and> severityOrder st < severityOrder (Level i)))"
proof (induction m arbitrary: st)
  case (Cons p m)
  obtain k i where p: "p = (k, i)" by fastforce
  show ?case
  proof (cases "part_of name k \<and> severityOrder st < severityOrder (Level i)")
    case True
    then have "f st p = Level i" by (simp add: f_def p)
    with Cons.IH [of "Level i"] True show ?thesis by (fastforce simp: p)
  next
    case False
    then have "f st p = st" by (auto simp: f_def p)
    with Cons.IH [of st] False show ?thesis by (fastforce simp: p)
  qed
qed simp

lemma qualified_worst:
  "(\<forall>j \<in> set is. part_of n (Check j) \<longrightarrow> severityOrder (Level j) \<le> severityOrder (qualified_status (insight_map is) n)) \<and>
   (qualified_status (insight_map is) n = OK \<or>
     (\<exists>j \<in> set is. part_of n (Check j) \<and> qualified_status (insight_map is) n = Level j \<and> 0 < severityOrder (Level j)))"
proof -
  have q: "qualified_status (insight_map is) n =
      foldl (\<lambda>status (chk, ins). if part_of n chk \<and> severityOrder status < severityOrder (Level ins)
        then Level ins else status) OK (insight_map is)"
    by (simp add: qualified_status_def part_of_def)
  note F = qualified_fold [of OK n "insight_map is", folded q]
  have "severityOrder (Level j) \<le> severityOrder (qualified_status (insight_map is) n)"
    if j: "j \<in> set is" "part_of n (Check j)" for j
  proof -
    obtain i where i: "map_of (insight_map is) (Check j) = Some i"
      using insight_map_worst [of "is" "Check j"] j(1) by (cases "map_of (insight_map is) (Check j)") auto
    then have "severityOrder (Level j) \<le> severityOrder (Level i)"
      using insight_map_worst [of "is" "Check j"] j(1) by blast
    also have "\<dots> \<le> severityOrder (qualified_status (insight_map is) n)"
      using F map_of_SomeD [OF i] j(2) by blast
    finally show ?thesis .
  qed
  moreover have "severityOrder OK = 0" by (simp add: severityOrder_def)
  ultimately show ?thesis using F insight_map_from by fastforce
qed

text \<open>
  The status a check should have, from the insights alone: an errored collector is ERROR, then the worst
  level of the insights under its own name counts, then a WARN or CRIT of one of its parts.
\<close>

definition worst_of :: "gostring \<Rightarrow> insight list \<Rightarrow> gostring" where
  "worst_of none is =
     (if \<exists>i \<in> set is. Level i = CRIT then CRIT else if \<exists>i \<in> set is. Level i = WARN then WARN else none)"

definition check_status :: "insight list \<Rightarrow> result \<Rightarrow> gostring" where
  "check_status is r =
     (if errored r then ''ERROR''
      else if \<exists>i \<in> set is. Check i = Name r then worst_of INFO (filter (\<lambda>i. Check i = Name r) is)
      else worst_of OK (filter (\<lambda>i. part_of (Name r) (Check i)) is))"

lemma worst_of_unique:
  assumes "\<forall>j \<in> set is. severityOrder (Level j) \<le> severityOrder l"
    and "l = none \<or> (\<exists>j \<in> set is. l = Level j)" and "severityOrder none = 0"
    and "severityOrder l = 0 \<Longrightarrow> l = none"
  shows "l = worst_of none is"
  using assms by (fastforce simp: worst_of_def severityOrder_def split: if_splits)

lemma json_status_spec:
  assumes lev: "\<forall>i \<in> set is. Level i \<in> {CRIT, WARN, INFO}"
  shows "json_status (insight_map is) r = check_status is r"
proof (cases "Err r")
  case (Some e)
  then show ?thesis by (simp add: json_status_def check_status_def errored_def)
next
  case ok: None
  show ?thesis
  proof (cases "map_of (insight_map is) (Name r)")
    case None
    then have no: "\<not> (\<exists>i \<in> set is. Check i = Name r)" using insight_map_worst [of "is" "Name r"] by blast
    have "qualified_status (insight_map is) (Name r) = worst_of OK (filter (\<lambda>i. part_of (Name r) (Check i)) is)"
      by (rule worst_of_unique) (use qualified_worst [of "is" "Name r"] in \<open>auto simp: severityOrder_def\<close>)
    with None no ok show ?thesis by (simp add: json_status_def check_status_def errored_def)
  next
    case (Some i)
    have i: "i \<in> set is" "Check i = Name r" using insight_map_mem [OF Some] by simp_all
    then have "Level i \<in> {CRIT, WARN, INFO}" using lev by blast
    moreover have "\<forall>j \<in> set is. Check j = Name r \<longrightarrow> severityOrder (Level j) \<le> severityOrder (Level i)"
      using insight_map_worst [of "is" "Name r"] Some by blast
    ultimately have "Level i = worst_of INFO (filter (\<lambda>i. Check i = Name r) is)"
      using i by (intro worst_of_unique) (auto simp: severityOrder_def split: if_splits)
    moreover have "Level i \<noteq> OK" using \<open>Level i \<in> {CRIT, WARN, INFO}\<close> by auto
    ultimately show ?thesis using Some ok i by (auto simp: json_status_def check_status_def errored_def)
  qed
qed

section \<open>Lemmas on the changes\<close>

lemma by_signature_has: "map_has (by_signature is) s \<longleftrightarrow> s \<in> insightSignature ` set is"
proof -
  have "fst ` set (foldl (\<lambda>m i. map_put m (insightSignature i) i) m is) = fst ` set m \<union> insightSignature ` set is" for m
    by (induction "is" arbitrary: m) auto
  from this [of "[]"] show ?thesis by (simp add: by_signature_def map_has_def)
qed

lemma by_signature_of:
  "map_of (by_signature is) s = map_of (rev (map (\<lambda>i. (insightSignature i, i)) is)) s"
  by (simp add: by_signature_def map_of_fold_put)

lemma by_signature_distinct:
  assumes "distinct (map insightSignature is)" and "i \<in> set is"
  shows "map_of (by_signature is) (insightSignature i) = Some i"
proof -
  let ?m = "rev (map (\<lambda>i. (insightSignature i, i)) is)"
  have "distinct (map fst ?m)" using assms(1)
    by (simp only: rev_map [symmetric] map_map comp_def fst_conv distinct_rev)
  moreover have "(insightSignature i, i) \<in> set ?m" using assms(2) by auto
  ultimately show ?thesis by (simp add: by_signature_of)
qed

section \<open>Properties\<close>

text \<open>C35: The top catch is the most salient finding: there is none exactly when nothing is WARN or CRIT; its
  severity is the highest among insights and diagnoses; a diagnosis of that severity is preferred, the
  first one; otherwise it is an insight of that severity that has a fix if any has one and whose check
  comes first by name among those.\<close>

theorem ComputeTopCatch_salient:
  "case ComputeTopCatch is cs of
     None \<Rightarrow> severities is cs = {0}
   | Some t \<Rightarrow>
       TSeverity t \<in> {CRIT, WARN} \<and>
       (\<forall>s \<in> severities is cs. s \<le> topCatchSeverityOrder (TSeverity t)) \<and>
       (case find (\<lambda>c. CoLevel c = TSeverity t) cs of
          Some c \<Rightarrow> TSummary t = CoSummary c \<and> Fix t = CoAction c
        | None \<Rightarrow> \<exists>i \<in> set is. Level i = TSeverity t \<and> Topic t = checkSlug (Check i) \<and> TSummary t = Message i \<and>
            Fix t = (if Hints i \<noteq> [] then hd (Hints i) else topCatchFallbackFix) \<and>
            (\<forall>j \<in> set is. Level j = TSeverity t \<longrightarrow> catch_key i \<le> catch_key j))"
proof -
  let ?m = "max_severity is cs"
  have m: "?m \<in> severities is cs" "\<forall>y \<in> severities is cs. y \<le> ?m"
    using max_severity_iff [of "is" cs ?m] by auto
  have zero: "0 \<in> severities is cs" by (simp add: severities_def)
  show ?thesis
  proof (cases "?m = 0")
    case True
    have "0 \<le> y" if "y \<in> severities is cs" for y
      using that by (auto simp: severities_def top_order_cases)
    with True m have "severities is cs = {0}" using zero by fastforce
    with True show ?thesis by (simp add: ComputeTopCatch_def)
  next
    case False
    define L where "L = (if ?m = 2 then CRIT else WARN)"
    have lev: "topCatchSeverityOrder l = ?m \<longleftrightarrow> l = L" for l
      using m(1) False by (auto simp: L_def severities_def top_order_cases split: if_splits)
    have sev: "\<forall>s \<in> severities is cs. s \<le> topCatchSeverityOrder L" using m(2) lev [of L] by simp
    have two: "L \<in> {CRIT, WARN}" by (simp add: L_def)
    have some: "(\<exists>i \<in> set is. Level i = L) \<or> (\<exists>c \<in> set cs. CoLevel c = L)"
      using m(1) False by (auto simp: severities_def lev [symmetric])
    have top: "ComputeTopCatch is cs = (case find (\<lambda>c. CoLevel c = L) cs of
                 Some c \<Rightarrow>
                   Some \<lparr>Topic = (if CoChecks c \<noteq> [] then checkSlug (hd (CoChecks c)) else []),
                         TSeverity = L, TSummary = CoSummary c, Fix = CoAction c\<rparr>
               | None \<Rightarrow>
                   (case foldl (better_catch ?m) None is of
                      None \<Rightarrow> None
                    | Some best \<Rightarrow>
                        Some \<lparr>Topic = checkSlug (Check best), TSeverity = L, TSummary = Message best,
                              Fix = (if Hints best \<noteq> [] then hd (Hints best) else topCatchFallbackFix)\<rparr>))"
      using False by (simp add: ComputeTopCatch_def lev L_def [symmetric] Let_def)
    show ?thesis
    proof (cases "find (\<lambda>c. CoLevel c = L) cs")
      case (Some c)
      with sev two show ?thesis by (simp add: top)
    next
      case None
      then have "\<exists>i \<in> set is. Level i = L" using some by (auto simp: find_None_iff)
      with better_catch_fold [of "is" ?m] obtain b where b: "foldl (better_catch ?m) None is = Some b"
        by (auto simp: lev split: option.splits)
      with better_catch_fold [of "is" ?m] have
        "b \<in> set is" "Level b = L" "\<forall>j \<in> set is. Level j = L \<longrightarrow> catch_key b \<le> catch_key j"
        by (simp_all add: lev)
      with None b sev two show ?thesis by (simp add: top) blast
    qed
  qed
qed

theorem ComputeTopCatch_salient_witness:
  "severities [mk_insight INFO ''Disk'' ''m''] [] = {0}"
proof -
  have "ComputeTopCatch [mk_insight INFO ''Disk'' ''m''] [] = None" by code_simp
  then show ?thesis using ComputeTopCatch_salient [of "[mk_insight INFO ''Disk'' ''m'']" "[]"] by simp
qed



text \<open>A check's own insight hides a worse one of a part of it: the status of a check with an INFO
  insight of its own is INFO although a qualified insight of it is CRIT.\<close>

lemma json_status_masks_qualified:
  "json_status (insight_map [mk_insight INFO ''Memory'' ''m'', mk_insight CRIT ''Memory/Slab'' ''n''])
     (mk_result ''Memory'' (Data None) None) = INFO
   \<and> VLevel (Verdict [mk_result ''Memory'' (Data None) None]
       [mk_insight INFO ''Memory'' ''m'', mk_insight CRIT ''Memory/Slab'' ''n'']) = CRIT"
  by code_simp



text \<open>Two insights of one signature make an unchanged board look changed: the numbers in which they
  differ are normalized away and the map keeps the last of the two.\<close>

lemma watch_reports_phantom_change:
  "InsightChanges [mk_insight WARN ''Procs'' ''pid 12 stuck'', mk_insight CRIT ''Procs'' ''pid 34 stuck'']
     [mk_insight WARN ''Procs'' ''pid 12 stuck'', mk_insight CRIT ''Procs'' ''pid 34 stuck''] =
   ([], [], [\<lparr>ChInsight = mk_insight WARN ''Procs'' ''pid 12 stuck'', FromLevel = CRIT, ToLevel = WARN\<rparr>])"
  by code_simp

end
