(* ===== verification/Check_Base.thy ===== *)
theory Check_Base
  imports Hints Policy Sanitize "HOL-Library.List_Lexorder" "HOL-Library.Char_ord"
begin

section \<open>Loops that stop early\<close>

text \<open>
  What one round of a loop does, the loop over a list that may return from the function or break, and the loop that only
  breaks.
\<close>

datatype ('r, 's) flow = Return 'r | Break 's | Next 's

primrec loop :: "('s \<Rightarrow> 'a \<Rightarrow> ('r, 's) flow) \<Rightarrow> 's \<Rightarrow> 'a list \<Rightarrow> 'r + 's" where
  "loop f s [] = Inr s"
| "loop f s (x # xs) =
     (case f s x of Return r \<Rightarrow> Inl r | Break t \<Rightarrow> Inr t | Next t \<Rightarrow> loop f t xs)"

primrec loop_break :: "('s \<Rightarrow> 'a \<Rightarrow> (unit, 's) flow) \<Rightarrow> 's \<Rightarrow> 'a list \<Rightarrow> 's" where
  "loop_break f s [] = s"
| "loop_break f s (x # xs) =
     (case f s x of Return _ \<Rightarrow> s | Break t \<Rightarrow> t | Next t \<Rightarrow> loop_break f t xs)"

section \<open>The host\<close>

text \<open>
  What a check asks of the host beside its measurement: the effective user, the operating system, the
  content of a file and the target of a link read through the active source. \<open>Quote\<close> is \<open>strconv.Quote\<close>
  (its table of printable characters is not modelled) and \<open>FmtG\<close> the verb \<open>%g\<close>.
\<close>

record environment =
  IsRoot :: bool
  GOOS :: gostring
  ReadFile :: "gostring \<Rightarrow> gostring option"
  ReadLink :: "gostring \<Rightarrow> gostring option"
  Quote :: "gostring \<Rightarrow> gostring"
  FmtG :: "f64 \<Rightarrow> gostring"

section \<open>The standard library\<close>

abbreviation dquote :: gostring where "dquote \<equiv> [CHR 0x22]"
abbreviation squote :: gostring where "squote \<equiv> [CHR 0x27]"
abbreviation bslash :: gostring where "bslash \<equiv> [CHR 0x5C]"

definition go_div :: "int \<Rightarrow> int \<Rightarrow> int" where
  "go_div a b = sgn a * sgn b * (\<bar>a\<bar> div \<bar>b\<bar>)"

definition go_mod :: "int \<Rightarrow> int \<Rightarrow> int" where
  "go_mod a b = a - b * go_div a b"

definition wrapu64 :: "int \<Rightarrow> int" where
  "wrapu64 n = n mod 2 ^ 64"

definition indexed :: "'a list \<Rightarrow> (int \<times> 'a) list" where
  "indexed xs = zip (map int [0..<length xs]) xs"

definition hex_digit :: "nat \<Rightarrow> char" where
  "hex_digit n = ''0123456789abcdef'' ! n"

fun hex_digits :: "nat \<Rightarrow> gostring" where
  "hex_digits n = (if n < 16 then [hex_digit n] else hex_digits (n div 16) @ [hex_digit (n mod 16)])"

declare hex_digits.simps [simp del]

definition hex2 :: "int \<Rightarrow> gostring" where
  "hex2 n = (if n < 0 then ''-'' else []) @ pad_zeros 2 (hex_digits (nat \<bar>n\<bar>))"

definition index_of :: "gostring \<Rightarrow> char \<Rightarrow> int" where
  "index_of s c = (case index_byte s c of None \<Rightarrow> - 1 | Some i \<Rightarrow> int i)"

definition last_index_of :: "gostring \<Rightarrow> char \<Rightarrow> int" where
  "last_index_of s c = (case last_index_byte s c of None \<Rightarrow> - 1 | Some i \<Rightarrow> int i)"

text \<open>\<open>strings.Cut\<close> around the first occurrence of the separator.\<close>

fun cut :: "gostring \<Rightarrow> gostring \<Rightarrow> gostring \<times> gostring \<times> bool" where
  "cut [] sep = (if sep = [] then ([], [], True) else ([], [], False))"
| "cut (c # s) sep =
     (if has_prefix (c # s) sep then ([], drop (length sep) (c # s), True)
      else let (before, after, found) = cut s sep in (c # before, after, found))"

definition trim_set :: "gostring \<Rightarrow> gostring \<Rightarrow> gostring" where
  "trim_set s cs = rev (dropWhile (\<lambda>c. c \<in> set cs) (rev (dropWhile (\<lambda>c. c \<in> set cs) s)))"

definition sort_strings :: "gostring list \<Rightarrow> gostring list" where
  "sort_strings = sort"

definition fmt_bool :: "bool \<Rightarrow> gostring" where
  "fmt_bool b = (if b then ''true'' else ''false'')"

definition int_of_f64 :: "f64 \<Rightarrow> int" where
  "int_of_f64 x =
     (case x of
        Fin r \<Rightarrow>
          (let n = (if r < 0 then - \<lfloor>- r\<rfloor> else \<lfloor>r\<rfloor>)
           in if min_int64 \<le> n \<and> n \<le> max_int64 then n else min_int64)
      | _ \<Rightarrow> min_int64)"

section \<open>Shared helpers of the checks\<close>

definition truncateHint :: "gostring \<Rightarrow> int \<Rightarrow> gostring" where
  "truncateHint s n =
     (let r = map fst (runes s)
      in if int (length r) \<le> n then s
         else concat (map encode_rune (take (nat n) r)) @ [CHR 0xE2, CHR 0x80, CHR 0xA6])"

definition os_release_has :: "environment \<Rightarrow> (gostring \<Rightarrow> gostring \<Rightarrow> bool) \<Rightarrow> bool" where
  "os_release_has env p \<longleftrightarrow>
     (case ReadFile env ''/etc/os-release'' of
        None \<Rightarrow> False
      | Some data \<Rightarrow>
          list_ex
            (\<lambda>line. let (key, val, ok) = cut (trim_space line) ''=''
                    in ok \<and> p key (to_lower (trim_set val (dquote @ squote))))
            (split_byte data (CHR 0x0A)))"

definition isSteamOSHost :: "environment \<Rightarrow> bool" where
  "isSteamOSHost env \<longleftrightarrow>
     os_release_has env
       (\<lambda>key val. key = ''ID'' \<and> val = ''steamos'' \<or> key = ''VARIANT_ID'' \<and> val = ''steamdeck'')"

definition hostIsOstree :: "environment \<Rightarrow> bool" where
  "hostIsOstree env \<longleftrightarrow>
     os_release_has env
       (\<lambda>key val. key = ''ID'' \<and> val \<in> {''fedora-coreos'', ''rhcos''} \<or>
                  key = ''VARIANT_ID'' \<and>
                  val \<in> {''coreos'', ''silverblue'', ''kinoite'', ''iot'', ''sericea'', ''onyx''})"

definition isUSBNetworkInterface :: "environment \<Rightarrow> gostring \<Rightarrow> bool" where
  "isUSBNetworkInterface env iface \<longleftrightarrow>
     (case ReadLink env (''/sys/class/net/'' @ iface @ ''/device/subsystem'') of
        None \<Rightarrow> False
      | Some subsystem \<Rightarrow> contains (to_lower subsystem) ''usb'')"

definition joinInts :: "int list \<Rightarrow> gostring" where
  "joinInts xs = join (map itoa xs) '', ''"

section \<open>Well-formed insights\<close>

text \<open>
  The levels are a closed vocabulary; an unverified insight carries one of the reasons and a verified one
  carries none; and only an unverified insight needs root. The rules below follow the shape of a check,
  so that the lemma of each check is the rules applied until nothing is left.
\<close>

definition levels :: "gostring list" where
  "levels = [CRIT, WARN, INFO, OK]"

definition wf_insight :: "insight \<Rightarrow> bool" where
  "wf_insight i \<longleftrightarrow>
     Level i \<in> set levels \<and>
     (if Unverified i then UnverifiedReason i \<in> set UnverifiedReasons else UnverifiedReason i = [] \<and> \<not> NeedsRoot i)"

definition wf_insights :: "insight list \<Rightarrow> bool" where
  "wf_insights is \<longleftrightarrow> list_all wf_insight is"

definition wf_option :: "insight option \<Rightarrow> bool" where
  "wf_option o' \<longleftrightarrow> pred_option wf_insight o'"

named_theorems wf_rules
named_theorems level_facts

lemma level_literals [level_facts]:
  "CRIT \<in> set levels" "WARN \<in> set levels" "INFO \<in> set levels" "OK \<in> set levels"
  by (simp_all add: levels_def)

lemma levelPct_levels: "levelPct v w c \<noteq> [] \<Longrightarrow> levelPct v w c \<in> set levels"
  by (auto simp: levelPct_def levels_def split: if_splits)

lemma reason_literals [level_facts]:
  "ReasonNeedsRoot \<in> set UnverifiedReasons" "ReasonTimeout \<in> set UnverifiedReasons"
  "ReasonUnreadable \<in> set UnverifiedReasons" "ReasonCollectorError \<in> set UnverifiedReasons"
  "ReasonParse \<in> set UnverifiedReasons" "ReasonNotRecorded \<in> set UnverifiedReasons"
  by (simp_all add: UnverifiedReasons_def)

lemma wf_mk_full [wf_rules]: "l \<in> set levels \<Longrightarrow> wf_insight (mk_full l c m h)"
  by (simp add: wf_insight_def mk_full_def)

lemma wf_unverified [wf_rules]:
  "l \<in> set levels \<Longrightarrow> r \<in> set UnverifiedReasons \<Longrightarrow> wf_insight (unverifiedInsight r l c m h)"
  by (simp add: wf_insight_def unverifiedInsight_def mk_full_def)

lemma wf_needsRoot [wf_rules]: "l \<in> set levels \<Longrightarrow> wf_insight (needsRootInsight r l c m h)"
  by (auto simp: wf_insight_def needsRootInsight_def unverifiedInsight_def mk_full_def Let_def level_facts)

lemma wf_no_root [wf_rules]: "wf_insight i \<Longrightarrow> wf_insight (i\<lparr>NeedsRoot := False\<rparr>)"
  by (simp add: wf_insight_def)

lemma wf_needs_root [wf_rules]:
  "l \<in> set levels \<Longrightarrow> r \<in> set UnverifiedReasons \<Longrightarrow> wf_insight (unverifiedInsight r l c m h\<lparr>NeedsRoot := b\<rparr>)"
  by (simp add: wf_insight_def unverifiedInsight_def mk_full_def)

lemma wf_Nil [wf_rules]: "wf_insights []"
  by (simp add: wf_insights_def)

lemma wf_Cons [wf_rules]: "wf_insight i \<Longrightarrow> wf_insights is \<Longrightarrow> wf_insights (i # is)"
  by (simp add: wf_insights_def)

lemma wf_append [wf_rules]: "wf_insights xs \<Longrightarrow> wf_insights ys \<Longrightarrow> wf_insights (xs @ ys)"
  by (simp add: wf_insights_def)

lemma wf_concat_map [wf_rules]: "(\<And>x. x \<in> set xs \<Longrightarrow> wf_insights (f x)) \<Longrightarrow> wf_insights (concat (map f xs))"
  by (auto simp: wf_insights_def list_all_iff)

lemma wf_foldl [wf_rules]:
  "wf_insights is \<Longrightarrow> (\<And>acc x. wf_insights acc \<Longrightarrow> wf_insights (f acc x)) \<Longrightarrow> wf_insights (foldl f is xs)"
  by (induction xs arbitrary: "is") auto

lemma wf_if:
  "wf_insights xs \<Longrightarrow> wf_insights ys \<Longrightarrow> wf_insights (if b then xs else ys)"
  "wf_option p \<Longrightarrow> wf_option q \<Longrightarrow> wf_option (if b then p else q)"
  "wf_insight i \<Longrightarrow> wf_insight j \<Longrightarrow> wf_insight (if b then i else j)"
  by simp_all

text \<open>Of the conditions, only those that compare a string are kept: they say which level is left.\<close>

lemma wf_if_string:
  fixes s t :: gostring
  shows "(s = t \<Longrightarrow> wf_insights xs) \<Longrightarrow> (s \<noteq> t \<Longrightarrow> wf_insights ys) \<Longrightarrow> wf_insights (if s = t then xs else ys)"
    and "(s \<noteq> t \<Longrightarrow> wf_insights xs) \<Longrightarrow> (s = t \<Longrightarrow> wf_insights ys) \<Longrightarrow> wf_insights (if s \<noteq> t then xs else ys)"
    and "(s \<noteq> t \<Longrightarrow> wf_insights xs) \<Longrightarrow> wf_insights ys \<Longrightarrow> wf_insights (if s \<noteq> t \<and> b then xs else ys)"
    and "(s = t \<Longrightarrow> wf_option p) \<Longrightarrow> (s \<noteq> t \<Longrightarrow> wf_option q) \<Longrightarrow> wf_option (if s = t then p else q)"
    and "(s \<noteq> t \<Longrightarrow> wf_option p) \<Longrightarrow> (s = t \<Longrightarrow> wf_option q) \<Longrightarrow> wf_option (if s \<noteq> t then p else q)"
  by simp_all

lemma wf_Let:
  "(\<And>x. wf_insights (f x)) \<Longrightarrow> wf_insights (Let t f)"
  "(\<And>x. wf_option (g x)) \<Longrightarrow> wf_option (Let t g)"
  "(\<And>x. wf_insight (h x)) \<Longrightarrow> wf_insight (Let t h)"
  by simp_all

text \<open>A bound string is followed to its levels, a bound list of insights to its well-formedness.\<close>

lemma wf_Let_string:
  fixes t :: gostring
  shows "(\<And>x. x = t \<Longrightarrow> wf_insights (f x)) \<Longrightarrow> wf_insights (Let t f)"
    and "(\<And>x. x = t \<Longrightarrow> wf_option (g x)) \<Longrightarrow> wf_option (Let t g)"
    and "(\<And>x. x = t \<Longrightarrow> wf_insight (h x)) \<Longrightarrow> wf_insight (Let t h)"
  by simp_all

lemma wf_Let_insights:
  "wf_insights t \<Longrightarrow> (\<And>x. wf_insights x \<Longrightarrow> wf_insights (f x)) \<Longrightarrow> wf_insights (Let t f)"
  "wf_insight i \<Longrightarrow> (\<And>x. wf_insight x \<Longrightarrow> wf_insights (g x)) \<Longrightarrow> wf_insights (Let i g)"
  "wf_insight i \<Longrightarrow> (\<And>x. wf_insight x \<Longrightarrow> wf_option (h x)) \<Longrightarrow> wf_option (Let i h)"
  by simp_all

text \<open>The first rule that applies is taken: the ones about strings and insights before the general ones.\<close>

lemmas wf_lets = wf_Let_insights wf_Let_string wf_if_string wf_Let wf_if

named_theorems level_elims

lemma level_choice [level_facts]: "x \<in> S \<Longrightarrow> y \<in> S \<Longrightarrow> (if b then x else y) \<in> S"
  by simp

lemma level_open_literals [level_facts]:
  "[] \<in> insert [] (set levels)" "levelPct v w c \<in> insert [] (set levels)"
  "CRIT \<in> insert [] (set levels)" "WARN \<in> insert [] (set levels)"
  "INFO \<in> insert [] (set levels)" "OK \<in> insert [] (set levels)"
  by (auto simp: level_facts dest: contrapos_nn [OF _ levelPct_levels])

lemma level_open_functions [level_facts]:
  "GatewayPacketLossLevel x \<in> insert [] (set levels)" "DNSResolveLevel x \<in> insert [] (set levels)"
  "LVMThinPoolLevel x \<in> insert [] (set levels)" "LVMSnapshotLevel x \<in> insert [] (set levels)"
  "PVEStorageLevel x \<in> insert [] (set levels)"
  unfolding GatewayPacketLossLevel_def DNSResolveLevel_def LVMThinPoolLevel_def LVMSnapshotLevel_def
    PVEStorageLevel_def by (intro level_facts)+

lemma level_nonempty: "l \<noteq> [] \<Longrightarrow> l \<in> insert [] (set levels) \<Longrightarrow> l \<in> set levels"
  by simp

lemma level_open: "l = t \<Longrightarrow> l \<noteq> [] \<Longrightarrow> t \<in> insert [] (set levels) \<Longrightarrow> l \<in> set levels"
  by simp

lemma level_bound [level_elims]:
  "l = (if b then x else y) \<Longrightarrow> x \<in> set levels \<Longrightarrow> y \<in> set levels \<Longrightarrow> l \<in> set levels"
  "l = CRIT \<Longrightarrow> l \<in> set levels" "l = WARN \<Longrightarrow> l \<in> set levels"
  "l = INFO \<Longrightarrow> l \<in> set levels" "l = OK \<Longrightarrow> l \<in> set levels"
  by (auto simp: level_facts)

lemma wf_prod [wf_rules]:
  "(\<And>a b. p = (a, b) \<Longrightarrow> wf_insights (f a b)) \<Longrightarrow> wf_insights (case p of (a, b) \<Rightarrow> f a b)"
  "(\<And>a b. p = (a, b) \<Longrightarrow> wf_option (g a b)) \<Longrightarrow> wf_option (case p of (a, b) \<Rightarrow> g a b)"
  "(\<And>a b. p = (a, b) \<Longrightarrow> wf_insight (h a b)) \<Longrightarrow> wf_insight (case p of (a, b) \<Rightarrow> h a b)"
  by (cases p, simp)+

lemma wf_Some [wf_rules]: "wf_insight i \<Longrightarrow> wf_option (Some i)"
  by (simp add: wf_option_def)

lemma wf_None [wf_rules]: "wf_option None"
  by (simp add: wf_option_def)

lemma wf_case_option [wf_rules]:
  "wf_option p \<Longrightarrow> (\<And>i. wf_insight i \<Longrightarrow> wf_insights (f i)) \<Longrightarrow> wf_insights xs \<Longrightarrow>
     wf_insights (case p of Some i \<Rightarrow> f i | None \<Rightarrow> xs)"
  by (cases p) (simp_all add: wf_option_def)

lemma wf_first_some [wf_rules]:
  assumes "\<And>x. pred_option wf_insights (f x)" and "wf_insights ys"
  shows "wf_insights (case first_some f xs of Some r \<Rightarrow> r | None \<Rightarrow> ys)"
  using assms by (induction xs) (auto split: option.splits simp: pred_option_def)

lemma wf_found [wf_rules]:
  "wf_insights t \<Longrightarrow> (\<And>x. wf_insights x \<Longrightarrow> pred_option wf_insights (f x)) \<Longrightarrow> pred_option wf_insights (Let t f)"
  "pred_option wf_insights p \<Longrightarrow> pred_option wf_insights q \<Longrightarrow> pred_option wf_insights (if b then p else q)"
  "wf_insights r \<Longrightarrow> pred_option wf_insights (Some r)" "pred_option wf_insights None"
  by simp_all

lemma wf_eccInsights [wf_rules]: "wf_insights (eccInsights a b c)"
  unfolding eccInsights_def by (intro wf_lets wf_rules level_facts)

end
