(* ===== verification/Checks_Levels.thy ===== *)
theory Checks_Levels
  imports Check_Base
begin

text \<open>
  The bounds of internal/analysis/thresholds.go and temp.go that are not in \<open>Policy\<close>, the commands a
  hint suggests again and again, and the helpers of heuristics.go that several checks call.  The records
  are the parts of internal/models these functions and the checks read: a field that no modelled function uses is left out.
\<close>

section \<open>Measurements\<close>

record lvm_thin_pool =
  lvmThinPool_Name :: gostring
  lvmThinPool_VG :: gostring
  lvmThinPool_DataPct :: f64
  lvmThinPool_MetaPct :: f64
  lvmThinPool_SizeGB :: f64

record swap_info =
  swap_TotalGB :: f64
  swap_UsedGB :: f64
  swap_UsedPct :: f64
  swap_PagesInPerSec :: f64
  swap_PagesOutPerSec :: f64
  swap_ZramDevices :: int
  swap_MemPressureLevel :: int
  swap_SwapsUnreadable :: bool
  swap_ZramUnreadable :: bool

record cgroup_slice =
  cgroupSlice_Name :: gostring
  cgroupSlice_ThrottledPct :: f64
  cgroupSlice_MemCurrentMB :: f64
  cgroupSlice_MemLimitMB :: f64
  cgroupSlice_MemUsedPct :: f64
  cgroupSlice_IOReadMBs :: f64
  cgroupSlice_IOWriteMBs :: f64
  cgroupSlice_HasCPULimit :: bool
  cgroupSlice_HasMemLimit :: bool

record cgroup_unit =
  cgroupUnit_Name :: gostring
  cgroupUnit_ParentSlice :: gostring
  cgroupUnit_IsContainer :: bool
  cgroupUnit_ThrottledPct :: f64
  cgroupUnit_MemCurrentMB :: f64
  cgroupUnit_MemLimitMB :: f64
  cgroupUnit_MemUsedPct :: f64
  cgroupUnit_HasMemLimit :: bool

record cgroup_v2_info =
  cgroupV2_Available :: bool
  cgroupV2_Controllers :: "gostring list"
  cgroupV2_Slices :: "cgroup_slice list"
  cgroupV2_ThrottledSlices :: "gostring list"
  cgroupV2_OOMKills :: int
  cgroupV2_Units :: "cgroup_unit list"

record steam_os_bind_mount =
  steamOSBindMount_Path :: gostring
  steamOSBindMount_Target :: gostring
  steamOSBindMount_OK :: bool

record steam_os_wifi =
  steamOSWifi_BothBackends :: bool
  steamOSWifi_DevMode :: bool
  steamOSWifi_SSIDConflict :: bool
  steamOSWifi_ConflictSSID :: gostring
  steamOSWifi_CDNDNSKnown :: bool
  steamOSWifi_CDNDNSms :: int
  steamOSWifi_Connected :: bool
  steamOSWifi_BandGHz :: f64
  steamOSWifi_Channel :: int
  steamOSWifi_WidthMHz :: int
  steamOSWifi_SignalDBm :: int

record steam_os_disk =
  steamOSDisk_ShaderCacheGB :: f64
  steamOSDisk_BindMounts :: "steam_os_bind_mount list"

section \<open>Constants\<close>

definition inspectIOStat :: gostring where
  "inspectIOStat = ''to inspect: iostat -x 1 5''"

definition inspectPsMemHead :: gostring where
  "inspectPsMemHead = ''to inspect: ps aux --sort=-%mem | head -10''"

definition inspectIotop :: gostring where
  "inspectIotop = ''to inspect: iotop -ao''"

definition inspectSmartCtlPrefix :: gostring where
  "inspectSmartCtlPrefix = ''to inspect: smartctl -a ''"

definition inspectFreeH :: gostring where
  "inspectFreeH = ''to inspect: free -h''"

section \<open>Checks\<close>

definition TimeWaitLevel :: "int \<Rightarrow> gostring" where
  "TimeWaitLevel count =
     levelPct (f_of_int count) (Fin 1000) (Fin 5000)"

definition LVMVGFullLevel :: "f64 \<Rightarrow> gostring" where
  "LVMVGFullLevel freePct =
     levelPct (fsub (Fin 100) freePct) (Fin 90) (Fin 98)"

definition VGBacksThinPool :: "lvm_thin_pool list \<Rightarrow> gostring \<Rightarrow> bool" where
  "VGBacksThinPool pools vgName \<longleftrightarrow>
     list_ex (\<lambda>p. lvmThinPool_VG p = vgName) pools"

definition TempPlausible :: "f64 \<Rightarrow> f64 \<Rightarrow> bool" where
  "TempPlausible c ceilingC \<longleftrightarrow>
     fle (Fin (- 40)) c \<and> fle c ceilingC"

definition TempNotReported :: "f64 \<Rightarrow> bool" where
  "TempNotReported c \<longleftrightarrow>
     fle c (Fin (- 273))"

definition swapInUse :: "swap_info \<Rightarrow> bool" where
  "swapInUse s \<longleftrightarrow>
     flt (Fin 0) (swap_TotalGB s) \<and>
     ((flt (Fin 0) (swap_UsedPct s) \<or> flt (Fin 0) (swap_PagesInPerSec s)) \<or>
      flt (Fin 0) (swap_PagesOutPerSec s))"

definition firstN :: "gostring list \<Rightarrow> int \<Rightarrow> gostring list" where
  "firstN ss n =
     (if int (length ss) \<le> n then ss else take (nat n) ss)"

section \<open>Well-formedness\<close>

lemma TimeWaitLevel_open [level_facts]: "TimeWaitLevel count \<in> insert [] (set levels)"
  unfolding TimeWaitLevel_def Let_def by (intro level_facts)

lemma LVMVGFullLevel_open [level_facts]: "LVMVGFullLevel freePct \<in> insert [] (set levels)"
  unfolding LVMVGFullLevel_def Let_def by (intro level_facts)


end
