(* ===== verification/Checks_SteamOS.thy ===== *)
theory Checks_SteamOS
  imports Checks_Levels
begin

text \<open>
  heuristics_steamos.go: the checks of a SteamOS device, each guarded by \<open>isSteamOSHost\<close>.
\<close>

section \<open>Measurements\<close>

record remote_play_port =
  remotePlayPort_Protocol :: gostring
  remotePlayPort_Port :: int
  remotePlayPort_Bound :: bool
  remotePlayPort_Optional :: bool

record steam_os_remote_play =
  steamOSRemotePlay_Ports :: "remote_play_port list"
  steamOSRemotePlay_FirewallBlocking :: bool
  steamOSRemotePlay_ARPChecked :: bool
  steamOSRemotePlay_APIsolationSuspected :: bool

record steam_os_info =
  steamOS_Detected :: bool
  steamOS_DeviceProductRaw :: gostring
  steamOS_DeviceRecognised :: bool
  steamOS_SecureBootApplicable :: bool
  steamOS_SecureBootEnabled :: "bool option"
  steamOS_BuildID :: gostring
  steamOS_Channel :: gostring
  steamOS_ChannelRaw :: gostring
  steamOS_ChannelConfigMissing :: bool
  steamOS_ReadonlyEnabled :: bool
  steamOS_ReadonlyKnown :: bool
  steamOS_RAUCAvailable :: bool
  steamOS_RAUCBootedSlot :: gostring
  steamOS_RAUCBootedStatus :: gostring
  steamOS_RAUCInactiveSlot :: gostring
  steamOS_RAUCInactiveStatus :: gostring
  steamOS_SessionMode :: gostring
  steamOS_GamescopeActive :: bool
  steamOS_SteamLauncherActive :: bool
  steamOS_SDDMActive :: bool
  steamOS_VarUsedPct :: f64
  steamOS_VarUsedMB :: f64
  steamOS_VarTotalMB :: f64
  steamOS_HomeUsedPct :: f64
  steamOS_HomeUsedGB :: f64
  steamOS_HomeTotalGB :: f64
  steamOS_UpdateServerReachable :: bool
  steamOS_UpdateServerKnown :: bool
  steamOS_RemotePlay :: "steam_os_remote_play option"
  steamOS_FlatpakDataGB :: f64

section \<open>Constants\<close>

definition catSteamOS :: gostring where
  "catSteamOS = ''SteamOS''"

definition inspectRAUCStatus :: gostring where
  "inspectRAUCStatus = ''to inspect: rauc status''"

section \<open>Checks\<close>

definition checkSteamOSRemotePlay :: "steam_os_info \<Rightarrow> insight list" where
  "checkSteamOSRemotePlay s =
     (let rp = steamOS_RemotePlay s
      in if rp = None then []
         else let unbound =
                    concat (map
                              (\<lambda>p.
                                if \<not> remotePlayPort_Optional p \<and> \<not> remotePlayPort_Bound p
                                  then [remotePlayPort_Protocol p @ ''/'' @
                                        itoa (remotePlayPort_Port p)]
                                else [])
                              (steamOSRemotePlay_Ports (the rp)))
              in (if unbound \<noteq> []
                    then [mk_full WARN catSteamOS
                            (''Remote Play port(s) not bound: '' @ join unbound '', '' @ '' '' @
                             em_dash @ '' Steam may not be running or Remote Play is disabled'')
                            [''to fix: launch Steam, then enable Steam '' @
                             [CHR 0xE2, CHR 0x86, CHR 0x92] @ '' Settings '' @
                             [CHR 0xE2, CHR 0x86, CHR 0x92] @ '' Remote Play'',
                             ''to inspect: ss -tulpn | grep -E '' @ squote @ ''27031|27036|27037'' @
                             squote]]
                  else []) @
                 (if steamOSRemotePlay_FirewallBlocking (the rp)
                    then [mk_full WARN catSteamOS
                            ''a firewall rule appears to block a Remote Play port''
                            [''to inspect: nft list ruleset   (or: iptables -L INPUT -n)'']]
                  else []) @
                 (if steamOSRemotePlay_ARPChecked (the rp) \<and>
                     steamOSRemotePlay_APIsolationSuspected (the rp)
                    then [mk_full WARN catSteamOS
                            (''no LAN peers visible in the ARP cache '' @ em_dash @
                             '' router AP client isolation may be blocking Remote Play discovery (inferential)'')
                            [''to fix: disable '' @ squote @ ''AP isolation'' @ squote @ '' / '' @
                             squote @ ''client isolation'' @ squote @ '' in your router settings'',
                             ''note: this is an inference, not a certainty '' @ em_dash @
                             '' clients can'' @ squote @
                             ''t see each other under AP isolation even with internet access'']]
                  else []))"

definition checkSteamOSDevice :: "environment \<Rightarrow> steam_os_info \<Rightarrow> insight list" where
  "checkSteamOSDevice env s =
     (if steamOS_DeviceProductRaw s \<noteq> [] \<and> \<not> steamOS_DeviceRecognised s
        then [mk_full INFO catSteamOS
                (''unrecognised SteamOS device (DMI: '' @ Quote env (steamOS_DeviceProductRaw s) @
                 '') '' @ em_dash @ '' hardware thresholds may not be accurate'') []]
      else []) @
     (if (steamOS_SecureBootApplicable s \<and> steamOS_SecureBootEnabled s \<noteq> None) \<and>
         the (steamOS_SecureBootEnabled s)
        then [mk_full WARN catSteamOS
                (''Secure Boot is enabled '' @ em_dash @
                 '' USB recovery requires disabling it in BIOS first'')
                [''to fix: enter BIOS at boot (device-specific key) '' @
                 [CHR 0xE2, CHR 0x86, CHR 0x92] @ '' Security '' @ [CHR 0xE2, CHR 0x86, CHR 0x92] @
                 '' Secure Boot '' @ [CHR 0xE2, CHR 0x86, CHR 0x92] @ '' Disabled'',
                 ''note: Steam Deck firmware does not enforce Secure Boot; this applies to other handhelds'']]
      else if steamOS_SecureBootApplicable s \<and> steamOS_SecureBootEnabled s = None
        then [unverifiedInsight ReasonUnreadable INFO catSteamOS
                (''Secure Boot state could not be verified '' @ em_dash @
                 '' the efivarfs SecureBoot variable could not be read'')
                [''to inspect: cat /sys/firmware/efi/efivars/SecureBoot-*'']]
      else [])"

definition checkSteamOSUpdate :: "environment \<Rightarrow> steam_os_info \<Rightarrow> insight list" where
  "checkSteamOSUpdate env s =
     (if \<not> steamOS_RAUCAvailable s
        then [unverifiedInsight ReasonCollectorError INFO catSteamOS
                (''RAUC A/B slot health could not be verified '' @ em_dash @
                 '' `rauc status` failed or returned no data'')
                [inspectRAUCStatus,
                 ''check: systemctl status rauc '' @ em_dash @ '' is the service up?'']]
      else []) @
     (if steamOS_RAUCAvailable s \<and> equal_fold (steamOS_RAUCBootedStatus s) ''bad''
        then [mk_full CRIT catSteamOS
                (''booted RAUC slot '' @ steamOS_RAUCBootedSlot s @ '' has boot status '' @ squote @
                 ''bad'' @ squote @ '' '' @ em_dash @ '' system updates will not install'')
                [''to fix: sudo rauc status mark-active booted'', inspectRAUCStatus]]
      else if (steamOS_RAUCAvailable s \<and> steamOS_RAUCBootedStatus s \<noteq> []) \<and>
              \<not> equal_fold (steamOS_RAUCBootedStatus s) ''good''
        then [unverifiedInsight ReasonParse INFO catSteamOS
                (''booted RAUC slot '' @ steamOS_RAUCBootedSlot s @
                 '' reports an unrecognized boot status '' @
                 Quote env (steamOS_RAUCBootedStatus s) @ '' '' @ em_dash @
                 '' could not confirm it is healthy'') [inspectRAUCStatus]]
      else []) @
     (if steamOS_RAUCAvailable s \<and> equal_fold (steamOS_RAUCInactiveStatus s) ''bad''
        then (let fixHint =
                    ''to fix: re-image to restore the slot (slot name withheld '' @ em_dash @
                    '' contains unexpected characters)'';
                  fixHint =
                    (if looksLikeSafeToken (steamOS_RAUCInactiveSlot s)
                       then ''to fix: sudo rauc status mark-good '' @ steamOS_RAUCInactiveSlot s
                     else fixHint)
              in [mk_full WARN catSteamOS
                    (''inactive RAUC slot '' @ steamOS_RAUCInactiveSlot s @ '' has boot status '' @
                     squote @ ''bad'' @ squote @ '' '' @ em_dash @
                     '' no rollback available if the next update fails'')
                    [fixHint, ''or: re-image to restore the slot'']])
      else if (steamOS_RAUCAvailable s \<and> steamOS_RAUCInactiveStatus s \<noteq> []) \<and>
              \<not> equal_fold (steamOS_RAUCInactiveStatus s) ''good''
        then [unverifiedInsight ReasonParse INFO catSteamOS
                (''inactive RAUC slot '' @ steamOS_RAUCInactiveSlot s @
                 '' reports an unrecognized boot status '' @
                 Quote env (steamOS_RAUCInactiveStatus s) @ '' '' @ em_dash @
                 '' could not confirm rollback is available'') [inspectRAUCStatus]]
      else []) @
     (if steamOS_ReadonlyKnown s \<and> \<not> steamOS_ReadonlyEnabled s
        then [mk_full CRIT catSteamOS
                (''steamos-readonly is DISABLED '' @ em_dash @
                 '' rootfs is writable; the next update will overwrite manual changes and may break the system'')
                [''to fix: sudo steamos-readonly enable'',
                 ''note: a writable rootfs is the #1 cause of '' @ squote @
                 ''an update broke my packages'' @ squote]]
      else if \<not> steamOS_ReadonlyKnown s
        then [unverifiedInsight ReasonCollectorError INFO catSteamOS
                (''rootfs writability could not be verified '' @ em_dash @
                 '' `steamos-readonly status` failed or is not available'')
                [''to inspect: steamos-readonly status'']]
      else []) @
     (if steamOS_ChannelConfigMissing s
        then [mk_full WARN catSteamOS
                (''/etc/steamos-atomupd/client.conf is missing '' @ em_dash @
                 '' the updater cannot determine its channel'')
                [''to fix: reinstall steamos-atomupd-client or restore the config'']]
      else if steamOS_Channel s \<noteq> [] \<and> steamOS_Channel s \<noteq> ''stable''
        then [mk_full INFO catSteamOS
                (''update channel is '' @ squote @ steamOS_Channel s @ squote @ '' (not stable) '' @
                 em_dash @ '' expected on a dev/test device, unusual otherwise'')
                [''to switch: use Settings '' @ [CHR 0xE2, CHR 0x86, CHR 0x92] @ '' System '' @
                 [CHR 0xE2, CHR 0x86, CHR 0x92] @ '' Update Channel, or steamos-select-branch'']]
      else [])"

definition checkSteamOSSession :: "steam_os_info \<Rightarrow> insight list" where
  "checkSteamOSSession s =
     (if steamOS_SessionMode s = ''gamemode'' \<and> \<not> steamOS_GamescopeActive s
        then [mk_full CRIT catSteamOS
                (''in Game Mode but gamescope-session is not active '' @ em_dash @
                 '' the session has likely crashed (device stuck)'')
                [''to inspect: systemctl status gamescope-session'',
                 ''to recover: sudo systemctl restart gamescope-session'']]
      else [])"

definition checkSteamOSStorage :: "steam_os_info \<Rightarrow> insight list" where
  "checkSteamOSStorage s =
     (let l = levelPct (steamOS_VarUsedPct s) (Fin 70) (Fin 85)
      in if l \<noteq> []
           then [mk_full l catSteamOS
                   (''/var at '' @ fmt_f 0 (steamOS_VarUsedPct s) @ ''% ('' @
                    fmt_f 0 (steamOS_VarUsedMB s) @ '' / '' @ fmt_f 0 (steamOS_VarTotalMB s) @
                    '' MB) '' @ em_dash @ '' fills with journal, update temp files, logs'')
                   [''to fix: sudo journalctl --vacuum-size=50M'',
                    ''to inspect: sudo du -sh /var/* | sort -h | tail'']]
         else []) @
     (let l = levelPct (steamOS_HomeUsedPct s) (Fin 85) (Fin 95)
      in if l \<noteq> []
           then [mk_full l catSteamOS
                   (''/home at '' @ fmt_f 0 (steamOS_HomeUsedPct s) @ ''% ('' @
                    fmt_f 0 (steamOS_HomeUsedGB s) @ '' / '' @ fmt_f 0 (steamOS_HomeTotalGB s) @
                    '' GB) '' @ em_dash @ '' Proton prefixes, shader cache, game saves, flatpaks'')
                   [''to inspect: du -sh ~/.steam/steam/steamapps/compatdata ~/.steam/steam/shadercache'']]
         else [])"

definition checkSteamOSNetwork :: "steam_os_info \<Rightarrow> insight list" where
  "checkSteamOSNetwork s =
     (if steamOS_UpdateServerKnown s \<and> \<not> steamOS_UpdateServerReachable s
        then [mk_full WARN catSteamOS
                (''SteamOS update server (steamdeck-atomupd.steamos.cloud) is unreachable '' @
                 em_dash @ '' updates cannot be fetched'')
                [''to inspect: ping steamdeck-atomupd.steamos.cloud'',
                 ''to inspect: check Wi-Fi / DNS / VPN'']]
      else [])"

definition checkSteamOSDeep :: "steam_os_info \<Rightarrow> insight list" where
  "checkSteamOSDeep s =
     (if flt (Fin 20) (steamOS_FlatpakDataGB s)
        then [mk_full WARN catSteamOS
                (''flatpak data is '' @ fmt_f 1 (steamOS_FlatpakDataGB s) @ '' GB'')
                [''to reclaim: flatpak uninstall --unused'']]
      else [])"

definition checkSteamOSDisk :: "steam_os_disk option \<Rightarrow> insight list" where
  "checkSteamOSDisk d =
     (if flt (Fin 30) (steamOSDisk_ShaderCacheGB (the d))
        then [mk_full CRIT catSteamOS
                (''shader cache is '' @ fmt_f 1 (steamOSDisk_ShaderCacheGB (the d)) @ '' GB '' @
                 em_dash @ '' consuming /home aggressively'')
                [''to clear: Steam '' @ [CHR 0xE2, CHR 0x86, CHR 0x92] @ '' Settings '' @
                 [CHR 0xE2, CHR 0x86, CHR 0x92] @ '' Storage'',
                 ''or per-game: rm -rf ~/.steam/steam/shadercache/<AppID>'']]
      else if flt (Fin 10) (steamOSDisk_ShaderCacheGB (the d))
        then [mk_full WARN catSteamOS
                (''shader cache is '' @ fmt_f 1 (steamOSDisk_ShaderCacheGB (the d)) @ '' GB '' @
                 em_dash @ '' consider cleanup'')
                [''to clear: Steam '' @ [CHR 0xE2, CHR 0x86, CHR 0x92] @ '' Settings '' @
                 [CHR 0xE2, CHR 0x86, CHR 0x92] @ '' Storage'']]
      else []) @
     concat (map
               (\<lambda>bm.
                 if \<not> steamOSBindMount_OK bm
                   then (let safePath =
                               ''<path withheld '' @ em_dash @ '' contains unexpected characters>'';
                             safePath =
                               (if looksLikeSafeToken (steamOSBindMount_Path bm)
                                  then steamOSBindMount_Path bm
                                else safePath);
                             safeTarget =
                               ''<target withheld '' @ em_dash @
                               '' contains unexpected characters>'';
                             safeTarget =
                               (if looksLikeSafeToken (steamOSBindMount_Target bm)
                                  then steamOSBindMount_Target bm
                                else safeTarget)
                         in [mk_full WARN catSteamOS
                               (''offload bind mount for '' @ steamOSBindMount_Path bm @
                                '' looks broken (expected '' @ [CHR 0xE2, CHR 0x86, CHR 0x92] @
                                '' '' @ steamOSBindMount_Target bm @ '') '' @ em_dash @
                                '' may indicate /home filesystem issues'')
                               [''to inspect: mount | grep '' @ safePath,
                                ''to inspect: ls -la '' @ safeTarget]])
                 else [])
               (steamOSDisk_BindMounts (the d)))"

definition steamChannel24OK :: "int \<Rightarrow> bool" where
  "steamChannel24OK ch \<longleftrightarrow>
     (ch = 1 \<or> ch = 6) \<or> ch = 11"

definition checkSteamOS :: "environment \<Rightarrow> steam_os_info \<Rightarrow> insight list" where
  "checkSteamOS env s =
     (if \<not> steamOS_Detected s then []
      else checkSteamOSDevice env s @
           checkSteamOSUpdate env s @
           checkSteamOSSession s @
           checkSteamOSStorage s @
           checkSteamOSNetwork s @
           checkSteamOSRemotePlay s @
           checkSteamOSDeep s)"

definition checkSteamOSWifiQuality :: "steam_os_wifi option \<Rightarrow> insight list" where
  "checkSteamOSWifiQuality w =
     (if \<not> steamOSWifi_Connected (the w) then []
      else (if feq (steamOSWifi_BandGHz (the w)) (Fin (5404319552844595 / 2251799813685248))
              then [mk_full WARN catSteamOS
                      (''Wi-Fi on 2.4GHz '' @ em_dash @
                       '' switch to 5GHz for reliable Remote Play streaming'')
                      [''to fix: connect to the 5GHz SSID on your router'']] @
                   (if steamOSWifi_Channel (the w) \<noteq> 0 \<and>
                       \<not> steamChannel24OK (steamOSWifi_Channel (the w))
                      then [mk_full WARN catSteamOS
                              (''2.4GHz channel '' @ itoa (steamOSWifi_Channel (the w)) @
                               '' is not one of the non-overlapping 1/6/11'')
                              [''to fix: set the router to channel 1, 6, or 11'']]
                    else [])
            else []) @
           (if steamOSWifi_WidthMHz (the w) = 20
              then [mk_full WARN catSteamOS
                      (''Wi-Fi channel width is 20MHz '' @ em_dash @
                       '' half the throughput of 40/80MHz'')
                      [''to fix: enable 40/80MHz channel width in your router (5GHz)'']]
            else []) @
           (if steamOSWifi_SignalDBm (the w) \<noteq> 0
              then (if steamOSWifi_SignalDBm (the w) < - 75
                      then [mk_full CRIT catSteamOS
                              (''Wi-Fi signal '' @ itoa (steamOSWifi_SignalDBm (the w)) @
                               '' dBm '' @ em_dash @
                               '' poor; move the device closer to the router'') []]
                    else if steamOSWifi_SignalDBm (the w) \<le> - 65
                      then [mk_full WARN catSteamOS
                              (''Wi-Fi signal '' @ itoa (steamOSWifi_SignalDBm (the w)) @
                               '' dBm '' @ em_dash @ '' marginal; streaming quality may degrade'')
                              []]
                    else [])
            else []))"

definition checkSteamOSWifi :: "environment \<Rightarrow> steam_os_wifi option \<Rightarrow> insight list" where
  "checkSteamOSWifi env w =
     (if steamOSWifi_BothBackends (the w)
        then [mk_full WARN catSteamOS
                (''both iwd and wpa_supplicant are active '' @ em_dash @
                 '' conflicting Wi-Fi backends'')
                [''to fix: disable one (SteamOS default is iwd): systemctl disable --now wpa_supplicant'']]
      else if steamOSWifi_DevMode (the w)
        then [mk_full INFO catSteamOS
                (''Wi-Fi managed by wpa_supplicant (dev-option workaround) '' @ em_dash @
                 '' switch back to iwd once the 3.7.x regression is resolved'') []]
      else []) @
     (if steamOSWifi_SSIDConflict (the w)
        then [mk_full WARN catSteamOS
                (''SSID '' @ Quote env (steamOSWifi_ConflictSSID (the w)) @
                 '' appears on both 2.4GHz and 5GHz '' @ em_dash @
                 '' a known Steam Deck OLED reliability issue'')
                [''to fix: give each band a unique name in your router (e.g. add a _5G suffix)'']]
      else []) @
     (if steamOSWifi_CDNDNSKnown (the w) \<and> 500 < steamOSWifi_CDNDNSms (the w)
        then [mk_full WARN catSteamOS
                (''Steam CDN DNS is slow ('' @ itoa (steamOSWifi_CDNDNSms (the w)) @ ''ms) '' @
                 em_dash @ '' may cause slow downloads/updates'')
                [''to fix: Settings '' @ [CHR 0xE2, CHR 0x86, CHR 0x92] @ '' Internet '' @
                 [CHR 0xE2, CHR 0x86, CHR 0x92] @ '' set DNS to 1.1.1.1 or 8.8.8.8'']]
      else []) @
     checkSteamOSWifiQuality w"

section \<open>Well-formedness\<close>

lemma checkSteamOSRemotePlay_wf [wf_rules]: "wf_insights (checkSteamOSRemotePlay s)"
  unfolding checkSteamOSRemotePlay_def by (intro wf_lets wf_rules level_facts; (assumption | erule (1) level_open; intro level_facts | erule level_nonempty; intro level_facts | elim level_elims; (intro level_facts)?; assumption?))

lemma checkSteamOSDevice_wf [wf_rules]: "wf_insights (checkSteamOSDevice env s)"
  unfolding checkSteamOSDevice_def by (intro wf_lets wf_rules level_facts; (assumption | erule (1) level_open; intro level_facts | erule level_nonempty; intro level_facts | elim level_elims; (intro level_facts)?; assumption?))

lemma checkSteamOSUpdate_wf [wf_rules]: "wf_insights (checkSteamOSUpdate env s)"
  unfolding checkSteamOSUpdate_def by (intro wf_lets wf_rules level_facts; (assumption | erule (1) level_open; intro level_facts | erule level_nonempty; intro level_facts | elim level_elims; (intro level_facts)?; assumption?))

lemma checkSteamOSSession_wf [wf_rules]: "wf_insights (checkSteamOSSession s)"
  unfolding checkSteamOSSession_def by (intro wf_lets wf_rules level_facts; (assumption | erule (1) level_open; intro level_facts | erule level_nonempty; intro level_facts | elim level_elims; (intro level_facts)?; assumption?))

lemma checkSteamOSStorage_wf [wf_rules]: "wf_insights (checkSteamOSStorage s)"
  unfolding checkSteamOSStorage_def by (intro wf_lets wf_rules level_facts; (assumption | erule (1) level_open; intro level_facts | erule level_nonempty; intro level_facts | elim level_elims; (intro level_facts)?; assumption?))

lemma checkSteamOSNetwork_wf [wf_rules]: "wf_insights (checkSteamOSNetwork s)"
  unfolding checkSteamOSNetwork_def by (intro wf_lets wf_rules level_facts; (assumption | erule (1) level_open; intro level_facts | erule level_nonempty; intro level_facts | elim level_elims; (intro level_facts)?; assumption?))

lemma checkSteamOSDeep_wf [wf_rules]: "wf_insights (checkSteamOSDeep s)"
  unfolding checkSteamOSDeep_def by (intro wf_lets wf_rules level_facts; (assumption | erule (1) level_open; intro level_facts | erule level_nonempty; intro level_facts | elim level_elims; (intro level_facts)?; assumption?))

lemma checkSteamOSDisk_wf [wf_rules]: "wf_insights (checkSteamOSDisk d)"
  unfolding checkSteamOSDisk_def by (intro wf_lets wf_rules level_facts; (assumption | erule (1) level_open; intro level_facts | erule level_nonempty; intro level_facts | elim level_elims; (intro level_facts)?; assumption?))

lemma checkSteamOS_wf [wf_rules]: "wf_insights (checkSteamOS env s)"
  unfolding checkSteamOS_def by (intro wf_lets wf_rules level_facts; (assumption | erule (1) level_open; intro level_facts | erule level_nonempty; intro level_facts | elim level_elims; (intro level_facts)?; assumption?))

lemma checkSteamOSWifiQuality_wf [wf_rules]: "wf_insights (checkSteamOSWifiQuality w)"
  unfolding checkSteamOSWifiQuality_def by (intro wf_lets wf_rules level_facts; (assumption | erule (1) level_open; intro level_facts | erule level_nonempty; intro level_facts | elim level_elims; (intro level_facts)?; assumption?))

lemma checkSteamOSWifi_wf [wf_rules]: "wf_insights (checkSteamOSWifi env w)"
  unfolding checkSteamOSWifi_def by (intro wf_lets wf_rules level_facts; (assumption | erule (1) level_open; intro level_facts | erule level_nonempty; intro level_facts | elim level_elims; (intro level_facts)?; assumption?))


end
