(* ===== verification/Checks_Network.thy ===== *)
theory Checks_Network
  imports Checks_SteamOS
begin

text \<open>
  heuristics_network.go: NFS, BIND, interfaces and their counters, the clock, bonds and their slaves, VLANs,
  InfiniBand and SR-IOV.
\<close>

section \<open>Measurements\<close>

record nfs_mount =
  nfsMount_Mount :: gostring
  nfsMount_Server :: gostring
  nfsMount_Export :: gostring
  nfsMount_FSType :: gostring
  nfsMount_Options :: gostring
  nfsMount_Healthy :: bool
  nfsMount_Stale :: bool
  nfsMount_ServerReachable :: bool
  nfsMount_ServerCheckSkipped :: bool
  nfsMount_OptionsWarnings :: "gostring list"

record nfs_info =
  nfs_Mounts :: "nfs_mount list"
  nfs_StaleMounts :: int
  nfs_RpcbindActive :: bool
  nfs_RetransPerMin :: f64
  nfs_RPCCalls :: f64
  nfs_StatsUnreadable :: bool

record bind_zone =
  bindZone_Name :: gostring
  bindZone_OK :: bool

record bind_info =
  bind_Detected :: bool
  bind_ServiceActive :: bool
  bind_Version :: gostring
  bind_Uptime :: gostring
  bind_ConfigFile :: gostring
  bind_ConfigOK :: bool
  bind_ConfigError :: gostring
  bind_PortsChecked :: bool
  bind_Port53TCP :: bool
  bind_Port53UDP :: bool
  bind_PortsOwnershipUnverified :: bool
  bind_QueryOK :: bool
  bind_QueryTested :: bool
  bind_Zones :: "bind_zone list"
  bind_ZonesFailed :: int
  bind_RNCDAvailable :: bool
  bind_QueryCount :: int

record clock_info =
  clock_Synced :: bool
  clock_OffsetMs :: f64
  clock_Source :: gostring
  clock_RTCInLocalTZ :: bool

record bond_slave =
  bondSlave_Name :: gostring
  bondSlave_State :: gostring
  bondSlave_MIIStatus :: gostring
  bondSlave_LinkFails :: int

record bond_interface =
  bondInterface_Name :: gostring
  bondInterface_Mode :: gostring
  bondInterface_ModeShort :: gostring
  bondInterface_Slaves :: "bond_slave list"
  bondInterface_DownSlaves :: int
  bondInterface_Degraded :: bool
  bondInterface_AllDown :: bool
  bondInterface_PartnerMAC :: gostring
  bondInterface_AggregatorPorts :: int
  bondInterface_NotAggregating :: bool

record vlan_interface =
  vlanInterface_Name :: gostring
  vlanInterface_Parent :: gostring
  vlanInterface_VLANID :: int
  vlanInterface_Up :: bool

record vlan_info =
  vlan_Interfaces :: "vlan_interface list"

record ib_port =
  ibPort_Device :: gostring
  ibPort_Port :: int
  ibPort_State :: gostring

record infini_band_info =
  infiniBand_Ports :: "ib_port list"
  infiniBand_ReadFailed :: bool

record sriov_device =
  sriovDevice_NumVFs :: int

record sriov_info =
  sriov_Devices :: "sriov_device list"

record wi_fi_info =
  wiFi_SSID :: gostring
  wiFi_SignalDBm :: int

record interface_info =
  interface_Name :: gostring
  interface_RxErrors :: int
  interface_TxErrors :: int
  interface_RxPackets :: int
  interface_TxPackets :: int
  interface_SpeedMbps :: int
  interface_IsUSB :: bool
  interface_Driver :: gostring
  interface_WiFi :: "wi_fi_info option"

record network_info =
  network_Interfaces :: "interface_info list"
  network_PrimaryInterface :: gostring
  network_PrimaryInterfaceDown :: bool
  network_GatewayPingMs :: f64
  network_InternetPingMs :: f64
  network_DNSResolvesMs :: f64
  network_DNSFailed :: bool
  network_GatewayPacketLossPct :: f64
  network_CloseWaitCount :: int
  network_ConnectivityProbeDisabled :: bool
  network_InterfacesUnreadable :: bool
  network_ConnectionsUnreadable :: bool
  network_TimeWaitCount :: int
  network_SynRetransCount :: int
  network_ListenOverflows :: int
  network_RetransFailCount :: int
  network_UptimeSec :: f64
  network_SockstatUnreadable :: bool
  network_NetstatUnreadable :: bool
  network_ConntrackUsedPct :: f64
  network_Bonds :: "bond_interface list"
  network_SteamOSWifi :: "steam_os_wifi option"

record bonding_info =
  bonding_Bonds :: "bond_interface list"

section \<open>Constants\<close>

definition catNetwork :: gostring where
  "catNetwork = ''Network''"

definition netCatBonding :: gostring where
  "netCatBonding = ''Bonding''"

definition netCatBIND :: gostring where
  "netCatBIND = ''BIND''"

definition netCatNFS :: gostring where
  "netCatNFS = ''NFS''"

definition netInspectIPLink :: gostring where
  "netInspectIPLink = ''to inspect: ip link show''"

definition netInspectIPRoute :: gostring where
  "netInspectIPRoute = ''to inspect: ip route''"

definition netKwSynRetrans :: gostring where
  "netKwSynRetrans = ''syn_retrans''"

definition netKwRetransFail :: gostring where
  "netKwRetransFail = ''retrans_fail''"

definition netKwListenOverflow :: gostring where
  "netKwListenOverflow = ''listen_overflow''"

definition netSafeIfacePlaceholder :: gostring where
  "netSafeIfacePlaceholder = ''<interface>''"

definition netSafeSlavePlaceholder :: gostring where
  "netSafeSlavePlaceholder = ''<slave-name>''"

section \<open>Checks\<close>

definition NFSRetransConcern :: "nfs_info \<Rightarrow> bool" where
  "NFSRetransConcern nfs \<longleftrightarrow>
     (nfs_StaleMounts nfs = 0 \<and> flt (Fin 1000) (nfs_RPCCalls nfs)) \<and>
     flt (Fin (3602879701896397 / 72057594037927936))
       (fdiv (nfs_RetransPerMin nfs) (nfs_RPCCalls nfs))"

definition NFSHasV3Mount :: "nfs_mount list \<Rightarrow> bool" where
  "NFSHasV3Mount mounts \<longleftrightarrow>
     list_ex (\<lambda>m. nfsMount_FSType m \<noteq> ''nfs4'') mounts"

definition checkBIND :: "bind_info \<Rightarrow> insight list" where
  "checkBIND b =
     (if \<not> bind_Detected b then []
      else if \<not> bind_ServiceActive b
        then [mk_full CRIT netCatBIND
                (''named service is not active '' @ em_dash @ '' DNS server not running'')
                [''to start: systemctl start named'',
                 ''to inspect: journalctl -u named -n 50 --no-pager'']]
      else (if \<not> bind_PortsChecked b
              then [unverifiedInsight ReasonCollectorError INFO netCatBIND
                      (''could not verify named is listening on port 53 '' @ em_dash @
                       '' ss (iproute2) unavailable'')
                      [''to install: apt install iproute2  /  dnf install iproute'']]
            else if bind_PortsOwnershipUnverified b \<and> (\<not> bind_Port53TCP b \<or> \<not> bind_Port53UDP b)
              then [unverifiedInsight ReasonCollectorError INFO netCatBIND
                      (''could not verify named is listening on port 53 '' @ em_dash @
                       '' ss cannot attribute socket ownership without root'')
                      [''to inspect: sudo ss -tulpn | grep :53'']]
            else if \<not> bind_Port53TCP b \<or> \<not> bind_Port53UDP b
              then [mk_full WARN netCatBIND
                      (''named is running but not listening on port 53 '' @ em_dash @
                       '' config error or firewall'')
                      [''to inspect: ss -tulpn | grep :53'',
                       ''to inspect: journalctl -u named -n 20 --no-pager'']]
            else []) @
           (if \<not> bind_ConfigOK b
              then [mk_full CRIT netCatBIND (''named-checkconf error: '' @ bind_ConfigError b)
                      [''to fix: named-checkconf '' @ bind_ConfigFile b,
                       ''to reload after fix: rndc reload'']]
            else []) @
           (if 0 < bind_ZonesFailed b
              then (let failed =
                          concat (map
                                    (\<lambda>z. if \<not> bindZone_OK z then [bindZone_Name z] else [])
                                    (bind_Zones b))
                    in [mk_full CRIT netCatBIND
                          (itoa (bind_ZonesFailed b) @ '' zone file(s) failed validation: '' @
                           join (firstN failed 3) '', '')
                          [''to inspect: named-checkzone <zone> <file>'',
                           ''to reload after fix: rndc reload <zone>'']])
            else []) @
           (if bind_QueryTested b \<and> \<not> bind_QueryOK b
              then [mk_full CRIT netCatBIND
                      ''named is running but not answering DNS queries on 127.0.0.1:53''
                      [''to test: dig @127.0.0.1 localhost A +time=2 +tries=1'',
                       ''to inspect: journalctl -u named -n 50 --no-pager'']]
            else if \<not> bind_QueryTested b
              then [unverifiedInsight ReasonCollectorError INFO netCatBIND
                      (''could not verify named is answering '' @ em_dash @ '' dig not installed'')
                      [''to enable the check: install bind-utils (RHEL) / dnsutils (Debian)'']]
            else []))"

definition eventsPerHour :: "int \<Rightarrow> f64 \<Rightarrow> f64" where
  "eventsPerHour count uptimeSec =
     (if fle uptimeSec (Fin 0) then Fin (- 1) else fdiv (f_of_int count) (fdiv uptimeSec (Fin 3600)))"

definition rateSuffix :: "f64 \<Rightarrow> gostring" where
  "rateSuffix rate =
     (if flt rate (Fin 0) then [] else '' (~'' @ fmt_f 1 rate @ ''/hr)'')"

definition tcpCounterLevel :: "int \<Rightarrow> f64 \<Rightarrow> f64 \<Rightarrow> f64 \<Rightarrow> gostring" where
  "tcpCounterLevel count uptimeSec warnRate critRate =
     (let rate = eventsPerHour count uptimeSec
      in if flt (Fin 0) critRate \<and> fle critRate rate then CRIT
         else if fle warnRate rate then WARN
         else INFO)"

definition nicErrorRateHigh :: "int \<Rightarrow> int \<Rightarrow> bool" where
  "nicErrorRateHigh errors packets \<longleftrightarrow>
     (if errors \<le> 100 \<or> packets = 0 then False
      else flt (Fin (7378697629483821 / 73786976294838206464))
             (fdiv (f_of_int errors) (f_of_int packets)))"

definition checkClock :: "clock_info \<Rightarrow> thresholds \<Rightarrow> insight list" where
  "checkClock clock thresh =
     (if \<not> clock_Synced clock
        then (let level = CRIT;
                  level = (if clock_RTCInLocalTZ clock then WARN else level);
                  msg = ''NTP is not synchronized'';
                  hints =
                    [''to inspect: timedatectl status'', ''to inspect: chronyc tracking'',
                     ''to inspect: systemctl status chronyd ntpd''];
                  msg =
                    (if clock_RTCInLocalTZ clock
                       then ''RTC is in local timezone '' @ em_dash @
                            '' NTP reports unsync (common on dual-boot with Windows)''
                     else msg);
                  hints =
                    (if clock_RTCInLocalTZ clock
                       then hints @
                            [''to fix: timedatectl set-local-rtc 0 (switches RTC to UTC, resolves the false CRIT)'']
                     else hints)
              in [mk_full level ''Clock'' msg hints])
      else []) @
     (if \<not> feq (clock_OffsetMs clock) (Fin (- 1))
        then (let abs = fabs (clock_OffsetMs clock);
                  l = levelPct abs (NTPOffsetWarnMs thresh) (NTPOffsetCritMs thresh)
              in if l \<noteq> []
                   then [mk_full l ''Clock''
                           (''NTP offset is '' @ fmt_f 1 (clock_OffsetMs clock) @
                            '' ms (source: '' @ clock_Source clock @ '')'')
                           [''to inspect: chronyc tracking'', ''to inspect: ntpq -p'',
                            ''to inspect: timedatectl status'']]
                 else [])
      else [])"

definition checkBondUSBSlaves :: "environment \<Rightarrow> bond_interface \<Rightarrow> insight list" where
  "checkBondUSBSlaves env bond =
     concat (map
               (\<lambda>s.
                 if \<not> isUSBNetworkInterface env (bondSlave_Name s) then []
                 else let safeSlaveName = netSafeSlavePlaceholder;
                          safeSlaveName =
                            (if looksLikeSafeToken (bondSlave_Name s) then bondSlave_Name s
                             else safeSlaveName)
                      in [mk_full INFO netCatBonding
                            (bondInterface_Name bond @ '': slave '' @ bondSlave_Name s @
                             '' is a USB NIC '' @ em_dash @
                             '' USB adapters are less reliable than PCIe NICs for production bonding (can be unplugged, USB bus is a single point of failure)'')
                            [''note: consider replacing with a PCIe or onboard NIC for production HA'',
                             ''to inspect: readlink /sys/class/net/'' @ safeSlaveName @
                             ''/device/subsystem'']])
               (bondInterface_Slaves bond))"

definition checkBondDownSlaves :: "bond_interface \<Rightarrow> insight list" where
  "checkBondDownSlaves bond =
     concat (map
               (\<lambda>s.
                 if bondSlave_State s \<noteq> ''down'' then []
                 else let safeSlaveName = netSafeSlavePlaceholder;
                          safeSlaveName =
                            (if looksLikeSafeToken (bondSlave_Name s) then bondSlave_Name s
                             else safeSlaveName)
                      in [mk_full INFO netCatBonding
                            (bondInterface_Name bond @ '': slave '' @ bondSlave_Name s @
                             '' is down (MII: '' @ bondSlave_MIIStatus s @ '')'')
                            [''to inspect: ethtool '' @ safeSlaveName,
                             ''to inspect: ip link show '' @ safeSlaveName]])
               (bondInterface_Slaves bond)) @
     concat (map
               (\<lambda>s.
                 if bondSlave_LinkFails s \<le> 10 then []
                 else let safeSlaveName = netSafeSlavePlaceholder;
                          safeSlaveName =
                            (if looksLikeSafeToken (bondSlave_Name s) then bondSlave_Name s
                             else safeSlaveName)
                      in [mk_full WARN netCatBonding
                            (bondInterface_Name bond @ '': slave '' @ bondSlave_Name s @ '' has '' @
                             itoa (bondSlave_LinkFails s) @ '' link failures '' @ em_dash @
                             '' check cable or switch port'')
                            [''to inspect: ethtool '' @ safeSlaveName]])
               (bondInterface_Slaves bond))"

definition checkVLAN :: "vlan_info \<Rightarrow> insight list" where
  "checkVLAN v =
     (if vlan_Interfaces v = [] then []
      else let down =
                 concat (map
                           (\<lambda>iface.
                             if \<not> vlanInterface_Up iface
                               then [vlanInterface_Name iface @ '' (VLAN '' @
                                     itoa (vlanInterface_VLANID iface) @ '')'']
                             else [])
                           (vlan_Interfaces v))
           in if down = [] then []
              else [mk_full WARN ''VLAN''
                      (itoa (int (length down)) @ '' VLAN interface(s) down: '' @ join down '', '')
                      [netInspectIPLink, ''to inspect: cat /proc/net/vlan/config'']])"

definition checkInfiniBand :: "infini_band_info \<Rightarrow> insight list" where
  "checkInfiniBand ib =
     (if infiniBand_ReadFailed ib
        then [unverifiedInsight ReasonUnreadable INFO ''InfiniBand''
                (''/sys/class/infiniband could not be read '' @ em_dash @
                 '' IB fabric status unverified, not confirmed absent'')
                [netInspectIPLink, ''to inspect: ls -la /sys/class/infiniband'']]
      else if infiniBand_Ports ib = [] then []
      else let down =
                 concat (map
                           (\<lambda>p.
                             let state = to_upper (ibPort_State p)
                             in if state \<noteq> ''ACTIVE''
                                  then (let label = ibPort_State p;
                                            label = (if label = [] then ''unreadable'' else label)
                                        in [ibPort_Device p @ '' port '' @ itoa (ibPort_Port p) @
                                            '' ('' @ label @ '')''])
                                else [])
                           (infiniBand_Ports ib))
           in if down = [] then []
              else [mk_full WARN ''InfiniBand''
                      (itoa (int (length down)) @ '' IB port(s) not active: '' @ join down '', '')
                      [''to inspect: ibstat'',
                       ''to inspect: cat /sys/class/infiniband/*/ports/*/state'',
                       ''note: check cable and switch port'']])"

definition checkSRIOV :: "sriov_info \<Rightarrow> insight list" where
  "checkSRIOV s =
     []"

definition isZeroMACHeuristic :: "gostring \<Rightarrow> bool" where
  "isZeroMACHeuristic mac \<longleftrightarrow>
     (let mac = trim_space mac
      in if mac = [] then False else trim_set mac ''0:'' = [])"

definition checkNFS :: "nfs_info \<Rightarrow> insight list" where
  "checkNFS nfs =
     concat (map
               (\<lambda>m.
                 let safeMount = nfsMount_Mount m;
                     safeServer = nfsMount_Server m;
                     safeMount = (if \<not> looksLikeSafeToken safeMount then ''<mount>'' else safeMount);
                     safeServer =
                       (if \<not> looksLikeSafeToken safeServer then ''<server>'' else safeServer)
                 in (if nfsMount_Stale m
                       then (let hints =
                                   [''to unmount (safe): umount -l '' @ safeMount,
                                    ''to remount after recovery: mount -o remount '' @ safeMount];
                                 hints =
                                   (if \<not> nfsMount_ServerReachable m \<and>
                                       \<not> nfsMount_ServerCheckSkipped m
                                      then hints @
                                           [''server '' @ safeServer @ '' unreachable '' @ em_dash @
                                            '' check network/firewall'']
                                    else hints)
                             in [mk_full CRIT netCatNFS
                                   (''mount '' @ nfsMount_Mount m @ '' is STALE '' @ em_dash @
                                    '' processes accessing it will hang in D-state'') hints])
                     else if \<not> nfsMount_Healthy m
                       then [mk_full WARN netCatNFS
                               (''mount '' @ nfsMount_Mount m @
                                '' is not responding normally (statfs error) '' @ em_dash @
                                '' check exports/permissions'')
                               [''to inspect: stat -f '' @ safeMount,
                                ''to inspect: showmount -e '' @ safeServer @
                                ''   (verify the export still grants this client)'']]
                     else []) @
                    concat (map
                              (\<lambda>warn.
                                [mk_full WARN netCatNFS (nfsMount_Mount m @ '': '' @ warn)
                                   [''to fix: remount with correct options in /etc/fstab'']])
                              (nfsMount_OptionsWarnings m)))
               (nfs_Mounts nfs)) @
     (if NFSRetransConcern nfs
        then [mk_full WARN netCatNFS
                (''NFS retransmission rate '' @
                 fmt_f 1 (fmul (fdiv (nfs_RetransPerMin nfs) (nfs_RPCCalls nfs)) (Fin 100)) @
                 ''% ('' @ fmt_f 0 (nfs_RetransPerMin nfs) @ ''/'' @ fmt_f 0 (nfs_RPCCalls nfs) @
                 '' calls) '' @ em_dash @ '' transport may be unreliable'')
                [''to inspect: nfsstat -rc'', ''to inspect: cat /proc/net/rpc/nfs'']]
      else []) @
     (if \<not> nfs_RpcbindActive nfs \<and> NFSHasV3Mount (nfs_Mounts nfs)
        then [mk_full WARN netCatNFS
                (''rpcbind inactive with NFSv3 mounts present '' @ em_dash @
                 '' NFS client operations may fail'') [''to fix: systemctl enable --now rpcbind'']]
      else []) @
     (if nfs_StatsUnreadable nfs
        then [unverifiedInsight ReasonUnreadable INFO netCatNFS
                (''/proc/net/rpc/nfs could not be read '' @ em_dash @
                 '' NFS retransmission and operation counts not measured'')
                [''to inspect: cat /proc/net/rpc/nfs'', ''to inspect: nfsstat -c'']]
      else [])"

definition DeepTCPCounterLevel :: "gostring \<Rightarrow> int \<Rightarrow> f64 \<Rightarrow> gostring" where
  "DeepTCPCounterLevel kind count uptimeSec =
     (if kind = netKwSynRetrans
        then (if count \<le> 100 then [] else tcpCounterLevel count uptimeSec (Fin 60) (Fin 0))
      else if kind = netKwListenOverflow
        then (if count \<le> 0 then [] else tcpCounterLevel count uptimeSec (Fin 1) (Fin 10))
      else if kind = netKwRetransFail
        then (if count \<le> 10 then [] else tcpCounterLevel count uptimeSec (Fin 6) (Fin 0))
      else [])"

definition deepTCPCounterInsights :: "network_info \<Rightarrow> insight list" where
  "deepTCPCounterInsights net =
     (let lvl =
            DeepTCPCounterLevel netKwSynRetrans (network_SynRetransCount net)
              (network_UptimeSec net)
      in if lvl \<noteq> []
           then (let rate = eventsPerHour (network_SynRetransCount net) (network_UptimeSec net)
                 in if lvl = WARN
                      then [mk_full WARN catNetwork
                              (''~'' @ fmt_f 0 rate @ '' SYN retransmissions/hr since boot ('' @
                               itoa (network_SynRetransCount net) @ '' total) '' @ em_dash @
                               '' packet loss or server overload'')
                              [''to inspect: cat /proc/net/netstat | grep TCPSynRetrans'',
                               ''to inspect: ss -tan state syn-sent'']]
                    else [mk_full INFO catNetwork
                            (itoa (network_SynRetransCount net) @
                             '' SYN retransmissions since boot'' @ rateSuffix rate @ '' '' @
                             em_dash @ '' cumulative, low ongoing rate'')
                            [''to inspect: cat /proc/net/netstat | grep TCPSynRetrans'']])
         else []) @
     (let lvl =
            DeepTCPCounterLevel netKwListenOverflow (network_ListenOverflows net)
              (network_UptimeSec net)
      in if lvl \<noteq> []
           then (let rate = eventsPerHour (network_ListenOverflows net) (network_UptimeSec net);
                     fix =
                       [''to inspect: sysctl net.core.somaxconn'',
                        ''to fix: sysctl -w net.core.somaxconn=4096'',
                        ''to fix: sysctl -w net.ipv4.tcp_max_syn_backlog=4096'']
                 in if lvl = CRIT
                      then [mk_full CRIT catNetwork
                              (''listen queue overflowing (~'' @ fmt_f 0 rate @ ''/hr, '' @
                               itoa (network_ListenOverflows net) @ '' since boot) '' @ em_dash @
                               '' SYN backlog saturated, connections being dropped'') fix]
                    else if lvl = WARN
                      then [mk_full WARN catNetwork
                              (itoa (network_ListenOverflows net) @
                               '' listen-queue overflow(s) since boot (~'' @ fmt_f 1 rate @
                               ''/hr) '' @ em_dash @ '' SYN backlog saturated at times'') fix]
                    else [mk_full INFO catNetwork
                            (itoa (network_ListenOverflows net) @
                             '' listen-queue overflow(s) since boot'' @ rateSuffix rate @ '' '' @
                             em_dash @
                             '' backlog saturated at least once, not necessarily ongoing'') fix])
         else []) @
     (let lvl =
            DeepTCPCounterLevel netKwRetransFail (network_RetransFailCount net)
              (network_UptimeSec net)
      in if lvl \<noteq> []
           then (let rate = eventsPerHour (network_RetransFailCount net) (network_UptimeSec net)
                 in if lvl = WARN
                      then [mk_full WARN catNetwork
                              (''~'' @ fmt_f 0 rate @ '' TCP retransmit failures/hr since boot ('' @
                               itoa (network_RetransFailCount net) @ '' total) '' @ em_dash @
                               '' persistent connectivity problems'')
                              [''to inspect: cat /proc/net/netstat | grep TCPRetransFail'',
                               ''to inspect: ss -ti'']]
                    else [mk_full INFO catNetwork
                            (itoa (network_RetransFailCount net) @
                             '' TCP retransmit failures since boot'' @ rateSuffix rate @ '' '' @
                             em_dash @ '' cumulative, low ongoing rate'')
                            [''to inspect: cat /proc/net/netstat | grep TCPRetransFail'']])
         else [])"

definition checkBond :: "environment \<Rightarrow> bond_interface \<Rightarrow> insight list" where
  "checkBond env bond =
     (let safeBondName = ''<bond-name>'';
          safeBondName =
            (if looksLikeSafeToken (bondInterface_Name bond) then bondInterface_Name bond
             else safeBondName)
      in (if int (length (bondInterface_Slaves bond)) < 2
            then [mk_full WARN netCatBonding
                    (bondInterface_Name bond @ '' has only 1 slave '' @ em_dash @
                     '' no redundancy (second NIC missing or disconnected)'')
                    [''to inspect: cat /proc/net/bonding/'' @ safeBondName, netInspectIPLink,
                     ''note:       bonding provides no benefit with a single slave'']]
          else []) @
         (if bondInterface_NotAggregating bond
            then (let reason = ''links carry no traffic and there is no redundancy'';
                      cause =
                        ''the switch ports are not configured in a matching LACP port-channel'';
                      cause =
                        (if \<not> isZeroMACHeuristic (bondInterface_PartnerMAC bond)
                           then ''some links failed to join the active aggregator''
                         else cause)
                  in [mk_full WARN netCatBonding
                        (bondInterface_Name bond @
                         '': 802.3ad (LACP) bond is link-up but NOT aggregating '' @ em_dash @
                         '' '' @ reason @ '' ('' @ cause @ '')'')
                        [''to inspect: cat /proc/net/bonding/'' @ safeBondName @
                         ''   (check Partner Mac Address + per-slave Aggregator ID)'',
                         ''to inspect: verify the switch ports are in one LACP (802.3ad) port-channel / bond'',
                         ''to inspect: confirm lacp_rate and that both ends agree on active/passive LACP'']])
          else []) @
         (if bondInterface_DownSlaves bond = 0 then checkBondUSBSlaves env bond
          else (if bondInterface_DownSlaves bond = int (length (bondInterface_Slaves bond))
                  then [mk_full CRIT netCatBonding
                          (bondInterface_Name bond @ '': all '' @
                           itoa (bondInterface_DownSlaves bond) @ '' slaves down '' @ em_dash @
                           '' bond is completely failed'')
                          [''to inspect: cat /proc/net/bonding/'' @ safeBondName, netInspectIPLink]]
                else [mk_full WARN netCatBonding
                        (bondInterface_Name bond @ '': '' @ itoa (bondInterface_DownSlaves bond) @
                         ''/'' @ itoa (int (length (bondInterface_Slaves bond))) @
                         '' slave(s) down ('' @ bondInterface_ModeShort bond @ '' mode) '' @
                         em_dash @ '' running degraded'')
                        [''to inspect: cat /proc/net/bonding/'' @ safeBondName, netInspectIPLink,
                         ''to inspect: ethtool <slave-interface>'']]) @
               checkBondDownSlaves bond))"

definition checkNetwork :: "environment \<Rightarrow> network_info \<Rightarrow> insight list" where
  "checkNetwork env net =
     (if network_SteamOSWifi net \<noteq> None then checkSteamOSWifi env (network_SteamOSWifi net) else []) @
     concat (map
               (\<lambda>iface.
                 if interface_WiFi iface = None \<or> wiFi_SignalDBm (the (interface_WiFi iface)) = 0
                   then []
                 else let dbm = wiFi_SignalDBm (the (interface_WiFi iface));
                          ssid = wiFi_SSID (the (interface_WiFi iface));
                          ssid = (if ssid = [] then interface_Name iface else ssid);
                          safeIfaceName = netSafeIfacePlaceholder;
                          safeIfaceName =
                            (if looksLikeSafeToken (interface_Name iface) then interface_Name iface
                             else safeIfaceName)
                      in if dbm < - 80
                           then [mk_full CRIT catNetwork
                                   (''WiFi signal very weak on '' @ interface_Name iface @ '': '' @
                                    itoa dbm @ ''dBm (ssid: '' @ ssid @ '') '' @ em_dash @
                                    '' connection likely unstable'')
                                   [''move closer to the access point'',
                                    ''check for interference on this channel'',
                                    ''to inspect: nmcli dev wifi list ifname '' @ safeIfaceName]]
                         else if dbm < - 70
                           then [mk_full WARN catNetwork
                                   (''WiFi signal weak on '' @ interface_Name iface @ '': '' @
                                    itoa dbm @ ''dBm (ssid: '' @ ssid @ '') '' @ em_dash @
                                    '' expect packet loss'')
                                   [''move closer to the access point or switch to 5GHz band'',
                                    ''to inspect: nmcli dev wifi list ifname '' @ safeIfaceName]]
                         else [])
               (network_Interfaces net)) @
     concat (map
               (\<lambda>b.
                 if bondInterface_Degraded b \<or> bondInterface_AllDown b then []
                 else concat (map
                                (\<lambda>s.
                                  if isUSBNetworkInterface env (bondSlave_Name s)
                                    then [mk_full INFO catNetwork
                                            (''bond '' @ bondInterface_Name b @ '': slave '' @
                                             bondSlave_Name s @ '' is a USB NIC '' @ em_dash @
                                             '' less reliable than PCIe for production bonding'')
                                            [''note: USB adapters can be accidentally unplugged; USB bus is a single point of failure'',
                                             ''note: consider replacing with a PCIe or onboard NIC for production HA'']]
                                  else [])
                                (bondInterface_Slaves b)))
               (network_Bonds net)) @
     concat (map
               (\<lambda>iface.
                 let safeIfaceName = netSafeIfacePlaceholder;
                     safeIfaceName =
                       (if looksLikeSafeToken (interface_Name iface) then interface_Name iface
                        else safeIfaceName)
                 in (if (interface_Name iface = network_PrimaryInterface net \<and>
                         0 < interface_SpeedMbps iface) \<and>
                        interface_SpeedMbps iface < 1000
                       then [mk_full WARN catNetwork
                               (''primary interface '' @ interface_Name iface @ '' linked at '' @
                                itoa (interface_SpeedMbps iface) @ '' Mbps '' @ em_dash @
                                '' expected 1000+ Mbps (check cable or switch port)'')
                               [''to inspect: ethtool '' @ safeIfaceName,
                                ''to inspect: cat /sys/class/net/'' @ safeIfaceName @ ''/speed'']]
                     else []) @
                    (if interface_Name iface = network_PrimaryInterface net \<and> interface_IsUSB iface
                       then (let driver = interface_Driver iface;
                                 driver = (if driver = [] then ''USB NIC'' else driver);
                                 speedInfo = [];
                                 speedInfo =
                                   (if 1000 \<le> interface_SpeedMbps iface
                                      then '' @ '' @
                                           itoa (go_div (interface_SpeedMbps iface) 1000) @
                                           ''Gbps''
                                    else if 0 < interface_SpeedMbps iface
                                      then '' @ '' @ itoa (interface_SpeedMbps iface) @ ''Mbps''
                                    else speedInfo)
                             in [mk_full WARN catNetwork
                                   (''primary interface '' @ interface_Name iface @
                                    '' is USB-attached ('' @ driver @ speedInfo @ '') '' @ em_dash @
                                    '' susceptible to disconnect/reset, not recommended for production'')
                                   [''to inspect: dmesg | grep -i usb'', ''to inspect: lsusb'']])
                     else []) @
                    (if nicErrorRateHigh (interface_RxErrors iface) (interface_RxPackets iface) \<or>
                        nicErrorRateHigh (interface_TxErrors iface) (interface_TxPackets iface)
                       then (let safeIfaceName = netSafeIfacePlaceholder;
                                 safeIfaceName =
                                   (if looksLikeSafeToken (interface_Name iface)
                                      then interface_Name iface
                                    else safeIfaceName)
                             in [mk_full WARN catNetwork
                                   (interface_Name iface @ '' has hardware errors: rx:'' @
                                    itoa (interface_RxErrors iface) @ '' tx:'' @
                                    itoa (interface_TxErrors iface) @ '' '' @ em_dash @
                                    '' may indicate bad cable, NIC, or switch port'')
                                   [''to inspect: ethtool -S '' @ safeIfaceName,
                                    ''to inspect: ip -s link show '' @ safeIfaceName]])
                     else []))
               (network_Interfaces net)) @
     (if network_PrimaryInterfaceDown net
        then (let safeIface = network_PrimaryInterface net;
                  fixHint =
                    ''to fix: interface name withheld '' @ em_dash @
                    '' contains unexpected characters'';
                  fixHint =
                    (if looksLikeSafeToken safeIface
                       then ''to fix: ip link set '' @ safeIface @ '' up''
                     else fixHint)
              in [mk_full CRIT catNetwork
                    (''primary interface '' @ network_PrimaryInterface net @ '' is DOWN'')
                    [netInspectIPLink, netInspectIPRoute, fixHint]])
      else if network_ConnectivityProbeDisabled net
        then [mk_full INFO catNetwork
                (''gateway/internet connectivity and DNS resolution checks were skipped (DSD_OFFLINE set) '' @
                 em_dash @ '' not measured'') []]
      else if flt (network_GatewayPingMs net) (Fin 0) \<and> flt (network_InternetPingMs net) (Fin 0)
        then [mk_full CRIT catNetwork
                (''gateway and internet unreachable '' @ em_dash @ '' host appears offline'')
                [netInspectIPRoute, netInspectIPLink,
                 ''to inspect: ping -c3 $(ip route | awk '' @ squote @ ''/default/{print $3}'' @
                 squote @ '')'']]
      else if flt (network_GatewayPingMs net) (Fin 0) \<and> fle (Fin 0) (network_InternetPingMs net)
        then [mk_full INFO catNetwork
                (''gateway not responding to probes '' @ em_dash @ '' internet traffic is flowing'')
                [''to inspect: traceroute 8.8.8.8'',
                 ''to inspect: ping -c3 $(ip route | awk '' @ squote @ ''/default/{print $3}'' @
                 squote @ '')'']]
      else if flt (Fin 200) (network_GatewayPingMs net)
        then [mk_full CRIT catNetwork
                (''gateway ping is '' @ fmt_f 0 (network_GatewayPingMs net) @ '' ms '' @ em_dash @
                 '' severe latency'')
                [''to inspect: ping -c5 $(ip route | awk '' @ squote @ ''/default/{print $3}'' @
                 squote @ '')'', netInspectIPRoute]]
      else if flt (Fin 50) (network_GatewayPingMs net)
        then [mk_full WARN catNetwork
                (''gateway ping is '' @ fmt_f 0 (network_GatewayPingMs net) @ '' ms '' @ em_dash @
                 '' elevated latency'')
                [''to inspect: ping -c5 $(ip route | awk '' @ squote @ ''/default/{print $3}'' @
                 squote @ '')'']]
      else []) @
     (if (\<not> network_PrimaryInterfaceDown net \<and> \<not> network_ConnectivityProbeDisabled net) \<and>
         fle (Fin 0) (network_GatewayPingMs net)
        then (let lv = GatewayPacketLossLevel (network_GatewayPacketLossPct net)
              in if lv \<noteq> []
                   then (let hints =
                               [''to inspect: ping -c20 $(ip route | awk '' @ squote @
                                ''/default/{print $3}'' @ squote @ '')''];
                             hints = (if lv = CRIT then hints @ [netInspectIPLink] else hints)
                         in [mk_full lv catNetwork
                               (''gateway packet loss '' @
                                fmt_f 0 (network_GatewayPacketLossPct net) @ ''%'') hints])
                 else [])
      else []) @
     (if \<not> network_ConnectivityProbeDisabled net
        then (if network_DNSFailed net
                then [mk_full CRIT ''Network/DNS''
                        (''DNS resolution failed '' @ em_dash @ '' cannot resolve hostnames'')
                        [''to inspect: dig @8.8.8.8 google.com'',
                         ''to inspect: cat /etc/resolv.conf'',
                         ''to inspect: systemctl status systemd-resolved'']]
              else let lv = DNSResolveLevel (network_DNSResolvesMs net)
                   in if lv \<noteq> []
                        then (let hints =
                                    [''to inspect: dig @8.8.8.8 google.com'',
                                     ''to inspect: cat /etc/resolv.conf''];
                                  hints =
                                    (if lv = CRIT
                                       then hints @
                                            [''to inspect: systemctl status systemd-resolved'']
                                     else hints)
                              in [mk_full lv ''Network/DNS''
                                    (''DNS resolution took '' @
                                     fmt_f 0 (network_DNSResolvesMs net) @ '' ms'') hints])
                      else [])
      else []) @
     (if 500 < network_CloseWaitCount net
        then [mk_full CRIT catNetwork
                (itoa (network_CloseWaitCount net) @ '' CLOSE_WAIT connections '' @ em_dash @
                 '' likely connection leak'')
                [''to inspect: ss -s'', ''to inspect: ss -tan state close-wait | head -20'']]
      else if 100 < network_CloseWaitCount net
        then [mk_full WARN catNetwork
                (itoa (network_CloseWaitCount net) @ '' CLOSE_WAIT connections'')
                [''to inspect: ss -s'', ''to inspect: netstat -an | grep CLOSE_WAIT | wc -l'']]
      else []) @
     (if network_InterfacesUnreadable net
        then [unverifiedInsight ReasonUnreadable INFO catNetwork
                (''could not read the network interface list '' @ em_dash @
                 '' link state, errors and drops not measured'') [''to inspect: ip -s link'']]
      else []) @
     (if network_ConnectionsUnreadable net
        then [unverifiedInsight ReasonUnreadable INFO catNetwork
                (''could not read the TCP connection table '' @ em_dash @
                 '' CLOSE_WAIT leak check not run'')
                [''to inspect: ss -tan state close-wait | head -20'']]
      else []) @
     (if network_SockstatUnreadable net
        then [unverifiedInsight ReasonUnreadable INFO catNetwork
                (''could not read /proc/net/sockstat '' @ em_dash @
                 '' TIME_WAIT count not measured'') [''to inspect: cat /proc/net/sockstat'']]
      else []) @
     (let lv = TimeWaitLevel (network_TimeWaitCount net)
      in if lv \<noteq> []
           then [mk_full lv catNetwork
                   (itoa (network_TimeWaitCount net) @ '' TIME_WAIT sockets '' @ em_dash @
                    '' high connection churn or missing tcp_tw_reuse'')
                   [''to inspect: ss -tan | grep TIME-WAIT | wc -l'',
                    ''to inspect: ss -tan state time-wait | head -10'',
                    ''to fix: sysctl -w net.ipv4.tcp_tw_reuse=1'']]
         else []) @
     (if network_NetstatUnreadable net
        then [unverifiedInsight ReasonUnreadable INFO catNetwork
                (''could not read /proc/net/netstat '' @ em_dash @
                 '' SYN retransmit/listen-overflow/retransmit-failure counters not measured'')
                [''to inspect: cat /proc/net/netstat | grep TcpExt'']]
      else []) @
     deepTCPCounterInsights net @
     (if fle (Fin 80) (network_ConntrackUsedPct net)
        then [mk_full CRIT catNetwork
                (''conntrack table '' @ fmt_f 0 (network_ConntrackUsedPct net) @ ''% full '' @
                 em_dash @ '' new connections will be dropped when full'')
                [''to inspect: conntrack -C'',
                 ''to inspect: cat /proc/sys/net/netfilter/nf_conntrack_count'',
                 ''to fix: sysctl -w net.netfilter.nf_conntrack_max=262144'']]
      else if fle (Fin 60) (network_ConntrackUsedPct net)
        then [mk_full WARN catNetwork
                (''conntrack table '' @ fmt_f 0 (network_ConntrackUsedPct net) @ ''% full'')
                [''to inspect: conntrack -C'',
                 ''to inspect: cat /proc/sys/net/netfilter/nf_conntrack_count'']]
      else [])"

definition checkBonding :: "environment \<Rightarrow> bonding_info \<Rightarrow> insight list" where
  "checkBonding env b =
     (if bonding_Bonds b = [] then []
      else concat (map (\<lambda>bond. checkBond env bond) (bonding_Bonds b)))"

section \<open>Well-formedness\<close>

lemma checkBIND_wf [wf_rules]: "wf_insights (checkBIND b)"
  unfolding checkBIND_def by (intro wf_lets wf_rules level_facts; (assumption | erule (1) level_open; intro level_facts | erule level_nonempty; intro level_facts | elim level_elims; (intro level_facts)?; assumption?))

lemma tcpCounterLevel_open [level_facts]: "tcpCounterLevel count uptimeSec warnRate critRate \<in> insert [] (set levels)"
  unfolding tcpCounterLevel_def Let_def by (intro level_facts)

lemma checkClock_wf [wf_rules]: "wf_insights (checkClock clock thresh)"
  unfolding checkClock_def by (intro wf_lets wf_rules level_facts; (assumption | erule (1) level_open; intro level_facts | erule level_nonempty; intro level_facts | elim level_elims; (intro level_facts)?; assumption?))

lemma checkBondUSBSlaves_wf [wf_rules]: "wf_insights (checkBondUSBSlaves env bond)"
  unfolding checkBondUSBSlaves_def by (intro wf_lets wf_rules level_facts; (assumption | erule (1) level_open; intro level_facts | erule level_nonempty; intro level_facts | elim level_elims; (intro level_facts)?; assumption?))

lemma checkBondDownSlaves_wf [wf_rules]: "wf_insights (checkBondDownSlaves bond)"
  unfolding checkBondDownSlaves_def by (intro wf_lets wf_rules level_facts; (assumption | erule (1) level_open; intro level_facts | erule level_nonempty; intro level_facts | elim level_elims; (intro level_facts)?; assumption?))

lemma checkVLAN_wf [wf_rules]: "wf_insights (checkVLAN v)"
  unfolding checkVLAN_def by (intro wf_lets wf_rules level_facts; (assumption | erule (1) level_open; intro level_facts | erule level_nonempty; intro level_facts | elim level_elims; (intro level_facts)?; assumption?))

lemma checkInfiniBand_wf [wf_rules]: "wf_insights (checkInfiniBand ib)"
  unfolding checkInfiniBand_def by (intro wf_lets wf_rules level_facts; (assumption | erule (1) level_open; intro level_facts | erule level_nonempty; intro level_facts | elim level_elims; (intro level_facts)?; assumption?))

lemma checkSRIOV_wf [wf_rules]: "wf_insights (checkSRIOV s)"
  unfolding checkSRIOV_def by (intro wf_lets wf_rules level_facts; (assumption | erule (1) level_open; intro level_facts | erule level_nonempty; intro level_facts | elim level_elims; (intro level_facts)?; assumption?))

lemma checkNFS_wf [wf_rules]: "wf_insights (checkNFS nfs)"
  unfolding checkNFS_def by (intro wf_lets wf_rules level_facts; (assumption | erule (1) level_open; intro level_facts | erule level_nonempty; intro level_facts | elim level_elims; (intro level_facts)?; assumption?))

lemma DeepTCPCounterLevel_open [level_facts]: "DeepTCPCounterLevel kind count uptimeSec \<in> insert [] (set levels)"
  unfolding DeepTCPCounterLevel_def Let_def by (intro level_facts)

lemma deepTCPCounterInsights_wf [wf_rules]: "wf_insights (deepTCPCounterInsights net)"
  unfolding deepTCPCounterInsights_def by (intro wf_lets wf_rules level_facts; (assumption | erule (1) level_open; intro level_facts | erule level_nonempty; intro level_facts | elim level_elims; (intro level_facts)?; assumption?))

lemma checkBond_wf [wf_rules]: "wf_insights (checkBond env bond)"
  unfolding checkBond_def by (intro wf_lets wf_rules level_facts; (assumption | erule (1) level_open; intro level_facts | erule level_nonempty; intro level_facts | elim level_elims; (intro level_facts)?; assumption?))

lemma checkNetwork_wf [wf_rules]: "wf_insights (checkNetwork env net)"
  unfolding checkNetwork_def by (intro wf_lets wf_rules level_facts; (assumption | erule (1) level_open; intro level_facts | erule level_nonempty; intro level_facts | elim level_elims; (intro level_facts)?; assumption?))

lemma checkBonding_wf [wf_rules]: "wf_insights (checkBonding env b)"
  unfolding checkBonding_def by (intro wf_lets wf_rules level_facts; (assumption | erule (1) level_open; intro level_facts | erule level_nonempty; intro level_facts | elim level_elims; (intro level_facts)?; assumption?))


end
