(* ===== verification/Checks_Guests.thy ===== *)
theory Checks_Guests
  imports Checks_Network
begin

text \<open>
  What a guest sees of its host: cloud-init and the metadata service, AWS, Azure, GCP, OCI, VMware, KVM and
  container guests (heuristics_cloud.go, _aws, _azure, _gcp, _oci, _vmware, _kvmguest, _containerguest).
\<close>

section \<open>Measurements\<close>

record cloud_info =
  cloud_Available :: bool
  cloud_Provider :: gostring
  cloud_SpotTermination :: bool
  cloud_SpotCheckFailed :: bool
  cloud_MaintenanceEvent :: bool
  cloud_MaintenanceDetails :: gostring

record cloud_init_info =
  cloudInit_Available :: bool
  cloudInit_Status :: gostring
  cloudInit_ExtendedStatus :: gostring
  cloudInit_Datasource :: gostring
  cloudInit_Errors :: "gostring list"
  cloudInit_RecoverableErrors :: "gostring list"
  cloudInit_StatusUnverified :: bool

record ena_stats =
  enaStats_Iface :: gostring
  enaStats_Total :: "(gostring, int) gomap"
  enaStats_Active :: "(gostring, int) gomap"

record ebs_stats =
  ebsStats_Device :: gostring
  ebsStats_VolumeIOPSExceededUs :: int
  ebsStats_VolumeTPExceededUs :: int
  ebsStats_InstanceIOPSExceededUs :: int
  ebsStats_InstanceTPExceededUs :: int
  ebsStats_ActiveVolumeIOPSUs :: int
  ebsStats_ActiveVolumeTPUs :: int
  ebsStats_ActiveInstanceIOPSUs :: int
  ebsStats_ActiveInstanceTPUs :: int

record aws_info =
  aws_IsEC2 :: bool
  aws_InstanceType :: gostring
  aws_ENA :: "ena_stats list"
  aws_EBS :: "ebs_stats list"
  aws_EBSNeedsRoot :: bool
  aws_EBSReadFailed :: bool
  aws_EBSDeltaReadFailed :: bool
  aws_IMDSChecked :: bool
  aws_IMDSv1Enabled :: bool
  aws_TimeSyncChecked :: bool
  aws_UsesAmazonTimeSync :: bool
  aws_SSMInstalled :: bool
  aws_SSMRunning :: bool
  aws_RebalanceChecked :: bool
  aws_RebalanceRecommended :: bool
  aws_NitroEnclavesPresent :: bool
  aws_ENAExpressChecked :: bool
  aws_ENAExpressActive :: bool

record an_iface =
  anIface_VF :: gostring
  anIface_Driver :: gostring
  anIface_Synthetic :: gostring
  anIface_Bonded :: bool
  anIface_Up :: bool

record azure_disk =
  azureDisk_Name :: gostring
  azureDisk_IsOS :: bool
  azureDisk_Lun :: int
  azureDisk_Caching :: gostring

record azure_info =
  azure_IsAzure :: bool
  azure_SyntheticNICs :: "gostring list"
  azure_AN :: "an_iface list"
  azure_HasVF :: bool
  azure_WAAgentInstalled :: bool
  azure_WAAgentRunning :: bool
  azure_TimeSyncChecked :: bool
  azure_UsesHyperVPTP :: bool
  azure_DynamicMemory :: bool
  azure_DynMemMaxMB :: int
  azure_TempDiskPresent :: bool
  azure_TempDiskMount :: gostring
  azure_PersistentDataAtRisk :: bool
  azure_DisksChecked :: bool
  azure_Disks :: "azure_disk list"
  azure_NVMeIOTimeoutChecked :: bool
  azure_NVMeIOTimeoutSecs :: int

record gcp_info =
  gcp_IsGCP :: bool
  gcp_NICDriver :: gostring
  gcp_UsesGVNIC :: bool
  gcp_GuestAgentInstalled :: bool
  gcp_GuestAgentRunning :: bool
  gcp_MaintenanceChecked :: bool
  gcp_OnHostMaintenance :: gostring
  gcp_ActiveMaintenance :: gostring
  gcp_Preemptible :: bool
  gcp_OSLoginChecked :: bool
  gcp_OSLoginEnabled :: bool
  gcp_TimeSyncChecked :: bool
  gcp_UsesMetadataNTP :: bool

record ocivnic =
  ocivnic_Iface :: gostring
  ocivnic_RxDrops :: int
  ocivnic_TxTimeouts :: int

record oci_info =
  oci_IsOCI :: bool
  oci_Shape :: gostring
  oci_IMDSChecked :: bool
  oci_IMDSv1Open :: bool
  oci_AgentChecked :: bool
  oci_AgentInstalled :: bool
  oci_AgentRunning :: bool
  oci_AgentUpdaterRunning :: bool
  oci_TimeSyncChecked :: bool
  oci_UsesOCITimeSync :: bool
  oci_TimeSynced :: bool
  oci_VNICChecked :: bool
  oci_VNICs :: "ocivnic list"

record vmxnet_stats =
  vmxnetStats_Iface :: gostring
  vmxnetStats_RxBufAllocFail :: int
  vmxnetStats_RxOOB :: int
  vmxnetStats_TxRingFull :: int
  vmxnetStats_RxPackets :: int
  vmxnetStats_TxPackets :: int

record v_mware_info =
  vMware_IsGuest :: bool
  vMware_ProductName :: gostring
  vMware_ToolsInstalled :: bool
  vMware_ToolsRunning :: bool
  vMware_ToolsRunningVerified :: bool
  vMware_NICDrivers :: "(gostring, gostring) gomap"
  vMware_EmulatedNICs :: "gostring list"
  vMware_PVSCSILoaded :: bool
  vMware_BalloonLoaded :: bool
  vMware_StatAvailable :: bool
  vMware_BalloonMB :: int
  vMware_HostSwapMB :: int
  vMware_MemLimitMB :: int
  vMware_CPULimitMHz :: int
  vMware_NumVCPU :: int
  vMware_HostMHzPerCPU :: int
  vMware_TotalRAMMB :: int
  vMware_SCSITimeouts :: "(gostring, int) gomap"
  vMware_LowSCSITimeouts :: "gostring list"
  vMware_SCSIDisksChecked :: bool
  vMware_DisksNoStableID :: "gostring list"
  vMware_VMXNETStats :: "vmxnet_stats list"

record kvm_guest_info =
  kvmGuest_IsGuest :: bool
  kvmGuest_ProductName :: gostring
  kvmGuest_QGAChannelPresent :: bool
  kvmGuest_QGAInstalled :: bool
  kvmGuest_QGARunning :: bool
  kvmGuest_NICDrivers :: "(gostring, gostring) gomap"
  kvmGuest_EmulatedNICs :: "gostring list"
  kvmGuest_NICDriversChecked :: bool
  kvmGuest_DiskBuses :: "(gostring, gostring) gomap"
  kvmGuest_EmulatedDisks :: "gostring list"
  kvmGuest_DiskBusesChecked :: bool
  kvmGuest_Clocksource :: gostring
  kvmGuest_StealPct :: f64
  kvmGuest_StealUnreadable :: bool

record container_guest_info =
  containerGuest_InContainer :: bool
  containerGuest_Runtime :: gostring
  containerGuest_CgroupV2 :: bool
  containerGuest_CgroupV1Measured :: bool
  containerGuest_CgroupV2Measured :: bool
  containerGuest_MemLimitBytes :: int
  containerGuest_MemCurrentBytes :: int
  containerGuest_OOMKills :: int
  containerGuest_CPUQuotaCores :: f64
  containerGuest_ThrottledPct :: f64
  containerGuest_RunAsRoot :: bool
  containerGuest_WritableRootfs :: bool
  containerGuest_UnderlyingVM :: gostring

record ena_allowance =
  enaAllowance_key :: gostring
  enaAllowance_label :: gostring
  enaAllowance_effect :: gostring
  enaAllowance_hint :: gostring

section \<open>Constants\<close>

definition cloudCatMeta :: gostring where
  "cloudCatMeta = ''CloudMeta''"

definition cloudCatInit :: gostring where
  "cloudCatInit = ''CloudInit''"

definition cloudInspectInitLong :: gostring where
  "cloudInspectInitLong = ''to inspect: cloud-init status --long''"

definition catContainerGuest :: gostring where
  "catContainerGuest = ''ContainerGuest''"

definition catVMware :: gostring where
  "catVMware = ''VMware''"

definition enaAllowances :: "ena_allowance list" where
  "enaAllowances =
     [\<lparr>enaAllowance_key = ''bw_in'', enaAllowance_label = ''inbound-bandwidth'',
       enaAllowance_effect = ''inbound packets shaped/dropped'',
       enaAllowance_hint =
         ''this is the instance'' @ squote @ ''s bandwidth ceiling '' @ em_dash @
         '' a larger instance type raises it''\<rparr>,
      \<lparr>enaAllowance_key = ''bw_out'', enaAllowance_label = ''outbound-bandwidth'',
       enaAllowance_effect = ''outbound packets shaped/dropped'',
       enaAllowance_hint =
         ''this is the instance'' @ squote @ ''s bandwidth ceiling '' @ em_dash @
         '' a larger instance type raises it''\<rparr>,
      \<lparr>enaAllowance_key = ''pps'', enaAllowance_label = ''packets-per-second'',
       enaAllowance_effect = ''packets dropped'',
       enaAllowance_hint =
         ''high small-packet rate '' @ em_dash @ '' a larger instance type raises the PPS ceiling''\<rparr>,
      \<lparr>enaAllowance_key = ''conntrack'', enaAllowance_label = ''connection-tracking'',
       enaAllowance_effect = ''new connections dropped'',
       enaAllowance_hint =
         ''too many tracked connections '' @ em_dash @
         '' reduce concurrent connections or use a larger instance''\<rparr>,
      \<lparr>enaAllowance_key = ''linklocal'', enaAllowance_label = ''link-local-services'',
       enaAllowance_effect = ''DNS / IMDS / NTP traffic dropped'',
       enaAllowance_hint =
         ''link-local PPS limit hit '' @ em_dash @
         '' reduce the rate of DNS / metadata / NTP calls''\<rparr>]"

section \<open>Checks\<close>

definition checkCloudMeta :: "cloud_info \<Rightarrow> insight list" where
  "checkCloudMeta c =
     (if \<not> cloud_Available c
        then [unverifiedInsight ReasonUnreadable INFO cloudCatMeta
                (''cloud instance detected but its metadata could not be read from any provider'' @
                 squote @ ''s IMDS endpoint'')
                [''to inspect: curl -s -H '' @ squote @ ''Metadata-Flavor: Google'' @ squote @
                 '' http://metadata.google.internal/computeMetadata/v1/instance/id'']]
      else (if cloud_SpotTermination c
              then [mk_full CRIT cloudCatMeta
                      (cloud_Provider c @
                       '' spot/preemptible instance scheduled for termination '' @ em_dash @
                       '' save state now'')
                      [''note: instance will be terminated imminently'',
                       ''to inspect: check instance metadata for exact termination time'']]
            else if cloud_SpotCheckFailed c
              then [unverifiedInsight ReasonCollectorError INFO cloudCatMeta
                      (cloud_Provider c @ '' spot-termination check could not be confirmed '' @
                       em_dash @ '' IMDS error on the termination probe'')
                      [''to inspect: curl -s http://169.254.169.254/latest/meta-data/spot/termination-time'']]
            else []) @
           (if cloud_MaintenanceEvent c
              then [mk_full WARN cloudCatMeta
                      (cloud_Provider c @ '' maintenance event pending: '' @
                       cloud_MaintenanceDetails c)
                      [''to inspect: check cloud provider console for details'']]
            else []))"

definition checkCloudInit :: "cloud_init_info \<Rightarrow> insight list" where
  "checkCloudInit c =
     (if \<not> cloudInit_Available c then []
      else if cloudInit_StatusUnverified c
        then [unverifiedInsight ReasonUnreadable INFO cloudCatInit
                (''cloud-init present but its status could NOT be read '' @ em_dash @
                 '' provisioning state unverified'')
                [cloudInspectInitLong, ''to inspect: cat /run/cloud-init/status.json'']]
      else let ds = cloudInit_Datasource c;
               ds = (if ds = [] then ''unknown'' else ds)
           in if cloudInit_Status c = ''error'' \<or> cloudInit_Errors c \<noteq> []
                then (let hints = [];
                          hints =
                            loop_break
                              (\<lambda>hints (i, e).
                                if 3 \<le> i then Break hints
                                else let hints = hints @ [''error: '' @ truncateHint e 300]
                                     in Next hints)
                              hints
                              (indexed (cloudInit_Errors c));
                          hints =
                            hints @
                            [cloudInspectInitLong,
                             ''logs: /var/log/cloud-init.log, /var/log/cloud-init-output.log'']
                      in [mk_full CRIT cloudCatInit
                            (''cloud-init failed '' @ em_dash @
                             '' instance configuration incomplete (datasource: '' @ ds @ '')'')
                            hints])
              else if contains (cloudInit_ExtendedStatus c) ''degraded'' \<or>
                      cloudInit_RecoverableErrors c \<noteq> []
                then (let hints = [];
                          hints =
                            loop_break
                              (\<lambda>hints (i, e).
                                if 3 \<le> i then Break hints
                                else let hints = hints @ [truncateHint e 300]
                                     in Next hints)
                              hints
                              (indexed (cloudInit_RecoverableErrors c));
                          hints = hints @ [cloudInspectInitLong]
                      in [mk_full WARN cloudCatInit
                            (''cloud-init completed with recoverable errors '' @ em_dash @
                             '' some configuration may be missing'') hints])
              else if cloudInit_Status c = ''running''
                then [mk_full INFO cloudCatInit
                        (''cloud-init still running '' @ em_dash @
                         '' instance configuration in progress'')
                        [''note: provisioning not yet complete; re-check after boot settles'']]
              else [])"

definition awsENAInsights :: "aws_info \<Rightarrow> insight list" where
  "awsENAInsights a =
     concat (map
               (\<lambda>e.
                 let ifaceHint =
                       ''to inspect: ethtool -S '' @ enaStats_Iface e @
                       '' | grep allowance_exceeded'';
                     ifaceHint =
                       (if \<not> looksLikeSafeToken (enaStats_Iface e)
                          then ''to inspect: check the ENA interface stats manually '' @ em_dash @
                               '' interface name contains unexpected characters''
                        else ifaceHint)
                 in concat (map
                              (\<lambda>al.
                                let total = map_get 0 (enaStats_Total e) (enaAllowance_key al);
                                    active = 0;
                                    active =
                                      (if enaStats_Active e \<noteq> []
                                         then map_get 0 (enaStats_Active e) (enaAllowance_key al)
                                       else active);
                                    hints = [enaAllowance_hint al, ifaceHint]
                                in if 0 < active
                                     then [mk_full WARN ''AWS''
                                             (enaStats_Iface e @ '': ENA '' @
                                              enaAllowance_label al @ '' allowance exceeded '' @
                                              itoa active @ '' time(s) in the last second '' @
                                              em_dash @ '' '' @ enaAllowance_effect al @
                                              '' right now'') hints]
                                   else if 0 < total
                                     then [mk_full INFO ''AWS''
                                             (enaStats_Iface e @ '': ENA '' @
                                              enaAllowance_label al @
                                              '' allowance has been exceeded '' @ itoa total @
                                              '' time(s) since boot (none during this check) '' @
                                              em_dash @ '' '' @ enaAllowance_effect al @
                                              '' when it fires'') hints]
                                   else [])
                              enaAllowances))
               (aws_ENA a))"

definition microDur :: "int \<Rightarrow> gostring" where
  "microDur us =
     (if 1000000 \<le> us then fmt_f 1 (fdiv (f_of_int us) (Fin 1000000)) @ ''s''
      else if 1000 \<le> us then itoa (go_div us 1000) @ ''ms''
      else itoa us @ [CHR 0xC2, CHR 0xB5] @ ''s'')"

definition awsIMDSInsights :: "aws_info \<Rightarrow> insight list" where
  "awsIMDSInsights a =
     (if aws_IMDSChecked a \<and> aws_IMDSv1Enabled a
        then [mk_full WARN ''AWS''
                (''IMDSv1 is enabled (HttpTokens=optional) '' @ em_dash @
                 '' instance credentials are reachable via a token-less request, the SSRF path behind the Capital One breach class'')
                [''to fix: aws ec2 modify-instance-metadata-options --instance-id <id> --http-tokens required --http-endpoint enabled'',
                 ''note: confirm no in-instance software still uses IMDSv1 before enforcing'']]
      else if \<not> aws_IMDSChecked a
        then [unverifiedInsight ReasonUnreadable INFO ''AWS''
                (''could not verify IMDS posture '' @ em_dash @
                 '' the metadata service token request failed or was unreachable'')
                [''to inspect: curl -s -X PUT -H '' @ squote @
                 ''X-aws-ec2-metadata-token-ttl-seconds: 21600'' @ squote @
                 '' http://169.254.169.254/latest/api/token'']]
      else [])"

definition awsRebalanceInsights :: "aws_info \<Rightarrow> insight list" where
  "awsRebalanceInsights a =
     (if aws_RebalanceChecked a \<and> aws_RebalanceRecommended a
        then [mk_full WARN ''AWS''
                (''EC2 rebalance recommendation is active '' @ em_dash @
                 '' AWS signals this spot instance is at elevated risk of interruption; drain/migrate before the termination notice'')
                [''to inspect: curl -s http://169.254.169.254/latest/meta-data/events/recommendations/rebalance'']]
      else if \<not> aws_RebalanceChecked a
        then [unverifiedInsight ReasonCollectorError INFO ''AWS''
                (''could not verify EC2 rebalance-recommendation status '' @ em_dash @
                 '' the metadata probe failed or was unreachable'')
                [''to inspect: curl -s http://169.254.169.254/latest/meta-data/events/recommendations/rebalance'']]
      else [])"

definition awsTimeSyncInsights :: "aws_info \<Rightarrow> insight list" where
  "awsTimeSyncInsights a =
     (if aws_TimeSyncChecked a \<and> \<not> aws_UsesAmazonTimeSync a
        then [mk_full INFO ''AWS''
                (''NTP is not pointed at the Amazon Time Sync Service (169.254.169.123) '' @
                 em_dash @ '' the link-local service avoids clock drift and egress latency'')
                [''to fix (chrony): add '' @ squote @
                 ''server 169.254.169.123 prefer iburst minpoll 4 maxpoll 4'' @ squote @
                 '' to /etc/chrony.conf, then restart chrony'']]
      else [])"

definition awsSSMInsights :: "aws_info \<Rightarrow> insight list" where
  "awsSSMInsights a =
     (if aws_SSMInstalled a \<and> \<not> aws_SSMRunning a
        then [mk_full WARN ''AWS''
                (''amazon-ssm-agent is installed but not running '' @ em_dash @
                 '' Systems Manager (Session Manager, patch, run-command) is unavailable on this instance'')
                [''to fix: systemctl enable --now amazon-ssm-agent   (snap: snap start amazon-ssm-agent.amazon-ssm-agent)'']]
      else [])"

definition awsRecognitionLine :: "aws_info \<Rightarrow> gostring" where
  "awsRecognitionLine a =
     (let itype = aws_InstanceType a;
          itype = (if itype = [] then ''instance'' else itype);
          parts = [];
          parts = (if aws_ENA a \<noteq> [] then parts @ [''ENA allowances clean''] else parts);
          parts =
            (if aws_EBS a \<noteq> [] then parts @ [''EBS performance OK'']
             else if aws_EBSNeedsRoot a then parts @ [''EBS performance not checked (needs root)'']
             else parts);
          parts =
            (if aws_IMDSChecked a \<and> \<not> aws_IMDSv1Enabled a then parts @ [''IMDSv2 enforced'']
             else parts);
          parts =
            (if aws_ENAExpressChecked a \<and> aws_ENAExpressActive a
               then parts @ [''ENA Express active'']
             else parts);
          parts =
            (if aws_NitroEnclavesPresent a then parts @ [''Nitro Enclaves present''] else parts);
          summary = ''no guest-side throttling or posture issues found'';
          summary = (if parts \<noteq> [] then join parts ''; '' else summary)
      in ''EC2 '' @ itype @ '' '' @ em_dash @ '' '' @ summary)"

definition azureTempDiskInsights :: "azure_info \<Rightarrow> insight list" where
  "azureTempDiskInsights a =
     (if azure_TempDiskPresent a \<and> azure_PersistentDataAtRisk a
        then [mk_full WARN ''Azure''
                (''/etc/fstab mounts persistent data under the Azure temp/resource disk ('' @
                 azure_TempDiskMount a @ '') '' @ em_dash @
                 '' this storage is EPHEMERAL and its contents are lost on deallocation or host migration'')
                [''to inspect: grep '' @ azure_TempDiskMount a @ '' /etc/fstab'',
                 ''note: the temp disk is for scratch/swap only; move persistent data to a managed data disk'']]
      else [])"

definition diskLabel :: "azure_disk \<Rightarrow> gostring" where
  "diskLabel d =
     (if azureDisk_Name d \<noteq> [] then azureDisk_Name d else ''unnamed'')"

definition azureANInsights :: "azure_info \<Rightarrow> insight list" where
  "azureANInsights a =
     concat (map
               (\<lambda>vf.
                 if \<not> anIface_Bonded vf
                   then [mk_full WARN ''Azure''
                           (''Accelerated Networking VF '' @ anIface_VF vf @ '' ('' @
                            anIface_Driver vf @
                            '') is present but NOT bonded to a synthetic NIC '' @ em_dash @
                            '' traffic is not using the accelerated datapath'')
                           [''to inspect: ip link show '' @ anIface_VF vf,
                            ''note: the VF should be enslaved under an hv_netvsc interface (Azure transparent bonding); a standalone VF means AN is not wired up'']]
                 else if \<not> anIface_Up vf
                   then [mk_full WARN ''Azure''
                           (''Accelerated Networking VF '' @ anIface_VF vf @ '' ('' @
                            anIface_Driver vf @ '') is bonded to '' @ anIface_Synthetic vf @
                            '' but its operstate is down '' @ em_dash @
                            '' the accelerated datapath is degraded'')
                           [''to inspect: ip link show '' @ anIface_VF vf]]
                 else [])
               (azure_AN a))"

definition azureWAAgentInsights :: "azure_info \<Rightarrow> insight list" where
  "azureWAAgentInsights a =
     (if azure_WAAgentInstalled a \<and> \<not> azure_WAAgentRunning a
        then [mk_full WARN ''Azure''
                (''Azure Linux agent (waagent) is installed but not running '' @ em_dash @
                 '' VM extensions, provisioning, and portal-driven password / SSH-key reset will fail'')
                [''to fix: systemctl enable --now walinuxagent   (RHEL/SUSE: waagent)'']]
      else [])"

definition azureTimeSyncInsights :: "azure_info \<Rightarrow> insight list" where
  "azureTimeSyncInsights a =
     (if azure_TimeSyncChecked a \<and> \<not> azure_UsesHyperVPTP a
        then [mk_full INFO ''Azure''
                (''NTP is not using the Hyper-V PTP clock (/dev/ptp_hyperv) '' @ em_dash @
                 '' Azure'' @ squote @
                 ''s recommended low-drift time source; a chrony PHC refclock avoids NTP drift and egress latency'')
                [''to fix (chrony): add '' @ squote @
                 ''refclock PHC /dev/ptp_hyperv poll 3 dpoll -2 offset 0'' @ squote @
                 '' to /etc/chrony.conf, then restart chrony'']]
      else [])"

definition azureNVMeTimeoutInsights :: "azure_info \<Rightarrow> insight list" where
  "azureNVMeTimeoutInsights a =
     (if (azure_NVMeIOTimeoutChecked a \<and> 0 < azure_NVMeIOTimeoutSecs a) \<and>
         azure_NVMeIOTimeoutSecs a < 60
        then [mk_full INFO ''Azure''
                (''nvme_core.io_timeout is '' @ itoa (azure_NVMeIOTimeoutSecs a) @
                 ''s (kernel default) on an Azure NVMe VM '' @ em_dash @
                 '' a transient managed-disk latency spike can surface as an I/O error; Azure recommends raising it (commonly 240s)'')
                [''to fix: add '' @ squote @ ''nvme_core.io_timeout=240'' @ squote @
                 '' to the kernel cmdline (GRUB_CMDLINE_LINUX), then update-grub + reboot'']]
      else [])"

definition anDrivers :: "azure_info \<Rightarrow> gostring" where
  "anDrivers a =
     (let seen = [];
          drivers = [];
          (seen, drivers) =
            foldl
              (\<lambda>(seen, drivers) vf.
                let drivers =
                      (if anIface_Driver vf \<noteq> [] \<and> \<not> map_get False seen (anIface_Driver vf)
                         then drivers @ [anIface_Driver vf]
                       else drivers);
                    seen =
                      (if anIface_Driver vf \<noteq> [] \<and> \<not> map_get False seen (anIface_Driver vf)
                         then map_put seen (anIface_Driver vf) True
                       else seen)
                in (seen, drivers))
              (seen, drivers)
              (azure_AN a);
          drivers = sort_strings drivers
      in if drivers = [] then ''VF'' else join drivers '', '')"

definition gcpGuestAgentInsights :: "gcp_info \<Rightarrow> insight list" where
  "gcpGuestAgentInsights g =
     (if gcp_GuestAgentInstalled g \<and> \<not> gcp_GuestAgentRunning g
        then [mk_full WARN ''GCP''
                (''Google guest agent is installed but not running '' @ em_dash @
                 '' SSH-key propagation, OS Login, and account management will silently fail'')
                [''to fix: systemctl enable --now google-guest-agent'']]
      else [])"

definition gcpMaintenanceInsights :: "gcp_info \<Rightarrow> insight list" where
  "gcpMaintenanceInsights g =
     (if \<not> gcp_MaintenanceChecked g
        then [unverifiedInsight ReasonCollectorError INFO ''GCP''
                (''could not verify host-maintenance policy '' @ em_dash @
                 '' the instance metadata query failed or was unreachable'')
                [''to inspect: curl -H '' @ squote @ ''Metadata-Flavor: Google'' @ squote @
                 '' http://metadata.google.internal/computeMetadata/v1/instance/scheduling/on-host-maintenance'']]
      else (if gcp_ActiveMaintenance g \<noteq> []
              then [mk_full WARN ''GCP''
                      (''a host-maintenance event is in progress ('' @ gcp_ActiveMaintenance g @
                       '') '' @ em_dash @
                       '' the VM is being live-migrated or will be stopped shortly'')
                      [''to inspect: curl -H '' @ squote @ ''Metadata-Flavor: Google'' @ squote @
                       '' http://metadata.google.internal/computeMetadata/v1/instance/maintenance-event'']]
            else []) @
           (if equal_fold (gcp_OnHostMaintenance g) ''TERMINATE'' \<and> \<not> gcp_Preemptible g
              then [mk_full WARN ''GCP''
                      (''on-host-maintenance is set to TERMINATE on a non-preemptible VM '' @
                       em_dash @
                       '' it will be STOPPED (not live-migrated) during Google host maintenance, causing unplanned downtime'')
                      [''to fix: set --maintenance-policy=MIGRATE (gcloud compute instances set-scheduling) unless the stop is intentional'']]
            else []))"

definition gcpTimeSyncInsights :: "gcp_info \<Rightarrow> insight list" where
  "gcpTimeSyncInsights g =
     (if gcp_TimeSyncChecked g \<and> \<not> gcp_UsesMetadataNTP g
        then [mk_full INFO ''GCP''
                (''NTP is not using the GCP metadata server (metadata.google.internal / 169.254.169.254) '' @
                 em_dash @ '' Google'' @ squote @ ''s recommended low-drift time source'')
                [''to fix (chrony): set '' @ squote @ ''server metadata.google.internal iburst'' @
                 squote @ '' in /etc/chrony.conf, then restart chrony'']]
      else [])"

definition gcpRecognitionLine :: "gcp_info \<Rightarrow> gostring" where
  "gcpRecognitionLine g =
     (let parts = [];
          parts =
            (if gcp_UsesGVNIC g then parts @ [''gVNIC networking (gve)'']
             else if gcp_NICDriver g \<noteq> [] then parts @ [''networking on '' @ gcp_NICDriver g]
             else parts);
          parts =
            (if gcp_GuestAgentRunning g then parts @ [''guest agent running'']
             else if \<not> gcp_GuestAgentInstalled g then parts @ [''guest agent not installed'']
             else parts);
          parts =
            (if gcp_MaintenanceChecked g \<and> gcp_OnHostMaintenance g \<noteq> []
               then parts @ [''on-host-maintenance='' @ gcp_OnHostMaintenance g]
             else parts);
          parts =
            (if gcp_OSLoginChecked g \<and> gcp_OSLoginEnabled g then parts @ [''OS Login enabled'']
             else parts);
          parts =
            (if gcp_TimeSyncChecked g \<and> gcp_UsesMetadataNTP g
               then parts @ [''metadata NTP time sync'']
             else parts);
          summary = ''guest recognised'';
          summary = (if parts \<noteq> [] then join parts ''; '' else summary)
      in ''GCP VM '' @ em_dash @ '' '' @ summary)"

definition ociIMDSInsights :: "oci_info \<Rightarrow> insight list" where
  "ociIMDSInsights oi =
     (if oci_IMDSChecked oi \<and> oci_IMDSv1Open oi
        then [mk_full WARN ''OCI''
                (''legacy/unauthenticated IMDS access is reachable (a request without the required Authorization header still returned 200) '' @
                 em_dash @
                 '' instance metadata is reachable via the SSRF path IMDS v2 exists to close'')
                [''to inspect: curl -s -o /dev/null -w '' @ squote @ ''%{http_code}'' @ bslash @
                 ''n'' @ squote @ '' http://169.254.169.254/opc/v2/instance/'',
                 ''note: a correctly configured instance returns 403 here'']]
      else [])"

definition ociAgentInsights :: "oci_info \<Rightarrow> insight list" where
  "ociAgentInsights oi =
     (if \<not> oci_AgentChecked oi \<or> \<not> oci_AgentInstalled oi then []
      else (if \<not> oci_AgentRunning oi
              then [mk_full WARN ''OCI''
                      (''oracle-cloud-agent is installed but not running '' @ em_dash @
                       '' Compute Instance Run Command, monitoring, and OS Management Hub plugins are unavailable on this instance'')
                      [''to fix: systemctl enable --now oracle-cloud-agent'']]
            else []) @
           (if \<not> oci_AgentUpdaterRunning oi
              then [mk_full INFO ''OCI''
                      (''oracle-cloud-agent-updater is not running '' @ em_dash @
                       '' the agent itself will not receive updates'')
                      [''to fix: systemctl enable --now oracle-cloud-agent-updater'']]
            else []))"

definition ociTimeSyncInsights :: "oci_info \<Rightarrow> insight list" where
  "ociTimeSyncInsights oi =
     (if \<not> oci_TimeSyncChecked oi then []
      else if \<not> oci_UsesOCITimeSync oi
        then [mk_full INFO ''OCI''
                (''NTP is not pointed at OCI'' @ squote @
                 ''s metadata NTP server (169.254.169.254) '' @ em_dash @
                 '' the link-local service avoids clock drift and egress latency'')
                [''to fix (chrony): add '' @ squote @ ''server 169.254.169.254 iburst'' @ squote @
                 '' to /etc/chrony.conf, then restart chrony'']]
      else if \<not> oci_TimeSynced oi
        then [mk_full WARN ''OCI''
                (''NTP is configured against OCI'' @ squote @
                 ''s metadata NTP server but chrony shows no synced source '' @ em_dash @
                 '' time sync is not actually happening'')
                [''to inspect: chronyc sources'',
                 ''note: a security-list/NSG change blocking 169.254.169.254 would cause exactly this'']]
      else [])"

definition ociVNICInsights :: "oci_info \<Rightarrow> insight list" where
  "ociVNICInsights oi =
     concat (map
               (\<lambda>v.
                 if ocivnic_RxDrops v = 0 \<and> ocivnic_TxTimeouts v = 0 then []
                 else let parts = [];
                          parts =
                            (if 0 < ocivnic_RxDrops v
                               then parts @ [itoa (ocivnic_RxDrops v) @ '' rx drop(s)'']
                             else parts);
                          parts =
                            (if 0 < ocivnic_TxTimeouts v
                               then parts @ [itoa (ocivnic_TxTimeouts v) @ '' tx timeout(s)'']
                             else parts)
                      in [mk_full WARN ''OCI''
                            (ocivnic_Iface v @ '': '' @ join parts '', '' @
                             '' on the VNIC ring buffer since boot '' @ em_dash @
                             '' real packet loss the generic NIC-error counters don'' @ squote @
                             ''t catch'')
                            [''to inspect: ethtool -S '' @ ocivnic_Iface v @ '' | grep -E '' @
                             squote @ ''drops|timeouts'' @ squote]])
               (oci_VNICs oi))"

definition ociRecognitionLine :: "oci_info \<Rightarrow> gostring" where
  "ociRecognitionLine oi =
     (let shape = oci_Shape oi;
          shape = (if shape = [] then ''instance'' else shape)
      in if ((\<not> oci_IMDSChecked oi \<and> \<not> oci_AgentChecked oi) \<and> \<not> oci_TimeSyncChecked oi) \<and>
            \<not> oci_VNICChecked oi
           then ''OCI '' @ shape @ '' '' @ em_dash @
                '' guest-side posture could not be verified: IMDS, cloud agent, time sync, and VNICs were all unreachable or unreadable''
         else let parts = [];
                  parts =
                    (if oci_IMDSChecked oi \<and> \<not> oci_IMDSv1Open oi then parts @ [''IMDS v2 enforced'']
                     else parts);
                  parts =
                    (if (oci_AgentChecked oi \<and> oci_AgentInstalled oi) \<and> oci_AgentRunning oi
                       then parts @ [''cloud agent running'']
                     else parts);
                  parts =
                    (if (oci_TimeSyncChecked oi \<and> oci_UsesOCITimeSync oi) \<and> oci_TimeSynced oi
                       then parts @ [''time synced'']
                     else parts);
                  parts =
                    (if oci_VNICChecked oi \<and> oci_VNICs oi \<noteq> [] then parts @ [''VNIC rings clean'']
                     else parts);
                  summary = ''no guest-side posture issues found'';
                  summary = (if parts \<noteq> [] then join parts ''; '' else summary)
              in ''OCI '' @ shape @ '' '' @ em_dash @ '' '' @ summary)"

definition vmwareMemLimitBinding :: "v_mware_info \<Rightarrow> (bool \<times> bool)" where
  "vmwareMemLimitBinding v =
     (if vMware_TotalRAMMB v \<le> 0 then (False, False)
      else (vMware_MemLimitMB v <
            int_of_f64
              (fmul (f_of_int (vMware_TotalRAMMB v)) (Fin (2206763817411543 / 2251799813685248))),
            True))"

definition vmwareCPULimitBinding :: "v_mware_info \<Rightarrow> (bool \<times> bool)" where
  "vmwareCPULimitBinding v =
     (if vMware_HostMHzPerCPU v < 500 \<or> 10000 < vMware_HostMHzPerCPU v then (False, False)
      else let capacity = wrap64 (vMware_NumVCPU v * vMware_HostMHzPerCPU v)
           in if capacity \<le> 0 then (False, False)
              else (vMware_CPULimitMHz v <
                    int_of_f64
                      (fmul (f_of_int capacity) (Fin (2206763817411543 / 2251799813685248))),
                    True))"

definition vmwareSCSITimeoutCheck :: "v_mware_info \<Rightarrow> insight list" where
  "vmwareSCSITimeoutCheck v =
     (if vMware_LowSCSITimeouts v = [] then []
      else let descs =
                 concat (map
                           (\<lambda>dev.
                             [dev @ '' ('' @ itoa (map_get 0 (vMware_SCSITimeouts v) dev) @ ''s)''])
                           (vMware_LowSCSITimeouts v))
           in [mk_full WARN catVMware
                 (''SCSI disk command timeout below VMware'' @ squote @ ''s recommended 180s ('' @
                  join descs '', '' @ '') '' @ em_dash @
                  '' the guest filesystem may go read-only during a vMotion or storage failover'')
                 [''to fix now: echo 180 > /sys/block/sdX/device/timeout   (per disk, non-persistent)'',
                  ''to persist: install open-vm-tools (ships a udev rule) or add a udev rule setting timeout=180'']])"

definition vmwareEnableUUIDCheck :: "v_mware_info \<Rightarrow> insight list" where
  "vmwareEnableUUIDCheck v =
     (if \<not> vMware_SCSIDisksChecked v \<or> vMware_DisksNoStableID v = [] then []
      else [mk_full WARN catVMware
              (''disk.EnableUUID appears disabled '' @ em_dash @ '' SCSI disk(s) '' @
               join (vMware_DisksNoStableID v) '', '' @
               '' expose no stable hardware ID (no SCSI page 0x83), so /dev/disk/by-id naming and the vSphere CSI driver cannot identify them; k8s persistent volumes can mis-bind'')
              [''to fix: set disk.EnableUUID = TRUE in the VM'' @ squote @
               ''s Advanced Configuration (vSphere), then reboot the guest'',
               ''note: required for the vSphere CSI driver and stable by-id device naming; the VM default is often off'']])"

definition vmwareVMXNETCheck :: "v_mware_info \<Rightarrow> insight list" where
  "vmwareVMXNETCheck v =
     concat (map
               (\<lambda>s.
                 let reasons = [];
                     reasons =
                       (if nicErrorRateHigh (vmxnetStats_RxBufAllocFail s) (vmxnetStats_RxPackets s)
                          then reasons @
                               [''RX buffer-allocation failures ('' @
                                itoa (vmxnetStats_RxBufAllocFail s) @ '')'']
                        else reasons);
                     reasons =
                       (if nicErrorRateHigh (vmxnetStats_RxOOB s) (vmxnetStats_RxPackets s)
                          then reasons @
                               [''RX ring out-of-buffer ('' @ itoa (vmxnetStats_RxOOB s) @ '')'']
                        else reasons);
                     reasons =
                       (if nicErrorRateHigh (vmxnetStats_TxRingFull s) (vmxnetStats_TxPackets s)
                          then reasons @
                               [''TX ring exhaustion ('' @ itoa (vmxnetStats_TxRingFull s) @ '')'']
                        else reasons)
                 in if reasons = [] then []
                    else [mk_full WARN catVMware
                            (''vmxnet3 '' @ vmxnetStats_Iface s @ '': '' @ join reasons '', '' @
                             '' '' @ em_dash @
                             '' the driver rings are undersized for the traffic and packets are being dropped'')
                            [''to inspect: ethtool -S '' @ vmxnetStats_Iface s @ '' | grep -E '' @
                             squote @ ''buf alloc fail|ring full|rx OOB'' @ squote,
                             ''to fix: raise the ring size '' @ em_dash @ '' ethtool -G '' @
                             vmxnetStats_Iface s @ '' rx 4096 tx 4096 (cap shown by ethtool -g '' @
                             vmxnetStats_Iface s @ '')'']])
               (vMware_VMXNETStats v))"

definition vmwareNICSummary :: "v_mware_info \<Rightarrow> gostring" where
  "vmwareNICSummary v =
     (if vMware_NICDrivers v = [] then ''none detected''
      else let seen = [];
               drivers = [];
               (seen, drivers) =
                 foldl
                   (\<lambda>(seen, drivers) (_, drv).
                     let drivers = (if \<not> map_get False seen drv then drivers @ [drv] else drivers);
                         seen = (if \<not> map_get False seen drv then map_put seen drv True else seen)
                     in (seen, drivers))
                   (seen, drivers)
                   (vMware_NICDrivers v);
               drivers = sort_strings drivers
           in join drivers '', '')"

definition vmwareYesNo :: "bool \<Rightarrow> gostring" where
  "vmwareYesNo b =
     (if b then ''yes'' else ''no'')"

definition emulatedNICDescs :: "v_mware_info \<Rightarrow> gostring list" where
  "emulatedNICDescs v =
     concat (map
               (\<lambda>iface.
                 let drv = map_get [] (vMware_NICDrivers v) iface
                 in if drv \<noteq> [] then [iface @ '' ('' @ drv @ '')''] else [iface])
               (vMware_EmulatedNICs v))"

definition kvmguestQGAInsight :: "kvm_guest_info \<Rightarrow> insight list" where
  "kvmguestQGAInsight v =
     (if \<not> kvmGuest_QGAChannelPresent v
        then [mk_full INFO ''KVMGuest''
                (''no QEMU guest-agent channel '' @ em_dash @
                 '' the host has not enabled the guest-agent device for this VM, so consistent (fs-frozen) backups and graceful shutdown are unavailable'')
                [''this is a host-side setting '' @ em_dash @ '' Proxmox: VM '' @
                 [CHR 0xE2, CHR 0x86, CHR 0x92] @ '' Options '' @ [CHR 0xE2, CHR 0x86, CHR 0x92] @
                 '' QEMU Guest Agent '' @ [CHR 0xE2, CHR 0x86, CHR 0x92] @
                 '' Enabled, then power-cycle the VM'',
                 ''ask whoever runs the hypervisor to enable it if you need application-consistent backups'']]
      else if kvmGuest_QGAInstalled v \<and> kvmGuest_QGARunning v then []
      else let reason = ''not installed'';
               reason = (if kvmGuest_QGAInstalled v then ''installed but not running'' else reason)
           in [mk_full WARN ''KVMGuest''
                 (''qemu-guest-agent '' @ reason @ '' '' @ em_dash @
                  '' the host offers the agent channel but the guest isn'' @ squote @
                  ''t answering: backups will be crash-consistent only and the host can'' @ squote @
                  ''t gracefully shut this VM down'')
                 [''to fix (Debian/Ubuntu): apt install qemu-guest-agent && systemctl enable --now qemu-guest-agent'',
                  ''to fix (RHEL/SUSE):     dnf/zypper install qemu-guest-agent && systemctl enable --now qemu-guest-agent'']])"

definition kvmguestStealInsight :: "kvm_guest_info \<Rightarrow> insight list" where
  "kvmguestStealInsight v =
     (if kvmGuest_StealUnreadable v
        then [unverifiedInsight ReasonUnreadable INFO ''KVMGuest''
                (''CPU steal since boot could not be read from /proc/stat '' @ em_dash @
                 '' host overcommit not measured'') [''to inspect: head -1 /proc/stat'']]
      else if flt (kvmGuest_StealPct v) (Fin 10) then []
      else [mk_full WARN ''KVMGuest''
              (''CPU steal is '' @ fmt_f 1 (kvmGuest_StealPct v) @ ''% since boot '' @ em_dash @
               '' the hypervisor is taking CPU from this guest (the host is overcommitted). This is host-side, not a guest fault.'')
              [''evidence for whoever runs the hypervisor: the node has more vCPUs allocated than it can deliver'',
               ''to corroborate live: dsd cpu   (point-in-time steal rate)'']])"

definition kvmguestNICDescs :: "kvm_guest_info \<Rightarrow> gostring" where
  "kvmguestNICDescs v =
     (let descs =
            concat (map
                      (\<lambda>iface.
                        let drv = map_get [] (kvmGuest_NICDrivers v) iface
                        in if drv \<noteq> [] then [iface @ '' ('' @ drv @ '')''] else [iface])
                      (kvmGuest_EmulatedNICs v))
      in join descs '', '')"

definition kvmguestDiskDescs :: "kvm_guest_info \<Rightarrow> gostring" where
  "kvmguestDiskDescs v =
     (let descs =
            concat (map
                      (\<lambda>dev.
                        let bus = map_get [] (kvmGuest_DiskBuses v) dev
                        in if bus \<noteq> [] then [dev @ '' ('' @ bus @ '')''] else [dev])
                      (kvmGuest_EmulatedDisks v))
      in join descs '', '')"

definition kvmguestProductName :: "kvm_guest_info \<Rightarrow> gostring" where
  "kvmguestProductName v =
     (if kvmGuest_ProductName v = [] then ''QEMU'' else kvmGuest_ProductName v)"

definition kvmguestOrUnknown :: "gostring \<Rightarrow> gostring" where
  "kvmguestOrUnknown s =
     (if s = [] then ''unknown'' else s)"

definition containerThrottleInsight :: "container_guest_info \<Rightarrow> insight list" where
  "containerThrottleInsight v =
     (if flt (containerGuest_ThrottledPct v) (Fin 10) then []
      else let quota = ''the CPU quota'';
               quota =
                 (if flt (Fin 0) (containerGuest_CPUQuotaCores v)
                    then ''the CPU quota ('' @ fmt_f 2 (containerGuest_CPUQuotaCores v) @
                         '' cores)''
                  else quota)
           in [mk_full WARN catContainerGuest
                 (''CPU throttled '' @ fmt_f 0 (containerGuest_ThrottledPct v) @
                  ''% of scheduler periods '' @ em_dash @ '' the container keeps hitting '' @
                  quota @ ''; this is the usual hidden cause of a '' @ squote @ ''slow'' @ squote @
                  '' container'')
                 [''raise the limit if it'' @ squote @
                  ''s yours to set (docker --cpus / k8s limits.cpu), or this is your platform'' @
                  squote @ ''s cap '' @ em_dash @ '' ask them'',
                  ''to inspect: cat /sys/fs/cgroup/cpu.stat   (nr_throttled / throttled_usec)'']])"

definition containerMemPct :: "container_guest_info \<Rightarrow> f64" where
  "containerMemPct v =
     (if containerGuest_MemLimitBytes v \<le> 0 \<or> containerGuest_MemCurrentBytes v \<le> 0 then Fin 0
      else fmul
             (fdiv (f_of_int (containerGuest_MemCurrentBytes v))
                (f_of_int (containerGuest_MemLimitBytes v))) (Fin 100))"

definition containerRuntimeLabel :: "container_guest_info \<Rightarrow> gostring" where
  "containerRuntimeLabel v =
     (if containerGuest_Runtime v = [] then ''container'' else containerGuest_Runtime v)"

definition containerUnderlaySuffix :: "container_guest_info \<Rightarrow> gostring" where
  "containerUnderlaySuffix v =
     (if containerGuest_UnderlyingVM v = [] then []
      else '' (on a '' @ containerGuest_UnderlyingVM v @ '' VM)'')"

definition containerHumanBytes :: "int \<Rightarrow> gostring" where
  "containerHumanBytes b =
     (if b \<le> 0 then ''unset''
      else if 1073741824 \<le> b then fmt_f 1 (fdiv (f_of_int b) (Fin 1073741824)) @ '' GB''
      else if 1048576 \<le> b then fmt_f 0 (fdiv (f_of_int b) (Fin 1048576)) @ '' MB''
      else if 1024 \<le> b then fmt_f 0 (fdiv (f_of_int b) (Fin 1024)) @ '' KB''
      else itoa b @ '' B'')"

definition ebsThrottleInsight :: "gostring \<Rightarrow> gostring \<Rightarrow> gostring \<Rightarrow> int \<Rightarrow> int \<Rightarrow> insight list" where
  "ebsThrottleInsight dev label hint active tot =
     (let inspect =
            ''to inspect: sudo nvme get-log /dev/'' @ dev @
            '' --log-id=0xd0 --log-len=4096 --raw-binary'';
          inspect =
            (if \<not> looksLikeSafeToken dev
               then ''to inspect: check the EBS NVMe log page manually '' @ em_dash @
                    '' device name contains unexpected characters''
             else inspect)
      in if 0 < active
           then [mk_full WARN ''AWS''
                   (''EBS '' @ dev @ '': '' @ label @ '' limit exceeded for '' @ microDur active @
                    '' in the last second '' @ em_dash @ '' IO is being throttled right now'')
                   [hint, inspect]]
         else if 0 < tot
           then [mk_full INFO ''AWS''
                   (''EBS '' @ dev @ '': '' @ label @ '' limit was exceeded for '' @ microDur tot @
                    '' since attach (none during this check)'') [hint, inspect]]
         else [])"

definition azureCachingInsights :: "azure_info \<Rightarrow> insight list" where
  "azureCachingInsights a =
     (if \<not> azure_DisksChecked a
        then [unverifiedInsight ReasonUnreadable INFO ''Azure''
                (''could not verify data-disk host-caching configuration '' @ em_dash @
                 '' the IMDS storage profile could not be read'')
                [''to inspect: curl -s -H Metadata:true '' @ squote @
                 ''http://169.254.169.254/metadata/instance/compute/storageProfile?api-version=2021-02-01'' @
                 squote]]
      else concat (map
                     (\<lambda>d.
                       if \<not> azureDisk_IsOS d \<and> equal_fold (azureDisk_Caching d) ''ReadWrite''
                         then [mk_full WARN ''Azure''
                                 (''data disk LUN '' @ itoa (azureDisk_Lun d) @ '' ('' @
                                  diskLabel d @ '') has ReadWrite host caching '' @ em_dash @
                                  '' Azure recommends None or ReadOnly for data disks; ReadWrite write-back caching risks data consistency for write-heavy/database workloads'')
                                 [''to fix: set the disk'' @ squote @
                                  ''s host caching to None (or ReadOnly) in the Azure portal/CLI for write-heavy volumes'']]
                       else [])
                     (azure_Disks a)))"

definition azureRecognitionLine :: "azure_info \<Rightarrow> gostring" where
  "azureRecognitionLine a =
     (let parts = [];
          parts =
            (if azure_HasVF a
               then parts @ [''Accelerated Networking active ('' @ anDrivers a @ '')'']
             else if azure_SyntheticNICs a \<noteq> []
               then parts @ [''networking on the synthetic hv_netvsc path (no AN VF)'']
             else parts);
          parts =
            (if azure_WAAgentRunning a then parts @ [''waagent running'']
             else if \<not> azure_WAAgentInstalled a then parts @ [''waagent not installed'']
             else parts);
          parts =
            (if azure_TimeSyncChecked a \<and> azure_UsesHyperVPTP a
               then parts @ [''Hyper-V PTP time sync'']
             else parts);
          parts =
            (if azure_DynamicMemory a
               then (let dm = ''Dynamic Memory enabled'';
                         dm =
                           (if 0 < azure_DynMemMaxMB a
                              then ''Dynamic Memory enabled (max '' @ itoa (azure_DynMemMaxMB a) @
                                   '' MB)''
                            else dm)
                     in parts @ [dm])
             else parts);
          parts =
            (if azure_TempDiskPresent a \<and> \<not> azure_PersistentDataAtRisk a
               then (let td = ''temp disk ephemeral'';
                         td =
                           (if azure_TempDiskMount a \<noteq> []
                              then ''temp disk at '' @ azure_TempDiskMount a @ '' (ephemeral)''
                            else td)
                     in parts @ [td])
             else parts);
          parts =
            (if azure_DisksChecked a \<and> azure_Disks a \<noteq> []
               then parts @
                    [''host caching OK ('' @ itoa (int (length (azure_Disks a))) @ '' disk(s))'']
             else parts);
          parts =
            (if azure_NVMeIOTimeoutChecked a \<and> 60 \<le> azure_NVMeIOTimeoutSecs a
               then parts @ [''NVMe io_timeout='' @ itoa (azure_NVMeIOTimeoutSecs a) @ ''s'']
             else parts);
          summary = ''guest recognised'';
          summary = (if parts \<noteq> [] then join parts ''; '' else summary)
      in ''Azure VM '' @ em_dash @ '' '' @ summary)"

definition checkGCP :: "gcp_info \<Rightarrow> insight list" where
  "checkGCP g =
     (if \<not> gcp_IsGCP g then []
      else let out = [];
               out = out @ gcpGuestAgentInsights g;
               out = out @ gcpMaintenanceInsights g;
               out = out @ gcpTimeSyncInsights g
           in if out = [] then out @ [mk_full INFO ''GCP'' (gcpRecognitionLine g) []] else out)"

definition checkOCI :: "oci_info \<Rightarrow> insight list" where
  "checkOCI oi =
     (if \<not> oci_IsOCI oi then []
      else let out = [];
               out = out @ ociIMDSInsights oi;
               out = out @ ociAgentInsights oi;
               out = out @ ociTimeSyncInsights oi;
               out = out @ ociVNICInsights oi
           in if out = []
                then (if ((\<not> oci_IMDSChecked oi \<and> \<not> oci_AgentChecked oi) \<and> \<not> oci_TimeSyncChecked oi) \<and>
                         \<not> oci_VNICChecked oi
                        then out @
                             [unverifiedInsight ReasonCollectorError INFO ''OCI''
                                (ociRecognitionLine oi) []]
                      else out @ [mk_full INFO ''OCI'' (ociRecognitionLine oi) []])
              else out)"

definition vmwareMemLimitInsight :: "v_mware_info \<Rightarrow> insight" where
  "vmwareMemLimitInsight v =
     (let (binding, known) = vmwareMemLimitBinding v
      in if known \<and> \<not> binding
           then mk_full INFO catVMware
                  (''a host memory limit of '' @ itoa (vMware_MemLimitMB v) @
                   '' MB is configured but it is at/above this VM'' @ squote @ ''s RAM ('' @
                   itoa (vMware_TotalRAMMB v) @ '' MB), so it is currently non-binding'')
                  [''note: it would only cause ballooning/swap if this VM'' @ squote @
                   ''s RAM were raised above the limit'']
         else if known
           then mk_full WARN catVMware
                  (''a host memory limit of '' @ itoa (vMware_MemLimitMB v) @
                   '' MB is set below this VM'' @ squote @ ''s RAM ('' @
                   itoa (vMware_TotalRAMMB v) @ '' MB) '' @ em_dash @
                   '' RAM above the limit is ballooned/swapped even when the host has free memory'')
                  [''to inspect: vmware-toolbox-cmd stat memlimit'',
                   ''note: a memory limit below the configured RAM is a common, invisible cause of guest paging '' @
                   em_dash @ '' remove it in vSphere unless intentional'']
         else unverifiedInsight ReasonUnreadable WARN catVMware
                (''a host memory limit of '' @ itoa (vMware_MemLimitMB v) @
                 '' MB is configured on this VM; this VM'' @ squote @
                 ''s RAM could not be read, so whether the limit is currently binding could not be determined'')
                [''to inspect: vmware-toolbox-cmd stat memlimit; cat /proc/meminfo'',
                 ''note: the limit only paginates the guest if it sits below the VM'' @ squote @
                 ''s RAM''])"

definition vmwareCPULimitInsight :: "v_mware_info \<Rightarrow> insight" where
  "vmwareCPULimitInsight v =
     (let (binding, known) = vmwareCPULimitBinding v
      in if known \<and> \<not> binding
           then mk_full INFO catVMware
                  (''a host CPU limit of '' @ itoa (vMware_CPULimitMHz v) @
                   '' MHz is configured but it is at/above this VM'' @ squote @ ''s capacity ('' @
                   itoa (vMware_NumVCPU v) @ '' vCPU '' @ [CHR 0xC3, CHR 0x97] @ '' '' @
                   itoa (vMware_HostMHzPerCPU v) @ '' MHz), so it is currently non-binding'')
                  [''note: it would only throttle the guest if the limit were lowered below capacity, or capacity raised above it '' @
                   em_dash @ '' watch CPU steal'']
         else if known
           then mk_full WARN catVMware
                  (''a host CPU limit of '' @ itoa (vMware_CPULimitMHz v) @
                   '' MHz is set below this VM'' @ squote @ ''s capacity ('' @
                   itoa (vMware_NumVCPU v) @ '' vCPU '' @ [CHR 0xC3, CHR 0x97] @ '' '' @
                   itoa (vMware_HostMHzPerCPU v) @ '' MHz = '' @
                   itoa (wrap64 (vMware_NumVCPU v * vMware_HostMHzPerCPU v)) @ '' MHz) '' @
                   em_dash @ '' the guest is throttled regardless of host load'')
                  [''to inspect: vmware-toolbox-cmd stat cpulimit'',
                   ''note: a CPU limit below capacity is an invisible cause of guest slowness '' @
                   em_dash @ '' remove it in vSphere unless intentional'']
         else unverifiedInsight ReasonCollectorError WARN catVMware
                (''a host CPU limit of '' @ itoa (vMware_CPULimitMHz v) @
                 '' MHz is configured on this VM; its per-vCPU host clock is unknown (vmware-toolbox-cmd stat speed unavailable), so whether it currently throttles the guest could not be determined'')
                [''to size it: vmware-toolbox-cmd stat speed   (per-vCPU MHz; capacity = vCPUs '' @
                 [CHR 0xC3, CHR 0x97] @ '' this)'',
                 ''note: the limit only throttles if it sits below the VM'' @ squote @
                 ''s capacity '' @ em_dash @ '' upgrade/repair open-vm-tools so dsd can confirm''])"

definition checkKVMGuest :: "environment \<Rightarrow> kvm_guest_info \<Rightarrow> insight list" where
  "checkKVMGuest env v =
     (if \<not> kvmGuest_IsGuest v then []
      else let out = [];
               out = out @ kvmguestQGAInsight v;
               out =
                 (if kvmGuest_EmulatedNICs v \<noteq> []
                    then out @
                         [mk_full WARN ''KVMGuest''
                            (''NIC(s) on an emulated driver ('' @ kvmguestNICDescs v @ '') '' @
                             em_dash @
                             '' switch to VirtIO (virtio-net) for higher throughput at lower host CPU'')
                            [''to fix: set the VM'' @ squote @
                             ''s network device model to VirtIO in the hypervisor (Proxmox: VM '' @
                             [CHR 0xE2, CHR 0x86, CHR 0x92] @ '' Hardware '' @
                             [CHR 0xE2, CHR 0x86, CHR 0x92] @ '' Network Device), then reboot'']]
                  else out);
               out =
                 (if kvmGuest_EmulatedDisks v \<noteq> []
                    then out @
                         [mk_full WARN ''KVMGuest''
                            (''disk(s) on an emulated bus ('' @ kvmguestDiskDescs v @ '') '' @
                             em_dash @
                             '' switch to VirtIO Block or VirtIO SCSI; emulated IDE/SATA is the most common cause of a slow Proxmox guest'')
                            [''to fix: detach the disk and re-add it as VirtIO Block / SCSI (with a VirtIO SCSI controller) in the hypervisor, then reboot'',
                             ''note: changing the boot disk'' @ squote @
                             ''s bus may need the bootloader/initramfs to include virtio_blk/virtio_scsi'']]
                  else out);
               out =
                 (if kvmGuest_Clocksource v \<noteq> [] \<and> kvmGuest_Clocksource v \<noteq> ''kvm-clock''
                    then out @
                         [mk_full INFO ''KVMGuest''
                            (''clocksource is '' @ Quote env (kvmGuest_Clocksource v) @
                             '', not kvm-clock '' @ em_dash @
                             '' kvm-clock is the low-overhead paravirtual clock for KVM guests'')
                            [''to inspect: cat /sys/devices/system/clocksource/clocksource0/available_clocksource'']]
                  else out);
               out = out @ kvmguestStealInsight v
           in if out = [] \<and> (\<not> kvmGuest_NICDriversChecked v \<or> \<not> kvmGuest_DiskBusesChecked v)
                then (let unread = [];
                          unread =
                            (if \<not> kvmGuest_NICDriversChecked v
                               then unread @ [''NIC drivers (/sys/class/net)'']
                             else unread);
                          unread =
                            (if \<not> kvmGuest_DiskBusesChecked v
                               then unread @ [''disk buses (/sys/block)'']
                             else unread)
                      in out @
                         [unverifiedInsight ReasonUnreadable INFO ''KVMGuest''
                            (''QEMU/KVM guest ('' @ kvmguestProductName v @ '') '' @ em_dash @
                             '' could not verify paravirtual NIC/disk drivers: '' @
                             join unread '', '' @ '' unreadable'') []])
              else if out = []
                then out @
                     [mk_full INFO ''KVMGuest''
                        (''QEMU/KVM guest ('' @ kvmguestProductName v @ '') '' @ em_dash @
                         '' paravirtual NIC+disk in use, qemu-guest-agent running, clocksource '' @
                         kvmguestOrUnknown (kvmGuest_Clocksource v)) []]
              else out)"

definition checkContainerGuest :: "container_guest_info \<Rightarrow> insight list" where
  "checkContainerGuest v =
     (if \<not> containerGuest_InContainer v then []
      else let out = [];
               out =
                 (if containerGuest_MemLimitBytes v \<le> 0
                    then out @
                         [mk_full WARN catContainerGuest
                            (''no memory limit set '' @ em_dash @ '' a leak can consume the host'' @
                             squote @ ''s RAM and the host won'' @ squote @
                             ''t OOM-protect this container'')
                            [''to fix (docker): docker run --memory=<size> '' @
                             [CHR 0xE2, CHR 0x80, CHR 0xA6],
                             ''to fix (k8s): set resources.limits.memory in the pod spec'']]
                  else out);
               out =
                 (if containerGuest_RunAsRoot v
                    then out @
                         [mk_full WARN catContainerGuest
                            (''container runs as root (uid 0) '' @ em_dash @
                             '' a breakout has host-root-adjacent privileges; run as a non-root user'')
                            [''to fix (image): add a USER directive and chown the app dir'',
                             ''to fix (k8s): set securityContext.runAsNonRoot: true'']]
                  else out);
               out =
                 (if fle (containerGuest_CPUQuotaCores v) (Fin 0)
                    then out @
                         [mk_full INFO catContainerGuest
                            (''no CPU limit set '' @ em_dash @
                             '' the container can be starved by noisy neighbours and isn'' @
                             squote @ ''t schedulable by quota'')
                            [''to set (k8s): resources.requests/limits.cpu; (docker): --cpus=<n>'']]
                  else out);
               out =
                 (if containerGuest_WritableRootfs v
                    then out @
                         [mk_full INFO catContainerGuest
                            (''root filesystem is writable '' @ em_dash @
                             '' a read-only root (with writable volumes for state) is more tamper-resistant'')
                            [''to fix (docker): --read-only; (k8s): securityContext.readOnlyRootFilesystem: true'']]
                  else out);
               out = out @ containerThrottleInsight v;
               out =
                 (if 0 < containerGuest_OOMKills v
                    then out @
                         [mk_full WARN catContainerGuest
                            (itoa (containerGuest_OOMKills v) @ '' OOM-kill(s) '' @ em_dash @
                             '' a process was killed for exceeding the memory limit ('' @
                             containerHumanBytes (containerGuest_MemLimitBytes v) @
                             ''); raise the limit if it'' @ squote @
                             ''s yours to set, or this is your platform'' @ squote @ ''s cap'')
                            [''to inspect: cat /sys/fs/cgroup/memory.events; dmesg | grep -i oom'',
                             ''to fix: raise memory.max (docker --memory / k8s limits.memory), or fix the leak'']]
                  else out);
               out =
                 (let pct = containerMemPct v
                  in if fle (Fin 90) pct
                       then out @
                            [mk_full WARN catContainerGuest
                               (''memory at '' @ fmt_f 0 pct @ ''% of the limit ('' @
                                containerHumanBytes (containerGuest_MemCurrentBytes v) @ '' of '' @
                                containerHumanBytes (containerGuest_MemLimitBytes v) @ '') '' @
                                em_dash @ '' an OOM-kill is close'')
                               [''to inspect: cat /sys/fs/cgroup/memory.current /sys/fs/cgroup/memory.max'']]
                     else out);
               out =
                 (if containerGuest_InContainer v \<and>
                     (containerGuest_CgroupV2 v \<and> \<not> containerGuest_CgroupV2Measured v \<or>
                      \<not> containerGuest_CgroupV2 v \<and> \<not> containerGuest_CgroupV1Measured v)
                    then (let cgroupLabel = ''v1'';
                              hint =
                                ''note: needs the cpu + memory v1 controllers mounted and a kernel exposing memory.oom_control'';
                              cgroupLabel =
                                (if containerGuest_CgroupV2 v then ''v2'' else cgroupLabel);
                              hint =
                                (if containerGuest_CgroupV2 v
                                   then ''note: needs the container'' @ squote @
                                        ''s own cgroup dir (resolved via /proc/self/cgroup) mounted and readable''
                                 else hint)
                          in out @
                             [unverifiedInsight ReasonUnreadable INFO catContainerGuest
                                (''CPU-throttle and OOM-kill could not be read on this cgroup '' @
                                 cgroupLabel @ '' host '' @ em_dash @
                                 '' those signals are unverified'') [hint]])
                  else out)
           in if out = []
                then out @
                     [mk_full INFO catContainerGuest
                        (containerRuntimeLabel v @ '' container '' @ em_dash @
                         '' memory + CPU limits set, non-root, no throttling or OOM-kills'' @
                         containerUnderlaySuffix v) []]
              else out)"

definition awsEBSInsights :: "aws_info \<Rightarrow> insight list" where
  "awsEBSInsights a =
     (if aws_EBSNeedsRoot a
        then [unverifiedInsight ReasonUnreadable INFO ''AWS''
                (''EBS performance stats need root '' @ em_dash @
                 '' run dsd as root to check whether EBS IOPS/throughput is being throttled'')
                [''note: the EBS NVMe vendor log page (0xD0) is root-only'']]
      else if aws_EBSReadFailed a
        then [unverifiedInsight ReasonUnreadable INFO ''AWS''
                (''could not read EBS performance stats (nvme get-log on an EBS device failed or returned no EBS data) '' @
                 em_dash @ '' EBS throttling NOT verified'')
                [''to inspect: nvme get-log /dev/nvme0n1 --log-id=0xd0 --log-len=4096 --raw-binary | xxd | head'']]
      else if aws_EBSDeltaReadFailed a
        then [unverifiedInsight ReasonUnreadable INFO ''AWS''
                (''EBS performance stats read once but the follow-up sample failed '' @ em_dash @
                 '' whether this device is being throttled RIGHT NOW is NOT verified (historical totals below are still accurate)'')
                [''to inspect: nvme get-log /dev/nvme0n1 --log-id=0xd0 --log-len=4096 --raw-binary | xxd | head'']]
      else []) @
     concat (map
               (\<lambda>d.
                 ebsThrottleInsight (ebsStats_Device d) ''volume IOPS''
                   (''the volume'' @ squote @ ''s provisioned IOPS is the bottleneck '' @ em_dash @
                    '' raise IOPS (gp3/io2) or change volume type'') (ebsStats_ActiveVolumeIOPSUs d)
                   (ebsStats_VolumeIOPSExceededUs d) @
                 ebsThrottleInsight (ebsStats_Device d) ''volume throughput''
                   (''the volume'' @ squote @ ''s provisioned throughput is the bottleneck '' @
                    em_dash @ '' raise MB/s (gp3) or change volume type'')
                   (ebsStats_ActiveVolumeTPUs d) (ebsStats_VolumeTPExceededUs d) @
                 ebsThrottleInsight (ebsStats_Device d) ''instance-aggregate EBS IOPS''
                   (''the instance'' @ squote @ ''s aggregate EBS IOPS limit (not the volume) '' @
                    em_dash @ '' a larger / EBS-optimized instance type raises it'')
                   (ebsStats_ActiveInstanceIOPSUs d) (ebsStats_InstanceIOPSExceededUs d) @
                 ebsThrottleInsight (ebsStats_Device d) ''instance-aggregate EBS throughput''
                   (''the instance'' @ squote @
                    ''s aggregate EBS throughput limit (not the volume) '' @ em_dash @
                    '' a larger / EBS-optimized instance type raises it'')
                   (ebsStats_ActiveInstanceTPUs d) (ebsStats_InstanceTPExceededUs d))
               (aws_EBS a))"

definition checkAzure :: "azure_info \<Rightarrow> insight list" where
  "checkAzure a =
     (if \<not> azure_IsAzure a then []
      else let out = [];
               out = out @ azureANInsights a;
               out = out @ azureWAAgentInsights a;
               out = out @ azureTimeSyncInsights a;
               out = out @ azureTempDiskInsights a;
               out = out @ azureCachingInsights a;
               out = out @ azureNVMeTimeoutInsights a
           in if out = [] then out @ [mk_full INFO ''Azure'' (azureRecognitionLine a) []] else out)"

definition vmwareResourceConstraints :: "v_mware_info \<Rightarrow> insight list" where
  "vmwareResourceConstraints v =
     (if \<not> vMware_StatAvailable v then []
      else (if 0 < vMware_BalloonMB v
              then [mk_full WARN catVMware
                      (''host is reclaiming '' @ itoa (vMware_BalloonMB v) @ '' MB of this guest'' @
                       squote @ ''s RAM via the balloon driver '' @ em_dash @
                       '' the ESXi host is under memory pressure'')
                      [''this is host-side memory pressure, not a guest fault'',
                       ''to inspect: vmware-toolbox-cmd stat balloon'',
                       ''note: sustained ballooning means the host is overcommitted '' @ em_dash @
                       '' raise the VM'' @ squote @ ''s memory reservation or rebalance the host'']]
            else []) @
           (if 0 < vMware_HostSwapMB v
              then [mk_full WARN catVMware
                      (''host has swapped '' @ itoa (vMware_HostSwapMB v) @ '' MB of this guest'' @
                       squote @ ''s memory to disk '' @ em_dash @
                       '' severe host memory pressure (hypervisor-level swap is far slower than guest swap)'')
                      [''this is host-side memory pressure, not a guest fault'',
                       ''to inspect: vmware-toolbox-cmd stat swap'',
                       ''note: host swapping causes large, unpredictable latency spikes inside the guest'']]
            else []) @
           (if 0 < vMware_MemLimitMB v then [vmwareMemLimitInsight v] else []) @
           (if 0 < vMware_CPULimitMHz v then [vmwareCPULimitInsight v] else []))"

definition checkAWS :: "aws_info \<Rightarrow> insight list" where
  "checkAWS a =
     (if \<not> aws_IsEC2 a then []
      else let out = [];
               out = out @ awsENAInsights a;
               out = out @ awsEBSInsights a;
               out = out @ awsIMDSInsights a;
               out = out @ awsRebalanceInsights a;
               out = out @ awsTimeSyncInsights a;
               out = out @ awsSSMInsights a
           in if out = [] then out @ [mk_full INFO ''AWS'' (awsRecognitionLine a) []] else out)"

definition checkVMware :: "v_mware_info \<Rightarrow> insight list" where
  "checkVMware v =
     (if \<not> vMware_IsGuest v then []
      else let name = vMware_ProductName v;
               name = (if name = [] then ''VMware'' else name);
               out = [];
               out =
                 (if \<not> vMware_ToolsInstalled v
                    then out @
                         [mk_full WARN catVMware
                            (''open-vm-tools not installed on this VMware guest '' @ em_dash @
                             '' no time sync, quiesced backups, graceful shutdown, or memory ballooning'')
                            [''to fix: apt install open-vm-tools   (RHEL/SUSE: dnf/zypper install open-vm-tools)'']]
                  else if \<not> vMware_ToolsRunning v
                    then out @
                         [mk_full WARN catVMware
                            (''open-vm-tools installed but not running '' @ em_dash @
                             '' quiesced snapshots/backups and graceful guest shutdown will fail'')
                            [''to fix: systemctl enable --now vmtoolsd   (some distros: open-vm-tools)'']]
                  else if \<not> vMware_ToolsRunningVerified v
                    then out @
                         [unverifiedInsight ReasonCollectorError INFO catVMware
                            (''open-vm-tools appears to be running, but this could not be confirmed via systemd '' @
                             em_dash @ '' the signal is based on a process name match only'')
                            [''to verify: systemctl status vmtoolsd'']]
                  else out);
               out =
                 (if vMware_EmulatedNICs v \<noteq> []
                    then out @
                         [mk_full WARN catVMware
                            (''NIC(s) on an emulated driver ('' @ join (emulatedNICDescs v) '', '' @
                             '') '' @ em_dash @
                             '' vmxnet3 (paravirtual) gives higher throughput at lower host CPU'')
                            [''to fix: set the VM'' @ squote @
                             ''s network adapter type to VMXNET 3 in vSphere, then reboot the guest'']]
                  else out);
               out = out @ vmwareResourceConstraints v;
               out = out @ vmwareSCSITimeoutCheck v;
               out = out @ vmwareEnableUUIDCheck v;
               out = out @ vmwareVMXNETCheck v;
               out =
                 (if vMware_ToolsRunning v \<and> \<not> vMware_StatAvailable v
                    then out @
                         [unverifiedInsight ReasonCollectorError INFO catVMware
                            (''VMware resource-pressure stats unavailable (vmware-toolbox-cmd stat failed) '' @
                             em_dash @ '' ballooning / host-swap / host caps NOT verified'')
                            [''to inspect: vmware-toolbox-cmd stat balloon'',
                             ''note: requires a recent open-vm-tools with the stat interface'']]
                  else out)
           in if out = []
                then out @
                     [mk_full INFO catVMware
                        (''VMware guest ('' @ name @ '') '' @ em_dash @
                         '' open-vm-tools running; NICs: '' @ vmwareNICSummary v @
                         ''; paravirtual SCSI: '' @ vmwareYesNo (vMware_PVSCSILoaded v) @
                         ''; balloon: '' @ vmwareYesNo (vMware_BalloonLoaded v)) []]
              else out)"

section \<open>Well-formedness\<close>

lemma checkCloudMeta_wf [wf_rules]: "wf_insights (checkCloudMeta c)"
  unfolding checkCloudMeta_def by (intro wf_lets wf_rules level_facts; (assumption | erule (1) level_open; intro level_facts | erule level_nonempty; intro level_facts | elim level_elims; (intro level_facts)?; assumption?))

lemma checkCloudInit_wf [wf_rules]: "wf_insights (checkCloudInit c)"
  unfolding checkCloudInit_def by (intro wf_lets wf_rules level_facts; (assumption | erule (1) level_open; intro level_facts | erule level_nonempty; intro level_facts | elim level_elims; (intro level_facts)?; assumption?))

lemma awsENAInsights_wf [wf_rules]: "wf_insights (awsENAInsights a)"
  unfolding awsENAInsights_def by (intro wf_lets wf_rules level_facts; (assumption | erule (1) level_open; intro level_facts | erule level_nonempty; intro level_facts | elim level_elims; (intro level_facts)?; assumption?))

lemma awsIMDSInsights_wf [wf_rules]: "wf_insights (awsIMDSInsights a)"
  unfolding awsIMDSInsights_def by (intro wf_lets wf_rules level_facts; (assumption | erule (1) level_open; intro level_facts | erule level_nonempty; intro level_facts | elim level_elims; (intro level_facts)?; assumption?))

lemma awsRebalanceInsights_wf [wf_rules]: "wf_insights (awsRebalanceInsights a)"
  unfolding awsRebalanceInsights_def by (intro wf_lets wf_rules level_facts; (assumption | erule (1) level_open; intro level_facts | erule level_nonempty; intro level_facts | elim level_elims; (intro level_facts)?; assumption?))

lemma awsTimeSyncInsights_wf [wf_rules]: "wf_insights (awsTimeSyncInsights a)"
  unfolding awsTimeSyncInsights_def by (intro wf_lets wf_rules level_facts; (assumption | erule (1) level_open; intro level_facts | erule level_nonempty; intro level_facts | elim level_elims; (intro level_facts)?; assumption?))

lemma awsSSMInsights_wf [wf_rules]: "wf_insights (awsSSMInsights a)"
  unfolding awsSSMInsights_def by (intro wf_lets wf_rules level_facts; (assumption | erule (1) level_open; intro level_facts | erule level_nonempty; intro level_facts | elim level_elims; (intro level_facts)?; assumption?))

lemma azureTempDiskInsights_wf [wf_rules]: "wf_insights (azureTempDiskInsights a)"
  unfolding azureTempDiskInsights_def by (intro wf_lets wf_rules level_facts; (assumption | erule (1) level_open; intro level_facts | erule level_nonempty; intro level_facts | elim level_elims; (intro level_facts)?; assumption?))

lemma azureANInsights_wf [wf_rules]: "wf_insights (azureANInsights a)"
  unfolding azureANInsights_def by (intro wf_lets wf_rules level_facts; (assumption | erule (1) level_open; intro level_facts | erule level_nonempty; intro level_facts | elim level_elims; (intro level_facts)?; assumption?))

lemma azureWAAgentInsights_wf [wf_rules]: "wf_insights (azureWAAgentInsights a)"
  unfolding azureWAAgentInsights_def by (intro wf_lets wf_rules level_facts; (assumption | erule (1) level_open; intro level_facts | erule level_nonempty; intro level_facts | elim level_elims; (intro level_facts)?; assumption?))

lemma azureTimeSyncInsights_wf [wf_rules]: "wf_insights (azureTimeSyncInsights a)"
  unfolding azureTimeSyncInsights_def by (intro wf_lets wf_rules level_facts; (assumption | erule (1) level_open; intro level_facts | erule level_nonempty; intro level_facts | elim level_elims; (intro level_facts)?; assumption?))

lemma azureNVMeTimeoutInsights_wf [wf_rules]: "wf_insights (azureNVMeTimeoutInsights a)"
  unfolding azureNVMeTimeoutInsights_def by (intro wf_lets wf_rules level_facts; (assumption | erule (1) level_open; intro level_facts | erule level_nonempty; intro level_facts | elim level_elims; (intro level_facts)?; assumption?))

lemma gcpGuestAgentInsights_wf [wf_rules]: "wf_insights (gcpGuestAgentInsights g)"
  unfolding gcpGuestAgentInsights_def by (intro wf_lets wf_rules level_facts; (assumption | erule (1) level_open; intro level_facts | erule level_nonempty; intro level_facts | elim level_elims; (intro level_facts)?; assumption?))

lemma gcpMaintenanceInsights_wf [wf_rules]: "wf_insights (gcpMaintenanceInsights g)"
  unfolding gcpMaintenanceInsights_def by (intro wf_lets wf_rules level_facts; (assumption | erule (1) level_open; intro level_facts | erule level_nonempty; intro level_facts | elim level_elims; (intro level_facts)?; assumption?))

lemma gcpTimeSyncInsights_wf [wf_rules]: "wf_insights (gcpTimeSyncInsights g)"
  unfolding gcpTimeSyncInsights_def by (intro wf_lets wf_rules level_facts; (assumption | erule (1) level_open; intro level_facts | erule level_nonempty; intro level_facts | elim level_elims; (intro level_facts)?; assumption?))

lemma ociIMDSInsights_wf [wf_rules]: "wf_insights (ociIMDSInsights oi)"
  unfolding ociIMDSInsights_def by (intro wf_lets wf_rules level_facts; (assumption | erule (1) level_open; intro level_facts | erule level_nonempty; intro level_facts | elim level_elims; (intro level_facts)?; assumption?))

lemma ociAgentInsights_wf [wf_rules]: "wf_insights (ociAgentInsights oi)"
  unfolding ociAgentInsights_def by (intro wf_lets wf_rules level_facts; (assumption | erule (1) level_open; intro level_facts | erule level_nonempty; intro level_facts | elim level_elims; (intro level_facts)?; assumption?))

lemma ociTimeSyncInsights_wf [wf_rules]: "wf_insights (ociTimeSyncInsights oi)"
  unfolding ociTimeSyncInsights_def by (intro wf_lets wf_rules level_facts; (assumption | erule (1) level_open; intro level_facts | erule level_nonempty; intro level_facts | elim level_elims; (intro level_facts)?; assumption?))

lemma ociVNICInsights_wf [wf_rules]: "wf_insights (ociVNICInsights oi)"
  unfolding ociVNICInsights_def by (intro wf_lets wf_rules level_facts; (assumption | erule (1) level_open; intro level_facts | erule level_nonempty; intro level_facts | elim level_elims; (intro level_facts)?; assumption?))

lemma vmwareSCSITimeoutCheck_wf [wf_rules]: "wf_insights (vmwareSCSITimeoutCheck v)"
  unfolding vmwareSCSITimeoutCheck_def by (intro wf_lets wf_rules level_facts; (assumption | erule (1) level_open; intro level_facts | erule level_nonempty; intro level_facts | elim level_elims; (intro level_facts)?; assumption?))

lemma vmwareEnableUUIDCheck_wf [wf_rules]: "wf_insights (vmwareEnableUUIDCheck v)"
  unfolding vmwareEnableUUIDCheck_def by (intro wf_lets wf_rules level_facts; (assumption | erule (1) level_open; intro level_facts | erule level_nonempty; intro level_facts | elim level_elims; (intro level_facts)?; assumption?))

lemma vmwareVMXNETCheck_wf [wf_rules]: "wf_insights (vmwareVMXNETCheck v)"
  unfolding vmwareVMXNETCheck_def by (intro wf_lets wf_rules level_facts; (assumption | erule (1) level_open; intro level_facts | erule level_nonempty; intro level_facts | elim level_elims; (intro level_facts)?; assumption?))

lemma kvmguestQGAInsight_wf [wf_rules]: "wf_insights (kvmguestQGAInsight v)"
  unfolding kvmguestQGAInsight_def by (intro wf_lets wf_rules level_facts; (assumption | erule (1) level_open; intro level_facts | erule level_nonempty; intro level_facts | elim level_elims; (intro level_facts)?; assumption?))

lemma kvmguestStealInsight_wf [wf_rules]: "wf_insights (kvmguestStealInsight v)"
  unfolding kvmguestStealInsight_def by (intro wf_lets wf_rules level_facts; (assumption | erule (1) level_open; intro level_facts | erule level_nonempty; intro level_facts | elim level_elims; (intro level_facts)?; assumption?))

lemma containerThrottleInsight_wf [wf_rules]: "wf_insights (containerThrottleInsight v)"
  unfolding containerThrottleInsight_def by (intro wf_lets wf_rules level_facts; (assumption | erule (1) level_open; intro level_facts | erule level_nonempty; intro level_facts | elim level_elims; (intro level_facts)?; assumption?))

lemma ebsThrottleInsight_wf [wf_rules]: "wf_insights (ebsThrottleInsight dev label hint active tot)"
  unfolding ebsThrottleInsight_def by (intro wf_lets wf_rules level_facts; (assumption | erule (1) level_open; intro level_facts | erule level_nonempty; intro level_facts | elim level_elims; (intro level_facts)?; assumption?))

lemma azureCachingInsights_wf [wf_rules]: "wf_insights (azureCachingInsights a)"
  unfolding azureCachingInsights_def by (intro wf_lets wf_rules level_facts; (assumption | erule (1) level_open; intro level_facts | erule level_nonempty; intro level_facts | elim level_elims; (intro level_facts)?; assumption?))

lemma checkGCP_wf [wf_rules]: "wf_insights (checkGCP g)"
  unfolding checkGCP_def by (intro wf_lets wf_rules level_facts; (assumption | erule (1) level_open; intro level_facts | erule level_nonempty; intro level_facts | elim level_elims; (intro level_facts)?; assumption?))

lemma checkOCI_wf [wf_rules]: "wf_insights (checkOCI oi)"
  unfolding checkOCI_def by (intro wf_lets wf_rules level_facts; (assumption | erule (1) level_open; intro level_facts | erule level_nonempty; intro level_facts | elim level_elims; (intro level_facts)?; assumption?))

lemma vmwareMemLimitInsight_wf [wf_rules]: "wf_insight (vmwareMemLimitInsight v)"
  unfolding vmwareMemLimitInsight_def by (intro wf_lets wf_rules level_facts; (assumption | erule (1) level_open; intro level_facts | erule level_nonempty; intro level_facts | elim level_elims; (intro level_facts)?; assumption?))

lemma vmwareCPULimitInsight_wf [wf_rules]: "wf_insight (vmwareCPULimitInsight v)"
  unfolding vmwareCPULimitInsight_def by (intro wf_lets wf_rules level_facts; (assumption | erule (1) level_open; intro level_facts | erule level_nonempty; intro level_facts | elim level_elims; (intro level_facts)?; assumption?))

lemma checkKVMGuest_wf [wf_rules]: "wf_insights (checkKVMGuest env v)"
  unfolding checkKVMGuest_def by (intro wf_lets wf_rules level_facts; (assumption | erule (1) level_open; intro level_facts | erule level_nonempty; intro level_facts | elim level_elims; (intro level_facts)?; assumption?))

lemma checkContainerGuest_wf [wf_rules]: "wf_insights (checkContainerGuest v)"
  unfolding checkContainerGuest_def by (intro wf_lets wf_rules level_facts; (assumption | erule (1) level_open; intro level_facts | erule level_nonempty; intro level_facts | elim level_elims; (intro level_facts)?; assumption?))

lemma awsEBSInsights_wf [wf_rules]: "wf_insights (awsEBSInsights a)"
  unfolding awsEBSInsights_def by (intro wf_lets wf_rules level_facts; (assumption | erule (1) level_open; intro level_facts | erule level_nonempty; intro level_facts | elim level_elims; (intro level_facts)?; assumption?))

lemma checkAzure_wf [wf_rules]: "wf_insights (checkAzure a)"
  unfolding checkAzure_def by (intro wf_lets wf_rules level_facts; (assumption | erule (1) level_open; intro level_facts | erule level_nonempty; intro level_facts | elim level_elims; (intro level_facts)?; assumption?))

lemma vmwareResourceConstraints_wf [wf_rules]: "wf_insights (vmwareResourceConstraints v)"
  unfolding vmwareResourceConstraints_def by (intro wf_lets wf_rules level_facts; (assumption | erule (1) level_open; intro level_facts | erule level_nonempty; intro level_facts | elim level_elims; (intro level_facts)?; assumption?))

lemma checkAWS_wf [wf_rules]: "wf_insights (checkAWS a)"
  unfolding checkAWS_def by (intro wf_lets wf_rules level_facts; (assumption | erule (1) level_open; intro level_facts | erule level_nonempty; intro level_facts | elim level_elims; (intro level_facts)?; assumption?))

lemma checkVMware_wf [wf_rules]: "wf_insights (checkVMware v)"
  unfolding checkVMware_def by (intro wf_lets wf_rules level_facts; (assumption | erule (1) level_open; intro level_facts | erule level_nonempty; intro level_facts | elim level_elims; (intro level_facts)?; assumption?))


end
