(* ===== verification/Checks_Storage.thy ===== *)
theory Checks_Storage
  imports Checks_Guests
begin

text \<open>
  heuristics_storage.go: NVMe drives, ZFS pools, LVM groups, pools and RAID volumes, DRBD, software RAID, file
  systems and their growth, Btrfs, SMART data, HBAs, multipath, Ceph and iSCSI.
\<close>

section \<open>Measurements\<close>

record nv_me_device =
  nvmeDevice_Name :: gostring
  nvmeDevice_TempC :: f64
  nvmeDevice_AvailableSparePct :: int
  nvmeDevice_SpareThresholdPct :: int
  nvmeDevice_PercentageUsed :: int
  nvmeDevice_CriticalWarning :: int
  nvmeDevice_MediaErrors :: int
  nvmeDevice_UnsafeShutdowns :: int
  nvmeDevice_PowerOnHours :: int
  nvmeDevice_PowerCycles :: int
  nvmeDevice_SmartRead :: bool
  nvmeDevice_SmartUnreadReason :: gostring
  nvmeDevice_SmartDangerousFieldsUnread :: bool

record sata_device =
  sataDevice_Name :: gostring
  sataDevice_Type :: gostring
  sataDevice_TempC :: int
  sataDevice_SmartRead :: bool
  sataDevice_SmartUnreadReason :: gostring
  sataDevice_SmartOK :: bool
  sataDevice_PowerOnHours :: int
  sataDevice_ReallocatedSectors :: int
  sataDevice_PendingSectors :: int
  sataDevice_UncorrectableErrors :: int
  sataDevice_Error :: gostring

record nv_me_info =
  nvme_Devices :: "nv_me_device list"
  nvme_SATADevices :: "sata_device list"
  nvme_DrivesListUnreadable :: bool

record zfs_pool =
  zfsPool_Name :: gostring
  zfsPool_State :: gostring
  zfsPool_UsedPct :: f64
  zfsPool_SizeGB :: f64
  zfsPool_FreeGB :: f64
  zfsPool_FragPct :: int
  zfsPool_ReadErrors :: int
  zfsPool_WriteErrors :: int
  zfsPool_CksumErrors :: int
  zfsPool_ScrubAgeDays :: int
  zfsPool_ScrubErrors :: int
  zfsPool_StatusMsg :: gostring
  zfsPool_StatusReadFailed :: bool

record lvmvg =
  lvmvg_Name :: gostring
  lvmvg_SizeGB :: f64
  lvmvg_FreeGB :: f64
  lvmvg_FreePct :: f64
  lvmvg_MissingPVs :: int
  lvmvg_HasMountedLV :: bool

record lvm_snapshot =
  lvmSnapshot_Name :: gostring
  lvmSnapshot_VG :: gostring
  lvmSnapshot_DataPct :: f64

record lvm_raid_lv =
  lvmRaidLV_Name :: gostring
  lvmRaidLV_VG :: gostring
  lvmRaidLV_Type :: gostring
  lvmRaidLV_Degraded :: bool
  lvmRaidLV_Resyncing :: bool
  lvmRaidLV_SyncPct :: f64
  lvmRaidLV_SizeGB :: f64

record lvm_info =
  lvm_VGs :: "lvmvg list"
  lvm_ThinPools :: "lvm_thin_pool list"
  lvm_Snapshots :: "lvm_snapshot list"
  lvm_RaidLVs :: "lvm_raid_lv list"
  lvm_RaidReadFailed :: bool
  lvm_VGReadFailed :: bool
  lvm_PVReadFailed :: bool
  lvm_LVReadFailed :: bool
  lvm_PresenceReadFailed :: bool

record drbd_resource =
  drbdResource_Minor :: int
  drbdResource_ConnState :: gostring
  drbdResource_LocalRole :: gostring
  drbdResource_LocalDisk :: gostring
  drbdResource_RemoteDisk :: gostring
  drbdResource_SyncPct :: f64
  drbdResource_SyncKBLeft :: int

record raid_device =
  raidDevice_Name :: gostring
  raidDevice_Level :: gostring
  raidDevice_State :: gostring
  raidDevice_Active :: int
  raidDevice_Total :: int
  raidDevice_Failed :: "gostring list"
  raidDevice_Spare :: "gostring list"
  raidDevice_RebuildPct :: f64

record raid_info =
  raid_Arrays :: "raid_device list"
  raid_ReadFailed :: bool

record btrfs_dev =
  btrfsDev_Path :: gostring
  btrfsDev_ReadErrs :: int
  btrfsDev_WriteErrs :: int
  btrfsDev_CorruptErrs :: int

record btrfs_volume =
  btrfsVolume_MountPoint :: gostring
  btrfsVolume_MissingDevs :: int
  btrfsVolume_Devices :: "btrfs_dev list"
  btrfsVolume_Status :: gostring
  btrfsVolume_StatsRead :: bool
  btrfsVolume_DevReadUnverified :: bool
  btrfsVolume_ShowRead :: bool

record fs_busy_process =
  fsBusyProcess_PID :: int
  fsBusyProcess_Command :: gostring
  fsBusyProcess_User :: gostring
  fsBusyProcess_Write :: bool

record filesystem_info =
  filesystem_Mount :: gostring
  filesystem_Device :: gostring
  filesystem_FSType :: gostring
  filesystem_TotalGB :: f64
  filesystem_UsedPct :: f64
  filesystem_InodesUsedPct :: f64
  filesystem_ReadOnly :: bool
  filesystem_DeviceSizeGB :: f64
  filesystem_BusyProcesses :: "fs_busy_process list"
  filesystem_BusyCheckNeedsRoot :: bool

record unreachable_mount =
  unreachableMount_Mount :: gostring
  unreachableMount_FSType :: gostring

record smart_info =
  smart_Healthy :: bool
  smart_PercentUsed :: int
  smart_AvailableSpare :: int
  smart_Temperature :: int
  smart_MediaErrors :: int
  smart_PowerOnHours :: int
  smart_UnsafeShutdowns :: int
  smart_PowerCycles :: int
  smart_Error :: gostring

record physical_drive =
  physicalDrive_Name :: gostring
  physicalDrive_Model :: gostring
  physicalDrive_SMART :: "smart_info option"

record disk_info =
  disk_Filesystems :: "filesystem_info list"
  disk_UnreachableMounts :: "unreachable_mount list"
  disk_Drives :: "physical_drive list"
  disk_DrivesListUnreadable :: bool
  disk_ZFSPools :: "zfs_pool list"
  disk_ZFSListReadFailed :: bool
  disk_BtrfsVolumes :: "btrfs_volume list"
  disk_SteamOS :: "steam_os_disk option"
  disk_ImmutableRootFS :: bool

record hba_port =
  hbaPort_Name :: gostring
  hbaPort_PortState :: gostring
  hbaPort_LinkFailures :: int
  hbaPort_LossOfSync :: int
  hbaPort_CountersUnreadable :: bool

record hba_info =
  hba_Ports :: "hba_port list"

record ceph_info =
  ceph_Available :: bool
  ceph_Configured :: bool
  ceph_NeedsRoot :: bool
  ceph_Health :: gostring
  ceph_OSDTotal :: int
  ceph_OSDUp :: int
  ceph_Summary :: "gostring list"

record iscsi_session =
  iscsiSession_Target :: gostring

record iscsi_info =
  iscsi_Available :: bool
  iscsi_Sessions :: "iscsi_session list"
  iscsi_NeedsRoot :: bool
  iscsi_SessionsParseFailed :: bool
  iscsi_FailedCount :: int

record multipath_path =
  multipathPath_Device :: gostring
  multipathPath_State :: gostring
  multipathPath_DM :: gostring

record multipath_device =
  multipathDevice_Name :: gostring
  multipathDevice_DM :: gostring
  multipathDevice_State :: gostring
  multipathDevice_ActivePaths :: int
  multipathDevice_FailedPaths :: int
  multipathDevice_TotalPaths :: int
  multipathDevice_Paths :: "multipath_path list"

record zfs_info =
  zfs_Pools :: "zfs_pool list"
  zfs_ListReadFailed :: bool

record drbd_info =
  drbd_Version :: gostring
  drbd_Resources :: "drbd_resource list"
  drbd_Unverified :: bool

record multipath_info =
  multipath_Available :: bool
  multipath_Devices :: "multipath_device list"
  multipath_Status :: gostring
  multipath_StatusReason :: gostring

section \<open>Constants\<close>

definition inspectNVMEPrefix :: gostring where
  "inspectNVMEPrefix = ''to inspect: nvme smart-log ''"

definition inspectMultipath :: gostring where
  "inspectMultipath = ''to inspect: multipathd show paths''"

definition inspectFCHostPrefix :: gostring where
  "inspectFCHostPrefix = ''to inspect: cat /sys/class/fc_host/''"

definition inspectCephDetail :: gostring where
  "inspectCephDetail = ''to inspect: ceph health detail''"

definition inspectMdstat :: gostring where
  "inspectMdstat = ''to inspect: cat /proc/mdstat''"

definition noteNVMeUnverified :: gostring where
  "noteNVMeUnverified = ''note: drive presence is known; wear, media errors, and spare capacity are unverified''"

definition mountPlaceholder :: gostring where
  "mountPlaceholder = ''<mount>''"

section \<open>Checks\<close>

definition NVMeNoRealData :: "nv_me_device \<Rightarrow> bool" where
  "NVMeNoRealData dev \<longleftrightarrow>
     (((((((TempNotReported (nvmeDevice_TempC dev) \<and> nvmeDevice_AvailableSparePct dev = 0) \<and>
           nvmeDevice_SpareThresholdPct dev = 0) \<and>
          nvmeDevice_PercentageUsed dev = 0) \<and>
         nvmeDevice_CriticalWarning dev = 0) \<and>
        nvmeDevice_MediaErrors dev = 0) \<and>
       nvmeDevice_UnsafeShutdowns dev = 0) \<and>
      nvmeDevice_PowerOnHours dev = 0) \<and>
     nvmeDevice_PowerCycles dev = 0"

definition nvmeSmartPlausible :: "nv_me_device \<Rightarrow> bool" where
  "nvmeSmartPlausible dev \<longleftrightarrow>
     (if \<not> TempNotReported (nvmeDevice_TempC dev) \<and> \<not> TempPlausible (nvmeDevice_TempC dev) (Fin 125)
        then False
      else if nvmeDevice_AvailableSparePct dev < 0 \<or> 100 < nvmeDevice_AvailableSparePct dev
        then False
      else if nvmeDevice_SpareThresholdPct dev < 0 \<or> 100 < nvmeDevice_SpareThresholdPct dev
        then False
      else if nvmeDevice_PowerOnHours dev < 0 \<or> 1000000 < nvmeDevice_PowerOnHours dev then False
      else if nvmeDevice_PowerCycles dev < 0 \<or> 1000000000 < nvmeDevice_PowerCycles dev then False
      else if nvmeDevice_CriticalWarning dev < 0 \<or> 255 < nvmeDevice_CriticalWarning dev then False
      else if nvmeDevice_MediaErrors dev < 0 \<or> 1000000000 < nvmeDevice_MediaErrors dev then False
      else if nvmeDevice_UnsafeShutdowns dev < 0 \<or> 1000000000 < nvmeDevice_UnsafeShutdowns dev
        then False
      else if nvmeDevice_PercentageUsed dev < 0 \<or> 1000 < nvmeDevice_PercentageUsed dev then False
      else True)"

definition sataSmartPlausible :: "sata_device \<Rightarrow> bool" where
  "sataSmartPlausible dev \<longleftrightarrow>
     (if \<not> TempPlausible (f_of_int (sataDevice_TempC dev)) (Fin 125) then False
      else if sataDevice_ReallocatedSectors dev < 0 \<or> 100000000 < sataDevice_ReallocatedSectors dev
        then False
      else if sataDevice_PendingSectors dev < 0 \<or> 100000000 < sataDevice_PendingSectors dev
        then False
      else if sataDevice_UncorrectableErrors dev < 0 \<or>
              100000000 < sataDevice_UncorrectableErrors dev
        then False
      else if sataDevice_PowerOnHours dev < 0 \<or> 1000000 < sataDevice_PowerOnHours dev then False
      else True)"

definition checkNVMe :: "environment \<Rightarrow> nv_me_info \<Rightarrow> insight list" where
  "checkNVMe env n =
     (if nvme_DrivesListUnreadable n
        then [unverifiedInsight ReasonUnreadable INFO ''Drives''
                (''could not enumerate drives '' @ em_dash @
                 '' diskutil list failed or returned no output'') [''to inspect: diskutil list'']]
      else let implausible = [];
               noData = []
           in concat (map
                        (\<lambda>dev.
                          if nvmeDevice_SmartRead dev \<and> \<not> nvmeSmartPlausible dev then []
                          else if nvmeDevice_SmartRead dev \<and> NVMeNoRealData dev then []
                          else (if nvmeDevice_SmartRead dev \<and>
                                   nvmeDevice_SmartDangerousFieldsUnread dev
                                  then [unverifiedInsight ReasonCollectorError INFO ''Drives''
                                          (nvmeDevice_Name dev @
                                           '' SMART log read, but critical_warning/media_errors/percentage_used were not all present '' @
                                           em_dash @ '' drive health not fully verified'')
                                          [inspectNVMEPrefix @ nvmeDevice_Name dev]]
                                else []) @
                               (if 0 < nvmeDevice_CriticalWarning dev
                                  then [mk_full CRIT ''Drives''
                                          (nvmeDevice_Name dev @
                                           '' critical warning flag set (0x'' @
                                           hex2 (nvmeDevice_CriticalWarning dev) @ '') '' @
                                           em_dash @ '' drive may be failing'')
                                          [inspectNVMEPrefix @ nvmeDevice_Name dev]]
                                else []) @
                               (if 0 < nvmeDevice_MediaErrors dev
                                  then [mk_full CRIT ''Drives''
                                          (nvmeDevice_Name dev @ '' has '' @
                                           itoa (nvmeDevice_MediaErrors dev) @
                                           '' media error(s) '' @ em_dash @
                                           '' data integrity risk'')
                                          [inspectNVMEPrefix @ nvmeDevice_Name dev]]
                                else []) @
                               (if 0 < nvmeDevice_SpareThresholdPct dev \<and>
                                   nvmeDevice_AvailableSparePct dev \<le>
                                   nvmeDevice_SpareThresholdPct dev
                                  then [mk_full CRIT ''Drives''
                                          (nvmeDevice_Name dev @ '' spare capacity at '' @
                                           itoa (nvmeDevice_AvailableSparePct dev) @
                                           ''% (threshold: '' @
                                           itoa (nvmeDevice_SpareThresholdPct dev) @ ''%) '' @
                                           em_dash @ '' drive near end of life'')
                                          [inspectNVMEPrefix @ nvmeDevice_Name dev]]
                                else if 0 < nvmeDevice_AvailableSparePct dev \<and>
                                        nvmeDevice_AvailableSparePct dev < 20
                                  then [mk_full WARN ''Drives''
                                          (nvmeDevice_Name dev @ '' spare capacity low at '' @
                                           itoa (nvmeDevice_AvailableSparePct dev) @ ''%'')
                                          [inspectNVMEPrefix @ nvmeDevice_Name dev]]
                                else []) @
                               (if 90 \<le> nvmeDevice_PercentageUsed dev
                                  then [mk_full WARN ''Drives''
                                          (nvmeDevice_Name dev @ '' wear at '' @
                                           itoa (nvmeDevice_PercentageUsed dev) @ ''% '' @ em_dash @
                                           '' consider replacement planning'')
                                          [inspectNVMEPrefix @ nvmeDevice_Name dev]]
                                else []) @
                               (if fle (Fin 70) (nvmeDevice_TempC dev)
                                  then [mk_full WARN ''Drives''
                                          (nvmeDevice_Name dev @ '' temperature '' @
                                           FmtG env (nvmeDevice_TempC dev) @ [CHR 0xC2, CHR 0xB0] @
                                           ''C '' @ em_dash @ '' elevated for NVMe'')
                                          [inspectNVMEPrefix @ nvmeDevice_Name dev]]
                                else []) @
                               (if 100 < nvmeDevice_UnsafeShutdowns dev
                                  then [mk_full WARN ''Drives''
                                          (nvmeDevice_Name dev @ '' has '' @
                                           itoa (nvmeDevice_UnsafeShutdowns dev) @
                                           '' unsafe shutdown(s) '' @ em_dash @
                                           '' power cuts risk filesystem corruption'')
                                          [inspectNVMEPrefix @ nvmeDevice_Name dev,
                                           ''to inspect: nvme list'',
                                           ''to fix: ensure clean shutdowns, check UPS'']]
                                else []) @
                               (if 35000 < nvmeDevice_PowerOnHours dev
                                  then [mk_full INFO ''Drives''
                                          (nvmeDevice_Name dev @ '' has '' @
                                           itoa (nvmeDevice_PowerOnHours dev) @
                                           '' power-on hours (~'' @
                                           fmt_f 1
                                             (fdiv (f_of_int (nvmeDevice_PowerOnHours dev))
                                                (Fin 8760)) @ '' years) '' @ em_dash @
                                           '' age only; wear is tracked via percentage-used/spare, not hours'')
                                          [inspectNVMEPrefix @ nvmeDevice_Name dev]]
                                else []))
                        (nvme_Devices n)) @
              (let implausible =
                     implausible @
                     concat (map
                               (\<lambda>dev.
                                 if nvmeDevice_SmartRead dev \<and> \<not> nvmeSmartPlausible dev
                                   then [nvmeDevice_Name dev]
                                 else [])
                               (nvme_Devices n));
                   noData =
                     noData @
                     concat (map
                               (\<lambda>dev.
                                 if nvmeDevice_SmartRead dev \<and> \<not> nvmeSmartPlausible dev then []
                                 else if nvmeDevice_SmartRead dev \<and> NVMeNoRealData dev
                                   then [nvmeDevice_Name dev]
                                 else [])
                               (nvme_Devices n));
                   unreadRoot = [];
                   unreadAbsent = [];
                   unreadErr = [];
                   unreadRoot =
                     unreadRoot @
                     concat (map
                               (\<lambda>dev.
                                 if nvmeDevice_SmartRead dev then []
                                 else if nvmeDevice_SmartUnreadReason dev = ''needs_root''
                                   then [nvmeDevice_Name dev]
                                 else [])
                               (nvme_Devices n));
                   unreadErr =
                     unreadErr @
                     concat (map
                               (\<lambda>dev.
                                 if nvmeDevice_SmartRead dev then []
                                 else if nvmeDevice_SmartUnreadReason dev = ''needs_root'' then []
                                 else if nvmeDevice_SmartUnreadReason dev = ''error''
                                   then [nvmeDevice_Name dev]
                                 else [])
                               (nvme_Devices n));
                   unreadAbsent =
                     unreadAbsent @
                     concat (map
                               (\<lambda>dev.
                                 if nvmeDevice_SmartRead dev then []
                                 else if nvmeDevice_SmartUnreadReason dev = ''needs_root'' then []
                                 else if nvmeDevice_SmartUnreadReason dev = ''error'' then []
                                 else [nvmeDevice_Name dev])
                               (nvme_Devices n))
               in (if unreadRoot \<noteq> []
                     then [unverifiedInsight ReasonCollectorError INFO ''Drives''
                             (itoa (int (length unreadRoot)) @
                              '' NVMe drive(s) detected but SMART health not read ('' @
                              join unreadRoot '', '' @ '') '' @ em_dash @
                              '' running unprivileged (nvme smart-log needs root)'')
                             [''to fix: re-run as root '' @ em_dash @
                              '' NVMe SMART reads require privilege (sudo dsd health)'',
                              noteNVMeUnverified]]
                   else []) @
                  (if unreadAbsent \<noteq> []
                     then [unverifiedInsight ReasonCollectorError INFO ''Drives''
                             (itoa (int (length unreadAbsent)) @
                              '' NVMe drive(s) detected but SMART health not read ('' @
                              join unreadAbsent '', '' @ '') '' @ em_dash @
                              '' nvme-cli not installed'')
                             [''to fix: install nvme-cli  (apt install nvme-cli  /  dnf install nvme-cli  /  zypper install nvme-cli)'',
                              noteNVMeUnverified]]
                   else []) @
                  (if unreadErr \<noteq> []
                     then [unverifiedInsight ReasonCollectorError INFO ''Drives''
                             (itoa (int (length unreadErr)) @
                              '' NVMe drive(s) detected but SMART health not read ('' @
                              join unreadErr '', '' @ '') '' @ em_dash @ '' nvme smart-log failed'')
                             [inspectNVMEPrefix @ hd unreadErr, noteNVMeUnverified]]
                   else []) @
                  (if implausible \<noteq> []
                     then [unverifiedInsight ReasonParse WARN ''Drives''
                             (itoa (int (length implausible)) @
                              '' NVMe drive(s) returned implausible SMART data ('' @
                              join implausible '', '' @ '') '' @ em_dash @
                              '' health unverified, values rejected'')
                             [inspectNVMEPrefix @ hd implausible,
                              ''note: out-of-range temperature/spare/counters (common on virtual NVMe, e.g. VMware) '' @
                              em_dash @ '' readings ignored to avoid a false end-of-life alarm'']]
                   else []) @
                  (if noData \<noteq> []
                     then [unverifiedInsight ReasonParse INFO ''Drives''
                             (itoa (int (length noData)) @
                              '' NVMe drive(s) expose no real SMART telemetry ('' @
                              join noData '', '' @ '') '' @ em_dash @
                              '' virtual/cloud volume (e.g. AWS EBS); temperature/wear/spare not reported, on-device health not measurable'')
                             [''note: virtual block devices don'' @ squote @
                              ''t pass through real SMART '' @ em_dash @
                              '' drive presence is known, but wear/spare/temperature are not measurable'']]
                   else []) @
                  (let sataNeedsRoot = [];
                       sataNoSmart = [];
                       sataImplausible = []
                   in concat (map
                                (\<lambda>dev.
                                  if sataDevice_Error dev \<noteq> [] \<or> \<not> sataDevice_SmartRead dev then []
                                  else if \<not> sataSmartPlausible dev then []
                                  else (if \<not> sataDevice_SmartOK dev
                                          then [mk_full CRIT ''Drives''
                                                  (sataDevice_Name dev @ '' ('' @
                                                   sataDevice_Type dev @ '') SMART check FAILED '' @
                                                   em_dash @ '' drive may be failing'')
                                                  [inspectSmartCtlPrefix @ sataDevice_Name dev]]
                                        else []) @
                                       (if 0 < sataDevice_ReallocatedSectors dev
                                          then [mk_full WARN ''Drives''
                                                  (sataDevice_Name dev @ '' has '' @
                                                   itoa (sataDevice_ReallocatedSectors dev) @
                                                   '' reallocated sector(s) '' @ em_dash @
                                                   '' early sign of drive failure'')
                                                  [inspectSmartCtlPrefix @ sataDevice_Name dev]]
                                        else []) @
                                       (if 0 < sataDevice_PendingSectors dev
                                          then [mk_full WARN ''Drives''
                                                  (sataDevice_Name dev @ '' has '' @
                                                   itoa (sataDevice_PendingSectors dev) @
                                                   '' pending sector(s) '' @ em_dash @
                                                   '' unreadable sectors awaiting reallocation'')
                                                  [inspectSmartCtlPrefix @ sataDevice_Name dev]]
                                        else []) @
                                       (if 0 < sataDevice_UncorrectableErrors dev
                                          then [mk_full CRIT ''Drives''
                                                  (sataDevice_Name dev @ '' has '' @
                                                   itoa (sataDevice_UncorrectableErrors dev) @
                                                   '' uncorrectable error(s) '' @ em_dash @
                                                   '' data loss risk'')
                                                  [inspectSmartCtlPrefix @ sataDevice_Name dev]]
                                        else []) @
                                       (if 55 \<le> sataDevice_TempC dev
                                          then [mk_full WARN ''Drives''
                                                  (sataDevice_Name dev @ '' ('' @
                                                   sataDevice_Type dev @ '') temperature '' @
                                                   itoa (sataDevice_TempC dev) @
                                                   [CHR 0xC2, CHR 0xB0] @ ''C '' @ em_dash @
                                                   '' elevated for SATA drive'')
                                                  [inspectSmartCtlPrefix @ sataDevice_Name dev]]
                                        else []) @
                                       (if 43800 < sataDevice_PowerOnHours dev
                                          then [mk_full INFO ''Drives''
                                                  (sataDevice_Name dev @ '' ('' @
                                                   sataDevice_Type dev @ '') has '' @
                                                   itoa (sataDevice_PowerOnHours dev) @
                                                   '' power-on hours (~'' @
                                                   fmt_f 1
                                                     (fdiv (f_of_int (sataDevice_PowerOnHours dev))
                                                        (Fin 8760)) @ '' years) '' @ em_dash @
                                                   '' age only; not a failure signal on its own (check reallocated/pending sectors)'')
                                                  [inspectSmartCtlPrefix @ sataDevice_Name dev]]
                                        else []))
                                (nvme_SATADevices n)) @
                      (let sataNeedsRoot =
                             sataNeedsRoot @
                             concat (map
                                       (\<lambda>dev.
                                         if sataDevice_Error dev \<noteq> [] \<or> \<not> sataDevice_SmartRead dev
                                           then (if sataDevice_SmartUnreadReason dev =
                                                    ''needs_root''
                                                   then [sataDevice_Name dev]
                                                 else [])
                                         else [])
                                       (nvme_SATADevices n));
                           sataNoSmart =
                             sataNoSmart @
                             concat (map
                                       (\<lambda>dev.
                                         if sataDevice_Error dev \<noteq> [] \<or> \<not> sataDevice_SmartRead dev
                                           then (if sataDevice_SmartUnreadReason dev =
                                                    ''needs_root''
                                                   then []
                                                 else [sataDevice_Name dev])
                                         else [])
                                       (nvme_SATADevices n));
                           sataImplausible =
                             sataImplausible @
                             concat (map
                                       (\<lambda>dev.
                                         if sataDevice_Error dev \<noteq> [] \<or> \<not> sataDevice_SmartRead dev
                                           then []
                                         else if \<not> sataSmartPlausible dev then [sataDevice_Name dev]
                                         else [])
                                       (nvme_SATADevices n))
                       in (if sataImplausible \<noteq> []
                             then [unverifiedInsight ReasonParse WARN ''Drives''
                                     (itoa (int (length sataImplausible)) @
                                      '' SATA/SAS drive(s) returned implausible SMART data ('' @
                                      join sataImplausible '', '' @ '') '' @ em_dash @
                                      '' health unverified, values rejected'')
                                     [inspectSmartCtlPrefix @ hd sataImplausible,
                                      ''note: out-of-range temperature/sector-counts (vendor-encoded raw attributes, or virtual/USB-bridged SATA) '' @
                                      em_dash @
                                      '' readings ignored to avoid a false drive-failure alarm'']]
                           else []) @
                          (if sataNeedsRoot \<noteq> []
                             then [unverifiedInsight ReasonCollectorError INFO ''Drives''
                                     (itoa (int (length sataNeedsRoot)) @
                                      '' SATA/SAS drive(s) detected but SMART health not read ('' @
                                      join sataNeedsRoot '', '' @ '') '' @ em_dash @
                                      '' running unprivileged (smartctl needs root)'')
                                     [''to fix: re-run as root '' @ em_dash @
                                      '' SMART reads require privilege (sudo dsd health)'',
                                      ''to inspect: smartctl -a <device>  (try -d sat / -d cciss,N for controllers)'',
                                      ''note: drive presence is known; SMART health, wear, and errors are unverified'']]
                           else []) @
                          (if sataNoSmart \<noteq> []
                             then [unverifiedInsight ReasonCollectorError INFO ''Drives''
                                     (itoa (int (length sataNoSmart)) @
                                      '' SATA/SAS drive(s) detected but no SMART data exposed ('' @
                                      join sataNoSmart '', '' @ '') '' @ em_dash @
                                      '' a virtual disk, or a drive behind a RAID/HBA controller or USB bridge that doesn'' @
                                      squote @ ''t pass SMART through'')
                                     [inspectSmartCtlPrefix @ hd sataNoSmart @
                                      ''  (try -d sat / -d cciss,N for controllers)'',
                                      ''note: drive presence is known; SMART health, wear, and errors are unverified '' @
                                      em_dash @ '' virtual disks expose none'']]
                           else [])))))"

definition zfsVdevErrorLevel :: "zfs_pool \<Rightarrow> gostring" where
  "zfsVdevErrorLevel p =
     (if wrap64 (wrap64 (zfsPool_ReadErrors p + zfsPool_WriteErrors p) + zfsPool_CksumErrors p) = 0
        then []
      else if zfsPool_State p \<noteq> [] \<and> zfsPool_State p \<noteq> ''ONLINE'' \<or> 0 < zfsPool_ScrubErrors p
        then CRIT
      else WARN)"

definition zfsVdevErrorInsight :: "zfs_pool \<Rightarrow> gostring \<Rightarrow> insight option" where
  "zfsVdevErrorInsight p check =
     (let lvl = zfsVdevErrorLevel p
      in if lvl = [] then None
         else let counts =
                    ''R:'' @ itoa (zfsPool_ReadErrors p) @ '' W:'' @ itoa (zfsPool_WriteErrors p) @
                    '' C:'' @ itoa (zfsPool_CksumErrors p)
              in if lvl = WARN
                   then Some (mk_full WARN check
                                (''ZFS pool '' @ zfsPool_Name p @ '' recorded vdev errors ('' @
                                 counts @ '') since last clear '' @ em_dash @
                                 '' repaired (pool ONLINE, last scrub clean); investigate if recurring'')
                                [''to inspect: zpool status -v '' @ zfsPool_Name p,
                                 ''note: counters persist until cleared '' @ em_dash @
                                 '' recurring checksum errors can mean bad disk/RAM/cable'',
                                 ''to clear after confirming healthy: zpool clear '' @
                                 zfsPool_Name p])
                 else let reason = ''pool is '' @ zfsPool_State p;
                          reason =
                            (if 0 < zfsPool_ScrubErrors p
                               then ''last scrub left '' @ itoa (zfsPool_ScrubErrors p) @
                                    '' unrepairable error(s)''
                             else reason)
                      in Some (mk_full CRIT check
                                 (''ZFS pool '' @ zfsPool_Name p @ '' has vdev errors ('' @ counts @
                                  '') '' @ em_dash @ '' '' @ reason)
                                 [''to inspect: zpool status -v '' @ zfsPool_Name p,
                                  ''note: checksum errors indicate data corruption or bad hardware'',
                                  ''to clear after fixing root cause: zpool clear '' @
                                  zfsPool_Name p]))"

definition checkZFSPool :: "environment \<Rightarrow> zfs_pool \<Rightarrow> insight list" where
  "checkZFSPool env pool =
     (let safeName = zfsPool_Name pool;
          safeName = (if \<not> looksLikeSafeToken safeName then ''<pool-name>'' else safeName)
      in (if zfsPool_State pool = ''DEGRADED''
            then (let msg = ''ZFS pool '' @ zfsPool_Name pool @ '' is DEGRADED'';
                      msg =
                        (if zfsPool_StatusMsg pool \<noteq> []
                           then msg @ '' '' @ em_dash @ '' '' @ zfsPool_StatusMsg pool
                         else msg)
                  in [mk_full CRIT ''ZFS'' msg
                        [''to inspect: zpool status '' @ safeName,
                         ''to inspect: zpool events '' @ safeName,
                         ''note: replace failed vdev and run: zpool replace <pool> <old> <new>'',
                         ''note: data is at risk '' @ em_dash @ '' restore redundancy immediately'']])
          else if zfsPool_State pool = ''FAULTED''
            then [mk_full CRIT ''ZFS''
                    (''ZFS pool '' @ zfsPool_Name pool @ '' is FAULTED '' @ em_dash @
                     '' pool may be unrecoverable'')
                    [''to inspect: zpool status -v '' @ safeName,
                     ''note: FAULTED means pool was taken offline due to unrecoverable error'',
                     ''note: import with: zpool import -F <pool>  (force recovery, may lose data)'']]
          else if zfsPool_State pool = ''SUSPENDED''
            then [mk_full CRIT ''ZFS''
                    (''ZFS pool '' @ zfsPool_Name pool @ '' is SUSPENDED '' @ em_dash @
                     '' I/O is halted (too many devices lost); all access to the pool blocks'')
                    [''to inspect: zpool status -v '' @ safeName,
                     ''to inspect: zpool events '' @ safeName,
                     ''note: restore the missing devices, then: zpool clear '' @ safeName]]
          else if (zfsPool_State pool = ''REMOVED'' \<or> zfsPool_State pool = ''UNAVAIL'') \<or>
                  zfsPool_State pool = ''OFFLINE''
            then [mk_full CRIT ''ZFS''
                    (''ZFS pool '' @ zfsPool_Name pool @ '' state: '' @ zfsPool_State pool)
                    [''to inspect: zpool status -v '' @ safeName,
                     ''to inspect: zpool events '' @ safeName]]
          else if zfsPool_State pool = ''ONLINE'' then []
          else [unverifiedInsight ReasonParse INFO ''ZFS''
                  (''ZFS pool '' @ zfsPool_Name pool @ '' state '' @
                   Quote env (zfsPool_State pool) @ '' is not a recognized value '' @ em_dash @
                   '' health could not be confirmed'')
                  [''to inspect: zpool status -v '' @ safeName]]) @
         (let l = levelPct (zfsPool_UsedPct pool) (Fin 80) (Fin 90)
          in if l \<noteq> []
               then [mk_full l ''ZFS''
                       (''ZFS pool '' @ zfsPool_Name pool @ '' is '' @
                        fmt_f 0 (zfsPool_UsedPct pool) @ ''% full ('' @
                        fmt_f 1 (zfsPool_FreeGB pool) @ '' GB free of '' @
                        fmt_f 1 (zfsPool_SizeGB pool) @ '' GB)'')
                       [''to inspect: zfs list -r '' @ safeName,
                        ''note: ZFS performance degrades significantly above 80% capacity'',
                        ''note: above 90%, writes may fail '' @ em_dash @
                        '' free space or expand pool'',
                        ''to free space: zfs destroy <snapshot>  (remove old snapshots)'']]
             else []) @
         (if 70 \<le> zfsPool_FragPct pool
            then [mk_full WARN ''ZFS''
                    (''ZFS pool '' @ zfsPool_Name pool @ '' fragmentation at '' @
                     itoa (zfsPool_FragPct pool) @ ''% '' @ em_dash @
                     '' read/write amplification likely'')
                    [''to inspect: zpool list '' @ safeName,
                     ''note: fragmentation above 70% causes significant performance degradation'']]
          else if 50 \<le> zfsPool_FragPct pool
            then [mk_full INFO ''ZFS''
                    (''ZFS pool '' @ zfsPool_Name pool @ '' fragmentation at '' @
                     itoa (zfsPool_FragPct pool) @ ''%'') [''to inspect: zpool list '' @ safeName]]
          else []) @
         (case zfsVdevErrorInsight pool ''ZFS'' of Some ins \<Rightarrow> [ins] | None \<Rightarrow> []) @
         (if 0 < zfsPool_ScrubErrors pool
            then [mk_full CRIT ''ZFS''
                    (''ZFS pool '' @ zfsPool_Name pool @ '': last scrub found '' @
                     itoa (zfsPool_ScrubErrors pool) @ '' unrepairable error(s) '' @ em_dash @
                     '' permanent data corruption'')
                    [''to inspect: zpool status -v '' @ safeName,
                     ''note: '' @ squote @ ''zpool status -v'' @ squote @
                     '' lists the affected files '' @ em_dash @ '' restore them from backup'']]
          else []) @
         (if zfsPool_StatusReadFailed pool
            then (if zfsPool_State pool = [] \<or> zfsPool_State pool = ''ONLINE''
                    then [unverifiedInsight ReasonUnreadable INFO ''ZFS''
                            (''ZFS pool '' @ zfsPool_Name pool @
                             '' is ONLINE, but `zpool status` could not be read '' @ em_dash @
                             '' per-vdev error counts and scrub status are unverified'')
                            [''to inspect: zpool status '' @ safeName @
                             ''  (it can hang on a sick pool '' @ em_dash @ '' check dmesg)'']]
                  else [])
          else if zfsPool_ScrubAgeDays pool < 0
            then [mk_full WARN ''ZFS''
                    (''ZFS pool '' @ zfsPool_Name pool @ '' has never been scrubbed '' @ em_dash @
                     '' silent corruption risk'')
                    [''to run scrub: zpool scrub '' @ safeName,
                     ''note: monthly scrubs are recommended for all ZFS pools'',
                     ''to automate: systemctl enable zfs-scrub.timer  (if available)'']]
          else if 30 < zfsPool_ScrubAgeDays pool
            then [mk_full INFO ''ZFS''
                    (''ZFS pool '' @ zfsPool_Name pool @ '' last scrubbed '' @
                     itoa (zfsPool_ScrubAgeDays pool) @ '' days ago (recommended: monthly)'')
                    [''to run scrub: zpool scrub '' @ safeName]]
          else []))"

definition checkLVMThinPools :: "lvm_thin_pool list \<Rightarrow> insight list" where
  "checkLVMThinPools pools =
     concat (map
               (\<lambda>pool.
                 let safeVG = lvmThinPool_VG pool;
                     safePool = lvmThinPool_Name pool;
                     safeVG = (if \<not> looksLikeSafeToken safeVG then ''<vg>'' else safeVG);
                     safePool = (if \<not> looksLikeSafeToken safePool then ''<pool>'' else safePool)
                 in (let lv = LVMThinPoolLevel (lvmThinPool_DataPct pool)
                     in if lv \<noteq> []
                          then [mk_full lv ''LVM''
                                  (''thin pool '' @ lvmThinPool_VG pool @ ''/'' @
                                   lvmThinPool_Name pool @ '' data at '' @
                                   fmt_f 0 (lvmThinPool_DataPct pool) @ ''% ('' @
                                   fmt_f 1 (lvmThinPool_SizeGB pool) @ '' GB total)'')
                                  [''to inspect: lvs '' @ safeVG @ ''/'' @ safePool,
                                   ''to extend:  lvextend -l +50%FREE '' @ safeVG @ ''/'' @ safePool,
                                   ''note: thin pool exhaustion silently freezes all VMs writing to it'',
                                   ''note: set lvm.conf thin_pool_autoextend_threshold=80 to auto-extend'']]
                        else []) @
                    (let lv = levelPct (lvmThinPool_MetaPct pool) (Fin 50) (Fin 75)
                     in if lv \<noteq> []
                          then [mk_full lv ''LVM''
                                  (''thin pool '' @ lvmThinPool_VG pool @ ''/'' @
                                   lvmThinPool_Name pool @ '' metadata at '' @
                                   fmt_f 0 (lvmThinPool_MetaPct pool) @ ''% '' @ em_dash @
                                   '' metadata exhaustion is unrecoverable without deactivation'')
                                  [''to inspect: lvs '' @ safeVG @ ''/'' @ safePool,
                                   ''to extend:  lvextend --poolmetadatasize +1G '' @ safeVG @
                                   ''/'' @ safePool,
                                   ''note: metadata exhaustion is worse than data exhaustion '' @
                                   em_dash @ '' act immediately'']]
                        else []))
               pools)"

definition checkLVMRaid :: "lvm_info \<Rightarrow> insight list" where
  "checkLVMRaid l =
     concat (map
               (\<lambda>r.
                 let safeRVG = lvmRaidLV_VG r;
                     safeRName = lvmRaidLV_Name r;
                     safeRVG = (if \<not> looksLikeSafeToken safeRVG then ''<vg>'' else safeRVG);
                     safeRName = (if \<not> looksLikeSafeToken safeRName then ''<lv>'' else safeRName)
                 in if lvmRaidLV_Degraded r
                      then [mk_full CRIT ''LVM''
                              (lvmRaidLV_Type r @ '' LV '' @ lvmRaidLV_VG r @ ''/'' @
                               lvmRaidLV_Name r @ '' is DEGRADED '' @ em_dash @
                               '' one or more PVs failed'')
                              [''to inspect: lvs -a -o name,vg_name,lv_attr,devices '' @ safeRVG @
                               ''/'' @ safeRName, ''to inspect: pvs  (identify failed PV)'',
                               ''to recover: lvconvert --repair '' @ safeRVG @ ''/'' @ safeRName]]
                    else if lvmRaidLV_Resyncing r
                      then [mk_full INFO ''LVM''
                              (lvmRaidLV_Type r @ '' LV '' @ lvmRaidLV_VG r @ ''/'' @
                               lvmRaidLV_Name r @ '' is resyncing ('' @
                               fmt_f 1 (lvmRaidLV_SyncPct r) @ ''% complete) '' @ em_dash @
                               '' degraded protection until complete'')
                              [''to watch:  lvs -a '' @ safeRVG @ ''/'' @ safeRName @
                               ''  (monitor sync%)'',
                               ''note: do not remove any PV while resync is in progress'']]
                    else [])
               (lvm_RaidLVs l)) @
     (if lvm_VGs l \<noteq> [] \<and> lvm_RaidReadFailed l
        then [unverifiedInsight ReasonUnreadable INFO ''LVM''
                (''LVM RAID/mirror LV health could not be read '' @ em_dash @
                 '' a degraded RAID LV cannot be ruled out'')
                [''to inspect: lvs -o lv_name,vg_name,lv_attr,copy_percent'']]
      else []) @
     (if lvm_PVReadFailed l
        then [unverifiedInsight ReasonUnreadable INFO ''LVM''
                (''LVM physical-volume state could NOT be verified '' @ em_dash @
                 '' `pvs` failed; a missing/failed PV cannot be ruled out'')
                [''to inspect: pvs -o vg_name,pv_name,pv_attr'',
                 ''note: run as root if permission denied'']]
      else []) @
     (if lvm_VGReadFailed l
        then [unverifiedInsight ReasonUnreadable INFO ''LVM''
                (''LVM volume-group state could NOT be verified '' @ em_dash @
                 '' `vgs` failed; VG free space not checked'')
                [''to inspect: vgs -o vg_name,vg_size,vg_free,vg_attr'']]
      else []) @
     (if lvm_LVReadFailed l
        then (let lvReadLevel = INFO;
                  lvReadLevel = (if lvm_VGs l \<noteq> [] then WARN else lvReadLevel)
              in [unverifiedInsight ReasonCollectorError lvReadLevel ''LVM''
                    (''LVM logical-volume state could NOT be verified '' @ em_dash @
                     '' `lvs` failed; thin-pool/snapshot usage not checked'')
                    [''to inspect: lvs -o lv_name,vg_name,lv_attr,data_percent,metadata_percent'',
                     ''note: run as root if permission denied'',
                     ''note: a full thin pool can also cause lvs itself to error '' @ em_dash @
                     '' check pool health immediately'']])
      else [])"

definition checkDRBDResource :: "environment \<Rightarrow> drbd_resource \<Rightarrow> insight list" where
  "checkDRBDResource env res =
     (let name = ''drbd'' @ itoa (drbdResource_Minor res)
      in (if drbdResource_ConnState res = ''SplitBrain''
            then [mk_full CRIT ''DRBD''
                    (name @ '': SPLIT-BRAIN detected '' @ em_dash @
                     '' both nodes have diverged, manual resolution required'')
                    [''note: split-brain means both nodes accepted conflicting writes'',
                     ''to resolve (discard secondary): drbdadm secondary <resource>'',
                     ''to resolve (discard secondary): drbdadm disconnect <resource>'',
                     ''to resolve (discard secondary): drbdadm -- --discard-my-data connect <resource>'',
                     ''to resolve (on primary):         drbdadm connect <resource>'',
                     ''warning: always decide which node has authoritative data first'']]
          else if drbdResource_ConnState res = ''StandAlone''
            then [mk_full CRIT ''DRBD''
                    (name @ '': STANDALONE '' @ em_dash @
                     '' not connected to peer, no replication active'')
                    [''to inspect: cat /proc/drbd'', ''to reconnect: drbdadm connect '' @ name,
                     ''note: data is not being replicated '' @ em_dash @
                     '' single point of failure'']]
          else if drbdResource_ConnState res = ''WFConnection'' \<or>
                  drbdResource_ConnState res = ''Connecting''
            then [mk_full WARN ''DRBD''
                    (name @ '': waiting for peer connection ('' @ drbdResource_ConnState res @
                     '') '' @ em_dash @ '' peer may be down'')
                    [''to inspect: drbdadm status '' @ name, ''to inspect: ping <peer-ip>'',
                     ''to inspect: dmesg | grep -i drbd'']]
          else if drbdResource_ConnState res = ''Disconnecting''
            then [mk_full WARN ''DRBD'' (name @ '': disconnecting from peer'')
                    [''to inspect: drbdadm status '' @ name]]
          else if drbdResource_ConnState res = ''SyncSource'' \<or>
                  drbdResource_ConnState res = ''SyncTarget''
            then (let msg =
                        name @ '': syncing ('' @ fmt_f 1 (drbdResource_SyncPct res) @ ''% complete'';
                      msg =
                        (if 0 < drbdResource_SyncKBLeft res
                           then msg @ '', '' @ itoa (go_div (drbdResource_SyncKBLeft res) 1024) @
                                '' MB remaining''
                         else msg);
                      msg = msg @ '')''
                  in [mk_full INFO ''DRBD'' msg
                        [''to monitor: watch -n2 cat /proc/drbd'',
                         ''note: do not restart the cluster until sync completes'']])
          else if ((((drbdResource_ConnState res = ''Unconnected'' \<or>
                      drbdResource_ConnState res = ''Timeout'') \<or>
                     drbdResource_ConnState res = ''BrokenPipe'') \<or>
                    drbdResource_ConnState res = ''NetworkFailure'') \<or>
                   drbdResource_ConnState res = ''ProtocolError'') \<or>
                  drbdResource_ConnState res = ''TearDown''
            then [mk_full WARN ''DRBD''
                    (name @ '': connection state '' @ drbdResource_ConnState res @ '' '' @ em_dash @
                     '' peer link down/failing, replication not active'')
                    [''to inspect: drbdadm status '' @ name,
                     ''to inspect: ping <peer-ip>; check the replication network'',
                     ''note: the resource is running without redundancy until the link recovers'']]
          else if ((((drbdResource_ConnState res = ''Connected'' \<or>
                      drbdResource_ConnState res = ''VerifyS'') \<or>
                     drbdResource_ConnState res = ''VerifyT'') \<or>
                    drbdResource_ConnState res = ''Ahead'') \<or>
                   drbdResource_ConnState res = ''Behind'') \<or>
                  drbdResource_ConnState res = ''PausedSync''
            then []
          else [unverifiedInsight ReasonParse INFO ''DRBD''
                  (name @ '': connection state '' @ Quote env (drbdResource_ConnState res) @
                   '' is not a recognized value '' @ em_dash @
                   '' replication health could not be confirmed'')
                  [''to inspect: drbdadm status '' @ name]]) @
         (if drbdResource_LocalDisk res = ''Failed''
            then [mk_full CRIT ''DRBD''
                    (name @ '': local disk state FAILED '' @ em_dash @
                     '' underlying device has errors'')
                    [''to inspect: drbdadm status '' @ name,
                     ''to inspect: dmesg | grep -E '' @ squote @ ''drbd|sda|sdb|nvme'' @ squote,
                     ''to inspect: smartctl -a /dev/<underlying-device>'']]
          else if drbdResource_LocalDisk res = ''Detached''
            then [mk_full CRIT ''DRBD''
                    (name @ '': local disk DETACHED '' @ em_dash @
                     '' DRBD is not connected to underlying block device'')
                    [''to reattach: drbdadm attach '' @ name,
                     ''to inspect:  drbdadm status '' @ name]]
          else if drbdResource_LocalDisk res = ''Inconsistent''
            then (if drbdResource_ConnState res \<noteq> ''SyncSource'' \<and>
                     drbdResource_ConnState res \<noteq> ''SyncTarget''
                    then [mk_full CRIT ''DRBD''
                            (name @ '': local disk INCONSISTENT and not syncing'')
                            [''to inspect: drbdadm status '' @ name,
                             ''to force sync: drbdadm -- --overwrite-data-of-peer primary '' @ name,
                             ''warning: only use --overwrite-data-of-peer if you are certain this node has correct data'']]
                  else [])
          else if drbdResource_LocalDisk res = ''Outdated''
            then [mk_full WARN ''DRBD''
                    (name @ '': local disk OUTDATED '' @ em_dash @ '' peer has newer data'')
                    [''to inspect: drbdadm status '' @ name,
                     ''note: disk will sync automatically when peer connection is restored'']]
          else if drbdResource_LocalDisk res = ''Diskless'' \<or>
                  drbdResource_LocalDisk res = ''DUnknown''
            then [mk_full WARN ''DRBD''
                    (name @ '': local disk state '' @ drbdResource_LocalDisk res @ '' '' @ em_dash @
                     '' no usable local backing device, serving over the network only'')
                    [''to inspect: drbdadm status '' @ name,
                     ''to inspect: dmesg | grep -i drbd   (check whether the backing device failed)'',
                     ''to reattach (if intended): drbdadm attach '' @ name]]
          else if ((drbdResource_LocalDisk res = ''UpToDate'' \<or>
                    drbdResource_LocalDisk res = ''Consistent'') \<or>
                   drbdResource_LocalDisk res = ''Attaching'') \<or>
                  drbdResource_LocalDisk res = ''Negotiating''
            then []
          else [unverifiedInsight ReasonParse INFO ''DRBD''
                  (name @ '': local disk state '' @ Quote env (drbdResource_LocalDisk res) @
                   '' is not a recognized value '' @ em_dash @
                   '' disk health could not be confirmed'')
                  [''to inspect: drbdadm status '' @ name]]))"

definition checkRAID :: "environment \<Rightarrow> raid_info \<Rightarrow> insight list" where
  "checkRAID env r =
     (if raid_ReadFailed r
        then [unverifiedInsight ReasonUnreadable INFO ''RAID''
                (''RAID array state could not be verified '' @ em_dash @
                 '' /proc/mdstat could not be read'') [inspectMdstat]]
      else []) @
     concat (map
               (\<lambda>arr.
                 let safeArrName = ''<array-name>'';
                     safeArrName =
                       (if looksLikeSafeToken (raidDevice_Name arr) then raidDevice_Name arr
                        else safeArrName)
                 in if raidDevice_State arr = ''degraded''
                      then (let detail =
                                  (if raidDevice_Failed arr \<noteq> []
                                     then '', failed: '' @ join (raidDevice_Failed arr) '', ''
                                   else '' '' @ em_dash @
                                        '' redundancy lost (a drive dropped out of the array)'')
                            in [mk_full CRIT ''RAID''
                                  (raidDevice_Name arr @ '' ('' @ raidDevice_Level arr @
                                   '') is DEGRADED '' @ em_dash @ '' '' @
                                   itoa (raidDevice_Active arr) @ ''/'' @
                                   itoa (raidDevice_Total arr) @ '' drives active'' @ detail)
                                  [inspectMdstat,
                                   ''to inspect: mdadm --detail /dev/'' @ safeArrName,
                                   ''note: replace the failed drive and run: mdadm --add /dev/<array> /dev/<new-drive>'',
                                   ''note: data is at risk until redundancy is restored'']])
                    else if raidDevice_State arr = ''recovering''
                      then [mk_full WARN ''RAID''
                              (raidDevice_Name arr @ '' ('' @ raidDevice_Level arr @
                               '') is REBUILDING '' @ em_dash @ '' '' @
                               fmt_f 1 (raidDevice_RebuildPct arr) @ ''% complete'')
                              [inspectMdstat,
                               ''note: array is degraded during rebuild '' @ em_dash @
                               '' avoid further drive failures'',
                               ''note: rebuild progress updates every ~30s in /proc/mdstat'']]
                    else if raidDevice_State arr = ''failed''
                      then [mk_full CRIT ''RAID''
                              (raidDevice_Name arr @ '' is FAILED '' @ em_dash @
                               '' array is not operational'')
                              [''to inspect: mdadm --detail /dev/'' @ safeArrName,
                               ''to inspect: dmesg | grep -i mdadm'',
                               ''note: data may be lost '' @ em_dash @
                               '' check individual drive health with smartctl'']]
                    else if raidDevice_State arr = ''active'' then []
                    else [unverifiedInsight ReasonParse INFO ''RAID''
                            (raidDevice_Name arr @ '' state '' @ Quote env (raidDevice_State arr) @
                             '' is not a recognized value '' @ em_dash @
                             '' array health could not be confirmed'')
                            [''to inspect: mdadm --detail /dev/'' @ safeArrName]])
               (raid_Arrays r))"

definition checkBtrfsVolume :: "btrfs_volume \<Rightarrow> insight list" where
  "checkBtrfsVolume v =
     (let safeMount = btrfsVolume_MountPoint v;
          safeMount = (if \<not> looksLikeSafeToken safeMount then mountPlaceholder else safeMount)
      in if \<not> btrfsVolume_ShowRead v
           then [unverifiedInsight ReasonCollectorError INFO ''Disk''
                   (''btrfs '' @ btrfsVolume_MountPoint v @ '' could not be checked '' @ em_dash @
                    '' `btrfs filesystem show` failed (btrfs-progs missing, timeout, or permission denied)'')
                   [''to inspect: btrfs filesystem show '' @ safeMount,
                    ''note: install btrfs-progs, or re-run as root, then retry'']]
         else if 0 < btrfsVolume_MissingDevs v
           then [mk_full CRIT ''Disk''
                   (''btrfs '' @ btrfsVolume_MountPoint v @ '' is DEGRADED '' @ em_dash @ '' '' @
                    itoa (btrfsVolume_MissingDevs v) @ '' missing device(s), data at risk'')
                   [''to inspect: btrfs filesystem show '' @ safeMount,
                    ''to inspect: btrfs device stats '' @ safeMount,
                    ''to fix:     reattach missing device and run: btrfs device scan'']]
         else if btrfsVolume_DevReadUnverified v
           then [unverifiedInsight ReasonUnreadable INFO ''Disk''
                   (''btrfs '' @ btrfsVolume_MountPoint v @
                    '' device state could not be verified '' @ em_dash @
                    '' run as root (devices show unreadable without privilege)'')
                   [''to inspect: sudo btrfs filesystem show '' @ safeMount,
                    ''to inspect: sudo btrfs device stats '' @ safeMount,
                    ''note: an unprivileged `btrfs filesystem show` reports present devices as MISSING '' @
                    em_dash @ '' not an actual fault'']]
         else if \<not> btrfsVolume_StatsRead v
           then [unverifiedInsight ReasonCollectorError INFO ''Disk''
                   (''btrfs '' @ btrfsVolume_MountPoint v @ '' device error counters not read '' @
                    em_dash @ '' run as root: btrfs device stats '' @ btrfsVolume_MountPoint v)
                   [''to inspect: btrfs device stats '' @ safeMount]]
         else if btrfsVolume_Status v \<noteq> ''errors'' then []
         else let ioErrs = 0;
                  corruptErrs = 0;
                  ioErrs =
                    wrap64
                      (ioErrs +
                       sum_list (map
                         (\<lambda>d. wrap64 (btrfsDev_ReadErrs d + btrfsDev_WriteErrs d))
                         (btrfsVolume_Devices v)));
                  corruptErrs =
                    wrap64
                      (corruptErrs +
                       sum_list (map (\<lambda>d. btrfsDev_CorruptErrs d) (btrfsVolume_Devices v)))
              in if 0 < ioErrs
                   then [mk_full CRIT ''Disk''
                           (''btrfs '' @ btrfsVolume_MountPoint v @ '' has '' @ itoa ioErrs @
                            '' device I/O error(s) '' @ em_dash @ '' failing storage or cabling'')
                           [''to inspect: btrfs device stats '' @ safeMount,
                            ''to inspect: dmesg | grep -i '' @ squote @ ''btrfs'' @ bslash @
                            ''|i/o error'' @ squote,
                            ''note: back up data now '' @ em_dash @
                            '' I/O errors are not scrub-correctable'']]
                 else [mk_full WARN ''Disk''
                         (''btrfs '' @ btrfsVolume_MountPoint v @ '' has '' @ itoa corruptErrs @
                          '' checksum/corruption error(s) '' @ em_dash @
                          '' may be scrub-correctable'')
                         [''to inspect: btrfs device stats '' @ safeMount,
                          ''to fix:     btrfs scrub start '' @ safeMount @
                          ''  (check for correctable errors)'']])"

definition checkDiskExtras :: "disk_info \<Rightarrow> insight list" where
  "checkDiskExtras disk =
     (if disk_SteamOS disk \<noteq> None then checkSteamOSDisk (disk_SteamOS disk) else []) @
     (if disk_DrivesListUnreadable disk
        then [unverifiedInsight ReasonUnreadable INFO ''Disk''
                (''could not enumerate physical drives '' @ em_dash @
                 '' diskutil list failed or returned no output'') [''to inspect: diskutil list'']]
      else []) @
     concat (map
               (\<lambda>m.
                 let safeMount = unreachableMount_Mount m;
                     safeMount =
                       (if \<not> looksLikeSafeToken safeMount then mountPlaceholder else safeMount);
                     hints = [''to inspect: findmnt '' @ safeMount]
                 in [unverifiedInsight ReasonCollectorError WARN ''Disk''
                       (''mount '' @ unreachableMount_Mount m @ '' ('' @ unreachableMount_FSType m @
                        '') is unreachable '' @ em_dash @
                        '' statfs failed or hung (stale mount?); its usage is NOT verified'') hints])
               (disk_UnreachableMounts disk)) @
     concat (map
               (\<lambda>d.
                 if physicalDrive_SMART d = None \<or> smart_Error (the (physicalDrive_SMART d)) \<noteq> []
                   then []
                 else if \<not> smart_Healthy (the (physicalDrive_SMART d))
                   then [mk_full CRIT ''Disk''
                           (physicalDrive_Name d @ '' SMART health FAILED '' @ em_dash @
                            '' drive may be failing, back up immediately'')
                           [''to inspect: smartctl -a /dev/'' @ physicalDrive_Name d,
                            ''to inspect: dmesg | grep -i '' @ squote @ ''error'' @ bslash @
                            ''|failed'' @ bslash @ ''|reset'' @ squote]]
                 else if 90 \<le> smart_PercentUsed (the (physicalDrive_SMART d))
                   then [mk_full WARN ''Disk''
                           (physicalDrive_Name d @ '' NVMe wear at '' @
                            itoa (smart_PercentUsed (the (physicalDrive_SMART d))) @ ''% '' @
                            em_dash @ '' drive approaching end of life'')
                           [''to inspect: smartctl -A /dev/'' @ physicalDrive_Name d]]
                 else if 0 < smart_MediaErrors (the (physicalDrive_SMART d))
                   then [mk_full WARN ''Disk''
                           (physicalDrive_Name d @ '' has '' @
                            itoa (smart_MediaErrors (the (physicalDrive_SMART d))) @
                            '' media error(s) '' @ em_dash @ '' monitor closely'')
                           [''to inspect: smartctl -a /dev/'' @ physicalDrive_Name d]]
                 else [])
               (disk_Drives disk)) @
     concat (map (\<lambda>v. checkBtrfsVolume v) (disk_BtrfsVolumes disk)) @
     (if disk_ZFSListReadFailed disk
        then [unverifiedInsight ReasonUnreadable INFO ''Disk''
                (''ZFS mount present but pools could NOT be verified '' @ em_dash @
                 '' `zpool list` failed (run as root?)'')
                [''to inspect: zpool list'', ''to inspect: zpool status'']]
      else [])"

definition checkHBA :: "hba_info \<Rightarrow> insight list" where
  "checkHBA hba =
     (if hba_Ports hba = [] then []
      else concat (map
                     (\<lambda>p.
                       let state = to_lower (hbaPort_PortState p)
                       in (if state = []
                             then [unverifiedInsight ReasonUnreadable WARN ''HBA''
                                     (''FC port '' @ hbaPort_Name p @
                                      '' state could not be read '' @ em_dash @
                                      '' storage path health unknown'')
                                     [inspectFCHostPrefix @ hbaPort_Name p @ ''/port_state'',
                                      ''to inspect: systool -c fc_host -v'']]
                           else if state \<noteq> ''online'' \<and> state \<noteq> ''linkup''
                             then [mk_full CRIT ''HBA''
                                     (''FC port '' @ hbaPort_Name p @ '' is '' @
                                      hbaPort_PortState p @ '' '' @ em_dash @
                                      '' storage path lost'')
                                     [inspectFCHostPrefix @ hbaPort_Name p @ ''/port_state'',
                                      ''to inspect: systool -c fc_host -v'',
                                      ''note: check SFP cable, switch zoning, and target port'']]
                           else []) @
                          (if 10 < hbaPort_LinkFailures p \<or> 100 < hbaPort_LossOfSync p
                             then [mk_full WARN ''HBA''
                                     (''FC port '' @ hbaPort_Name p @ '': '' @
                                      itoa (hbaPort_LinkFailures p) @ '' link failures, '' @
                                      itoa (hbaPort_LossOfSync p) @ '' loss-of-sync '' @ em_dash @
                                      '' check fibre and SFP'')
                                     [inspectFCHostPrefix @ hbaPort_Name p @
                                      ''/statistics/link_failure_count'',
                                      ''to inspect: check SFP module and fibre cable'']]
                           else if hbaPort_CountersUnreadable p
                             then [unverifiedInsight ReasonUnreadable INFO ''HBA''
                                     (''FC port '' @ hbaPort_Name p @
                                      '': link/sync/signal error counters could not be read '' @
                                      em_dash @ '' fabric error history unverified'')
                                     [inspectFCHostPrefix @ hbaPort_Name p @ ''/statistics/'']]
                           else []))
                     (hba_Ports hba)))"

definition checkCeph :: "ceph_info \<Rightarrow> insight list" where
  "checkCeph c =
     (if \<not> ceph_Available c
        then (if ceph_NeedsRoot c
                then [unverifiedInsight ReasonCollectorError INFO ''Ceph''
                        (''Ceph cluster state not verified '' @ em_dash @
                         '' `ceph health` needs root (admin keyring is root-only)'')
                        [''to verify: sudo ceph -s   (or run dsd as root)'']]
              else if ceph_Configured c
                then [mk_full CRIT ''Ceph''
                        (''Ceph cluster unreachable '' @ em_dash @
                         '' node is configured for a cluster but `ceph health` failed'')
                        [''to inspect: ceph -s   (or: ceph health detail)'',
                         ''to check mons: systemctl status ceph-mon.target'',
                         ''note: a stuck/unreachable mon quorum freezes all RBD/CephFS I/O'']]
              else [])
      else if ceph_Health c = ''HEALTH_ERR''
        then (let msg = ''Ceph cluster health is ERROR'';
                  msg = (if ceph_Summary c \<noteq> [] then ''Ceph: '' @ hd (ceph_Summary c) else msg)
              in [mk_full CRIT ''Ceph'' msg [inspectCephDetail, ''to inspect: ceph osd tree'']])
      else if ceph_Health c = ''HEALTH_WARN''
        then (let msg = ''Ceph cluster health is WARN'';
                  msg = (if ceph_Summary c \<noteq> [] then ''Ceph: '' @ hd (ceph_Summary c) else msg)
              in [mk_full WARN ''Ceph'' msg [inspectCephDetail, ''to inspect: ceph osd stat'']])
      else if ceph_Health c = ''HEALTH_UNKNOWN''
        then [unverifiedInsight ReasonParse WARN ''Ceph''
                (''Ceph cluster health could not be read '' @ em_dash @
                 '' `ceph health detail` returned no parseable status'')
                [inspectCephDetail, ''to inspect: ceph -s'']]
      else let downOSDs = wrap64 (ceph_OSDTotal c - ceph_OSDUp c)
           in if 0 < downOSDs
                then [mk_full WARN ''Ceph''
                        (itoa downOSDs @ '' OSD(s) down ('' @ itoa (ceph_OSDUp c) @ ''/'' @
                         itoa (ceph_OSDTotal c) @ '' up)'')
                        [''to inspect: ceph osd tree'', ''to inspect: ceph osd stat'']]
              else [])"

definition checkISCSI :: "iscsi_info \<Rightarrow> insight list" where
  "checkISCSI i =
     (if iscsi_NeedsRoot i
        then [unverifiedInsight ReasonCollectorError INFO ''iSCSI''
                ''iSCSI session(s) present but their state needs root (iscsiadm reads root-only sysfs fields)''
                [''to verify: sudo iscsiadm -m session -P 1   (or run dsd as root)'']]
      else if iscsi_SessionsParseFailed i
        then [unverifiedInsight ReasonParse INFO ''iSCSI''
                ''iSCSI session(s) present (per /sys/class/iscsi_session) but their state could not be parsed from iscsiadm output''
                [''to inspect: iscsiadm -m session -P 1'',
                 ''note: check LANG/LC_ALL '' @ em_dash @
                 '' a non-English locale can change iscsiadm'' @ squote @ ''s field labels'']]
      else if \<not> iscsi_Available i \<or> iscsi_Sessions i = [] then []
      else if iscsi_FailedCount i = 0 then []
      else [mk_full CRIT ''iSCSI''
              (itoa (iscsi_FailedCount i) @ '' iSCSI session(s) not logged in '' @ em_dash @
               '' storage path lost'')
              [''to inspect: iscsiadm -m session'', ''to fix:     iscsiadm -m node --loginall=all'',
               ''to inspect: check network connectivity to iSCSI portal'']])"

definition busyProcessHints :: "filesystem_info \<Rightarrow> gostring list" where
  "busyProcessHints fs =
     (if filesystem_BusyProcesses fs = []
        then (if filesystem_BusyCheckNeedsRoot fs
                then [''busy-process scan ran unprivileged '' @ em_dash @
                      '' PIDs owned by other users may be invisible; rerun as root for a complete list'']
              else [])
      else let writers =
                 int (length (filter (\<lambda>p. fsBusyProcess_Write p) (filesystem_BusyProcesses fs)));
               riskNote = [];
               riskNote =
                 (if 10 < int (length (filesystem_BusyProcesses fs))
                    then '' '' @ em_dash @
                         '' too many to unmount safely without stopping them first''
                  else riskNote)
           in [itoa (int (length (filesystem_BusyProcesses fs))) @ '' process(es) have '' @
               filesystem_Mount fs @ '' open ('' @ itoa writers @ '' writing)'' @ riskNote] @
              concat (map
                        (\<lambda>p.
                          let mode = ''read'';
                              mode = (if fsBusyProcess_Write p then ''write'' else mode)
                          in [''PID '' @ itoa (fsBusyProcess_PID p) @ ''  '' @
                              fsBusyProcess_Command p @ ''  user '' @ fsBusyProcess_User p @
                              ''  ('' @ mode @ '')''])
                        (filesystem_BusyProcesses fs)) @
              (if filesystem_BusyCheckNeedsRoot fs
                 then [''busy-process scan ran unprivileged '' @ em_dash @
                       '' PIDs owned by other users may be invisible; rerun as root for a complete list'']
               else []))"

definition isImmutableInfraMount :: "gostring \<Rightarrow> bool" where
  "isImmutableInfraMount mount \<longleftrightarrow>
     ((((mount = ''/'' \<or> mount = ''/sysroot'') \<or> mount = ''/usr'') \<or> mount = ''/boot'') \<or>
      mount = ''/boot/efi'') \<or>
     mount = ''/efi''"

definition isWritableOnDiskFS :: "gostring \<Rightarrow> bool" where
  "isWritableOnDiskFS fsType \<longleftrightarrow>
     ((((((fsType = ''ext2'' \<or> fsType = ''ext3'') \<or> fsType = ''ext4'') \<or> fsType = ''xfs'') \<or>
        fsType = ''btrfs'') \<or>
       fsType = ''f2fs'') \<or>
      fsType = ''jfs'') \<or>
     fsType = ''reiserfs''"

definition diskGrowthHints :: "filesystem_info \<Rightarrow> gostring list" where
  "diskGrowthHints fs =
     (if has_prefix (filesystem_FSType fs) ''ext''
        then (if \<not> looksLikeSafeToken (filesystem_Device fs)
                then [''to fix: grow the ext2/3/4 filesystem to fill its device (device name withheld '' @
                      em_dash @ '' contains unexpected characters)'',
                      ''note: resize2fs grows an ext2/3/4 filesystem online to fill its device'']
              else [''to fix: resize2fs '' @ filesystem_Device fs,
                    ''note: resize2fs grows an ext2/3/4 filesystem online to fill its device''])
      else if filesystem_FSType fs = ''xfs''
        then (if \<not> looksLikeSafeToken (filesystem_Mount fs)
                then [''to fix: grow the XFS filesystem to fill its device (mount point withheld '' @
                      em_dash @ '' contains unexpected characters)'',
                      ''note: XFS grows online (mounted) and can only grow, never shrink'']
              else [''to fix: xfs_growfs '' @ filesystem_Mount fs,
                    ''note: XFS grows online (mounted) and can only grow, never shrink''])
      else if filesystem_FSType fs = ''btrfs''
        then (if \<not> looksLikeSafeToken (filesystem_Mount fs)
                then [''to fix: grow the btrfs filesystem to fill its device (mount point withheld '' @
                      em_dash @ '' contains unexpected characters)'']
              else [''to fix: btrfs filesystem resize max '' @ filesystem_Mount fs])
      else [''to fix: grow the '' @ filesystem_FSType fs @ '' filesystem on '' @
            filesystem_Device fs @ '' to fill the device''])"

definition IsInherentlyReadOnlyFS :: "gostring \<Rightarrow> bool" where
  "IsInherentlyReadOnlyFS fsType \<longleftrightarrow>
     ((fsType = ''iso9660'' \<or> fsType = ''squashfs'') \<or> fsType = ''erofs'') \<or> fsType = ''cramfs''"

definition mpathLabel :: "multipath_device \<Rightarrow> gostring" where
  "mpathLabel dev =
     (if multipathDevice_DM dev = [] \<or> multipathDevice_DM dev = multipathDevice_Name dev
        then multipathDevice_Name dev
      else multipathDevice_Name dev @ '' ('' @ multipathDevice_DM dev @ '')'')"

definition checkZFS :: "environment \<Rightarrow> zfs_info \<Rightarrow> insight list" where
  "checkZFS env z =
     (if zfs_ListReadFailed z
        then [unverifiedInsight ReasonUnreadable INFO ''ZFS''
                (''ZFS is present but pools could NOT be verified '' @ em_dash @
                 '' `zpool list` failed (run as root?)'')
                [''to inspect: zpool list'', ''to inspect: zpool status'']]
      else []) @
     concat (map (\<lambda>pool. checkZFSPool env pool) (zfs_Pools z))"

definition checkLVM :: "lvm_info \<Rightarrow> insight list" where
  "checkLVM l =
     (if lvm_PresenceReadFailed l
        then [unverifiedInsight ReasonUnreadable INFO ''LVM''
                (''could not confirm whether LVM is installed '' @ em_dash @
                 '' `lvs --version` failed unexpectedly'') [''to inspect: lvs --version'']]
      else checkLVMThinPools (lvm_ThinPools l) @
           concat (map
                     (\<lambda>vg.
                       let safeVGName = lvmvg_Name vg;
                           safeVGName =
                             (if \<not> looksLikeSafeToken safeVGName then ''<vg>'' else safeVGName)
                       in if \<not> lvmvg_HasMountedLV vg
                            then [mk_full INFO ''LVM''
                                    (''inactive volume group '' @ lvmvg_Name vg @ '' is '' @
                                     fmt_f 0 (fsub (Fin 100) (lvmvg_FreePct vg)) @ ''% full '' @
                                     em_dash @ '' no LVs mounted (old OS partition?)'')
                                    [''to inspect: vgs '' @ safeVGName,
                                     ''to inspect: lvs | grep '' @ safeVGName,
                                     ''note: this VG has no mounted LVs on this OS '' @ em_dash @
                                     '' likely a leftover from a previous install'']]
                          else (if LVMVGFullLevel (lvmvg_FreePct vg) \<noteq> [] \<and>
                                   \<not> VGBacksThinPool (lvm_ThinPools l) (lvmvg_Name vg)
                                  then [mk_full INFO ''LVM''
                                          (''volume group '' @ lvmvg_Name vg @
                                           '' is fully allocated ('' @
                                           fmt_f 0 (fsub (Fin 100) (lvmvg_FreePct vg)) @
                                           ''% used, '' @ fmt_f 1 (lvmvg_FreeGB vg) @
                                           '' GB free of '' @ fmt_f 1 (lvmvg_SizeGB vg) @
                                           '' GB) '' @ em_dash @
                                           '' normal for a default install; each LV'' @ squote @
                                           ''s filesystem fill is what matters (see Disk)'')
                                          [''note: a fully-allocated VG is the standard layout (root+swap take the whole VG) '' @
                                           em_dash @ '' not a fault on its own'',
                                           ''to grow an LV or snapshot later, add a PV: pvcreate /dev/<disk> && vgextend '' @
                                           safeVGName @ '' /dev/<disk>'']]
                                else []) @
                               (if 0 < lvmvg_MissingPVs vg
                                  then [mk_full CRIT ''LVM''
                                          (''volume group '' @ lvmvg_Name vg @ '' has '' @
                                           itoa (lvmvg_MissingPVs vg) @ '' missing PV(s) '' @
                                           em_dash @ '' data at risk'')
                                          [''to inspect: pvs | grep '' @ safeVGName,
                                           ''to inspect: vgreduce --removemissing '' @ safeVGName @
                                           ''  (removes missing PVs)'',
                                           ''note: missing PVs mean LVs on that device are inaccessible'']]
                                else []))
                     (lvm_VGs l)) @
           concat (map
                     (\<lambda>snap.
                       let safeSnapVG = lvmSnapshot_VG snap;
                           safeSnapName = lvmSnapshot_Name snap;
                           safeSnapVG =
                             (if \<not> looksLikeSafeToken safeSnapVG then ''<vg>'' else safeSnapVG);
                           safeSnapName =
                             (if \<not> looksLikeSafeToken safeSnapName then ''<snapshot>''
                              else safeSnapName);
                           lv = LVMSnapshotLevel (lvmSnapshot_DataPct snap)
                       in if lv \<noteq> []
                            then [mk_full lv ''LVM''
                                    (''snapshot '' @ lvmSnapshot_VG snap @ ''/'' @
                                     lvmSnapshot_Name snap @ '' is '' @
                                     fmt_f 0 (lvmSnapshot_DataPct snap) @ ''% full '' @ em_dash @
                                     '' overflow will corrupt the snapshot'')
                                    [''to inspect: lvs '' @ safeSnapVG @ ''/'' @ safeSnapName,
                                     ''to extend:  lvextend -L +1G '' @ safeSnapVG @ ''/'' @
                                     safeSnapName,
                                     ''to remove:  lvremove '' @ safeSnapVG @ ''/'' @ safeSnapName @
                                     ''  (if snapshot is no longer needed)'']]
                          else [])
                     (lvm_Snapshots l)) @
           checkLVMRaid l)"

definition checkDRBD :: "environment \<Rightarrow> drbd_info \<Rightarrow> insight list" where
  "checkDRBD env d =
     concat (map (\<lambda>res. checkDRBDResource env res) (drbd_Resources d)) @
     (if \<not> drbd_Unverified d then []
      else if drbd_Resources d \<noteq> []
        then [unverifiedInsight ReasonCollectorError INFO ''DRBD''
                (''/proc/drbd read was incomplete '' @ em_dash @
                 '' additional DRBD resources beyond those listed above may exist and are not reflected here'')
                [''to verify: cat /proc/drbd'', ''to inspect: drbdadm status '' @ ''all'']]
      else if has_prefix (drbd_Version d) ''9''
        then [unverifiedInsight ReasonCollectorError INFO ''DRBD''
                (''DRBD 9 present '' @ em_dash @
                 '' resource state needs root (drbdsetup status uses netlink/CAP_NET_ADMIN)'')
                [''to verify: sudo drbdsetup status --json all   (or run dsd as root)'']]
      else [unverifiedInsight ReasonUnreadable INFO ''DRBD''
              (''/proc/drbd could not be read '' @ em_dash @ '' DRBD resource state NOT verified'')
              [''to verify: cat /proc/drbd'', ''to inspect: drbdadm status '' @ ''all'']])"

definition checkDiskGrowth :: "filesystem_info \<Rightarrow> insight list" where
  "checkDiskGrowth fs =
     (if (fle (filesystem_DeviceSizeGB fs) (Fin 0) \<or> fle (filesystem_TotalGB fs) (Fin 0)) \<or>
         \<not> isWritableOnDiskFS (filesystem_FSType fs)
        then []
      else let gap = fsub (filesystem_DeviceSizeGB fs) (filesystem_TotalGB fs)
           in if flt gap (Fin 1) \<or>
                 flt gap
                   (fmul (Fin (3602879701896397 / 36028797018963968)) (filesystem_DeviceSizeGB fs))
                then []
              else [mk_full WARN ''Disk''
                      (''filesystem '' @ filesystem_Mount fs @ '' ('' @ filesystem_FSType fs @
                       '') is '' @ fmt_f 0 (filesystem_TotalGB fs) @ '' GB but its device '' @
                       filesystem_Device fs @ '' is '' @ fmt_f 0 (filesystem_DeviceSizeGB fs) @
                       '' GB '' @ em_dash @
                       '' the device was grown but the filesystem was not resized, so ~'' @
                       fmt_f 0 gap @ '' GB is unusable'') (diskGrowthHints fs)])"

definition checkMultipath :: "multipath_info \<Rightarrow> insight list" where
  "checkMultipath m =
     (if \<not> multipath_Available m then []
      else if multipath_Status m = ''error''
        then (let reason = multipath_StatusReason m;
                  reason = (if reason = [] then ''multipath paths unreadable'' else reason)
              in [unverifiedInsight ReasonUnreadable WARN ''Multipath''
                    (''multipath path health could NOT be verified '' @ em_dash @ '' '' @ reason)
                    [inspectMultipath, ''to inspect: multipath -l   (run as root)'']])
      else if multipath_Devices m = [] then []
      else concat (map
                     (\<lambda>dev.
                       if multipathDevice_FailedPaths dev = 0 then []
                       else let label = mpathLabel dev;
                                safeDM = ''<dm-name>'';
                                safeDM =
                                  (if looksLikeSafeToken (multipathDevice_DM dev)
                                     then multipathDevice_DM dev
                                   else safeDM)
                            in if multipathDevice_ActivePaths dev = 0
                                 then [mk_full CRIT ''Multipath''
                                         (label @ '': all paths failed '' @ em_dash @
                                          '' device unavailable'')
                                         [inspectMultipath, ''to inspect: multipath -l'',
                                          ''to inspect: check SAN fabric and HBA'']]
                               else [mk_full WARN ''Multipath''
                                       (label @ '': '' @ itoa (multipathDevice_FailedPaths dev) @
                                        ''/'' @ itoa (multipathDevice_TotalPaths dev) @
                                        '' paths failed '' @ em_dash @ '' running degraded'')
                                       [inspectMultipath, ''to inspect: multipath -l'',
                                        ''to inspect: cat /sys/block/'' @ safeDM @ ''/dm/state'',
                                        ''note: replace failed path before removing redundant one'']])
                     (multipath_Devices m)))"

definition checkDisk :: "disk_info \<Rightarrow> thresholds \<Rightarrow> insight list" where
  "checkDisk disk thresh =
     (let rwDevices = [];
          rwDevices =
            foldl
              (\<lambda>rwDevices fs.
                if \<not> filesystem_ReadOnly fs \<and> isWritableOnDiskFS (filesystem_FSType fs)
                  then map_put rwDevices (filesystem_Device fs) True
                else rwDevices)
              rwDevices
              (disk_Filesystems disk)
      in concat (map
                   (\<lambda>fs.
                     let safeMount = filesystem_Mount fs;
                         safeMount =
                           (if \<not> looksLikeSafeToken safeMount then mountPlaceholder else safeMount);
                         inherentRO = IsInherentlyReadOnlyFS (filesystem_FSType fs)
                     in (if \<not> inherentRO
                           then (let l =
                                       levelPct (filesystem_UsedPct fs) (DiskWarnPct thresh)
                                         (DiskCritPct thresh)
                                 in if l \<noteq> []
                                      then (let hints =
                                                  [''to inspect: df -h'',
                                                   ''to inspect: du -sh '' @ safeMount @
                                                   ''/* 2>/dev/null | sort -h | tail -20''];
                                                hints =
                                                  (if filesystem_Mount fs = ''/boot''
                                                     then (let bootHints =
                                                                 [''to inspect: df -h /boot'',
                                                                  ''to inspect: ls -lh /boot/vmlinuz* /boot/initramfs* /boot/initrd*'']
                                                           in if PackageManager thresh = ''dnf''
                                                                then bootHints @
                                                                     [''to inspect: rpm -q kernel'',
                                                                      ''to fix:     dnf remove --oldinstallonly --setopt installonly_limit=2'']
                                                              else if PackageManager thresh =
                                                                      ''apt''
                                                                then bootHints @
                                                                     [''to fix: apt autoremove --purge'']
                                                              else if PackageManager thresh =
                                                                      ''zypper''
                                                                then bootHints @
                                                                     [''to fix: zypper packages --orphaned | grep kernel'']
                                                              else if PackageManager thresh =
                                                                      ''pacman''
                                                                then bootHints @
                                                                     [''to inspect: pacman -Q linux'',
                                                                      ''to fix:     pacman -R <old-kernel-packages>'']
                                                              else bootHints @
                                                                   [''to fix (dnf):    dnf remove --oldinstallonly --setopt installonly_limit=2'',
                                                                    ''to fix (apt):    apt autoremove --purge'',
                                                                    ''to fix (zypper): zypper packages --orphaned | grep kernel'',
                                                                    ''to fix (pacman): pacman -Q linux  # then pacman -R <old-kernels>''])
                                                   else hints);
                                                hints = hints @ busyProcessHints fs;
                                                msg =
                                                  ''disk usage at '' @
                                                  fmt_f 0 (filesystem_UsedPct fs) @ ''% on '' @
                                                  filesystem_Mount fs @ '' ('' @
                                                  filesystem_Device fs @ '')'';
                                                msg =
                                                  (let n =
                                                         int (length (filesystem_BusyProcesses fs))
                                                   in if 0 < n
                                                        then msg @ '' '' @ em_dash @ '' '' @
                                                             itoa n @
                                                             '' process(es) have files open''
                                                      else msg)
                                            in [mk_full l ''Disk'' msg hints])
                                    else []) @
                                (let l =
                                       levelPct (filesystem_InodesUsedPct fs) (DiskWarnPct thresh)
                                         (DiskCritPct thresh)
                                 in if l \<noteq> []
                                      then [mk_full l ''Disk''
                                              (''inode usage at '' @
                                               fmt_f 0 (filesystem_InodesUsedPct fs) @ ''% on '' @
                                               filesystem_Mount fs)
                                              [''to inspect: df -i'',
                                               ''to inspect: find '' @ safeMount @
                                               '' -xdev -printf '' @ squote @ ''%h'' @ bslash @
                                               ''n'' @ squote @
                                               '' | sort | uniq -c | sort -rn | head -20'']]
                                    else [])
                         else []) @
                        (let immutableInfra =
                               disk_ImmutableRootFS disk \<and>
                               isImmutableInfraMount (filesystem_Mount fs);
                             roBindOfRWDevice =
                               filesystem_ReadOnly fs \<and>
                               map_get False rwDevices (filesystem_Device fs)
                         in (if ((filesystem_ReadOnly fs \<and> isWritableOnDiskFS (filesystem_FSType fs)) \<and>
                                 \<not> immutableInfra) \<and>
                                \<not> roBindOfRWDevice
                               then (let hints = [];
                                         hints =
                                           hints @
                                           [''to inspect: dmesg | grep -iE '' @ squote @
                                            ''remount|i/o error|ext4-fs error|xfs.*(error|corrupt)|btrfs.*error'' @
                                            squote,
                                            ''to inspect: mount | grep '' @ squote @ '' '' @
                                            safeMount @ '' '' @ squote,
                                            ''after fixing the cause: mount -o remount,rw '' @
                                            safeMount,
                                            ''note: intentionally read-only mounts (immutable OS, ro bind mounts) can ignore this''];
                                         hints = hints @ busyProcessHints fs
                                     in [mk_full WARN ''Disk''
                                           (''filesystem '' @ filesystem_Mount fs @ '' ('' @
                                            filesystem_FSType fs @ '' on '' @ filesystem_Device fs @
                                            '') is mounted READ-ONLY '' @ em_dash @
                                            '' if it should be writable, the kernel likely remounted it after an I/O error'')
                                           hints])
                             else []) @
                            checkDiskGrowth fs))
                   (disk_Filesystems disk)) @
         checkDiskExtras disk)"

section \<open>Well-formedness\<close>

lemma checkNVMe_wf [wf_rules]: "wf_insights (checkNVMe env n)"
  unfolding checkNVMe_def by (intro wf_lets wf_rules level_facts; (assumption | erule (1) level_open; intro level_facts | erule level_nonempty; intro level_facts | elim level_elims; (intro level_facts)?; assumption?))

lemma zfsVdevErrorLevel_open [level_facts]: "zfsVdevErrorLevel p \<in> insert [] (set levels)"
  unfolding zfsVdevErrorLevel_def Let_def by (intro level_facts)

lemma zfsVdevErrorInsight_wf [wf_rules]: "wf_option (zfsVdevErrorInsight p check)"
  unfolding zfsVdevErrorInsight_def by (intro wf_lets wf_rules level_facts; (assumption | erule (1) level_open; intro level_facts | erule level_nonempty; intro level_facts | elim level_elims; (intro level_facts)?; assumption?))

lemma checkZFSPool_wf [wf_rules]: "wf_insights (checkZFSPool env pool)"
  unfolding checkZFSPool_def by (intro wf_lets wf_rules level_facts; (assumption | erule (1) level_open; intro level_facts | erule level_nonempty; intro level_facts | elim level_elims; (intro level_facts)?; assumption?))

lemma checkLVMThinPools_wf [wf_rules]: "wf_insights (checkLVMThinPools pools)"
  unfolding checkLVMThinPools_def by (intro wf_lets wf_rules level_facts; (assumption | erule (1) level_open; intro level_facts | erule level_nonempty; intro level_facts | elim level_elims; (intro level_facts)?; assumption?))

lemma checkLVMRaid_wf [wf_rules]: "wf_insights (checkLVMRaid l)"
  unfolding checkLVMRaid_def by (intro wf_lets wf_rules level_facts; (assumption | erule (1) level_open; intro level_facts | erule level_nonempty; intro level_facts | elim level_elims; (intro level_facts)?; assumption?))

lemma checkDRBDResource_wf [wf_rules]: "wf_insights (checkDRBDResource env res)"
  unfolding checkDRBDResource_def by (intro wf_lets wf_rules level_facts; (assumption | erule (1) level_open; intro level_facts | erule level_nonempty; intro level_facts | elim level_elims; (intro level_facts)?; assumption?))

lemma checkRAID_wf [wf_rules]: "wf_insights (checkRAID env r)"
  unfolding checkRAID_def by (intro wf_lets wf_rules level_facts; (assumption | erule (1) level_open; intro level_facts | erule level_nonempty; intro level_facts | elim level_elims; (intro level_facts)?; assumption?))

lemma checkBtrfsVolume_wf [wf_rules]: "wf_insights (checkBtrfsVolume v)"
  unfolding checkBtrfsVolume_def by (intro wf_lets wf_rules level_facts; (assumption | erule (1) level_open; intro level_facts | erule level_nonempty; intro level_facts | elim level_elims; (intro level_facts)?; assumption?))

lemma checkDiskExtras_wf [wf_rules]: "wf_insights (checkDiskExtras disk)"
  unfolding checkDiskExtras_def by (intro wf_lets wf_rules level_facts; (assumption | erule (1) level_open; intro level_facts | erule level_nonempty; intro level_facts | elim level_elims; (intro level_facts)?; assumption?))

lemma checkHBA_wf [wf_rules]: "wf_insights (checkHBA hba)"
  unfolding checkHBA_def by (intro wf_lets wf_rules level_facts; (assumption | erule (1) level_open; intro level_facts | erule level_nonempty; intro level_facts | elim level_elims; (intro level_facts)?; assumption?))

lemma checkCeph_wf [wf_rules]: "wf_insights (checkCeph c)"
  unfolding checkCeph_def by (intro wf_lets wf_rules level_facts; (assumption | erule (1) level_open; intro level_facts | erule level_nonempty; intro level_facts | elim level_elims; (intro level_facts)?; assumption?))

lemma checkISCSI_wf [wf_rules]: "wf_insights (checkISCSI i)"
  unfolding checkISCSI_def by (intro wf_lets wf_rules level_facts; (assumption | erule (1) level_open; intro level_facts | erule level_nonempty; intro level_facts | elim level_elims; (intro level_facts)?; assumption?))

lemma checkZFS_wf [wf_rules]: "wf_insights (checkZFS env z)"
  unfolding checkZFS_def by (intro wf_lets wf_rules level_facts; (assumption | erule (1) level_open; intro level_facts | erule level_nonempty; intro level_facts | elim level_elims; (intro level_facts)?; assumption?))

lemma checkLVM_wf [wf_rules]: "wf_insights (checkLVM l)"
  unfolding checkLVM_def by (intro wf_lets wf_rules level_facts; (assumption | erule (1) level_open; intro level_facts | erule level_nonempty; intro level_facts | elim level_elims; (intro level_facts)?; assumption?))

lemma checkDRBD_wf [wf_rules]: "wf_insights (checkDRBD env d)"
  unfolding checkDRBD_def by (intro wf_lets wf_rules level_facts; (assumption | erule (1) level_open; intro level_facts | erule level_nonempty; intro level_facts | elim level_elims; (intro level_facts)?; assumption?))

lemma checkDiskGrowth_wf [wf_rules]: "wf_insights (checkDiskGrowth fs)"
  unfolding checkDiskGrowth_def by (intro wf_lets wf_rules level_facts; (assumption | erule (1) level_open; intro level_facts | erule level_nonempty; intro level_facts | elim level_elims; (intro level_facts)?; assumption?))

lemma checkMultipath_wf [wf_rules]: "wf_insights (checkMultipath m)"
  unfolding checkMultipath_def by (intro wf_lets wf_rules level_facts; (assumption | erule (1) level_open; intro level_facts | erule level_nonempty; intro level_facts | elim level_elims; (intro level_facts)?; assumption?))

lemma checkDisk_wf [wf_rules]: "wf_insights (checkDisk disk thresh)"
  unfolding checkDisk_def by (intro wf_lets wf_rules level_facts; (assumption | erule (1) level_open; intro level_facts | erule level_nonempty; intro level_facts | elim level_elims; (intro level_facts)?; assumption?))


end
