(* ===== verification/Checks_System.thy ===== *)
theory Checks_System
  imports Checks_Levels
begin

text \<open>
  heuristics_system.go: file descriptors, systemd units, sysctl, AppArmor and SELinux, kernel logs and the
  journal, entropy, processes, services, D-Bus, the OOM killer, pressure stall information, huge pages,
  launchd, sessions and cgroups.  There is one definition per Go function; a loop that appends to the slice it
  returns is a fold over the measured entries, and a variable that is assigned again is a \<open>let\<close> that shadows it.
\<close>

section \<open>Measurements\<close>

record fd_process_info =
  fdProcess_PID :: int
  fdProcess_Name :: gostring
  fdProcess_OpenFDs :: int
  fdProcess_SoftLimit :: int
  fdProcess_UsedPct :: f64

record fd_info =
  fd_OpenCount :: int
  fd_MaxCount :: int
  fd_UsedPct :: f64
  fd_HotProcesses :: "fd_process_info list"
  fd_DeletedOpenSizeGB :: f64

record sysctl_info =
  sysctl_Available :: bool
  sysctl_VMSwappiness :: int
  sysctl_NetSomaxconn :: int
  sysctl_KernelPIDMax :: int
  sysctl_PIDCount :: int
  sysctl_NetRmemMax :: int
  sysctl_TCPTWReuse :: int
  sysctl_VMMaxMapCount :: int
  sysctl_VMDirtyRatio :: int
  sysctl_FSInotifyWatches :: int
  sysctl_Workload :: gostring
  sysctl_SwapActive :: bool

record kernel_security_info =
  kernelSecurity_SELinuxPresent :: bool
  kernelSecurity_SELinuxMode :: gostring
  kernelSecurity_SELinuxDenials :: int
  kernelSecurity_SELinuxAVCSamples :: "gostring list"
  kernelSecurity_SELinuxType :: gostring
  kernelSecurity_SELinuxTypeValid :: bool
  kernelSecurity_SELinuxPolicyDirOK :: bool
  kernelSecurity_SELinuxPolicyPkgOK :: bool
  kernelSecurity_SELinuxRelabelPending :: bool
  kernelSecurity_AppArmorPresent :: bool
  kernelSecurity_AppArmorMode :: gostring
  kernelSecurity_AppArmorComplain :: int
  kernelSecurity_AppArmorDenials :: int

record crash_file =
  crashFile_Path :: gostring
  crashFile_SizeMB :: f64
  crashFile_AgeDays :: int

record logs_info =
  logs_OOMKills :: int
  logs_OOMProcesses :: "gostring list"
  logs_Segfaults :: int
  logs_SegfaultProcs :: "gostring list"
  logs_SoftLockups :: int
  logs_HardLockups :: int
  logs_KernelPanics :: int
  logs_NVMeTimeouts :: int
  logs_NVMeResets :: int
  logs_Virtualized :: bool
  logs_JournalSizeGB :: f64
  logs_CrashLoops :: "gostring list"
  logs_NeedsRoot :: bool
  logs_KmsgUnreadable :: bool
  logs_CrashLoopsUnverified :: bool
  logs_CrashFilesUnreadable :: bool
  logs_JournalSizeUnreadable :: bool
  logs_JournalCorruptUnverified :: bool
  logs_JournalCorrupt :: bool
  logs_JournalVolatile :: bool
  logs_JournalRateLimited :: bool
  logs_JournalNoTextFallback :: bool
  logs_JournalUnbounded :: bool
  logs_JournalSyncRisk :: bool
  logs_LogDiskUsedPct :: f64
  logs_LogDiskMount :: gostring
  logs_ErrorCount :: int
  logs_ErrorCountUnverified :: bool
  logs_TopErrors :: "gostring list"
  logs_CrashFiles :: "crash_file list"
  logs_CoreDumpCount :: int
  logs_LogSource :: gostring

record entropy_info =
  entropy_Available :: bool
  entropy_EntropyBits :: int

record process_info =
  process_ZombieCount :: int
  process_HungCount :: int
  process_ListRestricted :: bool
  process_ListUnreadable :: bool

record service_result =
  serviceResult_Name :: gostring
  serviceResult_Host :: gostring
  serviceResult_Port :: int
  serviceResult_Protocol :: gostring
  serviceResult_Reachable :: bool
  serviceResult_StatusCode :: int
  serviceResult_Error :: gostring
  serviceResult_Status :: gostring

record services_info =
  services_Results :: "service_result list"

record d_bus_info =
  dBus_Active :: bool
  dBus_Status :: gostring
  dBus_LastError :: gostring

record oom_event =
  oomEvent_Process :: gostring

record oom_info =
  oom_EventsLast24h :: int
  oom_RecentEvents :: "oom_event list"
  oom_EventsCountUnverified :: bool
  oom_StatusReason :: gostring

record mte_fault_event =
  mteFaultEvent_Process :: gostring
  mteFaultEvent_PID :: int
  mteFaultEvent_FaultType :: gostring

record mte_info =
  mte_Available :: bool
  mte_ExceptionTraceEnabled :: bool
  mte_RecentFaults :: "mte_fault_event list"
  mte_StatusReason :: gostring

record psi_line =
  psiLine_Avg10 :: f64
  psiLine_Avg60 :: f64
  psiLine_Avg300 :: f64

record pressure_info =
  pressure_Available :: bool
  pressure_MemorySome :: psi_line
  pressure_MemoryFull :: psi_line
  pressure_CPUSome :: psi_line
  pressure_IOFull :: psi_line
  pressure_UnreadableMetrics :: "gostring list"

record huge_pages_info =
  hugePages_Configured :: int
  hugePages_Free :: int
  hugePages_Used :: int
  hugePages_PageSizeKB :: int
  hugePages_ReservedGB :: f64
  hugePages_THPEnabled :: bool
  hugePages_THPMode :: gostring
  hugePages_StatusReason :: gostring

record launchd_service =
  launchdService_Label :: gostring

record launchd_info =
  launchd_Failed :: "launchd_service list"
  launchd_Checked :: bool

record sessions_info =
  sessions_TotalCount :: int
  sessions_RemoteCount :: int
  sessions_UniqueIPs :: "gostring list"
  sessions_RootSSH :: bool
  sessions_LongIdle :: "gostring list"
  sessions_IsPVE :: bool
  sessions_Checked :: bool

record slow_unit =
  slowUnit_Name :: gostring
  slowUnit_Duration :: f64

record systemd_info =
  systemd_Available :: bool
  systemd_FailedUnits :: "gostring list"
  systemd_FailedUnitsUnknown :: bool
  systemd_SSHDStatusUnverified :: bool
  systemd_NeedsDaemonReload :: "gostring list"
  systemd_SlowUnits :: "slow_unit list"
  systemd_TotalBootSec :: f64
  systemd_SystemState :: gostring
  systemd_SELinuxEnforcing :: bool
  systemd_ZFSPoolsPresent :: bool

section \<open>Constants\<close>

definition catKernelSec :: gostring where
  "catKernelSec = ''KernelSec''"

definition catSysctl :: gostring where
  "catSysctl = ''Sysctl''"

definition inspectW :: gostring where
  "inspectW = ''to inspect: w''"

definition inspectSysctlSwap :: gostring where
  "inspectSysctlSwap = ''to inspect: sysctl vm.swappiness''"

definition inspectSysctlMaxMap :: gostring where
  "inspectSysctlMaxMap = ''to inspect: sysctl vm.max_map_count''"

definition inspectJournalDiskUse :: gostring where
  "inspectJournalDiskUse = ''to inspect: journalctl --disk-usage''"

definition fixSysctlMaxMapCount :: gostring where
  "fixSysctlMaxMapCount = ''to fix: sysctl -w vm.max_map_count=262144''"

definition persistMaxMapCount :: gostring where
  "persistMaxMapCount = ''to persist: echo '' @ squote @ ''vm.max_map_count=262144'' @ squote @
     '' >> /etc/sysctl.d/99-dsd.conf''"

definition fixSysctlSwappiness :: gostring where
  "fixSysctlSwappiness = ''to fix: sysctl -w vm.swappiness=10''"

definition persistSwappiness :: gostring where
  "persistSwappiness = ''to persist: echo '' @ squote @ ''vm.swappiness=10'' @ squote @
     '' >> /etc/sysctl.d/99-dsd.conf''"

definition fixSELinuxRelabel :: gostring where
  "fixSELinuxRelabel = ''to fix:     touch /.autorelabel && reboot''"

section \<open>Checks\<close>

definition checkFD :: "fd_info \<Rightarrow> thresholds \<Rightarrow> insight list" where
  "checkFD fd thresh =
     (let l = levelPct (fd_UsedPct fd) (FDSystemWarnPct thresh) (FDSystemCritPct thresh)
      in if l \<noteq> []
           then [mk_full l ''FDLimits''
                   (''system FD usage at '' @ fmt_f 0 (fd_UsedPct fd) @ ''% ('' @
                    itoa (fd_OpenCount fd) @ '' / '' @ itoa (fd_MaxCount fd) @ '' open)'')
                   [''to inspect: cat /proc/sys/fs/file-nr'', ''to inspect: lsof | wc -l'']]
         else []) @
     concat (map
               (\<lambda>proc.
                 if fle (FDProcWarnPct thresh) (fdProcess_UsedPct proc)
                   then [mk_full WARN ''FDLimits''
                           (''process '' @ fdProcess_Name proc @ '' (PID '' @
                            itoa (fdProcess_PID proc) @ '') has '' @ itoa (fdProcess_OpenFDs proc) @
                            ''/'' @ itoa (fdProcess_SoftLimit proc) @ '' FDs open ('' @
                            fmt_f 0 (fdProcess_UsedPct proc) @ ''%)'')
                           [''to inspect: ls /proc/'' @ itoa (fdProcess_PID proc) @ ''/fd | wc -l'',
                            ''to inspect: lsof -p '' @ itoa (fdProcess_PID proc) @ '' | tail -20'']]
                 else [])
               (fd_HotProcesses fd)) @
     (if fle (Fin 1) (fd_DeletedOpenSizeGB fd)
        then [mk_full WARN ''FDLimits''
                (fmt_f 1 (fd_DeletedOpenSizeGB fd) @ '' GB held by deleted-but-open files'')
                [''to inspect: lsof | grep deleted | head -20'',
                 ''to inspect: lsof | grep deleted | awk '' @ squote @
                 ''{sum+=$7} END{print sum/1024/1024/1024'' @ dquote @ '' GB'' @ dquote @ ''}'' @
                 squote]]
      else [])"

definition checkSysctl :: "sysctl_info \<Rightarrow> insight list" where
  "checkSysctl sysctl =
     (if sysctl_NetSomaxconn sysctl \<noteq> 0 \<and> sysctl_NetSomaxconn sysctl < 1024
        then [mk_full WARN catSysctl
                (''net.core.somaxconn='' @ itoa (sysctl_NetSomaxconn sysctl) @
                 '' is low for a high-connection server '' @ em_dash @
                 '' kernels <5.4 default to 128; raise to 4096 if this host serves many concurrent connections'')
                [''to inspect: sysctl net.core.somaxconn'',
                 ''to fix: sysctl -w net.core.somaxconn=4096'',
                 ''to persist: echo '' @ squote @ ''net.core.somaxconn=4096'' @ squote @
                 '' >> /etc/sysctl.d/99-dsd.conf'']]
      else []) @
     (if 0 < sysctl_KernelPIDMax sysctl
        then (let pidPct =
                    fmul
                      (fdiv (f_of_int (sysctl_PIDCount sysctl))
                         (f_of_int (sysctl_KernelPIDMax sysctl))) (Fin 100);
                  l = levelPct pidPct (Fin 80) (Fin 90)
              in if l \<noteq> []
                   then [mk_full l catSysctl
                           (''PID/task table at '' @ fmt_f 0 pidPct @ ''% ('' @
                            itoa (sysctl_PIDCount sysctl) @ '' / '' @
                            itoa (sysctl_KernelPIDMax sysctl) @ '')'')
                           [''to inspect: cat /proc/sys/kernel/pid_max'',
                            ''to inspect: cat /proc/loadavg  (4th field: running/total tasks)'',
                            ''to inspect: ps -eLf | wc -l  (includes threads, unlike ps aux)'']]
                 else [])
      else []) @
     (if sysctl_Workload sysctl = ''k8s''
        then (if 0 < sysctl_VMMaxMapCount sysctl \<and> sysctl_VMMaxMapCount sysctl < 262144
                then [mk_full WARN catSysctl
                        (''vm.max_map_count='' @ itoa (sysctl_VMMaxMapCount sysctl) @
                         '' is low for k8s/Elasticsearch (recommended: 262144)'')
                        [inspectSysctlMaxMap, fixSysctlMaxMapCount, persistMaxMapCount]]
              else []) @
             (if 0 < sysctl_FSInotifyWatches sysctl \<and> sysctl_FSInotifyWatches sysctl < 524288
                then [mk_full WARN catSysctl
                        (''fs.inotify.max_user_watches='' @ itoa (sysctl_FSInotifyWatches sysctl) @
                         '' is low for k8s (recommended: 524288)'')
                        [''to inspect: sysctl fs.inotify.max_user_watches'',
                         ''to fix: sysctl -w fs.inotify.max_user_watches=524288'',
                         ''to persist: echo '' @ squote @ ''fs.inotify.max_user_watches=524288'' @
                         squote @ '' >> /etc/sysctl.d/99-dsd.conf'']]
              else []) @
             (if 10 < sysctl_VMSwappiness sysctl
                then [mk_full WARN catSysctl
                        (''vm.swappiness='' @ itoa (sysctl_VMSwappiness sysctl) @
                         '' is high for k8s node (recommended: '' @ [CHR 0xE2, CHR 0x89, CHR 0xA4] @
                         '' 10)'') [inspectSysctlSwap, fixSysctlSwappiness, persistSwappiness]]
              else [])
      else if sysctl_Workload sysctl = ''webserver''
        then (if sysctl_TCPTWReuse sysctl = 0
                then [mk_full WARN catSysctl
                        (''net.ipv4.tcp_tw_reuse=0 '' @ em_dash @
                         '' enabling helps high-traffic web servers reuse TIME_WAIT sockets'')
                        [''to fix: sysctl -w net.ipv4.tcp_tw_reuse=1'',
                         ''to persist: echo '' @ squote @ ''net.ipv4.tcp_tw_reuse=1'' @ squote @
                         '' >> /etc/sysctl.d/99-dsd.conf'']]
              else []) @
             (if 0 < sysctl_NetRmemMax sysctl \<and> sysctl_NetRmemMax sysctl < 16777216
                then [mk_full WARN catSysctl
                        (''net.core.rmem_max='' @ itoa (sysctl_NetRmemMax sysctl) @
                         '' is low for high-throughput web server (recommended: 16MB)'')
                        [''to inspect: sysctl net.core.rmem_max'',
                         ''to fix: sysctl -w net.core.rmem_max=16777216'',
                         ''to persist: echo '' @ squote @ ''net.core.rmem_max=16777216'' @ squote @
                         '' >> /etc/sysctl.d/99-dsd.conf'']]
              else [])
      else if sysctl_Workload sysctl = ''database''
        then (if 10 < sysctl_VMSwappiness sysctl
                then [mk_full WARN catSysctl
                        (''vm.swappiness='' @ itoa (sysctl_VMSwappiness sysctl) @
                         '' is high for database workload (recommended: '' @
                         [CHR 0xE2, CHR 0x89, CHR 0xA4] @ '' 10)'')
                        [inspectSysctlSwap, fixSysctlSwappiness, persistSwappiness]]
              else []) @
             (if 10 < sysctl_VMDirtyRatio sysctl
                then [mk_full WARN catSysctl
                        (''vm.dirty_ratio='' @ itoa (sysctl_VMDirtyRatio sysctl) @
                         '' is high for database (recommended: '' @ [CHR 0xE2, CHR 0x89, CHR 0xA4] @
                         '' 10 to reduce write latency spikes)'')
                        [''to inspect: sysctl vm.dirty_ratio'',
                         ''to fix: sysctl -w vm.dirty_ratio=10'',
                         ''to fix: sysctl -w vm.dirty_background_ratio=3'',
                         ''to persist: echo '' @ squote @ ''vm.dirty_ratio=10'' @ squote @
                         '' >> /etc/sysctl.d/99-dsd.conf'']]
              else [])
      else if sysctl_Workload sysctl = ''elasticsearch''
        then (if 0 < sysctl_VMMaxMapCount sysctl \<and> sysctl_VMMaxMapCount sysctl < 262144
                then [mk_full CRIT catSysctl
                        (''vm.max_map_count='' @ itoa (sysctl_VMMaxMapCount sysctl) @ '' '' @
                         em_dash @ '' Elasticsearch requires '' @ [CHR 0xE2, CHR 0x89, CHR 0xA5] @
                         '' 262144 or it will refuse to start'')
                        [inspectSysctlMaxMap, fixSysctlMaxMapCount, persistMaxMapCount]]
              else []) @
             (if 1 < sysctl_VMSwappiness sysctl
                then [mk_full WARN catSysctl
                        (''vm.swappiness='' @ itoa (sysctl_VMSwappiness sysctl) @ '' '' @ em_dash @
                         '' Elasticsearch recommends 1 to minimise GC pauses from swapping'')
                        [inspectSysctlSwap, ''to fix: sysctl -w vm.swappiness=1'',
                         ''to persist: echo '' @ squote @ ''vm.swappiness=1'' @ squote @
                         '' >> /etc/sysctl.d/99-dsd.conf'']]
              else [])
      else if sysctl_Workload sysctl = ''container''
        then (if 0 < sysctl_VMMaxMapCount sysctl \<and> sysctl_VMMaxMapCount sysctl < 262144
                then [mk_full WARN catSysctl
                        (''vm.max_map_count='' @ itoa (sysctl_VMMaxMapCount sysctl) @
                         '' is low for container host running JVM workloads (recommended: 262144)'')
                        [inspectSysctlMaxMap, fixSysctlMaxMapCount, persistMaxMapCount]]
              else []) @
             (if 0 < sysctl_FSInotifyWatches sysctl \<and> sysctl_FSInotifyWatches sysctl < 131072
                then [mk_full WARN catSysctl
                        (''fs.inotify.max_user_watches='' @ itoa (sysctl_FSInotifyWatches sysctl) @
                         '' is low for container host (recommended: 131072+)'')
                        [''to inspect: sysctl fs.inotify.max_user_watches'',
                         ''to fix: sysctl -w fs.inotify.max_user_watches=131072'',
                         ''to persist: echo '' @ squote @ ''fs.inotify.max_user_watches=131072'' @
                         squote @ '' >> /etc/sysctl.d/99-dsd.conf'']]
              else [])
      else if 30 < sysctl_VMSwappiness sysctl \<and> sysctl_SwapActive sysctl
        then [mk_full WARN catSysctl
                (''vm.swappiness='' @ itoa (sysctl_VMSwappiness sysctl) @
                 '' is high and the host is actively swapping (recommended: '' @
                 [CHR 0xE2, CHR 0x89, CHR 0xA4] @ '' 30; production servers typically use 10)'')
                [''to inspect: cat /proc/sys/vm/swappiness; vmstat 1 5'', fixSysctlSwappiness,
                 persistSwappiness]]
      else [])"

definition slowBootFix :: "gostring \<Rightarrow> gostring list" where
  "slowBootFix unit =
     (if unit = ''gpu-manager.service''
        then [''note: gpu-manager detects GPUs for PRIME switching '' @ em_dash @
              '' slow on Optimus laptops'',
              ''to fix (if not using GPU switching): systemctl disable --now gpu-manager.service'',
              ''note: safe to disable if you use NVIDIA-only mode or have one GPU'']
      else if unit = ''NetworkManager-wait-online.service''
        then [''note: waits for network before continuing boot '' @ em_dash @
              '' often unnecessary on servers'',
              ''to fix: systemctl disable NetworkManager-wait-online.service'',
              ''note: safe if nothing critical depends on network at boot time'']
      else if unit = ''plymouth-quit-wait.service''
        then [''note: plymouth boot splash '' @ em_dash @
              '' can be slow on headless or hybrid GPU systems'',
              ''to fix (headless): systemctl disable plymouth-quit-wait.service'']
      else if unit = ''fwupd-refresh.service''
        then [''note: checks for firmware updates on boot '' @ em_dash @ '' hits the network'',
              ''to fix: systemctl disable fwupd-refresh.service  (updates still work manually)'',
              ''to run manually: fwupdmgr refresh'']
      else if unit = ''snapd.service'' \<or> unit = ''snapd.seeded.service''
        then [''note: snap daemon initialisation '' @ em_dash @
              '' slow on first boot or after updates'',
              ''to fix (if not using snaps): systemctl disable --now snapd.service snapd.socket'',
              ''note: only disable if you have no snap packages installed'']
      else if unit = ''apt-daily.service'' \<or> unit = ''apt-daily-upgrade.service''
        then [''note: apt background updates running at boot '' @ em_dash @
              '' competes with boot I/O'',
              ''to fix: systemctl disable apt-daily.service apt-daily-upgrade.service'',
              ''note: updates will still run from cron/timer '' @ em_dash @ '' boot impact removed'']
      else [])"

definition isBootFilesystemUnit :: "gostring \<Rightarrow> bool" where
  "isBootFilesystemUnit unit \<longleftrightarrow>
     (unit = ''systemd-remount-fs.service'' \<or> unit = ''systemd-fsck-root.service'') \<or>
     has_prefix unit ''systemd-fsck@''"

definition unitBaseName :: "gostring \<Rightarrow> gostring" where
  "unitBaseName unit =
     (let unit =
            (let dot = last_index_of unit (CHR ''.'')
             in if 0 < dot then take (nat dot) unit else unit);
          pos = last_index_of unit (CHR ''@'')
      in if 0 < pos then take (nat pos) unit else unit)"

definition extractAVCProcessNames :: "gostring list \<Rightarrow> gostring list" where
  "extractAVCProcessNames samples =
     (let seen = [];
          (seen, procs) =
            foldl
              (\<lambda>(seen, procs) line.
                let (_, after, ok) = cut line (''comm='' @ dquote)
                in if \<not> ok then (seen, procs)
                   else let rest = after;
                            end = index_of rest (CHR 0x22)
                        in if end \<le> 0 then (seen, procs)
                           else let proc = take (nat end) rest;
                                    procs =
                                      (if \<not> map_get False seen proc then procs @ [proc] else procs);
                                    seen =
                                      (if \<not> map_get False seen proc then map_put seen proc True
                                       else seen)
                                in (seen, procs))
              (seen, [])
              samples
      in procs)"

definition checkAppArmorActive :: "kernel_security_info \<Rightarrow> insight list" where
  "checkAppArmorActive mac =
     (if 0 < kernelSecurity_AppArmorComplain mac
        then [mk_full WARN catKernelSec
                (itoa (kernelSecurity_AppArmorComplain mac) @
                 '' AppArmor profile(s) in complain mode '' @ em_dash @ '' not enforcing'')
                [''to inspect: aa-status --complaining'',
                 ''to enforce a profile after review: aa-enforce /etc/apparmor.d/<profile>'']]
      else []) @
     (if kernelSecurity_AppArmorDenials mac < 0
        then [unverifiedInsight ReasonUnreadable INFO catKernelSec
                (''AppArmor enforcing but its denial log could NOT be read '' @ em_dash @
                 '' denials are unverified'')
                [''to inspect: dmesg | grep -i apparmor   (run as root)'',
                 ''note: kernel.dmesg_restrict=1 blocks non-root dmesg; the audit log is root-only'']]
      else if 0 < kernelSecurity_AppArmorDenials mac
        then [mk_full WARN catKernelSec
                (itoa (kernelSecurity_AppArmorDenials mac) @
                 '' AppArmor denial(s) in the last hour'')
                [''to inspect: dmesg | grep -i apparmor'',
                 ''to inspect: journalctl -k | grep apparmor'']]
      else [])"

definition checkSELinuxDenials :: "kernel_security_info \<Rightarrow> thresholds \<Rightarrow> insight list" where
  "checkSELinuxDenials mac thresh =
     (let l =
            (if kernelSecurity_SELinuxDenials mac < 0 then []
             else if SELinuxDenialsCritPerHr thresh \<le> kernelSecurity_SELinuxDenials mac then CRIT
             else if SELinuxDenialsWarnPerHr thresh \<le> kernelSecurity_SELinuxDenials mac then WARN
             else [])
      in if l \<noteq> []
           then (let hints =
                       [''to inspect: ausearch -m avc -ts recent'',
                        ''to inspect: sealert -a /var/log/audit/audit.log''];
                     hints =
                       (if kernelSecurity_SELinuxAVCSamples mac \<noteq> []
                          then (let procs =
                                      extractAVCProcessNames (kernelSecurity_SELinuxAVCSamples mac)
                                in hints @
                                   concat (map
                                             (\<lambda>proc.
                                               if looksLikeSafeToken proc
                                                 then [''to check booleans: getsebool -a | grep '' @
                                                       proc]
                                               else [])
                                             procs))
                        else hints @ [''to check booleans: getsebool -a | grep <process-name>'']);
                     hints =
                       hints @
                       [''to generate fix: ausearch -m avc -ts recent | audit2allow -M mypolicy'',
                        ''to apply fix:    semodule -i mypolicy.pp'',
                        ''note: check booleans and file contexts BEFORE using audit2allow'',
                        ''note: audit2allow may grant broader access than needed '' @ em_dash @
                        '' review .te file first''];
                     hints =
                       hints @
                       concat (map
                                 (\<lambda>avc. [''sample AVC: '' @ avc])
                                 (kernelSecurity_SELinuxAVCSamples mac))
                 in [mk_full l catKernelSec
                       (itoa (kernelSecurity_SELinuxDenials mac) @
                        '' SELinux denial(s) in the last hour (mode: '' @
                        kernelSecurity_SELinuxMode mac @ '')'') hints])
         else []) @
     (if kernelSecurity_SELinuxMode mac = ''enforcing'' \<and> kernelSecurity_SELinuxDenials mac < 0
        then [unverifiedInsight ReasonUnreadable INFO catKernelSec
                (''SELinux enforcing but AVC denials could NOT be verified '' @ em_dash @
                 '' audit log unreadable / ausearch absent'')
                [''to inspect: ausearch -m avc -ts recent   (run as root)'',
                 ''to inspect: journalctl --since '' @ squote @ ''1 hour ago'' @ squote @
                 '' | grep '' @ squote @ ''avc:  denied'' @ squote]]
      else []) @
     (if kernelSecurity_SELinuxMode mac = ''enforcing'' \<and> kernelSecurity_SELinuxDenials mac = 0
        then [mk_full INFO catKernelSec
                (''SELinux enforcing '' @ em_dash @
                 '' if services fail unexpectedly, dontaudit rules may suppress denials silently'')
                [''to expose hidden denials: semodule -DB  (disables dontaudit rules)'',
                 ''to re-enable dontaudit:   semodule -B   (run after debugging)'',
                 ''to check for suppressed:  ausearch -m avc -ts recent --raw | wc -l'']]
      else [])"

definition nvmeEventInsights :: "logs_info \<Rightarrow> insight list" where
  "nvmeEventInsights logs =
     (if 0 < logs_NVMeTimeouts logs
        then (if logs_Virtualized logs
                then [mk_full INFO ''Logs''
                        (itoa (logs_NVMeTimeouts logs) @
                         '' NVMe I/O timeout event(s) on virtualized storage '' @ em_dash @
                         '' usually a transient hypervisor/cloud-storage event, not a failing drive'')
                        [''to inspect: dmesg | grep -i '' @ squote @ ''nvme.*timeout'' @ squote,
                         ''note: on a VM/cloud guest the NVMe device is virtual '' @ em_dash @
                         '' persistent timeouts may mean cloud-storage throttling or a degraded volume'']]
              else [mk_full WARN ''Logs''
                      (itoa (logs_NVMeTimeouts logs) @
                       '' NVMe I/O timeout event(s) in the last hour '' @ em_dash @
                       '' drive may be failing or entering bad power state'')
                      [''to inspect: dmesg | grep -i '' @ squote @ ''nvme.*timeout'' @ squote,
                       ''to inspect: smartctl -a /dev/nvme0  (or nvme smart-log /dev/nvme0)'',
                       ''to mitigate: echo '' @ squote @
                       ''options nvme_core default_ps_max_latency_us=0'' @ squote @
                       '' >> /etc/modprobe.d/nvme.conf'',
                       ''note: NVMe timeouts can freeze the entire I/O stack '' @ em_dash @
                       '' monitor closely'']])
      else []) @
     (if 0 < logs_NVMeResets logs
        then (if logs_Virtualized logs
                then [mk_full WARN ''Logs''
                        (itoa (logs_NVMeResets logs) @
                         '' NVMe controller reset/down event(s) on virtualized storage '' @
                         em_dash @
                         '' likely a cloud-storage/hypervisor event (volume detach, migration), not a failing drive'')
                        [''to inspect: dmesg | grep -i '' @ squote @ ''nvme.*reset'' @ bslash @
                         ''|controller is down'' @ bslash @ ''|CSTS'' @ squote,
                         ''note: on a VM/cloud guest repeated resets may indicate a degraded volume or a noisy hypervisor host '' @
                         em_dash @ '' check the cloud console / hypervisor'']]
              else [mk_full CRIT ''Logs''
                      (itoa (logs_NVMeResets logs) @ '' NVMe controller reset/down event(s) '' @
                       em_dash @ '' drive or PCIe link is unstable'')
                      [''to inspect: dmesg | grep -i '' @ squote @ ''nvme.*reset'' @ bslash @
                       ''|controller is down'' @ bslash @ ''|CSTS'' @ squote,
                       ''to inspect: nvme smart-log /dev/nvme0  (if nvme-cli installed)'',
                       ''to mitigate: echo '' @ squote @
                       ''options nvme_core default_ps_max_latency_us=0'' @ squote @
                       '' >> /etc/modprobe.d/nvme.conf'',
                       ''to mitigate: add '' @ squote @ ''pcie_aspm=off'' @ squote @
                       '' to kernel cmdline if power-state related'',
                       ''note: controller resets can cause mdadm/BTRFS/ZFS to go read-only'']])
      else [])"

definition journalVolatileInsight :: "logs_info \<Rightarrow> insight" where
  "journalVolatileInsight logs =
     (if logs_JournalNoTextFallback logs
        then mk_full WARN ''Logs''
               (''journald is volatile AND no text-log fallback (rsyslog/syslog-ng) is running '' @
                em_dash @ '' logs are lost on reboot'')
               [''to fix:     mkdir -p /var/log/journal && systemd-tmpfiles --create --prefix /var/log/journal'',
                ''to persist: echo '' @ squote @ ''Storage=persistent'' @ squote @
                '' >> /etc/systemd/journald.conf && systemctl restart systemd-journald'',
                ''or install a syslog daemon: dnf/apt/zypper install rsyslog'']
      else mk_full INFO ''Logs''
             (''journald is volatile (no /var/log/journal) '' @ em_dash @
              '' the journalctl boot history is lost on reboot, but a syslog daemon persists text logs to /var/log, so logs survive'')
             [''note: text logs (e.g. /var/log/messages) survive reboots via rsyslog/syslog-ng'',
              ''to keep journalctl history too: echo '' @ squote @ ''Storage=persistent'' @ squote @
              '' >> /etc/systemd/journald.conf && systemctl restart systemd-journald''])"

definition checkJournalConfig :: "logs_info \<Rightarrow> insight list" where
  "checkJournalConfig logs =
     (if logs_JournalCorrupt logs
        then [mk_full WARN ''Logs''
                (''an archived (rotated) journal segment failed verification '' @ em_dash @
                 '' a historical log file has a damaged region; current logging is unaffected'')
                [''to inspect: journalctl --verify'',
                 ''to clean:   rm /var/log/journal/*/*.journal~  (removes the damaged archived segments)'',
                 ''note: only rotated *.journal~ archives are checked; active journals are not verified (they race with live writers)'']]
      else []) @
     (if logs_JournalVolatile logs then [journalVolatileInsight logs] else []) @
     (if logs_JournalRateLimited logs
        then [mk_full WARN ''Logs''
                (''journald RateLimitBurst is very low '' @ em_dash @
                 '' logs may be silently dropped under load'')
                [''to inspect: grep RateLimit /etc/systemd/journald.conf'',
                 ''to fix:     echo '' @ squote @ ''RateLimitBurst=10000'' @ squote @
                 '' >> /etc/systemd/journald.conf'',
                 ''to fix:     systemctl restart systemd-journald'']]
      else []) @
     (if logs_JournalNoTextFallback logs \<and> \<not> logs_JournalVolatile logs
        then [mk_full INFO ''Logs''
                (''no text log fallback detected (rsyslog/syslog-ng not running) '' @ em_dash @
                 '' logs require journalctl to read'')
                [''to fix: apt install rsyslog  OR  dnf install rsyslog  OR  zypper install rsyslog'',
                 ''note:   without a text fallback, logs are unreadable if journald corrupts or system partially fails'',
                 ''note:   standard Unix tools (grep, tail, less) cannot read binary journal files'']]
      else []) @
     (if logs_JournalUnbounded logs
        then [mk_full WARN ''Logs''
                (''journald has no SystemMaxUse cap '' @ em_dash @ '' journal is '' @
                 fmt_f 1 (logs_JournalSizeGB logs) @ '' GB and growing unbounded'')
                [''to fix: echo '' @ squote @ ''SystemMaxUse=2G'' @ squote @
                 '' >> /etc/systemd/journald.conf'', ''to fix: systemctl restart systemd-journald'',
                 ''to fix: journalctl --vacuum-size=2G  (immediate cleanup)'']]
      else []) @
     (if logs_JournalSyncRisk logs
        then [mk_full INFO ''Logs''
                (''journald SyncIntervalSec is high (default 5min) '' @ em_dash @
                 '' final log lines from a crashing process may be lost'')
                [''to fix: echo '' @ squote @ ''SyncIntervalSec=30s'' @ squote @
                 '' >> /etc/systemd/journald.conf'', ''to fix: systemctl restart systemd-journald'',
                 ''note:   lower sync interval increases disk I/O but ensures crash logs are preserved'']]
      else []) @
     (if fle (Fin 90) (logs_LogDiskUsedPct logs)
        then [mk_full CRIT ''Logs''
                (''log volume '' @ logs_LogDiskMount logs @ '' is '' @
                 fmt_f 0 (logs_LogDiskUsedPct logs) @ ''% full '' @ em_dash @
                 '' journald may stop writing logs'')
                [''to inspect: df -h '' @ logs_LogDiskMount logs, inspectJournalDiskUse,
                 ''to fix:     journalctl --vacuum-size=500M'',
                 ''to fix:     journalctl --vacuum-time=7d'']]
      else if fle (Fin 80) (logs_LogDiskUsedPct logs)
        then [mk_full WARN ''Logs''
                (''log volume '' @ logs_LogDiskMount logs @ '' is '' @
                 fmt_f 0 (logs_LogDiskUsedPct logs) @ ''% full '' @ em_dash @
                 '' monitor to prevent log loss'')
                [''to inspect: df -h '' @ logs_LogDiskMount logs, inspectJournalDiskUse,
                 ''to fix:     journalctl --vacuum-size=1G'']]
      else [])"

definition checkJournalActivity :: "environment \<Rightarrow> logs_info \<Rightarrow> insight list" where
  "checkJournalActivity env logs =
     (if 0 < logs_CoreDumpCount logs
        then (let paths =
                    concat (map
                              (\<lambda>cf.
                                [crashFile_Path cf @ '' ('' @ fmt_f 1 (crashFile_SizeMB cf) @
                                 ''MB, '' @ itoa (crashFile_AgeDays cf) @ ''d ago)''])
                              (logs_CrashFiles logs))
              in [mk_full WARN ''Logs''
                    (itoa (logs_CoreDumpCount logs) @
                     '' crash dump(s)/panic record(s) found in the last 30 days'')
                    ([''to inspect: ls -lh /var/crash/ /var/lib/systemd/coredump/ /sys/fs/pstore/'',
                      ''to analyse: journalctl -k -b -1 | tail -50  (previous boot kernel log)''] @
                     paths)])
      else []) @
     (if 50 < logs_ErrorCount logs
        then (let hints = [];
                  hints =
                    hints @
                    [''to inspect: journalctl -p err --since '' @ squote @ ''1 hour ago'' @ squote @
                     '' --no-pager | tail -30''];
                  hints = hints @ logs_TopErrors logs
              in [mk_full WARN ''Logs''
                    (itoa (logs_ErrorCount logs) @ '' error(s) logged in the last hour'') hints])
      else if 10 < logs_ErrorCount logs
        then [mk_full INFO ''Logs''
                (itoa (logs_ErrorCount logs) @ '' error(s) logged in the last hour '' @ em_dash @
                 '' check if expected'')
                [''to inspect: journalctl -p err --since '' @ squote @ ''1 hour ago'' @ squote @
                 '' --no-pager'']]
      else if logs_ErrorCountUnverified logs
        then [needsRootInsight (IsRoot env) INFO ''Logs''
                (''could not read journal error counts '' @ em_dash @
                 '' recent errors are unverified'')
                [''to inspect: journalctl -p err --since '' @ squote @ ''1 hour ago'' @ squote @
                 '' --no-pager  (run as root?)'', ''to inspect: systemctl status systemd-journald'']]
      else [])"

definition checkEntropy :: "entropy_info \<Rightarrow> insight list" where
  "checkEntropy e =
     (if \<not> entropy_Available e then []
      else if entropy_EntropyBits e < 64
        then [mk_full CRIT ''Entropy''
                (''entropy pool critically low ('' @ itoa (entropy_EntropyBits e) @ '' bits) '' @
                 em_dash @ '' crypto operations may block or fail'')
                [''to inspect: cat /proc/sys/kernel/random/entropy_avail'',
                 ''to fix: install haveged or rng-tools'']]
      else if entropy_EntropyBits e < 256
        then [mk_full WARN ''Entropy''
                (''entropy pool low ('' @ itoa (entropy_EntropyBits e) @ '' bits) '' @ em_dash @
                 '' TLS and key generation may slow down'')
                [''to inspect: cat /proc/sys/kernel/random/entropy_avail'',
                 ''to fix: install haveged or rng-tools'']]
      else [])"

definition checkProcesses :: "environment \<Rightarrow> process_info \<Rightarrow> thresholds \<Rightarrow> insight list" where
  "checkProcesses env proc thresh =
     (if process_ListUnreadable proc
        then [unverifiedInsight ReasonUnreadable INFO ''Processes''
                (''could not list processes '' @ em_dash @
                 '' zombie and hung (D-state) counts not measured'')
                [''to inspect: ps axo pid,ppid,stat,comm'']]
      else []) @
     (if process_ListRestricted proc
        then [needsRootInsight (IsRoot env) INFO ''Processes''
                (''process list hides other users'' @ squote @
                 '' processes (hidepid / ProtectProc) '' @ em_dash @
                 '' zombie and hung counts cover only this user'' @ squote @ ''s view'')
                [''to inspect: mount | grep '' @ squote @ ''proc.*hidepid'' @ squote,
                 ''to fix: re-run with sudo'']]
      else []) @
     (if 10 \<le> process_ZombieCount proc
        then [mk_full CRIT ''Processes''
                (itoa (process_ZombieCount proc) @ '' zombie processes detected'')
                [''to inspect: ps aux | grep Z'',
                 ''to inspect: cat /proc/*/status | grep -E '' @ squote @ ''^Name|^State'' @
                 squote @ '' | paste - -'']]
      else if 0 < process_ZombieCount proc \<and> ZombieWarnCount thresh \<le> process_ZombieCount proc
        then [mk_full WARN ''Processes''
                (itoa (process_ZombieCount proc) @ '' zombie process(es) detected'')
                [''to inspect: ps aux | grep Z'']]
      else []) @
     (if 0 < process_HungCount proc \<and> HungDStateCrit thresh \<le> process_HungCount proc
        then [mk_full CRIT ''Processes''
                (itoa (process_HungCount proc) @ '' hung (uninterruptible) processes'')
                [''to inspect: ps aux | grep '' @ squote @ '' D '' @ squote,
                 ''to inspect: for pid in $(ps -eo pid,stat | awk '' @ squote @
                 ''$2~/D/{print $1}'' @ squote @ ''); do cat /proc/$pid/wchan 2>/dev/null; done'']]
      else if 0 < process_HungCount proc
        then [mk_full WARN ''Processes''
                (itoa (process_HungCount proc) @ '' hung (uninterruptible) process(es)'')
                [''to inspect: ps aux | grep '' @ squote @ '' D '' @ squote]]
      else [])"

definition checkServices :: "services_info \<Rightarrow> insight list" where
  "checkServices s =
     concat (map
               (\<lambda>r.
                 let addr = serviceResult_Host r @ '':'' @ itoa (serviceResult_Port r);
                     safeHost = ''<host>'';
                     safeHost =
                       (if looksLikeSafeToken (serviceResult_Host r) then serviceResult_Host r
                        else safeHost);
                     safeProtocol = ''<protocol>'';
                     safeProtocol =
                       (if looksLikeSafeToken (serviceResult_Protocol r)
                          then serviceResult_Protocol r
                        else safeProtocol)
                 in if serviceResult_Status r = CRIT
                      then [mk_full CRIT ''Services''
                              (serviceResult_Name r @ '' ('' @ addr @ '') returned HTTP '' @
                               itoa (serviceResult_StatusCode r))
                              [''to inspect: curl -v '' @ safeProtocol @ ''://'' @ safeHost @
                               '':'' @ itoa (serviceResult_Port r)]]
                    else if \<not> serviceResult_Reachable r
                      then (let msg = serviceResult_Name r @ '' ('' @ addr @ '') unreachable'';
                                msg =
                                  (if serviceResult_Error r \<noteq> []
                                     then msg @ '': '' @ serviceResult_Error r
                                   else msg)
                            in [mk_full WARN ''Services'' msg
                                  [''to inspect: nc -zv '' @ safeHost @ '' '' @
                                   itoa (serviceResult_Port r)]])
                    else [])
               (services_Results s))"

definition checkDBus :: "environment \<Rightarrow> d_bus_info \<Rightarrow> insight list" where
  "checkDBus env d =
     (if dBus_Status d = ''n/a'' \<or> dBus_Active d then []
      else if dBus_Status d \<noteq> ''failed'' \<and> dBus_Status d \<noteq> ''inactive''
        then [unverifiedInsight ReasonCollectorError INFO ''DBus''
                (''D-Bus state could not be determined (status: '' @ Quote env (dBus_Status d) @
                 '') '' @ em_dash @ '' health unverified, not assumed failed'')
                [''to inspect: systemctl is-active dbus'',
                 ''to inspect: systemctl status dbus --no-pager'',
                 ''note: if `systemctl is-active dbus` reports active, the bus is fine and this is a query artifact'']]
      else let hints =
                 [''to inspect: systemctl status dbus.service'',
                  ''to inspect: journalctl -u dbus.service -n 20'',
                  ''note: D-Bus failure cascades '' @ em_dash @
                  '' NetworkManager, systemd-logind, and other services will also fail'',
                  ''note: check SELinux policy type: cat /etc/selinux/config | grep SELINUXTYPE''];
               hints =
                 (if dBus_LastError d \<noteq> [] then [''last error: '' @ dBus_LastError d] @ hints
                  else hints)
           in [mk_full CRIT ''DBus''
                 (''D-Bus system message bus has failed '' @ em_dash @
                  '' all IPC-dependent services are affected'') hints])"

definition checkOOM :: "environment \<Rightarrow> oom_info \<Rightarrow> insight list" where
  "checkOOM env oom =
     (if oom_StatusReason oom \<noteq> []
        then [needsRootInsight (IsRoot env) INFO ''OOM''
                (''OOM check not verified '' @ em_dash @ '' '' @ oom_StatusReason oom)
                [''to inspect: journalctl -k | grep -i '' @ squote @ ''out of memory'' @ squote @
                 ''   (run as root)'', ''note: kernel.dmesg_restrict=1 blocks non-root dmesg'']]
      else (if oom_EventsCountUnverified oom
              then [unverifiedInsight ReasonCollectorError INFO ''OOM''
                      (''OOM event count may be incomplete '' @ em_dash @
                       '' a kernel log line exceeded the scan buffer limit'')
                      [''to inspect: journalctl -k --since '' @ squote @ ''24 hours ago'' @ squote @
                       '' | grep -i '' @ squote @ ''out of memory'' @ squote]]
            else []) @
           (if oom_EventsLast24h oom = 0 then []
            else let victims = [];
                     seen = [];
                     (seen, victims) =
                       foldl
                         (\<lambda>(seen, victims) ev.
                           let victims =
                                 (if \<not> map_get False seen (oomEvent_Process ev)
                                    then victims @ [oomEvent_Process ev]
                                  else victims);
                               seen =
                                 (if \<not> map_get False seen (oomEvent_Process ev)
                                    then map_put seen (oomEvent_Process ev) True
                                  else seen)
                           in (seen, victims))
                         (seen, victims)
                         (oom_RecentEvents oom);
                     msg = itoa (oom_EventsLast24h oom) @ '' OOM kill event(s) in the last 24h'';
                     msg =
                       (if victims \<noteq> []
                          then msg @ '' '' @ em_dash @ '' killed: '' @ join victims '', ''
                        else msg)
                 in [mk_full CRIT ''OOM'' msg
                       [''to inspect: journalctl -k | grep -i '' @ squote @ ''oom'' @ bslash @
                        ''|killed process'' @ squote,
                        ''to inspect: dmesg | grep -i '' @ squote @ ''out of memory'' @ squote,
                        inspectFreeH, inspectPsMemHead,
                        ''note: OOM kills are silent '' @ em_dash @
                        '' services may restart without apparent cause'']]))"

definition checkMTE :: "mte_info \<Rightarrow> insight list" where
  "checkMTE m =
     (if \<not> mte_Available m then []
      else if mte_StatusReason m \<noteq> []
        then [unverifiedInsight ReasonCollectorError INFO ''MTE''
                (''MTE fault check not verified '' @ em_dash @ '' '' @ mte_StatusReason m)
                [''to inspect: journalctl -k | grep -i '' @ squote @ ''tag check fault'' @ squote @
                 ''   (run as root)'', ''note: kernel.dmesg_restrict=1 blocks non-root dmesg'']]
      else (if \<not> mte_ExceptionTraceEnabled m
              then [mk_full WARN ''MTE''
                      (''ARM Memory Tagging Extension hardware support is present, but kernel fault-signal logging (debug.exception-trace) is off '' @
                       em_dash @
                       '' any tag-check fault will crash a process silently with no forensic trail'')
                      [''to enable (runtime): sysctl -w debug.exception-trace=1'',
                       ''to persist: echo '' @ squote @ ''debug.exception-trace = 1'' @ squote @
                       '' > /etc/sysctl.d/99-mte-trace.conf'',
                       ''note: only matters if a workload here intentionally uses MTE (hardened allocators, memory-safety testing) '' @
                       em_dash @ '' leaving it off is not itself a fault'']]
            else []) @
           concat (map
                     (\<lambda>ev.
                       [mk_full CRIT ''MTE''
                          (''process '' @ mteFaultEvent_Process ev @ '' (pid '' @
                           itoa (mteFaultEvent_PID ev) @
                           '') crashed on a hardware memory-safety fault (ARM MTE '' @
                           mteFaultEvent_FaultType ev @ '' tag-check) '' @ em_dash @
                           '' likely a genuine memory-corruption bug (buffer overflow / use-after-free), not resource exhaustion or app misbehavior'')
                          [''to inspect: journalctl -k | grep -i '' @ squote @ ''tag check fault'' @
                           squote @ ''   (full register dump)'',
                           ''note: triage at the code level '' @ em_dash @
                           '' this is a hardware-caught memory-safety violation, not a generic segfault'']])
                     (mte_RecentFaults m)))"

definition checkPressure :: "pressure_info \<Rightarrow> insight list" where
  "checkPressure p =
     (if \<not> pressure_Available p then []
      else (if pressure_UnreadableMetrics p \<noteq> []
              then [unverifiedInsight ReasonUnreadable INFO ''Pressure''
                      (''PSI could not be read for: '' @
                       join (pressure_UnreadableMetrics p) '', '' @ '' '' @ em_dash @
                       '' stall pressure for those resources not measured'')
                      [''to inspect: cat /proc/pressure/memory /proc/pressure/cpu /proc/pressure/io'']]
            else []) @
           (if fle (Fin 10) (psiLine_Avg60 (pressure_MemoryFull p))
              then [mk_full CRIT ''Pressure''
                      (''memory full stall '' @ fmt_f 1 (psiLine_Avg60 (pressure_MemoryFull p)) @
                       ''% avg60 '' @ em_dash @ '' tasks blocked waiting for memory'')
                      [''to inspect: cat /proc/pressure/memory'', inspectFreeH, inspectPsMemHead,
                       ''note: OOM kill may be imminent '' @ em_dash @ '' act now'']]
            else if fle (Fin 20) (psiLine_Avg60 (pressure_MemorySome p))
              then [mk_full WARN ''Pressure''
                      (''memory pressure '' @ fmt_f 1 (psiLine_Avg60 (pressure_MemorySome p)) @
                       ''% avg60 '' @ em_dash @ '' some tasks delayed waiting for memory'')
                      [''to inspect: cat /proc/pressure/memory'', inspectFreeH]]
            else []) @
           (if fle (Fin 5) (psiLine_Avg60 (pressure_IOFull p))
              then [mk_full WARN ''Pressure''
                      (''IO full stall '' @ fmt_f 1 (psiLine_Avg60 (pressure_IOFull p)) @
                       ''% avg60 '' @ em_dash @ '' all tasks blocked on disk IO'')
                      [''to inspect: cat /proc/pressure/io'', inspectIOStat, inspectIotop]]
            else []) @
           (if fle (Fin 30) (psiLine_Avg60 (pressure_CPUSome p))
              then [mk_full WARN ''Pressure''
                      (''CPU pressure '' @ fmt_f 1 (psiLine_Avg60 (pressure_CPUSome p)) @
                       ''% avg60 '' @ em_dash @ '' tasks waiting for CPU time'')
                      [''to inspect: cat /proc/pressure/cpu'', ''to inspect: uptime'',
                       ''to inspect: ps aux --sort=-%cpu | head -10'']]
            else []))"

definition checkHugePages :: "huge_pages_info \<Rightarrow> insight list" where
  "checkHugePages h =
     (if hugePages_StatusReason h \<noteq> []
        then [unverifiedInsight ReasonCollectorError INFO ''HugePages'' (hugePages_StatusReason h)
                []]
      else if hugePages_Configured h = 0 \<and> \<not> hugePages_THPEnabled h then []
      else (if 0 < hugePages_Configured h
              then (let usedPct =
                          fmul
                            (fdiv (f_of_int (hugePages_Used h)) (f_of_int (hugePages_Configured h)))
                            (Fin 100)
                    in (if flt usedPct (Fin 20) \<and> fle (Fin 1) (hugePages_ReservedGB h)
                          then [mk_full WARN ''HugePages''
                                  (fmt_f 0 (fsub (Fin 100) usedPct) @ ''% of huge pages unused '' @
                                   em_dash @ '' '' @ fmt_f 1 (hugePages_ReservedGB h) @
                                   '' GB locked and wasted (used '' @ itoa (hugePages_Used h) @
                                   ''/'' @ itoa (hugePages_Configured h) @ '' pages)'')
                                  [''to inspect: grep Huge /proc/meminfo'',
                                   ''note: static huge pages lock RAM at boot '' @ em_dash @
                                   '' free unused pages or reduce HugePages_Total'',
                                   ''to fix: echo 0 > /proc/sys/vm/nr_hugepages  (releases all '' @
                                   em_dash @ '' requires workload restart)'']]
                        else []) @
                       (if fle (Fin 100) usedPct \<and> 0 < hugePages_Configured h
                          then [mk_full INFO ''HugePages''
                                  (''all '' @ itoa (hugePages_Configured h) @
                                   '' huge pages in use ('' @ fmt_f 1 (hugePages_ReservedGB h) @
                                   '' GB) '' @ em_dash @
                                   '' consider increasing if workload allows'')
                                  [''to inspect: grep Huge /proc/meminfo'',
                                   ''to add more: sysctl -w vm.nr_hugepages=<N>'']]
                        else []))
            else []) @
           (if hugePages_THPMode h = ''always''
              then [mk_full INFO ''HugePages''
                      (''transparent huge pages mode is '' @ squote @ ''always'' @ squote @ '' '' @
                       em_dash @ '' may cause latency spikes for database workloads'')
                      [''to inspect: cat /sys/kernel/mm/transparent_hugepage/enabled'',
                       ''to check:   if running MySQL/PostgreSQL/Redis/MongoDB, set to '' @ squote @
                       ''madvise'' @ squote @ '' or '' @ squote @ ''never'' @ squote,
                       ''to fix:     echo madvise > /sys/kernel/mm/transparent_hugepage/enabled'',
                       ''to persist: add to /etc/rc.local or a systemd service'']]
            else []))"

definition checkLaunchd :: "launchd_info \<Rightarrow> insight list" where
  "checkLaunchd l =
     (if \<not> launchd_Checked l
        then [unverifiedInsight ReasonCollectorError INFO ''Launchd''
                (''launchd service check skipped '' @ em_dash @
                 '' `launchctl list` failed, so service health could not be checked'')
                [''to inspect: launchctl list'']]
      else if launchd_Failed l = [] then []
      else let names = concat (map (\<lambda>svc. [launchdService_Label svc]) (launchd_Failed l));
               shown = names;
               suffix = [];
               suffix =
                 (if 3 < int (length shown)
                    then '' (+'' @ itoa (wrap64 (int (length names) - 3)) @ '' more)''
                  else suffix);
               shown = (if 3 < int (length shown) then take (nat 3) shown else shown)
           in [mk_full WARN ''Launchd''
                 (itoa (int (length (launchd_Failed l))) @ '' launchd service(s) failed: '' @
                  join shown '', '' @ suffix)
                 [''to inspect: launchctl list | awk '' @ squote @ ''$2 != 0 && $2 != '' @ dquote @
                  ''-'' @ dquote @ squote,
                  ''to inspect: log show --predicate '' @ squote @ ''subsystem == '' @ dquote @
                  ''com.apple.launchd'' @ dquote @ squote @ '' --last 1h'',
                  ''to fix:     launchctl kickstart system/<label>'']])"

definition checkCgroupUnits :: "cgroup_unit list \<Rightarrow> insight list" where
  "checkCgroupUnits units =
     concat (map
               (\<lambda>u.
                 let hint =
                       (if cgroupUnit_IsContainer u
                          then (let containerName = trim_prefix (cgroupUnit_Name u) ''container:'';
                                    safeContainerName = ''<container>'';
                                    safeContainerName =
                                      (if looksLikeSafeToken containerName then containerName
                                       else safeContainerName)
                                in [''to inspect: docker stats '' @ safeContainerName])
                        else let safeParentSlice = ''<slice>'';
                                 safeUnitName = ''<unit>'';
                                 safeParentSlice =
                                   (if looksLikeSafeToken (cgroupUnit_ParentSlice u)
                                      then cgroupUnit_ParentSlice u
                                    else safeParentSlice);
                                 safeUnitName =
                                   (if looksLikeSafeToken (cgroupUnit_Name u) then cgroupUnit_Name u
                                    else safeUnitName)
                             in [''to inspect: cat /sys/fs/cgroup/'' @ safeParentSlice @ ''/'' @
                                 safeUnitName @ ''/cpu.stat''])
                 in (if flt (Fin 20) (cgroupUnit_ThrottledPct u)
                       then [mk_full CRIT ''Cgroup''
                               (cgroupUnit_Name u @ '' CPU throttled '' @
                                fmt_f 0 (cgroupUnit_ThrottledPct u) @
                                ''% of its run time (since boot) '' @ em_dash @
                                '' chronically hitting cpu.max'') hint]
                     else if flt (Fin 5) (cgroupUnit_ThrottledPct u)
                       then [mk_full WARN ''Cgroup''
                               (cgroupUnit_Name u @ '' CPU throttled '' @
                                fmt_f 0 (cgroupUnit_ThrottledPct u) @
                                ''% of its run time (since boot)'') hint]
                     else []) @
                    (if cgroupUnit_HasMemLimit u \<and> flt (Fin 90) (cgroupUnit_MemUsedPct u)
                       then [mk_full CRIT ''Cgroup''
                               (cgroupUnit_Name u @ '' memory '' @
                                fmt_f 0 (cgroupUnit_MemUsedPct u) @ ''% of limit ('' @
                                fmt_f 0 (cgroupUnit_MemCurrentMB u) @ ''/'' @
                                fmt_f 0 (cgroupUnit_MemLimitMB u) @ '' MB)'') hint]
                     else if cgroupUnit_HasMemLimit u \<and> flt (Fin 75) (cgroupUnit_MemUsedPct u)
                       then [mk_full WARN ''Cgroup''
                               (cgroupUnit_Name u @ '' memory at '' @
                                fmt_f 0 (cgroupUnit_MemUsedPct u) @ ''% of limit'') hint]
                     else []))
               units)"

definition unique :: "gostring list \<Rightarrow> gostring list" where
  "unique ss =
     (let seen = [];
          (seen, out) =
            foldl
              (\<lambda>(seen, out) s.
                let out = (if \<not> map_get False seen s then out @ [s] else out);
                    seen = (if \<not> map_get False seen s then map_put seen s True else seen)
                in (seen, out))
              (seen, [])
              ss
      in out)"

definition isZFSImportUnit :: "gostring \<Rightarrow> bool" where
  "isZFSImportUnit unit \<longleftrightarrow>
     (let base = unitBaseName unit
      in (base = ''zfs-import-scan'' \<or> base = ''zfs-import-cache'') \<or> base = ''zfs-import'')"

definition failedUnitInsight :: "gostring \<Rightarrow> bool \<Rightarrow> bool \<Rightarrow> insight" where
  "failedUnitInsight unit selinuxEnforcing zfsPoolsPresent =
     (let safeUnit = unit;
          safeUnit = (if \<not> looksLikeSafeToken safeUnit then ''<unit>'' else safeUnit)
      in if isBootFilesystemUnit unit
           then mk_full CRIT ''Systemd''
                  (''boot filesystem unit '' @ unit @ '' failed '' @ em_dash @
                   '' a filesystem check/remount did not complete at boot (can drop the host into emergency mode)'')
                  [''to inspect: systemctl status '' @ safeUnit,
                   ''to inspect: journalctl -u '' @ safeUnit @ '' -b --no-pager'',
                   ''to find the device: blkid ; cat /etc/fstab'',
                   ''to repair (offline/unmounted): e2fsck -y <device>   (xfs_repair for XFS)'']
         else if isZFSImportUnit unit \<and> \<not> zfsPoolsPresent
           then mk_full INFO ''Systemd''
                  (''unit '' @ unit @ '' has failed, but no ZFS pools are imported on this host '' @
                   em_dash @ '' expected when ZFS is passed through to a VM or unused'')
                  [''to inspect: systemctl status '' @ safeUnit,
                   ''to verify:  zpool list  (empty = no host pools, so the import failure is benign)'',
                   ''to disable: systemctl disable '' @ safeUnit @
                   ''  (if this host never imports pools)'']
         else let hints =
                    [''to inspect: systemctl status '' @ safeUnit,
                     ''to inspect: journalctl -u '' @ safeUnit @ '' -n 50''];
                  hints =
                    (if selinuxEnforcing
                       then hints @
                            [''note: SELinux is enforcing '' @ em_dash @
                             '' check AVC denials if permissions look correct'',
                             ''to check SELinux: ausearch -m avc -ts recent -c '' @
                             unitBaseName safeUnit]
                     else hints)
              in mk_full CRIT ''Systemd'' (''unit '' @ unit @ '' has failed'') hints)"

definition checkKernelSecurity ::
  "environment \<Rightarrow> kernel_security_info \<Rightarrow> thresholds \<Rightarrow> insight list" where
  "checkKernelSecurity env mac thresh =
     (let seActive =
            (kernelSecurity_SELinuxPresent mac \<and> kernelSecurity_SELinuxMode mac \<noteq> ''disabled'') \<and>
            kernelSecurity_SELinuxMode mac \<noteq> ''unknown'';
          seIndeterminate =
            kernelSecurity_SELinuxPresent mac \<and> kernelSecurity_SELinuxMode mac = ''unknown'';
          aaActive =
            (kernelSecurity_AppArmorPresent mac \<and> kernelSecurity_AppArmorMode mac \<noteq> ''disabled'') \<and>
            kernelSecurity_AppArmorMode mac \<noteq> ''unknown'';
          aaIndeterminate =
            kernelSecurity_AppArmorPresent mac \<and> kernelSecurity_AppArmorMode mac = ''unknown'';
          out = [];
          out =
            (if kernelSecurity_SELinuxPresent mac \<and> kernelSecurity_SELinuxType mac \<noteq> []
               then (let out =
                           (if \<not> kernelSecurity_SELinuxTypeValid mac
                              then out @
                                   [mk_full CRIT catKernelSec
                                      (''SELinux SELINUXTYPE='' @
                                       Quote env (kernelSecurity_SELinuxType mac) @
                                       '' is not a valid policy type (must be: targeted, minimum, mls)'')
                                      [''to inspect: cat /etc/selinux/config'',
                                       ''to fix:     set SELINUXTYPE=targeted in /etc/selinux/config'',
                                       fixSELinuxRelabel,
                                       ''note: invalid SELINUXTYPE causes dbus to fail, cascading to NetworkManager and systemd-logind'']]
                            else if \<not> kernelSecurity_SELinuxPolicyDirOK mac
                              then out @
                                   [mk_full CRIT catKernelSec
                                      (''SELinux SELINUXTYPE='' @
                                       Quote env (kernelSecurity_SELinuxType mac) @
                                       '' policy directory /etc/selinux/'' @
                                       kernelSecurity_SELinuxType mac @ ''/ does not exist'')
                                      [''to fix:     dnf install selinux-policy-'' @
                                       kernelSecurity_SELinuxType mac, fixSELinuxRelabel,
                                       ''note: missing policy directory causes dbus to fail at boot'']]
                            else if \<not> kernelSecurity_SELinuxPolicyPkgOK mac
                              then out @
                                   [mk_full CRIT catKernelSec
                                      (''SELinux policy package selinux-policy-'' @
                                       kernelSecurity_SELinuxType mac @ '' is not installed'')
                                      [''to fix:     dnf install selinux-policy-'' @
                                       kernelSecurity_SELinuxType mac, fixSELinuxRelabel]]
                            else out)
                     in if kernelSecurity_SELinuxRelabelPending mac
                          then out @
                               [mk_full WARN catKernelSec
                                  (''SELinux filesystem relabel is pending '' @ em_dash @
                                   '' reboot required to complete relabeling'')
                                  [''note: /.autorelabel exists '' @ em_dash @
                                   '' system will relabel on next boot'', ''to apply: reboot'']]
                        else out)
             else out);
          out =
            (if kernelSecurity_SELinuxPresent mac \<and> kernelSecurity_SELinuxMode mac = ''permissive''
               then out @
                    [mk_full INFO catKernelSec
                       (''SELinux is permissive '' @ em_dash @
                        '' policy is loaded but NOT enforcing (denials are logged, not blocked)'')
                       [''note: permissive provides audit only, not protection (the Amazon Linux default)'',
                        ''to enforce after reviewing audit.log for would-be denials: setenforce 1, then set SELINUX=enforcing in /etc/selinux/config'']]
             else out);
          out =
            (if seIndeterminate
               then out @
                    [unverifiedInsight ReasonUnreadable INFO catKernelSec
                       (''SELinux is present but its enforce state could not be read '' @ em_dash @
                        '' policy may be mid-load or in an unusual state'')
                       [''to inspect: cat /sys/fs/selinux/enforce   (1=enforcing, 0=permissive)'',
                        ''to inspect: getenforce  /  sestatus'']]
             else out);
          out =
            (if aaIndeterminate
               then out @
                    [needsRootInsight (IsRoot env) INFO catKernelSec
                       (''AppArmor present but mode unreadable '' @ em_dash @ '' re-run as root'')
                       []]
             else out)
      in if \<not> seActive \<and> \<not> aaActive
           then (if GOOS env \<noteq> ''linux'' then out
                 else if out = []
                   then [mk_full INFO catKernelSec ''kernel security module not enforced'' []]
                 else out)
         else let out = (if aaActive then out @ checkAppArmorActive mac else out)
              in if \<not> kernelSecurity_SELinuxPresent mac then out
                 else out @ checkSELinuxDenials mac thresh)"

definition checkJournalHealthInsights :: "environment \<Rightarrow> logs_info \<Rightarrow> insight list" where
  "checkJournalHealthInsights env logs =
     checkJournalConfig logs @ checkJournalActivity env logs"

definition checkSessions :: "sessions_info \<Rightarrow> insight list" where
  "checkSessions s =
     (if \<not> sessions_Checked s
        then [unverifiedInsight ReasonCollectorError INFO ''Sessions''
                (''active session check skipped '' @ em_dash @
                 '' the `w` command is unavailable or failed, so logged-in sessions could not be enumerated'')
                [''to inspect: which w'']]
      else if sessions_TotalCount s = 0 then []
      else (if sessions_RootSSH s
              then (if sessions_IsPVE s
                      then [mk_full INFO ''Sessions''
                              (''root is logged in via SSH '' @ em_dash @
                               '' expected on Proxmox VE (cluster management requires it)'')
                              [inspectW]]
                    else [mk_full CRIT ''Sessions''
                            (''root is logged in via SSH '' @ em_dash @
                             '' direct root SSH access is a security risk'')
                            [inspectW, ''to fix: set PermitRootLogin no in /etc/ssh/sshd_config'',
                             ''to fix: use sudo or su instead of direct root SSH'']])
            else []) @
           (if sessions_LongIdle s \<noteq> []
              then (let users = join (unique (sessions_LongIdle s)) '', ''
                    in [mk_full WARN ''Sessions''
                          (itoa (int (length (sessions_LongIdle s))) @ '' session(s) idle > 8h: '' @
                           users @ '' '' @ em_dash @ '' unattended terminal risk'')
                          [inspectW,
                           ''to fix: set ClientAliveInterval 300 in /etc/ssh/sshd_config to auto-disconnect'']])
            else []) @
           (if 5 < sessions_TotalCount s
              then [mk_full WARN ''Sessions''
                      (itoa (sessions_TotalCount s) @ '' concurrent sessions active '' @ em_dash @
                       '' unusually high for a single server'')
                      [inspectW, ''to inspect: last | head -20'']]
            else []) @
           (if 1 < int (length (sessions_UniqueIPs s))
              then [mk_full INFO ''Sessions''
                      (itoa (sessions_RemoteCount s) @ '' session(s) from '' @
                       itoa (int (length (sessions_UniqueIPs s))) @ '' unique IP(s): '' @
                       join (sessions_UniqueIPs s) '', '') [inspectW]]
            else []))"

definition checkCgroupV2 :: "cgroup_v2_info \<Rightarrow> insight list" where
  "checkCgroupV2 cg =
     (if \<not> cgroupV2_Available cg then []
      else (if 0 < cgroupV2_OOMKills cg
              then [mk_full INFO ''Cgroup''
                      (''cgroup OOM kill counter = '' @ itoa (cgroupV2_OOMKills cg) @
                       '' since boot (lifetime total, not necessarily recent)'')
                      [''recency: see the Logs/OOM check '' @ em_dash @
                       '' it windows OOM events to the last 24h'',
                       ''to inspect: cat /sys/fs/cgroup/memory.events'',
                       ''to identify: dmesg | grep -i '' @ squote @ ''oom_kill'' @ bslash @
                       ''|out of memory'' @ squote]]
            else []) @
           concat (map
                     (\<lambda>s.
                       let safeSliceName = ''<slice>'';
                           safeSliceName =
                             (if looksLikeSafeToken (cgroupSlice_Name s) then cgroupSlice_Name s
                              else safeSliceName)
                       in (if flt (Fin 20) (cgroupSlice_ThrottledPct s)
                             then [mk_full CRIT ''Cgroup''
                                     (cgroupSlice_Name s @ '' CPU throttled '' @
                                      fmt_f 0 (cgroupSlice_ThrottledPct s) @
                                      ''% of its run time (since boot) '' @ em_dash @
                                      '' chronically hitting cpu.max'')
                                     [''to inspect: cat /sys/fs/cgroup/'' @ safeSliceName @
                                      ''/cpu.stat'',
                                      ''to fix: increase or remove cpu.max in /sys/fs/cgroup/'' @
                                      safeSliceName @ ''/cpu.max'',
                                      ''note: lifetime ratio '' @ em_dash @
                                      '' throttling causes latency spikes even when overall CPU is idle'']]
                           else if flt (Fin 5) (cgroupSlice_ThrottledPct s)
                             then [mk_full WARN ''Cgroup''
                                     (cgroupSlice_Name s @ '' CPU throttled '' @
                                      fmt_f 0 (cgroupSlice_ThrottledPct s) @
                                      ''% of its run time (since boot)'')
                                     [''to inspect: cat /sys/fs/cgroup/'' @ safeSliceName @
                                      ''/cpu.stat'']]
                           else []) @
                          (if cgroupSlice_HasMemLimit s \<and> flt (Fin 90) (cgroupSlice_MemUsedPct s)
                             then [mk_full CRIT ''Cgroup''
                                     (cgroupSlice_Name s @ '' memory '' @
                                      fmt_f 0 (cgroupSlice_MemUsedPct s) @ ''% of limit ('' @
                                      fmt_f 0 (cgroupSlice_MemCurrentMB s) @ ''/'' @
                                      fmt_f 0 (cgroupSlice_MemLimitMB s) @ '' MB)'')
                                     [''to inspect: cat /sys/fs/cgroup/'' @ safeSliceName @
                                      ''/memory.current'',
                                      ''to inspect: cat /sys/fs/cgroup/'' @ safeSliceName @
                                      ''/memory.events'',
                                      ''note: at 100% the kernel will OOM-kill processes in this slice'']]
                           else if cgroupSlice_HasMemLimit s \<and>
                                   flt (Fin 75) (cgroupSlice_MemUsedPct s)
                             then [mk_full WARN ''Cgroup''
                                     (cgroupSlice_Name s @ '' memory at '' @
                                      fmt_f 0 (cgroupSlice_MemUsedPct s) @ ''% of limit'')
                                     [''to inspect: cat /sys/fs/cgroup/'' @ safeSliceName @
                                      ''/memory.current'']]
                           else []))
                     (cgroupV2_Slices cg)) @
           checkCgroupUnits (cgroupV2_Units cg))"

definition checkSystemd :: "systemd_info \<Rightarrow> insight list" where
  "checkSystemd sys =
     (if \<not> systemd_Available sys then []
      else (if systemd_FailedUnitsUnknown sys
              then [unverifiedInsight ReasonCollectorError INFO ''Systemd''
                      (''could not list failed units '' @ em_dash @
                       '' systemctl list-units did not complete; failed-unit status is unverified'')
                      [''to check manually: systemctl --failed'',
                       ''note: the query may have timed out under load '' @ em_dash @
                       '' re-run when the host is quieter'']]
            else []) @
           (if systemd_SSHDStatusUnverified sys
              then [unverifiedInsight ReasonCollectorError INFO ''Systemd''
                      (''some suppressed sshd@ connection instances'' @ squote @
                       '' exit status could not be confirmed benign '' @ em_dash @
                       '' a real per-connection sshd fault cannot be ruled out'')
                      [''to inspect: systemctl --failed | grep sshd@'',
                       ''to inspect: systemctl show <unit> -p ExecMainStatus --value'']]
            else []) @
           (if systemd_SystemState sys = ''maintenance''
              then [mk_full CRIT ''Systemd''
                      (''system is in emergency/rescue mode '' @ em_dash @
                       '' the boot did not complete (a maintenance shell is active, not the default target)'')
                      [''to inspect: journalctl -b -p err --no-pager'',
                       ''to inspect: systemctl --failed'',
                       ''common cause: a root/fstab filesystem failed its boot-time fsck '' @
                       em_dash @ '' check systemctl status systemd-fsck-root.service'',
                       ''to resume normal boot once fixed: systemctl default   (or reboot)'']]
            else []) @
           concat (map
                     (\<lambda>unit.
                       [failedUnitInsight unit (systemd_SELinuxEnforcing sys)
                          (systemd_ZFSPoolsPresent sys)])
                     (systemd_FailedUnits sys)) @
           (let n = int (length (systemd_NeedsDaemonReload sys))
            in if 0 < n
                 then [mk_full WARN ''Systemd''
                         (itoa n @ '' unit(s) have modified files pending reload '' @ em_dash @
                          '' running stale config: '' @
                          join (firstN (systemd_NeedsDaemonReload sys) 5) '', '')
                         [''to fix: systemctl daemon-reload'',
                          ''note: the unit file on disk changed since systemd loaded it; restart the unit to apply'']]
               else []) @
           concat (map
                     (\<lambda>u.
                       if fle (Fin 10) (slowUnit_Duration u)
                         then (let safeUnit = slowUnit_Name u;
                                   safeUnit =
                                     (if \<not> looksLikeSafeToken safeUnit then ''<unit-name>''
                                      else safeUnit);
                                   hints = [];
                                   hints =
                                     hints @
                                     [''to inspect: systemctl status '' @ safeUnit,
                                      ''to inspect: journalctl -u '' @ safeUnit @ '' -b'',
                                      ''to analyse:  systemd-analyze blame'',
                                      ''to plot:     systemd-analyze plot > boot.svg''];
                                   hints = hints @ slowBootFix (slowUnit_Name u)
                               in [mk_full WARN ''Systemd''
                                     (''slow boot unit: '' @ slowUnit_Name u @ '' took '' @
                                      fmt_f 1 (slowUnit_Duration u) @ ''s'') hints])
                       else [])
                     (systemd_SlowUnits sys)) @
           (if flt (Fin 30) (systemd_TotalBootSec sys) \<and> systemd_SlowUnits sys = []
              then [mk_full INFO ''Systemd''
                      (''total boot time '' @ fmt_f 0 (systemd_TotalBootSec sys) @ ''s '' @
                       em_dash @ '' run systemd-analyze blame to find slow units'')
                      [''to analyse: systemd-analyze blame'',
                       ''to plot:    systemd-analyze plot > boot.svg'']]
            else []))"

definition checkLogs :: "environment \<Rightarrow> logs_info \<Rightarrow> thresholds \<Rightarrow> insight list" where
  "checkLogs env logs thresh =
     (if logs_NeedsRoot logs
        then [needsRootInsight (IsRoot env) INFO ''Logs''
                (''some checks limited '' @ em_dash @
                 '' run as root for OOM/segfault detection via /dev/kmsg and auth log analysis'')
                []]
      else []) @
     (if logs_KmsgUnreadable logs
        then [needsRootInsight (IsRoot env) INFO ''Logs''
                (''kernel ring buffer (/dev/kmsg) unreadable this run '' @ em_dash @
                 '' OOM/segfault/lockup counts from it could not be determined'')
                [''to inspect: dmesg | tail -50'']]
      else []) @
     (let unmeasured = [];
          unmeasured =
            (if logs_CrashLoopsUnverified logs then unmeasured @ [''crash loops''] else unmeasured);
          unmeasured =
            (if logs_CrashFilesUnreadable logs then unmeasured @ [''crash/core dump files'']
             else unmeasured);
          unmeasured =
            (if logs_JournalSizeUnreadable logs then unmeasured @ [''journal size''] else unmeasured);
          unmeasured =
            (if logs_JournalCorruptUnverified logs then unmeasured @ [''journal corruption'']
             else unmeasured)
      in (if unmeasured \<noteq> []
            then (let ins =
                        needsRootInsight (IsRoot env) INFO ''Logs''
                          (''could not verify: '' @ join unmeasured '', '' @ '' '' @ em_dash @
                           '' a zero here is not a measured clean result'')
                          [''to inspect: systemctl list-units --state=failed'',
                           inspectJournalDiskUse,
                           ''check: re-run as root (journal group / /var/crash access)''];
                      ins =
                        (if logs_CrashLoopsUnverified logs then ins\<lparr>NeedsRoot := False\<rparr> else ins)
                  in [ins])
          else []) @
         (let l =
                levelPct (logs_JournalSizeGB logs) (JournalSizeWarnGB thresh)
                  (JournalSizeCritGB thresh)
          in if l \<noteq> []
               then [mk_full l ''Logs''
                       (''journal is '' @ fmt_f 1 (logs_JournalSizeGB logs) @ '' GB'')
                       [inspectJournalDiskUse, ''to fix: journalctl --vacuum-size=1G'',
                        ''to fix: journalctl --vacuum-time=7d'']]
             else []) @
         (if 0 < logs_OOMKills logs
            then (let procs = join (logs_OOMProcesses logs) '', ''
                  in [mk_full CRIT ''Logs''
                        (itoa (logs_OOMKills logs) @ '' OOM kill(s) in the last hour '' @ em_dash @
                         '' processes killed: '' @ procs)
                        [''to inspect: dmesg | grep -i '' @ squote @ ''out of memory'' @ squote,
                         inspectFreeH]])
          else []) @
         (if 0 < logs_Segfaults logs
            then (let procs = join (logs_SegfaultProcs logs) '', ''
                  in [mk_full WARN ''Logs''
                        (itoa (logs_Segfaults logs) @ '' segfault(s) in the last hour '' @ em_dash @
                         '' processes: '' @ procs)
                        [''to inspect: dmesg | grep segfault'',
                         ''to inspect: journalctl -p err -n 50'']])
          else []) @
         concat (map
                   (\<lambda>unit.
                     [mk_full CRIT ''Logs'' (''crash loop detected: '' @ unit)
                        [''to inspect: journalctl -u '' @ hd (Go_Prelude.fields unit) @ '' -n 50'']])
                   (logs_CrashLoops logs)) @
         (if 0 < logs_SoftLockups logs
            then [mk_full CRIT ''Logs''
                    (itoa (logs_SoftLockups logs) @ '' soft lockup(s) detected '' @ em_dash @
                     '' CPU stuck in kernel context'')
                    [''to inspect: dmesg | grep -i '' @ squote @ ''soft lockup'' @ squote,
                     ''to inspect: check for runaway kernel threads or NFS hangs'']]
          else []) @
         (if 0 < logs_HardLockups logs
            then [mk_full CRIT ''Logs''
                    (itoa (logs_HardLockups logs) @ '' hard lockup(s) detected '' @ em_dash @
                     '' CPU unresponsive, NMI watchdog fired'')
                    [''to inspect: dmesg | grep -i '' @ squote @ ''hard lockup'' @ squote,
                     ''to inspect: likely hardware issue '' @ em_dash @ '' check memory and CPU'']]
          else []) @
         (if 0 < logs_KernelPanics logs
            then [mk_full CRIT ''Logs''
                    (itoa (logs_KernelPanics logs) @ '' kernel panic record(s) found '' @ em_dash @
                     '' system crashed previously'')
                    [''to inspect: ls /sys/fs/pstore/'', ''to inspect: dmesg | grep -i panic'',
                     ''to inspect: check /var/crash if kdump is enabled'']]
          else []) @
         nvmeEventInsights logs @
         checkJournalHealthInsights env logs)"

section \<open>Well-formedness\<close>

lemma checkFD_wf [wf_rules]: "wf_insights (checkFD fd thresh)"
  unfolding checkFD_def by (intro wf_lets wf_rules level_facts; (assumption | erule (1) level_open; intro level_facts | erule level_nonempty; intro level_facts | elim level_elims; (intro level_facts)?; assumption?))

lemma checkSysctl_wf [wf_rules]: "wf_insights (checkSysctl sysctl)"
  unfolding checkSysctl_def by (intro wf_lets wf_rules level_facts; (assumption | erule (1) level_open; intro level_facts | erule level_nonempty; intro level_facts | elim level_elims; (intro level_facts)?; assumption?))

lemma checkAppArmorActive_wf [wf_rules]: "wf_insights (checkAppArmorActive mac)"
  unfolding checkAppArmorActive_def by (intro wf_lets wf_rules level_facts; (assumption | erule (1) level_open; intro level_facts | erule level_nonempty; intro level_facts | elim level_elims; (intro level_facts)?; assumption?))

lemma checkSELinuxDenials_wf [wf_rules]: "wf_insights (checkSELinuxDenials mac thresh)"
  unfolding checkSELinuxDenials_def by (intro wf_lets wf_rules level_facts; (assumption | erule (1) level_open; intro level_facts | erule level_nonempty; intro level_facts | elim level_elims; (intro level_facts)?; assumption?))

lemma nvmeEventInsights_wf [wf_rules]: "wf_insights (nvmeEventInsights logs)"
  unfolding nvmeEventInsights_def by (intro wf_lets wf_rules level_facts; (assumption | erule (1) level_open; intro level_facts | erule level_nonempty; intro level_facts | elim level_elims; (intro level_facts)?; assumption?))

lemma journalVolatileInsight_wf [wf_rules]: "wf_insight (journalVolatileInsight logs)"
  unfolding journalVolatileInsight_def by (intro wf_lets wf_rules level_facts; (assumption | erule (1) level_open; intro level_facts | erule level_nonempty; intro level_facts | elim level_elims; (intro level_facts)?; assumption?))

lemma checkJournalConfig_wf [wf_rules]: "wf_insights (checkJournalConfig logs)"
  unfolding checkJournalConfig_def by (intro wf_lets wf_rules level_facts; (assumption | erule (1) level_open; intro level_facts | erule level_nonempty; intro level_facts | elim level_elims; (intro level_facts)?; assumption?))

lemma checkJournalActivity_wf [wf_rules]: "wf_insights (checkJournalActivity env logs)"
  unfolding checkJournalActivity_def by (intro wf_lets wf_rules level_facts; (assumption | erule (1) level_open; intro level_facts | erule level_nonempty; intro level_facts | elim level_elims; (intro level_facts)?; assumption?))

lemma checkEntropy_wf [wf_rules]: "wf_insights (checkEntropy e)"
  unfolding checkEntropy_def by (intro wf_lets wf_rules level_facts; (assumption | erule (1) level_open; intro level_facts | erule level_nonempty; intro level_facts | elim level_elims; (intro level_facts)?; assumption?))

lemma checkProcesses_wf [wf_rules]: "wf_insights (checkProcesses env proc thresh)"
  unfolding checkProcesses_def by (intro wf_lets wf_rules level_facts; (assumption | erule (1) level_open; intro level_facts | erule level_nonempty; intro level_facts | elim level_elims; (intro level_facts)?; assumption?))

lemma checkServices_wf [wf_rules]: "wf_insights (checkServices s)"
  unfolding checkServices_def by (intro wf_lets wf_rules level_facts; (assumption | erule (1) level_open; intro level_facts | erule level_nonempty; intro level_facts | elim level_elims; (intro level_facts)?; assumption?))

lemma checkDBus_wf [wf_rules]: "wf_insights (checkDBus env d)"
  unfolding checkDBus_def by (intro wf_lets wf_rules level_facts; (assumption | erule (1) level_open; intro level_facts | erule level_nonempty; intro level_facts | elim level_elims; (intro level_facts)?; assumption?))

lemma checkOOM_wf [wf_rules]: "wf_insights (checkOOM env oom)"
  unfolding checkOOM_def by (intro wf_lets wf_rules level_facts; (assumption | erule (1) level_open; intro level_facts | erule level_nonempty; intro level_facts | elim level_elims; (intro level_facts)?; assumption?))

lemma checkMTE_wf [wf_rules]: "wf_insights (checkMTE m)"
  unfolding checkMTE_def by (intro wf_lets wf_rules level_facts; (assumption | erule (1) level_open; intro level_facts | erule level_nonempty; intro level_facts | elim level_elims; (intro level_facts)?; assumption?))

lemma checkPressure_wf [wf_rules]: "wf_insights (checkPressure p)"
  unfolding checkPressure_def by (intro wf_lets wf_rules level_facts; (assumption | erule (1) level_open; intro level_facts | erule level_nonempty; intro level_facts | elim level_elims; (intro level_facts)?; assumption?))

lemma checkHugePages_wf [wf_rules]: "wf_insights (checkHugePages h)"
  unfolding checkHugePages_def by (intro wf_lets wf_rules level_facts; (assumption | erule (1) level_open; intro level_facts | erule level_nonempty; intro level_facts | elim level_elims; (intro level_facts)?; assumption?))

lemma checkLaunchd_wf [wf_rules]: "wf_insights (checkLaunchd l)"
  unfolding checkLaunchd_def by (intro wf_lets wf_rules level_facts; (assumption | erule (1) level_open; intro level_facts | erule level_nonempty; intro level_facts | elim level_elims; (intro level_facts)?; assumption?))

lemma checkCgroupUnits_wf [wf_rules]: "wf_insights (checkCgroupUnits units)"
  unfolding checkCgroupUnits_def by (intro wf_lets wf_rules level_facts; (assumption | erule (1) level_open; intro level_facts | erule level_nonempty; intro level_facts | elim level_elims; (intro level_facts)?; assumption?))

lemma failedUnitInsight_wf [wf_rules]: "wf_insight (failedUnitInsight unit selinuxEnforcing zfsPoolsPresent)"
  unfolding failedUnitInsight_def by (intro wf_lets wf_rules level_facts; (assumption | erule (1) level_open; intro level_facts | erule level_nonempty; intro level_facts | elim level_elims; (intro level_facts)?; assumption?))

lemma checkKernelSecurity_wf [wf_rules]: "wf_insights (checkKernelSecurity env mac thresh)"
  unfolding checkKernelSecurity_def by (intro wf_lets wf_rules level_facts; (assumption | erule (1) level_open; intro level_facts | erule level_nonempty; intro level_facts | elim level_elims; (intro level_facts)?; assumption?))

lemma checkJournalHealthInsights_wf [wf_rules]: "wf_insights (checkJournalHealthInsights env logs)"
  unfolding checkJournalHealthInsights_def by (intro wf_lets wf_rules level_facts; (assumption | erule (1) level_open; intro level_facts | erule level_nonempty; intro level_facts | elim level_elims; (intro level_facts)?; assumption?))

lemma checkSessions_wf [wf_rules]: "wf_insights (checkSessions s)"
  unfolding checkSessions_def by (intro wf_lets wf_rules level_facts; (assumption | erule (1) level_open; intro level_facts | erule level_nonempty; intro level_facts | elim level_elims; (intro level_facts)?; assumption?))

lemma checkCgroupV2_wf [wf_rules]: "wf_insights (checkCgroupV2 cg)"
  unfolding checkCgroupV2_def by (intro wf_lets wf_rules level_facts; (assumption | erule (1) level_open; intro level_facts | erule level_nonempty; intro level_facts | elim level_elims; (intro level_facts)?; assumption?))

lemma checkSystemd_wf [wf_rules]: "wf_insights (checkSystemd sys)"
  unfolding checkSystemd_def by (intro wf_lets wf_rules level_facts; (assumption | erule (1) level_open; intro level_facts | erule level_nonempty; intro level_facts | elim level_elims; (intro level_facts)?; assumption?))

lemma checkLogs_wf [wf_rules]: "wf_insights (checkLogs env logs thresh)"
  unfolding checkLogs_def by (intro wf_lets wf_rules level_facts; (assumption | erule (1) level_open; intro level_facts | erule level_nonempty; intro level_facts | elim level_elims; (intro level_facts)?; assumption?))


end
