(* ===== verification/Checks_Resources.thy ===== *)
theory Checks_Resources
  imports Checks_System
begin

text \<open>
  heuristics_resources.go: CPU, memory, swap, I/O and the deep health measurements.  Ratios are
  floating-point numbers of \<open>Go_Float\<close>, sums wrap at 64 bits.
\<close>

section \<open>Measurements\<close>

record cpu_info =
  cpu_LoadAvg1 :: f64
  cpu_NumCPU :: int
  cpu_UsagePct :: f64
  cpu_LoadPct :: f64
  cpu_StealPct :: f64
  cpu_IOwaitPct :: f64
  cpu_RunQueue :: int
  cpu_UsageSampleFailed :: bool
  cpu_ProcsBlocked :: int
  cpu_ContextSwitchRate :: f64
  cpu_HostCPULimitMHz :: int
  cpu_PresentCPUs :: int
  cpu_OnlineCPUs :: int
  cpu_SMTControl :: gostring
  cpu_CPUsIsolated :: bool

record memory_info =
  memory_TotalGB :: f64
  memory_FreeGB :: f64
  memory_UsedPct :: f64
  memory_SlabMB :: f64
  memory_OverCommitted :: bool
  memory_OvercommitMode :: int
  memory_EDACAvailable :: bool
  memory_CorrectedErrors :: int
  memory_UncorrectedErrors :: int
  memory_EDACCountersUnreadable :: bool
  memory_MemHotplugChecked :: bool
  memory_OfflineMemoryBlocks :: int
  memory_OfflineMemoryMB :: int
  memory_AutoOnlineBlocks :: bool
  memory_CgroupMemMeasured :: bool
  memory_MeminfoUnreadable :: bool

record core_stat =
  coreStat_Core :: int
  coreStat_UsagePct :: f64

record health_deep_info =
  healthDeep_Cores :: "core_stat list"
  healthDeep_MaxCorePct :: f64
  healthDeep_MinCorePct :: f64
  healthDeep_CoreImbalance :: f64
  healthDeep_LoadAvg1 :: f64
  healthDeep_NumCPU :: int
  healthDeep_CachedMB :: f64
  healthDeep_BuffersMB :: f64
  healthDeep_DirtyMB :: f64
  healthDeep_AnonPagesMB :: f64
  healthDeep_MemDetailUnreadable :: bool
  healthDeep_Cgroup :: "cgroup_v2_info option"

record container_context =
  containerContext_InContainer :: bool
  containerContext_MemLimitMB :: f64

record io_device_info =
  ioDevice_Name :: gostring
  ioDevice_IsSSD :: bool
  ioDevice_DriveType :: gostring
  ioDevice_UtilPct :: f64
  ioDevice_AwaitMs :: f64
  ioDevice_ReadMBps :: f64
  ioDevice_WriteMBps :: f64

record io_info =
  io_Devices :: "io_device_info list"

section \<open>Constants\<close>

definition corrCatCPULoad :: gostring where
  "corrCatCPULoad = ''CPU Load''"

definition corrCatCPUSteal :: gostring where
  "corrCatCPUSteal = ''CPU Load/Steal''"

definition corrCatCPUIOwait :: gostring where
  "corrCatCPUIOwait = ''CPU Load/IOWait''"

definition inspectVMStat :: gostring where
  "inspectVMStat = ''to inspect: vmstat 1 5''"

definition inspectPsCPUHead :: gostring where
  "inspectPsCPUHead = ''to inspect: ps aux --sort=-%cpu | head -10''"

definition inspectMpstatAll :: gostring where
  "inspectMpstatAll = ''to inspect: mpstat -P ALL 1 3''"

definition catCPULoadRunQ :: gostring where
  "catCPULoadRunQ = ''CPU Load/RunQueue''"

section \<open>Checks\<close>

definition cpuSampleFailedInsight :: "cpu_info \<Rightarrow> insight list" where
  "cpuSampleFailedInsight cpu =
     (if \<not> cpu_UsageSampleFailed cpu then []
      else [unverifiedInsight ReasonCollectorError INFO catCPULoadRunQ
              (''CPU usage sample failed '' @ em_dash @
               '' run queue, steal, iowait and usage are not measured (load average is)'')
              [''to inspect: vmstat 1 5'', ''to inspect: head -8 /proc/stat'']])"

definition swapUnreadableInsights :: "swap_info \<Rightarrow> insight list" where
  "swapUnreadableInsights swap =
     (if swap_SwapsUnreadable swap
        then [unverifiedInsight ReasonUnreadable INFO ''Swap''
                (''/proc/swaps could not be read '' @ em_dash @ '' swap occupancy not measured'')
                [''to inspect: cat /proc/swaps'', ''to inspect: swapon --show'']]
      else []) @
     (if swap_ZramUnreadable swap
        then [unverifiedInsight ReasonUnreadable INFO ''Swap''
                (''zram swap devices could not be fully read '' @ em_dash @
                 '' zram utilisation not measured'')
                [''to inspect: zramctl'', ''to inspect: cat /sys/block/zram0/mm_stat'']]
      else [])"

definition checkSwap :: "swap_info \<Rightarrow> thresholds \<Rightarrow> insight list" where
  "checkSwap swap thresh =
     swapUnreadableInsights swap @
     (if 0 < swap_MemPressureLevel swap
        then (if 1 < swap_MemPressureLevel swap
                then (let l = levelPct (swap_UsedPct swap) (Fin 75) (Fin 90)
                      in if l \<noteq> []
                           then [mk_full l ''Swap''
                                   (''swap usage at '' @ fmt_f 0 (swap_UsedPct swap) @
                                    ''% with elevated memory pressure (level '' @
                                    itoa (swap_MemPressureLevel swap) @ '')'')
                                   [''to inspect: vm_stat | grep swap'',
                                    ''to inspect: sysctl vm.swapusage'',
                                    ''to inspect: top -l 1 | grep PhysMem'']]
                         else [])
              else [])
      else let actIn = swap_PagesInPerSec swap;
               actOut = swap_PagesOutPerSec swap;
               maxAct = actIn;
               maxAct = (if flt maxAct actOut then actOut else maxAct)
           in (if fle (SwapCritPct thresh) (swap_UsedPct swap)
                 then [mk_full CRIT ''Swap''
                         (''swap '' @ fmt_f 0 (swap_UsedPct swap) @ ''% full ('' @
                          fmt_f 1 (swap_UsedGB swap) @ '' GB used) '' @ em_dash @
                          '' near exhaustion; the OOM killer starts when swap fills'')
                         [inspectFreeH, inspectPsMemHead, inspectVMStat]]
               else if (fle (SwapWarnPct thresh) (swap_UsedPct swap) \<and> flt (Fin 0) maxAct) \<and>
                       fle maxAct (SwapActivityWarn thresh)
                 then [mk_full WARN ''Swap''
                         (''swap '' @ fmt_f 0 (swap_UsedPct swap) @ ''% used ('' @
                          fmt_f 1 (swap_UsedGB swap) @ '' GB) and paging '' @ em_dash @
                          '' memory may be under real pressure'') [inspectFreeH, inspectVMStat]]
               else []) @
              (if flt (SwapActivityCrit thresh) maxAct
                 then [mk_full CRIT ''Swap''
                         (''heavy swap activity: '' @ fmt_f 0 actIn @ '' pages/s in, '' @
                          fmt_f 0 actOut @ '' pages/s out'')
                         [inspectVMStat, ''to inspect: sar -W 1 5'', inspectPsMemHead]]
               else if flt (SwapActivityWarn thresh) maxAct \<and> 0 < swap_ZramDevices swap
                 then [mk_full INFO ''Swap''
                         (''swap activity: '' @ fmt_f 0 actIn @ '' pages/s in, '' @ fmt_f 0 actOut @
                          '' pages/s out '' @ em_dash @
                          '' zram-backed (compressed RAM, not disk thrash)'')
                         [''to inspect: zramctl'', inspectVMStat]]
               else if flt (SwapActivityWarn thresh) maxAct
                 then [mk_full WARN ''Swap''
                         (''swap activity detected: '' @ fmt_f 0 actIn @ '' pages/s in, '' @
                          fmt_f 0 actOut @ '' pages/s out'') [inspectVMStat, inspectFreeH]]
               else []))"

definition cpuStealInsight :: "f64 \<Rightarrow> int \<Rightarrow> insight option" where
  "cpuStealInsight stealPct hostCPULimitMHz =
     (if fle (Fin 20) stealPct \<or> fle (Fin 10) stealPct
        then (let level = (if fle (Fin 20) stealPct then CRIT else WARN)
              in if 0 < hostCPULimitMHz
                   then Some (mk_full level corrCatCPUSteal
                                (''CPU steal at '' @ fmt_f 1 stealPct @
                                 ''% with a host CPU limit of '' @ itoa hostCPULimitMHz @
                                 '' MHz configured on this VM '' @ em_dash @
                                 '' the guest is being throttled to its configured cap, not losing CPU to noisy neighbours'')
                                [''to fix: remove or raise the VM'' @ squote @
                                 ''s CPU limit in vSphere (Edit Settings '' @
                                 [CHR 0xE2, CHR 0x86, CHR 0x92] @ '' CPU '' @
                                 [CHR 0xE2, CHR 0x86, CHR 0x92] @ '' Limit = Unlimited)'',
                                 ''to inspect: vmware-toolbox-cmd stat cpulimit'',
                                 ''note: migrating the VM will NOT help '' @ em_dash @
                                 '' this is a configured cap, not host contention''])
                 else if level = CRIT
                   then Some (mk_full CRIT corrCatCPUSteal
                                (''CPU steal at '' @ fmt_f 1 stealPct @ ''% '' @ em_dash @
                                 '' hypervisor is withholding CPU time from this VM'')
                                [''to inspect: top -b -n1 | grep Cpu'',
                                 ''to inspect: vmstat 1 5  (look at the '' @ squote @ ''st'' @
                                 squote @ '' column)'',
                                 ''note: steal > 20%% means the host is severely over-provisioned'',
                                 ''note: escalate to your cloud provider or migrate to a less-loaded host''])
                 else Some (mk_full WARN corrCatCPUSteal
                              (''CPU steal at '' @ fmt_f 1 stealPct @ ''% '' @ em_dash @
                               '' VM is not getting all requested CPU cycles'')
                              [''to inspect: top -b -n1 | grep Cpu  (look for '' @ squote @ ''st'' @
                               squote @ '' column)'', inspectVMStat,
                               ''note: steal time indicates host over-provisioning '' @ em_dash @
                               '' consider VM migration'']))
      else None)"

definition cpuOfflineInsight :: "cpu_info \<Rightarrow> insight option" where
  "cpuOfflineInsight cpu =
     (if (cpu_PresentCPUs cpu \<le> 0 \<or> cpu_OnlineCPUs cpu \<le> 0) \<or>
         cpu_PresentCPUs cpu \<le> cpu_OnlineCPUs cpu
        then None
      else let offline = wrap64 (cpu_PresentCPUs cpu - cpu_OnlineCPUs cpu)
           in if cpu_SMTControl cpu = ''off'' \<or> cpu_SMTControl cpu = ''forceoff''
                then Some (mk_full INFO corrCatCPULoad
                             (itoa offline @ '' of '' @ itoa (cpu_PresentCPUs cpu) @
                              '' CPUs are offline because SMT is disabled '' @ em_dash @
                              '' the hyperthread siblings are parked (a security mitigation, expected)'')
                             [''to inspect: cat /sys/devices/system/cpu/smt/control''])
              else if cpu_CPUsIsolated cpu
                then Some (mk_full INFO corrCatCPULoad
                             (itoa offline @ '' of '' @ itoa (cpu_PresentCPUs cpu) @
                              '' CPUs are offline/isolated '' @ em_dash @
                              '' isolcpus or nohz_full is set on the kernel cmdline (intentional)'')
                             [''to inspect: cat /proc/cmdline''])
              else Some (mk_full WARN corrCatCPULoad
                           (itoa offline @ '' of '' @ itoa (cpu_PresentCPUs cpu) @
                            '' allocated vCPUs are offline '' @ em_dash @
                            '' the guest is using only '' @ itoa (cpu_OnlineCPUs cpu) @
                            ''; a hot-added vCPU the OS never onlined (some distros lack the auto-online udev rule RHEL ships), so the VM runs on a fraction of its allocation'')
                           [''to online now: for c in /sys/devices/system/cpu/cpu[0-9]*/online; do echo 1 > $c; done   (as root)'',
                            ''to persist: a udev rule '' @ em_dash @ '' SUBSYSTEM=='' @ dquote @
                            ''cpu'' @ dquote @ '', ACTION=='' @ dquote @ ''add'' @ dquote @
                            '', TEST=='' @ dquote @ ''online'' @ dquote @ '', ATTR{online}=='' @
                            dquote @ ''0'' @ dquote @ '', ATTR{online}='' @ dquote @ ''1'' @ dquote,
                            ''note: if the offline CPUs are intentional (isolcpus / SMT off), this can be ignored'']))"

definition pluralize :: "int \<Rightarrow> gostring \<Rightarrow> gostring \<Rightarrow> gostring" where
  "pluralize n singular plural =
     (if n = 1 then itoa n @ '' '' @ singular else itoa n @ '' '' @ plural)"

definition runQueueHints :: "cpu_info \<Rightarrow> gostring list" where
  "runQueueHints cpu =
     [''to inspect: vmstat 1 5  (the '' @ squote @ ''r'' @ squote @
      '' column is the run queue length)'',
      ''to inspect: top -H -b -n1 | head -20  (per-thread, find the busy threads)''] @
     (if flt (Fin 0) (cpu_ContextSwitchRate cpu)
        then [''context: ~'' @ fmt_f 0 (cpu_ContextSwitchRate cpu) @
              '' context switches/s during sampling'']
      else []) @
     (if 0 < cpu_ProcsBlocked cpu
        then [''context: '' @ itoa (cpu_ProcsBlocked cpu) @ '' task(s) blocked on I/O (D state) '' @
              em_dash @ '' see CPU/IOWait'']
      else []) @
     [''note: persistent run-queue saturation = under-provisioned CPU or a runaway thread spawner'']"

definition memHotplugInsights :: "memory_info \<Rightarrow> insight list" where
  "memHotplugInsights mem =
     (if (\<not> memory_MemHotplugChecked mem \<or> memory_OfflineMemoryBlocks mem = 0) \<or>
         memory_AutoOnlineBlocks mem
        then []
      else let amount = itoa (memory_OfflineMemoryBlocks mem) @ '' memory block(s)'';
               amount =
                 (if 0 < memory_OfflineMemoryMB mem
                    then fmt_f 1 (fdiv (f_of_int (memory_OfflineMemoryMB mem)) (Fin 1024)) @
                         '' GB ('' @ itoa (memory_OfflineMemoryBlocks mem) @ '' block(s))''
                  else amount)
           in [mk_full WARN ''Memory''
                 (amount @ '' of RAM is offline and auto-onlining is disabled '' @ em_dash @
                  '' hot-added memory the guest sees but is not using'')
                 [''to use it now: for f in /sys/devices/system/memory/memory*/state; do echo online > $f; done'',
                  ''to persist: echo online > /sys/devices/system/memory/auto_online_blocks (or kernel arg memhp_default_state=online)'',
                  ''note: common after growing a VM'' @ squote @
                  ''s RAM (VMware hot-add / cloud vertical scaling) without onlining the new blocks'']])"

definition ioUtilThresholds :: "gostring \<Rightarrow> thresholds \<Rightarrow> (f64 \<times> f64)" where
  "ioUtilThresholds driveType thresh =
     (if driveType = ''hdd'' then (Fin 101, Fin 101)
      else (IOUtilWarnPctSSD thresh, IOUtilCritPctSSD thresh))"

definition ioAwaitThresholds :: "gostring \<Rightarrow> thresholds \<Rightarrow> (f64 \<times> f64)" where
  "ioAwaitThresholds driveType thresh =
     (if driveType = ''nvme'' then (Fin 5, Fin 15)
      else if driveType = ''hdd'' then (Fin 50, Fin 100)
      else (IOAwaitWarnMsSSD thresh, IOAwaitCritMsSSD thresh))"

definition healthDeepLoadCorroborates :: "health_deep_info \<Rightarrow> bool" where
  "healthDeepLoadCorroborates d \<longleftrightarrow>
     (if healthDeep_NumCPU d \<le> 0 then False
      else fle (Fin 70)
             (fmul (fdiv (healthDeep_LoadAvg1 d) (f_of_int (healthDeep_NumCPU d))) (Fin 100)))"

definition checkCPU :: "cpu_info \<Rightarrow> thresholds \<Rightarrow> container_context \<Rightarrow> insight list" where
  "checkCPU cpu thresh ctrCtx =
     cpuSampleFailedInsight cpu @
     (let checkPct = cpu_LoadPct cpu;
          usingInstantaneous = False;
          checkPct = (if flt (Fin 0) (cpu_UsagePct cpu) then cpu_UsagePct cpu else checkPct);
          usingInstantaneous = flt (Fin 0) (cpu_UsagePct cpu) \<or> usingInstantaneous;
          loadPct = cpu_LoadPct cpu;
          loadPct =
            (if (feq loadPct (Fin 0) \<and> flt (Fin 0) (cpu_LoadAvg1 cpu)) \<and> 0 < cpu_NumCPU cpu
               then fmul (fdiv (cpu_LoadAvg1 cpu) (f_of_int (cpu_NumCPU cpu))) (Fin 100)
             else loadPct);
          loadCorroborated = fle (fmul (CPULoadWarnMultiplier thresh) (Fin 100)) loadPct
      in (let l =
                levelPct checkPct (fmul (CPULoadWarnMultiplier thresh) (Fin 100))
                  (fmul (CPULoadCritMultiplier thresh) (Fin 100))
          in if l \<noteq> []
               then (if \<not> usingInstantaneous \<or> loadCorroborated
                       then (let msg = fmt_f 0 (cpu_UsagePct cpu) @ ''% CPU (user+sys)'';
                                 msg =
                                   (if flt (Fin 0) (cpu_LoadAvg1 cpu)
                                      then msg @ '' '' @ em_dash @ '' load avg '' @
                                           fmt_f 2 (cpu_LoadAvg1 cpu) @ '' across '' @
                                           itoa (cpu_NumCPU cpu) @ '' CPUs''
                                    else msg)
                             in [mk_full l corrCatCPULoad msg
                                   [''to inspect: uptime'', inspectPsCPUHead,
                                    ''to inspect: top -b -n1 | head -25'']])
                     else [unverifiedInsight ReasonCollectorError INFO corrCatCPULoad
                             (fmt_f 0 (cpu_UsagePct cpu) @ ''% CPU (user+sys) momentarily '' @
                              em_dash @
                              '' could not corroborate against the 1-min load average (may be a transient spike, including dsd'' @
                              squote @ ''s own collectors, or a genuine short burst)'')
                             [''to inspect: uptime'', inspectPsCPUHead]])
             else []) @
         (case cpuStealInsight (cpu_StealPct cpu) (cpu_HostCPULimitMHz cpu) of
            Some ins \<Rightarrow> [ins]
            | None \<Rightarrow> []) @
         (if \<not> containerContext_InContainer ctrCtx
            then case cpuOfflineInsight cpu of Some ins \<Rightarrow> [ins] | None \<Rightarrow> []
          else []) @
         (if fle (Fin 40) (cpu_IOwaitPct cpu)
            then [mk_full CRIT corrCatCPUIOwait
                    (''I/O wait at '' @ fmt_f 1 (cpu_IOwaitPct cpu) @ ''% '' @ em_dash @
                     '' CPU is stalled waiting for disk or network I/O'')
                    [inspectIOStat, inspectIotop,
                     ''to inspect: ps aux | grep '' @ squote @ '' D '' @ squote @
                     ''  (D-state processes blocked on I/O)'',
                     ''note: high iowait with normal CPU usage = disk bottleneck, not CPU'']]
          else if fle (Fin 20) (cpu_IOwaitPct cpu)
            then [mk_full WARN corrCatCPUIOwait
                    (''I/O wait at '' @ fmt_f 1 (cpu_IOwaitPct cpu) @ ''% '' @ em_dash @
                     '' load may be I/O-driven rather than CPU-bound'')
                    [inspectIOStat, ''to inspect: ps aux | grep '' @ squote @ '' D '' @ squote]]
          else []) @
         (if 0 < cpu_NumCPU cpu \<and> 0 < cpu_RunQueue cpu
            then (let cpuLabel = pluralize (cpu_NumCPU cpu) ''CPU'' ''CPUs''
                  in if wrap64 (4 * cpu_NumCPU cpu) \<le> cpu_RunQueue cpu \<and> fle (Fin 200) loadPct
                       then [mk_full CRIT catCPULoadRunQ
                               (itoa (cpu_RunQueue cpu) @ '' runnable tasks on '' @ cpuLabel @
                                '' '' @ em_dash @ '' run queue is ~'' @
                                itoa (go_div (cpu_RunQueue cpu) (cpu_NumCPU cpu)) @
                                [CHR 0xC3, CHR 0x97] @ '' saturated, tasks are waiting for CPU'')
                               (runQueueHints cpu)]
                     else if wrap64 (2 * cpu_NumCPU cpu) \<le> cpu_RunQueue cpu \<and> fle (Fin 100) loadPct
                       then [mk_full WARN catCPULoadRunQ
                               (itoa (cpu_RunQueue cpu) @ '' runnable tasks on '' @ cpuLabel @
                                '' '' @ em_dash @ '' more tasks ready to run than cores available'')
                               (runQueueHints cpu)]
                     else if wrap64 (2 * cpu_NumCPU cpu) \<le> cpu_RunQueue cpu
                       then [unverifiedInsight ReasonCollectorError INFO catCPULoadRunQ
                               (itoa (cpu_RunQueue cpu) @ '' runnable tasks on '' @ cpuLabel @
                                '' momentarily '' @ em_dash @
                                '' could not corroborate against the 1-min load average'')
                               (runQueueHints cpu)]
                     else [])
          else []))"

definition checkMemory ::
  "environment \<Rightarrow> memory_info \<Rightarrow> thresholds \<Rightarrow> container_context \<Rightarrow> insight list" where
  "checkMemory env mem thresh ctrCtx =
     (let ramUnmeasurable =
            (containerContext_InContainer ctrCtx \<and> flt (Fin 0) (containerContext_MemLimitMB ctrCtx)) \<and>
            \<not> memory_CgroupMemMeasured mem
      in (if memory_MeminfoUnreadable mem
            then [unverifiedInsight ReasonParse INFO ''Memory''
                    (''RAM usage check skipped '' @ em_dash @
                     '' proc meminfo could not be read or parsed, so Total/Free/UsedPct are unmeasured'')
                    [''to inspect: cat /proc/meminfo'']]
          else if ramUnmeasurable
            then [unverifiedInsight ReasonUnreadable INFO ''Memory''
                    (''RAM usage check skipped '' @ em_dash @
                     '' cgroup memory usage could not be read in this container, so host /proc/meminfo can'' @
                     squote @ ''t be validly scored against the container'' @ squote @
                     ''s memory limit'')
                    [''note: needs the memory controller mounted and readable (memory.current on cgroup v2, memory.usage_in_bytes on v1)'']]
          else let l = levelPct (memory_UsedPct mem) (RAMWarnPct thresh) (RAMCritPct thresh)
               in if l \<noteq> []
                    then (let memHints =
                                (if GOOS env = ''darwin''
                                   then [''to inspect: vm_stat'',
                                         ''to inspect: top -l 1 | grep PhysMem'',
                                         ''to inspect: ps aux -m | head -10'']
                                 else [inspectFreeH, inspectPsMemHead])
                          in [mk_full l ''Memory''
                                (''RAM usage at '' @ fmt_f 0 (memory_UsedPct mem) @ ''% ('' @
                                 fmt_f 1 (memory_FreeGB mem) @ '' GB free of '' @
                                 fmt_f 1 (memory_TotalGB mem) @ '' GB total)'') memHints])
                  else []) @
         (if memory_OverCommitted mem \<and> memory_OvercommitMode mem = 2
            then [mk_full CRIT ''Memory''
                    (''memory overcommitted under strict accounting (vm.overcommit_memory=2) '' @
                     em_dash @ '' new allocations will be refused'')
                    [''to inspect: cat /proc/meminfo | grep -E '' @ squote @
                     ''CommitLimit|Committed_AS'' @ squote,
                     ''to inspect: sysctl vm.overcommit_memory'']]
          else []) @
         (let slabPct = Fin 0;
              slabPct =
                (if flt (Fin 0) (memory_TotalGB mem)
                   then fmul (fdiv (fdiv (memory_SlabMB mem) (Fin 1024)) (memory_TotalGB mem))
                          (Fin 100)
                 else slabPct)
          in (if fle (SlabWarnPct thresh) slabPct \<and> \<not> containerContext_InContainer ctrCtx
                then [mk_full WARN ''Memory/Slab''
                        (''kernel slab cache is '' @ fmt_f 0 slabPct @ ''% of total RAM ('' @
                         fmt_f 0 (memory_SlabMB mem) @ '' MB)'')
                        [''to inspect: cat /proc/slabinfo | sort -k3 -rn | head -20'',
                         ''to inspect: slabtop -o | head -20'']]
              else []) @
             (if memory_EDACAvailable mem
                then eccInsights (memory_CorrectedErrors mem) (memory_UncorrectedErrors mem)
                       ''Memory'' @
                     (if memory_EDACCountersUnreadable mem
                        then [unverifiedInsight ReasonUnreadable INFO ''Memory''
                                (''ECC error counters could not be fully read '' @ em_dash @
                                 '' the corrected/uncorrected counts above may be incomplete'')
                                [''to inspect: edac-util -s 4'']]
                      else [])
              else []) @
             memHotplugInsights mem))"

definition checkIO :: "io_info \<Rightarrow> thresholds \<Rightarrow> insight list" where
  "checkIO io thresh =
     (let saturatedCount = 0
      in concat (map
                   (\<lambda>dev.
                     let (warnUtil, critUtil) = ioUtilThresholds (ioDevice_DriveType dev) thresh;
                         (warnAwait, critAwait) = ioAwaitThresholds (ioDevice_DriveType dev) thresh
                     in (let l = levelPct (ioDevice_UtilPct dev) warnUtil critUtil
                         in if l \<noteq> []
                              then (let hints = [inspectIOStat, inspectIotop];
                                        hints =
                                          (if fle (Fin 99) (ioDevice_UtilPct dev)
                                             then hints @
                                                  [''note: 100% utilization on NVMe/SSD is abnormal '' @
                                                   em_dash @ '' check for runaway process'',
                                                   ''note: if filesystem is BTRFS, btrfs-cleaner may be the cause'',
                                                   ''to check: ps aux | grep btrfs'',
                                                   ''to pause btrfs maintenance: btrfs balance cancel / && btrfs scrub cancel /'']
                                           else hints)
                                    in [mk_full l ''IO''
                                          (''disk '' @ ioDevice_Name dev @ '' utilization at '' @
                                           fmt_f 0 (ioDevice_UtilPct dev) @ ''%'') hints])
                            else []) @
                        (let l = levelPct (ioDevice_AwaitMs dev) warnAwait critAwait
                         in if l \<noteq> []
                              then [mk_full l ''IO''
                                      (''disk '' @ ioDevice_Name dev @ '' await latency '' @
                                       fmt_f 1 (ioDevice_AwaitMs dev) @ '' ms'')
                                      [inspectIOStat, inspectIotop]]
                            else []))
                   (io_Devices io)) @
         (let saturatedCount =
                wrap64
                  (saturatedCount +
                   sum_list (map
                     (\<lambda>dev.
                       let (warnUtil, critUtil) = ioUtilThresholds (ioDevice_DriveType dev) thresh;
                           l = levelPct (ioDevice_UtilPct dev) warnUtil critUtil
                       in if l \<noteq> [] then (if fle (Fin 99) (ioDevice_UtilPct dev) then 1 else 0)
                          else 0)
                     (io_Devices io)))
          in if 3 \<le> saturatedCount
               then [mk_full WARN ''IO''
                       (itoa saturatedCount @ '' drives at 100% utilization simultaneously '' @
                        em_dash @ '' may indicate shared component fault'')
                       [''note: multiple drives failing together often points to HBA, backplane, or cable'',
                        ''to inspect: lspci | grep -i storage'',
                        ''to inspect: dmesg | grep -E '' @ squote @ ''ata[0-9]+|scsi|hba'' @ squote,
                        ''to inspect: check backplane power and data cables'',
                        ''to inspect: smartctl -a /dev/<each drive>  (check if errors are identical)'']]
             else []))"

definition checkHealthDeep :: "health_deep_info \<Rightarrow> insight list" where
  "checkHealthDeep d =
     (if healthDeep_MemDetailUnreadable d
        then [unverifiedInsight ReasonUnreadable INFO ''CPUDeep''
                (''/proc/meminfo could not be read '' @ em_dash @
                 '' dirty-page backlog and cache breakdown not measured'')
                [''to inspect: cat /proc/meminfo'']]
      else []) @
     (if (fle (Fin 80) (healthDeep_CoreImbalance d) \<and> 1 < int (length (healthDeep_Cores d))) \<and>
         fle (Fin 1) (healthDeep_LoadAvg1 d)
        then (let hotCore = 0;
                  hotCore =
                    case first_some
                      (\<lambda>c.
                        if feq (coreStat_UsagePct c) (healthDeep_MaxCorePct d)
                          then (let hotCore = coreStat_Core c
                                in Some hotCore)
                        else None)
                      (healthDeep_Cores d) of
                      Some r \<Rightarrow> r
                      | None \<Rightarrow> hotCore
              in [mk_full WARN ''CPUDeep''
                    (''CPU core imbalance: core'' @ itoa hotCore @ '' at '' @
                     fmt_f 0 (healthDeep_MaxCorePct d) @ ''% while others average '' @
                     fmt_f 0 (healthDeep_MinCorePct d) @ ''% '' @ em_dash @
                     '' single-threaded bottleneck'') [inspectMpstatAll, inspectPsCPUHead]])
      else if (fle (Fin 95) (healthDeep_MaxCorePct d) \<and> 1 < int (length (healthDeep_Cores d))) \<and>
              healthDeepLoadCorroborates d
        then [mk_full WARN ''CPUDeep''
                (''all CPU cores near saturation (max: '' @ fmt_f 0 (healthDeep_MaxCorePct d) @
                 ''%, min: '' @ fmt_f 0 (healthDeep_MinCorePct d) @ ''%)'') [inspectMpstatAll]]
      else if fle (Fin 95) (healthDeep_MaxCorePct d) \<and> 1 < int (length (healthDeep_Cores d))
        then [unverifiedInsight ReasonCollectorError INFO ''CPUDeep''
                (''all CPU cores near saturation momentarily (max: '' @
                 fmt_f 0 (healthDeep_MaxCorePct d) @ ''%, min: '' @
                 fmt_f 0 (healthDeep_MinCorePct d) @ ''%) '' @ em_dash @
                 '' could not corroborate against the 1-min load average (may be a transient spike, including dsd'' @
                 squote @ ''s own collectors, or a genuine short burst)'') [inspectMpstatAll]]
      else []) @
     (if fle (Fin 500) (healthDeep_DirtyMB d)
        then [mk_full WARN ''CPUDeep''
                (fmt_f 0 (healthDeep_DirtyMB d) @ '' MB of dirty pages pending write-back '' @
                 em_dash @ '' data loss risk on crash'')
                [''to inspect: cat /proc/meminfo | grep Dirty'', inspectIOStat]]
      else []) @
     (if healthDeep_Cgroup d \<noteq> None then checkCgroupV2 (the (healthDeep_Cgroup d)) else [])"

section \<open>Well-formedness\<close>

lemma cpuSampleFailedInsight_wf [wf_rules]: "wf_insights (cpuSampleFailedInsight cpu)"
  unfolding cpuSampleFailedInsight_def by (intro wf_lets wf_rules level_facts; (assumption | erule (1) level_open; intro level_facts | erule level_nonempty; intro level_facts | elim level_elims; (intro level_facts)?; assumption?))

lemma swapUnreadableInsights_wf [wf_rules]: "wf_insights (swapUnreadableInsights swap)"
  unfolding swapUnreadableInsights_def by (intro wf_lets wf_rules level_facts; (assumption | erule (1) level_open; intro level_facts | erule level_nonempty; intro level_facts | elim level_elims; (intro level_facts)?; assumption?))

lemma checkSwap_wf [wf_rules]: "wf_insights (checkSwap swap thresh)"
  unfolding checkSwap_def by (intro wf_lets wf_rules level_facts; (assumption | erule (1) level_open; intro level_facts | erule level_nonempty; intro level_facts | elim level_elims; (intro level_facts)?; assumption?))

lemma cpuStealInsight_wf [wf_rules]: "wf_option (cpuStealInsight stealPct hostCPULimitMHz)"
  unfolding cpuStealInsight_def by (intro wf_lets wf_rules level_facts; (assumption | erule (1) level_open; intro level_facts | erule level_nonempty; intro level_facts | elim level_elims; (intro level_facts)?; assumption?))

lemma cpuOfflineInsight_wf [wf_rules]: "wf_option (cpuOfflineInsight cpu)"
  unfolding cpuOfflineInsight_def by (intro wf_lets wf_rules level_facts; (assumption | erule (1) level_open; intro level_facts | erule level_nonempty; intro level_facts | elim level_elims; (intro level_facts)?; assumption?))

lemma memHotplugInsights_wf [wf_rules]: "wf_insights (memHotplugInsights mem)"
  unfolding memHotplugInsights_def by (intro wf_lets wf_rules level_facts; (assumption | erule (1) level_open; intro level_facts | erule level_nonempty; intro level_facts | elim level_elims; (intro level_facts)?; assumption?))

lemma checkCPU_wf [wf_rules]: "wf_insights (checkCPU cpu thresh ctrCtx)"
  unfolding checkCPU_def by (intro wf_lets wf_rules level_facts; (assumption | erule (1) level_open; intro level_facts | erule level_nonempty; intro level_facts | elim level_elims; (intro level_facts)?; assumption?))

lemma checkMemory_wf [wf_rules]: "wf_insights (checkMemory env mem thresh ctrCtx)"
  unfolding checkMemory_def by (intro wf_lets wf_rules level_facts; (assumption | erule (1) level_open; intro level_facts | erule level_nonempty; intro level_facts | elim level_elims; (intro level_facts)?; assumption?))

lemma checkIO_wf [wf_rules]: "wf_insights (checkIO io thresh)"
  unfolding checkIO_def by (intro wf_lets wf_rules level_facts; (assumption | erule (1) level_open; intro level_facts | erule level_nonempty; intro level_facts | elim level_elims; (intro level_facts)?; assumption?))

lemma checkHealthDeep_wf [wf_rules]: "wf_insights (checkHealthDeep d)"
  unfolding checkHealthDeep_def by (intro wf_lets wf_rules level_facts; (assumption | erule (1) level_open; intro level_facts | erule level_nonempty; intro level_facts | elim level_elims; (intro level_facts)?; assumption?))


end
