(* ===== verification/Checks_Host.thy ===== *)
theory Checks_Host
  imports Checks_Levels
begin

text \<open>
  The checks on the installation: cron and anacron, kdump, tuned, live patches and pending restarts,
  transactional updates, fstab, the root file system, packages and their CVEs, TLS certificates, firmware,
  snapshots, subscriptions, networkd and the DNS resolvers (heuristics_cron.go, _maintenance, _postboot, _fstab,
  _rootfs, _packages, _firmware, _networkd, _dns).
\<close>

section \<open>Measurements\<close>

record cron_job =
  cronJob_Source :: gostring
  cronJob_Line :: gostring
  cronJob_Issues :: "gostring list"

record anacron_job =
  anacronJob_Name :: gostring
  anacronJob_LastRunH :: int
  anacronJob_OverdueH :: int

record kdump_info =
  kdump_Available :: bool
  kdump_ServiceState :: gostring
  kdump_Enabled :: bool
  kdump_CrashLoaded :: bool
  kdump_ReservedBytes :: int
  kdump_Crashkernel :: gostring
  kdump_StateUnverified :: bool

record tuned_info =
  tuned_Available :: bool
  tuned_Active :: bool
  tuned_Profile :: gostring
  tuned_Recommended :: gostring
  tuned_StateUnverified :: bool

record kernel_patch_info =
  kernelPatch_Available :: bool
  kernelPatch_Running :: gostring
  kernelPatch_LatestInstalled :: gostring
  kernelPatch_RebootNeeded :: bool
  kernelPatch_CheckUnverified :: bool

record ksplice_info =
  ksplice_Available :: bool
  ksplice_PendingUpdates :: int
  ksplice_CheckUnverified :: bool

record service_restart_info =
  serviceRestart_Available :: bool
  serviceRestart_StaleCount :: int
  serviceRestart_StaleNames :: "gostring list"
  serviceRestart_NeedsRoot :: bool

record transactional_info =
  transactional_Available :: bool
  transactional_RebootPending :: bool
  transactional_BootedSnapshot :: int
  transactional_DefaultSnapshot :: int
  transactional_Unverified :: bool

record post_boot_info =
  postBoot_Available :: bool
  postBoot_State :: gostring
  postBoot_Source :: gostring
  postBoot_Reason :: gostring
  postBoot_ShutdownChecked :: bool
  postBoot_UncleanShutdown :: bool
  postBoot_OOMChecked :: bool
  postBoot_OOMKills :: int
  postBoot_OOMVictims :: "gostring list"
  postBoot_PanicChecked :: bool
  postBoot_KernelPanic :: bool
  postBoot_PanicHint :: gostring

record fstab_drift =
  fstabDrift_Spec :: gostring
  fstabDrift_MountPoint :: gostring
  fstabDrift_BootMount :: bool

record fstab_info =
  fstab_Checked :: bool
  fstab_Drifts :: "fstab_drift list"

record root_fs_info =
  rootFS_UnexpectedReadOnly :: bool
  rootFS_RootFstype :: gostring

record package_update =
  packageUpdate_Name :: gostring
  packageUpdate_Severity :: gostring

record package_integrity =
  packageIntegrity_BrokenPackages :: "gostring list"
  packageIntegrity_UnmetDeps :: "gostring list"
  packageIntegrity_MissingLibs :: "gostring list"
  packageIntegrity_RPMVerifyFailed :: "gostring list"
  packageIntegrity_LdconfigOK :: bool
  packageIntegrity_VerifyTimedOut :: bool
  packageIntegrity_VerifyLocked :: bool
  packageIntegrity_CheckFailed :: bool

record packages_info =
  packages_SecurityUpdates :: int
  packages_CriticalUpdates :: int
  packages_ImportantUpdates :: int
  packages_ESMUpdates :: int
  packages_Updates :: "package_update list"
  packages_PackageManager :: gostring
  packages_Integrity :: "package_integrity option"
  packages_SUSEMigrationRisks :: "gostring list"
  packages_Status :: gostring
  packages_StatusReason :: gostring
  packages_DBHealthChecked :: bool
  packages_DBUpdatesBlocked :: bool
  packages_DBBlockReason :: gostring
  packages_DBBlockFix :: gostring

record cve_advisory =
  cveAdvisory_ID :: gostring
  cveAdvisory_Severity :: gostring

record cve_all_result =
  cveAllResult_PackageManager :: gostring
  cveAllResult_Critical :: "cve_advisory list"
  cveAllResult_Important :: "cve_advisory list"
  cveAllResult_Moderate :: "cve_advisory list"
  cveAllResult_Low :: "cve_advisory list"
  cveAllResult_FixCommand :: gostring
  cveAllResult_StatusReason :: gostring
  cveAllResult_ScanFailed :: bool
  cveAllResult_KEVCount :: int
  cveAllResult_KEVCVEs :: "gostring list"
  cveAllResult_KEVCatalogReadFailed :: bool

record cert_info =
  cert_Path :: gostring
  cert_Subject :: gostring
  cert_ExpiresIn :: int
  cert_NotYetValid :: bool

record tls_uncheckable =
  tlsUncheckable_Path :: gostring
  tlsUncheckable_Error :: gostring
  tlsUncheckable_NeedsRoot :: bool

record tls_info =
  tls_Certs :: "cert_info list"
  tls_Uncheckable :: "tls_uncheckable list"

record firmware_upgrade =
  firmwareUpgrade_Name :: gostring
  firmwareUpgrade_SecurityFix :: bool

record firmware_info =
  firmware_Available :: bool
  firmware_Upgrades :: "firmware_upgrade list"
  firmware_UpgradeCount :: int
  firmware_SecurityCount :: int
  firmware_Status :: gostring
  firmware_StatusReason :: gostring

record snapper_info =
  snapper_Available :: bool
  snapper_SnapshotCount :: int
  snapper_TotalSpaceGB :: f64
  snapper_LastSnapshotH :: int
  snapper_Error :: gostring

record suse_connect_info =
  suseConnect_Platform :: gostring
  suseConnect_Registered :: bool
  suseConnect_ExpiresDays :: int
  suseConnect_Status :: gostring
  suseConnect_StatusUnverified :: bool

record networkd_config_file =
  networkdConfigFile_Path :: gostring
  networkdConfigFile_Mode :: gostring

record networkd_link =
  networkdLink_Name :: gostring
  networkdLink_Setup :: gostring
  networkdLink_Operational :: gostring

record networkd_config_info =
  networkdConfig_Detected :: bool
  networkdConfig_UnreadableFiles :: "networkd_config_file list"
  networkdConfig_ConfigDirUnreadable :: bool
  networkdConfig_FailedLinks :: "networkd_link list"
  networkdConfig_StuckLinks :: "networkd_link list"

record dns_resolver_info =
  dnsResolver_Available :: bool
  dnsResolver_Manager :: gostring
  dnsResolver_ConfigFile :: gostring
  dnsResolver_StubMode :: bool
  dnsResolver_Nameservers :: "gostring list"
  dnsResolver_SearchDomains :: "gostring list"
  dnsResolver_Options :: "gostring list"
  dnsResolver_ExternalResolvesOK :: bool
  dnsResolver_InternalResolvesOK :: bool
  dnsResolver_ExternalLatencyMs :: int
  dnsResolver_ResolvTestError :: gostring
  dnsResolver_ProbeSkipped :: bool
  dnsResolver_TooManyNameservers :: bool
  dnsResolver_HasLoopback :: bool
  dnsResolver_NdotsHigh :: int
  dnsResolver_DuplicateNameserver :: "gostring list"
  dnsResolver_IPv6Only :: bool
  dnsResolver_PublicFallback :: bool

record cron_failure =
  cronFailure_Job :: gostring

record cron_info =
  cron_DaemonActive :: bool
  cron_AnacronPresent :: bool
  cron_SystemdTimers :: int
  cron_QualityIssues :: "cron_job list"
  cron_Failures :: "cron_failure list"
  cron_AnacronJobs :: "anacron_job list"
  cron_FailureScanOK :: bool
  cron_QualityScanUnreadable :: bool

record kernel_retention_info =
  kernelRetention_Available :: bool
  kernelRetention_PackageManager :: gostring
  kernelRetention_InstalledKernels :: int
  kernelRetention_RetentionPolicy :: gostring
  kernelRetention_Unbounded :: bool
  kernelRetention_BootTotalGB :: f64
  kernelRetention_BootUsedPct :: f64
  kernelRetention_BootUnreadable :: bool

record live_patch_info =
  livePatch_Available :: bool
  livePatch_DisabledPatches :: "gostring list"
  livePatch_TransitioningPatches :: "gostring list"
  livePatch_UnverifiedPatches :: "gostring list"
  livePatch_Tool :: gostring

section \<open>Constants\<close>

definition fwCatFirmware :: gostring where
  "fwCatFirmware = ''Firmware''"

definition fwCatSnapshots :: gostring where
  "fwCatSnapshots = ''Snapshots''"

definition fwCatSubscription :: gostring where
  "fwCatSubscription = ''Subscription''"

definition fwInspectFwupd :: gostring where
  "fwInspectFwupd = ''to inspect: fwupdmgr get-upgrades''"

definition fwFixSUSERenewShrt :: gostring where
  "fwFixSUSERenewShrt = ''to fix: renew at https://scc.suse.com''"

definition nwdCatNetworkd :: gostring where
  "nwdCatNetworkd = ''Networkd''"

definition nwdPfxAffected :: gostring where
  "nwdPfxAffected = ''affected: ''"

definition noteUnverifiedResult :: gostring where
  "noteUnverifiedResult = ''note: this is an unverified result, not a clean bill of health''"

section \<open>Checks\<close>

definition checkCronQuality :: "cron_job list \<Rightarrow> insight list" where
  "checkCronQuality issues =
     (if issues = [] then []
      else let missingCmds = [];
               noPATH = [];
               missingCmds =
                 missingCmds @
                 concat (map
                           (\<lambda>j.
                             concat (map
                                       (\<lambda>issue.
                                         if contains issue ''not found'' then [cronJob_Source j]
                                         else [])
                                       (cronJob_Issues j)))
                           issues);
               noPATH =
                 noPATH @
                 concat (map
                           (\<lambda>j.
                             concat (map
                                       (\<lambda>issue.
                                         if contains issue ''not found'' then []
                                         else if contains issue ''PATH'' then [cronJob_Source j]
                                         else [])
                                       (cronJob_Issues j)))
                           issues)
           in (if missingCmds \<noteq> []
                 then [mk_full WARN ''Cron''
                         (''crontab references missing command(s) in: '' @
                          join (firstN missingCmds 3) '', '')
                         [''to inspect: grep -n '' @ squote @ squote @
                          '' /etc/cron.d/* /var/spool/cron/crontabs/* 2>/dev/null'',
                          ''note: missing binaries cause silent failures '' @ em_dash @
                          '' cron sends no warning'']]
               else []) @
              (if noPATH \<noteq> []
                 then [mk_full INFO ''Cron''
                         (itoa (int (length noPATH)) @
                          '' crontab file(s) use relative paths without PATH= set '' @ em_dash @
                          '' jobs may fail with '' @ squote @ ''command not found'' @ squote)
                         [''to fix: add PATH=/usr/local/sbin:/usr/local/bin:/sbin:/bin:/usr/sbin:/usr/bin at the top of the crontab'']]
               else []))"

definition checkAnacronSchedules :: "anacron_job list \<Rightarrow> insight list" where
  "checkAnacronSchedules jobs =
     concat (map
               (\<lambda>j.
                 if anacronJob_LastRunH j < 0
                   then [mk_full INFO ''Cron''
                           (''anacron cron.'' @ anacronJob_Name j @ '' has never run '' @ em_dash @
                            '' machine may not have been on at scheduled time'')
                           [''to run now: anacron -f -n cron.'' @ anacronJob_Name j]]
                 else if 0 < anacronJob_OverdueH j
                   then [mk_full WARN ''Cron''
                           (''anacron cron.'' @ anacronJob_Name j @ '' is '' @
                            itoa (anacronJob_OverdueH j) @ ''h overdue (last run: '' @
                            itoa (anacronJob_LastRunH j) @ ''h ago)'')
                           [''to run now: anacron -f -n cron.'' @ anacronJob_Name j,
                            ''note: machine was likely off during scheduled window'']]
                 else [])
               jobs)"

definition checkKdump :: "kdump_info \<Rightarrow> insight list" where
  "checkKdump d =
     (if kdump_Available d \<and> kdump_StateUnverified d
        then [unverifiedInsight ReasonUnreadable INFO ''Kdump''
                (''kdump is present but its enabled/active state could not be read '' @ em_dash @
                 '' crash-dump readiness not checked'')
                [''to inspect: systemctl is-enabled kdump; systemctl is-active kdump'']]
      else if \<not> kdump_Available d \<or> \<not> kdump_Enabled d then []
      else if kdump_ServiceState d = ''failed''
        then [mk_full WARN ''Kdump''
                (''kdump.service is enabled but FAILED '' @ em_dash @
                 '' no crash dump will be captured on a kernel panic'')
                [''to inspect: kdumpctl status   (or: systemctl status kdump)'',
                 ''to inspect: journalctl -u kdump -b'']]
      else if \<not> kdump_CrashLoaded d \<or> kdump_ReservedBytes d = 0
        then (let reason = ''the crash kernel is not loaded'';
                  fix = ''kdumpctl reset && systemctl restart kdump'';
                  reason =
                    (if kdump_Crashkernel d = []
                       then ''no crashkernel= memory reservation on the kernel cmdline''
                     else reason);
                  fix =
                    (if kdump_Crashkernel d = []
                       then ''grubby --update-kernel=ALL --args='' @ squote @
                            ''crashkernel=1G-64G:448M,64G-:512M'' @ squote @ '', then reboot''
                     else fix)
              in [mk_full WARN ''Kdump''
                    (''kdump is enabled but '' @ reason @ '' '' @ em_dash @
                     '' a kernel panic will produce NO crash dump'')
                    [''to inspect: cat /sys/kernel/kexec_crash_loaded   (1 = armed)'',
                     ''to inspect: kdumpctl status'', ''to fix: '' @ fix]])
      else [])"

definition checkTuned :: "environment \<Rightarrow> tuned_info \<Rightarrow> insight list" where
  "checkTuned env d =
     (if \<not> tuned_Available d then []
      else if tuned_StateUnverified d
        then [unverifiedInsight ReasonUnreadable INFO ''Tuned''
                (''tuned is installed but its state or profile could not be read '' @ em_dash @
                 '' profile check not run'')
                [''to inspect: tuned-adm active; tuned-adm recommend'']]
      else if \<not> tuned_Active d
        then [mk_full INFO ''Tuned''
                (''tuned is installed but not active '' @ em_dash @
                 '' no performance profile is applied'') [''to fix: systemctl enable --now tuned'']]
      else if (tuned_Profile d \<noteq> [] \<and> tuned_Recommended d \<noteq> []) \<and>
              tuned_Profile d \<noteq> tuned_Recommended d
        then [mk_full INFO ''Tuned''
                (''tuned active profile '' @ Quote env (tuned_Profile d) @
                 '' differs from the recommended '' @ Quote env (tuned_Recommended d) @
                 '' for this system'')
                [''note: tuned recommends '' @ Quote env (tuned_Recommended d) @
                 '' for this hardware (e.g. virtual-guest tunes a VM for its hypervisor)'',
                 ''to fix: tuned-adm profile '' @ tuned_Recommended d]]
      else [])"

definition checkKernelPatch :: "kernel_patch_info \<Rightarrow> insight list" where
  "checkKernelPatch d =
     (if \<not> kernelPatch_Available d then []
      else if kernelPatch_CheckUnverified d
        then [unverifiedInsight ReasonCollectorError INFO ''Kernel''
                (''kernel reboot-needed status could not be determined '' @ em_dash @
                 '' the package manager (zypp) was locked by another process'')
                [''to inspect: zypper needs-rebooting   (re-run when no other zypper/PackageKit process holds the lock)'']]
      else if \<not> kernelPatch_RebootNeeded d then []
      else let msg =
                 ''a kernel / core-library update has been installed but not yet applied '' @
                 em_dash @
                 '' reboot to apply (you may still be running the pre-update, possibly-vulnerable kernel)'';
               msg =
                 (if kernelPatch_LatestInstalled d \<noteq> []
                    then ''a newer kernel ('' @ kernelPatch_LatestInstalled d @
                         '') is installed but the system is still running '' @
                         kernelPatch_Running d @ '' '' @ em_dash @ '' reboot to apply''
                  else msg)
           in [mk_full WARN ''Kernel'' msg
                 [''note: until you reboot you are running the OLD kernel '' @ em_dash @
                  '' any kernel CVE the update fixed is still exposed'',
                  ''to inspect: rpm -q --last kernel-uek-core kernel-core (RHEL) / zypper needs-rebooting (SUSE) / cat /run/reboot-required.pkgs (Debian/Ubuntu)'',
                  ''to fix: reboot  (schedule a maintenance window)'']])"

definition checkKsplice :: "ksplice_info \<Rightarrow> insight list" where
  "checkKsplice d =
     (if \<not> ksplice_Available d then []
      else if ksplice_CheckUnverified d
        then [unverifiedInsight ReasonUnreadable INFO ''Ksplice''
                ''Ksplice is installed but its update status could not be read''
                [''to inspect: uptrack-show   (or: uptrack-upgrade -n)'']]
      else if 0 < ksplice_PendingUpdates d
        then [mk_full WARN ''Ksplice''
                (itoa (ksplice_PendingUpdates d) @
                 '' Ksplice live patch(es) available but not applied '' @ em_dash @
                 '' the running kernel is still exposed'')
                [''to fix: uptrack-upgrade -y   (applies live, no reboot)'',
                 ''to inspect: uptrack-show'']]
      else [])"

definition checkServiceRestart :: "environment \<Rightarrow> service_restart_info \<Rightarrow> insight list" where
  "checkServiceRestart env d =
     (if \<not> serviceRestart_Available d then []
      else if 0 < serviceRestart_StaleCount d
        then (let msg =
                    itoa (serviceRestart_StaleCount d) @
                    '' process(es) are using libraries that were updated on disk ('' @
                    join (serviceRestart_StaleNames d) '', '' @ '') '' @ em_dash @
                    '' until restarted they run the OLD code'';
                  hints =
                    [''note: after a glibc/openssl security update, unrestarted services stay vulnerable until restarted'',
                     ''to inspect: needs-restarting -s   (dnf-utils), or: lsof +c0 -d DEL 2>/dev/null | grep '' @
                     squote @ bslash @ ''.so'' @ squote,
                     ''to fix: systemctl restart <unit> for each, or reboot''];
                  msg =
                    (if serviceRestart_NeedsRoot d
                       then msg @ '' '' @ em_dash @
                            '' scan was non-root and partial; root-owned processes were not checked, so the real count may be higher''
                     else msg);
                  hints =
                    (if serviceRestart_NeedsRoot d
                       then hints @ [''to inspect fully: re-run as root (sudo dsd health)'']
                     else hints)
              in [mk_full WARN ''ServiceRestart'' msg hints])
      else if serviceRestart_NeedsRoot d
        then [needsRootInsight (IsRoot env) INFO ''ServiceRestart''
                (''stale-library scan was partial '' @ em_dash @
                 '' run as root to check every process for libraries updated underneath it'')
                [''to fix: re-run as root (sudo dsd health)'']]
      else [])"

definition kernelRetentionHints :: "gostring \<Rightarrow> gostring list" where
  "kernelRetentionHints pm =
     (if pm = ''zypper''
        then [''to clean: sudo purge-kernels'',
              ''to bound: set multiversion.kernels = latest,latest-1,running in /etc/zypp/zypp.conf'']
      else if pm = ''dnf''
        then [''to clean: sudo dnf remove --oldinstallonly'',
              ''to bound: set installonly_limit=3 in /etc/dnf/dnf.conf'']
      else [''to clean: sudo apt autoremove --purge''])"

definition livePatchInspectHint :: "gostring \<Rightarrow> gostring" where
  "livePatchInspectHint tool =
     (if tool = ''klp'' then ''to inspect: klp -v patches''
      else if tool = ''kpatch'' then ''to inspect: kpatch list''
      else ''to inspect: dmesg | grep -i livepatch'')"

definition checkTransactional :: "transactional_info \<Rightarrow> insight list" where
  "checkTransactional d =
     (if \<not> transactional_Available d then []
      else if transactional_Unverified d
        then [unverifiedInsight ReasonUnreadable INFO ''Transactional''
                (''could not verify whether a transactional update is staged '' @ em_dash @
                 '' the booted/default btrfs snapshot could not be read'')
                [''to verify: sudo btrfs subvolume get-default /   (or run dsd as root)'']]
      else if \<not> transactional_RebootPending d then []
      else [mk_full WARN ''Transactional''
              (''a transactional update is staged but NOT active '' @ em_dash @
               '' the system is running snapshot '' @ itoa (transactional_BootedSnapshot d) @
               '' while the default (next boot) is snapshot '' @
               itoa (transactional_DefaultSnapshot d) @
               ''. Any security/kernel update in the new snapshot is not applied until you reboot'')
              [''to inspect: snapper list   (the booted '' @ squote @ ''*'' @ squote @
               '' snapshot differs from the default '' @ squote @ ''+'' @ squote @ '')'',
               ''to apply: reboot   (boots into the new default snapshot)'']])"

definition postBootUnmeasurable :: "environment \<Rightarrow> post_boot_info \<Rightarrow> insight" where
  "postBootUnmeasurable env pb =
     (if postBoot_Reason pb = ''no_persistent_journal''
        then mk_full INFO ''PostBoot''
               (''prior-boot forensics unavailable '' @ em_dash @
                '' journald is volatile, so the previous boot'' @ squote @
                ''s logs did not survive the reboot'')
               [''to enable: set Storage=persistent in /etc/systemd/journald.conf (creates /var/log/journal), then restart systemd-journald'']
      else if postBoot_Reason pb = ''journal_unreadable''
        then needsRootInsight (IsRoot env) INFO ''PostBoot''
               (''prior-boot forensics unavailable '' @ em_dash @
                '' the journal is present but not readable as this user'')
               [''run as root (or join the systemd-journal group) to read the previous boot'']
      else if postBoot_Reason pb = ''non_systemd_no_wtmp''
        then mk_full INFO ''PostBoot''
               (''prior-boot forensics unavailable '' @ em_dash @
                '' non-systemd host with no wtmp, so there is no cross-boot record to read'') []
      else unverifiedInsight ReasonUnreadable INFO ''PostBoot''
             ''prior-boot forensics unavailable (could not read any cross-boot source)'' [])"

definition postBootCleanLine :: "post_boot_info \<Rightarrow> gostring" where
  "postBootCleanLine pb =
     (let parts = [];
          parts =
            (if postBoot_ShutdownChecked pb \<and> \<not> postBoot_UncleanShutdown pb
               then parts @ [''previous shutdown was clean'']
             else parts)
      in if postBoot_Source pb = ''wtmp''
           then (let parts =
                       parts @
                       [''OOM/kernel-panic detail unavailable (no persistent journal to read the prior boot)'']
                 in ''prior boot read via wtmp (coarse) '' @ em_dash @ '' '' @ join parts ''; '')
         else let parts = parts @ [''no OOM kill or kernel panic in the prior boot'']
              in ''prior boot read via journal '' @ em_dash @ '' '' @ join parts ''; '')"

definition checkFstab :: "fstab_info \<Rightarrow> insight list" where
  "checkFstab info =
     (if \<not> fstab_Checked info \<or> fstab_Drifts info = [] then []
      else concat (map
                     (\<lambda>d.
                       let level = WARN;
                           effect = ''the device is absent, so this mount will fail at boot'';
                           level = (if fstabDrift_BootMount d then CRIT else level);
                           effect =
                             (if fstabDrift_BootMount d
                                then ''this is a boot-critical mount '' @ em_dash @
                                     '' the host will fail to boot and drop to an emergency shell''
                              else effect)
                       in [mk_full level ''Fstab''
                             (''/etc/fstab references '' @ fstabDrift_Spec d @ '' for '' @
                              fstabDrift_MountPoint d @ '' but no present device has that id '' @
                              em_dash @ '' '' @ effect)
                             [''common cause: the VM was cloned or the disk was replaced/moved, changing the filesystem UUID'',
                              ''to find the current id: lsblk -o NAME,UUID,PARTUUID,MOUNTPOINT ; blkid'',
                              ''to fix: update the '' @ fstabDrift_MountPoint d @
                              '' entry in /etc/fstab to the current id (or add '' @ squote @
                              ''nofail'' @ squote @ '' if the mount is optional)'']])
                     (fstab_Drifts info)))"

definition checkRootFS :: "root_fs_info \<Rightarrow> insight list" where
  "checkRootFS info =
     (if \<not> rootFS_UnexpectedReadOnly info then []
      else [mk_full CRIT ''Root FS''
              (''root filesystem ('' @ rootFS_RootFstype info @
               '') is mounted READ-ONLY but fstab intends read-write '' @ em_dash @
               '' an errors=remount-ro trip or failed fsck has forced it ro; the host cannot write to disk'')
              [''to find the cause: journalctl -b -p err ; dmesg | grep -iE '' @ squote @
               ''I/O error|ext4|xfs|btrfs|remount'' @ squote,
               ''to confirm: mount | grep '' @ squote @ '' / '' @ squote,
               ''common cause: a disk/filesystem error tripped errors=remount-ro, or a boot-time fsck failed'',
               ''after fixing the cause, remount rw: mount -o remount,rw /   (or fsck the root device from rescue)'']])"

definition packageFixCommands :: "gostring \<Rightarrow> (gostring \<times> gostring)" where
  "packageFixCommands pm =
     (if pm = ''brew'' then (''brew upgrade'', ''brew outdated'')
      else if pm = ''dnf'' then (''dnf upgrade --security'', ''dnf updateinfo list security'')
      else if pm = ''zypper''
        then (''zypper patch --category security'', ''zypper list-patches --category security'')
      else if pm = ''pacman'' then (''pacman -Syu'', ''checkupdates'')
      else if pm = ''yum'' then (''yum update --security'', ''yum updateinfo list security'')
      else if pm = ''tdnf'' then (''tdnf update --security'', ''tdnf updateinfo list --security'')
      else (''apt-get upgrade'', ''apt list --upgradable 2>/dev/null | grep -i security''))"

definition noSecurityRepoHints :: "gostring \<Rightarrow> gostring list" where
  "noSecurityRepoHints pm =
     (if pm = ''dnf'' \<or> pm = ''yum''
        then [''to fix: enable a repo that carries security advisories (check: dnf repolist / yum repolist)'']
      else if pm = ''zypper''
        then [''to fix: add openSUSE'' @ squote @ ''s security repo or SUSE'' @ squote @
              ''s update repo (check: zypper repos)'']
      else [''to fix (Debian): add '' @ squote @
            ''deb http://security.debian.org/debian-security <suite>-security main'' @ squote @
            '' to /etc/apt/sources.list'',
            ''to fix (Ubuntu): add '' @ squote @
            ''deb http://security.ubuntu.com/ubuntu <suite>-security main'' @ squote @
            '' to /etc/apt/sources.list''])"

definition checkPackageDBHealth :: "packages_info \<Rightarrow> insight list" where
  "checkPackageDBHealth pkg =
     (if (packages_PackageManager pkg \<noteq> [] \<and> packages_PackageManager pkg \<noteq> ''unknown'') \<and>
         \<not> packages_DBHealthChecked pkg
        then [unverifiedInsight ReasonCollectorError INFO ''Packages''
                (''package database health could not be checked '' @ em_dash @
                 '' update-blocking corruption/locks are unverified'') []]
      else if \<not> packages_DBHealthChecked pkg \<or> \<not> packages_DBUpdatesBlocked pkg then []
      else let hints = [];
               hints =
                 (if packages_DBBlockFix pkg \<noteq> []
                    then hints @ [''to fix: '' @ packages_DBBlockFix pkg]
                  else hints);
               hints =
                 hints @
                 [''note: the security-update count cannot be trusted until this is cleared '' @
                  em_dash @ '' no update can be applied''];
               reason = packages_DBBlockReason pkg;
               reason =
                 (if reason = [] then ''the package database is in a state that blocks updates''
                  else reason)
           in [mk_full WARN ''Packages'' (''package updates are silently blocked: '' @ reason) hints])"

definition securityUpdateInsight :: "packages_info \<Rightarrow> insight list" where
  "securityUpdateInsight pkg =
     (let (fixCmd, inspectCmd) = packageFixCommands (packages_PackageManager pkg)
      in if packages_PackageManager pkg = ''apt''
           then [mk_full WARN ''Packages''
                   (itoa (packages_SecurityUpdates pkg) @ '' security update(s) available (apt) '' @
                    em_dash @ '' severity inferred from package name; apt exposes no CVSS'')
                   [''to fix: '' @ fixCmd]]
         else if packages_PackageManager pkg = ''tdnf''
           then [mk_full WARN ''Packages''
                   (itoa (packages_SecurityUpdates pkg) @ '' pending security update(s) (tdnf) '' @
                    em_dash @ '' Photon advisories carry no CVSS, so severity is not scored'')
                   [''to fix: '' @ fixCmd]]
         else if packages_PackageManager pkg = ''brew''
           then [mk_full INFO ''Packages''
                   (itoa (packages_SecurityUpdates pkg) @ '' outdated Homebrew formula(e) '' @
                    em_dash @ '' brew has no security ratings, this is a routine update count'')
                   [''to inspect: '' @ inspectCmd, ''to update: '' @ fixCmd]]
         else if 0 < packages_CriticalUpdates pkg
           then [mk_full CRIT ''Packages''
                   (itoa (packages_CriticalUpdates pkg) @
                    '' critical security update(s) available ('' @ packages_PackageManager pkg @
                    '')'') [''to inspect: '' @ inspectCmd, ''to fix: '' @ fixCmd]]
         else if 0 < packages_ImportantUpdates pkg
           then [mk_full WARN ''Packages''
                   (itoa (packages_ImportantUpdates pkg) @
                    '' important security update(s) available ('' @ packages_PackageManager pkg @
                    '')'') [''to fix: '' @ fixCmd]]
         else [mk_full WARN ''Packages''
                 (itoa (packages_SecurityUpdates pkg) @ '' security update(s) available ('' @
                  packages_PackageManager pkg @ '')'') [''to fix: '' @ fixCmd]])"

definition checkPackageExtras :: "packages_info \<Rightarrow> insight list" where
  "checkPackageExtras pkg =
     concat (map
               (\<lambda>risk.
                 [mk_full WARN ''Packages'' (''SUSE migration risk: '' @ risk)
                    [''to lock grub:   zypper addlock grub2-x86_64-efi'',
                     ''to check locks: zypper locks'',
                     ''to register:    SUSEConnect -r <registration-code>'',
                     ''note: resolve before running zypper migration to avoid boot failure'']])
               (packages_SUSEMigrationRisks pkg))"

definition cveScanUnavailable :: "cve_all_result \<Rightarrow> bool" where
  "cveScanUnavailable r \<longleftrightarrow>
     (cveAllResult_PackageManager r = [] \<or> cveAllResult_ScanFailed r) \<or>
     (let reason = to_lower (cveAllResult_StatusReason r)
      in (contains reason ''failed'' \<or> contains reason ''install arch-audit'') \<or>
         contains reason ''not verified'')"

definition checkPackageIntegrity :: "package_integrity \<Rightarrow> insight list" where
  "checkPackageIntegrity integrity =
     (if packageIntegrity_BrokenPackages integrity \<noteq> []
        then [mk_full CRIT ''Packages''
                (itoa (int (length (packageIntegrity_BrokenPackages integrity))) @
                 '' broken/inconsistent package(s) detected'')
                ([''to inspect (dnf):  dnf check'', ''to inspect (dpkg): dpkg --audit'',
                  ''to fix (dnf):      dnf distro-sync'',
                  ''to fix (apt):      apt --fix-broken install''] @
                 take (nat (min 3 (int (length (packageIntegrity_BrokenPackages integrity)))))
                   (packageIntegrity_BrokenPackages integrity))]
      else []) @
     (if packageIntegrity_UnmetDeps integrity \<noteq> []
        then [mk_full CRIT ''Packages''
                (itoa (int (length (packageIntegrity_UnmetDeps integrity))) @
                 '' unmet dependency/dependencies detected'')
                ([''to fix: apt --fix-broken install''] @ packageIntegrity_UnmetDeps integrity)]
      else []) @
     (if packageIntegrity_RPMVerifyFailed integrity \<noteq> []
        then [mk_full WARN ''Packages''
                (itoa (int (length (packageIntegrity_RPMVerifyFailed integrity))) @
                 '' system file(s) modified from package baseline (rpm --verify)'')
                ([''to inspect: rpm --verify --all | grep -v '' @ squote @ ''^..........  c '' @
                  squote,
                  ''note:       modifications to non-config files may indicate tampering or a broken update''] @
                 take (nat (min 3 (int (length (packageIntegrity_RPMVerifyFailed integrity)))))
                   (packageIntegrity_RPMVerifyFailed integrity))]
      else []) @
     (if packageIntegrity_VerifyTimedOut integrity
        then [mk_full WARN ''Packages''
                (''rpm --verify timed out '' @ em_dash @
                 '' system may be under heavy load or have many packages'')
                [''to run manually: rpm --verify --all 2>/dev/null | grep -v '' @ squote @
                 ''^..........  c '' @ squote]]
      else []) @
     (if packageIntegrity_VerifyLocked integrity
        then [unverifiedInsight ReasonCollectorError INFO ''Packages''
                (''could not verify package integrity '' @ em_dash @
                 '' the package manager was locked by another process'')
                [''to run manually: zypper verify   (after any running zypper/packagekit finishes)'']]
      else []) @
     (if packageIntegrity_CheckFailed integrity
        then [unverifiedInsight ReasonCollectorError INFO ''Packages''
                (''could not verify package integrity '' @ em_dash @
                 '' the underlying check tool failed to run'')
                [''to inspect: dnf check   OR   dpkg --audit && apt-get check'']]
      else []) @
     (if packageIntegrity_MissingLibs integrity \<noteq> []
        then [mk_full CRIT ''Packages''
                (itoa (int (length (packageIntegrity_MissingLibs integrity))) @
                 '' missing shared library/libraries detected'')
                ([''to inspect: ldd /bin/ls /usr/bin/ssh /usr/bin/python3'',
                  ''to fix:     reinstall the package providing the missing .so file''] @
                 packageIntegrity_MissingLibs integrity)]
      else []) @
     (if \<not> packageIntegrity_LdconfigOK integrity
        then [unverifiedInsight ReasonUnreadable INFO ''Packages''
                (''could not verify the shared library cache '' @ em_dash @
                 '' ldconfig -p did not complete (slow/overlay fs or permissions); not necessarily a problem'')
                [''to check manually: ldconfig -p | head -20'',
                 ''to rebuild if needed: sudo ldconfig'']]
      else [])"

definition checkTLS :: "tls_info \<Rightarrow> insight list" where
  "checkTLS tls =
     (if tls_Certs tls = [] \<and> tls_Uncheckable tls = [] then []
      else concat (map
                     (\<lambda>u.
                       let hints =
                             [''to inspect: openssl x509 -in '' @ tlsUncheckable_Path u @
                              '' -noout -dates''];
                           hints =
                             (if tlsUncheckable_NeedsRoot u
                                then [''to fix: re-run with sudo so the certificate directory can be read'']
                              else hints)
                       in [unverifiedInsight ReasonCollectorError WARN ''TLS''
                             (''certificate could not be checked: '' @ tlsUncheckable_Path u @
                              '' ('' @ tlsUncheckable_Error u @ '')'') hints])
                     (tls_Uncheckable tls)) @
           concat (map
                     (\<lambda>cert.
                       if cert_ExpiresIn cert < 0
                         then [mk_full CRIT ''TLS''
                                 (''certificate expired '' @ itoa (- cert_ExpiresIn cert) @
                                  '' day(s) ago: '' @ cert_Subject cert @ '' ('' @ cert_Path cert @
                                  '')'')
                                 [''to inspect: openssl x509 -in '' @ cert_Path cert @
                                  '' -noout -dates'',
                                  ''to fix: renew certificate (certbot renew or manual replacement)'']]
                       else [])
                     (tls_Certs tls)) @
           concat (map
                     (\<lambda>cert.
                       if 0 \<le> cert_ExpiresIn cert \<and> cert_ExpiresIn cert \<le> 7
                         then [mk_full CRIT ''TLS''
                                 (''certificate expires in '' @ itoa (cert_ExpiresIn cert) @
                                  '' day(s): '' @ cert_Subject cert @ '' ('' @ cert_Path cert @
                                  '')'')
                                 [''to inspect: openssl x509 -in '' @ cert_Path cert @
                                  '' -noout -dates'',
                                  ''to fix: renew now '' @ em_dash @
                                  '' certbot renew or manual replacement'']]
                       else [])
                     (tls_Certs tls)) @
           concat (map
                     (\<lambda>cert.
                       if 7 < cert_ExpiresIn cert \<and> cert_ExpiresIn cert \<le> 30
                         then [mk_full WARN ''TLS''
                                 (''certificate expires in '' @ itoa (cert_ExpiresIn cert) @
                                  '' day(s): '' @ cert_Subject cert @ '' ('' @ cert_Path cert @
                                  '')'')
                                 [''to inspect: openssl x509 -in '' @ cert_Path cert @
                                  '' -noout -dates'',
                                  ''to fix: renew soon '' @ em_dash @
                                  '' certbot renew or manual replacement'']]
                       else [])
                     (tls_Certs tls)) @
           concat (map
                     (\<lambda>cert.
                       if cert_NotYetValid cert
                         then [mk_full CRIT ''TLS''
                                 (''certificate is NOT YET VALID (NotBefore in the future): '' @
                                  cert_Subject cert @ '' ('' @ cert_Path cert @ '')'')
                                 [''to inspect: openssl x509 -in '' @ cert_Path cert @
                                  '' -noout -dates'',
                                  ''note: check the host clock (NTP) and that the correct, current cert is installed'']]
                       else [])
                     (tls_Certs tls)))"

definition checkFirmware :: "firmware_info \<Rightarrow> insight list" where
  "checkFirmware f =
     (if \<not> firmware_Available f then []
      else if firmware_StatusReason f \<noteq> [] \<and> firmware_Status f \<noteq> OK
        then [unverifiedInsight ReasonCollectorError INFO fwCatFirmware
                (''firmware update status could not be verified: '' @ firmware_StatusReason f)
                [fwInspectFwupd, ''to refresh: fwupdmgr refresh   (run as root)'']]
      else if firmware_UpgradeCount f = 0 then []
      else (if 0 < firmware_SecurityCount f
              then (let names =
                          concat (map
                                    (\<lambda>u.
                                      if firmwareUpgrade_SecurityFix u then [firmwareUpgrade_Name u]
                                      else [])
                                    (firmware_Upgrades f))
                    in [mk_full WARN fwCatFirmware
                          (itoa (firmware_SecurityCount f) @
                           '' security-relevant firmware upgrade(s) pending: '' @ join names '', '')
                          [fwInspectFwupd, ''to apply:   fwupdmgr update'',
                           ''note: most firmware updates require a reboot'']])
            else []) @
           (let nonSec = wrap64 (firmware_UpgradeCount f - firmware_SecurityCount f)
            in if 0 < nonSec
                 then [mk_full INFO fwCatFirmware
                         (itoa nonSec @ '' non-security firmware upgrade(s) available'')
                         [fwInspectFwupd]]
               else []))"

definition checkSnapper :: "snapper_info \<Rightarrow> insight list" where
  "checkSnapper s =
     (if \<not> snapper_Available s then []
      else let out = []
           in if snapper_Error s \<noteq> []
                then (if contains (snapper_Error s) ''run as root''
                        then out @
                             [unverifiedInsight ReasonCollectorError INFO fwCatSnapshots
                                (''snapper: '' @ snapper_Error s) []]
                      else out @ [mk_full WARN fwCatSnapshots (''snapper: '' @ snapper_Error s) []])
              else if snapper_SnapshotCount s = 0
                then out @
                     [mk_full WARN fwCatSnapshots
                        (''snapper is installed but no snapshots exist '' @ em_dash @
                         '' system has no rollback points'')
                        [''to fix: snapper create --description '' @ squote @ ''initial'' @ squote,
                         ''to enable automatic snapshots: snapper set-config TIMELINE_CREATE=yes'']]
              else let out =
                         (if snapper_LastSnapshotH s < 0
                            then out @
                                 [unverifiedInsight ReasonCollectorError WARN fwCatSnapshots
                                    (itoa (snapper_SnapshotCount s) @
                                     '' snapshot(s) found but last snapshot time could not be determined'')
                                    [''to check: sudo snapper list'']]
                          else if 72 \<le> snapper_LastSnapshotH s
                            then out @
                                 [mk_full CRIT fwCatSnapshots
                                    (''no Btrfs snapshot in '' @ itoa (snapper_LastSnapshotH s) @
                                     ''h '' @ em_dash @ '' system has no recent rollback point'')
                                    [''to fix: snapper create --description '' @ squote @
                                     ''manual'' @ squote,
                                     ''to enable timeline: snapper set-config TIMELINE_CREATE=yes'']]
                          else if 24 \<le> snapper_LastSnapshotH s
                            then out @
                                 [mk_full WARN fwCatSnapshots
                                    (''last Btrfs snapshot was '' @ itoa (snapper_LastSnapshotH s) @
                                     ''h ago '' @ em_dash @ '' rollback window may be stale'')
                                    [''to fix: snapper create --description '' @ squote @
                                     ''manual'' @ squote,
                                     ''to check schedule: snapper get-config | grep TIMELINE'']]
                          else out);
                       out =
                         (if fle (Fin 50) (snapper_TotalSpaceGB s)
                            then out @
                                 [mk_full CRIT fwCatSnapshots
                                    (''Btrfs snapshots consuming '' @
                                     fmt_f 1 (snapper_TotalSpaceGB s) @ '' GB '' @ em_dash @
                                     '' filesystem space at risk'')
                                    [''to clean up: snapper delete --sync <number>'',
                                     ''to list by size: sudo snapper list'',
                                     ''to limit retention: snapper set-config NUMBER_LIMIT=10'']]
                          else if fle (Fin 20) (snapper_TotalSpaceGB s)
                            then out @
                                 [mk_full WARN fwCatSnapshots
                                    (''Btrfs snapshots consuming '' @
                                     fmt_f 1 (snapper_TotalSpaceGB s) @ '' GB '' @ em_dash @
                                     '' consider pruning old snapshots'')
                                    [''to clean up: snapper delete --sync <number>'',
                                     ''to limit retention: snapper set-config NUMBER_LIMIT=10'']]
                          else out)
                   in if out = []
                        then (let msg = itoa (snapper_SnapshotCount s) @ '' Btrfs snapshot(s)'';
                                  msg =
                                    (if 0 \<le> snapper_LastSnapshotH s
                                       then msg @ '' '' @ em_dash @ '' last < '' @
                                            itoa (wrap64 (snapper_LastSnapshotH s + 1)) @ ''h ago''
                                     else msg);
                                  msg =
                                    (if flt (Fin 0) (snapper_TotalSpaceGB s)
                                       then msg @ '', '' @ fmt_f 1 (snapper_TotalSpaceGB s) @
                                            '' GB used''
                                     else msg)
                              in out @ [mk_full OK fwCatSnapshots msg []])
                      else out)"

definition checkSUSESubscription :: "suse_connect_info \<Rightarrow> insight list" where
  "checkSUSESubscription s =
     (if \<not> suseConnect_Registered s
        then (if suseConnect_Status s = ''query-failed''
                then [unverifiedInsight ReasonCollectorError INFO fwCatSubscription
                        (''SUSE registration not verified '' @ em_dash @
                         '' SUSEConnect --status failed (network/SCC error?)'')
                        [''to inspect: SUSEConnect --status'',
                         ''to inspect: SUSEConnect --status-text'']]
              else [mk_full WARN fwCatSubscription
                      (''SUSE system is not registered '' @ em_dash @
                       '' security patches unavailable without SUSEConnect'')
                      [''to fix: SUSEConnect -r <REGCODE>'', ''to register: https://scc.suse.com'']])
      else if suseConnect_ExpiresDays s < 0
        then [unverifiedInsight ReasonCollectorError INFO fwCatSubscription
                ''SUSE subscription is registered but its expiry date could not be determined''
                [''to inspect: SUSEConnect --status'', ''to inspect: SUSEConnect --status-text'']]
      else if suseConnect_ExpiresDays s = 0
        then [mk_full CRIT fwCatSubscription
                (''SUSE subscription EXPIRED '' @ em_dash @ '' security patches unavailable'')
                [fwFixSUSERenewShrt]]
      else if 0 < suseConnect_ExpiresDays s \<and> suseConnect_ExpiresDays s \<le> 14
        then [mk_full CRIT fwCatSubscription
                (''SUSE subscription expires in '' @ itoa (suseConnect_ExpiresDays s) @
                 '' day(s) '' @ em_dash @ '' renew immediately'') [fwFixSUSERenewShrt]]
      else if 14 < suseConnect_ExpiresDays s \<and> suseConnect_ExpiresDays s \<le> 30
        then [mk_full WARN fwCatSubscription
                (''SUSE subscription expires in '' @ itoa (suseConnect_ExpiresDays s) @ '' day(s)'')
                [fwFixSUSERenewShrt]]
      else [])"

definition checkRHELSubscription :: "suse_connect_info \<Rightarrow> insight list" where
  "checkRHELSubscription s =
     (if suseConnect_StatusUnverified s
        then [unverifiedInsight ReasonCollectorError INFO fwCatSubscription
                (''RHEL/Oracle subscription status could not be determined '' @ em_dash @
                 '' subscription-manager output did not match a known pattern'')
                [''to inspect: subscription-manager status'']]
      else if suseConnect_Status s = ''unregistered-rhui'' then []
      else if suseConnect_Status s = ''unregistered''
        then [mk_full WARN fwCatSubscription
                (''RHEL/Oracle system is not registered '' @ em_dash @
                 '' security updates may be unavailable'')
                [''to fix: subscription-manager register --auto-attach'',
                 ''to inspect: subscription-manager status'',
                 ''note: Rocky/AlmaLinux do not require registration; cloud PAYG (RHUI) images do not either'']]
      else if suseConnect_Status s = ''expired''
        then [mk_full CRIT fwCatSubscription
                (''Red Hat subscription EXPIRED '' @ em_dash @ '' security patches unavailable'')
                [''to fix: renew at https://access.redhat.com'',
                 ''to inspect: subscription-manager list --consumed'']]
      else [])"

definition checkUbuntuPro :: "suse_connect_info \<Rightarrow> insight list" where
  "checkUbuntuPro s =
     (if suseConnect_Status s = ''detached''
        then [mk_full INFO fwCatSubscription
                (''Ubuntu Pro not attached '' @ em_dash @
                 '' ESM security patches and Livepatch unavailable'')
                [''to attach: pro attach <token>  (free for up to 5 personal machines)'',
                 ''to get token: ubuntu.com/pro'', ''to inspect: pro status'']]
      else [])"

definition checkNetworkdConfig :: "networkd_config_info \<Rightarrow> insight list" where
  "checkNetworkdConfig info =
     (if \<not> networkdConfig_Detected info then []
      else (if networkdConfig_ConfigDirUnreadable info
              then [unverifiedInsight ReasonUnreadable INFO nwdCatNetworkd
                      (''could not read /etc/systemd/network '' @ em_dash @
                       '' permission-file audit skipped this run'')
                      [''to inspect: ls -la /etc/systemd/network'']]
            else []) @
           (if networkdConfig_UnreadableFiles info \<noteq> []
              then (let paths =
                          concat (map
                                    (\<lambda>f.
                                      [networkdConfigFile_Path f @ '' (mode '' @
                                       networkdConfigFile_Mode f @ '')''])
                                    (networkdConfig_UnreadableFiles info));
                        chmodHint =
                          ''to fix: file path withheld '' @ em_dash @
                          '' contains unexpected characters'';
                        chmodHint =
                          (if looksLikeSafeToken
                                (networkdConfigFile_Path (hd (networkdConfig_UnreadableFiles info)))
                             then ''to fix: chmod 644 '' @
                                  networkdConfigFile_Path (hd (networkdConfig_UnreadableFiles info))
                           else chmodHint)
                    in [mk_full WARN nwdCatNetworkd
                          (itoa (int (length (networkdConfig_UnreadableFiles info))) @
                           '' systemd-networkd config file(s) not readable by networkd (need mode 0644) '' @
                           em_dash @
                           '' silently ignored, so the network they configure may not be applied'')
                          [nwdPfxAffected @ join paths '', '',
                           ''networkd runs as an unprivileged user and skips files without the world-read bit '' @
                           em_dash @ '' no error is printed to the console'', chmodHint,
                           ''to verify: networkctl status'']])
            else []) @
           (if networkdConfig_FailedLinks info \<noteq> []
              then (let names =
                          concat (map
                                    (\<lambda>l.
                                      [networkdLink_Name l @ '' (operational: '' @
                                       networkdLink_Operational l @ '')''])
                                    (networkdConfig_FailedLinks info));
                        safeLinkName = ''<link>'';
                        safeLinkName =
                          (if looksLikeSafeToken
                                (networkdLink_Name (hd (networkdConfig_FailedLinks info)))
                             then networkdLink_Name (hd (networkdConfig_FailedLinks info))
                           else safeLinkName)
                    in [mk_full WARN nwdCatNetworkd
                          (itoa (int (length (networkdConfig_FailedLinks info))) @
                           '' systemd-networkd link(s) failed to configure (SETUP=failed) '' @
                           em_dash @ '' the network config did not apply'')
                          [nwdPfxAffected @ join names '', '',
                           ''networkd accepted the link'' @ squote @
                           ''s config but could not apply it (bad directive, conflicting address/route, or an ignored config file)'',
                           ''to inspect: networkctl status '' @ safeLinkName,
                           ''to reload after a fix: networkctl reload && networkctl reconfigure '' @
                           safeLinkName]])
            else []) @
           (if networkdConfig_StuckLinks info \<noteq> []
              then (let names =
                          concat (map
                                    (\<lambda>l.
                                      [networkdLink_Name l @ '' (operational: '' @
                                       networkdLink_Operational l @ '')''])
                                    (networkdConfig_StuckLinks info));
                        safeStuckLinkName = ''<link>'';
                        safeStuckLinkName =
                          (if looksLikeSafeToken
                                (networkdLink_Name (hd (networkdConfig_StuckLinks info)))
                             then networkdLink_Name (hd (networkdConfig_StuckLinks info))
                           else safeStuckLinkName)
                    in [mk_full WARN nwdCatNetworkd
                          (itoa (int (length (networkdConfig_StuckLinks info))) @
                           '' systemd-networkd link(s) stuck in SETUP=configuring long after boot '' @
                           em_dash @ '' never reached configured/routable'')
                          [nwdPfxAffected @ join names '', '',
                           ''networkd is still trying to bring the link up (common causes: no DHCP offer, or an address/route it can'' @
                           squote @ ''t apply)'',
                           ''to inspect: networkctl status '' @ safeStuckLinkName,
                           ''to inspect: journalctl -u systemd-networkd -b --no-pager | tail -50'']])
            else []))"

definition checkDNSConfigOnly :: "dns_resolver_info \<Rightarrow> insight list" where
  "checkDNSConfigOnly d =
     (if dnsResolver_TooManyNameservers d
        then [mk_full WARN ''DNS''
                (''/etc/resolv.conf has '' @ itoa (int (length (dnsResolver_Nameservers d))) @
                 '' nameservers '' @ em_dash @ '' libc silently ignores all beyond 3'')
                [''to fix: remove extra nameservers from /etc/resolv.conf'',
                 ''note: if managed by NetworkManager, adjust connection DNS settings'']]
      else []) @
     (if 3 < dnsResolver_NdotsHigh d
        then [mk_full WARN ''DNS''
                (''ndots:'' @ itoa (dnsResolver_NdotsHigh d) @ '' set '' @ em_dash @
                 '' every short hostname is tried as FQDN first, causing '' @
                 itoa (dnsResolver_NdotsHigh d) @ '' extra DNS lookups per query'')
                [''note: ndots >3 is set by Kubernetes (ndots:5) and may leak internal hostnames'',
                 ''to inspect: grep ndots /etc/resolv.conf'',
                 ''to fix: reduce to ndots:2 unless Kubernetes service discovery requires it'']]
      else []) @
     (if dnsResolver_IPv6Only d
        then [mk_full WARN ''DNS''
                (''all configured nameservers are IPv6 '' @ em_dash @
                 '' applications without IPv6 support may fail to resolve'')
                [''to fix: add at least one IPv4 nameserver to /etc/resolv.conf'',
                 ''current: '' @ join (dnsResolver_Nameservers d) '', '']]
      else []) @
     (if dnsResolver_DuplicateNameserver d \<noteq> []
        then [mk_full INFO ''DNS''
                (''duplicate nameserver entries: '' @
                 join (dnsResolver_DuplicateNameserver d) '', '')
                [''to fix: remove duplicate entries from /etc/resolv.conf'']]
      else [])"

definition checkCron :: "cron_info \<Rightarrow> insight list" where
  "checkCron c =
     (if \<not> cron_DaemonActive c \<and> cron_AnacronPresent c
        then [mk_full INFO ''Cron''
                (''no persistent cron daemon '' @ em_dash @
                 '' anacron only (jobs run when machine is up, not on exact schedule)'')
                [''to install persistent cron: dnf install cronie  (RHEL/Fedora)'',
                 ''to install persistent cron: apt install cron    (Debian/Ubuntu)'']] @
             (if cron_Failures c \<noteq> []
                then (let names = concat (map (\<lambda>f. [cronFailure_Job f]) (cron_Failures c))
                      in [mk_full WARN ''Cron''
                            (itoa (int (length (cron_Failures c))) @
                             '' cron job failure(s) in the last 24h: '' @
                             join (firstN names 3) '', '')
                            [''to inspect: journalctl -u crond --since '' @ squote @
                             ''24 hours ago'' @ squote @ '' | grep -i failed'',
                             ''to inspect: grep FAILED /var/log/cron'']])
              else if \<not> cron_FailureScanOK c
                then [unverifiedInsight ReasonUnreadable INFO ''Cron''
                        (''cron failure history not readable '' @ em_dash @
                         '' recent job failures could be hidden'')
                        [''to inspect: journalctl -u crond --since '' @ squote @ ''24 hours ago'' @
                         squote @ ''  (run as root?)'', ''to inspect: grep FAILED /var/log/cron'']]
              else []) @
             checkCronQuality (cron_QualityIssues c) @
             (if cron_QualityScanUnreadable c
                then [unverifiedInsight ReasonUnreadable INFO ''Cron''
                        (''some crontabs could not be read (root and user crontabs are root-only) '' @
                         em_dash @ '' crontab quality not fully checked'')
                        [''to inspect: ls -l /var/spool/cron/crontabs'',
                         ''to fix: re-run with sudo'']]
              else []) @
             checkAnacronSchedules (cron_AnacronJobs c)
      else if \<not> cron_DaemonActive c \<and> \<not> cron_AnacronPresent c
        then (if 0 < cron_SystemdTimers c
                then [mk_full INFO ''Cron''
                        (''no cron daemon installed '' @ em_dash @ '' '' @
                         itoa (cron_SystemdTimers c) @ '' systemd timer(s) active instead'')
                        [''to inspect: systemctl list-timers'']]
              else [mk_full WARN ''Cron''
                      (''no cron daemon and no anacron '' @ em_dash @
                       '' scheduled jobs will not run'')
                      [''to install: dnf install cronie  (RHEL/Fedora)'',
                       ''to install: apt install cron    (Debian/Ubuntu)'']])
      else (if cron_Failures c \<noteq> []
              then (let names = concat (map (\<lambda>f. [cronFailure_Job f]) (cron_Failures c))
                    in [mk_full WARN ''Cron''
                          (itoa (int (length (cron_Failures c))) @
                           '' cron job failure(s) in the last 24h: '' @
                           join (firstN names 3) '', '')
                          [''to inspect: journalctl -u crond --since '' @ squote @
                           ''24 hours ago'' @ squote @ '' | grep -i failed'',
                           ''to inspect: grep FAILED /var/log/cron'']])
            else if \<not> cron_FailureScanOK c
              then [unverifiedInsight ReasonUnreadable INFO ''Cron''
                      (''cron failure history not readable '' @ em_dash @
                       '' recent job failures could be hidden'')
                      [''to inspect: journalctl -u crond --since '' @ squote @ ''24 hours ago'' @
                       squote @ ''  (run as root?)'', ''to inspect: grep FAILED /var/log/cron'']]
            else []) @
           checkCronQuality (cron_QualityIssues c) @
           (if cron_QualityScanUnreadable c
              then [unverifiedInsight ReasonUnreadable INFO ''Cron''
                      (''some crontabs could not be read (root and user crontabs are root-only) '' @
                       em_dash @ '' crontab quality not fully checked'')
                      [''to inspect: ls -l /var/spool/cron/crontabs'', ''to fix: re-run with sudo'']]
            else []) @
           checkAnacronSchedules (cron_AnacronJobs c))"

definition checkKernelRetention :: "kernel_retention_info \<Rightarrow> insight list" where
  "checkKernelRetention d =
     (if kernelRetention_BootUnreadable d
        then [unverifiedInsight ReasonUnreadable INFO ''KernelRetention''
                (''could not read /boot '' @ em_dash @
                 '' kernel retention / boot-space risk was not checked this run'')
                [''to inspect: ls -la /boot'', ''to fix: re-run as root (sudo dsd health)'']]
      else if \<not> kernelRetention_Available d then []
      else if ((flt (Fin 0) (kernelRetention_BootTotalGB d) \<and>
                flt (kernelRetention_BootTotalGB d) (Fin 2)) \<and>
               3 \<le> kernelRetention_InstalledKernels d) \<and>
              fle (Fin 80) (kernelRetention_BootUsedPct d)
        then (let level = WARN;
                  level = (if fle (Fin 90) (kernelRetention_BootUsedPct d) then CRIT else level)
              in [mk_full level ''KernelRetention''
                    (''/boot is '' @ fmt_f 0 (kernelRetention_BootUsedPct d) @ ''% full with '' @
                     itoa (kernelRetention_InstalledKernels d) @ '' kernels installed '' @ em_dash @
                     '' the next kernel update can fail mid-write; remove old kernels'')
                    (kernelRetentionHints (kernelRetention_PackageManager d))])
      else if kernelRetention_Unbounded d \<and> 5 \<le> kernelRetention_InstalledKernels d
        then [mk_full WARN ''KernelRetention''
                (''kernel retention is unbounded ('' @ kernelRetention_RetentionPolicy d @
                 '') and '' @ itoa (kernelRetention_InstalledKernels d) @
                 '' kernels are installed '' @ em_dash @
                 '' they keep accumulating and will eventually fill /boot'')
                (kernelRetentionHints (kernelRetention_PackageManager d))]
      else [])"

definition checkLivePatch :: "live_patch_info \<Rightarrow> insight list" where
  "checkLivePatch d =
     (if \<not> livePatch_Available d then []
      else (if livePatch_DisabledPatches d \<noteq> []
              then [mk_full WARN ''LivePatch''
                      (itoa (int (length (livePatch_DisabledPatches d))) @
                       '' kernel livepatch(es) loaded but NOT enabled ('' @
                       join (firstN (livePatch_DisabledPatches d) 3) '', '' @ '') '' @ em_dash @
                       '' the running kernel is executing the UN-patched code for those fixes despite live patching being set up'')
                      [''to inspect: cat /sys/kernel/livepatch/*/enabled'',
                       livePatchInspectHint (livePatch_Tool d)]]
            else []) @
           (if livePatch_TransitioningPatches d \<noteq> []
              then [mk_full WARN ''LivePatch''
                      (itoa (int (length (livePatch_TransitioningPatches d))) @
                       '' kernel livepatch(es) stuck in transition ('' @
                       join (firstN (livePatch_TransitioningPatches d) 3) '', '' @ '') '' @
                       em_dash @
                       '' some tasks have not migrated to the patched code, so the fix is only partially active'')
                      [''to inspect: cat /sys/kernel/livepatch/*/transition'']]
            else []) @
           (if livePatch_UnverifiedPatches d \<noteq> []
              then [unverifiedInsight ReasonUnreadable INFO ''LivePatch''
                      (itoa (int (length (livePatch_UnverifiedPatches d))) @
                       '' kernel livepatch(es) loaded but their enabled-state could not be read ('' @
                       join (firstN (livePatch_UnverifiedPatches d) 3) '', '' @ '') '' @ em_dash @
                       '' re-run as root to confirm they are active'')
                      [''to inspect: sudo cat /sys/kernel/livepatch/*/enabled'']]
            else []))"

definition postBootFindings :: "post_boot_info \<Rightarrow> insight list" where
  "postBootFindings pb =
     (let out = [];
          out =
            (if postBoot_KernelPanic pb
               then (let hint = [];
                         hint =
                           (if postBoot_PanicHint pb \<noteq> []
                              then '' '' @ em_dash @ '' '' @ postBoot_PanicHint pb
                            else hint)
                     in out @
                        [mk_full WARN ''PostBoot''
                           (''the previous boot logged a kernel panic / oops'' @ hint @ '' '' @
                            em_dash @
                            '' the box most likely crashed rather than rebooting cleanly'')
                           [''to inspect: journalctl -k --boot=-1'']])
             else out);
          out =
            (if 0 < postBoot_OOMKills pb
               then (let victims = [];
                         victims =
                           (if postBoot_OOMVictims pb \<noteq> []
                              then '' (victims: '' @ join (postBoot_OOMVictims pb) '', '' @ '')''
                            else victims)
                     in out @
                        [mk_full WARN ''PostBoot''
                           (''the previous boot had '' @ itoa (postBoot_OOMKills pb) @
                            '' OOM kill(s)'' @ victims @ '' '' @ em_dash @
                            '' the host was under memory pressure before the reboot'')
                           [''to inspect: journalctl -k --boot=-1 --grep '' @ squote @
                            ''Out of memory'' @ squote]])
             else out);
          out =
            (if postBoot_ShutdownChecked pb \<and> postBoot_UncleanShutdown pb
               then out @
                    [mk_full WARN ''PostBoot''
                       (''the previous shutdown was unclean '' @ em_dash @
                        '' no shutdown sequence was recorded, so the box stopped abruptly (power loss, hard reset, host eviction, or panic)'')
                       [''to inspect: journalctl --boot=-1 (look for the tail '' @ em_dash @
                        '' a clean stop ends in '' @ squote @ ''Reached target Shutdown'' @ squote @
                        '')'']]
             else out);
          out =
            (if postBoot_Source pb = ''persistent_journal''
               then (let out =
                           (if \<not> postBoot_OOMChecked pb
                              then out @
                                   [unverifiedInsight ReasonCollectorError INFO ''PostBoot''
                                      (''prior-boot OOM-kill check could not be completed '' @
                                       em_dash @ '' the journalctl sub-call failed'')
                                      [''to inspect: journalctl -k --boot=-1 --grep '' @ squote @
                                       ''Out of memory'' @ squote]]
                            else out)
                     in if \<not> postBoot_PanicChecked pb
                          then out @
                               [unverifiedInsight ReasonCollectorError INFO ''PostBoot''
                                  (''prior-boot kernel-panic check could not be completed '' @
                                   em_dash @ '' the journalctl sub-call failed'')
                                  [''to inspect: journalctl -k --boot=-1'']]
                        else out)
             else out)
      in if out = [] then out @ [mk_full INFO ''PostBoot'' (postBootCleanLine pb) []] else out)"

definition checkPackageUpdates :: "environment \<Rightarrow> packages_info \<Rightarrow> insight list" where
  "checkPackageUpdates env pkg =
     (if packages_Status pkg = ''no-security-repo''
        then [mk_full WARN ''Packages''
                (''no security repository configured '' @ em_dash @
                 '' security updates cannot be detected'')
                (noSecurityRepoHints (packages_PackageManager pkg))]
      else if packages_Status pkg = ''query-failed''
        then (let reason = packages_StatusReason pkg;
                  reason =
                    (if reason = []
                       then ''the package manager'' @ squote @ ''s security query failed''
                     else reason)
              in [unverifiedInsight ReasonCollectorError INFO ''Packages''
                    (''could not verify security updates: '' @ reason) [noteUnverifiedResult]])
      else if packages_Status pkg = ''stale-metadata''
        then (let reason = packages_StatusReason pkg;
                  reason =
                    (if reason = []
                       then ''update metadata is stale '' @ em_dash @
                            '' cannot confirm packages are up to date''
                     else reason);
                  refresh =
                    map_get []
                      [(''apt'', ''apt update''), (''dnf'', ''dnf makecache''),
                       (''yum'', ''yum makecache''), (''zypper'', ''zypper refresh''),
                       (''tdnf'', ''tdnf makecache'')] (packages_PackageManager pkg);
                  hints = [noteUnverifiedResult];
                  hints =
                    (if refresh \<noteq> []
                       then [''to refresh: '' @ refresh @ ''  then re-run dsd''] @ hints
                     else hints)
              in [unverifiedInsight ReasonCollectorError INFO ''Packages'' reason hints])
      else if packages_Status pkg \<noteq> []
        then [unverifiedInsight ReasonParse INFO ''Packages''
                (''could not verify security updates: unrecognized scan status '' @
                 Quote env (packages_Status pkg)) [noteUnverifiedResult]]
      else if packages_SecurityUpdates pkg = 0
        then (if 0 < packages_ESMUpdates pkg
                then [mk_full WARN ''Packages''
                        (itoa (packages_ESMUpdates pkg) @
                         '' security update(s) require Ubuntu Pro (ESM) '' @ em_dash @
                         '' not visible without subscription'')
                        [''to inspect: pro security-status'',
                         ''to fix:     ubuntu.com/pro (free for up to 5 machines)'']]
              else [])
      else securityUpdateInsight pkg @
           (if 0 < packages_ESMUpdates pkg
              then [mk_full WARN ''Packages''
                      (itoa (packages_ESMUpdates pkg) @
                       '' security update(s) require Ubuntu Pro (ESM) '' @ em_dash @
                       '' not applied without subscription'')
                      [''to inspect: pro security-status'',
                       ''to fix:     ubuntu.com/pro (free for up to 5 machines)'']]
            else []))"

definition cveHealthSeverityInsights :: "cve_all_result \<Rightarrow> insight list" where
  "cveHealthSeverityInsights r =
     (let withFix =
            (\<lambda>hints.
              if cveAllResult_FixCommand r \<noteq> []
                then hints @ [''to fix: '' @ cveAllResult_FixCommand r]
              else hints)
      in if 0 < cveAllResult_KEVCount r
           then (let hints =
                       [''these CVEs are in the CISA Known Exploited Vulnerabilities catalog '' @
                        em_dash @ '' patch immediately''];
                     hints =
                       (if cveAllResult_KEVCVEs r \<noteq> []
                          then hints @ [''affected: '' @ join (cveAllResult_KEVCVEs r) '', '']
                        else hints)
                 in [mk_full CRIT ''CVE''
                       (itoa (cveAllResult_KEVCount r) @
                        '' actively-exploited CVE(s) present (CISA KEV)'') (withFix hints)])
         else if cveAllResult_PackageManager r = ''apt''
           then (let n =
                       wrap64
                         (int (length (cveAllResult_Critical r)) +
                          int (length (cveAllResult_Important r)))
                 in if 0 < n
                      then [mk_full WARN ''CVE''
                              (itoa n @ '' security-relevant package update(s) pending (apt) '' @
                               em_dash @
                               '' severity inferred from package name; apt exposes no CVSS'')
                              (withFix
                                 [''to review the list: dsd cve --all'',
                                  ''note: confirm real severity via the Debian/Ubuntu security tracker '' @
                                  em_dash @ '' apt does not publish CVSS''])]
                    else if cveScanUnavailable r
                      then (let reason = cveAllResult_StatusReason r;
                                reason =
                                  (if reason = [] then ''no supported package manager'' else reason)
                            in [unverifiedInsight ReasonCollectorError INFO ''CVE''
                                  (''CVE scan unavailable: '' @ reason)
                                  [''run `dsd cve --all` for details, or install a supported scanner'']])
                    else [])
         else if cveAllResult_PackageManager r = ''tdnf''
           then (let n =
                       wrap64
                         (int (length (cveAllResult_Critical r)) +
                          int (length (cveAllResult_Important r)))
                 in if 0 < n
                      then [mk_full WARN ''CVE''
                              (itoa n @ '' pending Photon security advisory(ies) (tdnf) '' @
                               em_dash @ '' no CVSS published, so severity is not scored'')
                              (withFix
                                 [''to review the list: dsd cve --all'',
                                  ''note: Photon advisories (PHSA) do not publish a CVSS band; see the Photon security advisories''])]
                    else if cveScanUnavailable r
                      then (let reason = cveAllResult_StatusReason r;
                                reason =
                                  (if reason = [] then ''no supported package manager'' else reason)
                            in [unverifiedInsight ReasonCollectorError INFO ''CVE''
                                  (''CVE scan unavailable: '' @ reason)
                                  [''run `dsd cve --all` for details, or install a supported scanner'']])
                    else [])
         else if cveAllResult_Critical r \<noteq> []
           then [mk_full CRIT ''CVE''
                   (itoa (int (length (cveAllResult_Critical r))) @
                    '' critical security advisory(ies) '' @ em_dash @ '' '' @
                    cveAllResult_PackageManager r @ '' rates these Critical'') (withFix [])]
         else if cveAllResult_Important r \<noteq> []
           then [mk_full WARN ''CVE''
                   (itoa (int (length (cveAllResult_Important r))) @
                    '' high-severity security advisory(ies) '' @ em_dash @ '' '' @
                    cveAllResult_PackageManager r @ '' rates these High/Important'') (withFix [])]
         else if cveScanUnavailable r
           then (let reason = cveAllResult_StatusReason r;
                     reason = (if reason = [] then ''no supported package manager'' else reason)
                 in [unverifiedInsight ReasonCollectorError INFO ''CVE''
                       (''CVE scan unavailable: '' @ reason)
                       [''run `dsd cve --all` for details, or install a supported scanner'']])
         else [])"

definition checkSUSEConnect :: "suse_connect_info \<Rightarrow> insight list" where
  "checkSUSEConnect s =
     (if suseConnect_Platform s = ''rhel'' then checkRHELSubscription s
      else if suseConnect_Platform s = ''ubuntu-pro'' then checkUbuntuPro s
      else checkSUSESubscription s)"

definition checkDNSQuality :: "dns_resolver_info \<Rightarrow> insight list" where
  "checkDNSQuality d =
     checkDNSConfigOnly d @
     (if dnsResolver_HasLoopback d \<and> \<not> dnsResolver_ExternalResolvesOK d
        then [mk_full WARN ''DNS''
                (''loopback nameserver (127.x.x.x) in /etc/resolv.conf but systemd-resolved is not active '' @
                 em_dash @ '' DNS may fail'')
                [''to fix: sudo systemctl enable --now systemd-resolved'',
                 ''to fix: or replace 127.0.0.1 with a real nameserver IP'']]
      else [])"

definition checkPostBoot :: "environment \<Rightarrow> post_boot_info \<Rightarrow> insight list" where
  "checkPostBoot env pb =
     (if \<not> postBoot_Available pb then []
      else if postBoot_State pb = ''unmeasurable'' then [postBootUnmeasurable env pb]
      else if postBoot_State pb = ''absent''
        then [mk_full INFO ''PostBoot''
                (''no prior boot on record '' @ em_dash @
                 '' this is the first boot since the system began persisting boot logs (not a clean-shutdown confirmation, just no history)'')
                []]
      else if postBoot_State pb = ''found'' then postBootFindings pb
      else [unverifiedInsight ReasonCollectorError INFO ''PostBoot''
              (''prior-boot state '' @ Quote env (postBoot_State pb) @
               '' is not a recognized value (expected found/absent/unmeasurable) '' @ em_dash @
               '' post-boot forensics could not be confirmed'') []])"

definition checkPackages :: "environment \<Rightarrow> packages_info \<Rightarrow> insight list" where
  "checkPackages env pkg =
     checkPackageDBHealth pkg @
     checkPackageUpdates env pkg @
     (if packages_Integrity pkg \<noteq> None then checkPackageIntegrity (the (packages_Integrity pkg))
      else []) @
     checkPackageExtras pkg"

definition checkCVEHealth :: "cve_all_result \<Rightarrow> insight list" where
  "checkCVEHealth r =
     cveHealthSeverityInsights r @
     (if (cveAllResult_KEVCatalogReadFailed r \<and> cveAllResult_KEVCount r = 0) \<and>
         (((cveAllResult_Critical r \<noteq> [] \<or> cveAllResult_Important r \<noteq> []) \<or>
           cveAllResult_Moderate r \<noteq> []) \<or>
          cveAllResult_Low r \<noteq> [])
        then [unverifiedInsight ReasonUnreadable INFO ''CVE''
                (''KEV cross-reference could not run '' @ em_dash @
                 '' the CISA KEV catalog file is present but failed to load'')
                [''note: active-exploitation status for pending CVEs above could not be confirmed'']]
      else [])"

definition checkDNS :: "dns_resolver_info \<Rightarrow> insight list" where
  "checkDNS d =
     (if \<not> dnsResolver_Available d then []
      else if dnsResolver_ProbeSkipped d
        then [unverifiedInsight ReasonCollectorError INFO ''DNS''
                (''DNS resolution probe was skipped (DSD_OFFLINE) '' @ em_dash @
                 '' external/internal resolution not verified'')
                [''to verify manually: dig google.com'']] @
             checkDNSConfigOnly d
      else if (\<not> dnsResolver_ExternalResolvesOK d \<and> \<not> dnsResolver_InternalResolvesOK d) \<and>
              dnsResolver_Nameservers d = []
        then (let msg =
                    ''DNS misconfigured '' @ em_dash @
                    '' no nameservers in /etc/resolv.conf and resolution is failing'';
                  msg =
                    (if dnsResolver_ResolvTestError d \<noteq> []
                       then msg @ '' ('' @ dnsResolver_ResolvTestError d @ '')''
                     else msg)
              in [mk_full CRIT ''DNS'' msg
                    [''to inspect: cat /etc/resolv.conf'',
                     ''to fix: add a '' @ squote @ ''nameserver <ip>'' @ squote @
                     '' line, or enable systemd-resolved / NetworkManager'']])
      else if \<not> dnsResolver_ExternalResolvesOK d \<and> dnsResolver_Manager d \<noteq> ''none''
        then (if dnsResolver_InternalResolvesOK d
                then (let msg =
                            ''external DNS resolution unavailable, but internal names resolve '' @
                            em_dash @ '' expected on air-gapped / internal-only networks'';
                          msg =
                            (if dnsResolver_ResolvTestError d \<noteq> []
                               then msg @ '' ('' @ dnsResolver_ResolvTestError d @ '')''
                             else msg)
                      in [mk_full WARN ''DNS'' msg
                            [''to inspect: dig google.com   (expected to fail on an isolated network)'',
                             ''note: if external resolution IS expected, check the upstream forwarder / firewall'']] @
                         checkDNSQuality d)
              else let msg =
                         ''DNS resolution failing '' @ em_dash @
                         '' cannot resolve external or internal hostnames'';
                       msg =
                         (if dnsResolver_ResolvTestError d \<noteq> []
                            then msg @ '': '' @ dnsResolver_ResolvTestError d
                          else msg)
                   in [mk_full CRIT ''DNS'' msg
                         [''to inspect: cat /etc/resolv.conf'', ''to inspect: dig google.com'',
                          ''to inspect: systemctl status NetworkManager systemd-resolved'']])
      else checkDNSQuality d @
           (if dnsResolver_ExternalResolvesOK d \<and> 500 < dnsResolver_ExternalLatencyMs d
              then [mk_full WARN ''DNS''
                      (''DNS resolution is slow ('' @ itoa (dnsResolver_ExternalLatencyMs d) @
                       ''ms) '' @ em_dash @ '' may affect application startup and health checks'')
                      [''to inspect: dig +stats google.com'',
                       ''to fix: consider a local caching resolver (systemd-resolved, unbound)'',
                       ''current nameservers: '' @ join (dnsResolver_Nameservers d) '', '']]
            else if dnsResolver_ExternalResolvesOK d \<and> 200 < dnsResolver_ExternalLatencyMs d
              then [mk_full INFO ''DNS''
                      (''DNS latency '' @ itoa (dnsResolver_ExternalLatencyMs d) @ ''ms '' @
                       em_dash @ '' acceptable but consider local caching'')
                      [''to inspect: dig +stats google.com'']]
            else []) @
           (if dnsResolver_PublicFallback d
              then [mk_full INFO ''DNS''
                      (''public DNS resolver (8.8.8.8/1.1.1.1) configured '' @ em_dash @
                       '' DNS queries leave your network'')
                      [''note: on servers this may expose internal hostname lookups to public resolvers'',
                       ''to fix: use your organisation'' @ squote @
                       ''s internal DNS resolver instead'']]
            else []))"

section \<open>Well-formedness\<close>

lemma checkCronQuality_wf [wf_rules]: "wf_insights (checkCronQuality issues)"
  unfolding checkCronQuality_def by (intro wf_lets wf_rules level_facts; (assumption | erule (1) level_open; intro level_facts | erule level_nonempty; intro level_facts | elim level_elims; (intro level_facts)?; assumption?))

lemma checkAnacronSchedules_wf [wf_rules]: "wf_insights (checkAnacronSchedules jobs)"
  unfolding checkAnacronSchedules_def by (intro wf_lets wf_rules level_facts; (assumption | erule (1) level_open; intro level_facts | erule level_nonempty; intro level_facts | elim level_elims; (intro level_facts)?; assumption?))

lemma checkKdump_wf [wf_rules]: "wf_insights (checkKdump d)"
  unfolding checkKdump_def by (intro wf_lets wf_rules level_facts; (assumption | erule (1) level_open; intro level_facts | erule level_nonempty; intro level_facts | elim level_elims; (intro level_facts)?; assumption?))

lemma checkTuned_wf [wf_rules]: "wf_insights (checkTuned env d)"
  unfolding checkTuned_def by (intro wf_lets wf_rules level_facts; (assumption | erule (1) level_open; intro level_facts | erule level_nonempty; intro level_facts | elim level_elims; (intro level_facts)?; assumption?))

lemma checkKernelPatch_wf [wf_rules]: "wf_insights (checkKernelPatch d)"
  unfolding checkKernelPatch_def by (intro wf_lets wf_rules level_facts; (assumption | erule (1) level_open; intro level_facts | erule level_nonempty; intro level_facts | elim level_elims; (intro level_facts)?; assumption?))

lemma checkKsplice_wf [wf_rules]: "wf_insights (checkKsplice d)"
  unfolding checkKsplice_def by (intro wf_lets wf_rules level_facts; (assumption | erule (1) level_open; intro level_facts | erule level_nonempty; intro level_facts | elim level_elims; (intro level_facts)?; assumption?))

lemma checkServiceRestart_wf [wf_rules]: "wf_insights (checkServiceRestart env d)"
  unfolding checkServiceRestart_def by (intro wf_lets wf_rules level_facts; (assumption | erule (1) level_open; intro level_facts | erule level_nonempty; intro level_facts | elim level_elims; (intro level_facts)?; assumption?))

lemma checkTransactional_wf [wf_rules]: "wf_insights (checkTransactional d)"
  unfolding checkTransactional_def by (intro wf_lets wf_rules level_facts; (assumption | erule (1) level_open; intro level_facts | erule level_nonempty; intro level_facts | elim level_elims; (intro level_facts)?; assumption?))

lemma postBootUnmeasurable_wf [wf_rules]: "wf_insight (postBootUnmeasurable env pb)"
  unfolding postBootUnmeasurable_def by (intro wf_lets wf_rules level_facts; (assumption | erule (1) level_open; intro level_facts | erule level_nonempty; intro level_facts | elim level_elims; (intro level_facts)?; assumption?))

lemma checkFstab_wf [wf_rules]: "wf_insights (checkFstab info)"
  unfolding checkFstab_def by (intro wf_lets wf_rules level_facts; (assumption | erule (1) level_open; intro level_facts | erule level_nonempty; intro level_facts | elim level_elims; (intro level_facts)?; assumption?))

lemma checkRootFS_wf [wf_rules]: "wf_insights (checkRootFS info)"
  unfolding checkRootFS_def by (intro wf_lets wf_rules level_facts; (assumption | erule (1) level_open; intro level_facts | erule level_nonempty; intro level_facts | elim level_elims; (intro level_facts)?; assumption?))

lemma checkPackageDBHealth_wf [wf_rules]: "wf_insights (checkPackageDBHealth pkg)"
  unfolding checkPackageDBHealth_def by (intro wf_lets wf_rules level_facts; (assumption | erule (1) level_open; intro level_facts | erule level_nonempty; intro level_facts | elim level_elims; (intro level_facts)?; assumption?))

lemma securityUpdateInsight_wf [wf_rules]: "wf_insights (securityUpdateInsight pkg)"
  unfolding securityUpdateInsight_def by (intro wf_lets wf_rules level_facts; (assumption | erule (1) level_open; intro level_facts | erule level_nonempty; intro level_facts | elim level_elims; (intro level_facts)?; assumption?))

lemma checkPackageExtras_wf [wf_rules]: "wf_insights (checkPackageExtras pkg)"
  unfolding checkPackageExtras_def by (intro wf_lets wf_rules level_facts; (assumption | erule (1) level_open; intro level_facts | erule level_nonempty; intro level_facts | elim level_elims; (intro level_facts)?; assumption?))

lemma checkPackageIntegrity_wf [wf_rules]: "wf_insights (checkPackageIntegrity integrity)"
  unfolding checkPackageIntegrity_def by (intro wf_lets wf_rules level_facts; (assumption | erule (1) level_open; intro level_facts | erule level_nonempty; intro level_facts | elim level_elims; (intro level_facts)?; assumption?))

lemma checkTLS_wf [wf_rules]: "wf_insights (checkTLS tls)"
  unfolding checkTLS_def by (intro wf_lets wf_rules level_facts; (assumption | erule (1) level_open; intro level_facts | erule level_nonempty; intro level_facts | elim level_elims; (intro level_facts)?; assumption?))

lemma checkFirmware_wf [wf_rules]: "wf_insights (checkFirmware f)"
  unfolding checkFirmware_def by (intro wf_lets wf_rules level_facts; (assumption | erule (1) level_open; intro level_facts | erule level_nonempty; intro level_facts | elim level_elims; (intro level_facts)?; assumption?))

lemma checkSnapper_wf [wf_rules]: "wf_insights (checkSnapper s)"
  unfolding checkSnapper_def by (intro wf_lets wf_rules level_facts; (assumption | erule (1) level_open; intro level_facts | erule level_nonempty; intro level_facts | elim level_elims; (intro level_facts)?; assumption?))

lemma checkSUSESubscription_wf [wf_rules]: "wf_insights (checkSUSESubscription s)"
  unfolding checkSUSESubscription_def by (intro wf_lets wf_rules level_facts; (assumption | erule (1) level_open; intro level_facts | erule level_nonempty; intro level_facts | elim level_elims; (intro level_facts)?; assumption?))

lemma checkRHELSubscription_wf [wf_rules]: "wf_insights (checkRHELSubscription s)"
  unfolding checkRHELSubscription_def by (intro wf_lets wf_rules level_facts; (assumption | erule (1) level_open; intro level_facts | erule level_nonempty; intro level_facts | elim level_elims; (intro level_facts)?; assumption?))

lemma checkUbuntuPro_wf [wf_rules]: "wf_insights (checkUbuntuPro s)"
  unfolding checkUbuntuPro_def by (intro wf_lets wf_rules level_facts; (assumption | erule (1) level_open; intro level_facts | erule level_nonempty; intro level_facts | elim level_elims; (intro level_facts)?; assumption?))

lemma checkNetworkdConfig_wf [wf_rules]: "wf_insights (checkNetworkdConfig info)"
  unfolding checkNetworkdConfig_def by (intro wf_lets wf_rules level_facts; (assumption | erule (1) level_open; intro level_facts | erule level_nonempty; intro level_facts | elim level_elims; (intro level_facts)?; assumption?))

lemma checkDNSConfigOnly_wf [wf_rules]: "wf_insights (checkDNSConfigOnly d)"
  unfolding checkDNSConfigOnly_def by (intro wf_lets wf_rules level_facts; (assumption | erule (1) level_open; intro level_facts | erule level_nonempty; intro level_facts | elim level_elims; (intro level_facts)?; assumption?))

lemma checkCron_wf [wf_rules]: "wf_insights (checkCron c)"
  unfolding checkCron_def by (intro wf_lets wf_rules level_facts; (assumption | erule (1) level_open; intro level_facts | erule level_nonempty; intro level_facts | elim level_elims; (intro level_facts)?; assumption?))

lemma checkKernelRetention_wf [wf_rules]: "wf_insights (checkKernelRetention d)"
  unfolding checkKernelRetention_def by (intro wf_lets wf_rules level_facts; (assumption | erule (1) level_open; intro level_facts | erule level_nonempty; intro level_facts | elim level_elims; (intro level_facts)?; assumption?))

lemma checkLivePatch_wf [wf_rules]: "wf_insights (checkLivePatch d)"
  unfolding checkLivePatch_def by (intro wf_lets wf_rules level_facts; (assumption | erule (1) level_open; intro level_facts | erule level_nonempty; intro level_facts | elim level_elims; (intro level_facts)?; assumption?))

lemma postBootFindings_wf [wf_rules]: "wf_insights (postBootFindings pb)"
  unfolding postBootFindings_def by (intro wf_lets wf_rules level_facts; (assumption | erule (1) level_open; intro level_facts | erule level_nonempty; intro level_facts | elim level_elims; (intro level_facts)?; assumption?))

lemma checkPackageUpdates_wf [wf_rules]: "wf_insights (checkPackageUpdates env pkg)"
  unfolding checkPackageUpdates_def by (intro wf_lets wf_rules level_facts; (assumption | erule (1) level_open; intro level_facts | erule level_nonempty; intro level_facts | elim level_elims; (intro level_facts)?; assumption?))

lemma cveHealthSeverityInsights_wf [wf_rules]: "wf_insights (cveHealthSeverityInsights r)"
  unfolding cveHealthSeverityInsights_def by (intro wf_lets wf_rules level_facts; (assumption | erule (1) level_open; intro level_facts | erule level_nonempty; intro level_facts | elim level_elims; (intro level_facts)?; assumption?))

lemma checkSUSEConnect_wf [wf_rules]: "wf_insights (checkSUSEConnect s)"
  unfolding checkSUSEConnect_def by (intro wf_lets wf_rules level_facts; (assumption | erule (1) level_open; intro level_facts | erule level_nonempty; intro level_facts | elim level_elims; (intro level_facts)?; assumption?))

lemma checkDNSQuality_wf [wf_rules]: "wf_insights (checkDNSQuality d)"
  unfolding checkDNSQuality_def by (intro wf_lets wf_rules level_facts; (assumption | erule (1) level_open; intro level_facts | erule level_nonempty; intro level_facts | elim level_elims; (intro level_facts)?; assumption?))

lemma checkPostBoot_wf [wf_rules]: "wf_insights (checkPostBoot env pb)"
  unfolding checkPostBoot_def by (intro wf_lets wf_rules level_facts; (assumption | erule (1) level_open; intro level_facts | erule level_nonempty; intro level_facts | elim level_elims; (intro level_facts)?; assumption?))

lemma checkPackages_wf [wf_rules]: "wf_insights (checkPackages env pkg)"
  unfolding checkPackages_def by (intro wf_lets wf_rules level_facts; (assumption | erule (1) level_open; intro level_facts | erule level_nonempty; intro level_facts | elim level_elims; (intro level_facts)?; assumption?))

lemma checkCVEHealth_wf [wf_rules]: "wf_insights (checkCVEHealth r)"
  unfolding checkCVEHealth_def by (intro wf_lets wf_rules level_facts; (assumption | erule (1) level_open; intro level_facts | erule level_nonempty; intro level_facts | elim level_elims; (intro level_facts)?; assumption?))

lemma checkDNS_wf [wf_rules]: "wf_insights (checkDNS d)"
  unfolding checkDNS_def by (intro wf_lets wf_rules level_facts; (assumption | erule (1) level_open; intro level_facts | erule level_nonempty; intro level_facts | elim level_elims; (intro level_facts)?; assumption?))


end
