(* ===== verification/Checks_Hardware.thy ===== *)
theory Checks_Hardware
  imports Checks_Levels
begin

text \<open>
  heuristics_hardware.go and heuristics_hwraid.go: battery, temperatures, GPUs, memory errors, IPMI sensors,
  NUMA, CPU frequency and the controllers of hardware RAID.
\<close>

section \<open>Measurements\<close>

record battery_info =
  battery_Present :: bool
  battery_Status :: gostring
  battery_CapacityPct :: int
  battery_HealthPct :: f64
  battery_EnergyFullUWh :: int
  battery_EnergyDesignUWh :: int
  battery_CycleCounts :: int
  battery_StatusReason :: gostring

record thermal_info =
  thermal_CPUTempC :: f64
  thermal_Source :: gostring
  thermal_SensorUnreadable :: bool

record gpu_device =
  gpuDevice_Index :: int
  gpuDevice_Name :: gostring
  gpuDevice_Vendor :: gostring
  gpuDevice_TempC :: int
  gpuDevice_UtilPct :: int
  gpuDevice_MemUsedMB :: int
  gpuDevice_MemTotalMB :: int
  gpuDevice_MemUsedPct :: f64
  gpuDevice_PowerDrawW :: f64
  gpuDevice_Unreadable :: bool
  gpuDevice_ClockMHz :: int
  gpuDevice_ClockMaxMHz :: int
  gpuDevice_TDPLimitW :: f64
  gpuDevice_TDPMaxW :: f64
  gpuDevice_TDPCurrentW :: f64
  gpuDevice_Throttling :: bool
  gpuDevice_VRAMUsedGB :: f64
  gpuDevice_VRAMTotalGB :: f64
  gpuDevice_VRAMUsedPct :: f64
  gpuDevice_IsAPU :: bool
  gpuDevice_TempJunctionC :: int
  gpuDevice_TempMemC :: int
  gpuDevice_DRMDriver :: gostring
  gpuDevice_PowerDPMLevel :: gostring

record hardware_system =
  hardwareSystem_Vendor :: gostring
  hardwareSystem_Model :: gostring
  hardwareSystem_Board :: gostring

record hardware_cpu =
  hardwareCPU_Model :: gostring
  hardwareCPU_Cores :: int
  hardwareCPU_Threads :: int
  hardwareCPU_FreqMHz :: f64
  hardwareCPU_MaxFreqMHz :: f64
  hardwareCPU_LoadPct :: f64

record hardware_drive =
  hardwareDrive_Device :: gostring
  hardwareDrive_Model :: gostring
  hardwareDrive_Type :: gostring
  hardwareDrive_SmartRead :: bool
  hardwareDrive_SmartOK :: bool
  hardwareDrive_TempC :: int
  hardwareDrive_PowerOnH :: int
  hardwareDrive_WearPct :: int
  hardwareDrive_MediaErrors :: int
  hardwareDrive_ReallocatedSectors :: int
  hardwareDrive_PendingSectors :: int
  hardwareDrive_UncorrectableErrors :: int
  hardwareDrive_SmartctlAvailable :: bool
  hardwareDrive_Error :: gostring

record hardware_thermal =
  hardwareThermal_Sensor :: gostring
  hardwareThermal_Label :: gostring
  hardwareThermal_TempC :: int

record memory_slot =
  memorySlot_Locator :: gostring
  memorySlot_SizeGB :: f64
  memorySlot_Type :: gostring
  memorySlot_SpeedMT :: int

record hardware_memory =
  hardwareMemory_EDACAvailable :: bool
  hardwareMemory_UncorrectedErrors :: int
  hardwareMemory_CorrectedErrors :: int
  hardwareMemory_TotalGB :: f64
  hardwareMemory_Slots :: "memory_slot list"
  hardwareMemory_EDACCountersUnreadable :: bool

record hardware_nic =
  hardwareNIC_Name :: gostring
  hardwareNIC_MAC :: gostring
  hardwareNIC_SpeedMbps :: int
  hardwareNIC_State :: gostring
  hardwareNIC_RxErrors :: int
  hardwareNIC_TxErrors :: int
  hardwareNIC_Driver :: gostring

record hardware_info =
  hardware_System :: hardware_system
  hardware_CPU :: hardware_cpu
  hardware_Drives :: "hardware_drive list"
  hardware_Thermals :: "hardware_thermal list"
  hardware_Memory :: hardware_memory
  hardware_NICs :: "hardware_nic list"

record ipmi_sensor =
  ipmiSensor_Name :: gostring
  ipmiSensor_Value :: f64
  ipmiSensor_Unit :: gostring
  ipmiSensor_Status :: gostring

record ipmi_info =
  ipmi_Available :: bool
  ipmi_Sensors :: "ipmi_sensor list"
  ipmi_PSUFailed :: int
  ipmi_FanFailed :: int
  ipmi_TempCritical :: int
  ipmi_Status :: gostring
  ipmi_StatusReason :: gostring
  ipmi_NeedsRoot :: bool

record numa_node =
  numaNode_MemGB :: f64
  numaNode_MemFreeGB :: f64
  numaNode_CPUs :: "int list"

record numa_info =
  numa_Available :: bool
  numa_NodeCount :: int
  numa_Nodes :: "numa_node list"
  numa_Imbalanced :: bool

record hw_raid_vd =
  hwRaidVD_Name :: gostring
  hwRaidVD_RaidLevel :: gostring
  hwRaidVD_State :: gostring
  hwRaidVD_Degraded :: bool
  hwRaidVD_Offline :: bool
  hwRaidVD_Rebuilding :: bool

record hw_raid_pd =
  hwRaidPD_Location :: gostring
  hwRaidPD_State :: gostring
  hwRaidPD_Failed :: bool
  hwRaidPD_Rebuilding :: bool
  hwRaidPD_Predictive :: bool

record hw_raid_controller =
  hwRaidController_ID :: int
  hwRaidController_Model :: gostring
  hwRaidController_VirtualDrives :: "hw_raid_vd list"
  hwRaidController_PhysicalDrives :: "hw_raid_pd list"
  hwRaidController_BBUStatus :: gostring
  hwRaidController_BBUDegraded :: bool
  hwRaidController_BBUStatusUnreadable :: bool

record gpu_info =
  gpu_Devices :: "gpu_device list"
  gpu_Status :: gostring

record cpu_freq_info =
  cpuFreq_Governor :: gostring
  cpuFreq_CurrentMHz :: int
  cpuFreq_MaxMHz :: int
  cpuFreq_ThrottledPct :: f64
  cpuFreq_HasBattery :: bool
  cpuFreq_ScalingDriver :: gostring

record hw_raid_info =
  hwRaid_Available :: bool
  hwRaid_Tool :: gostring
  hwRaid_Controllers :: "hw_raid_controller list"
  hwRaid_NeedsRoot :: bool
  hwRaid_ReadFailed :: bool

section \<open>Constants\<close>

definition corrCatCPUThermal :: gostring where
  "corrCatCPUThermal = ''CPU Thermal''"

definition corrCatGPU :: gostring where
  "corrCatGPU = ''GPU''"

definition hwCatHardware :: gostring where
  "hwCatHardware = ''Hardware''"

definition hwCatIPMI :: gostring where
  "hwCatIPMI = ''IPMI''"

definition hwDriveTypeNVMe :: gostring where
  "hwDriveTypeNVMe = ''nvme''"

definition hwCatBattery :: gostring where
  "hwCatBattery = ''Battery''"

definition hwCatCPUFreq :: gostring where
  "hwCatCPUFreq = ''CPUFreq''"

definition hwSevLow :: gostring where
  "hwSevLow = ''low''"

definition inspectIPMISel :: gostring where
  "inspectIPMISel = ''to inspect: ipmitool sel list | tail -20''"

definition inspectHwmonTemp :: gostring where
  "inspectHwmonTemp = ''to inspect: cat /sys/class/hwmon/hwmon*/temp*_input''"

definition hwRaidCat :: gostring where
  "hwRaidCat = ''HardwareRAID''"

definition hwRaidInspectPfx :: gostring where
  "hwRaidInspectPfx = ''to inspect: ''"

section \<open>Checks\<close>

definition checkBattery :: "battery_info \<Rightarrow> insight list" where
  "checkBattery b =
     (if \<not> battery_Present b
        then (if battery_StatusReason b \<noteq> []
                then [unverifiedInsight ReasonCollectorError INFO hwCatBattery
                        (battery_StatusReason b) []]
              else [])
      else (if flt (Fin 0) (battery_HealthPct b)
              then (if flt (battery_HealthPct b) (Fin 60)
                      then [mk_full CRIT hwCatBattery
                              (''battery health at '' @ fmt_f 0 (battery_HealthPct b) @ ''% '' @
                               em_dash @ '' replacement recommended'')
                              [''to inspect: cat /sys/class/power_supply/BAT0/energy_full_design'']]
                    else if flt (battery_HealthPct b) (Fin 80)
                      then [mk_full WARN hwCatBattery
                              (''battery health at '' @ fmt_f 0 (battery_HealthPct b) @ ''% ('' @
                               fmt_f 0 (f_of_int (battery_CycleCounts b)) @ '' cycle(s)) '' @
                               em_dash @ '' degraded'')
                              [''to inspect: cat /sys/class/power_supply/BAT0/energy_full'']]
                    else [])
            else []) @
           (if battery_Status b = ''Discharging'' \<and> battery_CapacityPct b \<le> 10
              then [mk_full CRIT hwCatBattery
                      (''battery at '' @ itoa (battery_CapacityPct b) @ ''% and discharging '' @
                       em_dash @ '' connect power'') []]
            else if battery_Status b = ''Discharging'' \<and> battery_CapacityPct b \<le> 20
              then [mk_full WARN hwCatBattery
                      (''battery at '' @ itoa (battery_CapacityPct b) @ ''% and discharging'') []]
            else []))"

definition checkThermal :: "environment \<Rightarrow> thermal_info \<Rightarrow> thresholds \<Rightarrow> insight list" where
  "checkThermal env t thresh =
     (if thermal_SensorUnreadable t
        then [unverifiedInsight ReasonUnreadable INFO corrCatCPUThermal
                (''CPU thermal sensor ('' @ thermal_Source t @
                 '') found but its temperature could not be read '' @ em_dash @
                 '' thermal state not measured'') [inspectHwmonTemp, ''to inspect: sensors'']]
      else if feq (thermal_CPUTempC t) (Fin 0) \<or> thermal_Source t = [] then []
      else if \<not> TempPlausible (thermal_CPUTempC t) (Fin 150)
        then [unverifiedInsight ReasonParse WARN corrCatCPUThermal
                (''implausible CPU temperature '' @ FmtG env (thermal_CPUTempC t) @
                 [CHR 0xC2, CHR 0xB0] @ ''C (source: '' @ thermal_Source t @ '') '' @ em_dash @
                 '' sensor likely faulted; reading rejected, health unverified'')
                [inspectHwmonTemp, ''to inspect: sensors  (compare against a second source)'']]
      else let hints = [inspectHwmonTemp, ''to inspect: check cooling and airflow'']
           in if fle (Fin 95) (thermal_CPUTempC t)
                then [mk_full CRIT corrCatCPUThermal
                        (''CPU temperature '' @ FmtG env (thermal_CPUTempC t) @
                         [CHR 0xC2, CHR 0xB0] @ ''C '' @ em_dash @ '' thermal throttling active'')
                        hints]
              else if fle (Fin 85) (thermal_CPUTempC t)
                then [mk_full WARN corrCatCPUThermal
                        (''CPU temperature '' @ FmtG env (thermal_CPUTempC t) @
                         [CHR 0xC2, CHR 0xB0] @ ''C '' @ em_dash @ '' elevated (source: '' @
                         thermal_Source t @ '')'') hints]
              else if (flt (Fin 0) (CPULoadPct thresh) \<and> fle (Fin 75) (thermal_CPUTempC t)) \<and>
                      flt (CPULoadPct thresh) (Fin 20)
                then [mk_full WARN corrCatCPUThermal
                        (''CPU temperature '' @ FmtG env (thermal_CPUTempC t) @
                         [CHR 0xC2, CHR 0xB0] @ ''C at '' @ fmt_f 0 (CPULoadPct thresh) @
                         ''% load '' @ em_dash @
                         '' elevated for low CPU activity, possible cooling issue'')
                        [inspectHwmonTemp, ''to inspect: check for dust buildup and blocked vents'',
                         ''to inspect: consider reseating thermal paste on older hardware'']]
              else [])"

definition GPUDeviceHasMetrics :: "gpu_device \<Rightarrow> bool" where
  "GPUDeviceHasMetrics d \<longleftrightarrow>
     (((((0 < gpuDevice_TempC d \<or> 0 < gpuDevice_TempJunctionC d) \<or>
         flt (Fin 0) (gpuDevice_PowerDrawW d)) \<or>
        0 < gpuDevice_UtilPct d) \<or>
       0 < gpuDevice_MemTotalMB d) \<or>
      0 < gpuDevice_ClockMHz d) \<or>
     flt (Fin 0) (gpuDevice_TDPLimitW d)"

definition GPUTempPlausible :: "int \<Rightarrow> bool" where
  "GPUTempPlausible c \<longleftrightarrow>
     TempPlausible (f_of_int c) (Fin 150)"

definition UtilPctPlausible :: "int \<Rightarrow> bool" where
  "UtilPctPlausible pct \<longleftrightarrow>
     0 \<le> pct \<and> pct \<le> 100"

definition checkGPUDevice :: "gpu_device \<Rightarrow> gostring \<Rightarrow> bool \<Rightarrow> insight list" where
  "checkGPUDevice dev pfx steamOS =
     (if gpuDevice_Unreadable dev
        then [mk_full CRIT corrCatGPU
                (pfx @ '' metrics unreadable '' @ em_dash @
                 '' nvidia-smi reported [N/A] for temperature and memory (GPU likely fallen off the bus / hardware fault)'')
                [''to inspect: nvidia-smi'',
                 ''to inspect: dmesg | grep -iE '' @ squote @ ''NVRM|Xid|fell off the bus'' @ squote,
                 ''a reboot may clear a transient bus fault; persistent [N/A] points to failing hardware'']]
      else if \<not> GPUDeviceHasMetrics dev
        then [unverifiedInsight ReasonCollectorError INFO corrCatGPU
                (pfx @ '' detected but exposed no health metrics '' @ em_dash @
                 '' temperature/utilization not available, health NOT verified'')
                [''to inspect: ls /sys/class/drm/card*/device/hwmon/hwmon*/'']]
      else (if \<not> GPUTempPlausible (gpuDevice_TempC dev)
              then [unverifiedInsight ReasonParse WARN corrCatGPU
                      (pfx @ '' reported an implausible temperature ('' @
                       itoa (gpuDevice_TempC dev) @ [CHR 0xC2, CHR 0xB0] @ ''C) '' @ em_dash @
                       '' thermal health unverified, reading rejected'')
                      [''to inspect: cat /sys/class/drm/card*/device/hwmon/hwmon*/temp1_input'',
                       ''note: out-of-range value (faulted/virtual sensor) '' @ em_dash @
                       '' ignored to avoid a false thermal-throttling alarm'']]
            else if 90 \<le> gpuDevice_TempC dev
              then [mk_full CRIT corrCatGPU
                      (pfx @ '' temperature '' @ itoa (gpuDevice_TempC dev) @ [CHR 0xC2, CHR 0xB0] @
                       ''C '' @ em_dash @ '' thermal throttling likely'')
                      [''to inspect: nvidia-smi'', ''to inspect: check cooling and airflow'']]
            else if 80 \<le> gpuDevice_TempC dev
              then [mk_full WARN corrCatGPU
                      (pfx @ '' temperature '' @ itoa (gpuDevice_TempC dev) @ [CHR 0xC2, CHR 0xB0] @
                       ''C '' @ em_dash @ '' elevated'')
                      [''to inspect: nvidia-smi --query-gpu=temperature.gpu --format=csv,noheader'']]
            else []) @
           (if \<not> GPUTempPlausible (gpuDevice_TempJunctionC dev)
              then [unverifiedInsight ReasonParse WARN corrCatGPU
                      (pfx @ '' reported an implausible junction temperature ('' @
                       itoa (gpuDevice_TempJunctionC dev) @ [CHR 0xC2, CHR 0xB0] @ ''C) '' @
                       em_dash @ '' thermal health unverified, reading rejected'')
                      [''to inspect: cat /sys/class/drm/card*/device/hwmon/hwmon*/temp2_input'',
                       ''note: out-of-range value (faulted/virtual sensor) '' @ em_dash @
                       '' ignored to avoid a false thermal alarm'']]
            else if 100 \<le> gpuDevice_TempJunctionC dev
              then [mk_full CRIT corrCatGPU
                      (pfx @ '' junction temperature '' @ itoa (gpuDevice_TempJunctionC dev) @
                       [CHR 0xC2, CHR 0xB0] @ ''C '' @ em_dash @ '' emergency thermal threshold'')
                      [''to inspect: cat /sys/class/drm/card*/device/hwmon/hwmon*/temp2_input'',
                       ''shut down and check cooling immediately'']]
            else if 90 \<le> gpuDevice_TempJunctionC dev
              then [mk_full WARN corrCatGPU
                      (pfx @ '' junction temperature '' @ itoa (gpuDevice_TempJunctionC dev) @
                       [CHR 0xC2, CHR 0xB0] @ ''C '' @ em_dash @ '' approaching thermal limit'')
                      [''to inspect: check thermal paste and fan curve if sustained'']]
            else []) @
           (if gpuDevice_Throttling dev
              then (let hint =
                          ''to inspect: raise the power cap or improve cooling if more performance is needed'';
                        hint =
                          (if steamOS
                             then ''to fix: on Steam Deck, increase the TDP limit in Performance settings when plugged in''
                           else hint)
                    in [mk_full WARN corrCatGPU
                          (pfx @ '' TDP throttling '' @ em_dash @ '' at power limit ('' @
                           fmt_f 1 (gpuDevice_TDPCurrentW dev) @ ''W / '' @
                           fmt_f 1 (gpuDevice_TDPLimitW dev) @ ''W)'') [hint]])
            else []) @
           (if fle (Fin 90) (gpuDevice_VRAMUsedPct dev) \<and> \<not> gpuDevice_IsAPU dev
              then [mk_full WARN corrCatGPU
                      (pfx @ '' VRAM at '' @ fmt_f 0 (gpuDevice_VRAMUsedPct dev) @ ''% '' @
                       em_dash @ '' high memory pressure'')
                      [''to inspect: reduce texture/resolution settings or close GPU-heavy apps'']]
            else []) @
           (if (gpuDevice_PowerDPMLevel dev = hwSevLow \<and> UtilPctPlausible (gpuDevice_UtilPct dev)) \<and>
               50 \<le> gpuDevice_UtilPct dev
              then [mk_full WARN corrCatGPU
                      (pfx @ '' stuck in low-power DPM mode under load ('' @
                       itoa (gpuDevice_UtilPct dev) @ ''% util) '' @ em_dash @
                       '' performance capped'')
                      [''to fix: echo auto > /sys/class/drm/card*/device/power_dpm_force_performance_level'']]
            else []) @
           (let l = levelPct (gpuDevice_MemUsedPct dev) (Fin 85) (Fin 95)
            in if l \<noteq> [] \<and> \<not> gpuDevice_IsAPU dev
                 then [mk_full l corrCatGPU
                         (pfx @ '' VRAM usage at '' @ fmt_f 0 (gpuDevice_MemUsedPct dev) @ ''% ('' @
                          itoa (gpuDevice_MemUsedMB dev) @ ''/'' @ itoa (gpuDevice_MemTotalMB dev) @
                          '' MB)'')
                         [''to inspect: nvidia-smi --query-gpu=memory.used,memory.total --format=csv'']]
               else []) @
           (if (UtilPctPlausible (gpuDevice_UtilPct dev) \<and> 80 \<le> gpuDevice_UtilPct dev) \<and>
               fle (Fin 80) (gpuDevice_PowerDrawW dev)
              then [mk_full INFO corrCatGPU
                      (pfx @ '' sustained compute load '' @ em_dash @ '' util '' @
                       itoa (gpuDevice_UtilPct dev) @ ''%, '' @ fmt_f 0 (gpuDevice_PowerDrawW dev) @
                       ''W'') []]
            else []))"

definition checkHardware :: "hardware_info \<Rightarrow> insight list" where
  "checkHardware h =
     (let out =
            foldl
              (\<lambda>out d.
                if \<not> hardwareDrive_SmartctlAvailable d
                  then out @
                       [mk_full INFO hwCatHardware
                          (''smartctl not installed '' @ em_dash @ '' drive health unavailable'')
                          [''to fix: install smartmontools (apt/dnf/zypper install smartmontools)'']]
                else if hardwareDrive_Error d \<noteq> []
                  then out @
                       [mk_full WARN hwCatHardware
                          (hardwareDrive_Device d @ '': '' @ hardwareDrive_Error d) []]
                else let prefix = hardwareDrive_Device d;
                         prefix =
                           (if hardwareDrive_Model d \<noteq> []
                              then hardwareDrive_Device d @ '' ('' @ hardwareDrive_Model d @ '')''
                            else prefix);
                         out =
                           (if \<not> hardwareDrive_SmartRead d
                              then out @
                                   [mk_full INFO hwCatHardware
                                      (prefix @ '' '' @ em_dash @
                                       '' SMART health not reported (behind a RAID/HBA controller or USB bridge, or a virtual disk)'')
                                      [inspectSmartCtlPrefix @ hardwareDrive_Device d @
                                       ''  (try -d sat / -d cciss,N)'']]
                            else if \<not> hardwareDrive_SmartOK d
                              then out @
                                   [mk_full CRIT hwCatHardware
                                      (prefix @ '' '' @ em_dash @
                                       '' SMART FAILED: drive may fail imminently, back up immediately'')
                                      [inspectSmartCtlPrefix @ hardwareDrive_Device d,
                                       ''to run self-test: smartctl -t short '' @
                                       hardwareDrive_Device d]]
                            else out);
                         out =
                           (if hardwareDrive_Type d = hwDriveTypeNVMe \<and> 80 \<le> hardwareDrive_TempC d
                              then out @
                                   [mk_full CRIT hwCatHardware
                                      (prefix @ '' temperature '' @ itoa (hardwareDrive_TempC d) @
                                       [CHR 0xC2, CHR 0xB0] @ ''C '' @ em_dash @
                                       '' NVMe critical thermal threshold'')
                                      [inspectSmartCtlPrefix @ hardwareDrive_Device d]]
                            else if hardwareDrive_Type d = hwDriveTypeNVMe \<and>
                                    70 \<le> hardwareDrive_TempC d
                              then out @
                                   [mk_full WARN hwCatHardware
                                      (prefix @ '' temperature '' @ itoa (hardwareDrive_TempC d) @
                                       [CHR 0xC2, CHR 0xB0] @ ''C '' @ em_dash @
                                       '' NVMe running hot'')
                                      [inspectSmartCtlPrefix @ hardwareDrive_Device d]]
                            else if hardwareDrive_Type d \<noteq> hwDriveTypeNVMe \<and>
                                    60 \<le> hardwareDrive_TempC d
                              then out @
                                   [mk_full CRIT hwCatHardware
                                      (prefix @ '' temperature '' @ itoa (hardwareDrive_TempC d) @
                                       [CHR 0xC2, CHR 0xB0] @ ''C '' @ em_dash @
                                       '' HDD critical thermal threshold'')
                                      [inspectSmartCtlPrefix @ hardwareDrive_Device d]]
                            else if hardwareDrive_Type d \<noteq> hwDriveTypeNVMe \<and>
                                    50 \<le> hardwareDrive_TempC d
                              then out @
                                   [mk_full WARN hwCatHardware
                                      (prefix @ '' temperature '' @ itoa (hardwareDrive_TempC d) @
                                       [CHR 0xC2, CHR 0xB0] @ ''C '' @ em_dash @
                                       '' HDD running hot'')
                                      [inspectSmartCtlPrefix @ hardwareDrive_Device d]]
                            else out);
                         out =
                           (if 95 \<le> hardwareDrive_WearPct d
                              then out @
                                   [mk_full CRIT hwCatHardware
                                      (prefix @ '' wear at '' @ itoa (hardwareDrive_WearPct d) @
                                       ''% '' @ em_dash @
                                       '' drive near end of rated life, replace soon'')
                                      [''to plan: schedule drive replacement'']]
                            else if 80 \<le> hardwareDrive_WearPct d
                              then out @
                                   [mk_full WARN hwCatHardware
                                      (prefix @ '' wear at '' @ itoa (hardwareDrive_WearPct d) @
                                       ''% '' @ em_dash @ '' approaching end of rated endurance'')
                                      [''to plan: schedule drive replacement'']]
                            else out);
                         out =
                           (if 0 < hardwareDrive_ReallocatedSectors d
                              then (let level = WARN;
                                        level =
                                          (if 10 \<le> hardwareDrive_ReallocatedSectors d then CRIT
                                           else level)
                                    in out @
                                       [mk_full level hwCatHardware
                                          (prefix @ '': '' @
                                           itoa (hardwareDrive_ReallocatedSectors d) @
                                           '' reallocated sector(s) '' @ em_dash @
                                           '' drive remapping failed reads'')
                                          [inspectSmartCtlPrefix @ hardwareDrive_Device d,
                                           ''to test: smartctl -t long '' @ hardwareDrive_Device d]])
                            else out);
                         out =
                           (if 0 < hardwareDrive_PendingSectors d
                              then (let level = WARN;
                                        level =
                                          (if 5 \<le> hardwareDrive_PendingSectors d then CRIT
                                           else level)
                                    in out @
                                       [mk_full level hwCatHardware
                                          (prefix @ '': '' @ itoa (hardwareDrive_PendingSectors d) @
                                           '' pending sector(s) '' @ em_dash @
                                           '' unreadable sectors awaiting remap'')
                                          [inspectSmartCtlPrefix @ hardwareDrive_Device d]])
                            else out);
                         out =
                           (if 0 < hardwareDrive_UncorrectableErrors d
                              then out @
                                   [mk_full CRIT hwCatHardware
                                      (prefix @ '': '' @
                                       itoa (hardwareDrive_UncorrectableErrors d) @
                                       '' offline uncorrectable sector(s) '' @ em_dash @
                                       '' data loss risk'')
                                      [inspectSmartCtlPrefix @ hardwareDrive_Device d,
                                       ''to rescue: back up immediately'']]
                            else out);
                         out =
                           (if 0 < hardwareDrive_MediaErrors d
                              then (let level = WARN;
                                        level =
                                          (if 10 \<le> hardwareDrive_MediaErrors d then CRIT else level)
                                    in out @
                                       [mk_full level hwCatHardware
                                          (prefix @ '': '' @ itoa (hardwareDrive_MediaErrors d) @
                                           '' media error(s) '' @ em_dash @
                                           '' NVMe data integrity events'')
                                          [inspectSmartCtlPrefix @ hardwareDrive_Device d]])
                            else out);
                         healthy =
                           out = [] \<or>
                           (case first_some
                              (\<lambda>i.
                                if Check i = hwCatHardware \<and> has_prefix (Message i) prefix
                                  then Some False
                                else None)
                              out of
                              Some r \<Rightarrow> r
                              | None \<Rightarrow> True)
                     in if healthy
                          then (let msg = prefix @ '' '' @ em_dash @ '' SMART OK'';
                                    msg =
                                      (if 0 < hardwareDrive_TempC d
                                         then msg @ '', '' @ itoa (hardwareDrive_TempC d) @
                                              [CHR 0xC2, CHR 0xB0] @ ''C''
                                       else msg);
                                    msg =
                                      (if 0 < hardwareDrive_PowerOnH d
                                         then msg @ '', '' @ itoa (hardwareDrive_PowerOnH d) @
                                              '' h''
                                       else msg);
                                    msg =
                                      (if 0 < hardwareDrive_WearPct d
                                         then msg @ '', '' @ itoa (hardwareDrive_WearPct d) @
                                              ''% worn''
                                       else msg)
                                in out @ [mk_full OK hwCatHardware msg []])
                        else out)
              []
              (hardware_Drives h)
      in out @
         (if hardwareMemory_EDACAvailable (hardware_Memory h)
            then eccInsights (hardwareMemory_CorrectedErrors (hardware_Memory h))
                   (hardwareMemory_UncorrectedErrors (hardware_Memory h)) hwCatHardware @
                 (if hardwareMemory_EDACCountersUnreadable (hardware_Memory h)
                    then [unverifiedInsight ReasonUnreadable INFO hwCatHardware
                            (''ECC error counters could not be fully read '' @ em_dash @
                             '' the corrected/uncorrected counts above may be incomplete'')
                            [''to inspect: edac-util -s 4'']]
                  else [])
          else []))"

definition checkIPMI :: "ipmi_info \<Rightarrow> insight list" where
  "checkIPMI ipmi =
     (if ipmi_NeedsRoot ipmi
        then [unverifiedInsight ReasonCollectorError INFO hwCatIPMI
                (''IPMI hardware detected but sensor read requires root '' @ em_dash @
                 '' re-run as root to verify sensor health'') [''to inspect: sudo ipmitool sdr'']]
      else if ipmi_Status ipmi = ''error''
        then (let reason = ipmi_StatusReason ipmi;
                  reason = (if reason = [] then ''IPMI sensor read failed'' else reason)
              in [unverifiedInsight ReasonUnreadable WARN hwCatIPMI reason
                    [''to inspect: ipmitool sdr'', inspectIPMISel,
                     ''note: check BMC access '' @ em_dash @
                     '' kernel module ipmi_devintf and /dev/ipmi0 permissions'']])
      else if \<not> ipmi_Available ipmi then []
      else (if 0 < ipmi_PSUFailed ipmi
              then [mk_full CRIT hwCatIPMI
                      (itoa (ipmi_PSUFailed ipmi) @ '' PSU(s) in fault state '' @ em_dash @
                       '' risk of host going offline'')
                      [''to inspect: ipmitool sdr type '' @ squote @ ''Power Supply'' @ squote,
                       inspectIPMISel, ''note: replace failed PSU before removing redundant one'']]
            else []) @
           (if 0 < ipmi_FanFailed ipmi
              then [mk_full WARN hwCatIPMI
                      (itoa (ipmi_FanFailed ipmi) @ '' fan(s) in fault state '' @ em_dash @
                       '' thermal risk'') [''to inspect: ipmitool sdr type Fan'', inspectIPMISel]]
            else []) @
           (if 0 < ipmi_TempCritical ipmi
              then [mk_full CRIT hwCatIPMI
                      (itoa (ipmi_TempCritical ipmi) @ '' temperature sensor(s) in critical state'')
                      [''to inspect: ipmitool sdr type Temperature'',
                       ''to inspect: check airflow and fan operation'']]
            else []))"

definition checkNUMA :: "numa_info \<Rightarrow> insight list" where
  "checkNUMA n =
     (if \<not> numa_Available n then []
      else if numa_Imbalanced n
        then [mk_full WARN ''NUMA''
                (itoa (numa_NodeCount n) @ '' NUMA nodes with unbalanced memory '' @ em_dash @
                 '' may cause performance issues'')
                [''to inspect: numactl --hardware'', ''to inspect: numastat -m'',
                 ''note: consider NUMA-aware memory allocation for latency-sensitive workloads'']]
      else [])"

definition isDynamicPstateDriver :: "gostring \<Rightarrow> bool" where
  "isDynamicPstateDriver driver \<longleftrightarrow>
     (let d = to_lower (trim_space driver)
      in (d = ''intel_pstate'' \<or> has_prefix d ''amd-pstate'') \<or> has_prefix d ''amd_pstate'')"

definition hwRaidCtrlLabel :: "environment \<Rightarrow> hw_raid_controller \<Rightarrow> gostring" where
  "hwRaidCtrlLabel env c =
     (if hwRaidController_Model c \<noteq> []
        then ''controller '' @ itoa (hwRaidController_ID c) @ '' ('' @
             Quote env (hwRaidController_Model c) @ '')''
      else ''controller '' @ itoa (hwRaidController_ID c))"

definition hwRaidInspectHint :: "gostring \<Rightarrow> gostring" where
  "hwRaidInspectHint tool =
     (if tool = ''ssacli'' \<or> tool = ''hpssacli'' then ''ssacli ctrl all show config detail''
      else ''storcli /cALL show all   (perccli on Dell PERC)'')"

definition checkGPU :: "environment \<Rightarrow> gpu_info \<Rightarrow> insight list" where
  "checkGPU env gpu =
     (if gpu_Devices gpu = [] \<and> gpu_Status gpu = [] then []
      else (if gpu_Status gpu = ''nvidia-no-driver''
              then [mk_full INFO corrCatGPU
                      (''NVIDIA GPU detected '' @ em_dash @
                       '' install driver for GPU health monitoring'')
                      [''to fix (Debian/Ubuntu): apt-get install nvidia-driver'',
                       ''to fix (RHEL/Fedora):   dnf install akmod-nvidia  (RPM Fusion required)'',
                       ''to inspect: lspci | grep -i nvidia'',
                       ''note: reboot required after driver install'']]
            else []) @
           (let steamOS = isSteamOSHost env
            in concat (map
                         (\<lambda>dev.
                           let prefix = gpuDevice_Name dev;
                               prefix =
                                 (if 1 < int (length (gpu_Devices gpu))
                                    then ''GPU'' @ itoa (gpuDevice_Index dev) @ '' ('' @
                                         gpuDevice_Name dev @ '')''
                                  else prefix)
                           in checkGPUDevice dev prefix steamOS)
                         (gpu_Devices gpu))))"

definition checkCPUFreq :: "cpu_freq_info \<Rightarrow> thresholds \<Rightarrow> insight list" where
  "checkCPUFreq f thresh =
     (if cpuFreq_Governor f = [] then []
      else (if cpuFreq_Governor f = ''powersave''
              then (if isDynamicPstateDriver (cpuFreq_ScalingDriver f) then []
                    else if cpuFreq_HasBattery f
                      then [mk_full INFO hwCatCPUFreq
                              (''CPU governor is '' @ squote @ ''powersave'' @ squote @ '' ('' @
                               itoa (cpuFreq_CurrentMHz f) @ '' MHz, max '' @
                               itoa (cpuFreq_MaxMHz f) @ '' MHz) '' @ em_dash @
                               '' expected on a battery device for power saving'')
                              [''on AC and want full speed: cpupower frequency-set -g performance (or '' @
                               squote @ ''schedutil'' @ squote @ '')'']]
                    else [mk_full WARN hwCatCPUFreq
                            (''CPU governor is '' @ squote @ ''powersave'' @ squote @ '' '' @
                             em_dash @ '' CPU running at '' @ itoa (cpuFreq_CurrentMHz f) @
                             '' MHz (max '' @ itoa (cpuFreq_MaxMHz f) @
                             '' MHz), performance limited'')
                            [''to inspect: cat /sys/devices/system/cpu/cpu*/cpufreq/scaling_governor'',
                             ''to fix: cpupower frequency-set -g performance'',
                             ''to fix (manual): echo performance | tee /sys/devices/system/cpu/cpu*/cpufreq/scaling_governor'',
                             ''to persist: add to /etc/rc.local or use tuned profile '' @ squote @
                             ''throughput-performance'' @ squote,
                             ''note: '' @ squote @ ''schedutil'' @ squote @ '' or '' @ squote @
                             ''ondemand'' @ squote @
                             '' are also acceptable for variable workloads'']])
            else []) @
           (if ((cpuFreq_Governor f \<noteq> ''powersave'' \<and> fle (Fin 40) (cpuFreq_ThrottledPct f)) \<and>
                0 < cpuFreq_MaxMHz f) \<and>
               fle (Fin 20) (CPULoadPct thresh)
              then [mk_full WARN hwCatCPUFreq
                      (''CPU running at '' @ itoa (cpuFreq_CurrentMHz f) @ '' MHz ('' @
                       itoa (int_of_f64 (cpuFreq_ThrottledPct f)) @ ''% below max '' @
                       itoa (cpuFreq_MaxMHz f) @ '' MHz) '' @ em_dash @
                       '' possible thermal or power throttle'')
                      [''to inspect: cat /sys/devices/system/cpu/cpu0/cpufreq/scaling_cur_freq'',
                       ''to inspect: sensors  (check CPU temperature)'',
                       ''to inspect: dmesg | grep -i '' @ squote @ ''throttl'' @ bslash @
                       ''|thermal'' @ bslash @ ''|power limit'' @ squote,
                       ''to inspect: turbostat --quiet --show Busy%,Avg_MHz,Bzy_MHz,PkgWatt 2>/dev/null | head -5'']]
            else []))"

definition checkHWRaid :: "environment \<Rightarrow> hw_raid_info \<Rightarrow> insight list" where
  "checkHWRaid env d =
     (if \<not> hwRaid_Available d then []
      else if hwRaid_NeedsRoot d
        then [unverifiedInsight ReasonCollectorError INFO hwRaidCat
                (''hardware RAID controller detected but its status is root-only '' @ em_dash @
                 '' re-run as root to verify the array is healthy'')
                [''to inspect: sudo '' @ hwRaidInspectHint (hwRaid_Tool d)]]
      else if hwRaid_ReadFailed d
        then [unverifiedInsight ReasonParse INFO hwRaidCat
                (''hardware RAID controller detected but its status output could not be parsed '' @
                 em_dash @ '' treat as UNVERIFIED, not healthy'')
                [hwRaidInspectPfx @ hwRaidInspectHint (hwRaid_Tool d)]]
      else concat (map
                     (\<lambda>c.
                       let label = hwRaidCtrlLabel env c
                       in concat (map
                                    (\<lambda>vd.
                                      if hwRaidVD_Offline vd
                                        then [mk_full CRIT hwRaidCat
                                                (label @ '': virtual drive '' @
                                                 Quote env (hwRaidVD_Name vd) @ '' is OFFLINE '' @
                                                 em_dash @
                                                 '' the volume is inaccessible and data on it is unavailable'')
                                                [hwRaidInspectPfx @
                                                 hwRaidInspectHint (hwRaid_Tool d)]]
                                      else if hwRaidVD_Degraded vd
                                        then [mk_full CRIT hwRaidCat
                                                (label @ '': virtual drive '' @
                                                 Quote env (hwRaidVD_Name vd) @ '' ('' @
                                                 hwRaidVD_RaidLevel vd @ '') is DEGRADED '' @
                                                 em_dash @
                                                 '' the array is running WITHOUT redundancy; one more drive failure means data loss'')
                                                [hwRaidInspectPfx @
                                                 hwRaidInspectHint (hwRaid_Tool d),
                                                 ''action:     replace the failed physical drive so the array can rebuild'']]
                                      else if hwRaidVD_Rebuilding vd
                                        then [mk_full WARN hwRaidCat
                                                (label @ '': virtual drive '' @
                                                 Quote env (hwRaidVD_Name vd) @
                                                 '' is REBUILDING '' @ em_dash @
                                                 '' redundancy is not restored until the rebuild completes'')
                                                [hwRaidInspectPfx @
                                                 hwRaidInspectHint (hwRaid_Tool d)]]
                                      else [])
                                    (hwRaidController_VirtualDrives c)) @
                          concat (map
                                    (\<lambda>pd.
                                      if hwRaidPD_Failed pd
                                        then [mk_full CRIT hwRaidCat
                                                (label @ '': physical drive '' @
                                                 Quote env (hwRaidPD_Location pd) @
                                                 '' has FAILED '' @ em_dash @
                                                 '' replace it; the array behind it has lost a member'')
                                                [hwRaidInspectPfx @
                                                 hwRaidInspectHint (hwRaid_Tool d)]]
                                      else if hwRaidPD_Predictive pd
                                        then [mk_full WARN hwRaidCat
                                                (label @ '': physical drive '' @
                                                 Quote env (hwRaidPD_Location pd) @
                                                 '' reports PREDICTIVE FAILURE '' @ em_dash @
                                                 '' it is about to fail; replace it proactively'')
                                                [hwRaidInspectPfx @
                                                 hwRaidInspectHint (hwRaid_Tool d)]]
                                      else if hwRaidPD_Rebuilding pd
                                        then [mk_full WARN hwRaidCat
                                                (label @ '': physical drive '' @
                                                 Quote env (hwRaidPD_Location pd) @
                                                 '' is REBUILDING into the array'')
                                                [hwRaidInspectPfx @
                                                 hwRaidInspectHint (hwRaid_Tool d)]]
                                      else [])
                                    (hwRaidController_PhysicalDrives c)) @
                          (if hwRaidController_BBUDegraded c
                             then [mk_full WARN hwRaidCat
                                     (label @
                                      '': controller cache battery/capacitor is not healthy ('' @
                                      hwRaidController_BBUStatus c @ '') '' @ em_dash @
                                      '' the controller may have disabled write-back cache (slower writes), and unflushed cache is at risk on power loss'')
                                     [hwRaidInspectPfx @ hwRaidInspectHint (hwRaid_Tool d)]]
                           else if hwRaidController_BBUStatusUnreadable c
                             then [unverifiedInsight ReasonUnreadable INFO hwRaidCat
                                     (label @
                                      '': cache battery/capacitor state could not be read '' @
                                      em_dash @ '' health unverified'')
                                     [hwRaidInspectPfx @ hwRaidInspectHint (hwRaid_Tool d)]]
                           else []))
                     (hwRaid_Controllers d)))"

section \<open>Well-formedness\<close>

lemma checkBattery_wf [wf_rules]: "wf_insights (checkBattery b)"
  unfolding checkBattery_def by (intro wf_lets wf_rules level_facts; (assumption | erule (1) level_open; intro level_facts | erule level_nonempty; intro level_facts | elim level_elims; (intro level_facts)?; assumption?))

lemma checkThermal_wf [wf_rules]: "wf_insights (checkThermal env t thresh)"
  unfolding checkThermal_def by (intro wf_lets wf_rules level_facts; (assumption | erule (1) level_open; intro level_facts | erule level_nonempty; intro level_facts | elim level_elims; (intro level_facts)?; assumption?))

lemma checkGPUDevice_wf [wf_rules]: "wf_insights (checkGPUDevice dev pfx steamOS)"
  unfolding checkGPUDevice_def by (intro wf_lets wf_rules level_facts; (assumption | erule (1) level_open; intro level_facts | erule level_nonempty; intro level_facts | elim level_elims; (intro level_facts)?; assumption?))

lemma checkHardware_wf [wf_rules]: "wf_insights (checkHardware h)"
  unfolding checkHardware_def by (intro wf_lets wf_rules level_facts; (assumption | erule (1) level_open; intro level_facts | erule level_nonempty; intro level_facts | elim level_elims; (intro level_facts)?; assumption?))

lemma checkIPMI_wf [wf_rules]: "wf_insights (checkIPMI ipmi)"
  unfolding checkIPMI_def by (intro wf_lets wf_rules level_facts; (assumption | erule (1) level_open; intro level_facts | erule level_nonempty; intro level_facts | elim level_elims; (intro level_facts)?; assumption?))

lemma checkNUMA_wf [wf_rules]: "wf_insights (checkNUMA n)"
  unfolding checkNUMA_def by (intro wf_lets wf_rules level_facts; (assumption | erule (1) level_open; intro level_facts | erule level_nonempty; intro level_facts | elim level_elims; (intro level_facts)?; assumption?))

lemma checkGPU_wf [wf_rules]: "wf_insights (checkGPU env gpu)"
  unfolding checkGPU_def by (intro wf_lets wf_rules level_facts; (assumption | erule (1) level_open; intro level_facts | erule level_nonempty; intro level_facts | elim level_elims; (intro level_facts)?; assumption?))

lemma checkCPUFreq_wf [wf_rules]: "wf_insights (checkCPUFreq f thresh)"
  unfolding checkCPUFreq_def by (intro wf_lets wf_rules level_facts; (assumption | erule (1) level_open; intro level_facts | erule level_nonempty; intro level_facts | elim level_elims; (intro level_facts)?; assumption?))

lemma checkHWRaid_wf [wf_rules]: "wf_insights (checkHWRaid env d)"
  unfolding checkHWRaid_def by (intro wf_lets wf_rules level_facts; (assumption | erule (1) level_open; intro level_facts | erule level_nonempty; intro level_facts | elim level_elims; (intro level_facts)?; assumption?))


end
