(* ===== verification/Checks_Services.thy ===== *)
theory Checks_Services
  imports Checks_Levels
begin

text \<open>
  The services a host runs: databases, web servers and proxies, message queues, the monitoring stack, Vault and
  the cluster manager (heuristics_db.go, _web, _es, _kafka, _mongo, _mq, _prometheus, _alertmanager, _grafana,
  _traefik, _envoy, _vault, _ha).
\<close>

section \<open>Measurements\<close>

record postgres_info =
  postgres_Detected :: bool
  postgres_SocketDir :: gostring
  postgres_ServerVersion :: gostring
  postgres_Accepting :: bool
  postgres_AcceptReason :: gostring
  postgres_MetricsRead :: bool
  postgres_MaxConnections :: int
  postgres_ActiveConns :: int
  postgres_IdleInTxn :: int
  postgres_InRecovery :: bool
  postgres_ReplayLagSec :: f64
  postgres_ReplayCaughtUp :: bool
  postgres_StatusReason :: gostring

record my_sql_info =
  mySQL_Detected :: bool
  mySQL_SocketPath :: gostring
  mySQL_Flavor :: gostring
  mySQL_MetricsRead :: bool
  mySQL_MaxConnections :: int
  mySQL_ThreadsConnected :: int
  mySQL_ConnStatsRead :: bool
  mySQL_IsReplica :: bool
  mySQL_SecondsBehind :: int
  mySQL_ReplStopped :: bool

record redis_info =
  redis_Detected :: bool
  redis_Addr :: gostring
  redis_Version :: gostring
  redis_MetricsRead :: bool
  redis_ConnectedClients :: int
  redis_MaxClients :: int
  redis_MaxClientsRead :: bool
  redis_UsedMemoryBytes :: int
  redis_MaxMemoryBytes :: int
  redis_MaxMemoryPolicy :: gostring
  redis_Role :: gostring
  redis_ReplLinkDown :: bool
  redis_ReplLastIOSec :: int
  redis_LastSaveOK :: bool
  redis_LastSaveKnown :: bool
  redis_StatusReason :: gostring

record memcached_info =
  memcached_Detected :: bool
  memcached_Addr :: gostring
  memcached_MetricsRead :: bool
  memcached_CurrConnections :: int
  memcached_MaxConnections :: int
  memcached_MaxConnsRead :: bool
  memcached_EvictingNow :: bool

record nginx_info =
  nginx_Detected :: bool
  nginx_ConfigTested :: bool
  nginx_ConfigValid :: bool
  nginx_ConfigError :: gostring

record apache_info =
  apache_Detected :: bool
  apache_ConfigTested :: bool
  apache_ConfigValid :: bool
  apache_ConfigError :: gostring

record ha_proxy_info =
  haProxy_Detected :: bool
  haProxy_ConfigTested :: bool
  haProxy_ConfigValid :: bool
  haProxy_ConfigError :: gostring

record elasticsearch_info =
  elasticsearch_Detected :: bool
  elasticsearch_Distribution :: gostring
  elasticsearch_BaseURL :: gostring
  elasticsearch_HealthRead :: bool
  elasticsearch_Status :: gostring
  elasticsearch_UnassignedShards :: int
  elasticsearch_ActiveShardsPct :: f64
  elasticsearch_IdentityUnverified :: bool

record kafka_info =
  kafka_Detected :: bool
  kafka_MetricsRead :: bool
  kafka_UnderReplicatedRead :: bool
  kafka_OfflinePartitions :: int
  kafka_UnderReplicatedPartitions :: int
  kafka_OfflineDetail :: gostring
  kafka_URPDetail :: gostring

record mongo_db_info =
  mongoDB_Detected :: bool
  mongoDB_IsReplicaSet :: bool
  mongoDB_ReplicaSetName :: gostring
  mongoDB_MetricsRead :: bool
  mongoDB_ReplStatusRead :: bool
  mongoDB_HasPrimary :: bool
  mongoDB_DownMembers :: int
  mongoDB_Members :: int
  mongoDB_ConnCurrent :: int
  mongoDB_ConnAvailable :: int

record rabbit_mq_info =
  rabbitMQ_Detected :: bool
  rabbitMQ_DiagnosticsRead :: bool
  rabbitMQ_AlarmsRead :: bool
  rabbitMQ_MemoryAlarm :: bool
  rabbitMQ_DiskAlarm :: bool
  rabbitMQ_AlarmDetail :: gostring

record alertmanager_info =
  alertmanager_Detected :: bool
  alertmanager_StatusRead :: bool
  alertmanager_ConfigReloadRead :: bool
  alertmanager_ConfigReloadOK :: bool
  alertmanager_IdentityUnverified :: bool

record grafana_info =
  grafana_Detected :: bool
  grafana_HealthRead :: bool
  grafana_DatabaseOK :: bool
  grafana_DatabaseStatus :: gostring
  grafana_IdentityUnverified :: bool

record traefik_info =
  traefik_Detected :: bool
  traefik_APIRead :: bool
  traefik_RoutersTotal :: int
  traefik_RoutersErrors :: int
  traefik_ServicesErrors :: int
  traefik_MiddlewareErrors :: int

record vault_info =
  vault_Available :: bool
  vault_Reachable :: bool
  vault_StatusRead :: bool
  vault_Initialized :: bool
  vault_Sealed :: bool
  vault_DevMode :: bool
  vault_TLSEnabled :: bool
  vault_HTTPStatus :: int
  vault_IdentityUnverified :: bool

record ha_info =
  ha_Available :: bool
  ha_Running :: bool
  ha_QuorumKnown :: bool
  ha_Quorate :: bool
  ha_NodesTotal :: int
  ha_OfflineNodes :: "gostring list"
  ha_StatusReadable :: bool
  ha_FailedResources :: "gostring list"
  ha_StoppedResources :: "gostring list"
  ha_AmbiguousResources :: "gostring list"
  ha_StonithEnabled :: bool
  ha_StonithDevices :: int

record prometheus_info =
  prometheus_Detected :: bool
  prometheus_MetricsRead :: bool
  prometheus_TargetsTotal :: int
  prometheus_TargetsDown :: int
  prometheus_DownSample :: gostring
  prometheus_ConfigReloadRead :: bool
  prometheus_ConfigReloadOK :: bool

record envoy_info =
  envoy_Detected :: bool
  envoy_StatsRead :: bool
  envoy_ClustersTotal :: int
  envoy_UpstreamsTotal :: int
  envoy_UpstreamsHealthy :: int
  envoy_FullyDownClusters :: int
  envoy_DegradedSample :: gostring
  envoy_IdentityUnverified :: bool

section \<open>Constants\<close>

definition dbCatPostgres :: gostring where
  "dbCatPostgres = ''Postgres''"

definition dbCatRedis :: gostring where
  "dbCatRedis = ''Redis''"

definition dbCatMySQL :: gostring where
  "dbCatMySQL = ''MySQL''"

definition dbInspectRedisPrefix :: gostring where
  "dbInspectRedisPrefix = ''to inspect: redis-cli -s ''"

definition dbInspectMemcachedPfx :: gostring where
  "dbInspectMemcachedPfx = ''to inspect: echo stats | nc ''"

definition dbInspectMysqladminPfx :: gostring where
  "dbInspectMysqladminPfx = ''to inspect: mysqladmin --socket=''"

definition esCatElastic :: gostring where
  "esCatElastic = ''Elasticsearch''"

definition esInspectCurlSK :: gostring where
  "esInspectCurlSK = ''to inspect: curl -sk ''"

definition esClusterHealthPath :: gostring where
  "esClusterHealthPath = ''/_cluster/health?pretty''"

definition haCatHACluster :: gostring where
  "haCatHACluster = ''HACluster''"

definition haInspectCrmStat :: gostring where
  "haInspectCrmStat = ''to inspect: crm status''"

definition mongoCat :: gostring where
  "mongoCat = ''MongoDB''"

definition mongoInspectRSStat :: gostring where
  "mongoInspectRSStat = ''to inspect: mongosh --quiet --eval '' @ squote @ ''rs.status()'' @ squote"

definition mqCatRabbitMQ :: gostring where
  "mqCatRabbitMQ = ''RabbitMQ''"

definition mqInspectAlarms :: gostring where
  "mqInspectAlarms = ''to inspect: rabbitmq-diagnostics alarms''"

definition catPrometheus :: gostring where
  "catPrometheus = ''Prometheus''"

section \<open>Checks\<close>

definition checkPostgres :: "postgres_info \<Rightarrow> insight list" where
  "checkPostgres pg =
     (if \<not> postgres_Detected pg then []
      else if \<not> postgres_Accepting pg
        then (let reason = postgres_AcceptReason pg;
                  reason = (if reason = [] then ''not accepting connections'' else reason);
                  socketDir = postgres_SocketDir pg;
                  socketDir =
                    (if \<not> looksLikeSafeToken socketDir then ''<socket-dir>'' else socketDir)
              in [mk_full CRIT dbCatPostgres
                    (''PostgreSQL is up but not accepting connections '' @ em_dash @ '' '' @ reason)
                    [''to inspect: pg_isready -h '' @ socketDir,
                     ''to inspect: tail -n 50 the server log (often /var/log/postgresql/*.log)'',
                     ''note: common causes '' @ em_dash @
                     '' recovery in progress, max_connections reached, or a full data disk'']])
      else if \<not> postgres_MetricsRead pg
        then [unverifiedInsight ReasonCollectorError INFO dbCatPostgres
                ''PostgreSQL is up and accepting connections; connection/replication metrics were not read''
                [''note: run dsd as root or the postgres user for connection-saturation and replica-lag checks'',
                 ''to inspect: sudo -u postgres psql -c '' @ squote @
                 ''SELECT count(*), current_setting('' @ squote @ squote @ ''max_connections'' @
                 squote @ squote @ '') FROM pg_stat_activity'' @ squote]]
      else (if 0 < postgres_MaxConnections pg
              then (let ratio =
                          fdiv (f_of_int (postgres_ActiveConns pg))
                            (f_of_int (postgres_MaxConnections pg))
                    in if fle (Fin (4278419646001971 / 4503599627370496)) ratio
                         then [mk_full CRIT dbCatPostgres
                                 (''PostgreSQL connections at '' @ itoa (postgres_ActiveConns pg) @
                                  ''/'' @ itoa (postgres_MaxConnections pg) @ '' ('' @
                                  fmt_f 0 (fmul ratio (Fin 100)) @ ''%) '' @ em_dash @
                                  '' new connections will be refused'')
                                 [''to inspect: SELECT state, count(*) FROM pg_stat_activity GROUP BY state'',
                                  ''to fix: add a connection pooler (pgbouncer), or raise max_connections (costs RAM)'']]
                       else if fle (Fin (3602879701896397 / 4503599627370496)) ratio
                         then [mk_full WARN dbCatPostgres
                                 (''PostgreSQL connections at '' @ itoa (postgres_ActiveConns pg) @
                                  ''/'' @ itoa (postgres_MaxConnections pg) @ '' ('' @
                                  fmt_f 0 (fmul ratio (Fin 100)) @ ''%) '' @ em_dash @
                                  '' approaching the limit'')
                                 [''to inspect: SELECT state, count(*) FROM pg_stat_activity GROUP BY state'',
                                  ''note: a connection pooler (pgbouncer) is the usual fix before raising max_connections'']]
                       else [])
            else [unverifiedInsight ReasonCollectorError INFO dbCatPostgres
                    (''PostgreSQL connection-saturation could not be assessed '' @ em_dash @
                     '' max_connections read as 0'')
                    [''to inspect: sudo -u postgres psql -c '' @ dquote @
                     ''SELECT current_setting('' @ squote @ ''max_connections'' @ squote @ '')'' @
                     dquote]]) @
           (if 5 \<le> postgres_IdleInTxn pg
              then [mk_full WARN dbCatPostgres
                      (itoa (postgres_IdleInTxn pg) @ '' connection(s) idle in transaction '' @
                       em_dash @ '' they hold locks and block VACUUM (bloat risk)'')
                      [''to inspect: SELECT pid, state, query FROM pg_stat_activity WHERE state='' @
                       squote @ ''idle in transaction'' @ squote,
                       ''to fix: set idle_in_transaction_session_timeout, or fix the app to commit/rollback promptly'']]
            else []) @
           (if (postgres_InRecovery pg \<and> \<not> postgres_ReplayCaughtUp pg) \<and>
               flt (Fin 300) (postgres_ReplayLagSec pg)
              then [mk_full WARN dbCatPostgres
                      (''replica is '' @ fmt_f 0 (postgres_ReplayLagSec pg) @
                       ''s behind the primary '' @ em_dash @ '' replay lag growing'')
                      [''to inspect: SELECT now()-pg_last_xact_replay_timestamp() AS lag'',
                       ''note: check WAL receiver, network to primary, and replica I/O headroom'']]
            else []))"

definition checkMySQL :: "my_sql_info \<Rightarrow> insight list" where
  "checkMySQL my =
     (if \<not> mySQL_Detected my then []
      else let name = mySQL_Flavor my;
               name = (if name = [] then dbCatMySQL else name);
               socketPath = mySQL_SocketPath my;
               socketPath =
                 (if \<not> looksLikeSafeToken socketPath then ''<socket-path>'' else socketPath)
           in if \<not> mySQL_MetricsRead my
                then [unverifiedInsight ReasonCollectorError INFO dbCatMySQL
                        (name @ '' is reachable; connection/replication metrics were not read'')
                        [''note: run dsd as root (root@localhost socket auth) for connection-saturation and replica-lag checks'',
                         dbInspectMysqladminPfx @ socketPath @ '' status'']]
              else (if mySQL_ConnStatsRead my \<and> 0 < mySQL_MaxConnections my
                      then (let ratio =
                                  fdiv (f_of_int (mySQL_ThreadsConnected my))
                                    (f_of_int (mySQL_MaxConnections my))
                            in if fle (Fin (4278419646001971 / 4503599627370496)) ratio
                                 then [mk_full CRIT dbCatMySQL
                                         (name @ '' connections at '' @
                                          itoa (mySQL_ThreadsConnected my) @ ''/'' @
                                          itoa (mySQL_MaxConnections my) @ '' ('' @
                                          fmt_f 0 (fmul ratio (Fin 100)) @ ''%) '' @ em_dash @
                                          '' new connections will be refused (ERROR 1040)'')
                                         [''to inspect: SHOW PROCESSLIST'',
                                          ''to fix: add a connection pooler (ProxySQL), or raise max_connections (costs RAM)'']]
                               else if fle (Fin (3602879701896397 / 4503599627370496)) ratio
                                 then [mk_full WARN dbCatMySQL
                                         (name @ '' connections at '' @
                                          itoa (mySQL_ThreadsConnected my) @ ''/'' @
                                          itoa (mySQL_MaxConnections my) @ '' ('' @
                                          fmt_f 0 (fmul ratio (Fin 100)) @ ''%) '' @ em_dash @
                                          '' approaching the limit'')
                                         [''to inspect: SHOW PROCESSLIST'',
                                          ''note: a connection pooler is the usual fix before raising max_connections'']]
                               else [])
                    else if \<not> mySQL_ConnStatsRead my
                      then [unverifiedInsight ReasonCollectorError INFO dbCatMySQL
                              (name @
                               '' metrics were read, but the connection counters were not '' @
                               em_dash @ '' connection-saturation was not assessed'')
                              [dbInspectMysqladminPfx @ socketPath @ '' status'']]
                    else [unverifiedInsight ReasonParse INFO dbCatMySQL
                            (name @ '' reported max_connections='' @
                             itoa (mySQL_MaxConnections my) @ '', which is implausible '' @
                             em_dash @ '' connection-saturation was not assessed'')
                            [dbInspectMysqladminPfx @ socketPath @
                             '' variables | grep max_connections'']]) @
                   (if mySQL_IsReplica my \<and> mySQL_ReplStopped my
                      then [mk_full CRIT dbCatMySQL
                              (''replication is STOPPED on this replica '' @ em_dash @
                               '' it is serving stale data and not following the primary'')
                              [''to inspect: SHOW SLAVE STATUS'' @ bslash @
                               ''G  (Slave_IO_Running / Slave_SQL_Running should both be '' @
                               squote @ ''Yes'' @ squote @ '')'',
                               ''to inspect: check Last_IO_Error / Last_SQL_Error for the cause'',
                               ''to fix: resolve the error, then START SLAVE  (MySQL 8.4+: START REPLICA)'']]
                    else []) @
                   (if (mySQL_IsReplica my \<and> \<not> mySQL_ReplStopped my) \<and> 300 < mySQL_SecondsBehind my
                      then [mk_full WARN dbCatMySQL
                              (''replica is '' @ itoa (mySQL_SecondsBehind my) @
                               ''s behind the primary '' @ em_dash @ '' replication lag growing'')
                              [''to inspect: SHOW SLAVE STATUS'' @ bslash @
                               ''G  (look at Seconds_Behind_Master, Slave_IO/SQL_Running)'',
                               ''note: check the replication threads, network to the primary, and replica I/O headroom'']]
                    else []))"

definition checkRedis :: "redis_info \<Rightarrow> insight list" where
  "checkRedis r =
     (if \<not> redis_Detected r then []
      else let addr = redis_Addr r;
               addr = (if \<not> looksLikeSafeToken addr then ''<redis-addr>'' else addr)
           in if \<not> redis_MetricsRead r
                then [unverifiedInsight ReasonCollectorError INFO dbCatRedis
                        ''Redis is reachable (answered PING); memory/replication metrics were not read''
                        [''note: install redis-cli (or pass auth) for memory-pressure and replica checks'',
                         dbInspectRedisPrefix @ addr @ '' INFO'']]
              else (if 0 < redis_MaxMemoryBytes r
                      then (let ratio =
                                  fdiv (f_of_int (redis_UsedMemoryBytes r))
                                    (f_of_int (redis_MaxMemoryBytes r));
                                noEvict = redis_MaxMemoryPolicy r = ''noeviction''
                            in if fle (Fin (4278419646001971 / 4503599627370496)) ratio \<and> noEvict
                                 then [mk_full CRIT dbCatRedis
                                         (''memory at '' @ fmt_f 0 (fmul ratio (Fin 100)) @
                                          ''% of maxmemory with noeviction policy '' @ em_dash @
                                          '' writes will be rejected (OOM)'')
                                         [dbInspectRedisPrefix @ addr @ '' INFO memory'',
                                          ''to fix: raise maxmemory, set an eviction policy, or shed keys'']]
                               else if fle (Fin (4278419646001971 / 4503599627370496)) ratio
                                 then [mk_full WARN dbCatRedis
                                         (''memory at '' @ fmt_f 0 (fmul ratio (Fin 100)) @
                                          ''% of maxmemory '' @ em_dash @
                                          '' actively evicting keys ('' @ redis_MaxMemoryPolicy r @
                                          '')'')
                                         [dbInspectRedisPrefix @ addr @
                                          '' INFO stats | grep evicted_keys'']]
                               else if fle (Fin (7656119366529843 / 9007199254740992)) ratio
                                 then [mk_full WARN dbCatRedis
                                         (''memory at '' @ fmt_f 0 (fmul ratio (Fin 100)) @
                                          ''% of maxmemory '' @ em_dash @
                                          '' approaching the limit'')
                                         [dbInspectRedisPrefix @ addr @ '' INFO memory'']]
                               else [])
                    else []) @
                   (if 0 < redis_MaxClients r \<and>
                       fle (Fin (8106479329266893 / 9007199254740992))
                         (fdiv (f_of_int (redis_ConnectedClients r)) (f_of_int (redis_MaxClients r)))
                      then [mk_full WARN dbCatRedis
                              (''clients at '' @ itoa (redis_ConnectedClients r) @ ''/'' @
                               itoa (redis_MaxClients r) @ '' '' @ em_dash @
                               '' approaching maxclients (new connections will be refused at the limit)'')
                              [dbInspectRedisPrefix @ addr @ '' INFO clients'']]
                    else if \<not> redis_MaxClientsRead r
                      then [unverifiedInsight ReasonCollectorError INFO dbCatRedis
                              (''Redis metrics were read, but maxclients could not be '' @ em_dash @
                               '' client-saturation was not assessed'')
                              [dbInspectRedisPrefix @ addr @ '' CONFIG GET maxclients'']]
                    else []) @
                   (if redis_Role r = ''slave'' \<and> redis_ReplLinkDown r
                      then [mk_full CRIT dbCatRedis
                              (''replica is disconnected from its master '' @ em_dash @
                               '' it is serving stale data and not receiving updates'')
                              [dbInspectRedisPrefix @ addr @ '' INFO replication'',
                               ''note: check the master, network, and replica auth (masterauth)'']]
                    else []) @
                   (if redis_LastSaveKnown r \<and> \<not> redis_LastSaveOK r
                      then [mk_full WARN dbCatRedis
                              (''last RDB background save failed '' @ em_dash @
                               '' recent writes are not being persisted to disk'')
                              [dbInspectRedisPrefix @ addr @ '' INFO persistence'',
                               ''note: common causes '' @ em_dash @
                               '' no disk space, or the data dir is not writable'']]
                    else []))"

definition checkMemcached :: "memcached_info \<Rightarrow> insight list" where
  "checkMemcached m =
     (if \<not> memcached_Detected m then []
      else let addr = memcached_Addr m;
               addr = (if \<not> looksLikeSafeToken addr then ''<memcached-addr>'' else addr)
           in if \<not> memcached_MetricsRead m
                then [unverifiedInsight ReasonUnreadable INFO ''Memcached''
                        ''memcached is reachable; its stats could not be read''
                        [dbInspectMemcachedPfx @ addr]]
              else (if memcached_EvictingNow m
                      then [mk_full WARN ''Memcached''
                              (''actively evicting keys '' @ em_dash @
                               '' the working set exceeds the cache (memory pressure)'')
                              [dbInspectMemcachedPfx @ addr @ ''  (watch evictions climb)'',
                               ''to fix: raise -m (max memory) or reduce what'' @ squote @
                               ''s cached'']]
                    else []) @
                   (if 0 < memcached_MaxConnections m \<and>
                       fle (Fin (8106479329266893 / 9007199254740992))
                         (fdiv (f_of_int (memcached_CurrConnections m))
                            (f_of_int (memcached_MaxConnections m)))
                      then [mk_full WARN ''Memcached''
                              (''connections at '' @ itoa (memcached_CurrConnections m) @ ''/'' @
                               itoa (memcached_MaxConnections m) @ '' '' @ em_dash @
                               '' approaching maxconns (new connections refused at the limit)'')
                              [dbInspectMemcachedPfx @ addr @ ''  (curr_connections)'',
                               ''to fix: raise -c (max connections)'']]
                    else if \<not> memcached_MaxConnsRead m
                      then [mk_full INFO ''Memcached''
                              (''Memcached metrics were read, but max_connections could not be '' @
                               em_dash @ '' connection-saturation was not assessed'')
                              [''to inspect: echo stats settings | nc '' @ addr @
                               ''  (look for maxconns)'']]
                    else []))"

definition webConfigVerdict :: "gostring \<Rightarrow> bool \<Rightarrow> bool \<Rightarrow> gostring \<Rightarrow> insight list" where
  "webConfigVerdict server configTested configValid configError =
     (if configTested \<and> \<not> configValid
        then (let msg =
                    server @ '' on-disk config is INVALID '' @ em_dash @
                    '' a reload/restart will fail'';
                  msg =
                    (if configError \<noteq> [] then msg @ '': '' @ truncateHint configError 200 else msg)
              in [mk_full CRIT server msg
                    [''to inspect: re-run the server'' @ squote @ ''s config test'',
                     ''note: '' @ server @ '' is still serving its last-loaded config '' @ em_dash @
                     '' a reload or restart now would fail and could take the service down'']])
      else if \<not> configTested
        then [unverifiedInsight ReasonCollectorError INFO server
                (server @
                 '' is running; its config was not validated (the config test needs root to read the config)'')
                [''to inspect: re-run the config test as root'']]
      else [])"

definition checkNginx :: "nginx_info \<Rightarrow> insight list" where
  "checkNginx n =
     (if \<not> nginx_Detected n then []
      else webConfigVerdict ''Nginx'' (nginx_ConfigTested n) (nginx_ConfigValid n)
             (nginx_ConfigError n))"

definition checkApache :: "apache_info \<Rightarrow> insight list" where
  "checkApache a =
     (if \<not> apache_Detected a then []
      else webConfigVerdict ''Apache'' (apache_ConfigTested a) (apache_ConfigValid a)
             (apache_ConfigError a))"

definition checkHAProxy :: "ha_proxy_info \<Rightarrow> insight list" where
  "checkHAProxy h =
     (if \<not> haProxy_Detected h then []
      else webConfigVerdict ''HAProxy'' (haProxy_ConfigTested h) (haProxy_ConfigValid h)
             (haProxy_ConfigError h))"

definition checkElasticsearch :: "environment \<Rightarrow> elasticsearch_info \<Rightarrow> insight list" where
  "checkElasticsearch env e =
     (if \<not> elasticsearch_Detected e then []
      else let name = esCatElastic;
               name =
                 (if elasticsearch_Distribution e = ''opensearch'' then ''OpenSearch'' else name)
           in (if elasticsearch_IdentityUnverified e
                 then [unverifiedInsight ReasonCollectorError INFO esCatElastic
                         (name @ '' was detected via an HTTP response shape match only '' @
                          em_dash @ '' the listening process'' @ squote @
                          ''s identity could not be confirmed'')
                         [''note: run as root, or verify with: ss -tlnp | grep :9200'']]
               else []) @
              (if \<not> elasticsearch_HealthRead e
                 then [unverifiedInsight ReasonUnreadable INFO esCatElastic
                         (name @ '' is reachable, but cluster health could not be read'')
                         [''note: modern Elasticsearch defaults to TLS + auth '' @ em_dash @
                          '' pass credentials for the cluster-health check'',
                          ''to inspect: curl -sk -u <user>:<pass> '' @ elasticsearch_BaseURL e @
                          esClusterHealthPath]]
               else if elasticsearch_Status e = ''red''
                 then (let msg =
                             name @ '' cluster is RED '' @ em_dash @
                             '' primary shards are unassigned, so some data is UNAVAILABLE'';
                           msg =
                             (if 0 < elasticsearch_UnassignedShards e
                                then msg @ '' ('' @ itoa (elasticsearch_UnassignedShards e) @
                                     '' unassigned shard(s), '' @
                                     fmt_f 0 (elasticsearch_ActiveShardsPct e) @ ''% active)''
                              else msg)
                       in [mk_full CRIT esCatElastic msg
                             [esInspectCurlSK @ elasticsearch_BaseURL e @
                              ''/_cluster/allocation/explain?pretty'',
                              esInspectCurlSK @ elasticsearch_BaseURL e @
                              ''/_cat/shards?v | grep -v STARTED'',
                              ''note: common causes '' @ em_dash @
                              '' a node left the cluster, disk watermark exceeded, or a corrupt shard'']])
               else if elasticsearch_Status e = ''yellow''
                 then (let msg =
                             name @ '' cluster is YELLOW '' @ em_dash @
                             '' replica shards are unassigned, so there is no redundancy'';
                           msg =
                             (if 0 < elasticsearch_UnassignedShards e
                                then msg @ '' ('' @ itoa (elasticsearch_UnassignedShards e) @
                                     '' unassigned replica(s))''
                              else msg)
                       in [mk_full WARN esCatElastic msg
                             [esInspectCurlSK @ elasticsearch_BaseURL e @ esClusterHealthPath,
                              ''note: common on a single-node cluster (replicas can'' @ squote @
                              ''t be placed) '' @ em_dash @
                              '' set index replicas to 0, or add a node'']])
               else if elasticsearch_Status e = ''green'' then []
               else [unverifiedInsight ReasonParse INFO esCatElastic
                       (name @ '' cluster status '' @ Quote env (elasticsearch_Status e) @
                        '' is not a recognized state (expected green/yellow/red) '' @ em_dash @
                        '' health could not be confirmed'')
                       [''note: an unrecognized status can mean a non-Elasticsearch service is answering this port, or an incompatible/tampered response'',
                        esInspectCurlSK @ elasticsearch_BaseURL e @ esClusterHealthPath]]))"

definition checkKafka :: "kafka_info \<Rightarrow> insight list" where
  "checkKafka k =
     (if \<not> kafka_Detected k then []
      else if \<not> kafka_MetricsRead k
        then [unverifiedInsight ReasonUnreadable INFO ''Kafka''
                (''Kafka'' @ squote @ ''s broker port is up, but topic metadata could not be read'')
                [''note: the kafka CLI must reach the bootstrap server (SSL/SASL auth may be required)'',
                 ''to inspect: kafka-topics.sh --bootstrap-server localhost:9092 --describe --unavailable-partitions'']]
      else (if 0 < kafka_OfflinePartitions k
              then (let msg =
                          itoa (kafka_OfflinePartitions k) @
                          '' partition(s) are OFFLINE (no leader) '' @ em_dash @
                          '' produces and consumes for them are FAILING; data is unavailable'';
                        msg =
                          (if kafka_OfflineDetail k \<noteq> []
                             then msg @ '' (e.g. '' @ kafka_OfflineDetail k @ '')''
                           else msg)
                    in [mk_full CRIT ''Kafka'' msg
                          [''to inspect: kafka-topics.sh --bootstrap-server localhost:9092 --describe --unavailable-partitions'',
                           ''note: a partition goes offline when every replica'' @ squote @
                           ''s broker is down '' @ em_dash @ '' check that the leader'' @ squote @
                           ''s broker is up and rejoined'']])
            else []) @
           (if \<not> kafka_UnderReplicatedRead k
              then [unverifiedInsight ReasonCollectorError INFO ''Kafka''
                      (''offline-partition state was read, but under-replicated partition state could not be '' @
                       em_dash @ '' redundancy is unverified'')
                      [''to inspect: kafka-topics.sh --bootstrap-server localhost:9092 --describe --under-replicated-partitions'']]
            else []) @
           (if 0 < kafka_UnderReplicatedPartitions k
              then (let msg =
                          itoa (kafka_UnderReplicatedPartitions k) @
                          '' partition(s) under-replicated '' @ em_dash @
                          '' replicas are not in sync, so there is no redundancy'';
                        msg =
                          (if kafka_URPDetail k \<noteq> []
                             then msg @ '' (e.g. '' @ kafka_URPDetail k @ '')''
                           else msg)
                    in [mk_full WARN ''Kafka'' msg
                          [''to inspect: kafka-topics.sh --bootstrap-server localhost:9092 --describe --under-replicated-partitions'',
                           ''note: a follower fell behind or its broker is down; a further broker loss could take these partitions offline'']])
            else []))"

definition checkMongoDB :: "environment \<Rightarrow> mongo_db_info \<Rightarrow> insight list" where
  "checkMongoDB env m =
     (if \<not> mongoDB_Detected m then []
      else if \<not> mongoDB_MetricsRead m
        then [unverifiedInsight ReasonUnreadable INFO mongoCat
                ''MongoDB is reachable, but its status could not be read''
                [''note: pass credentials if auth is enabled (the mongo shell must be able to run db.serverStatus())'',
                 mongoInspectRSStat]]
      else (if mongoDB_IsReplicaSet m \<and> \<not> mongoDB_ReplStatusRead m
              then [unverifiedInsight ReasonUnreadable INFO mongoCat
                      (''replica set '' @ Quote env (mongoDB_ReplicaSetName m) @
                       '' detected, but rs.status() could not be read '' @ em_dash @
                       '' primary/quorum not verified'')
                      [''note: rs.status() may need credentials even when db.hello() does not'',
                       mongoInspectRSStat]]
            else if mongoDB_IsReplicaSet m \<and> \<not> mongoDB_HasPrimary m
              then [mk_full CRIT mongoCat
                      (''replica set '' @ Quote env (mongoDB_ReplicaSetName m) @
                       '' has NO PRIMARY '' @ em_dash @
                       '' writes are failing (election in progress or quorum lost)'')
                      [mongoInspectRSStat,
                       ''note: check member connectivity and that a majority of voting members are up'']]
            else if 0 < mongoDB_DownMembers m
              then [mk_full WARN mongoCat
                      (itoa (mongoDB_DownMembers m) @ '' of '' @ itoa (mongoDB_Members m) @
                       '' replica set member(s) unreachable '' @ em_dash @ '' redundancy degraded'')
                      [''to inspect: mongosh --quiet --eval '' @ squote @ ''rs.status().members'' @
                       squote,
                       ''note: a further member loss could cost the primary (no write quorum)'']]
            else []) @
           (let total = wrap64 (mongoDB_ConnCurrent m + mongoDB_ConnAvailable m)
            in if 0 < total
                 then (let ratio = fdiv (f_of_int (mongoDB_ConnCurrent m)) (f_of_int total)
                       in if fle (Fin (8106479329266893 / 9007199254740992)) ratio
                            then [mk_full WARN mongoCat
                                    (''connections at '' @ itoa (mongoDB_ConnCurrent m) @ ''/'' @
                                     itoa total @ '' ('' @ fmt_f 0 (fmul ratio (Fin 100)) @
                                     ''%) '' @ em_dash @ '' approaching the limit'')
                                    [''to inspect: mongosh --quiet --eval '' @ squote @
                                     ''db.serverStatus().connections'' @ squote,
                                     ''note: raise net.maxIncomingConnections, or add a connection pool / fewer clients'']]
                          else [])
               else []))"

definition checkRabbitMQ :: "rabbit_mq_info \<Rightarrow> insight list" where
  "checkRabbitMQ r =
     (if \<not> rabbitMQ_Detected r then []
      else if \<not> rabbitMQ_DiagnosticsRead r
        then [unverifiedInsight ReasonUnreadable INFO mqCatRabbitMQ
                (''RabbitMQ'' @ squote @ ''s AMQP port is up, but diagnostics could not be read'')
                [''note: run dsd as root or the rabbitmq user (needs the Erlang cookie) for alarm and node checks'',
                 mqInspectAlarms]]
      else if \<not> rabbitMQ_AlarmsRead r
        then [unverifiedInsight ReasonUnreadable WARN mqCatRabbitMQ
                (''RabbitMQ is up but its resource-alarm state could not be read '' @ em_dash @
                 '' a publisher-blocking memory/disk alarm cannot be ruled out'')
                [mqInspectAlarms,
                 ''note: the alarms query failed even though ping succeeded '' @ em_dash @
                 '' retry, or check the rabbitmq-diagnostics version'']]
      else if rabbitMQ_MemoryAlarm r \<or> rabbitMQ_DiskAlarm r
        then (let which = ''memory'';
                  which =
                    (if rabbitMQ_MemoryAlarm r \<and> rabbitMQ_DiskAlarm r then ''memory and disk''
                     else if rabbitMQ_DiskAlarm r then ''disk''
                     else which);
                  msg =
                    ''RabbitMQ '' @ which @ '' resource alarm is active '' @ em_dash @
                    '' the broker is BLOCKING publishers; messages are not being accepted'';
                  msg =
                    (if rabbitMQ_AlarmDetail r \<noteq> []
                       then msg @ '' ('' @ rabbitMQ_AlarmDetail r @ '')''
                     else msg)
              in [mk_full CRIT mqCatRabbitMQ msg
                    [mqInspectAlarms,
                     ''to fix (memory): free RAM / raise vm_memory_high_watermark, or drain a backed-up queue'',
                     ''to fix (disk): free disk space below the disk_free_limit'']])
      else [])"

definition promTargetSteps :: "gostring \<Rightarrow> gostring list" where
  "promTargetSteps sample =
     (let steps =
            [''to inspect: curl -s '' @ squote @ ''localhost:9090/api/v1/targets?state=active'' @
             squote @ '' | jq '' @ squote @ ''.data.activeTargets[]|select(.health=='' @ dquote @
             ''down'' @ dquote @ '')'' @ squote,
             ''note: a target goes down when its endpoint is unreachable, times out, or returns non-200 '' @
             em_dash @ '' check the exporter and network path'']
      in if sample \<noteq> [] then [''e.g. '' @ sample] @ steps else steps)"

definition checkAlertmanager :: "alertmanager_info \<Rightarrow> insight list" where
  "checkAlertmanager a =
     (if \<not> alertmanager_Detected a then []
      else (if alertmanager_IdentityUnverified a
              then [unverifiedInsight ReasonCollectorError INFO ''Alertmanager''
                      (''Alertmanager was detected via an HTTP response shape match only '' @
                       em_dash @ '' the listening process'' @ squote @
                       ''s identity could not be confirmed'')
                      [''note: run as root, or verify with: ss -tlnp | grep :9093'']]
            else []) @
           (if \<not> alertmanager_StatusRead a
              then [unverifiedInsight ReasonUnreadable INFO ''Alertmanager''
                      ''Alertmanager is up, but its status API could not be read''
                      [''note: /api/v2/status must be reachable (a reverse proxy or auth may block it)'',
                       ''to inspect: curl -s localhost:9093/api/v2/status'']]
            else if alertmanager_ConfigReloadRead a \<and> \<not> alertmanager_ConfigReloadOK a
              then [mk_full WARN ''Alertmanager''
                      (''configuration reload FAILED '' @ em_dash @
                       '' Alertmanager is serving its last-good config, so recent routing/receiver edits are not applied'')
                      [''to inspect: amtool check-config /etc/alertmanager/alertmanager.yml'',
                       ''note: check the Alertmanager log for the parse error, then reload (SIGHUP or POST /-/reload)'']]
            else if \<not> alertmanager_ConfigReloadRead a
              then [unverifiedInsight ReasonUnreadable INFO ''Alertmanager''
                      ''Alertmanager is up, but its config-reload status could not be read''
                      [''note: /metrics must be reachable (a reverse proxy or auth may block it)'',
                       ''to inspect: curl -s localhost:9093/metrics | grep alertmanager_config_last_reload_successful'']]
            else []))"

definition checkGrafana :: "environment \<Rightarrow> grafana_info \<Rightarrow> insight list" where
  "checkGrafana env g =
     (if \<not> grafana_Detected g then []
      else (if grafana_IdentityUnverified g
              then [unverifiedInsight ReasonCollectorError INFO ''Grafana''
                      (''Grafana was detected via an HTTP response shape match only '' @ em_dash @
                       '' the listening process'' @ squote @ ''s identity could not be confirmed'')
                      [''note: run as root, or verify with: ss -tlnp | grep :3000'']]
            else []) @
           (if \<not> grafana_HealthRead g
              then [unverifiedInsight ReasonUnreadable INFO ''Grafana''
                      ''Grafana is up, but its health endpoint could not be read''
                      [''note: /api/health should be reachable without auth (a reverse proxy may block it)'',
                       ''to inspect: curl -s localhost:3000/api/health'']]
            else if \<not> grafana_DatabaseOK g
              then (let status = grafana_DatabaseStatus g;
                        status = (if status = [] then ''unknown'' else status)
                    in [mk_full CRIT ''Grafana''
                          (''backend database is not OK (status: '' @ Quote env status @ '') '' @
                           em_dash @
                           '' dashboards, users, and alerting are unavailable while the web port still answers'')
                          [''to inspect: curl -s localhost:3000/api/health'',
                           ''note: check the configured database (sqlite file permissions, or the external MySQL/Postgres host) and the Grafana log'']])
            else []))"

definition checkTraefik :: "traefik_info \<Rightarrow> insight list" where
  "checkTraefik t =
     (if \<not> traefik_Detected t then []
      else if \<not> traefik_APIRead t
        then [unverifiedInsight ReasonUnreadable INFO ''Traefik''
                ''Traefik is up, but its API could not be read''
                [''note: enable the API (api.insecure on :8080, or a secured api endpoint) to surface router health'',
                 ''to inspect: curl -s localhost:8080/api/overview'']]
      else (if 0 < traefik_RoutersErrors t
              then [mk_full WARN ''Traefik''
                      (itoa (traefik_RoutersErrors t) @ '' of '' @ itoa (traefik_RoutersTotal t) @
                       '' HTTP router(s) are in ERROR '' @ em_dash @
                       '' Traefik has disabled them, so those routes are not served (404/502)'')
                      [''to inspect: curl -s localhost:8080/api/http/routers | jq '' @ squote @
                       ''.[]|select(.status!='' @ dquote @ ''enabled'' @ dquote @ '')'' @ squote,
                       ''note: a router errors when its rule is invalid or it references a missing service/middleware '' @
                       em_dash @ '' check the dynamic config'']]
            else []) @
           (if 0 < traefik_ServicesErrors t \<or> 0 < traefik_MiddlewareErrors t
              then [mk_full WARN ''Traefik''
                      (''Traefik dynamic config has '' @ itoa (traefik_ServicesErrors t) @
                       '' service error(s) and '' @ itoa (traefik_MiddlewareErrors t) @
                       '' middleware error(s) '' @ em_dash @
                       '' routes depending on them will fail'')
                      [''to inspect: curl -s localhost:8080/api/http/services | jq '' @ squote @
                       ''.[]|select(.status!='' @ dquote @ ''enabled'' @ dquote @ '')'' @ squote,
                       ''note: check that referenced backends and middlewares exist and are valid in the dynamic config'']]
            else []))"

definition envoyClusterSteps :: "gostring list" where
  "envoyClusterSteps =
     [''to inspect: curl -s localhost:9901/clusters | grep health_flags'',
      ''note: a host goes unhealthy when its active health check fails '' @ em_dash @
      '' check the backend is up and the health-check path/port are correct'']"

definition checkVault :: "vault_info \<Rightarrow> insight list" where
  "checkVault v =
     (if \<not> vault_Available v then []
      else if \<not> vault_Reachable v
        then [mk_full WARN ''Vault''
                (''Vault expected but not responding on port 8200 '' @ em_dash @
                 '' secrets manager is down'')
                [''to inspect: systemctl status vault'', ''to inspect: journalctl -u vault -n 50'']]
      else if \<not> vault_StatusRead v
        then (if 0 < vault_HTTPStatus v
                then [mk_full WARN ''Vault''
                        (''Vault health endpoint returned HTTP '' @ itoa (vault_HTTPStatus v) @
                         '' but response was not valid Vault JSON '' @ em_dash @
                         '' check for proxy interception or wrong port'')
                        [''note: a load balancer or reverse proxy may be intercepting the request'',
                         ''to inspect: curl -sk https://127.0.0.1:8200/v1/sys/health'']]
              else [unverifiedInsight ReasonUnreadable INFO ''Vault''
                      (''Vault is up but its API could not be read '' @ em_dash @
                       '' health state unverified'')
                      [''note: /v1/sys/health must be reachable (a firewall or proxy may block it)'',
                       ''to inspect: curl -sk https://127.0.0.1:8200/v1/sys/health'']])
      else (if vault_IdentityUnverified v
              then [unverifiedInsight ReasonCollectorError INFO ''Vault''
                      (''Vault was detected via an HTTP response only '' @ em_dash @
                       '' the listening process'' @ squote @ ''s identity could not be confirmed'')
                      [''note: run as root, or verify with: ss -tlnp | grep :8200'']]
            else []) @
           (if vault_DevMode v
              then [mk_full CRIT ''Vault''
                      (''Vault running in dev mode: no data persistence, root token printed to stdout '' @
                       em_dash @ '' not suitable for production'')
                      [''note: all secrets are lost on restart'',
                       ''note: dev mode disables TLS and uses an in-memory storage backend'',
                       ''to fix: deploy Vault with a persistent storage backend and a proper config file'']]
            else []) @
           (if vault_Sealed v
              then [mk_full CRIT ''Vault''
                      ''Vault is sealed: all secret reads are failing until an operator unseals it''
                      [''to unseal: vault operator unseal (requires unseal key shares)'',
                       ''to inspect: vault status'']]
            else []) @
           (if \<not> vault_Initialized v
              then [mk_full WARN ''Vault''
                      (''Vault is installed but has never been initialised '' @ em_dash @
                       '' secrets management is non-functional'')
                      [''to initialise: vault operator init'',
                       ''note: initialisation generates the unseal keys and root token'']]
            else []) @
           (if \<not> vault_DevMode v \<and> \<not> vault_TLSEnabled v
              then [mk_full WARN ''Vault''
                      (''Vault API is accepting plaintext HTTP '' @ em_dash @
                       '' secrets transit unencrypted'')
                      [''to fix: set tls_cert_file and tls_key_file in the listener block'',
                       ''to inspect: curl -s http://127.0.0.1:8200/v1/sys/health'']]
            else []))"

definition checkHA :: "ha_info \<Rightarrow> insight list" where
  "checkHA d =
     (if \<not> ha_Available d then []
      else if \<not> ha_Running d
        then [mk_full WARN haCatHACluster
                (''Pacemaker/Corosync is installed but not running '' @ em_dash @
                 '' this node is not an active cluster member'')
                [''to inspect: systemctl status corosync pacemaker'',
                 ''to start: systemctl start corosync pacemaker'']]
      else if \<not> ha_StatusReadable d
        then [unverifiedInsight ReasonUnreadable INFO haCatHACluster
                (''the cluster is running but its status could not be read '' @ em_dash @
                 '' run as root to verify nodes, resources, and fencing'')
                [''to inspect: sudo crm status'']]
      else (if ha_QuorumKnown d \<and> \<not> ha_Quorate d
              then [mk_full CRIT haCatHACluster
                      (''the cluster has LOST QUORUM '' @ em_dash @
                       '' this partition stops/refuses resources to avoid split-brain; managed services may be down'')
                      [''to inspect: corosync-quorumtool -s'', haInspectCrmStat]]
            else []) @
           (if ha_OfflineNodes d \<noteq> []
              then [mk_full CRIT haCatHACluster
                      (itoa (int (length (ha_OfflineNodes d))) @ '' of '' @ itoa (ha_NodesTotal d) @
                       '' cluster node(s) OFFLINE: '' @ join (firstN (ha_OfflineNodes d) 3) '', '' @
                       '' '' @ em_dash @ '' redundancy is reduced or lost'')
                      [haInspectCrmStat, ''to inspect: corosync-quorumtool -l'']]
            else []) @
           (if ha_FailedResources d \<noteq> []
              then [mk_full CRIT haCatHACluster
                      (itoa (int (length (ha_FailedResources d))) @
                       '' cluster resource(s) FAILED: '' @
                       join (firstN (ha_FailedResources d) 3) '', '' @ '' '' @ em_dash @
                       '' the service they manage may be down'')
                      [''to inspect: crm status --failcounts'',
                       ''to recover: crm resource cleanup <rsc>'']]
            else []) @
           (if ha_StoppedResources d \<noteq> []
              then [mk_full WARN haCatHACluster
                      (itoa (int (length (ha_StoppedResources d))) @
                       '' cluster resource(s) stopped: '' @
                       join (firstN (ha_StoppedResources d) 3) '', '')
                      [haInspectCrmStat, ''to start: crm resource start <rsc>'']]
            else []) @
           (if ha_AmbiguousResources d \<noteq> []
              then [unverifiedInsight ReasonParse INFO haCatHACluster
                      (itoa (int (length (ha_AmbiguousResources d))) @
                       '' cluster resource(s) in an unrecognized role/state, not counted as started/stopped/failed: '' @
                       join (firstN (ha_AmbiguousResources d) 3) '', '')
                      [haInspectCrmStat,
                       ''note: common for multi-state (promotable) resources mid-transition (Promoting/Unpromoted/Stopping) or a blocked/unmanaged resource'']]
            else []) @
           (if \<not> ha_StonithEnabled d
              then [mk_full WARN haCatHACluster
                      (''STONITH (fencing) is DISABLED '' @ em_dash @
                       '' on a node failure the cluster cannot safely fence it, risking split-brain and data corruption on shared storage'')
                      [''to inspect: crm configure show | grep stonith-enabled'',
                       ''note: production HA needs fencing enabled with a real STONITH device'']]
            else if ha_StonithDevices d = 0
              then [mk_full WARN haCatHACluster
                      (''STONITH is enabled but NO fence device is configured '' @ em_dash @
                       '' resources may refuse to start until a fencing device exists'')
                      [''to inspect: crm configure show type:primitive'']]
            else []))"

definition checkPrometheus :: "prometheus_info \<Rightarrow> insight list" where
  "checkPrometheus p =
     (if \<not> prometheus_Detected p then []
      else if \<not> prometheus_MetricsRead p
        then [unverifiedInsight ReasonUnreadable INFO catPrometheus
                ''Prometheus is up, but its API could not be read''
                [''note: the targets API must be reachable (a reverse proxy or auth may block it)'',
                 ''to inspect: curl -s localhost:9090/api/v1/targets'']]
      else (if prometheus_ConfigReloadRead p \<and> \<not> prometheus_ConfigReloadOK p
              then [mk_full WARN catPrometheus
                      (''configuration reload FAILED '' @ em_dash @
                       '' Prometheus is serving its last-good config, so recent rule/scrape edits are not applied'')
                      [''to inspect: promtool check config /etc/prometheus/prometheus.yml'',
                       ''note: check the Prometheus log for the parse error, then reload (SIGHUP or POST /-/reload)'']]
            else []) @
           (if 0 < prometheus_TargetsTotal p \<and> prometheus_TargetsDown p = prometheus_TargetsTotal p
              then [mk_full CRIT catPrometheus
                      (''ALL '' @ itoa (prometheus_TargetsTotal p) @
                       '' scrape target(s) are DOWN '' @ em_dash @
                       '' Prometheus is collecting nothing (monitoring is blind)'')
                      (promTargetSteps (prometheus_DownSample p))]
            else if 0 < prometheus_TargetsDown p
              then [mk_full WARN catPrometheus
                      (itoa (prometheus_TargetsDown p) @ '' of '' @
                       itoa (prometheus_TargetsTotal p) @ '' scrape target(s) are DOWN '' @
                       em_dash @ '' their series are not being collected (blind spots)'')
                      (promTargetSteps (prometheus_DownSample p))]
            else []))"

definition checkEnvoy :: "envoy_info \<Rightarrow> insight list" where
  "checkEnvoy e =
     (if \<not> envoy_Detected e then []
      else (if envoy_IdentityUnverified e
              then [unverifiedInsight ReasonCollectorError INFO ''Envoy''
                      (''Envoy was detected via an HTTP response shape match only '' @ em_dash @
                       '' the listening process'' @ squote @ ''s identity could not be confirmed'')
                      [''note: run as root, or verify with: ss -tlnp | grep :9901'']]
            else []) @
           (if \<not> envoy_StatsRead e
              then [unverifiedInsight ReasonUnreadable INFO ''Envoy''
                      (''Envoy'' @ squote @
                       ''s admin interface is up, but its cluster stats could not be read'')
                      [''note: the admin interface must be reachable to read upstream health'',
                       ''to inspect: curl -s localhost:9901/clusters'']]
            else if envoy_ClustersTotal e = 0
              then [unverifiedInsight ReasonCollectorError INFO ''Envoy''
                      (''Envoy admin stats were read, but no upstream cluster membership data was found '' @
                       em_dash @ '' upstream host health could not be verified'')
                      [''to inspect: curl -s localhost:9901/stats | grep membership_'',
                       ''note: an Envoy with no configured upstream clusters will also show this'']]
            else if envoy_UpstreamsTotal e < envoy_UpstreamsHealthy e
              then [unverifiedInsight ReasonCollectorError INFO ''Envoy''
                      (''Envoy admin stats report '' @ itoa (envoy_UpstreamsHealthy e) @
                       '' healthy of '' @ itoa (envoy_UpstreamsTotal e) @
                       '' total upstream hosts '' @ em_dash @
                       '' an impossible count, the response could not be trusted'')
                      [''to inspect: curl -s localhost:9901/stats | grep membership_'']]
            else if 0 < envoy_FullyDownClusters e
              then (let msg =
                          itoa (envoy_FullyDownClusters e) @
                          '' upstream cluster(s) have ZERO healthy hosts '' @ em_dash @
                          '' all requests to those backends fail (503)'';
                        msg =
                          (if envoy_DegradedSample e \<noteq> []
                             then msg @ '' (e.g. '' @ envoy_DegradedSample e @ '')''
                           else msg)
                    in [mk_full CRIT ''Envoy'' msg envoyClusterSteps])
            else if 0 < envoy_UpstreamsTotal e \<and> envoy_UpstreamsHealthy e < envoy_UpstreamsTotal e
              then (let down = wrap64 (envoy_UpstreamsTotal e - envoy_UpstreamsHealthy e);
                        msg =
                          itoa down @ '' of '' @ itoa (envoy_UpstreamsTotal e) @
                          '' upstream host(s) are unhealthy '' @ em_dash @
                          '' requests load-balanced to them fail (503)'';
                        msg =
                          (if envoy_DegradedSample e \<noteq> []
                             then msg @ '' (e.g. '' @ envoy_DegradedSample e @ '')''
                           else msg)
                    in [mk_full WARN ''Envoy'' msg envoyClusterSteps])
            else []))"

section \<open>Well-formedness\<close>

lemma checkPostgres_wf [wf_rules]: "wf_insights (checkPostgres pg)"
  unfolding checkPostgres_def by (intro wf_lets wf_rules level_facts; (assumption | erule (1) level_open; intro level_facts | erule level_nonempty; intro level_facts | elim level_elims; (intro level_facts)?; assumption?))

lemma checkMySQL_wf [wf_rules]: "wf_insights (checkMySQL my)"
  unfolding checkMySQL_def by (intro wf_lets wf_rules level_facts; (assumption | erule (1) level_open; intro level_facts | erule level_nonempty; intro level_facts | elim level_elims; (intro level_facts)?; assumption?))

lemma checkRedis_wf [wf_rules]: "wf_insights (checkRedis r)"
  unfolding checkRedis_def by (intro wf_lets wf_rules level_facts; (assumption | erule (1) level_open; intro level_facts | erule level_nonempty; intro level_facts | elim level_elims; (intro level_facts)?; assumption?))

lemma checkMemcached_wf [wf_rules]: "wf_insights (checkMemcached m)"
  unfolding checkMemcached_def by (intro wf_lets wf_rules level_facts; (assumption | erule (1) level_open; intro level_facts | erule level_nonempty; intro level_facts | elim level_elims; (intro level_facts)?; assumption?))

lemma webConfigVerdict_wf [wf_rules]: "wf_insights (webConfigVerdict server configTested configValid configError)"
  unfolding webConfigVerdict_def by (intro wf_lets wf_rules level_facts; (assumption | erule (1) level_open; intro level_facts | erule level_nonempty; intro level_facts | elim level_elims; (intro level_facts)?; assumption?))

lemma checkNginx_wf [wf_rules]: "wf_insights (checkNginx n)"
  unfolding checkNginx_def by (intro wf_lets wf_rules level_facts; (assumption | erule (1) level_open; intro level_facts | erule level_nonempty; intro level_facts | elim level_elims; (intro level_facts)?; assumption?))

lemma checkApache_wf [wf_rules]: "wf_insights (checkApache a)"
  unfolding checkApache_def by (intro wf_lets wf_rules level_facts; (assumption | erule (1) level_open; intro level_facts | erule level_nonempty; intro level_facts | elim level_elims; (intro level_facts)?; assumption?))

lemma checkHAProxy_wf [wf_rules]: "wf_insights (checkHAProxy h)"
  unfolding checkHAProxy_def by (intro wf_lets wf_rules level_facts; (assumption | erule (1) level_open; intro level_facts | erule level_nonempty; intro level_facts | elim level_elims; (intro level_facts)?; assumption?))

lemma checkElasticsearch_wf [wf_rules]: "wf_insights (checkElasticsearch env e)"
  unfolding checkElasticsearch_def by (intro wf_lets wf_rules level_facts; (assumption | erule (1) level_open; intro level_facts | erule level_nonempty; intro level_facts | elim level_elims; (intro level_facts)?; assumption?))

lemma checkKafka_wf [wf_rules]: "wf_insights (checkKafka k)"
  unfolding checkKafka_def by (intro wf_lets wf_rules level_facts; (assumption | erule (1) level_open; intro level_facts | erule level_nonempty; intro level_facts | elim level_elims; (intro level_facts)?; assumption?))

lemma checkMongoDB_wf [wf_rules]: "wf_insights (checkMongoDB env m)"
  unfolding checkMongoDB_def by (intro wf_lets wf_rules level_facts; (assumption | erule (1) level_open; intro level_facts | erule level_nonempty; intro level_facts | elim level_elims; (intro level_facts)?; assumption?))

lemma checkRabbitMQ_wf [wf_rules]: "wf_insights (checkRabbitMQ r)"
  unfolding checkRabbitMQ_def by (intro wf_lets wf_rules level_facts; (assumption | erule (1) level_open; intro level_facts | erule level_nonempty; intro level_facts | elim level_elims; (intro level_facts)?; assumption?))

lemma checkAlertmanager_wf [wf_rules]: "wf_insights (checkAlertmanager a)"
  unfolding checkAlertmanager_def by (intro wf_lets wf_rules level_facts; (assumption | erule (1) level_open; intro level_facts | erule level_nonempty; intro level_facts | elim level_elims; (intro level_facts)?; assumption?))

lemma checkGrafana_wf [wf_rules]: "wf_insights (checkGrafana env g)"
  unfolding checkGrafana_def by (intro wf_lets wf_rules level_facts; (assumption | erule (1) level_open; intro level_facts | erule level_nonempty; intro level_facts | elim level_elims; (intro level_facts)?; assumption?))

lemma checkTraefik_wf [wf_rules]: "wf_insights (checkTraefik t)"
  unfolding checkTraefik_def by (intro wf_lets wf_rules level_facts; (assumption | erule (1) level_open; intro level_facts | erule level_nonempty; intro level_facts | elim level_elims; (intro level_facts)?; assumption?))

lemma checkVault_wf [wf_rules]: "wf_insights (checkVault v)"
  unfolding checkVault_def by (intro wf_lets wf_rules level_facts; (assumption | erule (1) level_open; intro level_facts | erule level_nonempty; intro level_facts | elim level_elims; (intro level_facts)?; assumption?))

lemma checkHA_wf [wf_rules]: "wf_insights (checkHA d)"
  unfolding checkHA_def by (intro wf_lets wf_rules level_facts; (assumption | erule (1) level_open; intro level_facts | erule level_nonempty; intro level_facts | elim level_elims; (intro level_facts)?; assumption?))

lemma checkPrometheus_wf [wf_rules]: "wf_insights (checkPrometheus p)"
  unfolding checkPrometheus_def by (intro wf_lets wf_rules level_facts; (assumption | erule (1) level_open; intro level_facts | erule level_nonempty; intro level_facts | elim level_elims; (intro level_facts)?; assumption?))

lemma checkEnvoy_wf [wf_rules]: "wf_insights (checkEnvoy e)"
  unfolding checkEnvoy_def by (intro wf_lets wf_rules level_facts; (assumption | erule (1) level_open; intro level_facts | erule level_nonempty; intro level_facts | elim level_elims; (intro level_facts)?; assumption?))


end
