(* ===== verification/Checks_Virt.thy ===== *)
theory Checks_Virt
  imports Checks_Levels
begin

text \<open>
  heuristics_virt.go and heuristics_pve.go: KVM hosts, Docker, containerd, Podman, Kubernetes, Rancher,
  systemd-nspawn and Proxmox.  The age kubectl prints for an event is read by \<open>parseK8sEventAgeSeconds\<close>,
  a recursion over the bytes of the text.
\<close>

section \<open>Measurements\<close>

record kvmvm =
  kvmvm_Name :: gostring
  kvmvm_ID :: int
  kvmvm_State :: gostring
  kvmvm_AutoStart :: bool
  kvmvm_DiskIOError :: bool
  kvmvm_DiskErrorCheckFailed :: bool
  kvmvm_LastLogError :: gostring
  kvmvm_EmulatedNICs :: "gostring list"
  kvmvm_EmulatedDisks :: "gostring list"
  kvmvm_MissingDiskPath :: gostring

record kvm_network =
  kvmNetwork_Name :: gostring
  kvmNetwork_State :: gostring
  kvmNetwork_Autostart :: bool
  kvmNetwork_BridgeUp :: bool
  kvmNetwork_Bridge :: gostring

record kvm_storage_pool =
  kvmStoragePool_Name :: gostring
  kvmStoragePool_State :: gostring
  kvmStoragePool_CapacityGB :: f64
  kvmStoragePool_AvailableGB :: f64
  kvmStoragePool_UsedPct :: f64

record kvm_info =
  kvm_Detected :: bool
  kvm_LibvirtVer :: gostring
  kvm_QEMUVer :: gostring
  kvm_VMs :: "kvmvm list"
  kvm_Networks :: "kvm_network list"
  kvm_StoragePools :: "kvm_storage_pool list"
  kvm_VMsRunning :: int
  kvm_VMsPaused :: int
  kvm_VMsCrashed :: int
  kvm_VMsDownAutostart :: int
  kvm_VMsAbnormal :: int
  kvm_VMsUnreadable :: int
  kvm_NetworksInactive :: int
  kvm_PoolsInactive :: int
  kvm_PoolsNearFull :: int
  kvm_PoolsCapUnknown :: int
  kvm_DiskIOErrors :: int
  kvm_DiskErrorChecksFailed :: int
  kvm_Status :: gostring
  kvm_StatusReason :: gostring

record containerd_info =
  containerd_Available :: bool
  containerd_ServiceState :: gostring
  containerd_StatusReason :: gostring
  containerd_SocketPermDenied :: bool
  containerd_CtrBinaryFound :: bool
  containerd_NamespacesUnreadable :: bool
  containerd_ContainerCountsUnreadable :: bool

record docker_daemon =
  dockerDaemon_StorageDriver :: gostring
  dockerDaemon_RecentErrors :: int
  dockerDaemon_LastDaemonError :: gostring
  dockerDaemon_ComposePlugin :: gostring
  dockerDaemon_ComposeStandalone :: gostring

record container_info =
  container_ID :: gostring
  container_Name :: gostring
  container_State :: gostring
  container_ExitCode :: int
  container_PlaintextSecrets :: "gostring list"
  container_DockerSocketMounted :: bool
  container_ImageArch :: gostring
  container_ArchMismatch :: bool

record podman_quadlet =
  podmanQuadlet_Name :: gostring
  podmanQuadlet_ServiceUnit :: gostring
  podmanQuadlet_Active :: bool
  podmanQuadlet_Failed :: bool
  podmanQuadlet_State :: gostring

record docker_log_driver_info =
  dockerLogDriver_LargeLogCount :: int
  dockerLogDriver_UnboundedContainers :: "gostring list"
  dockerLogDriver_UnverifiedContainers :: "gostring list"

record docker_info =
  docker_Available :: bool
  docker_Daemon :: "docker_daemon option"
  docker_Unhealthy :: "gostring list"
  docker_CrashLooping :: "gostring list"
  docker_Containers :: "container_info list"
  docker_PodmanQuadlets :: "podman_quadlet list"
  docker_DanglingImages :: int
  docker_MTUMismatch :: bool
  docker_HostMTU :: int
  docker_ContainerMTU :: int
  docker_IPForwardEnabled :: bool
  docker_IPForwardChecked :: bool
  docker_FirewalldActive :: bool
  docker_FirewalldBackend :: gostring
  docker_DockerZoneTrusted :: bool
  docker_ContainersWithSecrets :: int
  docker_RunningAsRootCount :: int
  docker_SocketMountedCount :: int
  docker_OOMEvents :: int
  docker_LogDriver :: "docker_log_driver_info option"
  docker_DNSTrap :: bool
  docker_DNSTrapServer :: gostring
  docker_DaemonDNSServers :: "gostring list"
  docker_DaemonDNSConfigured :: bool
  docker_SocketPermDenied :: bool
  docker_HostArch :: gostring
  docker_ArchMismatchCount :: int
  docker_Status :: gostring
  docker_StatusReason :: gostring

record k8s_node_info =
  k8sNode_Name :: gostring
  k8sNode_Conditions :: "(gostring, gostring) gomap"

record k8s_pod_info =
  k8sPod_Namespace :: gostring
  k8sPod_Name :: gostring
  k8sPod_Status :: gostring
  k8sPod_TerminationMsg :: gostring
  k8sPod_PreviousLogs :: gostring
  k8sPod_InitError :: gostring
  k8sPod_NodeName :: gostring
  k8sPod_OwnerKind :: gostring
  k8sPod_OwnerName :: gostring

record k8s_event =
  k8sEvent_Namespace :: gostring
  k8sEvent_Name :: gostring
  k8sEvent_Reason :: gostring
  k8sEvent_Message :: gostring
  k8sEvent_Age :: gostring

record k8s_workload_info =
  k8sWorkload_Namespace :: gostring
  k8sWorkload_Name :: gostring
  k8sWorkload_Ready :: int
  k8sWorkload_Desired :: int

record k8s_os_layer =
  k8sOSLayer_KubeletActive :: bool
  k8sOSLayer_KubeletChecked :: bool
  k8sOSLayer_KubeletErrors :: "gostring list"
  k8sOSLayer_ContainerdActive :: bool
  k8sOSLayer_ContainerdChecked :: bool
  k8sOSLayer_IPForwardEnabled :: bool
  k8sOSLayer_IPForwardChecked :: bool
  k8sOSLayer_KubeForwardChain :: bool
  k8sOSLayer_KubeForwardChecked :: bool
  k8sOSLayer_KubeServicesChecked :: bool
  k8sOSLayer_KubeServicesCount :: int
  k8sOSLayer_KubeProxyMode :: gostring
  k8sOSLayer_FlannelSubnetOK :: bool
  k8sOSLayer_FlannelInUse :: bool
  k8sOSLayer_FlannelCNIUnreadable :: bool
  k8sOSLayer_CNIBinsOK :: bool
  k8sOSLayer_CNIChecked :: bool
  k8sOSLayer_FirewalldMasquOK :: bool
  k8sOSLayer_FirewalldChecked :: bool
  k8sOSLayer_CertExpirySoon :: bool
  k8sOSLayer_CertExpirySoonDays :: int
  k8sOSLayer_CertExpiredNames :: "gostring list"
  k8sOSLayer_CertChecked :: bool
  k8sOSLayer_CertDirUnreadable :: bool

record k8s_info =
  k8s_Nodes :: "k8s_node_info list"
  k8s_Pods :: "k8s_pod_info list"
  k8s_Events :: "k8s_event list"
  k8s_Workloads :: "k8s_workload_info list"
  k8s_NodesNotReady :: int
  k8s_PodsNotReady :: int
  k8s_CrashLooping :: int
  k8s_Pending :: int
  k8s_HighRestarts :: int
  k8s_UnknownStatus :: int
  k8s_PVCsNotBound :: int
  k8s_WorkloadsDown :: int
  k8s_Terminating :: int
  k8s_Detected :: bool
  k8s_APIReachable :: bool
  k8s_EventsUnreadable :: bool
  k8s_PVCsUnreadable :: bool
  k8s_WorkloadsUnreadable :: bool
  k8s_OSLayer :: "k8s_os_layer option"

record rancher_info =
  rancher_Available :: bool
  rancher_ServerReady :: int
  rancher_ServerDesired :: int
  rancher_WebhookReady :: int
  rancher_WebhookDesired :: int
  rancher_ServerUnreadable :: bool
  rancher_WebhookUnreadable :: bool

record nspawn_info =
  nspawn_FailedCount :: int
  nspawn_Status :: gostring
  nspawn_StatusReason :: gostring

record pve_node =
  pveNode_Name :: gostring
  pveNode_Online :: bool
  pveNode_Version :: gostring

record pve_subscription =
  pveSubscription_Status :: gostring

record pve_storage =
  pveStorage_Name :: gostring
  pveStorage_Type :: gostring
  pveStorage_UsedPct :: f64
  pveStorage_UsedGB :: f64
  pveStorage_TotalGB :: f64
  pveStorage_Active :: bool
  pveStorage_Enabled :: bool

record pve_backup_task =
  pveBackupTask_Status :: gostring

record pve_backup_status =
  pveBackupStatus_VMID :: int
  pveBackupStatus_Name :: gostring
  pveBackupStatus_LastBackupDays :: int

record pve_task_error =
  pveTaskError_Type :: gostring

record pve_info =
  pve_QuorumOK :: bool
  pve_Nodes :: "pve_node list"
  pve_HAFencingOK :: bool
  pve_HAFencingMsg :: gostring
  pve_Subscription :: pve_subscription
  pve_Storages :: "pve_storage list"
  pve_RecentBackups :: "pve_backup_task list"
  pve_BackupAgeDays :: int
  pve_BackupStatuses :: "pve_backup_status list"
  pve_TaskErrors :: "pve_task_error list"
  pve_IsPVE :: bool
  pve_NeedsRoot :: bool
  pve_APIReachable :: bool
  pve_StoragesVerified :: bool
  pve_TasksVerified :: bool
  pve_BackupVerified :: bool
  pve_HAVerified :: bool
  pve_GuestsVerified :: bool

record k8s_query =
  k8sQuery_failed :: bool
  k8sQuery_what :: gostring
  k8sQuery_hint :: gostring

section \<open>Constants\<close>

definition pveCatPVE :: gostring where
  "pveCatPVE = ''PVE''"

definition inspectPVETasks :: gostring where
  "inspectPVETasks = ''to inspect: pvesh get /nodes/localhost/tasks --typefilter vzdump''"

definition inspectPVECMStatus :: gostring where
  "inspectPVECMStatus = ''to inspect: pvecm status''"

definition inspectPVESMStatus :: gostring where
  "inspectPVESMStatus = ''to inspect: pvesm status''"

definition inspectPVESubscription :: gostring where
  "inspectPVESubscription = ''to inspect: pvesh get /nodes/localhost/subscription''"

definition virtCatK8s :: gostring where
  "virtCatK8s = ''K8s''"

definition virtCatDocker :: gostring where
  "virtCatDocker = ''Docker''"

definition virtCatKVM :: gostring where
  "virtCatKVM = ''KVM''"

definition virtCatContainerd :: gostring where
  "virtCatContainerd = ''Containerd''"

definition virtInspectVirsh :: gostring where
  "virtInspectVirsh = ''to inspect: virsh dominfo <name>''"

definition virtFixK3sRestart :: gostring where
  "virtFixK3sRestart = ''to fix (k3s): sudo systemctl restart k3s''"

definition KVMShutOff :: gostring where
  "KVMShutOff = ''shut off''"

definition KVMCrashed :: gostring where
  "KVMCrashed = ''crashed''"

definition KVMShutDown :: gostring where
  "KVMShutDown = ''shut down''"

definition KVMPMSuspended :: gostring where
  "KVMPMSuspended = ''pmsuspended''"

definition KVMInShutdown :: gostring where
  "KVMInShutdown = ''in shutdown''"

definition KVMIdle :: gostring where
  "KVMIdle = ''idle''"

definition KVMBlocked :: gostring where
  "KVMBlocked = ''blocked''"

definition nodeProblemConditions :: "(gostring, bool) gomap" where
  "nodeProblemConditions =
     [(''MemoryPressure'', True), (''DiskPressure'', True), (''PIDPressure'', True),
      (''NetworkUnavailable'', True)]"

section \<open>Kubernetes events\<close>

text \<open>The age of an event, such as \<open>5m33s\<close>, as the code reads it rune by rune; a byte above 127 ends in the
  default case just as its rune does.\<close>

primrec k8s_age_loop :: "gostring \<Rightarrow> int \<Rightarrow> int \<Rightarrow> bool \<Rightarrow> bool \<Rightarrow> int \<times> bool" where
  "k8s_age_loop [] tot num sawUnit sawDigit =
     (if \<not> sawUnit \<or> sawDigit then (0, False) else (tot, True))"
| "k8s_age_loop (r # s) tot num sawUnit sawDigit =
     (if is_digit_char r
        then k8s_age_loop s tot (wrap64 (wrap64 (num * 10) + int (byte r - 48))) sawUnit True
      else if r \<in> {CHR ''d'', CHR ''h'', CHR ''m'', CHR ''s''}
        then if \<not> sawDigit then (0, False)
             else let secs = (if r = CHR ''d'' then 86400 else if r = CHR ''h'' then 3600
                               else if r = CHR ''m'' then 60 else 1)
                  in k8s_age_loop s (wrap64 (tot + wrap64 (num * secs))) 0 True False
      else (0, False))"

definition parseK8sEventAgeSeconds :: "gostring \<Rightarrow> int \<times> bool" where
  "parseK8sEventAgeSeconds s =
     (let s = trim_space s
      in if s = [] \<or> has_prefix s ''<'' then (0, False) else k8s_age_loop s 0 0 False False)"

text \<open>The reasons are counted, ordered by falling count and then by name, and the first four are named.\<close>

definition k8s_reason_counts :: "k8s_event list \<Rightarrow> (gostring, int) gomap" where
  "k8s_reason_counts events =
     foldl (\<lambda>reasons e. map_put reasons (k8sEvent_Reason e) (map_get 0 reasons (k8sEvent_Reason e) + 1)) [] events"

definition k8sEventInsight :: "gostring \<Rightarrow> k8s_event list \<Rightarrow> insight" where
  "k8sEventInsight level events =
     (let ordered = sort_key (\<lambda>(reason, count). (- count, reason)) (k8s_reason_counts events);
          summary = map (\<lambda>(reason, count). reason @ [CHR 0xC3, CHR 0x97] @ itoa count) (take 4 ordered);
          hints = [''to inspect: kubectl get events -A --field-selector type=Warning''];
          hints =
            (if list_ex (\<lambda>e. contains (k8sEvent_Message e) ''subnet.env'') events
               then hints @ [''flannel subnet.env missing '' @ em_dash @ '' CNI network plugin not ready'',
                             ''to fix: sudo systemctl restart k3s  (regenerates subnet.env)'']
             else hints);
          msg = itoa (int (length events)) @ '' Warning event(s): '' @ join summary '', '';
          msg =
            (if level = INFO
               then itoa (int (length events)) @ '' Warning event(s), all quiesced (none seen in last '' @
                    itoa 5 @ ''m): '' @ join summary '', ''
             else msg)
      in mk_full level virtCatK8s msg hints)"

section \<open>Checks\<close>

definition checkKVMVMsDiskErrors :: "kvm_info \<Rightarrow> insight list" where
  "checkKVMVMsDiskErrors kvm =
     (if 0 < kvm_DiskIOErrors kvm
        then [mk_full CRIT virtCatKVM
                (itoa (kvm_DiskIOErrors kvm) @ '' VM(s) have recorded disk I/O errors'')
                [''to inspect: virsh domblkerror <name>'',
                 ''to inspect: dmesg | grep -i '' @ squote @ ''error'' @ bslash @ ''|failed'' @
                 squote, ''note:       disk I/O errors persist across VM reboots until cleared'']]
      else []) @
     (if 0 < kvm_DiskErrorChecksFailed kvm
        then [unverifiedInsight ReasonUnreadable WARN virtCatKVM
                (itoa (kvm_DiskErrorChecksFailed kvm) @
                 '' VM(s) had an unreadable disk-error check (virsh domblkerror failed) '' @
                 em_dash @ '' I/O error status unknown for them'')
                [''to inspect: virsh domblkerror <name>'',
                 ''note: a transient libvirt error or permission issue hid the VM'' @ squote @
                 ''s real disk-error state'']]
      else [])"

definition checkKVMVMsXMLDeep :: "kvm_info \<Rightarrow> insight list" where
  "checkKVMVMsXMLDeep kvm =
     concat (map
               (\<lambda>vm.
                 let safeName = kvmvm_Name vm;
                     safeName = (if \<not> looksLikeSafeToken safeName then ''<vm-name>'' else safeName)
                 in (if kvmvm_MissingDiskPath vm \<noteq> []
                       then [mk_full CRIT virtCatKVM
                               (''VM '' @ kvmvm_Name vm @ squote @ ''s disk image is missing: '' @
                                kvmvm_MissingDiskPath vm @ '' '' @ em_dash @
                                '' the VM cannot start'')
                               [''to inspect: virsh domblklist '' @ safeName,
                                ''note: the backing file was moved, deleted, or is on an unmounted volume'']]
                     else []) @
                    (if kvmvm_EmulatedNICs vm \<noteq> []
                       then [mk_full WARN virtCatKVM
                               (''VM '' @ kvmvm_Name vm @ '': NIC(s) on an emulated driver ('' @
                                join (kvmvm_EmulatedNICs vm) '', '' @ '') '' @ em_dash @
                                '' switch to VirtIO (virtio-net) for higher throughput at lower host CPU'')
                               [''to inspect: virsh dumpxml '' @ safeName @ '' | grep -A2 '' @
                                squote @ ''<interface'' @ squote]]
                     else []) @
                    (if kvmvm_EmulatedDisks vm \<noteq> []
                       then [mk_full WARN virtCatKVM
                               (''VM '' @ kvmvm_Name vm @ '': disk(s) on an emulated bus ('' @
                                join (kvmvm_EmulatedDisks vm) '', '' @ '') '' @ em_dash @
                                '' switch to VirtIO Block/SCSI; emulated IDE/SATA is a common cause of slow guest I/O'')
                               [''to inspect: virsh dumpxml '' @ safeName @ '' | grep -A2 '' @
                                squote @ ''<disk'' @ squote,
                                ''note: changing the boot disk'' @ squote @
                                ''s bus may need the guest'' @ squote @
                                ''s bootloader/initramfs to include virtio_blk/virtio_scsi'']]
                     else []))
               (kvm_VMs kvm))"

definition checkContainerd :: "containerd_info \<Rightarrow> insight list" where
  "checkContainerd d =
     (if \<not> containerd_Available d
        then (if containerd_SocketPermDenied d
                then (if containerd_StatusReason d \<noteq> []
                        then [mk_full INFO virtCatContainerd (containerd_StatusReason d) []]
                      else [])
              else [mk_full WARN virtCatContainerd (containerd_StatusReason d)
                      [''to inspect: systemctl status containerd'',
                       ''to inspect: ls /run/containerd/containerd.sock'']])
      else (if (containerd_ServiceState d \<noteq> [] \<and> containerd_ServiceState d \<noteq> ''active'') \<and>
               containerd_ServiceState d \<noteq> ''unknown''
              then [mk_full CRIT virtCatContainerd
                      (''containerd.service is '' @ containerd_ServiceState d @ '' '' @ em_dash @
                       '' runtime may be unstable'')
                      [''to inspect: systemctl status containerd'',
                       ''to fix:     systemctl restart containerd'',
                       ''to inspect: journalctl -u containerd -n 50 --no-pager'']]
            else []) @
           (if containerd_NamespacesUnreadable d
              then [unverifiedInsight ReasonUnreadable INFO virtCatContainerd
                      (''containerd is reachable but `ctr namespaces list` failed '' @ em_dash @
                       '' namespaces and container counts not measured'')
                      [''to inspect: ctr namespaces list'']]
            else []) @
           (if containerd_ContainerCountsUnreadable d
              then [unverifiedInsight ReasonUnreadable INFO virtCatContainerd
                      (''at least one containerd namespace'' @ squote @
                       ''s container list could not be read '' @ em_dash @
                       '' the container total is a lower bound'')
                      [''to inspect: ctr -n <namespace> containers list'']]
            else []) @
           (if \<not> containerd_CtrBinaryFound d
              then [unverifiedInsight ReasonCollectorError INFO virtCatContainerd
                      (''containerd namespaces/containers could not be enumerated '' @ em_dash @
                       '' no ctr/containerd-ctr binary found'')
                      [''to inspect: which ctr containerd-ctr'',
                       ''note: the socket is reachable and the service is running, but container inventory was never checked'']]
            else []))"

definition checkPodmanQuadlets :: "docker_info \<Rightarrow> insight list" where
  "checkPodmanQuadlets d =
     (let failed = [];
          inactive = [];
          unverified = [];
          firstFailed = [];
          firstInactive = [];
          unverified =
            unverified @
            concat (map
                      (\<lambda>q. if podmanQuadlet_State q = [] then [podmanQuadlet_Name q] else [])
                      (docker_PodmanQuadlets d));
          failed =
            failed @
            concat (map
                      (\<lambda>q.
                        if podmanQuadlet_State q = [] then []
                        else if podmanQuadlet_Failed q \<or> podmanQuadlet_State q = ''failed''
                          then [podmanQuadlet_Name q]
                        else [])
                      (docker_PodmanQuadlets d));
          firstFailed =
            foldl
              (\<lambda>firstFailed q.
                if podmanQuadlet_State q = [] then firstFailed
                else if podmanQuadlet_Failed q \<or> podmanQuadlet_State q = ''failed''
                  then (if firstFailed = [] then podmanQuadlet_ServiceUnit q else firstFailed)
                else firstFailed)
              firstFailed
              (docker_PodmanQuadlets d);
          inactive =
            inactive @
            concat (map
                      (\<lambda>q.
                        if podmanQuadlet_State q = [] then []
                        else if podmanQuadlet_Failed q \<or> podmanQuadlet_State q = ''failed'' then []
                        else if podmanQuadlet_Active q \<or> podmanQuadlet_State q = ''active'' then []
                        else if podmanQuadlet_State q = ''inactive'' then [podmanQuadlet_Name q]
                        else [])
                      (docker_PodmanQuadlets d));
          firstInactive =
            foldl
              (\<lambda>firstInactive q.
                if podmanQuadlet_State q = [] then firstInactive
                else if podmanQuadlet_Failed q \<or> podmanQuadlet_State q = ''failed''
                  then firstInactive
                else if podmanQuadlet_Active q \<or> podmanQuadlet_State q = ''active''
                  then firstInactive
                else if podmanQuadlet_State q = ''inactive''
                  then (if firstInactive = [] then podmanQuadlet_ServiceUnit q else firstInactive)
                else firstInactive)
              firstInactive
              (docker_PodmanQuadlets d);
          safeFirstFailed = ''<unit>'';
          safeFirstInactive = ''<unit>'';
          safeFirstFailed =
            (if looksLikeSafeToken firstFailed then firstFailed else safeFirstFailed);
          safeFirstInactive =
            (if looksLikeSafeToken firstInactive then firstInactive else safeFirstInactive)
      in (if failed \<noteq> []
            then [mk_full WARN virtCatDocker
                    (itoa (int (length failed)) @ '' Podman quadlet(s) failed: '' @
                     join (firstN failed 3) '', '')
                    [''to inspect: systemctl status '' @ safeFirstFailed]]
          else []) @
         (if inactive \<noteq> []
            then [mk_full WARN virtCatDocker
                    (itoa (int (length inactive)) @
                     '' Podman quadlet(s) present but not active: '' @
                     join (firstN inactive 3) '', '')
                    [''to inspect: systemctl status '' @ safeFirstInactive,
                     ''note: the quadlet file exists but its generated unit is not running (stopped, or a unit-name mismatch)'']]
          else []) @
         (if unverified \<noteq> []
            then [unverifiedInsight ReasonCollectorError INFO virtCatDocker
                    (''could not determine state of '' @ itoa (int (length unverified)) @
                     '' Podman quadlet(s): '' @ join (firstN unverified 3) '', '')
                    [''to inspect: systemctl show <unit> --property=ActiveState,LoadState   (systemctl unavailable or unit not found)'']]
          else []))"

definition checkDockerContainers :: "environment \<Rightarrow> docker_info \<Rightarrow> insight list" where
  "checkDockerContainers env d =
     concat (map
               (\<lambda>name.
                 let safeName = name;
                     safeName =
                       (if \<not> looksLikeSafeToken safeName then ''<container-name>'' else safeName)
                 in [mk_full CRIT virtCatDocker
                       (''container '' @ Quote env name @ '' is crash looping (restarted >5 times)'')
                       [''to inspect: docker logs '' @ safeName @ '' --tail 50'',
                        ''to inspect: docker inspect '' @ safeName @ '' | grep -A5 RestartCount'']])
               (docker_CrashLooping d)) @
     concat (map
               (\<lambda>name.
                 let safeName = name;
                     safeName =
                       (if \<not> looksLikeSafeToken safeName then ''<container-name>'' else safeName)
                 in [mk_full WARN virtCatDocker
                       (''container '' @ Quote env name @ '' health check failing'')
                       [''to inspect: docker inspect '' @ safeName @ '' | grep -A10 Health'',
                        ''to inspect: docker logs '' @ safeName @ '' --tail 20'']])
               (docker_Unhealthy d)) @
     (let failedStopped =
            wrap64
              (sum_list (map
                 (\<lambda>c.
                   let st = to_lower (container_State c)
                   in if (st = ''exited'' \<or> st = ''dead'') \<and> container_ExitCode c \<noteq> 0 then 1 else 0)
                 (docker_Containers d)))
      in (if 5 < failedStopped
            then [mk_full WARN virtCatDocker
                    (itoa failedStopped @ '' stopped container(s) exited with errors '' @ em_dash @
                     '' crashes or failed jobs (clean-exit init/oneshot containers not counted)'')
                    [''to inspect: docker ps -a --filter status=exited --filter status=dead'',
                     ''to prune:   docker container prune'']]
          else []) @
         (if 0 < docker_OOMEvents d
            then [mk_full CRIT virtCatDocker
                    (itoa (docker_OOMEvents d) @ '' container OOM kill(s) in the last hour '' @
                     em_dash @ '' containers are out of memory'')
                    [''to inspect: docker events --filter event=oom'',
                     ''to fix: set memory limits in container config'',
                     ''to inspect: docker stats --no-stream'']]
          else []) @
         (if 0 < docker_ArchMismatchCount d
            then (let mismatched =
                        concat (map
                                  (\<lambda>c.
                                    if container_ArchMismatch c
                                      then [container_Name c @ '' (image: '' @
                                            container_ImageArch c @ '', host: '' @
                                            docker_HostArch d @ '')'']
                                    else [])
                                  (docker_Containers d))
                  in [mk_full WARN virtCatDocker
                        (itoa (docker_ArchMismatchCount d) @
                         '' container(s) have image architecture mismatch '' @ em_dash @
                         '' will fail with '' @ squote @ ''exec format error'' @ squote @ '': '' @
                         join (firstN mismatched 3) '', '')
                        [''note: host is '' @ docker_HostArch d @ '' '' @ em_dash @
                         '' pull or rebuild images for the correct platform'',
                         ''to fix: docker buildx build --platform linux/'' @ docker_HostArch d @
                         '' -t <image> .'',
                         ''to fix: docker pull --platform linux/'' @ docker_HostArch d @
                         '' <image>'']])
          else []))"

definition checkDockerResources :: "docker_info \<Rightarrow> insight list" where
  "checkDockerResources d =
     (if docker_Daemon d \<noteq> None \<and>
         dockerDaemon_StorageDriver (the (docker_Daemon d)) = ''devicemapper''
        then [mk_full WARN virtCatDocker
                (''storage driver is devicemapper (deprecated) '' @ em_dash @
                 '' known performance and stability issues'')
                [''to fix: migrate to overlay2 (requires re-creating all containers and images)'',
                 ''to inspect: docker info | grep '' @ squote @ ''Storage Driver'' @ squote,
                 ''note: devicemapper in loop mode has known data corruption risks'']]
      else []) @
     (if docker_Daemon d \<noteq> None
        then (if dockerDaemon_ComposeStandalone (the (docker_Daemon d)) \<noteq> [] \<and>
                 dockerDaemon_ComposePlugin (the (docker_Daemon d)) \<noteq> []
                then [mk_full WARN virtCatDocker
                        (''both docker-compose v1 ('' @
                         dockerDaemon_ComposeStandalone (the (docker_Daemon d)) @
                         '') and docker compose v2 ('' @
                         dockerDaemon_ComposePlugin (the (docker_Daemon d)) @ '') installed '' @
                         em_dash @ '' scripts may use the wrong one'')
                        [''to fix: remove docker-compose (v1) and use docker compose (v2) plugin only'',
                         ''to inspect: which docker-compose && docker compose version'']]
              else if dockerDaemon_ComposeStandalone (the (docker_Daemon d)) \<noteq> [] \<and>
                      dockerDaemon_ComposePlugin (the (docker_Daemon d)) = []
                then [mk_full WARN virtCatDocker
                        (''docker-compose v1 ('' @
                         dockerDaemon_ComposeStandalone (the (docker_Daemon d)) @ '') installed '' @
                         em_dash @ '' standalone is deprecated, migrate to docker compose plugin'')
                        [''to fix: apt install docker-compose-plugin  OR  dnf install docker-compose-plugin'',
                         ''to migrate: replace '' @ squote @ ''docker-compose'' @ squote @
                         '' with '' @ squote @ ''docker compose'' @ squote @ '' in scripts'']]
              else [])
      else []) @
     (if docker_Daemon d \<noteq> None \<and> 0 < dockerDaemon_RecentErrors (the (docker_Daemon d))
        then (let hints = [''to inspect: journalctl -u docker -n 50 --no-pager''];
                  hints =
                    (if dockerDaemon_LastDaemonError (the (docker_Daemon d)) \<noteq> []
                       then [''last error: '' @ dockerDaemon_LastDaemonError (the (docker_Daemon d))] @
                            hints
                     else hints)
              in [mk_full WARN virtCatDocker
                    (itoa (dockerDaemon_RecentErrors (the (docker_Daemon d))) @
                     '' Docker daemon error(s) in the last 10 minutes'') hints])
      else []) @
     (if docker_LogDriver d \<noteq> None \<and>
         dockerLogDriver_UnboundedContainers (the (docker_LogDriver d)) \<noteq> []
        then [mk_full WARN virtCatDocker
                (itoa
                   (int (length (dockerLogDriver_UnboundedContainers (the (docker_LogDriver d))))) @
                 '' container(s) logging json-file with no max-size '' @ em_dash @
                 '' logs grow unbounded: '' @
                 join (firstN (dockerLogDriver_UnboundedContainers (the (docker_LogDriver d))) 3)
                   '', '')
                [''to fix (daemon-wide): add to /etc/docker/daemon.json: {'' @ dquote @
                 ''log-opts'' @ dquote @ '':{'' @ dquote @ ''max-size'' @ dquote @ '':'' @ dquote @
                 ''100m'' @ dquote @ '','' @ dquote @ ''max-file'' @ dquote @ '':'' @ dquote @
                 ''3'' @ dquote @ ''}}, then systemctl restart docker'',
                 ''to fix (per-container): add --log-opt max-size=100m --log-opt max-file=3 (or Compose'' @
                 squote @ ''s logging: stanza), then recreate the container'']]
      else []) @
     (if docker_LogDriver d \<noteq> None \<and>
         dockerLogDriver_UnverifiedContainers (the (docker_LogDriver d)) \<noteq> []
        then [unverifiedInsight ReasonCollectorError INFO virtCatDocker
                (itoa
                   (int (length (dockerLogDriver_UnverifiedContainers (the (docker_LogDriver d))))) @
                 '' container(s) log config could not be verified (inspect failed): '' @
                 join (firstN (dockerLogDriver_UnverifiedContainers (the (docker_LogDriver d))) 3)
                   '', '') [''to inspect: docker inspect <container>'']]
      else []) @
     (if docker_LogDriver d \<noteq> None \<and> 0 < dockerLogDriver_LargeLogCount (the (docker_LogDriver d))
        then [mk_full WARN virtCatDocker
                (itoa (dockerLogDriver_LargeLogCount (the (docker_LogDriver d))) @
                 '' container log file(s) >500MB '' @ em_dash @ '' disk usage risk'')
                [''to inspect: ls -lh /var/lib/docker/containers/*/*-json.log'',
                 ''to fix: truncate -s 0 /var/lib/docker/containers/<id>/<id>-json.log'']]
      else []) @
     (if 0 < docker_DanglingImages d
        then [mk_full INFO virtCatDocker
                (itoa (docker_DanglingImages d) @ '' dangling image(s) '' @ em_dash @
                 '' reclaimable with a prune'') [''to fix: docker image prune'']]
      else []) @
     (if docker_MTUMismatch d
        then [mk_full WARN virtCatDocker
                (''container network MTU ('' @ itoa (docker_ContainerMTU d) @
                 '') > host interface MTU ('' @ itoa (docker_HostMTU d) @ '') '' @ em_dash @
                 '' silent packet fragmentation'')
                [''to fix: set MTU '' @ itoa (docker_HostMTU d) @
                 '' in container network config to match host'',
                 ''to inspect (docker): docker network inspect bridge | grep mtu'',
                 ''to inspect (podman): podman network inspect podman | grep mtu'',
                 ''note: MTU mismatch causes connection timeouts for large payloads (HTTP, TLS handshakes)'']]
      else []) @
     (if (docker_IPForwardChecked d \<and> \<not> docker_IPForwardEnabled d) \<and> docker_Available d
        then [mk_full CRIT virtCatDocker
                (''IP forwarding disabled (net.ipv4.ip_forward=0) '' @ em_dash @
                 '' container outbound traffic will fail'')
                [''to fix:    sysctl -w net.ipv4.ip_forward=1'',
                 ''to persist: echo '' @ squote @ ''net.ipv4.ip_forward=1'' @ squote @
                 '' > /etc/sysctl.d/99-docker.conf && sysctl -p'',
                 ''note: Docker sets this on start, but systemd-networkd restart can reset it'']]
      else []) @
     (if (docker_FirewalldActive d \<and> docker_FirewalldBackend d = ''nftables'') \<and>
         \<not> docker_DockerZoneTrusted d
        then [mk_full WARN virtCatDocker
                (''firewalld is active with nftables backend '' @ em_dash @
                 '' Docker iptables rules are silently ignored'')
                [''fix A (switch backend): sed -i '' @ squote @
                 ''s/FirewallBackend=nftables/FirewallBackend=iptables/'' @ squote @
                 '' /etc/firewalld/firewalld.conf && systemctl restart firewalld docker'',
                 ''fix B (trust docker0): firewall-cmd --permanent --zone=trusted --add-interface=docker0 && firewall-cmd --reload'']]
      else []) @
     (if docker_DNSTrap d
        then (if docker_DaemonDNSConfigured d \<and> docker_DaemonDNSServers d \<noteq> []
                then [mk_full INFO virtCatDocker
                        (''host resolv.conf uses '' @ docker_DNSTrapServer d @
                         '' (loopback), but Docker daemon DNS is configured ('' @
                         join (docker_DaemonDNSServers d) '', '' @ '') '' @ em_dash @
                         '' containers use that'') []]
              else [mk_full WARN virtCatDocker
                      (''host resolv.conf uses '' @ docker_DNSTrapServer d @ '' (loopback) '' @
                       em_dash @ '' containers cannot reach it and fall back to 8.8.8.8'')
                      [''note: if 8.8.8.8 is blocked by corporate firewall, container DNS fails silently'',
                       ''to fix: add to /etc/docker/daemon.json: {'' @ dquote @ ''dns'' @ dquote @
                       '': ['' @ dquote @ ''1.1.1.1'' @ dquote @ '', '' @ dquote @ ''8.8.8.8'' @
                       dquote @ '']}'', ''to fix: systemctl restart docker'']])
      else [])"

definition checkDockerSecurity :: "docker_info \<Rightarrow> insight list" where
  "checkDockerSecurity d =
     (if 0 < docker_SocketMountedCount d
        then (let names =
                    concat (map
                              (\<lambda>c.
                                if container_DockerSocketMounted c then [container_Name c] else [])
                              (docker_Containers d))
              in [mk_full CRIT virtCatDocker
                    (itoa (docker_SocketMountedCount d) @
                     '' container(s) have docker.sock mounted '' @ em_dash @
                     '' grants root-equivalent host access: '' @ join (firstN names 3) '', '')
                    [''to inspect: docker inspect <name> | grep docker.sock'',
                     ''to fix: remove HostConfig.Binds entry for docker.sock'',
                     ''note: any process inside can escape to host via Docker API'']])
      else []) @
     (if 0 < docker_RunningAsRootCount d
        then [mk_full WARN virtCatDocker
                (itoa (docker_RunningAsRootCount d) @ '' running container(s) using root user '' @
                 em_dash @ '' reduces container isolation'')
                [''to fix: add '' @ squote @ ''USER <non-root>'' @ squote @
                 '' directive to Dockerfile'',
                 ''to fix: use --user flag: docker run --user 1000:1000 ...'']]
      else []) @
     (if 0 < docker_ContainersWithSecrets d
        then (let names =
                    concat (map
                              (\<lambda>c.
                                if container_PlaintextSecrets c \<noteq> [] then [container_Name c] else [])
                              (docker_Containers d))
              in [mk_full WARN virtCatDocker
                    (itoa (docker_ContainersWithSecrets d) @
                     '' container(s) have plaintext secrets in env vars: '' @
                     join (firstN names 3) '', '')
                    [''to inspect: docker inspect <name> | grep -i '' @ squote @ ''env'' @ bslash @
                     ''|secret'' @ bslash @ ''|password'' @ squote,
                     ''to fix: use Docker secrets, a vault, or environment variable files'',
                     ''note: env vars are visible in docker inspect and container logs'']])
      else [])"

definition checkK8sNodes :: "k8s_info \<Rightarrow> insight list" where
  "checkK8sNodes k =
     (if 0 < k8s_NodesNotReady k
        then [mk_full CRIT virtCatK8s
                (itoa (k8s_NodesNotReady k) @ '' node(s) not Ready '' @ em_dash @
                 '' cluster may be degraded'')
                [''to inspect: kubectl get nodes -o wide'',
                 ''to inspect: kubectl describe node <name>'']]
      else []) @
     concat (map
               (\<lambda>node.
                 concat (map
                           (\<lambda>(cond, status).
                             if status \<noteq> ''True'' \<or> \<not> map_get False nodeProblemConditions cond
                               then []
                             else let safeNodeName = ''<node-name>'';
                                      safeNodeName =
                                        (if looksLikeSafeToken (k8sNode_Name node)
                                           then k8sNode_Name node
                                         else safeNodeName)
                                  in [mk_full CRIT virtCatK8s
                                        (''node '' @ k8sNode_Name node @ '': '' @ cond @
                                         '' condition True '' @ em_dash @
                                         '' workloads may be evicted'')
                                        [''to inspect: kubectl describe node '' @ safeNodeName @
                                         '' | grep -A5 Conditions'']])
                           (k8sNode_Conditions node)))
               (k8s_Nodes k))"

definition k8sUnknownStatusInsight :: "k8s_info \<Rightarrow> insight" where
  "k8sUnknownStatusInsight k =
     (let hints = [];
          hints = hints @ [''to inspect: kubectl get pods -A | grep Unknown''];
          affected =
            concat (map
                      (\<lambda>p.
                        if k8sPod_Status p \<noteq> ''Unknown'' then []
                        else let loc = k8sPod_Namespace p @ ''/'' @ k8sPod_Name p;
                                 loc =
                                   (if k8sPod_NodeName p \<noteq> []
                                      then loc @ '' on node '' @ k8sPod_NodeName p
                                    else loc);
                                 loc =
                                   (if k8sPod_OwnerKind p = ''StatefulSet''
                                      then loc @ '' (StatefulSet/'' @ k8sPod_OwnerName p @ '' '' @
                                           em_dash @ '' will NOT reschedule until deleted)''
                                    else loc)
                             in [loc])
                      (k8s_Pods k));
          hints = hints @ concat (map (\<lambda>a. [''  '' @ a]) (firstN affected 3));
          hints =
            hints @
            [''to inspect: kubectl describe node <node>  (confirm node is actually unreachable before deleting)'',
             ''to force (only if node confirmed dead): kubectl delete pod <name> -n <ns> --grace-period=0 --force'']
      in mk_full WARN virtCatK8s
           (itoa (k8s_UnknownStatus k) @ '' pod(s) in Unknown status '' @ em_dash @
            '' node may be unreachable'') hints)"

definition k8sWarningEventInsight :: "k8s_event list \<Rightarrow> insight list" where
  "k8sWarningEventInsight events =
     (if events = [] then []
      else let recent =
                 concat (map
                           (\<lambda>e.
                             let (sec, ok) = parseK8sEventAgeSeconds (k8sEvent_Age e)
                             in if \<not> ok \<or> sec \<le> 300 then [e] else [])
                           events)
           in if recent \<noteq> [] then [k8sEventInsight WARN recent] else [k8sEventInsight INFO events])"

definition checkK8sNodeDaemons :: "k8s_os_layer \<Rightarrow> insight list" where
  "checkK8sNodeDaemons l =
     (if k8sOSLayer_KubeletChecked l \<and> \<not> k8sOSLayer_KubeletActive l
        then [mk_full CRIT virtCatK8s
                (''kubelet is not running on this node '' @ em_dash @
                 '' pods cannot be scheduled or managed here'')
                [''to inspect: sudo systemctl status kubelet k3s k3s-agent rke2-server rke2-agent k0scontroller k0sworker'',
                 ''to inspect: sudo journalctl -u kubelet -u k3s -n 50 --no-pager'']]
      else []) @
     (if k8sOSLayer_ContainerdChecked l \<and> \<not> k8sOSLayer_ContainerdActive l
        then [mk_full CRIT virtCatK8s
                (''container runtime is not active on this node '' @ em_dash @
                 '' no containers can be started here'')
                [''to inspect: sudo systemctl status containerd'',
                 ''to fix (k3s/RKE2/k0s/MicroK8s): the runtime is bundled '' @ em_dash @
                 '' restart the node service instead'']]
      else []) @
     (if (k8sOSLayer_FirewalldChecked l \<and> k8sOSLayer_FlannelInUse l) \<and>
         \<not> k8sOSLayer_FirewalldMasquOK l
        then [mk_full WARN virtCatK8s
                (''firewalld is active without masquerade enabled '' @ em_dash @
                 '' flannel pod networking across nodes will fail'')
                [''to fix: sudo firewall-cmd --add-masquerade --permanent && sudo firewall-cmd --reload'']]
      else [])"

definition checkK8sServicesChain :: "k8s_os_layer \<Rightarrow> insight list" where
  "checkK8sServicesChain l =
     (if \<not> k8sOSLayer_KubeServicesChecked l \<or> 0 < k8sOSLayer_KubeServicesCount l then []
      else if k8sOSLayer_KubeProxyMode l = ''iptables''
        then [mk_full WARN virtCatK8s
                (''KUBE-SERVICES chain has 0 entries '' @ em_dash @
                 '' ClusterIP service routing is not programmed, kube-proxy may not have synced'')
                [''to inspect: sudo iptables -t nat -L KUBE-SERVICES -n --line-numbers'',
                 ''to inspect: kubectl logs -n kube-system -l k8s-app=kube-proxy --tail=50'']]
      else if k8sOSLayer_KubeProxyMode l = ''ipvs''
        then [mk_full WARN virtCatK8s
                (''kube-proxy is in IPVS mode but ipvsadm shows 0 TCP virtual servers '' @ em_dash @
                 '' service routing is not programmed'')
                [''to inspect: sudo ipvsadm -ln'',
                 ''to inspect: kubectl logs -n kube-system -l k8s-app=kube-proxy --tail=50'']]
      else [])"

definition checkK8sOSLayerCoverageGaps :: "k8s_os_layer \<Rightarrow> insight list" where
  "checkK8sOSLayerCoverageGaps l =
     (if \<not> k8sOSLayer_KubeForwardChecked l \<or> \<not> k8sOSLayer_CNIChecked l
        then [unverifiedInsight ReasonCollectorError INFO virtCatK8s
                (''some OS-layer checks limited '' @ em_dash @
                 '' the KUBE-FORWARD chain and/or CNI config could not be verified (needs root, or the relevant tool is not on PATH '' @
                 em_dash @ '' common on k3s)'') []]
      else []) @
     (if k8sOSLayer_FlannelCNIUnreadable l
        then [unverifiedInsight ReasonUnreadable INFO virtCatK8s
                (''CNI config directory not readable '' @ em_dash @
                 '' could not verify whether flannel is in use (firewalld-masquerade check skipped)'')
                [''to audit: re-run as root (sudo dsd k8s --deep)'']]
      else [])"

definition CheckK8sOSLayer :: "k8s_os_layer \<Rightarrow> insight list" where
  "CheckK8sOSLayer l =
     checkK8sOSLayerCoverageGaps l @
     checkK8sNodeDaemons l @
     (if k8sOSLayer_IPForwardChecked l \<and> \<not> k8sOSLayer_IPForwardEnabled l
        then [mk_full CRIT virtCatK8s
                (''IP forwarding disabled '' @ em_dash @ '' pod-to-pod networking will fail'')
                [''to fix (persistent): echo '' @ squote @ ''net.ipv4.ip_forward=1'' @ squote @
                 '' >> /etc/sysctl.d/99-k8s.conf && sysctl -p'',
                 ''to fix (immediate): sysctl -w net.ipv4.ip_forward=1'']]
      else []) @
     (if k8sOSLayer_FlannelInUse l \<and> \<not> k8sOSLayer_FlannelSubnetOK l
        then [mk_full CRIT virtCatK8s
                (''/run/flannel/subnet.env missing '' @ em_dash @
                 '' CNI network plugin cannot configure pod networking'')
                [virtFixK3sRestart, ''to inspect: sudo journalctl -u k3s -n 50 | grep -i flannel'']]
      else []) @
     (if k8sOSLayer_CNIChecked l \<and> \<not> k8sOSLayer_CNIBinsOK l
        then [mk_full CRIT virtCatK8s
                (''/opt/cni/bin/ is empty '' @ em_dash @
                 '' CNI plugins not installed, networking will fail'')
                [virtFixK3sRestart, ''to fix (kubeadm): reinstall kubeadm network plugin'']]
      else []) @
     (if k8sOSLayer_KubeForwardChecked l \<and> \<not> k8sOSLayer_KubeForwardChain l
        then [mk_full WARN virtCatK8s
                (''KUBE-FORWARD chain not found in iptables/nftables '' @ em_dash @
                 '' kube-proxy may not be running'')
                [''to inspect: sudo iptables -L KUBE-FORWARD -n 2>/dev/null || sudo nft list tables'',
                 ''to inspect: kubectl get pods -n kube-system | grep kube-proxy'']]
      else []) @
     checkK8sServicesChain l @
     (if k8sOSLayer_CertExpiredNames l \<noteq> []
        then [mk_full CRIT virtCatK8s
                (''k8s certificate(s) EXPIRED: '' @ join (k8sOSLayer_CertExpiredNames l) '', '' @
                 '' '' @ em_dash @ '' API server will reject requests'')
                [''to fix (kubeadm): kubeadm certs renew all'',
                 ''to fix (k3s): sudo systemctl restart k3s  (auto-renews certs)'']]
      else if \<not> k8sOSLayer_CertChecked l \<and> k8sOSLayer_CertDirUnreadable l
        then [unverifiedInsight ReasonUnreadable INFO virtCatK8s
                (''k8s certificate expiry could not be verified '' @ em_dash @
                 '' cert directory unreadable (commonly needs root)'')
                [''to inspect: sudo ls -la /etc/kubernetes/pki /var/lib/rancher/k3s/server/tls 2>/dev/null'']]
      else if k8sOSLayer_CertExpirySoon l
        then (let when = ''in '' @ itoa (k8sOSLayer_CertExpirySoonDays l) @ '' day(s)'';
                  when =
                    (if k8sOSLayer_CertExpirySoonDays l = 0 then ''in less than a day'' else when)
              in [mk_full WARN virtCatK8s
                    (''k8s certificate(s) expire '' @ when @ '' '' @ em_dash @
                     '' renew before expiry'')
                    [''to fix (kubeadm): kubeadm certs renew all'', virtFixK3sRestart]])
      else []) @
     (if k8sOSLayer_KubeletErrors l \<noteq> []
        then [mk_full WARN virtCatK8s
                (''kubelet errors in journal: '' @ hd (k8sOSLayer_KubeletErrors l))
                ([''to inspect: journalctl -u kubelet -u k3s -n 50 --no-pager''] @
                 drop (nat 1) (k8sOSLayer_KubeletErrors l))]
      else [])"

definition k8sFirstLine :: "gostring \<Rightarrow> gostring" where
  "k8sFirstLine s =
     (case first_some
        (\<lambda>line.
          let line = trim_space line
          in if line \<noteq> [] then Some line else None)
        (split_byte s (CHR 0x0A)) of
        Some r \<Rightarrow> r
        | None \<Rightarrow> s)"

definition checkRancher :: "rancher_info \<Rightarrow> insight list" where
  "checkRancher d =
     (if \<not> rancher_Available d then []
      else (if rancher_ServerUnreadable d
              then [unverifiedInsight ReasonUnreadable INFO ''Rancher''
                      (''Rancher is installed but its server deployment could not be read '' @
                       em_dash @ '' replica health not measured (RBAC or API error)'')
                      [''to inspect: kubectl -n cattle-system get deploy rancher'',
                       ''to inspect: kubectl auth can-i get deployments -n cattle-system'']]
            else []) @
           (if rancher_WebhookUnreadable d
              then [unverifiedInsight ReasonUnreadable INFO ''Rancher''
                      (''Rancher is installed but its rancher-webhook deployment could not be read '' @
                       em_dash @ '' replica health not measured (RBAC or API error)'')
                      [''to inspect: kubectl -n cattle-system get deploy rancher-webhook'']]
            else []) @
           (if 0 < rancher_ServerDesired d \<and> rancher_ServerReady d < rancher_ServerDesired d
              then [mk_full WARN ''Rancher''
                      (''Rancher server has '' @ itoa (rancher_ServerReady d) @ ''/'' @
                       itoa (rancher_ServerDesired d) @ '' replicas ready '' @ em_dash @
                       '' the management plane is degraded; downstream cluster management and the UI may be unavailable'')
                      [''to inspect: kubectl -n cattle-system get pods -l app=rancher'',
                       ''to inspect: kubectl -n cattle-system logs deploy/rancher'']]
            else []) @
           (if 0 < rancher_WebhookDesired d \<and> rancher_WebhookReady d < rancher_WebhookDesired d
              then [mk_full WARN ''Rancher''
                      (''rancher-webhook has '' @ itoa (rancher_WebhookReady d) @ ''/'' @
                       itoa (rancher_WebhookDesired d) @ '' replicas ready '' @ em_dash @
                       '' admission webhooks may reject or stall cluster changes'')
                      [''to inspect: kubectl -n cattle-system get pods -l app=rancher-webhook'']]
            else []))"

definition checkNspawn :: "nspawn_info \<Rightarrow> insight list" where
  "checkNspawn n =
     (if 0 < nspawn_FailedCount n
        then [mk_full WARN ''Nspawn''
                (itoa (nspawn_FailedCount n) @
                 '' systemd-nspawn container(s) in failed/degraded state'')
                [''to inspect: machinectl list'', ''to inspect: machinectl status <name>'']]
      else if nspawn_Status n = ''query-failed''
        then [unverifiedInsight ReasonCollectorError INFO ''Nspawn''
                (''systemd-nspawn container status could not be determined: '' @
                 nspawn_StatusReason n)
                [''to inspect: machinectl list'', ''to inspect: systemctl status systemd-machined'']]
      else [])"

definition checkPVETaskErrors :: "pve_info \<Rightarrow> insight list" where
  "checkPVETaskErrors p =
     (let types = [];
          seen = [];
          n = 0;
          (n, seen, types) =
            foldl
              (\<lambda>(n, seen, types) t.
                if pveTaskError_Type t = ''vzdump'' then (n, seen, types)
                else let n = n + 1;
                         types =
                           (if \<not> map_get False seen (pveTaskError_Type t)
                              then types @ [pveTaskError_Type t]
                            else types);
                         seen =
                           (if \<not> map_get False seen (pveTaskError_Type t)
                              then map_put seen (pveTaskError_Type t) True
                            else seen)
                     in (n, seen, types))
              (n, seen, types)
              (pve_TaskErrors p)
      in if n = 0
           then (if \<not> pve_TasksVerified p
                   then [unverifiedInsight ReasonUnreadable INFO pveCatPVE
                           (''Proxmox task log unreadable '' @ em_dash @
                            '' recent task failures could NOT be verified'')
                           [''to inspect: pvesh get /nodes/localhost/tasks --errors 1'',
                            ''to inspect: cat /var/log/pve/tasks/index'']]
                 else [])
         else [mk_full WARN pveCatPVE
                 (itoa n @ '' Proxmox task(s) failed in the last 24h ('' @ join types '', '' @ '')'')
                 [''to inspect: pvesh get /nodes/localhost/tasks --errors 1'',
                  ''to inspect: cat /var/log/pve/tasks/index'']])"

definition checkPVESubscription :: "environment \<Rightarrow> pve_info \<Rightarrow> insight list" where
  "checkPVESubscription env p =
     (if pveSubscription_Status (pve_Subscription p) = ''notfound'' \<or>
         pveSubscription_Status (pve_Subscription p) = []
        then [mk_full WARN pveCatPVE
                (''no Proxmox VE subscription '' @ em_dash @
                 '' security updates require an active subscription'')
                [''note: without a subscription, security patches lag behind the enterprise repo'',
                 ''to subscribe: https://www.proxmox.com/en/proxmox-ve/pricing'']]
      else if pveSubscription_Status (pve_Subscription p) = ''expired''
        then [mk_full CRIT pveCatPVE
                (''Proxmox VE subscription has EXPIRED '' @ em_dash @
                 '' no access to security updates'')
                [''to renew: https://www.proxmox.com/en/proxmox-ve/pricing'',
                 inspectPVESubscription]]
      else if pveSubscription_Status (pve_Subscription p) = ''unverified''
        then [unverifiedInsight ReasonUnreadable INFO pveCatPVE
                ''Proxmox VE subscription configured but live status could NOT be verified (pvesh failed)''
                [inspectPVESubscription,
                 ''note: an expired subscription leaves the auth file in place, so presence alone is not proof of an active subscription'']]
      else if pveSubscription_Status (pve_Subscription p) = ''active'' \<or>
              pveSubscription_Status (pve_Subscription p) = ''New''
        then []
      else [unverifiedInsight ReasonCollectorError INFO pveCatPVE
              (''Proxmox VE subscription status '' @
               Quote env (pveSubscription_Status (pve_Subscription p)) @ '' not recognized '' @
               em_dash @ '' could not verify subscription health'') [inspectPVESubscription]])"

definition checkPVECluster :: "pve_info \<Rightarrow> insight list" where
  "checkPVECluster p =
     (if \<not> pve_QuorumOK p
        then [mk_full CRIT pveCatPVE
                (''cluster quorum LOST '' @ em_dash @
                 '' VMs cannot start or migrate until quorum is restored'')
                [inspectPVECMStatus, ''to inspect: systemctl status corosync pve-cluster'',
                 ''note: do not force quorum unless certain of network partition vs node failure'']]
      else []) @
     (if \<not> pve_HAFencingOK p
        then [mk_full CRIT pveCatPVE
                (''HA fencing device unreachable '' @ em_dash @ '' '' @ pve_HAFencingMsg p)
                [inspectPVECMStatus, ''to inspect: ha-manager status'',
                 ''note: without fencing, HA cannot safely restart VMs from a failed node'']]
      else if \<not> pve_HAVerified p
        then [unverifiedInsight ReasonUnreadable INFO pveCatPVE
                (''HA fencing state could NOT be verified '' @ em_dash @
                 '' the HA status query failed or its response was unreadable'')
                [''to inspect: pvesh get /cluster/ha/status/current'',
                 ''to inspect: ha-manager status'']]
      else []) @
     (if 1 < int (length (pve_Nodes p))
        then (let versions = [];
                  versions =
                    foldl
                      (\<lambda>versions n.
                        if pveNode_Version n \<noteq> [] then map_put versions (pveNode_Version n) True
                        else versions)
                      versions
                      (pve_Nodes p)
              in (if 1 < int (length versions)
                    then [mk_full WARN pveCatPVE
                            (''cluster has mixed PVE versions across '' @
                             itoa (int (length (pve_Nodes p))) @ '' nodes '' @ em_dash @
                             '' live migration may fail'')
                            [inspectPVECMStatus,
                             ''to fix: apt update && apt full-upgrade  (on each node, one at a time)'']]
                  else []) @
                 concat (map
                           (\<lambda>n.
                             if \<not> pveNode_Online n
                               then (let sshHint =
                                           ''to inspect: ssh root@<node> '' @ squote @
                                           ''systemctl status pve-cluster corosync'' @ squote @
                                           ''  (node name withheld '' @ em_dash @
                                           '' contains unexpected characters)'';
                                         sshHint =
                                           (if looksLikeSafeToken (pveNode_Name n)
                                              then ''to inspect: ssh root@'' @ pveNode_Name n @
                                                   '' '' @ squote @
                                                   ''systemctl status pve-cluster corosync'' @
                                                   squote
                                            else sshHint)
                                     in [mk_full CRIT pveCatPVE
                                           (''cluster node '' @ pveNode_Name n @ '' is OFFLINE'')
                                           [inspectPVECMStatus, sshHint]])
                             else [])
                           (pve_Nodes p)))
      else [])"

definition checkPVEStorage :: "pve_info \<Rightarrow> insight list" where
  "checkPVEStorage p =
     (if \<not> pve_StoragesVerified p
        then [unverifiedInsight ReasonCollectorError INFO pveCatPVE
                (''Proxmox storage health NOT verified '' @ em_dash @
                 '' the storage list query failed'')
                [inspectPVESMStatus, ''to inspect: pvesh get /nodes/localhost/storage'']]
      else []) @
     concat (map
               (\<lambda>s.
                 if \<not> pveStorage_Active s
                   then (if \<not> pveStorage_Enabled s
                           then [mk_full INFO pveCatPVE
                                   (''storage '' @ pveStorage_Name s @ '' ('' @ pveStorage_Type s @
                                    '') is disabled '' @ em_dash @ '' skipping'') []]
                         else let storageHint =
                                    ''to inspect: pvesh get /nodes/localhost/storage/<storage>/status  (storage name withheld '' @
                                    em_dash @ '' contains unexpected characters)'';
                                  storageHint =
                                    (if looksLikeSafeToken (pveStorage_Name s)
                                       then ''to inspect: pvesh get /nodes/localhost/storage/'' @
                                            pveStorage_Name s @ ''/status''
                                     else storageHint)
                              in [mk_full CRIT pveCatPVE
                                    (''storage '' @ pveStorage_Name s @ '' ('' @ pveStorage_Type s @
                                     '') is INACTIVE'') [inspectPVESMStatus, storageHint]])
                 else let l = PVEStorageLevel (pveStorage_UsedPct s)
                      in if l \<noteq> []
                           then [mk_full l pveCatPVE
                                   (''storage '' @ pveStorage_Name s @ '' ('' @ pveStorage_Type s @
                                    '') is '' @ fmt_f 0 (pveStorage_UsedPct s) @ ''% full ('' @
                                    fmt_f 1 (fsub (pveStorage_TotalGB s) (pveStorage_UsedGB s)) @
                                    '' GB free of '' @ fmt_f 1 (pveStorage_TotalGB s) @ '' GB)'')
                                   [inspectPVESMStatus,
                                    ''note: full storage prevents VM disk writes and snapshot creation'',
                                    ''to free: remove old backups, snapshots, or ISO images'']]
                         else [])
               (pve_Storages p))"

definition checkPVEBackups :: "pve_info \<Rightarrow> insight list" where
  "checkPVEBackups p =
     (if (\<not> pve_BackupVerified p \<and> pve_BackupAgeDays p < 0) \<and> pve_BackupStatuses p = []
        then [unverifiedInsight ReasonCollectorError INFO pveCatPVE
                (''Proxmox backup health NOT verified '' @ em_dash @
                 '' the vzdump task query failed and no backup archives were found'')
                [inspectPVETasks, ''to inspect: ls /var/log/vzdump/'']]
      else (if \<not> pve_GuestsVerified p
              then [unverifiedInsight ReasonCollectorError INFO pveCatPVE
                      (''per-guest backup audit NOT verified '' @ em_dash @
                       '' VM/LXC guest enumeration failed'')
                      [''to inspect: pvesh get /nodes/localhost/qemu'',
                       ''to inspect: pvesh get /nodes/localhost/lxc'']]
            else []) @
           (if pve_BackupAgeDays p < 0 \<and> pve_BackupStatuses p \<noteq> []
              then [mk_full CRIT pveCatPVE
                      (''no successful backup found '' @ em_dash @ '' VMs have no recovery point'')
                      [inspectPVETasks,
                       ''to schedule: Datacenter '' @ [CHR 0xE2, CHR 0x86, CHR 0x92] @
                       '' Backup '' @ [CHR 0xE2, CHR 0x86, CHR 0x92] @ '' Add'']]
            else if 7 < pve_BackupAgeDays p
              then [mk_full WARN pveCatPVE
                      (''last successful backup was '' @ itoa (pve_BackupAgeDays p) @ '' days ago'')
                      [inspectPVETasks,
                       ''to run now: vzdump --all --compress zstd --storage local'']]
            else []) @
           (let failed =
                  int (length (filter (\<lambda>t. pveBackupTask_Status t \<noteq> OK) (pve_RecentBackups p)))
            in (if 0 < failed
                  then [mk_full WARN pveCatPVE
                          (itoa failed @ '' backup task(s) failed in the last 7 days'')
                          [inspectPVETasks, ''to inspect: ls /var/log/vzdump/'']]
                else []) @
               (if 0 \<le> pve_BackupAgeDays p
                  then (let never = [];
                            stale = [];
                            never =
                              never @
                              concat (map
                                        (\<lambda>s.
                                          let label = pveBackupStatus_Name s;
                                              label =
                                                (if label = []
                                                   then ''VMID '' @ itoa (pveBackupStatus_VMID s)
                                                 else label)
                                          in if pveBackupStatus_LastBackupDays s < 0 then [label]
                                             else [])
                                        (pve_BackupStatuses p));
                            stale =
                              stale @
                              concat (map
                                        (\<lambda>s.
                                          let label = pveBackupStatus_Name s;
                                              label =
                                                (if label = []
                                                   then ''VMID '' @ itoa (pveBackupStatus_VMID s)
                                                 else label)
                                          in if pveBackupStatus_LastBackupDays s < 0 then []
                                             else if 7 < pveBackupStatus_LastBackupDays s
                                               then [label @ '' ('' @
                                                     itoa (pveBackupStatus_LastBackupDays s) @
                                                     ''d)'']
                                             else [])
                                        (pve_BackupStatuses p))
                        in (if never \<noteq> []
                              then [mk_full WARN pveCatPVE
                                      (itoa (int (length never)) @
                                       '' VM/CT have no backup while others on this node do: '' @
                                       join (firstN never 5) '', '' @ '' '' @ em_dash @
                                       '' no recovery point'')
                                      [''to inspect: Datacenter '' @
                                       [CHR 0xE2, CHR 0x86, CHR 0x92] @ '' Backup '' @ em_dash @
                                       '' confirm every guest is in a backup job'',
                                       ''note: newly-created guests may simply not have hit their first backup window yet'']]
                            else []) @
                           (if stale \<noteq> []
                              then [mk_full WARN pveCatPVE
                                      (itoa (int (length stale)) @
                                       '' VM/CT backup(s) older than 7 days: '' @
                                       join (firstN stale 5) '', '') [inspectPVETasks]]
                            else []))
                else [])))"

definition checkKVMVMs :: "kvm_info \<Rightarrow> insight list" where
  "checkKVMVMs kvm =
     concat (map
               (\<lambda>vm.
                 if kvmvm_State vm = KVMCrashed
                   then (let safeName = kvmvm_Name vm;
                             safeName =
                               (if \<not> looksLikeSafeToken safeName then ''<vm-name>'' else safeName);
                             hints =
                               [''to inspect: virsh console '' @ safeName,
                                ''to inspect: cat /var/log/libvirt/qemu/'' @ safeName @
                                ''.log | tail -50'', ''to restart: virsh start '' @ safeName];
                             hints =
                               (if kvmvm_LastLogError vm \<noteq> []
                                  then [''last log: '' @ kvmvm_LastLogError vm] @ hints
                                else hints)
                         in [mk_full CRIT virtCatKVM
                               (''VM '' @ kvmvm_Name vm @ '' is in CRASHED state'') hints])
                 else [])
               (kvm_VMs kvm)) @
     (if 0 < kvm_VMsAbnormal kvm
        then (let names =
                    concat (map
                              (\<lambda>vm.
                                if ((kvmvm_State vm = KVMPMSuspended \<or>
                                     kvmvm_State vm = KVMInShutdown) \<or>
                                    kvmvm_State vm = KVMIdle) \<or>
                                   kvmvm_State vm = KVMBlocked
                                  then [kvmvm_Name vm @ '' ('' @ kvmvm_State vm @ '')'']
                                else [])
                              (kvm_VMs kvm))
              in [mk_full WARN virtCatKVM
                    (itoa (kvm_VMsAbnormal kvm) @ '' VM(s) in an abnormal state: '' @
                     join (firstN names 3) '', '' @ '' '' @ em_dash @
                     '' not running and not cleanly stopped'')
                    [virtInspectVirsh,
                     ''to recover: virsh dompmwakeup <name> (pmsuspended), or virsh destroy then virsh start'']])
      else []) @
     (if 0 < kvm_VMsUnreadable kvm
        then [unverifiedInsight ReasonUnreadable WARN virtCatKVM
                (itoa (kvm_VMsUnreadable kvm) @
                 '' VM(s) defined but their state could not be read (virsh dominfo failed) '' @
                 em_dash @ '' true state unknown'')
                [virtInspectVirsh,
                 ''note: a transient libvirt error or permission issue hid the VM'' @ squote @
                 ''s real state'']]
      else []) @
     (if 0 < kvm_VMsPaused kvm
        then [mk_full WARN virtCatKVM
                (itoa (kvm_VMsPaused kvm) @ '' VM(s) paused '' @ em_dash @
                 '' may indicate a problem or forgotten snapshot'')
                [''to inspect: virsh list --all | grep paused'',
                 ''to resume:  virsh resume <name>'']]
      else []) @
     (if 0 < kvm_VMsDownAutostart kvm
        then (let names =
                    concat (map
                              (\<lambda>vm.
                                if (kvmvm_State vm = KVMShutOff \<or> kvmvm_State vm = KVMShutDown) \<and>
                                   kvmvm_AutoStart vm
                                  then [kvmvm_Name vm]
                                else [])
                              (kvm_VMs kvm))
              in [mk_full WARN virtCatKVM
                    (itoa (kvm_VMsDownAutostart kvm) @ '' VM(s) shut off with autostart=yes: '' @
                     join (firstN names 3) '', '')
                    [''to start:   virsh start <name>'', virtInspectVirsh]])
      else []) @
     checkKVMVMsDiskErrors kvm @
     checkKVMVMsXMLDeep kvm"

definition checkKVM :: "kvm_info \<Rightarrow> insight list" where
  "checkKVM kvm =
     (if \<not> kvm_Detected kvm then []
      else if kvm_Status kvm = ''enum-failed''
        then [mk_full WARN virtCatKVM (kvm_StatusReason kvm)
                [''to inspect: virsh list --all'', ''to inspect: systemctl status libvirtd'']]
      else checkKVMVMs kvm @
           (if 0 < kvm_NetworksInactive kvm
              then [mk_full WARN virtCatKVM
                      (itoa (kvm_NetworksInactive kvm) @ '' virtual network(s) inactive '' @
                       em_dash @ '' VMs may lose connectivity'')
                      [''to inspect: virsh net-list --all'', ''to start:   virsh net-start <name>'',
                       ''to autostart: virsh net-autostart <name>'']]
            else []) @
           (if 0 < kvm_PoolsInactive kvm
              then [mk_full WARN virtCatKVM
                      (itoa (kvm_PoolsInactive kvm) @ '' storage pool(s) inactive '' @ em_dash @
                       '' disk images may be inaccessible'')
                      [''to inspect: virsh pool-list --all'',
                       ''to start:   virsh pool-start <name>'']]
            else []) @
           (if 0 < kvm_PoolsNearFull kvm
              then [mk_full WARN virtCatKVM
                      (itoa (kvm_PoolsNearFull kvm) @ '' storage pool(s) >85% full '' @ em_dash @
                       '' VMs may fail to write disk'')
                      [''to inspect: virsh pool-info <name>'',
                       ''to inspect: du -sh /var/lib/libvirt/images/*'']]
            else []) @
           (if 0 < kvm_PoolsCapUnknown kvm
              then [unverifiedInsight ReasonUnreadable WARN virtCatKVM
                      (itoa (kvm_PoolsCapUnknown kvm) @
                       '' storage pool(s) had unreadable capacity (virsh pool-info failed) '' @
                       em_dash @ '' near-full detection unreliable for them'')
                      [''to inspect: virsh pool-info <name>'',
                       ''note: a transient libvirt error or permission issue hid the pool'' @
                       squote @ ''s real usage'']]
            else []))"

definition checkDocker :: "environment \<Rightarrow> docker_info \<Rightarrow> insight list" where
  "checkDocker env d =
     (if \<not> docker_Available d
        then (if docker_SocketPermDenied d
                then (if docker_StatusReason d \<noteq> []
                        then [mk_full INFO virtCatDocker (docker_StatusReason d) []]
                      else [])
              else if docker_StatusReason d \<noteq> []
                then [mk_full WARN virtCatDocker (docker_StatusReason d)
                        [''to inspect: systemctl status docker'']]
              else [])
      else if docker_Status d = ''error''
        then (let reason = docker_StatusReason d;
                  reason =
                    (if reason = []
                       then ''Docker daemon is reachable but its containers could not be listed '' @
                            em_dash @ '' health not verified''
                     else reason)
              in [unverifiedInsight ReasonCollectorError WARN virtCatDocker reason
                    [''to inspect: docker ps -a'',
                     ''to inspect: journalctl -u docker --since '' @ squote @ ''10 min ago'' @
                     squote]])
      else checkDockerContainers env d @
           checkDockerResources d @
           checkDockerSecurity d @
           checkPodmanQuadlets d)"

definition checkK8sPodHealth :: "k8s_info \<Rightarrow> insight list" where
  "checkK8sPodHealth k =
     (if 0 < k8s_CrashLooping k
        then (let hints = [''to inspect: kubectl get pods -A | grep -v Running''];
                  hints =
                    hints @
                    concat (map
                              (\<lambda>p.
                                (if contains (k8sPod_Status p) ''CrashLoop'' \<and>
                                    k8sPod_PreviousLogs p \<noteq> []
                                   then [''  '' @ k8sPod_Namespace p @ ''/'' @ k8sPod_Name p @
                                         '' last log: '' @ k8sFirstLine (k8sPod_PreviousLogs p)]
                                 else []) @
                                (if k8sPod_TerminationMsg p \<noteq> []
                                   then [''  '' @ k8sPod_Namespace p @ ''/'' @ k8sPod_Name p @
                                         '' exit msg: '' @ k8sFirstLine (k8sPod_TerminationMsg p)]
                                 else []))
                              (k8s_Pods k))
              in [mk_full CRIT virtCatK8s (itoa (k8s_CrashLooping k) @ '' pod(s) crash looping'')
                    hints])
      else []) @
     (let initErr =
            concat (map
                      (\<lambda>p.
                        if k8sPod_InitError p \<noteq> [] \<and> \<not> contains (k8sPod_Status p) ''CrashLoop''
                          then [k8sPod_Namespace p @ ''/'' @ k8sPod_Name p @ '' ('' @
                                k8sPod_InitError p @ '')'']
                        else [])
                      (k8s_Pods k))
      in (if initErr \<noteq> []
            then [mk_full WARN virtCatK8s
                    (itoa (int (length initErr)) @ '' pod(s) stuck in init errors '' @ em_dash @
                     '' workload cannot start: '' @ join (firstN initErr 3) '', '')
                    [''to inspect: kubectl describe pod <name> -n <ns>'',
                     ''to inspect: kubectl logs <name> -n <ns> -c <init-container>'',
                     ''note: common causes '' @ em_dash @
                     '' missing ConfigMap/Secret, failing migration/init job'']]
          else []) @
         (if 0 < k8s_PodsNotReady k
            then [mk_full WARN virtCatK8s
                    (itoa (k8s_PodsNotReady k) @ '' pod(s) running but containers not ready'')
                    [''to inspect: kubectl get pods -A | grep '' @ squote @ ''0/'' @ squote,
                     ''to inspect: kubectl describe pod <name> -n <ns>'']]
          else []) @
         (if 0 < k8s_Pending k
            then [mk_full WARN virtCatK8s
                    (itoa (k8s_Pending k) @ '' pod(s) stuck in Pending '' @ em_dash @
                     '' check node resources or PVC availability'')
                    [''to inspect: kubectl get pods -A | grep Pending'',
                     ''to inspect: kubectl describe pod <name> -n <ns> | grep -A5 Events'']]
          else []) @
         (if 0 < k8s_HighRestarts k
            then [mk_full WARN virtCatK8s
                    (itoa (k8s_HighRestarts k) @ '' pod(s) with '' @
                     [CHR 0xE2, CHR 0x89, CHR 0xA5] @ ''10 restarts '' @ em_dash @
                     '' instability detected'')
                    [''to inspect: kubectl get pods -A --sort-by='' @ squote @
                     ''.status.containerStatuses[0].restartCount'' @ squote,
                     ''to inspect: kubectl logs <pod> -n <ns> --previous'']]
          else []) @
         (if 0 < k8s_Terminating k
            then [mk_full WARN virtCatK8s
                    (itoa (k8s_Terminating k) @ '' pod(s) stuck Terminating '' @ em_dash @
                     '' finalizer or webhook blocking deletion'')
                    [''to inspect: kubectl get pods -A | grep Terminating'',
                     ''to force: kubectl delete pod <name> -n <ns> --grace-period=0 --force'']]
          else []) @
         (if 0 < k8s_UnknownStatus k then [k8sUnknownStatusInsight k] else []))"

definition checkK8sWorkloadsAndEvents :: "k8s_info \<Rightarrow> insight list" where
  "checkK8sWorkloadsAndEvents k =
     (if 0 < k8s_PVCsNotBound k
        then [mk_full WARN virtCatK8s
                (itoa (k8s_PVCsNotBound k) @ '' PVC(s) not Bound '' @ em_dash @
                 '' pods waiting for storage may stay Pending'')
                [''to inspect: kubectl get pvc -A | grep -v Bound'',
                 ''to inspect: kubectl describe pvc <name> -n <ns>'']]
      else []) @
     (if 0 < k8s_WorkloadsDown k
        then (let names =
                    concat (map
                              (\<lambda>w.
                                if k8sWorkload_Ready w < k8sWorkload_Desired w
                                  then [k8sWorkload_Namespace w @ ''/'' @ k8sWorkload_Name w @
                                        '' ('' @ itoa (k8sWorkload_Ready w) @ ''/'' @
                                        itoa (k8sWorkload_Desired w) @ '')'']
                                else [])
                              (k8s_Workloads k))
              in [mk_full WARN virtCatK8s
                    (itoa (k8s_WorkloadsDown k) @ '' workload(s) degraded: '' @
                     join (firstN names 3) '', '')
                    [''to inspect: kubectl get deploy,statefulset -A | grep -v '' @ squote @
                     ''1/1'' @ squote,
                     ''to inspect: kubectl rollout status deployment/<name> -n <ns>'']])
      else []) @
     k8sWarningEventInsight (k8s_Events k) @
     concat (map
               (\<lambda>u.
                 if k8sQuery_failed u
                   then [unverifiedInsight ReasonCollectorError INFO virtCatK8s
                           (k8sQuery_what u @ '' could NOT be listed (forbidden/timeout) '' @
                            em_dash @ '' their health is NOT verified'')
                           [''to inspect: '' @ k8sQuery_hint u,
                            ''check: RBAC for this kubeconfig covers '' @ k8sQuery_what u]]
                 else [])
               [\<lparr>k8sQuery_failed = k8s_PVCsUnreadable k, k8sQuery_what = ''PersistentVolumeClaims'',
                 k8sQuery_hint = ''kubectl get pvc -A''\<rparr>,
                \<lparr>k8sQuery_failed = k8s_WorkloadsUnreadable k,
                 k8sQuery_what = ''Deployments/StatefulSets'',
                 k8sQuery_hint = ''kubectl get deploy,statefulset -A''\<rparr>,
                \<lparr>k8sQuery_failed = k8s_EventsUnreadable k, k8sQuery_what = ''Warning events'',
                 k8sQuery_hint = ''kubectl get events -A --field-selector type=Warning''\<rparr>])"

definition checkPVE :: "environment \<Rightarrow> pve_info \<Rightarrow> insight list" where
  "checkPVE env p =
     (if \<not> pve_IsPVE p then []
      else if pve_NeedsRoot p
        then [needsRootInsight (IsRoot env) INFO pveCatPVE
                (''Proxmox VE detected '' @ em_dash @
                 '' run as root for full cluster/storage/backup checks'')
                [''to run: sudo dsd health'']]
      else if \<not> pve_APIReachable p
        then [unverifiedInsight ReasonCollectorError WARN pveCatPVE
                (''Proxmox VE API (pvesh) not responding '' @ em_dash @
                 '' cluster quorum, storage, and backup health could NOT be verified'')
                [''to inspect: systemctl status pve-cluster corosync pvedaemon'',
                 ''to inspect: pvesh get /cluster/status'',
                 ''note: pmxcfs (/etc/pve) must be mounted and quorate for the API to respond'']]
      else checkPVESubscription env p @
           checkPVECluster p @
           checkPVEStorage p @
           checkPVEBackups p @
           checkPVETaskErrors p)"

definition checkK8s :: "k8s_info \<Rightarrow> insight list" where
  "checkK8s k =
     (if \<not> k8s_Detected k then []
      else (if \<not> k8s_APIReachable k
              then [unverifiedInsight ReasonCollectorError INFO virtCatK8s
                      (''kubectl/k3s present but the cluster API was unreachable '' @ em_dash @
                       '' cluster health NOT verified'')
                      [''to inspect: kubectl get nodes'',
                       ''check: API server up? kubeconfig valid (KUBECONFIG / ~/.kube/config)? RBAC sufficient?'']]
            else checkK8sNodes k @ checkK8sPodHealth k @ checkK8sWorkloadsAndEvents k) @
           (if k8s_OSLayer k \<noteq> None then CheckK8sOSLayer (the (k8s_OSLayer k)) else []))"

section \<open>Well-formedness\<close>

lemma k8sEventInsight_wf [wf_rules]: "l \<in> set levels \<Longrightarrow> wf_insight (k8sEventInsight l events)"
  unfolding k8sEventInsight_def Let_def by (rule wf_mk_full)

lemma checkKVMVMsDiskErrors_wf [wf_rules]: "wf_insights (checkKVMVMsDiskErrors kvm)"
  unfolding checkKVMVMsDiskErrors_def by (intro wf_lets wf_rules level_facts; (assumption | erule (1) level_open; intro level_facts | erule level_nonempty; intro level_facts | elim level_elims; (intro level_facts)?; assumption?))

lemma checkKVMVMsXMLDeep_wf [wf_rules]: "wf_insights (checkKVMVMsXMLDeep kvm)"
  unfolding checkKVMVMsXMLDeep_def by (intro wf_lets wf_rules level_facts; (assumption | erule (1) level_open; intro level_facts | erule level_nonempty; intro level_facts | elim level_elims; (intro level_facts)?; assumption?))

lemma checkContainerd_wf [wf_rules]: "wf_insights (checkContainerd d)"
  unfolding checkContainerd_def by (intro wf_lets wf_rules level_facts; (assumption | erule (1) level_open; intro level_facts | erule level_nonempty; intro level_facts | elim level_elims; (intro level_facts)?; assumption?))

lemma checkPodmanQuadlets_wf [wf_rules]: "wf_insights (checkPodmanQuadlets d)"
  unfolding checkPodmanQuadlets_def by (intro wf_lets wf_rules level_facts; (assumption | erule (1) level_open; intro level_facts | erule level_nonempty; intro level_facts | elim level_elims; (intro level_facts)?; assumption?))

lemma checkDockerContainers_wf [wf_rules]: "wf_insights (checkDockerContainers env d)"
  unfolding checkDockerContainers_def by (intro wf_lets wf_rules level_facts; (assumption | erule (1) level_open; intro level_facts | erule level_nonempty; intro level_facts | elim level_elims; (intro level_facts)?; assumption?))

lemma checkDockerResources_wf [wf_rules]: "wf_insights (checkDockerResources d)"
  unfolding checkDockerResources_def by (intro wf_lets wf_rules level_facts; (assumption | erule (1) level_open; intro level_facts | erule level_nonempty; intro level_facts | elim level_elims; (intro level_facts)?; assumption?))

lemma checkDockerSecurity_wf [wf_rules]: "wf_insights (checkDockerSecurity d)"
  unfolding checkDockerSecurity_def by (intro wf_lets wf_rules level_facts; (assumption | erule (1) level_open; intro level_facts | erule level_nonempty; intro level_facts | elim level_elims; (intro level_facts)?; assumption?))

lemma checkK8sNodes_wf [wf_rules]: "wf_insights (checkK8sNodes k)"
  unfolding checkK8sNodes_def by (intro wf_lets wf_rules level_facts; (assumption | erule (1) level_open; intro level_facts | erule level_nonempty; intro level_facts | elim level_elims; (intro level_facts)?; assumption?))

lemma k8sUnknownStatusInsight_wf [wf_rules]: "wf_insight (k8sUnknownStatusInsight k)"
  unfolding k8sUnknownStatusInsight_def by (intro wf_lets wf_rules level_facts; (assumption | erule (1) level_open; intro level_facts | erule level_nonempty; intro level_facts | elim level_elims; (intro level_facts)?; assumption?))

lemma k8sWarningEventInsight_wf [wf_rules]: "wf_insights (k8sWarningEventInsight events)"
  unfolding k8sWarningEventInsight_def by (intro wf_lets wf_rules level_facts; (assumption | erule (1) level_open; intro level_facts | erule level_nonempty; intro level_facts | elim level_elims; (intro level_facts)?; assumption?))

lemma checkK8sNodeDaemons_wf [wf_rules]: "wf_insights (checkK8sNodeDaemons l)"
  unfolding checkK8sNodeDaemons_def by (intro wf_lets wf_rules level_facts; (assumption | erule (1) level_open; intro level_facts | erule level_nonempty; intro level_facts | elim level_elims; (intro level_facts)?; assumption?))

lemma checkK8sServicesChain_wf [wf_rules]: "wf_insights (checkK8sServicesChain l)"
  unfolding checkK8sServicesChain_def by (intro wf_lets wf_rules level_facts; (assumption | erule (1) level_open; intro level_facts | erule level_nonempty; intro level_facts | elim level_elims; (intro level_facts)?; assumption?))

lemma checkK8sOSLayerCoverageGaps_wf [wf_rules]: "wf_insights (checkK8sOSLayerCoverageGaps l)"
  unfolding checkK8sOSLayerCoverageGaps_def by (intro wf_lets wf_rules level_facts; (assumption | erule (1) level_open; intro level_facts | erule level_nonempty; intro level_facts | elim level_elims; (intro level_facts)?; assumption?))

lemma CheckK8sOSLayer_wf [wf_rules]: "wf_insights (CheckK8sOSLayer l)"
  unfolding CheckK8sOSLayer_def by (intro wf_lets wf_rules level_facts; (assumption | erule (1) level_open; intro level_facts | erule level_nonempty; intro level_facts | elim level_elims; (intro level_facts)?; assumption?))

lemma checkRancher_wf [wf_rules]: "wf_insights (checkRancher d)"
  unfolding checkRancher_def by (intro wf_lets wf_rules level_facts; (assumption | erule (1) level_open; intro level_facts | erule level_nonempty; intro level_facts | elim level_elims; (intro level_facts)?; assumption?))

lemma checkNspawn_wf [wf_rules]: "wf_insights (checkNspawn n)"
  unfolding checkNspawn_def by (intro wf_lets wf_rules level_facts; (assumption | erule (1) level_open; intro level_facts | erule level_nonempty; intro level_facts | elim level_elims; (intro level_facts)?; assumption?))

lemma checkPVETaskErrors_wf [wf_rules]: "wf_insights (checkPVETaskErrors p)"
  unfolding checkPVETaskErrors_def by (intro wf_lets wf_rules level_facts; (assumption | erule (1) level_open; intro level_facts | erule level_nonempty; intro level_facts | elim level_elims; (intro level_facts)?; assumption?))

lemma checkPVESubscription_wf [wf_rules]: "wf_insights (checkPVESubscription env p)"
  unfolding checkPVESubscription_def by (intro wf_lets wf_rules level_facts; (assumption | erule (1) level_open; intro level_facts | erule level_nonempty; intro level_facts | elim level_elims; (intro level_facts)?; assumption?))

lemma checkPVECluster_wf [wf_rules]: "wf_insights (checkPVECluster p)"
  unfolding checkPVECluster_def by (intro wf_lets wf_rules level_facts; (assumption | erule (1) level_open; intro level_facts | erule level_nonempty; intro level_facts | elim level_elims; (intro level_facts)?; assumption?))

lemma checkPVEStorage_wf [wf_rules]: "wf_insights (checkPVEStorage p)"
  unfolding checkPVEStorage_def by (intro wf_lets wf_rules level_facts; (assumption | erule (1) level_open; intro level_facts | erule level_nonempty; intro level_facts | elim level_elims; (intro level_facts)?; assumption?))

lemma checkPVEBackups_wf [wf_rules]: "wf_insights (checkPVEBackups p)"
  unfolding checkPVEBackups_def by (intro wf_lets wf_rules level_facts; (assumption | erule (1) level_open; intro level_facts | erule level_nonempty; intro level_facts | elim level_elims; (intro level_facts)?; assumption?))

lemma checkKVMVMs_wf [wf_rules]: "wf_insights (checkKVMVMs kvm)"
  unfolding checkKVMVMs_def by (intro wf_lets wf_rules level_facts; (assumption | erule (1) level_open; intro level_facts | erule level_nonempty; intro level_facts | elim level_elims; (intro level_facts)?; assumption?))

lemma checkKVM_wf [wf_rules]: "wf_insights (checkKVM kvm)"
  unfolding checkKVM_def by (intro wf_lets wf_rules level_facts; (assumption | erule (1) level_open; intro level_facts | erule level_nonempty; intro level_facts | elim level_elims; (intro level_facts)?; assumption?))

lemma checkDocker_wf [wf_rules]: "wf_insights (checkDocker env d)"
  unfolding checkDocker_def by (intro wf_lets wf_rules level_facts; (assumption | erule (1) level_open; intro level_facts | erule level_nonempty; intro level_facts | elim level_elims; (intro level_facts)?; assumption?))

lemma checkK8sPodHealth_wf [wf_rules]: "wf_insights (checkK8sPodHealth k)"
  unfolding checkK8sPodHealth_def by (intro wf_lets wf_rules level_facts; (assumption | erule (1) level_open; intro level_facts | erule level_nonempty; intro level_facts | elim level_elims; (intro level_facts)?; assumption?))

lemma checkK8sWorkloadsAndEvents_wf [wf_rules]: "wf_insights (checkK8sWorkloadsAndEvents k)"
  unfolding checkK8sWorkloadsAndEvents_def by (intro wf_lets wf_rules level_facts; (assumption | erule (1) level_open; intro level_facts | erule level_nonempty; intro level_facts | elim level_elims; (intro level_facts)?; assumption?))

lemma checkPVE_wf [wf_rules]: "wf_insights (checkPVE env p)"
  unfolding checkPVE_def by (intro wf_lets wf_rules level_facts; (assumption | erule (1) level_open; intro level_facts | erule level_nonempty; intro level_facts | elim level_elims; (intro level_facts)?; assumption?))

lemma checkK8s_wf [wf_rules]: "wf_insights (checkK8s k)"
  unfolding checkK8s_def by (intro wf_lets wf_rules level_facts; (assumption | erule (1) level_open; intro level_facts | erule level_nonempty; intro level_facts | elim level_elims; (intro level_facts)?; assumption?))


end
