(* ===== verification/Checks_Security.thy ===== *)
theory Checks_Security
  imports Checks_Levels
begin

text \<open>
  heuristics_security.go and heuristics_ssh.go: audit gaps, SSH configuration, failed logins, exposed ports,
  privilege escalation, SELinux and AppArmor denials, PAM, the hardening of RHEL, SUSE and macOS, firewall,
  authentication and auditd.  \<open>exePathUnderSystemDir\<close> cleans a path as \<open>path/filepath\<close> does before it
  compares it with the system directories.
\<close>

section \<open>Measurements\<close>

record port_entry =
  portEntry_Port :: int
  portEntry_Protocol :: gostring
  portEntry_Process :: gostring
  portEntry_Expected :: bool
  portEntry_ExePath :: gostring

record app_armor_denial =
  appArmorDenial_Profile :: gostring
  appArmorDenial_Operation :: gostring
  appArmorDenial_Path :: gostring
  appArmorDenial_Count :: int

record se_linux_avc_group =
  seLinuxAVCGroup_Scontext :: gostring
  seLinuxAVCGroup_Tcontext :: gostring
  seLinuxAVCGroup_Tclass :: gostring
  seLinuxAVCGroup_Count :: int
  seLinuxAVCGroup_BooleanFix :: gostring
  seLinuxAVCGroup_FixCmd :: gostring
  seLinuxAVCGroup_Paths :: "gostring list"

record se_linux_unlabeled_port =
  seLinuxUnlabeledPort_Port :: int
  seLinuxUnlabeledPort_Protocol :: gostring
  seLinuxUnlabeledPort_Process :: gostring

record se_linux_context_issue =
  seLinuxContextIssue_Path :: gostring
  seLinuxContextIssue_ActualContext :: gostring
  seLinuxContextIssue_ExpectedContext :: gostring

record pam_failure =
  pamFailure_Service :: gostring
  pamFailure_User :: gostring
  pamFailure_Count :: int

record security_info =
  security_SSHPermitRoot :: bool
  security_SSHPasswordAuth :: bool
  security_SSHPort :: int
  security_SSHProtocol1 :: bool
  security_SSHMaxAuthTries :: int
  security_SSHLoginGraceTime :: int
  security_SSHAllowUsers :: "gostring list"
  security_SSHAllowGroups :: "gostring list"
  security_SSHPubkeyAuth :: bool
  security_SSHX11Forwarding :: bool
  security_SSHAgentForwarding :: bool
  security_SSHPermitEmptyPwd :: bool
  security_SSHStrictModes :: bool
  security_SSHClientAliveInterval :: int
  security_SSHClientAliveCountMax :: int
  security_SSHIgnoreRhosts :: bool
  security_SSHHostbasedAuth :: bool
  security_SSHPermitUserEnv :: bool
  security_SSHTCPForwarding :: bool
  security_SSHLogLevel :: gostring
  security_SSHBanner :: gostring
  security_SSHMaxSessions :: int
  security_SSHMaxStartups :: gostring
  security_SSHCiphers :: gostring
  security_SSHMACs :: gostring
  security_SSHKexAlgorithms :: gostring
  security_SSHAuditSource :: gostring
  security_SSHConfigUnreadable :: bool
  security_FailedLogins :: int
  security_FailedLoginIPs :: "gostring list"
  security_FailedLoginsUnreadable :: bool
  security_ListeningPorts :: "port_entry list"
  security_PortsNeedRoot :: bool
  security_FirewallActive :: bool
  security_FirewallType :: gostring
  security_FirewallToolingPresent :: bool
  security_FirewallUnreadable :: bool
  security_SSHAllowed :: bool
  security_SudoNopasswd :: "gostring list"
  security_SudoersUnreadable :: bool
  security_SudoDefaultsPTY :: bool
  security_SudoDefaultsLogfile :: bool
  security_SudoTimestampMins :: int
  security_SudoTimestampNever :: bool
  security_SUIDBinaries :: "gostring list"
  security_UID0Users :: "gostring list"
  security_SuspectCrons :: "gostring list"
  security_EmptyPasswordAccounts :: "gostring list"
  security_StalePasswordAccounts :: "gostring list"
  security_ShadowUnreadable :: bool
  security_WorldWritableDirs :: "gostring list"
  security_AppArmorDenials :: int
  security_AppArmorGroups :: "app_armor_denial list"
  security_AppArmorDenialsUnreadable :: bool
  security_SELinuxDenials :: int
  security_SELinuxMode :: gostring
  security_SELinuxAVCGroups :: "se_linux_avc_group list"
  security_SELinuxUnlabeledPorts :: "se_linux_unlabeled_port list"
  security_SELinuxContextIssues :: "se_linux_context_issue list"
  security_PAMModuleFailures :: "pam_failure list"
  security_PAMFailuresUnreadable :: bool
  security_FIPSEnabled :: bool
  security_CryptoPolicy :: gostring
  security_USBGuardActive :: bool
  security_AIDEInstalled :: bool
  security_AIDEDBExists :: bool
  security_AIDELastRunDays :: int
  security_AIDEDBUnreadable :: bool
  security_AuditRules :: int
  security_AuditRulesUnreadable :: bool
  security_SupportconfigAvailable :: bool
  security_SupportconfigLastRunDays :: int
  security_SupportconfigUnreadable :: bool
  security_SUSEConnectRegistered :: bool
  security_SUSEConnectExpiresDays :: int
  security_NeedsRoot :: bool
  security_IsOffensiveDistro :: bool
  security_IsPVE :: bool
  security_FileVaultEnabled :: bool
  security_SIPEnabled :: bool
  security_GatekeeperEnabled :: bool
  security_IsDarwin :: bool

record failed_login_source =
  failedLoginSource_Source :: gostring
  failedLoginSource_Count :: int

record auth_info =
  auth_Available :: bool
  auth_Checked :: bool
  auth_FailedLast24h :: int
  auth_TopSources :: "failed_login_source list"
  auth_RootAttempts :: int
  auth_StatusReason :: gostring
  auth_SSHConfigChecked :: bool
  auth_PasswordAuthEnabled :: bool
  auth_RootPasswordLoginAllowed :: bool

record audit_info =
  audit_Available :: bool
  audit_Running :: bool
  audit_AuditLogSizeGB :: f64
  audit_RulesUnreadable :: bool
  audit_EventsUnreadable :: bool
  audit_AuditLogSizeUnreadable :: bool

record firewall_chain =
  firewallChain_Table :: gostring
  firewallChain_Name :: gostring
  firewallChain_Policy :: gostring
  firewallChain_Rules :: int

record firewall_info =
  firewall_Available :: bool
  firewall_Backend :: gostring
  firewall_Active :: bool
  firewall_Chains :: "firewall_chain list"
  firewall_TotalRules :: int
  firewall_DefaultDrop :: bool
  firewall_BlockedListeners :: "int list"
  firewall_PVEFirewallActive :: bool
  firewall_CloudGuest :: bool
  firewall_CloudProvider :: gostring
  firewall_StatusReason :: gostring

section \<open>Constants\<close>

definition secCatHardening :: gostring where
  "secCatHardening = ''Hardening''"

definition secCatFirewall :: gostring where
  "secCatFirewall = ''Firewall''"

definition secCatAuth :: gostring where
  "secCatAuth = ''Auth''"

definition secCatAuditd :: gostring where
  "secCatAuditd = ''Auditd''"

definition secFixRestartSSHD :: gostring where
  "secFixRestartSSHD = ''to fix: systemctl restart sshd''"

definition secAuditRunAsRoot :: gostring where
  "secAuditRunAsRoot = ''to audit: re-run as root (sudo dsd security)''"

definition secKwPrometheus :: gostring where
  "secKwPrometheus = ''prometheus''"

definition secKwK8s :: gostring where
  "secKwK8s = ''k8s''"

definition secFixSUSESub :: gostring where
  "secFixSUSESub = ''to fix: renew subscription at https://scc.suse.com''"

definition sshConfigFile :: gostring where
  "sshConfigFile = ''sshd_config''"

definition sshCmdT :: gostring where
  "sshCmdT = ''sshd -T''"

definition sshEffectiveConf :: gostring where
  "sshEffectiveConf = ''sshd -T (effective config)''"

section \<open>Paths\<close>

text \<open>\<open>filepath.Clean\<close>: the elements kept so far, the last one first.\<close>

definition clean_step :: "bool \<Rightarrow> gostring list \<Rightarrow> gostring \<Rightarrow> gostring list" where
  "clean_step rooted kept el =
     (if el = [] \<or> el = ''.'' then kept
      else if el = ''..''
        then (case kept of
                [] \<Rightarrow> if rooted then [] else [el]
              | k # ks \<Rightarrow> if k = ''..'' then el # kept else ks)
      else el # kept)"

definition filepath_Clean :: "gostring \<Rightarrow> gostring" where
  "filepath_Clean path =
     (let rooted = has_prefix path ''/'';
          kept = rev (foldl (clean_step rooted) [] (split_byte path CHR ''/''))
      in if rooted then ''/'' @ join kept ''/'' else if kept = [] then ''.'' else join kept ''/'')"

definition systemBinDirPrefixes :: "gostring list" where
  "systemBinDirPrefixes = [''/usr/'', ''/bin/'', ''/sbin/'', ''/opt/'', ''/snap/'']"

definition exePathUnderSystemDir :: "gostring \<Rightarrow> bool" where
  "exePathUnderSystemDir path \<longleftrightarrow>
     path \<noteq> [] \<and> list_ex (\<lambda>p. has_prefix (filepath_Clean path) p) systemBinDirPrefixes"

section \<open>Checks\<close>

definition checkSecurityAuditGaps :: "environment \<Rightarrow> security_info \<Rightarrow> insight list" where
  "checkSecurityAuditGaps env sec =
     (if security_NeedsRoot sec
        then [needsRootInsight (IsRoot env) INFO secCatHardening
                (''some checks limited '' @ em_dash @
                 '' run as root for port process names, failed logins, and SELinux audit log'') []]
      else []) @
     (if security_SSHConfigUnreadable sec \<and> security_SSHAuditSource sec = []
        then [unverifiedInsight ReasonUnreadable INFO secCatHardening
                (''SSH config present but not readable '' @ em_dash @
                 '' sshd settings (root login, password auth, ciphers) were NOT audited'')
                [secAuditRunAsRoot]]
      else []) @
     (if security_ShadowUnreadable sec
        then [needsRootInsight (IsRoot env) INFO secCatHardening
                (''/etc/shadow not readable '' @ em_dash @
                 '' empty/never-expiring password accounts were NOT audited'') [secAuditRunAsRoot]]
      else []) @
     (if security_FailedLoginsUnreadable sec
        then [needsRootInsight (IsRoot env) INFO secCatHardening
                (''SSH auth log not readable '' @ em_dash @
                 '' failed-login/brute-force attempts were NOT audited'') [secAuditRunAsRoot]]
      else []) @
     (if security_PAMFailuresUnreadable sec
        then [needsRootInsight (IsRoot env) INFO secCatHardening
                (''PAM auth log not readable '' @ em_dash @
                 '' su/sudo/login/cron authentication failures were NOT audited'')
                [secAuditRunAsRoot]]
      else []) @
     (if security_SELinuxMode sec = ''enforcing'' \<and> security_SELinuxDenials sec < 0
        then [unverifiedInsight ReasonUnreadable INFO secCatHardening
                (''SELinux enforcing but AVC denials could NOT be verified '' @ em_dash @
                 '' audit log unreadable / ausearch absent'')
                [''to inspect: ausearch -m avc -ts recent   (run as root)'',
                 ''to inspect: journalctl --since '' @ squote @ ''1 hour ago'' @ squote @
                 '' | grep '' @ squote @ ''avc:  denied'' @ squote]]
      else []) @
     (if security_AIDEDBUnreadable sec
        then [unverifiedInsight ReasonUnreadable INFO secCatHardening
                (''AIDE database path exists but could not be read '' @ em_dash @
                 '' file integrity state was NOT verified'') [secAuditRunAsRoot]]
      else []) @
     (if security_SupportconfigUnreadable sec
        then [unverifiedInsight ReasonUnreadable INFO secCatHardening
                (''/var/log could not be listed '' @ em_dash @
                 '' supportconfig archive history was NOT verified'') [secAuditRunAsRoot]]
      else [])"

definition checkFailedLoginAttempts :: "security_info \<Rightarrow> insight list" where
  "checkFailedLoginAttempts sec =
     (if 20 \<le> security_FailedLogins sec
        then (let msg =
                    itoa (security_FailedLogins sec) @ '' failed login attempts in the last hour'';
                  msg =
                    (if security_FailedLoginIPs sec \<noteq> []
                       then msg @ '' '' @ em_dash @ '' top sources: '' @
                            join
                              (take (nat (min 3 (int (length (security_FailedLoginIPs sec)))))
                                 (security_FailedLoginIPs sec)) '', ''
                     else msg)
              in [mk_full CRIT secCatHardening msg
                    [''to inspect: journalctl _COMM=sshd | grep -E '' @ squote @
                     ''Failed|penalty'' @ squote @ '' | tail -20'',
                     ''to inspect: last -f /var/log/wtmp | head -20'',
                     ''to fix: consider fail2ban or firewall rules'']])
      else if 5 \<le> security_FailedLogins sec
        then [mk_full WARN secCatHardening
                (itoa (security_FailedLogins sec) @ '' failed login attempts in the last hour'')
                [''to inspect: journalctl _COMM=sshd | grep -E '' @ squote @ ''Failed|penalty'' @
                 squote @ '' | tail -20'']]
      else [])"

definition checkPrivilegeEscalationVectors :: "security_info \<Rightarrow> insight list" where
  "checkPrivilegeEscalationVectors sec =
     (if security_SudoNopasswd sec \<noteq> []
        then (if security_IsOffensiveDistro sec
                then [mk_full INFO secCatHardening
                        (''NOPASSWD sudo for: '' @ join (security_SudoNopasswd sec) '', '' @ '' '' @
                         em_dash @ '' expected on offensive security distro'') []]
              else [mk_full WARN secCatHardening
                      (''NOPASSWD sudo for: '' @ join (security_SudoNopasswd sec) '', '')
                      [''to inspect: sudo -l'', ''to inspect: cat /etc/sudoers'']])
      else []) @
     (if security_SUIDBinaries sec \<noteq> []
        then [mk_full WARN secCatHardening
                (itoa (int (length (security_SUIDBinaries sec))) @
                 '' unexpected SUID binary(ies): '' @
                 join
                   (take (nat (min 3 (int (length (security_SUIDBinaries sec)))))
                      (security_SUIDBinaries sec)) '', '')
                [''to inspect: find / -perm -4000 -type f 2>/dev/null'']]
      else []) @
     (if security_UID0Users sec \<noteq> []
        then [mk_full CRIT secCatHardening
                (''non-root user(s) with UID 0: '' @ join (security_UID0Users sec) '', '')
                [''to inspect: awk -F: '' @ squote @ ''$3==0'' @ squote @ '' /etc/passwd'',
                 ''to inspect: getent passwd | awk -F: '' @ squote @ ''$3==0'' @ squote,
                 ''to fix: remove or reassign UID for affected accounts'']]
      else []) @
     (if security_SuspectCrons sec \<noteq> []
        then [mk_full WARN secCatHardening
                (itoa (int (length (security_SuspectCrons sec))) @ '' suspect cron entry(ies) '' @
                 em_dash @ '' pipes to shell or writes to sensitive paths'')
                [''to inspect: cat /etc/cron.d/* /var/spool/cron/crontabs/*'',
                 ''to inspect: review entries piping to bash or wget/curl'']]
      else [])"

definition checkAppArmorDenials :: "environment \<Rightarrow> security_info \<Rightarrow> insight list" where
  "checkAppArmorDenials env sec =
     (if security_AppArmorDenialsUnreadable sec
        then [needsRootInsight (IsRoot env) INFO secCatHardening
                (''AppArmor denial log could not be read '' @ em_dash @
                 '' denials in the last 24h were NOT audited'') [secAuditRunAsRoot]]
      else if security_AppArmorGroups sec \<noteq> []
        then (let hints =
                    [''to inspect: aa-logprof'',
                     ''to inspect: journalctl -t kernel -g '' @ squote @ ''apparmor='' @ dquote @
                     ''DENIED'' @ dquote @ squote @ '' --since '' @ squote @ ''24 hours ago'' @
                     squote];
                  hints =
                    loop_break
                      (\<lambda>hints (i, g).
                        if 5 \<le> i
                          then (let hints =
                                      hints @
                                      [''... and '' @
                                       itoa
                                         (wrap64 (int (length (security_AppArmorGroups sec)) - 5)) @
                                       '' more group(s)'']
                                in Break hints)
                        else let hints =
                                   hints @
                                   [''  '' @ appArmorDenial_Profile g @ '' ['' @
                                    appArmorDenial_Operation g @ ''] '' @ appArmorDenial_Path g @
                                    '' '' @ [CHR 0xC3, CHR 0x97] @ itoa (appArmorDenial_Count g)]
                             in Next hints)
                      hints
                      (indexed (security_AppArmorGroups sec))
              in [mk_full WARN secCatHardening
                    (itoa (int (length (security_AppArmorGroups sec))) @
                     '' AppArmor denial group(s) in the last 24h'') hints])
      else if 0 < security_AppArmorDenials sec
        then [mk_full WARN secCatHardening
                (itoa (security_AppArmorDenials sec) @ '' AppArmor denial(s) in the last 24h'')
                [''to inspect: journalctl -t kernel -g '' @ squote @ ''apparmor='' @ dquote @
                 ''DENIED'' @ dquote @ squote @ '' --since '' @ squote @ ''24 hours ago'' @ squote]]
      else [])"

definition checkPAMFailures :: "security_info \<Rightarrow> insight list" where
  "checkPAMFailures sec =
     (if security_PAMModuleFailures sec = [] then []
      else let hints =
                 [''to inspect: grep pam_unix /var/log/auth.log /var/log/secure 2>/dev/null | tail -20''];
               total =
                 wrap64
                   (sum_list (map
                      (\<lambda>(i, f). pamFailure_Count f)
                      (indexed (security_PAMModuleFailures sec))));
               hints =
                 hints @
                 concat (map
                           (\<lambda>(i, f).
                             if i < 5
                               then [''  '' @ pamFailure_Service f @ '': '' @ pamFailure_User f @
                                     '' '' @ [CHR 0xC3, CHR 0x97] @ itoa (pamFailure_Count f)]
                             else [])
                           (indexed (security_PAMModuleFailures sec)))
           in [mk_full WARN secCatHardening
                 (itoa total @ '' PAM authentication failure(s) in the last 24h across '' @
                  itoa (int (length (security_PAMModuleFailures sec))) @ '' service(s)'') hints])"

definition checkRHELSecurityHardening :: "security_info \<Rightarrow> insight list" where
  "checkRHELSecurityHardening sec =
     (if security_CryptoPolicy sec = ''LEGACY''
        then [mk_full WARN secCatHardening
                (''system-wide crypto policy is LEGACY '' @ em_dash @
                 '' weak algorithms (MD5, SHA-1, DH<1024) are permitted'')
                [''to inspect: update-crypto-policies --show'',
                 ''to fix: update-crypto-policies --set DEFAULT'']]
      else []) @
     (if security_AuditRules sec = 0 \<and> security_SELinuxMode sec \<noteq> []
        then [mk_full WARN secCatHardening
                (''auditd is running but has no active rules '' @ em_dash @
                 '' system calls and file access are not being audited'')
                [''to inspect: auditctl -l'',
                 ''to fix: augenrules --load or add rules to /etc/audit/rules.d/'']]
      else []) @
     (if security_AIDEInstalled sec \<and> \<not> security_AIDEDBExists sec
        then [mk_full WARN secCatHardening
                (''AIDE is installed but database has never been initialised '' @ em_dash @
                 '' file integrity monitoring is inactive'')
                [''to fix: aide --init && mv /var/lib/aide/aide.db.new /var/lib/aide/aide.db'']]
      else []) @
     (if (security_AIDEInstalled sec \<and> security_AIDEDBExists sec) \<and> 7 < security_AIDELastRunDays sec
        then [mk_full WARN secCatHardening
                (''AIDE file integrity database is '' @ itoa (security_AIDELastRunDays sec) @
                 '' day(s) old '' @ em_dash @ '' run a fresh check'')
                [''to fix: aide --check'',
                 ''to automate: add '' @ squote @ ''aide --check'' @ squote @
                 '' to cron or systemd timer'']]
      else [])"

definition checkSUSESecurityHardening :: "security_info \<Rightarrow> insight list" where
  "checkSUSESecurityHardening sec =
     (if security_SupportconfigAvailable sec
        then (if security_SupportconfigLastRunDays sec = - 1
                then [mk_full INFO secCatHardening
                        (''supportconfig available but never run '' @ em_dash @
                         '' collect before opening SUSE support ticket'')
                        [''to run: supportconfig'', ''archives saved to /var/log/scc_*.txz'']]
              else if 30 < security_SupportconfigLastRunDays sec
                then [mk_full INFO secCatHardening
                        (''supportconfig last run '' @
                         itoa (security_SupportconfigLastRunDays sec) @ '' day(s) ago '' @ em_dash @
                         '' consider refreshing before a support call'')
                        [''to run: supportconfig'']]
              else [])
      else []) @
     (if security_SUSEConnectRegistered sec
        then (if security_SUSEConnectExpiresDays sec < 0
                then [unverifiedInsight ReasonCollectorError INFO secCatHardening
                        ''SUSE subscription is registered but its expiry date could not be determined''
                        [''to inspect: SUSEConnect --status'',
                         ''to inspect: SUSEConnect --status-text'']]
              else if security_SUSEConnectExpiresDays sec = 0
                then [mk_full CRIT secCatHardening
                        (''SUSEConnect subscription EXPIRED '' @ em_dash @
                         '' security patches no longer available'') [secFixSUSESub]]
              else if 0 < security_SUSEConnectExpiresDays sec \<and>
                      security_SUSEConnectExpiresDays sec \<le> 14
                then [mk_full CRIT secCatHardening
                        (''SUSEConnect subscription expires in '' @
                         itoa (security_SUSEConnectExpiresDays sec) @ '' day(s) '' @ em_dash @
                         '' renew immediately'') [secFixSUSESub]]
              else if 14 < security_SUSEConnectExpiresDays sec \<and>
                      security_SUSEConnectExpiresDays sec \<le> 30
                then [mk_full WARN secCatHardening
                        (''SUSEConnect subscription expires in '' @
                         itoa (security_SUSEConnectExpiresDays sec) @ '' day(s)'') [secFixSUSESub]]
              else [])
      else [])"

definition checkMacOSHardening :: "security_info \<Rightarrow> insight list" where
  "checkMacOSHardening sec =
     (if security_IsDarwin sec
        then (if \<not> security_FileVaultEnabled sec
                then [mk_full WARN secCatHardening
                        (''FileVault disk encryption is off '' @ em_dash @
                         '' data is readable if the disk is removed'')
                        [''to fix: System Settings '' @ [CHR 0xE2, CHR 0x86, CHR 0x92] @
                         '' Privacy & Security '' @ [CHR 0xE2, CHR 0x86, CHR 0x92] @
                         '' FileVault '' @ [CHR 0xE2, CHR 0x86, CHR 0x92] @ '' Turn On'']]
              else []) @
             (if \<not> security_SIPEnabled sec
                then [mk_full CRIT secCatHardening
                        (''System Integrity Protection (SIP) is disabled '' @ em_dash @
                         '' system files are unprotected'')
                        [''to fix: boot to Recovery, open Terminal, run: csrutil enable'',
                         ''note: SIP disabled is required for some development tools '' @ em_dash @
                         '' verify intentional'']]
              else []) @
             (if \<not> security_GatekeeperEnabled sec
                then [mk_full WARN secCatHardening
                        (''Gatekeeper is disabled '' @ em_dash @
                         '' unsigned apps can run without quarantine'')
                        [''to fix: System Settings '' @ [CHR 0xE2, CHR 0x86, CHR 0x92] @
                         '' Privacy & Security '' @ [CHR 0xE2, CHR 0x86, CHR 0x92] @
                         '' set to App Store and identified developers'',
                         ''or: sudo spctl --master-enable'']]
              else [])
      else [])"

definition checkAuth :: "auth_info \<Rightarrow> insight list" where
  "checkAuth a =
     (if \<not> auth_Available a then []
      else if \<not> auth_Checked a
        then (let msg = auth_StatusReason a;
                  msg =
                    (if msg = []
                       then ''SSH auth log could not be read '' @ em_dash @
                            '' failed-login detection skipped''
                     else msg)
              in [unverifiedInsight ReasonUnreadable INFO secCatAuth msg
                    [''run as root (sudo) to verify SSH authentication failures'']])
      else if auth_FailedLast24h a = 0 then []
      else let keyOnly = auth_SSHConfigChecked a \<and> \<not> auth_PasswordAuthEnabled a
           in (if 1000 < auth_FailedLast24h a
                 then (if keyOnly
                         then [mk_full INFO secCatAuth
                                 (itoa (auth_FailedLast24h a) @
                                  '' failed SSH login attempts in 24h '' @ em_dash @
                                  '' all rejected: password authentication is disabled (key-only), so these cannot succeed'')
                                 [''no action needed; to silence the log noise: consider fail2ban or sshguard'']]
                       else let hints =
                                  [''to inspect: journalctl _COMM=sshd --since '' @ squote @
                                   ''24 hours ago'' @ squote @ '' | grep '' @ squote @
                                   ''Failed password'' @ squote, ''to inspect: lastb | head -20'',
                                   ''to harden: set PasswordAuthentication no (key-only) so these attempts cannot succeed'',
                                   ''to fix:     consider fail2ban or sshguard''];
                                hints =
                                  (if auth_TopSources a \<noteq> []
                                     then hints @
                                          [''top attacker: '' @
                                           failedLoginSource_Source (hd (auth_TopSources a)) @
                                           '' ('' @
                                           itoa (failedLoginSource_Count (hd (auth_TopSources a))) @
                                           '' attempts)'']
                                   else hints)
                            in [mk_full WARN secCatAuth
                                  (itoa (auth_FailedLast24h a) @
                                   '' failed SSH login attempts in 24h '' @ em_dash @
                                   '' brute force likely'') hints])
               else if 100 < auth_FailedLast24h a
                 then [mk_full INFO secCatAuth
                         (itoa (auth_FailedLast24h a) @ '' failed SSH login attempts in 24h'')
                         [''to inspect: journalctl _COMM=sshd --since '' @ squote @
                          ''24 hours ago'' @ squote @ '' | grep Failed'']]
               else []) @
              (if 0 < auth_RootAttempts a
                 then (let rootPwImpossible =
                             auth_SSHConfigChecked a \<and>
                             (\<not> auth_PasswordAuthEnabled a \<or> \<not> auth_RootPasswordLoginAllowed a)
                       in if rootPwImpossible
                            then [mk_full INFO secCatAuth
                                    (itoa (auth_RootAttempts a) @ '' root login attempt(s) '' @
                                     em_dash @ '' all rejected: root password login is disabled'')
                                    [''to verify: sshd -T | grep -E '' @ squote @
                                     ''permitrootlogin|passwordauthentication'' @ squote]]
                          else [mk_full WARN secCatAuth
                                  (itoa (auth_RootAttempts a) @ '' root login attempt(s) '' @
                                   em_dash @ '' ensure PermitRootLogin no in sshd_config'')
                                  [''to inspect: grep PermitRootLogin /etc/ssh/sshd_config'',
                                   ''to fix:     echo '' @ squote @ ''PermitRootLogin no'' @
                                   squote @ '' >> /etc/ssh/sshd_config && systemctl restart sshd'']])
               else []))"

definition checkAuditd :: "environment \<Rightarrow> audit_info \<Rightarrow> insight list" where
  "checkAuditd env a =
     (if \<not> audit_Available a then []
      else (if \<not> audit_Running a
              then [mk_full WARN secCatAuditd
                      (''auditd is installed but not running '' @ em_dash @
                       '' compliance logging inactive'')
                      [''to fix: systemctl enable --now auditd'',
                       ''note: required for CIS/STIG compliance'']]
            else []) @
           (if audit_RulesUnreadable a
              then [needsRootInsight (IsRoot env) INFO secCatAuditd
                      (''audit rule count not verified '' @ em_dash @
                       '' auditctl -l requires root (re-run as root)'')
                      [''to inspect: sudo auditctl -l'']]
            else []) @
           (if audit_EventsUnreadable a
              then [needsRootInsight (IsRoot env) INFO secCatAuditd
                      (''recent audit event count not verified '' @ em_dash @
                       '' ausearch requires root (re-run as root)'')
                      [''to inspect: sudo ausearch -ts recent --raw'']]
            else []) @
           (if audit_AuditLogSizeUnreadable a
              then [needsRootInsight (IsRoot env) INFO secCatAuditd
                      (''audit log size not verified '' @ em_dash @
                       '' /var/log/audit/audit.log is unreadable (re-run as root)'')
                      [''to inspect: sudo ls -lh /var/log/audit/'']]
            else if flt (Fin 10) (audit_AuditLogSizeGB a)
              then [mk_full WARN secCatAuditd
                      (''audit log is '' @ fmt_f 1 (audit_AuditLogSizeGB a) @ '' GB '' @ em_dash @
                       '' consider log rotation'')
                      [''to inspect: ls -lh /var/log/audit/'',
                       ''to fix:     auditctl -e 0 && truncate -s 0 /var/log/audit/audit.log && auditctl -e 1'']]
            else []))"

definition IsPVEServicePort :: "int \<Rightarrow> bool" where
  "IsPVEServicePort port \<longleftrightarrow>
     (port = 8006 \<or> port = 3128) \<or> port = 111"

definition containsStr :: "gostring list \<Rightarrow> gostring \<Rightarrow> bool" where
  "containsStr ss s \<longleftrightarrow>
     s \<in> set ss"

definition cloudFirewallLabels :: "gostring \<Rightarrow> (gostring \<times> gostring \<times> gostring)" where
  "cloudFirewallLabels provider =
     (if provider = ''aws''
        then (''AWS EC2'',
              ''Security Group'',
              ''check the instance'' @ squote @
              ''s Security Group rules in the EC2 console or `aws ec2 describe-security-groups`'')
      else if provider = ''azure''
        then (''Azure'',
              ''Network Security Group (NSG)'',
              ''check the NIC/subnet NSG in the Azure portal or `az network nsg rule list`'')
      else if provider = ''gcp''
        then (''GCP'',
              ''VPC firewall rules'',
              ''check the VPC firewall in the GCP console or `gcloud compute firewall-rules list`'')
      else (''cloud'',
            ''cloud network firewall'',
            ''check your provider'' @ squote @ ''s network firewall / security group configuration''))"

definition truncateSELinux :: "gostring \<Rightarrow> int \<Rightarrow> gostring" where
  "truncateSELinux s n =
     (if int (length s) \<le> n then s else take (nat n) s @ [CHR 0xE2, CHR 0x80, CHR 0xA6])"

definition checkSSHWeakCiphers :: "security_info \<Rightarrow> insight list" where
  "checkSSHWeakCiphers sec =
     (if security_SSHCiphers sec = [] then []
      else let weakPatterns =
                 [''cbc'', ''arcfour'', ''3des-cbc'', ''blowfish-cbc'', ''cast128-cbc''];
               found = [];
               found =
                 foldl
                   (\<lambda>found c.
                     let c = trim_space (to_lower c)
                     in case first_some
                          (\<lambda>weak.
                            if contains c weak
                              then (let found = found @ [c]
                                    in Some found)
                            else None)
                          weakPatterns of
                          Some r \<Rightarrow> r
                          | None \<Rightarrow> found)
                   found
                   (split_byte (security_SSHCiphers sec) (CHR '',''))
           in if found = [] then []
              else let source = sshConfigFile;
                       source =
                         (if security_SSHAuditSource sec = sshCmdT then sshEffectiveConf else source)
                   in [mk_full WARN ''Hardening''
                         (''SSH weak cipher(s) enabled ('' @ source @ ''): '' @ join found '', '')
                         [''to fix: set Ciphers aes256-gcm@openssh.com,chacha20-poly1305@openssh.com,aes256-ctr,aes128-gcm@openssh.com,aes128-ctr in /etc/ssh/sshd_config'',
                          ''note: CBC-mode ciphers are vulnerable to BEAST/Lucky13'',
                          ''to verify: sshd -T | grep ciphers'']])"

definition checkSSHWeakMACs :: "security_info \<Rightarrow> insight list" where
  "checkSSHWeakMACs sec =
     (if security_SSHMACs sec = [] then []
      else let found =
                 concat (map
                           (\<lambda>m.
                             let m = trim_space (to_lower m)
                             in if ((has_prefix m ''hmac-md5'' \<or> has_prefix m ''hmac-ripemd160'') \<or>
                                    has_prefix m ''umac-64'') \<or>
                                   has_prefix m ''hmac-sha1'' \<and> \<not> contains m ''etm''
                                  then [m]
                                else [])
                           (split_byte (security_SSHMACs sec) (CHR '','')))
           in if found = [] then []
              else let source = sshConfigFile;
                       source =
                         (if security_SSHAuditSource sec = sshCmdT then sshEffectiveConf else source)
                   in [mk_full WARN ''Hardening''
                         (''SSH weak MAC(s) enabled ('' @ source @ ''): '' @ join found '', '')
                         [''to fix: set MACs hmac-sha2-256-etm@openssh.com,hmac-sha2-512-etm@openssh.com,umac-128-etm@openssh.com in /etc/ssh/sshd_config'',
                          ''note: hmac-sha1 uses SHA-1 which is cryptographically broken'',
                          ''to verify: sshd -T | grep '' @ squote @ ''^macs'' @ squote]])"

definition checkSSHWeakKEX :: "security_info \<Rightarrow> insight list" where
  "checkSSHWeakKEX sec =
     (if security_SSHKexAlgorithms sec = [] then []
      else let weakKEX =
                 [''diffie-hellman-group1-sha1'', ''diffie-hellman-group14-sha1'',
                  ''diffie-hellman-group-exchange-sha1''];
               found =
                 concat (map
                           (\<lambda>k.
                             let k = trim_space (to_lower k)
                             in if k \<in> set weakKEX then [k] else [])
                           (split_byte (security_SSHKexAlgorithms sec) (CHR '','')))
           in if found = [] then []
              else let source = sshConfigFile;
                       source =
                         (if security_SSHAuditSource sec = sshCmdT then sshEffectiveConf else source)
                   in [mk_full WARN ''Hardening''
                         (''SSH weak KEX algorithm(s) enabled ('' @ source @ ''): '' @
                          join found '', '')
                         [''to fix: set KexAlgorithms curve25519-sha256,curve25519-sha256@libssh.org,diffie-hellman-group-exchange-sha256 in /etc/ssh/sshd_config'',
                          ''note: diffie-hellman-group1-sha1 is vulnerable to the Logjam attack (1024-bit DH)'',
                          ''to verify: sshd -T | grep kexalgorithms'']])"

definition checkEmptyPasswords :: "security_info \<Rightarrow> insight list" where
  "checkEmptyPasswords sec =
     (if security_EmptyPasswordAccounts sec = [] then []
      else [mk_full CRIT ''Hardening''
              (''account(s) with no password set: '' @
               join (security_EmptyPasswordAccounts sec) '', '' @ '' '' @ em_dash @
               '' any user can log in without a password'')
              [''to inspect: sudo awk -F: '' @ squote @ ''($2=='' @ dquote @ dquote @
               ''){print $1}'' @ squote @ '' /etc/shadow'',
               ''to fix:     passwd <username>  (set a password)'',
               ''to lock:    passwd -l <username>  (lock until password is set)'']])"

definition checkStalePasswords :: "security_info \<Rightarrow> insight list" where
  "checkStalePasswords sec =
     (if security_StalePasswordAccounts sec = [] then []
      else let shown = security_StalePasswordAccounts sec;
               suffix = [];
               suffix =
                 (if 3 < int (length shown)
                    then '' (+'' @
                         itoa (wrap64 (int (length (security_StalePasswordAccounts sec)) - 3)) @
                         '' more)''
                  else suffix);
               shown = (if 3 < int (length shown) then take (nat 3) shown else shown)
           in [mk_full WARN ''Hardening''
                 (''password never expires for human account(s): '' @ join shown '', '' @ suffix)
                 [''to inspect: sudo chage -l <username>'',
                  ''to fix:     chage -M 90 <username>  (expire after 90 days)'',
                  ''to fix all: awk -F: '' @ squote @ ''($3>=1000 && $3<65534){print $1}'' @
                  squote @ '' /etc/passwd | xargs -I{} chage -M 90 {}'',
                  ''note: CIS benchmark recommends maximum password age '' @
                  [CHR 0xE2, CHR 0x89, CHR 0xA4] @ '' 365 days'']])"

definition checkWorldWritable :: "security_info \<Rightarrow> insight list" where
  "checkWorldWritable sec =
     (if security_WorldWritableDirs sec = [] then []
      else [mk_full CRIT ''Hardening''
              (''world-writable director(y/ies) missing sticky bit: '' @
               join (security_WorldWritableDirs sec) '', '' @ '' '' @ em_dash @
               '' any user can delete others'' @ squote @ '' files'')
              [''to fix: chmod +t /tmp /var/tmp /dev/shm'',
               ''to verify: ls -ld /tmp /var/tmp /dev/shm'',
               ''note: sticky bit (t) prevents users from deleting files they don'' @ squote @
               ''t own'']])"

definition checkSSHHardening :: "security_info \<Rightarrow> insight list" where
  "checkSSHHardening sec =
     (if security_SSHPermitRoot sec
        then (if security_IsOffensiveDistro sec
                then [mk_full INFO secCatHardening
                        (''SSH root login enabled '' @ em_dash @
                         '' expected on offensive security distro (Kali/Parrot)'') []]
              else if security_IsPVE sec
                then [mk_full INFO secCatHardening
                        (''Root SSH login enabled '' @ em_dash @
                         '' required for PVE management. Restrict to key-based auth if not already done.'')
                        [''to fix: set PasswordAuthentication no in /etc/ssh/sshd_config'']]
              else [mk_full CRIT secCatHardening ''SSH permits root login''
                      [''to fix: set PermitRootLogin no in /etc/ssh/sshd_config'',
                       secFixRestartSSHD]])
      else []) @
     (if security_SSHPasswordAuth sec
        then (if security_IsOffensiveDistro sec
                then [mk_full INFO secCatHardening
                        (''SSH password auth enabled '' @ em_dash @
                         '' expected on offensive security distro (Kali/Parrot)'') []]
              else [mk_full WARN secCatHardening
                      (''SSH allows password authentication '' @ em_dash @
                       '' key-based auth recommended'')
                      [''to fix: set PasswordAuthentication no in /etc/ssh/sshd_config'']])
      else []) @
     (if security_SSHProtocol1 sec
        then [mk_full CRIT secCatHardening
                (''SSH Protocol 1 is enabled '' @ em_dash @
                 '' cryptographically broken, remove from sshd_config'')
                [''to fix: remove or comment out '' @ squote @ ''Protocol'' @ squote @
                 '' line in /etc/ssh/sshd_config'',
                 ''note: modern OpenSSH only supports Protocol 2 '' @ em_dash @
                 '' this line has no effect unless very old'']]
      else []) @
     (if security_SSHPermitEmptyPwd sec
        then [mk_full CRIT secCatHardening
                (''SSH allows empty passwords '' @ em_dash @
                 '' any account with no password is remotely accessible'')
                [''to fix: set PermitEmptyPasswords no in /etc/ssh/sshd_config'', secFixRestartSSHD,
                 ''to audit: awk -F: '' @ squote @ ''($2=='' @ dquote @ dquote @ ''){print $1}'' @
                 squote @ '' /etc/shadow'']]
      else []) @
     (if \<not> security_SSHStrictModes sec
        then [mk_full WARN secCatHardening
                (''SSH StrictModes disabled '' @ em_dash @
                 '' sshd will not check ~/.ssh file permissions'')
                [''to fix: set StrictModes yes in /etc/ssh/sshd_config'',
                 ''note: without StrictModes, world-writable authorized_keys files are accepted'']]
      else []) @
     (if 6 < security_SSHMaxAuthTries sec
        then [mk_full WARN secCatHardening
                (''SSH MaxAuthTries is '' @ itoa (security_SSHMaxAuthTries sec) @ '' '' @ em_dash @
                 '' reduce to 4 or fewer to limit brute force attempts'')
                [''to fix: set MaxAuthTries 4 in /etc/ssh/sshd_config'', secFixRestartSSHD]]
      else []) @
     (if 60 < security_SSHLoginGraceTime sec
        then [mk_full INFO secCatHardening
                (''SSH LoginGraceTime is '' @ itoa (security_SSHLoginGraceTime sec) @ ''s '' @
                 em_dash @ '' recommend '' @ [CHR 0xE2, CHR 0x89, CHR 0xA4] @
                 ''60s to limit unauthenticated connection window'')
                [''to fix: set LoginGraceTime 60 in /etc/ssh/sshd_config'', secFixRestartSSHD]]
      else []) @
     (if security_SSHX11Forwarding sec \<and> \<not> security_IsOffensiveDistro sec
        then [mk_full INFO secCatHardening
                (''SSH X11Forwarding enabled '' @ em_dash @
                 '' unnecessary on servers, increases attack surface'')
                [''to fix: set X11Forwarding no in /etc/ssh/sshd_config'',
                 ''note: only needed if users require GUI applications over SSH'']]
      else []) @
     (if security_SSHAgentForwarding sec \<and> \<not> security_IsOffensiveDistro sec
        then [mk_full INFO secCatHardening
                (''SSH AgentForwarding enabled '' @ em_dash @
                 '' if this server is compromised, agent keys on your laptop can be stolen'')
                [''to fix: set AllowAgentForwarding no in /etc/ssh/sshd_config'',
                 ''note: use ssh -A explicitly when you need forwarding, rather than leaving it on globally'']]
      else []) @
     (if (security_SSHClientAliveInterval sec = 0 \<and> security_SSHAuditSource sec \<noteq> []) \<and>
         \<not> security_IsOffensiveDistro sec
        then [mk_full INFO secCatHardening
                (''SSH idle timeout not set '' @ em_dash @
                 '' sessions stay open indefinitely (set ClientAliveInterval)'')
                [''to fix: set ClientAliveInterval 300 in /etc/ssh/sshd_config'',
                 ''to fix: set ClientAliveCountMax 3 in /etc/ssh/sshd_config'',
                 ''note: this disconnects idle sessions after 300s '' @ [CHR 0xC3, CHR 0x97] @
                 '' 3 = 15 minutes'']]
      else []) @
     checkSSHWeakCiphers sec @
     checkSSHWeakMACs sec @
     checkSSHWeakKEX sec"

definition checkNetworkExposure :: "security_info \<Rightarrow> insight list" where
  "checkNetworkExposure sec =
     (let out = [];
          knownServiceProcesses =
            [(''kubelite'', ''k8s/microk8s''), (''kubelet'', secKwK8s),
             (''kube-apiserver'', secKwK8s), (''kube-scheduler'', secKwK8s),
             (''kube-controller'', secKwK8s), (''cluster-agent'', ''k8s/microk8s''),
             (''containerd'', ''container-runtime''), (''dockerd'', ''docker''),
             (secKwPrometheus, secKwPrometheus), (''node_exporter'', secKwPrometheus),
             (''grafana'', ''grafana''), (''alertmanager'', secKwPrometheus),
             (''mysqld'', ''mysql''), (''postgres'', ''postgresql''), (''mongod'', ''mongodb''),
             (''redis-server'', ''redis''), (''nginx'', ''nginx''), (''apache2'', ''apache''),
             (''httpd'', ''apache''), (''traefik'', ''traefik''), (''haproxy'', ''haproxy'')];
          unexpectedPorts = [];
          knownPorts = [];
          knownServices = [];
          pvePorts = [];
          portHints = [];
          portHints = portHints @ [''to inspect: ss -tlnp''];
          pvePorts =
            pvePorts @
            concat (map
                      (\<lambda>p.
                        if portEntry_Expected p then []
                        else let portStr = itoa (portEntry_Port p) @ ''/'' @ portEntry_Protocol p
                             in if security_IsPVE sec \<and> IsPVEServicePort (portEntry_Port p)
                                  then [portStr]
                                else [])
                      (security_ListeningPorts sec));
          knownPorts =
            knownPorts @
            concat (map
                      (\<lambda>p.
                        if portEntry_Expected p then []
                        else let portStr = itoa (portEntry_Port p) @ ''/'' @ portEntry_Protocol p
                             in if security_IsPVE sec \<and> IsPVEServicePort (portEntry_Port p) then []
                                else let serviceName = [];
                                         serviceName =
                                           case first_some
                                             (\<lambda>(proc, svc).
                                               if (contains (to_lower (portEntry_Process p)) proc \<and>
                                                   contains (to_lower (portEntry_ExePath p)) proc) \<and>
                                                  exePathUnderSystemDir (portEntry_ExePath p)
                                                 then (let serviceName = svc
                                                       in Some serviceName)
                                               else None)
                                             knownServiceProcesses of
                                             Some r \<Rightarrow> r
                                             | None \<Rightarrow> serviceName
                                     in if serviceName \<noteq> [] then [portStr] else [])
                      (security_ListeningPorts sec));
          knownServices =
            foldl
              (\<lambda>knownServices p.
                if portEntry_Expected p then knownServices
                else if security_IsPVE sec \<and> IsPVEServicePort (portEntry_Port p) then knownServices
                else let serviceName = [];
                         serviceName =
                           case first_some
                             (\<lambda>(proc, svc).
                               if (contains (to_lower (portEntry_Process p)) proc \<and>
                                   contains (to_lower (portEntry_ExePath p)) proc) \<and>
                                  exePathUnderSystemDir (portEntry_ExePath p)
                                 then (let serviceName = svc
                                       in Some serviceName)
                               else None)
                             knownServiceProcesses of
                             Some r \<Rightarrow> r
                             | None \<Rightarrow> serviceName
                     in if serviceName \<noteq> []
                          then (if \<not> containsStr knownServices serviceName
                                  then knownServices @ [serviceName]
                                else knownServices)
                        else knownServices)
              knownServices
              (security_ListeningPorts sec);
          unexpectedPorts =
            unexpectedPorts @
            concat (map
                      (\<lambda>p.
                        if portEntry_Expected p then []
                        else let portStr = itoa (portEntry_Port p) @ ''/'' @ portEntry_Protocol p
                             in if security_IsPVE sec \<and> IsPVEServicePort (portEntry_Port p) then []
                                else let serviceName = [];
                                         serviceName =
                                           case first_some
                                             (\<lambda>(proc, svc).
                                               if (contains (to_lower (portEntry_Process p)) proc \<and>
                                                   contains (to_lower (portEntry_ExePath p)) proc) \<and>
                                                  exePathUnderSystemDir (portEntry_ExePath p)
                                                 then (let serviceName = svc
                                                       in Some serviceName)
                                               else None)
                                             knownServiceProcesses of
                                             Some r \<Rightarrow> r
                                             | None \<Rightarrow> serviceName
                                     in if serviceName \<noteq> [] then [] else [portStr])
                      (security_ListeningPorts sec));
          portHints =
            portHints @
            concat (map
                      (\<lambda>p.
                        if portEntry_Expected p then []
                        else if security_IsPVE sec \<and> IsPVEServicePort (portEntry_Port p) then []
                        else let serviceName = [];
                                 serviceName =
                                   case first_some
                                     (\<lambda>(proc, svc).
                                       if (contains (to_lower (portEntry_Process p)) proc \<and>
                                           contains (to_lower (portEntry_ExePath p)) proc) \<and>
                                          exePathUnderSystemDir (portEntry_ExePath p)
                                         then (let serviceName = svc
                                               in Some serviceName)
                                       else None)
                                     knownServiceProcesses of
                                     Some r \<Rightarrow> r
                                     | None \<Rightarrow> serviceName
                             in if serviceName \<noteq> [] then []
                                else [''to inspect: ss -tlnp | grep :'' @ itoa (portEntry_Port p)])
                      (security_ListeningPorts sec));
          out =
            (if pvePorts \<noteq> []
               then out @
                    [mk_full INFO secCatHardening
                       (itoa (int (length pvePorts)) @
                        '' PVE service port(s) listening (expected): '' @ join pvePorts '', '' @
                        '' '' @ em_dash @ '' Proxmox web UI, spiceproxy, and rpcbind'') []]
             else out);
          out =
            (if knownPorts \<noteq> []
               then out @
                    [mk_full INFO secCatHardening
                       (itoa (int (length knownPorts)) @ '' port(s) from known service(s) ('' @
                        join knownServices '', '' @ '') listening on all interfaces '' @ em_dash @
                        '' consider binding to specific interfaces in production'')
                       [''to inspect: ss -tlnp'',
                        ''to restrict: bind service to specific interface/IP instead of 0.0.0.0'']]
             else out);
          out =
            (if unexpectedPorts \<noteq> []
               then out @
                    [mk_full WARN secCatHardening
                       (itoa (int (length unexpectedPorts)) @
                        '' unexpected port(s) listening on all interfaces: '' @
                        join unexpectedPorts '', '') portHints]
             else out);
          out =
            case first_some
              (\<lambda>p.
                if portEntry_Port p = 9090
                  then (let out =
                              out @
                              [mk_full INFO secCatHardening
                                 (''Cockpit management UI listening on port 9090 '' @ em_dash @
                                  '' ensure it is not exposed to the internet'')
                                 [''to inspect: systemctl status cockpit'',
                                  ''to restrict: configure AllowUnencrypted=false in /etc/cockpit/cockpit.conf'',
                                  ''to restrict: limit access with firewall-cmd --add-rich-rule'']]
                        in Some out)
                else None)
              (security_ListeningPorts sec) of
              Some r \<Rightarrow> r
              | None \<Rightarrow> out
      in if security_FirewallActive sec \<and> \<not> security_SSHAllowed sec
           then out @
                [mk_full CRIT secCatHardening
                   (''firewall ('' @ security_FirewallType sec @
                    '') active but SSH (port 22) not in allowed services '' @ em_dash @
                    '' you may lose remote access after reconnect'')
                   [''to fix (firewalld): firewall-cmd --add-service=ssh --permanent && firewall-cmd --reload'',
                    ''to fix (ufw): ufw allow ssh'']]
         else out)"

definition checkSecuritySELinuxDenials :: "security_info \<Rightarrow> insight list" where
  "checkSecuritySELinuxDenials sec =
     (if 10 \<le> security_SELinuxDenials sec
        then (let msg =
                    itoa (security_SELinuxDenials sec) @
                    '' SELinux denials in the last hour (mode: '' @ security_SELinuxMode sec @
                    '')'';
                  hints =
                    [''to inspect: ausearch -m avc -ts recent'',
                     ''to inspect: sealert -a /var/log/audit/audit.log''];
                  hints =
                    hints @
                    concat (map
                              (\<lambda>g.
                                if seLinuxAVCGroup_Count g < 3 then []
                                else let summary =
                                           ''  '' @ seLinuxAVCGroup_Scontext g @ '' '' @
                                           [CHR 0xE2, CHR 0x86, CHR 0x92] @ '' '' @
                                           seLinuxAVCGroup_Tcontext g @ '' ['' @
                                           seLinuxAVCGroup_Tclass g @ ''] '' @
                                           [CHR 0xC3, CHR 0x97] @ itoa (seLinuxAVCGroup_Count g);
                                         summary =
                                           (if seLinuxAVCGroup_BooleanFix g \<noteq> []
                                              then summary @ ''  fix: setsebool -P '' @
                                                   seLinuxAVCGroup_BooleanFix g @ '' on''
                                            else if seLinuxAVCGroup_FixCmd g \<noteq> []
                                              then summary @ ''  fix: '' @
                                                   truncateSELinux (seLinuxAVCGroup_FixCmd g) 80
                                            else summary)
                                     in [summary])
                              (security_SELinuxAVCGroups sec))
              in [mk_full WARN secCatHardening msg hints])
      else []) @
     (if security_SELinuxUnlabeledPorts sec \<noteq> []
        then (let hints = [];
                  hints = hints @ [''to inspect: semanage port -l''];
                  hints =
                    hints @
                    concat (map
                              (\<lambda>p.
                                let proc = seLinuxUnlabeledPort_Process p;
                                    proc = (if proc = [] then ''unknown process'' else proc)
                                in [''to fix: semanage port -a -t <service>_port_t -p '' @
                                    seLinuxUnlabeledPort_Protocol p @ '' '' @
                                    itoa (seLinuxUnlabeledPort_Port p) @ ''  # '' @ proc])
                              (security_SELinuxUnlabeledPorts sec))
              in [mk_full WARN secCatHardening
                    (itoa (int (length (security_SELinuxUnlabeledPorts sec))) @
                     '' listening port(s) have no SELinux port label'') hints])
      else []) @
     (if security_SELinuxContextIssues sec \<noteq> []
        then (let hints = [];
                  hints =
                    hints @
                    [''to fix: semanage fcontext -a -t <type> '' @ squote @ ''<path>(/.*)?'' @
                     squote @ ''  then  restorecon -Rv <path>''];
                  hints =
                    hints @
                    concat (map
                              (\<lambda>ci.
                                [seLinuxContextIssue_Path ci @ '' '' @ em_dash @ '' actual: '' @
                                 seLinuxContextIssue_ActualContext ci @ '', expected: '' @
                                 seLinuxContextIssue_ExpectedContext ci])
                              (security_SELinuxContextIssues sec))
              in [mk_full WARN secCatHardening
                    (itoa (int (length (security_SELinuxContextIssues sec))) @
                     '' denial-implicated path(s) have a temporary chcon context '' @ em_dash @
                     '' will be lost on the next relabel'') hints])
      else [])"

definition checkFirewall :: "environment \<Rightarrow> firewall_info \<Rightarrow> insight list" where
  "checkFirewall env f =
     (if \<not> firewall_Available f
        then (if firewall_PVEFirewallActive f
                then [mk_full INFO secCatFirewall
                        (''PVE firewall active (pve-firewall) '' @ em_dash @
                         '' host firewall managed by Proxmox; base ruleset not read'')
                        [''to inspect: pve-firewall status'']]
              else if firewall_StatusReason f \<noteq> []
                then (let ins =
                            unverifiedInsight ReasonCollectorError INFO secCatFirewall
                              (''firewall state not verified '' @ em_dash @ '' '' @
                               firewall_StatusReason f)
                              [''to inspect: nft list ruleset'',
                               ''to inspect: iptables -L -n   (run as root)''];
                          ins =
                            (if contains (firewall_StatusReason f) ''(run as root?)''
                               then ins\<lparr>NeedsRoot := \<not> IsRoot env\<rparr>
                             else ins)
                      in [ins])
              else [])
      else if \<not> firewall_Active f \<or> firewall_TotalRules f = 0
        then (if firewall_PVEFirewallActive f
                then [mk_full INFO secCatFirewall
                        (''PVE firewall active (pve-firewall) '' @ em_dash @
                         '' host firewall managed by Proxmox'')
                        [''to inspect: pve-firewall status'',
                         ''to inspect: cat /etc/pve/firewall/cluster.fw'']]
              else if firewall_CloudGuest f
                then (let (label, term, where) = cloudFirewallLabels (firewall_CloudProvider f)
                      in [mk_full INFO secCatFirewall
                            (firewall_Backend f @ '' has no active host rules '' @ em_dash @
                             '' on '' @ label @
                             '', network filtering is typically enforced by the '' @ term @
                             '', which dsd cannot see from inside the guest'')
                            [''to verify: '' @ where,
                             ''note: no host rules is expected if you rely on the '' @ term @
                             ''; otherwise add ufw/nft/iptables rules'']])
              else [mk_full WARN secCatFirewall
                      (firewall_Backend f @ '' is installed but no rules are active '' @ em_dash @
                       '' host is unprotected'')
                      [''to inspect: iptables -L -n'', ''to inspect: nft list ruleset'',
                       ''note: consider enabling ufw, firewalld, or writing iptables/nft rules'']])
      else if firewall_BlockedListeners f \<noteq> []
        then [mk_full WARN secCatFirewall
                (itoa (int (length (firewall_BlockedListeners f))) @
                 '' service(s) listen on all interfaces but the INPUT policy is DROP with no rule permitting them '' @
                 em_dash @ '' unreachable from outside: port(s) '' @
                 joinInts (firewall_BlockedListeners f))
                [''these services bound 0.0.0.0 (intent to be reachable) but the firewall drops new inbound to them'',
                 ''to allow a port: iptables -A INPUT -p tcp --dport <PORT> -j ACCEPT  (then persist the rule)'',
                 ''to inspect: iptables -nvL INPUT ; ss -ltn'',
                 ''note: ignore if the service is meant to be internal-only'']]
      else [])"

definition checkSecurity :: "environment \<Rightarrow> security_info \<Rightarrow> insight list" where
  "checkSecurity env sec =
     checkSecurityAuditGaps env sec @
     checkSSHHardening sec @
     checkFailedLoginAttempts sec @
     checkNetworkExposure sec @
     checkPrivilegeEscalationVectors sec @
     checkSecuritySELinuxDenials sec @
     checkAppArmorDenials env sec @
     checkPAMFailures sec @
     checkRHELSecurityHardening sec @
     checkSUSESecurityHardening sec @
     checkEmptyPasswords sec @
     checkStalePasswords sec @
     checkWorldWritable sec @
     checkMacOSHardening sec"

section \<open>Well-formedness\<close>

lemma checkSecurityAuditGaps_wf [wf_rules]: "wf_insights (checkSecurityAuditGaps env sec)"
  unfolding checkSecurityAuditGaps_def by (intro wf_lets wf_rules level_facts; (assumption | erule (1) level_open; intro level_facts | erule level_nonempty; intro level_facts | elim level_elims; (intro level_facts)?; assumption?))

lemma checkFailedLoginAttempts_wf [wf_rules]: "wf_insights (checkFailedLoginAttempts sec)"
  unfolding checkFailedLoginAttempts_def by (intro wf_lets wf_rules level_facts; (assumption | erule (1) level_open; intro level_facts | erule level_nonempty; intro level_facts | elim level_elims; (intro level_facts)?; assumption?))

lemma checkPrivilegeEscalationVectors_wf [wf_rules]: "wf_insights (checkPrivilegeEscalationVectors sec)"
  unfolding checkPrivilegeEscalationVectors_def by (intro wf_lets wf_rules level_facts; (assumption | erule (1) level_open; intro level_facts | erule level_nonempty; intro level_facts | elim level_elims; (intro level_facts)?; assumption?))

lemma checkAppArmorDenials_wf [wf_rules]: "wf_insights (checkAppArmorDenials env sec)"
  unfolding checkAppArmorDenials_def by (intro wf_lets wf_rules level_facts; (assumption | erule (1) level_open; intro level_facts | erule level_nonempty; intro level_facts | elim level_elims; (intro level_facts)?; assumption?))

lemma checkPAMFailures_wf [wf_rules]: "wf_insights (checkPAMFailures sec)"
  unfolding checkPAMFailures_def by (intro wf_lets wf_rules level_facts; (assumption | erule (1) level_open; intro level_facts | erule level_nonempty; intro level_facts | elim level_elims; (intro level_facts)?; assumption?))

lemma checkRHELSecurityHardening_wf [wf_rules]: "wf_insights (checkRHELSecurityHardening sec)"
  unfolding checkRHELSecurityHardening_def by (intro wf_lets wf_rules level_facts; (assumption | erule (1) level_open; intro level_facts | erule level_nonempty; intro level_facts | elim level_elims; (intro level_facts)?; assumption?))

lemma checkSUSESecurityHardening_wf [wf_rules]: "wf_insights (checkSUSESecurityHardening sec)"
  unfolding checkSUSESecurityHardening_def by (intro wf_lets wf_rules level_facts; (assumption | erule (1) level_open; intro level_facts | erule level_nonempty; intro level_facts | elim level_elims; (intro level_facts)?; assumption?))

lemma checkMacOSHardening_wf [wf_rules]: "wf_insights (checkMacOSHardening sec)"
  unfolding checkMacOSHardening_def by (intro wf_lets wf_rules level_facts; (assumption | erule (1) level_open; intro level_facts | erule level_nonempty; intro level_facts | elim level_elims; (intro level_facts)?; assumption?))

lemma checkAuth_wf [wf_rules]: "wf_insights (checkAuth a)"
  unfolding checkAuth_def by (intro wf_lets wf_rules level_facts; (assumption | erule (1) level_open; intro level_facts | erule level_nonempty; intro level_facts | elim level_elims; (intro level_facts)?; assumption?))

lemma checkAuditd_wf [wf_rules]: "wf_insights (checkAuditd env a)"
  unfolding checkAuditd_def by (intro wf_lets wf_rules level_facts; (assumption | erule (1) level_open; intro level_facts | erule level_nonempty; intro level_facts | elim level_elims; (intro level_facts)?; assumption?))

lemma checkSSHWeakCiphers_wf [wf_rules]: "wf_insights (checkSSHWeakCiphers sec)"
  unfolding checkSSHWeakCiphers_def by (intro wf_lets wf_rules level_facts; (assumption | erule (1) level_open; intro level_facts | erule level_nonempty; intro level_facts | elim level_elims; (intro level_facts)?; assumption?))

lemma checkSSHWeakMACs_wf [wf_rules]: "wf_insights (checkSSHWeakMACs sec)"
  unfolding checkSSHWeakMACs_def by (intro wf_lets wf_rules level_facts; (assumption | erule (1) level_open; intro level_facts | erule level_nonempty; intro level_facts | elim level_elims; (intro level_facts)?; assumption?))

lemma checkSSHWeakKEX_wf [wf_rules]: "wf_insights (checkSSHWeakKEX sec)"
  unfolding checkSSHWeakKEX_def by (intro wf_lets wf_rules level_facts; (assumption | erule (1) level_open; intro level_facts | erule level_nonempty; intro level_facts | elim level_elims; (intro level_facts)?; assumption?))

lemma checkEmptyPasswords_wf [wf_rules]: "wf_insights (checkEmptyPasswords sec)"
  unfolding checkEmptyPasswords_def by (intro wf_lets wf_rules level_facts; (assumption | erule (1) level_open; intro level_facts | erule level_nonempty; intro level_facts | elim level_elims; (intro level_facts)?; assumption?))

lemma checkStalePasswords_wf [wf_rules]: "wf_insights (checkStalePasswords sec)"
  unfolding checkStalePasswords_def by (intro wf_lets wf_rules level_facts; (assumption | erule (1) level_open; intro level_facts | erule level_nonempty; intro level_facts | elim level_elims; (intro level_facts)?; assumption?))

lemma checkWorldWritable_wf [wf_rules]: "wf_insights (checkWorldWritable sec)"
  unfolding checkWorldWritable_def by (intro wf_lets wf_rules level_facts; (assumption | erule (1) level_open; intro level_facts | erule level_nonempty; intro level_facts | elim level_elims; (intro level_facts)?; assumption?))

lemma checkSSHHardening_wf [wf_rules]: "wf_insights (checkSSHHardening sec)"
  unfolding checkSSHHardening_def by (intro wf_lets wf_rules level_facts; (assumption | erule (1) level_open; intro level_facts | erule level_nonempty; intro level_facts | elim level_elims; (intro level_facts)?; assumption?))

lemma checkNetworkExposure_wf [wf_rules]: "wf_insights (checkNetworkExposure sec)"
  unfolding checkNetworkExposure_def by (intro wf_lets wf_rules level_facts; (assumption | erule (1) level_open; intro level_facts | erule level_nonempty; intro level_facts | elim level_elims; (intro level_facts)?; assumption?))

lemma checkSecuritySELinuxDenials_wf [wf_rules]: "wf_insights (checkSecuritySELinuxDenials sec)"
  unfolding checkSecuritySELinuxDenials_def by (intro wf_lets wf_rules level_facts; (assumption | erule (1) level_open; intro level_facts | erule level_nonempty; intro level_facts | elim level_elims; (intro level_facts)?; assumption?))

lemma checkFirewall_wf [wf_rules]: "wf_insights (checkFirewall env f)"
  unfolding checkFirewall_def Let_def by (intro wf_lets wf_rules level_facts; (assumption | erule (1) level_open; intro level_facts | erule level_nonempty; intro level_facts | elim level_elims; (intro level_facts)?; assumption?))

lemma checkSecurity_wf [wf_rules]: "wf_insights (checkSecurity env sec)"
  unfolding checkSecurity_def by (intro wf_lets wf_rules level_facts; (assumption | erule (1) level_open; intro level_facts | erule level_nonempty; intro level_facts | elim level_elims; (intro level_facts)?; assumption?))


end
