(* ===== verification/Payload.thy ===== *)
theory Payload
  imports Checks_Storage Checks_Resources Checks_Host Checks_Hardware Checks_Services Checks_Virt Checks_Security
begin

text \<open>
  The dispatch of \<open>applyOne\<close> in \<open>internal/analysis/heuristics.go\<close>: a payload is one of the measurements
  a collector returns, whether by value or by pointer, and each is handed to the check of its type. A nil
  pointer, a nil value or a type without a check is no payload.
\<close>

datatype (plugins only:) payload =
  CPUInfo cpu_info
| MemoryInfo memory_info
| DiskInfo disk_info
| SwapInfo swap_info
| IOInfo io_info
| NetworkInfo network_info
| NFSInfo nfs_info
| BINDInfo bind_info
| ClockInfo clock_info
| NetworkdConfigInfo networkd_config_info
| RootFSInfo root_fs_info
| FstabInfo fstab_info
| FDInfo fd_info
| SystemdInfo systemd_info
| SysctlInfo sysctl_info
| KernelSecurityInfo kernel_security_info
| LogsInfo logs_info
| EntropyInfo entropy_info
| PackagesInfo packages_info
| CVEAllResult cve_all_result
| NVMeInfo nv_me_info
| RAIDInfo raid_info
| ZFSInfo zfs_info
| LVMInfo lvm_info
| DRBDInfo drbd_info
| PVEInfo pve_info
| BatteryInfo battery_info
| ThermalInfo thermal_info
| HealthDeepInfo health_deep_info
| FirmwareInfo firmware_info
| DockerInfo docker_info
| ContainerdInfo containerd_info
| PostgresInfo postgres_info
| MySQLInfo my_sql_info
| RedisInfo redis_info
| MemcachedInfo memcached_info
| NginxInfo nginx_info
| ApacheInfo apache_info
| HAProxyInfo ha_proxy_info
| RabbitMQInfo rabbit_mq_info
| ElasticsearchInfo elasticsearch_info
| MongoDBInfo mongo_db_info
| KafkaInfo kafka_info
| PrometheusInfo prometheus_info
| AlertmanagerInfo alertmanager_info
| GrafanaInfo grafana_info
| TraefikInfo traefik_info
| EnvoyInfo envoy_info
| K8sInfo k8s_info
| RancherInfo rancher_info
| HAInfo ha_info
| KVMInfo kvm_info
| SteamOSInfo steam_os_info
| TLSInfo tls_info
| GPUInfo gpu_info
| SecurityInfo security_info
| ProcessInfo process_info
| SnapperInfo snapper_info
| SUSEConnectInfo suse_connect_info
| HardwareInfo hardware_info
| BondingInfo bonding_info
| IPMIInfo ipmi_info
| OOMInfo oom_info
| MTEInfo mte_info
| HBAInfo hba_info
| PressureInfo pressure_info
| MultipathInfo multipath_info
| HWRaidInfo hw_raid_info
| CephInfo ceph_info
| FirewallInfo firewall_info
| AuthInfo auth_info
| CloudInfo cloud_info
| CloudInitInfo cloud_init_info
| VMwareInfo v_mware_info
| KVMGuestInfo kvm_guest_info
| ContainerGuestInfo container_guest_info
| AWSInfo aws_info
| AzureInfo azure_info
| GCPInfo gcp_info
| OCIInfo oci_info
| PostBootInfo post_boot_info
| AuditInfo audit_info
| NUMAInfo numa_info
| VLANInfo vlan_info
| ISCSIInfo iscsi_info
| InfiniBandInfo infini_band_info
| SRIOVInfo sriov_info
| NspawnInfo nspawn_info
| HugePagesInfo huge_pages_info
| CPUFreqInfo cpu_freq_info
| LaunchdInfo launchd_info
| DBusInfo d_bus_info
| SessionsInfo sessions_info
| CronInfo cron_info
| DNSResolverInfo dns_resolver_info
| KdumpInfo kdump_info
| TunedInfo tuned_info
| KernelPatchInfo kernel_patch_info
| KspliceInfo ksplice_info
| ServiceRestartInfo service_restart_info
| KernelRetentionInfo kernel_retention_info
| LivePatchInfo live_patch_info
| TransactionalInfo transactional_info
| ServicesInfo services_info
| VaultInfo vault_info

primrec applyOneExtended :: "environment \<Rightarrow> thresholds \<Rightarrow> payload \<Rightarrow> insight list" where
  "applyOneExtended env thresh (CPUInfo d) = []"
| "applyOneExtended env thresh (MemoryInfo d) = []"
| "applyOneExtended env thresh (DiskInfo d) = []"
| "applyOneExtended env thresh (SwapInfo d) = []"
| "applyOneExtended env thresh (IOInfo d) = []"
| "applyOneExtended env thresh (NetworkInfo d) = []"
| "applyOneExtended env thresh (NFSInfo d) = []"
| "applyOneExtended env thresh (BINDInfo d) = []"
| "applyOneExtended env thresh (ClockInfo d) = []"
| "applyOneExtended env thresh (NetworkdConfigInfo d) = []"
| "applyOneExtended env thresh (RootFSInfo d) = []"
| "applyOneExtended env thresh (FstabInfo d) = []"
| "applyOneExtended env thresh (FDInfo d) = checkFD d thresh"
| "applyOneExtended env thresh (SystemdInfo d) = checkSystemd d"
| "applyOneExtended env thresh (SysctlInfo d) = checkSysctl d"
| "applyOneExtended env thresh (KernelSecurityInfo d) = checkKernelSecurity env d thresh"
| "applyOneExtended env thresh (LogsInfo d) = checkLogs env d thresh"
| "applyOneExtended env thresh (EntropyInfo d) = checkEntropy d"
| "applyOneExtended env thresh (PackagesInfo d) = checkPackages env d"
| "applyOneExtended env thresh (CVEAllResult d) = checkCVEHealth d"
| "applyOneExtended env thresh (NVMeInfo d) = checkNVMe env d"
| "applyOneExtended env thresh (RAIDInfo d) = checkRAID env d"
| "applyOneExtended env thresh (ZFSInfo d) = checkZFS env d"
| "applyOneExtended env thresh (LVMInfo d) = checkLVM d"
| "applyOneExtended env thresh (DRBDInfo d) = checkDRBD env d"
| "applyOneExtended env thresh (PVEInfo d) = checkPVE env d"
| "applyOneExtended env thresh (BatteryInfo d) = checkBattery d"
| "applyOneExtended env thresh (ThermalInfo d) = checkThermal env d thresh"
| "applyOneExtended env thresh (HealthDeepInfo d) = checkHealthDeep d"
| "applyOneExtended env thresh (FirmwareInfo d) = checkFirmware d"
| "applyOneExtended env thresh (DockerInfo d) = checkDocker env d"
| "applyOneExtended env thresh (ContainerdInfo d) = checkContainerd d"
| "applyOneExtended env thresh (PostgresInfo d) = checkPostgres d"
| "applyOneExtended env thresh (MySQLInfo d) = checkMySQL d"
| "applyOneExtended env thresh (RedisInfo d) = checkRedis d"
| "applyOneExtended env thresh (MemcachedInfo d) = checkMemcached d"
| "applyOneExtended env thresh (NginxInfo d) = checkNginx d"
| "applyOneExtended env thresh (ApacheInfo d) = checkApache d"
| "applyOneExtended env thresh (HAProxyInfo d) = checkHAProxy d"
| "applyOneExtended env thresh (RabbitMQInfo d) = checkRabbitMQ d"
| "applyOneExtended env thresh (ElasticsearchInfo d) = checkElasticsearch env d"
| "applyOneExtended env thresh (MongoDBInfo d) = checkMongoDB env d"
| "applyOneExtended env thresh (KafkaInfo d) = checkKafka d"
| "applyOneExtended env thresh (PrometheusInfo d) = checkPrometheus d"
| "applyOneExtended env thresh (AlertmanagerInfo d) = checkAlertmanager d"
| "applyOneExtended env thresh (GrafanaInfo d) = checkGrafana env d"
| "applyOneExtended env thresh (TraefikInfo d) = checkTraefik d"
| "applyOneExtended env thresh (EnvoyInfo d) = checkEnvoy d"
| "applyOneExtended env thresh (K8sInfo d) = checkK8s d"
| "applyOneExtended env thresh (RancherInfo d) = checkRancher d"
| "applyOneExtended env thresh (HAInfo d) = checkHA d"
| "applyOneExtended env thresh (KVMInfo d) = checkKVM d"
| "applyOneExtended env thresh (SteamOSInfo d) = checkSteamOS env d"
| "applyOneExtended env thresh (TLSInfo d) = checkTLS d"
| "applyOneExtended env thresh (GPUInfo d) = checkGPU env d"
| "applyOneExtended env thresh (SecurityInfo d) = checkSecurity env d"
| "applyOneExtended env thresh (ProcessInfo d) = checkProcesses env d thresh"
| "applyOneExtended env thresh (SnapperInfo d) = checkSnapper d"
| "applyOneExtended env thresh (SUSEConnectInfo d) = checkSUSEConnect d"
| "applyOneExtended env thresh (HardwareInfo d) = checkHardware d"
| "applyOneExtended env thresh (BondingInfo d) = checkBonding env d"
| "applyOneExtended env thresh (IPMIInfo d) = checkIPMI d"
| "applyOneExtended env thresh (OOMInfo d) = checkOOM env d"
| "applyOneExtended env thresh (MTEInfo d) = checkMTE d"
| "applyOneExtended env thresh (HBAInfo d) = checkHBA d"
| "applyOneExtended env thresh (PressureInfo d) = checkPressure d"
| "applyOneExtended env thresh (MultipathInfo d) = checkMultipath d"
| "applyOneExtended env thresh (HWRaidInfo d) = checkHWRaid env d"
| "applyOneExtended env thresh (CephInfo d) = checkCeph d"
| "applyOneExtended env thresh (FirewallInfo d) = checkFirewall env d"
| "applyOneExtended env thresh (AuthInfo d) = checkAuth d"
| "applyOneExtended env thresh (CloudInfo d) = checkCloudMeta d"
| "applyOneExtended env thresh (CloudInitInfo d) = checkCloudInit d"
| "applyOneExtended env thresh (VMwareInfo d) = checkVMware d"
| "applyOneExtended env thresh (KVMGuestInfo d) = checkKVMGuest env d"
| "applyOneExtended env thresh (ContainerGuestInfo d) = checkContainerGuest d"
| "applyOneExtended env thresh (AWSInfo d) = checkAWS d"
| "applyOneExtended env thresh (AzureInfo d) = checkAzure d"
| "applyOneExtended env thresh (GCPInfo d) = checkGCP d"
| "applyOneExtended env thresh (OCIInfo d) = checkOCI d"
| "applyOneExtended env thresh (PostBootInfo d) = checkPostBoot env d"
| "applyOneExtended env thresh (AuditInfo d) = checkAuditd env d"
| "applyOneExtended env thresh (NUMAInfo d) = checkNUMA d"
| "applyOneExtended env thresh (VLANInfo d) = checkVLAN d"
| "applyOneExtended env thresh (ISCSIInfo d) = checkISCSI d"
| "applyOneExtended env thresh (InfiniBandInfo d) = checkInfiniBand d"
| "applyOneExtended env thresh (SRIOVInfo d) = checkSRIOV d"
| "applyOneExtended env thresh (NspawnInfo d) = checkNspawn d"
| "applyOneExtended env thresh (HugePagesInfo d) = checkHugePages d"
| "applyOneExtended env thresh (CPUFreqInfo d) = checkCPUFreq d thresh"
| "applyOneExtended env thresh (LaunchdInfo d) = checkLaunchd d"
| "applyOneExtended env thresh (DBusInfo d) = checkDBus env d"
| "applyOneExtended env thresh (SessionsInfo d) = checkSessions d"
| "applyOneExtended env thresh (CronInfo d) = checkCron d"
| "applyOneExtended env thresh (DNSResolverInfo d) = checkDNS d"
| "applyOneExtended env thresh (KdumpInfo d) = checkKdump d"
| "applyOneExtended env thresh (TunedInfo d) = checkTuned env d"
| "applyOneExtended env thresh (KernelPatchInfo d) = checkKernelPatch d"
| "applyOneExtended env thresh (KspliceInfo d) = checkKsplice d"
| "applyOneExtended env thresh (ServiceRestartInfo d) = checkServiceRestart env d"
| "applyOneExtended env thresh (KernelRetentionInfo d) = checkKernelRetention d"
| "applyOneExtended env thresh (LivePatchInfo d) = checkLivePatch d"
| "applyOneExtended env thresh (TransactionalInfo d) = checkTransactional d"
| "applyOneExtended env thresh (ServicesInfo d) = checkServices d"
| "applyOneExtended env thresh (VaultInfo d) = checkVault d"

definition applyOne ::
  "environment \<Rightarrow> thresholds \<Rightarrow> container_context \<Rightarrow> payload \<Rightarrow> insight list" where
  "applyOne env thresh ctrCtx data =
     (case data of
        CPUInfo d \<Rightarrow> checkCPU d thresh ctrCtx
      | MemoryInfo d \<Rightarrow> checkMemory env d thresh ctrCtx
      | DiskInfo d \<Rightarrow> checkDisk d thresh
      | SwapInfo d \<Rightarrow> checkSwap d thresh
      | IOInfo d \<Rightarrow> checkIO d thresh
      | NetworkInfo d \<Rightarrow> checkNetwork env d
      | NFSInfo d \<Rightarrow> checkNFS d
      | BINDInfo d \<Rightarrow> checkBIND d
      | ClockInfo d \<Rightarrow> checkClock d thresh
      | NetworkdConfigInfo d \<Rightarrow> checkNetworkdConfig d
      | RootFSInfo d \<Rightarrow> checkRootFS d
      | FstabInfo d \<Rightarrow> checkFstab d
      | _ \<Rightarrow> applyOneExtended env thresh data)"

lemma applyOneExtended_wf: "wf_insights (applyOneExtended env thresh data)"
  by (cases data; simp only: applyOneExtended.simps; rule wf_rules)

lemma applyOne_wf: "wf_insights (applyOne env thresh ctrCtx data)"
  unfolding applyOne_def by (cases data; simp only: payload.case; intro wf_rules applyOneExtended_wf)

end
