(* ===== verification/Nixos_Hints.thy ===== *)
theory Nixos_Hints
  imports Hints
begin

text \<open>
  The NixOS rewriter of \<open>internal/analysis/heuristics.go\<close>: fix hints that edit a file or restart a service
  become their \<open>configuration.nix\<close> form. Each anchored expression of the code is written out as cuts
  of its literal head and tail; \<open>quote\<close> is the verb \<open>%q\<close>.
\<close>

section \<open>The expressions\<close>

definition cut_suffix :: "gostring \<Rightarrow> gostring \<Rightarrow> gostring option" where
  "cut_suffix s p = (if has_suffix s p then Some (take (length s - length p) s) else None)"

text \<open>A token, the separator after it, and the rest of the line, which is not empty.\<close>

definition token_value :: "(char \<Rightarrow> bool) \<Rightarrow> char \<Rightarrow> gostring \<Rightarrow> (gostring \<times> gostring) option" where
  "token_value ok sep s =
     (let key = takeWhile ok s; rest = drop (length key) s
      in if key \<noteq> [] \<and> rest \<noteq> [] \<and> hd rest = sep \<and> tl rest \<noteq> [] \<and> CHR 0x0A \<notin> set (tl rest)
         then Some (key, tl rest) else None)"

definition nix_quote :: gostring where "nix_quote = [CHR 0x27]"

definition reNixSysctlPersist :: "gostring \<Rightarrow> (gostring \<times> gostring) option" where
  "reNixSysctlPersist h =
     Option.bind (cut_prefix h (''to persist: echo '' @ nix_quote)) (\<lambda>t.
     Option.bind (cut_suffix t (nix_quote @ '' >> /etc/sysctl.d/99-dsd.conf''))
       (token_value (\<lambda>c. c \<noteq> CHR 0x27 \<and> c \<noteq> CHR ''='') CHR ''=''))"

definition reNixSSHDSet :: "gostring \<Rightarrow> (gostring \<times> gostring) option" where
  "reNixSSHDSet h =
     Option.bind (cut_prefix h ''to fix: set '') (\<lambda>t.
     Option.bind (cut_suffix t '' in /etc/ssh/sshd_config'') (token_value (\<lambda>c. \<not> re_space c) CHR '' ''))"

definition reNixSSHDEchoSet :: "gostring \<Rightarrow> (gostring \<times> gostring) option" where
  "reNixSSHDEchoSet h =
     Option.bind (cut_prefix h ''to fix:'') (\<lambda>t.
     Option.bind (skip_spaces1 t) (\<lambda>t.
     Option.bind (cut_prefix t (''echo '' @ nix_quote)) (\<lambda>t.
     Option.bind (cut_suffix t (nix_quote @ '' >> /etc/ssh/sshd_config && systemctl restart sshd''))
       (token_value (\<lambda>c. \<not> re_space c) CHR '' ''))))"

definition reNixSSHRestart :: "gostring \<Rightarrow> bool" where
  "reNixSSHRestart h \<longleftrightarrow> h = ''to fix: systemctl restart sshd''"

definition reNixSSHProtocol :: "gostring \<Rightarrow> bool" where
  "reNixSSHProtocol h \<longleftrightarrow>
     h = ''to fix: remove or comment out '' @ nix_quote @ ''Protocol'' @ nix_quote @
         '' line in /etc/ssh/sshd_config''"

definition reNixRsyslog :: "gostring \<Rightarrow> bool" where
  "reNixRsyslog h \<longleftrightarrow>
     Option.bind (cut_prefix h ''to fix: apt install rsyslog'') (\<lambda>t.
     Option.bind (skip_spaces1 t) (\<lambda>t.
     Option.bind (cut_prefix t ''OR'') (\<lambda>t.
     Option.bind (skip_spaces1 t) (\<lambda>t.
     Option.bind (cut_prefix t ''dnf install rsyslog'') (\<lambda>t.
     Option.bind (skip_spaces1 t) (\<lambda>t.
     Option.bind (cut_prefix t ''OR'') skip_spaces1)))))) = Some ''zypper install rsyslog''"

definition reNixJournald :: "gostring \<Rightarrow> gostring option" where
  "reNixJournald h =
     Option.bind (first_some (cut_prefix h) [''to fix:'', ''to persist:'']) (\<lambda>t.
     Option.bind (skip_spaces1 t) (\<lambda>t.
     Option.bind (cut_prefix t (''echo '' @ nix_quote)) (\<lambda>t.
       let m = takeWhile (\<lambda>c. c \<noteq> CHR 0x27) t; rest = drop (length m) t;
           file = nix_quote @ '' >> /etc/systemd/journald.conf''
       in if m \<noteq> [] \<and> (rest = file \<or> rest = file @ '' && systemctl restart systemd-journald'')
          then Some m else None)))"

section \<open>The rewriter\<close>

text \<open>No hint is the drop of the code.\<close>

definition nixosFixHint :: "(gostring \<Rightarrow> gostring) \<Rightarrow> gostring \<Rightarrow> gostring option" where
  "nixosFixHint quote hint =
     (case reNixSysctlPersist hint of
        Some (k, v) \<Rightarrow>
          Some (''to persist (NixOS): boot.kernel.sysctl = { '' @ quote k @ '' = '' @ v @
                ''; }; in configuration.nix, then nixos-rebuild switch'')
      | None \<Rightarrow>
     (case reNixSSHDSet hint of
        Some (k, v) \<Rightarrow>
          Some (''to fix (NixOS): services.openssh.settings.'' @ k @ '' = '' @ quote v @
                ''; in configuration.nix, then nixos-rebuild switch'')
      | None \<Rightarrow>
     (case reNixSSHDEchoSet hint of
        Some (k, v) \<Rightarrow>
          Some (''to fix (NixOS): services.openssh.settings.'' @ k @ '' = '' @ quote v @
                ''; in configuration.nix, then nixos-rebuild switch'')
      | None \<Rightarrow>
        if reNixSSHRestart hint then None
        else if reNixSSHProtocol hint then
          Some (''to fix (NixOS): remove any '' @ nix_quote @ ''Protocol'' @ nix_quote @
                '' line from services.openssh.extraConfig, then nixos-rebuild switch'')
        else if reNixRsyslog hint then
          Some ''to fix (NixOS): services.rsyslogd.enable = true; in configuration.nix, then nixos-rebuild switch''
        else
     (case reNixJournald hint of
        Some m \<Rightarrow>
          Some (''to fix (NixOS): services.journald.extraConfig = '' @ quote m @
                ''; in configuration.nix, then nixos-rebuild switch'')
      | None \<Rightarrow> Some hint))))"

definition nixosifyHints :: "(gostring \<Rightarrow> gostring) \<Rightarrow> insight list \<Rightarrow> insight list" where
  "nixosifyHints quote = map (\<lambda>i. i\<lparr>Hints := List.map_filter (nixosFixHint quote) (Hints i)\<rparr>)"

section \<open>What the rewriters keep\<close>

text \<open>Every rewriter of the pipeline changes hints only; the verdict cannot depend on the host's tools.\<close>

definition same_but_hints :: "insight \<Rightarrow> insight \<Rightarrow> bool" where
  "same_but_hints i j \<longleftrightarrow> i\<lparr>Hints := []\<rparr> = j\<lparr>Hints := []\<rparr>"

lemma same_but_hints_refl [simp]: "same_but_hints i i"
  by (simp add: same_but_hints_def)

lemma same_but_hints_upd [simp]: "same_but_hints i (j\<lparr>Hints := hs\<rparr>) = same_but_hints i j"
  by (simp add: same_but_hints_def)

lemma same_but_hints_trans [trans]: "same_but_hints i j \<Longrightarrow> same_but_hints j k \<Longrightarrow> same_but_hints i k"
  by (simp add: same_but_hints_def)

lemma same_but_hints_fields:
  assumes "same_but_hints i j"
  shows "Level j = Level i" "Check j = Check i" "Message j = Message i" "Details j = Details i"
    "Unverified j = Unverified i" "NeedsRoot j = NeedsRoot i" "UnverifiedReason j = UnverifiedReason i"
  using assms by (cases i; cases j; simp add: same_but_hints_def)+

lemma hints_only_map:
  "list_all2 same_but_hints xs ys \<Longrightarrow> list_all2 same_but_hints xs (map (\<lambda>i. i\<lparr>Hints := f i\<rparr>) ys)"
  by (auto simp: list_all2_conv_all_nth)

lemma hints_only_if:
  "list_all2 same_but_hints xs ys \<Longrightarrow> list_all2 same_but_hints xs zs \<Longrightarrow>
     list_all2 same_but_hints xs (if b then ys else zs)"
  by simp

lemma AdaptHostHints_hints_only:
  "list_all2 same_but_hints insights (AdaptHostHints (nixosifyHints quote) ostree distro goos init insights)"
  unfolding AdaptHostHints_def Let_def adaptHintsToPlatform_def nixosifyHints_def gentooifyHints_def
    transactionalifyHints_def ostreeifyHints_def distroifyInstallHints_def map_hints_def
  by (intro hints_only_if hints_only_map list_all2_refl same_but_hints_refl)

end
