(* ===== verification/Analysis.thy ===== *)
theory Analysis
  imports Payload Nixos_Hints Verdict
begin

text \<open>
  \<open>ApplyThresholds\<close> of \<open>internal/analysis/heuristics.go\<close>, from the results of the collectors to the insights
  of a run: the pre-scan that carries one collector's finding to another's check, the loop over the results,
  the SELinux duplicate and the host's hint rewriting.
\<close>

section \<open>The pass over the results\<close>

text \<open>
  A result with the measurement it carries: no payload is a nil value, a nil pointer or a type without a check.
\<close>

record analysed = result +
  Payload :: "payload option"

record prescan_result =
  selinuxEnforcing :: bool
  zfsPoolsPresent :: bool
  swapActive :: bool
  vmwareCPULimitMHz :: int

definition prescan_payload :: "payload \<Rightarrow> prescan_result \<times> thresholds \<Rightarrow> prescan_result \<times> thresholds" where
  "prescan_payload p = (\<lambda>(ctx, thresh).
     case p of
       PackagesInfo d \<Rightarrow>
         (ctx, if packages_PackageManager d \<noteq> [] then thresh\<lparr>PackageManager := packages_PackageManager d\<rparr> else thresh)
     | CPUInfo d \<Rightarrow> (ctx, thresh\<lparr>CPULoadPct := cpu_LoadPct d\<rparr>)
     | KernelSecurityInfo d \<Rightarrow>
         (if kernelSecurity_SELinuxPresent d \<and> kernelSecurity_SELinuxMode d = ''enforcing''
          then ctx\<lparr>selinuxEnforcing := True\<rparr> else ctx, thresh)
     | ZFSInfo d \<Rightarrow> (if zfs_Pools d \<noteq> [] then ctx\<lparr>zfsPoolsPresent := True\<rparr> else ctx, thresh)
     | DiskInfo d \<Rightarrow> (if disk_ZFSPools d \<noteq> [] then ctx\<lparr>zfsPoolsPresent := True\<rparr> else ctx, thresh)
     | SwapInfo d \<Rightarrow> (if swapInUse d then ctx\<lparr>swapActive := True\<rparr> else ctx, thresh)
     | VMwareInfo d \<Rightarrow>
         (if vMware_StatAvailable d \<and> 0 < vMware_CPULimitMHz d
          then ctx\<lparr>vmwareCPULimitMHz := vMware_CPULimitMHz d\<rparr> else ctx, thresh)
     | _ \<Rightarrow> (ctx, thresh))"

definition prescan_step :: "prescan_result \<times> thresholds \<Rightarrow> analysed \<Rightarrow> prescan_result \<times> thresholds" where
  "prescan_step acc r =
     (case (Err r, Payload r) of (None, Some p) \<Rightarrow> prescan_payload p acc | _ \<Rightarrow> acc)"

definition prescanContext :: "analysed list \<Rightarrow> thresholds \<Rightarrow> prescan_result \<times> thresholds" where
  "prescanContext results thresh =
     foldl prescan_step
       (\<lparr>selinuxEnforcing = False, zfsPoolsPresent = False, swapActive = False, vmwareCPULimitMHz = 0\<rparr>, thresh)
       results"

text \<open>The first loop of \<open>ApplyThresholds\<close>, which does not look at the error.\<close>

definition inject_payload :: "prescan_result \<Rightarrow> payload \<Rightarrow> payload" where
  "inject_payload ctx p =
     (case p of
        SystemdInfo d \<Rightarrow>
          SystemdInfo (d\<lparr>systemd_SELinuxEnforcing := selinuxEnforcing ctx,
                         systemd_ZFSPoolsPresent := zfsPoolsPresent ctx\<rparr>)
      | SysctlInfo d \<Rightarrow> SysctlInfo (d\<lparr>sysctl_SwapActive := swapActive ctx\<rparr>)
      | CPUInfo d \<Rightarrow> CPUInfo (d\<lparr>cpu_HostCPULimitMHz := vmwareCPULimitMHz ctx\<rparr>)
      | _ \<Rightarrow> p)"

definition inject_context :: "prescan_result \<Rightarrow> analysed \<Rightarrow> analysed" where
  "inject_context ctx r = r\<lparr>Payload := map_option (inject_payload ctx) (Payload r)\<rparr>"

definition apply_result ::
  "environment \<Rightarrow> thresholds \<Rightarrow> container_context \<Rightarrow> analysed \<Rightarrow> insight list" where
  "apply_result env thresh ctrCtx r =
     (case Payload r of None \<Rightarrow> [] | Some p \<Rightarrow> applyOne env thresh ctrCtx p)"

text \<open>The insights of every result, before the duplicate is collapsed and the hints are adapted.\<close>

definition checked_insights ::
  "environment \<Rightarrow> analysed list \<Rightarrow> thresholds \<Rightarrow> container_context \<Rightarrow> insight list" where
  "checked_insights env results thresh ctrCtx =
     (let (ctx, thresh) = prescanContext results thresh
      in concat (map (result_insights (apply_result env thresh ctrCtx)) (map (inject_context ctx) results)))"

text \<open>The distribution and the init system are those of the analysed host.\<close>

record host_tools =
  DistroID :: gostring
  InitSystem :: gostring

definition ApplyThresholds ::
  "environment \<Rightarrow> host_tools \<Rightarrow> analysed list \<Rightarrow> thresholds \<Rightarrow> container_context \<Rightarrow> insight list" where
  "ApplyThresholds env host results thresh ctrCtx =
     AdaptHostHints (nixosifyHints (Quote env)) (hostIsOstree env) (DistroID host) (GOOS env) (InitSystem host)
       (dedupeSELinuxDenials (checked_insights env results thresh ctrCtx))"

end
