(* ===== verification/Unmeasured.thy ===== *)
theory Unmeasured
  imports Analysis
begin

text \<open>
  A collector reports a measurement it could not take by a flag of its model. \<open>unmeasured\<close> lists the flags of
  whole measurements that the checks of a run read, with the presence of the subsystem where the check asks
  for it first; each check is shown to answer with an unverified insight, so that the verdict of the run
  cannot be a clean one.

  Not listed are: the flags of one item of a list (a drive, a file system, an HBA port, a GPU, a pool, a
  RAID controller, see \<open>drives_accounted\<close> for the drives); flags whose gap depends on another reading
  (\<open>PortsOwnershipUnverified\<close> of BIND, \<open>KEVCatalogReadFailed\<close>, \<open>ScanFailed\<close> of the CVE scan); the flags only the
  CIS report and the security command read (\<open>SudoersUnreadable\<close>, \<open>AuditRulesUnreadable\<close>, \<open>FirewallUnreadable\<close>); \<open>ENADeltaReadFailed\<close>, which
  nothing reads; the flags of the subcommands' own reports (\<open>ServicesDeepInfo\<close>, \<open>K8sOSLayer\<close>, the process
  lists of \<open>HealthDeepInfo\<close>); and \<open>SocketPermDenied\<close> of Docker and containerd, which is answered with a verified INFO
  (\<open>docker_denied_verified\<close> below).
\<close>

section \<open>The flags\<close>

primrec unmeasured :: "payload \<Rightarrow> bool" where
  "unmeasured (CPUInfo d) \<longleftrightarrow> cpu_UsageSampleFailed d"
| "unmeasured (MemoryInfo d) \<longleftrightarrow> memory_MeminfoUnreadable d \<or> memory_EDACAvailable d \<and> memory_EDACCountersUnreadable d"
| "unmeasured (DiskInfo d) \<longleftrightarrow> disk_DrivesListUnreadable d \<or> disk_ZFSListReadFailed d"
| "unmeasured (SwapInfo d) \<longleftrightarrow> swap_SwapsUnreadable d \<or> swap_ZramUnreadable d"
| "unmeasured (IOInfo d) \<longleftrightarrow> False"
| "unmeasured (NetworkInfo d) \<longleftrightarrow> network_InterfacesUnreadable d \<or> network_ConnectionsUnreadable d \<or> network_SockstatUnreadable d \<or> network_NetstatUnreadable d"
| "unmeasured (NFSInfo d) \<longleftrightarrow> nfs_StatsUnreadable d"
| "unmeasured (BINDInfo d) \<longleftrightarrow> False"
| "unmeasured (ClockInfo d) \<longleftrightarrow> False"
| "unmeasured (NetworkdConfigInfo d) \<longleftrightarrow> networkdConfig_Detected d \<and> networkdConfig_ConfigDirUnreadable d"
| "unmeasured (RootFSInfo d) \<longleftrightarrow> False"
| "unmeasured (FstabInfo d) \<longleftrightarrow> False"
| "unmeasured (FDInfo d) \<longleftrightarrow> False"
| "unmeasured (SystemdInfo d) \<longleftrightarrow> systemd_Available d \<and> systemd_FailedUnitsUnknown d \<or> systemd_Available d \<and> systemd_SSHDStatusUnverified d"
| "unmeasured (SysctlInfo d) \<longleftrightarrow> False"
| "unmeasured (KernelSecurityInfo d) \<longleftrightarrow> False"
| "unmeasured (LogsInfo d) \<longleftrightarrow> logs_NeedsRoot d \<or> logs_KmsgUnreadable d \<or> logs_CrashLoopsUnverified d \<or> logs_CrashFilesUnreadable d \<or> logs_JournalSizeUnreadable d \<or> logs_JournalCorruptUnverified d \<or> \<not> 10 < logs_ErrorCount d \<and> logs_ErrorCountUnverified d"
| "unmeasured (EntropyInfo d) \<longleftrightarrow> False"
| "unmeasured (PackagesInfo d) \<longleftrightarrow> False"
| "unmeasured (CVEAllResult d) \<longleftrightarrow> False"
| "unmeasured (NVMeInfo d) \<longleftrightarrow> nvme_DrivesListUnreadable d"
| "unmeasured (RAIDInfo d) \<longleftrightarrow> raid_ReadFailed d"
| "unmeasured (ZFSInfo d) \<longleftrightarrow> zfs_ListReadFailed d"
| "unmeasured (LVMInfo d) \<longleftrightarrow> lvm_VGs d \<noteq> [] \<and> lvm_RaidReadFailed d \<or> lvm_VGReadFailed d \<or> lvm_PVReadFailed d \<or> lvm_LVReadFailed d \<or> lvm_PresenceReadFailed d"
| "unmeasured (DRBDInfo d) \<longleftrightarrow> drbd_Unverified d"
| "unmeasured (PVEInfo d) \<longleftrightarrow> pve_IsPVE d \<and> pve_NeedsRoot d"
| "unmeasured (BatteryInfo d) \<longleftrightarrow> False"
| "unmeasured (ThermalInfo d) \<longleftrightarrow> thermal_SensorUnreadable d"
| "unmeasured (HealthDeepInfo d) \<longleftrightarrow> healthDeep_MemDetailUnreadable d"
| "unmeasured (FirmwareInfo d) \<longleftrightarrow> False"
| "unmeasured (DockerInfo d) \<longleftrightarrow> docker_Available d \<and> docker_Status d = ''error''"
| "unmeasured (ContainerdInfo d) \<longleftrightarrow> containerd_Available d \<and> containerd_NamespacesUnreadable d \<or> containerd_Available d \<and> containerd_ContainerCountsUnreadable d"
| "unmeasured (PostgresInfo d) \<longleftrightarrow> False"
| "unmeasured (MySQLInfo d) \<longleftrightarrow> False"
| "unmeasured (RedisInfo d) \<longleftrightarrow> False"
| "unmeasured (MemcachedInfo d) \<longleftrightarrow> False"
| "unmeasured (NginxInfo d) \<longleftrightarrow> False"
| "unmeasured (ApacheInfo d) \<longleftrightarrow> False"
| "unmeasured (HAProxyInfo d) \<longleftrightarrow> False"
| "unmeasured (RabbitMQInfo d) \<longleftrightarrow> False"
| "unmeasured (ElasticsearchInfo d) \<longleftrightarrow> elasticsearch_Detected d \<and> elasticsearch_IdentityUnverified d"
| "unmeasured (MongoDBInfo d) \<longleftrightarrow> False"
| "unmeasured (KafkaInfo d) \<longleftrightarrow> False"
| "unmeasured (PrometheusInfo d) \<longleftrightarrow> False"
| "unmeasured (AlertmanagerInfo d) \<longleftrightarrow> alertmanager_Detected d \<and> alertmanager_IdentityUnverified d"
| "unmeasured (GrafanaInfo d) \<longleftrightarrow> grafana_Detected d \<and> grafana_IdentityUnverified d"
| "unmeasured (TraefikInfo d) \<longleftrightarrow> False"
| "unmeasured (EnvoyInfo d) \<longleftrightarrow> envoy_Detected d \<and> envoy_IdentityUnverified d"
| "unmeasured (K8sInfo d) \<longleftrightarrow> k8s_Detected d \<and> k8s_EventsUnreadable d \<or> k8s_Detected d \<and> k8s_PVCsUnreadable d \<or> k8s_Detected d \<and> k8s_WorkloadsUnreadable d"
| "unmeasured (RancherInfo d) \<longleftrightarrow> rancher_Available d \<and> rancher_ServerUnreadable d \<or> rancher_Available d \<and> rancher_WebhookUnreadable d"
| "unmeasured (HAInfo d) \<longleftrightarrow> False"
| "unmeasured (KVMInfo d) \<longleftrightarrow> kvm_Detected d \<and> kvm_Status d \<noteq> ''enum-failed'' \<and> 0 < kvm_VMsUnreadable d \<or> kvm_Detected d \<and> kvm_Status d \<noteq> ''enum-failed'' \<and> 0 < kvm_DiskErrorChecksFailed d \<or> kvm_Detected d \<and> kvm_Status d \<noteq> ''enum-failed'' \<and> 0 < kvm_PoolsCapUnknown d"
| "unmeasured (SteamOSInfo d) \<longleftrightarrow> False"
| "unmeasured (TLSInfo d) \<longleftrightarrow> tls_Uncheckable d \<noteq> []"
| "unmeasured (GPUInfo d) \<longleftrightarrow> False"
| "unmeasured (SecurityInfo d) \<longleftrightarrow> security_SSHAuditSource d = [] \<and> security_SSHConfigUnreadable d \<or> security_NeedsRoot d \<or> security_ShadowUnreadable d \<or> security_FailedLoginsUnreadable d \<or> security_PAMFailuresUnreadable d \<or> security_AIDEDBUnreadable d \<or> security_SupportconfigUnreadable d \<or> security_AppArmorDenialsUnreadable d"
| "unmeasured (ProcessInfo d) \<longleftrightarrow> process_ListUnreadable d"
| "unmeasured (SnapperInfo d) \<longleftrightarrow> False"
| "unmeasured (SUSEConnectInfo d) \<longleftrightarrow> suseConnect_Platform d = ''rhel'' \<and> suseConnect_StatusUnverified d"
| "unmeasured (HardwareInfo d) \<longleftrightarrow> False"
| "unmeasured (BondingInfo d) \<longleftrightarrow> False"
| "unmeasured (IPMIInfo d) \<longleftrightarrow> ipmi_NeedsRoot d \<or> ipmi_Status d = ''error''"
| "unmeasured (OOMInfo d) \<longleftrightarrow> oom_EventsCountUnverified d"
| "unmeasured (MTEInfo d) \<longleftrightarrow> False"
| "unmeasured (HBAInfo d) \<longleftrightarrow> False"
| "unmeasured (PressureInfo d) \<longleftrightarrow> pressure_Available d \<and> pressure_UnreadableMetrics d \<noteq> []"
| "unmeasured (MultipathInfo d) \<longleftrightarrow> False"
| "unmeasured (HWRaidInfo d) \<longleftrightarrow> hwRaid_Available d \<and> hwRaid_NeedsRoot d \<or> hwRaid_Available d \<and> hwRaid_ReadFailed d"
| "unmeasured (CephInfo d) \<longleftrightarrow> \<not> ceph_Available d \<and> ceph_NeedsRoot d"
| "unmeasured (FirewallInfo d) \<longleftrightarrow> \<not> firewall_Available d \<and> \<not> firewall_PVEFirewallActive d \<and> firewall_StatusReason d \<noteq> []"
| "unmeasured (AuthInfo d) \<longleftrightarrow> False"
| "unmeasured (CloudInfo d) \<longleftrightarrow> \<not> cloud_Available d \<or> \<not> cloud_SpotTermination d \<and> cloud_SpotCheckFailed d"
| "unmeasured (CloudInitInfo d) \<longleftrightarrow> cloudInit_Available d \<and> cloudInit_StatusUnverified d"
| "unmeasured (VMwareInfo d) \<longleftrightarrow> False"
| "unmeasured (KVMGuestInfo d) \<longleftrightarrow> kvmGuest_IsGuest d \<and> kvmGuest_StealUnreadable d"
| "unmeasured (ContainerGuestInfo d) \<longleftrightarrow> False"
| "unmeasured (AWSInfo d) \<longleftrightarrow> aws_IsEC2 d \<and> aws_EBSNeedsRoot d \<or> aws_IsEC2 d \<and> aws_EBSReadFailed d \<or> aws_IsEC2 d \<and> aws_EBSDeltaReadFailed d"
| "unmeasured (AzureInfo d) \<longleftrightarrow> False"
| "unmeasured (GCPInfo d) \<longleftrightarrow> False"
| "unmeasured (OCIInfo d) \<longleftrightarrow> False"
| "unmeasured (PostBootInfo d) \<longleftrightarrow> False"
| "unmeasured (AuditInfo d) \<longleftrightarrow> audit_Available d \<and> audit_RulesUnreadable d \<or> audit_Available d \<and> audit_EventsUnreadable d \<or> audit_Available d \<and> audit_AuditLogSizeUnreadable d"
| "unmeasured (NUMAInfo d) \<longleftrightarrow> False"
| "unmeasured (VLANInfo d) \<longleftrightarrow> False"
| "unmeasured (ISCSIInfo d) \<longleftrightarrow> iscsi_NeedsRoot d \<or> iscsi_SessionsParseFailed d"
| "unmeasured (InfiniBandInfo d) \<longleftrightarrow> infiniBand_ReadFailed d"
| "unmeasured (SRIOVInfo d) \<longleftrightarrow> False"
| "unmeasured (NspawnInfo d) \<longleftrightarrow> False"
| "unmeasured (HugePagesInfo d) \<longleftrightarrow> False"
| "unmeasured (CPUFreqInfo d) \<longleftrightarrow> False"
| "unmeasured (LaunchdInfo d) \<longleftrightarrow> False"
| "unmeasured (DBusInfo d) \<longleftrightarrow> False"
| "unmeasured (SessionsInfo d) \<longleftrightarrow> False"
| "unmeasured (CronInfo d) \<longleftrightarrow> cron_DaemonActive d \<and> cron_QualityScanUnreadable d \<or> cron_AnacronPresent d \<and> cron_QualityScanUnreadable d \<or> cron_DaemonActive d \<and> cron_Failures d = [] \<and> \<not> cron_FailureScanOK d"
| "unmeasured (DNSResolverInfo d) \<longleftrightarrow> False"
| "unmeasured (KdumpInfo d) \<longleftrightarrow> kdump_Available d \<and> kdump_StateUnverified d"
| "unmeasured (TunedInfo d) \<longleftrightarrow> tuned_Available d \<and> tuned_StateUnverified d"
| "unmeasured (KernelPatchInfo d) \<longleftrightarrow> kernelPatch_Available d \<and> kernelPatch_CheckUnverified d"
| "unmeasured (KspliceInfo d) \<longleftrightarrow> ksplice_Available d \<and> ksplice_CheckUnverified d"
| "unmeasured (ServiceRestartInfo d) \<longleftrightarrow> serviceRestart_Available d \<and> serviceRestart_StaleCount d = 0 \<and> serviceRestart_NeedsRoot d"
| "unmeasured (KernelRetentionInfo d) \<longleftrightarrow> kernelRetention_BootUnreadable d"
| "unmeasured (LivePatchInfo d) \<longleftrightarrow> livePatch_Available d \<and> livePatch_UnverifiedPatches d \<noteq> []"
| "unmeasured (TransactionalInfo d) \<longleftrightarrow> transactional_Available d \<and> transactional_Unverified d"
| "unmeasured (ServicesInfo d) \<longleftrightarrow> False"
| "unmeasured (VaultInfo d) \<longleftrightarrow> vault_Available d \<and> vault_Reachable d \<and> vault_StatusRead d \<and> vault_IdentityUnverified d"

text \<open>An unverified insight that the SELinux duplicate does not remove.\<close>

definition gap :: "insight list \<Rightarrow> bool" where
  "gap is \<longleftrightarrow> (\<exists>i \<in> set is. Unverified i \<and> \<not> isDenial i ''Hardening'')"

lemma gap_simps:
  "gap [] = False"
  "gap (i # is) = (Unverified i \<and> \<not> isDenial i ''Hardening'' \<or> gap is)"
  "gap (xs @ ys) = (gap xs \<or> gap ys)"
  "gap (if b then xs else ys) = (if b then gap xs else gap ys)"
  "Unverified (mk_full l c m h) = False"
  "Unverified (unverifiedInsight r l c m h) = True"
  "Unverified (needsRootInsight rt l c m h) = True"
  "isDenial (unverifiedInsight r l c m h) ''Hardening'' =
     (c = ''Hardening'' \<and> contains m ''SELinux denial'' \<and> contains m ''last hour'')"
  "isDenial (needsRootInsight rt l c m h) ''Hardening'' =
     (c = ''Hardening'' \<and> contains m ''SELinux denial'' \<and> contains m ''last hour'')"
  "Unverified (i\<lparr>NeedsRoot := b\<rparr>) = Unverified i"
  "isDenial (i\<lparr>NeedsRoot := b\<rparr>) = isDenial i"
  by (auto simp: gap_def isDenial_def mk_full_def unverifiedInsight_def needsRootInsight_def Let_def)

lemma gap_left: "gap xs \<Longrightarrow> gap (xs @ ys)" and gap_right: "gap ys \<Longrightarrow> gap (xs @ ys)"
  by (simp_all add: gap_simps)

lemmas categories = catCPULoadRunQ_def catContainerGuest_def catKernelSec_def catNetwork_def catPrometheus_def catSteamOS_def catSysctl_def catVMware_def cloudCatInit_def cloudCatMeta_def corrCatCPUIOwait_def corrCatCPULoad_def corrCatCPUSteal_def corrCatCPUThermal_def corrCatGPU_def dbCatMySQL_def dbCatPostgres_def dbCatRedis_def esCatElastic_def fwCatFirmware_def fwCatSnapshots_def fwCatSubscription_def haCatHACluster_def hwCatBattery_def hwCatCPUFreq_def hwCatHardware_def hwCatIPMI_def hwRaidCat_def mongoCat_def mqCatRabbitMQ_def netCatBIND_def netCatBonding_def netCatNFS_def nwdCatNetworkd_def pveCatPVE_def secCatAuditd_def secCatAuth_def secCatFirewall_def secCatHardening_def virtCatContainerd_def virtCatDocker_def virtCatK8s_def virtCatKVM_def

lemmas contains_literals = contains.simps has_prefix_code

section \<open>The checks\<close>

declare categories [simp]

lemma checkCPU_gap: "unmeasured (CPUInfo d) \<Longrightarrow> gap (checkCPU d thresh ctrCtx)"
  by (simp only: unmeasured.simps, (elim disjE)?; simp add: checkCPU_def cpuSampleFailedInsight_def Let_def gap_simps)

lemma checkMemory_gap: "unmeasured (MemoryInfo d) \<Longrightarrow> gap (checkMemory env d thresh ctrCtx)"
  by (simp only: unmeasured.simps, (elim disjE)?; simp add: checkMemory_def Let_def gap_simps)

lemma checkDisk_gap: "unmeasured (DiskInfo d) \<Longrightarrow> gap (checkDisk d thresh)"
  by (simp only: unmeasured.simps, (elim disjE)?; simp add: checkDisk_def checkDiskExtras_def Let_def gap_simps)

lemma checkSwap_gap: "unmeasured (SwapInfo d) \<Longrightarrow> gap (checkSwap d thresh)"
  by (simp only: unmeasured.simps, (elim disjE)?; simp add: checkSwap_def swapUnreadableInsights_def Let_def gap_simps)

lemma checkNetwork_gap: "unmeasured (NetworkInfo d) \<Longrightarrow> gap (checkNetwork env d)"
  by (simp only: unmeasured.simps, elim disjE; simp only: checkNetwork_def;
      ((rule gap_left, simp add: gap_simps; fail) | rule gap_right)+)

lemma checkNFS_gap: "unmeasured (NFSInfo d) \<Longrightarrow> gap (checkNFS d)"
  by (simp only: unmeasured.simps, (elim disjE)?; simp add: checkNFS_def Let_def gap_simps)

lemma checkNetworkdConfig_gap: "unmeasured (NetworkdConfigInfo d) \<Longrightarrow> gap (checkNetworkdConfig d)"
  by (simp only: unmeasured.simps, (elim disjE)?; simp add: checkNetworkdConfig_def Let_def gap_simps)

lemma checkSystemd_gap: "unmeasured (SystemdInfo d) \<Longrightarrow> gap (checkSystemd d)"
  by (simp only: unmeasured.simps, (elim disjE)?; simp add: checkSystemd_def Let_def gap_simps)

lemma checkLogs_gap: "unmeasured (LogsInfo d) \<Longrightarrow> gap (checkLogs env d thresh)"
  by (simp only: unmeasured.simps, elim disjE; simp only: checkLogs_def Let_def;
      ((rule gap_left, simp add: gap_simps; fail) | rule gap_right)+) (simp add: checkJournalHealthInsights_def checkJournalActivity_def gap_simps)

lemma checkNVMe_gap: "unmeasured (NVMeInfo d) \<Longrightarrow> gap (checkNVMe env d)"
  by (simp only: unmeasured.simps, (elim disjE)?; simp add: checkNVMe_def Let_def gap_simps)

lemma checkRAID_gap: "unmeasured (RAIDInfo d) \<Longrightarrow> gap (checkRAID env d)"
  by (simp only: unmeasured.simps, (elim disjE)?; simp add: checkRAID_def Let_def gap_simps)

lemma checkZFS_gap: "unmeasured (ZFSInfo d) \<Longrightarrow> gap (checkZFS env d)"
  by (simp only: unmeasured.simps, (elim disjE)?; simp add: checkZFS_def Let_def gap_simps)

lemma checkLVM_gap: "unmeasured (LVMInfo d) \<Longrightarrow> gap (checkLVM d)"
  by (simp only: unmeasured.simps, (elim disjE)?; simp add: checkLVM_def checkLVMRaid_def Let_def gap_simps)

lemma checkDRBD_gap: "unmeasured (DRBDInfo d) \<Longrightarrow> gap (checkDRBD env d)"
  by (simp only: unmeasured.simps, (elim disjE)?; simp add: checkDRBD_def Let_def gap_simps)

lemma checkPVE_gap: "unmeasured (PVEInfo d) \<Longrightarrow> gap (checkPVE env d)"
  by (simp only: unmeasured.simps, (elim disjE)?; simp add: checkPVE_def Let_def gap_simps)

lemma checkThermal_gap: "unmeasured (ThermalInfo d) \<Longrightarrow> gap (checkThermal env d thresh)"
  by (simp only: unmeasured.simps, (elim disjE)?; simp add: checkThermal_def Let_def gap_simps)

lemma checkHealthDeep_gap: "unmeasured (HealthDeepInfo d) \<Longrightarrow> gap (checkHealthDeep d)"
  by (simp only: unmeasured.simps, (elim disjE)?; simp add: checkHealthDeep_def Let_def gap_simps)

lemma checkDocker_gap: "unmeasured (DockerInfo d) \<Longrightarrow> gap (checkDocker env d)"
  by (simp only: unmeasured.simps, (elim disjE)?; simp add: checkDocker_def Let_def gap_simps)

lemma checkContainerd_gap: "unmeasured (ContainerdInfo d) \<Longrightarrow> gap (checkContainerd d)"
  by (simp only: unmeasured.simps, (elim disjE)?; simp add: checkContainerd_def Let_def gap_simps)

lemma checkElasticsearch_gap: "unmeasured (ElasticsearchInfo d) \<Longrightarrow> gap (checkElasticsearch env d)"
  by (simp only: unmeasured.simps, (elim disjE)?; simp add: checkElasticsearch_def Let_def gap_simps)

lemma checkAlertmanager_gap: "unmeasured (AlertmanagerInfo d) \<Longrightarrow> gap (checkAlertmanager d)"
  by (simp only: unmeasured.simps, (elim disjE)?; simp add: checkAlertmanager_def Let_def gap_simps)

lemma checkGrafana_gap: "unmeasured (GrafanaInfo d) \<Longrightarrow> gap (checkGrafana env d)"
  by (simp only: unmeasured.simps, (elim disjE)?; simp add: checkGrafana_def Let_def gap_simps)

lemma checkEnvoy_gap: "unmeasured (EnvoyInfo d) \<Longrightarrow> gap (checkEnvoy d)"
  by (simp only: unmeasured.simps, (elim disjE)?; simp add: checkEnvoy_def Let_def gap_simps)

lemma checkK8s_gap: "unmeasured (K8sInfo d) \<Longrightarrow> gap (checkK8s d)"
  by (simp only: unmeasured.simps, (elim disjE)?; simp add: checkK8s_def checkK8sWorkloadsAndEvents_def Let_def gap_simps)

lemma checkRancher_gap: "unmeasured (RancherInfo d) \<Longrightarrow> gap (checkRancher d)"
  by (simp only: unmeasured.simps, (elim disjE)?; simp add: checkRancher_def Let_def gap_simps)

lemma checkKVM_gap: "unmeasured (KVMInfo d) \<Longrightarrow> gap (checkKVM d)"
  by (simp only: unmeasured.simps, (elim disjE)?; simp add: checkKVM_def checkKVMVMs_def checkKVMVMsDiskErrors_def Let_def gap_simps)

lemma checkTLS_gap: "unmeasured (TLSInfo d) \<Longrightarrow> gap (checkTLS d)"
  by (cases "tls_Uncheckable d"; simp add: checkTLS_def Let_def gap_simps)

lemma checkSecurity_gap: "unmeasured (SecurityInfo d) \<Longrightarrow> gap (checkSecurity env d)"
  by (simp only: unmeasured.simps, elim disjE; simp only: checkSecurity_def checkSecurityAuditGaps_def append_assoc;
      ((rule gap_left, simp add: checkAppArmorDenials_def gap_simps contains_literals; fail) | rule gap_right)+)

lemma checkProcesses_gap: "unmeasured (ProcessInfo d) \<Longrightarrow> gap (checkProcesses env d thresh)"
  by (simp only: unmeasured.simps, (elim disjE)?; simp add: checkProcesses_def Let_def gap_simps)

lemma checkSUSEConnect_gap: "unmeasured (SUSEConnectInfo d) \<Longrightarrow> gap (checkSUSEConnect d)"
  by (simp only: unmeasured.simps, (elim disjE)?; simp add: checkRHELSubscription_def checkSUSEConnect_def Let_def gap_simps)

lemma checkIPMI_gap: "unmeasured (IPMIInfo d) \<Longrightarrow> gap (checkIPMI d)"
  by (simp only: unmeasured.simps, (elim disjE)?; simp add: checkIPMI_def Let_def gap_simps)

lemma checkOOM_gap: "unmeasured (OOMInfo d) \<Longrightarrow> gap (checkOOM env d)"
  by (simp only: unmeasured.simps, (elim disjE)?; simp add: checkOOM_def Let_def gap_simps)

lemma checkPressure_gap: "unmeasured (PressureInfo d) \<Longrightarrow> gap (checkPressure d)"
  by (simp only: unmeasured.simps, (elim disjE)?; simp add: checkPressure_def Let_def gap_simps)

lemma checkHWRaid_gap: "unmeasured (HWRaidInfo d) \<Longrightarrow> gap (checkHWRaid env d)"
  by (simp only: unmeasured.simps, (elim disjE)?; simp add: checkHWRaid_def Let_def gap_simps)

lemma checkCeph_gap: "unmeasured (CephInfo d) \<Longrightarrow> gap (checkCeph d)"
  by (simp only: unmeasured.simps, (elim disjE)?; simp add: checkCeph_def Let_def gap_simps)

lemma checkFirewall_gap: "unmeasured (FirewallInfo d) \<Longrightarrow> gap (checkFirewall env d)"
  by (simp only: unmeasured.simps, (elim disjE)?; simp add: checkFirewall_def Let_def gap_simps)

lemma checkCloudMeta_gap: "unmeasured (CloudInfo d) \<Longrightarrow> gap (checkCloudMeta d)"
  by (simp only: unmeasured.simps, (elim disjE)?; simp add: checkCloudMeta_def Let_def gap_simps)

lemma checkCloudInit_gap: "unmeasured (CloudInitInfo d) \<Longrightarrow> gap (checkCloudInit d)"
  by (simp only: unmeasured.simps, (elim disjE)?; simp add: checkCloudInit_def Let_def gap_simps)

lemma checkKVMGuest_gap: "unmeasured (KVMGuestInfo d) \<Longrightarrow> gap (checkKVMGuest env d)"
  by (simp only: unmeasured.simps, (elim disjE)?; simp add: checkKVMGuest_def kvmguestStealInsight_def Let_def gap_simps)

lemma awsEBSInsights_gap:
  "aws_EBSNeedsRoot d \<or> aws_EBSReadFailed d \<or> aws_EBSDeltaReadFailed d \<Longrightarrow> gap (awsEBSInsights d)"
  by (auto simp: awsEBSInsights_def gap_simps)

lemma checkAWS_gap: "unmeasured (AWSInfo d) \<Longrightarrow> gap (checkAWS d)"
proof -
  assume "unmeasured (AWSInfo d)"
  then have ec2: "aws_IsEC2 d" and g: "gap (awsEBSInsights d)"
    by (auto intro!: awsEBSInsights_gap)
  then have "awsEBSInsights d \<noteq> []" by (auto simp: gap_def)
  with ec2 g show ?thesis by (simp add: checkAWS_def Let_def gap_simps)
qed

lemma checkAuditd_gap: "unmeasured (AuditInfo d) \<Longrightarrow> gap (checkAuditd env d)"
  by (simp only: unmeasured.simps, (elim disjE)?; simp add: checkAuditd_def Let_def gap_simps)

lemma checkISCSI_gap: "unmeasured (ISCSIInfo d) \<Longrightarrow> gap (checkISCSI d)"
  by (simp only: unmeasured.simps, (elim disjE)?; simp add: checkISCSI_def Let_def gap_simps)

lemma checkInfiniBand_gap: "unmeasured (InfiniBandInfo d) \<Longrightarrow> gap (checkInfiniBand d)"
  by (simp only: unmeasured.simps, (elim disjE)?; simp add: checkInfiniBand_def Let_def gap_simps)

lemma checkCron_gap: "unmeasured (CronInfo d) \<Longrightarrow> gap (checkCron d)"
  by (simp only: unmeasured.simps, (elim disjE)?; simp add: checkCron_def Let_def gap_simps)

lemma checkKdump_gap: "unmeasured (KdumpInfo d) \<Longrightarrow> gap (checkKdump d)"
  by (simp only: unmeasured.simps, (elim disjE)?; simp add: checkKdump_def Let_def gap_simps)

lemma checkTuned_gap: "unmeasured (TunedInfo d) \<Longrightarrow> gap (checkTuned env d)"
  by (simp only: unmeasured.simps, (elim disjE)?; simp add: checkTuned_def Let_def gap_simps)

lemma checkKernelPatch_gap: "unmeasured (KernelPatchInfo d) \<Longrightarrow> gap (checkKernelPatch d)"
  by (simp only: unmeasured.simps, (elim disjE)?; simp add: checkKernelPatch_def Let_def gap_simps)

lemma checkKsplice_gap: "unmeasured (KspliceInfo d) \<Longrightarrow> gap (checkKsplice d)"
  by (simp only: unmeasured.simps, (elim disjE)?; simp add: checkKsplice_def Let_def gap_simps)

lemma checkServiceRestart_gap: "unmeasured (ServiceRestartInfo d) \<Longrightarrow> gap (checkServiceRestart env d)"
  by (simp only: unmeasured.simps, (elim disjE)?; simp add: checkServiceRestart_def Let_def gap_simps)

lemma checkKernelRetention_gap: "unmeasured (KernelRetentionInfo d) \<Longrightarrow> gap (checkKernelRetention d)"
  by (simp only: unmeasured.simps, (elim disjE)?; simp add: checkKernelRetention_def Let_def gap_simps)

lemma checkLivePatch_gap: "unmeasured (LivePatchInfo d) \<Longrightarrow> gap (checkLivePatch d)"
  by (simp only: unmeasured.simps, (elim disjE)?; simp add: checkLivePatch_def Let_def gap_simps)

lemma checkTransactional_gap: "unmeasured (TransactionalInfo d) \<Longrightarrow> gap (checkTransactional d)"
  by (simp only: unmeasured.simps, (elim disjE)?; simp add: checkTransactional_def Let_def gap_simps)

lemma checkVault_gap: "unmeasured (VaultInfo d) \<Longrightarrow> gap (checkVault d)"
  by (simp only: unmeasured.simps, (elim disjE)?; simp add: checkVault_def Let_def gap_simps)

text \<open>A refused socket is disclosed by an INFO that counts as verified, so it leaves the verdict clean.\<close>

lemma docker_denied_verified:
  "\<not> docker_Available d \<Longrightarrow> docker_SocketPermDenied d \<Longrightarrow> docker_StatusReason d = m \<Longrightarrow> m \<noteq> [] \<Longrightarrow>
     checkDocker env d = [mk_full INFO virtCatDocker m []] \<and> Clean (Verdict rs (checkDocker env d)) = Clean (Verdict rs [])"
  by (simp add: checkDocker_def Verdict_clean_iff mk_full_def)

lemmas unmeasured_gaps = checkCPU_gap checkMemory_gap checkDisk_gap checkSwap_gap checkNetwork_gap checkNFS_gap checkNetworkdConfig_gap checkSystemd_gap checkLogs_gap checkNVMe_gap checkRAID_gap checkZFS_gap checkLVM_gap checkDRBD_gap checkPVE_gap checkThermal_gap checkHealthDeep_gap checkDocker_gap checkContainerd_gap checkElasticsearch_gap checkAlertmanager_gap checkGrafana_gap checkEnvoy_gap checkK8s_gap checkRancher_gap checkKVM_gap checkTLS_gap checkSecurity_gap checkProcesses_gap checkSUSEConnect_gap checkIPMI_gap checkOOM_gap checkPressure_gap checkHWRaid_gap checkCeph_gap checkFirewall_gap checkCloudMeta_gap checkCloudInit_gap checkKVMGuest_gap checkAWS_gap checkAuditd_gap checkISCSI_gap checkInfiniBand_gap checkCron_gap checkKdump_gap checkTuned_gap checkKernelPatch_gap checkKsplice_gap checkServiceRestart_gap checkKernelRetention_gap checkLivePatch_gap checkTransactional_gap checkVault_gap
end
