(* ===== verification/Naming.thy ===== *)
theory Naming
  imports Check_Base
begin

text \<open>
  Lemmas the properties of the checks share: when a message names a device, which insights a composed list has,
  and what holds of all of them.
\<close>

section \<open>Naming\<close>

definition names :: "insight \<Rightarrow> gostring \<Rightarrow> bool" where
  "names i n \<longleftrightarrow> contains (Message i) n"

lemma contains_here: "contains (x @ b) x"
  using contains_append [of "x @ b" x] by (metis append_Nil)

lemma contains_self: "contains x x"
  using contains_here [of x "[]"] by simp

lemma contains_right: "contains s p \<Longrightarrow> contains (a @ s) p"
  by (metis contains_append append.assoc)

lemma contains_left: "contains s p \<Longrightarrow> contains (s @ b) p"
  by (metis contains_append append.assoc)

lemma contains_join: "x \<in> set xs \<Longrightarrow> contains (join xs sep) x"
proof (induction xs sep rule: join.induct)
  case (3 w v vs sep)
  then show ?case
    by (cases "x = w") (auto simp: contains_here intro: contains_right)
qed (simp_all add: contains_self)

lemmas contains_intros = contains_here contains_self contains_right contains_left contains_join

lemma insight_sel:
  "Message (mk_full l c m h) = m" "Level (mk_full l c m h) = l" "\<not> Unverified (mk_full l c m h)"
  "Message (unverifiedInsight r l c m h) = m" "Level (unverifiedInsight r l c m h) = l"
  "Unverified (unverifiedInsight r l c m h)"
  by (simp_all add: mk_full_def unverifiedInsight_def)

lemma bex_append:
  "(\<exists>i \<in> set (xs @ ys). P i) \<longleftrightarrow> (\<exists>i \<in> set xs. P i) \<or> (\<exists>i \<in> set ys. P i)"
  by auto

lemma bex_concat: "x \<in> set xs \<Longrightarrow> \<exists>i \<in> set (f x). P i \<Longrightarrow> \<exists>i \<in> set (concat (map f xs)). P i"
  by auto

section \<open>Lists of insights\<close>

lemma every_insight:
  "\<forall>i \<in> set []. P i"
  "P i \<Longrightarrow> \<forall>i \<in> set is. P i \<Longrightarrow> \<forall>i \<in> set (i # is). P i"
  "\<forall>i \<in> set xs. P i \<Longrightarrow> \<forall>i \<in> set ys. P i \<Longrightarrow> \<forall>i \<in> set (xs @ ys). P i"
  "(\<And>x. x \<in> set zs \<Longrightarrow> \<forall>i \<in> set (f x). P i) \<Longrightarrow> \<forall>i \<in> set (concat (map f zs)). P i"
  "(b \<Longrightarrow> \<forall>i \<in> set xs. P i) \<Longrightarrow> (\<not> b \<Longrightarrow> \<forall>i \<in> set ys. P i) \<Longrightarrow> \<forall>i \<in> set (if b then xs else ys). P i"
  by auto

lemma disjCI2: "(\<not> P \<Longrightarrow> Q) \<Longrightarrow> P \<or> Q"
  by blast

lemma other_alternative: "P \<or> Q \<Longrightarrow> \<not> P \<Longrightarrow> Q"
  by blast

end
