(* ===== verification/Storage_Safety.thy ===== *)
theory Storage_Safety
  imports Checks_Storage Naming
begin

text \<open>
  What the storage checks promise: a drive whose health was not read is named in an unverified insight and an
  implausible reading never raises an alarm; an array or pool that left its healthy state is reported by name,
  whatever the state is called. The peer side of a DRBD replica is shown not to be looked at.
\<close>

section \<open>Arrays, pools and replicas\<close>

lemma raid_reported:
  assumes "arr \<in> set (raid_Arrays r)" and "raidDevice_State arr \<noteq> ''active''"
  shows "\<exists>i \<in> set (checkRAID env r). names i (raidDevice_Name arr) \<and> (Level i \<in> {CRIT, WARN} \<or> Unverified i)"
  unfolding checkRAID_def bex_append
  by (rule disjI2, rule bex_concat [OF assms(1)])
    (simp add: Let_def names_def insight_sel contains_intros assms(2) del: append_Cons contains.simps)

lemma zfs_reported:
  assumes "zfsPool_State pool \<noteq> ''ONLINE''"
  shows "\<exists>i \<in> set (checkZFSPool env pool). names i (zfsPool_Name pool) \<and> (Level i = CRIT \<or> Unverified i)"
  unfolding checkZFSPool_def Let_def bex_append
  by (rule disjI1)
    (simp add: Let_def names_def insight_sel contains_intros assms del: append_Cons contains.simps)

text \<open>
  Of a replica only the local side is looked at: the peer's disk state, which the collector parses, changes
  nothing, so a connected resource whose peer lost its disk has no second copy and no insight.
\<close>

lemma drbd_ignores_peer:
  "checkDRBDResource env (res\<lparr>drbdResource_RemoteDisk := s\<rparr>) = checkDRBDResource env res"
  by (cases res) (simp only: checkDRBDResource_def drbd_resource.select_convs drbd_resource.update_convs)

lemma drbd_peer_lost_silent:
  assumes "drbdResource_ConnState res = ''Connected''" and "drbdResource_LocalDisk res = ''UpToDate''"
    and "drbdResource_RemoteDisk res = ''Failed''"
  shows "checkDRBDResource env res = []"
  using assms by (simp add: checkDRBDResource_def)

section \<open>Drives\<close>

text \<open>What counts as a health reading of a drive.\<close>

definition nvme_read :: "nv_me_device \<Rightarrow> bool" where
  "nvme_read dev \<longleftrightarrow> nvmeDevice_SmartRead dev \<and> nvmeSmartPlausible dev \<and> \<not> NVMeNoRealData dev"

definition sata_read :: "sata_device \<Rightarrow> bool" where
  "sata_read dev \<longleftrightarrow> sataDevice_Error dev = [] \<and> sataDevice_SmartRead dev \<and> sataSmartPlausible dev"

text \<open>The drives of a kind are collected by name and named together.\<close>

lemma named_together:
  assumes "dev \<in> set xs" and "f dev = [n]"
  shows "\<exists>i \<in> set (if concat (map f xs) \<noteq> []
      then [unverifiedInsight r l c (itoa (int (length (concat (map f xs)))) @ a @ join (concat (map f xs)) sep @ b) h]
      else []). Unverified i \<and> names i n"
proof -
  from assms have n: "n \<in> set (concat (map f xs))" by force
  then have "concat (map f xs) \<noteq> []" by (metis empty_iff list.set(1))
  moreover have "contains (itoa k @ a @ join (concat (map f xs)) sep @ b) n" for k
    by (intro contains_right contains_left contains_join n)
  ultimately show ?thesis by (simp only: if_True list.set bex_simps names_def insight_sel simp_thms)
qed

lemma nvme_unread_named:
  assumes "\<not> nvme_DrivesListUnreadable n" and "dev \<in> set (nvme_Devices n)" and "\<not> nvme_read dev"
  shows "\<exists>i \<in> set (checkNVMe env n). Unverified i \<and> names i (nvmeDevice_Name dev)"
proof -
  consider "nvmeDevice_SmartRead dev" "\<not> nvmeSmartPlausible dev"
    | "nvmeDevice_SmartRead dev" "nvmeSmartPlausible dev" "NVMeNoRealData dev"
    | "\<not> nvmeDevice_SmartRead dev" "nvmeDevice_SmartUnreadReason dev = ''needs_root''"
    | "\<not> nvmeDevice_SmartRead dev" "nvmeDevice_SmartUnreadReason dev = ''error''"
    | "\<not> nvmeDevice_SmartRead dev" "nvmeDevice_SmartUnreadReason dev \<notin> {''needs_root'', ''error''}"
    using assms(3) by (auto simp: nvme_read_def)
  then show ?thesis
    by cases (simp only: checkNVMe_def Let_def assms(1) if_False append_Nil bex_append,
      ((rule disjI1, rule named_together [OF assms(2)], simp; fail) | rule disjI2)+)+
qed

lemma sata_unread_named:
  assumes "\<not> nvme_DrivesListUnreadable n" and "dev \<in> set (nvme_SATADevices n)" and "\<not> sata_read dev"
  shows "\<exists>i \<in> set (checkNVMe env n). Unverified i \<and> names i (sataDevice_Name dev)"
proof -
  consider "sataDevice_Error dev = []" "sataDevice_SmartRead dev" "\<not> sataSmartPlausible dev"
    | "sataDevice_Error dev \<noteq> [] \<or> \<not> sataDevice_SmartRead dev" "sataDevice_SmartUnreadReason dev = ''needs_root''"
    | "sataDevice_Error dev \<noteq> [] \<or> \<not> sataDevice_SmartRead dev" "sataDevice_SmartUnreadReason dev \<noteq> ''needs_root''"
    using assms(3) by (auto simp: sata_read_def)
  then show ?thesis
    by cases (simp only: checkNVMe_def Let_def assms(1) if_False append_Nil bex_append,
      ((rule disjI1, rule named_together [OF assms(2)], simp; fail)
        | (rule named_together [OF assms(2)], simp; fail) | rule disjI2)+)+
qed

text \<open>The other direction: an alarm comes from a drive whose reading was accepted.\<close>

lemma drive_alarm_read:
  assumes "i \<in> set (checkNVMe env n)" and "\<not> Unverified i"
  shows "(\<exists>dev \<in> set (nvme_Devices n). (nvmeDevice_SmartRead dev \<longrightarrow> nvme_read dev) \<and> names i (nvmeDevice_Name dev)) \<or>
    (\<exists>dev \<in> set (nvme_SATADevices n). sata_read dev \<and> names i (sataDevice_Name dev))"
proof -
  define P where "P i \<longleftrightarrow> Unverified i \<or>
    (\<exists>dev \<in> set (nvme_Devices n). (nvmeDevice_SmartRead dev \<longrightarrow> nvme_read dev) \<and> names i (nvmeDevice_Name dev)) \<or>
    (\<exists>dev \<in> set (nvme_SATADevices n). sata_read dev \<and> names i (sataDevice_Name dev))" for i
  have unverified: "P (unverifiedInsight r l c m h)" for r l c m h
    by (simp add: P_def insight_sel)
  have nvme: "P (mk_full l c (nvmeDevice_Name dev @ m) h)"
    if "dev \<in> set (nvme_Devices n)" "\<not> (nvmeDevice_SmartRead dev \<and> \<not> nvmeSmartPlausible dev)"
      "\<not> (nvmeDevice_SmartRead dev \<and> NVMeNoRealData dev)" for dev l c m h
    using that by (auto simp: P_def names_def insight_sel contains_here nvme_read_def)
  have sata: "P (mk_full l c (sataDevice_Name dev @ m) h)"
    if "dev \<in> set (nvme_SATADevices n)" "\<not> (sataDevice_Error dev \<noteq> [] \<or> \<not> sataDevice_SmartRead dev)"
      "\<not> \<not> sataSmartPlausible dev" for dev l c m h
    using that by (auto simp: P_def names_def insight_sel contains_here sata_read_def)
  have "\<forall>i \<in> set (checkNVMe env n). P i"
    unfolding checkNVMe_def Let_def
    by (intro every_insight unverified; (rule nvme | rule sata); assumption)
  with assms show ?thesis by (auto simp: P_def)
qed

section \<open>Volume groups\<close>

text \<open>A volume group without a mounted volume, as if none of its physical volumes were missing.\<close>

definition hide_missing :: "lvmvg \<Rightarrow> lvmvg" where
  "hide_missing vg = (if lvmvg_HasMountedLV vg then vg else vg\<lparr>lvmvg_MissingPVs := 0\<rparr>)"

lemma hide_missing_sel [simp]:
  "lvmvg_Name (hide_missing vg) = lvmvg_Name vg" "lvmvg_HasMountedLV (hide_missing vg) = lvmvg_HasMountedLV vg"
  "lvmvg_FreePct (hide_missing vg) = lvmvg_FreePct vg" "lvmvg_FreeGB (hide_missing vg) = lvmvg_FreeGB vg"
  "lvmvg_SizeGB (hide_missing vg) = lvmvg_SizeGB vg"
  "lvmvg_HasMountedLV vg \<Longrightarrow> lvmvg_MissingPVs (hide_missing vg) = lvmvg_MissingPVs vg"
  by (simp_all add: hide_missing_def)

lemma checkLVMRaid_VGs:
  "checkLVMRaid (l\<lparr>lvm_VGs := map hide_missing (lvm_VGs l)\<rparr>) = checkLVMRaid l"
  unfolding checkLVMRaid_def by simp

lemma concat_hide_missing:
  "(\<And>vg. f (hide_missing vg) = f vg) \<Longrightarrow> concat (map f (map hide_missing vgs)) = concat (map f vgs)"
  by (simp add: comp_def)

lemma checkLVM_hide_missing: "checkLVM (l\<lparr>lvm_VGs := map hide_missing (lvm_VGs l)\<rparr>) = checkLVM l"
proof -
  have sel: "lvm_PresenceReadFailed (l\<lparr>lvm_VGs := vgs\<rparr>) = lvm_PresenceReadFailed l"
    "lvm_ThinPools (l\<lparr>lvm_VGs := vgs\<rparr>) = lvm_ThinPools l" "lvm_Snapshots (l\<lparr>lvm_VGs := vgs\<rparr>) = lvm_Snapshots l"
    "lvm_VGs (l\<lparr>lvm_VGs := vgs\<rparr>) = vgs" for vgs
    by simp_all
  show ?thesis
    unfolding checkLVM_def checkLVMRaid_VGs sel
    apply (subst concat_hide_missing)
    subgoal for vg
      by (cases "lvmvg_HasMountedLV vg")
        (simp_all add: hide_missing_def Let_def)
    by (rule refl)
qed

lemma missing_pv_mounted:
  assumes "\<not> lvm_PresenceReadFailed l" and "vg \<in> set (lvm_VGs l)" and "lvmvg_HasMountedLV vg" and "0 < lvmvg_MissingPVs vg"
  shows "\<exists>i \<in> set (checkLVM l). Level i = CRIT \<and> names i (lvmvg_Name vg)"
  unfolding checkLVM_def bex_append if_not_P [OF assms(1)]
  by (rule disjI2, rule disjI1, rule bex_concat [OF assms(2)])
    (simp add: Let_def bex_append names_def insight_sel contains_intros assms(3,4) del: append_Cons contains.simps set_append)

section \<open>Filesystems\<close>

lemma disk_full_reported:
  assumes "fs \<in> set (disk_Filesystems disk)" and "\<not> IsInherentlyReadOnlyFS (filesystem_FSType fs)"
    and "fle (DiskCritPct thresh) (filesystem_UsedPct fs)"
  shows "\<exists>i \<in> set (checkDisk disk thresh). Level i = CRIT \<and> Check i = ''Disk'' \<and> names i (filesystem_Mount fs)"
proof -
  have crit: "levelPct (filesystem_UsedPct fs) w (DiskCritPct thresh) = CRIT" for w
    using assms(3) by (simp add: levelPct_def)
  show ?thesis
    unfolding checkDisk_def Let_def bex_append
    by (rule disjI1, rule bex_concat [OF assms(1)])
      (simp add: assms(2) crit bex_append names_def insight_sel mk_full_def contains_intros
        del: append_Cons contains.simps set_append)
qed

section \<open>Samples\<close>

definition sample_drive :: nv_me_device where
  "sample_drive =
     \<lparr>nvmeDevice_Name = ''nvme0n1'', nvmeDevice_TempC = Fin 0, nvmeDevice_AvailableSparePct = 0,
      nvmeDevice_SpareThresholdPct = 0, nvmeDevice_PercentageUsed = 0, nvmeDevice_CriticalWarning = 0,
      nvmeDevice_MediaErrors = 0, nvmeDevice_UnsafeShutdowns = 0, nvmeDevice_PowerOnHours = 0,
      nvmeDevice_PowerCycles = 0, nvmeDevice_SmartRead = False, nvmeDevice_SmartUnreadReason = ''needs_root'',
      nvmeDevice_SmartDangerousFieldsUnread = False\<rparr>"

definition sample_drives :: nv_me_info where
  "sample_drives = \<lparr>nvme_Devices = [sample_drive], nvme_SATADevices = [], nvme_DrivesListUnreadable = False\<rparr>"

definition worn_drive :: nv_me_device where
  "worn_drive = sample_drive\<lparr>nvmeDevice_SmartRead := True, nvmeDevice_TempC := Fin 40, nvmeDevice_MediaErrors := 3\<rparr>"

definition worn_drives :: nv_me_info where
  "worn_drives = \<lparr>nvme_Devices = [worn_drive], nvme_SATADevices = [], nvme_DrivesListUnreadable = False\<rparr>"

definition media_alarm :: insight where
  "media_alarm =
     mk_full CRIT ''Drives''
       (''nvme0n1'' @ '' has '' @ itoa 3 @ '' media error(s) '' @ em_dash @ '' data integrity risk'')
       [inspectNVMEPrefix @ ''nvme0n1'']"

definition sample_array :: raid_device where
  "sample_array =
     \<lparr>raidDevice_Name = ''md0'', raidDevice_Level = ''raid1'', raidDevice_State = ''degraded'', raidDevice_Active = 1,
      raidDevice_Total = 2, raidDevice_Failed = [''sdb''], raidDevice_Spare = [], raidDevice_RebuildPct = Fin 0\<rparr>"

definition sample_raid :: raid_info where
  "sample_raid = \<lparr>raid_Arrays = [sample_array], raid_ReadFailed = False\<rparr>"

definition sample_vg :: lvmvg where
  "sample_vg =
     \<lparr>lvmvg_Name = ''data'', lvmvg_SizeGB = Fin 100, lvmvg_FreeGB = Fin 50, lvmvg_FreePct = Fin 50,
      lvmvg_MissingPVs = 1, lvmvg_HasMountedLV = True\<rparr>"

definition sample_lvm :: lvm_info where
  "sample_lvm =
     \<lparr>lvm_VGs = [sample_vg], lvm_ThinPools = [], lvm_Snapshots = [], lvm_RaidLVs = [], lvm_RaidReadFailed = False,
      lvm_VGReadFailed = False, lvm_PVReadFailed = False, lvm_LVReadFailed = False, lvm_PresenceReadFailed = False\<rparr>"

section \<open>Properties\<close>

text \<open>C7: No drive drops out of the report: every NVMe, SATA or SAS drive whose SMART log was not read, is
  implausible or holds no data at all is named in an unverified insight.\<close>

theorem drives_accounted:
  assumes "\<not> nvme_DrivesListUnreadable n"
  shows "(\<forall>dev \<in> set (nvme_Devices n). nvme_read dev \<or>
      (\<exists>i \<in> set (checkNVMe env n). Unverified i \<and> names i (nvmeDevice_Name dev))) \<and>
    (\<forall>dev \<in> set (nvme_SATADevices n). sata_read dev \<or>
      (\<exists>i \<in> set (checkNVMe env n). Unverified i \<and> names i (sataDevice_Name dev)))"
  using nvme_unread_named [OF assms] sata_unread_named [OF assms] by blast

theorem drives_accounted_witness:
  "\<forall>env. \<exists>i \<in> set (checkNVMe env sample_drives). Unverified i \<and> names i ''nvme0n1''"
proof
  fix env
  have "\<not> nvme_DrivesListUnreadable sample_drives" "\<not> nvme_read sample_drive"
    "sample_drive \<in> set (nvme_Devices sample_drives)" "nvmeDevice_Name sample_drive = ''nvme0n1''"
    by (simp_all add: sample_drives_def sample_drive_def nvme_read_def)
  with drives_accounted [of sample_drives env]
  show "\<exists>i \<in> set (checkNVMe env sample_drives). Unverified i \<and> names i ''nvme0n1''" by metis
qed



text \<open>C9: Lost redundancy of an array or a pool is never silent: an md array that is not active is reported by
  name as WARN or CRIT, a ZFS pool that is not ONLINE is reported by name as CRIT, and one in a state the check
  does not know is reported by name as unverified.\<close>

theorem redundancy_loss_reported:
  "(\<forall>arr \<in> set (raid_Arrays r). raidDevice_State arr = ''active'' \<or>
      (\<exists>i \<in> set (checkRAID env r). names i (raidDevice_Name arr) \<and> (Level i \<in> {CRIT, WARN} \<or> Unverified i))) \<and>
   (\<forall>pool \<in> set (zfs_Pools z). zfsPool_State pool = ''ONLINE'' \<or>
      (\<exists>i \<in> set (checkZFS env z). names i (zfsPool_Name pool) \<and> (Level i = CRIT \<or> Unverified i)))"
proof (intro conjI ballI)
  show "raidDevice_State arr = ''active'' \<or>
      (\<exists>i \<in> set (checkRAID env r). names i (raidDevice_Name arr) \<and> (Level i \<in> {CRIT, WARN} \<or> Unverified i))"
    if "arr \<in> set (raid_Arrays r)" for arr
    by (rule disjCI2) (rule raid_reported [OF that])
  show "zfsPool_State pool = ''ONLINE'' \<or>
      (\<exists>i \<in> set (checkZFS env z). names i (zfsPool_Name pool) \<and> (Level i = CRIT \<or> Unverified i))"
    if "pool \<in> set (zfs_Pools z)" for pool
    unfolding checkZFS_def bex_append by (rule disjCI2) (intro disjI2 bex_concat [OF that] zfs_reported)
qed

theorem redundancy_loss_reported_witness:
  "\<forall>env. \<exists>i \<in> set (checkRAID env sample_raid). names i ''md0'' \<and> (Level i \<in> {CRIT, WARN} \<or> Unverified i)"
proof
  fix env
  have sample: "sample_array \<in> set (raid_Arrays sample_raid)" "raidDevice_State sample_array \<noteq> ''active''"
    "raidDevice_Name sample_array = ''md0''"
    by (simp_all add: sample_raid_def sample_array_def)
  have "\<forall>arr \<in> set (raid_Arrays sample_raid). raidDevice_State arr = ''active'' \<or>
      (\<exists>i \<in> set (checkRAID env sample_raid). names i (raidDevice_Name arr) \<and> (Level i \<in> {CRIT, WARN} \<or> Unverified i))"
    by (rule redundancy_loss_reported [THEN conjunct1])
  from bspec [OF this sample(1)] sample(2)
  show "\<exists>i \<in> set (checkRAID env sample_raid). names i ''md0'' \<and> (Level i \<in> {CRIT, WARN} \<or> Unverified i)"
    unfolding sample(3) by (rule other_alternative)
qed

text \<open>A volume group that lost a physical volume is critical only while one of its logical volumes is mounted;
  of an unmounted group, whose volumes may be the ones that are gone, the missing volumes are not reported at all.\<close>

theorem missing_pv_needs_mount:
  assumes "\<not> lvm_PresenceReadFailed l"
  shows "(\<forall>vg \<in> set (lvm_VGs l). lvmvg_HasMountedLV vg \<longrightarrow> 0 < lvmvg_MissingPVs vg \<longrightarrow>
      (\<exists>i \<in> set (checkLVM l). Level i = CRIT \<and> names i (lvmvg_Name vg))) \<and>
    checkLVM (l\<lparr>lvm_VGs := map hide_missing (lvm_VGs l)\<rparr>) = checkLVM l"
proof
  show "\<forall>vg \<in> set (lvm_VGs l). lvmvg_HasMountedLV vg \<longrightarrow> 0 < lvmvg_MissingPVs vg \<longrightarrow>
      (\<exists>i \<in> set (checkLVM l). Level i = CRIT \<and> names i (lvmvg_Name vg))"
    using missing_pv_mounted [OF assms] by blast
  show "checkLVM (l\<lparr>lvm_VGs := map hide_missing (lvm_VGs l)\<rparr>) = checkLVM l"
    by (rule checkLVM_hide_missing)
qed

theorem missing_pv_needs_mount_witness:
  "(\<exists>i \<in> set (checkLVM sample_lvm). Level i = CRIT \<and> names i ''data'') \<and>
   checkLVM (sample_lvm\<lparr>lvm_VGs := map hide_missing (lvm_VGs sample_lvm)\<rparr>) = checkLVM sample_lvm"
proof -
  have sample: "\<not> lvm_PresenceReadFailed sample_lvm" "sample_vg \<in> set (lvm_VGs sample_lvm)"
    "lvmvg_HasMountedLV sample_vg" "0 < lvmvg_MissingPVs sample_vg" "lvmvg_Name sample_vg = ''data''"
    by (simp_all add: sample_lvm_def sample_vg_def)
  have "\<forall>vg \<in> set (lvm_VGs sample_lvm). lvmvg_HasMountedLV vg \<longrightarrow> 0 < lvmvg_MissingPVs vg \<longrightarrow>
      (\<exists>i \<in> set (checkLVM sample_lvm). Level i = CRIT \<and> names i (lvmvg_Name vg))"
    by (rule missing_pv_needs_mount [OF sample(1), THEN conjunct1])
  from mp [OF mp [OF bspec [OF this sample(2)] sample(3)] sample(4)]
  show ?thesis unfolding sample(5)
    by (rule conjI [OF _ missing_pv_needs_mount [OF sample(1), THEN conjunct2]])
qed

end
