(* ===== verification/Run_Safety.thy ===== *)
theory Run_Safety
  imports Unmeasured Storage_Safety
begin

text \<open>
  What a whole run of \<open>ApplyThresholds\<close> followed by \<open>Verdict\<close> guarantees: its insights are well-formed, the
  verdict does not depend on the tools of the host, and neither a collector that failed nor a measurement
  that was not taken can end in a clean verdict.
\<close>

section \<open>Well-formedness along the pipeline\<close>

lemma wf_insights_iff: "wf_insights is \<longleftrightarrow> (\<forall>i \<in> set is. wf_insight i)"
  by (simp add: wf_insights_def list_all_iff)

lemma ReasonOfErr_reason: "ReasonOfErr e \<in> set UnverifiedReasons"
  by (auto simp: ReasonOfErr_def UnverifiedReasons_def)

lemma markNotRecorded_wf: "wf_insights is \<Longrightarrow> wf_insights (markNotRecorded is)"
  by (auto simp: wf_insights_iff markNotRecorded_def wf_insight_def reason_literals)

lemma apply_result_wf: "wf_insights (apply_result env thresh ctrCtx r)"
  by (simp add: apply_result_def applyOne_wf wf_Nil split: option.split)

lemma result_insights_wf:
  assumes "\<And>r. wf_insights (f r)"
  shows "wf_insights (result_insights f r)"
  using assms
  by (auto simp: result_insights_def Let_def ReasonOfErr_reason level_facts
      intro!: wf_Cons wf_Nil wf_unverified markNotRecorded_wf split: option.split)

lemma checked_insights_wf: "wf_insights (checked_insights env results thresh ctrCtx)"
  by (auto simp: checked_insights_def intro!: wf_concat_map result_insights_wf apply_result_wf split: prod.split)

lemma wf_insight_hints [simp]: "wf_insight (i\<lparr>Hints := hs\<rparr>) = wf_insight i"
  by (simp add: wf_insight_def)

lemma dedupe_wf: "wf_insights is \<Longrightarrow> wf_insights (dedupeSELinuxDenials is)"
  by (auto simp: wf_insights_iff dedupeSELinuxDenials_def)

lemma list_all2_image:
  assumes "list_all2 P xs ys"
  shows "y \<in> set ys \<Longrightarrow> \<exists>x \<in> set xs. P x y" and "x \<in> set xs \<Longrightarrow> \<exists>y \<in> set ys. P x y"
  using assms by (auto simp: list_all2_conv_all_nth in_set_conv_nth) (metis nth_mem)+

lemma same_but_hints_wf:
  assumes "list_all2 same_but_hints xs ys" and "wf_insights xs"
  shows "wf_insights ys"
  unfolding wf_insights_iff
proof
  fix y assume "y \<in> set ys"
  then obtain x where x: "x \<in> set xs" and s: "same_but_hints x y"
    using list_all2_image(1) [OF assms(1)] by blast
  from x assms(2) have "wf_insight x" by (simp add: wf_insights_iff)
  then show "wf_insight y" by (simp add: wf_insight_def same_but_hints_fields [OF s])
qed

section \<open>Gaps along the pipeline\<close>

lemma unmeasured_gap: "unmeasured p \<Longrightarrow> gap (applyOne env thresh ctrCtx p)"
  by (cases p) (simp_all only: applyOne_def payload.case applyOneExtended.simps unmeasured_gaps unmeasured.simps simp_thms)

lemma unmeasured_inject [simp]: "unmeasured (inject_payload ctx p) = unmeasured p"
  by (cases p) (simp_all add: inject_payload_def)

lemma gap_map:
  assumes "gap is" and "\<And>i. Unverified (f i) = Unverified i" and "\<And>i. isDenial (f i) ''Hardening'' = isDenial i ''Hardening''"
  shows "gap (map f is)"
  using assms by (auto simp: gap_def)

lemma gap_markNotRecorded: "gap is \<Longrightarrow> gap (markNotRecorded is)"
  unfolding markNotRecorded_def by (rule gap_map) (simp_all add: isDenial_def)

lemma gap_concat: "x \<in> set xs \<Longrightarrow> gap (f x) \<Longrightarrow> gap (concat (map f xs))"
  by (auto simp: gap_def)

lemma gap_checked:
  assumes "r \<in> set results"
    and "\<And>ctx t. gap (result_insights (apply_result env t ctrCtx) (inject_context ctx r))"
  shows "gap (checked_insights env results thresh ctrCtx)"
proof -
  obtain ctx t where c: "prescanContext results thresh = (ctx, t)" by (rule prod.exhaust)
  have "inject_context ctx r \<in> set (map (inject_context ctx) results)" using assms(1) by simp
  from gap_concat [OF this, of "result_insights (apply_result env t ctrCtx)"] assms(2) show ?thesis
    by (simp only: checked_insights_def c prod.case Let_def)
qed

text \<open>An insight that is no Hardening duplicate reaches the end of the pipeline, up to its hints.\<close>

lemma map_survives: "i \<in> set is \<Longrightarrow> same_but_hints i (f i) \<Longrightarrow> \<exists>j \<in> set (map f is). same_but_hints i j"
  by auto

lemma dedupe_survives:
  "i \<in> set is \<Longrightarrow> \<not> isDenial i ''Hardening'' \<Longrightarrow> \<exists>j \<in> set (dedupeSELinuxDenials is). same_but_hints i j"
  unfolding dedupeSELinuxDenials_def if_distrib [of set]
  by (cases "list_ex (\<lambda>i. isDenial i ''KernelSec'') is \<and>
      list_ex (\<lambda>i. \<not> isDenial i ''KernelSec'' \<and> isDenial i ''Hardening'') is"; simp only: if_True if_False simp_thms)
    (rule map_survives, simp_all, blast intro: same_but_hints_refl)

lemma ApplyThresholds_survives:
  assumes "i \<in> set (checked_insights env results thresh ctrCtx)" and "\<not> isDenial i ''Hardening''"
  shows "\<exists>j \<in> set (ApplyThresholds env host results thresh ctrCtx). same_but_hints i j"
proof -
  from dedupe_survives [OF assms] obtain j
    where j: "j \<in> set (dedupeSELinuxDenials (checked_insights env results thresh ctrCtx))" "same_but_hints i j" by blast
  from list_all2_image(2) [OF AdaptHostHints_hints_only j(1)] j(2) show ?thesis
    unfolding ApplyThresholds_def by (blast intro: same_but_hints_trans)
qed

lemma gap_ApplyThresholds:
  assumes "gap (checked_insights env results thresh ctrCtx)"
  shows "gap (ApplyThresholds env host results thresh ctrCtx)"
proof -
  from assms obtain i where i: "i \<in> set (checked_insights env results thresh ctrCtx)" "Unverified i"
    "\<not> isDenial i ''Hardening''" by (auto simp: gap_def)
  from ApplyThresholds_survives [OF i(1,3)] obtain j
    where j: "j \<in> set (ApplyThresholds env host results thresh ctrCtx)" and s: "same_but_hints i j" by blast
  from i(2,3) have "Unverified j" "\<not> isDenial j ''Hardening''"
    by (simp_all add: same_but_hints_fields [OF s] isDenial_def)
  with j show ?thesis by (auto simp: gap_def)
qed

lemma gap_not_clean:
  assumes "gap is"
  shows "\<not> Clean (Verdict rs is)"
proof -
  from assms obtain i where i: "i \<in> set is" "Unverified i" by (auto simp: gap_def)
  show ?thesis
  proof (cases "NeedsRoot i")
    case True
    with i have "0 < count_by unverified_root is" by (auto simp: count_by_pos unverified_root_def)
    then show ?thesis by (simp add: Clean_def Verdict_counts)
  next
    case False
    with i have "\<exists>i \<in> set is. unverified_floor i" by (auto simp: unverified_floor_def)
    then show ?thesis by (simp add: Clean_def VLevel_Verdict)
  qed
qed

section \<open>What the verdict reads\<close>

lemma verdict_insight_cong:
  assumes "same_but_hints x y"
  shows "verdict_insight acc y = verdict_insight acc x"
  by (cases acc) (simp add: same_but_hints_fields [OF assms] Let_def)

lemma Verdict_same_but_hints:
  assumes "list_all2 same_but_hints xs ys"
  shows "Verdict rs ys = Verdict rs xs"
proof -
  from assms have "foldl verdict_insight acc ys = foldl verdict_insight acc xs" for acc
    by (induction xs ys arbitrary: acc rule: list_all2_induct) (simp_all add: verdict_insight_cong)
  then show ?thesis by (simp add: Verdict_def)
qed

lemma Verdict_ApplyThresholds:
  "Verdict rs (ApplyThresholds env host results thresh ctrCtx) =
     Verdict rs (dedupeSELinuxDenials (checked_insights env results thresh ctrCtx))"
  unfolding ApplyThresholds_def by (rule Verdict_same_but_hints [OF AdaptHostHints_hints_only])

lemma errored_truncate: "errored (result.truncate r) = (Err r \<noteq> None)"
  by (simp add: errored_def result.truncate_def)

lemma checked_insights_member:
  assumes "r \<in> set results" and "\<And>ctx t. i \<in> set (result_insights (apply_result env t ctrCtx) (inject_context ctx r))"
  shows "i \<in> set (checked_insights env results thresh ctrCtx)"
proof -
  obtain ctx t where c: "prescanContext results thresh = (ctx, t)" by (rule prod.exhaust)
  from assms show ?thesis by (simp add: checked_insights_def c Let_def) blast
qed

lemma failed_insight:
  assumes "r \<in> set results" and "Err r = Some e"
  shows "unverifiedInsight
      (if NotRecorded r \<and> ReasonOfErr e = ReasonCollectorError then ReasonNotRecorded else ReasonOfErr e)
      INFO (Name r) (''check could not run '' @ em_dash @ '' '' @ ErrText e) []
    \<in> set (checked_insights env results thresh ctrCtx)"
  by (rule checked_insights_member [OF assms(1)]) (simp add: result_insights_def inject_context_def assms(2) Let_def)

section \<open>The pre-scan\<close>

text \<open>A flag of the pre-scan, as the measurement that raises it.\<close>

definition enforcing_payload :: "payload \<Rightarrow> bool" where
  "enforcing_payload p \<longleftrightarrow>
     (case p of KernelSecurityInfo d \<Rightarrow> kernelSecurity_SELinuxPresent d \<and> kernelSecurity_SELinuxMode d = ''enforcing''
      | _ \<Rightarrow> False)"

definition zfs_payload :: "payload \<Rightarrow> bool" where
  "zfs_payload p \<longleftrightarrow>
     (case p of ZFSInfo d \<Rightarrow> zfs_Pools d \<noteq> [] | DiskInfo d \<Rightarrow> disk_ZFSPools d \<noteq> [] | _ \<Rightarrow> False)"

definition swap_payload :: "payload \<Rightarrow> bool" where
  "swap_payload p \<longleftrightarrow> (case p of SwapInfo d \<Rightarrow> swapInUse d | _ \<Rightarrow> False)"

lemmas prescan_cases =
  prescan_payload_def enforcing_payload_def zfs_payload_def swap_payload_def prod.case fst_conv payload.case

lemma prescan_payload_enforcing:
  "selinuxEnforcing (fst (prescan_payload p (ctx, t))) = (selinuxEnforcing ctx \<or> enforcing_payload p)"
  by (cases p; simp only: prescan_cases; auto)

lemma prescan_payload_zfs:
  "zfsPoolsPresent (fst (prescan_payload p (ctx, t))) = (zfsPoolsPresent ctx \<or> zfs_payload p)"
  by (cases p; simp only: prescan_cases; auto)

lemma prescan_payload_swap:
  "swapActive (fst (prescan_payload p (ctx, t))) = (swapActive ctx \<or> swap_payload p)"
  by (cases p; simp only: prescan_cases; auto)

lemma prescan_payload_flags:
  "selinuxEnforcing (fst (prescan_payload p acc)) = (selinuxEnforcing (fst acc) \<or> enforcing_payload p)"
  "zfsPoolsPresent (fst (prescan_payload p acc)) = (zfsPoolsPresent (fst acc) \<or> zfs_payload p)"
  "swapActive (fst (prescan_payload p acc)) = (swapActive (fst acc) \<or> swap_payload p)"
  by (cases acc, simp only: prescan_payload_enforcing prescan_payload_zfs prescan_payload_swap fst_conv)+

definition has_payload :: "(payload \<Rightarrow> bool) \<Rightarrow> analysed list \<Rightarrow> bool" where
  "has_payload P results \<longleftrightarrow> (\<exists>r \<in> set results. Err r = None \<and> (\<exists>p. Payload r = Some p \<and> P p))"

lemma prescan_fold_flags:
  "selinuxEnforcing (fst (foldl prescan_step acc rs)) = (selinuxEnforcing (fst acc) \<or> has_payload enforcing_payload rs)"
  "zfsPoolsPresent (fst (foldl prescan_step acc rs)) = (zfsPoolsPresent (fst acc) \<or> has_payload zfs_payload rs)"
  "swapActive (fst (foldl prescan_step acc rs)) = (swapActive (fst acc) \<or> has_payload swap_payload rs)"
  by (induction rs arbitrary: acc)
    (auto simp: prescan_step_def prescan_payload_flags has_payload_def split: option.splits)

section \<open>Properties\<close>

text \<open>Sample results, for the witnesses.\<close>

definition sample_result :: "gostring \<Rightarrow> go_error option \<Rightarrow> payload option \<Rightarrow> analysed" where
  "sample_result n e p =
     \<lparr>Name = n, RData = Data None, Err = e, Duration = 0, Absent = [], NotRecorded = False, Payload = p\<rparr>"

lemma sample_result_sel:
  "Name (sample_result n e p) = n" "Err (sample_result n e p) = e" "Payload (sample_result n e p) = p"
  "NotRecorded (sample_result n e p) = False"
  by (simp_all add: sample_result_def)

definition sample_swap :: swap_info where
  "sample_swap =
     \<lparr>swap_TotalGB = Fin 0, swap_UsedGB = Fin 0, swap_UsedPct = Fin 0, swap_PagesInPerSec = Fin 0,
      swap_PagesOutPerSec = Fin 0, swap_ZramDevices = 0, swap_MemPressureLevel = 0, swap_SwapsUnreadable = True,
      swap_ZramUnreadable = False\<rparr>"

definition sample_filesystem :: filesystem_info where
  "sample_filesystem =
     \<lparr>filesystem_Mount = ''/'', filesystem_Device = ''/dev/sda1'', filesystem_FSType = ''ext4'',
      filesystem_TotalGB = Fin 100, filesystem_UsedPct = Fin 97, filesystem_InodesUsedPct = Fin 10,
      filesystem_ReadOnly = False, filesystem_DeviceSizeGB = Fin 100, filesystem_BusyProcesses = [],
      filesystem_BusyCheckNeedsRoot = False\<rparr>"

definition sample_disk :: disk_info where
  "sample_disk =
     \<lparr>disk_Filesystems = [sample_filesystem], disk_UnreachableMounts = [], disk_Drives = [],
      disk_DrivesListUnreadable = False, disk_ZFSPools = [], disk_ZFSListReadFailed = False, disk_BtrfsVolumes = [],
      disk_SteamOS = None, disk_ImmutableRootFS = False\<rparr>"

abbreviation run_verdict ::
  "environment \<Rightarrow> host_tools \<Rightarrow> analysed list \<Rightarrow> thresholds \<Rightarrow> container_context \<Rightarrow> verdict_info" where
  "run_verdict env host results thresh ctrCtx \<equiv>
     Verdict (map result.truncate results) (ApplyThresholds env host results thresh ctrCtx)"

text \<open>C4: Every insight of a run is well-formed, whatever the collectors returned: its level is one of the four
  levels, a verified insight has no reason and never asks for root, and an unverified one has one of the
  six reasons of the vocabulary.\<close>

theorem ApplyThresholds_wf: "wf_insights (ApplyThresholds env host results thresh ctrCtx)"
  unfolding ApplyThresholds_def
  by (rule same_but_hints_wf [OF AdaptHostHints_hints_only dedupe_wf [OF checked_insights_wf]])



text \<open>C3: A collector that failed keeps the run from being OK, whichever it is, and the run reports it by name
  as unverified with the text and the reason of its error. Only the security collector's report can be lost,
  and only if its error text reads like the SELinux denial verdict that is collapsed with its duplicate.\<close>

theorem failed_collector_reported:
  fixes r and e :: go_error
  defines "m \<equiv> ''check could not run '' @ em_dash @ '' '' @ ErrText e"
  assumes "r \<in> set results" and "Err r = Some e"
  shows "VLevel (run_verdict env host results thresh ctrCtx) \<in> {WARN, CRIT} \<and>
    ((Name r = ''Hardening'' \<and> contains m ''SELinux denial'' \<and> contains m ''last hour'') \<or>
     (\<exists>i \<in> set (ApplyThresholds env host results thresh ctrCtx).
        Check i = Name r \<and> Message i = m \<and> Unverified i \<and>
        UnverifiedReason i = (if NotRecorded r \<and> ReasonOfErr e = ReasonCollectorError then ReasonNotRecorded
                              else ReasonOfErr e)))"
proof
  have "\<exists>r \<in> set (map result.truncate results). errored r"
    using assms(2,3) by (auto simp: errored_truncate)
  then show "VLevel (run_verdict env host results thresh ctrCtx) \<in> {WARN, CRIT}"
    by (simp add: VLevel_Verdict)
next
  let ?reason = "if NotRecorded r \<and> ReasonOfErr e = ReasonCollectorError then ReasonNotRecorded else ReasonOfErr e"
  have i: "unverifiedInsight ?reason INFO (Name r) m [] \<in> set (checked_insights env results thresh ctrCtx)"
    unfolding m_def by (rule failed_insight [OF assms(2,3)])
  have sel: "Check (unverifiedInsight ?reason INFO (Name r) m []) = Name r"
    "Message (unverifiedInsight ?reason INFO (Name r) m []) = m"
    "Unverified (unverifiedInsight ?reason INFO (Name r) m [])"
    "UnverifiedReason (unverifiedInsight ?reason INFO (Name r) m []) = ?reason"
    by (simp_all add: unverifiedInsight_def mk_full_def)
  show "(Name r = ''Hardening'' \<and> contains m ''SELinux denial'' \<and> contains m ''last hour'') \<or>
    (\<exists>i \<in> set (ApplyThresholds env host results thresh ctrCtx).
       Check i = Name r \<and> Message i = m \<and> Unverified i \<and> UnverifiedReason i = ?reason)"
  proof (rule disjCI2)
    assume "\<not> (Name r = ''Hardening'' \<and> contains m ''SELinux denial'' \<and> contains m ''last hour'')"
    then have "\<not> isDenial (unverifiedInsight ?reason INFO (Name r) m []) ''Hardening''"
      unfolding isDenial_def sel .
    from ApplyThresholds_survives [OF i this] obtain j
      where j: "j \<in> set (ApplyThresholds env host results thresh ctrCtx)"
        and s: "same_but_hints (unverifiedInsight ?reason INFO (Name r) m []) j" by blast
    have "Check j = Name r" "Message j = m" "Unverified j" "UnverifiedReason j = ?reason"
      by (simp_all only: same_but_hints_fields [OF s] sel)
    with j show "\<exists>i \<in> set (ApplyThresholds env host results thresh ctrCtx).
       Check i = Name r \<and> Message i = m \<and> Unverified i \<and> UnverifiedReason i = ?reason" by blast
  qed
qed

theorem failed_collector_reported_witness:
  "\<forall>env host thresh ctrCtx.
     VLevel (run_verdict env host [sample_result ''NTP'' (Some \<lparr>ErrText = ''timeout'', ErrChain = [DeadlineExceeded]\<rparr>) None]
       thresh ctrCtx) \<in> {WARN, CRIT}"
proof (intro allI)
  fix env host thresh ctrCtx
  let ?e = "\<lparr>ErrText = ''timeout'', ErrChain = [DeadlineExceeded]\<rparr>"
  let ?r = "sample_result ''NTP'' (Some ?e) None"
  have "?r \<in> set [?r]" "Err ?r = Some ?e" by (simp_all add: sample_result_sel)
  from failed_collector_reported [OF this] show "VLevel (run_verdict env host [?r] thresh ctrCtx) \<in> {WARN, CRIT}"
    by (rule conjunct1)
qed

text \<open>The verdict is a fact about the measured host alone: rewriting the hints for its distribution, its
  operating system and its init system never changes it.\<close>

theorem verdict_host_independent:
  "run_verdict env host results thresh ctrCtx = run_verdict env host' results thresh ctrCtx"
  by (simp add: Verdict_ApplyThresholds)

text \<open>The pre-scan carries exactly what some collector measured: SELinux is taken as enforcing, ZFS pools as
  present and swap as in use exactly when a result without an error says so, in any order of the results.\<close>

theorem prescan_flags_exact:
  "selinuxEnforcing (fst (prescanContext results thresh)) = has_payload enforcing_payload results \<and>
   zfsPoolsPresent (fst (prescanContext results thresh)) = has_payload zfs_payload results \<and>
   swapActive (fst (prescanContext results thresh)) = has_payload swap_payload results"
  by (simp add: prescanContext_def prescan_fold_flags)

lemma prescan_DiskCritPct: "DiskCritPct (snd (prescanContext results thresh)) = DiskCritPct thresh"
proof -
  have payload: "DiskCritPct (snd (prescan_payload p (ctx, t))) = DiskCritPct t" for p ctx t
    by (cases p; simp only: prescan_payload_def prod.case snd_conv payload.case; simp)
  have "DiskCritPct (snd (foldl prescan_step acc rs)) = DiskCritPct (snd acc)" for acc rs
  proof (induction rs arbitrary: acc)
    case (Cons r rs)
    then show ?case by (cases acc) (simp add: prescan_step_def payload split: option.split)
  qed simp
  then show ?thesis by (simp add: prescanContext_def)
qed

lemma inject_DiskInfo: "inject_payload ctx (DiskInfo d) = DiskInfo d"
  by (simp add: inject_payload_def)

lemma applyOne_DiskInfo: "applyOne env thresh ctrCtx (DiskInfo d) = checkDisk d thresh"
  by (simp add: applyOne_def)

lemma critical_insight_exit_code:
  assumes "i \<in> set (checked_insights env results thresh ctrCtx)" and "Level i = CRIT" and "\<not> isDenial i ''Hardening''"
  shows "ExitCode (run_verdict env host results thresh ctrCtx) = 2"
proof -
  from ApplyThresholds_survives [OF assms(1,3)] obtain j
    where "j \<in> set (ApplyThresholds env host results thresh ctrCtx)" and s: "same_but_hints i j" by blast
  with assms(2) have "\<exists>i \<in> set (ApplyThresholds env host results thresh ctrCtx). Level i = CRIT"
    using same_but_hints_fields(1) [OF s] by (auto intro!: bexI [of _ j])
  then show ?thesis by (simp add: ExitCode_def VLevel_Verdict)
qed

text \<open>C12: A full filesystem reaches the exit code: when a disk measurement shows a writable filesystem at or above
  the critical threshold, the run exits with 2, whatever else was or was not measured.\<close>

theorem full_disk_exit_code:
  assumes "r \<in> set results" and "Err r = None" and "Payload r = Some (DiskInfo d)" and "\<not> NotRecorded r"
    and "fs \<in> set (disk_Filesystems d)" and "\<not> IsInherentlyReadOnlyFS (filesystem_FSType fs)"
    and "fle (DiskCritPct thresh) (filesystem_UsedPct fs)"
  shows "ExitCode (run_verdict env host results thresh ctrCtx) = 2"
proof -
  obtain ctx t where c: "prescanContext results thresh = (ctx, t)" by (rule prod.exhaust)
  then have "DiskCritPct t = DiskCritPct thresh" using prescan_DiskCritPct [of results thresh] by simp
  with disk_full_reported [OF assms(5,6), of t] assms(7) obtain i
    where i: "i \<in> set (checkDisk d t)" "Level i = CRIT" "Check i = ''Disk''" by auto
  have "i \<in> set (result_insights (apply_result env t ctrCtx) (inject_context ctx r))"
    using i(1) assms(2-4)
    by (simp add: result_insights_def inject_context_def apply_result_def inject_DiskInfo applyOne_DiskInfo)
  with assms(1) have "i \<in> set (checked_insights env results thresh ctrCtx)"
    by (simp add: checked_insights_def c Let_def) blast
  from critical_insight_exit_code [OF this i(2)] i(3) show ?thesis by (simp add: isDenial_def)
qed

theorem full_disk_exit_code_witness:
  "\<forall>env host ctrCtx.
     ExitCode (run_verdict env host [sample_result ''Disk'' None (Some (DiskInfo sample_disk))]
       (DefaultThresholds EnvBareMetal) ctrCtx) = 2"
proof (intro allI)
  fix env host ctrCtx
  let ?r = "sample_result ''Disk'' None (Some (DiskInfo sample_disk))"
  have r: "?r \<in> set [?r]" "Err ?r = None" "Payload ?r = Some (DiskInfo sample_disk)" "\<not> NotRecorded ?r"
    by (simp_all add: sample_result_sel)
  have fs: "sample_filesystem \<in> set (disk_Filesystems sample_disk)"
    "\<not> IsInherentlyReadOnlyFS (filesystem_FSType sample_filesystem)"
    "fle (DiskCritPct (DefaultThresholds EnvBareMetal)) (filesystem_UsedPct sample_filesystem)"
    by (simp_all add: sample_disk_def sample_filesystem_def IsInherentlyReadOnlyFS_def DefaultThresholds_def
        DefaultDiskCritPct_def)
  show "ExitCode (run_verdict env host [?r] (DefaultThresholds EnvBareMetal) ctrCtx) = 2"
    by (rule full_disk_exit_code [OF r fs])
qed

end
