(* ===== verification/Host_Safety.thy ===== *)
theory Host_Safety
  imports Checks_Security Checks_Virt Checks_Host Naming
begin

text \<open>
  What the host and cluster checks promise of the values they parse: a process is trusted by its path only when
  the cleaned path stays below a system directory, and the age of a Kubernetes event is read back exactly.
\<close>

section \<open>Cleaned paths\<close>

lemma split_byte_elements: "e \<in> set (split_byte s c) \<Longrightarrow> c \<notin> set e"
  by (rule split_byte_no_sep)

definition clean_elements :: "gostring list \<Rightarrow> bool" where
  "clean_elements els \<longleftrightarrow> (\<forall>e \<in> set els. e \<noteq> [] \<and> e \<noteq> ''.'' \<and> e \<noteq> ''..'' \<and> CHR ''/'' \<notin> set e)"

lemma clean_elements_Cons:
  "clean_elements (e # es) \<longleftrightarrow> e \<noteq> [] \<and> e \<noteq> ''.'' \<and> e \<noteq> ''..'' \<and> CHR ''/'' \<notin> set e \<and> clean_elements es"
  by (simp add: clean_elements_def)

lemma clean_step_rooted:
  assumes "clean_elements kept" and "CHR ''/'' \<notin> set el"
  shows "clean_elements (clean_step True kept el)"
proof (cases "el = ''..''")
  case True
  with assms(1) show ?thesis by (cases kept) (simp_all add: clean_step_def clean_elements_Cons)
next
  case False
  with assms show ?thesis by (simp add: clean_step_def clean_elements_Cons)
qed

lemma clean_fold_rooted:
  "clean_elements kept \<Longrightarrow> (\<And>e. e \<in> set els \<Longrightarrow> CHR ''/'' \<notin> set e) \<Longrightarrow>
     clean_elements (foldl (clean_step True) kept els)"
  by (induction els arbitrary: kept) (auto intro: clean_step_rooted)

text \<open>Relative paths keep their \<open>..\<close> elements, but no element contains the separator.\<close>

definition plain_elements :: "gostring list \<Rightarrow> bool" where
  "plain_elements els \<longleftrightarrow> (\<forall>e \<in> set els. e \<noteq> [] \<and> CHR ''/'' \<notin> set e)"

lemma clean_fold_plain:
  "plain_elements kept \<Longrightarrow> (\<And>e. e \<in> set els \<Longrightarrow> CHR ''/'' \<notin> set e) \<Longrightarrow>
     plain_elements (foldl (clean_step b) kept els)"
proof (induction els arbitrary: kept)
  case (Cons e els)
  from Cons.prems have "plain_elements (clean_step b kept e)"
    by (auto simp: clean_step_def plain_elements_def split: list.splits)
  from Cons.IH [OF this] Cons.prems(2) show ?case by simp
qed simp

lemma join_head: "CHR ''/'' \<notin> set e \<Longrightarrow> takeWhile (\<lambda>c. c \<noteq> CHR ''/'') (join (e # es) ''/'') = e"
  by (cases es) (auto simp: takeWhile_append)

lemma join_not_rooted:
  assumes "plain_elements els"
  shows "\<not> has_prefix (join els ''/'') (CHR ''/'' # p)"
proof (cases els)
  case (Cons e es)
  with assms obtain c e' where "e = c # e'" "c \<noteq> CHR ''/''"
    by (cases e) (auto simp: plain_elements_def)
  with Cons show ?thesis by (cases es) (simp_all add: has_prefix_code)
qed (simp add: has_prefix_code)

lemma system_prefix:
  "has_prefix (''/'' @ join els ''/'') p \<Longrightarrow> p \<in> set systemBinDirPrefixes \<Longrightarrow> clean_elements els \<Longrightarrow>
     els \<noteq> [] \<and> hd els \<in> {''usr'', ''bin'', ''sbin'', ''opt'', ''snap''}"
proof -
  assume p: "has_prefix (''/'' @ join els ''/'') p" "p \<in> set systemBinDirPrefixes" and c: "clean_elements els"
  from p(2) obtain d where d: "p = ''/'' @ d @ ''/''" "d \<in> {''usr'', ''bin'', ''sbin'', ''opt'', ''snap''}"
    by (auto simp: systemBinDirPrefixes_def)
  with p(1) obtain t where t: "join els ''/'' = d @ ''/'' @ t"
    by (auto simp: has_prefix_append)
  then obtain e es where els: "els = e # es" using d(2) by (cases els) auto
  with c have "CHR ''/'' \<notin> set e" by (simp add: clean_elements_def)
  from join_head [OF this, of es] t els have "takeWhile (\<lambda>c. c \<noteq> CHR ''/'') (d @ ''/'' @ t) = e" by simp
  moreover have "takeWhile (\<lambda>c. c \<noteq> CHR ''/'') (d @ ''/'' @ t) = d" using d(2) by auto
  ultimately show ?thesis using els d(2) by simp
qed

section \<open>The age of an event\<close>

definition k8s_unit_secs :: "char \<Rightarrow> int" where
  "k8s_unit_secs u =
     (if u = CHR ''d'' then 86400 else if u = CHR ''h'' then 3600 else if u = CHR ''m'' then 60 else 1)"

definition k8s_units :: "char set" where
  "k8s_units = {CHR ''d'', CHR ''h'', CHR ''m'', CHR ''s''}"

text \<open>The form kubectl prints: numbers, each followed by its unit.\<close>

definition k8s_age :: "(nat \<times> char) list \<Rightarrow> gostring" where
  "k8s_age parts = concat (map (\<lambda>(n, u). itoa (int n) @ [u]) parts)"

definition k8s_age_secs :: "(nat \<times> char) list \<Rightarrow> int" where
  "k8s_age_secs parts = sum_list (map (\<lambda>(n, u). int n * k8s_unit_secs u) parts)"

lemma wrap64_nonneg: "0 \<le> x \<Longrightarrow> x \<le> max_int64 \<Longrightarrow> wrap64 x = x"
  by (rule wrap64_id) (simp_all add: min_int64_def)

lemma k8s_digit:
  assumes "0 \<le> num" and "k < 10" and "num * 10 + int k \<le> max_int64"
  shows "k8s_age_loop (chr (48 + k) # s) tot num u d = k8s_age_loop s tot (num * 10 + int k) u True"
proof -
  have "wrap64 (num * 10) = num * 10" "wrap64 (num * 10 + int k) = num * 10 + int k"
    using assms by (simp_all add: wrap64_nonneg)
  then show ?thesis using assms(2) by (simp add: is_digit_char_chr byte_chr)
qed

lemma k8s_number:
  "int n \<le> max_int64 \<Longrightarrow> k8s_age_loop (nat_digits n @ s) tot 0 u d = k8s_age_loop s tot (int n) u True"
proof (induction n arbitrary: s d rule: nat_digits.induct)
  case (1 n)
  show ?case
  proof (cases "n < 10")
    case True
    then show ?thesis using k8s_digit [of 0 n s tot u d] 1(2)
      by (subst nat_digits.simps) simp
  next
    case False
    have split: "int (n div 10) * 10 + int (n mod 10) = int n" by (simp add: of_nat_div of_nat_mod)
    then have le: "int (n div 10) \<le> max_int64" using 1(2) by linarith
    from False have "k8s_age_loop (nat_digits n @ s) tot 0 u d =
        k8s_age_loop (nat_digits (n div 10) @ chr (48 + n mod 10) # s) tot 0 u d"
      by (subst nat_digits.simps) simp
    also have "\<dots> = k8s_age_loop s tot (int n) u True"
      using 1(1) [OF False le, of "chr (48 + n mod 10) # s" d]
        k8s_digit [of "int (n div 10)" "n mod 10" s tot u True] split 1(2) by simp
    finally show ?thesis .
  qed
qed

lemma k8s_unit:
  assumes "u \<in> k8s_units"
  shows "k8s_age_loop (u # s) tot num w True =
    k8s_age_loop s (wrap64 (tot + wrap64 (num * k8s_unit_secs u))) 0 True False"
proof -
  have "\<not> is_digit_char u" using assms by (auto simp: k8s_units_def is_digit_char_def byte_def)
  then show ?thesis using assms by (auto simp: k8s_units_def k8s_unit_secs_def Let_def)
qed

lemma k8s_age_secs_nonneg: "0 \<le> k8s_age_secs parts"
  unfolding k8s_age_secs_def
  by (rule sum_list_nonneg) (auto simp: k8s_unit_secs_def)

lemma k8s_parts:
  assumes "list_all (\<lambda>(n, u). u \<in> k8s_units) parts" and "0 \<le> tot" and "tot + k8s_age_secs parts \<le> max_int64"
    and "parts \<noteq> [] \<or> w"
  shows "k8s_age_loop (k8s_age parts) tot 0 w False = (tot + k8s_age_secs parts, True)"
  using assms
proof (induction parts arbitrary: tot w)
  case Nil
  then show ?case by (simp add: k8s_age_def k8s_age_secs_def)
next
  case (Cons p parts)
  obtain n u where p: "p = (n, u)" by (rule prod.exhaust)
  have u: "u \<in> k8s_units" and us: "list_all (\<lambda>(n, u). u \<in> k8s_units) parts" using Cons.prems(1) p by auto
  have secs: "k8s_age_secs (p # parts) = int n * k8s_unit_secs u + k8s_age_secs parts"
    by (simp add: k8s_age_secs_def p)
  have pos: "1 \<le> k8s_unit_secs u" by (auto simp: k8s_unit_secs_def)
  then have n: "int n \<le> int n * k8s_unit_secs u" by (simp add: mult_le_cancel_left1)
  note bounds = Cons.prems(2,3) k8s_age_secs_nonneg [of parts] n
  have le: "int n * k8s_unit_secs u \<le> max_int64" "tot + int n * k8s_unit_secs u \<le> max_int64" "int n \<le> max_int64"
    using bounds unfolding secs by linarith+
  have wraps: "wrap64 (int n * k8s_unit_secs u) = int n * k8s_unit_secs u"
    "wrap64 (tot + int n * k8s_unit_secs u) = tot + int n * k8s_unit_secs u"
    using le Cons.prems(2) pos by (simp_all add: wrap64_nonneg)
  have "k8s_age (p # parts) = nat_digits n @ u # k8s_age parts"
    by (simp add: k8s_age_def p itoa_def)
  then have "k8s_age_loop (k8s_age (p # parts)) tot 0 w False =
      k8s_age_loop (k8s_age parts) (tot + int n * k8s_unit_secs u) 0 True False"
    by (simp only: k8s_number [OF le(3)] k8s_unit [OF u] wraps)
  also have "\<dots> = (tot + int n * k8s_unit_secs u + k8s_age_secs parts, True)"
    using Cons.IH [OF us, of "tot + int n * k8s_unit_secs u" True] Cons.prems(2,3) n pos
    by (simp add: secs add.assoc)
  finally show ?case by (simp add: secs add.assoc)
qed

text \<open>Nothing is trimmed from a string that neither begins nor ends with a byte of a white-space rune.\<close>

lemma match_any_head:
  assumes "\<forall>w \<in> set ws. w \<noteq> [] \<and> hd w \<noteq> c"
  shows "match_any ws (c # s) = 0"
proof -
  have "find (has_prefix (c # s)) ws = None"
    using assms by (auto simp: find_None_iff has_prefix_append Cons_eq_append_conv)
  then show ?thesis by (simp add: match_any_def)
qed

lemma trim_space_ends:
  assumes "\<forall>w \<in> set ws_runes. hd w \<noteq> c" and "\<forall>w \<in> set ws_runes. last w \<noteq> d"
  shows "trim_space (c # s @ [d]) = c # s @ [d]"
proof -
  have ne: "w \<noteq> []" if "w \<in> set ws_runes" for w using that by (auto simp: ws_runes_def)
  have "match_any ws_runes (c # s @ [d]) = 0"
    using assms(1) ne by (intro match_any_head) auto
  moreover have "match_any (map rev ws_runes) (d # rev s @ [c]) = 0"
    using assms(2) ne by (intro match_any_head) (auto simp: hd_rev)
  ultimately show ?thesis by (simp add: trim_space_def strip_left.simps)
qed

section \<open>Properties\<close>

text \<open>C19: A process counts as running a system binary only when its path is absolute and, once cleaned, consists of
  proper elements below one of the five system directories: no empty, \<open>.\<close> or \<open>..\<close> element is left by which it
  could point elsewhere.\<close>

theorem system_dir_no_escape:
  assumes "exePathUnderSystemDir path"
  shows "has_prefix path ''/'' \<and>
    (\<exists>els. filepath_Clean path = ''/'' @ join els ''/'' \<and> clean_elements els \<and> els \<noteq> [] \<and>
       hd els \<in> {''usr'', ''bin'', ''sbin'', ''opt'', ''snap''})"
proof -
  let ?kept = "rev (foldl (clean_step (has_prefix path ''/'')) [] (split_byte path CHR ''/''))"
  from assms obtain p where p: "p \<in> set systemBinDirPrefixes" "has_prefix (filepath_Clean path) p"
    by (auto simp: exePathUnderSystemDir_def list_ex_iff)
  have rooted: "has_prefix path ''/''"
  proof (rule ccontr)
    assume r: "\<not> has_prefix path ''/''"
    have "plain_elements (foldl (clean_step False) [] (split_byte path CHR ''/''))"
      by (rule clean_fold_plain) (auto simp: plain_elements_def dest: split_byte_elements)
    then have "plain_elements ?kept" using r by (simp add: plain_elements_def)
    moreover from p(1) obtain q where "p = CHR ''/'' # q" by (auto simp: systemBinDirPrefixes_def)
    ultimately have "\<not> has_prefix (join ?kept ''/'') p" using join_not_rooted by blast
    with p(2) r \<open>p = CHR ''/'' # q\<close> show False
      by (auto simp: filepath_Clean_def Let_def has_prefix_code split: if_splits)
  qed
  have "clean_elements (foldl (clean_step True) [] (split_byte path CHR ''/''))"
    by (rule clean_fold_rooted) (auto simp: clean_elements_def dest: split_byte_elements)
  then have clean: "clean_elements ?kept" using rooted by (simp add: clean_elements_def)
  have path: "filepath_Clean path = ''/'' @ join ?kept ''/''"
    using rooted by (simp add: filepath_Clean_def Let_def)
  from system_prefix [OF p(2) [unfolded path] p(1) clean] clean path rooted show ?thesis by blast
qed

theorem system_dir_no_escape_witness:
  "has_prefix ''/usr/lib/../bin/nginx'' ''/'' \<and> filepath_Clean ''/usr/lib/../bin/nginx'' = ''/usr/bin/nginx'' \<and>
   \<not> exePathUnderSystemDir ''/usr/../tmp/nginx''"
proof -
  have "exePathUnderSystemDir ''/usr/lib/../bin/nginx''" by code_simp
  from system_dir_no_escape [OF this] have "has_prefix ''/usr/lib/../bin/nginx'' ''/''" by (rule conjunct1)
  moreover have "filepath_Clean ''/usr/lib/../bin/nginx'' = ''/usr/bin/nginx''" by code_simp
  moreover have "\<not> exePathUnderSystemDir ''/usr/../tmp/nginx''" by code_simp
  ultimately show ?thesis by blast
qed

text \<open>C39: The age kubectl prints is read back exactly: a sequence of numbers with the units d, h, m and s parses to
  the sum of their seconds, as long as the sum fits a 64-bit integer.\<close>

theorem k8s_age_roundtrip:
  assumes "parts \<noteq> []" and "list_all (\<lambda>(n, u). u \<in> k8s_units) parts" and "k8s_age_secs parts \<le> max_int64"
  shows "parseK8sEventAgeSeconds (k8s_age parts) = (k8s_age_secs parts, True)"
proof -
  obtain n u ps where first: "parts = (n, u) # ps" using assms(1) by (cases parts) auto
  obtain m v qs where last: "parts = qs @ [(m, v)]" using assms(1) by (cases parts rule: rev_cases) auto
  have v: "v \<in> k8s_units" using assms(2) last by simp
  obtain c r where c: "nat_digits n = c # r" "is_digit_char c"
    using nat_digits_digits [of n] by (cases "nat_digits n") (auto simp: nat_digits.simps [of n] split: if_splits)
  obtain s where s: "k8s_age parts = c # s @ [v]"
  proof -
    have head: "k8s_age parts = c # (r @ u # k8s_age ps)" by (simp add: first k8s_age_def itoa_def c)
    have tail: "k8s_age parts = (k8s_age qs @ nat_digits m) @ [v]" by (simp add: last k8s_age_def itoa_def)
    have "nat_digits m \<noteq> []" by (simp add: nat_digits.simps [of m])
    then obtain d t where dt: "k8s_age qs @ nat_digits m = d # t" by (cases "k8s_age qs @ nat_digits m") auto
    with head tail have "d = c" by simp
    with tail dt show thesis using that [of t] by simp
  qed
  have "\<forall>w \<in> set ws_runes. hd w \<noteq> c" using c(2) by (auto simp: ws_runes_def is_digit_char_def byte_def)
  moreover have "\<forall>w \<in> set ws_runes. last w \<noteq> v" using v by (auto simp: ws_runes_def k8s_units_def)
  ultimately have "trim_space (k8s_age parts) = k8s_age parts" unfolding s by (rule trim_space_ends)
  moreover have "\<not> has_prefix (k8s_age parts) ''<''" using s c(2) by (auto simp: has_prefix_code is_digit_char_def byte_def)
  moreover have "k8s_age parts \<noteq> []" using s by simp
  ultimately show ?thesis
    using k8s_parts [OF assms(2), of 0 False] assms(1,3) by (simp add: parseK8sEventAgeSeconds_def)
qed

theorem k8s_age_roundtrip_witness:
  "k8s_age [(5, CHR ''m''), (33, CHR ''s'')] = ''5m33s'' \<and> parseK8sEventAgeSeconds ''5m33s'' = (333, True)"
proof -
  have age: "k8s_age [(5, CHR ''m''), (33, CHR ''s'')] = ''5m33s''" by code_simp
  have secs: "k8s_age_secs [(5, CHR ''m''), (33, CHR ''s'')] = 333" by (simp add: k8s_age_secs_def k8s_unit_secs_def)
  from k8s_age_roundtrip [of "[(5, CHR ''m''), (33, CHR ''s'')]"] show ?thesis
    by (simp add: age secs k8s_units_def max_int64_def)
qed

end
