(* ===== verification/Go_System.thy ===== *)
theory Go_System
  imports Checks_Security
begin

text \<open>
  More of Go's standard library, as the benchmark uses it: numbers in a base, paths and splitting.
\<close>

section \<open>The standard library\<close>

definition wrapu32 :: "int \<Rightarrow> int" where
  "wrapu32 n = n mod 2 ^ 32"

definition digit_of :: "char \<Rightarrow> nat option" where
  "digit_of c =
     (let b = byte c in
      if 48 \<le> b \<and> b \<le> 57 then Some (b - 48)
      else if 97 \<le> b \<and> b \<le> 122 then Some (b - 87)
      else if 65 \<le> b \<and> b \<le> 90 then Some (b - 55)
      else None)"

primrec digits_in :: "nat \<Rightarrow> nat \<Rightarrow> gostring \<Rightarrow> nat option" where
  "digits_in base n [] = Some n"
| "digits_in base n (c # s) =
     (case digit_of c of
        None \<Rightarrow> None
      | Some d \<Rightarrow> if base \<le> d then None else digits_in base (n * base + d) s)"

text \<open>\<open>strconv.ParseUint\<close> and \<open>ParseInt\<close> with a base and a width.\<close>

definition parse_uint :: "nat \<Rightarrow> nat \<Rightarrow> gostring \<Rightarrow> int option" where
  "parse_uint base bits s =
     (if s = [] then None
      else case digits_in base 0 s of
             None \<Rightarrow> None
           | Some n \<Rightarrow> if n < 2 ^ bits then Some (int n) else None)"

definition parse_int :: "nat \<Rightarrow> nat \<Rightarrow> gostring \<Rightarrow> int option" where
  "parse_int base bits s =
     (let neg = has_prefix s ''-'';
          ds = (if neg \<or> has_prefix s ''+'' then tl s else s)
      in case parse_uint base bits ds of
           None \<Rightarrow> None
         | Some n \<Rightarrow>
             if \<not> neg \<and> 2 ^ (bits - 1) \<le> n then None
             else if neg \<and> 2 ^ (bits - 1) < n then None
             else Some (if neg then - n else n))"

text \<open>\<open>fmt.Sscanf\<close> with \<open>%d\<close>: spaces, a sign, then as many digits as there are.\<close>

definition scan_int :: "gostring \<Rightarrow> int option" where
  "scan_int s =
     (let s = strip_left ws_runes s;
          sign = take (if has_prefix s ''-'' \<or> has_prefix s ''+'' then 1 else 0) s;
          ds = takeWhile is_digit_char (drop (length sign) s)
      in if ds = [] then None else atoi (sign @ ds))"

text \<open>\<open>strings.SplitN\<close> at a byte, for a positive count.\<close>

primrec split_n :: "nat \<Rightarrow> gostring \<Rightarrow> char \<Rightarrow> gostring list" where
  "split_n 0 s c = []"
| "split_n (Suc n) s c =
     (if n = 0 \<or> c \<notin> set s then [s]
      else takeWhile (\<lambda>d. d \<noteq> c) s # split_n n (tl (dropWhile (\<lambda>d. d \<noteq> c) s)) c)"

definition path_join :: "gostring list \<Rightarrow> gostring" where
  "path_join els =
     (case dropWhile (\<lambda>e. e = []) els of [] \<Rightarrow> [] | e # es \<Rightarrow> filepath_Clean (join (e # es) ''/''))"

definition path_base :: "gostring \<Rightarrow> gostring" where
  "path_base path =
     (if path = [] then ''.''
      else let p = rev (dropWhile (\<lambda>c. c = CHR ''/'') (rev path))
           in if p = [] then ''/'' else rev (takeWhile (\<lambda>c. c \<noteq> CHR ''/'') (rev p)))"

primrec index_string :: "gostring \<Rightarrow> gostring \<Rightarrow> nat option" where
  "index_string [] p = (if p = [] then Some 0 else None)"
| "index_string (c # s) p =
     (if has_prefix (c # s) p then Some 0 else map_option Suc (index_string s p))"

end
