(* ===== verification/Cis_Base.thy ===== *)
theory Cis_Base
  imports Go_System Checks_System "HOL-Library.Word"
begin

text \<open>
  The vocabulary of internal/cis: the host a benchmark rule looks at, the rules and results of types.go, the paths
  and texts of rules.go, and the helpers the rules share. \<open>conforms\<close> states what every check owes its rule.
\<close>

unbundle bit_operations_syntax

section \<open>The host\<close>

text \<open>
  What a rule reads of the host. An operation that fails is \<^const>\<open>None\<close>; a mode is the 32 bits of
  \<open>fs.FileMode\<close>, and \<open>Sys\<close> the owner in \<open>syscall.Stat_t\<close>. \<open>Walk\<close> lists the calls \<open>filepath.WalkDir\<close>
  makes of its function: a path with its entry, or with the text of an error.
\<close>

record file_owner =
  owner_Uid :: int
  owner_Gid :: int

record file_info =
  file_Mode :: "32 word"
  file_Sys :: "file_owner option"

record dir_entry =
  entry_Name :: gostring
  entry_IsDir :: bool
  entry_Info :: "file_info option"
  entry_InfoErr :: gostring

record cis_host = environment +
  Stat :: "gostring \<Rightarrow> file_info option"
  Lstat :: "gostring \<Rightarrow> file_info option"
  ReadDir :: "gostring \<Rightarrow> dir_entry list option"
  LookupGroup :: "gostring \<Rightarrow> gostring option"
  Walk :: "gostring \<Rightarrow> (gostring \<times> (gostring + dir_entry)) list"

definition Perm :: "32 word \<Rightarrow> 32 word" where
  "Perm m = m AND 0b111111111"

section \<open>Printing modes\<close>

fun octal_digits :: "nat \<Rightarrow> gostring" where
  "octal_digits n = (if n < 8 then [] else octal_digits (n div 8)) @ [chr (48 + n mod 8)]"

text \<open>The verbs \<open>%o\<close> and \<open>%04o\<close>.\<close>

definition fmt_o :: "32 word \<Rightarrow> gostring" where
  "fmt_o m = octal_digits (unat m)"

definition fmt_04o :: "32 word \<Rightarrow> gostring" where
  "fmt_04o m = replicate (4 - length (fmt_o m)) CHR ''0'' @ fmt_o m"

section \<open>Rules and results\<close>

record rule =
  rule_ID :: gostring
  rule_StigID :: gostring
  rule_Framework :: gostring
  rule_Level :: int
  rule_Section :: gostring
  rule_Description :: gostring
  rule_StigDescription :: gostring

record cis_result =
  cis_ID :: gostring
  cis_Framework :: gostring
  cis_Level :: int
  cis_Section :: gostring
  cis_Description :: gostring
  cis_Status :: gostring
  cis_Finding :: gostring
  cis_Remediation :: gostring
  cis_NIS2Refs :: "gostring list"
  cis_BSIRefs :: "gostring list"
  cis_Unverified :: bool

section \<open>Constants\<close>

definition cisBenchBOTH :: gostring where
  "cisBenchBOTH = ''BOTH''"

definition cisCatSSH :: gostring where
  "cisCatSSH = ''SSH''"

definition cisBenchSTIG :: gostring where
  "cisBenchSTIG = ''STIG''"

definition cisCatNetwork :: gostring where
  "cisCatNetwork = ''Network''"

definition cisCatServices :: gostring where
  "cisCatServices = ''Services''"

definition cisCatMAC :: gostring where
  "cisCatMAC = ''MAC''"

definition cisCatAuth :: gostring where
  "cisCatAuth = ''Auth''"

definition cisCatFiles :: gostring where
  "cisCatFiles = ''Files''"

definition cisBenchCIS :: gostring where
  "cisBenchCIS = ''CIS''"

definition cisRuleSSH52 :: gostring where
  "cisRuleSSH52 = ''5.2.1''"

definition cisRuleAudit41 :: gostring where
  "cisRuleAudit41 = ''4.1.1''"

definition cisRuleAudit4111 :: gostring where
  "cisRuleAudit4111 = ''4.1.1.1''"

definition cisRuleAudit4112 :: gostring where
  "cisRuleAudit4112 = ''4.1.1.2''"

definition cisRuleAudit4113 :: gostring where
  "cisRuleAudit4113 = ''4.1.1.3''"

definition cisRuleAudit4114 :: gostring where
  "cisRuleAudit4114 = ''4.1.1.4''"

definition cisRuleAudit4115 :: gostring where
  "cisRuleAudit4115 = ''4.1.1.5''"

definition stigPassMaxDaysID :: gostring where
  "stigPassMaxDaysID = ''V-238380''"

definition cisSkipSSHDirUnreadable :: gostring where
  "cisSkipSSHDirUnreadable = ''could not read /etc/ssh''"

definition cisSkipSSHConfigUnreadable :: gostring where
  "cisSkipSSHConfigUnreadable = ''sshd_config unreadable''"

definition cisSkipDebianOnly :: gostring where
  "cisSkipDebianOnly = ''rule applies to Debian/Ubuntu systems only''"

definition cisPathDevShm :: gostring where
  "cisPathDevShm = ''/dev/shm''"

definition cisPathVarTmp :: gostring where
  "cisPathVarTmp = ''/var/tmp''"

definition cisSkipAuditdUnavailable :: gostring where
  "cisSkipAuditdUnavailable = ''auditd not available''"

definition cisSkipAuditdConfUnreadable :: gostring where
  "cisSkipAuditdConfUnreadable = ''auditd.conf not readable''"

definition cisFixAuditBacklogGrub :: gostring where
  "cisFixAuditBacklogGrub = ''add '' @ squote @ ''audit_backlog_limit=8192'' @ squote @
     '' to GRUB_CMDLINE_LINUX in /etc/default/grub and run update-grub''"

definition cisSkipJournaldNotFound :: gostring where
  "cisSkipJournaldNotFound = ''journald config not found (systemd not installed)''"

definition cisSkipSudoersUnreadable :: gostring where
  "cisSkipSudoersUnreadable = ''sudoers not readable '' @ em_dash @ '' run as root for full coverage''"

definition cisFixInactiveUseradd :: gostring where
  "cisFixInactiveUseradd = ''set INACTIVE=30 in /etc/default/useradd''"

definition cisSkipPasswdUnreadable :: gostring where
  "cisSkipPasswdUnreadable = ''could not read /etc/passwd''"

definition cisSkipGroupUnreadable :: gostring where
  "cisSkipGroupUnreadable = ''could not read /etc/group''"

definition cisSkipHomeDirsUnreadable :: gostring where
  "cisSkipHomeDirsUnreadable = ''could not access any home directories '' @ em_dash @ '' run as root for complete check''"

definition cisHomeNonexistent :: gostring where
  "cisHomeNonexistent = ''/nonexistent''"

definition cisHomeDevNull :: gostring where
  "cisHomeDevNull = ''/dev/null''"

definition CISPass :: gostring where
  "CISPass = ''PASS''"

definition CISFail :: gostring where
  "CISFail = ''FAIL''"

definition CISManual :: gostring where
  "CISManual = ''MANUAL''"

definition CISNotApplicable :: gostring where
  "CISNotApplicable = ''N/A''"

definition CISSkipped :: gostring where
  "CISSkipped = ''SKIP''"

definition auditVerdictAmbiguousRuleIDs :: "(gostring, bool) gomap" where
  "auditVerdictAmbiguousRuleIDs =
     [(cisRuleAudit41, True), (cisRuleAudit4111, True), (cisRuleAudit4112, True),
      (cisRuleAudit4113, True), (cisRuleAudit4114, True), (cisRuleAudit4115, True),
      (''4.1.2'', True)]"

definition loginDefsPath :: "gostring" where
  "loginDefsPath =
     ''/etc/login.defs''"

definition sshdConfigPath :: "gostring" where
  "sshdConfigPath =
     ''/etc/ssh/sshd_config''"

definition etcPasswdPath :: "gostring" where
  "etcPasswdPath =
     ''/etc/passwd''"

definition etcShadowPath :: "gostring" where
  "etcShadowPath =
     ''/etc/shadow''"

definition etcGroupPath :: "gostring" where
  "etcGroupPath =
     ''/etc/group''"

definition legacyNISPaths :: "gostring list" where
  "legacyNISPaths =
     [etcPasswdPath, etcShadowPath, etcGroupPath]"

definition chronyCfgPaths :: "gostring list" where
  "chronyCfgPaths =
     [''/etc/chrony.conf'', ''/etc/chrony/chrony.conf'']"

definition ntpCfgPath :: "gostring" where
  "ntpCfgPath =
     ''/etc/ntp.conf''"

definition timesyncdCfgPath :: "gostring" where
  "timesyncdCfgPath =
     ''/etc/systemd/timesyncd.conf''"

definition sudoBinPaths :: "gostring list" where
  "sudoBinPaths =
     [''/usr/bin/sudo'', ''/bin/sudo'']"

definition useraddDefaultPath :: "gostring" where
  "useraddDefaultPath =
     ''/etc/default/useradd''"

definition motdPath :: "gostring" where
  "motdPath =
     ''/etc/motd''"

definition issuePath :: "gostring" where
  "issuePath =
     ''/etc/issue''"

definition issueNetPath :: "gostring" where
  "issueNetPath =
     ''/etc/issue.net''"

definition nisBinPaths :: "gostring list" where
  "nisBinPaths =
     [''/usr/sbin/ypbind'', ''/usr/bin/ypcat'', ''/usr/bin/ypmatch'']"

definition rshBinPaths :: "gostring list" where
  "rshBinPaths =
     [''/usr/bin/rsh'', ''/usr/bin/rlogin'', ''/usr/bin/rcp'']"

definition talkBinPaths :: "gostring list" where
  "talkBinPaths =
     [''/usr/bin/talk'', ''/usr/bin/ntalk'']"

definition telnetBinPaths :: "gostring list" where
  "telnetBinPaths =
     [''/usr/bin/telnet'', ''/usr/lib/telnet/telnet'']"

definition xorgBinPaths :: "gostring list" where
  "xorgBinPaths =
     [''/usr/bin/Xorg'', ''/usr/bin/X'', ''/usr/lib/xorg/Xorg'']"

definition avahiBinPaths :: "gostring list" where
  "avahiBinPaths =
     [''/usr/sbin/avahi-daemon'']"

definition cupsBinPaths :: "gostring list" where
  "cupsBinPaths =
     [''/usr/sbin/cupsd'']"

definition dhcpBinPaths :: "gostring list" where
  "dhcpBinPaths =
     [''/usr/sbin/dhcpd'']"

definition slapdBinPaths :: "gostring list" where
  "slapdBinPaths =
     [''/usr/sbin/slapd'']"

definition grubCfgPaths :: "gostring list" where
  "grubCfgPaths =
     [''/boot/grub/grub.cfg'', ''/boot/grub2/grub.cfg'']"

definition cronAllowPath :: "gostring" where
  "cronAllowPath =
     ''/etc/cron.allow''"

definition cronDenyPath :: "gostring" where
  "cronDenyPath =
     ''/etc/cron.deny''"

definition atAllowPath :: "gostring" where
  "atAllowPath =
     ''/etc/at.allow''"

definition atDenyPath :: "gostring" where
  "atDenyPath =
     ''/etc/at.deny''"

definition rsyslogBinPaths :: "gostring list" where
  "rsyslogBinPaths =
     [''/usr/sbin/rsyslogd'', ''/sbin/rsyslogd'', ''/usr/sbin/syslog-ng'']"

definition procModulesPath :: "gostring" where
  "procModulesPath =
     ''/proc/modules''"

definition modprobeDPath :: "gostring" where
  "modprobeDPath =
     ''/etc/modprobe.d''"

definition procMountsPath :: "gostring" where
  "procMountsPath =
     ''/proc/mounts''"

definition prelinkBinPaths :: "gostring list" where
  "prelinkBinPaths =
     [''/usr/sbin/prelink'']"

definition apportBinPaths :: "gostring list" where
  "apportBinPaths =
     [''/usr/share/apport/apport'', ''/usr/bin/apport-cli'']"

definition apportDefaultPath :: "gostring" where
  "apportDefaultPath =
     ''/etc/default/apport''"

definition nfsBinPaths :: "gostring list" where
  "nfsBinPaths =
     [''/usr/sbin/nfsd'', ''/usr/sbin/rpc.nfsd'']"

definition namedBinPaths :: "gostring list" where
  "namedBinPaths =
     [''/usr/sbin/named'', ''/usr/bin/named'']"

definition ftpBinPaths :: "gostring list" where
  "ftpBinPaths =
     [''/usr/sbin/vsftpd'', ''/usr/sbin/proftpd'', ''/usr/sbin/pure-ftpd'']"

definition httpBinPaths :: "gostring list" where
  "httpBinPaths =
     [''/usr/sbin/apache2'', ''/usr/sbin/httpd'', ''/usr/sbin/nginx'']"

definition imapBinPaths :: "gostring list" where
  "imapBinPaths =
     [''/usr/sbin/dovecot'']"

definition sambaBinPaths :: "gostring list" where
  "sambaBinPaths =
     [''/usr/sbin/smbd'']"

definition squidBinPaths :: "gostring list" where
  "squidBinPaths =
     [''/usr/sbin/squid'', ''/usr/sbin/squid3'']"

definition snmpBinPaths :: "gostring list" where
  "snmpBinPaths =
     [''/usr/sbin/snmpd'']"

definition auditRulesDPath :: "gostring" where
  "auditRulesDPath =
     ''/etc/audit/rules.d''"

definition auditRulesFilePath :: "gostring" where
  "auditRulesFilePath =
     ''/etc/audit/audit.rules''"

definition auditdConfPath :: "gostring" where
  "auditdConfPath =
     ''/etc/audit/auditd.conf''"

definition procCmdlinePath :: "gostring" where
  "procCmdlinePath =
     ''/proc/cmdline''"

definition nisServerBinPaths :: "gostring list" where
  "nisServerBinPaths =
     [''/usr/sbin/ypserv'', ''/usr/lib/yp/ypserv'']"

definition sshHostKeyDir :: "gostring" where
  "sshHostKeyDir =
     ''/etc/ssh''"

definition journaldConfPath :: "gostring" where
  "journaldConfPath =
     ''/etc/systemd/journald.conf''"

definition journaldConfDPath :: "gostring" where
  "journaldConfDPath =
     ''/etc/systemd/journald.conf.d''"

definition securettyPath :: "gostring" where
  "securettyPath =
     ''/etc/securetty''"

definition pamSuPath :: "gostring" where
  "pamSuPath =
     ''/etc/pam.d/su''"

definition pwqualityConfPath :: "gostring" where
  "pwqualityConfPath =
     ''/etc/security/pwquality.conf''"

definition faillockConfPath :: "gostring" where
  "faillockConfPath =
     ''/etc/security/faillock.conf''"

definition pamCommonAuthPath :: "gostring" where
  "pamCommonAuthPath =
     ''/etc/pam.d/common-auth''"

definition pamCommonPasswordPath :: "gostring" where
  "pamCommonPasswordPath =
     ''/etc/pam.d/common-password''"

definition pamDPath :: "gostring" where
  "pamDPath =
     ''/etc/pam.d''"

definition etcProfilePath :: "gostring" where
  "etcProfilePath =
     ''/etc/profile''"

definition etcProfileDPath :: "gostring" where
  "etcProfileDPath =
     ''/etc/profile.d''"

definition etcBashrcPath :: "gostring" where
  "etcBashrcPath =
     ''/etc/bash.bashrc''"

definition rsyslogConfPath :: "gostring" where
  "rsyslogConfPath =
     ''/etc/rsyslog.conf''"

definition rsyslogConfDPath :: "gostring" where
  "rsyslogConfDPath =
     ''/etc/rsyslog.d''"

definition varLogPath :: "gostring" where
  "varLogPath =
     ''/var/log''"

definition perfEventParanoidPath :: "gostring" where
  "perfEventParanoidPath =
     ''/proc/sys/kernel/perf_event_paranoid''"

definition kptrRestrictPath :: "gostring" where
  "kptrRestrictPath =
     ''/proc/sys/kernel/kptr_restrict''"

definition yamaPtraceScopePath :: "gostring" where
  "yamaPtraceScopePath =
     ''/proc/sys/kernel/yama/ptrace_scope''"

definition bpfJitHardenPath :: "gostring" where
  "bpfJitHardenPath =
     ''/proc/sys/net/core/bpf_jit_harden''"

definition mmapMinAddrPath :: "gostring" where
  "mmapMinAddrPath =
     ''/proc/sys/vm/mmap_min_addr''"

definition sysrqPath :: "gostring" where
  "sysrqPath =
     ''/proc/sys/kernel/sysrq''"

definition coreUsesPidPath :: "gostring" where
  "coreUsesPidPath =
     ''/proc/sys/kernel/core_uses_pid''"

definition protectedRegularPath :: "gostring" where
  "protectedRegularPath =
     ''/proc/sys/fs/protected_regular''"

definition protectedFifosPath :: "gostring" where
  "protectedFifosPath =
     ''/proc/sys/fs/protected_fifos''"

definition unprivilegedBpfDisabledPath :: "gostring" where
  "unprivilegedBpfDisabledPath =
     ''/proc/sys/kernel/unprivileged_bpf_disabled''"

definition apparmorParserPaths :: "gostring list" where
  "apparmorParserPaths =
     [''/usr/sbin/apparmor_parser'', ''/sbin/apparmor_parser'']"

definition grubDefaultPath :: "gostring" where
  "grubDefaultPath =
     ''/etc/default/grub''"

definition apparmorProfilesPath :: "gostring" where
  "apparmorProfilesPath =
     ''/sys/kernel/security/apparmor/profiles''"

definition etcEnvironmentPath :: "gostring" where
  "etcEnvironmentPath =
     ''/etc/environment''"

definition cronWantsPaths :: "gostring list" where
  "cronWantsPaths =
     [''/etc/systemd/system/multi-user.target.wants/cron.service'',
      ''/etc/systemd/system/multi-user.target.wants/crond.service'']"

definition debianVersionPath :: "gostring" where
  "debianVersionPath =
     ''/etc/debian_version''"

definition aptConfDPath :: "gostring" where
  "aptConfDPath =
     ''/etc/apt/apt.conf.d''"

definition unattendedUpgradesBinPaths :: "gostring list" where
  "unattendedUpgradesBinPaths =
     [''/usr/bin/unattended-upgrade'', ''/usr/bin/unattended-upgrades'']"

definition ufwBinPaths :: "gostring list" where
  "ufwBinPaths =
     [''/usr/sbin/ufw'', ''/sbin/ufw'']"

definition netfilterPersistentPaths :: "gostring list" where
  "netfilterPersistentPaths =
     [''/lib/systemd/system/netfilter-persistent.service'', ''/etc/init.d/iptables-persistent'']"

definition ufwWantsPaths :: "gostring list" where
  "ufwWantsPaths =
     [''/etc/systemd/system/multi-user.target.wants/ufw.service'',
      ''/run/systemd/generator.late/multi-user.target.wants/ufw.service'']"

definition ufwDefaultPath :: "gostring" where
  "ufwDefaultPath =
     ''/etc/default/ufw''"

definition ufwBeforeRulesPath :: "gostring" where
  "ufwBeforeRulesPath =
     ''/etc/ufw/before.rules''"

definition ufwBefore6RulesPath :: "gostring" where
  "ufwBefore6RulesPath =
     ''/etc/ufw/before6.rules''"

definition aptSourcesListPath :: "gostring" where
  "aptSourcesListPath =
     ''/etc/apt/sources.list''"

definition aptSourcesListDPath :: "gostring" where
  "aptSourcesListDPath =
     ''/etc/apt/sources.list.d''"

definition aptTrustedGpgPath :: "gostring" where
  "aptTrustedGpgPath =
     ''/etc/apt/trusted.gpg''"

definition aptTrustedGpgDPath :: "gostring" where
  "aptTrustedGpgDPath =
     ''/etc/apt/trusted.gpg.d''"

definition aptKeyringsPath :: "gostring" where
  "aptKeyringsPath =
     ''/etc/apt/keyrings''"

definition sysClassNetPath :: "gostring" where
  "sysClassNetPath =
     ''/sys/class/net''"

definition ufwUserRulesPath :: "gostring" where
  "ufwUserRulesPath =
     ''/etc/ufw/user.rules''"

definition ldapClientBinPaths :: "gostring list" where
  "ldapClientBinPaths =
     [''/usr/bin/ldapsearch'', ''/usr/bin/ldapadd'', ''/usr/bin/ldapmodify'']"

definition mtaBinPaths :: "gostring list" where
  "mtaBinPaths =
     [''/usr/sbin/postfix'', ''/usr/lib/postfix/sbin/master'', ''/usr/sbin/sendmail'']"

definition postfixMainCfPath :: "gostring" where
  "postfixMainCfPath =
     ''/etc/postfix/main.cf''"

definition rsyncBinPaths :: "gostring list" where
  "rsyncBinPaths =
     [''/usr/bin/rsync'']"

definition rsyncWantsPaths :: "gostring list" where
  "rsyncWantsPaths =
     [''/etc/systemd/system/multi-user.target.wants/rsync.service'',
      ''/run/systemd/generator.late/multi-user.target.wants/rsync.service'']"

definition rsyncDefaultPath :: "gostring" where
  "rsyncDefaultPath =
     ''/etc/default/rsync''"

definition logrotateConfPath :: "gostring" where
  "logrotateConfPath =
     ''/etc/logrotate.conf''"

definition logrotateConfDPath :: "gostring" where
  "logrotateConfDPath =
     ''/etc/logrotate.d''"

section \<open>The helpers of the rules\<close>

definition cis_pass :: "rule \<Rightarrow> cis_result" where
  "cis_pass r =
     \<lparr>cis_ID = rule_ID r, cis_Framework = rule_Framework r, cis_Level = rule_Level r,
      cis_Section = rule_Section r, cis_Description = rule_Description r, cis_Status = CISPass,
      cis_Finding = [], cis_Remediation = [], cis_NIS2Refs = [], cis_BSIRefs = [],
      cis_Unverified = False\<rparr>"

definition failr :: "rule \<Rightarrow> gostring \<Rightarrow> gostring \<Rightarrow> cis_result" where
  "failr r finding fix =
     \<lparr>cis_ID = rule_ID r, cis_Framework = rule_Framework r, cis_Level = rule_Level r,
      cis_Section = rule_Section r, cis_Description = rule_Description r, cis_Status = CISFail,
      cis_Finding = finding, cis_Remediation = fix, cis_NIS2Refs = [], cis_BSIRefs = [],
      cis_Unverified = False\<rparr>"

definition skipr :: "rule \<Rightarrow> gostring \<Rightarrow> cis_result" where
  "skipr r reason =
     \<lparr>cis_ID = rule_ID r, cis_Framework = rule_Framework r, cis_Level = rule_Level r,
      cis_Section = rule_Section r, cis_Description = rule_Description r, cis_Status = CISSkipped,
      cis_Finding = reason, cis_Remediation = [], cis_NIS2Refs = [], cis_BSIRefs = [],
      cis_Unverified = False\<rparr>"

definition unverifiedr :: "rule \<Rightarrow> gostring \<Rightarrow> cis_result" where
  "unverifiedr r reason =
     \<lparr>cis_ID = rule_ID r, cis_Framework = rule_Framework r, cis_Level = rule_Level r,
      cis_Section = rule_Section r, cis_Description = rule_Description r, cis_Status = CISSkipped,
      cis_Finding = reason, cis_Remediation = [], cis_NIS2Refs = [], cis_BSIRefs = [],
      cis_Unverified = True\<rparr>"

definition auditLineMatchesPattern :: "gostring \<Rightarrow> gostring \<Rightarrow> bool" where
  "auditLineMatchesPattern line pattern \<longleftrightarrow>
     (case index_string line pattern of
        None \<Rightarrow> False
      | Some idx \<Rightarrow>
          let after = idx + length pattern
          in after < length line \<longrightarrow>
               line ! after = CHR '' '' \<or> line ! after = CHR 0x09 \<or> line ! after = CHR '','')"

text \<open>\<open>fmt.Sscanf\<close> leaves the zero where it fails; its error is not looked at.\<close>

definition checkLoginDefsField ::
  "cis_host \<Rightarrow> rule \<Rightarrow> gostring \<Rightarrow> gostring \<Rightarrow> (int \<Rightarrow> bool) \<Rightarrow> (int \<Rightarrow> gostring) \<Rightarrow> gostring \<Rightarrow> gostring \<Rightarrow>
   gostring \<Rightarrow> cis_result" where
  "checkLoginDefsField env r path field fails failFmt failFix notSetFinding notSetFix =
     (case ReadFile env path of
        None \<Rightarrow> skipr r (''could not read '' @ path)
      | Some data \<Rightarrow>
          (case first_some
             (\<lambda>line.
               let trimmed = trim_space line
               in if trimmed = [] \<or> has_prefix trimmed ''#'' then None
                  else let lineFields = Go_Prelude.fields trimmed
                       in if lineFields = [] \<or> hd lineFields \<noteq> field then None
                          else if length lineFields < 2
                            then Some (failr r (field @ '' has no value'') failFix)
                          else let days = (case scan_int (lineFields ! 1) of None \<Rightarrow> 0 | Some n \<Rightarrow> n)
                               in if fails days then Some (failr r (failFmt days) failFix)
                                  else Some (cis_pass r))
             (split_byte data (CHR 0x0A)) of
             Some c \<Rightarrow> c
           | None \<Rightarrow> failr r notSetFinding notSetFix))"

text \<open>The \<open>goto\<close> leaves the loop over the options when one of them is the option.\<close>

definition checkRemovableMediaOption :: "cis_host \<Rightarrow> rule \<Rightarrow> gostring \<Rightarrow> cis_result" where
  "checkRemovableMediaOption env r option =
     (case ReadFile env procMountsPath of
        None \<Rightarrow> skipr r (''could not read '' @ procMountsPath)
      | Some data \<Rightarrow>
          (case first_some
             (\<lambda>line.
               let fields = Go_Prelude.fields line
               in if length fields < 4 then None
                  else let dev = fields ! 0;
                           mp = fields ! 1;
                           base = path_base dev;
                           isRemovable =
                             (has_prefix base ''sd'' \<or> has_prefix base ''sr'') \<and>
                             (has_prefix mp ''/media/'' \<or> has_prefix mp ''/mnt/'')
                       in if \<not> isRemovable then None
                          else if list_ex (\<lambda>opt. opt = option) (split_byte (fields ! 3) (CHR '',''))
                            then None
                          else Some (failr r
                                 (''removable media '' @ mp @ '' ('' @ dev @ '') lacks '' @ Quote env option @ '' option'')
                                 (''add '' @ squote @ option @ squote @
                                  '' to mount options in /etc/fstab for removable media'')))
             (split_byte data (CHR 0x0A)) of
             Some c \<Rightarrow> c
           | None \<Rightarrow> cis_pass r))"

definition parseMaxStartups :: "gostring \<Rightarrow> (int \<times> int \<times> int \<times> bool)" where
  "parseMaxStartups v =
     (let parts = split_byte (trim_space v) (CHR '':'')
      in case atoi (hd parts) of
             None \<Rightarrow> (0, 0, 0, False)
           | Some s \<Rightarrow>
               (if int (length parts) < 3 then (s, 0, s, True)
                else case atoi (parts ! 1) of
                         None \<Rightarrow> (0, 0, 0, False)
                       | Some r \<Rightarrow>
                           (case atoi (parts ! 2) of
                                None \<Rightarrow> (0, 0, 0, False)
                              | Some f \<Rightarrow> (s, r, f, True))))"

definition sshConfigUnverified :: "security_info \<Rightarrow> bool" where
  "sshConfigUnverified sec \<longleftrightarrow>
     security_SSHConfigUnreadable sec \<and> security_SSHAuditSource sec = []"

definition aideInstallCmd :: "gostring \<Rightarrow> gostring" where
  "aideInstallCmd pkgMgr =
     (if (pkgMgr = ''dnf'' \<or> pkgMgr = ''yum'') \<or> pkgMgr = ''tdnf''
        then ''dnf install aide && aide --init && mv /var/lib/aide/aide.db.new /var/lib/aide/aide.db''
      else if pkgMgr = ''zypper''
        then ''zypper install aide && aide --init && mv /var/lib/aide/aide.db.new /var/lib/aide/aide.db''
      else if pkgMgr = ''pacman''
        then ''pacman -S aide && aide --init && mv /var/lib/aide/aide.db.new /var/lib/aide/aide.db''
      else ''apt install aide && aide --init && mv /var/lib/aide/aide.db.new /var/lib/aide/aide.db'')"

definition auditInstallCmd :: "gostring \<Rightarrow> gostring" where
  "auditInstallCmd pkgMgr =
     (if (pkgMgr = ''dnf'' \<or> pkgMgr = ''yum'') \<or> pkgMgr = ''tdnf''
        then ''dnf install audit && systemctl enable --now auditd''
      else if pkgMgr = ''zypper'' then ''zypper install audit && systemctl enable --now auditd''
      else if pkgMgr = ''pacman'' then ''pacman -S audit && systemctl enable --now auditd''
      else ''apt install auditd && systemctl enable --now auditd'')"

definition auditRulesCmd :: "gostring \<Rightarrow> gostring" where
  "auditRulesCmd pkgMgr =
     (if (((pkgMgr = ''dnf'' \<or> pkgMgr = ''yum'') \<or> pkgMgr = ''tdnf'') \<or> pkgMgr = ''zypper'') \<or>
         pkgMgr = ''pacman''
        then ''install rules: cp /usr/share/audit/sample-rules/30-stig.rules /etc/audit/rules.d/ && augenrules --load''
      else ''install rules: cp /usr/share/doc/auditd/examples/stig.rules /etc/audit/rules.d/ && augenrules --load'')"

definition timeSyncInstallCmd :: "gostring \<Rightarrow> gostring" where
  "timeSyncInstallCmd pkgMgr =
     (if (pkgMgr = ''dnf'' \<or> pkgMgr = ''yum'') \<or> pkgMgr = ''tdnf''
        then ''dnf install chrony && systemctl enable --now chronyd''
      else if pkgMgr = ''zypper'' then ''zypper install chrony && systemctl enable --now chronyd''
      else if pkgMgr = ''pacman'' then ''pacman -S chrony && systemctl enable --now chronyd''
      else ''apt install chrony && systemctl enable --now chrony'')"

definition apparmorInstallCmd :: "gostring \<Rightarrow> gostring" where
  "apparmorInstallCmd pkgMgr =
     (if (pkgMgr = ''dnf'' \<or> pkgMgr = ''yum'') \<or> pkgMgr = ''tdnf''
        then ''dnf install apparmor apparmor-utils && systemctl enable --now apparmor''
      else if pkgMgr = ''zypper''
        then ''zypper install apparmor-parser apparmor-utils && systemctl enable --now apparmor''
      else if pkgMgr = ''pacman'' then ''pacman -S apparmor && systemctl enable --now apparmor''
      else ''apt install apparmor apparmor-utils && systemctl enable --now apparmor'')"

definition iptablesPersistentRemoveCmd :: "gostring \<Rightarrow> gostring" where
  "iptablesPersistentRemoveCmd pkgMgr =
     (if (((pkgMgr = ''dnf'' \<or> pkgMgr = ''yum'') \<or> pkgMgr = ''tdnf'') \<or> pkgMgr = ''zypper'') \<or>
         pkgMgr = ''pacman''
        then ''not applicable on this distribution''
      else ''apt purge iptables-persistent netfilter-persistent && ufw enable'')"

definition macInstallCmd :: "gostring \<Rightarrow> gostring" where
  "macInstallCmd pkgMgr =
     (if (pkgMgr = ''dnf'' \<or> pkgMgr = ''yum'') \<or> pkgMgr = ''tdnf''
        then ''dnf install selinux-policy-targeted && reboot''
      else if pkgMgr = ''zypper''
        then ''zypper install apparmor-parser && systemctl enable --now apparmor''
      else if pkgMgr = ''pacman'' then ''pacman -S apparmor && systemctl enable --now apparmor''
      else ''apt install apparmor && systemctl enable --now apparmor'')"

definition sudoInstallCmd :: "gostring \<Rightarrow> gostring" where
  "sudoInstallCmd pkgMgr =
     (if (pkgMgr = ''dnf'' \<or> pkgMgr = ''yum'') \<or> pkgMgr = ''tdnf'' then ''dnf install sudo''
      else if pkgMgr = ''zypper'' then ''zypper install sudo''
      else if pkgMgr = ''pacman'' then ''pacman -S sudo''
      else ''apt install sudo'')"

definition rsyslogInstallCmd :: "gostring \<Rightarrow> gostring" where
  "rsyslogInstallCmd pkgMgr =
     (if (pkgMgr = ''dnf'' \<or> pkgMgr = ''yum'') \<or> pkgMgr = ''tdnf''
        then ''dnf install rsyslog && systemctl enable --now rsyslog''
      else if pkgMgr = ''zypper'' then ''zypper install rsyslog && systemctl enable --now rsyslog''
      else if pkgMgr = ''pacman'' then ''pacman -S rsyslog && systemctl enable --now rsyslog''
      else ''apt install rsyslog && systemctl enable --now rsyslog'')"

definition firewallInstallCmd :: "gostring \<Rightarrow> gostring" where
  "firewallInstallCmd pkgMgr =
     (if (pkgMgr = ''dnf'' \<or> pkgMgr = ''yum'') \<or> pkgMgr = ''tdnf''
        then ''dnf install firewalld && systemctl enable --now firewalld''
      else if pkgMgr = ''zypper''
        then ''zypper install firewalld && systemctl enable --now firewalld''
      else if pkgMgr = ''pacman'' then ''pacman -S firewalld && systemctl enable --now firewalld''
      else ''apt install ufw && ufw enable'')"

definition unattendedUpgradesInstallCmd :: "gostring \<Rightarrow> gostring" where
  "unattendedUpgradesInstallCmd pkgMgr =
     (if (pkgMgr = ''dnf'' \<or> pkgMgr = ''yum'') \<or> pkgMgr = ''tdnf''
        then ''dnf install dnf-automatic && systemctl enable --now dnf-automatic-install.timer''
      else if pkgMgr = ''zypper''
        then ''zypper install zypper-needs-restarting && zypper mr -e zypper-auto-update''
      else ''apt install unattended-upgrades && dpkg-reconfigure unattended-upgrades'')"

definition checkSysctlFile ::
  "cis_host \<Rightarrow> rule \<Rightarrow> gostring \<Rightarrow> gostring \<Rightarrow> gostring \<Rightarrow> gostring \<Rightarrow> cis_result" where
  "checkSysctlFile env r path wantVal finding fix =
     (case ReadFile env path of
          None \<Rightarrow> skipr r (''could not read '' @ path)
        | Some data \<Rightarrow> (if trim_space data \<noteq> wantVal then failr r finding fix else cis_pass r))"

definition checkSysctlGE ::
  "cis_host \<Rightarrow> rule \<Rightarrow> gostring \<Rightarrow> int \<Rightarrow> gostring \<Rightarrow> gostring \<Rightarrow> cis_result" where
  "checkSysctlGE env r path minVal finding fix =
     (case ReadFile env path of
          None \<Rightarrow> skipr r (''could not read '' @ path)
        | Some data \<Rightarrow>
            (case atoi (trim_space data) of
                 None \<Rightarrow>
                   unverifiedr r (path @ '': non-integer value '' @ Quote env (trim_space data))
               | Some v \<Rightarrow> (if v < minVal then failr r finding fix else cis_pass r)))"

definition checkFilePerm :: "cis_host \<Rightarrow> rule \<Rightarrow> gostring \<Rightarrow> 32 word \<Rightarrow> gostring \<Rightarrow> cis_result" where
  "checkFilePerm env r path maxMode fix =
     (case Stat env path of
          None \<Rightarrow> skipr r (path @ '' not found'')
        | Some fi \<Rightarrow>
            (if Perm (file_Mode fi) AND NOT maxMode \<noteq> 0
               then failr r
                      (path @ '' mode is '' @ fmt_o (Perm (file_Mode fi)) @ '' (max '' @
                       fmt_o maxMode @ '')'') fix
             else cis_pass r))"

definition checkBannerContent :: "cis_host \<Rightarrow> rule \<Rightarrow> gostring \<Rightarrow> gostring \<Rightarrow> cis_result" where
  "checkBannerContent env r path fix =
     (case ReadFile env path of
          None \<Rightarrow> failr r (path @ '' not found '' @ em_dash @ '' no login banner configured'') fix
        | Some data \<Rightarrow>
            (if trim_space data = []
               then failr r
                      (path @ '' is empty '' @ em_dash @ '' configure a login warning banner'') fix
             else case first_some
                    (\<lambda>seq.
                      if contains data seq
                        then Some (failr r
                                     (path @ '' contains OS fingerprinting sequence '' @
                                      Quote env seq)
                                     (''remove '' @ bslash @ ''s '' @ bslash @ ''m '' @ bslash @
                                      ''r '' @ bslash @ ''v '' @ bslash @ ''u sequences from '' @
                                      path))
                      else None)
                    [bslash @ ''s'', bslash @ ''m'', bslash @ ''r'', bslash @ ''v'', bslash @ ''u''] of
                      Some c \<Rightarrow> c
                    | None \<Rightarrow> cis_pass r))"

definition checkFileOwnerRootRoot :: "cis_host \<Rightarrow> rule \<Rightarrow> gostring \<Rightarrow> gostring \<Rightarrow> cis_result" where
  "checkFileOwnerRootRoot env r path fix =
     (case Stat env path of
          None \<Rightarrow> skipr r (path @ '' not found'')
        | Some fi \<Rightarrow>
            (case file_Sys fi of
                 None \<Rightarrow> skipr r (''cannot determine ownership of '' @ path)
               | Some stat \<Rightarrow>
                   (if owner_Uid stat \<noteq> 0 \<or> owner_Gid stat \<noteq> 0
                      then failr r
                             (path @ '' owned by uid='' @ itoa (owner_Uid stat) @ '' gid='' @
                              itoa (owner_Gid stat) @ '' (must be root:root)'') fix
                    else cis_pass r)))"

definition checkFileOwnerRootRootOrShadow ::
  "cis_host \<Rightarrow> rule \<Rightarrow> gostring \<Rightarrow> gostring \<Rightarrow> cis_result" where
  "checkFileOwnerRootRootOrShadow env r path fix =
     (case Stat env path of
          None \<Rightarrow> skipr r (path @ '' not found'')
        | Some fi \<Rightarrow>
            (case file_Sys fi of
                 None \<Rightarrow> skipr r (''cannot determine ownership of '' @ path)
               | Some stat \<Rightarrow>
                   (if owner_Uid stat \<noteq> 0
                      then failr r
                             (path @ '' not owned by root (uid='' @ itoa (owner_Uid stat) @ '')'')
                             fix
                    else if owner_Gid stat = 0 then cis_pass r
                    else case LookupGroup env ''shadow'' of
                             None \<Rightarrow>
                               failr r
                                 (path @ '' not group root or shadow (gid='' @
                                  itoa (owner_Gid stat) @ '')'') fix
                           | Some g \<Rightarrow>
                               (case parse_uint 10 32 g of
                                    None \<Rightarrow>
                                      failr r
                                        (path @ '' not group root or shadow (gid='' @
                                         itoa (owner_Gid stat) @ '')'') fix
                                  | Some gid \<Rightarrow>
                                      (if owner_Gid stat = wrapu32 gid then cis_pass r
                                       else failr r
                                              (path @ '' not group root or shadow (gid='' @
                                               itoa (owner_Gid stat) @ '')'') fix)))))"

definition checkServiceNotInstalled ::
  "cis_host \<Rightarrow> rule \<Rightarrow> gostring list \<Rightarrow> gostring \<Rightarrow> cis_result" where
  "checkServiceNotInstalled env r binPaths fix =
     (case first_some
        (\<lambda>p. case Stat env p of None \<Rightarrow> None | Some _ \<Rightarrow> Some (failr r (''binary found: '' @ p) fix))
        binPaths of
          Some c \<Rightarrow> c
        | None \<Rightarrow> cis_pass r)"

definition checkModuleDisabled :: "cis_host \<Rightarrow> rule \<Rightarrow> gostring \<Rightarrow> gostring \<Rightarrow> cis_result" where
  "checkModuleDisabled env r modul fix =
     (case ReadFile env procModulesPath of
          None \<Rightarrow> skipr r (''could not read '' @ procModulesPath @ '' (not a Linux system)'')
        | Some modulesData \<Rightarrow>
            (case first_some
               (\<lambda>line.
                 if has_prefix line (modul @ '' '')
                   then Some (failr r
                                (''kernel module '' @ Quote env modul @ '' is currently loaded'')
                                fix)
                 else None)
               (split_byte modulesData (CHR 0x0A)) of
                 Some c \<Rightarrow> c
               | None \<Rightarrow>
                   (case ReadDir env modprobeDPath of
                        None \<Rightarrow>
                          failr r
                            (''no modprobe disable config for '' @ Quote env modul @
                             '' (module can load on demand)'') fix
                      | Some entries \<Rightarrow>
                          (case first_some
                             (\<lambda>e.
                               if entry_IsDir e \<or> \<not> has_suffix (entry_Name e) ''.conf'' then None
                               else case ReadFile env (path_join [modprobeDPath, entry_Name e]) of
                                        None \<Rightarrow> None
                                      | Some confData \<Rightarrow>
                                          first_some
                                            (\<lambda>line.
                                              let line = trim_space line
                                              in if has_prefix line
                                                      (''install '' @ modul @ '' /bin/true'') \<or>
                                                    has_prefix line (''blacklist '' @ modul)
                                                   then Some (cis_pass r)
                                                 else None)
                                            (split_byte confData (CHR 0x0A)))
                             entries of
                               Some c \<Rightarrow> c
                             | None \<Rightarrow>
                                 failr r
                                   (''no modprobe disable config for '' @ Quote env modul @
                                    '' (module can load on demand)'') fix))))"

definition checkMountOption ::
  "cis_host \<Rightarrow> rule \<Rightarrow> gostring \<Rightarrow> gostring \<Rightarrow> gostring \<Rightarrow> cis_result" where
  "checkMountOption env r mountPoint option fix =
     (case ReadFile env procMountsPath of
          None \<Rightarrow> skipr r (''could not read '' @ procMountsPath)
        | Some data \<Rightarrow>
            (case first_some
               (\<lambda>line.
                 let fields = Go_Prelude.fields line
                 in if int (length fields) < 4 \<or> fields ! 1 \<noteq> mountPoint then None
                    else case first_some
                           (\<lambda>opt. if opt = option then Some (cis_pass r) else None)
                           (split_byte (fields ! 3) (CHR '','')) of
                             Some c \<Rightarrow> Some c
                           | None \<Rightarrow>
                               Some (failr r
                                       (mountPoint @ '' is mounted without '' @ squote @ option @
                                        squote @ '' option'') fix))
               (split_byte data (CHR 0x0A)) of
                 Some c \<Rightarrow> c
               | None \<Rightarrow>
                   skipr r (mountPoint @ '' not found as a separate mount (option check skipped)'')))"

definition checkSeparateMountPoint :: "cis_host \<Rightarrow> rule \<Rightarrow> gostring \<Rightarrow> gostring \<Rightarrow> cis_result" where
  "checkSeparateMountPoint env r mountPoint fix =
     (case ReadFile env procMountsPath of
          None \<Rightarrow> skipr r (''could not read '' @ procMountsPath)
        | Some data \<Rightarrow>
            (case first_some
               (\<lambda>line.
                 let fields = Go_Prelude.fields line
                 in if 2 \<le> int (length fields) \<and> fields ! 1 = mountPoint then Some (cis_pass r)
                    else None)
               (split_byte data (CHR 0x0A)) of
                 Some c \<Rightarrow> c
               | None \<Rightarrow> failr r (mountPoint @ '' is not on a separate partition'') fix))"

definition checkAuditRule ::
  "cis_host \<Rightarrow> rule \<Rightarrow> bool \<Rightarrow> gostring list \<Rightarrow> gostring \<Rightarrow> cis_result" where
  "checkAuditRule env r auditRulesInaccessible patterns fix =
     (let lines = [];
          lines =
            case ReadFile env auditRulesFilePath of
                None \<Rightarrow> lines
              | Some data \<Rightarrow> lines @ concat (map (\<lambda>line. [line]) (split_byte data (CHR 0x0A)));
          lines =
            case ReadDir env auditRulesDPath of
                None \<Rightarrow> lines
              | Some entries \<Rightarrow>
                  lines @
                  concat (map
                            (\<lambda>e.
                              if entry_IsDir e \<or> \<not> has_suffix (entry_Name e) ''.rules'' then []
                              else case ReadFile env (path_join [auditRulesDPath, entry_Name e]) of
                                       None \<Rightarrow> []
                                     | Some data \<Rightarrow>
                                         concat (map (\<lambda>line. [line]) (split_byte data (CHR 0x0A))))
                            entries)
      in if lines = []
           then (if auditRulesInaccessible
                   then unverifiedr r
                          (''audit rule files could not be read '' @ em_dash @
                           '' run as root for complete coverage'')
                 else skipr r ''no audit rule files found (auditd not configured)'')
         else case first_some
                (\<lambda>pattern.
                  let found = False;
                      found =
                        case first_some
                          (\<lambda>line.
                            let trimmed = trim_space line
                            in if trimmed = [] \<or> has_prefix trimmed ''#'' then None
                               else if auditLineMatchesPattern trimmed pattern
                                 then (let found = True
                                       in Some found)
                               else None)
                          lines of
                          Some r \<Rightarrow> r
                          | None \<Rightarrow> found
                  in if \<not> found then Some (failr r (''audit rule not found: '' @ pattern) fix)
                     else None)
                patterns of
                  Some c \<Rightarrow> c
                | None \<Rightarrow> cis_pass r)"

definition overrideAmbiguousVerdict :: "rule \<Rightarrow> security_info \<Rightarrow> cis_result \<Rightarrow> cis_result" where
  "overrideAmbiguousVerdict rule sec result =
     (if ((rule_Section rule = cisCatSSH \<and> rule_ID rule \<noteq> cisRuleSSH52) \<and> sshConfigUnverified sec) \<and>
         (cis_Status result = CISPass \<or> cis_Status result = CISFail)
        then unverifiedr rule
               (''sshd_config not readable (run as root) '' @ em_dash @
                '' SSH setting not verified'')
      else if map_get False auditVerdictAmbiguousRuleIDs (rule_ID rule) \<and>
              security_AuditRulesUnreadable sec
        then unverifiedr rule
               (''auditctl -l refused (run as root) '' @ em_dash @
                '' auditd install/run state not verified'')
      else result)"

section \<open>Conformance\<close>

text \<open>
  What a check owes its rule: the result is the rule's own and carries no references yet; it passes, fails with
  a finding and a remedy, or is skipped with a reason, and only a skipped result may be unverified.
\<close>

definition conforms :: "rule \<Rightarrow> cis_result \<Rightarrow> bool" where
  "conforms r c \<longleftrightarrow>
     cis_ID c = rule_ID r \<and> cis_Framework c = rule_Framework r \<and> cis_Level c = rule_Level r \<and>
     cis_Section c = rule_Section r \<and> cis_Description c = rule_Description r \<and>
     cis_NIS2Refs c = [] \<and> cis_BSIRefs c = [] \<and>
     (cis_Status c = CISPass \<and> cis_Finding c = [] \<and> cis_Remediation c = [] \<and> \<not> cis_Unverified c \<or>
      cis_Status c = CISFail \<and> cis_Finding c \<noteq> [] \<and> cis_Remediation c \<noteq> [] \<and> \<not> cis_Unverified c \<or>
      cis_Status c = CISSkipped \<and> cis_Finding c \<noteq> [] \<and> cis_Remediation c = [])"

definition conforms_opt :: "rule \<Rightarrow> cis_result option \<Rightarrow> bool" where
  "conforms_opt r oc \<longleftrightarrow> (\<forall>c. oc = Some c \<longrightarrow> conforms r c)"

definition conforms_flow :: "rule \<Rightarrow> (cis_result, 's) flow \<Rightarrow> bool" where
  "conforms_flow r x \<longleftrightarrow> (\<forall>c. x = Return c \<longrightarrow> conforms r c)"

lemma conforms_results:
  "conforms r (cis_pass r)"
  "f \<noteq> [] \<Longrightarrow> x \<noteq> [] \<Longrightarrow> conforms r (failr r f x)"
  "f \<noteq> [] \<Longrightarrow> conforms r (skipr r f)"
  "f \<noteq> [] \<Longrightarrow> conforms r (unverifiedr r f)"
  by (simp_all add: conforms_def cis_pass_def failr_def skipr_def unverifiedr_def)

lemma conforms_opt_intros:
  "conforms_opt r None"
  "conforms r c \<Longrightarrow> conforms_opt r (Some c)"
  "(b \<Longrightarrow> conforms_opt r x) \<Longrightarrow> (\<not> b \<Longrightarrow> conforms_opt r y) \<Longrightarrow> conforms_opt r (if b then x else y)"
  "(\<And>z. conforms_opt r (g z)) \<Longrightarrow> conforms_opt r (Let e g)"
  "(oz = None \<Longrightarrow> conforms_opt r x) \<Longrightarrow> (\<And>z. oz = Some z \<Longrightarrow> conforms_opt r (h z)) \<Longrightarrow> conforms_opt r (case oz of None \<Rightarrow> x | Some z \<Rightarrow> h z)"
  "(\<And>y z. conforms_opt r (k y z)) \<Longrightarrow> conforms_opt r (case p of (y, z) \<Rightarrow> k y z)"
  by (auto simp: conforms_opt_def split: option.splits prod.splits)

lemma conforms_opt_first_some: "(\<And>x. conforms_opt r (f x)) \<Longrightarrow> conforms_opt r (first_some f xs)"
  by (induction xs) (auto simp: conforms_opt_def split: option.splits)

lemma conforms_flow_intros:
  "conforms r c \<Longrightarrow> conforms_flow r (Return c)"
  "conforms_flow r (Next s)"
  "conforms_flow r (Break s)"
  "(b \<Longrightarrow> conforms_flow r x) \<Longrightarrow> (\<not> b \<Longrightarrow> conforms_flow r y) \<Longrightarrow> conforms_flow r (if b then x else y)"
  "(\<And>z. conforms_flow r (g z)) \<Longrightarrow> conforms_flow r (Let e g)"
  "(oz = None \<Longrightarrow> conforms_flow r x) \<Longrightarrow> (\<And>z. oz = Some z \<Longrightarrow> conforms_flow r (h z)) \<Longrightarrow>
     conforms_flow r (case oz of None \<Rightarrow> x | Some z \<Rightarrow> h z)"
  "(\<And>y z. conforms_flow r (k y z)) \<Longrightarrow> conforms_flow r (case p of (y, z) \<Rightarrow> k y z)"
  by (auto simp: conforms_flow_def split: option.splits prod.splits)

lemma loop_return: "(\<And>t x. conforms_flow r (f t x)) \<Longrightarrow> loop f s xs = Inl c \<Longrightarrow> conforms r c"
  by (induction xs arbitrary: s) (auto simp: conforms_flow_def split: flow.splits)

lemma conforms_flow_loop:
  "(\<And>t x. conforms_flow r (f t x)) \<Longrightarrow> (\<And>t. conforms_flow r (g t)) \<Longrightarrow>
   conforms_flow r (case loop f s xs of Inl c \<Rightarrow> Return c | Inr t \<Rightarrow> g t)"
  using loop_return [of r f s xs] by (auto simp: conforms_flow_def split: sum.splits)

lemma conforms_loop:
  "(\<And>t x. conforms_flow r (f t x)) \<Longrightarrow> (\<And>t. conforms r (g t)) \<Longrightarrow>
   conforms r (case loop f s xs of Inl c \<Rightarrow> c | Inr t \<Rightarrow> g t)"
  using loop_return [of r f s xs] by (auto split: sum.splits)

lemma conforms_found:
  "conforms_opt r oc \<Longrightarrow> conforms r y \<Longrightarrow> conforms r (case oc of None \<Rightarrow> y | Some c \<Rightarrow> c)"
  by (auto simp: conforms_opt_def split: option.splits)

lemma conforms_opt_found:
  "conforms_opt r oc \<Longrightarrow> conforms_opt r y \<Longrightarrow> conforms_opt r (case oc of None \<Rightarrow> y | Some c \<Rightarrow> Some c)"
  by (auto simp: conforms_opt_def split: option.splits)

lemma conforms_own: "conforms r (g r) \<Longrightarrow> conforms r (let s = r in g s)"
  by simp

lemma conforms_intros:
  "(b \<Longrightarrow> conforms r x) \<Longrightarrow> (\<not> b \<Longrightarrow> conforms r y) \<Longrightarrow> conforms r (if b then x else y)"
  "(\<And>z. conforms r (g z)) \<Longrightarrow> conforms r (Let e g)"
  "(oz = None \<Longrightarrow> conforms r x) \<Longrightarrow> (\<And>z. oz = Some z \<Longrightarrow> conforms r (h z)) \<Longrightarrow> conforms r (case oz of None \<Rightarrow> x | Some z \<Rightarrow> h z)"
  "(\<And>y z. conforms r (k y z)) \<Longrightarrow> conforms r (case p of (y, z) \<Rightarrow> k y z)"
  by (auto split: option.splits prod.splits)

text \<open>The order matters: a rule's own entry is substituted, and a search is recognised before its case.\<close>

lemmas conforms_rules =
  conforms_results conforms_own conforms_found conforms_loop conforms_intros
  conforms_opt_first_some conforms_opt_found conforms_opt_intros conforms_flow_loop conforms_flow_intros

named_theorems conforming

lemma texts_not_empty [simp]:
  "cisSkipSSHDirUnreadable \<noteq> []"
  "cisSkipSSHConfigUnreadable \<noteq> []"
  "cisSkipDebianOnly \<noteq> []"
  "cisSkipAuditdUnavailable \<noteq> []"
  "cisSkipAuditdConfUnreadable \<noteq> []"
  "cisFixAuditBacklogGrub \<noteq> []"
  "cisSkipJournaldNotFound \<noteq> []"
  "cisSkipSudoersUnreadable \<noteq> []"
  "cisFixInactiveUseradd \<noteq> []"
  "cisSkipPasswdUnreadable \<noteq> []"
  "cisSkipGroupUnreadable \<noteq> []"
  "cisSkipHomeDirsUnreadable \<noteq> []"
  by (simp_all add: cisSkipSSHDirUnreadable_def cisSkipSSHConfigUnreadable_def cisSkipDebianOnly_def cisSkipAuditdUnavailable_def cisSkipAuditdConfUnreadable_def cisFixAuditBacklogGrub_def cisSkipJournaldNotFound_def cisSkipSudoersUnreadable_def cisFixInactiveUseradd_def cisSkipPasswdUnreadable_def cisSkipGroupUnreadable_def cisSkipHomeDirsUnreadable_def)

lemma commands_not_empty [simp]:
  "aideInstallCmd pkgMgr \<noteq> []"
  "auditInstallCmd pkgMgr \<noteq> []"
  "auditRulesCmd pkgMgr \<noteq> []"
  "timeSyncInstallCmd pkgMgr \<noteq> []"
  "apparmorInstallCmd pkgMgr \<noteq> []"
  "iptablesPersistentRemoveCmd pkgMgr \<noteq> []"
  "macInstallCmd pkgMgr \<noteq> []"
  "sudoInstallCmd pkgMgr \<noteq> []"
  "rsyslogInstallCmd pkgMgr \<noteq> []"
  "firewallInstallCmd pkgMgr \<noteq> []"
  "unattendedUpgradesInstallCmd pkgMgr \<noteq> []"
  by (simp_all add: aideInstallCmd_def auditInstallCmd_def auditRulesCmd_def timeSyncInstallCmd_def apparmorInstallCmd_def iptablesPersistentRemoveCmd_def macInstallCmd_def sudoInstallCmd_def rsyslogInstallCmd_def firewallInstallCmd_def unattendedUpgradesInstallCmd_def)

lemma checkSysctlFile_conforms [conforming]:
  "finding \<noteq> [] \<Longrightarrow> fix \<noteq> [] \<Longrightarrow> conforms r (checkSysctlFile env r path wantVal finding fix)"
  unfolding checkSysctlFile_def by (intro conforms_rules; (simp; fail)?)

lemma checkSysctlGE_conforms [conforming]:
  "finding \<noteq> [] \<Longrightarrow> fix \<noteq> [] \<Longrightarrow> conforms r (checkSysctlGE env r path minVal finding fix)"
  unfolding checkSysctlGE_def by (intro conforms_rules; (simp; fail)?)

lemma checkFilePerm_conforms [conforming]:
  "fix \<noteq> [] \<Longrightarrow> conforms r (checkFilePerm env r path maxMode fix)"
  unfolding checkFilePerm_def by (intro conforms_rules; (simp; fail)?)

lemma checkBannerContent_conforms [conforming]:
  "fix \<noteq> [] \<Longrightarrow> conforms r (checkBannerContent env r path fix)"
  unfolding checkBannerContent_def by (intro conforms_rules; (simp; fail)?)

lemma checkFileOwnerRootRoot_conforms [conforming]:
  "fix \<noteq> [] \<Longrightarrow> conforms r (checkFileOwnerRootRoot env r path fix)"
  unfolding checkFileOwnerRootRoot_def by (intro conforms_rules; (simp; fail)?)

lemma checkFileOwnerRootRootOrShadow_conforms [conforming]:
  "fix \<noteq> [] \<Longrightarrow> conforms r (checkFileOwnerRootRootOrShadow env r path fix)"
  unfolding checkFileOwnerRootRootOrShadow_def by (intro conforms_rules; (simp; fail)?)

lemma checkServiceNotInstalled_conforms [conforming]:
  "fix \<noteq> [] \<Longrightarrow> conforms r (checkServiceNotInstalled env r binPaths fix)"
  unfolding checkServiceNotInstalled_def by (intro conforms_rules; (simp; fail)?)

lemma checkModuleDisabled_conforms [conforming]:
  "fix \<noteq> [] \<Longrightarrow> conforms r (checkModuleDisabled env r modul fix)"
  unfolding checkModuleDisabled_def by (intro conforms_rules; (simp; fail)?)

lemma checkMountOption_conforms [conforming]:
  "fix \<noteq> [] \<Longrightarrow> conforms r (checkMountOption env r mountPoint option fix)"
  unfolding checkMountOption_def by (intro conforms_rules; (simp; fail)?)

lemma checkSeparateMountPoint_conforms [conforming]:
  "fix \<noteq> [] \<Longrightarrow> conforms r (checkSeparateMountPoint env r mountPoint fix)"
  unfolding checkSeparateMountPoint_def by (intro conforms_rules; (simp; fail)?)

lemma checkAuditRule_conforms [conforming]:
  "fix \<noteq> [] \<Longrightarrow> conforms r (checkAuditRule env r auditRulesInaccessible patterns fix)"
  unfolding checkAuditRule_def by (intro conforms_rules; (simp; fail)?)

lemma checkLoginDefsField_conforms [conforming]:
  "(\<And>n. failFmt n \<noteq> []) \<Longrightarrow> failFix \<noteq> [] \<Longrightarrow> notSetFinding \<noteq> [] \<Longrightarrow> notSetFix \<noteq> [] \<Longrightarrow> conforms r (checkLoginDefsField env r path field fails failFmt failFix notSetFinding notSetFix)"
  unfolding checkLoginDefsField_def by (intro conforms_rules; (simp; fail)?)

lemma checkRemovableMediaOption_conforms [conforming]:
  "conforms r (checkRemovableMediaOption env r option)"
  unfolding checkRemovableMediaOption_def by (intro conforms_rules; (simp; fail)?)

end
