(* ===== verification/Cis_Rules.thy ===== *)
theory Cis_Rules
  imports Cis_Base
begin

text \<open>
  The entries of \<open>buildRules\<close> in internal/cis/rules.go, without their checks, in the order of the source, and the
  lookup by which a check finds its own entry.
\<close>

section \<open>The rules\<close>

definition rule_1_5_1 :: rule where
  "rule_1_5_1 =
     \<lparr>rule_ID = ''1.5.1'', rule_StigID = [], rule_Framework = cisBenchCIS, rule_Level = 1, rule_Section = ''Kernel'',
      rule_Description = ''Ensure ASLR is enabled (kernel.randomize_va_space=2)'',
      rule_StigDescription = []\<rparr>"

definition rule_1_5_4 :: rule where
  "rule_1_5_4 =
     \<lparr>rule_ID = ''1.5.4'', rule_StigID = [], rule_Framework = cisBenchCIS, rule_Level = 1, rule_Section = ''Kernel'',
      rule_Description = ''Ensure core dumps are restricted (fs.suid_dumpable=0)'',
      rule_StigDescription = []\<rparr>"

definition rule_1_5_5 :: rule where
  "rule_1_5_5 =
     \<lparr>rule_ID = ''1.5.5'', rule_StigID = [], rule_Framework = cisBenchCIS, rule_Level = 1, rule_Section = ''Kernel'',
      rule_Description = ''Ensure hardlink protection is enabled (fs.protected_hardlinks=1)'',
      rule_StigDescription = []\<rparr>"

definition rule_1_5_6 :: rule where
  "rule_1_5_6 =
     \<lparr>rule_ID = ''1.5.6'', rule_StigID = [], rule_Framework = cisBenchCIS, rule_Level = 1, rule_Section = ''Kernel'',
      rule_Description = ''Ensure symlink protection is enabled (fs.protected_symlinks=1)'',
      rule_StigDescription = []\<rparr>"

definition rule_1_5_7 :: rule where
  "rule_1_5_7 =
     \<lparr>rule_ID = ''1.5.7'', rule_StigID = [], rule_Framework = cisBenchCIS, rule_Level = 1, rule_Section = ''Kernel'',
      rule_Description = ''Ensure kernel dmesg access is restricted (kernel.dmesg_restrict=1)'',
      rule_StigDescription = []\<rparr>"

definition rule_1_5_8 :: rule where
  "rule_1_5_8 =
     \<lparr>rule_ID = ''1.5.8'', rule_StigID = [], rule_Framework = cisBenchCIS, rule_Level = 1, rule_Section = ''Kernel'',
      rule_Description = ''Ensure perf event access is restricted (kernel.perf_event_paranoid >= 1)'',
      rule_StigDescription = []\<rparr>"

definition rule_1_5_9 :: rule where
  "rule_1_5_9 =
     \<lparr>rule_ID = ''1.5.9'', rule_StigID = [], rule_Framework = cisBenchCIS, rule_Level = 1, rule_Section = ''Kernel'',
      rule_Description = ''Ensure kernel pointer addresses are restricted (kernel.kptr_restrict >= 1)'',
      rule_StigDescription = []\<rparr>"

definition rule_1_5_10 :: rule where
  "rule_1_5_10 =
     \<lparr>rule_ID = ''1.5.10'', rule_StigID = [], rule_Framework = cisBenchCIS, rule_Level = 1, rule_Section = ''Kernel'',
      rule_Description = ''Ensure ptrace is restricted to parent process (kernel.yama.ptrace_scope >= 1)'',
      rule_StigDescription = []\<rparr>"

definition rule_1_5_11 :: rule where
  "rule_1_5_11 =
     \<lparr>rule_ID = ''1.5.11'', rule_StigID = [], rule_Framework = cisBenchCIS, rule_Level = 1, rule_Section = ''Kernel'',
      rule_Description = ''Ensure BPF JIT hardening is enabled (net.core.bpf_jit_harden=2)'',
      rule_StigDescription = []\<rparr>"

definition rule_1_5_12 :: rule where
  "rule_1_5_12 =
     \<lparr>rule_ID = ''1.5.12'', rule_StigID = [], rule_Framework = cisBenchCIS, rule_Level = 1, rule_Section = ''Kernel'',
      rule_Description = ''Ensure minimum mmap address is restricted (vm.mmap_min_addr >= 65536)'',
      rule_StigDescription = []\<rparr>"

definition rule_1_5_14 :: rule where
  "rule_1_5_14 =
     \<lparr>rule_ID = ''1.5.14'', rule_StigID = [], rule_Framework = cisBenchCIS, rule_Level = 1, rule_Section = ''Kernel'',
      rule_Description = ''Ensure SysRq key is disabled (kernel.sysrq = 0)'',
      rule_StigDescription = []\<rparr>"

definition rule_1_5_15 :: rule where
  "rule_1_5_15 =
     \<lparr>rule_ID = ''1.5.15'', rule_StigID = [], rule_Framework = cisBenchCIS, rule_Level = 1, rule_Section = ''Kernel'',
      rule_Description = ''Ensure PID is included in core dump filename (kernel.core_uses_pid = 1)'',
      rule_StigDescription = []\<rparr>"

definition rule_1_5_16 :: rule where
  "rule_1_5_16 =
     \<lparr>rule_ID = ''1.5.16'', rule_StigID = [], rule_Framework = cisBenchCIS, rule_Level = 1, rule_Section = ''Kernel'',
      rule_Description = ''Ensure regular file creation in sticky dirs is restricted (fs.protected_regular >= 1)'',
      rule_StigDescription = []\<rparr>"

definition rule_1_5_17 :: rule where
  "rule_1_5_17 =
     \<lparr>rule_ID = ''1.5.17'', rule_StigID = [], rule_Framework = cisBenchCIS, rule_Level = 1, rule_Section = ''Kernel'',
      rule_Description = ''Ensure FIFO creation in sticky dirs is restricted (fs.protected_fifos >= 1)'',
      rule_StigDescription = []\<rparr>"

definition rule_1_5_18 :: rule where
  "rule_1_5_18 =
     \<lparr>rule_ID = ''1.5.18'', rule_StigID = [], rule_Framework = cisBenchCIS, rule_Level = 1, rule_Section = ''Kernel'',
      rule_Description = ''Ensure unprivileged BPF is disabled (kernel.unprivileged_bpf_disabled >= 1)'',
      rule_StigDescription = []\<rparr>"

definition rule_2_1_1 :: rule where
  "rule_2_1_1 =
     \<lparr>rule_ID = ''2.1.1'', rule_StigID = [], rule_Framework = cisBenchCIS, rule_Level = 1, rule_Section = cisCatServices,
      rule_Description = ''Ensure a time synchronization daemon is installed'',
      rule_StigDescription = []\<rparr>"

definition rule_2_1_2 :: rule where
  "rule_2_1_2 =
     \<lparr>rule_ID = ''2.1.2'', rule_StigID = [], rule_Framework = cisBenchCIS, rule_Level = 1, rule_Section = cisCatServices,
      rule_Description = ''Ensure time synchronization daemon is configured'',
      rule_StigDescription = []\<rparr>"

definition rule_2_2_1 :: rule where
  "rule_2_2_1 =
     \<lparr>rule_ID = ''2.2.1'', rule_StigID = [], rule_Framework = cisBenchCIS, rule_Level = 1, rule_Section = cisCatServices,
      rule_Description = ''Ensure NIS client is not installed'',
      rule_StigDescription = []\<rparr>"

definition rule_2_2_2 :: rule where
  "rule_2_2_2 =
     \<lparr>rule_ID = ''2.2.2'', rule_StigID = [], rule_Framework = cisBenchCIS, rule_Level = 1, rule_Section = cisCatServices,
      rule_Description = ''Ensure rsh client is not installed'',
      rule_StigDescription = []\<rparr>"

definition rule_2_2_3 :: rule where
  "rule_2_2_3 =
     \<lparr>rule_ID = ''2.2.3'', rule_StigID = [], rule_Framework = cisBenchCIS, rule_Level = 1, rule_Section = cisCatServices,
      rule_Description = ''Ensure talk client is not installed'',
      rule_StigDescription = []\<rparr>"

definition rule_2_2_4 :: rule where
  "rule_2_2_4 =
     \<lparr>rule_ID = ''2.2.4'', rule_StigID = [], rule_Framework = cisBenchCIS, rule_Level = 1, rule_Section = cisCatServices,
      rule_Description = ''Ensure telnet client is not installed'',
      rule_StigDescription = []\<rparr>"

definition rule_2_2_5 :: rule where
  "rule_2_2_5 =
     \<lparr>rule_ID = ''2.2.5'', rule_StigID = [], rule_Framework = cisBenchCIS, rule_Level = 1, rule_Section = cisCatServices,
      rule_Description = ''Ensure LDAP client is not installed'',
      rule_StigDescription = []\<rparr>"

definition rule_2_3_1 :: rule where
  "rule_2_3_1 =
     \<lparr>rule_ID = ''2.3.1'', rule_StigID = [], rule_Framework = cisBenchCIS, rule_Level = 1, rule_Section = cisCatServices,
      rule_Description = ''Ensure Xorg X11 server is not installed'',
      rule_StigDescription = []\<rparr>"

definition rule_2_3_2 :: rule where
  "rule_2_3_2 =
     \<lparr>rule_ID = ''2.3.2'', rule_StigID = [], rule_Framework = cisBenchCIS, rule_Level = 1, rule_Section = cisCatServices,
      rule_Description = ''Ensure Avahi server is not installed'',
      rule_StigDescription = []\<rparr>"

definition rule_2_3_3 :: rule where
  "rule_2_3_3 =
     \<lparr>rule_ID = ''2.3.3'', rule_StigID = [], rule_Framework = cisBenchCIS, rule_Level = 1, rule_Section = cisCatServices,
      rule_Description = ''Ensure CUPS printing server is not installed'',
      rule_StigDescription = []\<rparr>"

definition rule_2_3_4 :: rule where
  "rule_2_3_4 =
     \<lparr>rule_ID = ''2.3.4'', rule_StigID = [], rule_Framework = cisBenchCIS, rule_Level = 1, rule_Section = cisCatServices,
      rule_Description = ''Ensure DHCP server is not installed'',
      rule_StigDescription = []\<rparr>"

definition rule_2_3_5 :: rule where
  "rule_2_3_5 =
     \<lparr>rule_ID = ''2.3.5'', rule_StigID = [], rule_Framework = cisBenchCIS, rule_Level = 1, rule_Section = cisCatServices,
      rule_Description = ''Ensure LDAP server is not installed'',
      rule_StigDescription = []\<rparr>"

definition rule_2_3_6 :: rule where
  "rule_2_3_6 =
     \<lparr>rule_ID = ''2.3.6'', rule_StigID = [], rule_Framework = cisBenchCIS, rule_Level = 1, rule_Section = cisCatServices,
      rule_Description = ''Ensure NFS server is not installed'',
      rule_StigDescription = []\<rparr>"

definition rule_2_3_7 :: rule where
  "rule_2_3_7 =
     \<lparr>rule_ID = ''2.3.7'', rule_StigID = [], rule_Framework = cisBenchCIS, rule_Level = 1, rule_Section = cisCatServices,
      rule_Description = ''Ensure DNS server is not installed'',
      rule_StigDescription = []\<rparr>"

definition rule_2_3_8 :: rule where
  "rule_2_3_8 =
     \<lparr>rule_ID = ''2.3.8'', rule_StigID = [], rule_Framework = cisBenchCIS, rule_Level = 1, rule_Section = cisCatServices,
      rule_Description = ''Ensure FTP server is not installed'',
      rule_StigDescription = []\<rparr>"

definition rule_2_3_9 :: rule where
  "rule_2_3_9 =
     \<lparr>rule_ID = ''2.3.9'', rule_StigID = [], rule_Framework = cisBenchCIS, rule_Level = 1, rule_Section = cisCatServices,
      rule_Description = ''Ensure HTTP server is not installed'',
      rule_StigDescription = []\<rparr>"

definition rule_2_3_10 :: rule where
  "rule_2_3_10 =
     \<lparr>rule_ID = ''2.3.10'', rule_StigID = [], rule_Framework = cisBenchCIS, rule_Level = 1, rule_Section = cisCatServices,
      rule_Description = ''Ensure IMAP and POP3 server is not installed'',
      rule_StigDescription = []\<rparr>"

definition rule_2_3_11 :: rule where
  "rule_2_3_11 =
     \<lparr>rule_ID = ''2.3.11'', rule_StigID = [], rule_Framework = cisBenchCIS, rule_Level = 1, rule_Section = cisCatServices,
      rule_Description = ''Ensure Samba server is not installed'',
      rule_StigDescription = []\<rparr>"

definition rule_2_3_12 :: rule where
  "rule_2_3_12 =
     \<lparr>rule_ID = ''2.3.12'', rule_StigID = [], rule_Framework = cisBenchCIS, rule_Level = 1, rule_Section = cisCatServices,
      rule_Description = ''Ensure HTTP proxy server is not installed'',
      rule_StigDescription = []\<rparr>"

definition rule_2_3_13 :: rule where
  "rule_2_3_13 =
     \<lparr>rule_ID = ''2.3.13'', rule_StigID = [], rule_Framework = cisBenchCIS, rule_Level = 1, rule_Section = cisCatServices,
      rule_Description = ''Ensure SNMP server is not installed'',
      rule_StigDescription = []\<rparr>"

definition rule_2_3_14 :: rule where
  "rule_2_3_14 =
     \<lparr>rule_ID = ''2.3.14'', rule_StigID = [], rule_Framework = cisBenchCIS, rule_Level = 1, rule_Section = cisCatServices,
      rule_Description = ''Ensure MTA is configured for local-only mode'',
      rule_StigDescription = []\<rparr>"

definition rule_2_3_15 :: rule where
  "rule_2_3_15 =
     \<lparr>rule_ID = ''2.3.15'', rule_StigID = [], rule_Framework = cisBenchCIS, rule_Level = 1, rule_Section = cisCatServices,
      rule_Description = ''Ensure rsync service is not enabled'',
      rule_StigDescription = []\<rparr>"

definition rule_2_3_16 :: rule where
  "rule_2_3_16 =
     \<lparr>rule_ID = ''2.3.16'', rule_StigID = [], rule_Framework = cisBenchCIS, rule_Level = 1, rule_Section = cisCatServices,
      rule_Description = ''Ensure NIS server is not installed'',
      rule_StigDescription = []\<rparr>"

definition rule_5_2_1 :: rule where
  "rule_5_2_1 =
     \<lparr>rule_ID = cisRuleSSH52, rule_StigID = ''V-238201'', rule_Framework = cisBenchBOTH, rule_Level = 1, rule_Section = cisCatSSH,
      rule_Description = ''Ensure permissions on /etc/ssh/sshd_config are configured (0600)'',
      rule_StigDescription = ''The SSH daemon configuration file must have mode 0600 or less permissive''\<rparr>"

definition rule_5_2_3 :: rule where
  "rule_5_2_3 =
     \<lparr>rule_ID = ''5.2.3'', rule_StigID = [], rule_Framework = cisBenchCIS, rule_Level = 1, rule_Section = cisCatSSH,
      rule_Description = ''Ensure permissions on SSH public host key files are configured (max 0644)'',
      rule_StigDescription = []\<rparr>"

definition rule_5_2_4 :: rule where
  "rule_5_2_4 =
     \<lparr>rule_ID = ''5.2.4'', rule_StigID = [], rule_Framework = cisBenchCIS, rule_Level = 1, rule_Section = cisCatSSH,
      rule_Description = ''Ensure permissions on SSH private host key files are configured (max 0600)'',
      rule_StigDescription = []\<rparr>"

definition rule_5_2_2 :: rule where
  "rule_5_2_2 =
     \<lparr>rule_ID = ''5.2.2'', rule_StigID = ''V-238202'', rule_Framework = cisBenchBOTH, rule_Level = 1, rule_Section = cisCatSSH,
      rule_Description = ''Ensure SSH access is limited (AllowUsers or AllowGroups set)'',
      rule_StigDescription = []\<rparr>"

definition rule_5_2_5 :: rule where
  "rule_5_2_5 =
     \<lparr>rule_ID = ''5.2.5'', rule_StigID = ''V-238209'', rule_Framework = cisBenchBOTH, rule_Level = 1, rule_Section = cisCatSSH,
      rule_Description = ''Ensure SSH LogLevel is INFO or VERBOSE'',
      rule_StigDescription = ''The SSH daemon must use an approved log level''\<rparr>"

definition rule_5_2_6 :: rule where
  "rule_5_2_6 =
     \<lparr>rule_ID = ''5.2.6'', rule_StigID = ''V-238216'', rule_Framework = cisBenchBOTH, rule_Level = 1, rule_Section = cisCatSSH,
      rule_Description = ''Ensure SSH X11 forwarding is disabled'',
      rule_StigDescription = ''The SSH daemon must not allow X11 forwarding''\<rparr>"

definition rule_5_2_7 :: rule where
  "rule_5_2_7 =
     \<lparr>rule_ID = ''5.2.7'', rule_StigID = ''V-238217'', rule_Framework = cisBenchBOTH, rule_Level = 1, rule_Section = cisCatSSH,
      rule_Description = ''Ensure SSH MaxAuthTries is 4 or less'',
      rule_StigDescription = ''The SSH daemon must limit authentication attempts''\<rparr>"

definition rule_5_2_8 :: rule where
  "rule_5_2_8 =
     \<lparr>rule_ID = ''5.2.8'', rule_StigID = ''V-238218'', rule_Framework = cisBenchBOTH, rule_Level = 1, rule_Section = cisCatSSH,
      rule_Description = ''Ensure SSH IgnoreRhosts is enabled'',
      rule_StigDescription = ''The SSH daemon must ignore .rhosts files''\<rparr>"

definition rule_5_2_9 :: rule where
  "rule_5_2_9 =
     \<lparr>rule_ID = ''5.2.9'', rule_StigID = ''V-238219'', rule_Framework = cisBenchBOTH, rule_Level = 1, rule_Section = cisCatSSH,
      rule_Description = ''Ensure SSH HostbasedAuthentication is disabled'',
      rule_StigDescription = ''The SSH daemon must not allow host-based authentication''\<rparr>"

definition rule_5_2_10 :: rule where
  "rule_5_2_10 =
     \<lparr>rule_ID = ''5.2.10'', rule_StigID = ''V-238210'', rule_Framework = cisBenchBOTH, rule_Level = 1, rule_Section = cisCatSSH,
      rule_Description = ''Ensure SSH root login is disabled'',
      rule_StigDescription = ''The SSH daemon must not allow root logins''\<rparr>"

definition rule_5_2_11 :: rule where
  "rule_5_2_11 =
     \<lparr>rule_ID = ''5.2.11'', rule_StigID = ''V-238211'', rule_Framework = cisBenchBOTH, rule_Level = 1, rule_Section = cisCatSSH,
      rule_Description = ''Ensure SSH PermitEmptyPasswords is disabled'',
      rule_StigDescription = ''The SSH daemon must not allow empty passwords''\<rparr>"

definition rule_5_2_12 :: rule where
  "rule_5_2_12 =
     \<lparr>rule_ID = ''5.2.12'', rule_StigID = ''V-238212'', rule_Framework = cisBenchBOTH, rule_Level = 1, rule_Section = cisCatSSH,
      rule_Description = ''Ensure SSH PermitUserEnvironment is disabled'',
      rule_StigDescription = ''The SSH daemon must not permit user environment variables''\<rparr>"

definition rule_5_2_13 :: rule where
  "rule_5_2_13 =
     \<lparr>rule_ID = ''5.2.13'', rule_StigID = ''V-238220'', rule_Framework = cisBenchBOTH, rule_Level = 1, rule_Section = cisCatSSH,
      rule_Description = ''Ensure SSH idle timeout is configured (ClientAliveInterval > 0)'',
      rule_StigDescription = ''The SSH daemon must set a timeout interval on idle sessions''\<rparr>"

definition rule_5_2_14 :: rule where
  "rule_5_2_14 =
     \<lparr>rule_ID = ''5.2.14'', rule_StigID = ''V-238206'', rule_Framework = cisBenchBOTH, rule_Level = 1, rule_Section = cisCatSSH,
      rule_Description = ''Ensure SSH LoginGraceTime is 60 seconds or less'',
      rule_StigDescription = ''The SSH daemon must set the login grace time to 60 seconds or less''\<rparr>"

definition rule_5_2_15 :: rule where
  "rule_5_2_15 =
     \<lparr>rule_ID = ''5.2.15'', rule_StigID = ''V-238225'', rule_Framework = cisBenchBOTH, rule_Level = 1, rule_Section = cisCatSSH,
      rule_Description = ''Ensure SSH warning banner is configured'',
      rule_StigDescription = ''The SSH daemon must display a login banner''\<rparr>"

definition rule_5_2_16 :: rule where
  "rule_5_2_16 =
     \<lparr>rule_ID = ''5.2.16'', rule_StigID = [], rule_Framework = cisBenchCIS, rule_Level = 1, rule_Section = cisCatSSH,
      rule_Description = ''Ensure SSH idle timeout interval is configured (ClientAliveInterval <= 900s)'',
      rule_StigDescription = []\<rparr>"

definition rule_5_2_17 :: rule where
  "rule_5_2_17 =
     \<lparr>rule_ID = ''5.2.17'', rule_StigID = ''V-238222'', rule_Framework = cisBenchBOTH, rule_Level = 1, rule_Section = cisCatSSH,
      rule_Description = ''Ensure SSH AllowTcpForwarding is disabled'',
      rule_StigDescription = ''The SSH daemon must not allow TCP port forwarding''\<rparr>"

definition rule_5_2_18 :: rule where
  "rule_5_2_18 =
     \<lparr>rule_ID = ''5.2.18'', rule_StigID = ''V-238223'', rule_Framework = cisBenchBOTH, rule_Level = 1, rule_Section = cisCatSSH,
      rule_Description = ''Ensure SSH MaxStartups is configured'',
      rule_StigDescription = []\<rparr>"

definition rule_5_2_19 :: rule where
  "rule_5_2_19 =
     \<lparr>rule_ID = ''5.2.19'', rule_StigID = ''V-238224'', rule_Framework = cisBenchBOTH, rule_Level = 1, rule_Section = cisCatSSH,
      rule_Description = ''Ensure SSH MaxSessions is 10 or less'',
      rule_StigDescription = []\<rparr>"

definition rule_5_2_20 :: rule where
  "rule_5_2_20 =
     \<lparr>rule_ID = ''5.2.20'', rule_StigID = [], rule_Framework = cisBenchCIS, rule_Level = 1, rule_Section = cisCatSSH,
      rule_Description = ''Ensure SSH PasswordAuthentication is disabled'',
      rule_StigDescription = []\<rparr>"

definition rule_5_2_21 :: rule where
  "rule_5_2_21 =
     \<lparr>rule_ID = ''5.2.21'', rule_StigID = [], rule_Framework = cisBenchCIS, rule_Level = 1, rule_Section = cisCatSSH,
      rule_Description = ''Ensure SSH StrictModes is enabled'',
      rule_StigDescription = []\<rparr>"

definition rule_5_2_22 :: rule where
  "rule_5_2_22 =
     \<lparr>rule_ID = ''5.2.22'', rule_StigID = [], rule_Framework = cisBenchCIS, rule_Level = 1, rule_Section = cisCatSSH,
      rule_Description = ''Ensure SSH agent forwarding is disabled'',
      rule_StigDescription = []\<rparr>"

definition rule_5_2_23 :: rule where
  "rule_5_2_23 =
     \<lparr>rule_ID = ''5.2.23'', rule_StigID = [], rule_Framework = cisBenchCIS, rule_Level = 1, rule_Section = cisCatSSH,
      rule_Description = ''Ensure SSH Protocol 1 is not enabled'',
      rule_StigDescription = []\<rparr>"

definition rule_5_2_24 :: rule where
  "rule_5_2_24 =
     \<lparr>rule_ID = ''5.2.24'', rule_StigID = [], rule_Framework = cisBenchCIS, rule_Level = 1, rule_Section = cisCatSSH,
      rule_Description = ''Ensure SSH PubkeyAuthentication is enabled'',
      rule_StigDescription = []\<rparr>"

definition rule_5_2_25 :: rule where
  "rule_5_2_25 =
     \<lparr>rule_ID = ''5.2.25'', rule_StigID = [], rule_Framework = cisBenchCIS, rule_Level = 1, rule_Section = cisCatSSH,
      rule_Description = ''Ensure only approved SSH cipher algorithms are used'',
      rule_StigDescription = []\<rparr>"

definition rule_5_2_26 :: rule where
  "rule_5_2_26 =
     \<lparr>rule_ID = ''5.2.26'', rule_StigID = [], rule_Framework = cisBenchCIS, rule_Level = 1, rule_Section = cisCatSSH,
      rule_Description = ''Ensure only approved SSH MAC algorithms are used'',
      rule_StigDescription = []\<rparr>"

definition rule_5_2_27 :: rule where
  "rule_5_2_27 =
     \<lparr>rule_ID = ''5.2.27'', rule_StigID = [], rule_Framework = cisBenchCIS, rule_Level = 1, rule_Section = cisCatSSH,
      rule_Description = ''Ensure only approved SSH key exchange algorithms are used'',
      rule_StigDescription = []\<rparr>"

definition rule_5_2_28 :: rule where
  "rule_5_2_28 =
     \<lparr>rule_ID = ''5.2.28'', rule_StigID = [], rule_Framework = cisBenchCIS, rule_Level = 1, rule_Section = cisCatSSH,
      rule_Description = ''Ensure /etc/ssh/sshd_config is owned by root:root'',
      rule_StigDescription = []\<rparr>"

definition rule_5_2_29 :: rule where
  "rule_5_2_29 =
     \<lparr>rule_ID = ''5.2.29'', rule_StigID = [], rule_Framework = cisBenchCIS, rule_Level = 1, rule_Section = cisCatSSH,
      rule_Description = ''Ensure SSH public host key files are owned by root:root'',
      rule_StigDescription = []\<rparr>"

definition rule_5_2_30 :: rule where
  "rule_5_2_30 =
     \<lparr>rule_ID = ''5.2.30'', rule_StigID = [], rule_Framework = cisBenchCIS, rule_Level = 1, rule_Section = cisCatSSH,
      rule_Description = ''Ensure SSH private host key files are owned by root:root'',
      rule_StigDescription = []\<rparr>"

definition rule_3_1_1 :: rule where
  "rule_3_1_1 =
     \<lparr>rule_ID = ''3.1.1'', rule_StigID = ''V-238327'', rule_Framework = cisBenchBOTH, rule_Level = 1, rule_Section = cisCatNetwork,
      rule_Description = ''Ensure IP forwarding is disabled'',
      rule_StigDescription = ''IP forwarding must be disabled''\<rparr>"

definition rule_3_1_2 :: rule where
  "rule_3_1_2 =
     \<lparr>rule_ID = ''3.1.2'', rule_StigID = [], rule_Framework = cisBenchCIS, rule_Level = 1, rule_Section = cisCatNetwork,
      rule_Description = ''Ensure packet redirect sending is disabled'',
      rule_StigDescription = []\<rparr>"

definition rule_3_1_3 :: rule where
  "rule_3_1_3 =
     \<lparr>rule_ID = ''3.1.3'', rule_StigID = [], rule_Framework = cisBenchCIS, rule_Level = 1, rule_Section = cisCatNetwork,
      rule_Description = ''Ensure packet redirect sending is disabled on default interface (net.ipv4.conf.default.send_redirects = 0)'',
      rule_StigDescription = []\<rparr>"

definition rule_3_2_1 :: rule where
  "rule_3_2_1 =
     \<lparr>rule_ID = ''3.2.1'', rule_StigID = ''V-238328'', rule_Framework = cisBenchBOTH, rule_Level = 1, rule_Section = cisCatNetwork,
      rule_Description = ''Ensure source routed packets are not accepted'',
      rule_StigDescription = ''Source routing must be disabled''\<rparr>"

definition rule_3_2_2 :: rule where
  "rule_3_2_2 =
     \<lparr>rule_ID = ''3.2.2'', rule_StigID = ''V-238329'', rule_Framework = cisBenchBOTH, rule_Level = 1, rule_Section = cisCatNetwork,
      rule_Description = ''Ensure ICMP redirects are not accepted'',
      rule_StigDescription = ''ICMP redirects must not be accepted''\<rparr>"

definition rule_3_2_3 :: rule where
  "rule_3_2_3 =
     \<lparr>rule_ID = ''3.2.3'', rule_StigID = [], rule_Framework = cisBenchCIS, rule_Level = 1, rule_Section = cisCatNetwork,
      rule_Description = ''Ensure secure ICMP redirects are not accepted'',
      rule_StigDescription = []\<rparr>"

definition rule_3_2_4 :: rule where
  "rule_3_2_4 =
     \<lparr>rule_ID = ''3.2.4'', rule_StigID = ''V-238331'', rule_Framework = cisBenchBOTH, rule_Level = 1, rule_Section = cisCatNetwork,
      rule_Description = ''Ensure suspicious packets are logged (log_martians)'',
      rule_StigDescription = ''Suspicious packets must be logged''\<rparr>"

definition rule_1_2_1 :: rule where
  "rule_1_2_1 =
     \<lparr>rule_ID = ''1.2.1'', rule_StigID = [], rule_Framework = cisBenchCIS, rule_Level = 1, rule_Section = ''Filesystem'',
      rule_Description = ''Ensure package manager repositories are configured'',
      rule_StigDescription = []\<rparr>"

definition rule_1_2_2 :: rule where
  "rule_1_2_2 =
     \<lparr>rule_ID = ''1.2.2'', rule_StigID = [], rule_Framework = cisBenchCIS, rule_Level = 1, rule_Section = ''Filesystem'',
      rule_Description = ''Ensure GPG keys are configured'',
      rule_StigDescription = []\<rparr>"

definition rule_1_2_3 :: rule where
  "rule_1_2_3 =
     \<lparr>rule_ID = ''1.2.3'', rule_StigID = [], rule_Framework = cisBenchCIS, rule_Level = 1, rule_Section = ''Filesystem'',
      rule_Description = ''Ensure package manager is not configured to allow unauthenticated packages'',
      rule_StigDescription = []\<rparr>"

definition rule_1_2_4 :: rule where
  "rule_1_2_4 =
     \<lparr>rule_ID = ''1.2.4'', rule_StigID = [], rule_Framework = cisBenchCIS, rule_Level = 1, rule_Section = ''Filesystem'',
      rule_Description = ''Ensure software updates are applied automatically (unattended-upgrades)'',
      rule_StigDescription = []\<rparr>"

definition rule_1_3_1 :: rule where
  "rule_1_3_1 =
     \<lparr>rule_ID = ''1.3.1'', rule_StigID = [], rule_Framework = cisBenchCIS, rule_Level = 1, rule_Section = ''Filesystem'',
      rule_Description = ''Ensure AIDE is installed'',
      rule_StigDescription = []\<rparr>"

definition rule_1_3_2 :: rule where
  "rule_1_3_2 =
     \<lparr>rule_ID = ''1.3.2'', rule_StigID = [], rule_Framework = cisBenchCIS, rule_Level = 1, rule_Section = ''Filesystem'',
      rule_Description = ''Ensure filesystem integrity is regularly checked'',
      rule_StigDescription = []\<rparr>"

definition rule_1_4_1 :: rule where
  "rule_1_4_1 =
     \<lparr>rule_ID = ''1.4.1'', rule_StigID = [], rule_Framework = cisBenchCIS, rule_Level = 1, rule_Section = ''Filesystem'',
      rule_Description = ''Ensure GRUB bootloader config is not world-readable ('' @
       [CHR 0xE2, CHR 0x89, CHR 0xA4] @ '' 0600)'',
      rule_StigDescription = []\<rparr>"

definition rule_1_4_2 :: rule where
  "rule_1_4_2 =
     \<lparr>rule_ID = ''1.4.2'', rule_StigID = [], rule_Framework = cisBenchCIS, rule_Level = 1, rule_Section = ''Filesystem'',
      rule_Description = ''Ensure GRUB bootloader config is owned by root:root'',
      rule_StigDescription = []\<rparr>"

definition rule_1_1_1_1 :: rule where
  "rule_1_1_1_1 =
     \<lparr>rule_ID = ''1.1.1.1'', rule_StigID = [], rule_Framework = cisBenchCIS, rule_Level = 1, rule_Section = ''Filesystem'',
      rule_Description = ''Ensure mounting of cramfs filesystems is disabled'',
      rule_StigDescription = []\<rparr>"

definition rule_1_1_1_2 :: rule where
  "rule_1_1_1_2 =
     \<lparr>rule_ID = ''1.1.1.2'', rule_StigID = [], rule_Framework = cisBenchCIS, rule_Level = 1, rule_Section = ''Filesystem'',
      rule_Description = ''Ensure mounting of freevxfs filesystems is disabled'',
      rule_StigDescription = []\<rparr>"

definition rule_1_1_1_3 :: rule where
  "rule_1_1_1_3 =
     \<lparr>rule_ID = ''1.1.1.3'', rule_StigID = [], rule_Framework = cisBenchCIS, rule_Level = 1, rule_Section = ''Filesystem'',
      rule_Description = ''Ensure mounting of jffs2 filesystems is disabled'',
      rule_StigDescription = []\<rparr>"

definition rule_1_1_1_4 :: rule where
  "rule_1_1_1_4 =
     \<lparr>rule_ID = ''1.1.1.4'', rule_StigID = [], rule_Framework = cisBenchCIS, rule_Level = 1, rule_Section = ''Filesystem'',
      rule_Description = ''Ensure mounting of hfs filesystems is disabled'',
      rule_StigDescription = []\<rparr>"

definition rule_1_1_1_5 :: rule where
  "rule_1_1_1_5 =
     \<lparr>rule_ID = ''1.1.1.5'', rule_StigID = [], rule_Framework = cisBenchCIS, rule_Level = 1, rule_Section = ''Filesystem'',
      rule_Description = ''Ensure mounting of hfsplus filesystems is disabled'',
      rule_StigDescription = []\<rparr>"

definition rule_1_1_1_6 :: rule where
  "rule_1_1_1_6 =
     \<lparr>rule_ID = ''1.1.1.6'', rule_StigID = [], rule_Framework = cisBenchCIS, rule_Level = 2, rule_Section = ''Filesystem'',
      rule_Description = ''Ensure mounting of squashfs filesystems is disabled'',
      rule_StigDescription = []\<rparr>"

definition rule_1_1_1_7 :: rule where
  "rule_1_1_1_7 =
     \<lparr>rule_ID = ''1.1.1.7'', rule_StigID = [], rule_Framework = cisBenchCIS, rule_Level = 2, rule_Section = ''Filesystem'',
      rule_Description = ''Ensure mounting of udf filesystems is disabled'',
      rule_StigDescription = []\<rparr>"

definition rule_1_1_2 :: rule where
  "rule_1_1_2 =
     \<lparr>rule_ID = ''1.1.2'', rule_StigID = [], rule_Framework = cisBenchCIS, rule_Level = 1, rule_Section = ''Filesystem'',
      rule_Description = ''Ensure /tmp is configured as a separate partition'',
      rule_StigDescription = []\<rparr>"

definition rule_1_1_3 :: rule where
  "rule_1_1_3 =
     \<lparr>rule_ID = ''1.1.3'', rule_StigID = [], rule_Framework = cisBenchCIS, rule_Level = 1, rule_Section = ''Filesystem'',
      rule_Description = ''Ensure nodev option set on /tmp partition'',
      rule_StigDescription = []\<rparr>"

definition rule_1_1_4 :: rule where
  "rule_1_1_4 =
     \<lparr>rule_ID = ''1.1.4'', rule_StigID = [], rule_Framework = cisBenchCIS, rule_Level = 1, rule_Section = ''Filesystem'',
      rule_Description = ''Ensure nosuid option set on /tmp partition'',
      rule_StigDescription = []\<rparr>"

definition rule_1_1_5 :: rule where
  "rule_1_1_5 =
     \<lparr>rule_ID = ''1.1.5'', rule_StigID = [], rule_Framework = cisBenchCIS, rule_Level = 1, rule_Section = ''Filesystem'',
      rule_Description = ''Ensure noexec option set on /tmp partition'',
      rule_StigDescription = []\<rparr>"

definition rule_1_1_6 :: rule where
  "rule_1_1_6 =
     \<lparr>rule_ID = ''1.1.6'', rule_StigID = [], rule_Framework = cisBenchCIS, rule_Level = 1, rule_Section = ''Filesystem'',
      rule_Description = ''Ensure nodev option set on /dev/shm partition'',
      rule_StigDescription = []\<rparr>"

definition rule_1_1_7 :: rule where
  "rule_1_1_7 =
     \<lparr>rule_ID = ''1.1.7'', rule_StigID = [], rule_Framework = cisBenchCIS, rule_Level = 1, rule_Section = ''Filesystem'',
      rule_Description = ''Ensure nosuid option set on /dev/shm partition'',
      rule_StigDescription = []\<rparr>"

definition rule_1_1_8 :: rule where
  "rule_1_1_8 =
     \<lparr>rule_ID = ''1.1.8'', rule_StigID = [], rule_Framework = cisBenchCIS, rule_Level = 1, rule_Section = ''Filesystem'',
      rule_Description = ''Ensure noexec option set on /dev/shm partition'',
      rule_StigDescription = []\<rparr>"

definition rule_1_1_9 :: rule where
  "rule_1_1_9 =
     \<lparr>rule_ID = ''1.1.9'', rule_StigID = [], rule_Framework = cisBenchCIS, rule_Level = 1, rule_Section = ''Filesystem'',
      rule_Description = ''Ensure nodev option set on /var/tmp partition'',
      rule_StigDescription = []\<rparr>"

definition rule_1_1_10 :: rule where
  "rule_1_1_10 =
     \<lparr>rule_ID = ''1.1.10'', rule_StigID = [], rule_Framework = cisBenchCIS, rule_Level = 1, rule_Section = ''Filesystem'',
      rule_Description = ''Ensure nosuid option set on /var/tmp partition'',
      rule_StigDescription = []\<rparr>"

definition rule_1_1_11 :: rule where
  "rule_1_1_11 =
     \<lparr>rule_ID = ''1.1.11'', rule_StigID = [], rule_Framework = cisBenchCIS, rule_Level = 1, rule_Section = ''Filesystem'',
      rule_Description = ''Ensure noexec option set on /var/tmp partition'',
      rule_StigDescription = []\<rparr>"

definition rule_1_1_12 :: rule where
  "rule_1_1_12 =
     \<lparr>rule_ID = ''1.1.12'', rule_StigID = [], rule_Framework = cisBenchCIS, rule_Level = 2, rule_Section = ''Filesystem'',
      rule_Description = ''Ensure /var/log directory is on its own filesystem'',
      rule_StigDescription = []\<rparr>"

definition rule_1_1_13 :: rule where
  "rule_1_1_13 =
     \<lparr>rule_ID = ''1.1.13'', rule_StigID = [], rule_Framework = cisBenchCIS, rule_Level = 2, rule_Section = ''Filesystem'',
      rule_Description = ''Ensure /var/log/audit directory is on its own filesystem'',
      rule_StigDescription = []\<rparr>"

definition rule_1_1_14 :: rule where
  "rule_1_1_14 =
     \<lparr>rule_ID = ''1.1.14'', rule_StigID = [], rule_Framework = cisBenchCIS, rule_Level = 1, rule_Section = ''Filesystem'',
      rule_Description = ''Ensure nodev option set on /home partition'',
      rule_StigDescription = []\<rparr>"

definition rule_1_1_15 :: rule where
  "rule_1_1_15 =
     \<lparr>rule_ID = ''1.1.15'', rule_StigID = [], rule_Framework = cisBenchCIS, rule_Level = 2, rule_Section = ''Filesystem'',
      rule_Description = ''Ensure nosuid option set on /home partition'',
      rule_StigDescription = []\<rparr>"

definition rule_1_1_16 :: rule where
  "rule_1_1_16 =
     \<lparr>rule_ID = ''1.1.16'', rule_StigID = [], rule_Framework = cisBenchCIS, rule_Level = 2, rule_Section = ''Filesystem'',
      rule_Description = ''Ensure noexec option set on /home partition'',
      rule_StigDescription = []\<rparr>"

definition rule_1_1_17 :: rule where
  "rule_1_1_17 =
     \<lparr>rule_ID = ''1.1.17'', rule_StigID = [], rule_Framework = cisBenchCIS, rule_Level = 2, rule_Section = ''Filesystem'',
      rule_Description = ''Ensure USB storage is disabled'',
      rule_StigDescription = []\<rparr>"

definition rule_1_1_18 :: rule where
  "rule_1_1_18 =
     \<lparr>rule_ID = ''1.1.18'', rule_StigID = [], rule_Framework = cisBenchCIS, rule_Level = 2, rule_Section = ''Filesystem'',
      rule_Description = ''Ensure automounting is disabled'',
      rule_StigDescription = []\<rparr>"

definition rule_1_5_2 :: rule where
  "rule_1_5_2 =
     \<lparr>rule_ID = ''1.5.2'', rule_StigID = [], rule_Framework = cisBenchCIS, rule_Level = 1, rule_Section = ''Kernel'',
      rule_Description = ''Ensure prelink is not installed'',
      rule_StigDescription = []\<rparr>"

definition rule_1_5_3 :: rule where
  "rule_1_5_3 =
     \<lparr>rule_ID = ''1.5.3'', rule_StigID = [], rule_Framework = cisBenchCIS, rule_Level = 1, rule_Section = ''Kernel'',
      rule_Description = ''Ensure automatic error reporting (apport) is not enabled'',
      rule_StigDescription = []\<rparr>"

definition rule_1_6_1 :: rule where
  "rule_1_6_1 =
     \<lparr>rule_ID = ''1.6.1'', rule_StigID = [], rule_Framework = cisBenchCIS, rule_Level = 1, rule_Section = ''AppArmor'',
      rule_Description = ''Ensure AppArmor is installed'',
      rule_StigDescription = []\<rparr>"

definition rule_1_6_2 :: rule where
  "rule_1_6_2 =
     \<lparr>rule_ID = ''1.6.2'', rule_StigID = [], rule_Framework = cisBenchCIS, rule_Level = 1, rule_Section = ''AppArmor'',
      rule_Description = ''Ensure AppArmor is enabled in the bootloader configuration'',
      rule_StigDescription = []\<rparr>"

definition rule_1_6_3 :: rule where
  "rule_1_6_3 =
     \<lparr>rule_ID = ''1.6.3'', rule_StigID = [], rule_Framework = cisBenchCIS, rule_Level = 1, rule_Section = ''AppArmor'',
      rule_Description = ''Ensure all AppArmor Profiles are in enforce or complain mode'',
      rule_StigDescription = []\<rparr>"

definition rule_1_6_4 :: rule where
  "rule_1_6_4 =
     \<lparr>rule_ID = ''1.6.4'', rule_StigID = [], rule_Framework = cisBenchCIS, rule_Level = 2, rule_Section = ''AppArmor'',
      rule_Description = ''Ensure all AppArmor Profiles are enforcing'',
      rule_StigDescription = []\<rparr>"

definition rule_1_7_1 :: rule where
  "rule_1_7_1 =
     \<lparr>rule_ID = ''1.7.1'', rule_StigID = [], rule_Framework = cisBenchCIS, rule_Level = 1, rule_Section = ''Banners'',
      rule_Description = ''Ensure /etc/motd is configured (no OS fingerprinting sequences)'',
      rule_StigDescription = []\<rparr>"

definition rule_1_7_2 :: rule where
  "rule_1_7_2 =
     \<lparr>rule_ID = ''1.7.2'', rule_StigID = [], rule_Framework = cisBenchCIS, rule_Level = 1, rule_Section = ''Banners'',
      rule_Description = ''Ensure /etc/issue is configured (no OS fingerprinting sequences)'',
      rule_StigDescription = []\<rparr>"

definition rule_1_7_3 :: rule where
  "rule_1_7_3 =
     \<lparr>rule_ID = ''1.7.3'', rule_StigID = [], rule_Framework = cisBenchCIS, rule_Level = 1, rule_Section = ''Banners'',
      rule_Description = ''Ensure /etc/issue.net is configured (no OS fingerprinting sequences)'',
      rule_StigDescription = []\<rparr>"

definition rule_1_7_4 :: rule where
  "rule_1_7_4 =
     \<lparr>rule_ID = ''1.7.4'', rule_StigID = [], rule_Framework = cisBenchCIS, rule_Level = 1, rule_Section = ''Banners'',
      rule_Description = ''Ensure /etc/motd permissions are 644 or stricter'',
      rule_StigDescription = []\<rparr>"

definition rule_1_7_5 :: rule where
  "rule_1_7_5 =
     \<lparr>rule_ID = ''1.7.5'', rule_StigID = [], rule_Framework = cisBenchCIS, rule_Level = 1, rule_Section = ''Banners'',
      rule_Description = ''Ensure /etc/issue permissions are 644 or stricter'',
      rule_StigDescription = []\<rparr>"

definition rule_1_7_6 :: rule where
  "rule_1_7_6 =
     \<lparr>rule_ID = ''1.7.6'', rule_StigID = [], rule_Framework = cisBenchCIS, rule_Level = 1, rule_Section = ''Banners'',
      rule_Description = ''Ensure /etc/issue.net permissions are 644 or stricter'',
      rule_StigDescription = []\<rparr>"

definition rule_1_7_7 :: rule where
  "rule_1_7_7 =
     \<lparr>rule_ID = ''1.7.7'', rule_StigID = [], rule_Framework = cisBenchCIS, rule_Level = 1, rule_Section = ''Banners'',
      rule_Description = ''Ensure /etc/motd is owned by root:root'',
      rule_StigDescription = []\<rparr>"

definition rule_1_7_8 :: rule where
  "rule_1_7_8 =
     \<lparr>rule_ID = ''1.7.8'', rule_StigID = [], rule_Framework = cisBenchCIS, rule_Level = 1, rule_Section = ''Banners'',
      rule_Description = ''Ensure /etc/issue is owned by root:root'',
      rule_StigDescription = []\<rparr>"

definition rule_1_7_9 :: rule where
  "rule_1_7_9 =
     \<lparr>rule_ID = ''1.7.9'', rule_StigID = [], rule_Framework = cisBenchCIS, rule_Level = 1, rule_Section = ''Banners'',
      rule_Description = ''Ensure /etc/issue.net is owned by root:root'',
      rule_StigDescription = []\<rparr>"

definition rule_3_2_5 :: rule where
  "rule_3_2_5 =
     \<lparr>rule_ID = ''3.2.5'', rule_StigID = [], rule_Framework = cisBenchCIS, rule_Level = 1, rule_Section = cisCatNetwork,
      rule_Description = ''Ensure broadcast ICMP requests are ignored'',
      rule_StigDescription = []\<rparr>"

definition rule_3_2_6 :: rule where
  "rule_3_2_6 =
     \<lparr>rule_ID = ''3.2.6'', rule_StigID = [], rule_Framework = cisBenchCIS, rule_Level = 1, rule_Section = cisCatNetwork,
      rule_Description = ''Ensure bogus ICMP responses are ignored'',
      rule_StigDescription = []\<rparr>"

definition rule_3_2_7 :: rule where
  "rule_3_2_7 =
     \<lparr>rule_ID = ''3.2.7'', rule_StigID = [], rule_Framework = cisBenchCIS, rule_Level = 1, rule_Section = cisCatNetwork,
      rule_Description = ''Ensure Reverse Path Filtering is enabled (anti-spoofing)'',
      rule_StigDescription = []\<rparr>"

definition rule_3_2_8 :: rule where
  "rule_3_2_8 =
     \<lparr>rule_ID = ''3.2.8'', rule_StigID = [], rule_Framework = cisBenchCIS, rule_Level = 1, rule_Section = cisCatNetwork,
      rule_Description = ''Ensure TCP SYN cookies is enabled'',
      rule_StigDescription = []\<rparr>"

definition rule_3_2_9 :: rule where
  "rule_3_2_9 =
     \<lparr>rule_ID = ''3.2.9'', rule_StigID = [], rule_Framework = cisBenchCIS, rule_Level = 1, rule_Section = cisCatNetwork,
      rule_Description = ''Ensure IPv6 router advertisements are not accepted'',
      rule_StigDescription = []\<rparr>"

definition rule_3_2_10 :: rule where
  "rule_3_2_10 =
     \<lparr>rule_ID = ''3.2.10'', rule_StigID = [], rule_Framework = cisBenchCIS, rule_Level = 1, rule_Section = cisCatNetwork,
      rule_Description = ''Ensure IPv6 redirects are not accepted'',
      rule_StigDescription = []\<rparr>"

definition rule_3_2_11 :: rule where
  "rule_3_2_11 =
     \<lparr>rule_ID = ''3.2.11'', rule_StigID = [], rule_Framework = cisBenchCIS, rule_Level = 1, rule_Section = cisCatNetwork,
      rule_Description = ''Ensure packet redirect sending is disabled on default interface'',
      rule_StigDescription = []\<rparr>"

definition rule_3_2_12 :: rule where
  "rule_3_2_12 =
     \<lparr>rule_ID = ''3.2.12'', rule_StigID = [], rule_Framework = cisBenchCIS, rule_Level = 1, rule_Section = cisCatNetwork,
      rule_Description = ''Ensure source routed packets are not accepted on default interface'',
      rule_StigDescription = []\<rparr>"

definition rule_3_2_13 :: rule where
  "rule_3_2_13 =
     \<lparr>rule_ID = ''3.2.13'', rule_StigID = [], rule_Framework = cisBenchCIS, rule_Level = 1, rule_Section = cisCatNetwork,
      rule_Description = ''Ensure ICMP redirects are not accepted on default interface'',
      rule_StigDescription = []\<rparr>"

definition rule_3_2_14 :: rule where
  "rule_3_2_14 =
     \<lparr>rule_ID = ''3.2.14'', rule_StigID = [], rule_Framework = cisBenchCIS, rule_Level = 1, rule_Section = cisCatNetwork,
      rule_Description = ''Ensure secure ICMP redirects are not accepted on default interface'',
      rule_StigDescription = []\<rparr>"

definition rule_3_2_15 :: rule where
  "rule_3_2_15 =
     \<lparr>rule_ID = ''3.2.15'', rule_StigID = [], rule_Framework = cisBenchCIS, rule_Level = 1, rule_Section = cisCatNetwork,
      rule_Description = ''Ensure suspicious packets are logged on default interface (log_martians)'',
      rule_StigDescription = []\<rparr>"

definition rule_3_2_16 :: rule where
  "rule_3_2_16 =
     \<lparr>rule_ID = ''3.2.16'', rule_StigID = [], rule_Framework = cisBenchCIS, rule_Level = 1, rule_Section = cisCatNetwork,
      rule_Description = ''Ensure Reverse Path Filtering is enabled on default interface'',
      rule_StigDescription = []\<rparr>"

definition rule_3_2_17 :: rule where
  "rule_3_2_17 =
     \<lparr>rule_ID = ''3.2.17'', rule_StigID = [], rule_Framework = cisBenchCIS, rule_Level = 1, rule_Section = cisCatNetwork,
      rule_Description = ''Ensure IPv6 router advertisements are not accepted on default interface'',
      rule_StigDescription = []\<rparr>"

definition rule_3_2_18 :: rule where
  "rule_3_2_18 =
     \<lparr>rule_ID = ''3.2.18'', rule_StigID = [], rule_Framework = cisBenchCIS, rule_Level = 1, rule_Section = cisCatNetwork,
      rule_Description = ''Ensure IPv6 redirects are not accepted on default interface'',
      rule_StigDescription = []\<rparr>"

definition rule_3_2_22 :: rule where
  "rule_3_2_22 =
     \<lparr>rule_ID = ''3.2.22'', rule_StigID = [], rule_Framework = cisBenchCIS, rule_Level = 2, rule_Section = cisCatNetwork,
      rule_Description = ''Ensure TCP timestamps are disabled (net.ipv4.tcp_timestamps = 0)'',
      rule_StigDescription = []\<rparr>"

definition rule_3_2_23 :: rule where
  "rule_3_2_23 =
     \<lparr>rule_ID = ''3.2.23'', rule_StigID = [], rule_Framework = cisBenchCIS, rule_Level = 1, rule_Section = cisCatNetwork,
      rule_Description = ''Ensure ARP requests are filtered on non-target interfaces (net.ipv4.conf.all.arp_ignore = 1)'',
      rule_StigDescription = []\<rparr>"

definition rule_3_2_24 :: rule where
  "rule_3_2_24 =
     \<lparr>rule_ID = ''3.2.24'', rule_StigID = [], rule_Framework = cisBenchCIS, rule_Level = 1, rule_Section = cisCatNetwork,
      rule_Description = ''Ensure ARP announcements use the best local address (net.ipv4.conf.all.arp_announce = 2)'',
      rule_StigDescription = []\<rparr>"

definition rule_3_2_25 :: rule where
  "rule_3_2_25 =
     \<lparr>rule_ID = ''3.2.25'', rule_StigID = [], rule_Framework = cisBenchCIS, rule_Level = 1, rule_Section = cisCatNetwork,
      rule_Description = ''Ensure ARP requests are filtered on non-target default interfaces (net.ipv4.conf.default.arp_ignore = 1)'',
      rule_StigDescription = []\<rparr>"

definition rule_3_2_26 :: rule where
  "rule_3_2_26 =
     \<lparr>rule_ID = ''3.2.26'', rule_StigID = [], rule_Framework = cisBenchCIS, rule_Level = 1, rule_Section = cisCatNetwork,
      rule_Description = ''Ensure ARP announcements use best local address on default interfaces (net.ipv4.conf.default.arp_announce = 2)'',
      rule_StigDescription = []\<rparr>"

definition rule_3_2_27 :: rule where
  "rule_3_2_27 =
     \<lparr>rule_ID = ''3.2.27'', rule_StigID = [], rule_Framework = cisBenchCIS, rule_Level = 1, rule_Section = cisCatNetwork,
      rule_Description = ''Ensure TIME_WAIT assassination is prevented (net.ipv4.tcp_rfc1337 = 1)'',
      rule_StigDescription = []\<rparr>"

definition rule_3_2_28 :: rule where
  "rule_3_2_28 =
     \<lparr>rule_ID = ''3.2.28'', rule_StigID = [], rule_Framework = cisBenchCIS, rule_Level = 1, rule_Section = cisCatNetwork,
      rule_Description = ''Ensure loopback routing is disabled on all interfaces (net.ipv4.conf.all.route_localnet = 0)'',
      rule_StigDescription = []\<rparr>"

definition rule_3_2_29 :: rule where
  "rule_3_2_29 =
     \<lparr>rule_ID = ''3.2.29'', rule_StigID = [], rule_Framework = cisBenchCIS, rule_Level = 1, rule_Section = cisCatNetwork,
      rule_Description = ''Ensure loopback routing is disabled on default interface (net.ipv4.conf.default.route_localnet = 0)'',
      rule_StigDescription = []\<rparr>"

definition rule_3_2_30 :: rule where
  "rule_3_2_30 =
     \<lparr>rule_ID = ''3.2.30'', rule_StigID = [], rule_Framework = cisBenchCIS, rule_Level = 1, rule_Section = cisCatNetwork,
      rule_Description = ''Ensure proxy ARP is disabled on all interfaces (net.ipv4.conf.all.proxy_arp = 0)'',
      rule_StigDescription = []\<rparr>"

definition rule_3_2_31 :: rule where
  "rule_3_2_31 =
     \<lparr>rule_ID = ''3.2.31'', rule_StigID = [], rule_Framework = cisBenchCIS, rule_Level = 1, rule_Section = cisCatNetwork,
      rule_Description = ''Ensure proxy ARP is disabled on default interface (net.ipv4.conf.default.proxy_arp = 0)'',
      rule_StigDescription = []\<rparr>"

definition rule_3_2_32 :: rule where
  "rule_3_2_32 =
     \<lparr>rule_ID = ''3.2.32'', rule_StigID = [], rule_Framework = cisBenchCIS, rule_Level = 1, rule_Section = cisCatNetwork,
      rule_Description = ''Ensure source routed packets are not accepted on default interface (net.ipv4.conf.default.accept_source_route = 0)'',
      rule_StigDescription = []\<rparr>"

definition rule_3_2_33 :: rule where
  "rule_3_2_33 =
     \<lparr>rule_ID = ''3.2.33'', rule_StigID = [], rule_Framework = cisBenchCIS, rule_Level = 1, rule_Section = cisCatNetwork,
      rule_Description = ''Ensure ICMP redirects are not accepted on default interface (net.ipv4.conf.default.accept_redirects = 0)'',
      rule_StigDescription = []\<rparr>"

definition rule_3_2_34 :: rule where
  "rule_3_2_34 =
     \<lparr>rule_ID = ''3.2.34'', rule_StigID = [], rule_Framework = cisBenchCIS, rule_Level = 1, rule_Section = cisCatNetwork,
      rule_Description = ''Ensure secure ICMP redirects are not accepted on default interface (net.ipv4.conf.default.secure_redirects = 0)'',
      rule_StigDescription = []\<rparr>"

definition rule_3_2_35 :: rule where
  "rule_3_2_35 =
     \<lparr>rule_ID = ''3.2.35'', rule_StigID = [], rule_Framework = cisBenchCIS, rule_Level = 1, rule_Section = cisCatNetwork,
      rule_Description = ''Ensure suspicious packets are logged on default interface (net.ipv4.conf.default.log_martians = 1)'',
      rule_StigDescription = []\<rparr>"

definition rule_3_2_36 :: rule where
  "rule_3_2_36 =
     \<lparr>rule_ID = ''3.2.36'', rule_StigID = [], rule_Framework = cisBenchCIS, rule_Level = 1, rule_Section = cisCatNetwork,
      rule_Description = ''Ensure IPv6 router advertisements are not accepted on default interface (net.ipv6.conf.default.accept_ra = 0)'',
      rule_StigDescription = []\<rparr>"

definition rule_3_2_37 :: rule where
  "rule_3_2_37 =
     \<lparr>rule_ID = ''3.2.37'', rule_StigID = [], rule_Framework = cisBenchCIS, rule_Level = 1, rule_Section = cisCatNetwork,
      rule_Description = ''Ensure IPv6 redirects are not accepted on default interface (net.ipv6.conf.default.accept_redirects = 0)'',
      rule_StigDescription = []\<rparr>"

definition rule_3_2_38 :: rule where
  "rule_3_2_38 =
     \<lparr>rule_ID = ''3.2.38'', rule_StigID = [], rule_Framework = cisBenchCIS, rule_Level = 1, rule_Section = cisCatNetwork,
      rule_Description = ''Ensure IPv6 source routing is not accepted (net.ipv6.conf.all.accept_source_route = 0)'',
      rule_StigDescription = []\<rparr>"

definition rule_3_2_39 :: rule where
  "rule_3_2_39 =
     \<lparr>rule_ID = ''3.2.39'', rule_StigID = [], rule_Framework = cisBenchCIS, rule_Level = 1, rule_Section = cisCatNetwork,
      rule_Description = ''Ensure IPv6 source routing is not accepted on default interface (net.ipv6.conf.default.accept_source_route = 0)'',
      rule_StigDescription = []\<rparr>"

definition rule_3_4_1 :: rule where
  "rule_3_4_1 =
     \<lparr>rule_ID = ''3.4.1'', rule_StigID = [], rule_Framework = cisBenchCIS, rule_Level = 2, rule_Section = cisCatNetwork,
      rule_Description = ''Ensure DCCP is disabled'',
      rule_StigDescription = []\<rparr>"

definition rule_3_4_2 :: rule where
  "rule_3_4_2 =
     \<lparr>rule_ID = ''3.4.2'', rule_StigID = [], rule_Framework = cisBenchCIS, rule_Level = 2, rule_Section = cisCatNetwork,
      rule_Description = ''Ensure SCTP is disabled'',
      rule_StigDescription = []\<rparr>"

definition rule_3_4_3 :: rule where
  "rule_3_4_3 =
     \<lparr>rule_ID = ''3.4.3'', rule_StigID = [], rule_Framework = cisBenchCIS, rule_Level = 2, rule_Section = cisCatNetwork,
      rule_Description = ''Ensure RDS is disabled'',
      rule_StigDescription = []\<rparr>"

definition rule_3_4_4 :: rule where
  "rule_3_4_4 =
     \<lparr>rule_ID = ''3.4.4'', rule_StigID = [], rule_Framework = cisBenchCIS, rule_Level = 2, rule_Section = cisCatNetwork,
      rule_Description = ''Ensure TIPC is disabled'',
      rule_StigDescription = []\<rparr>"

definition rule_3_4_5 :: rule where
  "rule_3_4_5 =
     \<lparr>rule_ID = ''3.4.5'', rule_StigID = [], rule_Framework = cisBenchCIS, rule_Level = 2, rule_Section = cisCatNetwork,
      rule_Description = ''Ensure bluetooth is disabled'',
      rule_StigDescription = []\<rparr>"

definition rule_3_3_1 :: rule where
  "rule_3_3_1 =
     \<lparr>rule_ID = ''3.3.1'', rule_StigID = [], rule_Framework = cisBenchCIS, rule_Level = 1, rule_Section = cisCatMAC,
      rule_Description = ''Ensure a Mandatory Access Control framework is installed (AppArmor or SELinux)'',
      rule_StigDescription = []\<rparr>"

definition rule_3_3_2 :: rule where
  "rule_3_3_2 =
     \<lparr>rule_ID = ''3.3.2'', rule_StigID = [], rule_Framework = cisBenchCIS, rule_Level = 1, rule_Section = cisCatMAC,
      rule_Description = ''Ensure Mandatory Access Control is in enforce mode'',
      rule_StigDescription = []\<rparr>"

definition rule_3_5_1 :: rule where
  "rule_3_5_1 =
     \<lparr>rule_ID = ''3.5.1'', rule_StigID = [], rule_Framework = cisBenchCIS, rule_Level = 1, rule_Section = cisCatNetwork,
      rule_Description = ''Ensure a firewall is installed and active'',
      rule_StigDescription = []\<rparr>"

definition rule_3_5_1_1 :: rule where
  "rule_3_5_1_1 =
     \<lparr>rule_ID = ''3.5.1.1'', rule_StigID = [], rule_Framework = cisBenchCIS, rule_Level = 1, rule_Section = cisCatNetwork,
      rule_Description = ''Ensure ufw is installed'',
      rule_StigDescription = []\<rparr>"

definition rule_3_5_1_2 :: rule where
  "rule_3_5_1_2 =
     \<lparr>rule_ID = ''3.5.1.2'', rule_StigID = [], rule_Framework = cisBenchCIS, rule_Level = 1, rule_Section = cisCatNetwork,
      rule_Description = ''Ensure iptables-persistent is not installed with ufw'',
      rule_StigDescription = []\<rparr>"

definition rule_3_5_1_3 :: rule where
  "rule_3_5_1_3 =
     \<lparr>rule_ID = ''3.5.1.3'', rule_StigID = [], rule_Framework = cisBenchCIS, rule_Level = 1, rule_Section = cisCatNetwork,
      rule_Description = ''Ensure ufw service is enabled'',
      rule_StigDescription = []\<rparr>"

definition rule_3_5_1_4 :: rule where
  "rule_3_5_1_4 =
     \<lparr>rule_ID = ''3.5.1.4'', rule_StigID = [], rule_Framework = cisBenchCIS, rule_Level = 1, rule_Section = cisCatNetwork,
      rule_Description = ''Ensure ufw loopback traffic is configured'',
      rule_StigDescription = []\<rparr>"

definition rule_3_5_1_5 :: rule where
  "rule_3_5_1_5 =
     \<lparr>rule_ID = ''3.5.1.5'', rule_StigID = [], rule_Framework = cisBenchCIS, rule_Level = 2, rule_Section = cisCatNetwork,
      rule_Description = ''Ensure ufw outbound connections are configured'',
      rule_StigDescription = []\<rparr>"

definition rule_3_5_1_6 :: rule where
  "rule_3_5_1_6 =
     \<lparr>rule_ID = ''3.5.1.6'', rule_StigID = [], rule_Framework = cisBenchCIS, rule_Level = 1, rule_Section = cisCatNetwork,
      rule_Description = ''Ensure ufw firewall rules exist for all open ports'',
      rule_StigDescription = []\<rparr>"

definition rule_3_5_1_7 :: rule where
  "rule_3_5_1_7 =
     \<lparr>rule_ID = ''3.5.1.7'', rule_StigID = [], rule_Framework = cisBenchCIS, rule_Level = 1, rule_Section = cisCatNetwork,
      rule_Description = ''Ensure ufw default deny firewall policy'',
      rule_StigDescription = []\<rparr>"

definition rule_3_6_1 :: rule where
  "rule_3_6_1 =
     \<lparr>rule_ID = ''3.6.1'', rule_StigID = [], rule_Framework = cisBenchCIS, rule_Level = 1, rule_Section = cisCatNetwork,
      rule_Description = ''Ensure wireless interfaces are disabled'',
      rule_StigDescription = []\<rparr>"

definition rule_4_1_1 :: rule where
  "rule_4_1_1 =
     \<lparr>rule_ID = cisRuleAudit41, rule_StigID = ''V-238360'', rule_Framework = cisBenchBOTH, rule_Level = 1, rule_Section = ''Audit'',
      rule_Description = ''Ensure auditd is installed and running'',
      rule_StigDescription = ''The Ubuntu operating system must have the auditd package installed''\<rparr>"

definition rule_4_1_1_1 :: rule where
  "rule_4_1_1_1 =
     \<lparr>rule_ID = cisRuleAudit4111, rule_StigID = [], rule_Framework = cisBenchCIS, rule_Level = 2, rule_Section = ''Audit'',
      rule_Description = ''Ensure audit log storage size is configured'',
      rule_StigDescription = []\<rparr>"

definition rule_4_1_1_2 :: rule where
  "rule_4_1_1_2 =
     \<lparr>rule_ID = cisRuleAudit4112, rule_StigID = [], rule_Framework = cisBenchCIS, rule_Level = 2, rule_Section = ''Audit'',
      rule_Description = ''Ensure audit logs are not automatically deleted'',
      rule_StigDescription = []\<rparr>"

definition rule_4_1_1_3 :: rule where
  "rule_4_1_1_3 =
     \<lparr>rule_ID = cisRuleAudit4113, rule_StigID = [], rule_Framework = cisBenchCIS, rule_Level = 2, rule_Section = ''Audit'',
      rule_Description = ''Ensure system is disabled when audit logs are full'',
      rule_StigDescription = []\<rparr>"

definition rule_4_1_1_4 :: rule where
  "rule_4_1_1_4 =
     \<lparr>rule_ID = cisRuleAudit4114, rule_StigID = [], rule_Framework = cisBenchCIS, rule_Level = 2, rule_Section = ''Audit'',
      rule_Description = ''Ensure audit_backlog_limit is sufficient'',
      rule_StigDescription = []\<rparr>"

definition rule_4_1_1_5 :: rule where
  "rule_4_1_1_5 =
     \<lparr>rule_ID = cisRuleAudit4115, rule_StigID = [], rule_Framework = cisBenchCIS, rule_Level = 2, rule_Section = ''Audit'',
      rule_Description = ''Ensure auditing for processes prior to auditd is enabled (audit=1 in kernel cmdline)'',
      rule_StigDescription = []\<rparr>"

definition rule_4_1_2 :: rule where
  "rule_4_1_2 =
     \<lparr>rule_ID = ''4.1.2'', rule_StigID = ''V-238361'', rule_Framework = cisBenchBOTH, rule_Level = 1, rule_Section = ''Audit'',
      rule_Description = ''Ensure auditd has rules configured'',
      rule_StigDescription = ''The auditd service must be running and enabled''\<rparr>"

definition rule_4_1_3 :: rule where
  "rule_4_1_3 =
     \<lparr>rule_ID = ''4.1.3'', rule_StigID = [], rule_Framework = cisBenchCIS, rule_Level = 2, rule_Section = ''Audit'',
      rule_Description = ''Ensure events that modify date and time information are collected'',
      rule_StigDescription = []\<rparr>"

definition rule_4_1_4 :: rule where
  "rule_4_1_4 =
     \<lparr>rule_ID = ''4.1.4'', rule_StigID = [], rule_Framework = cisBenchCIS, rule_Level = 2, rule_Section = ''Audit'',
      rule_Description = ''Ensure events that modify user/group information are collected'',
      rule_StigDescription = []\<rparr>"

definition rule_4_1_5 :: rule where
  "rule_4_1_5 =
     \<lparr>rule_ID = ''4.1.5'', rule_StigID = [], rule_Framework = cisBenchCIS, rule_Level = 2, rule_Section = ''Audit'',
      rule_Description = ''Ensure events that modify the network environment are collected'',
      rule_StigDescription = []\<rparr>"

definition rule_4_1_6 :: rule where
  "rule_4_1_6 =
     \<lparr>rule_ID = ''4.1.6'', rule_StigID = [], rule_Framework = cisBenchCIS, rule_Level = 2, rule_Section = ''Audit'',
      rule_Description = ''Ensure events that modify the system'' @ squote @
       ''s Mandatory Access Controls are collected'',
      rule_StigDescription = []\<rparr>"

definition rule_4_1_7 :: rule where
  "rule_4_1_7 =
     \<lparr>rule_ID = ''4.1.7'', rule_StigID = [], rule_Framework = cisBenchCIS, rule_Level = 2, rule_Section = ''Audit'',
      rule_Description = ''Ensure login and logout events are collected'',
      rule_StigDescription = []\<rparr>"

definition rule_4_1_8 :: rule where
  "rule_4_1_8 =
     \<lparr>rule_ID = ''4.1.8'', rule_StigID = [], rule_Framework = cisBenchCIS, rule_Level = 2, rule_Section = ''Audit'',
      rule_Description = ''Ensure session initiation information is collected'',
      rule_StigDescription = []\<rparr>"

definition rule_4_1_9 :: rule where
  "rule_4_1_9 =
     \<lparr>rule_ID = ''4.1.9'', rule_StigID = [], rule_Framework = cisBenchCIS, rule_Level = 2, rule_Section = ''Audit'',
      rule_Description = ''Ensure discretionary access control permission modification events are collected'',
      rule_StigDescription = []\<rparr>"

definition rule_4_1_10 :: rule where
  "rule_4_1_10 =
     \<lparr>rule_ID = ''4.1.10'', rule_StigID = [], rule_Framework = cisBenchCIS, rule_Level = 2, rule_Section = ''Audit'',
      rule_Description = ''Ensure unsuccessful unauthorized file access attempts are collected'',
      rule_StigDescription = []\<rparr>"

definition rule_4_1_11 :: rule where
  "rule_4_1_11 =
     \<lparr>rule_ID = ''4.1.11'', rule_StigID = [], rule_Framework = cisBenchCIS, rule_Level = 2, rule_Section = ''Audit'',
      rule_Description = ''Ensure use of privileged commands is collected'',
      rule_StigDescription = []\<rparr>"

definition rule_4_1_12 :: rule where
  "rule_4_1_12 =
     \<lparr>rule_ID = ''4.1.12'', rule_StigID = [], rule_Framework = cisBenchCIS, rule_Level = 2, rule_Section = ''Audit'',
      rule_Description = ''Ensure successful file system mounts are collected'',
      rule_StigDescription = []\<rparr>"

definition rule_4_1_13 :: rule where
  "rule_4_1_13 =
     \<lparr>rule_ID = ''4.1.13'', rule_StigID = [], rule_Framework = cisBenchCIS, rule_Level = 2, rule_Section = ''Audit'',
      rule_Description = ''Ensure use of file deletion events by users is collected'',
      rule_StigDescription = []\<rparr>"

definition rule_4_1_14 :: rule where
  "rule_4_1_14 =
     \<lparr>rule_ID = ''4.1.14'', rule_StigID = [], rule_Framework = cisBenchCIS, rule_Level = 2, rule_Section = ''Audit'',
      rule_Description = ''Ensure changes to system administration scope (sudoers) are collected'',
      rule_StigDescription = []\<rparr>"

definition rule_4_1_15 :: rule where
  "rule_4_1_15 =
     \<lparr>rule_ID = ''4.1.15'', rule_StigID = [], rule_Framework = cisBenchCIS, rule_Level = 2, rule_Section = ''Audit'',
      rule_Description = ''Ensure system administrator actions (sudolog) are collected'',
      rule_StigDescription = []\<rparr>"

definition rule_4_1_16 :: rule where
  "rule_4_1_16 =
     \<lparr>rule_ID = ''4.1.16'', rule_StigID = [], rule_Framework = cisBenchCIS, rule_Level = 2, rule_Section = ''Audit'',
      rule_Description = ''Ensure kernel module loading and unloading is collected'',
      rule_StigDescription = []\<rparr>"

definition rule_4_1_17 :: rule where
  "rule_4_1_17 =
     \<lparr>rule_ID = ''4.1.17'', rule_StigID = [], rule_Framework = cisBenchCIS, rule_Level = 2, rule_Section = ''Audit'',
      rule_Description = ''Ensure the audit configuration is immutable'',
      rule_StigDescription = []\<rparr>"

definition rule_4_2_1 :: rule where
  "rule_4_2_1 =
     \<lparr>rule_ID = ''4.2.1'', rule_StigID = [], rule_Framework = cisBenchCIS, rule_Level = 1, rule_Section = ''Audit'',
      rule_Description = ''Ensure rsyslog or syslog-ng is installed'',
      rule_StigDescription = []\<rparr>"

definition rule_4_2_2 :: rule where
  "rule_4_2_2 =
     \<lparr>rule_ID = ''4.2.2'', rule_StigID = [], rule_Framework = cisBenchCIS, rule_Level = 1, rule_Section = ''Audit'',
      rule_Description = ''Ensure journald is configured to send logs to rsyslog'',
      rule_StigDescription = []\<rparr>"

definition rule_4_2_2_2 :: rule where
  "rule_4_2_2_2 =
     \<lparr>rule_ID = ''4.2.2.2'', rule_StigID = [], rule_Framework = cisBenchCIS, rule_Level = 1, rule_Section = ''Audit'',
      rule_Description = ''Ensure journald is configured to compress large log files'',
      rule_StigDescription = []\<rparr>"

definition rule_4_2_2_3 :: rule where
  "rule_4_2_2_3 =
     \<lparr>rule_ID = ''4.2.2.3'', rule_StigID = [], rule_Framework = cisBenchCIS, rule_Level = 1, rule_Section = ''Audit'',
      rule_Description = ''Ensure journald is configured to write logfiles to persistent disk'',
      rule_StigDescription = []\<rparr>"

definition rule_4_2_3 :: rule where
  "rule_4_2_3 =
     \<lparr>rule_ID = ''4.2.3'', rule_StigID = [], rule_Framework = cisBenchCIS, rule_Level = 2, rule_Section = ''Audit'',
      rule_Description = ''Ensure rsyslog is configured to send logs to a remote log host'',
      rule_StigDescription = []\<rparr>"

definition rule_4_2_4 :: rule where
  "rule_4_2_4 =
     \<lparr>rule_ID = ''4.2.4'', rule_StigID = [], rule_Framework = cisBenchCIS, rule_Level = 1, rule_Section = ''Audit'',
      rule_Description = ''Ensure rsyslog is not accepting remote messages'',
      rule_StigDescription = []\<rparr>"

definition rule_4_2_5 :: rule where
  "rule_4_2_5 =
     \<lparr>rule_ID = ''4.2.5'', rule_StigID = [], rule_Framework = cisBenchCIS, rule_Level = 2, rule_Section = ''Audit'',
      rule_Description = ''Ensure rsyslog default file creation mode is configured'',
      rule_StigDescription = []\<rparr>"

definition rule_4_2_6 :: rule where
  "rule_4_2_6 =
     \<lparr>rule_ID = ''4.2.6'', rule_StigID = [], rule_Framework = cisBenchCIS, rule_Level = 2, rule_Section = ''Audit'',
      rule_Description = ''Ensure rsyslog is configured to send logs to a remote log host'',
      rule_StigDescription = []\<rparr>"

definition rule_4_2_7 :: rule where
  "rule_4_2_7 =
     \<lparr>rule_ID = ''4.2.7'', rule_StigID = [], rule_Framework = cisBenchCIS, rule_Level = 1, rule_Section = ''Audit'',
      rule_Description = ''Ensure permissions on all logfiles are configured (no world-read/write)'',
      rule_StigDescription = []\<rparr>"

definition rule_4_3_1 :: rule where
  "rule_4_3_1 =
     \<lparr>rule_ID = ''4.3.1'', rule_StigID = [], rule_Framework = cisBenchCIS, rule_Level = 1, rule_Section = ''Audit'',
      rule_Description = ''Ensure logrotate is configured'',
      rule_StigDescription = []\<rparr>"

definition rule_5_3_1 :: rule where
  "rule_5_3_1 =
     \<lparr>rule_ID = ''5.3.1'', rule_StigID = [], rule_Framework = cisBenchCIS, rule_Level = 1, rule_Section = cisCatAuth,
      rule_Description = ''Ensure sudo is installed'',
      rule_StigDescription = []\<rparr>"

definition rule_5_4_1 :: rule where
  "rule_5_4_1 =
     \<lparr>rule_ID = ''5.4.1'', rule_StigID = stigPassMaxDaysID, rule_Framework = cisBenchBOTH, rule_Level = 1, rule_Section = cisCatAuth,
      rule_Description = ''Ensure password expiration is 365 days or less'',
      rule_StigDescription = []\<rparr>"

definition rule_5_3_4 :: rule where
  "rule_5_3_4 =
     \<lparr>rule_ID = ''5.3.4'', rule_StigID = [], rule_Framework = cisBenchCIS, rule_Level = 1, rule_Section = cisCatAuth,
      rule_Description = ''Ensure users must provide password for privilege escalation'',
      rule_StigDescription = []\<rparr>"

definition rule_5_3_2 :: rule where
  "rule_5_3_2 =
     \<lparr>rule_ID = ''5.3.2'', rule_StigID = [], rule_Framework = cisBenchCIS, rule_Level = 1, rule_Section = cisCatAuth,
      rule_Description = ''Ensure sudo commands use a pseudo-terminal (Defaults use_pty)'',
      rule_StigDescription = []\<rparr>"

definition rule_5_3_3 :: rule where
  "rule_5_3_3 =
     \<lparr>rule_ID = ''5.3.3'', rule_StigID = [], rule_Framework = cisBenchCIS, rule_Level = 1, rule_Section = cisCatAuth,
      rule_Description = ''Ensure sudo log file is configured (Defaults logfile=<path>)'',
      rule_StigDescription = []\<rparr>"

definition rule_5_4_2 :: rule where
  "rule_5_4_2 =
     \<lparr>rule_ID = ''5.4.2'', rule_StigID = [], rule_Framework = cisBenchCIS, rule_Level = 1, rule_Section = cisCatAuth,
      rule_Description = ''Ensure all active user accounts have password expiry configured'',
      rule_StigDescription = []\<rparr>"

definition rule_5_4_3 :: rule where
  "rule_5_4_3 =
     \<lparr>rule_ID = ''5.4.3'', rule_StigID = [], rule_Framework = cisBenchCIS, rule_Level = 1, rule_Section = cisCatAuth,
      rule_Description = ''Ensure password hashing algorithm is SHA-512 or yescrypt'',
      rule_StigDescription = []\<rparr>"

definition rule_5_4_4 :: rule where
  "rule_5_4_4 =
     \<lparr>rule_ID = ''5.4.4'', rule_StigID = [], rule_Framework = cisBenchCIS, rule_Level = 1, rule_Section = cisCatAuth,
      rule_Description = ''Ensure minimum days between password changes is configured (PASS_MIN_DAYS '' @
       [CHR 0xE2, CHR 0x89, CHR 0xA5] @ '' 1)'',
      rule_StigDescription = []\<rparr>"

definition rule_5_4_5 :: rule where
  "rule_5_4_5 =
     \<lparr>rule_ID = ''5.4.5'', rule_StigID = [], rule_Framework = cisBenchCIS, rule_Level = 1, rule_Section = cisCatAuth,
      rule_Description = ''Ensure default group for root is GID 0'',
      rule_StigDescription = []\<rparr>"

definition rule_5_4_6 :: rule where
  "rule_5_4_6 =
     \<lparr>rule_ID = ''5.4.6'', rule_StigID = [], rule_Framework = cisBenchCIS, rule_Level = 1, rule_Section = cisCatAuth,
      rule_Description = ''Ensure password expiration warning days is 7 or more (PASS_WARN_AGE '' @
       [CHR 0xE2, CHR 0x89, CHR 0xA5] @ '' 7)'',
      rule_StigDescription = []\<rparr>"

definition rule_5_4_7 :: rule where
  "rule_5_4_7 =
     \<lparr>rule_ID = ''5.4.7'', rule_StigID = [], rule_Framework = cisBenchCIS, rule_Level = 1, rule_Section = cisCatAuth,
      rule_Description = ''Ensure inactive password lock is 30 days or less'',
      rule_StigDescription = []\<rparr>"

definition rule_5_4_8 :: rule where
  "rule_5_4_8 =
     \<lparr>rule_ID = ''5.4.8'', rule_StigID = [], rule_Framework = cisBenchCIS, rule_Level = 1, rule_Section = cisCatAuth,
      rule_Description = ''Ensure system accounts do not have interactive shells'',
      rule_StigDescription = []\<rparr>"

definition rule_5_4_9 :: rule where
  "rule_5_4_9 =
     \<lparr>rule_ID = ''5.4.9'', rule_StigID = [], rule_Framework = cisBenchCIS, rule_Level = 1, rule_Section = cisCatAuth,
      rule_Description = ''Ensure password creation requirements are configured'',
      rule_StigDescription = []\<rparr>"

definition rule_5_4_10 :: rule where
  "rule_5_4_10 =
     \<lparr>rule_ID = ''5.4.10'', rule_StigID = [], rule_Framework = cisBenchCIS, rule_Level = 1, rule_Section = cisCatAuth,
      rule_Description = ''Ensure lockout for failed password attempts is configured'',
      rule_StigDescription = []\<rparr>"

definition rule_5_4_11 :: rule where
  "rule_5_4_11 =
     \<lparr>rule_ID = ''5.4.11'', rule_StigID = [], rule_Framework = cisBenchCIS, rule_Level = 1, rule_Section = cisCatAuth,
      rule_Description = ''Ensure password hashing algorithm is up to date'',
      rule_StigDescription = []\<rparr>"

definition rule_5_4_12 :: rule where
  "rule_5_4_12 =
     \<lparr>rule_ID = ''5.4.12'', rule_StigID = [], rule_Framework = cisBenchCIS, rule_Level = 1, rule_Section = cisCatAuth,
      rule_Description = ''Ensure password reuse is limited'',
      rule_StigDescription = []\<rparr>"

definition rule_5_4_13 :: rule where
  "rule_5_4_13 =
     \<lparr>rule_ID = ''5.4.13'', rule_StigID = [], rule_Framework = cisBenchCIS, rule_Level = 1, rule_Section = cisCatAuth,
      rule_Description = ''Ensure PAM lockout unlock time is 15 minutes or more (unlock_time >= 900)'',
      rule_StigDescription = []\<rparr>"

definition rule_5_4_14 :: rule where
  "rule_5_4_14 =
     \<lparr>rule_ID = ''5.4.14'', rule_StigID = [], rule_Framework = cisBenchCIS, rule_Level = 1, rule_Section = cisCatAuth,
      rule_Description = ''Ensure PAM lockout failure window is configured (fail_interval >= 900)'',
      rule_StigDescription = []\<rparr>"

definition rule_5_4_15 :: rule where
  "rule_5_4_15 =
     \<lparr>rule_ID = ''5.4.15'', rule_StigID = [], rule_Framework = cisBenchCIS, rule_Level = 1, rule_Section = cisCatAuth,
      rule_Description = ''Ensure password complexity class requirement is configured (minclass >= 3 or credit settings)'',
      rule_StigDescription = []\<rparr>"

definition rule_5_4_16 :: rule where
  "rule_5_4_16 =
     \<lparr>rule_ID = ''5.4.16'', rule_StigID = [], rule_Framework = cisBenchCIS, rule_Level = 1, rule_Section = cisCatAuth,
      rule_Description = ''Ensure pam_pwquality is configured with retry '' @ [CHR 0xE2, CHR 0x89, CHR 0xA4] @
       '' 3'',
      rule_StigDescription = []\<rparr>"

definition rule_5_4_17 :: rule where
  "rule_5_4_17 =
     \<lparr>rule_ID = ''5.4.17'', rule_StigID = [], rule_Framework = cisBenchCIS, rule_Level = 1, rule_Section = cisCatAuth,
      rule_Description = ''Ensure PAM does not permit login with null passwords (nullok absent)'',
      rule_StigDescription = []\<rparr>"

definition rule_5_3_5 :: rule where
  "rule_5_3_5 =
     \<lparr>rule_ID = ''5.3.5'', rule_StigID = [], rule_Framework = cisBenchCIS, rule_Level = 1, rule_Section = cisCatAuth,
      rule_Description = ''Ensure sudo authentication timeout is 15 minutes or less'',
      rule_StigDescription = []\<rparr>"

definition rule_5_5_1 :: rule where
  "rule_5_5_1 =
     \<lparr>rule_ID = ''5.5.1'', rule_StigID = [], rule_Framework = cisBenchCIS, rule_Level = 1, rule_Section = cisCatAuth,
      rule_Description = ''Ensure root login is restricted to system console'',
      rule_StigDescription = []\<rparr>"

definition rule_5_5_2 :: rule where
  "rule_5_5_2 =
     \<lparr>rule_ID = ''5.5.2'', rule_StigID = [], rule_Framework = cisBenchCIS, rule_Level = 1, rule_Section = cisCatAuth,
      rule_Description = ''Ensure access to the su command is restricted'',
      rule_StigDescription = []\<rparr>"

definition rule_5_5_3 :: rule where
  "rule_5_5_3 =
     \<lparr>rule_ID = ''5.5.3'', rule_StigID = [], rule_Framework = cisBenchCIS, rule_Level = 1, rule_Section = cisCatAuth,
      rule_Description = ''Ensure default user umask is 027 or more restrictive'',
      rule_StigDescription = []\<rparr>"

definition rule_5_5_4 :: rule where
  "rule_5_5_4 =
     \<lparr>rule_ID = ''5.5.4'', rule_StigID = [], rule_Framework = cisBenchCIS, rule_Level = 1, rule_Section = cisCatAuth,
      rule_Description = ''Ensure default user shell timeout is 900 seconds or less'',
      rule_StigDescription = []\<rparr>"

definition rule_5_1_1 :: rule where
  "rule_5_1_1 =
     \<lparr>rule_ID = ''5.1.1'', rule_StigID = [], rule_Framework = cisBenchCIS, rule_Level = 1, rule_Section = ''Cron'',
      rule_Description = ''Ensure cron daemon is enabled and running'',
      rule_StigDescription = []\<rparr>"

definition rule_5_1_2 :: rule where
  "rule_5_1_2 =
     \<lparr>rule_ID = ''5.1.2'', rule_StigID = [], rule_Framework = cisBenchCIS, rule_Level = 1, rule_Section = ''Cron'',
      rule_Description = ''Ensure permissions on /etc/crontab are configured (0600)'',
      rule_StigDescription = []\<rparr>"

definition rule_5_1_3 :: rule where
  "rule_5_1_3 =
     \<lparr>rule_ID = ''5.1.3'', rule_StigID = [], rule_Framework = cisBenchCIS, rule_Level = 1, rule_Section = ''Cron'',
      rule_Description = ''Ensure permissions on /etc/cron.hourly are configured (0700)'',
      rule_StigDescription = []\<rparr>"

definition rule_5_1_4 :: rule where
  "rule_5_1_4 =
     \<lparr>rule_ID = ''5.1.4'', rule_StigID = [], rule_Framework = cisBenchCIS, rule_Level = 1, rule_Section = ''Cron'',
      rule_Description = ''Ensure permissions on /etc/cron.daily are configured (0700)'',
      rule_StigDescription = []\<rparr>"

definition rule_5_1_5 :: rule where
  "rule_5_1_5 =
     \<lparr>rule_ID = ''5.1.5'', rule_StigID = [], rule_Framework = cisBenchCIS, rule_Level = 1, rule_Section = ''Cron'',
      rule_Description = ''Ensure permissions on /etc/cron.weekly are configured (0700)'',
      rule_StigDescription = []\<rparr>"

definition rule_5_1_6 :: rule where
  "rule_5_1_6 =
     \<lparr>rule_ID = ''5.1.6'', rule_StigID = [], rule_Framework = cisBenchCIS, rule_Level = 1, rule_Section = ''Cron'',
      rule_Description = ''Ensure permissions on /etc/cron.monthly are configured (0700)'',
      rule_StigDescription = []\<rparr>"

definition rule_5_1_7 :: rule where
  "rule_5_1_7 =
     \<lparr>rule_ID = ''5.1.7'', rule_StigID = [], rule_Framework = cisBenchCIS, rule_Level = 1, rule_Section = ''Cron'',
      rule_Description = ''Ensure permissions on /etc/cron.d are configured (0700)'',
      rule_StigDescription = []\<rparr>"

definition rule_5_1_8 :: rule where
  "rule_5_1_8 =
     \<lparr>rule_ID = ''5.1.8'', rule_StigID = [], rule_Framework = cisBenchCIS, rule_Level = 1, rule_Section = ''Cron'',
      rule_Description = ''Ensure cron is restricted to authorized users (/etc/cron.allow, not /etc/cron.deny)'',
      rule_StigDescription = []\<rparr>"

definition rule_5_1_9 :: rule where
  "rule_5_1_9 =
     \<lparr>rule_ID = ''5.1.9'', rule_StigID = [], rule_Framework = cisBenchCIS, rule_Level = 1, rule_Section = ''Cron'',
      rule_Description = ''Ensure at is restricted to authorized users (/etc/at.allow, not /etc/at.deny)'',
      rule_StigDescription = []\<rparr>"

definition rule_5_1_10 :: rule where
  "rule_5_1_10 =
     \<lparr>rule_ID = ''5.1.10'', rule_StigID = [], rule_Framework = cisBenchCIS, rule_Level = 1, rule_Section = ''Cron'',
      rule_Description = ''Ensure /etc/crontab is owned by root:root'',
      rule_StigDescription = []\<rparr>"

definition rule_5_1_11 :: rule where
  "rule_5_1_11 =
     \<lparr>rule_ID = ''5.1.11'', rule_StigID = [], rule_Framework = cisBenchCIS, rule_Level = 1, rule_Section = ''Cron'',
      rule_Description = ''Ensure /etc/cron.hourly is owned by root:root'',
      rule_StigDescription = []\<rparr>"

definition rule_5_1_12 :: rule where
  "rule_5_1_12 =
     \<lparr>rule_ID = ''5.1.12'', rule_StigID = [], rule_Framework = cisBenchCIS, rule_Level = 1, rule_Section = ''Cron'',
      rule_Description = ''Ensure /etc/cron.daily is owned by root:root'',
      rule_StigDescription = []\<rparr>"

definition rule_5_1_13 :: rule where
  "rule_5_1_13 =
     \<lparr>rule_ID = ''5.1.13'', rule_StigID = [], rule_Framework = cisBenchCIS, rule_Level = 1, rule_Section = ''Cron'',
      rule_Description = ''Ensure /etc/cron.weekly is owned by root:root'',
      rule_StigDescription = []\<rparr>"

definition rule_5_1_14 :: rule where
  "rule_5_1_14 =
     \<lparr>rule_ID = ''5.1.14'', rule_StigID = [], rule_Framework = cisBenchCIS, rule_Level = 1, rule_Section = ''Cron'',
      rule_Description = ''Ensure /etc/cron.monthly is owned by root:root'',
      rule_StigDescription = []\<rparr>"

definition rule_5_1_15 :: rule where
  "rule_5_1_15 =
     \<lparr>rule_ID = ''5.1.15'', rule_StigID = [], rule_Framework = cisBenchCIS, rule_Level = 1, rule_Section = ''Cron'',
      rule_Description = ''Ensure /etc/cron.d is owned by root:root'',
      rule_StigDescription = []\<rparr>"

definition rule_5_1_16 :: rule where
  "rule_5_1_16 =
     \<lparr>rule_ID = ''5.1.16'', rule_StigID = [], rule_Framework = cisBenchCIS, rule_Level = 1, rule_Section = ''Cron'',
      rule_Description = ''Ensure /etc/cron.allow permissions are configured (0600)'',
      rule_StigDescription = []\<rparr>"

definition rule_5_1_17 :: rule where
  "rule_5_1_17 =
     \<lparr>rule_ID = ''5.1.17'', rule_StigID = [], rule_Framework = cisBenchCIS, rule_Level = 1, rule_Section = ''Cron'',
      rule_Description = ''Ensure /etc/cron.allow is owned by root:root'',
      rule_StigDescription = []\<rparr>"

definition rule_5_1_18 :: rule where
  "rule_5_1_18 =
     \<lparr>rule_ID = ''5.1.18'', rule_StigID = [], rule_Framework = cisBenchCIS, rule_Level = 1, rule_Section = ''Cron'',
      rule_Description = ''Ensure /etc/cron.deny permissions are configured (0600)'',
      rule_StigDescription = []\<rparr>"

definition rule_5_1_19 :: rule where
  "rule_5_1_19 =
     \<lparr>rule_ID = ''5.1.19'', rule_StigID = [], rule_Framework = cisBenchCIS, rule_Level = 1, rule_Section = ''Cron'',
      rule_Description = ''Ensure /etc/cron.deny is owned by root:root'',
      rule_StigDescription = []\<rparr>"

definition rule_5_1_20 :: rule where
  "rule_5_1_20 =
     \<lparr>rule_ID = ''5.1.20'', rule_StigID = [], rule_Framework = cisBenchCIS, rule_Level = 1, rule_Section = ''Cron'',
      rule_Description = ''Ensure /etc/at.allow permissions are configured (0600)'',
      rule_StigDescription = []\<rparr>"

definition rule_5_1_21 :: rule where
  "rule_5_1_21 =
     \<lparr>rule_ID = ''5.1.21'', rule_StigID = [], rule_Framework = cisBenchCIS, rule_Level = 1, rule_Section = ''Cron'',
      rule_Description = ''Ensure /etc/at.allow is owned by root:root'',
      rule_StigDescription = []\<rparr>"

definition rule_5_1_22 :: rule where
  "rule_5_1_22 =
     \<lparr>rule_ID = ''5.1.22'', rule_StigID = [], rule_Framework = cisBenchCIS, rule_Level = 1, rule_Section = ''Cron'',
      rule_Description = ''Ensure /etc/at.deny permissions are configured (0600)'',
      rule_StigDescription = []\<rparr>"

definition rule_5_1_23 :: rule where
  "rule_5_1_23 =
     \<lparr>rule_ID = ''5.1.23'', rule_StigID = [], rule_Framework = cisBenchCIS, rule_Level = 1, rule_Section = ''Cron'',
      rule_Description = ''Ensure /etc/at.deny is owned by root:root'',
      rule_StigDescription = []\<rparr>"

definition rule_1_1_19 :: rule where
  "rule_1_1_19 =
     \<lparr>rule_ID = ''1.1.19'', rule_StigID = [], rule_Framework = cisBenchCIS, rule_Level = 1, rule_Section = ''Filesystem'',
      rule_Description = ''Ensure nosuid option is set on removable media partitions'',
      rule_StigDescription = []\<rparr>"

definition rule_1_1_20 :: rule where
  "rule_1_1_20 =
     \<lparr>rule_ID = ''1.1.20'', rule_StigID = [], rule_Framework = cisBenchCIS, rule_Level = 1, rule_Section = ''Filesystem'',
      rule_Description = ''Ensure noexec option is set on removable media partitions'',
      rule_StigDescription = []\<rparr>"

definition rule_1_1_21 :: rule where
  "rule_1_1_21 =
     \<lparr>rule_ID = ''1.1.21'', rule_StigID = [], rule_Framework = cisBenchCIS, rule_Level = 1, rule_Section = ''Filesystem'',
      rule_Description = ''Ensure nodev option is set on removable media partitions'',
      rule_StigDescription = []\<rparr>"

definition rule_1_1_22 :: rule where
  "rule_1_1_22 =
     \<lparr>rule_ID = ''1.1.22'', rule_StigID = [], rule_Framework = cisBenchCIS, rule_Level = 1, rule_Section = ''Filesystem'',
      rule_Description = ''Ensure sticky bit is set on all world-writable directories'',
      rule_StigDescription = []\<rparr>"

definition rule_1_1_23 :: rule where
  "rule_1_1_23 =
     \<lparr>rule_ID = ''1.1.23'', rule_StigID = [], rule_Framework = cisBenchCIS, rule_Level = 2, rule_Section = ''Filesystem'',
      rule_Description = ''Ensure /var is on a separate partition'',
      rule_StigDescription = []\<rparr>"

definition rule_1_1_24 :: rule where
  "rule_1_1_24 =
     \<lparr>rule_ID = ''1.1.24'', rule_StigID = [], rule_Framework = cisBenchCIS, rule_Level = 1, rule_Section = ''Filesystem'',
      rule_Description = ''Ensure /var/tmp is on a separate partition'',
      rule_StigDescription = []\<rparr>"

definition rule_1_1_25 :: rule where
  "rule_1_1_25 =
     \<lparr>rule_ID = ''1.1.25'', rule_StigID = [], rule_Framework = cisBenchCIS, rule_Level = 2, rule_Section = ''Filesystem'',
      rule_Description = ''Ensure /home is on a separate partition'',
      rule_StigDescription = []\<rparr>"

definition rule_1_1_26 :: rule where
  "rule_1_1_26 =
     \<lparr>rule_ID = ''1.1.26'', rule_StigID = [], rule_Framework = cisBenchCIS, rule_Level = 2, rule_Section = ''Filesystem'',
      rule_Description = ''Ensure nodev option set on /var/log partition'',
      rule_StigDescription = []\<rparr>"

definition rule_1_1_27 :: rule where
  "rule_1_1_27 =
     \<lparr>rule_ID = ''1.1.27'', rule_StigID = [], rule_Framework = cisBenchCIS, rule_Level = 2, rule_Section = ''Filesystem'',
      rule_Description = ''Ensure nosuid option set on /var/log partition'',
      rule_StigDescription = []\<rparr>"

definition rule_1_1_28 :: rule where
  "rule_1_1_28 =
     \<lparr>rule_ID = ''1.1.28'', rule_StigID = [], rule_Framework = cisBenchCIS, rule_Level = 2, rule_Section = ''Filesystem'',
      rule_Description = ''Ensure noexec option set on /var/log partition'',
      rule_StigDescription = []\<rparr>"

definition rule_1_1_29 :: rule where
  "rule_1_1_29 =
     \<lparr>rule_ID = ''1.1.29'', rule_StigID = [], rule_Framework = cisBenchCIS, rule_Level = 2, rule_Section = ''Filesystem'',
      rule_Description = ''Ensure nodev option set on /var partition'',
      rule_StigDescription = []\<rparr>"

definition rule_1_1_30 :: rule where
  "rule_1_1_30 =
     \<lparr>rule_ID = ''1.1.30'', rule_StigID = [], rule_Framework = cisBenchCIS, rule_Level = 2, rule_Section = ''Filesystem'',
      rule_Description = ''Ensure nosuid option set on /var partition'',
      rule_StigDescription = []\<rparr>"

definition rule_1_1_31 :: rule where
  "rule_1_1_31 =
     \<lparr>rule_ID = ''1.1.31'', rule_StigID = [], rule_Framework = cisBenchCIS, rule_Level = 2, rule_Section = ''Filesystem'',
      rule_Description = ''Ensure nosuid option set on /home partition'',
      rule_StigDescription = []\<rparr>"

definition rule_1_1_32 :: rule where
  "rule_1_1_32 =
     \<lparr>rule_ID = ''1.1.32'', rule_StigID = [], rule_Framework = cisBenchCIS, rule_Level = 2, rule_Section = ''Filesystem'',
      rule_Description = ''Ensure noexec option set on /home partition'',
      rule_StigDescription = []\<rparr>"

definition rule_6_1_1 :: rule where
  "rule_6_1_1 =
     \<lparr>rule_ID = ''6.1.1'', rule_StigID = ''V-238401'', rule_Framework = cisBenchBOTH, rule_Level = 1, rule_Section = cisCatFiles,
      rule_Description = ''Ensure /etc/passwd permissions are 644 or stricter'',
      rule_StigDescription = []\<rparr>"

definition rule_6_1_2 :: rule where
  "rule_6_1_2 =
     \<lparr>rule_ID = ''6.1.2'', rule_StigID = ''V-238402'', rule_Framework = cisBenchBOTH, rule_Level = 1, rule_Section = cisCatFiles,
      rule_Description = ''Ensure /etc/shadow permissions are 000 or 640'',
      rule_StigDescription = []\<rparr>"

definition rule_6_1_3 :: rule where
  "rule_6_1_3 =
     \<lparr>rule_ID = ''6.1.3'', rule_StigID = ''V-238403'', rule_Framework = cisBenchBOTH, rule_Level = 1, rule_Section = cisCatFiles,
      rule_Description = ''Ensure /etc/group permissions are 644 or stricter'',
      rule_StigDescription = []\<rparr>"

definition rule_6_1_4 :: rule where
  "rule_6_1_4 =
     \<lparr>rule_ID = ''6.1.4'', rule_StigID = [], rule_Framework = cisBenchCIS, rule_Level = 1, rule_Section = cisCatFiles,
      rule_Description = ''Ensure /etc/passwd- permissions are 600 or stricter'',
      rule_StigDescription = []\<rparr>"

definition rule_6_1_5 :: rule where
  "rule_6_1_5 =
     \<lparr>rule_ID = ''6.1.5'', rule_StigID = [], rule_Framework = cisBenchCIS, rule_Level = 1, rule_Section = cisCatFiles,
      rule_Description = ''Ensure /etc/shadow- permissions are 000 or 600'',
      rule_StigDescription = []\<rparr>"

definition rule_6_1_6 :: rule where
  "rule_6_1_6 =
     \<lparr>rule_ID = ''6.1.6'', rule_StigID = [], rule_Framework = cisBenchCIS, rule_Level = 1, rule_Section = cisCatFiles,
      rule_Description = ''Ensure /etc/gshadow permissions are 000 or 640'',
      rule_StigDescription = []\<rparr>"

definition rule_6_1_7 :: rule where
  "rule_6_1_7 =
     \<lparr>rule_ID = ''6.1.7'', rule_StigID = [], rule_Framework = cisBenchCIS, rule_Level = 1, rule_Section = cisCatFiles,
      rule_Description = ''Ensure /etc/gshadow- permissions are 000 or 600'',
      rule_StigDescription = []\<rparr>"

definition rule_6_1_8 :: rule where
  "rule_6_1_8 =
     \<lparr>rule_ID = ''6.1.8'', rule_StigID = [], rule_Framework = cisBenchCIS, rule_Level = 1, rule_Section = cisCatFiles,
      rule_Description = ''Ensure /etc/group- permissions are 644 or stricter'',
      rule_StigDescription = []\<rparr>"

definition rule_6_1_9 :: rule where
  "rule_6_1_9 =
     \<lparr>rule_ID = ''6.1.9'', rule_StigID = [], rule_Framework = cisBenchCIS, rule_Level = 1, rule_Section = cisCatFiles,
      rule_Description = ''Ensure /etc/passwd is owned by root:root'',
      rule_StigDescription = []\<rparr>"

definition rule_6_1_10 :: rule where
  "rule_6_1_10 =
     \<lparr>rule_ID = ''6.1.10'', rule_StigID = [], rule_Framework = cisBenchCIS, rule_Level = 1, rule_Section = cisCatFiles,
      rule_Description = ''Ensure /etc/shadow is owned by root:root or root:shadow'',
      rule_StigDescription = []\<rparr>"

definition rule_6_1_11 :: rule where
  "rule_6_1_11 =
     \<lparr>rule_ID = ''6.1.11'', rule_StigID = [], rule_Framework = cisBenchCIS, rule_Level = 1, rule_Section = cisCatFiles,
      rule_Description = ''Ensure /etc/group is owned by root:root'',
      rule_StigDescription = []\<rparr>"

definition rule_6_1_12 :: rule where
  "rule_6_1_12 =
     \<lparr>rule_ID = ''6.1.12'', rule_StigID = [], rule_Framework = cisBenchCIS, rule_Level = 1, rule_Section = cisCatFiles,
      rule_Description = ''Ensure /etc/passwd- is owned by root:root'',
      rule_StigDescription = []\<rparr>"

definition rule_6_1_13 :: rule where
  "rule_6_1_13 =
     \<lparr>rule_ID = ''6.1.13'', rule_StigID = [], rule_Framework = cisBenchCIS, rule_Level = 1, rule_Section = cisCatFiles,
      rule_Description = ''Ensure /etc/shadow- is owned by root:root or root:shadow'',
      rule_StigDescription = []\<rparr>"

definition rule_6_1_15 :: rule where
  "rule_6_1_15 =
     \<lparr>rule_ID = ''6.1.15'', rule_StigID = [], rule_Framework = cisBenchCIS, rule_Level = 1, rule_Section = cisCatFiles,
      rule_Description = ''Ensure /etc/group- is owned by root:root'',
      rule_StigDescription = []\<rparr>"

definition rule_6_1_16 :: rule where
  "rule_6_1_16 =
     \<lparr>rule_ID = ''6.1.16'', rule_StigID = [], rule_Framework = cisBenchCIS, rule_Level = 1, rule_Section = cisCatFiles,
      rule_Description = ''Ensure /etc/gshadow is owned by root:root or root:shadow'',
      rule_StigDescription = []\<rparr>"

definition rule_6_1_17 :: rule where
  "rule_6_1_17 =
     \<lparr>rule_ID = ''6.1.17'', rule_StigID = [], rule_Framework = cisBenchCIS, rule_Level = 1, rule_Section = cisCatFiles,
      rule_Description = ''Ensure /etc/gshadow- is owned by root:root or root:shadow'',
      rule_StigDescription = []\<rparr>"

definition rule_6_1_18 :: rule where
  "rule_6_1_18 =
     \<lparr>rule_ID = ''6.1.18'', rule_StigID = [], rule_Framework = cisBenchCIS, rule_Level = 1, rule_Section = cisCatFiles,
      rule_Description = ''Ensure /etc/sudoers permissions are 440 or stricter'',
      rule_StigDescription = []\<rparr>"

definition rule_6_1_19 :: rule where
  "rule_6_1_19 =
     \<lparr>rule_ID = ''6.1.19'', rule_StigID = [], rule_Framework = cisBenchCIS, rule_Level = 1, rule_Section = cisCatFiles,
      rule_Description = ''Ensure /etc/sudoers is owned by root:root'',
      rule_StigDescription = []\<rparr>"

definition rule_6_1_20 :: rule where
  "rule_6_1_20 =
     \<lparr>rule_ID = ''6.1.20'', rule_StigID = [], rule_Framework = cisBenchCIS, rule_Level = 1, rule_Section = cisCatFiles,
      rule_Description = ''Ensure /etc/sudoers.d permissions are 750 or stricter'',
      rule_StigDescription = []\<rparr>"

definition rule_6_1_21 :: rule where
  "rule_6_1_21 =
     \<lparr>rule_ID = ''6.1.21'', rule_StigID = [], rule_Framework = cisBenchCIS, rule_Level = 1, rule_Section = cisCatFiles,
      rule_Description = ''Ensure /etc/audit/auditd.conf permissions are 640 or stricter'',
      rule_StigDescription = []\<rparr>"

definition rule_6_1_22 :: rule where
  "rule_6_1_22 =
     \<lparr>rule_ID = ''6.1.22'', rule_StigID = [], rule_Framework = cisBenchCIS, rule_Level = 1, rule_Section = cisCatFiles,
      rule_Description = ''Ensure /etc/audit/auditd.conf is owned by root:root'',
      rule_StigDescription = []\<rparr>"

definition rule_6_1_23 :: rule where
  "rule_6_1_23 =
     \<lparr>rule_ID = ''6.1.23'', rule_StigID = [], rule_Framework = cisBenchCIS, rule_Level = 1, rule_Section = cisCatFiles,
      rule_Description = ''Ensure /etc/hosts permissions are configured (644 or more restrictive)'',
      rule_StigDescription = []\<rparr>"

definition rule_6_1_24 :: rule where
  "rule_6_1_24 =
     \<lparr>rule_ID = ''6.1.24'', rule_StigID = [], rule_Framework = cisBenchCIS, rule_Level = 1, rule_Section = cisCatFiles,
      rule_Description = ''Ensure /etc/hosts.allow permissions are configured (644 or more restrictive)'',
      rule_StigDescription = []\<rparr>"

definition rule_6_1_25 :: rule where
  "rule_6_1_25 =
     \<lparr>rule_ID = ''6.1.25'', rule_StigID = [], rule_Framework = cisBenchCIS, rule_Level = 1, rule_Section = cisCatFiles,
      rule_Description = ''Ensure /etc/hosts.deny permissions are configured (644 or more restrictive)'',
      rule_StigDescription = []\<rparr>"

definition rule_6_1_26 :: rule where
  "rule_6_1_26 =
     \<lparr>rule_ID = ''6.1.26'', rule_StigID = [], rule_Framework = cisBenchCIS, rule_Level = 1, rule_Section = cisCatFiles,
      rule_Description = ''Ensure /etc/hosts is owned by root:root'',
      rule_StigDescription = []\<rparr>"

definition rule_6_1_27 :: rule where
  "rule_6_1_27 =
     \<lparr>rule_ID = ''6.1.27'', rule_StigID = [], rule_Framework = cisBenchCIS, rule_Level = 1, rule_Section = cisCatFiles,
      rule_Description = ''Ensure /etc/hosts.allow is owned by root:root'',
      rule_StigDescription = []\<rparr>"

definition rule_6_1_28 :: rule where
  "rule_6_1_28 =
     \<lparr>rule_ID = ''6.1.28'', rule_StigID = [], rule_Framework = cisBenchCIS, rule_Level = 1, rule_Section = cisCatFiles,
      rule_Description = ''Ensure /etc/hosts.deny is owned by root:root'',
      rule_StigDescription = []\<rparr>"

definition rule_6_1_29 :: rule where
  "rule_6_1_29 =
     \<lparr>rule_ID = ''6.1.29'', rule_StigID = [], rule_Framework = cisBenchCIS, rule_Level = 1, rule_Section = cisCatFiles,
      rule_Description = ''Ensure /etc/resolv.conf permissions are configured (644 or more restrictive)'',
      rule_StigDescription = []\<rparr>"

definition rule_6_1_30 :: rule where
  "rule_6_1_30 =
     \<lparr>rule_ID = ''6.1.30'', rule_StigID = [], rule_Framework = cisBenchCIS, rule_Level = 1, rule_Section = cisCatFiles,
      rule_Description = ''Ensure /etc/resolv.conf is owned by root:root'',
      rule_StigDescription = []\<rparr>"

definition rule_6_1_31 :: rule where
  "rule_6_1_31 =
     \<lparr>rule_ID = ''6.1.31'', rule_StigID = [], rule_Framework = cisBenchCIS, rule_Level = 1, rule_Section = cisCatFiles,
      rule_Description = ''Ensure /etc/sysctl.conf permissions are configured (600 or more restrictive)'',
      rule_StigDescription = []\<rparr>"

definition rule_6_1_32 :: rule where
  "rule_6_1_32 =
     \<lparr>rule_ID = ''6.1.32'', rule_StigID = [], rule_Framework = cisBenchCIS, rule_Level = 1, rule_Section = cisCatFiles,
      rule_Description = ''Ensure /etc/sysctl.conf is owned by root:root'',
      rule_StigDescription = []\<rparr>"

definition rule_6_1_33 :: rule where
  "rule_6_1_33 =
     \<lparr>rule_ID = ''6.1.33'', rule_StigID = [], rule_Framework = cisBenchCIS, rule_Level = 1, rule_Section = cisCatFiles,
      rule_Description = ''Ensure /etc/environment permissions are 644 or stricter'',
      rule_StigDescription = []\<rparr>"

definition rule_6_1_34 :: rule where
  "rule_6_1_34 =
     \<lparr>rule_ID = ''6.1.34'', rule_StigID = [], rule_Framework = cisBenchCIS, rule_Level = 1, rule_Section = cisCatFiles,
      rule_Description = ''Ensure /etc/environment is owned by root:root'',
      rule_StigDescription = []\<rparr>"

definition rule_6_1_35 :: rule where
  "rule_6_1_35 =
     \<lparr>rule_ID = ''6.1.35'', rule_StigID = [], rule_Framework = cisBenchCIS, rule_Level = 1, rule_Section = cisCatFiles,
      rule_Description = ''Ensure /etc/profile permissions are 644 or stricter'',
      rule_StigDescription = []\<rparr>"

definition rule_6_1_36 :: rule where
  "rule_6_1_36 =
     \<lparr>rule_ID = ''6.1.36'', rule_StigID = [], rule_Framework = cisBenchCIS, rule_Level = 1, rule_Section = cisCatFiles,
      rule_Description = ''Ensure /etc/profile is owned by root:root'',
      rule_StigDescription = []\<rparr>"

definition rule_6_1_37 :: rule where
  "rule_6_1_37 =
     \<lparr>rule_ID = ''6.1.37'', rule_StigID = [], rule_Framework = cisBenchCIS, rule_Level = 1, rule_Section = cisCatFiles,
      rule_Description = ''Ensure /etc/login.defs permissions are 644 or stricter'',
      rule_StigDescription = []\<rparr>"

definition rule_6_1_38 :: rule where
  "rule_6_1_38 =
     \<lparr>rule_ID = ''6.1.38'', rule_StigID = [], rule_Framework = cisBenchCIS, rule_Level = 1, rule_Section = cisCatFiles,
      rule_Description = ''Ensure /etc/login.defs is owned by root:root'',
      rule_StigDescription = []\<rparr>"

definition rule_6_2_1 :: rule where
  "rule_6_2_1 =
     \<lparr>rule_ID = ''6.2.1'', rule_StigID = ''V-238408'', rule_Framework = cisBenchBOTH, rule_Level = 1, rule_Section = ''Users'',
      rule_Description = ''Ensure no accounts have empty password fields'',
      rule_StigDescription = []\<rparr>"

definition rule_6_2_2 :: rule where
  "rule_6_2_2 =
     \<lparr>rule_ID = ''6.2.2'', rule_StigID = ''V-238410'', rule_Framework = cisBenchBOTH, rule_Level = 1, rule_Section = ''Users'',
      rule_Description = ''Ensure no legacy '' @ squote @ ''+'' @ squote @
       '' entries in /etc/passwd, /etc/shadow, /etc/group'',
      rule_StigDescription = []\<rparr>"

definition rule_6_2_3 :: rule where
  "rule_6_2_3 =
     \<lparr>rule_ID = ''6.2.3'', rule_StigID = ''V-238411'', rule_Framework = cisBenchBOTH, rule_Level = 1, rule_Section = ''Users'',
      rule_Description = ''Ensure root is the only UID 0 account'',
      rule_StigDescription = []\<rparr>"

definition rule_6_1_14 :: rule where
  "rule_6_1_14 =
     \<lparr>rule_ID = ''6.1.14'', rule_StigID = [], rule_Framework = cisBenchCIS, rule_Level = 1, rule_Section = cisCatFiles,
      rule_Description = ''Audit SUID executables '' @ em_dash @ '' ensure no unexpected SUID binaries exist'',
      rule_StigDescription = []\<rparr>"

definition rule_6_2_4 :: rule where
  "rule_6_2_4 =
     \<lparr>rule_ID = ''6.2.4'', rule_StigID = [], rule_Framework = cisBenchCIS, rule_Level = 1, rule_Section = ''Users'',
      rule_Description = ''Ensure no accounts have empty passwords'',
      rule_StigDescription = []\<rparr>"

definition rule_6_2_5 :: rule where
  "rule_6_2_5 =
     \<lparr>rule_ID = ''6.2.5'', rule_StigID = [], rule_Framework = cisBenchCIS, rule_Level = 1, rule_Section = ''Users'',
      rule_Description = ''Ensure no duplicate UIDs exist'',
      rule_StigDescription = []\<rparr>"

definition rule_6_2_6 :: rule where
  "rule_6_2_6 =
     \<lparr>rule_ID = ''6.2.6'', rule_StigID = [], rule_Framework = cisBenchCIS, rule_Level = 1, rule_Section = ''Users'',
      rule_Description = ''Ensure no duplicate GIDs exist'',
      rule_StigDescription = []\<rparr>"

definition rule_6_2_7 :: rule where
  "rule_6_2_7 =
     \<lparr>rule_ID = ''6.2.7'', rule_StigID = [], rule_Framework = cisBenchCIS, rule_Level = 1, rule_Section = ''Users'',
      rule_Description = ''Ensure no duplicate user names exist'',
      rule_StigDescription = []\<rparr>"

definition rule_6_2_8 :: rule where
  "rule_6_2_8 =
     \<lparr>rule_ID = ''6.2.8'', rule_StigID = [], rule_Framework = cisBenchCIS, rule_Level = 1, rule_Section = ''Users'',
      rule_Description = ''Ensure no duplicate group names exist'',
      rule_StigDescription = []\<rparr>"

definition rule_6_2_9 :: rule where
  "rule_6_2_9 =
     \<lparr>rule_ID = ''6.2.9'', rule_StigID = [], rule_Framework = cisBenchCIS, rule_Level = 1, rule_Section = ''Users'',
      rule_Description = ''Ensure root is the only UID 0 account'',
      rule_StigDescription = []\<rparr>"

definition rule_6_2_10 :: rule where
  "rule_6_2_10 =
     \<lparr>rule_ID = ''6.2.10'', rule_StigID = [], rule_Framework = cisBenchCIS, rule_Level = 1, rule_Section = ''Users'',
      rule_Description = ''Ensure root PATH integrity'',
      rule_StigDescription = []\<rparr>"

definition rule_6_2_11 :: rule where
  "rule_6_2_11 =
     \<lparr>rule_ID = ''6.2.11'', rule_StigID = [], rule_Framework = cisBenchCIS, rule_Level = 1, rule_Section = ''Users'',
      rule_Description = ''Ensure users own their home directories'',
      rule_StigDescription = []\<rparr>"

definition rule_6_2_12 :: rule where
  "rule_6_2_12 =
     \<lparr>rule_ID = ''6.2.12'', rule_StigID = [], rule_Framework = cisBenchCIS, rule_Level = 1, rule_Section = ''Users'',
      rule_Description = ''Ensure users'' @ squote @
       '' home directories permissions are 750 or more restrictive'',
      rule_StigDescription = []\<rparr>"

definition rule_6_2_13 :: rule where
  "rule_6_2_13 =
     \<lparr>rule_ID = ''6.2.13'', rule_StigID = [], rule_Framework = cisBenchCIS, rule_Level = 1, rule_Section = ''Users'',
      rule_Description = ''Ensure users'' @ squote @ '' dot files are not world-writable'',
      rule_StigDescription = []\<rparr>"

definition rule_6_2_14 :: rule where
  "rule_6_2_14 =
     \<lparr>rule_ID = ''6.2.14'', rule_StigID = [], rule_Framework = cisBenchCIS, rule_Level = 1, rule_Section = ''Users'',
      rule_Description = ''Ensure no users have .forward files'',
      rule_StigDescription = []\<rparr>"

definition rule_6_2_15 :: rule where
  "rule_6_2_15 =
     \<lparr>rule_ID = ''6.2.15'', rule_StigID = [], rule_Framework = cisBenchCIS, rule_Level = 1, rule_Section = ''Users'',
      rule_Description = ''Ensure no users have .netrc files'',
      rule_StigDescription = []\<rparr>"

definition rule_6_2_16 :: rule where
  "rule_6_2_16 =
     \<lparr>rule_ID = ''6.2.16'', rule_StigID = [], rule_Framework = cisBenchCIS, rule_Level = 1, rule_Section = ''Users'',
      rule_Description = ''Ensure no users have .rhosts files'',
      rule_StigDescription = []\<rparr>"

definition rule_6_2_17 :: rule where
  "rule_6_2_17 =
     \<lparr>rule_ID = ''6.2.17'', rule_StigID = [], rule_Framework = cisBenchCIS, rule_Level = 1, rule_Section = ''Users'',
      rule_Description = ''Ensure all groups in /etc/passwd exist in /etc/group'',
      rule_StigDescription = []\<rparr>"

definition rule_6_2_18 :: rule where
  "rule_6_2_18 =
     \<lparr>rule_ID = ''6.2.18'', rule_StigID = [], rule_Framework = cisBenchCIS, rule_Level = 1, rule_Section = ''Users'',
      rule_Description = ''Ensure the shadow group is empty'',
      rule_StigDescription = []\<rparr>"

definition rule_V_238213 :: rule where
  "rule_V_238213 =
     \<lparr>rule_ID = ''V-238213'', rule_StigID = [], rule_Framework = cisBenchSTIG, rule_Level = 1, rule_Section = cisCatSSH,
      rule_Description = ''The SSH daemon must use FIPS-approved ciphers'',
      rule_StigDescription = []\<rparr>"

definition rule_V_238214 :: rule where
  "rule_V_238214 =
     \<lparr>rule_ID = ''V-238214'', rule_StigID = [], rule_Framework = cisBenchSTIG, rule_Level = 1, rule_Section = cisCatSSH,
      rule_Description = ''The SSH daemon must use FIPS-approved message authentication codes'',
      rule_StigDescription = []\<rparr>"

definition rule_V_238215 :: rule where
  "rule_V_238215 =
     \<lparr>rule_ID = ''V-238215'', rule_StigID = [], rule_Framework = cisBenchSTIG, rule_Level = 1, rule_Section = cisCatSSH,
      rule_Description = ''The SSH daemon must use approved key exchange algorithms'',
      rule_StigDescription = []\<rparr>"

definition rule_V_238221 :: rule where
  "rule_V_238221 =
     \<lparr>rule_ID = ''V-238221'', rule_StigID = [], rule_Framework = cisBenchSTIG, rule_Level = 1, rule_Section = cisCatSSH,
      rule_Description = ''The SSH daemon must set ClientAliveCountMax to 0'',
      rule_StigDescription = []\<rparr>"

definition rule_V_238226 :: rule where
  "rule_V_238226 =
     \<lparr>rule_ID = ''V-238226'', rule_StigID = [], rule_Framework = cisBenchSTIG, rule_Level = 1, rule_Section = cisCatSSH,
      rule_Description = ''The SSH daemon must perform strict mode checking on user home directories'',
      rule_StigDescription = []\<rparr>"

definition rule_V_238380 :: rule where
  "rule_V_238380 =
     \<lparr>rule_ID = stigPassMaxDaysID, rule_StigID = [], rule_Framework = cisBenchSTIG, rule_Level = 1, rule_Section = cisCatAuth,
      rule_Description = ''The Ubuntu OS must enforce a 60-day maximum password age'',
      rule_StigDescription = []\<rparr>"

definition rule_V_238382 :: rule where
  "rule_V_238382 =
     \<lparr>rule_ID = ''V-238382'', rule_StigID = [], rule_Framework = cisBenchSTIG, rule_Level = 1, rule_Section = cisCatAuth,
      rule_Description = ''The Ubuntu OS must enforce a minimum 1-day password age'',
      rule_StigDescription = []\<rparr>"

definition rule_V_238383 :: rule where
  "rule_V_238383 =
     \<lparr>rule_ID = ''V-238383'', rule_StigID = [], rule_Framework = cisBenchSTIG, rule_Level = 1, rule_Section = cisCatAuth,
      rule_Description = ''The Ubuntu OS must warn users 7 days before password expiry'',
      rule_StigDescription = []\<rparr>"

definition rule_V_238384 :: rule where
  "rule_V_238384 =
     \<lparr>rule_ID = ''V-238384'', rule_StigID = [], rule_Framework = cisBenchSTIG, rule_Level = 1, rule_Section = cisCatAuth,
      rule_Description = ''The OS must implement a delay of at least 4 seconds between failed logon attempts'',
      rule_StigDescription = []\<rparr>"

section \<open>The table\<close>

definition rule_table :: "rule list" where
  "rule_table =
     [rule_1_5_1, rule_1_5_4, rule_1_5_5, rule_1_5_6, rule_1_5_7, rule_1_5_8, rule_1_5_9,
      rule_1_5_10, rule_1_5_11, rule_1_5_12, rule_1_5_14, rule_1_5_15, rule_1_5_16, rule_1_5_17,
      rule_1_5_18, rule_2_1_1, rule_2_1_2, rule_2_2_1, rule_2_2_2, rule_2_2_3, rule_2_2_4,
      rule_2_2_5, rule_2_3_1, rule_2_3_2, rule_2_3_3, rule_2_3_4, rule_2_3_5, rule_2_3_6,
      rule_2_3_7, rule_2_3_8, rule_2_3_9, rule_2_3_10, rule_2_3_11, rule_2_3_12, rule_2_3_13,
      rule_2_3_14, rule_2_3_15, rule_2_3_16, rule_5_2_1, rule_5_2_3, rule_5_2_4, rule_5_2_2,
      rule_5_2_5, rule_5_2_6, rule_5_2_7, rule_5_2_8, rule_5_2_9, rule_5_2_10, rule_5_2_11,
      rule_5_2_12, rule_5_2_13, rule_5_2_14, rule_5_2_15, rule_5_2_16, rule_5_2_17, rule_5_2_18,
      rule_5_2_19, rule_5_2_20, rule_5_2_21, rule_5_2_22, rule_5_2_23, rule_5_2_24, rule_5_2_25,
      rule_5_2_26, rule_5_2_27, rule_5_2_28, rule_5_2_29, rule_5_2_30, rule_3_1_1, rule_3_1_2,
      rule_3_1_3, rule_3_2_1, rule_3_2_2, rule_3_2_3, rule_3_2_4, rule_1_2_1, rule_1_2_2,
      rule_1_2_3, rule_1_2_4, rule_1_3_1, rule_1_3_2, rule_1_4_1, rule_1_4_2, rule_1_1_1_1,
      rule_1_1_1_2, rule_1_1_1_3, rule_1_1_1_4, rule_1_1_1_5, rule_1_1_1_6, rule_1_1_1_7,
      rule_1_1_2, rule_1_1_3, rule_1_1_4, rule_1_1_5, rule_1_1_6, rule_1_1_7, rule_1_1_8,
      rule_1_1_9, rule_1_1_10, rule_1_1_11, rule_1_1_12, rule_1_1_13, rule_1_1_14, rule_1_1_15,
      rule_1_1_16, rule_1_1_17, rule_1_1_18, rule_1_5_2, rule_1_5_3, rule_1_6_1, rule_1_6_2,
      rule_1_6_3, rule_1_6_4, rule_1_7_1, rule_1_7_2, rule_1_7_3, rule_1_7_4, rule_1_7_5,
      rule_1_7_6, rule_1_7_7, rule_1_7_8, rule_1_7_9, rule_3_2_5, rule_3_2_6, rule_3_2_7,
      rule_3_2_8, rule_3_2_9, rule_3_2_10, rule_3_2_11, rule_3_2_12, rule_3_2_13, rule_3_2_14,
      rule_3_2_15, rule_3_2_16, rule_3_2_17, rule_3_2_18, rule_3_2_22, rule_3_2_23, rule_3_2_24,
      rule_3_2_25, rule_3_2_26, rule_3_2_27, rule_3_2_28, rule_3_2_29, rule_3_2_30, rule_3_2_31,
      rule_3_2_32, rule_3_2_33, rule_3_2_34, rule_3_2_35, rule_3_2_36, rule_3_2_37, rule_3_2_38,
      rule_3_2_39, rule_3_4_1, rule_3_4_2, rule_3_4_3, rule_3_4_4, rule_3_4_5, rule_3_3_1,
      rule_3_3_2, rule_3_5_1, rule_3_5_1_1, rule_3_5_1_2, rule_3_5_1_3, rule_3_5_1_4, rule_3_5_1_5,
      rule_3_5_1_6, rule_3_5_1_7, rule_3_6_1, rule_4_1_1, rule_4_1_1_1, rule_4_1_1_2, rule_4_1_1_3,
      rule_4_1_1_4, rule_4_1_1_5, rule_4_1_2, rule_4_1_3, rule_4_1_4, rule_4_1_5, rule_4_1_6,
      rule_4_1_7, rule_4_1_8, rule_4_1_9, rule_4_1_10, rule_4_1_11, rule_4_1_12, rule_4_1_13,
      rule_4_1_14, rule_4_1_15, rule_4_1_16, rule_4_1_17, rule_4_2_1, rule_4_2_2, rule_4_2_2_2,
      rule_4_2_2_3, rule_4_2_3, rule_4_2_4, rule_4_2_5, rule_4_2_6, rule_4_2_7, rule_4_3_1,
      rule_5_3_1, rule_5_4_1, rule_5_3_4, rule_5_3_2, rule_5_3_3, rule_5_4_2, rule_5_4_3,
      rule_5_4_4, rule_5_4_5, rule_5_4_6, rule_5_4_7, rule_5_4_8, rule_5_4_9, rule_5_4_10,
      rule_5_4_11, rule_5_4_12, rule_5_4_13, rule_5_4_14, rule_5_4_15, rule_5_4_16, rule_5_4_17,
      rule_5_3_5, rule_5_5_1, rule_5_5_2, rule_5_5_3, rule_5_5_4, rule_5_1_1, rule_5_1_2,
      rule_5_1_3, rule_5_1_4, rule_5_1_5, rule_5_1_6, rule_5_1_7, rule_5_1_8, rule_5_1_9,
      rule_5_1_10, rule_5_1_11, rule_5_1_12, rule_5_1_13, rule_5_1_14, rule_5_1_15, rule_5_1_16,
      rule_5_1_17, rule_5_1_18, rule_5_1_19, rule_5_1_20, rule_5_1_21, rule_5_1_22, rule_5_1_23,
      rule_1_1_19, rule_1_1_20, rule_1_1_21, rule_1_1_22, rule_1_1_23, rule_1_1_24, rule_1_1_25,
      rule_1_1_26, rule_1_1_27, rule_1_1_28, rule_1_1_29, rule_1_1_30, rule_1_1_31, rule_1_1_32,
      rule_6_1_1, rule_6_1_2, rule_6_1_3, rule_6_1_4, rule_6_1_5, rule_6_1_6, rule_6_1_7,
      rule_6_1_8, rule_6_1_9, rule_6_1_10, rule_6_1_11, rule_6_1_12, rule_6_1_13, rule_6_1_15,
      rule_6_1_16, rule_6_1_17, rule_6_1_18, rule_6_1_19, rule_6_1_20, rule_6_1_21, rule_6_1_22,
      rule_6_1_23, rule_6_1_24, rule_6_1_25, rule_6_1_26, rule_6_1_27, rule_6_1_28, rule_6_1_29,
      rule_6_1_30, rule_6_1_31, rule_6_1_32, rule_6_1_33, rule_6_1_34, rule_6_1_35, rule_6_1_36,
      rule_6_1_37, rule_6_1_38, rule_6_2_1, rule_6_2_2, rule_6_2_3, rule_6_1_14, rule_6_2_4,
      rule_6_2_5, rule_6_2_6, rule_6_2_7, rule_6_2_8, rule_6_2_9, rule_6_2_10, rule_6_2_11,
      rule_6_2_12, rule_6_2_13, rule_6_2_14, rule_6_2_15, rule_6_2_16, rule_6_2_17, rule_6_2_18,
      rule_V_238213, rule_V_238214, rule_V_238215, rule_V_238221, rule_V_238226, rule_V_238380,
      rule_V_238382, rule_V_238383, rule_V_238384]"

definition ruleByID :: "gostring \<Rightarrow> rule" where
  "ruleByID i =
     (case find (\<lambda>r. rule_ID r = i) rule_table of
        Some r \<Rightarrow> r
      | None \<Rightarrow>
          \<lparr>rule_ID = i, rule_StigID = [], rule_Framework = cisBenchCIS, rule_Level = 0, rule_Section = [],
           rule_Description = i, rule_StigDescription = []\<rparr>)"

lemmas rule_defs =
  rule_1_5_1_def rule_1_5_4_def rule_1_5_5_def rule_1_5_6_def rule_1_5_7_def rule_1_5_8_def
  rule_1_5_9_def rule_1_5_10_def rule_1_5_11_def rule_1_5_12_def rule_1_5_14_def rule_1_5_15_def
  rule_1_5_16_def rule_1_5_17_def rule_1_5_18_def rule_2_1_1_def rule_2_1_2_def rule_2_2_1_def
  rule_2_2_2_def rule_2_2_3_def rule_2_2_4_def rule_2_2_5_def rule_2_3_1_def rule_2_3_2_def
  rule_2_3_3_def rule_2_3_4_def rule_2_3_5_def rule_2_3_6_def rule_2_3_7_def rule_2_3_8_def
  rule_2_3_9_def rule_2_3_10_def rule_2_3_11_def rule_2_3_12_def rule_2_3_13_def rule_2_3_14_def
  rule_2_3_15_def rule_2_3_16_def rule_5_2_1_def rule_5_2_3_def rule_5_2_4_def rule_5_2_2_def
  rule_5_2_5_def rule_5_2_6_def rule_5_2_7_def rule_5_2_8_def rule_5_2_9_def rule_5_2_10_def
  rule_5_2_11_def rule_5_2_12_def rule_5_2_13_def rule_5_2_14_def rule_5_2_15_def rule_5_2_16_def
  rule_5_2_17_def rule_5_2_18_def rule_5_2_19_def rule_5_2_20_def rule_5_2_21_def rule_5_2_22_def
  rule_5_2_23_def rule_5_2_24_def rule_5_2_25_def rule_5_2_26_def rule_5_2_27_def rule_5_2_28_def
  rule_5_2_29_def rule_5_2_30_def rule_3_1_1_def rule_3_1_2_def rule_3_1_3_def rule_3_2_1_def
  rule_3_2_2_def rule_3_2_3_def rule_3_2_4_def rule_1_2_1_def rule_1_2_2_def rule_1_2_3_def
  rule_1_2_4_def rule_1_3_1_def rule_1_3_2_def rule_1_4_1_def rule_1_4_2_def rule_1_1_1_1_def
  rule_1_1_1_2_def rule_1_1_1_3_def rule_1_1_1_4_def rule_1_1_1_5_def rule_1_1_1_6_def
  rule_1_1_1_7_def rule_1_1_2_def rule_1_1_3_def rule_1_1_4_def rule_1_1_5_def rule_1_1_6_def
  rule_1_1_7_def rule_1_1_8_def rule_1_1_9_def rule_1_1_10_def rule_1_1_11_def rule_1_1_12_def
  rule_1_1_13_def rule_1_1_14_def rule_1_1_15_def rule_1_1_16_def rule_1_1_17_def rule_1_1_18_def
  rule_1_5_2_def rule_1_5_3_def rule_1_6_1_def rule_1_6_2_def rule_1_6_3_def rule_1_6_4_def
  rule_1_7_1_def rule_1_7_2_def rule_1_7_3_def rule_1_7_4_def rule_1_7_5_def rule_1_7_6_def
  rule_1_7_7_def rule_1_7_8_def rule_1_7_9_def rule_3_2_5_def rule_3_2_6_def rule_3_2_7_def
  rule_3_2_8_def rule_3_2_9_def rule_3_2_10_def rule_3_2_11_def rule_3_2_12_def rule_3_2_13_def
  rule_3_2_14_def rule_3_2_15_def rule_3_2_16_def rule_3_2_17_def rule_3_2_18_def rule_3_2_22_def
  rule_3_2_23_def rule_3_2_24_def rule_3_2_25_def rule_3_2_26_def rule_3_2_27_def rule_3_2_28_def
  rule_3_2_29_def rule_3_2_30_def rule_3_2_31_def rule_3_2_32_def rule_3_2_33_def rule_3_2_34_def
  rule_3_2_35_def rule_3_2_36_def rule_3_2_37_def rule_3_2_38_def rule_3_2_39_def rule_3_4_1_def
  rule_3_4_2_def rule_3_4_3_def rule_3_4_4_def rule_3_4_5_def rule_3_3_1_def rule_3_3_2_def
  rule_3_5_1_def rule_3_5_1_1_def rule_3_5_1_2_def rule_3_5_1_3_def rule_3_5_1_4_def
  rule_3_5_1_5_def rule_3_5_1_6_def rule_3_5_1_7_def rule_3_6_1_def rule_4_1_1_def rule_4_1_1_1_def
  rule_4_1_1_2_def rule_4_1_1_3_def rule_4_1_1_4_def rule_4_1_1_5_def rule_4_1_2_def rule_4_1_3_def
  rule_4_1_4_def rule_4_1_5_def rule_4_1_6_def rule_4_1_7_def rule_4_1_8_def rule_4_1_9_def
  rule_4_1_10_def rule_4_1_11_def rule_4_1_12_def rule_4_1_13_def rule_4_1_14_def rule_4_1_15_def
  rule_4_1_16_def rule_4_1_17_def rule_4_2_1_def rule_4_2_2_def rule_4_2_2_2_def rule_4_2_2_3_def
  rule_4_2_3_def rule_4_2_4_def rule_4_2_5_def rule_4_2_6_def rule_4_2_7_def rule_4_3_1_def
  rule_5_3_1_def rule_5_4_1_def rule_5_3_4_def rule_5_3_2_def rule_5_3_3_def rule_5_4_2_def
  rule_5_4_3_def rule_5_4_4_def rule_5_4_5_def rule_5_4_6_def rule_5_4_7_def rule_5_4_8_def
  rule_5_4_9_def rule_5_4_10_def rule_5_4_11_def rule_5_4_12_def rule_5_4_13_def rule_5_4_14_def
  rule_5_4_15_def rule_5_4_16_def rule_5_4_17_def rule_5_3_5_def rule_5_5_1_def rule_5_5_2_def
  rule_5_5_3_def rule_5_5_4_def rule_5_1_1_def rule_5_1_2_def rule_5_1_3_def rule_5_1_4_def
  rule_5_1_5_def rule_5_1_6_def rule_5_1_7_def rule_5_1_8_def rule_5_1_9_def rule_5_1_10_def
  rule_5_1_11_def rule_5_1_12_def rule_5_1_13_def rule_5_1_14_def rule_5_1_15_def rule_5_1_16_def
  rule_5_1_17_def rule_5_1_18_def rule_5_1_19_def rule_5_1_20_def rule_5_1_21_def rule_5_1_22_def
  rule_5_1_23_def rule_1_1_19_def rule_1_1_20_def rule_1_1_21_def rule_1_1_22_def rule_1_1_23_def
  rule_1_1_24_def rule_1_1_25_def rule_1_1_26_def rule_1_1_27_def rule_1_1_28_def rule_1_1_29_def
  rule_1_1_30_def rule_1_1_31_def rule_1_1_32_def rule_6_1_1_def rule_6_1_2_def rule_6_1_3_def
  rule_6_1_4_def rule_6_1_5_def rule_6_1_6_def rule_6_1_7_def rule_6_1_8_def rule_6_1_9_def
  rule_6_1_10_def rule_6_1_11_def rule_6_1_12_def rule_6_1_13_def rule_6_1_15_def rule_6_1_16_def
  rule_6_1_17_def rule_6_1_18_def rule_6_1_19_def rule_6_1_20_def rule_6_1_21_def rule_6_1_22_def
  rule_6_1_23_def rule_6_1_24_def rule_6_1_25_def rule_6_1_26_def rule_6_1_27_def rule_6_1_28_def
  rule_6_1_29_def rule_6_1_30_def rule_6_1_31_def rule_6_1_32_def rule_6_1_33_def rule_6_1_34_def
  rule_6_1_35_def rule_6_1_36_def rule_6_1_37_def rule_6_1_38_def rule_6_2_1_def rule_6_2_2_def
  rule_6_2_3_def rule_6_1_14_def rule_6_2_4_def rule_6_2_5_def rule_6_2_6_def rule_6_2_7_def
  rule_6_2_8_def rule_6_2_9_def rule_6_2_10_def rule_6_2_11_def rule_6_2_12_def rule_6_2_13_def
  rule_6_2_14_def rule_6_2_15_def rule_6_2_16_def rule_6_2_17_def rule_6_2_18_def rule_V_238213_def
  rule_V_238214_def rule_V_238215_def rule_V_238221_def rule_V_238226_def rule_V_238380_def
  rule_V_238382_def rule_V_238383_def rule_V_238384_def

lemma rule_IDs:
  "rule_ID rule_1_5_1 = ''1.5.1''"
  "rule_ID rule_1_5_4 = ''1.5.4''"
  "rule_ID rule_1_5_5 = ''1.5.5''"
  "rule_ID rule_1_5_6 = ''1.5.6''"
  "rule_ID rule_1_5_7 = ''1.5.7''"
  "rule_ID rule_1_5_8 = ''1.5.8''"
  "rule_ID rule_1_5_9 = ''1.5.9''"
  "rule_ID rule_1_5_10 = ''1.5.10''"
  "rule_ID rule_1_5_11 = ''1.5.11''"
  "rule_ID rule_1_5_12 = ''1.5.12''"
  "rule_ID rule_1_5_14 = ''1.5.14''"
  "rule_ID rule_1_5_15 = ''1.5.15''"
  "rule_ID rule_1_5_16 = ''1.5.16''"
  "rule_ID rule_1_5_17 = ''1.5.17''"
  "rule_ID rule_1_5_18 = ''1.5.18''"
  "rule_ID rule_2_1_1 = ''2.1.1''"
  "rule_ID rule_2_1_2 = ''2.1.2''"
  "rule_ID rule_2_2_1 = ''2.2.1''"
  "rule_ID rule_2_2_2 = ''2.2.2''"
  "rule_ID rule_2_2_3 = ''2.2.3''"
  "rule_ID rule_2_2_4 = ''2.2.4''"
  "rule_ID rule_2_2_5 = ''2.2.5''"
  "rule_ID rule_2_3_1 = ''2.3.1''"
  "rule_ID rule_2_3_2 = ''2.3.2''"
  "rule_ID rule_2_3_3 = ''2.3.3''"
  "rule_ID rule_2_3_4 = ''2.3.4''"
  "rule_ID rule_2_3_5 = ''2.3.5''"
  "rule_ID rule_2_3_6 = ''2.3.6''"
  "rule_ID rule_2_3_7 = ''2.3.7''"
  "rule_ID rule_2_3_8 = ''2.3.8''"
  "rule_ID rule_2_3_9 = ''2.3.9''"
  "rule_ID rule_2_3_10 = ''2.3.10''"
  "rule_ID rule_2_3_11 = ''2.3.11''"
  "rule_ID rule_2_3_12 = ''2.3.12''"
  "rule_ID rule_2_3_13 = ''2.3.13''"
  "rule_ID rule_2_3_14 = ''2.3.14''"
  "rule_ID rule_2_3_15 = ''2.3.15''"
  "rule_ID rule_2_3_16 = ''2.3.16''"
  "rule_ID rule_5_2_1 = cisRuleSSH52"
  "rule_ID rule_5_2_3 = ''5.2.3''"
  "rule_ID rule_5_2_4 = ''5.2.4''"
  "rule_ID rule_5_2_2 = ''5.2.2''"
  "rule_ID rule_5_2_5 = ''5.2.5''"
  "rule_ID rule_5_2_6 = ''5.2.6''"
  "rule_ID rule_5_2_7 = ''5.2.7''"
  "rule_ID rule_5_2_8 = ''5.2.8''"
  "rule_ID rule_5_2_9 = ''5.2.9''"
  "rule_ID rule_5_2_10 = ''5.2.10''"
  "rule_ID rule_5_2_11 = ''5.2.11''"
  "rule_ID rule_5_2_12 = ''5.2.12''"
  "rule_ID rule_5_2_13 = ''5.2.13''"
  "rule_ID rule_5_2_14 = ''5.2.14''"
  "rule_ID rule_5_2_15 = ''5.2.15''"
  "rule_ID rule_5_2_16 = ''5.2.16''"
  "rule_ID rule_5_2_17 = ''5.2.17''"
  "rule_ID rule_5_2_18 = ''5.2.18''"
  "rule_ID rule_5_2_19 = ''5.2.19''"
  "rule_ID rule_5_2_20 = ''5.2.20''"
  "rule_ID rule_5_2_21 = ''5.2.21''"
  "rule_ID rule_5_2_22 = ''5.2.22''"
  "rule_ID rule_5_2_23 = ''5.2.23''"
  "rule_ID rule_5_2_24 = ''5.2.24''"
  "rule_ID rule_5_2_25 = ''5.2.25''"
  "rule_ID rule_5_2_26 = ''5.2.26''"
  "rule_ID rule_5_2_27 = ''5.2.27''"
  "rule_ID rule_5_2_28 = ''5.2.28''"
  "rule_ID rule_5_2_29 = ''5.2.29''"
  "rule_ID rule_5_2_30 = ''5.2.30''"
  "rule_ID rule_3_1_1 = ''3.1.1''"
  "rule_ID rule_3_1_2 = ''3.1.2''"
  "rule_ID rule_3_1_3 = ''3.1.3''"
  "rule_ID rule_3_2_1 = ''3.2.1''"
  "rule_ID rule_3_2_2 = ''3.2.2''"
  "rule_ID rule_3_2_3 = ''3.2.3''"
  "rule_ID rule_3_2_4 = ''3.2.4''"
  "rule_ID rule_1_2_1 = ''1.2.1''"
  "rule_ID rule_1_2_2 = ''1.2.2''"
  "rule_ID rule_1_2_3 = ''1.2.3''"
  "rule_ID rule_1_2_4 = ''1.2.4''"
  "rule_ID rule_1_3_1 = ''1.3.1''"
  "rule_ID rule_1_3_2 = ''1.3.2''"
  "rule_ID rule_1_4_1 = ''1.4.1''"
  "rule_ID rule_1_4_2 = ''1.4.2''"
  "rule_ID rule_1_1_1_1 = ''1.1.1.1''"
  "rule_ID rule_1_1_1_2 = ''1.1.1.2''"
  "rule_ID rule_1_1_1_3 = ''1.1.1.3''"
  "rule_ID rule_1_1_1_4 = ''1.1.1.4''"
  "rule_ID rule_1_1_1_5 = ''1.1.1.5''"
  "rule_ID rule_1_1_1_6 = ''1.1.1.6''"
  "rule_ID rule_1_1_1_7 = ''1.1.1.7''"
  "rule_ID rule_1_1_2 = ''1.1.2''"
  "rule_ID rule_1_1_3 = ''1.1.3''"
  "rule_ID rule_1_1_4 = ''1.1.4''"
  "rule_ID rule_1_1_5 = ''1.1.5''"
  "rule_ID rule_1_1_6 = ''1.1.6''"
  "rule_ID rule_1_1_7 = ''1.1.7''"
  "rule_ID rule_1_1_8 = ''1.1.8''"
  "rule_ID rule_1_1_9 = ''1.1.9''"
  "rule_ID rule_1_1_10 = ''1.1.10''"
  "rule_ID rule_1_1_11 = ''1.1.11''"
  "rule_ID rule_1_1_12 = ''1.1.12''"
  "rule_ID rule_1_1_13 = ''1.1.13''"
  "rule_ID rule_1_1_14 = ''1.1.14''"
  "rule_ID rule_1_1_15 = ''1.1.15''"
  "rule_ID rule_1_1_16 = ''1.1.16''"
  "rule_ID rule_1_1_17 = ''1.1.17''"
  "rule_ID rule_1_1_18 = ''1.1.18''"
  "rule_ID rule_1_5_2 = ''1.5.2''"
  "rule_ID rule_1_5_3 = ''1.5.3''"
  "rule_ID rule_1_6_1 = ''1.6.1''"
  "rule_ID rule_1_6_2 = ''1.6.2''"
  "rule_ID rule_1_6_3 = ''1.6.3''"
  "rule_ID rule_1_6_4 = ''1.6.4''"
  "rule_ID rule_1_7_1 = ''1.7.1''"
  "rule_ID rule_1_7_2 = ''1.7.2''"
  "rule_ID rule_1_7_3 = ''1.7.3''"
  "rule_ID rule_1_7_4 = ''1.7.4''"
  "rule_ID rule_1_7_5 = ''1.7.5''"
  "rule_ID rule_1_7_6 = ''1.7.6''"
  "rule_ID rule_1_7_7 = ''1.7.7''"
  "rule_ID rule_1_7_8 = ''1.7.8''"
  "rule_ID rule_1_7_9 = ''1.7.9''"
  "rule_ID rule_3_2_5 = ''3.2.5''"
  "rule_ID rule_3_2_6 = ''3.2.6''"
  "rule_ID rule_3_2_7 = ''3.2.7''"
  "rule_ID rule_3_2_8 = ''3.2.8''"
  "rule_ID rule_3_2_9 = ''3.2.9''"
  "rule_ID rule_3_2_10 = ''3.2.10''"
  "rule_ID rule_3_2_11 = ''3.2.11''"
  "rule_ID rule_3_2_12 = ''3.2.12''"
  "rule_ID rule_3_2_13 = ''3.2.13''"
  "rule_ID rule_3_2_14 = ''3.2.14''"
  "rule_ID rule_3_2_15 = ''3.2.15''"
  "rule_ID rule_3_2_16 = ''3.2.16''"
  "rule_ID rule_3_2_17 = ''3.2.17''"
  "rule_ID rule_3_2_18 = ''3.2.18''"
  "rule_ID rule_3_2_22 = ''3.2.22''"
  "rule_ID rule_3_2_23 = ''3.2.23''"
  "rule_ID rule_3_2_24 = ''3.2.24''"
  "rule_ID rule_3_2_25 = ''3.2.25''"
  "rule_ID rule_3_2_26 = ''3.2.26''"
  "rule_ID rule_3_2_27 = ''3.2.27''"
  "rule_ID rule_3_2_28 = ''3.2.28''"
  "rule_ID rule_3_2_29 = ''3.2.29''"
  "rule_ID rule_3_2_30 = ''3.2.30''"
  "rule_ID rule_3_2_31 = ''3.2.31''"
  "rule_ID rule_3_2_32 = ''3.2.32''"
  "rule_ID rule_3_2_33 = ''3.2.33''"
  "rule_ID rule_3_2_34 = ''3.2.34''"
  "rule_ID rule_3_2_35 = ''3.2.35''"
  "rule_ID rule_3_2_36 = ''3.2.36''"
  "rule_ID rule_3_2_37 = ''3.2.37''"
  "rule_ID rule_3_2_38 = ''3.2.38''"
  "rule_ID rule_3_2_39 = ''3.2.39''"
  "rule_ID rule_3_4_1 = ''3.4.1''"
  "rule_ID rule_3_4_2 = ''3.4.2''"
  "rule_ID rule_3_4_3 = ''3.4.3''"
  "rule_ID rule_3_4_4 = ''3.4.4''"
  "rule_ID rule_3_4_5 = ''3.4.5''"
  "rule_ID rule_3_3_1 = ''3.3.1''"
  "rule_ID rule_3_3_2 = ''3.3.2''"
  "rule_ID rule_3_5_1 = ''3.5.1''"
  "rule_ID rule_3_5_1_1 = ''3.5.1.1''"
  "rule_ID rule_3_5_1_2 = ''3.5.1.2''"
  "rule_ID rule_3_5_1_3 = ''3.5.1.3''"
  "rule_ID rule_3_5_1_4 = ''3.5.1.4''"
  "rule_ID rule_3_5_1_5 = ''3.5.1.5''"
  "rule_ID rule_3_5_1_6 = ''3.5.1.6''"
  "rule_ID rule_3_5_1_7 = ''3.5.1.7''"
  "rule_ID rule_3_6_1 = ''3.6.1''"
  "rule_ID rule_4_1_1 = cisRuleAudit41"
  "rule_ID rule_4_1_1_1 = cisRuleAudit4111"
  "rule_ID rule_4_1_1_2 = cisRuleAudit4112"
  "rule_ID rule_4_1_1_3 = cisRuleAudit4113"
  "rule_ID rule_4_1_1_4 = cisRuleAudit4114"
  "rule_ID rule_4_1_1_5 = cisRuleAudit4115"
  "rule_ID rule_4_1_2 = ''4.1.2''"
  "rule_ID rule_4_1_3 = ''4.1.3''"
  "rule_ID rule_4_1_4 = ''4.1.4''"
  "rule_ID rule_4_1_5 = ''4.1.5''"
  "rule_ID rule_4_1_6 = ''4.1.6''"
  "rule_ID rule_4_1_7 = ''4.1.7''"
  "rule_ID rule_4_1_8 = ''4.1.8''"
  "rule_ID rule_4_1_9 = ''4.1.9''"
  "rule_ID rule_4_1_10 = ''4.1.10''"
  "rule_ID rule_4_1_11 = ''4.1.11''"
  "rule_ID rule_4_1_12 = ''4.1.12''"
  "rule_ID rule_4_1_13 = ''4.1.13''"
  "rule_ID rule_4_1_14 = ''4.1.14''"
  "rule_ID rule_4_1_15 = ''4.1.15''"
  "rule_ID rule_4_1_16 = ''4.1.16''"
  "rule_ID rule_4_1_17 = ''4.1.17''"
  "rule_ID rule_4_2_1 = ''4.2.1''"
  "rule_ID rule_4_2_2 = ''4.2.2''"
  "rule_ID rule_4_2_2_2 = ''4.2.2.2''"
  "rule_ID rule_4_2_2_3 = ''4.2.2.3''"
  "rule_ID rule_4_2_3 = ''4.2.3''"
  "rule_ID rule_4_2_4 = ''4.2.4''"
  "rule_ID rule_4_2_5 = ''4.2.5''"
  "rule_ID rule_4_2_6 = ''4.2.6''"
  "rule_ID rule_4_2_7 = ''4.2.7''"
  "rule_ID rule_4_3_1 = ''4.3.1''"
  "rule_ID rule_5_3_1 = ''5.3.1''"
  "rule_ID rule_5_4_1 = ''5.4.1''"
  "rule_ID rule_5_3_4 = ''5.3.4''"
  "rule_ID rule_5_3_2 = ''5.3.2''"
  "rule_ID rule_5_3_3 = ''5.3.3''"
  "rule_ID rule_5_4_2 = ''5.4.2''"
  "rule_ID rule_5_4_3 = ''5.4.3''"
  "rule_ID rule_5_4_4 = ''5.4.4''"
  "rule_ID rule_5_4_5 = ''5.4.5''"
  "rule_ID rule_5_4_6 = ''5.4.6''"
  "rule_ID rule_5_4_7 = ''5.4.7''"
  "rule_ID rule_5_4_8 = ''5.4.8''"
  "rule_ID rule_5_4_9 = ''5.4.9''"
  "rule_ID rule_5_4_10 = ''5.4.10''"
  "rule_ID rule_5_4_11 = ''5.4.11''"
  "rule_ID rule_5_4_12 = ''5.4.12''"
  "rule_ID rule_5_4_13 = ''5.4.13''"
  "rule_ID rule_5_4_14 = ''5.4.14''"
  "rule_ID rule_5_4_15 = ''5.4.15''"
  "rule_ID rule_5_4_16 = ''5.4.16''"
  "rule_ID rule_5_4_17 = ''5.4.17''"
  "rule_ID rule_5_3_5 = ''5.3.5''"
  "rule_ID rule_5_5_1 = ''5.5.1''"
  "rule_ID rule_5_5_2 = ''5.5.2''"
  "rule_ID rule_5_5_3 = ''5.5.3''"
  "rule_ID rule_5_5_4 = ''5.5.4''"
  "rule_ID rule_5_1_1 = ''5.1.1''"
  "rule_ID rule_5_1_2 = ''5.1.2''"
  "rule_ID rule_5_1_3 = ''5.1.3''"
  "rule_ID rule_5_1_4 = ''5.1.4''"
  "rule_ID rule_5_1_5 = ''5.1.5''"
  "rule_ID rule_5_1_6 = ''5.1.6''"
  "rule_ID rule_5_1_7 = ''5.1.7''"
  "rule_ID rule_5_1_8 = ''5.1.8''"
  "rule_ID rule_5_1_9 = ''5.1.9''"
  "rule_ID rule_5_1_10 = ''5.1.10''"
  "rule_ID rule_5_1_11 = ''5.1.11''"
  "rule_ID rule_5_1_12 = ''5.1.12''"
  "rule_ID rule_5_1_13 = ''5.1.13''"
  "rule_ID rule_5_1_14 = ''5.1.14''"
  "rule_ID rule_5_1_15 = ''5.1.15''"
  "rule_ID rule_5_1_16 = ''5.1.16''"
  "rule_ID rule_5_1_17 = ''5.1.17''"
  "rule_ID rule_5_1_18 = ''5.1.18''"
  "rule_ID rule_5_1_19 = ''5.1.19''"
  "rule_ID rule_5_1_20 = ''5.1.20''"
  "rule_ID rule_5_1_21 = ''5.1.21''"
  "rule_ID rule_5_1_22 = ''5.1.22''"
  "rule_ID rule_5_1_23 = ''5.1.23''"
  "rule_ID rule_1_1_19 = ''1.1.19''"
  "rule_ID rule_1_1_20 = ''1.1.20''"
  "rule_ID rule_1_1_21 = ''1.1.21''"
  "rule_ID rule_1_1_22 = ''1.1.22''"
  "rule_ID rule_1_1_23 = ''1.1.23''"
  "rule_ID rule_1_1_24 = ''1.1.24''"
  "rule_ID rule_1_1_25 = ''1.1.25''"
  "rule_ID rule_1_1_26 = ''1.1.26''"
  "rule_ID rule_1_1_27 = ''1.1.27''"
  "rule_ID rule_1_1_28 = ''1.1.28''"
  "rule_ID rule_1_1_29 = ''1.1.29''"
  "rule_ID rule_1_1_30 = ''1.1.30''"
  "rule_ID rule_1_1_31 = ''1.1.31''"
  "rule_ID rule_1_1_32 = ''1.1.32''"
  "rule_ID rule_6_1_1 = ''6.1.1''"
  "rule_ID rule_6_1_2 = ''6.1.2''"
  "rule_ID rule_6_1_3 = ''6.1.3''"
  "rule_ID rule_6_1_4 = ''6.1.4''"
  "rule_ID rule_6_1_5 = ''6.1.5''"
  "rule_ID rule_6_1_6 = ''6.1.6''"
  "rule_ID rule_6_1_7 = ''6.1.7''"
  "rule_ID rule_6_1_8 = ''6.1.8''"
  "rule_ID rule_6_1_9 = ''6.1.9''"
  "rule_ID rule_6_1_10 = ''6.1.10''"
  "rule_ID rule_6_1_11 = ''6.1.11''"
  "rule_ID rule_6_1_12 = ''6.1.12''"
  "rule_ID rule_6_1_13 = ''6.1.13''"
  "rule_ID rule_6_1_15 = ''6.1.15''"
  "rule_ID rule_6_1_16 = ''6.1.16''"
  "rule_ID rule_6_1_17 = ''6.1.17''"
  "rule_ID rule_6_1_18 = ''6.1.18''"
  "rule_ID rule_6_1_19 = ''6.1.19''"
  "rule_ID rule_6_1_20 = ''6.1.20''"
  "rule_ID rule_6_1_21 = ''6.1.21''"
  "rule_ID rule_6_1_22 = ''6.1.22''"
  "rule_ID rule_6_1_23 = ''6.1.23''"
  "rule_ID rule_6_1_24 = ''6.1.24''"
  "rule_ID rule_6_1_25 = ''6.1.25''"
  "rule_ID rule_6_1_26 = ''6.1.26''"
  "rule_ID rule_6_1_27 = ''6.1.27''"
  "rule_ID rule_6_1_28 = ''6.1.28''"
  "rule_ID rule_6_1_29 = ''6.1.29''"
  "rule_ID rule_6_1_30 = ''6.1.30''"
  "rule_ID rule_6_1_31 = ''6.1.31''"
  "rule_ID rule_6_1_32 = ''6.1.32''"
  "rule_ID rule_6_1_33 = ''6.1.33''"
  "rule_ID rule_6_1_34 = ''6.1.34''"
  "rule_ID rule_6_1_35 = ''6.1.35''"
  "rule_ID rule_6_1_36 = ''6.1.36''"
  "rule_ID rule_6_1_37 = ''6.1.37''"
  "rule_ID rule_6_1_38 = ''6.1.38''"
  "rule_ID rule_6_2_1 = ''6.2.1''"
  "rule_ID rule_6_2_2 = ''6.2.2''"
  "rule_ID rule_6_2_3 = ''6.2.3''"
  "rule_ID rule_6_1_14 = ''6.1.14''"
  "rule_ID rule_6_2_4 = ''6.2.4''"
  "rule_ID rule_6_2_5 = ''6.2.5''"
  "rule_ID rule_6_2_6 = ''6.2.6''"
  "rule_ID rule_6_2_7 = ''6.2.7''"
  "rule_ID rule_6_2_8 = ''6.2.8''"
  "rule_ID rule_6_2_9 = ''6.2.9''"
  "rule_ID rule_6_2_10 = ''6.2.10''"
  "rule_ID rule_6_2_11 = ''6.2.11''"
  "rule_ID rule_6_2_12 = ''6.2.12''"
  "rule_ID rule_6_2_13 = ''6.2.13''"
  "rule_ID rule_6_2_14 = ''6.2.14''"
  "rule_ID rule_6_2_15 = ''6.2.15''"
  "rule_ID rule_6_2_16 = ''6.2.16''"
  "rule_ID rule_6_2_17 = ''6.2.17''"
  "rule_ID rule_6_2_18 = ''6.2.18''"
  "rule_ID rule_V_238213 = ''V-238213''"
  "rule_ID rule_V_238214 = ''V-238214''"
  "rule_ID rule_V_238215 = ''V-238215''"
  "rule_ID rule_V_238221 = ''V-238221''"
  "rule_ID rule_V_238226 = ''V-238226''"
  "rule_ID rule_V_238380 = stigPassMaxDaysID"
  "rule_ID rule_V_238382 = ''V-238382''"
  "rule_ID rule_V_238383 = ''V-238383''"
  "rule_ID rule_V_238384 = ''V-238384''"
  by (simp_all add: rule_defs)

lemma rule_StigIDs:
  "rule_StigID rule_1_5_1 = []"
  "rule_StigID rule_1_5_4 = []"
  "rule_StigID rule_1_5_5 = []"
  "rule_StigID rule_1_5_6 = []"
  "rule_StigID rule_1_5_7 = []"
  "rule_StigID rule_1_5_8 = []"
  "rule_StigID rule_1_5_9 = []"
  "rule_StigID rule_1_5_10 = []"
  "rule_StigID rule_1_5_11 = []"
  "rule_StigID rule_1_5_12 = []"
  "rule_StigID rule_1_5_14 = []"
  "rule_StigID rule_1_5_15 = []"
  "rule_StigID rule_1_5_16 = []"
  "rule_StigID rule_1_5_17 = []"
  "rule_StigID rule_1_5_18 = []"
  "rule_StigID rule_2_1_1 = []"
  "rule_StigID rule_2_1_2 = []"
  "rule_StigID rule_2_2_1 = []"
  "rule_StigID rule_2_2_2 = []"
  "rule_StigID rule_2_2_3 = []"
  "rule_StigID rule_2_2_4 = []"
  "rule_StigID rule_2_2_5 = []"
  "rule_StigID rule_2_3_1 = []"
  "rule_StigID rule_2_3_2 = []"
  "rule_StigID rule_2_3_3 = []"
  "rule_StigID rule_2_3_4 = []"
  "rule_StigID rule_2_3_5 = []"
  "rule_StigID rule_2_3_6 = []"
  "rule_StigID rule_2_3_7 = []"
  "rule_StigID rule_2_3_8 = []"
  "rule_StigID rule_2_3_9 = []"
  "rule_StigID rule_2_3_10 = []"
  "rule_StigID rule_2_3_11 = []"
  "rule_StigID rule_2_3_12 = []"
  "rule_StigID rule_2_3_13 = []"
  "rule_StigID rule_2_3_14 = []"
  "rule_StigID rule_2_3_15 = []"
  "rule_StigID rule_2_3_16 = []"
  "rule_StigID rule_5_2_1 = ''V-238201''"
  "rule_StigID rule_5_2_3 = []"
  "rule_StigID rule_5_2_4 = []"
  "rule_StigID rule_5_2_2 = ''V-238202''"
  "rule_StigID rule_5_2_5 = ''V-238209''"
  "rule_StigID rule_5_2_6 = ''V-238216''"
  "rule_StigID rule_5_2_7 = ''V-238217''"
  "rule_StigID rule_5_2_8 = ''V-238218''"
  "rule_StigID rule_5_2_9 = ''V-238219''"
  "rule_StigID rule_5_2_10 = ''V-238210''"
  "rule_StigID rule_5_2_11 = ''V-238211''"
  "rule_StigID rule_5_2_12 = ''V-238212''"
  "rule_StigID rule_5_2_13 = ''V-238220''"
  "rule_StigID rule_5_2_14 = ''V-238206''"
  "rule_StigID rule_5_2_15 = ''V-238225''"
  "rule_StigID rule_5_2_16 = []"
  "rule_StigID rule_5_2_17 = ''V-238222''"
  "rule_StigID rule_5_2_18 = ''V-238223''"
  "rule_StigID rule_5_2_19 = ''V-238224''"
  "rule_StigID rule_5_2_20 = []"
  "rule_StigID rule_5_2_21 = []"
  "rule_StigID rule_5_2_22 = []"
  "rule_StigID rule_5_2_23 = []"
  "rule_StigID rule_5_2_24 = []"
  "rule_StigID rule_5_2_25 = []"
  "rule_StigID rule_5_2_26 = []"
  "rule_StigID rule_5_2_27 = []"
  "rule_StigID rule_5_2_28 = []"
  "rule_StigID rule_5_2_29 = []"
  "rule_StigID rule_5_2_30 = []"
  "rule_StigID rule_3_1_1 = ''V-238327''"
  "rule_StigID rule_3_1_2 = []"
  "rule_StigID rule_3_1_3 = []"
  "rule_StigID rule_3_2_1 = ''V-238328''"
  "rule_StigID rule_3_2_2 = ''V-238329''"
  "rule_StigID rule_3_2_3 = []"
  "rule_StigID rule_3_2_4 = ''V-238331''"
  "rule_StigID rule_1_2_1 = []"
  "rule_StigID rule_1_2_2 = []"
  "rule_StigID rule_1_2_3 = []"
  "rule_StigID rule_1_2_4 = []"
  "rule_StigID rule_1_3_1 = []"
  "rule_StigID rule_1_3_2 = []"
  "rule_StigID rule_1_4_1 = []"
  "rule_StigID rule_1_4_2 = []"
  "rule_StigID rule_1_1_1_1 = []"
  "rule_StigID rule_1_1_1_2 = []"
  "rule_StigID rule_1_1_1_3 = []"
  "rule_StigID rule_1_1_1_4 = []"
  "rule_StigID rule_1_1_1_5 = []"
  "rule_StigID rule_1_1_1_6 = []"
  "rule_StigID rule_1_1_1_7 = []"
  "rule_StigID rule_1_1_2 = []"
  "rule_StigID rule_1_1_3 = []"
  "rule_StigID rule_1_1_4 = []"
  "rule_StigID rule_1_1_5 = []"
  "rule_StigID rule_1_1_6 = []"
  "rule_StigID rule_1_1_7 = []"
  "rule_StigID rule_1_1_8 = []"
  "rule_StigID rule_1_1_9 = []"
  "rule_StigID rule_1_1_10 = []"
  "rule_StigID rule_1_1_11 = []"
  "rule_StigID rule_1_1_12 = []"
  "rule_StigID rule_1_1_13 = []"
  "rule_StigID rule_1_1_14 = []"
  "rule_StigID rule_1_1_15 = []"
  "rule_StigID rule_1_1_16 = []"
  "rule_StigID rule_1_1_17 = []"
  "rule_StigID rule_1_1_18 = []"
  "rule_StigID rule_1_5_2 = []"
  "rule_StigID rule_1_5_3 = []"
  "rule_StigID rule_1_6_1 = []"
  "rule_StigID rule_1_6_2 = []"
  "rule_StigID rule_1_6_3 = []"
  "rule_StigID rule_1_6_4 = []"
  "rule_StigID rule_1_7_1 = []"
  "rule_StigID rule_1_7_2 = []"
  "rule_StigID rule_1_7_3 = []"
  "rule_StigID rule_1_7_4 = []"
  "rule_StigID rule_1_7_5 = []"
  "rule_StigID rule_1_7_6 = []"
  "rule_StigID rule_1_7_7 = []"
  "rule_StigID rule_1_7_8 = []"
  "rule_StigID rule_1_7_9 = []"
  "rule_StigID rule_3_2_5 = []"
  "rule_StigID rule_3_2_6 = []"
  "rule_StigID rule_3_2_7 = []"
  "rule_StigID rule_3_2_8 = []"
  "rule_StigID rule_3_2_9 = []"
  "rule_StigID rule_3_2_10 = []"
  "rule_StigID rule_3_2_11 = []"
  "rule_StigID rule_3_2_12 = []"
  "rule_StigID rule_3_2_13 = []"
  "rule_StigID rule_3_2_14 = []"
  "rule_StigID rule_3_2_15 = []"
  "rule_StigID rule_3_2_16 = []"
  "rule_StigID rule_3_2_17 = []"
  "rule_StigID rule_3_2_18 = []"
  "rule_StigID rule_3_2_22 = []"
  "rule_StigID rule_3_2_23 = []"
  "rule_StigID rule_3_2_24 = []"
  "rule_StigID rule_3_2_25 = []"
  "rule_StigID rule_3_2_26 = []"
  "rule_StigID rule_3_2_27 = []"
  "rule_StigID rule_3_2_28 = []"
  "rule_StigID rule_3_2_29 = []"
  "rule_StigID rule_3_2_30 = []"
  "rule_StigID rule_3_2_31 = []"
  "rule_StigID rule_3_2_32 = []"
  "rule_StigID rule_3_2_33 = []"
  "rule_StigID rule_3_2_34 = []"
  "rule_StigID rule_3_2_35 = []"
  "rule_StigID rule_3_2_36 = []"
  "rule_StigID rule_3_2_37 = []"
  "rule_StigID rule_3_2_38 = []"
  "rule_StigID rule_3_2_39 = []"
  "rule_StigID rule_3_4_1 = []"
  "rule_StigID rule_3_4_2 = []"
  "rule_StigID rule_3_4_3 = []"
  "rule_StigID rule_3_4_4 = []"
  "rule_StigID rule_3_4_5 = []"
  "rule_StigID rule_3_3_1 = []"
  "rule_StigID rule_3_3_2 = []"
  "rule_StigID rule_3_5_1 = []"
  "rule_StigID rule_3_5_1_1 = []"
  "rule_StigID rule_3_5_1_2 = []"
  "rule_StigID rule_3_5_1_3 = []"
  "rule_StigID rule_3_5_1_4 = []"
  "rule_StigID rule_3_5_1_5 = []"
  "rule_StigID rule_3_5_1_6 = []"
  "rule_StigID rule_3_5_1_7 = []"
  "rule_StigID rule_3_6_1 = []"
  "rule_StigID rule_4_1_1 = ''V-238360''"
  "rule_StigID rule_4_1_1_1 = []"
  "rule_StigID rule_4_1_1_2 = []"
  "rule_StigID rule_4_1_1_3 = []"
  "rule_StigID rule_4_1_1_4 = []"
  "rule_StigID rule_4_1_1_5 = []"
  "rule_StigID rule_4_1_2 = ''V-238361''"
  "rule_StigID rule_4_1_3 = []"
  "rule_StigID rule_4_1_4 = []"
  "rule_StigID rule_4_1_5 = []"
  "rule_StigID rule_4_1_6 = []"
  "rule_StigID rule_4_1_7 = []"
  "rule_StigID rule_4_1_8 = []"
  "rule_StigID rule_4_1_9 = []"
  "rule_StigID rule_4_1_10 = []"
  "rule_StigID rule_4_1_11 = []"
  "rule_StigID rule_4_1_12 = []"
  "rule_StigID rule_4_1_13 = []"
  "rule_StigID rule_4_1_14 = []"
  "rule_StigID rule_4_1_15 = []"
  "rule_StigID rule_4_1_16 = []"
  "rule_StigID rule_4_1_17 = []"
  "rule_StigID rule_4_2_1 = []"
  "rule_StigID rule_4_2_2 = []"
  "rule_StigID rule_4_2_2_2 = []"
  "rule_StigID rule_4_2_2_3 = []"
  "rule_StigID rule_4_2_3 = []"
  "rule_StigID rule_4_2_4 = []"
  "rule_StigID rule_4_2_5 = []"
  "rule_StigID rule_4_2_6 = []"
  "rule_StigID rule_4_2_7 = []"
  "rule_StigID rule_4_3_1 = []"
  "rule_StigID rule_5_3_1 = []"
  "rule_StigID rule_5_4_1 = stigPassMaxDaysID"
  "rule_StigID rule_5_3_4 = []"
  "rule_StigID rule_5_3_2 = []"
  "rule_StigID rule_5_3_3 = []"
  "rule_StigID rule_5_4_2 = []"
  "rule_StigID rule_5_4_3 = []"
  "rule_StigID rule_5_4_4 = []"
  "rule_StigID rule_5_4_5 = []"
  "rule_StigID rule_5_4_6 = []"
  "rule_StigID rule_5_4_7 = []"
  "rule_StigID rule_5_4_8 = []"
  "rule_StigID rule_5_4_9 = []"
  "rule_StigID rule_5_4_10 = []"
  "rule_StigID rule_5_4_11 = []"
  "rule_StigID rule_5_4_12 = []"
  "rule_StigID rule_5_4_13 = []"
  "rule_StigID rule_5_4_14 = []"
  "rule_StigID rule_5_4_15 = []"
  "rule_StigID rule_5_4_16 = []"
  "rule_StigID rule_5_4_17 = []"
  "rule_StigID rule_5_3_5 = []"
  "rule_StigID rule_5_5_1 = []"
  "rule_StigID rule_5_5_2 = []"
  "rule_StigID rule_5_5_3 = []"
  "rule_StigID rule_5_5_4 = []"
  "rule_StigID rule_5_1_1 = []"
  "rule_StigID rule_5_1_2 = []"
  "rule_StigID rule_5_1_3 = []"
  "rule_StigID rule_5_1_4 = []"
  "rule_StigID rule_5_1_5 = []"
  "rule_StigID rule_5_1_6 = []"
  "rule_StigID rule_5_1_7 = []"
  "rule_StigID rule_5_1_8 = []"
  "rule_StigID rule_5_1_9 = []"
  "rule_StigID rule_5_1_10 = []"
  "rule_StigID rule_5_1_11 = []"
  "rule_StigID rule_5_1_12 = []"
  "rule_StigID rule_5_1_13 = []"
  "rule_StigID rule_5_1_14 = []"
  "rule_StigID rule_5_1_15 = []"
  "rule_StigID rule_5_1_16 = []"
  "rule_StigID rule_5_1_17 = []"
  "rule_StigID rule_5_1_18 = []"
  "rule_StigID rule_5_1_19 = []"
  "rule_StigID rule_5_1_20 = []"
  "rule_StigID rule_5_1_21 = []"
  "rule_StigID rule_5_1_22 = []"
  "rule_StigID rule_5_1_23 = []"
  "rule_StigID rule_1_1_19 = []"
  "rule_StigID rule_1_1_20 = []"
  "rule_StigID rule_1_1_21 = []"
  "rule_StigID rule_1_1_22 = []"
  "rule_StigID rule_1_1_23 = []"
  "rule_StigID rule_1_1_24 = []"
  "rule_StigID rule_1_1_25 = []"
  "rule_StigID rule_1_1_26 = []"
  "rule_StigID rule_1_1_27 = []"
  "rule_StigID rule_1_1_28 = []"
  "rule_StigID rule_1_1_29 = []"
  "rule_StigID rule_1_1_30 = []"
  "rule_StigID rule_1_1_31 = []"
  "rule_StigID rule_1_1_32 = []"
  "rule_StigID rule_6_1_1 = ''V-238401''"
  "rule_StigID rule_6_1_2 = ''V-238402''"
  "rule_StigID rule_6_1_3 = ''V-238403''"
  "rule_StigID rule_6_1_4 = []"
  "rule_StigID rule_6_1_5 = []"
  "rule_StigID rule_6_1_6 = []"
  "rule_StigID rule_6_1_7 = []"
  "rule_StigID rule_6_1_8 = []"
  "rule_StigID rule_6_1_9 = []"
  "rule_StigID rule_6_1_10 = []"
  "rule_StigID rule_6_1_11 = []"
  "rule_StigID rule_6_1_12 = []"
  "rule_StigID rule_6_1_13 = []"
  "rule_StigID rule_6_1_15 = []"
  "rule_StigID rule_6_1_16 = []"
  "rule_StigID rule_6_1_17 = []"
  "rule_StigID rule_6_1_18 = []"
  "rule_StigID rule_6_1_19 = []"
  "rule_StigID rule_6_1_20 = []"
  "rule_StigID rule_6_1_21 = []"
  "rule_StigID rule_6_1_22 = []"
  "rule_StigID rule_6_1_23 = []"
  "rule_StigID rule_6_1_24 = []"
  "rule_StigID rule_6_1_25 = []"
  "rule_StigID rule_6_1_26 = []"
  "rule_StigID rule_6_1_27 = []"
  "rule_StigID rule_6_1_28 = []"
  "rule_StigID rule_6_1_29 = []"
  "rule_StigID rule_6_1_30 = []"
  "rule_StigID rule_6_1_31 = []"
  "rule_StigID rule_6_1_32 = []"
  "rule_StigID rule_6_1_33 = []"
  "rule_StigID rule_6_1_34 = []"
  "rule_StigID rule_6_1_35 = []"
  "rule_StigID rule_6_1_36 = []"
  "rule_StigID rule_6_1_37 = []"
  "rule_StigID rule_6_1_38 = []"
  "rule_StigID rule_6_2_1 = ''V-238408''"
  "rule_StigID rule_6_2_2 = ''V-238410''"
  "rule_StigID rule_6_2_3 = ''V-238411''"
  "rule_StigID rule_6_1_14 = []"
  "rule_StigID rule_6_2_4 = []"
  "rule_StigID rule_6_2_5 = []"
  "rule_StigID rule_6_2_6 = []"
  "rule_StigID rule_6_2_7 = []"
  "rule_StigID rule_6_2_8 = []"
  "rule_StigID rule_6_2_9 = []"
  "rule_StigID rule_6_2_10 = []"
  "rule_StigID rule_6_2_11 = []"
  "rule_StigID rule_6_2_12 = []"
  "rule_StigID rule_6_2_13 = []"
  "rule_StigID rule_6_2_14 = []"
  "rule_StigID rule_6_2_15 = []"
  "rule_StigID rule_6_2_16 = []"
  "rule_StigID rule_6_2_17 = []"
  "rule_StigID rule_6_2_18 = []"
  "rule_StigID rule_V_238213 = []"
  "rule_StigID rule_V_238214 = []"
  "rule_StigID rule_V_238215 = []"
  "rule_StigID rule_V_238221 = []"
  "rule_StigID rule_V_238226 = []"
  "rule_StigID rule_V_238380 = []"
  "rule_StigID rule_V_238382 = []"
  "rule_StigID rule_V_238383 = []"
  "rule_StigID rule_V_238384 = []"
  by (simp_all add: rule_defs)

lemma rule_Frameworks:
  "rule_Framework rule_1_5_1 = cisBenchCIS"
  "rule_Framework rule_1_5_4 = cisBenchCIS"
  "rule_Framework rule_1_5_5 = cisBenchCIS"
  "rule_Framework rule_1_5_6 = cisBenchCIS"
  "rule_Framework rule_1_5_7 = cisBenchCIS"
  "rule_Framework rule_1_5_8 = cisBenchCIS"
  "rule_Framework rule_1_5_9 = cisBenchCIS"
  "rule_Framework rule_1_5_10 = cisBenchCIS"
  "rule_Framework rule_1_5_11 = cisBenchCIS"
  "rule_Framework rule_1_5_12 = cisBenchCIS"
  "rule_Framework rule_1_5_14 = cisBenchCIS"
  "rule_Framework rule_1_5_15 = cisBenchCIS"
  "rule_Framework rule_1_5_16 = cisBenchCIS"
  "rule_Framework rule_1_5_17 = cisBenchCIS"
  "rule_Framework rule_1_5_18 = cisBenchCIS"
  "rule_Framework rule_2_1_1 = cisBenchCIS"
  "rule_Framework rule_2_1_2 = cisBenchCIS"
  "rule_Framework rule_2_2_1 = cisBenchCIS"
  "rule_Framework rule_2_2_2 = cisBenchCIS"
  "rule_Framework rule_2_2_3 = cisBenchCIS"
  "rule_Framework rule_2_2_4 = cisBenchCIS"
  "rule_Framework rule_2_2_5 = cisBenchCIS"
  "rule_Framework rule_2_3_1 = cisBenchCIS"
  "rule_Framework rule_2_3_2 = cisBenchCIS"
  "rule_Framework rule_2_3_3 = cisBenchCIS"
  "rule_Framework rule_2_3_4 = cisBenchCIS"
  "rule_Framework rule_2_3_5 = cisBenchCIS"
  "rule_Framework rule_2_3_6 = cisBenchCIS"
  "rule_Framework rule_2_3_7 = cisBenchCIS"
  "rule_Framework rule_2_3_8 = cisBenchCIS"
  "rule_Framework rule_2_3_9 = cisBenchCIS"
  "rule_Framework rule_2_3_10 = cisBenchCIS"
  "rule_Framework rule_2_3_11 = cisBenchCIS"
  "rule_Framework rule_2_3_12 = cisBenchCIS"
  "rule_Framework rule_2_3_13 = cisBenchCIS"
  "rule_Framework rule_2_3_14 = cisBenchCIS"
  "rule_Framework rule_2_3_15 = cisBenchCIS"
  "rule_Framework rule_2_3_16 = cisBenchCIS"
  "rule_Framework rule_5_2_1 = cisBenchBOTH"
  "rule_Framework rule_5_2_3 = cisBenchCIS"
  "rule_Framework rule_5_2_4 = cisBenchCIS"
  "rule_Framework rule_5_2_2 = cisBenchBOTH"
  "rule_Framework rule_5_2_5 = cisBenchBOTH"
  "rule_Framework rule_5_2_6 = cisBenchBOTH"
  "rule_Framework rule_5_2_7 = cisBenchBOTH"
  "rule_Framework rule_5_2_8 = cisBenchBOTH"
  "rule_Framework rule_5_2_9 = cisBenchBOTH"
  "rule_Framework rule_5_2_10 = cisBenchBOTH"
  "rule_Framework rule_5_2_11 = cisBenchBOTH"
  "rule_Framework rule_5_2_12 = cisBenchBOTH"
  "rule_Framework rule_5_2_13 = cisBenchBOTH"
  "rule_Framework rule_5_2_14 = cisBenchBOTH"
  "rule_Framework rule_5_2_15 = cisBenchBOTH"
  "rule_Framework rule_5_2_16 = cisBenchCIS"
  "rule_Framework rule_5_2_17 = cisBenchBOTH"
  "rule_Framework rule_5_2_18 = cisBenchBOTH"
  "rule_Framework rule_5_2_19 = cisBenchBOTH"
  "rule_Framework rule_5_2_20 = cisBenchCIS"
  "rule_Framework rule_5_2_21 = cisBenchCIS"
  "rule_Framework rule_5_2_22 = cisBenchCIS"
  "rule_Framework rule_5_2_23 = cisBenchCIS"
  "rule_Framework rule_5_2_24 = cisBenchCIS"
  "rule_Framework rule_5_2_25 = cisBenchCIS"
  "rule_Framework rule_5_2_26 = cisBenchCIS"
  "rule_Framework rule_5_2_27 = cisBenchCIS"
  "rule_Framework rule_5_2_28 = cisBenchCIS"
  "rule_Framework rule_5_2_29 = cisBenchCIS"
  "rule_Framework rule_5_2_30 = cisBenchCIS"
  "rule_Framework rule_3_1_1 = cisBenchBOTH"
  "rule_Framework rule_3_1_2 = cisBenchCIS"
  "rule_Framework rule_3_1_3 = cisBenchCIS"
  "rule_Framework rule_3_2_1 = cisBenchBOTH"
  "rule_Framework rule_3_2_2 = cisBenchBOTH"
  "rule_Framework rule_3_2_3 = cisBenchCIS"
  "rule_Framework rule_3_2_4 = cisBenchBOTH"
  "rule_Framework rule_1_2_1 = cisBenchCIS"
  "rule_Framework rule_1_2_2 = cisBenchCIS"
  "rule_Framework rule_1_2_3 = cisBenchCIS"
  "rule_Framework rule_1_2_4 = cisBenchCIS"
  "rule_Framework rule_1_3_1 = cisBenchCIS"
  "rule_Framework rule_1_3_2 = cisBenchCIS"
  "rule_Framework rule_1_4_1 = cisBenchCIS"
  "rule_Framework rule_1_4_2 = cisBenchCIS"
  "rule_Framework rule_1_1_1_1 = cisBenchCIS"
  "rule_Framework rule_1_1_1_2 = cisBenchCIS"
  "rule_Framework rule_1_1_1_3 = cisBenchCIS"
  "rule_Framework rule_1_1_1_4 = cisBenchCIS"
  "rule_Framework rule_1_1_1_5 = cisBenchCIS"
  "rule_Framework rule_1_1_1_6 = cisBenchCIS"
  "rule_Framework rule_1_1_1_7 = cisBenchCIS"
  "rule_Framework rule_1_1_2 = cisBenchCIS"
  "rule_Framework rule_1_1_3 = cisBenchCIS"
  "rule_Framework rule_1_1_4 = cisBenchCIS"
  "rule_Framework rule_1_1_5 = cisBenchCIS"
  "rule_Framework rule_1_1_6 = cisBenchCIS"
  "rule_Framework rule_1_1_7 = cisBenchCIS"
  "rule_Framework rule_1_1_8 = cisBenchCIS"
  "rule_Framework rule_1_1_9 = cisBenchCIS"
  "rule_Framework rule_1_1_10 = cisBenchCIS"
  "rule_Framework rule_1_1_11 = cisBenchCIS"
  "rule_Framework rule_1_1_12 = cisBenchCIS"
  "rule_Framework rule_1_1_13 = cisBenchCIS"
  "rule_Framework rule_1_1_14 = cisBenchCIS"
  "rule_Framework rule_1_1_15 = cisBenchCIS"
  "rule_Framework rule_1_1_16 = cisBenchCIS"
  "rule_Framework rule_1_1_17 = cisBenchCIS"
  "rule_Framework rule_1_1_18 = cisBenchCIS"
  "rule_Framework rule_1_5_2 = cisBenchCIS"
  "rule_Framework rule_1_5_3 = cisBenchCIS"
  "rule_Framework rule_1_6_1 = cisBenchCIS"
  "rule_Framework rule_1_6_2 = cisBenchCIS"
  "rule_Framework rule_1_6_3 = cisBenchCIS"
  "rule_Framework rule_1_6_4 = cisBenchCIS"
  "rule_Framework rule_1_7_1 = cisBenchCIS"
  "rule_Framework rule_1_7_2 = cisBenchCIS"
  "rule_Framework rule_1_7_3 = cisBenchCIS"
  "rule_Framework rule_1_7_4 = cisBenchCIS"
  "rule_Framework rule_1_7_5 = cisBenchCIS"
  "rule_Framework rule_1_7_6 = cisBenchCIS"
  "rule_Framework rule_1_7_7 = cisBenchCIS"
  "rule_Framework rule_1_7_8 = cisBenchCIS"
  "rule_Framework rule_1_7_9 = cisBenchCIS"
  "rule_Framework rule_3_2_5 = cisBenchCIS"
  "rule_Framework rule_3_2_6 = cisBenchCIS"
  "rule_Framework rule_3_2_7 = cisBenchCIS"
  "rule_Framework rule_3_2_8 = cisBenchCIS"
  "rule_Framework rule_3_2_9 = cisBenchCIS"
  "rule_Framework rule_3_2_10 = cisBenchCIS"
  "rule_Framework rule_3_2_11 = cisBenchCIS"
  "rule_Framework rule_3_2_12 = cisBenchCIS"
  "rule_Framework rule_3_2_13 = cisBenchCIS"
  "rule_Framework rule_3_2_14 = cisBenchCIS"
  "rule_Framework rule_3_2_15 = cisBenchCIS"
  "rule_Framework rule_3_2_16 = cisBenchCIS"
  "rule_Framework rule_3_2_17 = cisBenchCIS"
  "rule_Framework rule_3_2_18 = cisBenchCIS"
  "rule_Framework rule_3_2_22 = cisBenchCIS"
  "rule_Framework rule_3_2_23 = cisBenchCIS"
  "rule_Framework rule_3_2_24 = cisBenchCIS"
  "rule_Framework rule_3_2_25 = cisBenchCIS"
  "rule_Framework rule_3_2_26 = cisBenchCIS"
  "rule_Framework rule_3_2_27 = cisBenchCIS"
  "rule_Framework rule_3_2_28 = cisBenchCIS"
  "rule_Framework rule_3_2_29 = cisBenchCIS"
  "rule_Framework rule_3_2_30 = cisBenchCIS"
  "rule_Framework rule_3_2_31 = cisBenchCIS"
  "rule_Framework rule_3_2_32 = cisBenchCIS"
  "rule_Framework rule_3_2_33 = cisBenchCIS"
  "rule_Framework rule_3_2_34 = cisBenchCIS"
  "rule_Framework rule_3_2_35 = cisBenchCIS"
  "rule_Framework rule_3_2_36 = cisBenchCIS"
  "rule_Framework rule_3_2_37 = cisBenchCIS"
  "rule_Framework rule_3_2_38 = cisBenchCIS"
  "rule_Framework rule_3_2_39 = cisBenchCIS"
  "rule_Framework rule_3_4_1 = cisBenchCIS"
  "rule_Framework rule_3_4_2 = cisBenchCIS"
  "rule_Framework rule_3_4_3 = cisBenchCIS"
  "rule_Framework rule_3_4_4 = cisBenchCIS"
  "rule_Framework rule_3_4_5 = cisBenchCIS"
  "rule_Framework rule_3_3_1 = cisBenchCIS"
  "rule_Framework rule_3_3_2 = cisBenchCIS"
  "rule_Framework rule_3_5_1 = cisBenchCIS"
  "rule_Framework rule_3_5_1_1 = cisBenchCIS"
  "rule_Framework rule_3_5_1_2 = cisBenchCIS"
  "rule_Framework rule_3_5_1_3 = cisBenchCIS"
  "rule_Framework rule_3_5_1_4 = cisBenchCIS"
  "rule_Framework rule_3_5_1_5 = cisBenchCIS"
  "rule_Framework rule_3_5_1_6 = cisBenchCIS"
  "rule_Framework rule_3_5_1_7 = cisBenchCIS"
  "rule_Framework rule_3_6_1 = cisBenchCIS"
  "rule_Framework rule_4_1_1 = cisBenchBOTH"
  "rule_Framework rule_4_1_1_1 = cisBenchCIS"
  "rule_Framework rule_4_1_1_2 = cisBenchCIS"
  "rule_Framework rule_4_1_1_3 = cisBenchCIS"
  "rule_Framework rule_4_1_1_4 = cisBenchCIS"
  "rule_Framework rule_4_1_1_5 = cisBenchCIS"
  "rule_Framework rule_4_1_2 = cisBenchBOTH"
  "rule_Framework rule_4_1_3 = cisBenchCIS"
  "rule_Framework rule_4_1_4 = cisBenchCIS"
  "rule_Framework rule_4_1_5 = cisBenchCIS"
  "rule_Framework rule_4_1_6 = cisBenchCIS"
  "rule_Framework rule_4_1_7 = cisBenchCIS"
  "rule_Framework rule_4_1_8 = cisBenchCIS"
  "rule_Framework rule_4_1_9 = cisBenchCIS"
  "rule_Framework rule_4_1_10 = cisBenchCIS"
  "rule_Framework rule_4_1_11 = cisBenchCIS"
  "rule_Framework rule_4_1_12 = cisBenchCIS"
  "rule_Framework rule_4_1_13 = cisBenchCIS"
  "rule_Framework rule_4_1_14 = cisBenchCIS"
  "rule_Framework rule_4_1_15 = cisBenchCIS"
  "rule_Framework rule_4_1_16 = cisBenchCIS"
  "rule_Framework rule_4_1_17 = cisBenchCIS"
  "rule_Framework rule_4_2_1 = cisBenchCIS"
  "rule_Framework rule_4_2_2 = cisBenchCIS"
  "rule_Framework rule_4_2_2_2 = cisBenchCIS"
  "rule_Framework rule_4_2_2_3 = cisBenchCIS"
  "rule_Framework rule_4_2_3 = cisBenchCIS"
  "rule_Framework rule_4_2_4 = cisBenchCIS"
  "rule_Framework rule_4_2_5 = cisBenchCIS"
  "rule_Framework rule_4_2_6 = cisBenchCIS"
  "rule_Framework rule_4_2_7 = cisBenchCIS"
  "rule_Framework rule_4_3_1 = cisBenchCIS"
  "rule_Framework rule_5_3_1 = cisBenchCIS"
  "rule_Framework rule_5_4_1 = cisBenchBOTH"
  "rule_Framework rule_5_3_4 = cisBenchCIS"
  "rule_Framework rule_5_3_2 = cisBenchCIS"
  "rule_Framework rule_5_3_3 = cisBenchCIS"
  "rule_Framework rule_5_4_2 = cisBenchCIS"
  "rule_Framework rule_5_4_3 = cisBenchCIS"
  "rule_Framework rule_5_4_4 = cisBenchCIS"
  "rule_Framework rule_5_4_5 = cisBenchCIS"
  "rule_Framework rule_5_4_6 = cisBenchCIS"
  "rule_Framework rule_5_4_7 = cisBenchCIS"
  "rule_Framework rule_5_4_8 = cisBenchCIS"
  "rule_Framework rule_5_4_9 = cisBenchCIS"
  "rule_Framework rule_5_4_10 = cisBenchCIS"
  "rule_Framework rule_5_4_11 = cisBenchCIS"
  "rule_Framework rule_5_4_12 = cisBenchCIS"
  "rule_Framework rule_5_4_13 = cisBenchCIS"
  "rule_Framework rule_5_4_14 = cisBenchCIS"
  "rule_Framework rule_5_4_15 = cisBenchCIS"
  "rule_Framework rule_5_4_16 = cisBenchCIS"
  "rule_Framework rule_5_4_17 = cisBenchCIS"
  "rule_Framework rule_5_3_5 = cisBenchCIS"
  "rule_Framework rule_5_5_1 = cisBenchCIS"
  "rule_Framework rule_5_5_2 = cisBenchCIS"
  "rule_Framework rule_5_5_3 = cisBenchCIS"
  "rule_Framework rule_5_5_4 = cisBenchCIS"
  "rule_Framework rule_5_1_1 = cisBenchCIS"
  "rule_Framework rule_5_1_2 = cisBenchCIS"
  "rule_Framework rule_5_1_3 = cisBenchCIS"
  "rule_Framework rule_5_1_4 = cisBenchCIS"
  "rule_Framework rule_5_1_5 = cisBenchCIS"
  "rule_Framework rule_5_1_6 = cisBenchCIS"
  "rule_Framework rule_5_1_7 = cisBenchCIS"
  "rule_Framework rule_5_1_8 = cisBenchCIS"
  "rule_Framework rule_5_1_9 = cisBenchCIS"
  "rule_Framework rule_5_1_10 = cisBenchCIS"
  "rule_Framework rule_5_1_11 = cisBenchCIS"
  "rule_Framework rule_5_1_12 = cisBenchCIS"
  "rule_Framework rule_5_1_13 = cisBenchCIS"
  "rule_Framework rule_5_1_14 = cisBenchCIS"
  "rule_Framework rule_5_1_15 = cisBenchCIS"
  "rule_Framework rule_5_1_16 = cisBenchCIS"
  "rule_Framework rule_5_1_17 = cisBenchCIS"
  "rule_Framework rule_5_1_18 = cisBenchCIS"
  "rule_Framework rule_5_1_19 = cisBenchCIS"
  "rule_Framework rule_5_1_20 = cisBenchCIS"
  "rule_Framework rule_5_1_21 = cisBenchCIS"
  "rule_Framework rule_5_1_22 = cisBenchCIS"
  "rule_Framework rule_5_1_23 = cisBenchCIS"
  "rule_Framework rule_1_1_19 = cisBenchCIS"
  "rule_Framework rule_1_1_20 = cisBenchCIS"
  "rule_Framework rule_1_1_21 = cisBenchCIS"
  "rule_Framework rule_1_1_22 = cisBenchCIS"
  "rule_Framework rule_1_1_23 = cisBenchCIS"
  "rule_Framework rule_1_1_24 = cisBenchCIS"
  "rule_Framework rule_1_1_25 = cisBenchCIS"
  "rule_Framework rule_1_1_26 = cisBenchCIS"
  "rule_Framework rule_1_1_27 = cisBenchCIS"
  "rule_Framework rule_1_1_28 = cisBenchCIS"
  "rule_Framework rule_1_1_29 = cisBenchCIS"
  "rule_Framework rule_1_1_30 = cisBenchCIS"
  "rule_Framework rule_1_1_31 = cisBenchCIS"
  "rule_Framework rule_1_1_32 = cisBenchCIS"
  "rule_Framework rule_6_1_1 = cisBenchBOTH"
  "rule_Framework rule_6_1_2 = cisBenchBOTH"
  "rule_Framework rule_6_1_3 = cisBenchBOTH"
  "rule_Framework rule_6_1_4 = cisBenchCIS"
  "rule_Framework rule_6_1_5 = cisBenchCIS"
  "rule_Framework rule_6_1_6 = cisBenchCIS"
  "rule_Framework rule_6_1_7 = cisBenchCIS"
  "rule_Framework rule_6_1_8 = cisBenchCIS"
  "rule_Framework rule_6_1_9 = cisBenchCIS"
  "rule_Framework rule_6_1_10 = cisBenchCIS"
  "rule_Framework rule_6_1_11 = cisBenchCIS"
  "rule_Framework rule_6_1_12 = cisBenchCIS"
  "rule_Framework rule_6_1_13 = cisBenchCIS"
  "rule_Framework rule_6_1_15 = cisBenchCIS"
  "rule_Framework rule_6_1_16 = cisBenchCIS"
  "rule_Framework rule_6_1_17 = cisBenchCIS"
  "rule_Framework rule_6_1_18 = cisBenchCIS"
  "rule_Framework rule_6_1_19 = cisBenchCIS"
  "rule_Framework rule_6_1_20 = cisBenchCIS"
  "rule_Framework rule_6_1_21 = cisBenchCIS"
  "rule_Framework rule_6_1_22 = cisBenchCIS"
  "rule_Framework rule_6_1_23 = cisBenchCIS"
  "rule_Framework rule_6_1_24 = cisBenchCIS"
  "rule_Framework rule_6_1_25 = cisBenchCIS"
  "rule_Framework rule_6_1_26 = cisBenchCIS"
  "rule_Framework rule_6_1_27 = cisBenchCIS"
  "rule_Framework rule_6_1_28 = cisBenchCIS"
  "rule_Framework rule_6_1_29 = cisBenchCIS"
  "rule_Framework rule_6_1_30 = cisBenchCIS"
  "rule_Framework rule_6_1_31 = cisBenchCIS"
  "rule_Framework rule_6_1_32 = cisBenchCIS"
  "rule_Framework rule_6_1_33 = cisBenchCIS"
  "rule_Framework rule_6_1_34 = cisBenchCIS"
  "rule_Framework rule_6_1_35 = cisBenchCIS"
  "rule_Framework rule_6_1_36 = cisBenchCIS"
  "rule_Framework rule_6_1_37 = cisBenchCIS"
  "rule_Framework rule_6_1_38 = cisBenchCIS"
  "rule_Framework rule_6_2_1 = cisBenchBOTH"
  "rule_Framework rule_6_2_2 = cisBenchBOTH"
  "rule_Framework rule_6_2_3 = cisBenchBOTH"
  "rule_Framework rule_6_1_14 = cisBenchCIS"
  "rule_Framework rule_6_2_4 = cisBenchCIS"
  "rule_Framework rule_6_2_5 = cisBenchCIS"
  "rule_Framework rule_6_2_6 = cisBenchCIS"
  "rule_Framework rule_6_2_7 = cisBenchCIS"
  "rule_Framework rule_6_2_8 = cisBenchCIS"
  "rule_Framework rule_6_2_9 = cisBenchCIS"
  "rule_Framework rule_6_2_10 = cisBenchCIS"
  "rule_Framework rule_6_2_11 = cisBenchCIS"
  "rule_Framework rule_6_2_12 = cisBenchCIS"
  "rule_Framework rule_6_2_13 = cisBenchCIS"
  "rule_Framework rule_6_2_14 = cisBenchCIS"
  "rule_Framework rule_6_2_15 = cisBenchCIS"
  "rule_Framework rule_6_2_16 = cisBenchCIS"
  "rule_Framework rule_6_2_17 = cisBenchCIS"
  "rule_Framework rule_6_2_18 = cisBenchCIS"
  "rule_Framework rule_V_238213 = cisBenchSTIG"
  "rule_Framework rule_V_238214 = cisBenchSTIG"
  "rule_Framework rule_V_238215 = cisBenchSTIG"
  "rule_Framework rule_V_238221 = cisBenchSTIG"
  "rule_Framework rule_V_238226 = cisBenchSTIG"
  "rule_Framework rule_V_238380 = cisBenchSTIG"
  "rule_Framework rule_V_238382 = cisBenchSTIG"
  "rule_Framework rule_V_238383 = cisBenchSTIG"
  "rule_Framework rule_V_238384 = cisBenchSTIG"
  by (simp_all add: rule_defs)

lemma rule_Levels:
  "rule_Level rule_1_5_1 = 1"
  "rule_Level rule_1_5_4 = 1"
  "rule_Level rule_1_5_5 = 1"
  "rule_Level rule_1_5_6 = 1"
  "rule_Level rule_1_5_7 = 1"
  "rule_Level rule_1_5_8 = 1"
  "rule_Level rule_1_5_9 = 1"
  "rule_Level rule_1_5_10 = 1"
  "rule_Level rule_1_5_11 = 1"
  "rule_Level rule_1_5_12 = 1"
  "rule_Level rule_1_5_14 = 1"
  "rule_Level rule_1_5_15 = 1"
  "rule_Level rule_1_5_16 = 1"
  "rule_Level rule_1_5_17 = 1"
  "rule_Level rule_1_5_18 = 1"
  "rule_Level rule_2_1_1 = 1"
  "rule_Level rule_2_1_2 = 1"
  "rule_Level rule_2_2_1 = 1"
  "rule_Level rule_2_2_2 = 1"
  "rule_Level rule_2_2_3 = 1"
  "rule_Level rule_2_2_4 = 1"
  "rule_Level rule_2_2_5 = 1"
  "rule_Level rule_2_3_1 = 1"
  "rule_Level rule_2_3_2 = 1"
  "rule_Level rule_2_3_3 = 1"
  "rule_Level rule_2_3_4 = 1"
  "rule_Level rule_2_3_5 = 1"
  "rule_Level rule_2_3_6 = 1"
  "rule_Level rule_2_3_7 = 1"
  "rule_Level rule_2_3_8 = 1"
  "rule_Level rule_2_3_9 = 1"
  "rule_Level rule_2_3_10 = 1"
  "rule_Level rule_2_3_11 = 1"
  "rule_Level rule_2_3_12 = 1"
  "rule_Level rule_2_3_13 = 1"
  "rule_Level rule_2_3_14 = 1"
  "rule_Level rule_2_3_15 = 1"
  "rule_Level rule_2_3_16 = 1"
  "rule_Level rule_5_2_1 = 1"
  "rule_Level rule_5_2_3 = 1"
  "rule_Level rule_5_2_4 = 1"
  "rule_Level rule_5_2_2 = 1"
  "rule_Level rule_5_2_5 = 1"
  "rule_Level rule_5_2_6 = 1"
  "rule_Level rule_5_2_7 = 1"
  "rule_Level rule_5_2_8 = 1"
  "rule_Level rule_5_2_9 = 1"
  "rule_Level rule_5_2_10 = 1"
  "rule_Level rule_5_2_11 = 1"
  "rule_Level rule_5_2_12 = 1"
  "rule_Level rule_5_2_13 = 1"
  "rule_Level rule_5_2_14 = 1"
  "rule_Level rule_5_2_15 = 1"
  "rule_Level rule_5_2_16 = 1"
  "rule_Level rule_5_2_17 = 1"
  "rule_Level rule_5_2_18 = 1"
  "rule_Level rule_5_2_19 = 1"
  "rule_Level rule_5_2_20 = 1"
  "rule_Level rule_5_2_21 = 1"
  "rule_Level rule_5_2_22 = 1"
  "rule_Level rule_5_2_23 = 1"
  "rule_Level rule_5_2_24 = 1"
  "rule_Level rule_5_2_25 = 1"
  "rule_Level rule_5_2_26 = 1"
  "rule_Level rule_5_2_27 = 1"
  "rule_Level rule_5_2_28 = 1"
  "rule_Level rule_5_2_29 = 1"
  "rule_Level rule_5_2_30 = 1"
  "rule_Level rule_3_1_1 = 1"
  "rule_Level rule_3_1_2 = 1"
  "rule_Level rule_3_1_3 = 1"
  "rule_Level rule_3_2_1 = 1"
  "rule_Level rule_3_2_2 = 1"
  "rule_Level rule_3_2_3 = 1"
  "rule_Level rule_3_2_4 = 1"
  "rule_Level rule_1_2_1 = 1"
  "rule_Level rule_1_2_2 = 1"
  "rule_Level rule_1_2_3 = 1"
  "rule_Level rule_1_2_4 = 1"
  "rule_Level rule_1_3_1 = 1"
  "rule_Level rule_1_3_2 = 1"
  "rule_Level rule_1_4_1 = 1"
  "rule_Level rule_1_4_2 = 1"
  "rule_Level rule_1_1_1_1 = 1"
  "rule_Level rule_1_1_1_2 = 1"
  "rule_Level rule_1_1_1_3 = 1"
  "rule_Level rule_1_1_1_4 = 1"
  "rule_Level rule_1_1_1_5 = 1"
  "rule_Level rule_1_1_1_6 = 2"
  "rule_Level rule_1_1_1_7 = 2"
  "rule_Level rule_1_1_2 = 1"
  "rule_Level rule_1_1_3 = 1"
  "rule_Level rule_1_1_4 = 1"
  "rule_Level rule_1_1_5 = 1"
  "rule_Level rule_1_1_6 = 1"
  "rule_Level rule_1_1_7 = 1"
  "rule_Level rule_1_1_8 = 1"
  "rule_Level rule_1_1_9 = 1"
  "rule_Level rule_1_1_10 = 1"
  "rule_Level rule_1_1_11 = 1"
  "rule_Level rule_1_1_12 = 2"
  "rule_Level rule_1_1_13 = 2"
  "rule_Level rule_1_1_14 = 1"
  "rule_Level rule_1_1_15 = 2"
  "rule_Level rule_1_1_16 = 2"
  "rule_Level rule_1_1_17 = 2"
  "rule_Level rule_1_1_18 = 2"
  "rule_Level rule_1_5_2 = 1"
  "rule_Level rule_1_5_3 = 1"
  "rule_Level rule_1_6_1 = 1"
  "rule_Level rule_1_6_2 = 1"
  "rule_Level rule_1_6_3 = 1"
  "rule_Level rule_1_6_4 = 2"
  "rule_Level rule_1_7_1 = 1"
  "rule_Level rule_1_7_2 = 1"
  "rule_Level rule_1_7_3 = 1"
  "rule_Level rule_1_7_4 = 1"
  "rule_Level rule_1_7_5 = 1"
  "rule_Level rule_1_7_6 = 1"
  "rule_Level rule_1_7_7 = 1"
  "rule_Level rule_1_7_8 = 1"
  "rule_Level rule_1_7_9 = 1"
  "rule_Level rule_3_2_5 = 1"
  "rule_Level rule_3_2_6 = 1"
  "rule_Level rule_3_2_7 = 1"
  "rule_Level rule_3_2_8 = 1"
  "rule_Level rule_3_2_9 = 1"
  "rule_Level rule_3_2_10 = 1"
  "rule_Level rule_3_2_11 = 1"
  "rule_Level rule_3_2_12 = 1"
  "rule_Level rule_3_2_13 = 1"
  "rule_Level rule_3_2_14 = 1"
  "rule_Level rule_3_2_15 = 1"
  "rule_Level rule_3_2_16 = 1"
  "rule_Level rule_3_2_17 = 1"
  "rule_Level rule_3_2_18 = 1"
  "rule_Level rule_3_2_22 = 2"
  "rule_Level rule_3_2_23 = 1"
  "rule_Level rule_3_2_24 = 1"
  "rule_Level rule_3_2_25 = 1"
  "rule_Level rule_3_2_26 = 1"
  "rule_Level rule_3_2_27 = 1"
  "rule_Level rule_3_2_28 = 1"
  "rule_Level rule_3_2_29 = 1"
  "rule_Level rule_3_2_30 = 1"
  "rule_Level rule_3_2_31 = 1"
  "rule_Level rule_3_2_32 = 1"
  "rule_Level rule_3_2_33 = 1"
  "rule_Level rule_3_2_34 = 1"
  "rule_Level rule_3_2_35 = 1"
  "rule_Level rule_3_2_36 = 1"
  "rule_Level rule_3_2_37 = 1"
  "rule_Level rule_3_2_38 = 1"
  "rule_Level rule_3_2_39 = 1"
  "rule_Level rule_3_4_1 = 2"
  "rule_Level rule_3_4_2 = 2"
  "rule_Level rule_3_4_3 = 2"
  "rule_Level rule_3_4_4 = 2"
  "rule_Level rule_3_4_5 = 2"
  "rule_Level rule_3_3_1 = 1"
  "rule_Level rule_3_3_2 = 1"
  "rule_Level rule_3_5_1 = 1"
  "rule_Level rule_3_5_1_1 = 1"
  "rule_Level rule_3_5_1_2 = 1"
  "rule_Level rule_3_5_1_3 = 1"
  "rule_Level rule_3_5_1_4 = 1"
  "rule_Level rule_3_5_1_5 = 2"
  "rule_Level rule_3_5_1_6 = 1"
  "rule_Level rule_3_5_1_7 = 1"
  "rule_Level rule_3_6_1 = 1"
  "rule_Level rule_4_1_1 = 1"
  "rule_Level rule_4_1_1_1 = 2"
  "rule_Level rule_4_1_1_2 = 2"
  "rule_Level rule_4_1_1_3 = 2"
  "rule_Level rule_4_1_1_4 = 2"
  "rule_Level rule_4_1_1_5 = 2"
  "rule_Level rule_4_1_2 = 1"
  "rule_Level rule_4_1_3 = 2"
  "rule_Level rule_4_1_4 = 2"
  "rule_Level rule_4_1_5 = 2"
  "rule_Level rule_4_1_6 = 2"
  "rule_Level rule_4_1_7 = 2"
  "rule_Level rule_4_1_8 = 2"
  "rule_Level rule_4_1_9 = 2"
  "rule_Level rule_4_1_10 = 2"
  "rule_Level rule_4_1_11 = 2"
  "rule_Level rule_4_1_12 = 2"
  "rule_Level rule_4_1_13 = 2"
  "rule_Level rule_4_1_14 = 2"
  "rule_Level rule_4_1_15 = 2"
  "rule_Level rule_4_1_16 = 2"
  "rule_Level rule_4_1_17 = 2"
  "rule_Level rule_4_2_1 = 1"
  "rule_Level rule_4_2_2 = 1"
  "rule_Level rule_4_2_2_2 = 1"
  "rule_Level rule_4_2_2_3 = 1"
  "rule_Level rule_4_2_3 = 2"
  "rule_Level rule_4_2_4 = 1"
  "rule_Level rule_4_2_5 = 2"
  "rule_Level rule_4_2_6 = 2"
  "rule_Level rule_4_2_7 = 1"
  "rule_Level rule_4_3_1 = 1"
  "rule_Level rule_5_3_1 = 1"
  "rule_Level rule_5_4_1 = 1"
  "rule_Level rule_5_3_4 = 1"
  "rule_Level rule_5_3_2 = 1"
  "rule_Level rule_5_3_3 = 1"
  "rule_Level rule_5_4_2 = 1"
  "rule_Level rule_5_4_3 = 1"
  "rule_Level rule_5_4_4 = 1"
  "rule_Level rule_5_4_5 = 1"
  "rule_Level rule_5_4_6 = 1"
  "rule_Level rule_5_4_7 = 1"
  "rule_Level rule_5_4_8 = 1"
  "rule_Level rule_5_4_9 = 1"
  "rule_Level rule_5_4_10 = 1"
  "rule_Level rule_5_4_11 = 1"
  "rule_Level rule_5_4_12 = 1"
  "rule_Level rule_5_4_13 = 1"
  "rule_Level rule_5_4_14 = 1"
  "rule_Level rule_5_4_15 = 1"
  "rule_Level rule_5_4_16 = 1"
  "rule_Level rule_5_4_17 = 1"
  "rule_Level rule_5_3_5 = 1"
  "rule_Level rule_5_5_1 = 1"
  "rule_Level rule_5_5_2 = 1"
  "rule_Level rule_5_5_3 = 1"
  "rule_Level rule_5_5_4 = 1"
  "rule_Level rule_5_1_1 = 1"
  "rule_Level rule_5_1_2 = 1"
  "rule_Level rule_5_1_3 = 1"
  "rule_Level rule_5_1_4 = 1"
  "rule_Level rule_5_1_5 = 1"
  "rule_Level rule_5_1_6 = 1"
  "rule_Level rule_5_1_7 = 1"
  "rule_Level rule_5_1_8 = 1"
  "rule_Level rule_5_1_9 = 1"
  "rule_Level rule_5_1_10 = 1"
  "rule_Level rule_5_1_11 = 1"
  "rule_Level rule_5_1_12 = 1"
  "rule_Level rule_5_1_13 = 1"
  "rule_Level rule_5_1_14 = 1"
  "rule_Level rule_5_1_15 = 1"
  "rule_Level rule_5_1_16 = 1"
  "rule_Level rule_5_1_17 = 1"
  "rule_Level rule_5_1_18 = 1"
  "rule_Level rule_5_1_19 = 1"
  "rule_Level rule_5_1_20 = 1"
  "rule_Level rule_5_1_21 = 1"
  "rule_Level rule_5_1_22 = 1"
  "rule_Level rule_5_1_23 = 1"
  "rule_Level rule_1_1_19 = 1"
  "rule_Level rule_1_1_20 = 1"
  "rule_Level rule_1_1_21 = 1"
  "rule_Level rule_1_1_22 = 1"
  "rule_Level rule_1_1_23 = 2"
  "rule_Level rule_1_1_24 = 1"
  "rule_Level rule_1_1_25 = 2"
  "rule_Level rule_1_1_26 = 2"
  "rule_Level rule_1_1_27 = 2"
  "rule_Level rule_1_1_28 = 2"
  "rule_Level rule_1_1_29 = 2"
  "rule_Level rule_1_1_30 = 2"
  "rule_Level rule_1_1_31 = 2"
  "rule_Level rule_1_1_32 = 2"
  "rule_Level rule_6_1_1 = 1"
  "rule_Level rule_6_1_2 = 1"
  "rule_Level rule_6_1_3 = 1"
  "rule_Level rule_6_1_4 = 1"
  "rule_Level rule_6_1_5 = 1"
  "rule_Level rule_6_1_6 = 1"
  "rule_Level rule_6_1_7 = 1"
  "rule_Level rule_6_1_8 = 1"
  "rule_Level rule_6_1_9 = 1"
  "rule_Level rule_6_1_10 = 1"
  "rule_Level rule_6_1_11 = 1"
  "rule_Level rule_6_1_12 = 1"
  "rule_Level rule_6_1_13 = 1"
  "rule_Level rule_6_1_15 = 1"
  "rule_Level rule_6_1_16 = 1"
  "rule_Level rule_6_1_17 = 1"
  "rule_Level rule_6_1_18 = 1"
  "rule_Level rule_6_1_19 = 1"
  "rule_Level rule_6_1_20 = 1"
  "rule_Level rule_6_1_21 = 1"
  "rule_Level rule_6_1_22 = 1"
  "rule_Level rule_6_1_23 = 1"
  "rule_Level rule_6_1_24 = 1"
  "rule_Level rule_6_1_25 = 1"
  "rule_Level rule_6_1_26 = 1"
  "rule_Level rule_6_1_27 = 1"
  "rule_Level rule_6_1_28 = 1"
  "rule_Level rule_6_1_29 = 1"
  "rule_Level rule_6_1_30 = 1"
  "rule_Level rule_6_1_31 = 1"
  "rule_Level rule_6_1_32 = 1"
  "rule_Level rule_6_1_33 = 1"
  "rule_Level rule_6_1_34 = 1"
  "rule_Level rule_6_1_35 = 1"
  "rule_Level rule_6_1_36 = 1"
  "rule_Level rule_6_1_37 = 1"
  "rule_Level rule_6_1_38 = 1"
  "rule_Level rule_6_2_1 = 1"
  "rule_Level rule_6_2_2 = 1"
  "rule_Level rule_6_2_3 = 1"
  "rule_Level rule_6_1_14 = 1"
  "rule_Level rule_6_2_4 = 1"
  "rule_Level rule_6_2_5 = 1"
  "rule_Level rule_6_2_6 = 1"
  "rule_Level rule_6_2_7 = 1"
  "rule_Level rule_6_2_8 = 1"
  "rule_Level rule_6_2_9 = 1"
  "rule_Level rule_6_2_10 = 1"
  "rule_Level rule_6_2_11 = 1"
  "rule_Level rule_6_2_12 = 1"
  "rule_Level rule_6_2_13 = 1"
  "rule_Level rule_6_2_14 = 1"
  "rule_Level rule_6_2_15 = 1"
  "rule_Level rule_6_2_16 = 1"
  "rule_Level rule_6_2_17 = 1"
  "rule_Level rule_6_2_18 = 1"
  "rule_Level rule_V_238213 = 1"
  "rule_Level rule_V_238214 = 1"
  "rule_Level rule_V_238215 = 1"
  "rule_Level rule_V_238221 = 1"
  "rule_Level rule_V_238226 = 1"
  "rule_Level rule_V_238380 = 1"
  "rule_Level rule_V_238382 = 1"
  "rule_Level rule_V_238383 = 1"
  "rule_Level rule_V_238384 = 1"
  by (simp_all add: rule_defs)

lemma rule_Sections:
  "rule_Section rule_1_5_1 = ''Kernel''"
  "rule_Section rule_1_5_4 = ''Kernel''"
  "rule_Section rule_1_5_5 = ''Kernel''"
  "rule_Section rule_1_5_6 = ''Kernel''"
  "rule_Section rule_1_5_7 = ''Kernel''"
  "rule_Section rule_1_5_8 = ''Kernel''"
  "rule_Section rule_1_5_9 = ''Kernel''"
  "rule_Section rule_1_5_10 = ''Kernel''"
  "rule_Section rule_1_5_11 = ''Kernel''"
  "rule_Section rule_1_5_12 = ''Kernel''"
  "rule_Section rule_1_5_14 = ''Kernel''"
  "rule_Section rule_1_5_15 = ''Kernel''"
  "rule_Section rule_1_5_16 = ''Kernel''"
  "rule_Section rule_1_5_17 = ''Kernel''"
  "rule_Section rule_1_5_18 = ''Kernel''"
  "rule_Section rule_2_1_1 = cisCatServices"
  "rule_Section rule_2_1_2 = cisCatServices"
  "rule_Section rule_2_2_1 = cisCatServices"
  "rule_Section rule_2_2_2 = cisCatServices"
  "rule_Section rule_2_2_3 = cisCatServices"
  "rule_Section rule_2_2_4 = cisCatServices"
  "rule_Section rule_2_2_5 = cisCatServices"
  "rule_Section rule_2_3_1 = cisCatServices"
  "rule_Section rule_2_3_2 = cisCatServices"
  "rule_Section rule_2_3_3 = cisCatServices"
  "rule_Section rule_2_3_4 = cisCatServices"
  "rule_Section rule_2_3_5 = cisCatServices"
  "rule_Section rule_2_3_6 = cisCatServices"
  "rule_Section rule_2_3_7 = cisCatServices"
  "rule_Section rule_2_3_8 = cisCatServices"
  "rule_Section rule_2_3_9 = cisCatServices"
  "rule_Section rule_2_3_10 = cisCatServices"
  "rule_Section rule_2_3_11 = cisCatServices"
  "rule_Section rule_2_3_12 = cisCatServices"
  "rule_Section rule_2_3_13 = cisCatServices"
  "rule_Section rule_2_3_14 = cisCatServices"
  "rule_Section rule_2_3_15 = cisCatServices"
  "rule_Section rule_2_3_16 = cisCatServices"
  "rule_Section rule_5_2_1 = cisCatSSH"
  "rule_Section rule_5_2_3 = cisCatSSH"
  "rule_Section rule_5_2_4 = cisCatSSH"
  "rule_Section rule_5_2_2 = cisCatSSH"
  "rule_Section rule_5_2_5 = cisCatSSH"
  "rule_Section rule_5_2_6 = cisCatSSH"
  "rule_Section rule_5_2_7 = cisCatSSH"
  "rule_Section rule_5_2_8 = cisCatSSH"
  "rule_Section rule_5_2_9 = cisCatSSH"
  "rule_Section rule_5_2_10 = cisCatSSH"
  "rule_Section rule_5_2_11 = cisCatSSH"
  "rule_Section rule_5_2_12 = cisCatSSH"
  "rule_Section rule_5_2_13 = cisCatSSH"
  "rule_Section rule_5_2_14 = cisCatSSH"
  "rule_Section rule_5_2_15 = cisCatSSH"
  "rule_Section rule_5_2_16 = cisCatSSH"
  "rule_Section rule_5_2_17 = cisCatSSH"
  "rule_Section rule_5_2_18 = cisCatSSH"
  "rule_Section rule_5_2_19 = cisCatSSH"
  "rule_Section rule_5_2_20 = cisCatSSH"
  "rule_Section rule_5_2_21 = cisCatSSH"
  "rule_Section rule_5_2_22 = cisCatSSH"
  "rule_Section rule_5_2_23 = cisCatSSH"
  "rule_Section rule_5_2_24 = cisCatSSH"
  "rule_Section rule_5_2_25 = cisCatSSH"
  "rule_Section rule_5_2_26 = cisCatSSH"
  "rule_Section rule_5_2_27 = cisCatSSH"
  "rule_Section rule_5_2_28 = cisCatSSH"
  "rule_Section rule_5_2_29 = cisCatSSH"
  "rule_Section rule_5_2_30 = cisCatSSH"
  "rule_Section rule_3_1_1 = cisCatNetwork"
  "rule_Section rule_3_1_2 = cisCatNetwork"
  "rule_Section rule_3_1_3 = cisCatNetwork"
  "rule_Section rule_3_2_1 = cisCatNetwork"
  "rule_Section rule_3_2_2 = cisCatNetwork"
  "rule_Section rule_3_2_3 = cisCatNetwork"
  "rule_Section rule_3_2_4 = cisCatNetwork"
  "rule_Section rule_1_2_1 = ''Filesystem''"
  "rule_Section rule_1_2_2 = ''Filesystem''"
  "rule_Section rule_1_2_3 = ''Filesystem''"
  "rule_Section rule_1_2_4 = ''Filesystem''"
  "rule_Section rule_1_3_1 = ''Filesystem''"
  "rule_Section rule_1_3_2 = ''Filesystem''"
  "rule_Section rule_1_4_1 = ''Filesystem''"
  "rule_Section rule_1_4_2 = ''Filesystem''"
  "rule_Section rule_1_1_1_1 = ''Filesystem''"
  "rule_Section rule_1_1_1_2 = ''Filesystem''"
  "rule_Section rule_1_1_1_3 = ''Filesystem''"
  "rule_Section rule_1_1_1_4 = ''Filesystem''"
  "rule_Section rule_1_1_1_5 = ''Filesystem''"
  "rule_Section rule_1_1_1_6 = ''Filesystem''"
  "rule_Section rule_1_1_1_7 = ''Filesystem''"
  "rule_Section rule_1_1_2 = ''Filesystem''"
  "rule_Section rule_1_1_3 = ''Filesystem''"
  "rule_Section rule_1_1_4 = ''Filesystem''"
  "rule_Section rule_1_1_5 = ''Filesystem''"
  "rule_Section rule_1_1_6 = ''Filesystem''"
  "rule_Section rule_1_1_7 = ''Filesystem''"
  "rule_Section rule_1_1_8 = ''Filesystem''"
  "rule_Section rule_1_1_9 = ''Filesystem''"
  "rule_Section rule_1_1_10 = ''Filesystem''"
  "rule_Section rule_1_1_11 = ''Filesystem''"
  "rule_Section rule_1_1_12 = ''Filesystem''"
  "rule_Section rule_1_1_13 = ''Filesystem''"
  "rule_Section rule_1_1_14 = ''Filesystem''"
  "rule_Section rule_1_1_15 = ''Filesystem''"
  "rule_Section rule_1_1_16 = ''Filesystem''"
  "rule_Section rule_1_1_17 = ''Filesystem''"
  "rule_Section rule_1_1_18 = ''Filesystem''"
  "rule_Section rule_1_5_2 = ''Kernel''"
  "rule_Section rule_1_5_3 = ''Kernel''"
  "rule_Section rule_1_6_1 = ''AppArmor''"
  "rule_Section rule_1_6_2 = ''AppArmor''"
  "rule_Section rule_1_6_3 = ''AppArmor''"
  "rule_Section rule_1_6_4 = ''AppArmor''"
  "rule_Section rule_1_7_1 = ''Banners''"
  "rule_Section rule_1_7_2 = ''Banners''"
  "rule_Section rule_1_7_3 = ''Banners''"
  "rule_Section rule_1_7_4 = ''Banners''"
  "rule_Section rule_1_7_5 = ''Banners''"
  "rule_Section rule_1_7_6 = ''Banners''"
  "rule_Section rule_1_7_7 = ''Banners''"
  "rule_Section rule_1_7_8 = ''Banners''"
  "rule_Section rule_1_7_9 = ''Banners''"
  "rule_Section rule_3_2_5 = cisCatNetwork"
  "rule_Section rule_3_2_6 = cisCatNetwork"
  "rule_Section rule_3_2_7 = cisCatNetwork"
  "rule_Section rule_3_2_8 = cisCatNetwork"
  "rule_Section rule_3_2_9 = cisCatNetwork"
  "rule_Section rule_3_2_10 = cisCatNetwork"
  "rule_Section rule_3_2_11 = cisCatNetwork"
  "rule_Section rule_3_2_12 = cisCatNetwork"
  "rule_Section rule_3_2_13 = cisCatNetwork"
  "rule_Section rule_3_2_14 = cisCatNetwork"
  "rule_Section rule_3_2_15 = cisCatNetwork"
  "rule_Section rule_3_2_16 = cisCatNetwork"
  "rule_Section rule_3_2_17 = cisCatNetwork"
  "rule_Section rule_3_2_18 = cisCatNetwork"
  "rule_Section rule_3_2_22 = cisCatNetwork"
  "rule_Section rule_3_2_23 = cisCatNetwork"
  "rule_Section rule_3_2_24 = cisCatNetwork"
  "rule_Section rule_3_2_25 = cisCatNetwork"
  "rule_Section rule_3_2_26 = cisCatNetwork"
  "rule_Section rule_3_2_27 = cisCatNetwork"
  "rule_Section rule_3_2_28 = cisCatNetwork"
  "rule_Section rule_3_2_29 = cisCatNetwork"
  "rule_Section rule_3_2_30 = cisCatNetwork"
  "rule_Section rule_3_2_31 = cisCatNetwork"
  "rule_Section rule_3_2_32 = cisCatNetwork"
  "rule_Section rule_3_2_33 = cisCatNetwork"
  "rule_Section rule_3_2_34 = cisCatNetwork"
  "rule_Section rule_3_2_35 = cisCatNetwork"
  "rule_Section rule_3_2_36 = cisCatNetwork"
  "rule_Section rule_3_2_37 = cisCatNetwork"
  "rule_Section rule_3_2_38 = cisCatNetwork"
  "rule_Section rule_3_2_39 = cisCatNetwork"
  "rule_Section rule_3_4_1 = cisCatNetwork"
  "rule_Section rule_3_4_2 = cisCatNetwork"
  "rule_Section rule_3_4_3 = cisCatNetwork"
  "rule_Section rule_3_4_4 = cisCatNetwork"
  "rule_Section rule_3_4_5 = cisCatNetwork"
  "rule_Section rule_3_3_1 = cisCatMAC"
  "rule_Section rule_3_3_2 = cisCatMAC"
  "rule_Section rule_3_5_1 = cisCatNetwork"
  "rule_Section rule_3_5_1_1 = cisCatNetwork"
  "rule_Section rule_3_5_1_2 = cisCatNetwork"
  "rule_Section rule_3_5_1_3 = cisCatNetwork"
  "rule_Section rule_3_5_1_4 = cisCatNetwork"
  "rule_Section rule_3_5_1_5 = cisCatNetwork"
  "rule_Section rule_3_5_1_6 = cisCatNetwork"
  "rule_Section rule_3_5_1_7 = cisCatNetwork"
  "rule_Section rule_3_6_1 = cisCatNetwork"
  "rule_Section rule_4_1_1 = ''Audit''"
  "rule_Section rule_4_1_1_1 = ''Audit''"
  "rule_Section rule_4_1_1_2 = ''Audit''"
  "rule_Section rule_4_1_1_3 = ''Audit''"
  "rule_Section rule_4_1_1_4 = ''Audit''"
  "rule_Section rule_4_1_1_5 = ''Audit''"
  "rule_Section rule_4_1_2 = ''Audit''"
  "rule_Section rule_4_1_3 = ''Audit''"
  "rule_Section rule_4_1_4 = ''Audit''"
  "rule_Section rule_4_1_5 = ''Audit''"
  "rule_Section rule_4_1_6 = ''Audit''"
  "rule_Section rule_4_1_7 = ''Audit''"
  "rule_Section rule_4_1_8 = ''Audit''"
  "rule_Section rule_4_1_9 = ''Audit''"
  "rule_Section rule_4_1_10 = ''Audit''"
  "rule_Section rule_4_1_11 = ''Audit''"
  "rule_Section rule_4_1_12 = ''Audit''"
  "rule_Section rule_4_1_13 = ''Audit''"
  "rule_Section rule_4_1_14 = ''Audit''"
  "rule_Section rule_4_1_15 = ''Audit''"
  "rule_Section rule_4_1_16 = ''Audit''"
  "rule_Section rule_4_1_17 = ''Audit''"
  "rule_Section rule_4_2_1 = ''Audit''"
  "rule_Section rule_4_2_2 = ''Audit''"
  "rule_Section rule_4_2_2_2 = ''Audit''"
  "rule_Section rule_4_2_2_3 = ''Audit''"
  "rule_Section rule_4_2_3 = ''Audit''"
  "rule_Section rule_4_2_4 = ''Audit''"
  "rule_Section rule_4_2_5 = ''Audit''"
  "rule_Section rule_4_2_6 = ''Audit''"
  "rule_Section rule_4_2_7 = ''Audit''"
  "rule_Section rule_4_3_1 = ''Audit''"
  "rule_Section rule_5_3_1 = cisCatAuth"
  "rule_Section rule_5_4_1 = cisCatAuth"
  "rule_Section rule_5_3_4 = cisCatAuth"
  "rule_Section rule_5_3_2 = cisCatAuth"
  "rule_Section rule_5_3_3 = cisCatAuth"
  "rule_Section rule_5_4_2 = cisCatAuth"
  "rule_Section rule_5_4_3 = cisCatAuth"
  "rule_Section rule_5_4_4 = cisCatAuth"
  "rule_Section rule_5_4_5 = cisCatAuth"
  "rule_Section rule_5_4_6 = cisCatAuth"
  "rule_Section rule_5_4_7 = cisCatAuth"
  "rule_Section rule_5_4_8 = cisCatAuth"
  "rule_Section rule_5_4_9 = cisCatAuth"
  "rule_Section rule_5_4_10 = cisCatAuth"
  "rule_Section rule_5_4_11 = cisCatAuth"
  "rule_Section rule_5_4_12 = cisCatAuth"
  "rule_Section rule_5_4_13 = cisCatAuth"
  "rule_Section rule_5_4_14 = cisCatAuth"
  "rule_Section rule_5_4_15 = cisCatAuth"
  "rule_Section rule_5_4_16 = cisCatAuth"
  "rule_Section rule_5_4_17 = cisCatAuth"
  "rule_Section rule_5_3_5 = cisCatAuth"
  "rule_Section rule_5_5_1 = cisCatAuth"
  "rule_Section rule_5_5_2 = cisCatAuth"
  "rule_Section rule_5_5_3 = cisCatAuth"
  "rule_Section rule_5_5_4 = cisCatAuth"
  "rule_Section rule_5_1_1 = ''Cron''"
  "rule_Section rule_5_1_2 = ''Cron''"
  "rule_Section rule_5_1_3 = ''Cron''"
  "rule_Section rule_5_1_4 = ''Cron''"
  "rule_Section rule_5_1_5 = ''Cron''"
  "rule_Section rule_5_1_6 = ''Cron''"
  "rule_Section rule_5_1_7 = ''Cron''"
  "rule_Section rule_5_1_8 = ''Cron''"
  "rule_Section rule_5_1_9 = ''Cron''"
  "rule_Section rule_5_1_10 = ''Cron''"
  "rule_Section rule_5_1_11 = ''Cron''"
  "rule_Section rule_5_1_12 = ''Cron''"
  "rule_Section rule_5_1_13 = ''Cron''"
  "rule_Section rule_5_1_14 = ''Cron''"
  "rule_Section rule_5_1_15 = ''Cron''"
  "rule_Section rule_5_1_16 = ''Cron''"
  "rule_Section rule_5_1_17 = ''Cron''"
  "rule_Section rule_5_1_18 = ''Cron''"
  "rule_Section rule_5_1_19 = ''Cron''"
  "rule_Section rule_5_1_20 = ''Cron''"
  "rule_Section rule_5_1_21 = ''Cron''"
  "rule_Section rule_5_1_22 = ''Cron''"
  "rule_Section rule_5_1_23 = ''Cron''"
  "rule_Section rule_1_1_19 = ''Filesystem''"
  "rule_Section rule_1_1_20 = ''Filesystem''"
  "rule_Section rule_1_1_21 = ''Filesystem''"
  "rule_Section rule_1_1_22 = ''Filesystem''"
  "rule_Section rule_1_1_23 = ''Filesystem''"
  "rule_Section rule_1_1_24 = ''Filesystem''"
  "rule_Section rule_1_1_25 = ''Filesystem''"
  "rule_Section rule_1_1_26 = ''Filesystem''"
  "rule_Section rule_1_1_27 = ''Filesystem''"
  "rule_Section rule_1_1_28 = ''Filesystem''"
  "rule_Section rule_1_1_29 = ''Filesystem''"
  "rule_Section rule_1_1_30 = ''Filesystem''"
  "rule_Section rule_1_1_31 = ''Filesystem''"
  "rule_Section rule_1_1_32 = ''Filesystem''"
  "rule_Section rule_6_1_1 = cisCatFiles"
  "rule_Section rule_6_1_2 = cisCatFiles"
  "rule_Section rule_6_1_3 = cisCatFiles"
  "rule_Section rule_6_1_4 = cisCatFiles"
  "rule_Section rule_6_1_5 = cisCatFiles"
  "rule_Section rule_6_1_6 = cisCatFiles"
  "rule_Section rule_6_1_7 = cisCatFiles"
  "rule_Section rule_6_1_8 = cisCatFiles"
  "rule_Section rule_6_1_9 = cisCatFiles"
  "rule_Section rule_6_1_10 = cisCatFiles"
  "rule_Section rule_6_1_11 = cisCatFiles"
  "rule_Section rule_6_1_12 = cisCatFiles"
  "rule_Section rule_6_1_13 = cisCatFiles"
  "rule_Section rule_6_1_15 = cisCatFiles"
  "rule_Section rule_6_1_16 = cisCatFiles"
  "rule_Section rule_6_1_17 = cisCatFiles"
  "rule_Section rule_6_1_18 = cisCatFiles"
  "rule_Section rule_6_1_19 = cisCatFiles"
  "rule_Section rule_6_1_20 = cisCatFiles"
  "rule_Section rule_6_1_21 = cisCatFiles"
  "rule_Section rule_6_1_22 = cisCatFiles"
  "rule_Section rule_6_1_23 = cisCatFiles"
  "rule_Section rule_6_1_24 = cisCatFiles"
  "rule_Section rule_6_1_25 = cisCatFiles"
  "rule_Section rule_6_1_26 = cisCatFiles"
  "rule_Section rule_6_1_27 = cisCatFiles"
  "rule_Section rule_6_1_28 = cisCatFiles"
  "rule_Section rule_6_1_29 = cisCatFiles"
  "rule_Section rule_6_1_30 = cisCatFiles"
  "rule_Section rule_6_1_31 = cisCatFiles"
  "rule_Section rule_6_1_32 = cisCatFiles"
  "rule_Section rule_6_1_33 = cisCatFiles"
  "rule_Section rule_6_1_34 = cisCatFiles"
  "rule_Section rule_6_1_35 = cisCatFiles"
  "rule_Section rule_6_1_36 = cisCatFiles"
  "rule_Section rule_6_1_37 = cisCatFiles"
  "rule_Section rule_6_1_38 = cisCatFiles"
  "rule_Section rule_6_2_1 = ''Users''"
  "rule_Section rule_6_2_2 = ''Users''"
  "rule_Section rule_6_2_3 = ''Users''"
  "rule_Section rule_6_1_14 = cisCatFiles"
  "rule_Section rule_6_2_4 = ''Users''"
  "rule_Section rule_6_2_5 = ''Users''"
  "rule_Section rule_6_2_6 = ''Users''"
  "rule_Section rule_6_2_7 = ''Users''"
  "rule_Section rule_6_2_8 = ''Users''"
  "rule_Section rule_6_2_9 = ''Users''"
  "rule_Section rule_6_2_10 = ''Users''"
  "rule_Section rule_6_2_11 = ''Users''"
  "rule_Section rule_6_2_12 = ''Users''"
  "rule_Section rule_6_2_13 = ''Users''"
  "rule_Section rule_6_2_14 = ''Users''"
  "rule_Section rule_6_2_15 = ''Users''"
  "rule_Section rule_6_2_16 = ''Users''"
  "rule_Section rule_6_2_17 = ''Users''"
  "rule_Section rule_6_2_18 = ''Users''"
  "rule_Section rule_V_238213 = cisCatSSH"
  "rule_Section rule_V_238214 = cisCatSSH"
  "rule_Section rule_V_238215 = cisCatSSH"
  "rule_Section rule_V_238221 = cisCatSSH"
  "rule_Section rule_V_238226 = cisCatSSH"
  "rule_Section rule_V_238380 = cisCatAuth"
  "rule_Section rule_V_238382 = cisCatAuth"
  "rule_Section rule_V_238383 = cisCatAuth"
  "rule_Section rule_V_238384 = cisCatAuth"
  by (simp_all add: rule_defs)

end
