(* ===== verification/Cis_Ssh.thy ===== *)
theory Cis_Ssh
  imports Cis_Rules
begin

text \<open>
  The rules on the SSH server. One definition per rule of internal/cis/rules.go, named by the rule.
\<close>

section \<open>Checks\<close>

definition check_5_2_1 :: "cis_host \<Rightarrow> security_info \<Rightarrow> kernel_security_info \<Rightarrow> cis_result" where
  "check_5_2_1 env sec ks =
     (let r = ruleByID cisRuleSSH52
      in case Stat env sshdConfigPath of
             None \<Rightarrow> skipr r ''sshd_config not found''
           | Some fi \<Rightarrow>
               (if Perm (file_Mode fi) AND NOT 0b110000000 \<noteq> 0
                  then failr r (''sshd_config mode '' @ fmt_o (Perm (file_Mode fi)))
                         ''chmod 600 /etc/ssh/sshd_config''
                else cis_pass r))"

definition check_5_2_3 :: "cis_host \<Rightarrow> security_info \<Rightarrow> kernel_security_info \<Rightarrow> cis_result" where
  "check_5_2_3 env sec ks =
     (let r = ruleByID ''5.2.3''
      in case ReadDir env sshHostKeyDir of
             None \<Rightarrow> skipr r cisSkipSSHDirUnreadable
           | Some entries \<Rightarrow>
               (let bad = [];
                    found =
                      list_ex
                        (\<lambda>e.
                          let name = entry_Name e
                          in if \<not> has_prefix name ''ssh_host_'' \<or> \<not> has_suffix name ''_key.pub''
                               then False
                             else True)
                        entries;
                    bad =
                      bad @
                      concat (map
                                (\<lambda>e.
                                  let name = entry_Name e
                                  in if \<not> has_prefix name ''ssh_host_'' \<or>
                                        \<not> has_suffix name ''_key.pub''
                                       then []
                                     else case entry_Info e of
                                              None \<Rightarrow> []
                                            | Some fi \<Rightarrow>
                                                (if Perm (file_Mode fi) AND NOT 0b110100100 \<noteq> 0
                                                   then [name @ '' ('' @
                                                         fmt_o (Perm (file_Mode fi)) @ '')'']
                                                 else []))
                                entries)
                in if \<not> found then skipr r ''no SSH public host key files found''
                   else if bad \<noteq> []
                     then failr r
                            (''SSH public host key files with excessive permissions: '' @
                             join bad '', '') ''chmod 644 /etc/ssh/ssh_host_*_key.pub''
                   else cis_pass r))"

definition check_5_2_4 :: "cis_host \<Rightarrow> security_info \<Rightarrow> kernel_security_info \<Rightarrow> cis_result" where
  "check_5_2_4 env sec ks =
     (let r = ruleByID ''5.2.4''
      in case ReadDir env sshHostKeyDir of
             None \<Rightarrow> skipr r cisSkipSSHDirUnreadable
           | Some entries \<Rightarrow>
               (let bad = [];
                    found =
                      list_ex
                        (\<lambda>e.
                          let name = entry_Name e
                          in if \<not> has_prefix name ''ssh_host_'' \<or> has_suffix name ''.pub''
                               then False
                             else if \<not> has_suffix name ''_key'' then False
                             else True)
                        entries;
                    bad =
                      bad @
                      concat (map
                                (\<lambda>e.
                                  let name = entry_Name e
                                  in if \<not> has_prefix name ''ssh_host_'' \<or> has_suffix name ''.pub''
                                       then []
                                     else if \<not> has_suffix name ''_key'' then []
                                     else case entry_Info e of
                                              None \<Rightarrow> []
                                            | Some fi \<Rightarrow>
                                                (if Perm (file_Mode fi) AND NOT 0b110000000 \<noteq> 0
                                                   then [name @ '' ('' @
                                                         fmt_o (Perm (file_Mode fi)) @ '')'']
                                                 else []))
                                entries)
                in if \<not> found then skipr r ''no SSH private host key files found''
                   else if bad \<noteq> []
                     then failr r
                            (''SSH private host key files with excessive permissions: '' @
                             join bad '', '') ''chmod 600 /etc/ssh/ssh_host_*_key''
                   else cis_pass r))"

definition check_5_2_2 :: "security_info \<Rightarrow> kernel_security_info \<Rightarrow> cis_result" where
  "check_5_2_2 sec ks =
     (let r = ruleByID ''5.2.2''
      in if security_SSHAllowUsers sec = [] \<and> security_SSHAllowGroups sec = []
           then failr r ''AllowUsers and AllowGroups not configured''
                  ''set AllowUsers or AllowGroups in /etc/ssh/sshd_config''
         else cis_pass r)"

definition check_5_2_5 :: "cis_host \<Rightarrow> security_info \<Rightarrow> kernel_security_info \<Rightarrow> cis_result" where
  "check_5_2_5 env sec ks =
     (let r = ruleByID ''5.2.5'';
          level = security_SSHLogLevel sec;
          level = (if level = [] then INFO else level)
      in if level \<noteq> INFO \<and> level \<noteq> ''VERBOSE''
           then failr r (''LogLevel is '' @ Quote env level)
                  ''set LogLevel INFO in /etc/ssh/sshd_config''
         else cis_pass r)"

definition check_5_2_6 :: "security_info \<Rightarrow> kernel_security_info \<Rightarrow> cis_result" where
  "check_5_2_6 sec ks =
     (let r = ruleByID ''5.2.6''
      in if security_SSHX11Forwarding sec
           then failr r ''X11Forwarding yes'' ''set X11Forwarding no in /etc/ssh/sshd_config''
         else cis_pass r)"

definition check_5_2_7 :: "security_info \<Rightarrow> kernel_security_info \<Rightarrow> cis_result" where
  "check_5_2_7 sec ks =
     (let r = ruleByID ''5.2.7'';
          v = security_SSHMaxAuthTries sec;
          v = (if v = 0 then 6 else v)
      in if 4 < v
           then failr r (''MaxAuthTries is '' @ itoa v)
                  ''set MaxAuthTries 4 in /etc/ssh/sshd_config''
         else cis_pass r)"

definition check_5_2_8 :: "security_info \<Rightarrow> kernel_security_info \<Rightarrow> cis_result" where
  "check_5_2_8 sec ks =
     (let r = ruleByID ''5.2.8''
      in if \<not> security_SSHIgnoreRhosts sec
           then failr r ''IgnoreRhosts is disabled''
                  ''set IgnoreRhosts yes in /etc/ssh/sshd_config''
         else cis_pass r)"

definition check_5_2_9 :: "security_info \<Rightarrow> kernel_security_info \<Rightarrow> cis_result" where
  "check_5_2_9 sec ks =
     (let r = ruleByID ''5.2.9''
      in if security_SSHHostbasedAuth sec
           then failr r ''HostbasedAuthentication is enabled''
                  ''set HostbasedAuthentication no in /etc/ssh/sshd_config''
         else cis_pass r)"

definition check_5_2_10 :: "security_info \<Rightarrow> kernel_security_info \<Rightarrow> cis_result" where
  "check_5_2_10 sec ks =
     (let r = ruleByID ''5.2.10''
      in if security_SSHPermitRoot sec
           then failr r
                  (''PermitRootLogin is not '' @ squote @ ''no'' @ squote @ '' or '' @ squote @
                   ''prohibit-password'' @ squote)
                  ''set PermitRootLogin no in /etc/ssh/sshd_config''
         else cis_pass r)"

definition check_5_2_11 :: "security_info \<Rightarrow> kernel_security_info \<Rightarrow> cis_result" where
  "check_5_2_11 sec ks =
     (let r = ruleByID ''5.2.11''
      in if security_SSHPermitEmptyPwd sec
           then failr r ''PermitEmptyPasswords yes''
                  ''set PermitEmptyPasswords no in /etc/ssh/sshd_config''
         else cis_pass r)"

definition check_5_2_12 :: "security_info \<Rightarrow> kernel_security_info \<Rightarrow> cis_result" where
  "check_5_2_12 sec ks =
     (let r = ruleByID ''5.2.12''
      in if security_SSHPermitUserEnv sec
           then failr r
                  (''PermitUserEnvironment yes '' @ em_dash @
                   '' users can override PATH/LD_PRELOAD'')
                  ''set PermitUserEnvironment no in /etc/ssh/sshd_config''
         else cis_pass r)"

definition check_5_2_13 :: "security_info \<Rightarrow> kernel_security_info \<Rightarrow> cis_result" where
  "check_5_2_13 sec ks =
     (let r = ruleByID ''5.2.13''
      in if security_SSHClientAliveInterval sec = 0
           then failr r (''ClientAliveInterval not set '' @ em_dash @ '' sessions never time out'')
                  ''set ClientAliveInterval 300 and ClientAliveCountMax 3 in /etc/ssh/sshd_config''
         else cis_pass r)"

definition check_5_2_14 :: "security_info \<Rightarrow> kernel_security_info \<Rightarrow> cis_result" where
  "check_5_2_14 sec ks =
     (let r = ruleByID ''5.2.14'';
          v = security_SSHLoginGraceTime sec;
          v = (if v = 0 then 120 else v)
      in if 60 < v
           then failr r (''LoginGraceTime is '' @ itoa v @ ''s'')
                  ''set LoginGraceTime 60 in /etc/ssh/sshd_config''
         else cis_pass r)"

definition check_5_2_15 :: "security_info \<Rightarrow> kernel_security_info \<Rightarrow> cis_result" where
  "check_5_2_15 sec ks =
     (let r = ruleByID ''5.2.15''
      in if security_SSHBanner sec = [] \<or> equal_fold (security_SSHBanner sec) ''none''
           then failr r ''Banner not configured''
                  ''set Banner /etc/issue.net in /etc/ssh/sshd_config''
         else cis_pass r)"

definition check_5_2_16 :: "security_info \<Rightarrow> kernel_security_info \<Rightarrow> cis_result" where
  "check_5_2_16 sec ks =
     (let r = ruleByID ''5.2.16'';
          v = security_SSHClientAliveInterval sec
      in if v = 0
           then failr r
                  (''ClientAliveInterval not set '' @ em_dash @ '' idle SSH sessions never expire'')
                  ''set ClientAliveInterval 900 and ClientAliveCountMax 0 in /etc/ssh/sshd_config''
         else if 900 < v
           then failr r (''ClientAliveInterval '' @ itoa v @ ''s exceeds 900s limit'')
                  ''set ClientAliveInterval 900 in /etc/ssh/sshd_config''
         else cis_pass r)"

definition check_5_2_17 :: "security_info \<Rightarrow> kernel_security_info \<Rightarrow> cis_result" where
  "check_5_2_17 sec ks =
     (let r = ruleByID ''5.2.17''
      in if security_SSHConfigUnreadable sec then unverifiedr r cisSkipSSHConfigUnreadable
         else if security_SSHTCPForwarding sec
           then failr r
                  (''AllowTcpForwarding yes '' @ em_dash @
                   '' can be used to pivot through this host'')
                  ''set AllowTcpForwarding no in /etc/ssh/sshd_config''
         else cis_pass r)"

definition check_5_2_18 :: "cis_host \<Rightarrow> security_info \<Rightarrow> kernel_security_info \<Rightarrow> cis_result" where
  "check_5_2_18 env sec ks =
     (let r = ruleByID ''5.2.18''
      in if security_SSHConfigUnreadable sec
           then unverifiedr r (''sshd_config not readable '' @ em_dash @ '' run as root'')
         else if security_SSHMaxStartups sec = []
           then failr r
                  ''MaxStartups not set (default 10:30:100 allows 100 unauthenticated connections)''
                  ''set MaxStartups 10:30:60 in /etc/ssh/sshd_config''
         else let (start, _, full, ok) = parseMaxStartups (security_SSHMaxStartups sec)
              in if \<not> ok
                   then unverifiedr r
                          (''MaxStartups value '' @ Quote env (security_SSHMaxStartups sec) @
                           '' could not be parsed'')
                 else if 10 < start \<or> 60 < full
                   then failr r
                          (''MaxStartups '' @ security_SSHMaxStartups sec @
                           '' exceeds CIS limit (start '' @ [CHR 0xE2, CHR 0x89, CHR 0xA4] @
                           '' 10, full '' @ [CHR 0xE2, CHR 0x89, CHR 0xA4] @ '' 60)'')
                          ''set MaxStartups 10:30:60 in /etc/ssh/sshd_config''
                 else cis_pass r)"

definition check_5_2_19 :: "security_info \<Rightarrow> kernel_security_info \<Rightarrow> cis_result" where
  "check_5_2_19 sec ks =
     (let r = ruleByID ''5.2.19'';
          v = security_SSHMaxSessions sec;
          v = (if v = 0 then 10 else v)
      in if 10 < v
           then failr r (''MaxSessions is '' @ itoa v)
                  ''set MaxSessions 10 in /etc/ssh/sshd_config''
         else cis_pass r)"

definition check_5_2_20 :: "security_info \<Rightarrow> kernel_security_info \<Rightarrow> cis_result" where
  "check_5_2_20 sec ks =
     (let r = ruleByID ''5.2.20''
      in if security_SSHConfigUnreadable sec then unverifiedr r cisSkipSSHConfigUnreadable
         else if security_SSHPasswordAuth sec
           then failr r
                  (''PasswordAuthentication yes '' @ em_dash @
                   '' password logins permitted over SSH'')
                  ''set PasswordAuthentication no in /etc/ssh/sshd_config''
         else cis_pass r)"

definition check_5_2_21 :: "security_info \<Rightarrow> kernel_security_info \<Rightarrow> cis_result" where
  "check_5_2_21 sec ks =
     (let r = ruleByID ''5.2.21''
      in if security_SSHConfigUnreadable sec then unverifiedr r cisSkipSSHConfigUnreadable
         else if \<not> security_SSHStrictModes sec
           then failr r
                  (''StrictModes no '' @ em_dash @
                   '' SSH ignores file-permission checks on user keys and home dirs'')
                  ''set StrictModes yes in /etc/ssh/sshd_config''
         else cis_pass r)"

definition check_5_2_22 :: "security_info \<Rightarrow> kernel_security_info \<Rightarrow> cis_result" where
  "check_5_2_22 sec ks =
     (let r = ruleByID ''5.2.22''
      in if security_SSHConfigUnreadable sec then unverifiedr r cisSkipSSHConfigUnreadable
         else if security_SSHAgentForwarding sec
           then failr r
                  (''AllowAgentForwarding yes '' @ em_dash @
                   '' SSH agent can be hijacked if this host is compromised'')
                  ''set AllowAgentForwarding no in /etc/ssh/sshd_config''
         else cis_pass r)"

definition check_5_2_23 :: "security_info \<Rightarrow> kernel_security_info \<Rightarrow> cis_result" where
  "check_5_2_23 sec ks =
     (let r = ruleByID ''5.2.23''
      in if security_SSHConfigUnreadable sec then unverifiedr r cisSkipSSHConfigUnreadable
         else if security_SSHProtocol1 sec
           then failr r
                  (''Protocol 1 is enabled '' @ em_dash @ '' uses obsolete, broken cryptography'')
                  (''remove any '' @ squote @ ''Protocol'' @ squote @ '' directive (or set '' @
                   squote @ ''Protocol 2'' @ squote @ '') from /etc/ssh/sshd_config'')
         else cis_pass r)"

definition check_5_2_24 :: "security_info \<Rightarrow> kernel_security_info \<Rightarrow> cis_result" where
  "check_5_2_24 sec ks =
     (let r = ruleByID ''5.2.24''
      in if security_SSHConfigUnreadable sec then unverifiedr r cisSkipSSHConfigUnreadable
         else if \<not> security_SSHPubkeyAuth sec
           then failr r
                  (''PubkeyAuthentication no '' @ em_dash @
                   '' public-key login disabled, only password auth available'')
                  ''set PubkeyAuthentication yes in /etc/ssh/sshd_config''
         else cis_pass r)"

definition check_5_2_25 :: "cis_host \<Rightarrow> security_info \<Rightarrow> kernel_security_info \<Rightarrow> cis_result" where
  "check_5_2_25 env sec ks =
     (let r = ruleByID ''5.2.25''
      in if security_SSHConfigUnreadable sec then unverifiedr r cisSkipSSHConfigUnreadable
         else if security_SSHCiphers sec = []
           then unverifiedr r ''Ciphers not available (run as root for sshd -T)''
         else case first_some
                (\<lambda>algo.
                  let algo = to_lower (trim_space algo)
                  in if ((has_suffix algo ''-cbc'' \<or> has_prefix algo ''arcfour'') \<or>
                         has_prefix algo ''3des'') \<or>
                        has_prefix algo ''blowfish''
                       then Some (failr r (''weak cipher in Ciphers list: '' @ Quote env algo)
                                    ''set Ciphers aes128-ctr,aes192-ctr,aes256-ctr,aes128-gcm@openssh.com,aes256-gcm@openssh.com,chacha20-poly1305@openssh.com'')
                     else None)
                (split_byte (security_SSHCiphers sec) (CHR '','')) of
                  Some c \<Rightarrow> c
                | None \<Rightarrow> cis_pass r)"

definition check_5_2_26 :: "cis_host \<Rightarrow> security_info \<Rightarrow> kernel_security_info \<Rightarrow> cis_result" where
  "check_5_2_26 env sec ks =
     (let r = ruleByID ''5.2.26''
      in if security_SSHConfigUnreadable sec then unverifiedr r cisSkipSSHConfigUnreadable
         else if security_SSHMACs sec = []
           then unverifiedr r ''MACs not available (run as root for sshd -T)''
         else case first_some
                (\<lambda>algo.
                  let algo = to_lower (trim_space algo)
                  in if (((contains algo ''md5'' \<or> contains algo ''sha1'') \<or>
                          contains algo ''ripemd'') \<or>
                         has_prefix algo ''umac-64'') \<or>
                        has_prefix algo ''umac-96''
                       then Some (failr r (''weak MAC in MACs list: '' @ Quote env algo)
                                    ''set MACs hmac-sha2-256,hmac-sha2-512,hmac-sha2-256-etm@openssh.com,hmac-sha2-512-etm@openssh.com'')
                     else None)
                (split_byte (security_SSHMACs sec) (CHR '','')) of
                  Some c \<Rightarrow> c
                | None \<Rightarrow> cis_pass r)"

definition check_5_2_27 :: "cis_host \<Rightarrow> security_info \<Rightarrow> kernel_security_info \<Rightarrow> cis_result" where
  "check_5_2_27 env sec ks =
     (let r = ruleByID ''5.2.27''
      in if security_SSHConfigUnreadable sec then unverifiedr r cisSkipSSHConfigUnreadable
         else if security_SSHKexAlgorithms sec = []
           then unverifiedr r ''KexAlgorithms not available (run as root for sshd -T)''
         else case first_some
                (\<lambda>algo.
                  let algo = to_lower (trim_space algo)
                  in if contains algo ''sha1'' \<or> contains algo ''group1-''
                       then Some (failr r (''weak key exchange algorithm: '' @ Quote env algo)
                                    ''set KexAlgorithms curve25519-sha256,curve25519-sha256@libssh.org,diffie-hellman-group14-sha256,diffie-hellman-group16-sha512,diffie-hellman-group18-sha512,ecdh-sha2-nistp256,ecdh-sha2-nistp384,ecdh-sha2-nistp521'')
                     else None)
                (split_byte (security_SSHKexAlgorithms sec) (CHR '','')) of
                  Some c \<Rightarrow> c
                | None \<Rightarrow> cis_pass r)"

definition check_5_2_28 :: "cis_host \<Rightarrow> security_info \<Rightarrow> kernel_security_info \<Rightarrow> cis_result" where
  "check_5_2_28 env sec ks =
     checkFileOwnerRootRoot env (ruleByID ''5.2.28'') sshdConfigPath
       ''chown root:root /etc/ssh/sshd_config''"

definition check_5_2_29 :: "cis_host \<Rightarrow> security_info \<Rightarrow> kernel_security_info \<Rightarrow> cis_result" where
  "check_5_2_29 env sec ks =
     (let r = ruleByID ''5.2.29''
      in case ReadDir env sshHostKeyDir of
             None \<Rightarrow> skipr r cisSkipSSHDirUnreadable
           | Some entries \<Rightarrow>
               (let bad = [];
                    found =
                      list_ex
                        (\<lambda>e.
                          let name = entry_Name e
                          in if \<not> has_prefix name ''ssh_host_'' \<or> \<not> has_suffix name ''_key.pub''
                               then False
                             else True)
                        entries;
                    bad =
                      bad @
                      concat (map
                                (\<lambda>e.
                                  let name = entry_Name e
                                  in if \<not> has_prefix name ''ssh_host_'' \<or>
                                        \<not> has_suffix name ''_key.pub''
                                       then []
                                     else case entry_Info e of
                                              None \<Rightarrow> []
                                            | Some fi \<Rightarrow>
                                                (case file_Sys fi of
                                                     None \<Rightarrow> []
                                                   | Some stat \<Rightarrow>
                                                       (if owner_Uid stat \<noteq> 0 \<or> owner_Gid stat \<noteq> 0
                                                          then [name @ '' (uid='' @
                                                                itoa (owner_Uid stat) @ '' gid='' @
                                                                itoa (owner_Gid stat) @ '')'']
                                                        else [])))
                                entries)
                in if \<not> found then skipr r ''no SSH public host key files found''
                   else if bad \<noteq> []
                     then failr r
                            (''SSH public host key files not owned by root:root: '' @
                             join bad '', '') ''chown root:root /etc/ssh/ssh_host_*_key.pub''
                   else cis_pass r))"

definition check_5_2_30 :: "cis_host \<Rightarrow> security_info \<Rightarrow> kernel_security_info \<Rightarrow> cis_result" where
  "check_5_2_30 env sec ks =
     (let r = ruleByID ''5.2.30''
      in case ReadDir env sshHostKeyDir of
             None \<Rightarrow> skipr r cisSkipSSHDirUnreadable
           | Some entries \<Rightarrow>
               (let bad = [];
                    found =
                      list_ex
                        (\<lambda>e.
                          let name = entry_Name e
                          in if \<not> has_prefix name ''ssh_host_'' \<or> has_suffix name ''.pub''
                               then False
                             else if \<not> has_suffix name ''_key'' then False
                             else True)
                        entries;
                    bad =
                      bad @
                      concat (map
                                (\<lambda>e.
                                  let name = entry_Name e
                                  in if \<not> has_prefix name ''ssh_host_'' \<or> has_suffix name ''.pub''
                                       then []
                                     else if \<not> has_suffix name ''_key'' then []
                                     else case entry_Info e of
                                              None \<Rightarrow> []
                                            | Some fi \<Rightarrow>
                                                (case file_Sys fi of
                                                     None \<Rightarrow> []
                                                   | Some stat \<Rightarrow>
                                                       (if owner_Uid stat \<noteq> 0 \<or> owner_Gid stat \<noteq> 0
                                                          then [name @ '' (uid='' @
                                                                itoa (owner_Uid stat) @ '' gid='' @
                                                                itoa (owner_Gid stat) @ '')'']
                                                        else [])))
                                entries)
                in if \<not> found then skipr r ''no SSH private host key files found''
                   else if bad \<noteq> []
                     then failr r
                            (''SSH private host key files not owned by root:root: '' @
                             join bad '', '') ''chown root:root /etc/ssh/ssh_host_*_key''
                   else cis_pass r))"

definition check_V_238213 :: "cis_host \<Rightarrow> security_info \<Rightarrow> kernel_security_info \<Rightarrow> cis_result" where
  "check_V_238213 env sec ks =
     (let r = ruleByID ''V-238213''
      in if security_SSHCiphers sec = []
           then failr r
                  (''Ciphers not explicitly configured '' @ em_dash @
                   '' defaults may include weak ciphers'')
                  ''set Ciphers aes128-ctr,aes192-ctr,aes256-ctr,aes128-gcm@openssh.com,aes256-gcm@openssh.com in /etc/ssh/sshd_config''
         else let weak = [''arcfour'', ''blowfish'', ''cast128'', ''3des'', ''des'']
              in case first_some
                   (\<lambda>w.
                     if contains (to_lower (security_SSHCiphers sec)) w
                       then Some (failr r (''weak cipher in Ciphers: '' @ Quote env w)
                                    (''remove weak ciphers '' @ em_dash @
                                     '' use only aes*-ctr and aes*-gcm@openssh.com variants''))
                     else None)
                   weak of
                     Some c \<Rightarrow> c
                   | None \<Rightarrow> cis_pass r)"

definition check_V_238214 :: "cis_host \<Rightarrow> security_info \<Rightarrow> kernel_security_info \<Rightarrow> cis_result" where
  "check_V_238214 env sec ks =
     (let r = ruleByID ''V-238214''
      in if security_SSHMACs sec = []
           then failr r
                  (''MACs not explicitly configured '' @ em_dash @
                   '' defaults may include weak MACs'')
                  ''set MACs hmac-sha2-256,hmac-sha2-512,hmac-sha2-256-etm@openssh.com,hmac-sha2-512-etm@openssh.com in /etc/ssh/sshd_config''
         else let weak = [''md5'', ''sha1'', ''umac-64'', ''ripemd'']
              in case first_some
                   (\<lambda>w.
                     if contains (to_lower (security_SSHMACs sec)) w
                       then Some (failr r (''weak MAC in MACs: '' @ Quote env w)
                                    (''remove weak MACs '' @ em_dash @
                                     '' use only hmac-sha2-256 and hmac-sha2-512 variants''))
                     else None)
                   weak of
                     Some c \<Rightarrow> c
                   | None \<Rightarrow> cis_pass r)"

definition check_V_238215 :: "cis_host \<Rightarrow> security_info \<Rightarrow> kernel_security_info \<Rightarrow> cis_result" where
  "check_V_238215 env sec ks =
     (let r = ruleByID ''V-238215''
      in if security_SSHKexAlgorithms sec = []
           then failr r ''KexAlgorithms not explicitly configured''
                  ''set KexAlgorithms ecdh-sha2-nistp256,ecdh-sha2-nistp384,ecdh-sha2-nistp521,diffie-hellman-group-exchange-sha256 in /etc/ssh/sshd_config''
         else let weak =
                    [''diffie-hellman-group1'', ''diffie-hellman-group14-sha1'', ''gss-gex-sha1'']
              in case first_some
                   (\<lambda>w.
                     if contains (to_lower (security_SSHKexAlgorithms sec)) w
                       then Some (failr r (''weak key exchange algorithm: '' @ Quote env w)
                                    (''remove weak KexAlgorithms '' @ em_dash @
                                     '' avoid SHA-1 and Group 1/14''))
                     else None)
                   weak of
                     Some c \<Rightarrow> c
                   | None \<Rightarrow> cis_pass r)"

definition check_V_238221 :: "security_info \<Rightarrow> kernel_security_info \<Rightarrow> cis_result" where
  "check_V_238221 sec ks =
     (let r = ruleByID ''V-238221''
      in if security_SSHConfigUnreadable sec then unverifiedr r cisSkipSSHConfigUnreadable
         else if security_SSHClientAliveCountMax sec \<noteq> 0
           then failr r
                  (''ClientAliveCountMax is '' @ itoa (security_SSHClientAliveCountMax sec) @
                   '' (must be 0 '' @ em_dash @ '' no grace retries after idle timeout)'')
                  ''set ClientAliveCountMax 0 in /etc/ssh/sshd_config''
         else cis_pass r)"

definition check_V_238226 :: "security_info \<Rightarrow> kernel_security_info \<Rightarrow> cis_result" where
  "check_V_238226 sec ks =
     (let r = ruleByID ''V-238226''
      in if \<not> security_SSHStrictModes sec
           then failr r ''StrictModes is disabled'' ''set StrictModes yes in /etc/ssh/sshd_config''
         else cis_pass r)"


section \<open>Conformance\<close>

lemma check_5_2_1_conforms [conforming]: "conforms (ruleByID cisRuleSSH52) (check_5_2_1 env sec ks)"
  unfolding check_5_2_1_def by (intro conforms_rules conforming; (simp; fail)?)

lemma check_5_2_3_conforms [conforming]: "conforms (ruleByID ''5.2.3'') (check_5_2_3 env sec ks)"
  unfolding check_5_2_3_def by (intro conforms_rules conforming; (simp; fail)?)

lemma check_5_2_4_conforms [conforming]: "conforms (ruleByID ''5.2.4'') (check_5_2_4 env sec ks)"
  unfolding check_5_2_4_def by (intro conforms_rules conforming; (simp; fail)?)

lemma check_5_2_2_conforms [conforming]: "conforms (ruleByID ''5.2.2'') (check_5_2_2 sec ks)"
  unfolding check_5_2_2_def by (intro conforms_rules conforming; (simp; fail)?)

lemma check_5_2_5_conforms [conforming]: "conforms (ruleByID ''5.2.5'') (check_5_2_5 env sec ks)"
  unfolding check_5_2_5_def by (intro conforms_rules conforming; (simp; fail)?)

lemma check_5_2_6_conforms [conforming]: "conforms (ruleByID ''5.2.6'') (check_5_2_6 sec ks)"
  unfolding check_5_2_6_def by (intro conforms_rules conforming; (simp; fail)?)

lemma check_5_2_7_conforms [conforming]: "conforms (ruleByID ''5.2.7'') (check_5_2_7 sec ks)"
  unfolding check_5_2_7_def by (intro conforms_rules conforming; (simp; fail)?)

lemma check_5_2_8_conforms [conforming]: "conforms (ruleByID ''5.2.8'') (check_5_2_8 sec ks)"
  unfolding check_5_2_8_def by (intro conforms_rules conforming; (simp; fail)?)

lemma check_5_2_9_conforms [conforming]: "conforms (ruleByID ''5.2.9'') (check_5_2_9 sec ks)"
  unfolding check_5_2_9_def by (intro conforms_rules conforming; (simp; fail)?)

lemma check_5_2_10_conforms [conforming]: "conforms (ruleByID ''5.2.10'') (check_5_2_10 sec ks)"
  unfolding check_5_2_10_def by (intro conforms_rules conforming; (simp; fail)?)

lemma check_5_2_11_conforms [conforming]: "conforms (ruleByID ''5.2.11'') (check_5_2_11 sec ks)"
  unfolding check_5_2_11_def by (intro conforms_rules conforming; (simp; fail)?)

lemma check_5_2_12_conforms [conforming]: "conforms (ruleByID ''5.2.12'') (check_5_2_12 sec ks)"
  unfolding check_5_2_12_def by (intro conforms_rules conforming; (simp; fail)?)

lemma check_5_2_13_conforms [conforming]: "conforms (ruleByID ''5.2.13'') (check_5_2_13 sec ks)"
  unfolding check_5_2_13_def by (intro conforms_rules conforming; (simp; fail)?)

lemma check_5_2_14_conforms [conforming]: "conforms (ruleByID ''5.2.14'') (check_5_2_14 sec ks)"
  unfolding check_5_2_14_def by (intro conforms_rules conforming; (simp; fail)?)

lemma check_5_2_15_conforms [conforming]: "conforms (ruleByID ''5.2.15'') (check_5_2_15 sec ks)"
  unfolding check_5_2_15_def by (intro conforms_rules conforming; (simp; fail)?)

lemma check_5_2_16_conforms [conforming]: "conforms (ruleByID ''5.2.16'') (check_5_2_16 sec ks)"
  unfolding check_5_2_16_def by (intro conforms_rules conforming; (simp; fail)?)

lemma check_5_2_17_conforms [conforming]: "conforms (ruleByID ''5.2.17'') (check_5_2_17 sec ks)"
  unfolding check_5_2_17_def by (intro conforms_rules conforming; (simp; fail)?)

lemma check_5_2_18_conforms [conforming]: "conforms (ruleByID ''5.2.18'') (check_5_2_18 env sec ks)"
  unfolding check_5_2_18_def by (intro conforms_rules conforming; (simp; fail)?)

lemma check_5_2_19_conforms [conforming]: "conforms (ruleByID ''5.2.19'') (check_5_2_19 sec ks)"
  unfolding check_5_2_19_def by (intro conforms_rules conforming; (simp; fail)?)

lemma check_5_2_20_conforms [conforming]: "conforms (ruleByID ''5.2.20'') (check_5_2_20 sec ks)"
  unfolding check_5_2_20_def by (intro conforms_rules conforming; (simp; fail)?)

lemma check_5_2_21_conforms [conforming]: "conforms (ruleByID ''5.2.21'') (check_5_2_21 sec ks)"
  unfolding check_5_2_21_def by (intro conforms_rules conforming; (simp; fail)?)

lemma check_5_2_22_conforms [conforming]: "conforms (ruleByID ''5.2.22'') (check_5_2_22 sec ks)"
  unfolding check_5_2_22_def by (intro conforms_rules conforming; (simp; fail)?)

lemma check_5_2_23_conforms [conforming]: "conforms (ruleByID ''5.2.23'') (check_5_2_23 sec ks)"
  unfolding check_5_2_23_def by (intro conforms_rules conforming; (simp; fail)?)

lemma check_5_2_24_conforms [conforming]: "conforms (ruleByID ''5.2.24'') (check_5_2_24 sec ks)"
  unfolding check_5_2_24_def by (intro conforms_rules conforming; (simp; fail)?)

lemma check_5_2_25_conforms [conforming]: "conforms (ruleByID ''5.2.25'') (check_5_2_25 env sec ks)"
  unfolding check_5_2_25_def by (intro conforms_rules conforming; (simp; fail)?)

lemma check_5_2_26_conforms [conforming]: "conforms (ruleByID ''5.2.26'') (check_5_2_26 env sec ks)"
  unfolding check_5_2_26_def by (intro conforms_rules conforming; (simp; fail)?)

lemma check_5_2_27_conforms [conforming]: "conforms (ruleByID ''5.2.27'') (check_5_2_27 env sec ks)"
  unfolding check_5_2_27_def by (intro conforms_rules conforming; (simp; fail)?)

lemma check_5_2_28_conforms [conforming]: "conforms (ruleByID ''5.2.28'') (check_5_2_28 env sec ks)"
  unfolding check_5_2_28_def by (intro conforms_rules conforming; (simp; fail)?)

lemma check_5_2_29_conforms [conforming]: "conforms (ruleByID ''5.2.29'') (check_5_2_29 env sec ks)"
  unfolding check_5_2_29_def by (intro conforms_rules conforming; (simp; fail)?)

lemma check_5_2_30_conforms [conforming]: "conforms (ruleByID ''5.2.30'') (check_5_2_30 env sec ks)"
  unfolding check_5_2_30_def by (intro conforms_rules conforming; (simp; fail)?)

lemma check_V_238213_conforms [conforming]: "conforms (ruleByID ''V-238213'') (check_V_238213 env sec ks)"
  unfolding check_V_238213_def by (intro conforms_rules conforming; (simp; fail)?)

lemma check_V_238214_conforms [conforming]: "conforms (ruleByID ''V-238214'') (check_V_238214 env sec ks)"
  unfolding check_V_238214_def by (intro conforms_rules conforming; (simp; fail)?)

lemma check_V_238215_conforms [conforming]: "conforms (ruleByID ''V-238215'') (check_V_238215 env sec ks)"
  unfolding check_V_238215_def by (intro conforms_rules conforming; (simp; fail)?)

lemma check_V_238221_conforms [conforming]: "conforms (ruleByID ''V-238221'') (check_V_238221 sec ks)"
  unfolding check_V_238221_def by (intro conforms_rules conforming; (simp; fail)?)

lemma check_V_238226_conforms [conforming]: "conforms (ruleByID ''V-238226'') (check_V_238226 sec ks)"
  unfolding check_V_238226_def by (intro conforms_rules conforming; (simp; fail)?)

end
