(* ===== verification/Cis_Network.thy ===== *)
theory Cis_Network
  imports Cis_Rules
begin

text \<open>
  The rules on the network parameters, the firewall and the services. One definition per rule of internal/cis/rules.go, named by the rule.
\<close>

section \<open>Checks\<close>

definition check_2_1_1 :: "cis_host \<Rightarrow> security_info \<Rightarrow> kernel_security_info \<Rightarrow> cis_result" where
  "check_2_1_1 env sec ks =
     (let r = ruleByID ''2.1.1'';
          configs = chronyCfgPaths @ [ntpCfgPath, timesyncdCfgPath]
      in case first_some
           (\<lambda>cfg. case Stat env cfg of None \<Rightarrow> None | Some _ \<Rightarrow> Some (cis_pass r))
           configs of
             Some c \<Rightarrow> c
           | None \<Rightarrow>
               failr r ''no time synchronization daemon installed'' ''install a time sync daemon'')"

definition check_2_1_2 :: "cis_host \<Rightarrow> security_info \<Rightarrow> kernel_security_info \<Rightarrow> cis_result" where
  "check_2_1_2 env sec ks =
     (let r = ruleByID ''2.1.2''
      in case first_some
           (\<lambda>path.
             case ReadFile env path of
                 None \<Rightarrow> None
               | Some data \<Rightarrow>
                   (case first_some
                      (\<lambda>line.
                        let line = trim_space line
                        in if has_prefix line ''server'' \<or> has_prefix line ''pool''
                             then Some (cis_pass r)
                           else None)
                      (split_byte data (CHR 0x0A)) of
                        Some c \<Rightarrow> Some c
                      | None \<Rightarrow>
                          Some (failr r ''chrony.conf has no server or pool directive''
                                  (''add '' @ squote @ ''pool pool.ntp.org iburst'' @ squote @
                                   '' to chrony.conf and restart chronyd''))))
           chronyCfgPaths of
             Some c \<Rightarrow> c
           | None \<Rightarrow>
               (case ReadFile env ntpCfgPath of
                    None \<Rightarrow>
                      (case Stat env timesyncdCfgPath of
                           None \<Rightarrow>
                             skipr r
                               (''no time sync daemon config found '' @ em_dash @
                                '' check rule 2.1.1'')
                         | Some _ \<Rightarrow> cis_pass r)
                  | Some data \<Rightarrow>
                      (case first_some
                         (\<lambda>line.
                           if has_prefix (trim_space line) ''server'' then Some (cis_pass r)
                           else None)
                         (split_byte data (CHR 0x0A)) of
                           Some c \<Rightarrow> c
                         | None \<Rightarrow>
                             failr r ''ntp.conf has no server directive''
                               ''add server directives to /etc/ntp.conf and restart ntp'')))"

definition check_2_2_1 :: "cis_host \<Rightarrow> security_info \<Rightarrow> kernel_security_info \<Rightarrow> cis_result" where
  "check_2_2_1 env sec ks =
     checkServiceNotInstalled env (ruleByID ''2.2.1'') nisBinPaths
       ''remove NIS client: apt purge nis / dnf remove ypbind''"

definition check_2_2_2 :: "cis_host \<Rightarrow> security_info \<Rightarrow> kernel_security_info \<Rightarrow> cis_result" where
  "check_2_2_2 env sec ks =
     checkServiceNotInstalled env (ruleByID ''2.2.2'') rshBinPaths
       ''remove rsh client: apt purge rsh-client / dnf remove rsh''"

definition check_2_2_3 :: "cis_host \<Rightarrow> security_info \<Rightarrow> kernel_security_info \<Rightarrow> cis_result" where
  "check_2_2_3 env sec ks =
     checkServiceNotInstalled env (ruleByID ''2.2.3'') talkBinPaths
       ''remove talk: apt purge talk / dnf remove talk''"

definition check_2_2_4 :: "cis_host \<Rightarrow> security_info \<Rightarrow> kernel_security_info \<Rightarrow> cis_result" where
  "check_2_2_4 env sec ks =
     checkServiceNotInstalled env (ruleByID ''2.2.4'') telnetBinPaths
       ''remove telnet: apt purge telnet / dnf remove telnet''"

definition check_2_2_5 :: "cis_host \<Rightarrow> security_info \<Rightarrow> kernel_security_info \<Rightarrow> cis_result" where
  "check_2_2_5 env sec ks =
     checkServiceNotInstalled env (ruleByID ''2.2.5'') ldapClientBinPaths
       ''remove LDAP client: apt purge ldap-utils / dnf remove openldap-clients''"

definition check_2_3_1 :: "cis_host \<Rightarrow> security_info \<Rightarrow> kernel_security_info \<Rightarrow> cis_result" where
  "check_2_3_1 env sec ks =
     checkServiceNotInstalled env (ruleByID ''2.3.1'') xorgBinPaths
       ''remove Xorg: apt purge xserver-xorg / dnf remove xorg-x11-server-Xorg''"

definition check_2_3_2 :: "cis_host \<Rightarrow> security_info \<Rightarrow> kernel_security_info \<Rightarrow> cis_result" where
  "check_2_3_2 env sec ks =
     checkServiceNotInstalled env (ruleByID ''2.3.2'') avahiBinPaths
       ''remove Avahi: apt purge avahi-daemon / dnf remove avahi''"

definition check_2_3_3 :: "cis_host \<Rightarrow> security_info \<Rightarrow> kernel_security_info \<Rightarrow> cis_result" where
  "check_2_3_3 env sec ks =
     checkServiceNotInstalled env (ruleByID ''2.3.3'') cupsBinPaths
       ''remove CUPS: apt purge cups / dnf remove cups''"

definition check_2_3_4 :: "cis_host \<Rightarrow> security_info \<Rightarrow> kernel_security_info \<Rightarrow> cis_result" where
  "check_2_3_4 env sec ks =
     checkServiceNotInstalled env (ruleByID ''2.3.4'') dhcpBinPaths
       ''remove DHCP server: apt purge isc-dhcp-server / dnf remove dhcp-server''"

definition check_2_3_5 :: "cis_host \<Rightarrow> security_info \<Rightarrow> kernel_security_info \<Rightarrow> cis_result" where
  "check_2_3_5 env sec ks =
     checkServiceNotInstalled env (ruleByID ''2.3.5'') slapdBinPaths
       ''remove LDAP server: apt purge slapd / dnf remove openldap-servers''"

definition check_2_3_6 :: "cis_host \<Rightarrow> security_info \<Rightarrow> kernel_security_info \<Rightarrow> cis_result" where
  "check_2_3_6 env sec ks =
     checkServiceNotInstalled env (ruleByID ''2.3.6'') nfsBinPaths
       ''remove NFS: apt purge nfs-kernel-server / dnf remove nfs-utils''"

definition check_2_3_7 :: "cis_host \<Rightarrow> security_info \<Rightarrow> kernel_security_info \<Rightarrow> cis_result" where
  "check_2_3_7 env sec ks =
     checkServiceNotInstalled env (ruleByID ''2.3.7'') namedBinPaths
       ''remove BIND/named: apt purge bind9 / dnf remove bind''"

definition check_2_3_8 :: "cis_host \<Rightarrow> security_info \<Rightarrow> kernel_security_info \<Rightarrow> cis_result" where
  "check_2_3_8 env sec ks =
     checkServiceNotInstalled env (ruleByID ''2.3.8'') ftpBinPaths
       ''remove FTP server: apt purge vsftpd / dnf remove vsftpd''"

definition check_2_3_9 :: "cis_host \<Rightarrow> security_info \<Rightarrow> kernel_security_info \<Rightarrow> cis_result" where
  "check_2_3_9 env sec ks =
     checkServiceNotInstalled env (ruleByID ''2.3.9'') httpBinPaths
       ''remove HTTP server: apt purge apache2 nginx / dnf remove httpd nginx''"

definition check_2_3_10 :: "cis_host \<Rightarrow> security_info \<Rightarrow> kernel_security_info \<Rightarrow> cis_result" where
  "check_2_3_10 env sec ks =
     checkServiceNotInstalled env (ruleByID ''2.3.10'') imapBinPaths
       ''remove Dovecot: apt purge dovecot-imapd dovecot-pop3d / dnf remove dovecot''"

definition check_2_3_11 :: "cis_host \<Rightarrow> security_info \<Rightarrow> kernel_security_info \<Rightarrow> cis_result" where
  "check_2_3_11 env sec ks =
     checkServiceNotInstalled env (ruleByID ''2.3.11'') sambaBinPaths
       ''remove Samba: apt purge samba / dnf remove samba''"

definition check_2_3_12 :: "cis_host \<Rightarrow> security_info \<Rightarrow> kernel_security_info \<Rightarrow> cis_result" where
  "check_2_3_12 env sec ks =
     checkServiceNotInstalled env (ruleByID ''2.3.12'') squidBinPaths
       ''remove Squid: apt purge squid / dnf remove squid''"

definition check_2_3_13 :: "cis_host \<Rightarrow> security_info \<Rightarrow> kernel_security_info \<Rightarrow> cis_result" where
  "check_2_3_13 env sec ks =
     checkServiceNotInstalled env (ruleByID ''2.3.13'') snmpBinPaths
       ''remove SNMP: apt purge snmpd / dnf remove net-snmp''"

definition check_2_3_14 :: "cis_host \<Rightarrow> security_info \<Rightarrow> kernel_security_info \<Rightarrow> cis_result" where
  "check_2_3_14 env sec ks =
     (let r = ruleByID ''2.3.14'';
          mtaFound = False;
          mtaFound =
            case first_some
              (\<lambda>p.
                case Stat env p of
                    None \<Rightarrow> None
                  | Some _ \<Rightarrow>
                      (let mtaFound = True
                       in Some mtaFound))
              mtaBinPaths of
              Some r \<Rightarrow> r
              | None \<Rightarrow> mtaFound
      in if \<not> mtaFound then skipr r ''no MTA (postfix/sendmail) installed''
         else case ReadFile env postfixMainCfPath of
                  None \<Rightarrow>
                    unverifiedr r
                      (''postfix main.cf not readable '' @ em_dash @
                       '' cannot verify inet_interfaces'')
                | Some data \<Rightarrow>
                    (case first_some
                       (\<lambda>line.
                         let trimmed = trim_space line
                         in if trimmed = [] \<or> has_prefix trimmed ''#'' then None
                            else case cut_prefix trimmed ''inet_interfaces'' of
                                     None \<Rightarrow> None
                                   | Some rest \<Rightarrow>
                                       (let rest = trim_space rest
                                        in case cut_prefix rest ''='' of
                                               None \<Rightarrow> None
                                             | Some rest \<Rightarrow>
                                                 (let val = to_lower (trim_space rest)
                                                  in if val = ''loopback-only'' \<or>
                                                        val = ''localhost''
                                                       then Some (cis_pass r)
                                                     else Some (failr r
                                                                  (''inet_interfaces = '' @
                                                                   Quote env val @ '' '' @ em_dash @
                                                                   '' MTA accepts external connections'')
                                                                  ''set inet_interfaces = loopback-only in /etc/postfix/main.cf and run: postfix reload''))))
                       (split_byte data (CHR 0x0A)) of
                         Some c \<Rightarrow> c
                       | None \<Rightarrow>
                           failr r ''inet_interfaces not set in /etc/postfix/main.cf''
                             ''add inet_interfaces = loopback-only to /etc/postfix/main.cf and run: postfix reload''))"

definition check_2_3_15 :: "cis_host \<Rightarrow> security_info \<Rightarrow> kernel_security_info \<Rightarrow> cis_result" where
  "check_2_3_15 env sec ks =
     (let r = ruleByID ''2.3.15'';
          rsyncPresent = False;
          rsyncPresent =
            case first_some
              (\<lambda>p.
                case Stat env p of
                    None \<Rightarrow> None
                  | Some _ \<Rightarrow>
                      (let rsyncPresent = True
                       in Some rsyncPresent))
              rsyncBinPaths of
              Some r \<Rightarrow> r
              | None \<Rightarrow> rsyncPresent
      in if \<not> rsyncPresent then skipr r ''rsync not installed''
         else case first_some
                (\<lambda>p.
                  case Stat env p of
                      None \<Rightarrow> None
                    | Some _ \<Rightarrow>
                        Some (failr r ''rsync daemon is enabled via systemd''
                                ''systemctl disable rsync && systemctl stop rsync''))
                rsyncWantsPaths of
                  Some c \<Rightarrow> c
                | None \<Rightarrow>
                    (case ReadFile env rsyncDefaultPath of
                         None \<Rightarrow> cis_pass r
                       | Some data \<Rightarrow>
                           (case first_some
                              (\<lambda>line.
                                let trimmed = trim_space line
                                in if trimmed = [] \<or> has_prefix trimmed ''#'' then None
                                   else case cut_prefix trimmed ''RSYNC_ENABLE='' of
                                            None \<Rightarrow> None
                                          | Some rest \<Rightarrow>
                                              (let val = trim_set rest (dquote @ squote)
                                               in if equal_fold val ''true'' \<or> val = ''1''
                                                    then Some (failr r
                                                                 (''RSYNC_ENABLE=true in /etc/default/rsync '' @
                                                                  em_dash @
                                                                  '' rsync daemon is enabled'')
                                                                 ''set RSYNC_ENABLE=false in /etc/default/rsync'')
                                                  else None))
                              (split_byte data (CHR 0x0A)) of
                                Some c \<Rightarrow> c
                              | None \<Rightarrow> cis_pass r)))"

definition check_2_3_16 :: "cis_host \<Rightarrow> security_info \<Rightarrow> kernel_security_info \<Rightarrow> cis_result" where
  "check_2_3_16 env sec ks =
     checkServiceNotInstalled env (ruleByID ''2.3.16'') nisServerBinPaths
       ''remove NIS server: apt purge nis / dnf remove ypserv''"

definition check_3_1_1 :: "cis_host \<Rightarrow> security_info \<Rightarrow> kernel_security_info \<Rightarrow> cis_result" where
  "check_3_1_1 env sec ks =
     (let r = ruleByID ''3.1.1''
      in checkSysctlFile env r ''/proc/sys/net/ipv4/ip_forward'' ''0''
           (''net.ipv4.ip_forward=0 is not set '' @ em_dash @ '' IP forwarding is on'')
           ''sysctl -w net.ipv4.ip_forward=0 && add to /etc/sysctl.d/99-cis.conf'')"

definition check_3_1_2 :: "cis_host \<Rightarrow> security_info \<Rightarrow> kernel_security_info \<Rightarrow> cis_result" where
  "check_3_1_2 env sec ks =
     (let r = ruleByID ''3.1.2''
      in checkSysctlFile env r ''/proc/sys/net/ipv4/conf/all/send_redirects'' ''0''
           (''send_redirects is 1 '' @ em_dash @
            '' host can send ICMP redirects (man-in-the-middle risk)'')
           ''sysctl -w net.ipv4.conf.all.send_redirects=0 && sysctl -w net.ipv4.conf.default.send_redirects=0'')"

definition check_3_1_3 :: "cis_host \<Rightarrow> security_info \<Rightarrow> kernel_security_info \<Rightarrow> cis_result" where
  "check_3_1_3 env sec ks =
     (let r = ruleByID ''3.1.3''
      in checkSysctlFile env r ''/proc/sys/net/ipv4/conf/default/send_redirects'' ''0''
           (''net.ipv4.conf.default.send_redirects is not 0 '' @ em_dash @
            '' new interfaces will send ICMP redirects'')
           (''sysctl -w net.ipv4.conf.default.send_redirects=0 && echo '' @ squote @
            ''net.ipv4.conf.default.send_redirects=0'' @ squote @ '' >> /etc/sysctl.d/99-cis.conf''))"

definition check_3_2_1 :: "cis_host \<Rightarrow> security_info \<Rightarrow> kernel_security_info \<Rightarrow> cis_result" where
  "check_3_2_1 env sec ks =
     (let r = ruleByID ''3.2.1''
      in checkSysctlFile env r ''/proc/sys/net/ipv4/conf/all/accept_source_route'' ''0''
           (''accept_source_route is 1 '' @ em_dash @ '' source routed packets accepted'')
           ''sysctl -w net.ipv4.conf.all.accept_source_route=0'')"

definition check_3_2_2 :: "cis_host \<Rightarrow> security_info \<Rightarrow> kernel_security_info \<Rightarrow> cis_result" where
  "check_3_2_2 env sec ks =
     (let r = ruleByID ''3.2.2''
      in checkSysctlFile env r ''/proc/sys/net/ipv4/conf/all/accept_redirects'' ''0''
           (''accept_redirects is 1 '' @ em_dash @ '' ICMP redirects accepted'')
           ''sysctl -w net.ipv4.conf.all.accept_redirects=0'')"

definition check_3_2_3 :: "cis_host \<Rightarrow> security_info \<Rightarrow> kernel_security_info \<Rightarrow> cis_result" where
  "check_3_2_3 env sec ks =
     (let r = ruleByID ''3.2.3''
      in checkSysctlFile env r ''/proc/sys/net/ipv4/conf/all/secure_redirects'' ''0''
           (''secure_redirects is 1 '' @ em_dash @
            '' ICMP redirects from gateways accepted without validation'')
           (''sysctl -w net.ipv4.conf.all.secure_redirects=0 && echo '' @ squote @
            ''net.ipv4.conf.all.secure_redirects=0'' @ squote @ '' >> /etc/sysctl.d/99-cis.conf''))"

definition check_3_2_4 :: "cis_host \<Rightarrow> security_info \<Rightarrow> kernel_security_info \<Rightarrow> cis_result" where
  "check_3_2_4 env sec ks =
     (let r = ruleByID ''3.2.4''
      in checkSysctlFile env r ''/proc/sys/net/ipv4/conf/all/log_martians'' ''1''
           (''log_martians is 0 '' @ em_dash @ '' martian packets not logged'')
           ''sysctl -w net.ipv4.conf.all.log_martians=1'')"

definition check_3_2_5 :: "cis_host \<Rightarrow> security_info \<Rightarrow> kernel_security_info \<Rightarrow> cis_result" where
  "check_3_2_5 env sec ks =
     (let r = ruleByID ''3.2.5''
      in checkSysctlFile env r ''/proc/sys/net/ipv4/icmp_echo_ignore_broadcasts'' ''1''
           (''icmp_echo_ignore_broadcasts is 0 '' @ em_dash @ '' smurf amplification possible'')
           (''sysctl -w net.ipv4.icmp_echo_ignore_broadcasts=1 && echo '' @ squote @
            ''net.ipv4.icmp_echo_ignore_broadcasts=1'' @ squote @ '' >> /etc/sysctl.d/99-cis.conf''))"

definition check_3_2_6 :: "cis_host \<Rightarrow> security_info \<Rightarrow> kernel_security_info \<Rightarrow> cis_result" where
  "check_3_2_6 env sec ks =
     (let r = ruleByID ''3.2.6''
      in checkSysctlFile env r ''/proc/sys/net/ipv4/icmp_ignore_bogus_error_responses'' ''1''
           (''icmp_ignore_bogus_error_responses is 0 '' @ em_dash @
            '' bogus ICMP error messages accepted'')
           (''sysctl -w net.ipv4.icmp_ignore_bogus_error_responses=1 && echo '' @ squote @
            ''net.ipv4.icmp_ignore_bogus_error_responses=1'' @ squote @
            '' >> /etc/sysctl.d/99-cis.conf''))"

definition check_3_2_7 :: "cis_host \<Rightarrow> security_info \<Rightarrow> kernel_security_info \<Rightarrow> cis_result" where
  "check_3_2_7 env sec ks =
     (let r = ruleByID ''3.2.7''
      in checkSysctlFile env r ''/proc/sys/net/ipv4/conf/all/rp_filter'' ''1''
           (''rp_filter is 0 '' @ em_dash @
            '' reverse path filtering disabled (IP spoofing possible)'')
           ''sysctl -w net.ipv4.conf.all.rp_filter=1 && sysctl -w net.ipv4.conf.default.rp_filter=1'')"

definition check_3_2_8 :: "cis_host \<Rightarrow> security_info \<Rightarrow> kernel_security_info \<Rightarrow> cis_result" where
  "check_3_2_8 env sec ks =
     (let r = ruleByID ''3.2.8''
      in checkSysctlFile env r ''/proc/sys/net/ipv4/tcp_syncookies'' ''1''
           (''tcp_syncookies is 0 '' @ em_dash @ '' SYN flood protection disabled'')
           (''sysctl -w net.ipv4.tcp_syncookies=1 && echo '' @ squote @
            ''net.ipv4.tcp_syncookies=1'' @ squote @ '' >> /etc/sysctl.d/99-cis.conf''))"

definition check_3_2_9 :: "cis_host \<Rightarrow> security_info \<Rightarrow> kernel_security_info \<Rightarrow> cis_result" where
  "check_3_2_9 env sec ks =
     (let r = ruleByID ''3.2.9''
      in checkSysctlFile env r ''/proc/sys/net/ipv6/conf/all/accept_ra'' ''0''
           (''net.ipv6.conf.all.accept_ra is not 0 '' @ em_dash @
            '' IPv6 router advertisements accepted'')
           ''sysctl -w net.ipv6.conf.all.accept_ra=0 && sysctl -w net.ipv6.conf.default.accept_ra=0'')"

definition check_3_2_10 :: "cis_host \<Rightarrow> security_info \<Rightarrow> kernel_security_info \<Rightarrow> cis_result" where
  "check_3_2_10 env sec ks =
     (let r = ruleByID ''3.2.10''
      in checkSysctlFile env r ''/proc/sys/net/ipv6/conf/all/accept_redirects'' ''0''
           (''net.ipv6.conf.all.accept_redirects is not 0 '' @ em_dash @
            '' IPv6 ICMP redirects accepted'')
           ''sysctl -w net.ipv6.conf.all.accept_redirects=0 && sysctl -w net.ipv6.conf.default.accept_redirects=0'')"

definition check_3_2_11 :: "cis_host \<Rightarrow> security_info \<Rightarrow> kernel_security_info \<Rightarrow> cis_result" where
  "check_3_2_11 env sec ks =
     (let r = ruleByID ''3.2.11''
      in checkSysctlFile env r ''/proc/sys/net/ipv4/conf/default/send_redirects'' ''0''
           (''net.ipv4.conf.default.send_redirects is 1 '' @ em_dash @
            '' new interfaces will send ICMP redirects'')
           (''sysctl -w net.ipv4.conf.default.send_redirects=0 && echo '' @ squote @
            ''net.ipv4.conf.default.send_redirects=0'' @ squote @ '' >> /etc/sysctl.d/99-cis.conf''))"

definition check_3_2_12 :: "cis_host \<Rightarrow> security_info \<Rightarrow> kernel_security_info \<Rightarrow> cis_result" where
  "check_3_2_12 env sec ks =
     (let r = ruleByID ''3.2.12''
      in checkSysctlFile env r ''/proc/sys/net/ipv4/conf/default/accept_source_route'' ''0''
           (''net.ipv4.conf.default.accept_source_route is 1 '' @ em_dash @
            '' new interfaces will accept source-routed packets'')
           (''sysctl -w net.ipv4.conf.default.accept_source_route=0 && echo '' @ squote @
            ''net.ipv4.conf.default.accept_source_route=0'' @ squote @
            '' >> /etc/sysctl.d/99-cis.conf''))"

definition check_3_2_13 :: "cis_host \<Rightarrow> security_info \<Rightarrow> kernel_security_info \<Rightarrow> cis_result" where
  "check_3_2_13 env sec ks =
     (let r = ruleByID ''3.2.13''
      in checkSysctlFile env r ''/proc/sys/net/ipv4/conf/default/accept_redirects'' ''0''
           (''net.ipv4.conf.default.accept_redirects is 1 '' @ em_dash @
            '' new interfaces will accept ICMP redirects'')
           (''sysctl -w net.ipv4.conf.default.accept_redirects=0 && echo '' @ squote @
            ''net.ipv4.conf.default.accept_redirects=0'' @ squote @
            '' >> /etc/sysctl.d/99-cis.conf''))"

definition check_3_2_14 :: "cis_host \<Rightarrow> security_info \<Rightarrow> kernel_security_info \<Rightarrow> cis_result" where
  "check_3_2_14 env sec ks =
     (let r = ruleByID ''3.2.14''
      in checkSysctlFile env r ''/proc/sys/net/ipv4/conf/default/secure_redirects'' ''0''
           (''net.ipv4.conf.default.secure_redirects is 1 '' @ em_dash @
            '' new interfaces accept gateway ICMP redirects'')
           (''sysctl -w net.ipv4.conf.default.secure_redirects=0 && echo '' @ squote @
            ''net.ipv4.conf.default.secure_redirects=0'' @ squote @
            '' >> /etc/sysctl.d/99-cis.conf''))"

definition check_3_2_15 :: "cis_host \<Rightarrow> security_info \<Rightarrow> kernel_security_info \<Rightarrow> cis_result" where
  "check_3_2_15 env sec ks =
     (let r = ruleByID ''3.2.15''
      in checkSysctlFile env r ''/proc/sys/net/ipv4/conf/default/log_martians'' ''1''
           (''net.ipv4.conf.default.log_martians is 0 '' @ em_dash @
            '' new interfaces will not log martian packets'')
           (''sysctl -w net.ipv4.conf.default.log_martians=1 && echo '' @ squote @
            ''net.ipv4.conf.default.log_martians=1'' @ squote @ '' >> /etc/sysctl.d/99-cis.conf''))"

definition check_3_2_16 :: "cis_host \<Rightarrow> security_info \<Rightarrow> kernel_security_info \<Rightarrow> cis_result" where
  "check_3_2_16 env sec ks =
     (let r = ruleByID ''3.2.16''
      in checkSysctlFile env r ''/proc/sys/net/ipv4/conf/default/rp_filter'' ''1''
           (''net.ipv4.conf.default.rp_filter is 0 '' @ em_dash @
            '' new interfaces will not enforce reverse path filtering'')
           (''sysctl -w net.ipv4.conf.default.rp_filter=1 && echo '' @ squote @
            ''net.ipv4.conf.default.rp_filter=1'' @ squote @ '' >> /etc/sysctl.d/99-cis.conf''))"

definition check_3_2_17 :: "cis_host \<Rightarrow> security_info \<Rightarrow> kernel_security_info \<Rightarrow> cis_result" where
  "check_3_2_17 env sec ks =
     (let r = ruleByID ''3.2.17''
      in checkSysctlFile env r ''/proc/sys/net/ipv6/conf/default/accept_ra'' ''0''
           (''net.ipv6.conf.default.accept_ra is not 0 '' @ em_dash @
            '' new interfaces will accept IPv6 router advertisements'')
           (''sysctl -w net.ipv6.conf.default.accept_ra=0 && echo '' @ squote @
            ''net.ipv6.conf.default.accept_ra=0'' @ squote @ '' >> /etc/sysctl.d/99-cis.conf''))"

definition check_3_2_18 :: "cis_host \<Rightarrow> security_info \<Rightarrow> kernel_security_info \<Rightarrow> cis_result" where
  "check_3_2_18 env sec ks =
     (let r = ruleByID ''3.2.18''
      in checkSysctlFile env r ''/proc/sys/net/ipv6/conf/default/accept_redirects'' ''0''
           (''net.ipv6.conf.default.accept_redirects is not 0 '' @ em_dash @
            '' new interfaces will accept IPv6 ICMP redirects'')
           (''sysctl -w net.ipv6.conf.default.accept_redirects=0 && echo '' @ squote @
            ''net.ipv6.conf.default.accept_redirects=0'' @ squote @
            '' >> /etc/sysctl.d/99-cis.conf''))"

definition check_3_2_22 :: "cis_host \<Rightarrow> security_info \<Rightarrow> kernel_security_info \<Rightarrow> cis_result" where
  "check_3_2_22 env sec ks =
     (let r = ruleByID ''3.2.22''
      in checkSysctlFile env r ''/proc/sys/net/ipv4/tcp_timestamps'' ''0''
           (''net.ipv4.tcp_timestamps is not 0 '' @ em_dash @
            '' TCP timestamps may allow remote clock fingerprinting and sequence number inference'')
           (''sysctl -w net.ipv4.tcp_timestamps=0 && echo '' @ squote @
            ''net.ipv4.tcp_timestamps=0'' @ squote @ '' >> /etc/sysctl.d/99-cis.conf''))"

definition check_3_2_23 :: "cis_host \<Rightarrow> security_info \<Rightarrow> kernel_security_info \<Rightarrow> cis_result" where
  "check_3_2_23 env sec ks =
     (let r = ruleByID ''3.2.23''
      in checkSysctlFile env r ''/proc/sys/net/ipv4/conf/all/arp_ignore'' ''1''
           (''net.ipv4.conf.all.arp_ignore is not 1 '' @ em_dash @
            '' host replies to ARP requests for IPs bound to other interfaces (ARP spoofing risk)'')
           (''sysctl -w net.ipv4.conf.all.arp_ignore=1 && echo '' @ squote @
            ''net.ipv4.conf.all.arp_ignore=1'' @ squote @ '' >> /etc/sysctl.d/99-cis.conf''))"

definition check_3_2_24 :: "cis_host \<Rightarrow> security_info \<Rightarrow> kernel_security_info \<Rightarrow> cis_result" where
  "check_3_2_24 env sec ks =
     (let r = ruleByID ''3.2.24''
      in checkSysctlFile env r ''/proc/sys/net/ipv4/conf/all/arp_announce'' ''2''
           (''net.ipv4.conf.all.arp_announce is not 2 '' @ em_dash @
            '' ARP packets may advertise unroutable source IPs, confusing neighbours'')
           (''sysctl -w net.ipv4.conf.all.arp_announce=2 && echo '' @ squote @
            ''net.ipv4.conf.all.arp_announce=2'' @ squote @ '' >> /etc/sysctl.d/99-cis.conf''))"

definition check_3_2_25 :: "cis_host \<Rightarrow> security_info \<Rightarrow> kernel_security_info \<Rightarrow> cis_result" where
  "check_3_2_25 env sec ks =
     (let r = ruleByID ''3.2.25''
      in checkSysctlFile env r ''/proc/sys/net/ipv4/conf/default/arp_ignore'' ''1''
           (''net.ipv4.conf.default.arp_ignore is not 1 '' @ em_dash @
            '' new interfaces will reply to ARP for IPs bound to other interfaces'')
           (''sysctl -w net.ipv4.conf.default.arp_ignore=1 && echo '' @ squote @
            ''net.ipv4.conf.default.arp_ignore=1'' @ squote @ '' >> /etc/sysctl.d/99-cis.conf''))"

definition check_3_2_26 :: "cis_host \<Rightarrow> security_info \<Rightarrow> kernel_security_info \<Rightarrow> cis_result" where
  "check_3_2_26 env sec ks =
     (let r = ruleByID ''3.2.26''
      in checkSysctlFile env r ''/proc/sys/net/ipv4/conf/default/arp_announce'' ''2''
           (''net.ipv4.conf.default.arp_announce is not 2 '' @ em_dash @
            '' new interfaces may advertise unroutable source IPs in ARP'')
           (''sysctl -w net.ipv4.conf.default.arp_announce=2 && echo '' @ squote @
            ''net.ipv4.conf.default.arp_announce=2'' @ squote @ '' >> /etc/sysctl.d/99-cis.conf''))"

definition check_3_2_27 :: "cis_host \<Rightarrow> security_info \<Rightarrow> kernel_security_info \<Rightarrow> cis_result" where
  "check_3_2_27 env sec ks =
     (let r = ruleByID ''3.2.27''
      in checkSysctlFile env r ''/proc/sys/net/ipv4/tcp_rfc1337'' ''1''
           (''net.ipv4.tcp_rfc1337 is not 1 '' @ em_dash @
            '' RST packets from TIME_WAIT connections can abort established sessions'')
           (''sysctl -w net.ipv4.tcp_rfc1337=1 && echo '' @ squote @ ''net.ipv4.tcp_rfc1337=1'' @
            squote @ '' >> /etc/sysctl.d/99-cis.conf''))"

definition check_3_2_28 :: "cis_host \<Rightarrow> security_info \<Rightarrow> kernel_security_info \<Rightarrow> cis_result" where
  "check_3_2_28 env sec ks =
     (let r = ruleByID ''3.2.28''
      in checkSysctlFile env r ''/proc/sys/net/ipv4/conf/all/route_localnet'' ''0''
           (''net.ipv4.conf.all.route_localnet is not 0 '' @ em_dash @
            '' loopback addresses can be routed via non-loopback interfaces (SSRF risk)'')
           (''sysctl -w net.ipv4.conf.all.route_localnet=0 && echo '' @ squote @
            ''net.ipv4.conf.all.route_localnet=0'' @ squote @ '' >> /etc/sysctl.d/99-cis.conf''))"

definition check_3_2_29 :: "cis_host \<Rightarrow> security_info \<Rightarrow> kernel_security_info \<Rightarrow> cis_result" where
  "check_3_2_29 env sec ks =
     (let r = ruleByID ''3.2.29''
      in checkSysctlFile env r ''/proc/sys/net/ipv4/conf/default/route_localnet'' ''0''
           (''net.ipv4.conf.default.route_localnet is not 0 '' @ em_dash @
            '' new interfaces will route loopback addresses'')
           (''sysctl -w net.ipv4.conf.default.route_localnet=0 && echo '' @ squote @
            ''net.ipv4.conf.default.route_localnet=0'' @ squote @ '' >> /etc/sysctl.d/99-cis.conf''))"

definition check_3_2_30 :: "cis_host \<Rightarrow> security_info \<Rightarrow> kernel_security_info \<Rightarrow> cis_result" where
  "check_3_2_30 env sec ks =
     (let r = ruleByID ''3.2.30''
      in checkSysctlFile env r ''/proc/sys/net/ipv4/conf/all/proxy_arp'' ''0''
           (''net.ipv4.conf.all.proxy_arp is not 0 '' @ em_dash @
            '' host answers ARP requests on behalf of other hosts (ARP poisoning risk)'')
           (''sysctl -w net.ipv4.conf.all.proxy_arp=0 && echo '' @ squote @
            ''net.ipv4.conf.all.proxy_arp=0'' @ squote @ '' >> /etc/sysctl.d/99-cis.conf''))"

definition check_3_2_31 :: "cis_host \<Rightarrow> security_info \<Rightarrow> kernel_security_info \<Rightarrow> cis_result" where
  "check_3_2_31 env sec ks =
     (let r = ruleByID ''3.2.31''
      in checkSysctlFile env r ''/proc/sys/net/ipv4/conf/default/proxy_arp'' ''0''
           (''net.ipv4.conf.default.proxy_arp is not 0 '' @ em_dash @
            '' new interfaces will answer ARP on behalf of other hosts'')
           (''sysctl -w net.ipv4.conf.default.proxy_arp=0 && echo '' @ squote @
            ''net.ipv4.conf.default.proxy_arp=0'' @ squote @ '' >> /etc/sysctl.d/99-cis.conf''))"

definition check_3_2_32 :: "cis_host \<Rightarrow> security_info \<Rightarrow> kernel_security_info \<Rightarrow> cis_result" where
  "check_3_2_32 env sec ks =
     (let r = ruleByID ''3.2.32''
      in checkSysctlFile env r ''/proc/sys/net/ipv4/conf/default/accept_source_route'' ''0''
           (''net.ipv4.conf.default.accept_source_route is not 0 '' @ em_dash @
            '' source routing accepted on new interfaces'')
           (''sysctl -w net.ipv4.conf.default.accept_source_route=0 && echo '' @ squote @
            ''net.ipv4.conf.default.accept_source_route=0'' @ squote @
            '' >> /etc/sysctl.d/99-cis.conf''))"

definition check_3_2_33 :: "cis_host \<Rightarrow> security_info \<Rightarrow> kernel_security_info \<Rightarrow> cis_result" where
  "check_3_2_33 env sec ks =
     (let r = ruleByID ''3.2.33''
      in checkSysctlFile env r ''/proc/sys/net/ipv4/conf/default/accept_redirects'' ''0''
           (''net.ipv4.conf.default.accept_redirects is not 0 '' @ em_dash @
            '' ICMP redirects accepted on new interfaces'')
           (''sysctl -w net.ipv4.conf.default.accept_redirects=0 && echo '' @ squote @
            ''net.ipv4.conf.default.accept_redirects=0'' @ squote @
            '' >> /etc/sysctl.d/99-cis.conf''))"

definition check_3_2_34 :: "cis_host \<Rightarrow> security_info \<Rightarrow> kernel_security_info \<Rightarrow> cis_result" where
  "check_3_2_34 env sec ks =
     (let r = ruleByID ''3.2.34''
      in checkSysctlFile env r ''/proc/sys/net/ipv4/conf/default/secure_redirects'' ''0''
           (''net.ipv4.conf.default.secure_redirects is not 0 '' @ em_dash @
            '' gateway ICMP redirects accepted on new interfaces'')
           (''sysctl -w net.ipv4.conf.default.secure_redirects=0 && echo '' @ squote @
            ''net.ipv4.conf.default.secure_redirects=0'' @ squote @
            '' >> /etc/sysctl.d/99-cis.conf''))"

definition check_3_2_35 :: "cis_host \<Rightarrow> security_info \<Rightarrow> kernel_security_info \<Rightarrow> cis_result" where
  "check_3_2_35 env sec ks =
     (let r = ruleByID ''3.2.35''
      in checkSysctlFile env r ''/proc/sys/net/ipv4/conf/default/log_martians'' ''1''
           (''net.ipv4.conf.default.log_martians is not 1 '' @ em_dash @
            '' martian packets not logged on new interfaces'')
           (''sysctl -w net.ipv4.conf.default.log_martians=1 && echo '' @ squote @
            ''net.ipv4.conf.default.log_martians=1'' @ squote @ '' >> /etc/sysctl.d/99-cis.conf''))"

definition check_3_2_36 :: "cis_host \<Rightarrow> security_info \<Rightarrow> kernel_security_info \<Rightarrow> cis_result" where
  "check_3_2_36 env sec ks =
     (let r = ruleByID ''3.2.36''
      in checkSysctlFile env r ''/proc/sys/net/ipv6/conf/default/accept_ra'' ''0''
           (''net.ipv6.conf.default.accept_ra is not 0 '' @ em_dash @
            '' new interfaces will accept IPv6 router advertisements'')
           (''sysctl -w net.ipv6.conf.default.accept_ra=0 && echo '' @ squote @
            ''net.ipv6.conf.default.accept_ra=0'' @ squote @ '' >> /etc/sysctl.d/99-cis.conf''))"

definition check_3_2_37 :: "cis_host \<Rightarrow> security_info \<Rightarrow> kernel_security_info \<Rightarrow> cis_result" where
  "check_3_2_37 env sec ks =
     (let r = ruleByID ''3.2.37''
      in checkSysctlFile env r ''/proc/sys/net/ipv6/conf/default/accept_redirects'' ''0''
           (''net.ipv6.conf.default.accept_redirects is not 0 '' @ em_dash @
            '' new interfaces will accept IPv6 ICMP redirects'')
           (''sysctl -w net.ipv6.conf.default.accept_redirects=0 && echo '' @ squote @
            ''net.ipv6.conf.default.accept_redirects=0'' @ squote @
            '' >> /etc/sysctl.d/99-cis.conf''))"

definition check_3_2_38 :: "cis_host \<Rightarrow> security_info \<Rightarrow> kernel_security_info \<Rightarrow> cis_result" where
  "check_3_2_38 env sec ks =
     (let r = ruleByID ''3.2.38''
      in checkSysctlFile env r ''/proc/sys/net/ipv6/conf/all/accept_source_route'' ''0''
           (''net.ipv6.conf.all.accept_source_route is not 0 '' @ em_dash @
            '' IPv6 source-routed packets accepted'')
           (''sysctl -w net.ipv6.conf.all.accept_source_route=0 && echo '' @ squote @
            ''net.ipv6.conf.all.accept_source_route=0'' @ squote @
            '' >> /etc/sysctl.d/99-cis.conf''))"

definition check_3_2_39 :: "cis_host \<Rightarrow> security_info \<Rightarrow> kernel_security_info \<Rightarrow> cis_result" where
  "check_3_2_39 env sec ks =
     (let r = ruleByID ''3.2.39''
      in checkSysctlFile env r ''/proc/sys/net/ipv6/conf/default/accept_source_route'' ''0''
           (''net.ipv6.conf.default.accept_source_route is not 0 '' @ em_dash @
            '' new interfaces will accept IPv6 source-routed packets'')
           (''sysctl -w net.ipv6.conf.default.accept_source_route=0 && echo '' @ squote @
            ''net.ipv6.conf.default.accept_source_route=0'' @ squote @
            '' >> /etc/sysctl.d/99-cis.conf''))"

definition check_3_4_1 :: "cis_host \<Rightarrow> security_info \<Rightarrow> kernel_security_info \<Rightarrow> cis_result" where
  "check_3_4_1 env sec ks =
     checkModuleDisabled env (ruleByID ''3.4.1'') ''dccp''
       (''echo '' @ squote @ ''install dccp /bin/true'' @ squote @ '' > /etc/modprobe.d/dccp.conf'')"

definition check_3_4_2 :: "cis_host \<Rightarrow> security_info \<Rightarrow> kernel_security_info \<Rightarrow> cis_result" where
  "check_3_4_2 env sec ks =
     checkModuleDisabled env (ruleByID ''3.4.2'') ''sctp''
       (''echo '' @ squote @ ''install sctp /bin/true'' @ squote @ '' > /etc/modprobe.d/sctp.conf'')"

definition check_3_4_3 :: "cis_host \<Rightarrow> security_info \<Rightarrow> kernel_security_info \<Rightarrow> cis_result" where
  "check_3_4_3 env sec ks =
     checkModuleDisabled env (ruleByID ''3.4.3'') ''rds''
       (''echo '' @ squote @ ''install rds /bin/true'' @ squote @ '' > /etc/modprobe.d/rds.conf'')"

definition check_3_4_4 :: "cis_host \<Rightarrow> security_info \<Rightarrow> kernel_security_info \<Rightarrow> cis_result" where
  "check_3_4_4 env sec ks =
     checkModuleDisabled env (ruleByID ''3.4.4'') ''tipc''
       (''echo '' @ squote @ ''install tipc /bin/true'' @ squote @ '' > /etc/modprobe.d/tipc.conf'')"

definition check_3_4_5 :: "cis_host \<Rightarrow> security_info \<Rightarrow> kernel_security_info \<Rightarrow> cis_result" where
  "check_3_4_5 env sec ks =
     checkModuleDisabled env (ruleByID ''3.4.5'') ''bluetooth''
       (''echo '' @ squote @ ''install bluetooth /bin/true'' @ squote @
        '' > /etc/modprobe.d/bluetooth.conf && systemctl disable bluetooth'')"

definition check_3_5_1 :: "security_info \<Rightarrow> kernel_security_info \<Rightarrow> cis_result" where
  "check_3_5_1 sec ks =
     (let r = ruleByID ''3.5.1''
      in if security_FirewallUnreadable sec
           then unverifiedr r ''firewall state unreadable (run as root for full inspection)''
         else if security_FirewallActive sec then cis_pass r
         else if \<not> security_FirewallToolingPresent sec
           then failr r ''no firewall tooling detected'' ''install a firewall''
         else failr r
                (''firewall tooling present ('' @ security_FirewallType sec @ '') but not active'')
                ''enable the firewall: ufw enable (Ubuntu/Debian) or systemctl enable --now firewalld (RHEL/Rocky)'')"

definition check_3_5_1_1 :: "cis_host \<Rightarrow> security_info \<Rightarrow> kernel_security_info \<Rightarrow> cis_result" where
  "check_3_5_1_1 env sec ks =
     (let r = ruleByID ''3.5.1.1''
      in case Stat env debianVersionPath of
             None \<Rightarrow> skipr r ''ufw rule applies to Debian/Ubuntu systems only''
           | Some _ \<Rightarrow>
               (case first_some
                  (\<lambda>p. case Stat env p of None \<Rightarrow> None | Some _ \<Rightarrow> Some (cis_pass r))
                  ufwBinPaths of
                    Some c \<Rightarrow> c
                  | None \<Rightarrow> failr r ''ufw binary not found'' (firewallInstallCmd ''apt'')))"

definition check_3_5_1_2 :: "cis_host \<Rightarrow> security_info \<Rightarrow> kernel_security_info \<Rightarrow> cis_result" where
  "check_3_5_1_2 env sec ks =
     (let r = ruleByID ''3.5.1.2''
      in case Stat env debianVersionPath of
             None \<Rightarrow> skipr r cisSkipDebianOnly
           | Some _ \<Rightarrow>
               (case first_some
                  (\<lambda>p.
                    case Stat env p of
                        None \<Rightarrow> None
                      | Some _ \<Rightarrow>
                          Some (failr r
                                  (''iptables-persistent (netfilter-persistent) is installed '' @
                                   em_dash @ '' conflicts with ufw'')
                                  (iptablesPersistentRemoveCmd ''apt'')))
                  netfilterPersistentPaths of
                    Some c \<Rightarrow> c
                  | None \<Rightarrow> cis_pass r))"

definition check_3_5_1_3 :: "cis_host \<Rightarrow> security_info \<Rightarrow> kernel_security_info \<Rightarrow> cis_result" where
  "check_3_5_1_3 env sec ks =
     (let r = ruleByID ''3.5.1.3'';
          ufwPresent = False;
          ufwPresent =
            case first_some
              (\<lambda>p.
                case Stat env p of
                    None \<Rightarrow> None
                  | Some _ \<Rightarrow>
                      (let ufwPresent = True
                       in Some ufwPresent))
              ufwBinPaths of
              Some r \<Rightarrow> r
              | None \<Rightarrow> ufwPresent
      in if \<not> ufwPresent then skipr r ''ufw not installed''
         else case first_some
                (\<lambda>p. case Stat env p of None \<Rightarrow> None | Some _ \<Rightarrow> Some (cis_pass r))
                ufwWantsPaths of
                  Some c \<Rightarrow> c
                | None \<Rightarrow>
                    failr r ''ufw service is not enabled'' ''ufw enable && systemctl enable ufw'')"

definition check_3_5_1_4 :: "cis_host \<Rightarrow> security_info \<Rightarrow> kernel_security_info \<Rightarrow> cis_result" where
  "check_3_5_1_4 env sec ks =
     (let r = ruleByID ''3.5.1.4''
      in case ReadFile env ufwBeforeRulesPath of
             None \<Rightarrow>
               skipr r (''ufw not configured '' @ em_dash @ '' /etc/ufw/before.rules not found'')
           | Some data \<Rightarrow>
               (let content = to_lower data;
                    hasInput = contains content ''-i lo -j accept'';
                    hasOutput = contains content ''-o lo -j accept'';
                    hasDeny127 =
                      contains content ''127.0.0.0/8'' \<and>
                      (contains content ''-j drop'' \<or> contains content ''-j deny'')
                in if (\<not> hasInput \<or> \<not> hasOutput) \<or> \<not> hasDeny127
                     then (let missing = [];
                               missing =
                                 (if \<not> hasInput then missing @ [''loopback input ACCEPT rule'']
                                  else missing);
                               missing =
                                 (if \<not> hasOutput then missing @ [''loopback output ACCEPT rule'']
                                  else missing);
                               missing =
                                 (if \<not> hasDeny127 then missing @ [''127.0.0.0/8 deny rule'']
                                  else missing)
                           in failr r
                                (''missing loopback rules in before.rules: '' @ join missing '', '')
                                ''restore default loopback rules in /etc/ufw/before.rules or reinstall ufw'')
                   else case ReadFile env ufwBefore6RulesPath of
                            None \<Rightarrow> cis_pass r
                          | Some data6 \<Rightarrow>
                              (let c6 = to_lower data6;
                                   hasIn6 = contains c6 ''-i lo -j accept'';
                                   hasOut6 = contains c6 ''-o lo -j accept'';
                                   hasDeny6 =
                                     contains c6 ''::1'' \<and>
                                     (contains c6 ''-j drop'' \<or> contains c6 ''-j deny'')
                               in if (\<not> hasIn6 \<or> \<not> hasOut6) \<or> \<not> hasDeny6
                                    then (let missing = [];
                                              missing =
                                                (if \<not> hasIn6
                                                   then missing @ [''IPv6 loopback input ACCEPT'']
                                                 else missing);
                                              missing =
                                                (if \<not> hasOut6
                                                   then missing @ [''IPv6 loopback output ACCEPT'']
                                                 else missing);
                                              missing =
                                                (if \<not> hasDeny6 then missing @ [''::1 deny rule'']
                                                 else missing)
                                          in failr r
                                               (''missing IPv6 loopback rules in before6.rules: '' @
                                                join missing '', '')
                                               ''restore default IPv6 loopback rules in /etc/ufw/before6.rules'')
                                  else cis_pass r)))"

definition check_3_5_1_5 :: "cis_host \<Rightarrow> security_info \<Rightarrow> kernel_security_info \<Rightarrow> cis_result" where
  "check_3_5_1_5 env sec ks =
     (let r = ruleByID ''3.5.1.5''
      in case ReadFile env ufwDefaultPath of
             None \<Rightarrow> skipr r (''ufw not configured '' @ em_dash @ '' /etc/default/ufw not found'')
           | Some data \<Rightarrow>
               (case loop
                  (\<lambda>_ line.
                    let trimmed = trim_space line
                    in if trimmed = [] \<or> has_prefix trimmed ''#'' then Next ()
                       else case cut_prefix trimmed ''DEFAULT_OUTPUT_POLICY='' of
                                None \<Rightarrow> Next ()
                              | Some rest \<Rightarrow>
                                  (let val = trim_set rest (dquote @ squote)
                                   in if equal_fold val ''ALLOW'' then Return (cis_pass r)
                                      else Break ()))
                  ()
                  (split_byte data (CHR 0x0A)) of
                    Inl res \<Rightarrow> res
                  | Inr _ \<Rightarrow>
                      (case ReadFile env ufwUserRulesPath of
                           None \<Rightarrow>
                             failr r ''ufw output policy is not ALLOW and user.rules is unreadable''
                               ''configure outbound rules: set DEFAULT_OUTPUT_POLICY=ALLOW in /etc/default/ufw''
                         | Some data2 \<Rightarrow>
                             (let content = to_lower data2
                              in if (contains content ''-a ufw-user-output -j accept'' \<or>
                                     contains content ''-a ufw-user-output -j return'') \<or>
                                    contains content ''allow out''
                                   then cis_pass r
                                 else failr r
                                        ''ufw DEFAULT_OUTPUT_POLICY is not ALLOW and no explicit allow-out rules found''
                                        ''set DEFAULT_OUTPUT_POLICY=ALLOW in /etc/default/ufw or add explicit allow-out rules''))))"

definition check_3_5_1_6 :: "cis_host \<Rightarrow> security_info \<Rightarrow> kernel_security_info \<Rightarrow> cis_result" where
  "check_3_5_1_6 env sec ks =
     (let r = ruleByID ''3.5.1.6'';
          ufwPresent = False;
          ufwPresent =
            case first_some
              (\<lambda>p.
                case Stat env p of
                    None \<Rightarrow> None
                  | Some _ \<Rightarrow>
                      (let ufwPresent = True
                       in Some ufwPresent))
              ufwBinPaths of
              Some r \<Rightarrow> r
              | None \<Rightarrow> ufwPresent
      in if \<not> ufwPresent then skipr r ''ufw not installed''
         else case ReadFile env ufwUserRulesPath of
                  None \<Rightarrow>
                    unverifiedr r ''ufw user.rules not readable (run as root for full coverage)''
                | Some data \<Rightarrow>
                    (let allowedPorts = [];
                         hasRangeRule = False;
                         allowedPorts =
                           foldl
                             (\<lambda>allowedPorts line.
                               let line = trim_space line
                               in if \<not> contains line ''ufw-user-input'' \<or>
                                     \<not> has_suffix line ''-j ACCEPT''
                                    then allowedPorts
                                  else let (_, after, ok2) = cut line ''--dports ''
                                       in if ok2
                                            then (let (portSpec, _, _) = cut after '' ''
                                                  in foldl
                                                       (\<lambda>allowedPorts p.
                                                         case atoi (trim_space p) of
                                                             None \<Rightarrow> allowedPorts
                                                           | Some n \<Rightarrow> map_put allowedPorts n True)
                                                       allowedPorts
                                                       (split_byte portSpec (CHR '','')))
                                          else let (_, after, ok2) = cut line ''--dport ''
                                               in if ok2
                                                    then (let (portSpec, _, _) = cut after '' ''
                                                          in if contains portSpec '':''
                                                               then allowedPorts
                                                             else case atoi (trim_space portSpec) of
                                                                      None \<Rightarrow> allowedPorts
                                                                    | Some n \<Rightarrow>
                                                                        map_put allowedPorts n True)
                                                  else allowedPorts)
                             allowedPorts
                             (split_byte data (CHR 0x0A));
                         hasRangeRule =
                           hasRangeRule \<or> list_ex
                             (\<lambda>line.
                               let line = trim_space line
                               in if \<not> contains line ''ufw-user-input'' \<or>
                                     \<not> has_suffix line ''-j ACCEPT''
                                    then False
                                  else let (_, after, ok2) = cut line ''--dports ''
                                       in if ok2 then False
                                          else let (_, after, ok2) = cut line ''--dport ''
                                               in ok2 \<and>
                                                  (let (portSpec, _, _) = cut after '' ''
                                                   in contains portSpec '':''))
                             (split_byte data (CHR 0x0A))
                     in if security_ListeningPorts sec = [] then cis_pass r
                        else let uncovered =
                                   concat (map
                                             (\<lambda>pe.
                                               if portEntry_Port pe \<le> 0 then []
                                               else if map_get False allowedPorts
                                                         (portEntry_Port pe) \<or>
                                                       hasRangeRule
                                                 then []
                                               else [itoa (portEntry_Port pe) @ ''/'' @
                                                     portEntry_Protocol pe @ ''('' @
                                                     portEntry_Process pe @ '')''])
                                             (security_ListeningPorts sec))
                             in if uncovered = [] then cis_pass r
                                else failr r
                                       (''listening ports with no explicit ufw allow rule: '' @
                                        join uncovered '', '')
                                       ''add ufw rules: ufw allow <port>/<proto> for each service''))"

definition check_3_5_1_7 :: "cis_host \<Rightarrow> security_info \<Rightarrow> kernel_security_info \<Rightarrow> cis_result" where
  "check_3_5_1_7 env sec ks =
     (let r = ruleByID ''3.5.1.7''
      in case ReadFile env ufwDefaultPath of
             None \<Rightarrow> skipr r ''ufw not configured or /etc/default/ufw unreadable''
           | Some data \<Rightarrow>
               (let inputPolicy = [];
                    forwardPolicy = [];
                    inputPolicy =
                      foldl
                        (\<lambda>inputPolicy line.
                          let trimmed = trim_space line
                          in if trimmed = [] \<or> has_prefix trimmed ''#'' then inputPolicy
                             else case cut_prefix trimmed ''DEFAULT_INPUT_POLICY='' of
                                      None \<Rightarrow> inputPolicy
                                    | Some rest \<Rightarrow> trim_set rest (dquote @ squote))
                        inputPolicy
                        (split_byte data (CHR 0x0A));
                    forwardPolicy =
                      foldl
                        (\<lambda>forwardPolicy line.
                          let trimmed = trim_space line
                          in if trimmed = [] \<or> has_prefix trimmed ''#'' then forwardPolicy
                             else case cut_prefix trimmed ''DEFAULT_FORWARD_POLICY='' of
                                      None \<Rightarrow> forwardPolicy
                                    | Some rest \<Rightarrow> trim_set rest (dquote @ squote))
                        forwardPolicy
                        (split_byte data (CHR 0x0A))
                in if inputPolicy = [] \<and> forwardPolicy = []
                     then skipr r
                            ''no DEFAULT_INPUT_POLICY or DEFAULT_FORWARD_POLICY found in /etc/default/ufw''
                   else if equal_fold inputPolicy ''ACCEPT''
                     then failr r
                            (''DEFAULT_INPUT_POLICY is '' @ Quote env inputPolicy @ '' '' @
                             em_dash @ '' incoming traffic allowed by default'')
                            (''set DEFAULT_INPUT_POLICY='' @ dquote @ ''DROP'' @ dquote @
                             '' in /etc/default/ufw and run: ufw reload'')
                   else if equal_fold forwardPolicy ''ACCEPT''
                     then failr r
                            (''DEFAULT_FORWARD_POLICY is '' @ Quote env forwardPolicy @ '' '' @
                             em_dash @ '' forwarding allowed by default'')
                            (''set DEFAULT_FORWARD_POLICY='' @ dquote @ ''DROP'' @ dquote @
                             '' in /etc/default/ufw and run: ufw reload'')
                   else cis_pass r))"

definition check_3_6_1 :: "cis_host \<Rightarrow> security_info \<Rightarrow> kernel_security_info \<Rightarrow> cis_result" where
  "check_3_6_1 env sec ks =
     (let r = ruleByID ''3.6.1''
      in case ReadDir env sysClassNetPath of
             None \<Rightarrow> skipr r ''/sys/class/net not readable''
           | Some entries \<Rightarrow>
               (let up =
                      concat (map
                                (\<lambda>e.
                                  let wirelessDir =
                                        path_join [sysClassNetPath, entry_Name e, ''wireless'']
                                  in case Stat env wirelessDir of
                                         None \<Rightarrow> []
                                       | Some _ \<Rightarrow>
                                           (let flagsPath =
                                                  path_join
                                                    [sysClassNetPath, entry_Name e, ''flags'']
                                            in case ReadFile env flagsPath of
                                                   None \<Rightarrow> [entry_Name e]
                                                 | Some flagsData \<Rightarrow>
                                                     (let flagStr = trim_space flagsData
                                                      in case parse_int 16 64
                                                           (trim_prefix flagStr ''0x'') of
                                                             None \<Rightarrow> [entry_Name e]
                                                           | Some flags \<Rightarrow>
                                                               (if flags AND 1 \<noteq> 0
                                                                  then [entry_Name e]
                                                                else []))))
                                entries)
                in if up \<noteq> []
                     then failr r (''wireless interface(s) are active: '' @ join up '', '')
                            ''disable wireless: ip link set <iface> down && rfkill block all''
                   else cis_pass r))"


section \<open>Conformance\<close>

lemma check_2_1_1_conforms [conforming]: "conforms (ruleByID ''2.1.1'') (check_2_1_1 env sec ks)"
  unfolding check_2_1_1_def by (intro conforms_rules conforming; (simp; fail)?)

lemma check_2_1_2_conforms [conforming]: "conforms (ruleByID ''2.1.2'') (check_2_1_2 env sec ks)"
  unfolding check_2_1_2_def by (intro conforms_rules conforming; (simp; fail)?)

lemma check_2_2_1_conforms [conforming]: "conforms (ruleByID ''2.2.1'') (check_2_2_1 env sec ks)"
  unfolding check_2_2_1_def by (intro conforms_rules conforming; (simp; fail)?)

lemma check_2_2_2_conforms [conforming]: "conforms (ruleByID ''2.2.2'') (check_2_2_2 env sec ks)"
  unfolding check_2_2_2_def by (intro conforms_rules conforming; (simp; fail)?)

lemma check_2_2_3_conforms [conforming]: "conforms (ruleByID ''2.2.3'') (check_2_2_3 env sec ks)"
  unfolding check_2_2_3_def by (intro conforms_rules conforming; (simp; fail)?)

lemma check_2_2_4_conforms [conforming]: "conforms (ruleByID ''2.2.4'') (check_2_2_4 env sec ks)"
  unfolding check_2_2_4_def by (intro conforms_rules conforming; (simp; fail)?)

lemma check_2_2_5_conforms [conforming]: "conforms (ruleByID ''2.2.5'') (check_2_2_5 env sec ks)"
  unfolding check_2_2_5_def by (intro conforms_rules conforming; (simp; fail)?)

lemma check_2_3_1_conforms [conforming]: "conforms (ruleByID ''2.3.1'') (check_2_3_1 env sec ks)"
  unfolding check_2_3_1_def by (intro conforms_rules conforming; (simp; fail)?)

lemma check_2_3_2_conforms [conforming]: "conforms (ruleByID ''2.3.2'') (check_2_3_2 env sec ks)"
  unfolding check_2_3_2_def by (intro conforms_rules conforming; (simp; fail)?)

lemma check_2_3_3_conforms [conforming]: "conforms (ruleByID ''2.3.3'') (check_2_3_3 env sec ks)"
  unfolding check_2_3_3_def by (intro conforms_rules conforming; (simp; fail)?)

lemma check_2_3_4_conforms [conforming]: "conforms (ruleByID ''2.3.4'') (check_2_3_4 env sec ks)"
  unfolding check_2_3_4_def by (intro conforms_rules conforming; (simp; fail)?)

lemma check_2_3_5_conforms [conforming]: "conforms (ruleByID ''2.3.5'') (check_2_3_5 env sec ks)"
  unfolding check_2_3_5_def by (intro conforms_rules conforming; (simp; fail)?)

lemma check_2_3_6_conforms [conforming]: "conforms (ruleByID ''2.3.6'') (check_2_3_6 env sec ks)"
  unfolding check_2_3_6_def by (intro conforms_rules conforming; (simp; fail)?)

lemma check_2_3_7_conforms [conforming]: "conforms (ruleByID ''2.3.7'') (check_2_3_7 env sec ks)"
  unfolding check_2_3_7_def by (intro conforms_rules conforming; (simp; fail)?)

lemma check_2_3_8_conforms [conforming]: "conforms (ruleByID ''2.3.8'') (check_2_3_8 env sec ks)"
  unfolding check_2_3_8_def by (intro conforms_rules conforming; (simp; fail)?)

lemma check_2_3_9_conforms [conforming]: "conforms (ruleByID ''2.3.9'') (check_2_3_9 env sec ks)"
  unfolding check_2_3_9_def by (intro conforms_rules conforming; (simp; fail)?)

lemma check_2_3_10_conforms [conforming]: "conforms (ruleByID ''2.3.10'') (check_2_3_10 env sec ks)"
  unfolding check_2_3_10_def by (intro conforms_rules conforming; (simp; fail)?)

lemma check_2_3_11_conforms [conforming]: "conforms (ruleByID ''2.3.11'') (check_2_3_11 env sec ks)"
  unfolding check_2_3_11_def by (intro conforms_rules conforming; (simp; fail)?)

lemma check_2_3_12_conforms [conforming]: "conforms (ruleByID ''2.3.12'') (check_2_3_12 env sec ks)"
  unfolding check_2_3_12_def by (intro conforms_rules conforming; (simp; fail)?)

lemma check_2_3_13_conforms [conforming]: "conforms (ruleByID ''2.3.13'') (check_2_3_13 env sec ks)"
  unfolding check_2_3_13_def by (intro conforms_rules conforming; (simp; fail)?)

lemma check_2_3_14_conforms [conforming]: "conforms (ruleByID ''2.3.14'') (check_2_3_14 env sec ks)"
  unfolding check_2_3_14_def by (intro conforms_rules conforming; (simp; fail)?)

lemma check_2_3_15_conforms [conforming]: "conforms (ruleByID ''2.3.15'') (check_2_3_15 env sec ks)"
  unfolding check_2_3_15_def by (intro conforms_rules conforming; (simp; fail)?)

lemma check_2_3_16_conforms [conforming]: "conforms (ruleByID ''2.3.16'') (check_2_3_16 env sec ks)"
  unfolding check_2_3_16_def by (intro conforms_rules conforming; (simp; fail)?)

lemma check_3_1_1_conforms [conforming]: "conforms (ruleByID ''3.1.1'') (check_3_1_1 env sec ks)"
  unfolding check_3_1_1_def by (intro conforms_rules conforming; (simp; fail)?)

lemma check_3_1_2_conforms [conforming]: "conforms (ruleByID ''3.1.2'') (check_3_1_2 env sec ks)"
  unfolding check_3_1_2_def by (intro conforms_rules conforming; (simp; fail)?)

lemma check_3_1_3_conforms [conforming]: "conforms (ruleByID ''3.1.3'') (check_3_1_3 env sec ks)"
  unfolding check_3_1_3_def by (intro conforms_rules conforming; (simp; fail)?)

lemma check_3_2_1_conforms [conforming]: "conforms (ruleByID ''3.2.1'') (check_3_2_1 env sec ks)"
  unfolding check_3_2_1_def by (intro conforms_rules conforming; (simp; fail)?)

lemma check_3_2_2_conforms [conforming]: "conforms (ruleByID ''3.2.2'') (check_3_2_2 env sec ks)"
  unfolding check_3_2_2_def by (intro conforms_rules conforming; (simp; fail)?)

lemma check_3_2_3_conforms [conforming]: "conforms (ruleByID ''3.2.3'') (check_3_2_3 env sec ks)"
  unfolding check_3_2_3_def by (intro conforms_rules conforming; (simp; fail)?)

lemma check_3_2_4_conforms [conforming]: "conforms (ruleByID ''3.2.4'') (check_3_2_4 env sec ks)"
  unfolding check_3_2_4_def by (intro conforms_rules conforming; (simp; fail)?)

lemma check_3_2_5_conforms [conforming]: "conforms (ruleByID ''3.2.5'') (check_3_2_5 env sec ks)"
  unfolding check_3_2_5_def by (intro conforms_rules conforming; (simp; fail)?)

lemma check_3_2_6_conforms [conforming]: "conforms (ruleByID ''3.2.6'') (check_3_2_6 env sec ks)"
  unfolding check_3_2_6_def by (intro conforms_rules conforming; (simp; fail)?)

lemma check_3_2_7_conforms [conforming]: "conforms (ruleByID ''3.2.7'') (check_3_2_7 env sec ks)"
  unfolding check_3_2_7_def by (intro conforms_rules conforming; (simp; fail)?)

lemma check_3_2_8_conforms [conforming]: "conforms (ruleByID ''3.2.8'') (check_3_2_8 env sec ks)"
  unfolding check_3_2_8_def by (intro conforms_rules conforming; (simp; fail)?)

lemma check_3_2_9_conforms [conforming]: "conforms (ruleByID ''3.2.9'') (check_3_2_9 env sec ks)"
  unfolding check_3_2_9_def by (intro conforms_rules conforming; (simp; fail)?)

lemma check_3_2_10_conforms [conforming]: "conforms (ruleByID ''3.2.10'') (check_3_2_10 env sec ks)"
  unfolding check_3_2_10_def by (intro conforms_rules conforming; (simp; fail)?)

lemma check_3_2_11_conforms [conforming]: "conforms (ruleByID ''3.2.11'') (check_3_2_11 env sec ks)"
  unfolding check_3_2_11_def by (intro conforms_rules conforming; (simp; fail)?)

lemma check_3_2_12_conforms [conforming]: "conforms (ruleByID ''3.2.12'') (check_3_2_12 env sec ks)"
  unfolding check_3_2_12_def by (intro conforms_rules conforming; (simp; fail)?)

lemma check_3_2_13_conforms [conforming]: "conforms (ruleByID ''3.2.13'') (check_3_2_13 env sec ks)"
  unfolding check_3_2_13_def by (intro conforms_rules conforming; (simp; fail)?)

lemma check_3_2_14_conforms [conforming]: "conforms (ruleByID ''3.2.14'') (check_3_2_14 env sec ks)"
  unfolding check_3_2_14_def by (intro conforms_rules conforming; (simp; fail)?)

lemma check_3_2_15_conforms [conforming]: "conforms (ruleByID ''3.2.15'') (check_3_2_15 env sec ks)"
  unfolding check_3_2_15_def by (intro conforms_rules conforming; (simp; fail)?)

lemma check_3_2_16_conforms [conforming]: "conforms (ruleByID ''3.2.16'') (check_3_2_16 env sec ks)"
  unfolding check_3_2_16_def by (intro conforms_rules conforming; (simp; fail)?)

lemma check_3_2_17_conforms [conforming]: "conforms (ruleByID ''3.2.17'') (check_3_2_17 env sec ks)"
  unfolding check_3_2_17_def by (intro conforms_rules conforming; (simp; fail)?)

lemma check_3_2_18_conforms [conforming]: "conforms (ruleByID ''3.2.18'') (check_3_2_18 env sec ks)"
  unfolding check_3_2_18_def by (intro conforms_rules conforming; (simp; fail)?)

lemma check_3_2_22_conforms [conforming]: "conforms (ruleByID ''3.2.22'') (check_3_2_22 env sec ks)"
  unfolding check_3_2_22_def by (intro conforms_rules conforming; (simp; fail)?)

lemma check_3_2_23_conforms [conforming]: "conforms (ruleByID ''3.2.23'') (check_3_2_23 env sec ks)"
  unfolding check_3_2_23_def by (intro conforms_rules conforming; (simp; fail)?)

lemma check_3_2_24_conforms [conforming]: "conforms (ruleByID ''3.2.24'') (check_3_2_24 env sec ks)"
  unfolding check_3_2_24_def by (intro conforms_rules conforming; (simp; fail)?)

lemma check_3_2_25_conforms [conforming]: "conforms (ruleByID ''3.2.25'') (check_3_2_25 env sec ks)"
  unfolding check_3_2_25_def by (intro conforms_rules conforming; (simp; fail)?)

lemma check_3_2_26_conforms [conforming]: "conforms (ruleByID ''3.2.26'') (check_3_2_26 env sec ks)"
  unfolding check_3_2_26_def by (intro conforms_rules conforming; (simp; fail)?)

lemma check_3_2_27_conforms [conforming]: "conforms (ruleByID ''3.2.27'') (check_3_2_27 env sec ks)"
  unfolding check_3_2_27_def by (intro conforms_rules conforming; (simp; fail)?)

lemma check_3_2_28_conforms [conforming]: "conforms (ruleByID ''3.2.28'') (check_3_2_28 env sec ks)"
  unfolding check_3_2_28_def by (intro conforms_rules conforming; (simp; fail)?)

lemma check_3_2_29_conforms [conforming]: "conforms (ruleByID ''3.2.29'') (check_3_2_29 env sec ks)"
  unfolding check_3_2_29_def by (intro conforms_rules conforming; (simp; fail)?)

lemma check_3_2_30_conforms [conforming]: "conforms (ruleByID ''3.2.30'') (check_3_2_30 env sec ks)"
  unfolding check_3_2_30_def by (intro conforms_rules conforming; (simp; fail)?)

lemma check_3_2_31_conforms [conforming]: "conforms (ruleByID ''3.2.31'') (check_3_2_31 env sec ks)"
  unfolding check_3_2_31_def by (intro conforms_rules conforming; (simp; fail)?)

lemma check_3_2_32_conforms [conforming]: "conforms (ruleByID ''3.2.32'') (check_3_2_32 env sec ks)"
  unfolding check_3_2_32_def by (intro conforms_rules conforming; (simp; fail)?)

lemma check_3_2_33_conforms [conforming]: "conforms (ruleByID ''3.2.33'') (check_3_2_33 env sec ks)"
  unfolding check_3_2_33_def by (intro conforms_rules conforming; (simp; fail)?)

lemma check_3_2_34_conforms [conforming]: "conforms (ruleByID ''3.2.34'') (check_3_2_34 env sec ks)"
  unfolding check_3_2_34_def by (intro conforms_rules conforming; (simp; fail)?)

lemma check_3_2_35_conforms [conforming]: "conforms (ruleByID ''3.2.35'') (check_3_2_35 env sec ks)"
  unfolding check_3_2_35_def by (intro conforms_rules conforming; (simp; fail)?)

lemma check_3_2_36_conforms [conforming]: "conforms (ruleByID ''3.2.36'') (check_3_2_36 env sec ks)"
  unfolding check_3_2_36_def by (intro conforms_rules conforming; (simp; fail)?)

lemma check_3_2_37_conforms [conforming]: "conforms (ruleByID ''3.2.37'') (check_3_2_37 env sec ks)"
  unfolding check_3_2_37_def by (intro conforms_rules conforming; (simp; fail)?)

lemma check_3_2_38_conforms [conforming]: "conforms (ruleByID ''3.2.38'') (check_3_2_38 env sec ks)"
  unfolding check_3_2_38_def by (intro conforms_rules conforming; (simp; fail)?)

lemma check_3_2_39_conforms [conforming]: "conforms (ruleByID ''3.2.39'') (check_3_2_39 env sec ks)"
  unfolding check_3_2_39_def by (intro conforms_rules conforming; (simp; fail)?)

lemma check_3_4_1_conforms [conforming]: "conforms (ruleByID ''3.4.1'') (check_3_4_1 env sec ks)"
  unfolding check_3_4_1_def by (intro conforms_rules conforming; (simp; fail)?)

lemma check_3_4_2_conforms [conforming]: "conforms (ruleByID ''3.4.2'') (check_3_4_2 env sec ks)"
  unfolding check_3_4_2_def by (intro conforms_rules conforming; (simp; fail)?)

lemma check_3_4_3_conforms [conforming]: "conforms (ruleByID ''3.4.3'') (check_3_4_3 env sec ks)"
  unfolding check_3_4_3_def by (intro conforms_rules conforming; (simp; fail)?)

lemma check_3_4_4_conforms [conforming]: "conforms (ruleByID ''3.4.4'') (check_3_4_4 env sec ks)"
  unfolding check_3_4_4_def by (intro conforms_rules conforming; (simp; fail)?)

lemma check_3_4_5_conforms [conforming]: "conforms (ruleByID ''3.4.5'') (check_3_4_5 env sec ks)"
  unfolding check_3_4_5_def by (intro conforms_rules conforming; (simp; fail)?)

lemma check_3_5_1_conforms [conforming]: "conforms (ruleByID ''3.5.1'') (check_3_5_1 sec ks)"
  unfolding check_3_5_1_def by (intro conforms_rules conforming; (simp; fail)?)

lemma check_3_5_1_1_conforms [conforming]: "conforms (ruleByID ''3.5.1.1'') (check_3_5_1_1 env sec ks)"
  unfolding check_3_5_1_1_def by (intro conforms_rules conforming; (simp; fail)?)

lemma check_3_5_1_2_conforms [conforming]: "conforms (ruleByID ''3.5.1.2'') (check_3_5_1_2 env sec ks)"
  unfolding check_3_5_1_2_def by (intro conforms_rules conforming; (simp; fail)?)

lemma check_3_5_1_3_conforms [conforming]: "conforms (ruleByID ''3.5.1.3'') (check_3_5_1_3 env sec ks)"
  unfolding check_3_5_1_3_def by (intro conforms_rules conforming; (simp; fail)?)

lemma check_3_5_1_4_conforms [conforming]: "conforms (ruleByID ''3.5.1.4'') (check_3_5_1_4 env sec ks)"
  unfolding check_3_5_1_4_def by (intro conforms_rules conforming; (simp; fail)?)

lemma check_3_5_1_5_conforms [conforming]: "conforms (ruleByID ''3.5.1.5'') (check_3_5_1_5 env sec ks)"
  unfolding check_3_5_1_5_def by (intro conforms_rules conforming; (simp; fail)?)

lemma check_3_5_1_6_conforms [conforming]: "conforms (ruleByID ''3.5.1.6'') (check_3_5_1_6 env sec ks)"
  unfolding check_3_5_1_6_def by (intro conforms_rules conforming; (simp; fail)?)

lemma check_3_5_1_7_conforms [conforming]: "conforms (ruleByID ''3.5.1.7'') (check_3_5_1_7 env sec ks)"
  unfolding check_3_5_1_7_def by (intro conforms_rules conforming; (simp; fail)?)

lemma check_3_6_1_conforms [conforming]: "conforms (ruleByID ''3.6.1'') (check_3_6_1 env sec ks)"
  unfolding check_3_6_1_def by (intro conforms_rules conforming; (simp; fail)?)

end
