(* ===== verification/Cis_Files.thy ===== *)
theory Cis_Files
  imports Cis_Rules
begin

text \<open>
  The rules on file systems, mounts, modules, banners and the modes and owners of files. One definition per rule of internal/cis/rules.go, named by the rule.
\<close>

section \<open>Checks\<close>

definition check_1_2_1 :: "cis_host \<Rightarrow> security_info \<Rightarrow> kernel_security_info \<Rightarrow> cis_result" where
  "check_1_2_1 env sec ks =
     (let r = ruleByID ''1.2.1''
      in case Stat env debianVersionPath of
             None \<Rightarrow> skipr r cisSkipDebianOnly
           | Some _ \<Rightarrow>
               (case ReadFile env aptSourcesListPath of
                    None \<Rightarrow>
                      (case ReadDir env aptSourcesListDPath of
                           None \<Rightarrow>
                             failr r ''no apt repositories configured''
                               ''configure apt repositories in /etc/apt/sources.list or /etc/apt/sources.list.d/''
                         | Some entries \<Rightarrow>
                             (case first_some
                                (\<lambda>e.
                                  let name = entry_Name e
                                  in if has_suffix name ''.list'' \<or> has_suffix name ''.sources''
                                       then Some (cis_pass r)
                                     else None)
                                entries of
                                  Some c \<Rightarrow> c
                                | None \<Rightarrow>
                                    failr r ''no apt repositories configured''
                                      ''configure apt repositories in /etc/apt/sources.list or /etc/apt/sources.list.d/''))
                  | Some data \<Rightarrow>
                      (case first_some
                         (\<lambda>line.
                           let trimmed = trim_space line
                           in if trimmed \<noteq> [] \<and> \<not> has_prefix trimmed ''#'' then Some (cis_pass r)
                              else None)
                         (split_byte data (CHR 0x0A)) of
                           Some c \<Rightarrow> c
                         | None \<Rightarrow>
                             (case ReadDir env aptSourcesListDPath of
                                  None \<Rightarrow>
                                    failr r ''no apt repositories configured''
                                      ''configure apt repositories in /etc/apt/sources.list or /etc/apt/sources.list.d/''
                                | Some entries \<Rightarrow>
                                    (case first_some
                                       (\<lambda>e.
                                         let name = entry_Name e
                                         in if has_suffix name ''.list'' \<or>
                                               has_suffix name ''.sources''
                                              then Some (cis_pass r)
                                            else None)
                                       entries of
                                         Some c \<Rightarrow> c
                                       | None \<Rightarrow>
                                           failr r ''no apt repositories configured''
                                             ''configure apt repositories in /etc/apt/sources.list or /etc/apt/sources.list.d/'')))))"

definition check_1_2_2 :: "cis_host \<Rightarrow> security_info \<Rightarrow> kernel_security_info \<Rightarrow> cis_result" where
  "check_1_2_2 env sec ks =
     (let r = ruleByID ''1.2.2''
      in case Stat env debianVersionPath of
             None \<Rightarrow> skipr r cisSkipDebianOnly
           | Some _ \<Rightarrow>
               (case Stat env aptTrustedGpgPath of
                    None \<Rightarrow>
                      (case ReadDir env aptTrustedGpgDPath of
                           None \<Rightarrow>
                             (case ReadDir env aptKeyringsPath of
                                  None \<Rightarrow>
                                    failr r ''no GPG keys found for apt repositories''
                                      ''verify apt GPG keys: apt-key list or inspect /etc/apt/trusted.gpg.d/ and /etc/apt/keyrings/''
                                | Some entries2 \<Rightarrow>
                                    (if entries2 \<noteq> [] then cis_pass r
                                     else failr r ''no GPG keys found for apt repositories''
                                            ''verify apt GPG keys: apt-key list or inspect /etc/apt/trusted.gpg.d/ and /etc/apt/keyrings/''))
                         | Some entries \<Rightarrow>
                             (if entries \<noteq> [] then cis_pass r
                              else case ReadDir env aptKeyringsPath of
                                       None \<Rightarrow>
                                         failr r ''no GPG keys found for apt repositories''
                                           ''verify apt GPG keys: apt-key list or inspect /etc/apt/trusted.gpg.d/ and /etc/apt/keyrings/''
                                     | Some entries2 \<Rightarrow>
                                         (if entries2 \<noteq> [] then cis_pass r
                                          else failr r ''no GPG keys found for apt repositories''
                                                 ''verify apt GPG keys: apt-key list or inspect /etc/apt/trusted.gpg.d/ and /etc/apt/keyrings/'')))
                  | Some _ \<Rightarrow> cis_pass r))"

definition check_1_2_3 :: "cis_host \<Rightarrow> security_info \<Rightarrow> kernel_security_info \<Rightarrow> cis_result" where
  "check_1_2_3 env sec ks =
     (let r = ruleByID ''1.2.3''
      in case Stat env debianVersionPath of
             None \<Rightarrow> skipr r cisSkipDebianOnly
           | Some _ \<Rightarrow>
               (case ReadDir env aptConfDPath of
                    None \<Rightarrow> cis_pass r
                  | Some entries \<Rightarrow>
                      (case first_some
                         (\<lambda>e.
                           if entry_IsDir e \<or> \<not> has_suffix (entry_Name e) ''.conf'' then None
                           else case ReadFile env (path_join [aptConfDPath, entry_Name e]) of
                                    None \<Rightarrow> None
                                  | Some data \<Rightarrow>
                                      first_some
                                        (\<lambda>line.
                                          let line = trim_space line
                                          in if has_prefix line ''//'' \<or> has_prefix line ''#''
                                               then None
                                             else let lower = to_lower line
                                                  in if contains lower ''allowunauthenticated'' \<and>
                                                        contains lower ''true''
                                                       then Some (failr r
                                                                    (''AllowUnauthenticated = true found in '' @
                                                                     entry_Name e)
                                                                    (''remove or set AllowUnauthenticated '' @
                                                                     dquote @ ''false'' @ dquote @
                                                                     '' in /etc/apt/apt.conf.d/''))
                                                     else None)
                                        (split_byte data (CHR 0x0A)))
                         entries of
                           Some c \<Rightarrow> c
                         | None \<Rightarrow> cis_pass r)))"

definition check_1_2_4 :: "cis_host \<Rightarrow> security_info \<Rightarrow> kernel_security_info \<Rightarrow> cis_result" where
  "check_1_2_4 env sec ks =
     (let r = ruleByID ''1.2.4''
      in case Stat env debianVersionPath of
             None \<Rightarrow> skipr r cisSkipDebianOnly
           | Some _ \<Rightarrow>
               (case first_some
                  (\<lambda>p. case Stat env p of None \<Rightarrow> None | Some _ \<Rightarrow> Some (cis_pass r))
                  unattendedUpgradesBinPaths of
                    Some c \<Rightarrow> c
                  | None \<Rightarrow>
                      failr r ''unattended-upgrades not installed''
                        (unattendedUpgradesInstallCmd ''apt'')))"

definition check_1_3_1 :: "security_info \<Rightarrow> kernel_security_info \<Rightarrow> cis_result" where
  "check_1_3_1 sec ks =
     (let r = ruleByID ''1.3.1''
      in if \<not> security_AIDEInstalled sec
           then failr r ''AIDE (Advanced Intrusion Detection Environment) is not installed''
                  (aideInstallCmd ''apt'')
         else cis_pass r)"

definition check_1_3_2 :: "security_info \<Rightarrow> kernel_security_info \<Rightarrow> cis_result" where
  "check_1_3_2 sec ks =
     (let r = ruleByID ''1.3.2''
      in if \<not> security_AIDEInstalled sec
           then skipr r (''AIDE not installed '' @ em_dash @ '' install first (rule 1.3.1)'')
         else if \<not> security_AIDEDBExists sec
           then failr r ''AIDE database not initialized''
                  ''run: aide --init && mv /var/lib/aide/aide.db.new /var/lib/aide/aide.db''
         else if security_AIDELastRunDays sec = - 1
           then failr r ''AIDE has never been run''
                  ''schedule: 0 5 * * * root /usr/bin/aide --check''
         else if 7 < security_AIDELastRunDays sec
           then failr r
                  (''AIDE last ran '' @ itoa (security_AIDELastRunDays sec) @
                   '' days ago (threshold: 7 days)'')
                  ''schedule: 0 5 * * * root /usr/bin/aide --check''
         else cis_pass r)"

definition check_1_4_1 :: "cis_host \<Rightarrow> security_info \<Rightarrow> kernel_security_info \<Rightarrow> cis_result" where
  "check_1_4_1 env sec ks =
     (let r = ruleByID ''1.4.1''
      in case first_some
           (\<lambda>p.
             case Stat env p of
                 None \<Rightarrow> None
               | Some _ \<Rightarrow> Some (checkFilePerm env r p 0b110000000 (''chmod og-rwx '' @ p)))
           grubCfgPaths of
             Some c \<Rightarrow> c
           | None \<Rightarrow> skipr r ''grub.cfg not found at any known path (UEFI-only or non-GRUB system)'')"

definition check_1_4_2 :: "cis_host \<Rightarrow> security_info \<Rightarrow> kernel_security_info \<Rightarrow> cis_result" where
  "check_1_4_2 env sec ks =
     (let r = ruleByID ''1.4.2''
      in case first_some
           (\<lambda>p.
             case Stat env p of
                 None \<Rightarrow> None
               | Some _ \<Rightarrow> Some (checkFileOwnerRootRoot env r p (''chown root:root '' @ p)))
           grubCfgPaths of
             Some c \<Rightarrow> c
           | None \<Rightarrow> skipr r ''grub.cfg not found at any known path (UEFI-only or non-GRUB system)'')"

definition check_1_1_1_1 :: "cis_host \<Rightarrow> security_info \<Rightarrow> kernel_security_info \<Rightarrow> cis_result" where
  "check_1_1_1_1 env sec ks =
     checkModuleDisabled env (ruleByID ''1.1.1.1'') ''cramfs''
       (''echo '' @ squote @ ''install cramfs /bin/true'' @ squote @
        '' > /etc/modprobe.d/cramfs.conf'')"

definition check_1_1_1_2 :: "cis_host \<Rightarrow> security_info \<Rightarrow> kernel_security_info \<Rightarrow> cis_result" where
  "check_1_1_1_2 env sec ks =
     checkModuleDisabled env (ruleByID ''1.1.1.2'') ''freevxfs''
       (''echo '' @ squote @ ''install freevxfs /bin/true'' @ squote @
        '' > /etc/modprobe.d/freevxfs.conf'')"

definition check_1_1_1_3 :: "cis_host \<Rightarrow> security_info \<Rightarrow> kernel_security_info \<Rightarrow> cis_result" where
  "check_1_1_1_3 env sec ks =
     checkModuleDisabled env (ruleByID ''1.1.1.3'') ''jffs2''
       (''echo '' @ squote @ ''install jffs2 /bin/true'' @ squote @
        '' > /etc/modprobe.d/jffs2.conf'')"

definition check_1_1_1_4 :: "cis_host \<Rightarrow> security_info \<Rightarrow> kernel_security_info \<Rightarrow> cis_result" where
  "check_1_1_1_4 env sec ks =
     checkModuleDisabled env (ruleByID ''1.1.1.4'') ''hfs''
       (''echo '' @ squote @ ''install hfs /bin/true'' @ squote @ '' > /etc/modprobe.d/hfs.conf'')"

definition check_1_1_1_5 :: "cis_host \<Rightarrow> security_info \<Rightarrow> kernel_security_info \<Rightarrow> cis_result" where
  "check_1_1_1_5 env sec ks =
     checkModuleDisabled env (ruleByID ''1.1.1.5'') ''hfsplus''
       (''echo '' @ squote @ ''install hfsplus /bin/true'' @ squote @
        '' > /etc/modprobe.d/hfsplus.conf'')"

definition check_1_1_1_6 :: "cis_host \<Rightarrow> security_info \<Rightarrow> kernel_security_info \<Rightarrow> cis_result" where
  "check_1_1_1_6 env sec ks =
     checkModuleDisabled env (ruleByID ''1.1.1.6'') ''squashfs''
       (''echo '' @ squote @ ''install squashfs /bin/true'' @ squote @
        '' > /etc/modprobe.d/squashfs.conf (disable only when snaps are not used)'')"

definition check_1_1_1_7 :: "cis_host \<Rightarrow> security_info \<Rightarrow> kernel_security_info \<Rightarrow> cis_result" where
  "check_1_1_1_7 env sec ks =
     checkModuleDisabled env (ruleByID ''1.1.1.7'') ''udf''
       (''echo '' @ squote @ ''install udf /bin/true'' @ squote @ '' > /etc/modprobe.d/udf.conf'')"

definition check_1_1_2 :: "cis_host \<Rightarrow> security_info \<Rightarrow> kernel_security_info \<Rightarrow> cis_result" where
  "check_1_1_2 env sec ks =
     checkSeparateMountPoint env (ruleByID ''1.1.2'') ''/tmp''
       ''add tmpfs /tmp tmpfs defaults,rw,nosuid,nodev,noexec 0 0 to /etc/fstab''"

definition check_1_1_3 :: "cis_host \<Rightarrow> security_info \<Rightarrow> kernel_security_info \<Rightarrow> cis_result" where
  "check_1_1_3 env sec ks =
     checkMountOption env (ruleByID ''1.1.3'') ''/tmp'' ''nodev''
       (''add '' @ squote @ ''nodev'' @ squote @ '' to /tmp mount options in /etc/fstab'')"

definition check_1_1_4 :: "cis_host \<Rightarrow> security_info \<Rightarrow> kernel_security_info \<Rightarrow> cis_result" where
  "check_1_1_4 env sec ks =
     checkMountOption env (ruleByID ''1.1.4'') ''/tmp'' ''nosuid''
       (''add '' @ squote @ ''nosuid'' @ squote @ '' to /tmp mount options in /etc/fstab'')"

definition check_1_1_5 :: "cis_host \<Rightarrow> security_info \<Rightarrow> kernel_security_info \<Rightarrow> cis_result" where
  "check_1_1_5 env sec ks =
     checkMountOption env (ruleByID ''1.1.5'') ''/tmp'' ''noexec''
       (''add '' @ squote @ ''noexec'' @ squote @ '' to /tmp mount options in /etc/fstab'')"

definition check_1_1_6 :: "cis_host \<Rightarrow> security_info \<Rightarrow> kernel_security_info \<Rightarrow> cis_result" where
  "check_1_1_6 env sec ks =
     checkMountOption env (ruleByID ''1.1.6'') cisPathDevShm ''nodev''
       (''add '' @ squote @ ''nodev'' @ squote @ '' to /dev/shm mount options in /etc/fstab'')"

definition check_1_1_7 :: "cis_host \<Rightarrow> security_info \<Rightarrow> kernel_security_info \<Rightarrow> cis_result" where
  "check_1_1_7 env sec ks =
     checkMountOption env (ruleByID ''1.1.7'') cisPathDevShm ''nosuid''
       (''add '' @ squote @ ''nosuid'' @ squote @ '' to /dev/shm mount options in /etc/fstab'')"

definition check_1_1_8 :: "cis_host \<Rightarrow> security_info \<Rightarrow> kernel_security_info \<Rightarrow> cis_result" where
  "check_1_1_8 env sec ks =
     checkMountOption env (ruleByID ''1.1.8'') cisPathDevShm ''noexec''
       (''add '' @ squote @ ''noexec'' @ squote @ '' to /dev/shm mount options in /etc/fstab'')"

definition check_1_1_9 :: "cis_host \<Rightarrow> security_info \<Rightarrow> kernel_security_info \<Rightarrow> cis_result" where
  "check_1_1_9 env sec ks =
     checkMountOption env (ruleByID ''1.1.9'') cisPathVarTmp ''nodev''
       (''add '' @ squote @ ''nodev'' @ squote @ '' to /var/tmp mount options in /etc/fstab'')"

definition check_1_1_10 :: "cis_host \<Rightarrow> security_info \<Rightarrow> kernel_security_info \<Rightarrow> cis_result" where
  "check_1_1_10 env sec ks =
     checkMountOption env (ruleByID ''1.1.10'') cisPathVarTmp ''nosuid''
       (''add '' @ squote @ ''nosuid'' @ squote @ '' to /var/tmp mount options in /etc/fstab'')"

definition check_1_1_11 :: "cis_host \<Rightarrow> security_info \<Rightarrow> kernel_security_info \<Rightarrow> cis_result" where
  "check_1_1_11 env sec ks =
     checkMountOption env (ruleByID ''1.1.11'') cisPathVarTmp ''noexec''
       (''add '' @ squote @ ''noexec'' @ squote @ '' to /var/tmp mount options in /etc/fstab'')"

definition check_1_1_12 :: "cis_host \<Rightarrow> security_info \<Rightarrow> kernel_security_info \<Rightarrow> cis_result" where
  "check_1_1_12 env sec ks =
     checkSeparateMountPoint env (ruleByID ''1.1.12'') varLogPath
       ''create a separate /var/log partition and add to /etc/fstab''"

definition check_1_1_13 :: "cis_host \<Rightarrow> security_info \<Rightarrow> kernel_security_info \<Rightarrow> cis_result" where
  "check_1_1_13 env sec ks =
     checkSeparateMountPoint env (ruleByID ''1.1.13'') ''/var/log/audit''
       ''create a separate /var/log/audit partition and add to /etc/fstab''"

definition check_1_1_14 :: "cis_host \<Rightarrow> security_info \<Rightarrow> kernel_security_info \<Rightarrow> cis_result" where
  "check_1_1_14 env sec ks =
     checkMountOption env (ruleByID ''1.1.14'') ''/home'' ''nodev''
       (''add '' @ squote @ ''nodev'' @ squote @ '' to /home mount options in /etc/fstab'')"

definition check_1_1_15 :: "cis_host \<Rightarrow> security_info \<Rightarrow> kernel_security_info \<Rightarrow> cis_result" where
  "check_1_1_15 env sec ks =
     checkMountOption env (ruleByID ''1.1.15'') ''/home'' ''nosuid''
       (''add '' @ squote @ ''nosuid'' @ squote @ '' to /home mount options in /etc/fstab'')"

definition check_1_1_16 :: "cis_host \<Rightarrow> security_info \<Rightarrow> kernel_security_info \<Rightarrow> cis_result" where
  "check_1_1_16 env sec ks =
     checkMountOption env (ruleByID ''1.1.16'') ''/home'' ''noexec''
       (''add '' @ squote @ ''noexec'' @ squote @ '' to /home mount options in /etc/fstab'')"

definition check_1_1_17 :: "cis_host \<Rightarrow> security_info \<Rightarrow> kernel_security_info \<Rightarrow> cis_result" where
  "check_1_1_17 env sec ks =
     checkModuleDisabled env (ruleByID ''1.1.17'') ''usb-storage''
       (''echo '' @ squote @ ''install usb-storage /bin/true'' @ squote @
        '' > /etc/modprobe.d/usb-storage.conf && echo '' @ squote @ ''blacklist usb-storage'' @
        squote @ '' >> /etc/modprobe.d/usb-storage.conf'')"

definition check_1_1_18 :: "cis_host \<Rightarrow> security_info \<Rightarrow> kernel_security_info \<Rightarrow> cis_result" where
  "check_1_1_18 env sec ks =
     checkModuleDisabled env (ruleByID ''1.1.18'') ''autofs''
       (''echo '' @ squote @ ''install autofs /bin/true'' @ squote @
        '' > /etc/modprobe.d/autofs.conf && echo '' @ squote @ ''blacklist autofs'' @ squote @
        '' >> /etc/modprobe.d/autofs.conf'')"

definition check_1_7_1 :: "cis_host \<Rightarrow> security_info \<Rightarrow> kernel_security_info \<Rightarrow> cis_result" where
  "check_1_7_1 env sec ks =
     checkBannerContent env (ruleByID ''1.7.1'') motdPath
       (''add a warning banner to /etc/motd '' @ em_dash @ '' no '' @ bslash @ ''s '' @ bslash @
        ''m '' @ bslash @ ''r '' @ bslash @ ''v '' @ bslash @ ''u sequences'')"

definition check_1_7_2 :: "cis_host \<Rightarrow> security_info \<Rightarrow> kernel_security_info \<Rightarrow> cis_result" where
  "check_1_7_2 env sec ks =
     checkBannerContent env (ruleByID ''1.7.2'') issuePath
       (''add a warning banner to /etc/issue '' @ em_dash @ '' no '' @ bslash @ ''s '' @ bslash @
        ''m '' @ bslash @ ''r '' @ bslash @ ''v '' @ bslash @ ''u sequences'')"

definition check_1_7_3 :: "cis_host \<Rightarrow> security_info \<Rightarrow> kernel_security_info \<Rightarrow> cis_result" where
  "check_1_7_3 env sec ks =
     checkBannerContent env (ruleByID ''1.7.3'') issueNetPath
       (''add a warning banner to /etc/issue.net '' @ em_dash @ '' no '' @ bslash @ ''s '' @
        bslash @ ''m '' @ bslash @ ''r '' @ bslash @ ''v '' @ bslash @ ''u sequences'')"

definition check_1_7_4 :: "cis_host \<Rightarrow> security_info \<Rightarrow> kernel_security_info \<Rightarrow> cis_result" where
  "check_1_7_4 env sec ks =
     checkFilePerm env (ruleByID ''1.7.4'') motdPath 0b110100100 ''chmod 644 /etc/motd''"

definition check_1_7_5 :: "cis_host \<Rightarrow> security_info \<Rightarrow> kernel_security_info \<Rightarrow> cis_result" where
  "check_1_7_5 env sec ks =
     checkFilePerm env (ruleByID ''1.7.5'') issuePath 0b110100100 ''chmod 644 /etc/issue''"

definition check_1_7_6 :: "cis_host \<Rightarrow> security_info \<Rightarrow> kernel_security_info \<Rightarrow> cis_result" where
  "check_1_7_6 env sec ks =
     checkFilePerm env (ruleByID ''1.7.6'') issueNetPath 0b110100100 ''chmod 644 /etc/issue.net''"

definition check_1_7_7 :: "cis_host \<Rightarrow> security_info \<Rightarrow> kernel_security_info \<Rightarrow> cis_result" where
  "check_1_7_7 env sec ks =
     checkFileOwnerRootRoot env (ruleByID ''1.7.7'') motdPath ''chown root:root /etc/motd''"

definition check_1_7_8 :: "cis_host \<Rightarrow> security_info \<Rightarrow> kernel_security_info \<Rightarrow> cis_result" where
  "check_1_7_8 env sec ks =
     checkFileOwnerRootRoot env (ruleByID ''1.7.8'') issuePath ''chown root:root /etc/issue''"

definition check_1_7_9 :: "cis_host \<Rightarrow> security_info \<Rightarrow> kernel_security_info \<Rightarrow> cis_result" where
  "check_1_7_9 env sec ks =
     checkFileOwnerRootRoot env (ruleByID ''1.7.9'') issueNetPath ''chown root:root /etc/issue.net''"

definition check_1_1_19 :: "cis_host \<Rightarrow> security_info \<Rightarrow> kernel_security_info \<Rightarrow> cis_result" where
  "check_1_1_19 env sec ks =
     checkRemovableMediaOption env (ruleByID ''1.1.19'') ''nosuid''"

definition check_1_1_20 :: "cis_host \<Rightarrow> security_info \<Rightarrow> kernel_security_info \<Rightarrow> cis_result" where
  "check_1_1_20 env sec ks =
     checkRemovableMediaOption env (ruleByID ''1.1.20'') ''noexec''"

definition check_1_1_21 :: "cis_host \<Rightarrow> security_info \<Rightarrow> kernel_security_info \<Rightarrow> cis_result" where
  "check_1_1_21 env sec ks =
     checkRemovableMediaOption env (ruleByID ''1.1.21'') ''nodev''"

definition check_1_1_22 :: "security_info \<Rightarrow> kernel_security_info \<Rightarrow> cis_result" where
  "check_1_1_22 sec ks =
     (let r = ruleByID ''1.1.22''
      in if security_WorldWritableDirs sec = [] then cis_pass r
         else failr r
                (''world-writable dirs missing sticky bit: '' @
                 join (security_WorldWritableDirs sec) '', '')
                ''set sticky bit: chmod +t /tmp /var/tmp /dev/shm'')"

definition check_1_1_23 :: "cis_host \<Rightarrow> security_info \<Rightarrow> kernel_security_info \<Rightarrow> cis_result" where
  "check_1_1_23 env sec ks =
     checkSeparateMountPoint env (ruleByID ''1.1.23'') ''/var''
       ''create a separate /var partition and add to /etc/fstab''"

definition check_1_1_24 :: "cis_host \<Rightarrow> security_info \<Rightarrow> kernel_security_info \<Rightarrow> cis_result" where
  "check_1_1_24 env sec ks =
     checkSeparateMountPoint env (ruleByID ''1.1.24'') cisPathVarTmp
       ''create a separate /var/tmp partition and add to /etc/fstab''"

definition check_1_1_25 :: "cis_host \<Rightarrow> security_info \<Rightarrow> kernel_security_info \<Rightarrow> cis_result" where
  "check_1_1_25 env sec ks =
     checkSeparateMountPoint env (ruleByID ''1.1.25'') ''/home''
       ''create a separate /home partition and add to /etc/fstab''"

definition check_1_1_26 :: "cis_host \<Rightarrow> security_info \<Rightarrow> kernel_security_info \<Rightarrow> cis_result" where
  "check_1_1_26 env sec ks =
     checkMountOption env (ruleByID ''1.1.26'') varLogPath ''nodev''
       (''add '' @ squote @ ''nodev'' @ squote @ '' to /var/log mount options in /etc/fstab'')"

definition check_1_1_27 :: "cis_host \<Rightarrow> security_info \<Rightarrow> kernel_security_info \<Rightarrow> cis_result" where
  "check_1_1_27 env sec ks =
     checkMountOption env (ruleByID ''1.1.27'') varLogPath ''nosuid''
       (''add '' @ squote @ ''nosuid'' @ squote @ '' to /var/log mount options in /etc/fstab'')"

definition check_1_1_28 :: "cis_host \<Rightarrow> security_info \<Rightarrow> kernel_security_info \<Rightarrow> cis_result" where
  "check_1_1_28 env sec ks =
     checkMountOption env (ruleByID ''1.1.28'') varLogPath ''noexec''
       (''add '' @ squote @ ''noexec'' @ squote @ '' to /var/log mount options in /etc/fstab'')"

definition check_1_1_29 :: "cis_host \<Rightarrow> security_info \<Rightarrow> kernel_security_info \<Rightarrow> cis_result" where
  "check_1_1_29 env sec ks =
     checkMountOption env (ruleByID ''1.1.29'') ''/var'' ''nodev''
       (''add '' @ squote @ ''nodev'' @ squote @ '' to /var mount options in /etc/fstab'')"

definition check_1_1_30 :: "cis_host \<Rightarrow> security_info \<Rightarrow> kernel_security_info \<Rightarrow> cis_result" where
  "check_1_1_30 env sec ks =
     checkMountOption env (ruleByID ''1.1.30'') ''/var'' ''nosuid''
       (''add '' @ squote @ ''nosuid'' @ squote @ '' to /var mount options in /etc/fstab'')"

definition check_1_1_31 :: "cis_host \<Rightarrow> security_info \<Rightarrow> kernel_security_info \<Rightarrow> cis_result" where
  "check_1_1_31 env sec ks =
     checkMountOption env (ruleByID ''1.1.31'') ''/home'' ''nosuid''
       (''add '' @ squote @ ''nosuid'' @ squote @ '' to /home mount options in /etc/fstab'')"

definition check_1_1_32 :: "cis_host \<Rightarrow> security_info \<Rightarrow> kernel_security_info \<Rightarrow> cis_result" where
  "check_1_1_32 env sec ks =
     checkMountOption env (ruleByID ''1.1.32'') ''/home'' ''noexec''
       (''add '' @ squote @ ''noexec'' @ squote @ '' to /home mount options in /etc/fstab'')"

definition check_6_1_1 :: "cis_host \<Rightarrow> security_info \<Rightarrow> kernel_security_info \<Rightarrow> cis_result" where
  "check_6_1_1 env sec ks =
     (let r = ruleByID ''6.1.1''
      in checkFilePerm env r etcPasswdPath 0b110100100 ''chmod 644 /etc/passwd'')"

definition check_6_1_2 :: "cis_host \<Rightarrow> security_info \<Rightarrow> kernel_security_info \<Rightarrow> cis_result" where
  "check_6_1_2 env sec ks =
     (let r = ruleByID ''6.1.2''
      in checkFilePerm env r etcShadowPath 0b110100000 ''chmod 000 /etc/shadow'')"

definition check_6_1_3 :: "cis_host \<Rightarrow> security_info \<Rightarrow> kernel_security_info \<Rightarrow> cis_result" where
  "check_6_1_3 env sec ks =
     (let r = ruleByID ''6.1.3''
      in checkFilePerm env r etcGroupPath 0b110100100 ''chmod 644 /etc/group'')"

definition check_6_1_4 :: "cis_host \<Rightarrow> security_info \<Rightarrow> kernel_security_info \<Rightarrow> cis_result" where
  "check_6_1_4 env sec ks =
     (let r = ruleByID ''6.1.4''
      in checkFilePerm env r ''/etc/passwd-'' 0b110000000 ''chmod 600 /etc/passwd-'')"

definition check_6_1_5 :: "cis_host \<Rightarrow> security_info \<Rightarrow> kernel_security_info \<Rightarrow> cis_result" where
  "check_6_1_5 env sec ks =
     (let r = ruleByID ''6.1.5''
      in checkFilePerm env r ''/etc/shadow-'' 0b110000000 ''chmod 000 /etc/shadow-'')"

definition check_6_1_6 :: "cis_host \<Rightarrow> security_info \<Rightarrow> kernel_security_info \<Rightarrow> cis_result" where
  "check_6_1_6 env sec ks =
     (let r = ruleByID ''6.1.6''
      in checkFilePerm env r ''/etc/gshadow'' 0b110100000 ''chmod 000 /etc/gshadow'')"

definition check_6_1_7 :: "cis_host \<Rightarrow> security_info \<Rightarrow> kernel_security_info \<Rightarrow> cis_result" where
  "check_6_1_7 env sec ks =
     (let r = ruleByID ''6.1.7''
      in checkFilePerm env r ''/etc/gshadow-'' 0b110000000 ''chmod 000 /etc/gshadow-'')"

definition check_6_1_8 :: "cis_host \<Rightarrow> security_info \<Rightarrow> kernel_security_info \<Rightarrow> cis_result" where
  "check_6_1_8 env sec ks =
     (let r = ruleByID ''6.1.8''
      in checkFilePerm env r ''/etc/group-'' 0b110100100 ''chmod 644 /etc/group-'')"

definition check_6_1_9 :: "cis_host \<Rightarrow> security_info \<Rightarrow> kernel_security_info \<Rightarrow> cis_result" where
  "check_6_1_9 env sec ks =
     checkFileOwnerRootRoot env (ruleByID ''6.1.9'') etcPasswdPath ''chown root:root /etc/passwd''"

definition check_6_1_10 :: "cis_host \<Rightarrow> security_info \<Rightarrow> kernel_security_info \<Rightarrow> cis_result" where
  "check_6_1_10 env sec ks =
     checkFileOwnerRootRootOrShadow env (ruleByID ''6.1.10'') etcShadowPath
       ''chown root:shadow /etc/shadow''"

definition check_6_1_11 :: "cis_host \<Rightarrow> security_info \<Rightarrow> kernel_security_info \<Rightarrow> cis_result" where
  "check_6_1_11 env sec ks =
     checkFileOwnerRootRoot env (ruleByID ''6.1.11'') etcGroupPath ''chown root:root /etc/group''"

definition check_6_1_12 :: "cis_host \<Rightarrow> security_info \<Rightarrow> kernel_security_info \<Rightarrow> cis_result" where
  "check_6_1_12 env sec ks =
     checkFileOwnerRootRoot env (ruleByID ''6.1.12'') ''/etc/passwd-''
       ''chown root:root /etc/passwd-''"

definition check_6_1_13 :: "cis_host \<Rightarrow> security_info \<Rightarrow> kernel_security_info \<Rightarrow> cis_result" where
  "check_6_1_13 env sec ks =
     checkFileOwnerRootRootOrShadow env (ruleByID ''6.1.13'') ''/etc/shadow-''
       ''chown root:shadow /etc/shadow-''"

definition check_6_1_15 :: "cis_host \<Rightarrow> security_info \<Rightarrow> kernel_security_info \<Rightarrow> cis_result" where
  "check_6_1_15 env sec ks =
     checkFileOwnerRootRoot env (ruleByID ''6.1.15'') ''/etc/group-''
       ''chown root:root /etc/group-''"

definition check_6_1_16 :: "cis_host \<Rightarrow> security_info \<Rightarrow> kernel_security_info \<Rightarrow> cis_result" where
  "check_6_1_16 env sec ks =
     checkFileOwnerRootRootOrShadow env (ruleByID ''6.1.16'') ''/etc/gshadow''
       ''chown root:shadow /etc/gshadow''"

definition check_6_1_17 :: "cis_host \<Rightarrow> security_info \<Rightarrow> kernel_security_info \<Rightarrow> cis_result" where
  "check_6_1_17 env sec ks =
     checkFileOwnerRootRootOrShadow env (ruleByID ''6.1.17'') ''/etc/gshadow-''
       ''chown root:shadow /etc/gshadow-''"

definition check_6_1_18 :: "cis_host \<Rightarrow> security_info \<Rightarrow> kernel_security_info \<Rightarrow> cis_result" where
  "check_6_1_18 env sec ks =
     (let r = ruleByID ''6.1.18''
      in checkFilePerm env r ''/etc/sudoers'' 0b100100000 ''chmod 440 /etc/sudoers'')"

definition check_6_1_19 :: "cis_host \<Rightarrow> security_info \<Rightarrow> kernel_security_info \<Rightarrow> cis_result" where
  "check_6_1_19 env sec ks =
     checkFileOwnerRootRoot env (ruleByID ''6.1.19'') ''/etc/sudoers''
       ''chown root:root /etc/sudoers''"

definition check_6_1_20 :: "cis_host \<Rightarrow> security_info \<Rightarrow> kernel_security_info \<Rightarrow> cis_result" where
  "check_6_1_20 env sec ks =
     (let r = ruleByID ''6.1.20''
      in checkFilePerm env r ''/etc/sudoers.d'' 0b111101000 ''chmod 750 /etc/sudoers.d'')"

definition check_6_1_21 :: "cis_host \<Rightarrow> security_info \<Rightarrow> kernel_security_info \<Rightarrow> cis_result" where
  "check_6_1_21 env sec ks =
     (let r = ruleByID ''6.1.21''
      in checkFilePerm env r auditdConfPath 0b110100000 ''chmod 640 /etc/audit/auditd.conf'')"

definition check_6_1_22 :: "cis_host \<Rightarrow> security_info \<Rightarrow> kernel_security_info \<Rightarrow> cis_result" where
  "check_6_1_22 env sec ks =
     checkFileOwnerRootRoot env (ruleByID ''6.1.22'') auditdConfPath
       ''chown root:root /etc/audit/auditd.conf''"

definition check_6_1_23 :: "cis_host \<Rightarrow> security_info \<Rightarrow> kernel_security_info \<Rightarrow> cis_result" where
  "check_6_1_23 env sec ks =
     (let r = ruleByID ''6.1.23''
      in checkFilePerm env r ''/etc/hosts'' 0b110100100 ''chmod 644 /etc/hosts'')"

definition check_6_1_24 :: "cis_host \<Rightarrow> security_info \<Rightarrow> kernel_security_info \<Rightarrow> cis_result" where
  "check_6_1_24 env sec ks =
     (let r = ruleByID ''6.1.24''
      in checkFilePerm env r ''/etc/hosts.allow'' 0b110100100 ''chmod 644 /etc/hosts.allow'')"

definition check_6_1_25 :: "cis_host \<Rightarrow> security_info \<Rightarrow> kernel_security_info \<Rightarrow> cis_result" where
  "check_6_1_25 env sec ks =
     (let r = ruleByID ''6.1.25''
      in checkFilePerm env r ''/etc/hosts.deny'' 0b110100100 ''chmod 644 /etc/hosts.deny'')"

definition check_6_1_26 :: "cis_host \<Rightarrow> security_info \<Rightarrow> kernel_security_info \<Rightarrow> cis_result" where
  "check_6_1_26 env sec ks =
     checkFileOwnerRootRoot env (ruleByID ''6.1.26'') ''/etc/hosts'' ''chown root:root /etc/hosts''"

definition check_6_1_27 :: "cis_host \<Rightarrow> security_info \<Rightarrow> kernel_security_info \<Rightarrow> cis_result" where
  "check_6_1_27 env sec ks =
     checkFileOwnerRootRoot env (ruleByID ''6.1.27'') ''/etc/hosts.allow''
       ''chown root:root /etc/hosts.allow''"

definition check_6_1_28 :: "cis_host \<Rightarrow> security_info \<Rightarrow> kernel_security_info \<Rightarrow> cis_result" where
  "check_6_1_28 env sec ks =
     checkFileOwnerRootRoot env (ruleByID ''6.1.28'') ''/etc/hosts.deny''
       ''chown root:root /etc/hosts.deny''"

definition check_6_1_29 :: "cis_host \<Rightarrow> security_info \<Rightarrow> kernel_security_info \<Rightarrow> cis_result" where
  "check_6_1_29 env sec ks =
     (let r = ruleByID ''6.1.29''
      in checkFilePerm env r ''/etc/resolv.conf'' 0b110100100 ''chmod 644 /etc/resolv.conf'')"

definition check_6_1_30 :: "cis_host \<Rightarrow> security_info \<Rightarrow> kernel_security_info \<Rightarrow> cis_result" where
  "check_6_1_30 env sec ks =
     checkFileOwnerRootRoot env (ruleByID ''6.1.30'') ''/etc/resolv.conf''
       ''chown root:root /etc/resolv.conf''"

definition check_6_1_31 :: "cis_host \<Rightarrow> security_info \<Rightarrow> kernel_security_info \<Rightarrow> cis_result" where
  "check_6_1_31 env sec ks =
     (let r = ruleByID ''6.1.31''
      in checkFilePerm env r ''/etc/sysctl.conf'' 0b110000000 ''chmod 600 /etc/sysctl.conf'')"

definition check_6_1_32 :: "cis_host \<Rightarrow> security_info \<Rightarrow> kernel_security_info \<Rightarrow> cis_result" where
  "check_6_1_32 env sec ks =
     checkFileOwnerRootRoot env (ruleByID ''6.1.32'') ''/etc/sysctl.conf''
       ''chown root:root /etc/sysctl.conf''"

definition check_6_1_33 :: "cis_host \<Rightarrow> security_info \<Rightarrow> kernel_security_info \<Rightarrow> cis_result" where
  "check_6_1_33 env sec ks =
     (let r = ruleByID ''6.1.33''
      in checkFilePerm env r etcEnvironmentPath 0b110100100 ''chmod 644 /etc/environment'')"

definition check_6_1_34 :: "cis_host \<Rightarrow> security_info \<Rightarrow> kernel_security_info \<Rightarrow> cis_result" where
  "check_6_1_34 env sec ks =
     checkFileOwnerRootRoot env (ruleByID ''6.1.34'') etcEnvironmentPath
       ''chown root:root /etc/environment''"

definition check_6_1_35 :: "cis_host \<Rightarrow> security_info \<Rightarrow> kernel_security_info \<Rightarrow> cis_result" where
  "check_6_1_35 env sec ks =
     (let r = ruleByID ''6.1.35''
      in checkFilePerm env r etcProfilePath 0b110100100 ''chmod 644 /etc/profile'')"

definition check_6_1_36 :: "cis_host \<Rightarrow> security_info \<Rightarrow> kernel_security_info \<Rightarrow> cis_result" where
  "check_6_1_36 env sec ks =
     checkFileOwnerRootRoot env (ruleByID ''6.1.36'') etcProfilePath
       ''chown root:root /etc/profile''"

definition check_6_1_37 :: "cis_host \<Rightarrow> security_info \<Rightarrow> kernel_security_info \<Rightarrow> cis_result" where
  "check_6_1_37 env sec ks =
     (let r = ruleByID ''6.1.37''
      in checkFilePerm env r loginDefsPath 0b110100100 ''chmod 644 /etc/login.defs'')"

definition check_6_1_38 :: "cis_host \<Rightarrow> security_info \<Rightarrow> kernel_security_info \<Rightarrow> cis_result" where
  "check_6_1_38 env sec ks =
     checkFileOwnerRootRoot env (ruleByID ''6.1.38'') loginDefsPath
       ''chown root:root /etc/login.defs''"

definition check_6_1_14 :: "security_info \<Rightarrow> kernel_security_info \<Rightarrow> cis_result" where
  "check_6_1_14 sec ks =
     (let r = ruleByID ''6.1.14''
      in if security_SUIDBinaries sec = [] then cis_pass r
         else failr r (''unexpected SUID binaries: '' @ join (security_SUIDBinaries sec) '', '')
                ''review each binary; remove SUID if not needed: chmod u-s <path>'')"


section \<open>Conformance\<close>

lemma check_1_2_1_conforms [conforming]: "conforms (ruleByID ''1.2.1'') (check_1_2_1 env sec ks)"
  unfolding check_1_2_1_def by (intro conforms_rules conforming; (simp; fail)?)

lemma check_1_2_2_conforms [conforming]: "conforms (ruleByID ''1.2.2'') (check_1_2_2 env sec ks)"
  unfolding check_1_2_2_def by (intro conforms_rules conforming; (simp; fail)?)

lemma check_1_2_3_conforms [conforming]: "conforms (ruleByID ''1.2.3'') (check_1_2_3 env sec ks)"
  unfolding check_1_2_3_def by (intro conforms_rules conforming; (simp; fail)?)

lemma check_1_2_4_conforms [conforming]: "conforms (ruleByID ''1.2.4'') (check_1_2_4 env sec ks)"
  unfolding check_1_2_4_def by (intro conforms_rules conforming; (simp; fail)?)

lemma check_1_3_1_conforms [conforming]: "conforms (ruleByID ''1.3.1'') (check_1_3_1 sec ks)"
  unfolding check_1_3_1_def by (intro conforms_rules conforming; (simp; fail)?)

lemma check_1_3_2_conforms [conforming]: "conforms (ruleByID ''1.3.2'') (check_1_3_2 sec ks)"
  unfolding check_1_3_2_def by (intro conforms_rules conforming; (simp; fail)?)

lemma check_1_4_1_conforms [conforming]: "conforms (ruleByID ''1.4.1'') (check_1_4_1 env sec ks)"
  unfolding check_1_4_1_def by (intro conforms_rules conforming; (simp; fail)?)

lemma check_1_4_2_conforms [conforming]: "conforms (ruleByID ''1.4.2'') (check_1_4_2 env sec ks)"
  unfolding check_1_4_2_def by (intro conforms_rules conforming; (simp; fail)?)

lemma check_1_1_1_1_conforms [conforming]: "conforms (ruleByID ''1.1.1.1'') (check_1_1_1_1 env sec ks)"
  unfolding check_1_1_1_1_def by (intro conforms_rules conforming; (simp; fail)?)

lemma check_1_1_1_2_conforms [conforming]: "conforms (ruleByID ''1.1.1.2'') (check_1_1_1_2 env sec ks)"
  unfolding check_1_1_1_2_def by (intro conforms_rules conforming; (simp; fail)?)

lemma check_1_1_1_3_conforms [conforming]: "conforms (ruleByID ''1.1.1.3'') (check_1_1_1_3 env sec ks)"
  unfolding check_1_1_1_3_def by (intro conforms_rules conforming; (simp; fail)?)

lemma check_1_1_1_4_conforms [conforming]: "conforms (ruleByID ''1.1.1.4'') (check_1_1_1_4 env sec ks)"
  unfolding check_1_1_1_4_def by (intro conforms_rules conforming; (simp; fail)?)

lemma check_1_1_1_5_conforms [conforming]: "conforms (ruleByID ''1.1.1.5'') (check_1_1_1_5 env sec ks)"
  unfolding check_1_1_1_5_def by (intro conforms_rules conforming; (simp; fail)?)

lemma check_1_1_1_6_conforms [conforming]: "conforms (ruleByID ''1.1.1.6'') (check_1_1_1_6 env sec ks)"
  unfolding check_1_1_1_6_def by (intro conforms_rules conforming; (simp; fail)?)

lemma check_1_1_1_7_conforms [conforming]: "conforms (ruleByID ''1.1.1.7'') (check_1_1_1_7 env sec ks)"
  unfolding check_1_1_1_7_def by (intro conforms_rules conforming; (simp; fail)?)

lemma check_1_1_2_conforms [conforming]: "conforms (ruleByID ''1.1.2'') (check_1_1_2 env sec ks)"
  unfolding check_1_1_2_def by (intro conforms_rules conforming; (simp; fail)?)

lemma check_1_1_3_conforms [conforming]: "conforms (ruleByID ''1.1.3'') (check_1_1_3 env sec ks)"
  unfolding check_1_1_3_def by (intro conforms_rules conforming; (simp; fail)?)

lemma check_1_1_4_conforms [conforming]: "conforms (ruleByID ''1.1.4'') (check_1_1_4 env sec ks)"
  unfolding check_1_1_4_def by (intro conforms_rules conforming; (simp; fail)?)

lemma check_1_1_5_conforms [conforming]: "conforms (ruleByID ''1.1.5'') (check_1_1_5 env sec ks)"
  unfolding check_1_1_5_def by (intro conforms_rules conforming; (simp; fail)?)

lemma check_1_1_6_conforms [conforming]: "conforms (ruleByID ''1.1.6'') (check_1_1_6 env sec ks)"
  unfolding check_1_1_6_def by (intro conforms_rules conforming; (simp; fail)?)

lemma check_1_1_7_conforms [conforming]: "conforms (ruleByID ''1.1.7'') (check_1_1_7 env sec ks)"
  unfolding check_1_1_7_def by (intro conforms_rules conforming; (simp; fail)?)

lemma check_1_1_8_conforms [conforming]: "conforms (ruleByID ''1.1.8'') (check_1_1_8 env sec ks)"
  unfolding check_1_1_8_def by (intro conforms_rules conforming; (simp; fail)?)

lemma check_1_1_9_conforms [conforming]: "conforms (ruleByID ''1.1.9'') (check_1_1_9 env sec ks)"
  unfolding check_1_1_9_def by (intro conforms_rules conforming; (simp; fail)?)

lemma check_1_1_10_conforms [conforming]: "conforms (ruleByID ''1.1.10'') (check_1_1_10 env sec ks)"
  unfolding check_1_1_10_def by (intro conforms_rules conforming; (simp; fail)?)

lemma check_1_1_11_conforms [conforming]: "conforms (ruleByID ''1.1.11'') (check_1_1_11 env sec ks)"
  unfolding check_1_1_11_def by (intro conforms_rules conforming; (simp; fail)?)

lemma check_1_1_12_conforms [conforming]: "conforms (ruleByID ''1.1.12'') (check_1_1_12 env sec ks)"
  unfolding check_1_1_12_def by (intro conforms_rules conforming; (simp; fail)?)

lemma check_1_1_13_conforms [conforming]: "conforms (ruleByID ''1.1.13'') (check_1_1_13 env sec ks)"
  unfolding check_1_1_13_def by (intro conforms_rules conforming; (simp; fail)?)

lemma check_1_1_14_conforms [conforming]: "conforms (ruleByID ''1.1.14'') (check_1_1_14 env sec ks)"
  unfolding check_1_1_14_def by (intro conforms_rules conforming; (simp; fail)?)

lemma check_1_1_15_conforms [conforming]: "conforms (ruleByID ''1.1.15'') (check_1_1_15 env sec ks)"
  unfolding check_1_1_15_def by (intro conforms_rules conforming; (simp; fail)?)

lemma check_1_1_16_conforms [conforming]: "conforms (ruleByID ''1.1.16'') (check_1_1_16 env sec ks)"
  unfolding check_1_1_16_def by (intro conforms_rules conforming; (simp; fail)?)

lemma check_1_1_17_conforms [conforming]: "conforms (ruleByID ''1.1.17'') (check_1_1_17 env sec ks)"
  unfolding check_1_1_17_def by (intro conforms_rules conforming; (simp; fail)?)

lemma check_1_1_18_conforms [conforming]: "conforms (ruleByID ''1.1.18'') (check_1_1_18 env sec ks)"
  unfolding check_1_1_18_def by (intro conforms_rules conforming; (simp; fail)?)

lemma check_1_7_1_conforms [conforming]: "conforms (ruleByID ''1.7.1'') (check_1_7_1 env sec ks)"
  unfolding check_1_7_1_def by (intro conforms_rules conforming; (simp; fail)?)

lemma check_1_7_2_conforms [conforming]: "conforms (ruleByID ''1.7.2'') (check_1_7_2 env sec ks)"
  unfolding check_1_7_2_def by (intro conforms_rules conforming; (simp; fail)?)

lemma check_1_7_3_conforms [conforming]: "conforms (ruleByID ''1.7.3'') (check_1_7_3 env sec ks)"
  unfolding check_1_7_3_def by (intro conforms_rules conforming; (simp; fail)?)

lemma check_1_7_4_conforms [conforming]: "conforms (ruleByID ''1.7.4'') (check_1_7_4 env sec ks)"
  unfolding check_1_7_4_def by (intro conforms_rules conforming; (simp; fail)?)

lemma check_1_7_5_conforms [conforming]: "conforms (ruleByID ''1.7.5'') (check_1_7_5 env sec ks)"
  unfolding check_1_7_5_def by (intro conforms_rules conforming; (simp; fail)?)

lemma check_1_7_6_conforms [conforming]: "conforms (ruleByID ''1.7.6'') (check_1_7_6 env sec ks)"
  unfolding check_1_7_6_def by (intro conforms_rules conforming; (simp; fail)?)

lemma check_1_7_7_conforms [conforming]: "conforms (ruleByID ''1.7.7'') (check_1_7_7 env sec ks)"
  unfolding check_1_7_7_def by (intro conforms_rules conforming; (simp; fail)?)

lemma check_1_7_8_conforms [conforming]: "conforms (ruleByID ''1.7.8'') (check_1_7_8 env sec ks)"
  unfolding check_1_7_8_def by (intro conforms_rules conforming; (simp; fail)?)

lemma check_1_7_9_conforms [conforming]: "conforms (ruleByID ''1.7.9'') (check_1_7_9 env sec ks)"
  unfolding check_1_7_9_def by (intro conforms_rules conforming; (simp; fail)?)

lemma check_1_1_19_conforms [conforming]: "conforms (ruleByID ''1.1.19'') (check_1_1_19 env sec ks)"
  unfolding check_1_1_19_def by (intro conforms_rules conforming; (simp; fail)?)

lemma check_1_1_20_conforms [conforming]: "conforms (ruleByID ''1.1.20'') (check_1_1_20 env sec ks)"
  unfolding check_1_1_20_def by (intro conforms_rules conforming; (simp; fail)?)

lemma check_1_1_21_conforms [conforming]: "conforms (ruleByID ''1.1.21'') (check_1_1_21 env sec ks)"
  unfolding check_1_1_21_def by (intro conforms_rules conforming; (simp; fail)?)

lemma check_1_1_22_conforms [conforming]: "conforms (ruleByID ''1.1.22'') (check_1_1_22 sec ks)"
  unfolding check_1_1_22_def by (intro conforms_rules conforming; (simp; fail)?)

lemma check_1_1_23_conforms [conforming]: "conforms (ruleByID ''1.1.23'') (check_1_1_23 env sec ks)"
  unfolding check_1_1_23_def by (intro conforms_rules conforming; (simp; fail)?)

lemma check_1_1_24_conforms [conforming]: "conforms (ruleByID ''1.1.24'') (check_1_1_24 env sec ks)"
  unfolding check_1_1_24_def by (intro conforms_rules conforming; (simp; fail)?)

lemma check_1_1_25_conforms [conforming]: "conforms (ruleByID ''1.1.25'') (check_1_1_25 env sec ks)"
  unfolding check_1_1_25_def by (intro conforms_rules conforming; (simp; fail)?)

lemma check_1_1_26_conforms [conforming]: "conforms (ruleByID ''1.1.26'') (check_1_1_26 env sec ks)"
  unfolding check_1_1_26_def by (intro conforms_rules conforming; (simp; fail)?)

lemma check_1_1_27_conforms [conforming]: "conforms (ruleByID ''1.1.27'') (check_1_1_27 env sec ks)"
  unfolding check_1_1_27_def by (intro conforms_rules conforming; (simp; fail)?)

lemma check_1_1_28_conforms [conforming]: "conforms (ruleByID ''1.1.28'') (check_1_1_28 env sec ks)"
  unfolding check_1_1_28_def by (intro conforms_rules conforming; (simp; fail)?)

lemma check_1_1_29_conforms [conforming]: "conforms (ruleByID ''1.1.29'') (check_1_1_29 env sec ks)"
  unfolding check_1_1_29_def by (intro conforms_rules conforming; (simp; fail)?)

lemma check_1_1_30_conforms [conforming]: "conforms (ruleByID ''1.1.30'') (check_1_1_30 env sec ks)"
  unfolding check_1_1_30_def by (intro conforms_rules conforming; (simp; fail)?)

lemma check_1_1_31_conforms [conforming]: "conforms (ruleByID ''1.1.31'') (check_1_1_31 env sec ks)"
  unfolding check_1_1_31_def by (intro conforms_rules conforming; (simp; fail)?)

lemma check_1_1_32_conforms [conforming]: "conforms (ruleByID ''1.1.32'') (check_1_1_32 env sec ks)"
  unfolding check_1_1_32_def by (intro conforms_rules conforming; (simp; fail)?)

lemma check_6_1_1_conforms [conforming]: "conforms (ruleByID ''6.1.1'') (check_6_1_1 env sec ks)"
  unfolding check_6_1_1_def by (intro conforms_rules conforming; (simp; fail)?)

lemma check_6_1_2_conforms [conforming]: "conforms (ruleByID ''6.1.2'') (check_6_1_2 env sec ks)"
  unfolding check_6_1_2_def by (intro conforms_rules conforming; (simp; fail)?)

lemma check_6_1_3_conforms [conforming]: "conforms (ruleByID ''6.1.3'') (check_6_1_3 env sec ks)"
  unfolding check_6_1_3_def by (intro conforms_rules conforming; (simp; fail)?)

lemma check_6_1_4_conforms [conforming]: "conforms (ruleByID ''6.1.4'') (check_6_1_4 env sec ks)"
  unfolding check_6_1_4_def by (intro conforms_rules conforming; (simp; fail)?)

lemma check_6_1_5_conforms [conforming]: "conforms (ruleByID ''6.1.5'') (check_6_1_5 env sec ks)"
  unfolding check_6_1_5_def by (intro conforms_rules conforming; (simp; fail)?)

lemma check_6_1_6_conforms [conforming]: "conforms (ruleByID ''6.1.6'') (check_6_1_6 env sec ks)"
  unfolding check_6_1_6_def by (intro conforms_rules conforming; (simp; fail)?)

lemma check_6_1_7_conforms [conforming]: "conforms (ruleByID ''6.1.7'') (check_6_1_7 env sec ks)"
  unfolding check_6_1_7_def by (intro conforms_rules conforming; (simp; fail)?)

lemma check_6_1_8_conforms [conforming]: "conforms (ruleByID ''6.1.8'') (check_6_1_8 env sec ks)"
  unfolding check_6_1_8_def by (intro conforms_rules conforming; (simp; fail)?)

lemma check_6_1_9_conforms [conforming]: "conforms (ruleByID ''6.1.9'') (check_6_1_9 env sec ks)"
  unfolding check_6_1_9_def by (intro conforms_rules conforming; (simp; fail)?)

lemma check_6_1_10_conforms [conforming]: "conforms (ruleByID ''6.1.10'') (check_6_1_10 env sec ks)"
  unfolding check_6_1_10_def by (intro conforms_rules conforming; (simp; fail)?)

lemma check_6_1_11_conforms [conforming]: "conforms (ruleByID ''6.1.11'') (check_6_1_11 env sec ks)"
  unfolding check_6_1_11_def by (intro conforms_rules conforming; (simp; fail)?)

lemma check_6_1_12_conforms [conforming]: "conforms (ruleByID ''6.1.12'') (check_6_1_12 env sec ks)"
  unfolding check_6_1_12_def by (intro conforms_rules conforming; (simp; fail)?)

lemma check_6_1_13_conforms [conforming]: "conforms (ruleByID ''6.1.13'') (check_6_1_13 env sec ks)"
  unfolding check_6_1_13_def by (intro conforms_rules conforming; (simp; fail)?)

lemma check_6_1_15_conforms [conforming]: "conforms (ruleByID ''6.1.15'') (check_6_1_15 env sec ks)"
  unfolding check_6_1_15_def by (intro conforms_rules conforming; (simp; fail)?)

lemma check_6_1_16_conforms [conforming]: "conforms (ruleByID ''6.1.16'') (check_6_1_16 env sec ks)"
  unfolding check_6_1_16_def by (intro conforms_rules conforming; (simp; fail)?)

lemma check_6_1_17_conforms [conforming]: "conforms (ruleByID ''6.1.17'') (check_6_1_17 env sec ks)"
  unfolding check_6_1_17_def by (intro conforms_rules conforming; (simp; fail)?)

lemma check_6_1_18_conforms [conforming]: "conforms (ruleByID ''6.1.18'') (check_6_1_18 env sec ks)"
  unfolding check_6_1_18_def by (intro conforms_rules conforming; (simp; fail)?)

lemma check_6_1_19_conforms [conforming]: "conforms (ruleByID ''6.1.19'') (check_6_1_19 env sec ks)"
  unfolding check_6_1_19_def by (intro conforms_rules conforming; (simp; fail)?)

lemma check_6_1_20_conforms [conforming]: "conforms (ruleByID ''6.1.20'') (check_6_1_20 env sec ks)"
  unfolding check_6_1_20_def by (intro conforms_rules conforming; (simp; fail)?)

lemma check_6_1_21_conforms [conforming]: "conforms (ruleByID ''6.1.21'') (check_6_1_21 env sec ks)"
  unfolding check_6_1_21_def by (intro conforms_rules conforming; (simp; fail)?)

lemma check_6_1_22_conforms [conforming]: "conforms (ruleByID ''6.1.22'') (check_6_1_22 env sec ks)"
  unfolding check_6_1_22_def by (intro conforms_rules conforming; (simp; fail)?)

lemma check_6_1_23_conforms [conforming]: "conforms (ruleByID ''6.1.23'') (check_6_1_23 env sec ks)"
  unfolding check_6_1_23_def by (intro conforms_rules conforming; (simp; fail)?)

lemma check_6_1_24_conforms [conforming]: "conforms (ruleByID ''6.1.24'') (check_6_1_24 env sec ks)"
  unfolding check_6_1_24_def by (intro conforms_rules conforming; (simp; fail)?)

lemma check_6_1_25_conforms [conforming]: "conforms (ruleByID ''6.1.25'') (check_6_1_25 env sec ks)"
  unfolding check_6_1_25_def by (intro conforms_rules conforming; (simp; fail)?)

lemma check_6_1_26_conforms [conforming]: "conforms (ruleByID ''6.1.26'') (check_6_1_26 env sec ks)"
  unfolding check_6_1_26_def by (intro conforms_rules conforming; (simp; fail)?)

lemma check_6_1_27_conforms [conforming]: "conforms (ruleByID ''6.1.27'') (check_6_1_27 env sec ks)"
  unfolding check_6_1_27_def by (intro conforms_rules conforming; (simp; fail)?)

lemma check_6_1_28_conforms [conforming]: "conforms (ruleByID ''6.1.28'') (check_6_1_28 env sec ks)"
  unfolding check_6_1_28_def by (intro conforms_rules conforming; (simp; fail)?)

lemma check_6_1_29_conforms [conforming]: "conforms (ruleByID ''6.1.29'') (check_6_1_29 env sec ks)"
  unfolding check_6_1_29_def by (intro conforms_rules conforming; (simp; fail)?)

lemma check_6_1_30_conforms [conforming]: "conforms (ruleByID ''6.1.30'') (check_6_1_30 env sec ks)"
  unfolding check_6_1_30_def by (intro conforms_rules conforming; (simp; fail)?)

lemma check_6_1_31_conforms [conforming]: "conforms (ruleByID ''6.1.31'') (check_6_1_31 env sec ks)"
  unfolding check_6_1_31_def by (intro conforms_rules conforming; (simp; fail)?)

lemma check_6_1_32_conforms [conforming]: "conforms (ruleByID ''6.1.32'') (check_6_1_32 env sec ks)"
  unfolding check_6_1_32_def by (intro conforms_rules conforming; (simp; fail)?)

lemma check_6_1_33_conforms [conforming]: "conforms (ruleByID ''6.1.33'') (check_6_1_33 env sec ks)"
  unfolding check_6_1_33_def by (intro conforms_rules conforming; (simp; fail)?)

lemma check_6_1_34_conforms [conforming]: "conforms (ruleByID ''6.1.34'') (check_6_1_34 env sec ks)"
  unfolding check_6_1_34_def by (intro conforms_rules conforming; (simp; fail)?)

lemma check_6_1_35_conforms [conforming]: "conforms (ruleByID ''6.1.35'') (check_6_1_35 env sec ks)"
  unfolding check_6_1_35_def by (intro conforms_rules conforming; (simp; fail)?)

lemma check_6_1_36_conforms [conforming]: "conforms (ruleByID ''6.1.36'') (check_6_1_36 env sec ks)"
  unfolding check_6_1_36_def by (intro conforms_rules conforming; (simp; fail)?)

lemma check_6_1_37_conforms [conforming]: "conforms (ruleByID ''6.1.37'') (check_6_1_37 env sec ks)"
  unfolding check_6_1_37_def by (intro conforms_rules conforming; (simp; fail)?)

lemma check_6_1_38_conforms [conforming]: "conforms (ruleByID ''6.1.38'') (check_6_1_38 env sec ks)"
  unfolding check_6_1_38_def by (intro conforms_rules conforming; (simp; fail)?)

lemma check_6_1_14_conforms [conforming]: "conforms (ruleByID ''6.1.14'') (check_6_1_14 sec ks)"
  unfolding check_6_1_14_def by (intro conforms_rules conforming; (simp; fail)?)

end
