(* ===== verification/Cis_Audit.thy ===== *)
theory Cis_Audit
  imports Cis_Rules
begin

text \<open>
  The rules on auditd, logging, AppArmor, mandatory access control and the kernel. One definition per rule of internal/cis/rules.go, named by the rule.
\<close>

section \<open>Checks\<close>

definition check_1_5_1 :: "cis_host \<Rightarrow> security_info \<Rightarrow> kernel_security_info \<Rightarrow> cis_result" where
  "check_1_5_1 env sec ks =
     (let r = ruleByID ''1.5.1''
      in checkSysctlFile env r ''/proc/sys/kernel/randomize_va_space'' ''2''
           ''ASLR not fully enabled (randomize_va_space != 2)''
           (''sysctl -w kernel.randomize_va_space=2 && echo '' @ squote @
            ''kernel.randomize_va_space=2'' @ squote @ '' >> /etc/sysctl.d/99-cis.conf''))"

definition check_1_5_4 :: "cis_host \<Rightarrow> security_info \<Rightarrow> kernel_security_info \<Rightarrow> cis_result" where
  "check_1_5_4 env sec ks =
     (let r = ruleByID ''1.5.4''
      in checkSysctlFile env r ''/proc/sys/fs/suid_dumpable'' ''0''
           ''SUID core dumps not restricted (fs.suid_dumpable != 0)''
           (''sysctl -w fs.suid_dumpable=0 && echo '' @ squote @ ''fs.suid_dumpable=0'' @ squote @
            '' >> /etc/sysctl.d/99-cis.conf''))"

definition check_1_5_5 :: "cis_host \<Rightarrow> security_info \<Rightarrow> kernel_security_info \<Rightarrow> cis_result" where
  "check_1_5_5 env sec ks =
     (let r = ruleByID ''1.5.5''
      in checkSysctlFile env r ''/proc/sys/fs/protected_hardlinks'' ''1''
           (''fs.protected_hardlinks=1 is not set '' @ em_dash @ '' hardlink attacks possible'')
           (''sysctl -w fs.protected_hardlinks=1 && echo '' @ squote @
            ''fs.protected_hardlinks=1'' @ squote @ '' >> /etc/sysctl.d/99-cis.conf''))"

definition check_1_5_6 :: "cis_host \<Rightarrow> security_info \<Rightarrow> kernel_security_info \<Rightarrow> cis_result" where
  "check_1_5_6 env sec ks =
     (let r = ruleByID ''1.5.6''
      in checkSysctlFile env r ''/proc/sys/fs/protected_symlinks'' ''1''
           (''fs.protected_symlinks=1 is not set '' @ em_dash @ '' symlink attacks possible'')
           (''sysctl -w fs.protected_symlinks=1 && echo '' @ squote @ ''fs.protected_symlinks=1'' @
            squote @ '' >> /etc/sysctl.d/99-cis.conf''))"

definition check_1_5_7 :: "cis_host \<Rightarrow> security_info \<Rightarrow> kernel_security_info \<Rightarrow> cis_result" where
  "check_1_5_7 env sec ks =
     (let r = ruleByID ''1.5.7''
      in checkSysctlFile env r ''/proc/sys/kernel/dmesg_restrict'' ''1''
           (''kernel.dmesg_restrict=1 is not set '' @ em_dash @
            '' unprivileged users can read kernel ring buffer'')
           (''sysctl -w kernel.dmesg_restrict=1 && echo '' @ squote @ ''kernel.dmesg_restrict=1'' @
            squote @ '' >> /etc/sysctl.d/99-cis.conf''))"

definition check_1_5_8 :: "cis_host \<Rightarrow> security_info \<Rightarrow> kernel_security_info \<Rightarrow> cis_result" where
  "check_1_5_8 env sec ks =
     (let r = ruleByID ''1.5.8''
      in checkSysctlGE env r perfEventParanoidPath 1
           (''kernel.perf_event_paranoid < 1 '' @ em_dash @
            '' unprivileged users can profile the kernel'')
           (''sysctl -w kernel.perf_event_paranoid=2 && echo '' @ squote @
            ''kernel.perf_event_paranoid=2'' @ squote @ '' >> /etc/sysctl.d/99-cis.conf''))"

definition check_1_5_9 :: "cis_host \<Rightarrow> security_info \<Rightarrow> kernel_security_info \<Rightarrow> cis_result" where
  "check_1_5_9 env sec ks =
     (let r = ruleByID ''1.5.9''
      in checkSysctlGE env r kptrRestrictPath 1
           (''kernel.kptr_restrict < 1 '' @ em_dash @
            '' kernel symbol addresses exposed via /proc/kallsyms'')
           (''sysctl -w kernel.kptr_restrict=2 && echo '' @ squote @ ''kernel.kptr_restrict=2'' @
            squote @ '' >> /etc/sysctl.d/99-cis.conf''))"

definition check_1_5_10 :: "cis_host \<Rightarrow> security_info \<Rightarrow> kernel_security_info \<Rightarrow> cis_result" where
  "check_1_5_10 env sec ks =
     (let r = ruleByID ''1.5.10''
      in checkSysctlGE env r yamaPtraceScopePath 1
           (''kernel.yama.ptrace_scope < 1 '' @ em_dash @
            '' any process can ptrace any other process it owns'')
           (''sysctl -w kernel.yama.ptrace_scope=1 && echo '' @ squote @
            ''kernel.yama.ptrace_scope=1'' @ squote @ '' >> /etc/sysctl.d/99-cis.conf''))"

definition check_1_5_11 :: "cis_host \<Rightarrow> security_info \<Rightarrow> kernel_security_info \<Rightarrow> cis_result" where
  "check_1_5_11 env sec ks =
     (let r = ruleByID ''1.5.11''
      in checkSysctlFile env r bpfJitHardenPath ''2''
           (''net.core.bpf_jit_harden != 2 '' @ em_dash @
            '' BPF JIT not fully hardened (JIT spraying possible)'')
           (''sysctl -w net.core.bpf_jit_harden=2 && echo '' @ squote @
            ''net.core.bpf_jit_harden=2'' @ squote @ '' >> /etc/sysctl.d/99-cis.conf''))"

definition check_1_5_12 :: "cis_host \<Rightarrow> security_info \<Rightarrow> kernel_security_info \<Rightarrow> cis_result" where
  "check_1_5_12 env sec ks =
     (let r = ruleByID ''1.5.12''
      in checkSysctlGE env r mmapMinAddrPath 65536
           (''vm.mmap_min_addr < 65536 '' @ em_dash @
            '' processes can mmap near null address (null-pointer deref exploits easier)'')
           (''sysctl -w vm.mmap_min_addr=65536 && echo '' @ squote @ ''vm.mmap_min_addr=65536'' @
            squote @ '' >> /etc/sysctl.d/99-cis.conf''))"

definition check_1_5_14 :: "cis_host \<Rightarrow> security_info \<Rightarrow> kernel_security_info \<Rightarrow> cis_result" where
  "check_1_5_14 env sec ks =
     (let r = ruleByID ''1.5.14''
      in checkSysctlFile env r sysrqPath ''0''
           (''kernel.sysrq is not 0 '' @ em_dash @
            '' SysRq keys enable privileged kernel operations (reboot, kill, sync) from the console'')
           (''sysctl -w kernel.sysrq=0 && echo '' @ squote @ ''kernel.sysrq=0'' @ squote @
            '' >> /etc/sysctl.d/99-cis.conf''))"

definition check_1_5_15 :: "cis_host \<Rightarrow> security_info \<Rightarrow> kernel_security_info \<Rightarrow> cis_result" where
  "check_1_5_15 env sec ks =
     (let r = ruleByID ''1.5.15''
      in checkSysctlFile env r coreUsesPidPath ''1''
           (''kernel.core_uses_pid is not 1 '' @ em_dash @
            '' core dumps do not include PID, concurrent dumps may overwrite each other'')
           (''sysctl -w kernel.core_uses_pid=1 && echo '' @ squote @ ''kernel.core_uses_pid=1'' @
            squote @ '' >> /etc/sysctl.d/99-cis.conf''))"

definition check_1_5_16 :: "cis_host \<Rightarrow> security_info \<Rightarrow> kernel_security_info \<Rightarrow> cis_result" where
  "check_1_5_16 env sec ks =
     (let r = ruleByID ''1.5.16''
      in checkSysctlGE env r protectedRegularPath 1
           (''fs.protected_regular < 1 '' @ em_dash @
            '' unprivileged users can create regular files in sticky world-writable dirs owned by others'')
           (''sysctl -w fs.protected_regular=2 && echo '' @ squote @ ''fs.protected_regular=2'' @
            squote @ '' >> /etc/sysctl.d/99-cis.conf''))"

definition check_1_5_17 :: "cis_host \<Rightarrow> security_info \<Rightarrow> kernel_security_info \<Rightarrow> cis_result" where
  "check_1_5_17 env sec ks =
     (let r = ruleByID ''1.5.17''
      in checkSysctlGE env r protectedFifosPath 1
           (''fs.protected_fifos < 1 '' @ em_dash @
            '' unprivileged users can create FIFOs in sticky world-writable dirs owned by others'')
           (''sysctl -w fs.protected_fifos=2 && echo '' @ squote @ ''fs.protected_fifos=2'' @
            squote @ '' >> /etc/sysctl.d/99-cis.conf''))"

definition check_1_5_18 :: "cis_host \<Rightarrow> security_info \<Rightarrow> kernel_security_info \<Rightarrow> cis_result" where
  "check_1_5_18 env sec ks =
     (let r = ruleByID ''1.5.18''
      in checkSysctlGE env r unprivilegedBpfDisabledPath 1
           (''kernel.unprivileged_bpf_disabled < 1 '' @ em_dash @
            '' unprivileged users can load BPF programs (privilege escalation risk)'')
           (''sysctl -w kernel.unprivileged_bpf_disabled=1 && echo '' @ squote @
            ''kernel.unprivileged_bpf_disabled=1'' @ squote @ '' >> /etc/sysctl.d/99-cis.conf''))"

definition check_1_5_2 :: "cis_host \<Rightarrow> security_info \<Rightarrow> kernel_security_info \<Rightarrow> cis_result" where
  "check_1_5_2 env sec ks =
     checkServiceNotInstalled env (ruleByID ''1.5.2'') prelinkBinPaths
       ''apt purge prelink / dnf remove prelink''"

definition check_1_5_3 :: "cis_host \<Rightarrow> security_info \<Rightarrow> kernel_security_info \<Rightarrow> cis_result" where
  "check_1_5_3 env sec ks =
     (let r = ruleByID ''1.5.3'';
          installed = False;
          installed =
            case first_some
              (\<lambda>p.
                case Stat env p of
                    None \<Rightarrow> None
                  | Some _ \<Rightarrow>
                      (let installed = True
                       in Some installed))
              apportBinPaths of
              Some r \<Rightarrow> r
              | None \<Rightarrow> installed
      in if \<not> installed then cis_pass r
         else case ReadFile env apportDefaultPath of
                  None \<Rightarrow>
                    failr r ''apport installed but /etc/default/apport unreadable or missing''
                      (''echo '' @ squote @ ''enabled=0'' @ squote @ '' > /etc/default/apport'')
                | Some data \<Rightarrow>
                    (case first_some
                       (\<lambda>line.
                         let line = trim_space line
                         in if line = ''enabled=0'' then Some (cis_pass r) else None)
                       (split_byte data (CHR 0x0A)) of
                         Some c \<Rightarrow> c
                       | None \<Rightarrow>
                           failr r
                             ''apport is installed and not disabled (enabled=0 not found in /etc/default/apport)''
                             (''echo '' @ squote @ ''enabled=0'' @ squote @
                              '' > /etc/default/apport'')))"

definition check_1_6_1 :: "cis_host \<Rightarrow> security_info \<Rightarrow> kernel_security_info \<Rightarrow> cis_result" where
  "check_1_6_1 env sec ks =
     (let r = ruleByID ''1.6.1''
      in case first_some
           (\<lambda>p. case Stat env p of None \<Rightarrow> None | Some _ \<Rightarrow> Some (cis_pass r))
           apparmorParserPaths of
             Some c \<Rightarrow> c
           | None \<Rightarrow>
               failr r
                 (''apparmor_parser not found '' @ em_dash @ '' AppArmor may not be installed'')
                 (apparmorInstallCmd ''apt''))"

definition check_1_6_2 :: "cis_host \<Rightarrow> security_info \<Rightarrow> kernel_security_info \<Rightarrow> cis_result" where
  "check_1_6_2 env sec ks =
     (let r = ruleByID ''1.6.2''
      in case ReadFile env grubDefaultPath of
             None \<Rightarrow> skipr r ''could not read /etc/default/grub''
           | Some data \<Rightarrow>
               (case first_some
                  (\<lambda>line.
                    let line = trim_space line
                    in if has_prefix line ''#'' \<or> \<not> has_prefix line ''GRUB_CMDLINE_LINUX=''
                         then None
                       else let val = trim_prefix line ''GRUB_CMDLINE_LINUX='';
                                val = trim_set val (dquote @ squote);
                                tokens = Go_Prelude.fields val;
                                hasAA = False;
                                hasSec = False;
                                hasAA = hasAA \<or> list_ex (\<lambda>tok. tok = ''apparmor=1'') tokens;
                                hasSec = hasSec \<or> list_ex (\<lambda>tok. tok = ''security=apparmor'') tokens
                            in if hasAA \<and> hasSec then Some (cis_pass r)
                               else Some (failr r
                                            (''GRUB_CMDLINE_LINUX does not contain '' @ squote @
                                             ''apparmor=1 security=apparmor'' @ squote)
                                            (''add '' @ squote @ ''apparmor=1 security=apparmor'' @
                                             squote @
                                             '' to GRUB_CMDLINE_LINUX in /etc/default/grub, then run update-grub'')))
                  (split_byte data (CHR 0x0A)) of
                    Some c \<Rightarrow> c
                  | None \<Rightarrow> skipr r ''GRUB_CMDLINE_LINUX not found in /etc/default/grub''))"

definition check_1_6_3 :: "cis_host \<Rightarrow> security_info \<Rightarrow> kernel_security_info \<Rightarrow> cis_result" where
  "check_1_6_3 env sec ks =
     (let r = ruleByID ''1.6.3''
      in case ReadFile env apparmorProfilesPath of
             None \<Rightarrow>
               unverifiedr r
                 (''could not read AppArmor profiles '' @ em_dash @
                  '' AppArmor kernel support may be absent'')
           | Some data \<Rightarrow>
               (let count =
                      int (length (filter (\<lambda>line. trim_space line \<noteq> []) (split_byte data (CHR 0x0A))))
                in if count = 0
                     then failr r ''no AppArmor profiles are loaded''
                            ''load profiles: apparmor_parser -r /etc/apparmor.d/*''
                   else cis_pass r))"

definition check_1_6_4 :: "cis_host \<Rightarrow> security_info \<Rightarrow> kernel_security_info \<Rightarrow> cis_result" where
  "check_1_6_4 env sec ks =
     (let r = ruleByID ''1.6.4''
      in case ReadFile env apparmorProfilesPath of
             None \<Rightarrow> unverifiedr r ''could not read AppArmor profiles''
           | Some data \<Rightarrow>
               (let complain =
                      concat (map
                                (\<lambda>line.
                                  let line = trim_space line
                                  in if line = [] then []
                                     else if has_suffix line ''(complain)''
                                       then (let name = trim_suffix line '' (complain)''
                                             in [trim_space name])
                                     else [])
                                (split_byte data (CHR 0x0A)))
                in if complain \<noteq> []
                     then (let shown = take (nat (min 3 (int (length complain)))) complain
                           in failr r
                                (itoa (int (length complain)) @ '' profile(s) in complain mode: '' @
                                 join shown '', '')
                                ''set all profiles to enforce: aa-enforce /etc/apparmor.d/*'')
                   else cis_pass r))"

definition check_3_3_1 :: "security_info \<Rightarrow> kernel_security_info \<Rightarrow> cis_result" where
  "check_3_3_1 sec ks =
     (let r = ruleByID ''3.3.1''
      in if kernelSecurity_AppArmorPresent ks \<or> kernelSecurity_SELinuxPresent ks then cis_pass r
         else failr r ''no MAC framework detected'' ''install AppArmor or SELinux'')"

definition check_3_3_2 :: "cis_host \<Rightarrow> security_info \<Rightarrow> kernel_security_info \<Rightarrow> cis_result" where
  "check_3_3_2 env sec ks =
     (let r = ruleByID ''3.3.2''
      in if kernelSecurity_SELinuxPresent ks
           then (if kernelSecurity_SELinuxMode ks = ''enforcing'' then cis_pass r
                 else if kernelSecurity_SELinuxMode ks = ''permissive''
                   then failr r
                          (''SELinux is in permissive mode '' @ em_dash @
                           '' denials logged but not blocked'')
                          ''set SELINUX=enforcing in /etc/selinux/config; setenforce 1''
                 else failr r
                        (''SELinux mode is '' @ Quote env (kernelSecurity_SELinuxMode ks) @
                         '' (not enforcing)'')
                        ''set SELINUX=enforcing in /etc/selinux/config; reboot to activate'')
         else if kernelSecurity_AppArmorPresent ks
           then (if kernelSecurity_AppArmorMode ks = ''enforce'' then cis_pass r
                 else if kernelSecurity_AppArmorMode ks = ''complain''
                   then failr r
                          (''AppArmor is in complain mode '' @ em_dash @
                           '' denials logged but not blocked'')
                          ''switch profiles to enforce mode: aa-enforce /etc/apparmor.d/*''
                 else if kernelSecurity_AppArmorMode ks = ''unknown''
                   then unverifiedr r ''AppArmor profile list unreadable (run as root)''
                 else failr r ''AppArmor is not in enforcing mode''
                        ''enable and enforce AppArmor: systemctl enable apparmor && aa-enforce /etc/apparmor.d/*'')
         else skipr r (''no MAC framework installed '' @ em_dash @ '' see 3.3.1''))"

definition check_4_1_1 :: "security_info \<Rightarrow> kernel_security_info \<Rightarrow> cis_result" where
  "check_4_1_1 sec ks =
     (let r = ruleByID cisRuleAudit41
      in if security_AuditRules sec = - 1
           then failr r ''auditd not installed or not running'' (auditInstallCmd ''apt'')
         else cis_pass r)"

definition check_4_1_1_1 :: "cis_host \<Rightarrow> security_info \<Rightarrow> kernel_security_info \<Rightarrow> cis_result" where
  "check_4_1_1_1 env sec ks =
     (let r = ruleByID cisRuleAudit4111
      in if security_AuditRules sec = - 1 then skipr r cisSkipAuditdUnavailable
         else case ReadFile env auditdConfPath of
                  None \<Rightarrow> unverifiedr r cisSkipAuditdConfUnreadable
                | Some data \<Rightarrow>
                    (case first_some
                       (\<lambda>line.
                         let parts = split_n 2 (trim_space line) (CHR ''='')
                         in if int (length parts) \<noteq> 2 then None
                            else if trim_space (to_lower (hd parts)) \<noteq> ''max_log_file'' then None
                            else let val = trim_space (parts ! 1)
                                 in case atoi val of
                                        None \<Rightarrow>
                                          Some (unverifiedr r
                                                  (''max_log_file value '' @ Quote env val @
                                                   '' not parseable''))
                                      | Some n \<Rightarrow>
                                          (if n = 0
                                             then Some (failr r
                                                          (''max_log_file = 0 '' @ em_dash @
                                                           '' audit log size limit not configured'')
                                                          ''set max_log_file = 8 (or site-defined value) in /etc/audit/auditd.conf'')
                                           else Some (cis_pass r)))
                       (split_byte data (CHR 0x0A)) of
                         Some c \<Rightarrow> c
                       | None \<Rightarrow>
                           failr r ''max_log_file not set in auditd.conf''
                             ''add max_log_file = 8 to /etc/audit/auditd.conf''))"

definition check_4_1_1_2 :: "cis_host \<Rightarrow> security_info \<Rightarrow> kernel_security_info \<Rightarrow> cis_result" where
  "check_4_1_1_2 env sec ks =
     (let r = ruleByID cisRuleAudit4112
      in if security_AuditRules sec = - 1 then skipr r cisSkipAuditdUnavailable
         else case ReadFile env auditdConfPath of
                  None \<Rightarrow> unverifiedr r cisSkipAuditdConfUnreadable
                | Some data \<Rightarrow>
                    (case first_some
                       (\<lambda>line.
                         let parts = split_n 2 (trim_space line) (CHR ''='')
                         in if int (length parts) \<noteq> 2 then None
                            else if trim_space (to_lower (hd parts)) \<noteq> ''max_log_file_action''
                              then None
                            else let val = to_lower (trim_space (parts ! 1))
                                 in if val = ''rotate'' \<or> val = ''ignore''
                                      then Some (failr r
                                                   (''max_log_file_action = '' @ Quote env val @
                                                    '' '' @ em_dash @
                                                    '' old audit logs may be silently discarded'')
                                                   ''set max_log_file_action = keep_logs in /etc/audit/auditd.conf'')
                                    else Some (cis_pass r))
                       (split_byte data (CHR 0x0A)) of
                         Some c \<Rightarrow> c
                       | None \<Rightarrow>
                           failr r ''max_log_file_action not set in auditd.conf''
                             ''add max_log_file_action = keep_logs to /etc/audit/auditd.conf''))"

definition check_4_1_1_3 :: "cis_host \<Rightarrow> security_info \<Rightarrow> kernel_security_info \<Rightarrow> cis_result" where
  "check_4_1_1_3 env sec ks =
     (let r = ruleByID cisRuleAudit4113
      in if security_AuditRules sec = - 1 then skipr r cisSkipAuditdUnavailable
         else case ReadFile env auditdConfPath of
                  None \<Rightarrow> unverifiedr r cisSkipAuditdConfUnreadable
                | Some data \<Rightarrow>
                    (let spaceLeft = [];
                         adminSpaceLeft = [];
                         spaceLeft =
                           foldl
                             (\<lambda>spaceLeft line.
                               let parts = split_n 2 (trim_space line) (CHR ''='')
                               in if int (length parts) \<noteq> 2 then spaceLeft
                                  else let key = trim_space (to_lower (hd parts));
                                           val = to_lower (trim_space (parts ! 1))
                                       in if key = ''space_left_action'' then val else spaceLeft)
                             spaceLeft
                             (split_byte data (CHR 0x0A));
                         adminSpaceLeft =
                           foldl
                             (\<lambda>adminSpaceLeft line.
                               let parts = split_n 2 (trim_space line) (CHR ''='')
                               in if int (length parts) \<noteq> 2 then adminSpaceLeft
                                  else let key = trim_space (to_lower (hd parts));
                                           val = to_lower (trim_space (parts ! 1))
                                       in if key = ''space_left_action'' then adminSpaceLeft
                                          else if key = ''admin_space_left_action'' then val
                                          else adminSpaceLeft)
                             adminSpaceLeft
                             (split_byte data (CHR 0x0A));
                         safeActions =
                           [(''halt'', True), (''single'', True), (''email'', True),
                            (''exec'', True)]
                     in if \<not> map_get False safeActions spaceLeft
                          then failr r
                                 (''space_left_action = '' @ Quote env spaceLeft @ '' '' @ em_dash @
                                  '' system won'' @ squote @ ''t halt/notify on low disk'')
                                 ''set space_left_action = email in /etc/audit/auditd.conf''
                        else if adminSpaceLeft \<noteq> ''halt'' \<and> adminSpaceLeft \<noteq> ''single''
                          then failr r
                                 (''admin_space_left_action = '' @ Quote env adminSpaceLeft @
                                  '' '' @ em_dash @ '' system won'' @ squote @
                                  ''t halt when disk is critically full'')
                                 ''set admin_space_left_action = halt in /etc/audit/auditd.conf''
                        else cis_pass r))"

definition check_4_1_1_4 :: "cis_host \<Rightarrow> security_info \<Rightarrow> kernel_security_info \<Rightarrow> cis_result" where
  "check_4_1_1_4 env sec ks =
     (let r = ruleByID cisRuleAudit4114
      in if security_AuditRules sec = - 1 then skipr r cisSkipAuditdUnavailable
         else case ReadFile env procCmdlinePath of
                  None \<Rightarrow> unverifiedr r ''/proc/cmdline not readable''
                | Some data \<Rightarrow>
                    (case first_some
                       (\<lambda>param.
                         case cut_prefix param ''audit_backlog_limit='' of
                             None \<Rightarrow> None
                           | Some rest \<Rightarrow>
                               (case parse_int 10 64 rest of
                                    None \<Rightarrow>
                                      Some (failr r
                                              (''audit_backlog_limit='' @ Quote env rest @
                                               '' is not a valid integer'') cisFixAuditBacklogGrub)
                                  | Some n \<Rightarrow>
                                      (if n < 8192
                                         then Some (failr r
                                                      (''audit_backlog_limit='' @ itoa n @
                                                       '' is below the CIS minimum of 8192'')
                                                      cisFixAuditBacklogGrub)
                                       else Some (cis_pass r))))
                       (Go_Prelude.fields (trim_space data)) of
                         Some c \<Rightarrow> c
                       | None \<Rightarrow>
                           failr r
                             ''audit_backlog_limit not set in kernel command line (default 64 is too low)''
                             cisFixAuditBacklogGrub))"

definition check_4_1_1_5 :: "cis_host \<Rightarrow> security_info \<Rightarrow> kernel_security_info \<Rightarrow> cis_result" where
  "check_4_1_1_5 env sec ks =
     (let r = ruleByID cisRuleAudit4115
      in if security_AuditRules sec = - 1 then skipr r cisSkipAuditdUnavailable
         else case ReadFile env procCmdlinePath of
                  None \<Rightarrow> unverifiedr r ''/proc/cmdline not readable''
                | Some data \<Rightarrow>
                    (case first_some
                       (\<lambda>param.
                         if param = ''audit=1'' then Some (cis_pass r)
                         else if param = ''audit=0''
                           then Some (failr r
                                        (''audit=0 in kernel cmdline '' @ em_dash @
                                         '' auditing explicitly disabled for early-boot processes'')
                                        ''remove audit=0 and add audit=1 to GRUB_CMDLINE_LINUX in /etc/default/grub, then run update-grub'')
                         else None)
                       (Go_Prelude.fields (trim_space data)) of
                         Some c \<Rightarrow> c
                       | None \<Rightarrow>
                           failr r
                             (''audit=1 not in kernel cmdline '' @ em_dash @
                              '' processes starting before auditd may not be audited'')
                             (''add '' @ squote @ ''audit=1'' @ squote @
                              '' to GRUB_CMDLINE_LINUX in /etc/default/grub and run update-grub'')))"

definition check_4_1_2 :: "security_info \<Rightarrow> kernel_security_info \<Rightarrow> cis_result" where
  "check_4_1_2 sec ks =
     (let r = ruleByID ''4.1.2''
      in if security_AuditRules sec = - 1 then skipr r cisSkipAuditdUnavailable
         else if security_AuditRules sec = 0
           then failr r ''auditd running but no rules loaded'' (auditRulesCmd ''apt'')
         else cis_pass r)"

definition check_4_1_3 :: "cis_host \<Rightarrow> security_info \<Rightarrow> kernel_security_info \<Rightarrow> cis_result" where
  "check_4_1_3 env sec ks =
     checkAuditRule env (ruleByID ''4.1.3'') (security_AuditRulesUnreadable sec)
       [''adjtimex'', ''clock_settime'', ''settimeofday'']
       (''add '' @ squote @
        ''-a always,exit -F arch=b64 -S adjtimex,settimeofday,clock_settime -k time-change'' @
        squote @ '' to /etc/audit/rules.d/50-time-change.rules'')"

definition check_4_1_4 :: "cis_host \<Rightarrow> security_info \<Rightarrow> kernel_security_info \<Rightarrow> cis_result" where
  "check_4_1_4 env sec ks =
     checkAuditRule env (ruleByID ''4.1.4'') (security_AuditRulesUnreadable sec)
       [''-w /etc/passwd'', ''-w /etc/group'', ''-w /etc/shadow'']
       (''add '' @ squote @ ''-w /etc/passwd -p wa -k identity'' @ squote @
        '' to /etc/audit/rules.d/50-identity.rules'')"

definition check_4_1_5 :: "cis_host \<Rightarrow> security_info \<Rightarrow> kernel_security_info \<Rightarrow> cis_result" where
  "check_4_1_5 env sec ks =
     checkAuditRule env (ruleByID ''4.1.5'') (security_AuditRulesUnreadable sec)
       [''sethostname'', ''setdomainname'', ''-w /etc/hosts'']
       (''add '' @ squote @
        ''-a always,exit -F arch=b64 -S sethostname,setdomainname -k system-locale'' @ squote @
        '' to /etc/audit/rules.d/50-system-locale.rules'')"

definition check_4_1_6 :: "cis_host \<Rightarrow> security_info \<Rightarrow> kernel_security_info \<Rightarrow> cis_result" where
  "check_4_1_6 env sec ks =
     checkAuditRule env (ruleByID ''4.1.6'') (security_AuditRulesUnreadable sec)
       [''-w /etc/apparmor'', ''-w /etc/selinux'']
       (''add '' @ squote @ ''-w /etc/apparmor/ -p wa -k MAC-policy'' @ squote @
        '' to /etc/audit/rules.d/50-MAC-policy.rules'')"

definition check_4_1_7 :: "cis_host \<Rightarrow> security_info \<Rightarrow> kernel_security_info \<Rightarrow> cis_result" where
  "check_4_1_7 env sec ks =
     checkAuditRule env (ruleByID ''4.1.7'') (security_AuditRulesUnreadable sec)
       [''-w /var/log/wtmp'', ''-w /var/log/faillog'', ''-w /var/log/btmp'']
       (''add '' @ squote @ ''-w /var/log/faillog -p wa -k logins'' @ squote @
        '' to /etc/audit/rules.d/50-login.rules'')"

definition check_4_1_8 :: "cis_host \<Rightarrow> security_info \<Rightarrow> kernel_security_info \<Rightarrow> cis_result" where
  "check_4_1_8 env sec ks =
     checkAuditRule env (ruleByID ''4.1.8'') (security_AuditRulesUnreadable sec)
       [''-w /var/run/utmp'', ''-w /run/utmp'']
       (''add '' @ squote @ ''-w /var/run/utmp -p wa -k session'' @ squote @
        '' to /etc/audit/rules.d/50-session.rules'')"

definition check_4_1_9 :: "cis_host \<Rightarrow> security_info \<Rightarrow> kernel_security_info \<Rightarrow> cis_result" where
  "check_4_1_9 env sec ks =
     checkAuditRule env (ruleByID ''4.1.9'') (security_AuditRulesUnreadable sec)
       [''chmod'', ''fchmod'', ''chown'', ''fchown'']
       (''add '' @ squote @
        ''-a always,exit -F arch=b64 -S chmod,fchmod,chown,fchown,fchownat,fchmodat -k perm_mod'' @
        squote @ '' to /etc/audit/rules.d/50-perm-mod.rules'')"

definition check_4_1_10 :: "cis_host \<Rightarrow> security_info \<Rightarrow> kernel_security_info \<Rightarrow> cis_result" where
  "check_4_1_10 env sec ks =
     checkAuditRule env (ruleByID ''4.1.10'') (security_AuditRulesUnreadable sec)
       [''EACCES'', ''EPERM'']
       (''add '' @ squote @
        ''-a always,exit -F arch=b64 -S creat,open,openat -F exit=-EACCES -k access'' @ squote @
        '' to /etc/audit/rules.d/50-access.rules'')"

definition check_4_1_11 :: "cis_host \<Rightarrow> security_info \<Rightarrow> kernel_security_info \<Rightarrow> cis_result" where
  "check_4_1_11 env sec ks =
     checkAuditRule env (ruleByID ''4.1.11'') (security_AuditRulesUnreadable sec)
       [''-F perm=x -F auid>='', ''-F path=/usr/bin/sudo'']
       (''run: find / -xdev -perm -4000 -o -perm -2000 | awk '' @ squote @ ''{print '' @ dquote @
        ''-a always,exit -F path='' @ dquote @ ''$1'' @ dquote @
        '' -F perm=x -F auid>=1000 -k privileged'' @ dquote @ ''}'' @ squote @
        '' >> /etc/audit/rules.d/50-privileged.rules'')"

definition check_4_1_12 :: "cis_host \<Rightarrow> security_info \<Rightarrow> kernel_security_info \<Rightarrow> cis_result" where
  "check_4_1_12 env sec ks =
     checkAuditRule env (ruleByID ''4.1.12'') (security_AuditRulesUnreadable sec) [''-S mount'']
       (''add '' @ squote @ ''-a always,exit -F arch=b64 -S mount -k mounts'' @ squote @
        '' to /etc/audit/rules.d/50-mounts.rules'')"

definition check_4_1_13 :: "cis_host \<Rightarrow> security_info \<Rightarrow> kernel_security_info \<Rightarrow> cis_result" where
  "check_4_1_13 env sec ks =
     checkAuditRule env (ruleByID ''4.1.13'') (security_AuditRulesUnreadable sec)
       [''unlinkat'', ''rmdir'', ''unlink'', ''rename'']
       (''add '' @ squote @
        ''-a always,exit -F arch=b64 -S unlinkat,rmdir,rename,renameat -k delete'' @ squote @
        '' to /etc/audit/rules.d/50-deletion.rules'')"

definition check_4_1_14 :: "cis_host \<Rightarrow> security_info \<Rightarrow> kernel_security_info \<Rightarrow> cis_result" where
  "check_4_1_14 env sec ks =
     checkAuditRule env (ruleByID ''4.1.14'') (security_AuditRulesUnreadable sec)
       [''-w /etc/sudoers'']
       (''add '' @ squote @ ''-w /etc/sudoers -p wa -k scope'' @ squote @
        '' to /etc/audit/rules.d/50-scope.rules'')"

definition check_4_1_15 :: "cis_host \<Rightarrow> security_info \<Rightarrow> kernel_security_info \<Rightarrow> cis_result" where
  "check_4_1_15 env sec ks =
     checkAuditRule env (ruleByID ''4.1.15'') (security_AuditRulesUnreadable sec)
       [''-w /var/log/sudo.log'', ''-w /var/log/auth.log'']
       (''add '' @ squote @ ''-w /var/log/sudo.log -p wa -k actions'' @ squote @
        '' to /etc/audit/rules.d/50-actions.rules'')"

definition check_4_1_16 :: "cis_host \<Rightarrow> security_info \<Rightarrow> kernel_security_info \<Rightarrow> cis_result" where
  "check_4_1_16 env sec ks =
     checkAuditRule env (ruleByID ''4.1.16'') (security_AuditRulesUnreadable sec)
       [''init_module'', ''finit_module'', ''delete_module'']
       (''add '' @ squote @
        ''-a always,exit -F arch=b64 -S init_module,finit_module,delete_module -k modules'' @
        squote @ '' to /etc/audit/rules.d/50-modules.rules'')"

definition check_4_1_17 :: "cis_host \<Rightarrow> security_info \<Rightarrow> kernel_security_info \<Rightarrow> cis_result" where
  "check_4_1_17 env sec ks =
     checkAuditRule env (ruleByID ''4.1.17'') (security_AuditRulesUnreadable sec) [''-e 2'']
       (''add '' @ squote @ ''-e 2'' @ squote @
        '' as the last line of /etc/audit/rules.d/99-finalize.rules'')"

definition check_4_2_1 :: "cis_host \<Rightarrow> security_info \<Rightarrow> kernel_security_info \<Rightarrow> cis_result" where
  "check_4_2_1 env sec ks =
     (let r = ruleByID ''4.2.1''
      in case first_some
           (\<lambda>p. case Stat env p of None \<Rightarrow> None | Some _ \<Rightarrow> Some (cis_pass r))
           rsyslogBinPaths of
             Some c \<Rightarrow> c
           | None \<Rightarrow>
               failr r ''no syslog daemon found (rsyslogd or syslog-ng)''
                 ''install rsyslog (see remediation)'')"

definition check_4_2_2 :: "cis_host \<Rightarrow> security_info \<Rightarrow> kernel_security_info \<Rightarrow> cis_result" where
  "check_4_2_2 env sec ks =
     (let r = ruleByID ''4.2.2'';
          lines = [];
          lines =
            case ReadFile env journaldConfPath of
                None \<Rightarrow> lines
              | Some data \<Rightarrow> lines @ concat (map (\<lambda>line. [line]) (split_byte data (CHR 0x0A)));
          lines =
            case ReadDir env journaldConfDPath of
                None \<Rightarrow> lines
              | Some entries \<Rightarrow>
                  lines @
                  concat (map
                            (\<lambda>e.
                              if entry_IsDir e \<or> \<not> has_suffix (entry_Name e) ''.conf'' then []
                              else case ReadFile env (path_join [journaldConfDPath, entry_Name e]) of
                                       None \<Rightarrow> []
                                     | Some data \<Rightarrow>
                                         concat (map (\<lambda>line. [line]) (split_byte data (CHR 0x0A))))
                            entries)
      in if lines = [] then skipr r cisSkipJournaldNotFound
         else case first_some
                (\<lambda>line.
                  let line = trim_space line
                  in if has_prefix line ''#'' \<or> line = [] then None
                     else if equal_fold line ''ForwardToSyslog=yes'' then Some (cis_pass r)
                     else None)
                lines of
                  Some c \<Rightarrow> c
                | None \<Rightarrow>
                    failr r ''ForwardToSyslog=yes not set in journald configuration''
                      (''add '' @ squote @ ''ForwardToSyslog=yes'' @ squote @
                       '' to /etc/systemd/journald.conf''))"

definition check_4_2_2_2 :: "cis_host \<Rightarrow> security_info \<Rightarrow> kernel_security_info \<Rightarrow> cis_result" where
  "check_4_2_2_2 env sec ks =
     (let r = ruleByID ''4.2.2.2'';
          hasCompress = False;
          anyConfig = False;
          anyConfig =
            case ReadFile env journaldConfPath of
                None \<Rightarrow> anyConfig
              | Some data \<Rightarrow>
                  anyConfig \<or> list_ex
                    (\<lambda>line.
                      let line = trim_space line
                      in if line = [] \<or> has_prefix line ''#'' then False else True)
                    (split_byte data (CHR 0x0A));
          hasCompress =
            case ReadFile env journaldConfPath of
                None \<Rightarrow> hasCompress
              | Some data \<Rightarrow>
                  hasCompress \<or> list_ex
                    (\<lambda>line.
                      let line = trim_space line
                      in if line = [] \<or> has_prefix line ''#'' then False
                         else equal_fold line ''Compress=yes'')
                    (split_byte data (CHR 0x0A));
          anyConfig =
            case ReadDir env journaldConfDPath of
                None \<Rightarrow> anyConfig
              | Some entries \<Rightarrow>
                  anyConfig \<or> list_ex
                    (\<lambda>e.
                      if entry_IsDir e \<or> \<not> has_suffix (entry_Name e) ''.conf'' then False
                      else case ReadFile env (path_join [journaldConfDPath, entry_Name e]) of
                               None \<Rightarrow> False
                             | Some data \<Rightarrow>
                                 list_ex
                                   (\<lambda>line.
                                     let line = trim_space line
                                     in if line = [] \<or> has_prefix line ''#'' then False else True)
                                   (split_byte data (CHR 0x0A)))
                    entries;
          hasCompress =
            case ReadDir env journaldConfDPath of
                None \<Rightarrow> hasCompress
              | Some entries \<Rightarrow>
                  hasCompress \<or> list_ex
                    (\<lambda>e.
                      if entry_IsDir e \<or> \<not> has_suffix (entry_Name e) ''.conf'' then False
                      else case ReadFile env (path_join [journaldConfDPath, entry_Name e]) of
                               None \<Rightarrow> False
                             | Some data \<Rightarrow>
                                 list_ex
                                   (\<lambda>line.
                                     let line = trim_space line
                                     in if line = [] \<or> has_prefix line ''#'' then False
                                        else equal_fold line ''Compress=yes'')
                                   (split_byte data (CHR 0x0A)))
                    entries
      in if \<not> anyConfig then skipr r cisSkipJournaldNotFound
         else if \<not> hasCompress
           then failr r ''Compress=yes not set in journald configuration''
                  (''add '' @ squote @ ''Compress=yes'' @ squote @
                   '' to /etc/systemd/journald.conf'')
         else cis_pass r)"

definition check_4_2_2_3 :: "cis_host \<Rightarrow> security_info \<Rightarrow> kernel_security_info \<Rightarrow> cis_result" where
  "check_4_2_2_3 env sec ks =
     (let r = ruleByID ''4.2.2.3'';
          hasPersistent = False;
          anyConfig = False;
          anyConfig =
            case ReadFile env journaldConfPath of
                None \<Rightarrow> anyConfig
              | Some data \<Rightarrow>
                  anyConfig \<or> list_ex
                    (\<lambda>line.
                      let line = trim_space line
                      in if line = [] \<or> has_prefix line ''#'' then False else True)
                    (split_byte data (CHR 0x0A));
          hasPersistent =
            case ReadFile env journaldConfPath of
                None \<Rightarrow> hasPersistent
              | Some data \<Rightarrow>
                  hasPersistent \<or> list_ex
                    (\<lambda>line.
                      let line = trim_space line
                      in if line = [] \<or> has_prefix line ''#'' then False
                         else equal_fold line ''Storage=persistent'')
                    (split_byte data (CHR 0x0A));
          anyConfig =
            case ReadDir env journaldConfDPath of
                None \<Rightarrow> anyConfig
              | Some entries \<Rightarrow>
                  anyConfig \<or> list_ex
                    (\<lambda>e.
                      if entry_IsDir e \<or> \<not> has_suffix (entry_Name e) ''.conf'' then False
                      else case ReadFile env (path_join [journaldConfDPath, entry_Name e]) of
                               None \<Rightarrow> False
                             | Some data \<Rightarrow>
                                 list_ex
                                   (\<lambda>line.
                                     let line = trim_space line
                                     in if line = [] \<or> has_prefix line ''#'' then False else True)
                                   (split_byte data (CHR 0x0A)))
                    entries;
          hasPersistent =
            case ReadDir env journaldConfDPath of
                None \<Rightarrow> hasPersistent
              | Some entries \<Rightarrow>
                  hasPersistent \<or> list_ex
                    (\<lambda>e.
                      if entry_IsDir e \<or> \<not> has_suffix (entry_Name e) ''.conf'' then False
                      else case ReadFile env (path_join [journaldConfDPath, entry_Name e]) of
                               None \<Rightarrow> False
                             | Some data \<Rightarrow>
                                 list_ex
                                   (\<lambda>line.
                                     let line = trim_space line
                                     in if line = [] \<or> has_prefix line ''#'' then False
                                        else equal_fold line ''Storage=persistent'')
                                   (split_byte data (CHR 0x0A)))
                    entries
      in if \<not> anyConfig then skipr r cisSkipJournaldNotFound
         else if \<not> hasPersistent
           then failr r ''Storage=persistent not set in journald configuration''
                  (''add '' @ squote @ ''Storage=persistent'' @ squote @
                   '' to /etc/systemd/journald.conf'')
         else cis_pass r)"

definition check_4_2_3 :: "cis_host \<Rightarrow> security_info \<Rightarrow> kernel_security_info \<Rightarrow> cis_result" where
  "check_4_2_3 env sec ks =
     (let r = ruleByID ''4.2.3'';
          lines = [];
          lines =
            case ReadFile env rsyslogConfPath of
                None \<Rightarrow> lines
              | Some data \<Rightarrow> lines @ concat (map (\<lambda>line. [line]) (split_byte data (CHR 0x0A)));
          lines =
            case ReadDir env rsyslogConfDPath of
                None \<Rightarrow> lines
              | Some entries \<Rightarrow>
                  lines @
                  concat (map
                            (\<lambda>e.
                              if entry_IsDir e \<or> \<not> has_suffix (entry_Name e) ''.conf'' then []
                              else case ReadFile env (path_join [rsyslogConfDPath, entry_Name e]) of
                                       None \<Rightarrow> []
                                     | Some data \<Rightarrow>
                                         concat (map (\<lambda>line. [line]) (split_byte data (CHR 0x0A))))
                            entries)
      in if lines = [] then skipr r ''rsyslog config not readable''
         else case first_some
                (\<lambda>line.
                  let line = trim_space line
                  in if has_prefix line ''#'' \<or> line = [] then None
                     else if ((has_prefix line ''@@'' \<or> has_prefix line ''*.* @@'') \<or>
                              has_prefix line ''*.* @'') \<or>
                             contains line (''action(type='' @ dquote @ ''omfwd'' @ dquote)
                       then Some (cis_pass r)
                     else None)
                lines of
                  Some c \<Rightarrow> c
                | None \<Rightarrow>
                    failr r ''no remote log host configured in rsyslog''
                      (''add '' @ squote @ ''*.* @@loghost.example.com'' @ squote @
                       '' or equivalent to /etc/rsyslog.d/50-remote.conf''))"

definition check_4_2_4 :: "cis_host \<Rightarrow> security_info \<Rightarrow> kernel_security_info \<Rightarrow> cis_result" where
  "check_4_2_4 env sec ks =
     (let r = ruleByID ''4.2.4'';
          networkMods =
            [''$modload imtcp'', ''$modload imudp'', ''$modload imrelp'',
             ''module(load='' @ dquote @ ''imtcp'' @ dquote,
             ''module(load='' @ dquote @ ''imudp'' @ dquote,
             ''module(load='' @ dquote @ ''imrelp'' @ dquote,
             ''input(type='' @ dquote @ ''imtcp'' @ dquote,
             ''input(type='' @ dquote @ ''imudp'' @ dquote,
             ''input(type='' @ dquote @ ''imrelp'' @ dquote];
          findMod =
            (\<lambda>data.
              case first_some
                (\<lambda>line.
                  let trimmed = trim_space line
                  in if trimmed = [] \<or> has_prefix trimmed ''#'' then None
                     else let lower = to_lower trimmed
                          in first_some
                               (\<lambda>md. if contains lower md then Some trimmed else None)
                               networkMods)
                (split_byte data (CHR 0x0A)) of
                  Some c \<Rightarrow> c
                | None \<Rightarrow> [])
      in case ReadFile env rsyslogConfPath of
             None \<Rightarrow>
               (case ReadDir env rsyslogConfDPath of
                    None \<Rightarrow> cis_pass r
                  | Some entries \<Rightarrow>
                      (case first_some
                         (\<lambda>e.
                           if entry_IsDir e \<or> \<not> has_suffix (entry_Name e) ''.conf'' then None
                           else case ReadFile env (path_join [rsyslogConfDPath, entry_Name e]) of
                                    None \<Rightarrow> None
                                  | Some data \<Rightarrow>
                                      (let found = findMod data
                                       in if found \<noteq> []
                                            then Some (failr r
                                                         (''rsyslog config '' @ entry_Name e @
                                                          '' loads network receiver module: '' @
                                                          Quote env found)
                                                         ''comment out or remove imtcp/imudp/imrelp load directives from /etc/rsyslog.d/'')
                                          else None))
                         entries of
                           Some c \<Rightarrow> c
                         | None \<Rightarrow> cis_pass r))
           | Some data \<Rightarrow>
               (let found = findMod data
                in if found \<noteq> []
                     then failr r (''rsyslog loads network receiver module: '' @ Quote env found)
                            ''comment out or remove imtcp/imudp/imrelp module load directives from /etc/rsyslog.conf''
                   else case ReadDir env rsyslogConfDPath of
                            None \<Rightarrow> cis_pass r
                          | Some entries \<Rightarrow>
                              (case first_some
                                 (\<lambda>e.
                                   if entry_IsDir e \<or> \<not> has_suffix (entry_Name e) ''.conf''
                                     then None
                                   else case ReadFile env (path_join
                                                             [rsyslogConfDPath, entry_Name e]) of
                                            None \<Rightarrow> None
                                          | Some data \<Rightarrow>
                                              (let found = findMod data
                                               in if found \<noteq> []
                                                    then Some (failr r
                                                                 (''rsyslog config '' @
                                                                  entry_Name e @
                                                                  '' loads network receiver module: '' @
                                                                  Quote env found)
                                                                 ''comment out or remove imtcp/imudp/imrelp load directives from /etc/rsyslog.d/'')
                                                  else None))
                                 entries of
                                   Some c \<Rightarrow> c
                                 | None \<Rightarrow> cis_pass r)))"

text \<open>
  The closures of the rule: the mode a file sets, and what is wrong with it. Both places that look a file up
  return from the rule as soon as one sets a mode.
\<close>

definition rsyslog_mode :: "gostring \<Rightarrow> gostring option" where
  "rsyslog_mode data =
     first_some
       (\<lambda>line.
         let trimmed = trim_space line
         in if trimmed = [] \<or> has_prefix trimmed ''#'' then None
            else case cut_prefix trimmed ''$FileCreateMode'' of
                   Some rest \<Rightarrow> Some (trim_space rest)
                 | None \<Rightarrow>
                     if contains trimmed ''FileCreateMode=''
                       then first_some
                              (\<lambda>field. case cut_prefix field ''FileCreateMode='' of
                                 Some rest \<Rightarrow> Some (trim_set rest (dquote @ squote))
                               | None \<Rightarrow> None)
                              (Go_Prelude.fields trimmed)
                     else None)
       (split_byte data (CHR 0x0A))"

definition rsyslog_mode_problem :: "cis_host \<Rightarrow> gostring \<Rightarrow> gostring option" where
  "rsyslog_mode_problem env modeStr =
     (let modeStr = trim_set modeStr (dquote @ squote)
      in case parse_int 8 32 modeStr of
           None \<Rightarrow> Some (''unrecognised $FileCreateMode value '' @ Quote env modeStr)
         | Some v \<Rightarrow>
             if v AND 0b1011111 \<noteq> 0
               then Some (''$FileCreateMode '' @ modeStr @ '' is more permissive than 0640'')
             else None)"

lemma rsyslog_mode_problem_text: "rsyslog_mode_problem env modeStr = Some reason \<Longrightarrow> reason \<noteq> []"
  by (auto simp: rsyslog_mode_problem_def Let_def split: option.splits if_splits)

definition check_4_2_5 :: "cis_host \<Rightarrow> security_info \<Rightarrow> kernel_security_info \<Rightarrow> cis_result" where
  "check_4_2_5 env sec ks =
     (let r = ruleByID ''4.2.5''
      in case (case ReadFile env rsyslogConfPath of None \<Rightarrow> None | Some data \<Rightarrow> rsyslog_mode data) of
           Some modeStr \<Rightarrow>
             (case rsyslog_mode_problem env modeStr of
                Some reason \<Rightarrow>
                  failr r reason
                    (''set '' @ squote @ ''$FileCreateMode 0640'' @ squote @
                     '' in /etc/rsyslog.conf or a /etc/rsyslog.d/ drop-in'')
              | None \<Rightarrow> cis_pass r)
         | None \<Rightarrow>
             (case first_some
                (\<lambda>e.
                  if entry_IsDir e \<or> \<not> has_suffix (entry_Name e) ''.conf'' then None
                  else case ReadFile env (path_join [rsyslogConfDPath, entry_Name e]) of
                         None \<Rightarrow> None
                       | Some data \<Rightarrow>
                           (case rsyslog_mode data of
                              None \<Rightarrow> None
                            | Some modeStr \<Rightarrow>
                                (case rsyslog_mode_problem env modeStr of
                                   Some reason \<Rightarrow>
                                     Some (failr r reason
                                       (''set '' @ squote @ ''$FileCreateMode 0640'' @ squote @
                                        '' in /etc/rsyslog.conf or a /etc/rsyslog.d/ drop-in''))
                                 | None \<Rightarrow> Some (cis_pass r))))
                (case ReadDir env rsyslogConfDPath of None \<Rightarrow> [] | Some entries \<Rightarrow> entries) of
                Some c \<Rightarrow> c
              | None \<Rightarrow>
                  failr r ''$FileCreateMode not explicitly set in rsyslog config''
                    (''add '' @ squote @ ''$FileCreateMode 0640'' @ squote @
                     '' to /etc/rsyslog.conf to ensure log files are not world-readable'')))"

text \<open>The walk keeps going: it counts the paths it could not read and remembers the first error.\<close>

definition check_4_2_7 :: "cis_host \<Rightarrow> security_info \<Rightarrow> kernel_security_info \<Rightarrow> cis_result" where
  "check_4_2_7 env sec ks =
     (let r = ruleByID ''4.2.7''
      in case Stat env varLogPath of
           None \<Rightarrow> skipr r ''/var/log not readable''
         | Some _ \<Rightarrow>
             (let visits = Walk env varLogPath;
                  problem = (\<lambda>v. case v of
                     Inl e \<Rightarrow> [e]
                   | Inr d \<Rightarrow> if entry_IsDir d then []
                             else (case entry_Info d of None \<Rightarrow> [entry_InfoErr d] | Some _ \<Rightarrow> []));
                  unreadable = concat (map (\<lambda>(path, v). problem v) visits);
                  bad = concat (map (\<lambda>(path, v). case v of
                     Inl e \<Rightarrow> []
                   | Inr d \<Rightarrow> if entry_IsDir d then []
                             else (case entry_Info d of
                                     None \<Rightarrow> []
                                   | Some fi \<Rightarrow> if Perm (file_Mode fi) AND 0b110 \<noteq> 0 then [path] else [])) visits)
              in if bad \<noteq> []
                   then failr r
                          (itoa (int (length bad)) @
                           '' log file(s) have world-readable/writable permissions: '' @ join (take 3 bad) '', '')
                          ''chmod go-rw /var/log/*.log''
                 else if unreadable \<noteq> []
                   then unverifiedr r
                          (itoa (int (length unreadable)) @
                           '' path(s) under /var/log could not be read, so their permissions were not checked ('' @
                           hd unreadable @ '')'')
                 else cis_pass r))"

definition check_4_2_6 :: "cis_host \<Rightarrow> security_info \<Rightarrow> kernel_security_info \<Rightarrow> cis_result" where
  "check_4_2_6 env sec ks =
     (let r = ruleByID ''4.2.6'';
          rsyslogPresent = False;
          rsyslogPresent =
            case first_some
              (\<lambda>p.
                case Stat env p of
                    None \<Rightarrow> None
                  | Some _ \<Rightarrow>
                      (let rsyslogPresent = True
                       in Some rsyslogPresent))
              rsyslogBinPaths of
              Some r \<Rightarrow> r
              | None \<Rightarrow> rsyslogPresent
      in if \<not> rsyslogPresent then skipr r ''rsyslog not installed''
         else let hasRemote =
                    (\<lambda>data.
                      case first_some
                        (\<lambda>line.
                          let trimmed = trim_space line
                          in if trimmed = [] \<or> has_prefix trimmed ''#'' then None
                             else if contains trimmed ''@@'' then Some True
                             else if contains trimmed (''type='' @ dquote @ ''omfwd'' @ dquote) \<or>
                                     contains trimmed (''type='' @ squote @ ''omfwd'' @ squote)
                               then Some True
                             else None)
                        (split_byte data (CHR 0x0A)) of
                          Some c \<Rightarrow> c
                        | None \<Rightarrow> False)
              in case ReadFile env rsyslogConfPath of
                     None \<Rightarrow>
                       (case ReadDir env rsyslogConfDPath of
                            None \<Rightarrow>
                              failr r ''no remote log forwarding found in rsyslog configuration''
                                (''add '' @ squote @ ''*.* @@loghost.example.com:514'' @ squote @
                                 '' to /etc/rsyslog.d/99-remote.conf and restart rsyslog'')
                          | Some entries \<Rightarrow>
                              (case first_some
                                 (\<lambda>e.
                                   if entry_IsDir e \<or> \<not> has_suffix (entry_Name e) ''.conf''
                                     then None
                                   else case ReadFile env (path_join
                                                             [rsyslogConfDPath, entry_Name e]) of
                                            None \<Rightarrow> None
                                          | Some data \<Rightarrow>
                                              (if hasRemote data then Some (cis_pass r) else None))
                                 entries of
                                   Some c \<Rightarrow> c
                                 | None \<Rightarrow>
                                     failr r
                                       ''no remote log forwarding found in rsyslog configuration''
                                       (''add '' @ squote @ ''*.* @@loghost.example.com:514'' @
                                        squote @
                                        '' to /etc/rsyslog.d/99-remote.conf and restart rsyslog'')))
                   | Some data \<Rightarrow>
                       (if hasRemote data then cis_pass r
                        else case ReadDir env rsyslogConfDPath of
                                 None \<Rightarrow>
                                   failr r
                                     ''no remote log forwarding found in rsyslog configuration''
                                     (''add '' @ squote @ ''*.* @@loghost.example.com:514'' @
                                      squote @
                                      '' to /etc/rsyslog.d/99-remote.conf and restart rsyslog'')
                               | Some entries \<Rightarrow>
                                   (case first_some
                                      (\<lambda>e.
                                        if entry_IsDir e \<or> \<not> has_suffix (entry_Name e) ''.conf''
                                          then None
                                        else case ReadFile env (path_join
                                                                  [rsyslogConfDPath, entry_Name e]) of
                                                 None \<Rightarrow> None
                                               | Some data \<Rightarrow>
                                                   (if hasRemote data then Some (cis_pass r)
                                                    else None))
                                      entries of
                                        Some c \<Rightarrow> c
                                      | None \<Rightarrow>
                                          failr r
                                            ''no remote log forwarding found in rsyslog configuration''
                                            (''add '' @ squote @ ''*.* @@loghost.example.com:514'' @
                                             squote @
                                             '' to /etc/rsyslog.d/99-remote.conf and restart rsyslog''))))"

definition check_4_3_1 :: "cis_host \<Rightarrow> security_info \<Rightarrow> kernel_security_info \<Rightarrow> cis_result" where
  "check_4_3_1 env sec ks =
     (let r = ruleByID ''4.3.1'';
          hasConfig =
            (\<lambda>data.
              case first_some
                (\<lambda>line.
                  let trimmed = trim_space line
                  in if trimmed \<noteq> [] \<and> \<not> has_prefix trimmed ''#'' then Some True else None)
                (split_byte data (CHR 0x0A)) of
                  Some c \<Rightarrow> c
                | None \<Rightarrow> False)
      in case ReadFile env logrotateConfPath of
             None \<Rightarrow>
               (case ReadDir env logrotateConfDPath of
                    None \<Rightarrow>
                      failr r ''no logrotate configuration found''
                        ''install logrotate and ensure /etc/logrotate.conf or /etc/logrotate.d/ entries exist''
                  | Some entries \<Rightarrow>
                      (case first_some
                         (\<lambda>e.
                           if entry_IsDir e then None
                           else case ReadFile env (path_join [logrotateConfDPath, entry_Name e]) of
                                    None \<Rightarrow> None
                                  | Some data \<Rightarrow> (if hasConfig data then Some (cis_pass r) else None))
                         entries of
                           Some c \<Rightarrow> c
                         | None \<Rightarrow>
                             failr r ''no logrotate configuration found''
                               ''install logrotate and ensure /etc/logrotate.conf or /etc/logrotate.d/ entries exist''))
           | Some data \<Rightarrow>
               (if hasConfig data then cis_pass r
                else case ReadDir env logrotateConfDPath of
                         None \<Rightarrow>
                           failr r ''no logrotate configuration found''
                             ''install logrotate and ensure /etc/logrotate.conf or /etc/logrotate.d/ entries exist''
                       | Some entries \<Rightarrow>
                           (case first_some
                              (\<lambda>e.
                                if entry_IsDir e then None
                                else case ReadFile env (path_join [logrotateConfDPath, entry_Name e]) of
                                         None \<Rightarrow> None
                                       | Some data \<Rightarrow>
                                           (if hasConfig data then Some (cis_pass r) else None))
                              entries of
                                Some c \<Rightarrow> c
                              | None \<Rightarrow>
                                  failr r ''no logrotate configuration found''
                                    ''install logrotate and ensure /etc/logrotate.conf or /etc/logrotate.d/ entries exist'')))"


section \<open>Conformance\<close>

lemma check_1_5_1_conforms [conforming]: "conforms (ruleByID ''1.5.1'') (check_1_5_1 env sec ks)"
  unfolding check_1_5_1_def by (intro conforms_rules conforming; (simp; fail)?)

lemma check_1_5_4_conforms [conforming]: "conforms (ruleByID ''1.5.4'') (check_1_5_4 env sec ks)"
  unfolding check_1_5_4_def by (intro conforms_rules conforming; (simp; fail)?)

lemma check_1_5_5_conforms [conforming]: "conforms (ruleByID ''1.5.5'') (check_1_5_5 env sec ks)"
  unfolding check_1_5_5_def by (intro conforms_rules conforming; (simp; fail)?)

lemma check_1_5_6_conforms [conforming]: "conforms (ruleByID ''1.5.6'') (check_1_5_6 env sec ks)"
  unfolding check_1_5_6_def by (intro conforms_rules conforming; (simp; fail)?)

lemma check_1_5_7_conforms [conforming]: "conforms (ruleByID ''1.5.7'') (check_1_5_7 env sec ks)"
  unfolding check_1_5_7_def by (intro conforms_rules conforming; (simp; fail)?)

lemma check_1_5_8_conforms [conforming]: "conforms (ruleByID ''1.5.8'') (check_1_5_8 env sec ks)"
  unfolding check_1_5_8_def by (intro conforms_rules conforming; (simp; fail)?)

lemma check_1_5_9_conforms [conforming]: "conforms (ruleByID ''1.5.9'') (check_1_5_9 env sec ks)"
  unfolding check_1_5_9_def by (intro conforms_rules conforming; (simp; fail)?)

lemma check_1_5_10_conforms [conforming]: "conforms (ruleByID ''1.5.10'') (check_1_5_10 env sec ks)"
  unfolding check_1_5_10_def by (intro conforms_rules conforming; (simp; fail)?)

lemma check_1_5_11_conforms [conforming]: "conforms (ruleByID ''1.5.11'') (check_1_5_11 env sec ks)"
  unfolding check_1_5_11_def by (intro conforms_rules conforming; (simp; fail)?)

lemma check_1_5_12_conforms [conforming]: "conforms (ruleByID ''1.5.12'') (check_1_5_12 env sec ks)"
  unfolding check_1_5_12_def by (intro conforms_rules conforming; (simp; fail)?)

lemma check_1_5_14_conforms [conforming]: "conforms (ruleByID ''1.5.14'') (check_1_5_14 env sec ks)"
  unfolding check_1_5_14_def by (intro conforms_rules conforming; (simp; fail)?)

lemma check_1_5_15_conforms [conforming]: "conforms (ruleByID ''1.5.15'') (check_1_5_15 env sec ks)"
  unfolding check_1_5_15_def by (intro conforms_rules conforming; (simp; fail)?)

lemma check_1_5_16_conforms [conforming]: "conforms (ruleByID ''1.5.16'') (check_1_5_16 env sec ks)"
  unfolding check_1_5_16_def by (intro conforms_rules conforming; (simp; fail)?)

lemma check_1_5_17_conforms [conforming]: "conforms (ruleByID ''1.5.17'') (check_1_5_17 env sec ks)"
  unfolding check_1_5_17_def by (intro conforms_rules conforming; (simp; fail)?)

lemma check_1_5_18_conforms [conforming]: "conforms (ruleByID ''1.5.18'') (check_1_5_18 env sec ks)"
  unfolding check_1_5_18_def by (intro conforms_rules conforming; (simp; fail)?)

lemma check_1_5_2_conforms [conforming]: "conforms (ruleByID ''1.5.2'') (check_1_5_2 env sec ks)"
  unfolding check_1_5_2_def by (intro conforms_rules conforming; (simp; fail)?)

lemma check_1_5_3_conforms [conforming]: "conforms (ruleByID ''1.5.3'') (check_1_5_3 env sec ks)"
  unfolding check_1_5_3_def by (intro conforms_rules conforming; (simp; fail)?)

lemma check_1_6_1_conforms [conforming]: "conforms (ruleByID ''1.6.1'') (check_1_6_1 env sec ks)"
  unfolding check_1_6_1_def by (intro conforms_rules conforming; (simp; fail)?)

lemma check_1_6_2_conforms [conforming]: "conforms (ruleByID ''1.6.2'') (check_1_6_2 env sec ks)"
  unfolding check_1_6_2_def by (intro conforms_rules conforming; (simp; fail)?)

lemma check_1_6_3_conforms [conforming]: "conforms (ruleByID ''1.6.3'') (check_1_6_3 env sec ks)"
  unfolding check_1_6_3_def by (intro conforms_rules conforming; (simp; fail)?)

lemma check_1_6_4_conforms [conforming]: "conforms (ruleByID ''1.6.4'') (check_1_6_4 env sec ks)"
  unfolding check_1_6_4_def by (intro conforms_rules conforming; (simp; fail)?)

lemma check_3_3_1_conforms [conforming]: "conforms (ruleByID ''3.3.1'') (check_3_3_1 sec ks)"
  unfolding check_3_3_1_def by (intro conforms_rules conforming; (simp; fail)?)

lemma check_3_3_2_conforms [conforming]: "conforms (ruleByID ''3.3.2'') (check_3_3_2 env sec ks)"
  unfolding check_3_3_2_def by (intro conforms_rules conforming; (simp; fail)?)

lemma check_4_1_1_conforms [conforming]: "conforms (ruleByID cisRuleAudit41) (check_4_1_1 sec ks)"
  unfolding check_4_1_1_def by (intro conforms_rules conforming; (simp; fail)?)

lemma check_4_1_1_1_conforms [conforming]: "conforms (ruleByID cisRuleAudit4111) (check_4_1_1_1 env sec ks)"
  unfolding check_4_1_1_1_def by (intro conforms_rules conforming; (simp; fail)?)

lemma check_4_1_1_2_conforms [conforming]: "conforms (ruleByID cisRuleAudit4112) (check_4_1_1_2 env sec ks)"
  unfolding check_4_1_1_2_def by (intro conforms_rules conforming; (simp; fail)?)

lemma check_4_1_1_3_conforms [conforming]: "conforms (ruleByID cisRuleAudit4113) (check_4_1_1_3 env sec ks)"
  unfolding check_4_1_1_3_def by (intro conforms_rules conforming; (simp; fail)?)

lemma check_4_1_1_4_conforms [conforming]: "conforms (ruleByID cisRuleAudit4114) (check_4_1_1_4 env sec ks)"
  unfolding check_4_1_1_4_def by (intro conforms_rules conforming; (simp; fail)?)

lemma check_4_1_1_5_conforms [conforming]: "conforms (ruleByID cisRuleAudit4115) (check_4_1_1_5 env sec ks)"
  unfolding check_4_1_1_5_def by (intro conforms_rules conforming; (simp; fail)?)

lemma check_4_1_2_conforms [conforming]: "conforms (ruleByID ''4.1.2'') (check_4_1_2 sec ks)"
  unfolding check_4_1_2_def by (intro conforms_rules conforming; (simp; fail)?)

lemma check_4_1_3_conforms [conforming]: "conforms (ruleByID ''4.1.3'') (check_4_1_3 env sec ks)"
  unfolding check_4_1_3_def by (intro conforms_rules conforming; (simp; fail)?)

lemma check_4_1_4_conforms [conforming]: "conforms (ruleByID ''4.1.4'') (check_4_1_4 env sec ks)"
  unfolding check_4_1_4_def by (intro conforms_rules conforming; (simp; fail)?)

lemma check_4_1_5_conforms [conforming]: "conforms (ruleByID ''4.1.5'') (check_4_1_5 env sec ks)"
  unfolding check_4_1_5_def by (intro conforms_rules conforming; (simp; fail)?)

lemma check_4_1_6_conforms [conforming]: "conforms (ruleByID ''4.1.6'') (check_4_1_6 env sec ks)"
  unfolding check_4_1_6_def by (intro conforms_rules conforming; (simp; fail)?)

lemma check_4_1_7_conforms [conforming]: "conforms (ruleByID ''4.1.7'') (check_4_1_7 env sec ks)"
  unfolding check_4_1_7_def by (intro conforms_rules conforming; (simp; fail)?)

lemma check_4_1_8_conforms [conforming]: "conforms (ruleByID ''4.1.8'') (check_4_1_8 env sec ks)"
  unfolding check_4_1_8_def by (intro conforms_rules conforming; (simp; fail)?)

lemma check_4_1_9_conforms [conforming]: "conforms (ruleByID ''4.1.9'') (check_4_1_9 env sec ks)"
  unfolding check_4_1_9_def by (intro conforms_rules conforming; (simp; fail)?)

lemma check_4_1_10_conforms [conforming]: "conforms (ruleByID ''4.1.10'') (check_4_1_10 env sec ks)"
  unfolding check_4_1_10_def by (intro conforms_rules conforming; (simp; fail)?)

lemma check_4_1_11_conforms [conforming]: "conforms (ruleByID ''4.1.11'') (check_4_1_11 env sec ks)"
  unfolding check_4_1_11_def by (intro conforms_rules conforming; (simp; fail)?)

lemma check_4_1_12_conforms [conforming]: "conforms (ruleByID ''4.1.12'') (check_4_1_12 env sec ks)"
  unfolding check_4_1_12_def by (intro conforms_rules conforming; (simp; fail)?)

lemma check_4_1_13_conforms [conforming]: "conforms (ruleByID ''4.1.13'') (check_4_1_13 env sec ks)"
  unfolding check_4_1_13_def by (intro conforms_rules conforming; (simp; fail)?)

lemma check_4_1_14_conforms [conforming]: "conforms (ruleByID ''4.1.14'') (check_4_1_14 env sec ks)"
  unfolding check_4_1_14_def by (intro conforms_rules conforming; (simp; fail)?)

lemma check_4_1_15_conforms [conforming]: "conforms (ruleByID ''4.1.15'') (check_4_1_15 env sec ks)"
  unfolding check_4_1_15_def by (intro conforms_rules conforming; (simp; fail)?)

lemma check_4_1_16_conforms [conforming]: "conforms (ruleByID ''4.1.16'') (check_4_1_16 env sec ks)"
  unfolding check_4_1_16_def by (intro conforms_rules conforming; (simp; fail)?)

lemma check_4_1_17_conforms [conforming]: "conforms (ruleByID ''4.1.17'') (check_4_1_17 env sec ks)"
  unfolding check_4_1_17_def by (intro conforms_rules conforming; (simp; fail)?)

lemma check_4_2_1_conforms [conforming]: "conforms (ruleByID ''4.2.1'') (check_4_2_1 env sec ks)"
  unfolding check_4_2_1_def by (intro conforms_rules conforming; (simp; fail)?)

lemma check_4_2_2_conforms [conforming]: "conforms (ruleByID ''4.2.2'') (check_4_2_2 env sec ks)"
  unfolding check_4_2_2_def by (intro conforms_rules conforming; (simp; fail)?)

lemma check_4_2_2_2_conforms [conforming]: "conforms (ruleByID ''4.2.2.2'') (check_4_2_2_2 env sec ks)"
  unfolding check_4_2_2_2_def by (intro conforms_rules conforming; (simp; fail)?)

lemma check_4_2_2_3_conforms [conforming]: "conforms (ruleByID ''4.2.2.3'') (check_4_2_2_3 env sec ks)"
  unfolding check_4_2_2_3_def by (intro conforms_rules conforming; (simp; fail)?)

lemma check_4_2_3_conforms [conforming]: "conforms (ruleByID ''4.2.3'') (check_4_2_3 env sec ks)"
  unfolding check_4_2_3_def by (intro conforms_rules conforming; (simp; fail)?)

lemma check_4_2_4_conforms [conforming]: "conforms (ruleByID ''4.2.4'') (check_4_2_4 env sec ks)"
  unfolding check_4_2_4_def by (intro conforms_rules conforming; (simp; fail)?)

lemma check_4_2_5_conforms [conforming]: "conforms (ruleByID ''4.2.5'') (check_4_2_5 env sec ks)"
  unfolding check_4_2_5_def
  by (intro conforms_rules conforming; (simp; fail)?; auto dest: rsyslog_mode_problem_text)

lemma check_4_2_6_conforms [conforming]: "conforms (ruleByID ''4.2.6'') (check_4_2_6 env sec ks)"
  unfolding check_4_2_6_def by (intro conforms_rules conforming; (simp; fail)?)

lemma check_4_2_7_conforms [conforming]: "conforms (ruleByID ''4.2.7'') (check_4_2_7 env sec ks)"
  unfolding check_4_2_7_def by (intro conforms_rules conforming; (simp; fail)?)

lemma check_4_3_1_conforms [conforming]: "conforms (ruleByID ''4.3.1'') (check_4_3_1 env sec ks)"
  unfolding check_4_3_1_def by (intro conforms_rules conforming; (simp; fail)?)

end
