(* ===== verification/Cis_Auth.thy ===== *)
theory Cis_Auth
  imports Cis_Rules
begin

text \<open>
  The rules on passwords, PAM, sudo and cron. One definition per rule of internal/cis/rules.go, named by the rule.
\<close>

section \<open>Checks\<close>

definition check_5_3_1 :: "cis_host \<Rightarrow> security_info \<Rightarrow> kernel_security_info \<Rightarrow> cis_result" where
  "check_5_3_1 env sec ks =
     (let r = ruleByID ''5.3.1''
      in case first_some
           (\<lambda>p. case Stat env p of None \<Rightarrow> None | Some _ \<Rightarrow> Some (cis_pass r))
           sudoBinPaths of
             Some c \<Rightarrow> c
           | None \<Rightarrow> failr r ''sudo binary not found'' ''install sudo (see remediation)'')"

definition check_5_4_1 :: "cis_host \<Rightarrow> security_info \<Rightarrow> kernel_security_info \<Rightarrow> cis_result" where
  "check_5_4_1 env sec ks =
     checkLoginDefsField env (ruleByID ''5.4.1'') loginDefsPath ''PASS_MAX_DAYS''
       (\<lambda>days. 365 < days \<or> days = 0) (\<lambda>days. ''PASS_MAX_DAYS is '' @ itoa days @ [])
       ''set PASS_MAX_DAYS 365 in /etc/login.defs'' ''PASS_MAX_DAYS not set in /etc/login.defs''
       ''add PASS_MAX_DAYS 365 to /etc/login.defs''"

definition check_5_3_4 :: "security_info \<Rightarrow> kernel_security_info \<Rightarrow> cis_result" where
  "check_5_3_4 sec ks =
     (let r = ruleByID ''5.3.4''
      in if security_SudoersUnreadable sec then unverifiedr r cisSkipSudoersUnreadable
         else if security_SudoNopasswd sec = [] then cis_pass r
         else failr r (''NOPASSWD entries in sudoers: '' @ join (security_SudoNopasswd sec) '', '')
                ''remove NOPASSWD from /etc/sudoers and /etc/sudoers.d/'')"

definition check_5_3_2 :: "security_info \<Rightarrow> kernel_security_info \<Rightarrow> cis_result" where
  "check_5_3_2 sec ks =
     (let r = ruleByID ''5.3.2''
      in if security_SudoersUnreadable sec then unverifiedr r cisSkipSudoersUnreadable
         else if \<not> security_SudoDefaultsPTY sec
           then failr r ''Defaults use_pty not set in sudoers''
                  (''add '' @ squote @ ''Defaults use_pty'' @ squote @ '' to /etc/sudoers'')
         else cis_pass r)"

definition check_5_3_3 :: "security_info \<Rightarrow> kernel_security_info \<Rightarrow> cis_result" where
  "check_5_3_3 sec ks =
     (let r = ruleByID ''5.3.3''
      in if security_SudoersUnreadable sec then unverifiedr r cisSkipSudoersUnreadable
         else if \<not> security_SudoDefaultsLogfile sec
           then failr r ''Defaults logfile= not configured in sudoers''
                  (''add '' @ squote @ ''Defaults logfile=/var/log/sudo.log'' @ squote @
                   '' to /etc/sudoers'')
         else cis_pass r)"

definition check_5_4_2 :: "security_info \<Rightarrow> kernel_security_info \<Rightarrow> cis_result" where
  "check_5_4_2 sec ks =
     (let r = ruleByID ''5.4.2''
      in if security_ShadowUnreadable sec
           then unverifiedr r
                  (''/etc/shadow not readable '' @ em_dash @ '' run as root for full coverage'')
         else if security_StalePasswordAccounts sec = [] then cis_pass r
         else failr r
                (''accounts without password expiry: '' @
                 join (security_StalePasswordAccounts sec) '', '')
                ''set expiry: chage --maxdays 365 <user>'')"

definition check_5_4_3 :: "cis_host \<Rightarrow> security_info \<Rightarrow> kernel_security_info \<Rightarrow> cis_result" where
  "check_5_4_3 env sec ks =
     (let r = ruleByID ''5.4.3''
      in case ReadFile env loginDefsPath of
             None \<Rightarrow> skipr r (''could not read '' @ loginDefsPath)
           | Some data \<Rightarrow>
               (case first_some
                  (\<lambda>line.
                    if has_prefix (trim_space line) ''#'' \<or> trim_space line = [] then None
                    else let fields = Go_Prelude.fields line
                         in if 2 \<le> int (length fields) \<and> hd fields = ''ENCRYPT_METHOD''
                              then (let method = to_upper (fields ! 1)
                                    in if method = ''SHA512'' \<or> method = ''YESCRYPT''
                                         then Some (cis_pass r)
                                       else Some (failr r
                                                    (''ENCRYPT_METHOD is '' @
                                                     Quote env (fields ! 1) @
                                                     '' (must be SHA512 or yescrypt)'')
                                                    ''set ENCRYPT_METHOD SHA512 in /etc/login.defs''))
                            else None)
                  (split_byte data (CHR 0x0A)) of
                    Some c \<Rightarrow> c
                  | None \<Rightarrow>
                      failr r ''ENCRYPT_METHOD not set in /etc/login.defs''
                        ''add ENCRYPT_METHOD SHA512 to /etc/login.defs''))"

definition check_5_4_4 :: "cis_host \<Rightarrow> security_info \<Rightarrow> kernel_security_info \<Rightarrow> cis_result" where
  "check_5_4_4 env sec ks =
     checkLoginDefsField env (ruleByID ''5.4.4'') loginDefsPath ''PASS_MIN_DAYS'' (\<lambda>days. days < 1)
       (\<lambda>days. ''PASS_MIN_DAYS is '' @ itoa days @ '' (must be '' @ [CHR 0xE2, CHR 0x89, CHR 0xA5] @
               '' 1)'') ''set PASS_MIN_DAYS 1 in /etc/login.defs''
       ''PASS_MIN_DAYS not set in /etc/login.defs'' ''add PASS_MIN_DAYS 1 to /etc/login.defs''"

definition check_5_4_5 :: "cis_host \<Rightarrow> security_info \<Rightarrow> kernel_security_info \<Rightarrow> cis_result" where
  "check_5_4_5 env sec ks =
     (let r = ruleByID ''5.4.5''
      in case ReadFile env useraddDefaultPath of
             None \<Rightarrow> skipr r ''/etc/default/useradd not readable''
           | Some data \<Rightarrow>
               (case first_some
                  (\<lambda>line.
                    let line = trim_space line
                    in if has_prefix line ''#'' \<or> line = [] then None
                       else case cut_prefix line ''GROUP='' of
                                None \<Rightarrow> None
                              | Some groupVal \<Rightarrow>
                                  (if groupVal = ''0'' \<or> groupVal = ''root'' then Some (cis_pass r)
                                   else Some (failr r
                                                (''default GROUP is '' @ Quote env groupVal @
                                                 '' (must be 0 or root)'')
                                                ''set GROUP=0 in /etc/default/useradd'')))
                  (split_byte data (CHR 0x0A)) of
                    Some c \<Rightarrow> c
                  | None \<Rightarrow>
                      failr r ''GROUP not set in /etc/default/useradd''
                        ''add GROUP=0 to /etc/default/useradd''))"

definition check_5_4_6 :: "cis_host \<Rightarrow> security_info \<Rightarrow> kernel_security_info \<Rightarrow> cis_result" where
  "check_5_4_6 env sec ks =
     checkLoginDefsField env (ruleByID ''5.4.6'') loginDefsPath ''PASS_WARN_AGE'' (\<lambda>days. days < 7)
       (\<lambda>days. ''PASS_WARN_AGE is '' @ itoa days @ '' (must be '' @ [CHR 0xE2, CHR 0x89, CHR 0xA5] @
               '' 7)'') ''set PASS_WARN_AGE 7 in /etc/login.defs''
       ''PASS_WARN_AGE not set in /etc/login.defs'' ''add PASS_WARN_AGE 7 to /etc/login.defs''"

definition check_5_4_7 :: "cis_host \<Rightarrow> security_info \<Rightarrow> kernel_security_info \<Rightarrow> cis_result" where
  "check_5_4_7 env sec ks =
     (let r = ruleByID ''5.4.7''
      in case ReadFile env useraddDefaultPath of
             None \<Rightarrow> skipr r ''/etc/default/useradd not readable''
           | Some data \<Rightarrow>
               (case first_some
                  (\<lambda>line.
                    let line = trim_space line
                    in if has_prefix line ''#'' \<or> line = [] then None
                       else case cut_prefix line ''INACTIVE='' of
                                None \<Rightarrow> None
                              | Some val \<Rightarrow>
                                  (case scan_int val of
                                       None \<Rightarrow>
                                         Some (unverifiedr r
                                                 (''cannot parse INACTIVE='' @ Quote env val))
                                     | Some n \<Rightarrow>
                                         (if n < 0
                                            then Some (failr r
                                                         (''INACTIVE='' @ itoa n @ '' '' @ em_dash @
                                                          '' no automatic account lockout configured'')
                                                         cisFixInactiveUseradd)
                                          else if 30 < n
                                            then Some (failr r
                                                         (''INACTIVE='' @ itoa n @
                                                          '' days (must be '' @
                                                          [CHR 0xE2, CHR 0x89, CHR 0xA4] @ '' 30)'')
                                                         cisFixInactiveUseradd)
                                          else Some (cis_pass r))))
                  (split_byte data (CHR 0x0A)) of
                    Some c \<Rightarrow> c
                  | None \<Rightarrow>
                      failr r ''INACTIVE not set in /etc/default/useradd (no automatic lockout)''
                        cisFixInactiveUseradd))"

definition check_5_4_8 :: "cis_host \<Rightarrow> security_info \<Rightarrow> kernel_security_info \<Rightarrow> cis_result" where
  "check_5_4_8 env sec ks =
     (let r = ruleByID ''5.4.8''
      in case ReadFile env etcPasswdPath of
             None \<Rightarrow> unverifiedr r cisSkipPasswdUnreadable
           | Some data \<Rightarrow>
               (let noInteractive =
                      [(''/sbin/nologin'', True), (''/usr/sbin/nologin'', True),
                       (''/bin/false'', True), (''/usr/bin/false'', True)];
                    bad =
                      concat (map
                                (\<lambda>line.
                                  let line = trim_space line
                                  in if line = [] \<or> has_prefix line ''#'' then []
                                     else let fields = split_n 7 line (CHR '':'')
                                          in if int (length fields) < 7 then []
                                             else case atoi (fields ! 2) of
                                                      None \<Rightarrow> []
                                                    | Some uid \<Rightarrow>
                                                        (if uid = 0 \<or> 1000 \<le> uid then []
                                                         else let shell = trim_space (fields ! 6)
                                                              in if \<not> map_get False noInteractive
                                                                      shell
                                                                   then [hd fields @ ''(uid='' @
                                                                         itoa uid @ '',shell='' @
                                                                         shell @ '')'']
                                                                 else []))
                                (split_byte data (CHR 0x0A)))
                in if bad \<noteq> []
                     then failr r (''system accounts with interactive shells: '' @ join bad '' '')
                            ''set shell: usermod -s /usr/sbin/nologin <user>''
                   else cis_pass r))"

definition check_5_4_9 :: "cis_host \<Rightarrow> security_info \<Rightarrow> kernel_security_info \<Rightarrow> cis_result" where
  "check_5_4_9 env sec ks =
     (let r = ruleByID ''5.4.9''
      in case ReadFile env pwqualityConfPath of
             None \<Rightarrow> skipr r ''/etc/security/pwquality.conf not found (pam_pwquality not installed)''
           | Some data \<Rightarrow>
               (let minlen = - 1;
                    found = False;
                    minlen =
                      foldl
                        (\<lambda>minlen line.
                          let line = trim_space line
                          in if line = [] \<or> has_prefix line ''#'' then minlen
                             else let parts = split_n 2 line (CHR ''='')
                                  in if int (length parts) = 2 \<and> trim_space (hd parts) = ''minlen''
                                       then case atoi (trim_space (parts ! 1)) of
                                                None \<Rightarrow> minlen
                                              | Some n \<Rightarrow> n
                                     else minlen)
                        minlen
                        (split_byte data (CHR 0x0A));
                    found =
                      foldl
                        (\<lambda>found line.
                          let line = trim_space line
                          in if line = [] \<or> has_prefix line ''#'' then found
                             else let parts = split_n 2 line (CHR ''='')
                                  in if int (length parts) = 2 \<and> trim_space (hd parts) = ''minlen''
                                       then case atoi (trim_space (parts ! 1)) of
                                                None \<Rightarrow> found
                                              | Some _ \<Rightarrow> True
                                     else found)
                        found
                        (split_byte data (CHR 0x0A))
                in if \<not> found
                     then failr r ''minlen not set in /etc/security/pwquality.conf''
                            (''add '' @ squote @ ''minlen = 14'' @ squote @
                             '' to /etc/security/pwquality.conf'')
                   else if minlen < 14
                     then failr r
                            (''minlen = '' @ itoa minlen @ '' is below the CIS minimum of 14'')
                            (''set '' @ squote @ ''minlen = 14'' @ squote @
                             '' in /etc/security/pwquality.conf'')
                   else cis_pass r))"

definition check_5_4_10 :: "cis_host \<Rightarrow> security_info \<Rightarrow> kernel_security_info \<Rightarrow> cis_result" where
  "check_5_4_10 env sec ks =
     (let r = ruleByID ''5.4.10''
      in case ReadFile env faillockConfPath of
             None \<Rightarrow>
               (case ReadFile env pamCommonAuthPath of
                    None \<Rightarrow>
                      failr r ''account lockout (pam_faillock or pam_tally2) not configured''
                        (''add '' @ squote @ ''deny = 5'' @ squote @
                         '' to /etc/security/faillock.conf or configure pam_faillock.so in /etc/pam.d/common-auth'')
                  | Some data \<Rightarrow>
                      (case first_some
                         (\<lambda>line.
                           let line = trim_space line
                           in if has_prefix line ''#'' then None
                              else if contains line ''pam_faillock.so'' \<or>
                                      contains line ''pam_tally2.so''
                                then Some (cis_pass r)
                              else None)
                         (split_byte data (CHR 0x0A)) of
                           Some c \<Rightarrow> c
                         | None \<Rightarrow>
                             failr r ''account lockout (pam_faillock or pam_tally2) not configured''
                               (''add '' @ squote @ ''deny = 5'' @ squote @
                                '' to /etc/security/faillock.conf or configure pam_faillock.so in /etc/pam.d/common-auth'')))
           | Some data \<Rightarrow>
               (case first_some
                  (\<lambda>line.
                    let line = trim_space line
                    in if line = [] \<or> has_prefix line ''#'' then None
                       else let parts = split_n 2 line (CHR ''='')
                            in if int (length parts) = 2 \<and> trim_space (hd parts) = ''deny''
                                 then (let denyStr = trim_space (parts ! 1)
                                       in case atoi denyStr of
                                              None \<Rightarrow>
                                                Some (failr r
                                                        (''faillock deny value '' @
                                                         Quote env denyStr @
                                                         '' is not a valid integer'')
                                                        (''set '' @ squote @ ''deny = 5'' @ squote @
                                                         '' in /etc/security/faillock.conf''))
                                            | Some n \<Rightarrow>
                                                (if 0 < n \<and> n \<le> 5 then Some (cis_pass r)
                                                 else Some (failr r
                                                              (''faillock deny = '' @ itoa n @
                                                               '' exceeds CIS maximum of 5'')
                                                              (''set '' @ squote @ ''deny = 5'' @
                                                               squote @
                                                               '' in /etc/security/faillock.conf''))))
                               else None)
                  (split_byte data (CHR 0x0A)) of
                    Some c \<Rightarrow> c
                  | None \<Rightarrow>
                      (case ReadFile env pamCommonAuthPath of
                           None \<Rightarrow>
                             failr r ''account lockout (pam_faillock or pam_tally2) not configured''
                               (''add '' @ squote @ ''deny = 5'' @ squote @
                                '' to /etc/security/faillock.conf or configure pam_faillock.so in /etc/pam.d/common-auth'')
                         | Some data \<Rightarrow>
                             (case first_some
                                (\<lambda>line.
                                  let line = trim_space line
                                  in if has_prefix line ''#'' then None
                                     else if contains line ''pam_faillock.so'' \<or>
                                             contains line ''pam_tally2.so''
                                       then Some (cis_pass r)
                                     else None)
                                (split_byte data (CHR 0x0A)) of
                                  Some c \<Rightarrow> c
                                | None \<Rightarrow>
                                    failr r
                                      ''account lockout (pam_faillock or pam_tally2) not configured''
                                      (''add '' @ squote @ ''deny = 5'' @ squote @
                                       '' to /etc/security/faillock.conf or configure pam_faillock.so in /etc/pam.d/common-auth'')))))"

definition check_5_4_11 :: "cis_host \<Rightarrow> security_info \<Rightarrow> kernel_security_info \<Rightarrow> cis_result" where
  "check_5_4_11 env sec ks =
     (let r = ruleByID ''5.4.11'';
          strong = [(''sha512'', True), (''yescrypt'', True)]
      in case ReadFile env loginDefsPath of
             None \<Rightarrow>
               (case ReadFile env pamCommonPasswordPath of
                    None \<Rightarrow>
                      failr r
                        ''password hashing algorithm not explicitly set to SHA-512 or yescrypt''
                        (''set '' @ squote @ ''ENCRYPT_METHOD SHA512'' @ squote @
                         '' in /etc/login.defs'')
                  | Some data \<Rightarrow>
                      (case first_some
                         (\<lambda>line.
                           let line = trim_space line
                           in if has_prefix line ''#'' \<or> \<not> contains line ''pam_unix.so'' then None
                              else let lower = to_lower line
                                   in if contains lower ''sha512'' \<or> contains lower ''yescrypt''
                                        then Some (cis_pass r)
                                      else None)
                         (split_byte data (CHR 0x0A)) of
                           Some c \<Rightarrow> c
                         | None \<Rightarrow>
                             failr r
                               ''password hashing algorithm not explicitly set to SHA-512 or yescrypt''
                               (''set '' @ squote @ ''ENCRYPT_METHOD SHA512'' @ squote @
                                '' in /etc/login.defs'')))
           | Some data \<Rightarrow>
               (case first_some
                  (\<lambda>line.
                    let line = trim_space line
                    in if line = [] \<or> has_prefix line ''#'' then None
                       else let fields = Go_Prelude.fields line
                            in if int (length fields) = 2 \<and>
                                  equal_fold (hd fields) ''ENCRYPT_METHOD''
                                 then (let method = to_lower (fields ! 1)
                                       in if map_get False strong method then Some (cis_pass r)
                                          else Some (failr r
                                                       (''ENCRYPT_METHOD = '' @ fields ! 1 @
                                                        '' is not SHA-512 or yescrypt'')
                                                       (''set '' @ squote @
                                                        ''ENCRYPT_METHOD SHA512'' @ squote @
                                                        '' in /etc/login.defs'')))
                               else None)
                  (split_byte data (CHR 0x0A)) of
                    Some c \<Rightarrow> c
                  | None \<Rightarrow>
                      (case ReadFile env pamCommonPasswordPath of
                           None \<Rightarrow>
                             failr r
                               ''password hashing algorithm not explicitly set to SHA-512 or yescrypt''
                               (''set '' @ squote @ ''ENCRYPT_METHOD SHA512'' @ squote @
                                '' in /etc/login.defs'')
                         | Some data \<Rightarrow>
                             (case first_some
                                (\<lambda>line.
                                  let line = trim_space line
                                  in if has_prefix line ''#'' \<or> \<not> contains line ''pam_unix.so''
                                       then None
                                     else let lower = to_lower line
                                          in if contains lower ''sha512'' \<or>
                                                contains lower ''yescrypt''
                                               then Some (cis_pass r)
                                             else None)
                                (split_byte data (CHR 0x0A)) of
                                  Some c \<Rightarrow> c
                                | None \<Rightarrow>
                                    failr r
                                      ''password hashing algorithm not explicitly set to SHA-512 or yescrypt''
                                      (''set '' @ squote @ ''ENCRYPT_METHOD SHA512'' @ squote @
                                       '' in /etc/login.defs'')))))"

definition check_5_4_12 :: "cis_host \<Rightarrow> security_info \<Rightarrow> kernel_security_info \<Rightarrow> cis_result" where
  "check_5_4_12 env sec ks =
     (let r = ruleByID ''5.4.12''
      in case ReadFile env pamCommonPasswordPath of
             None \<Rightarrow> skipr r ''/etc/pam.d/common-password not readable''
           | Some data \<Rightarrow>
               (case first_some
                  (\<lambda>line.
                    let line = trim_space line
                    in if has_prefix line ''#'' then None
                       else if \<not> contains line ''pam_unix.so'' \<and>
                               \<not> contains line ''pam_pwhistory.so''
                         then None
                       else first_some
                              (\<lambda>field.
                                case cut_prefix field ''remember='' of
                                    None \<Rightarrow> None
                                  | Some rest \<Rightarrow>
                                      (case atoi rest of
                                           None \<Rightarrow> None
                                         | Some n \<Rightarrow>
                                             (if n < 5
                                                then Some (failr r
                                                             (''password remember = '' @ itoa n @
                                                              '' is below CIS minimum of 5'')
                                                             (''add '' @ squote @ ''remember=5'' @
                                                              squote @
                                                              '' to pam_unix.so in /etc/pam.d/common-password''))
                                              else Some (cis_pass r))))
                              (Go_Prelude.fields line))
                  (split_byte data (CHR 0x0A)) of
                    Some c \<Rightarrow> c
                  | None \<Rightarrow>
                      failr r
                        ''password reuse limit (remember=) not configured in /etc/pam.d/common-password''
                        (''add '' @ squote @ ''remember=5'' @ squote @
                         '' to pam_unix.so or pam_pwhistory.so in /etc/pam.d/common-password'')))"

definition check_5_4_13 :: "cis_host \<Rightarrow> security_info \<Rightarrow> kernel_security_info \<Rightarrow> cis_result" where
  "check_5_4_13 env sec ks =
     (let r = ruleByID ''5.4.13''
      in case ReadFile env faillockConfPath of
             None \<Rightarrow> skipr r ''/etc/security/faillock.conf not found (pam_faillock not installed)''
           | Some data \<Rightarrow>
               (case first_some
                  (\<lambda>line.
                    let line = trim_space line
                    in if line = [] \<or> has_prefix line ''#'' then None
                       else let parts = split_n 2 line (CHR ''='')
                            in if int (length parts) = 2 \<and> trim_space (hd parts) = ''unlock_time''
                                 then case atoi (trim_space (parts ! 1)) of
                                          None \<Rightarrow>
                                            Some (failr r
                                                    (''unlock_time='' @
                                                     Quote env (trim_space (parts ! 1)) @
                                                     '' is not a valid integer'')
                                                    (''set '' @ squote @ ''unlock_time = 900'' @
                                                     squote @ '' in /etc/security/faillock.conf''))
                                        | Some n \<Rightarrow>
                                            (if n < 900
                                               then Some (failr r
                                                            (''unlock_time = '' @ itoa n @
                                                             '' is below CIS minimum of 900 seconds'')
                                                            (''set '' @ squote @
                                                             ''unlock_time = 900'' @ squote @
                                                             '' in /etc/security/faillock.conf''))
                                             else Some (cis_pass r))
                               else None)
                  (split_byte data (CHR 0x0A)) of
                    Some c \<Rightarrow> c
                  | None \<Rightarrow>
                      failr r ''unlock_time not configured in /etc/security/faillock.conf''
                        (''add '' @ squote @ ''unlock_time = 900'' @ squote @
                         '' to /etc/security/faillock.conf'')))"

definition check_5_4_14 :: "cis_host \<Rightarrow> security_info \<Rightarrow> kernel_security_info \<Rightarrow> cis_result" where
  "check_5_4_14 env sec ks =
     (let r = ruleByID ''5.4.14''
      in case ReadFile env faillockConfPath of
             None \<Rightarrow> skipr r ''/etc/security/faillock.conf not found (pam_faillock not installed)''
           | Some data \<Rightarrow>
               (case first_some
                  (\<lambda>line.
                    let line = trim_space line
                    in if line = [] \<or> has_prefix line ''#'' then None
                       else let parts = split_n 2 line (CHR ''='')
                            in if int (length parts) = 2 \<and> trim_space (hd parts) = ''fail_interval''
                                 then case atoi (trim_space (parts ! 1)) of
                                          None \<Rightarrow>
                                            Some (failr r
                                                    (''fail_interval='' @
                                                     Quote env (trim_space (parts ! 1)) @
                                                     '' is not a valid integer'')
                                                    (''set '' @ squote @ ''fail_interval = 900'' @
                                                     squote @ '' in /etc/security/faillock.conf''))
                                        | Some n \<Rightarrow>
                                            (if n < 900
                                               then Some (failr r
                                                            (''fail_interval = '' @ itoa n @
                                                             '' is below CIS minimum of 900 seconds'')
                                                            (''set '' @ squote @
                                                             ''fail_interval = 900'' @ squote @
                                                             '' in /etc/security/faillock.conf''))
                                             else Some (cis_pass r))
                               else None)
                  (split_byte data (CHR 0x0A)) of
                    Some c \<Rightarrow> c
                  | None \<Rightarrow>
                      failr r ''fail_interval not configured in /etc/security/faillock.conf''
                        (''add '' @ squote @ ''fail_interval = 900'' @ squote @
                         '' to /etc/security/faillock.conf'')))"

definition check_5_4_15 :: "cis_host \<Rightarrow> security_info \<Rightarrow> kernel_security_info \<Rightarrow> cis_result" where
  "check_5_4_15 env sec ks =
     (let r = ruleByID ''5.4.15''
      in case ReadFile env pwqualityConfPath of
             None \<Rightarrow> skipr r ''/etc/security/pwquality.conf not found (pam_pwquality not installed)''
           | Some data \<Rightarrow>
               (let settings = [];
                    settings =
                      foldl
                        (\<lambda>settings line.
                          let line = trim_space line
                          in if line = [] \<or> has_prefix line ''#'' then settings
                             else let parts = split_n 2 line (CHR ''='')
                                  in if int (length parts) \<noteq> 2 then settings
                                     else let key = trim_space (hd parts);
                                              val = trim_space (parts ! 1)
                                          in case atoi val of
                                                 None \<Rightarrow> settings
                                               | Some n \<Rightarrow> map_put settings key n)
                        settings
                        (split_byte data (CHR 0x0A))
                in case map_of settings ''minclass'' of
                       None \<Rightarrow>
                         (let negCredit =
                                wrap64
                                  (sum_list (map
                                     (\<lambda>k.
                                       case map_of settings k of
                                           None \<Rightarrow> 0
                                         | Some v \<Rightarrow> (if v < 0 then 1 else 0))
                                     [''dcredit'', ''ucredit'', ''ocredit'', ''lcredit'']))
                          in if 3 \<le> negCredit then cis_pass r
                             else failr r
                                    ''password complexity not configured (minclass < 3 and fewer than 3 credit settings are negative)''
                                    (''add '' @ squote @ ''minclass = 4'' @ squote @
                                     '' to /etc/security/pwquality.conf''))
                     | Some v \<Rightarrow>
                         (if 3 \<le> v then cis_pass r
                          else let negCredit =
                                     wrap64
                                       (sum_list (map
                                          (\<lambda>k.
                                            case map_of settings k of
                                                None \<Rightarrow> 0
                                              | Some v \<Rightarrow> (if v < 0 then 1 else 0))
                                          [''dcredit'', ''ucredit'', ''ocredit'', ''lcredit'']))
                               in if 3 \<le> negCredit then cis_pass r
                                  else failr r
                                         ''password complexity not configured (minclass < 3 and fewer than 3 credit settings are negative)''
                                         (''add '' @ squote @ ''minclass = 4'' @ squote @
                                          '' to /etc/security/pwquality.conf''))))"

definition check_5_4_16 :: "cis_host \<Rightarrow> security_info \<Rightarrow> kernel_security_info \<Rightarrow> cis_result" where
  "check_5_4_16 env sec ks =
     (let r = ruleByID ''5.4.16''
      in case ReadFile env pamCommonPasswordPath of
             None \<Rightarrow> skipr r ''/etc/pam.d/common-password not readable''
           | Some data \<Rightarrow>
               (case first_some
                  (\<lambda>line.
                    let line = trim_space line
                    in if has_prefix line ''#'' \<or> \<not> contains line ''pam_pwquality.so'' then None
                       else first_some
                              (\<lambda>field.
                                case cut_prefix field ''retry='' of
                                    None \<Rightarrow> None
                                  | Some rest \<Rightarrow>
                                      (case atoi rest of
                                           None \<Rightarrow> None
                                         | Some n \<Rightarrow>
                                             (if 3 < n
                                                then Some (failr r
                                                             (''pam_pwquality retry='' @ itoa n @
                                                              '' exceeds CIS maximum of 3'')
                                                             (''set '' @ squote @ ''retry=3'' @
                                                              squote @
                                                              '' on the pam_pwquality.so line in /etc/pam.d/common-password''))
                                              else Some (cis_pass r))))
                              (Go_Prelude.fields line))
                  (split_byte data (CHR 0x0A)) of
                    Some c \<Rightarrow> c
                  | None \<Rightarrow>
                      failr r
                        ''pam_pwquality.so with retry= not found in /etc/pam.d/common-password''
                        (''add '' @ squote @ ''retry=3'' @ squote @
                         '' to the pam_pwquality.so line in /etc/pam.d/common-password'')))"

definition check_5_4_17 :: "cis_host \<Rightarrow> security_info \<Rightarrow> kernel_security_info \<Rightarrow> cis_result" where
  "check_5_4_17 env sec ks =
     (let r = ruleByID ''5.4.17''
      in case ReadDir env pamDPath of
             None \<Rightarrow> skipr r ''/etc/pam.d not readable''
           | Some entries \<Rightarrow>
               (case first_some
                  (\<lambda>entry.
                    if entry_IsDir entry then None
                    else let path = path_join [pamDPath, entry_Name entry]
                         in case ReadFile env path of
                                None \<Rightarrow> None
                              | Some data \<Rightarrow>
                                  first_some
                                    (\<lambda>line.
                                      let line = trim_space line
                                      in if has_prefix line ''#'' then None
                                         else first_some
                                                (\<lambda>field.
                                                  if field = ''nullok''
                                                    then Some (failr r
                                                                 (squote @ ''nullok'' @ squote @
                                                                  '' found in '' @ path @ '' '' @
                                                                  em_dash @
                                                                  '' empty passwords permitted via PAM'')
                                                                 (''remove '' @ squote @
                                                                  ''nullok'' @ squote @
                                                                  '' from all PAM configuration files in /etc/pam.d/''))
                                                  else None)
                                                (Go_Prelude.fields line))
                                    (split_byte data (CHR 0x0A)))
                  entries of
                    Some c \<Rightarrow> c
                  | None \<Rightarrow> cis_pass r))"

definition check_5_3_5 :: "security_info \<Rightarrow> kernel_security_info \<Rightarrow> cis_result" where
  "check_5_3_5 sec ks =
     (let r = ruleByID ''5.3.5''
      in if security_SudoersUnreadable sec then unverifiedr r cisSkipSudoersUnreadable
         else if security_SudoTimestampNever sec
           then failr r
                  (''Defaults timestamp_timeout < 0 '' @ em_dash @ '' sudo sessions never expire'')
                  (''add '' @ squote @ ''Defaults timestamp_timeout=15'' @ squote @
                   '' to /etc/sudoers'')
         else if 15 < security_SudoTimestampMins sec
           then failr r
                  (''Defaults timestamp_timeout='' @ itoa (security_SudoTimestampMins sec) @
                   '' minutes exceeds CIS 15-minute limit'')
                  (''set '' @ squote @ ''Defaults timestamp_timeout=15'' @ squote @
                   '' in /etc/sudoers'')
         else cis_pass r)"

definition check_5_5_1 :: "cis_host \<Rightarrow> security_info \<Rightarrow> kernel_security_info \<Rightarrow> cis_result" where
  "check_5_5_1 env sec ks =
     (let r = ruleByID ''5.5.1''
      in case ReadFile env securettyPath of
             None \<Rightarrow>
               failr r
                 (''/etc/securetty missing '' @ em_dash @ '' root can login from any terminal'')
                 ''create /etc/securetty listing only required console devices (e.g. tty1)''
           | Some data \<Rightarrow>
               (case first_some
                  (\<lambda>line.
                    let line = trim_space line
                    in if line \<noteq> [] \<and> \<not> has_prefix line ''#'' then Some (cis_pass r) else None)
                  (split_byte data (CHR 0x0A)) of
                    Some c \<Rightarrow> c
                  | None \<Rightarrow>
                      failr r
                        (''/etc/securetty is empty '' @ em_dash @ '' no terminals restricted'')
                        ''add allowed console ttys to /etc/securetty (e.g. tty1)''))"

definition check_5_5_2 :: "cis_host \<Rightarrow> security_info \<Rightarrow> kernel_security_info \<Rightarrow> cis_result" where
  "check_5_5_2 env sec ks =
     (let r = ruleByID ''5.5.2''
      in case ReadFile env pamSuPath of
             None \<Rightarrow> skipr r ''/etc/pam.d/su not readable''
           | Some data \<Rightarrow>
               (case first_some
                  (\<lambda>line.
                    let line = trim_space line
                    in if has_prefix line ''#'' \<or> line = [] then None
                       else let fields = Go_Prelude.fields line
                            in if (3 \<le> int (length fields) \<and>
                                   (fields ! 1 = ''required'' \<or> fields ! 1 = ''requisite'')) \<and>
                                  contains (fields ! 2) ''pam_wheel.so''
                                 then first_some
                                        (\<lambda>f. if f = ''use_uid'' then Some (cis_pass r) else None)
                                        (drop (nat 3) fields)
                               else None)
                  (split_byte data (CHR 0x0A)) of
                    Some c \<Rightarrow> c
                  | None \<Rightarrow>
                      failr r
                        ''pam_wheel.so use_uid not found in /etc/pam.d/su with required/requisite control''
                        (''add '' @ squote @ ''auth required pam_wheel.so use_uid'' @ squote @
                         '' to /etc/pam.d/su to restrict su to wheel group'')))"

definition check_5_5_3 :: "cis_host \<Rightarrow> security_info \<Rightarrow> kernel_security_info \<Rightarrow> cis_result" where
  "check_5_5_3 env sec ks =
     (let r = ruleByID ''5.5.3'';
          isRestrictive =
            (\<lambda>s.
              let s = trim_space s
              in case parse_int 8 32 s of None \<Rightarrow> (False, False) | Some v \<Rightarrow> (v AND 23 = 23, True));
          scanFile =
            (\<lambda>data.
              let vals = []
              in vals @
                 concat (map
                           (\<lambda>line.
                             let line = trim_space line
                             in if line = [] \<or> has_prefix line ''#'' then []
                                else let fields = Go_Prelude.fields line
                                     in if int (length fields) = 2 \<and>
                                           equal_fold (hd fields) ''umask''
                                          then [fields ! 1]
                                        else [])
                           (split_byte data (CHR 0x0A))));
          allVals = [];
          allVals =
            case ReadFile env loginDefsPath of
                None \<Rightarrow> allVals
              | Some data \<Rightarrow>
                  allVals @
                  concat (map
                            (\<lambda>line.
                              let line = trim_space line
                              in if line = [] \<or> has_prefix line ''#'' then []
                                 else let fields = Go_Prelude.fields line
                                      in if int (length fields) = 2 \<and>
                                            equal_fold (hd fields) ''UMASK''
                                           then [fields ! 1]
                                         else [])
                            (split_byte data (CHR 0x0A)));
          allVals =
            case ReadFile env etcProfilePath of None \<Rightarrow> allVals | Some data \<Rightarrow> allVals @ scanFile data;
          allVals =
            case ReadDir env etcProfileDPath of
                None \<Rightarrow> allVals
              | Some entries \<Rightarrow>
                  allVals @
                  concat (map
                            (\<lambda>e.
                              if entry_IsDir e \<or> \<not> has_suffix (entry_Name e) ''.sh'' then []
                              else case ReadFile env (path_join [etcProfileDPath, entry_Name e]) of
                                       None \<Rightarrow> []
                                     | Some data \<Rightarrow> scanFile data)
                            entries);
          allVals =
            case ReadFile env etcBashrcPath of None \<Rightarrow> allVals | Some data \<Rightarrow> allVals @ scanFile data
      in if allVals = []
           then failr r
                  ''umask not configured in /etc/login.defs, /etc/profile, /etc/profile.d/*.sh, or /etc/bash.bashrc''
                  (''add '' @ squote @ ''umask 027'' @ squote @
                   '' to /etc/profile or a /etc/profile.d/*.sh drop-in'')
         else let anyValid = False
              in case loop
                   (\<lambda>anyValid val.
                     let (ok, valid) = isRestrictive val
                     in if \<not> valid then Next anyValid
                        else let anyValid = True
                             in if \<not> ok
                                  then Return (failr r
                                                 (''umask '' @ val @
                                                  '' is less restrictive than 027'')
                                                 (''set '' @ squote @ ''umask 027'' @ squote @
                                                  '' in /etc/profile or /etc/login.defs (UMASK 027)''))
                                else Next anyValid)
                   anyValid
                   allVals of
                     Inl res \<Rightarrow> res
                   | Inr anyValid \<Rightarrow>
                       (if allVals \<noteq> [] \<and> \<not> anyValid
                          then unverifiedr r
                                 ''umask values found but none were parseable as octal (variable references?)''
                        else cis_pass r))"

definition check_5_5_4 :: "cis_host \<Rightarrow> security_info \<Rightarrow> kernel_security_info \<Rightarrow> cis_result" where
  "check_5_5_4 env sec ks =
     (let r = ruleByID ''5.5.4'';
          parseTMOUT =
            (\<lambda>line.
              let line = trim_space line
              in case first_some
                   (\<lambda>prefix.
                     case cut_prefix line prefix of
                         None \<Rightarrow> None
                       | Some rest \<Rightarrow>
                           (case cut_prefix rest ''TMOUT='' of
                                None \<Rightarrow> None
                              | Some rest2 \<Rightarrow>
                                  (case atoi (trim_space rest2) of None \<Rightarrow> None | Some n \<Rightarrow> Some n)))
                   [''readonly '', ''export '', []] of
                     Some c \<Rightarrow> c
                   | None \<Rightarrow> - 1);
          scanTMOUT =
            (\<lambda>data.
              case first_some
                (\<lambda>line.
                  if has_prefix (trim_space line) ''#'' then None
                  else let n = parseTMOUT line
                       in if 0 \<le> n then Some n else None)
                (split_byte data (CHR 0x0A)) of
                  Some c \<Rightarrow> c
                | None \<Rightarrow> - 1);
          found = - 1;
          found =
            case ReadFile env etcProfilePath of
                None \<Rightarrow> found
              | Some data \<Rightarrow>
                  (let n = scanTMOUT data
                   in if 0 \<le> n then n else found);
          found =
            case ReadDir env etcProfileDPath of
                None \<Rightarrow> found
              | Some entries \<Rightarrow>
                  (if found < 0
                     then case first_some
                            (\<lambda>e.
                              if entry_IsDir e \<or> \<not> has_suffix (entry_Name e) ''.sh'' then None
                              else case ReadFile env (path_join [etcProfileDPath, entry_Name e]) of
                                       None \<Rightarrow> None
                                     | Some data \<Rightarrow>
                                         (let n = scanTMOUT data
                                          in if 0 \<le> n
                                               then (let found = n
                                                     in Some found)
                                             else None))
                            entries of
                            Some r \<Rightarrow> r
                            | None \<Rightarrow> found
                   else found);
          found =
            (if found < 0
               then case ReadFile env etcBashrcPath of None \<Rightarrow> found | Some data \<Rightarrow> scanTMOUT data
             else found)
      in if found < 0
           then failr r ''TMOUT not set in /etc/profile, /etc/profile.d/*.sh, or /etc/bash.bashrc''
                  (''add '' @ squote @ ''readonly TMOUT=900'' @ squote @
                   '' to /etc/profile.d/timeout.sh'')
         else if 900 < found
           then failr r (''TMOUT='' @ itoa found @ '' exceeds CIS maximum of 900 seconds'')
                  (''set '' @ squote @ ''readonly TMOUT=900'' @ squote @
                   '' in /etc/profile.d/timeout.sh'')
         else cis_pass r)"

definition check_5_1_1 :: "cis_host \<Rightarrow> security_info \<Rightarrow> kernel_security_info \<Rightarrow> cis_result" where
  "check_5_1_1 env sec ks =
     (let r = ruleByID ''5.1.1''
      in case first_some
           (\<lambda>p. case Stat env p of None \<Rightarrow> None | Some _ \<Rightarrow> Some (cis_pass r))
           cronWantsPaths of
             Some c \<Rightarrow> c
           | None \<Rightarrow>
               failr r
                 (''cron daemon not found in systemd wants directory '' @ em_dash @
                  '' may not be enabled'')
                 ''systemctl enable --now cron || systemctl enable --now crond'')"

definition check_5_1_2 :: "cis_host \<Rightarrow> security_info \<Rightarrow> kernel_security_info \<Rightarrow> cis_result" where
  "check_5_1_2 env sec ks =
     (let r = ruleByID ''5.1.2''
      in checkFilePerm env r ''/etc/crontab'' 0b110000000
           ''chown root:root /etc/crontab && chmod og-rwx /etc/crontab'')"

definition check_5_1_3 :: "cis_host \<Rightarrow> security_info \<Rightarrow> kernel_security_info \<Rightarrow> cis_result" where
  "check_5_1_3 env sec ks =
     (let r = ruleByID ''5.1.3''
      in checkFilePerm env r ''/etc/cron.hourly'' 0b111000000 ''chmod og-rwx /etc/cron.hourly'')"

definition check_5_1_4 :: "cis_host \<Rightarrow> security_info \<Rightarrow> kernel_security_info \<Rightarrow> cis_result" where
  "check_5_1_4 env sec ks =
     (let r = ruleByID ''5.1.4''
      in checkFilePerm env r ''/etc/cron.daily'' 0b111000000 ''chmod og-rwx /etc/cron.daily'')"

definition check_5_1_5 :: "cis_host \<Rightarrow> security_info \<Rightarrow> kernel_security_info \<Rightarrow> cis_result" where
  "check_5_1_5 env sec ks =
     (let r = ruleByID ''5.1.5''
      in checkFilePerm env r ''/etc/cron.weekly'' 0b111000000 ''chmod og-rwx /etc/cron.weekly'')"

definition check_5_1_6 :: "cis_host \<Rightarrow> security_info \<Rightarrow> kernel_security_info \<Rightarrow> cis_result" where
  "check_5_1_6 env sec ks =
     (let r = ruleByID ''5.1.6''
      in checkFilePerm env r ''/etc/cron.monthly'' 0b111000000 ''chmod og-rwx /etc/cron.monthly'')"

definition check_5_1_7 :: "cis_host \<Rightarrow> security_info \<Rightarrow> kernel_security_info \<Rightarrow> cis_result" where
  "check_5_1_7 env sec ks =
     (let r = ruleByID ''5.1.7''
      in checkFilePerm env r ''/etc/cron.d'' 0b111000000 ''chmod og-rwx /etc/cron.d'')"

definition check_5_1_8 :: "cis_host \<Rightarrow> security_info \<Rightarrow> kernel_security_info \<Rightarrow> cis_result" where
  "check_5_1_8 env sec ks =
     (let r = ruleByID ''5.1.8'';
          errAllow = Stat env cronAllowPath = None;
          errDeny = Stat env cronDenyPath = None
      in if \<not> errAllow \<and> errDeny then cis_pass r
         else if \<not> errAllow \<and> \<not> errDeny
           then failr r
                  ''both /etc/cron.allow and /etc/cron.deny exist; only cron.allow should be present''
                  (''remove /etc/cron.deny '' @ em_dash @
                   '' the allowlist model requires only /etc/cron.allow'')
         else if errAllow \<and> \<not> errDeny
           then failr r
                  (''/etc/cron.deny exists without /etc/cron.allow '' @ em_dash @
                   '' use allowlist model'')
                  ''create /etc/cron.allow with authorized users and remove /etc/cron.deny''
         else failr r ''neither /etc/cron.allow nor /etc/cron.deny exists''
                ''create /etc/cron.allow with authorized users (one per line)'')"

definition check_5_1_9 :: "cis_host \<Rightarrow> security_info \<Rightarrow> kernel_security_info \<Rightarrow> cis_result" where
  "check_5_1_9 env sec ks =
     (let r = ruleByID ''5.1.9'';
          errAllow = Stat env atAllowPath = None;
          errDeny = Stat env atDenyPath = None
      in if \<not> errAllow \<and> errDeny then cis_pass r
         else if \<not> errAllow \<and> \<not> errDeny
           then failr r
                  ''both /etc/at.allow and /etc/at.deny exist; only at.allow should be present''
                  (''remove /etc/at.deny '' @ em_dash @
                   '' the allowlist model requires only /etc/at.allow'')
         else if errAllow \<and> \<not> errDeny
           then failr r
                  (''/etc/at.deny exists without /etc/at.allow '' @ em_dash @
                   '' use allowlist model'')
                  ''create /etc/at.allow with authorized users and remove /etc/at.deny''
         else failr r ''neither /etc/at.allow nor /etc/at.deny exists''
                ''create /etc/at.allow with authorized users (one per line)'')"

definition check_5_1_10 :: "cis_host \<Rightarrow> security_info \<Rightarrow> kernel_security_info \<Rightarrow> cis_result" where
  "check_5_1_10 env sec ks =
     checkFileOwnerRootRoot env (ruleByID ''5.1.10'') ''/etc/crontab''
       ''chown root:root /etc/crontab''"

definition check_5_1_11 :: "cis_host \<Rightarrow> security_info \<Rightarrow> kernel_security_info \<Rightarrow> cis_result" where
  "check_5_1_11 env sec ks =
     checkFileOwnerRootRoot env (ruleByID ''5.1.11'') ''/etc/cron.hourly''
       ''chown root:root /etc/cron.hourly''"

definition check_5_1_12 :: "cis_host \<Rightarrow> security_info \<Rightarrow> kernel_security_info \<Rightarrow> cis_result" where
  "check_5_1_12 env sec ks =
     checkFileOwnerRootRoot env (ruleByID ''5.1.12'') ''/etc/cron.daily''
       ''chown root:root /etc/cron.daily''"

definition check_5_1_13 :: "cis_host \<Rightarrow> security_info \<Rightarrow> kernel_security_info \<Rightarrow> cis_result" where
  "check_5_1_13 env sec ks =
     checkFileOwnerRootRoot env (ruleByID ''5.1.13'') ''/etc/cron.weekly''
       ''chown root:root /etc/cron.weekly''"

definition check_5_1_14 :: "cis_host \<Rightarrow> security_info \<Rightarrow> kernel_security_info \<Rightarrow> cis_result" where
  "check_5_1_14 env sec ks =
     checkFileOwnerRootRoot env (ruleByID ''5.1.14'') ''/etc/cron.monthly''
       ''chown root:root /etc/cron.monthly''"

definition check_5_1_15 :: "cis_host \<Rightarrow> security_info \<Rightarrow> kernel_security_info \<Rightarrow> cis_result" where
  "check_5_1_15 env sec ks =
     checkFileOwnerRootRoot env (ruleByID ''5.1.15'') ''/etc/cron.d''
       ''chown root:root /etc/cron.d''"

definition check_5_1_16 :: "cis_host \<Rightarrow> security_info \<Rightarrow> kernel_security_info \<Rightarrow> cis_result" where
  "check_5_1_16 env sec ks =
     checkFilePerm env (ruleByID ''5.1.16'') cronAllowPath 0b110000000 ''chmod 600 /etc/cron.allow''"

definition check_5_1_17 :: "cis_host \<Rightarrow> security_info \<Rightarrow> kernel_security_info \<Rightarrow> cis_result" where
  "check_5_1_17 env sec ks =
     checkFileOwnerRootRoot env (ruleByID ''5.1.17'') cronAllowPath
       ''chown root:root /etc/cron.allow''"

definition check_5_1_18 :: "cis_host \<Rightarrow> security_info \<Rightarrow> kernel_security_info \<Rightarrow> cis_result" where
  "check_5_1_18 env sec ks =
     checkFilePerm env (ruleByID ''5.1.18'') cronDenyPath 0b110000000 ''chmod 600 /etc/cron.deny''"

definition check_5_1_19 :: "cis_host \<Rightarrow> security_info \<Rightarrow> kernel_security_info \<Rightarrow> cis_result" where
  "check_5_1_19 env sec ks =
     checkFileOwnerRootRoot env (ruleByID ''5.1.19'') cronDenyPath
       ''chown root:root /etc/cron.deny''"

definition check_5_1_20 :: "cis_host \<Rightarrow> security_info \<Rightarrow> kernel_security_info \<Rightarrow> cis_result" where
  "check_5_1_20 env sec ks =
     checkFilePerm env (ruleByID ''5.1.20'') atAllowPath 0b110000000 ''chmod 600 /etc/at.allow''"

definition check_5_1_21 :: "cis_host \<Rightarrow> security_info \<Rightarrow> kernel_security_info \<Rightarrow> cis_result" where
  "check_5_1_21 env sec ks =
     checkFileOwnerRootRoot env (ruleByID ''5.1.21'') atAllowPath ''chown root:root /etc/at.allow''"

definition check_5_1_22 :: "cis_host \<Rightarrow> security_info \<Rightarrow> kernel_security_info \<Rightarrow> cis_result" where
  "check_5_1_22 env sec ks =
     checkFilePerm env (ruleByID ''5.1.22'') atDenyPath 0b110000000 ''chmod 600 /etc/at.deny''"

definition check_5_1_23 :: "cis_host \<Rightarrow> security_info \<Rightarrow> kernel_security_info \<Rightarrow> cis_result" where
  "check_5_1_23 env sec ks =
     checkFileOwnerRootRoot env (ruleByID ''5.1.23'') atDenyPath ''chown root:root /etc/at.deny''"

definition check_V_238380 :: "cis_host \<Rightarrow> security_info \<Rightarrow> kernel_security_info \<Rightarrow> cis_result" where
  "check_V_238380 env sec ks =
     checkLoginDefsField env (ruleByID stigPassMaxDaysID) loginDefsPath ''PASS_MAX_DAYS''
       (\<lambda>days. 60 < days \<or> days = 0)
       (\<lambda>days. ''PASS_MAX_DAYS is '' @ itoa days @ '' (STIG requires '' @
               [CHR 0xE2, CHR 0x89, CHR 0xA4] @ '' 60)'')
       ''set PASS_MAX_DAYS 60 in /etc/login.defs'' ''PASS_MAX_DAYS not set''
       ''add PASS_MAX_DAYS 60 to /etc/login.defs''"

definition check_V_238382 :: "cis_host \<Rightarrow> security_info \<Rightarrow> kernel_security_info \<Rightarrow> cis_result" where
  "check_V_238382 env sec ks =
     checkLoginDefsField env (ruleByID ''V-238382'') loginDefsPath ''PASS_MIN_DAYS''
       (\<lambda>days. days < 1)
       (\<lambda>days. ''PASS_MIN_DAYS is '' @ itoa days @ '' (must be '' @ [CHR 0xE2, CHR 0x89, CHR 0xA5] @
               '' 1)'') ''set PASS_MIN_DAYS 1 in /etc/login.defs''
       ''PASS_MIN_DAYS not set in /etc/login.defs'' ''add PASS_MIN_DAYS 1 to /etc/login.defs''"

definition check_V_238383 :: "cis_host \<Rightarrow> security_info \<Rightarrow> kernel_security_info \<Rightarrow> cis_result" where
  "check_V_238383 env sec ks =
     checkLoginDefsField env (ruleByID ''V-238383'') loginDefsPath ''PASS_WARN_AGE''
       (\<lambda>days. days < 7)
       (\<lambda>days. ''PASS_WARN_AGE is '' @ itoa days @ '' (must be '' @ [CHR 0xE2, CHR 0x89, CHR 0xA5] @
               '' 7)'') ''set PASS_WARN_AGE 7 in /etc/login.defs''
       ''PASS_WARN_AGE not set in /etc/login.defs'' ''add PASS_WARN_AGE 7 to /etc/login.defs''"

definition check_V_238384 :: "cis_host \<Rightarrow> security_info \<Rightarrow> kernel_security_info \<Rightarrow> cis_result" where
  "check_V_238384 env sec ks =
     (let r = ruleByID ''V-238384''
      in case ReadFile env pamCommonAuthPath of
             None \<Rightarrow> skipr r ''/etc/pam.d/common-auth not readable''
           | Some data \<Rightarrow>
               (case first_some
                  (\<lambda>line.
                    let line = trim_space line
                    in if has_prefix line ''#'' \<or> \<not> contains line ''pam_faildelay.so'' then None
                       else first_some
                              (\<lambda>field.
                                case cut_prefix field ''delay='' of
                                    None \<Rightarrow> None
                                  | Some rest \<Rightarrow>
                                      (case atoi rest of
                                           None \<Rightarrow> None
                                         | Some n \<Rightarrow>
                                             (if n < 4000000
                                                then Some (failr r
                                                             (''pam_faildelay delay='' @ itoa n @
                                                              '' '' @ [CHR 0xC2, CHR 0xB5] @
                                                              ''s is below STIG minimum of 4 000 000 '' @
                                                              [CHR 0xC2, CHR 0xB5] @ ''s (4 s)'')
                                                             (''set '' @ squote @
                                                              ''delay=4000000'' @ squote @
                                                              '' on the pam_faildelay.so line in /etc/pam.d/common-auth''))
                                              else Some (cis_pass r))))
                              (Go_Prelude.fields line))
                  (split_byte data (CHR 0x0A)) of
                    Some c \<Rightarrow> c
                  | None \<Rightarrow>
                      failr r ''pam_faildelay.so not configured in /etc/pam.d/common-auth''
                        (''add '' @ squote @ ''auth optional pam_faildelay.so delay=4000000'' @
                         squote @ '' to /etc/pam.d/common-auth'')))"


section \<open>Conformance\<close>

lemma check_5_3_1_conforms [conforming]: "conforms (ruleByID ''5.3.1'') (check_5_3_1 env sec ks)"
  unfolding check_5_3_1_def by (intro conforms_rules conforming; (simp; fail)?)

lemma check_5_4_1_conforms [conforming]: "conforms (ruleByID ''5.4.1'') (check_5_4_1 env sec ks)"
  unfolding check_5_4_1_def by (intro conforms_rules conforming; (simp; fail)?)

lemma check_5_3_4_conforms [conforming]: "conforms (ruleByID ''5.3.4'') (check_5_3_4 sec ks)"
  unfolding check_5_3_4_def by (intro conforms_rules conforming; (simp; fail)?)

lemma check_5_3_2_conforms [conforming]: "conforms (ruleByID ''5.3.2'') (check_5_3_2 sec ks)"
  unfolding check_5_3_2_def by (intro conforms_rules conforming; (simp; fail)?)

lemma check_5_3_3_conforms [conforming]: "conforms (ruleByID ''5.3.3'') (check_5_3_3 sec ks)"
  unfolding check_5_3_3_def by (intro conforms_rules conforming; (simp; fail)?)

lemma check_5_4_2_conforms [conforming]: "conforms (ruleByID ''5.4.2'') (check_5_4_2 sec ks)"
  unfolding check_5_4_2_def by (intro conforms_rules conforming; (simp; fail)?)

lemma check_5_4_3_conforms [conforming]: "conforms (ruleByID ''5.4.3'') (check_5_4_3 env sec ks)"
  unfolding check_5_4_3_def by (intro conforms_rules conforming; (simp; fail)?)

lemma check_5_4_4_conforms [conforming]: "conforms (ruleByID ''5.4.4'') (check_5_4_4 env sec ks)"
  unfolding check_5_4_4_def by (intro conforms_rules conforming; (simp; fail)?)

lemma check_5_4_5_conforms [conforming]: "conforms (ruleByID ''5.4.5'') (check_5_4_5 env sec ks)"
  unfolding check_5_4_5_def by (intro conforms_rules conforming; (simp; fail)?)

lemma check_5_4_6_conforms [conforming]: "conforms (ruleByID ''5.4.6'') (check_5_4_6 env sec ks)"
  unfolding check_5_4_6_def by (intro conforms_rules conforming; (simp; fail)?)

lemma check_5_4_7_conforms [conforming]: "conforms (ruleByID ''5.4.7'') (check_5_4_7 env sec ks)"
  unfolding check_5_4_7_def by (intro conforms_rules conforming; (simp; fail)?)

lemma check_5_4_8_conforms [conforming]: "conforms (ruleByID ''5.4.8'') (check_5_4_8 env sec ks)"
  unfolding check_5_4_8_def by (intro conforms_rules conforming; (simp; fail)?)

lemma check_5_4_9_conforms [conforming]: "conforms (ruleByID ''5.4.9'') (check_5_4_9 env sec ks)"
  unfolding check_5_4_9_def by (intro conforms_rules conforming; (simp; fail)?)

lemma check_5_4_10_conforms [conforming]: "conforms (ruleByID ''5.4.10'') (check_5_4_10 env sec ks)"
  unfolding check_5_4_10_def by (intro conforms_rules conforming; (simp; fail)?)

lemma check_5_4_11_conforms [conforming]: "conforms (ruleByID ''5.4.11'') (check_5_4_11 env sec ks)"
  unfolding check_5_4_11_def by (intro conforms_rules conforming; (simp; fail)?)

lemma check_5_4_12_conforms [conforming]: "conforms (ruleByID ''5.4.12'') (check_5_4_12 env sec ks)"
  unfolding check_5_4_12_def by (intro conforms_rules conforming; (simp; fail)?)

lemma check_5_4_13_conforms [conforming]: "conforms (ruleByID ''5.4.13'') (check_5_4_13 env sec ks)"
  unfolding check_5_4_13_def by (intro conforms_rules conforming; (simp; fail)?)

lemma check_5_4_14_conforms [conforming]: "conforms (ruleByID ''5.4.14'') (check_5_4_14 env sec ks)"
  unfolding check_5_4_14_def by (intro conforms_rules conforming; (simp; fail)?)

lemma check_5_4_15_conforms [conforming]: "conforms (ruleByID ''5.4.15'') (check_5_4_15 env sec ks)"
  unfolding check_5_4_15_def by (intro conforms_rules conforming; (simp; fail)?)

lemma check_5_4_16_conforms [conforming]: "conforms (ruleByID ''5.4.16'') (check_5_4_16 env sec ks)"
  unfolding check_5_4_16_def by (intro conforms_rules conforming; (simp; fail)?)

lemma check_5_4_17_conforms [conforming]: "conforms (ruleByID ''5.4.17'') (check_5_4_17 env sec ks)"
  unfolding check_5_4_17_def by (intro conforms_rules conforming; (simp; fail)?)

lemma check_5_3_5_conforms [conforming]: "conforms (ruleByID ''5.3.5'') (check_5_3_5 sec ks)"
  unfolding check_5_3_5_def by (intro conforms_rules conforming; (simp; fail)?)

lemma check_5_5_1_conforms [conforming]: "conforms (ruleByID ''5.5.1'') (check_5_5_1 env sec ks)"
  unfolding check_5_5_1_def by (intro conforms_rules conforming; (simp; fail)?)

lemma check_5_5_2_conforms [conforming]: "conforms (ruleByID ''5.5.2'') (check_5_5_2 env sec ks)"
  unfolding check_5_5_2_def by (intro conforms_rules conforming; (simp; fail)?)

lemma check_5_5_3_conforms [conforming]: "conforms (ruleByID ''5.5.3'') (check_5_5_3 env sec ks)"
  unfolding check_5_5_3_def by (intro conforms_rules conforming; (simp; fail)?)

lemma check_5_5_4_conforms [conforming]: "conforms (ruleByID ''5.5.4'') (check_5_5_4 env sec ks)"
  unfolding check_5_5_4_def by (intro conforms_rules conforming; (simp; fail)?)

lemma check_5_1_1_conforms [conforming]: "conforms (ruleByID ''5.1.1'') (check_5_1_1 env sec ks)"
  unfolding check_5_1_1_def by (intro conforms_rules conforming; (simp; fail)?)

lemma check_5_1_2_conforms [conforming]: "conforms (ruleByID ''5.1.2'') (check_5_1_2 env sec ks)"
  unfolding check_5_1_2_def by (intro conforms_rules conforming; (simp; fail)?)

lemma check_5_1_3_conforms [conforming]: "conforms (ruleByID ''5.1.3'') (check_5_1_3 env sec ks)"
  unfolding check_5_1_3_def by (intro conforms_rules conforming; (simp; fail)?)

lemma check_5_1_4_conforms [conforming]: "conforms (ruleByID ''5.1.4'') (check_5_1_4 env sec ks)"
  unfolding check_5_1_4_def by (intro conforms_rules conforming; (simp; fail)?)

lemma check_5_1_5_conforms [conforming]: "conforms (ruleByID ''5.1.5'') (check_5_1_5 env sec ks)"
  unfolding check_5_1_5_def by (intro conforms_rules conforming; (simp; fail)?)

lemma check_5_1_6_conforms [conforming]: "conforms (ruleByID ''5.1.6'') (check_5_1_6 env sec ks)"
  unfolding check_5_1_6_def by (intro conforms_rules conforming; (simp; fail)?)

lemma check_5_1_7_conforms [conforming]: "conforms (ruleByID ''5.1.7'') (check_5_1_7 env sec ks)"
  unfolding check_5_1_7_def by (intro conforms_rules conforming; (simp; fail)?)

lemma check_5_1_8_conforms [conforming]: "conforms (ruleByID ''5.1.8'') (check_5_1_8 env sec ks)"
  unfolding check_5_1_8_def by (intro conforms_rules conforming; (simp; fail)?)

lemma check_5_1_9_conforms [conforming]: "conforms (ruleByID ''5.1.9'') (check_5_1_9 env sec ks)"
  unfolding check_5_1_9_def by (intro conforms_rules conforming; (simp; fail)?)

lemma check_5_1_10_conforms [conforming]: "conforms (ruleByID ''5.1.10'') (check_5_1_10 env sec ks)"
  unfolding check_5_1_10_def by (intro conforms_rules conforming; (simp; fail)?)

lemma check_5_1_11_conforms [conforming]: "conforms (ruleByID ''5.1.11'') (check_5_1_11 env sec ks)"
  unfolding check_5_1_11_def by (intro conforms_rules conforming; (simp; fail)?)

lemma check_5_1_12_conforms [conforming]: "conforms (ruleByID ''5.1.12'') (check_5_1_12 env sec ks)"
  unfolding check_5_1_12_def by (intro conforms_rules conforming; (simp; fail)?)

lemma check_5_1_13_conforms [conforming]: "conforms (ruleByID ''5.1.13'') (check_5_1_13 env sec ks)"
  unfolding check_5_1_13_def by (intro conforms_rules conforming; (simp; fail)?)

lemma check_5_1_14_conforms [conforming]: "conforms (ruleByID ''5.1.14'') (check_5_1_14 env sec ks)"
  unfolding check_5_1_14_def by (intro conforms_rules conforming; (simp; fail)?)

lemma check_5_1_15_conforms [conforming]: "conforms (ruleByID ''5.1.15'') (check_5_1_15 env sec ks)"
  unfolding check_5_1_15_def by (intro conforms_rules conforming; (simp; fail)?)

lemma check_5_1_16_conforms [conforming]: "conforms (ruleByID ''5.1.16'') (check_5_1_16 env sec ks)"
  unfolding check_5_1_16_def by (intro conforms_rules conforming; (simp; fail)?)

lemma check_5_1_17_conforms [conforming]: "conforms (ruleByID ''5.1.17'') (check_5_1_17 env sec ks)"
  unfolding check_5_1_17_def by (intro conforms_rules conforming; (simp; fail)?)

lemma check_5_1_18_conforms [conforming]: "conforms (ruleByID ''5.1.18'') (check_5_1_18 env sec ks)"
  unfolding check_5_1_18_def by (intro conforms_rules conforming; (simp; fail)?)

lemma check_5_1_19_conforms [conforming]: "conforms (ruleByID ''5.1.19'') (check_5_1_19 env sec ks)"
  unfolding check_5_1_19_def by (intro conforms_rules conforming; (simp; fail)?)

lemma check_5_1_20_conforms [conforming]: "conforms (ruleByID ''5.1.20'') (check_5_1_20 env sec ks)"
  unfolding check_5_1_20_def by (intro conforms_rules conforming; (simp; fail)?)

lemma check_5_1_21_conforms [conforming]: "conforms (ruleByID ''5.1.21'') (check_5_1_21 env sec ks)"
  unfolding check_5_1_21_def by (intro conforms_rules conforming; (simp; fail)?)

lemma check_5_1_22_conforms [conforming]: "conforms (ruleByID ''5.1.22'') (check_5_1_22 env sec ks)"
  unfolding check_5_1_22_def by (intro conforms_rules conforming; (simp; fail)?)

lemma check_5_1_23_conforms [conforming]: "conforms (ruleByID ''5.1.23'') (check_5_1_23 env sec ks)"
  unfolding check_5_1_23_def by (intro conforms_rules conforming; (simp; fail)?)

lemma check_V_238380_conforms [conforming]: "conforms (ruleByID stigPassMaxDaysID) (check_V_238380 env sec ks)"
  unfolding check_V_238380_def by (intro conforms_rules conforming; (simp; fail)?)

lemma check_V_238382_conforms [conforming]: "conforms (ruleByID ''V-238382'') (check_V_238382 env sec ks)"
  unfolding check_V_238382_def by (intro conforms_rules conforming; (simp; fail)?)

lemma check_V_238383_conforms [conforming]: "conforms (ruleByID ''V-238383'') (check_V_238383 env sec ks)"
  unfolding check_V_238383_def by (intro conforms_rules conforming; (simp; fail)?)

lemma check_V_238384_conforms [conforming]: "conforms (ruleByID ''V-238384'') (check_V_238384 env sec ks)"
  unfolding check_V_238384_def by (intro conforms_rules conforming; (simp; fail)?)

end
