(* ===== verification/Cis_Users.thy ===== *)
theory Cis_Users
  imports Cis_Rules
begin

text \<open>
  The rules on accounts, groups and home directories. One definition per rule of internal/cis/rules.go, named by the rule.
\<close>

section \<open>Checks\<close>

definition check_6_2_1 :: "security_info \<Rightarrow> kernel_security_info \<Rightarrow> cis_result" where
  "check_6_2_1 sec ks =
     (let r = ruleByID ''6.2.1''
      in if security_ShadowUnreadable sec
           then unverifiedr r
                  (''/etc/shadow not readable (run as root) '' @ em_dash @
                   '' empty-password state not verified'')
         else if security_EmptyPasswordAccounts sec \<noteq> []
           then failr r
                  (''accounts with empty password: '' @
                   join (security_EmptyPasswordAccounts sec) '', '')
                  ''lock each account: passwd -l <user>''
         else cis_pass r)"

definition check_6_2_2 :: "cis_host \<Rightarrow> security_info \<Rightarrow> kernel_security_info \<Rightarrow> cis_result" where
  "check_6_2_2 env sec ks =
     (let r = ruleByID ''6.2.2'';
          shadowUnreadable = False
      in case loop
           (\<lambda>shadowUnreadable path.
             case ReadFile env path of
                 None \<Rightarrow>
                   (if contains path ''shadow''
                      then (let shadowUnreadable = True
                            in Next shadowUnreadable)
                    else Next shadowUnreadable)
               | Some data \<Rightarrow>
                   (case loop
                      (\<lambda>_ line.
                        if has_prefix (trim_space line) ''+''
                          then Return (failr r
                                         (''legacy NIS '' @ squote @ ''+'' @ squote @
                                          '' entry in '' @ path)
                                         (''remove the '' @ squote @ ''+'' @ squote @
                                          '' line from '' @ path))
                        else Next ())
                      ()
                      (split_byte data (CHR 0x0A)) of
                        Inl res \<Rightarrow> Return res
                      | Inr _ \<Rightarrow> Next shadowUnreadable))
           shadowUnreadable
           legacyNISPaths of
             Inl res \<Rightarrow> res
           | Inr shadowUnreadable \<Rightarrow>
               (if shadowUnreadable
                  then unverifiedr r
                         (''/etc/shadow not readable '' @ em_dash @
                          '' run as root for complete NIS entry check'')
                else cis_pass r))"

definition check_6_2_3 :: "security_info \<Rightarrow> kernel_security_info \<Rightarrow> cis_result" where
  "check_6_2_3 sec ks =
     (let r = ruleByID ''6.2.3''
      in if security_UID0Users sec \<noteq> []
           then failr r (''UID 0 accounts: '' @ join (security_UID0Users sec) '', '')
                  ''lock or remove these accounts: passwd -l <user>''
         else cis_pass r)"

definition check_6_2_4 :: "security_info \<Rightarrow> kernel_security_info \<Rightarrow> cis_result" where
  "check_6_2_4 sec ks =
     (let r = ruleByID ''6.2.4''
      in if security_ShadowUnreadable sec
           then unverifiedr r
                  (''/etc/shadow not readable '' @ em_dash @ '' run as root for full coverage'')
         else if security_EmptyPasswordAccounts sec = [] then cis_pass r
         else failr r
                (''accounts with empty passwords: '' @
                 join (security_EmptyPasswordAccounts sec) '', '')
                ''set passwords or lock accounts: passwd -l <user>'')"

definition check_6_2_5 :: "cis_host \<Rightarrow> security_info \<Rightarrow> kernel_security_info \<Rightarrow> cis_result" where
  "check_6_2_5 env sec ks =
     (let r = ruleByID ''6.2.5''
      in case ReadFile env etcPasswdPath of
             None \<Rightarrow> unverifiedr r cisSkipPasswdUnreadable
           | Some data \<Rightarrow>
               (let seen = [];
                    dups = [];
                    (dups, seen) =
                      foldl
                        (\<lambda>(dups, seen) line.
                          let line = trim_space line
                          in if line = [] \<or> has_prefix line ''#'' then (dups, seen)
                             else let fields = split_n 4 line (CHR '':'')
                                  in if int (length fields) < 3 then (dups, seen)
                                     else let uid = fields ! 2;
                                              dups =
                                                (if map_get False seen uid then dups @ [uid]
                                                 else dups);
                                              seen = map_put seen uid True
                                          in (dups, seen))
                        (dups, seen)
                        (split_byte data (CHR 0x0A))
                in if dups \<noteq> []
                     then failr r (''duplicate UIDs in /etc/passwd: '' @ join dups '', '')
                            ''remove or reassign duplicate UID accounts''
                   else cis_pass r))"

definition check_6_2_6 :: "cis_host \<Rightarrow> security_info \<Rightarrow> kernel_security_info \<Rightarrow> cis_result" where
  "check_6_2_6 env sec ks =
     (let r = ruleByID ''6.2.6''
      in case ReadFile env etcGroupPath of
             None \<Rightarrow> unverifiedr r cisSkipGroupUnreadable
           | Some data \<Rightarrow>
               (let seen = [];
                    dups = [];
                    (dups, seen) =
                      foldl
                        (\<lambda>(dups, seen) line.
                          let line = trim_space line
                          in if line = [] \<or> has_prefix line ''#'' then (dups, seen)
                             else let fields = split_n 4 line (CHR '':'')
                                  in if int (length fields) < 3 then (dups, seen)
                                     else let gid = fields ! 2;
                                              dups =
                                                (if map_get False seen gid then dups @ [gid]
                                                 else dups);
                                              seen = map_put seen gid True
                                          in (dups, seen))
                        (dups, seen)
                        (split_byte data (CHR 0x0A))
                in if dups \<noteq> []
                     then failr r (''duplicate GIDs in /etc/group: '' @ join dups '', '')
                            ''remove or reassign duplicate GID groups''
                   else cis_pass r))"

definition check_6_2_7 :: "cis_host \<Rightarrow> security_info \<Rightarrow> kernel_security_info \<Rightarrow> cis_result" where
  "check_6_2_7 env sec ks =
     (let r = ruleByID ''6.2.7''
      in case ReadFile env etcPasswdPath of
             None \<Rightarrow> unverifiedr r cisSkipPasswdUnreadable
           | Some data \<Rightarrow>
               (let seen = [];
                    dups = [];
                    (dups, seen) =
                      foldl
                        (\<lambda>(dups, seen) line.
                          let line = trim_space line
                          in if line = [] \<or> has_prefix line ''#'' then (dups, seen)
                             else let fields = split_n 2 line (CHR '':'')
                                  in if int (length fields) < 1 then (dups, seen)
                                     else let username = hd fields;
                                              dups =
                                                (if map_get False seen username
                                                   then dups @ [username]
                                                 else dups);
                                              seen = map_put seen username True
                                          in (dups, seen))
                        (dups, seen)
                        (split_byte data (CHR 0x0A))
                in if dups \<noteq> []
                     then failr r (''duplicate usernames in /etc/passwd: '' @ join dups '', '')
                            ''remove or rename duplicate user accounts''
                   else cis_pass r))"

definition check_6_2_8 :: "cis_host \<Rightarrow> security_info \<Rightarrow> kernel_security_info \<Rightarrow> cis_result" where
  "check_6_2_8 env sec ks =
     (let r = ruleByID ''6.2.8''
      in case ReadFile env etcGroupPath of
             None \<Rightarrow> unverifiedr r cisSkipGroupUnreadable
           | Some data \<Rightarrow>
               (let seen = [];
                    dups = [];
                    (dups, seen) =
                      foldl
                        (\<lambda>(dups, seen) line.
                          let line = trim_space line
                          in if line = [] \<or> has_prefix line ''#'' then (dups, seen)
                             else let fields = split_n 2 line (CHR '':'')
                                  in if int (length fields) < 1 then (dups, seen)
                                     else let groupname = hd fields;
                                              dups =
                                                (if map_get False seen groupname
                                                   then dups @ [groupname]
                                                 else dups);
                                              seen = map_put seen groupname True
                                          in (dups, seen))
                        (dups, seen)
                        (split_byte data (CHR 0x0A))
                in if dups \<noteq> []
                     then failr r (''duplicate group names in /etc/group: '' @ join dups '', '')
                            ''remove or rename duplicate groups''
                   else cis_pass r))"

definition check_6_2_9 :: "cis_host \<Rightarrow> security_info \<Rightarrow> kernel_security_info \<Rightarrow> cis_result" where
  "check_6_2_9 env sec ks =
     (let r = ruleByID ''6.2.9''
      in case ReadFile env etcPasswdPath of
             None \<Rightarrow> unverifiedr r cisSkipPasswdUnreadable
           | Some data \<Rightarrow>
               (let nonRoot =
                      concat (map
                                (\<lambda>line.
                                  let line = trim_space line
                                  in if line = [] \<or> has_prefix line ''#'' then []
                                     else let fields = split_n 4 line (CHR '':'')
                                          in if int (length fields) < 3 then []
                                             else if fields ! 2 = ''0'' \<and> hd fields \<noteq> ''root''
                                               then [hd fields]
                                             else [])
                                (split_byte data (CHR 0x0A)))
                in if nonRoot \<noteq> []
                     then failr r (''non-root accounts with UID 0: '' @ join nonRoot '', '')
                            ''remove or reassign UID for non-root accounts with uid=0''
                   else cis_pass r))"

definition check_6_2_10 :: "cis_host \<Rightarrow> security_info \<Rightarrow> kernel_security_info \<Rightarrow> cis_result" where
  "check_6_2_10 env sec ks =
     (let r = ruleByID ''6.2.10''
      in case ReadFile env etcEnvironmentPath of
             None \<Rightarrow>
               skipr r
                 (''could not read /etc/environment '' @ em_dash @ '' cannot verify root PATH'')
           | Some data \<Rightarrow>
               (let rootPath = [];
                    rootPath =
                      case first_some
                        (\<lambda>line.
                          let line = trim_space line
                          in case cut_prefix line ''PATH='' of
                                 None \<Rightarrow> None
                               | Some rest \<Rightarrow>
                                   (let rootPath = trim_set rest (dquote @ squote)
                                    in Some rootPath))
                        (split_byte data (CHR 0x0A)) of
                        Some r \<Rightarrow> r
                        | None \<Rightarrow> rootPath
                in if rootPath = []
                     then skipr r
                            (''PATH not set in /etc/environment '' @ em_dash @
                             '' cannot verify root PATH'')
                   else case first_some
                          (\<lambda>component.
                            if component = ''.'' \<or> component = []
                              then Some (failr r
                                           (''root PATH contains '' @ squote @ ''.'' @ squote @
                                            '' or empty component '' @ em_dash @
                                            '' allows command hijacking'')
                                           (''remove '' @ squote @ ''.'' @ squote @
                                            '' and empty PATH components from /etc/environment''))
                            else case Stat env component of
                                     None \<Rightarrow> None
                                   | Some fi \<Rightarrow>
                                       (if file_Mode fi AND 0b10 \<noteq> 0
                                          then Some (failr r
                                                       (''world-writable directory '' @
                                                        Quote env component @ '' in root PATH'')
                                                       ''remove world-writable directories from PATH in /etc/environment'')
                                        else None))
                          (split_byte rootPath (CHR '':'')) of
                            Some c \<Rightarrow> c
                          | None \<Rightarrow> cis_pass r))"

definition check_6_2_11 :: "cis_host \<Rightarrow> security_info \<Rightarrow> kernel_security_info \<Rightarrow> cis_result" where
  "check_6_2_11 env sec ks =
     (let r = ruleByID ''6.2.11''
      in case ReadFile env etcPasswdPath of
             None \<Rightarrow> unverifiedr r cisSkipPasswdUnreadable
           | Some data \<Rightarrow>
               (let violations = [];
                    accessible =
                      wrap64
                        (sum_list (map
                           (\<lambda>line.
                             let line = trim_space line
                             in if line = [] \<or> has_prefix line ''#'' then 0
                                else let fields = split_n 7 line (CHR '':'')
                                     in if int (length fields) < 6 then 0
                                        else case atoi (fields ! 2) of
                                                 None \<Rightarrow> 0
                                               | Some uid \<Rightarrow>
                                                   (if uid < 1000 \<or> 65534 \<le> uid then 0
                                                    else let homeDir = fields ! 5
                                                         in if (homeDir = [] \<or>
                                                                homeDir = cisHomeNonexistent) \<or>
                                                               homeDir = cisHomeDevNull
                                                              then 0
                                                            else case Lstat env homeDir of
                                                                     None \<Rightarrow> 0
                                                                   | Some fi \<Rightarrow>
                                                                       (case file_Sys fi of
                                                                            None \<Rightarrow> 0
                                                                          | Some _ \<Rightarrow> 1)))
                           (split_byte data (CHR 0x0A))));
                    violations =
                      violations @
                      concat (map
                                (\<lambda>line.
                                  let line = trim_space line
                                  in if line = [] \<or> has_prefix line ''#'' then []
                                     else let fields = split_n 7 line (CHR '':'')
                                          in if int (length fields) < 6 then []
                                             else case atoi (fields ! 2) of
                                                      None \<Rightarrow> []
                                                    | Some uid \<Rightarrow>
                                                        (if uid < 1000 \<or> 65534 \<le> uid then []
                                                         else let homeDir = fields ! 5
                                                              in if (homeDir = [] \<or>
                                                                     homeDir = cisHomeNonexistent) \<or>
                                                                    homeDir = cisHomeDevNull
                                                                   then []
                                                                 else case Lstat env homeDir of
                                                                          None \<Rightarrow> []
                                                                        | Some fi \<Rightarrow>
                                                                            (case file_Sys fi of
                                                                                 None \<Rightarrow> []
                                                                               | Some st \<Rightarrow>
                                                                                   (if owner_Uid st \<noteq>
                                                                                       wrapu32 uid
                                                                                      then [hd
                                                                                              fields @
                                                                                            '' (home='' @
                                                                                            homeDir @
                                                                                            '', owner uid='' @
                                                                                            itoa
                                                                                              (owner_Uid
                                                                                                 st) @
                                                                                            '', expected='' @
                                                                                            itoa uid @
                                                                                            '')'']
                                                                                    else []))))
                                (split_byte data (CHR 0x0A)))
                in if accessible = 0 then unverifiedr r cisSkipHomeDirsUnreadable
                   else if violations \<noteq> []
                     then (let shown = take (nat (min 3 (int (length violations)))) violations
                           in failr r
                                (itoa (int (length violations)) @
                                 '' home dir(s) not owned by user: '' @ join shown ''; '')
                                ''chown <user>:<user> <home> for each affected account'')
                   else cis_pass r))"

definition check_6_2_12 :: "cis_host \<Rightarrow> security_info \<Rightarrow> kernel_security_info \<Rightarrow> cis_result" where
  "check_6_2_12 env sec ks =
     (let r = ruleByID ''6.2.12''
      in case ReadFile env etcPasswdPath of
             None \<Rightarrow> unverifiedr r cisSkipPasswdUnreadable
           | Some data \<Rightarrow>
               (let violations = [];
                    accessible =
                      wrap64
                        (sum_list (map
                           (\<lambda>line.
                             let line = trim_space line
                             in if line = [] \<or> has_prefix line ''#'' then 0
                                else let fields = split_n 7 line (CHR '':'')
                                     in if int (length fields) < 6 then 0
                                        else case atoi (fields ! 2) of
                                                 None \<Rightarrow> 0
                                               | Some uid \<Rightarrow>
                                                   (if uid < 1000 \<or> 65534 \<le> uid then 0
                                                    else let homeDir = fields ! 5
                                                         in if (homeDir = [] \<or>
                                                                homeDir = cisHomeNonexistent) \<or>
                                                               homeDir = cisHomeDevNull
                                                              then 0
                                                            else case Lstat env homeDir of
                                                                     None \<Rightarrow> 0
                                                                   | Some _ \<Rightarrow> 1))
                           (split_byte data (CHR 0x0A))));
                    violations =
                      violations @
                      concat (map
                                (\<lambda>line.
                                  let line = trim_space line
                                  in if line = [] \<or> has_prefix line ''#'' then []
                                     else let fields = split_n 7 line (CHR '':'')
                                          in if int (length fields) < 6 then []
                                             else case atoi (fields ! 2) of
                                                      None \<Rightarrow> []
                                                    | Some uid \<Rightarrow>
                                                        (if uid < 1000 \<or> 65534 \<le> uid then []
                                                         else let homeDir = fields ! 5
                                                              in if (homeDir = [] \<or>
                                                                     homeDir = cisHomeNonexistent) \<or>
                                                                    homeDir = cisHomeDevNull
                                                                   then []
                                                                 else case Lstat env homeDir of
                                                                          None \<Rightarrow> []
                                                                        | Some fi \<Rightarrow>
                                                                            (let perm =
                                                                                   Perm
                                                                                     (file_Mode fi)
                                                                             in if perm AND 0b10010 \<noteq>
                                                                                   0
                                                                                  then [hd fields @
                                                                                        '' (home='' @
                                                                                        homeDir @
                                                                                        '', mode='' @
                                                                                        fmt_04o perm @
                                                                                        '')'']
                                                                                else [])))
                                (split_byte data (CHR 0x0A)))
                in if accessible = 0 then unverifiedr r cisSkipHomeDirsUnreadable
                   else if violations \<noteq> []
                     then (let shown = take (nat (min 3 (int (length violations)))) violations
                           in failr r
                                (itoa (int (length violations)) @
                                 '' home dir(s) are group/world writable: '' @ join shown ''; '')
                                ''chmod g-w,o-w <home> for each affected account'')
                   else cis_pass r))"

definition check_6_2_13 :: "cis_host \<Rightarrow> security_info \<Rightarrow> kernel_security_info \<Rightarrow> cis_result" where
  "check_6_2_13 env sec ks =
     (let r = ruleByID ''6.2.13''
      in case ReadFile env etcPasswdPath of
             None \<Rightarrow> unverifiedr r cisSkipPasswdUnreadable
           | Some data \<Rightarrow>
               (let violations = [];
                    checked =
                      wrap64
                        (sum_list (map
                           (\<lambda>line.
                             let line = trim_space line
                             in if line = [] \<or> has_prefix line ''#'' then 0
                                else let fields = split_n 7 line (CHR '':'')
                                     in if int (length fields) < 6 then 0
                                        else case atoi (fields ! 2) of
                                                 None \<Rightarrow> 0
                                               | Some uid \<Rightarrow>
                                                   (if uid < 1000 \<or> 65534 \<le> uid then 0
                                                    else let homeDir = fields ! 5
                                                         in if (homeDir = [] \<or>
                                                                homeDir = cisHomeNonexistent) \<or>
                                                               homeDir = cisHomeDevNull
                                                              then 0
                                                            else case ReadDir env homeDir of
                                                                     None \<Rightarrow> 0
                                                                   | Some _ \<Rightarrow> 1))
                           (split_byte data (CHR 0x0A))));
                    violations =
                      violations @
                      concat (map
                                (\<lambda>line.
                                  let line = trim_space line
                                  in if line = [] \<or> has_prefix line ''#'' then []
                                     else let fields = split_n 7 line (CHR '':'')
                                          in if int (length fields) < 6 then []
                                             else case atoi (fields ! 2) of
                                                      None \<Rightarrow> []
                                                    | Some uid \<Rightarrow>
                                                        (if uid < 1000 \<or> 65534 \<le> uid then []
                                                         else let homeDir = fields ! 5
                                                              in if (homeDir = [] \<or>
                                                                     homeDir = cisHomeNonexistent) \<or>
                                                                    homeDir = cisHomeDevNull
                                                                   then []
                                                                 else case ReadDir env homeDir of
                                                                          None \<Rightarrow> []
                                                                        | Some entries \<Rightarrow>
                                                                            concat (map
                                                                                      (\<lambda>e.
                                                                                        if \<not> has_prefix
                                                                                             (entry_Name
                                                                                                e)
                                                                                             ''.'' \<or>
                                                                                           entry_IsDir
                                                                                             e
                                                                                          then []
                                                                                        else case entry_Info
                                                                                               e of
                                                                                                 None \<Rightarrow>
                                                                                                   []
                                                                                               | Some fi \<Rightarrow>
                                                                                                   (if Perm
                                                                                                         (file_Mode
                                                                                                            fi) AND 0b10 \<noteq>
                                                                                                       0
                                                                                                      then [homeDir @
                                                                                                            ''/'' @
                                                                                                            entry_Name
                                                                                                              e @
                                                                                                            '' ('' @
                                                                                                            fmt_04o
                                                                                                              (Perm
                                                                                                                 (file_Mode
                                                                                                                    fi)) @
                                                                                                            '')'']
                                                                                                    else []))
                                                                                      entries)))
                                (split_byte data (CHR 0x0A)))
                in if checked = 0
                     then unverifiedr r
                            (''could not read any home directories '' @ em_dash @
                             '' run as root for complete check'')
                   else if violations \<noteq> []
                     then (let shown = take (nat (min 3 (int (length violations)))) violations
                           in failr r
                                (itoa (int (length violations)) @
                                 '' dot file(s) are world-writable: '' @ join shown ''; '')
                                ''chmod o-w <file> for each world-writable dot file in home directories'')
                   else cis_pass r))"

definition check_6_2_14 :: "cis_host \<Rightarrow> security_info \<Rightarrow> kernel_security_info \<Rightarrow> cis_result" where
  "check_6_2_14 env sec ks =
     (let r = ruleByID ''6.2.14''
      in case ReadFile env etcPasswdPath of
             None \<Rightarrow> unverifiedr r cisSkipPasswdUnreadable
           | Some data \<Rightarrow>
               (let found = [];
                    accessible =
                      wrap64
                        (sum_list (map
                           (\<lambda>line.
                             let line = trim_space line
                             in if line = [] \<or> has_prefix line ''#'' then 0
                                else let fields = split_n 7 line (CHR '':'')
                                     in if int (length fields) < 6 then 0
                                        else case atoi (fields ! 2) of
                                                 None \<Rightarrow> 0
                                               | Some uid \<Rightarrow>
                                                   (if uid < 1000 \<or> 65534 \<le> uid then 0
                                                    else let homeDir = fields ! 5
                                                         in if (homeDir = [] \<or>
                                                                homeDir = cisHomeNonexistent) \<or>
                                                               homeDir = cisHomeDevNull
                                                              then 0
                                                            else case Stat env homeDir of
                                                                     None \<Rightarrow> 0
                                                                   | Some _ \<Rightarrow> 1))
                           (split_byte data (CHR 0x0A))));
                    found =
                      found @
                      concat (map
                                (\<lambda>line.
                                  let line = trim_space line
                                  in if line = [] \<or> has_prefix line ''#'' then []
                                     else let fields = split_n 7 line (CHR '':'')
                                          in if int (length fields) < 6 then []
                                             else case atoi (fields ! 2) of
                                                      None \<Rightarrow> []
                                                    | Some uid \<Rightarrow>
                                                        (if uid < 1000 \<or> 65534 \<le> uid then []
                                                         else let homeDir = fields ! 5
                                                              in if (homeDir = [] \<or>
                                                                     homeDir = cisHomeNonexistent) \<or>
                                                                    homeDir = cisHomeDevNull
                                                                   then []
                                                                 else case Stat env homeDir of
                                                                          None \<Rightarrow> []
                                                                        | Some _ \<Rightarrow>
                                                                            (let fwd =
                                                                                   path_join
                                                                                     [homeDir,
                                                                                      ''.forward'']
                                                                             in case Stat env fwd of
                                                                                    None \<Rightarrow> []
                                                                                  | Some _ \<Rightarrow>
                                                                                      [hd fields @
                                                                                       '' ('' @
                                                                                       fwd @ '')''])))
                                (split_byte data (CHR 0x0A)))
                in if accessible = 0 then unverifiedr r cisSkipHomeDirsUnreadable
                   else if found \<noteq> []
                     then (let shown = take (nat (min 3 (int (length found)))) found
                           in failr r
                                (itoa (int (length found)) @ '' user(s) have .forward files: '' @
                                 join shown ''; '')
                                (''rm ~/.forward for each affected user '' @ em_dash @
                                 '' .forward files can be abused for mail relay''))
                   else cis_pass r))"

definition check_6_2_15 :: "cis_host \<Rightarrow> security_info \<Rightarrow> kernel_security_info \<Rightarrow> cis_result" where
  "check_6_2_15 env sec ks =
     (let r = ruleByID ''6.2.15''
      in case ReadFile env etcPasswdPath of
             None \<Rightarrow> unverifiedr r cisSkipPasswdUnreadable
           | Some data \<Rightarrow>
               (let found = [];
                    accessible =
                      wrap64
                        (sum_list (map
                           (\<lambda>line.
                             let line = trim_space line
                             in if line = [] \<or> has_prefix line ''#'' then 0
                                else let fields = split_n 7 line (CHR '':'')
                                     in if int (length fields) < 6 then 0
                                        else case atoi (fields ! 2) of
                                                 None \<Rightarrow> 0
                                               | Some uid \<Rightarrow>
                                                   (if uid < 1000 \<or> 65534 \<le> uid then 0
                                                    else let homeDir = fields ! 5
                                                         in if (homeDir = [] \<or>
                                                                homeDir = cisHomeNonexistent) \<or>
                                                               homeDir = cisHomeDevNull
                                                              then 0
                                                            else case Stat env homeDir of
                                                                     None \<Rightarrow> 0
                                                                   | Some _ \<Rightarrow> 1))
                           (split_byte data (CHR 0x0A))));
                    found =
                      found @
                      concat (map
                                (\<lambda>line.
                                  let line = trim_space line
                                  in if line = [] \<or> has_prefix line ''#'' then []
                                     else let fields = split_n 7 line (CHR '':'')
                                          in if int (length fields) < 6 then []
                                             else case atoi (fields ! 2) of
                                                      None \<Rightarrow> []
                                                    | Some uid \<Rightarrow>
                                                        (if uid < 1000 \<or> 65534 \<le> uid then []
                                                         else let homeDir = fields ! 5
                                                              in if (homeDir = [] \<or>
                                                                     homeDir = cisHomeNonexistent) \<or>
                                                                    homeDir = cisHomeDevNull
                                                                   then []
                                                                 else case Stat env homeDir of
                                                                          None \<Rightarrow> []
                                                                        | Some _ \<Rightarrow>
                                                                            (let netrc =
                                                                                   path_join
                                                                                     [homeDir,
                                                                                      ''.netrc'']
                                                                             in case Stat env netrc of
                                                                                    None \<Rightarrow> []
                                                                                  | Some _ \<Rightarrow>
                                                                                      [hd fields @
                                                                                       '' ('' @
                                                                                       netrc @
                                                                                       '')''])))
                                (split_byte data (CHR 0x0A)))
                in if accessible = 0 then unverifiedr r cisSkipHomeDirsUnreadable
                   else if found \<noteq> []
                     then (let shown = take (nat (min 3 (int (length found)))) found
                           in failr r
                                (itoa (int (length found)) @ '' user(s) have .netrc files: '' @
                                 join shown ''; '')
                                (''rm ~/.netrc for each affected user '' @ em_dash @
                                 '' .netrc stores plaintext FTP credentials''))
                   else cis_pass r))"

definition check_6_2_16 :: "cis_host \<Rightarrow> security_info \<Rightarrow> kernel_security_info \<Rightarrow> cis_result" where
  "check_6_2_16 env sec ks =
     (let r = ruleByID ''6.2.16''
      in case ReadFile env etcPasswdPath of
             None \<Rightarrow> unverifiedr r cisSkipPasswdUnreadable
           | Some data \<Rightarrow>
               (let found = [];
                    accessible =
                      wrap64
                        (sum_list (map
                           (\<lambda>line.
                             let line = trim_space line
                             in if line = [] \<or> has_prefix line ''#'' then 0
                                else let fields = split_n 7 line (CHR '':'')
                                     in if int (length fields) < 6 then 0
                                        else case atoi (fields ! 2) of
                                                 None \<Rightarrow> 0
                                               | Some uid \<Rightarrow>
                                                   (if uid < 1000 \<or> 65534 \<le> uid then 0
                                                    else let homeDir = fields ! 5
                                                         in if (homeDir = [] \<or>
                                                                homeDir = cisHomeNonexistent) \<or>
                                                               homeDir = cisHomeDevNull
                                                              then 0
                                                            else case Stat env homeDir of
                                                                     None \<Rightarrow> 0
                                                                   | Some _ \<Rightarrow> 1))
                           (split_byte data (CHR 0x0A))));
                    found =
                      found @
                      concat (map
                                (\<lambda>line.
                                  let line = trim_space line
                                  in if line = [] \<or> has_prefix line ''#'' then []
                                     else let fields = split_n 7 line (CHR '':'')
                                          in if int (length fields) < 6 then []
                                             else case atoi (fields ! 2) of
                                                      None \<Rightarrow> []
                                                    | Some uid \<Rightarrow>
                                                        (if uid < 1000 \<or> 65534 \<le> uid then []
                                                         else let homeDir = fields ! 5
                                                              in if (homeDir = [] \<or>
                                                                     homeDir = cisHomeNonexistent) \<or>
                                                                    homeDir = cisHomeDevNull
                                                                   then []
                                                                 else case Stat env homeDir of
                                                                          None \<Rightarrow> []
                                                                        | Some _ \<Rightarrow>
                                                                            (let rhosts =
                                                                                   path_join
                                                                                     [homeDir,
                                                                                      ''.rhosts'']
                                                                             in case Stat env rhosts of
                                                                                    None \<Rightarrow> []
                                                                                  | Some _ \<Rightarrow>
                                                                                      [hd fields @
                                                                                       '' ('' @
                                                                                       rhosts @
                                                                                       '')''])))
                                (split_byte data (CHR 0x0A)))
                in if accessible = 0 then unverifiedr r cisSkipHomeDirsUnreadable
                   else if found \<noteq> []
                     then (let shown = take (nat (min 3 (int (length found)))) found
                           in failr r
                                (itoa (int (length found)) @ '' user(s) have .rhosts files: '' @
                                 join shown ''; '')
                                (''rm ~/.rhosts for each affected user '' @ em_dash @
                                 '' .rhosts enables passwordless rsh/rlogin (insecure legacy protocol)''))
                   else cis_pass r))"

definition check_6_2_17 :: "cis_host \<Rightarrow> security_info \<Rightarrow> kernel_security_info \<Rightarrow> cis_result" where
  "check_6_2_17 env sec ks =
     (let r = ruleByID ''6.2.17''
      in case ReadFile env etcGroupPath of
             None \<Rightarrow> unverifiedr r cisSkipGroupUnreadable
           | Some grpData \<Rightarrow>
               (let knownGIDs = [];
                    knownGIDs =
                      foldl
                        (\<lambda>knownGIDs line.
                          let line = trim_space line
                          in if line = [] \<or> has_prefix line ''#'' then knownGIDs
                             else let fields = split_n 4 line (CHR '':'')
                                  in if int (length fields) < 3 then knownGIDs
                                     else case atoi (fields ! 2) of
                                              None \<Rightarrow> knownGIDs
                                            | Some gid \<Rightarrow> map_put knownGIDs gid True)
                        knownGIDs
                        (split_byte grpData (CHR 0x0A))
                in case ReadFile env etcPasswdPath of
                       None \<Rightarrow> unverifiedr r cisSkipPasswdUnreadable
                     | Some pwData \<Rightarrow>
                         (let missing =
                                concat (map
                                          (\<lambda>line.
                                            let line = trim_space line
                                            in if line = [] \<or> has_prefix line ''#'' then []
                                               else let fields = split_n 7 line (CHR '':'')
                                                    in if int (length fields) < 4 then []
                                                       else case atoi (fields ! 3) of
                                                                None \<Rightarrow> []
                                                              | Some gid \<Rightarrow>
                                                                  (if \<not> map_get False knownGIDs gid
                                                                     then [hd fields @ '' (GID '' @
                                                                           itoa gid @ '')'']
                                                                   else []))
                                          (split_byte pwData (CHR 0x0A)))
                          in if missing \<noteq> []
                               then (let shown = take (nat (min 3 (int (length missing)))) missing
                                     in failr r
                                          (itoa (int (length missing)) @
                                           '' user(s) reference undefined GID(s): '' @
                                           join shown ''; '')
                                          ''add the missing group to /etc/group or assign users to an existing group'')
                             else cis_pass r)))"

definition check_6_2_18 :: "cis_host \<Rightarrow> security_info \<Rightarrow> kernel_security_info \<Rightarrow> cis_result" where
  "check_6_2_18 env sec ks =
     (let r = ruleByID ''6.2.18''
      in case ReadFile env etcGroupPath of
             None \<Rightarrow> unverifiedr r cisSkipGroupUnreadable
           | Some data \<Rightarrow>
               (case first_some
                  (\<lambda>line.
                    let line = trim_space line
                    in if line = [] \<or> has_prefix line ''#'' then None
                       else let fields = split_n 4 line (CHR '':'')
                            in if int (length fields) < 4 \<or> hd fields \<noteq> ''shadow'' then None
                               else let members = trim_space (fields ! 3)
                                    in if members = [] then Some (cis_pass r)
                                       else let parts = split_byte members (CHR '','');
                                                shown = members;
                                                shown =
                                                  (if 3 < int (length parts)
                                                     then join (take (nat 3) parts) '','' @
                                                          [CHR 0xE2, CHR 0x80, CHR 0xA6]
                                                   else shown)
                                            in Some (failr r
                                                       (''shadow group has members: '' @ shown)
                                                       (''remove all users from the shadow group in /etc/group '' @
                                                        em_dash @
                                                        '' membership grants read access to /etc/shadow'')))
                  (split_byte data (CHR 0x0A)) of
                    Some c \<Rightarrow> c
                  | None \<Rightarrow> cis_pass r))"


section \<open>Conformance\<close>

lemma check_6_2_1_conforms [conforming]: "conforms (ruleByID ''6.2.1'') (check_6_2_1 sec ks)"
  unfolding check_6_2_1_def by (intro conforms_rules conforming; (simp; fail)?)

lemma check_6_2_2_conforms [conforming]: "conforms (ruleByID ''6.2.2'') (check_6_2_2 env sec ks)"
  unfolding check_6_2_2_def by (intro conforms_rules conforming; (simp; fail)?)

lemma check_6_2_3_conforms [conforming]: "conforms (ruleByID ''6.2.3'') (check_6_2_3 sec ks)"
  unfolding check_6_2_3_def by (intro conforms_rules conforming; (simp; fail)?)

lemma check_6_2_4_conforms [conforming]: "conforms (ruleByID ''6.2.4'') (check_6_2_4 sec ks)"
  unfolding check_6_2_4_def by (intro conforms_rules conforming; (simp; fail)?)

lemma check_6_2_5_conforms [conforming]: "conforms (ruleByID ''6.2.5'') (check_6_2_5 env sec ks)"
  unfolding check_6_2_5_def by (intro conforms_rules conforming; (simp; fail)?)

lemma check_6_2_6_conforms [conforming]: "conforms (ruleByID ''6.2.6'') (check_6_2_6 env sec ks)"
  unfolding check_6_2_6_def by (intro conforms_rules conforming; (simp; fail)?)

lemma check_6_2_7_conforms [conforming]: "conforms (ruleByID ''6.2.7'') (check_6_2_7 env sec ks)"
  unfolding check_6_2_7_def by (intro conforms_rules conforming; (simp; fail)?)

lemma check_6_2_8_conforms [conforming]: "conforms (ruleByID ''6.2.8'') (check_6_2_8 env sec ks)"
  unfolding check_6_2_8_def by (intro conforms_rules conforming; (simp; fail)?)

lemma check_6_2_9_conforms [conforming]: "conforms (ruleByID ''6.2.9'') (check_6_2_9 env sec ks)"
  unfolding check_6_2_9_def by (intro conforms_rules conforming; (simp; fail)?)

lemma check_6_2_10_conforms [conforming]: "conforms (ruleByID ''6.2.10'') (check_6_2_10 env sec ks)"
  unfolding check_6_2_10_def by (intro conforms_rules conforming; (simp; fail)?)

lemma check_6_2_11_conforms [conforming]: "conforms (ruleByID ''6.2.11'') (check_6_2_11 env sec ks)"
  unfolding check_6_2_11_def by (intro conforms_rules conforming; (simp; fail)?)

lemma check_6_2_12_conforms [conforming]: "conforms (ruleByID ''6.2.12'') (check_6_2_12 env sec ks)"
  unfolding check_6_2_12_def by (intro conforms_rules conforming; (simp; fail)?)

lemma check_6_2_13_conforms [conforming]: "conforms (ruleByID ''6.2.13'') (check_6_2_13 env sec ks)"
  unfolding check_6_2_13_def by (intro conforms_rules conforming; (simp; fail)?)

lemma check_6_2_14_conforms [conforming]: "conforms (ruleByID ''6.2.14'') (check_6_2_14 env sec ks)"
  unfolding check_6_2_14_def by (intro conforms_rules conforming; (simp; fail)?)

lemma check_6_2_15_conforms [conforming]: "conforms (ruleByID ''6.2.15'') (check_6_2_15 env sec ks)"
  unfolding check_6_2_15_def by (intro conforms_rules conforming; (simp; fail)?)

lemma check_6_2_16_conforms [conforming]: "conforms (ruleByID ''6.2.16'') (check_6_2_16 env sec ks)"
  unfolding check_6_2_16_def by (intro conforms_rules conforming; (simp; fail)?)

lemma check_6_2_17_conforms [conforming]: "conforms (ruleByID ''6.2.17'') (check_6_2_17 env sec ks)"
  unfolding check_6_2_17_def by (intro conforms_rules conforming; (simp; fail)?)

lemma check_6_2_18_conforms [conforming]: "conforms (ruleByID ''6.2.18'') (check_6_2_18 env sec ks)"
  unfolding check_6_2_18_def by (intro conforms_rules conforming; (simp; fail)?)

end
