(* ===== verification/Cis_Report.thy ===== *)
theory Cis_Report
  imports Cis_Ssh Cis_Network Cis_Files Cis_Audit Cis_Auth Cis_Users
begin

text \<open>
  \<open>Evaluate\<close> of internal/cis/rules.go, the distribution-specific remedies of remediation.go, and the groups of
  nis2.go and bsi.go.
\<close>

section \<open>Frameworks\<close>

record nis2_article21 =
  article_ID :: gostring
  article_Title :: gostring
  article_Scope :: gostring

record bsi_requirement =
  bsiReq_ID :: gostring
  bsiReq_Title :: gostring
  bsiReq_Level :: gostring
  bsiReq_English :: gostring

record bsi_baustein =
  baustein_ID :: gostring
  baustein_Title :: gostring
  baustein_English :: gostring
  baustein_Requirements :: "bsi_requirement list"

definition bsiSys13A2 :: gostring where
  "bsiSys13A2 = ''SYS.1.3.A2''"

definition bsiSys13A3 :: gostring where
  "bsiSys13A3 = ''SYS.1.3.A3''"

definition bsiSys13A4 :: gostring where
  "bsiSys13A4 = ''SYS.1.3.A4''"

definition bsiSys13A5 :: gostring where
  "bsiSys13A5 = ''SYS.1.3.A5''"

definition bsiSys13A6 :: gostring where
  "bsiSys13A6 = ''SYS.1.3.A6''"

definition bsiSys13A8 :: gostring where
  "bsiSys13A8 = ''SYS.1.3.A8''"

definition bsiSys13A10 :: gostring where
  "bsiSys13A10 = ''SYS.1.3.A10''"

definition bsiSys13A14 :: gostring where
  "bsiSys13A14 = ''SYS.1.3.A14''"

definition bsiSys11A2 :: gostring where
  "bsiSys11A2 = ''SYS.1.1.A2''"

definition bsiSys11A5 :: gostring where
  "bsiSys11A5 = ''SYS.1.1.A5''"

definition bsiSys11A6 :: gostring where
  "bsiSys11A6 = ''SYS.1.1.A6''"

definition bsiSys11A10 :: gostring where
  "bsiSys11A10 = ''SYS.1.1.A10''"

definition bsiSys11A16 :: gostring where
  "bsiSys11A16 = ''SYS.1.1.A16''"

definition bsiSys11A19 :: gostring where
  "bsiSys11A19 = ''SYS.1.1.A19''"

definition bsiSys11A27 :: gostring where
  "bsiSys11A27 = ''SYS.1.1.A27''"

definition bsiOps113A10 :: gostring where
  "bsiOps113A10 = ''OPS.1.1.3.A10''"

definition bsiOps115A4 :: gostring where
  "bsiOps115A4 = ''OPS.1.1.5.A4''"

definition nis2ArticleB :: gostring where
  "nis2ArticleB = ''Art.21(2)(b)''"

definition nis2ArticleD :: gostring where
  "nis2ArticleD = ''Art.21(2)(d)''"

definition nis2ArticleE :: gostring where
  "nis2ArticleE = ''Art.21(2)(e)''"

definition nis2ArticleG :: gostring where
  "nis2ArticleG = ''Art.21(2)(g)''"

definition nis2ArticleH :: gostring where
  "nis2ArticleH = ''Art.21(2)(h)''"

definition nis2ArticleI :: gostring where
  "nis2ArticleI = ''Art.21(2)(i)''"

definition nis2ArticleJ :: gostring where
  "nis2ArticleJ = ''Art.21(2)(j)''"

definition BSIBausteine :: "bsi_baustein list" where
  "BSIBausteine =
     [\<lparr>baustein_ID = ''SYS.1.3'', baustein_Title = ''Server unter Linux und Unix'',
       baustein_English = ''Servers under Linux and Unix'',
       baustein_Requirements =
         [\<lparr>bsiReq_ID = bsiSys13A2,
           bsiReq_Title = ''Sorgf'' @ [CHR 0xC3, CHR 0xA4] @ ''ltige Vergabe von IDs'',
           bsiReq_Level = ''B'', bsiReq_English = ''Careful assignment of user and group IDs''\<rparr>,
          \<lparr>bsiReq_ID = bsiSys13A3,
           bsiReq_Title = ''Kein automatisches Einbinden von Wechsellaufwerken'',
           bsiReq_Level = ''B'', bsiReq_English = ''No automatic mounting of removable media''\<rparr>,
          \<lparr>bsiReq_ID = bsiSys13A4, bsiReq_Title = ''Schutz vor Ausnutzung von Schwachstellen'',
           bsiReq_Level = ''B'',
           bsiReq_English =
             ''Protection against exploitation of vulnerabilities (ASLR, NX, kernel hardening)''\<rparr>,
          \<lparr>bsiReq_ID = bsiSys13A5, bsiReq_Title = ''Sichere Installation von Software-Paketen'',
           bsiReq_Level = ''B'',
           bsiReq_English =
             ''Secure installation of software packages (signed repos, integrity checking)''\<rparr>,
          \<lparr>bsiReq_ID = bsiSys13A6, bsiReq_Title = ''Verwaltung von Benutzern und Gruppen'',
           bsiReq_Level = ''S'',
           bsiReq_English = ''Management of users and groups (tools, file permissions)''\<rparr>,
          \<lparr>bsiReq_ID = bsiSys13A8,
           bsiReq_Title =
             ''Verschl'' @ [CHR 0xC3, CHR 0xBC] @ ''sselter Zugriff '' @ [CHR 0xC3, CHR 0xBC] @
             ''ber Secure Shell'', bsiReq_Level = ''S'',
           bsiReq_English =
             ''Encrypted access via Secure Shell (SSH-only, legacy protocols disabled)''\<rparr>,
          \<lparr>bsiReq_ID = bsiSys13A10,
           bsiReq_Title = ''Verhinderung der Ausbreitung bei Schwachstellen'', bsiReq_Level = ''S'',
           bsiReq_English =
             ''Prevention of lateral movement (MAC: AppArmor / SELinux in enforcing mode)''\<rparr>,
          \<lparr>bsiReq_ID = bsiSys13A14,
           bsiReq_Title =
             ''Verhinderung des Aussp'' @ [CHR 0xC3, CHR 0xA4] @ ''hens von Systeminformationen'',
           bsiReq_Level = ''H'',
           bsiReq_English =
             ''Prevention of system information leakage (dmesg, kptr, ptrace restrictions)''\<rparr>,
          \<lparr>bsiReq_ID = ''SYS.1.3.A16'',
           bsiReq_Title = ''Zus'' @ [CHR 0xC3, CHR 0xA4] @ ''tzliche Verhinderung der Ausbreitung'',
           bsiReq_Level = ''H'',
           bsiReq_English =
             ''Additional lateral-movement prevention (seccomp per service) '' @ em_dash @
             '' no automated OS check''\<rparr>,
          \<lparr>bsiReq_ID = ''SYS.1.3.A17'',
           bsiReq_Title = ''Zus'' @ [CHR 0xC3, CHR 0xA4] @ ''tzlicher Schutz des Kernels'',
           bsiReq_Level = ''H'',
           bsiReq_English =
             ''Additional kernel hardening (grsecurity / PaX) '' @ em_dash @
             '' no automated OS check''\<rparr>]\<rparr>,
      \<lparr>baustein_ID = ''SYS.1.1'', baustein_Title = ''Allgemeiner Server'',
       baustein_English = ''General Server'',
       baustein_Requirements =
         [\<lparr>bsiReq_ID = bsiSys11A2, bsiReq_Title = ''Benutzerauthentisierung an Servern'',
           bsiReq_Level = ''B'',
           bsiReq_English = ''User authentication on servers (PAM, sudo, session controls)''\<rparr>,
          \<lparr>bsiReq_ID = bsiSys11A5, bsiReq_Title = ''Schutz von Schnittstellen'',
           bsiReq_Level = ''B'',
           bsiReq_English = ''Interface protection (wireless disabled, removable media restricted)''\<rparr>,
          \<lparr>bsiReq_ID = bsiSys11A6,
           bsiReq_Title = ''Deaktivierung nicht ben'' @ [CHR 0xC3, CHR 0xB6] @ ''tigter Dienste'',
           bsiReq_Level = ''B'',
           bsiReq_English = ''Deactivation of unnecessary services and daemons''\<rparr>,
          \<lparr>bsiReq_ID = ''SYS.1.1.A9'', bsiReq_Title = ''Einsatz von Virenschutz-Programmen'',
           bsiReq_Level = ''B'',
           bsiReq_English =
             ''Use of antivirus/malware protection '' @ em_dash @ '' no direct OS-level check''\<rparr>,
          \<lparr>bsiReq_ID = bsiSys11A10, bsiReq_Title = ''Protokollierung'', bsiReq_Level = ''B'',
           bsiReq_English =
             ''Logging of security-relevant system events (auditd, rsyslog, logrotate)''\<rparr>,
          \<lparr>bsiReq_ID = bsiSys11A16, bsiReq_Title = ''Sichere Grundkonfiguration von Servern'',
           bsiReq_Level = ''S'',
           bsiReq_English =
             ''Secure base configuration (network sysctls, filesystem mount hardening)''\<rparr>,
          \<lparr>bsiReq_ID = bsiSys11A19, bsiReq_Title = ''Einrichtung lokaler Paketfilter'',
           bsiReq_Level = ''S'',
           bsiReq_English = ''Local packet filter (firewall: UFW / iptables / nftables)''\<rparr>,
          \<lparr>bsiReq_ID = bsiSys11A27, bsiReq_Title = ''Hostbasierte Angriffserkennung'',
           bsiReq_Level = ''H'',
           bsiReq_English = ''Host-based intrusion detection (AIDE file integrity monitoring)''\<rparr>,
          \<lparr>bsiReq_ID = ''SYS.1.1.A33'', bsiReq_Title = ''Aktive Verwaltung der Wurzelzertifikate'',
           bsiReq_Level = ''H'',
           bsiReq_English =
             ''Root certificate management '' @ em_dash @ '' no automated OS-level check''\<rparr>,
          \<lparr>bsiReq_ID = ''SYS.1.1.A34'',
           bsiReq_Title = ''Festplattenverschl'' @ [CHR 0xC3, CHR 0xBC] @ ''sselung'',
           bsiReq_Level = ''H'',
           bsiReq_English = ''Disk encryption (LUKS) '' @ em_dash @ '' no automated OS-level check''\<rparr>,
          \<lparr>bsiReq_ID = ''SYS.1.1.A36'', bsiReq_Title = ''Absicherung des Bootvorgangs'',
           bsiReq_Level = ''H'',
           bsiReq_English =
             ''Boot process hardening (Secure Boot) '' @ em_dash @ '' no automated OS-level check''\<rparr>]\<rparr>,
      \<lparr>baustein_ID = ''OPS.1.1'',
       baustein_Title =
         ''Ordnungsgem'' @ [CHR 0xC3, CHR 0xA4] @ [CHR 0xC3, CHR 0x9F] @ ''e IT-Administration'',
       baustein_English = ''Proper IT Administration (Patch / Change / Logging)'',
       baustein_Requirements =
         [\<lparr>bsiReq_ID = ''OPS.1.1.3.A3'',
           bsiReq_Title = ''Konfiguration von Autoupdate-Mechanismen'', bsiReq_Level = ''S'',
           bsiReq_English =
             ''Configuration of auto-update mechanisms (unattended-upgrades / dnf-automatic)''\<rparr>,
          \<lparr>bsiReq_ID = bsiOps113A10,
           bsiReq_Title =
             ''Sicherstellung der Integrit'' @ [CHR 0xC3, CHR 0xA4] @ ''t und Authentizit'' @
             [CHR 0xC3, CHR 0xA4] @ ''t von Softwarepaketen'', bsiReq_Level = ''B'',
           bsiReq_English =
             ''Package signing and authenticity verification (GPG keys, no unauthenticated packages)''\<rparr>,
          \<lparr>bsiReq_ID = bsiOps115A4, bsiReq_Title = ''Zeitsynchronisation der IT-Systeme'',
           bsiReq_Level = ''B'',
           bsiReq_English = ''Time synchronisation (NTP / chrony / systemd-timesyncd)''\<rparr>]\<rparr>]"

definition bsiMapping :: "(gostring, gostring list) gomap" where
  "bsiMapping =
     [(''6.2.1'', [bsiSys13A2]), (''6.2.3'', [bsiSys13A2]), (''6.2.4'', [bsiSys13A2]),
      (''6.2.5'', [bsiSys13A2]), (''6.2.6'', [bsiSys13A2]), (''6.2.7'', [bsiSys13A2]),
      (''6.2.8'', [bsiSys13A2]), (''6.2.9'', [bsiSys13A2]), (''6.2.17'', [bsiSys13A2]),
      (''6.2.18'', [bsiSys13A2]), (''1.1.19'', [bsiSys13A3]), (''1.1.20'', [bsiSys13A3]),
      (''1.1.21'', [bsiSys13A3]), (''3.6.1'', [bsiSys13A3, bsiSys11A5]), (''1.5.1'', [bsiSys13A4]),
      (''1.5.2'', [bsiSys13A4]), (''1.5.3'', [bsiSys13A4]), (''1.5.4'', [bsiSys13A4]),
      (''1.5.5'', [bsiSys13A4]), (''1.5.6'', [bsiSys13A4]), (''1.5.11'', [bsiSys13A4]),
      (''1.5.12'', [bsiSys13A4]), (''1.5.16'', [bsiSys13A4]), (''1.5.17'', [bsiSys13A4]),
      (''1.5.18'', [bsiSys13A4]), (''1.2.1'', [bsiSys13A5, bsiOps113A10]),
      (''1.2.2'', [bsiSys13A5, bsiOps113A10]), (''1.2.3'', [bsiSys13A5, bsiOps113A10]),
      (''1.2.4'', [bsiSys13A5, ''OPS.1.1.3.A3'']), (''1.3.1'', [bsiSys13A5, bsiSys11A27]),
      (''1.3.2'', [bsiSys13A5, bsiSys11A27]), (''5.3.1'', [bsiSys13A6]), (''5.3.2'', [bsiSys13A6]),
      (''5.3.3'', [bsiSys13A6]), (''6.1.1'', [bsiSys13A6]), (''6.1.2'', [bsiSys13A6]),
      (''6.1.3'', [bsiSys13A6]), (''6.1.9'', [bsiSys13A6]), (''6.1.10'', [bsiSys13A6]),
      (''6.1.11'', [bsiSys13A6]), (''6.1.14'', [bsiSys13A6]), (''6.2.2'', [bsiSys13A6]),
      (''5.2.2'', [bsiSys13A8]), (''5.2.3'', [bsiSys13A8]), (''5.2.4'', [bsiSys13A8]),
      (''5.2.5'', [bsiSys13A8]), (''5.2.6'', [bsiSys13A8]), (''5.2.7'', [bsiSys13A8]),
      (''5.2.8'', [bsiSys13A8]), (''5.2.9'', [bsiSys13A8]), (''5.2.10'', [bsiSys13A8]),
      (''5.2.11'', [bsiSys13A8]), (''5.2.12'', [bsiSys13A8]), (''5.2.13'', [bsiSys13A8]),
      (''5.2.14'', [bsiSys13A8]), (''5.2.15'', [bsiSys13A8]), (''5.2.16'', [bsiSys13A8]),
      (''5.2.17'', [bsiSys13A8]), (''5.2.18'', [bsiSys13A8]), (''5.2.19'', [bsiSys13A8]),
      (''5.2.20'', [bsiSys13A8]), (''5.2.21'', [bsiSys13A8]), (''5.2.22'', [bsiSys13A8]),
      (''5.2.23'', [bsiSys13A8]), (''5.2.24'', [bsiSys13A8]), (''5.2.25'', [bsiSys13A8]),
      (''5.2.26'', [bsiSys13A8]), (''5.2.27'', [bsiSys13A8]), (''5.2.28'', [bsiSys13A8]),
      (''5.2.29'', [bsiSys13A8]), (''5.2.30'', [bsiSys13A8]), (''2.2.2'', [bsiSys13A8]),
      (''2.2.4'', [bsiSys13A8]), (''1.6.1'', [bsiSys13A10]), (''1.6.2'', [bsiSys13A10]),
      (''1.6.3'', [bsiSys13A10]), (''1.6.4'', [bsiSys13A10]), (''3.3.1'', [bsiSys13A10]),
      (''3.3.2'', [bsiSys13A10]), (''1.5.7'', [bsiSys13A14]), (''1.5.8'', [bsiSys13A14]),
      (''1.5.9'', [bsiSys13A14]), (''1.5.10'', [bsiSys13A14]), (''1.5.14'', [bsiSys13A14]),
      (''1.5.15'', [bsiSys13A14]), (''4.2.7'', [bsiSys13A14]), (''6.1.6'', [bsiSys13A14]),
      (''6.1.17'', [bsiSys13A14]), (''1.7.1'', [bsiSys13A14]), (''1.7.2'', [bsiSys13A14]),
      (''1.7.3'', [bsiSys13A14]), (''1.7.4'', [bsiSys13A14]), (''1.7.5'', [bsiSys13A14]),
      (''1.7.6'', [bsiSys13A14]), (''1.7.7'', [bsiSys13A14]), (''1.7.8'', [bsiSys13A14]),
      (''1.7.9'', [bsiSys13A14]), (''5.3.4'', [bsiSys11A2]), (''5.3.5'', [bsiSys11A2]),
      (''5.4.1'', [bsiSys11A2]), (''5.4.2'', [bsiSys11A2]), (''5.4.3'', [bsiSys11A2]),
      (''5.4.4'', [bsiSys11A2]), (''5.4.5'', [bsiSys11A2]), (''5.4.6'', [bsiSys11A2]),
      (''5.4.7'', [bsiSys11A2]), (''5.4.8'', [bsiSys11A2]), (''5.4.9'', [bsiSys11A2]),
      (''5.4.10'', [bsiSys11A2]), (''5.4.11'', [bsiSys11A2]), (''5.4.12'', [bsiSys11A2]),
      (''5.4.13'', [bsiSys11A2]), (''5.4.14'', [bsiSys11A2]), (''5.4.15'', [bsiSys11A2]),
      (''5.4.16'', [bsiSys11A2]), (''5.4.17'', [bsiSys11A2]), (''5.5.1'', [bsiSys11A2]),
      (''5.5.2'', [bsiSys11A2]), (''5.5.3'', [bsiSys11A2]), (''5.5.4'', [bsiSys11A2]),
      (''6.1.18'', [bsiSys11A2]), (''6.1.19'', [bsiSys11A2]), (''6.1.20'', [bsiSys11A2]),
      (''1.1.1.1'', [bsiSys11A5]), (''1.1.1.2'', [bsiSys11A5]), (''1.1.1.3'', [bsiSys11A5]),
      (''1.1.1.4'', [bsiSys11A5]), (''1.1.1.5'', [bsiSys11A5]), (''1.1.1.6'', [bsiSys11A5]),
      (''1.1.1.7'', [bsiSys11A5]), (''2.2.1'', [bsiSys11A6]), (''2.2.3'', [bsiSys11A6]),
      (''2.2.5'', [bsiSys11A6]), (''2.3.1'', [bsiSys11A6]), (''2.3.2'', [bsiSys11A6]),
      (''2.3.3'', [bsiSys11A6]), (''2.3.4'', [bsiSys11A6]), (''2.3.5'', [bsiSys11A6]),
      (''2.3.6'', [bsiSys11A6]), (''2.3.7'', [bsiSys11A6]), (''2.3.8'', [bsiSys11A6]),
      (''2.3.9'', [bsiSys11A6]), (''2.3.10'', [bsiSys11A6]), (''2.3.11'', [bsiSys11A6]),
      (''2.3.12'', [bsiSys11A6]), (''2.3.13'', [bsiSys11A6]), (''2.3.14'', [bsiSys11A6]),
      (''2.3.15'', [bsiSys11A6]), (''2.3.16'', [bsiSys11A6]), (''3.4.1'', [bsiSys11A6]),
      (''3.4.2'', [bsiSys11A6]), (''3.4.3'', [bsiSys11A6]), (''3.4.4'', [bsiSys11A6]),
      (''3.4.5'', [bsiSys11A6]), (''4.1.1.1'', [bsiSys11A10]), (''4.1.1.2'', [bsiSys11A10]),
      (''4.1.1.3'', [bsiSys11A10]), (''4.1.1.4'', [bsiSys11A10]), (''4.1.1.5'', [bsiSys11A10]),
      (''4.1.2'', [bsiSys11A10]), (''4.1.3'', [bsiSys11A10]), (''4.1.4'', [bsiSys11A10]),
      (''4.1.5'', [bsiSys11A10]), (''4.1.6'', [bsiSys11A10]), (''4.1.7'', [bsiSys11A10]),
      (''4.1.8'', [bsiSys11A10]), (''4.1.9'', [bsiSys11A10]), (''4.1.10'', [bsiSys11A10]),
      (''4.1.11'', [bsiSys11A10]), (''4.1.12'', [bsiSys11A10]), (''4.1.13'', [bsiSys11A10]),
      (''4.1.14'', [bsiSys11A10]), (''4.1.15'', [bsiSys11A10]), (''4.1.16'', [bsiSys11A10]),
      (''4.1.17'', [bsiSys11A10]), (''4.2.1'', [bsiSys11A10]), (''4.2.2'', [bsiSys11A10]),
      (''4.2.2.2'', [bsiSys11A10]), (''4.2.2.3'', [bsiSys11A10]), (''4.2.3'', [bsiSys11A10]),
      (''4.2.4'', [bsiSys11A10]), (''4.2.5'', [bsiSys11A10]), (''4.2.6'', [bsiSys11A10]),
      (''4.3.1'', [bsiSys11A10]), (''3.1.1'', [bsiSys11A16]), (''3.1.2'', [bsiSys11A16]),
      (''3.1.3'', [bsiSys11A16]), (''3.2.1'', [bsiSys11A16]), (''3.2.2'', [bsiSys11A16]),
      (''3.2.3'', [bsiSys11A16]), (''3.2.4'', [bsiSys11A16]), (''3.2.5'', [bsiSys11A16]),
      (''3.2.6'', [bsiSys11A16]), (''3.2.7'', [bsiSys11A16]), (''3.2.8'', [bsiSys11A16]),
      (''3.2.9'', [bsiSys11A16]), (''3.2.10'', [bsiSys11A16]), (''3.2.11'', [bsiSys11A16]),
      (''3.2.12'', [bsiSys11A16]), (''3.2.13'', [bsiSys11A16]), (''3.2.14'', [bsiSys11A16]),
      (''3.2.15'', [bsiSys11A16]), (''3.2.16'', [bsiSys11A16]), (''3.2.17'', [bsiSys11A16]),
      (''3.2.18'', [bsiSys11A16]), (''3.2.22'', [bsiSys11A16]), (''3.2.23'', [bsiSys11A16]),
      (''3.2.24'', [bsiSys11A16]), (''3.2.25'', [bsiSys11A16]), (''3.2.26'', [bsiSys11A16]),
      (''3.2.27'', [bsiSys11A16]), (''3.2.28'', [bsiSys11A16]), (''3.2.29'', [bsiSys11A16]),
      (''3.2.30'', [bsiSys11A16]), (''3.2.31'', [bsiSys11A16]), (''3.2.32'', [bsiSys11A16]),
      (''3.2.33'', [bsiSys11A16]), (''3.2.34'', [bsiSys11A16]), (''3.2.35'', [bsiSys11A16]),
      (''3.2.36'', [bsiSys11A16]), (''3.2.37'', [bsiSys11A16]), (''3.2.38'', [bsiSys11A16]),
      (''3.2.39'', [bsiSys11A16]), (''1.1.2'', [bsiSys11A16]), (''1.1.3'', [bsiSys11A16]),
      (''1.1.4'', [bsiSys11A16]), (''1.1.5'', [bsiSys11A16]), (''1.1.6'', [bsiSys11A16]),
      (''1.1.7'', [bsiSys11A16]), (''1.1.8'', [bsiSys11A16]), (''1.1.9'', [bsiSys11A16]),
      (''1.1.10'', [bsiSys11A16]), (''1.1.11'', [bsiSys11A16]), (''1.1.12'', [bsiSys11A16]),
      (''1.1.13'', [bsiSys11A16]), (''1.1.14'', [bsiSys11A16]), (''1.1.15'', [bsiSys11A16]),
      (''1.1.16'', [bsiSys11A16]), (''1.1.17'', [bsiSys11A16]), (''1.1.18'', [bsiSys11A16]),
      (''1.1.22'', [bsiSys11A16]), (''1.1.23'', [bsiSys11A16]), (''1.1.24'', [bsiSys11A16]),
      (''1.1.25'', [bsiSys11A16]), (''1.1.26'', [bsiSys11A16]), (''1.1.27'', [bsiSys11A16]),
      (''1.1.28'', [bsiSys11A16]), (''1.1.29'', [bsiSys11A16]), (''1.1.30'', [bsiSys11A16]),
      (''1.1.31'', [bsiSys11A16]), (''1.1.32'', [bsiSys11A16]), (''6.1.23'', [bsiSys11A16]),
      (''6.1.24'', [bsiSys11A16]), (''6.1.25'', [bsiSys11A16]), (''6.1.26'', [bsiSys11A16]),
      (''6.1.27'', [bsiSys11A16]), (''6.1.28'', [bsiSys11A16]), (''6.1.29'', [bsiSys11A16]),
      (''6.1.30'', [bsiSys11A16]), (''6.1.31'', [bsiSys11A16]), (''6.1.32'', [bsiSys11A16]),
      (''6.1.33'', [bsiSys11A16]), (''6.1.34'', [bsiSys11A16]), (''6.1.35'', [bsiSys11A16]),
      (''6.1.36'', [bsiSys11A16]), (''6.1.37'', [bsiSys11A16]), (''6.1.38'', [bsiSys11A16]),
      (''6.2.10'', [bsiSys11A16]), (''6.2.11'', [bsiSys11A16]), (''6.2.12'', [bsiSys11A16]),
      (''6.2.13'', [bsiSys11A16]), (''6.2.14'', [bsiSys11A16]), (''6.2.15'', [bsiSys11A16]),
      (''6.2.16'', [bsiSys11A16]), (''3.5.1'', [bsiSys11A19]), (''3.5.1.1'', [bsiSys11A19]),
      (''3.5.1.2'', [bsiSys11A19]), (''3.5.1.3'', [bsiSys11A19]), (''3.5.1.4'', [bsiSys11A19]),
      (''3.5.1.5'', [bsiSys11A19]), (''3.5.1.6'', [bsiSys11A19]), (''3.5.1.7'', [bsiSys11A19]),
      (''2.1.1'', [bsiOps115A4]), (''2.1.2'', [bsiOps115A4])]"

definition NIS2Articles :: "nis2_article21 list" where
  "NIS2Articles =
     [\<lparr>article_ID = ''Art.21(2)(a)'', article_Title = ''Risk analysis'',
       article_Scope = ''Policies on risk analysis and information system security''\<rparr>,
      \<lparr>article_ID = nis2ArticleB, article_Title = ''Incident handling'',
       article_Scope = ''Detection, reporting and response to cybersecurity incidents''\<rparr>,
      \<lparr>article_ID = ''Art.21(2)(c)'', article_Title = ''Business continuity'',
       article_Scope = ''Backup management, disaster recovery and crisis management''\<rparr>,
      \<lparr>article_ID = nis2ArticleD, article_Title = ''Supply chain security'',
       article_Scope =
         ''Security in the supply chain including software and third-party components''\<rparr>,
      \<lparr>article_ID = nis2ArticleE, article_Title = ''Security in acquisition'',
       article_Scope =
         ''Security in network and information systems acquisition, development and maintenance''\<rparr>,
      \<lparr>article_ID = ''Art.21(2)(f)'', article_Title = ''Assess effectiveness'',
       article_Scope =
         ''Policies and procedures to assess cybersecurity risk management measure effectiveness''\<rparr>,
      \<lparr>article_ID = nis2ArticleG, article_Title = ''Cyber hygiene'',
       article_Scope = ''Basic cyber hygiene practices and cybersecurity training''\<rparr>,
      \<lparr>article_ID = nis2ArticleH, article_Title = ''Cryptography'',
       article_Scope = ''Policies and procedures regarding the use of cryptography and encryption''\<rparr>,
      \<lparr>article_ID = nis2ArticleI, article_Title = ''Access control'',
       article_Scope = ''Human resources security, access control policies and asset management''\<rparr>,
      \<lparr>article_ID = nis2ArticleJ, article_Title = ''Secured communications'',
       article_Scope =
         ''MFA, secured voice/video/text communications and secured emergency communications''\<rparr>]"

definition nis2Mapping :: "(gostring, gostring list) gomap" where
  "nis2Mapping =
     [(''4.1.1.1'', [nis2ArticleB]), (''4.1.1.2'', [nis2ArticleB]), (''4.1.1.3'', [nis2ArticleB]),
      (''4.1.1.4'', [nis2ArticleB]), (''4.1.1.5'', [nis2ArticleB]), (''4.1.2'', [nis2ArticleB]),
      (''4.1.3'', [nis2ArticleB]), (''4.1.4'', [nis2ArticleB]), (''4.1.5'', [nis2ArticleB]),
      (''4.1.6'', [nis2ArticleB]), (''4.1.7'', [nis2ArticleB]), (''4.1.8'', [nis2ArticleB]),
      (''4.1.9'', [nis2ArticleB]), (''4.1.10'', [nis2ArticleB]), (''4.1.11'', [nis2ArticleB]),
      (''4.1.12'', [nis2ArticleB]), (''4.1.13'', [nis2ArticleB]), (''4.1.14'', [nis2ArticleB]),
      (''4.1.15'', [nis2ArticleB]), (''4.1.16'', [nis2ArticleB]), (''4.1.17'', [nis2ArticleB]),
      (''4.2.1'', [nis2ArticleB]), (''4.2.2'', [nis2ArticleB]), (''4.2.2.2'', [nis2ArticleB]),
      (''4.2.2.3'', [nis2ArticleB]), (''4.2.3'', [nis2ArticleB]), (''4.2.4'', [nis2ArticleB]),
      (''4.2.5'', [nis2ArticleB]), (''4.2.6'', [nis2ArticleB]), (''4.2.7'', [nis2ArticleB]),
      (''4.3.1'', [nis2ArticleB]), (''1.2.1'', [nis2ArticleD]), (''1.2.2'', [nis2ArticleD]),
      (''1.2.3'', [nis2ArticleD]), (''1.2.4'', [nis2ArticleD]), (''1.3.1'', [nis2ArticleD]),
      (''1.3.2'', [nis2ArticleD]), (''1.1.1.1'', [nis2ArticleE]), (''1.1.1.2'', [nis2ArticleE]),
      (''1.1.1.3'', [nis2ArticleE]), (''1.1.1.4'', [nis2ArticleE]), (''1.1.1.5'', [nis2ArticleE]),
      (''1.1.1.6'', [nis2ArticleE]), (''1.1.1.7'', [nis2ArticleE]), (''1.5.1'', [nis2ArticleE]),
      (''1.5.2'', [nis2ArticleE]), (''1.5.3'', [nis2ArticleE]), (''1.5.4'', [nis2ArticleE]),
      (''1.5.5'', [nis2ArticleE]), (''1.5.6'', [nis2ArticleE]), (''1.5.7'', [nis2ArticleE]),
      (''1.5.8'', [nis2ArticleE]), (''1.5.9'', [nis2ArticleE]), (''1.5.10'', [nis2ArticleE]),
      (''1.5.11'', [nis2ArticleE]), (''1.5.12'', [nis2ArticleE]), (''1.5.14'', [nis2ArticleE]),
      (''1.5.15'', [nis2ArticleE]), (''1.5.16'', [nis2ArticleE]), (''1.5.17'', [nis2ArticleE]),
      (''1.5.18'', [nis2ArticleE]), (''1.6.1'', [nis2ArticleE]), (''1.6.2'', [nis2ArticleE]),
      (''1.6.3'', [nis2ArticleE]), (''1.6.4'', [nis2ArticleE]), (''3.4.1'', [nis2ArticleE]),
      (''3.4.2'', [nis2ArticleE]), (''3.4.3'', [nis2ArticleE]), (''3.4.4'', [nis2ArticleE]),
      (''3.4.5'', [nis2ArticleE]), (''3.6.1'', [nis2ArticleE]), (''2.1.1'', [nis2ArticleG]),
      (''2.1.2'', [nis2ArticleG]), (''2.2.1'', [nis2ArticleG]), (''2.2.2'', [nis2ArticleG]),
      (''2.2.3'', [nis2ArticleG]), (''2.2.4'', [nis2ArticleG]), (''2.2.5'', [nis2ArticleG]),
      (''2.3.1'', [nis2ArticleG]), (''2.3.2'', [nis2ArticleG]), (''2.3.3'', [nis2ArticleG]),
      (''2.3.4'', [nis2ArticleG]), (''2.3.5'', [nis2ArticleG]), (''2.3.6'', [nis2ArticleG]),
      (''2.3.7'', [nis2ArticleG]), (''2.3.8'', [nis2ArticleG]), (''2.3.9'', [nis2ArticleG]),
      (''2.3.10'', [nis2ArticleG]), (''2.3.11'', [nis2ArticleG]), (''2.3.12'', [nis2ArticleG]),
      (''2.3.13'', [nis2ArticleG]), (''2.3.14'', [nis2ArticleG]), (''2.3.15'', [nis2ArticleG]),
      (''2.3.16'', [nis2ArticleG]), (''3.1.1'', [nis2ArticleG]), (''3.1.2'', [nis2ArticleG]),
      (''3.1.3'', [nis2ArticleG]), (''3.2.1'', [nis2ArticleG]), (''3.2.2'', [nis2ArticleG]),
      (''3.2.3'', [nis2ArticleG]), (''3.2.4'', [nis2ArticleG]), (''3.2.5'', [nis2ArticleG]),
      (''3.2.6'', [nis2ArticleG]), (''3.2.7'', [nis2ArticleG]), (''3.2.8'', [nis2ArticleG]),
      (''3.2.9'', [nis2ArticleG]), (''3.2.10'', [nis2ArticleG]), (''3.2.11'', [nis2ArticleG]),
      (''3.2.12'', [nis2ArticleG]), (''3.2.13'', [nis2ArticleG]), (''3.2.14'', [nis2ArticleG]),
      (''3.2.15'', [nis2ArticleG]), (''3.2.16'', [nis2ArticleG]), (''3.2.17'', [nis2ArticleG]),
      (''3.2.18'', [nis2ArticleG]), (''3.2.22'', [nis2ArticleG]), (''3.2.23'', [nis2ArticleG]),
      (''3.2.24'', [nis2ArticleG]), (''3.2.25'', [nis2ArticleG]), (''3.2.26'', [nis2ArticleG]),
      (''3.2.27'', [nis2ArticleG]), (''3.2.28'', [nis2ArticleG]), (''3.2.29'', [nis2ArticleG]),
      (''3.2.30'', [nis2ArticleG]), (''3.2.31'', [nis2ArticleG]), (''3.2.32'', [nis2ArticleG]),
      (''3.2.33'', [nis2ArticleG]), (''3.2.34'', [nis2ArticleG]), (''3.2.35'', [nis2ArticleG]),
      (''3.2.36'', [nis2ArticleG]), (''3.2.37'', [nis2ArticleG]), (''3.2.38'', [nis2ArticleG]),
      (''3.2.39'', [nis2ArticleG]), (''3.3.1'', [nis2ArticleG]), (''3.3.2'', [nis2ArticleG]),
      (''5.2.2'', [nis2ArticleG]), (''5.2.6'', [nis2ArticleG]), (''5.2.7'', [nis2ArticleG]),
      (''5.2.8'', [nis2ArticleG]), (''5.2.9'', [nis2ArticleG]), (''5.2.10'', [nis2ArticleG]),
      (''5.2.11'', [nis2ArticleG]), (''5.2.12'', [nis2ArticleG]), (''5.2.13'', [nis2ArticleG]),
      (''5.2.15'', [nis2ArticleG]), (''5.2.18'', [nis2ArticleG]), (''5.2.19'', [nis2ArticleG]),
      (''5.2.21'', [nis2ArticleG]), (''5.2.22'', [nis2ArticleG]), (''5.2.23'', [nis2ArticleG]),
      (''5.2.24'', [nis2ArticleG]), (''5.2.28'', [nis2ArticleG]), (''5.2.29'', [nis2ArticleG]),
      (''5.2.30'', [nis2ArticleG]), (''5.4.1'', [nis2ArticleG]), (''5.4.9'', [nis2ArticleG]),
      (''5.4.15'', [nis2ArticleG]), (''5.4.16'', [nis2ArticleG]), (''5.4.17'', [nis2ArticleG]),
      (''1.7.1'', [nis2ArticleG]), (''1.7.2'', [nis2ArticleG]), (''1.7.3'', [nis2ArticleG]),
      (''1.7.4'', [nis2ArticleG]), (''1.7.5'', [nis2ArticleG]), (''1.7.6'', [nis2ArticleG]),
      (''1.7.7'', [nis2ArticleG]), (''1.7.8'', [nis2ArticleG]), (''1.7.9'', [nis2ArticleG]),
      (''5.2.3'', [nis2ArticleH]), (''5.2.4'', [nis2ArticleH]), (''5.2.5'', [nis2ArticleH]),
      (''5.2.25'', [nis2ArticleH]), (''5.2.26'', [nis2ArticleH]), (''5.2.27'', [nis2ArticleH]),
      (''5.4.11'', [nis2ArticleH, nis2ArticleG]), (''1.4.1'', [nis2ArticleH]),
      (''1.4.2'', [nis2ArticleH]), (''5.1.1'', [nis2ArticleI]), (''5.1.2'', [nis2ArticleI]),
      (''5.1.3'', [nis2ArticleI]), (''5.1.4'', [nis2ArticleI]), (''5.1.5'', [nis2ArticleI]),
      (''5.1.6'', [nis2ArticleI]), (''5.1.7'', [nis2ArticleI]), (''5.1.8'', [nis2ArticleI]),
      (''5.1.9'', [nis2ArticleI]), (''5.1.10'', [nis2ArticleI]), (''5.1.11'', [nis2ArticleI]),
      (''5.1.12'', [nis2ArticleI]), (''5.1.13'', [nis2ArticleI]), (''5.1.14'', [nis2ArticleI]),
      (''5.1.15'', [nis2ArticleI]), (''5.1.16'', [nis2ArticleI]), (''5.1.17'', [nis2ArticleI]),
      (''5.1.18'', [nis2ArticleI]), (''5.1.19'', [nis2ArticleI]), (''5.1.20'', [nis2ArticleI]),
      (''5.1.21'', [nis2ArticleI]), (''5.1.22'', [nis2ArticleI]), (''5.1.23'', [nis2ArticleI]),
      (''5.3.1'', [nis2ArticleI]), (''5.3.2'', [nis2ArticleI]), (''5.3.3'', [nis2ArticleI]),
      (''5.3.4'', [nis2ArticleI]), (''5.3.5'', [nis2ArticleI]), (''5.4.2'', [nis2ArticleI]),
      (''5.4.3'', [nis2ArticleI]), (''5.4.4'', [nis2ArticleI]), (''5.4.5'', [nis2ArticleI]),
      (''5.4.6'', [nis2ArticleI]), (''5.4.7'', [nis2ArticleI]), (''5.4.8'', [nis2ArticleI]),
      (''5.2.14'', [nis2ArticleI, nis2ArticleJ]), (''5.2.16'', [nis2ArticleI, nis2ArticleG]),
      (''6.1.1'', [nis2ArticleI]), (''6.1.2'', [nis2ArticleI]), (''6.1.3'', [nis2ArticleI]),
      (''6.1.4'', [nis2ArticleI]), (''6.1.5'', [nis2ArticleI]), (''6.1.6'', [nis2ArticleI]),
      (''6.1.7'', [nis2ArticleI]), (''6.1.8'', [nis2ArticleI]), (''6.1.9'', [nis2ArticleI]),
      (''6.1.10'', [nis2ArticleI]), (''6.1.11'', [nis2ArticleI]), (''6.1.12'', [nis2ArticleI]),
      (''6.1.13'', [nis2ArticleI]), (''6.1.14'', [nis2ArticleI]), (''6.1.15'', [nis2ArticleI]),
      (''6.1.16'', [nis2ArticleI]), (''6.1.17'', [nis2ArticleI]), (''6.1.18'', [nis2ArticleI]),
      (''6.1.19'', [nis2ArticleI]), (''6.1.20'', [nis2ArticleI]), (''6.1.21'', [nis2ArticleI]),
      (''6.1.22'', [nis2ArticleI]), (''6.1.23'', [nis2ArticleI]), (''6.1.24'', [nis2ArticleI]),
      (''6.1.25'', [nis2ArticleI]), (''6.1.26'', [nis2ArticleI]), (''6.1.27'', [nis2ArticleI]),
      (''6.1.28'', [nis2ArticleI]), (''6.1.29'', [nis2ArticleI]), (''6.1.30'', [nis2ArticleI]),
      (''6.1.31'', [nis2ArticleI]), (''6.1.32'', [nis2ArticleI]), (''6.1.33'', [nis2ArticleI]),
      (''6.1.34'', [nis2ArticleI]), (''6.1.35'', [nis2ArticleI]), (''6.1.36'', [nis2ArticleI]),
      (''6.1.37'', [nis2ArticleI]), (''6.1.38'', [nis2ArticleI]), (''6.2.1'', [nis2ArticleI]),
      (''6.2.2'', [nis2ArticleI]), (''6.2.3'', [nis2ArticleI]), (''6.2.4'', [nis2ArticleI]),
      (''6.2.5'', [nis2ArticleI]), (''6.2.6'', [nis2ArticleI]), (''6.2.7'', [nis2ArticleI]),
      (''6.2.8'', [nis2ArticleI]), (''6.2.9'', [nis2ArticleI]), (''6.2.10'', [nis2ArticleI]),
      (''6.2.11'', [nis2ArticleI]), (''6.2.12'', [nis2ArticleI]), (''6.2.13'', [nis2ArticleI]),
      (''6.2.14'', [nis2ArticleI]), (''6.2.15'', [nis2ArticleI]), (''6.2.16'', [nis2ArticleI]),
      (''6.2.17'', [nis2ArticleI]), (''6.2.18'', [nis2ArticleI]), (''3.5.1'', [nis2ArticleI]),
      (''3.5.1.1'', [nis2ArticleI]), (''3.5.1.2'', [nis2ArticleI]), (''3.5.1.3'', [nis2ArticleI]),
      (''3.5.1.4'', [nis2ArticleI]), (''3.5.1.5'', [nis2ArticleI]), (''3.5.1.6'', [nis2ArticleI]),
      (''3.5.1.7'', [nis2ArticleI]), (''5.2.17'', [nis2ArticleJ]), (''5.2.20'', [nis2ArticleJ]),
      (''5.4.10'', [nis2ArticleJ]), (''5.4.13'', [nis2ArticleJ]), (''5.4.14'', [nis2ArticleJ]),
      (''5.4.12'', [nis2ArticleJ, nis2ArticleG]), (''5.5.1'', [nis2ArticleJ]),
      (''5.5.2'', [nis2ArticleJ]), (''5.5.3'', [nis2ArticleJ]), (''5.5.4'', [nis2ArticleJ])]"

section \<open>Lookup and remediation\<close>

definition adaptRemediation :: "cis_result \<Rightarrow> gostring \<Rightarrow> cis_result" where
  "adaptRemediation res pkgMgr =
     (if cis_Status res \<noteq> CISFail then res
      else if cis_ID res = ''1.3.1'' then res\<lparr>cis_Remediation := aideInstallCmd pkgMgr\<rparr>
      else if cis_ID res = ''2.1.1'' then res\<lparr>cis_Remediation := timeSyncInstallCmd pkgMgr\<rparr>
      else if cis_ID res = ''3.3.1'' then res\<lparr>cis_Remediation := macInstallCmd pkgMgr\<rparr>
      else if cis_ID res = ''3.5.1''
        then (if cis_Finding res = ''no firewall tooling detected''
                then res\<lparr>cis_Remediation := firewallInstallCmd pkgMgr\<rparr>
              else res)
      else if cis_ID res = ''3.5.1.1'' then res\<lparr>cis_Remediation := firewallInstallCmd pkgMgr\<rparr>
      else if cis_ID res = ''3.5.1.2''
        then res\<lparr>cis_Remediation := iptablesPersistentRemoveCmd pkgMgr\<rparr>
      else if cis_ID res = ''4.1.1'' then res\<lparr>cis_Remediation := auditInstallCmd pkgMgr\<rparr>
      else if cis_ID res = ''4.1.2'' then res\<lparr>cis_Remediation := auditRulesCmd pkgMgr\<rparr>
      else if cis_ID res = ''5.3.1'' then res\<lparr>cis_Remediation := sudoInstallCmd pkgMgr\<rparr>
      else if cis_ID res = ''4.2.1'' then res\<lparr>cis_Remediation := rsyslogInstallCmd pkgMgr\<rparr>
      else if cis_ID res = ''1.6.1'' then res\<lparr>cis_Remediation := apparmorInstallCmd pkgMgr\<rparr>
      else res)"

definition NIS2ArticleByID :: "gostring \<Rightarrow> (nis2_article21 \<times> bool)" where
  "NIS2ArticleByID ident =
     (case first_some (\<lambda>a. if article_ID a = ident then Some (a, True) else None) NIS2Articles of
          Some c \<Rightarrow> c
        | None \<Rightarrow> (\<lparr>article_ID = [], article_Title = [], article_Scope = []\<rparr>, False))"

definition NIS2Refs :: "gostring \<Rightarrow> gostring list" where
  "NIS2Refs cisID =
     map_get [] nis2Mapping cisID"

definition BSIRefs :: "gostring \<Rightarrow> gostring list" where
  "BSIRefs cisID =
     map_get [] bsiMapping cisID"

section \<open>The rules with their checks\<close>

type_synonym cis_check = "cis_host \<Rightarrow> security_info \<Rightarrow> kernel_security_info \<Rightarrow> cis_result"

definition CISRules :: "(rule \<times> cis_check) list" where
  "CISRules =
     [(rule_1_5_1, check_1_5_1), (rule_1_5_4, check_1_5_4), (rule_1_5_5, check_1_5_5),
      (rule_1_5_6, check_1_5_6), (rule_1_5_7, check_1_5_7), (rule_1_5_8, check_1_5_8),
      (rule_1_5_9, check_1_5_9), (rule_1_5_10, check_1_5_10), (rule_1_5_11, check_1_5_11),
      (rule_1_5_12, check_1_5_12), (rule_1_5_14, check_1_5_14), (rule_1_5_15, check_1_5_15),
      (rule_1_5_16, check_1_5_16), (rule_1_5_17, check_1_5_17), (rule_1_5_18, check_1_5_18),
      (rule_2_1_1, check_2_1_1), (rule_2_1_2, check_2_1_2), (rule_2_2_1, check_2_2_1),
      (rule_2_2_2, check_2_2_2), (rule_2_2_3, check_2_2_3), (rule_2_2_4, check_2_2_4),
      (rule_2_2_5, check_2_2_5), (rule_2_3_1, check_2_3_1), (rule_2_3_2, check_2_3_2),
      (rule_2_3_3, check_2_3_3), (rule_2_3_4, check_2_3_4), (rule_2_3_5, check_2_3_5),
      (rule_2_3_6, check_2_3_6), (rule_2_3_7, check_2_3_7), (rule_2_3_8, check_2_3_8),
      (rule_2_3_9, check_2_3_9), (rule_2_3_10, check_2_3_10), (rule_2_3_11, check_2_3_11),
      (rule_2_3_12, check_2_3_12), (rule_2_3_13, check_2_3_13), (rule_2_3_14, check_2_3_14),
      (rule_2_3_15, check_2_3_15), (rule_2_3_16, check_2_3_16), (rule_5_2_1, check_5_2_1),
      (rule_5_2_3, check_5_2_3), (rule_5_2_4, check_5_2_4), (rule_5_2_2, \<lambda>_. check_5_2_2),
      (rule_5_2_5, check_5_2_5), (rule_5_2_6, \<lambda>_. check_5_2_6), (rule_5_2_7, \<lambda>_. check_5_2_7),
      (rule_5_2_8, \<lambda>_. check_5_2_8), (rule_5_2_9, \<lambda>_. check_5_2_9), (rule_5_2_10, \<lambda>_. check_5_2_10),
      (rule_5_2_11, \<lambda>_. check_5_2_11), (rule_5_2_12, \<lambda>_. check_5_2_12),
      (rule_5_2_13, \<lambda>_. check_5_2_13), (rule_5_2_14, \<lambda>_. check_5_2_14),
      (rule_5_2_15, \<lambda>_. check_5_2_15), (rule_5_2_16, \<lambda>_. check_5_2_16),
      (rule_5_2_17, \<lambda>_. check_5_2_17), (rule_5_2_18, check_5_2_18), (rule_5_2_19, \<lambda>_. check_5_2_19),
      (rule_5_2_20, \<lambda>_. check_5_2_20), (rule_5_2_21, \<lambda>_. check_5_2_21),
      (rule_5_2_22, \<lambda>_. check_5_2_22), (rule_5_2_23, \<lambda>_. check_5_2_23),
      (rule_5_2_24, \<lambda>_. check_5_2_24), (rule_5_2_25, check_5_2_25), (rule_5_2_26, check_5_2_26),
      (rule_5_2_27, check_5_2_27), (rule_5_2_28, check_5_2_28), (rule_5_2_29, check_5_2_29),
      (rule_5_2_30, check_5_2_30), (rule_3_1_1, check_3_1_1), (rule_3_1_2, check_3_1_2),
      (rule_3_1_3, check_3_1_3), (rule_3_2_1, check_3_2_1), (rule_3_2_2, check_3_2_2),
      (rule_3_2_3, check_3_2_3), (rule_3_2_4, check_3_2_4), (rule_1_2_1, check_1_2_1),
      (rule_1_2_2, check_1_2_2), (rule_1_2_3, check_1_2_3), (rule_1_2_4, check_1_2_4),
      (rule_1_3_1, \<lambda>_. check_1_3_1), (rule_1_3_2, \<lambda>_. check_1_3_2), (rule_1_4_1, check_1_4_1),
      (rule_1_4_2, check_1_4_2), (rule_1_1_1_1, check_1_1_1_1), (rule_1_1_1_2, check_1_1_1_2),
      (rule_1_1_1_3, check_1_1_1_3), (rule_1_1_1_4, check_1_1_1_4), (rule_1_1_1_5, check_1_1_1_5),
      (rule_1_1_1_6, check_1_1_1_6), (rule_1_1_1_7, check_1_1_1_7), (rule_1_1_2, check_1_1_2),
      (rule_1_1_3, check_1_1_3), (rule_1_1_4, check_1_1_4), (rule_1_1_5, check_1_1_5),
      (rule_1_1_6, check_1_1_6), (rule_1_1_7, check_1_1_7), (rule_1_1_8, check_1_1_8),
      (rule_1_1_9, check_1_1_9), (rule_1_1_10, check_1_1_10), (rule_1_1_11, check_1_1_11),
      (rule_1_1_12, check_1_1_12), (rule_1_1_13, check_1_1_13), (rule_1_1_14, check_1_1_14),
      (rule_1_1_15, check_1_1_15), (rule_1_1_16, check_1_1_16), (rule_1_1_17, check_1_1_17),
      (rule_1_1_18, check_1_1_18), (rule_1_5_2, check_1_5_2), (rule_1_5_3, check_1_5_3),
      (rule_1_6_1, check_1_6_1), (rule_1_6_2, check_1_6_2), (rule_1_6_3, check_1_6_3),
      (rule_1_6_4, check_1_6_4), (rule_1_7_1, check_1_7_1), (rule_1_7_2, check_1_7_2),
      (rule_1_7_3, check_1_7_3), (rule_1_7_4, check_1_7_4), (rule_1_7_5, check_1_7_5),
      (rule_1_7_6, check_1_7_6), (rule_1_7_7, check_1_7_7), (rule_1_7_8, check_1_7_8),
      (rule_1_7_9, check_1_7_9), (rule_3_2_5, check_3_2_5), (rule_3_2_6, check_3_2_6),
      (rule_3_2_7, check_3_2_7), (rule_3_2_8, check_3_2_8), (rule_3_2_9, check_3_2_9),
      (rule_3_2_10, check_3_2_10), (rule_3_2_11, check_3_2_11), (rule_3_2_12, check_3_2_12),
      (rule_3_2_13, check_3_2_13), (rule_3_2_14, check_3_2_14), (rule_3_2_15, check_3_2_15),
      (rule_3_2_16, check_3_2_16), (rule_3_2_17, check_3_2_17), (rule_3_2_18, check_3_2_18),
      (rule_3_2_22, check_3_2_22), (rule_3_2_23, check_3_2_23), (rule_3_2_24, check_3_2_24),
      (rule_3_2_25, check_3_2_25), (rule_3_2_26, check_3_2_26), (rule_3_2_27, check_3_2_27),
      (rule_3_2_28, check_3_2_28), (rule_3_2_29, check_3_2_29), (rule_3_2_30, check_3_2_30),
      (rule_3_2_31, check_3_2_31), (rule_3_2_32, check_3_2_32), (rule_3_2_33, check_3_2_33),
      (rule_3_2_34, check_3_2_34), (rule_3_2_35, check_3_2_35), (rule_3_2_36, check_3_2_36),
      (rule_3_2_37, check_3_2_37), (rule_3_2_38, check_3_2_38), (rule_3_2_39, check_3_2_39),
      (rule_3_4_1, check_3_4_1), (rule_3_4_2, check_3_4_2), (rule_3_4_3, check_3_4_3),
      (rule_3_4_4, check_3_4_4), (rule_3_4_5, check_3_4_5), (rule_3_3_1, \<lambda>_. check_3_3_1),
      (rule_3_3_2, check_3_3_2), (rule_3_5_1, \<lambda>_. check_3_5_1), (rule_3_5_1_1, check_3_5_1_1),
      (rule_3_5_1_2, check_3_5_1_2), (rule_3_5_1_3, check_3_5_1_3), (rule_3_5_1_4, check_3_5_1_4),
      (rule_3_5_1_5, check_3_5_1_5), (rule_3_5_1_6, check_3_5_1_6), (rule_3_5_1_7, check_3_5_1_7),
      (rule_3_6_1, check_3_6_1), (rule_4_1_1, \<lambda>_. check_4_1_1), (rule_4_1_1_1, check_4_1_1_1),
      (rule_4_1_1_2, check_4_1_1_2), (rule_4_1_1_3, check_4_1_1_3), (rule_4_1_1_4, check_4_1_1_4),
      (rule_4_1_1_5, check_4_1_1_5), (rule_4_1_2, \<lambda>_. check_4_1_2), (rule_4_1_3, check_4_1_3),
      (rule_4_1_4, check_4_1_4), (rule_4_1_5, check_4_1_5), (rule_4_1_6, check_4_1_6),
      (rule_4_1_7, check_4_1_7), (rule_4_1_8, check_4_1_8), (rule_4_1_9, check_4_1_9),
      (rule_4_1_10, check_4_1_10), (rule_4_1_11, check_4_1_11), (rule_4_1_12, check_4_1_12),
      (rule_4_1_13, check_4_1_13), (rule_4_1_14, check_4_1_14), (rule_4_1_15, check_4_1_15),
      (rule_4_1_16, check_4_1_16), (rule_4_1_17, check_4_1_17), (rule_4_2_1, check_4_2_1),
      (rule_4_2_2, check_4_2_2), (rule_4_2_2_2, check_4_2_2_2), (rule_4_2_2_3, check_4_2_2_3),
      (rule_4_2_3, check_4_2_3), (rule_4_2_4, check_4_2_4), (rule_4_2_5, check_4_2_5),
      (rule_4_2_6, check_4_2_6), (rule_4_2_7, check_4_2_7), (rule_4_3_1, check_4_3_1),
      (rule_5_3_1, check_5_3_1), (rule_5_4_1, check_5_4_1), (rule_5_3_4, \<lambda>_. check_5_3_4),
      (rule_5_3_2, \<lambda>_. check_5_3_2), (rule_5_3_3, \<lambda>_. check_5_3_3), (rule_5_4_2, \<lambda>_. check_5_4_2),
      (rule_5_4_3, check_5_4_3), (rule_5_4_4, check_5_4_4), (rule_5_4_5, check_5_4_5),
      (rule_5_4_6, check_5_4_6), (rule_5_4_7, check_5_4_7), (rule_5_4_8, check_5_4_8),
      (rule_5_4_9, check_5_4_9), (rule_5_4_10, check_5_4_10), (rule_5_4_11, check_5_4_11),
      (rule_5_4_12, check_5_4_12), (rule_5_4_13, check_5_4_13), (rule_5_4_14, check_5_4_14),
      (rule_5_4_15, check_5_4_15), (rule_5_4_16, check_5_4_16), (rule_5_4_17, check_5_4_17),
      (rule_5_3_5, \<lambda>_. check_5_3_5), (rule_5_5_1, check_5_5_1), (rule_5_5_2, check_5_5_2),
      (rule_5_5_3, check_5_5_3), (rule_5_5_4, check_5_5_4), (rule_5_1_1, check_5_1_1),
      (rule_5_1_2, check_5_1_2), (rule_5_1_3, check_5_1_3), (rule_5_1_4, check_5_1_4),
      (rule_5_1_5, check_5_1_5), (rule_5_1_6, check_5_1_6), (rule_5_1_7, check_5_1_7),
      (rule_5_1_8, check_5_1_8), (rule_5_1_9, check_5_1_9), (rule_5_1_10, check_5_1_10),
      (rule_5_1_11, check_5_1_11), (rule_5_1_12, check_5_1_12), (rule_5_1_13, check_5_1_13),
      (rule_5_1_14, check_5_1_14), (rule_5_1_15, check_5_1_15), (rule_5_1_16, check_5_1_16),
      (rule_5_1_17, check_5_1_17), (rule_5_1_18, check_5_1_18), (rule_5_1_19, check_5_1_19),
      (rule_5_1_20, check_5_1_20), (rule_5_1_21, check_5_1_21), (rule_5_1_22, check_5_1_22),
      (rule_5_1_23, check_5_1_23), (rule_1_1_19, check_1_1_19), (rule_1_1_20, check_1_1_20),
      (rule_1_1_21, check_1_1_21), (rule_1_1_22, \<lambda>_. check_1_1_22), (rule_1_1_23, check_1_1_23),
      (rule_1_1_24, check_1_1_24), (rule_1_1_25, check_1_1_25), (rule_1_1_26, check_1_1_26),
      (rule_1_1_27, check_1_1_27), (rule_1_1_28, check_1_1_28), (rule_1_1_29, check_1_1_29),
      (rule_1_1_30, check_1_1_30), (rule_1_1_31, check_1_1_31), (rule_1_1_32, check_1_1_32),
      (rule_6_1_1, check_6_1_1), (rule_6_1_2, check_6_1_2), (rule_6_1_3, check_6_1_3),
      (rule_6_1_4, check_6_1_4), (rule_6_1_5, check_6_1_5), (rule_6_1_6, check_6_1_6),
      (rule_6_1_7, check_6_1_7), (rule_6_1_8, check_6_1_8), (rule_6_1_9, check_6_1_9),
      (rule_6_1_10, check_6_1_10), (rule_6_1_11, check_6_1_11), (rule_6_1_12, check_6_1_12),
      (rule_6_1_13, check_6_1_13), (rule_6_1_15, check_6_1_15), (rule_6_1_16, check_6_1_16),
      (rule_6_1_17, check_6_1_17), (rule_6_1_18, check_6_1_18), (rule_6_1_19, check_6_1_19),
      (rule_6_1_20, check_6_1_20), (rule_6_1_21, check_6_1_21), (rule_6_1_22, check_6_1_22),
      (rule_6_1_23, check_6_1_23), (rule_6_1_24, check_6_1_24), (rule_6_1_25, check_6_1_25),
      (rule_6_1_26, check_6_1_26), (rule_6_1_27, check_6_1_27), (rule_6_1_28, check_6_1_28),
      (rule_6_1_29, check_6_1_29), (rule_6_1_30, check_6_1_30), (rule_6_1_31, check_6_1_31),
      (rule_6_1_32, check_6_1_32), (rule_6_1_33, check_6_1_33), (rule_6_1_34, check_6_1_34),
      (rule_6_1_35, check_6_1_35), (rule_6_1_36, check_6_1_36), (rule_6_1_37, check_6_1_37),
      (rule_6_1_38, check_6_1_38), (rule_6_2_1, \<lambda>_. check_6_2_1), (rule_6_2_2, check_6_2_2),
      (rule_6_2_3, \<lambda>_. check_6_2_3), (rule_6_1_14, \<lambda>_. check_6_1_14), (rule_6_2_4, \<lambda>_. check_6_2_4),
      (rule_6_2_5, check_6_2_5), (rule_6_2_6, check_6_2_6), (rule_6_2_7, check_6_2_7),
      (rule_6_2_8, check_6_2_8), (rule_6_2_9, check_6_2_9), (rule_6_2_10, check_6_2_10),
      (rule_6_2_11, check_6_2_11), (rule_6_2_12, check_6_2_12), (rule_6_2_13, check_6_2_13),
      (rule_6_2_14, check_6_2_14), (rule_6_2_15, check_6_2_15), (rule_6_2_16, check_6_2_16),
      (rule_6_2_17, check_6_2_17), (rule_6_2_18, check_6_2_18), (rule_V_238213, check_V_238213),
      (rule_V_238214, check_V_238214), (rule_V_238215, check_V_238215),
      (rule_V_238221, \<lambda>_. check_V_238221), (rule_V_238226, \<lambda>_. check_V_238226),
      (rule_V_238380, check_V_238380), (rule_V_238382, check_V_238382),
      (rule_V_238383, check_V_238383), (rule_V_238384, check_V_238384)]"

section \<open>Evaluation\<close>

text \<open>The counters of \<open>models.CISReport\<close>; profile, system and host name are filled in by the command.\<close>

record cis_report =
  report_Framework :: gostring
  report_Results :: "cis_result list"
  report_Pass :: int
  report_Fail :: int
  report_Manual :: int
  report_NA :: int
  report_Skipped :: int
  report_Unverified :: int

definition stigOwned :: "gostring list" where
  "stigOwned = map rule_ID (filter (\<lambda>r. rule_Framework r = cisBenchSTIG) (map fst CISRules))"

definition selected :: "int \<Rightarrow> bool \<Rightarrow> rule \<Rightarrow> bool" where
  "selected level stig rule \<longleftrightarrow>
     (if level < rule_Level rule then False
      else if stig
        then (if rule_Framework rule = cisBenchCIS then False
              else if rule_Framework rule = cisBenchBOTH \<and> rule_StigID rule \<noteq> [] \<and>
                      rule_StigID rule \<in> set stigOwned
                then False
              else True)
      else if rule_Framework rule = cisBenchSTIG then False
      else True)"

definition with_refs :: "rule \<Rightarrow> cis_result \<Rightarrow> cis_result" where
  "with_refs rule result =
     (let refs = NIS2Refs (rule_ID rule);
          result = (if refs \<noteq> [] then result\<lparr>cis_NIS2Refs := refs\<rparr> else result);
          refs = BSIRefs (rule_ID rule)
      in if refs \<noteq> [] then result\<lparr>cis_BSIRefs := refs\<rparr> else result)"

definition stig_result :: "bool \<Rightarrow> rule \<Rightarrow> cis_result \<Rightarrow> cis_result" where
  "stig_result stig rule result =
     (if stig \<and> rule_StigID rule \<noteq> []
        then (let result = result\<lparr>cis_ID := rule_StigID rule, cis_Framework := cisBenchSTIG\<rparr>
              in if rule_StigDescription rule \<noteq> []
                   then result\<lparr>cis_Description := rule_StigDescription rule\<rparr>
                 else result)
      else result)"

definition evaluate_rule ::
  "cis_host \<Rightarrow> security_info \<Rightarrow> kernel_security_info \<Rightarrow> bool \<Rightarrow> gostring \<Rightarrow> rule \<times> cis_check \<Rightarrow> cis_result" where
  "evaluate_rule env sec ks stig pkgMgr = (\<lambda>(rule, check).
     stig_result stig rule
       (overrideAmbiguousVerdict rule sec
         (with_refs rule (adaptRemediation (check env sec ks) pkgMgr))))"

definition add_result :: "cis_report \<Rightarrow> cis_result \<Rightarrow> cis_report" where
  "add_result report result =
     (let report = report\<lparr>report_Results := report_Results report @ [result]\<rparr>
      in if cis_Status result = CISPass then report\<lparr>report_Pass := report_Pass report + 1\<rparr>
         else if cis_Status result = CISFail then report\<lparr>report_Fail := report_Fail report + 1\<rparr>
         else if cis_Status result = CISManual then report\<lparr>report_Manual := report_Manual report + 1\<rparr>
         else if cis_Status result = CISNotApplicable then report\<lparr>report_NA := report_NA report + 1\<rparr>
         else if cis_Status result = CISSkipped
           then (let report = report\<lparr>report_Skipped := report_Skipped report + 1\<rparr>
                 in if cis_Unverified result
                      then report\<lparr>report_Unverified := report_Unverified report + 1\<rparr> else report)
         else report)"

definition Evaluate ::
  "cis_host \<Rightarrow> security_info \<Rightarrow> kernel_security_info \<Rightarrow> int \<Rightarrow> bool \<Rightarrow> gostring \<Rightarrow> cis_report" where
  "Evaluate env sec ks level stig pkgMgr =
     foldl
       (\<lambda>report entry.
         if selected level stig (fst entry)
           then add_result report (evaluate_rule env sec ks stig pkgMgr entry)
         else report)
       \<lparr>report_Framework = (if stig then cisBenchSTIG else cisBenchCIS), report_Results = [], report_Pass = 0,
        report_Fail = 0, report_Manual = 0, report_NA = 0, report_Skipped = 0, report_Unverified = 0\<rparr>
       CISRules"

section \<open>Compliance groups\<close>

text \<open>The bucket of one article; a result is appended once for every reference to the article.\<close>

record bucket =
  bucket_pass :: int
  bucket_fail :: int
  bucket_manual :: int
  bucket_skipped :: int
  bucket_unverified :: int
  bucket_results :: "cis_result list"

definition add_to_bucket :: "bucket \<Rightarrow> cis_result \<Rightarrow> bucket" where
  "add_to_bucket b r =
     (let b = b\<lparr>bucket_results := bucket_results b @ [r]\<rparr>
      in if cis_Status r = CISPass then b\<lparr>bucket_pass := bucket_pass b + 1\<rparr>
         else if cis_Status r = CISFail then b\<lparr>bucket_fail := bucket_fail b + 1\<rparr>
         else if cis_Status r = CISManual then b\<lparr>bucket_manual := bucket_manual b + 1\<rparr>
         else if cis_Status r = CISSkipped \<or> cis_Status r = CISNotApplicable
           then (let b = b\<lparr>bucket_skipped := bucket_skipped b + 1\<rparr>
                 in if cis_Unverified r then b\<lparr>bucket_unverified := bucket_unverified b + 1\<rparr> else b)
         else b)"

definition nis2_bucket :: "cis_result list \<Rightarrow> gostring \<Rightarrow> bucket" where
  "nis2_bucket results article =
     foldl (\<lambda>b r. foldl (\<lambda>b ref. if ref = article then add_to_bucket b r else b) b (cis_NIS2Refs r))
       \<lparr>bucket_pass = 0, bucket_fail = 0, bucket_manual = 0, bucket_skipped = 0, bucket_unverified = 0,
        bucket_results = []\<rparr>
       results"

record nis2_article_group =
  nis2_Article :: nis2_article21
  nis2_Status :: gostring
  nis2_Bucket :: bucket

definition nis2_status :: "bucket \<Rightarrow> gostring" where
  "nis2_status b =
     (if bucket_results b = [] then ''UNMAPPED''
      else if 0 < bucket_fail b \<and> 0 < bucket_pass b then ''PARTIAL''
      else if 0 < bucket_fail b then ''FAIL''
      else if 0 < bucket_pass b \<and> 0 < bucket_unverified b then ''UNVERIFIED''
      else if 0 < bucket_pass b then ''PASS''
      else ''SKIP'')"

definition GroupByNIS2 :: "cis_result list \<Rightarrow> nis2_article_group list" where
  "GroupByNIS2 results =
     map (\<lambda>a. let b = nis2_bucket results (article_ID a)
              in \<lparr>nis2_Article = a, nis2_Status = nis2_status b, nis2_Bucket = b\<rparr>) NIS2Articles"

record bsi_req_group =
  bsi_Req :: bsi_requirement
  bsi_Baustein :: bsi_baustein
  bsi_Status :: gostring
  bsi_Pass :: int
  bsi_Fail :: int
  bsi_Manual :: int
  bsi_Skipped :: int
  bsi_Unverified :: int
  bsi_Results :: "cis_result list"

definition bsi_matched :: "cis_result list \<Rightarrow> gostring \<Rightarrow> cis_result list" where
  "bsi_matched results req =
     concat (map (\<lambda>r. concat (map (\<lambda>ref. if ref = req then [r] else []) (cis_BSIRefs r))) results)"

definition bsi_count :: "bsi_req_group \<Rightarrow> cis_result \<Rightarrow> bsi_req_group" where
  "bsi_count g r =
     (if cis_Status r = CISPass then g\<lparr>bsi_Pass := bsi_Pass g + 1\<rparr>
      else if cis_Status r = CISFail then g\<lparr>bsi_Fail := bsi_Fail g + 1\<rparr>
      else if cis_Status r = CISManual then g\<lparr>bsi_Manual := bsi_Manual g + 1\<rparr>
      else (let g = g\<lparr>bsi_Skipped := bsi_Skipped g + 1\<rparr>
            in if cis_Unverified r then g\<lparr>bsi_Unverified := bsi_Unverified g + 1\<rparr> else g))"

definition bsi_status :: "bsi_req_group \<Rightarrow> gostring" where
  "bsi_status g =
     (if 0 < bsi_Fail g \<and> bsi_Pass g = 0 \<and> bsi_Manual g = 0 then ''FAIL''
      else if 0 < bsi_Fail g then ''PARTIAL''
      else if 0 < bsi_Pass g \<and> 0 < bsi_Unverified g then ''UNVERIFIED''
      else if 0 < bsi_Pass g then ''PASS''
      else ''SKIP'')"

definition bsi_group :: "cis_result list \<Rightarrow> bsi_baustein \<Rightarrow> bsi_requirement \<Rightarrow> bsi_req_group" where
  "bsi_group results baustein req =
     (let matched = bsi_matched results (bsiReq_ID req);
          g = \<lparr>bsi_Req = req, bsi_Baustein = baustein, bsi_Status = [], bsi_Pass = 0, bsi_Fail = 0,
               bsi_Manual = 0, bsi_Skipped = 0, bsi_Unverified = 0, bsi_Results = matched\<rparr>
      in if matched = [] then g\<lparr>bsi_Status := ''UNMAPPED''\<rparr>
         else let g = foldl bsi_count g matched in g\<lparr>bsi_Status := bsi_status g\<rparr>)"

definition GroupByBSI :: "cis_result list \<Rightarrow> bsi_req_group list" where
  "GroupByBSI results =
     concat (map (\<lambda>baustein. map (bsi_group results baustein) (baustein_Requirements baustein)) BSIBausteine)"

end
