(* ===== verification/Cis_Table.thy ===== *)
theory Cis_Table
  imports Cis_Report
begin

text \<open>
  Facts of the whole rule table of internal/cis: every check conforms to the rule it is listed under, identifiers
  are distinct, and what a run selects.
\<close>

section \<open>The table\<close>

lemma CISRules_table: "map fst CISRules = rule_table"
  unfolding CISRules_def rule_table_def list.map fst_conv by (rule refl)

text \<open>A list of identifiers is distinct when each class of identifiers with the same first character is.\<close>

primrec distinct_by_head :: "char list \<Rightarrow> gostring list \<Rightarrow> bool" where
  "distinct_by_head [] xs \<longleftrightarrow> distinct xs"
| "distinct_by_head (c # cs) xs \<longleftrightarrow>
     distinct (filter (\<lambda>x. hd x = c) xs) \<and> distinct_by_head cs (filter (\<lambda>x. hd x \<noteq> c) xs)"

lemma distinct_by_head: "distinct_by_head cs xs \<Longrightarrow> distinct xs"
proof (induction cs arbitrary: xs)
  case (Cons c cs)
  have "distinct (filter (\<lambda>x. hd x = c) xs)" "distinct (filter (\<lambda>x. hd x \<noteq> c) xs)"
    using Cons by simp_all
  then show ?case by (induction xs) (auto split: if_splits)
qed simp

lemmas table_rows =
  rule_table_def list.map rule_IDs rule_StigIDs rule_Frameworks rule_Levels rule_Sections cisRuleSSH52_def cisRuleAudit41_def
  cisRuleAudit4111_def cisRuleAudit4112_def cisRuleAudit4113_def cisRuleAudit4114_def cisRuleAudit4115_def stigPassMaxDaysID_def

lemma rule_IDs_distinct: "distinct (map rule_ID rule_table)"
  unfolding table_rows
  by (rule distinct_by_head [of "''1356''"])
    (simp only: distinct_by_head.simps filter.simps list.sel distinct.simps list.set insert_iff empty_iff list.inject
      list.distinct char.inject simp_thms if_True if_False cong: if_weak_cong)

lemma find_distinct: "distinct (map f xs) \<Longrightarrow> x \<in> set xs \<Longrightarrow> find (\<lambda>y. f y = f x) xs = Some x"
  by (induction xs) auto

lemma ruleByID_own: "r \<in> set rule_table \<Longrightarrow> ruleByID (rule_ID r) = r"
  by (simp add: ruleByID_def find_distinct rule_IDs_distinct)

lemma checks_conform: "\<forall>(r, c) \<in> set CISRules. conforms (ruleByID (rule_ID r)) (c env sec ks)"
  unfolding CISRules_def by (simp add: rule_IDs conforming del: contains.simps)

lemma check_conforms: "(r, c) \<in> set CISRules \<Longrightarrow> conforms r (c env sec ks)"
proof -
  assume e: "(r, c) \<in> set CISRules"
  then have "r \<in> set rule_table"
    using CISRules_table by (metis fst_conv image_eqI list.set_map)
  then show ?thesis
    using checks_conform e ruleByID_own by fastforce
qed


section \<open>The selection\<close>

lemma selected_level: "selected level stig r \<longleftrightarrow> rule_Level r \<le> level \<and> selected (rule_Level r) stig r"
  by (auto simp: selected_def)

lemma filter_selected:
  "filter (selected level stig) rs =
     filter (\<lambda>r. rule_Level r \<le> level) (filter (\<lambda>r. selected (rule_Level r) stig r) rs)"
  by (induction rs) (auto simp: selected_level [of level])

lemma stigOwned_eq:
  "stigOwned = [''V-238213'', ''V-238214'', ''V-238215'', ''V-238221'', ''V-238226'', ''V-238380'',
     ''V-238382'', ''V-238383'', ''V-238384'']"
  unfolding stigOwned_def CISRules_table rule_table_def
  by (simp add: rule_Frameworks rule_IDs cisBenchCIS_def cisBenchSTIG_def cisBenchBOTH_def stigPassMaxDaysID_def)

text \<open>What a STIG run looks at: the rules of both benchmarks that no STIG rule supersedes, and the STIG rules.\<close>

lemma stig_rules:
  "filter (\<lambda>r. selected (rule_Level r) True r) rule_table =
     [rule_5_2_1, rule_5_2_2, rule_5_2_5, rule_5_2_6, rule_5_2_7, rule_5_2_8, rule_5_2_9, rule_5_2_10,
      rule_5_2_11, rule_5_2_12, rule_5_2_13, rule_5_2_14, rule_5_2_15, rule_5_2_17, rule_5_2_18,
      rule_5_2_19, rule_3_1_1, rule_3_2_1, rule_3_2_2, rule_3_2_4, rule_4_1_1, rule_4_1_2, rule_6_1_1,
      rule_6_1_2, rule_6_1_3, rule_6_2_1, rule_6_2_2, rule_6_2_3, rule_V_238213, rule_V_238214,
      rule_V_238215, rule_V_238221, rule_V_238226, rule_V_238380, rule_V_238382, rule_V_238383,
      rule_V_238384]"
  unfolding rule_table_def
  by (simp add: selected_def stigOwned_eq rule_Frameworks rule_StigIDs cisBenchCIS_def cisBenchSTIG_def cisBenchBOTH_def
      stigPassMaxDaysID_def)

definition reported_ID :: "bool \<Rightarrow> rule \<Rightarrow> gostring" where
  "reported_ID stig r = (if stig \<and> rule_StigID r \<noteq> [] then rule_StigID r else rule_ID r)"

lemma reported_IDs_distinct: "distinct (map (reported_ID stig) (filter (selected level stig) rule_table))"
proof (cases stig)
  case True
  have "distinct (map (reported_ID True) (filter (\<lambda>r. selected (rule_Level r) True r) rule_table))"
    unfolding stig_rules by (simp add: reported_ID_def rule_StigIDs rule_IDs stigPassMaxDaysID_def)
  then show ?thesis
    using True distinct_map_filter [of _ _ "\<lambda>r. rule_Level r \<le> level"]
    by (simp add: filter_selected [of level] del: filter_filter)
next
  case False
  have "reported_ID False = rule_ID"
    by (simp add: reported_ID_def fun_eq_iff)
  then show ?thesis
    using False by (simp add: distinct_map_filter rule_IDs_distinct)
qed

end
