(* ===== verification/Cis_Safety.thy ===== *)
theory Cis_Safety
  imports Cis_Table
begin

text \<open>
  What a report of \<open>Evaluate\<close> and the groups of nis2.go and bsi.go promise.
\<close>

section \<open>One result\<close>

text \<open>A verdict says why: a failure has a finding and a remedy, a skip a reason, and only a skip may be unverified.\<close>

definition explained :: "cis_result \<Rightarrow> bool" where
  "explained c \<longleftrightarrow>
     cis_Status c = CISPass \<and> cis_Finding c = [] \<and> cis_Remediation c = [] \<and> \<not> cis_Unverified c \<or>
     cis_Status c = CISFail \<and> cis_Finding c \<noteq> [] \<and> cis_Remediation c \<noteq> [] \<and> \<not> cis_Unverified c \<or>
     cis_Status c = CISSkipped \<and> cis_Finding c \<noteq> [] \<and> cis_Remediation c = []"

lemma statuses_distinct [simp]:
  "CISPass \<noteq> CISFail" "CISFail \<noteq> CISPass" "CISPass \<noteq> CISSkipped" "CISSkipped \<noteq> CISPass"
  "CISFail \<noteq> CISSkipped" "CISSkipped \<noteq> CISFail" "CISManual \<noteq> CISPass" "CISManual \<noteq> CISFail"
  "CISManual \<noteq> CISSkipped" "CISNotApplicable \<noteq> CISPass" "CISNotApplicable \<noteq> CISFail"
  "CISNotApplicable \<noteq> CISSkipped" "CISNotApplicable \<noteq> CISManual" "CISManual \<noteq> CISNotApplicable"
  "CISPass \<noteq> CISManual" "CISFail \<noteq> CISManual" "CISSkipped \<noteq> CISManual" "CISPass \<noteq> CISNotApplicable"
  "CISFail \<noteq> CISNotApplicable" "CISSkipped \<noteq> CISNotApplicable"
  by (simp_all add: CISPass_def CISFail_def CISSkipped_def CISManual_def CISNotApplicable_def)

lemma explained_conforms: "conforms r c \<Longrightarrow> explained c"
  by (auto simp: conforms_def explained_def)

text \<open>The stages of the evaluation change references, identifier and remedy, and keep a verdict explained.\<close>

lemma explained_adaptRemediation: "explained c \<Longrightarrow> explained (adaptRemediation c pkgMgr)"
  by (cases "cis_Status c = CISFail") (simp_all add: adaptRemediation_def explained_def)

lemma explained_with_refs: "explained c \<Longrightarrow> explained (with_refs r c)"
  unfolding explained_def with_refs_def by (simp add: Let_def)

lemma explained_overrideAmbiguousVerdict: "explained c \<Longrightarrow> explained (overrideAmbiguousVerdict r sec c)"
  unfolding overrideAmbiguousVerdict_def by (simp add: explained_def unverifiedr_def)

lemma explained_stig_result: "explained c \<Longrightarrow> explained (stig_result stig r c)"
  unfolding explained_def stig_result_def by (simp add: Let_def)

lemma stage_ID:
  "cis_ID (adaptRemediation c pkgMgr) = cis_ID c" "cis_ID (with_refs r c) = cis_ID c"
  "cis_Level (adaptRemediation c pkgMgr) = cis_Level c" "cis_Level (with_refs r c) = cis_Level c"
  "cis_Status (adaptRemediation c pkgMgr) = cis_Status c" "cis_Status (with_refs r c) = cis_Status c"
  "cis_Level (stig_result stig r c) = cis_Level c" "cis_Status (stig_result stig r c) = cis_Status c"
  "cis_NIS2Refs (stig_result stig r c) = cis_NIS2Refs c" "cis_BSIRefs (stig_result stig r c) = cis_BSIRefs c"
  "cis_Unverified (stig_result stig r c) = cis_Unverified c"
  by (simp_all add: adaptRemediation_def with_refs_def stig_result_def Let_def)

lemma stage_refs:
  "cis_NIS2Refs (adaptRemediation c pkgMgr) = cis_NIS2Refs c" "cis_BSIRefs (adaptRemediation c pkgMgr) = cis_BSIRefs c"
  by (simp_all add: adaptRemediation_def)

lemma override_ID:
  "cis_ID c = rule_ID r \<Longrightarrow> cis_ID (overrideAmbiguousVerdict r sec c) = rule_ID r"
  "cis_Level c = rule_Level r \<Longrightarrow> cis_Level (overrideAmbiguousVerdict r sec c) = rule_Level r"
  by (simp_all add: overrideAmbiguousVerdict_def unverifiedr_def)

lemma evaluate_rule_explained:
  "e \<in> set CISRules \<Longrightarrow> explained (evaluate_rule env sec ks stig pkgMgr e)"
proof -
  assume "e \<in> set CISRules"
  then obtain r c where "e = (r, c)" "explained (c env sec ks)"
    using check_conforms explained_conforms by (metis surj_pair)
  then show ?thesis
    by (simp add: evaluate_rule_def explained_stig_result explained_overrideAmbiguousVerdict explained_with_refs
        explained_adaptRemediation)
qed

lemma evaluate_rule_ID:
  assumes "e \<in> set CISRules"
  shows "cis_ID (evaluate_rule env sec ks stig pkgMgr e) = reported_ID stig (fst e)"
    and "cis_Level (evaluate_rule env sec ks stig pkgMgr e) = rule_Level (fst e)"
proof -
  obtain r c where e: "e = (r, c)" and "conforms r (c env sec ks)"
    using assms check_conforms by (metis surj_pair)
  then show "cis_ID (evaluate_rule env sec ks stig pkgMgr e) = reported_ID stig (fst e)"
    by (simp add: evaluate_rule_def stig_result_def reported_ID_def Let_def override_ID stage_ID conforms_def)
  show "cis_Level (evaluate_rule env sec ks stig pkgMgr e) = rule_Level (fst e)"
    using \<open>conforms r (c env sec ks)\<close> e by (simp add: evaluate_rule_def override_ID stage_ID conforms_def)
qed


section \<open>Reports\<close>

lemma Evaluate_foldl:
  "foldl (\<lambda>s e. if P e then f s (g e) else s) s xs = foldl f s (map g (filter P xs))"
  by (induction xs arbitrary: s) simp_all

definition evaluated ::
  "cis_host \<Rightarrow> security_info \<Rightarrow> kernel_security_info \<Rightarrow> int \<Rightarrow> bool \<Rightarrow> gostring \<Rightarrow> cis_result list" where
  "evaluated env sec ks level stig pkgMgr =
     map (evaluate_rule env sec ks stig pkgMgr) (filter (\<lambda>e. selected level stig (fst e)) CISRules)"

lemma add_results:
  "report_Results (foldl add_result rep cs) = report_Results rep @ cs"
  "report_Framework (foldl add_result rep cs) = report_Framework rep"
  "report_Pass (foldl add_result rep cs) = report_Pass rep + int (length (filter (\<lambda>c. cis_Status c = CISPass) cs))"
  "report_Fail (foldl add_result rep cs) = report_Fail rep + int (length (filter (\<lambda>c. cis_Status c = CISFail) cs))"
  "report_Manual (foldl add_result rep cs) =
     report_Manual rep + int (length (filter (\<lambda>c. cis_Status c = CISManual) cs))"
  "report_NA (foldl add_result rep cs) =
     report_NA rep + int (length (filter (\<lambda>c. cis_Status c = CISNotApplicable) cs))"
  "report_Skipped (foldl add_result rep cs) =
     report_Skipped rep + int (length (filter (\<lambda>c. cis_Status c = CISSkipped) cs))"
  "report_Unverified (foldl add_result rep cs) =
     report_Unverified rep + int (length (filter (\<lambda>c. cis_Status c = CISSkipped \<and> cis_Unverified c) cs))"
  by (induction cs arbitrary: rep) (simp_all add: add_result_def Let_def)

lemma Evaluate_add_results:
  "Evaluate env sec ks level stig pkgMgr =
     foldl add_result
       \<lparr>report_Framework = (if stig then cisBenchSTIG else cisBenchCIS), report_Results = [], report_Pass = 0,
        report_Fail = 0, report_Manual = 0, report_NA = 0, report_Skipped = 0, report_Unverified = 0\<rparr>
       (evaluated env sec ks level stig pkgMgr)"
  unfolding Evaluate_def evaluated_def by (rule Evaluate_foldl)

lemma Evaluate_Results: "report_Results (Evaluate env sec ks level stig pkgMgr) = evaluated env sec ks level stig pkgMgr"
  by (simp add: Evaluate_add_results add_results)

lemma evaluated_explained: "c \<in> set (evaluated env sec ks level stig pkgMgr) \<Longrightarrow> explained c"
  by (auto simp: evaluated_def evaluate_rule_explained)

lemma evaluated_map:
  "(\<And>e. e \<in> set CISRules \<Longrightarrow> f (evaluate_rule env sec ks stig pkgMgr e) = g (fst e)) \<Longrightarrow>
   map f (evaluated env sec ks level stig pkgMgr) = map g (filter (selected level stig) rule_table)"
  unfolding evaluated_def CISRules_table [symmetric] filter_map by (simp add: comp_def)

lemma sum_of_classes:
  "(\<And>c. c \<in> set cs \<Longrightarrow> explained c) \<Longrightarrow>
   length (filter (\<lambda>c. cis_Status c = CISPass) cs) + length (filter (\<lambda>c. cis_Status c = CISFail) cs) +
     length (filter (\<lambda>c. cis_Status c = CISSkipped) cs) = length cs"
  by (induction cs) (auto simp: explained_def)

text \<open>C6: one result for every rule a run selects, in the order of the table, under the identifier the run reports it
  by; no identifier occurs twice, in a CIS run or in a STIG run, at any level.\<close>

theorem Evaluate_one_result_per_rule:
  "map cis_ID (report_Results (Evaluate env sec ks level stig pkgMgr)) =
     map (reported_ID stig) (filter (selected level stig) rule_table) \<and>
   distinct (map cis_ID (report_Results (Evaluate env sec ks level stig pkgMgr)))"
  using evaluated_map [of cis_ID env sec ks stig pkgMgr "reported_ID stig" level]
  by (simp add: Evaluate_Results evaluate_rule_ID reported_IDs_distinct)

text \<open>C13: the counters of a report are the numbers of its results, no result is manual or not applicable, the three
  others add up to the length of the report, and an unverified result is a skipped one.\<close>

theorem Evaluate_counters:
  "let rep = Evaluate env sec ks level stig pkgMgr;
       n = (\<lambda>P. int (length (filter P (report_Results rep))))
   in report_Pass rep = n (\<lambda>c. cis_Status c = CISPass) \<and> report_Fail rep = n (\<lambda>c. cis_Status c = CISFail) \<and>
      report_Skipped rep = n (\<lambda>c. cis_Status c = CISSkipped) \<and> report_Manual rep = 0 \<and> report_NA rep = 0 \<and>
      report_Pass rep + report_Fail rep + report_Skipped rep = int (length (report_Results rep)) \<and>
      report_Unverified rep = n cis_Unverified"
proof -
  let ?cs = "evaluated env sec ks level stig pkgMgr"
  have none: "filter (\<lambda>c. cis_Status c = CISManual) ?cs = []" "filter (\<lambda>c. cis_Status c = CISNotApplicable) ?cs = []"
    by (auto simp: filter_empty_conv explained_def dest!: evaluated_explained)
  have unverified: "filter (\<lambda>c. cis_Status c = CISSkipped \<and> cis_Unverified c) ?cs = filter cis_Unverified ?cs"
    by (rule filter_cong) (auto simp: explained_def dest!: evaluated_explained)
  have "length (filter (\<lambda>c. cis_Status c = CISPass) ?cs) + length (filter (\<lambda>c. cis_Status c = CISFail) ?cs) +
      length (filter (\<lambda>c. cis_Status c = CISSkipped) ?cs) = length ?cs"
    by (rule sum_of_classes) (rule evaluated_explained)
  then show ?thesis
    by (simp add: Let_def Evaluate_Results) (simp add: Evaluate_add_results add_results none unverified)
qed


text \<open>C14: no result of a report is silent about its verdict.\<close>

theorem Evaluate_explained: "list_all explained (report_Results (Evaluate env sec ks level stig pkgMgr))"
  by (auto simp: list_all_iff Evaluate_Results evaluated_explained)

text \<open>A lower level is the part of the report of a higher one that has the level, result by result.\<close>

theorem Evaluate_levels:
  "report_Results (Evaluate env sec ks (min low high) stig pkgMgr) =
     filter (\<lambda>c. cis_Level c \<le> low) (report_Results (Evaluate env sec ks high stig pkgMgr))"
proof -
  let ?g = "evaluate_rule env sec ks stig pkgMgr"
  have "filter (\<lambda>e. selected (min low high) stig (fst e)) CISRules =
      filter (\<lambda>e. selected high stig (fst e) \<and> cis_Level (?g e) \<le> low) CISRules"
    by (rule filter_cong [OF refl]) (auto simp: evaluate_rule_ID(2) selected_def)
  then show ?thesis
    by (simp add: Evaluate_Results evaluated_def filter_map comp_def conj_commute)
qed

section \<open>What a run without root may not certify\<close>

lemma override_ssh:
  assumes "sshConfigUnverified sec" "rule_Section r = cisCatSSH" "rule_ID r \<noteq> cisRuleSSH52"
    and "cis_Status c = CISPass \<or> cis_Status c = CISFail"
  shows "overrideAmbiguousVerdict r sec c =
    unverifiedr r (''sshd_config not readable (run as root) '' @ em_dash @ '' SSH setting not verified'')"
  using assms by (simp add: overrideAmbiguousVerdict_def)

text \<open>C5: when sshd's configuration was not read, a run neither certifies nor condemns a rule on it.\<close>

theorem ssh_never_certified:
  assumes "sshConfigUnverified sec" "(r, c) \<in> set CISRules" "rule_Section r = cisCatSSH" "rule_ID r \<noteq> cisRuleSSH52"
  shows "cis_Status (evaluate_rule env sec ks stig pkgMgr (r, c)) = CISSkipped"
proof -
  have "explained (c env sec ks)"
    using assms(2) check_conforms explained_conforms by blast
  then have "cis_Status (c env sec ks) = CISPass \<or> cis_Status (c env sec ks) = CISFail \<or>
      cis_Status (c env sec ks) = CISSkipped"
    by (auto simp: explained_def)
  then show ?thesis
    using assms(1,3,4)
    by (auto simp: evaluate_rule_def stage_ID overrideAmbiguousVerdict_def unverifiedr_def)
qed

theorem ssh_never_certified_witness:
  "\<forall>env sec ks pkgMgr.
     cis_Status (evaluate_rule env
       (sec\<lparr>security_SSHConfigUnreadable := True, security_SSHAuditSource := [], security_SSHX11Forwarding := False\<rparr>)
       ks False pkgMgr (rule_5_2_6, \<lambda>_. check_5_2_6)) = CISSkipped"
proof (intro allI)
  fix env :: cis_host and sec :: security_info and ks :: kernel_security_info and pkgMgr :: gostring
  let ?sec = "sec\<lparr>security_SSHConfigUnreadable := True, security_SSHAuditSource := [], security_SSHX11Forwarding := False\<rparr>"
  have "(rule_5_2_6, \<lambda>_. check_5_2_6) \<in> set CISRules"
    by (simp add: CISRules_def)
  then show "cis_Status (evaluate_rule env ?sec ks False pkgMgr (rule_5_2_6, \<lambda>_. check_5_2_6)) = CISSkipped"
    by (intro ssh_never_certified)
      (simp_all add: sshConfigUnverified_def rule_5_2_6_def cisCatSSH_def cisRuleSSH52_def)
qed

section \<open>Groups\<close>

text \<open>The results a reference collects: once for every time a result carries it.\<close>

definition carrying :: "(cis_result \<Rightarrow> gostring list) \<Rightarrow> cis_result list \<Rightarrow> gostring \<Rightarrow> cis_result list" where
  "carrying refs rs key = concat (map (\<lambda>r. map (\<lambda>_. r) (filter (\<lambda>ref. ref = key) (refs r))) rs)"

lemma set_carrying [simp]: "set (carrying refs rs key) = {c \<in> set rs. key \<in> set (refs c)}"
  by (auto simp: carrying_def)

lemma carrying_none: "refs c = [] \<Longrightarrow> carrying refs (xs @ c # ys) key = carrying refs (xs @ ys) key"
  by (simp add: carrying_def)

lemma bsi_matched_carrying: "bsi_matched rs key = carrying cis_BSIRefs rs key"
proof -
  have "concat (map (\<lambda>ref. if ref = key then [r] else []) xs) = map (\<lambda>_. r) (filter (\<lambda>ref. ref = key) xs)"
    for r :: cis_result and xs by (induction xs) auto
  then show ?thesis by (simp add: bsi_matched_def carrying_def)
qed

lemma nis2_bucket_carrying:
  "nis2_bucket rs key = foldl add_to_bucket (nis2_bucket [] key) (carrying cis_NIS2Refs rs key)"
proof -
  have one: "foldl (\<lambda>b ref. if ref = key then add_to_bucket b r else b) b refs =
      foldl add_to_bucket b (map (\<lambda>_. r) (filter (\<lambda>ref. ref = key) refs))" for b r refs
    by (rule Evaluate_foldl)
  have "foldl (\<lambda>b r. foldl (\<lambda>b ref. if ref = key then add_to_bucket b r else b) b (cis_NIS2Refs r)) b rs =
      foldl add_to_bucket b (carrying cis_NIS2Refs rs key)" for b
    by (induction rs arbitrary: b) (simp_all add: carrying_def one)
  then show ?thesis by (simp add: nis2_bucket_def)
qed

lemma add_to_buckets:
  "bucket_results (foldl add_to_bucket b cs) = bucket_results b @ cs"
  "bucket_pass (foldl add_to_bucket b cs) = bucket_pass b + int (length (filter (\<lambda>c. cis_Status c = CISPass) cs))"
  "bucket_fail (foldl add_to_bucket b cs) = bucket_fail b + int (length (filter (\<lambda>c. cis_Status c = CISFail) cs))"
  "bucket_unverified (foldl add_to_bucket b cs) = bucket_unverified b +
     int (length (filter (\<lambda>c. (cis_Status c = CISSkipped \<or> cis_Status c = CISNotApplicable) \<and> cis_Unverified c) cs))"
  by (induction cs arbitrary: b) (simp_all add: add_to_bucket_def Let_def)

lemma bsi_counts:
  "bsi_Pass (foldl bsi_count g cs) = bsi_Pass g + int (length (filter (\<lambda>c. cis_Status c = CISPass) cs))"
  "bsi_Fail (foldl bsi_count g cs) = bsi_Fail g + int (length (filter (\<lambda>c. cis_Status c = CISFail) cs))"
  "bsi_Unverified (foldl bsi_count g cs) = bsi_Unverified g + int (length (filter (\<lambda>c. cis_Unverified c \<and>
     cis_Status c \<noteq> CISPass \<and> cis_Status c \<noteq> CISFail \<and> cis_Status c \<noteq> CISManual) cs))"
  by (induction cs arbitrary: g) (simp_all add: bsi_count_def Let_def)

lemma some_counted: "0 < int (length (filter P cs)) \<longleftrightarrow> (\<exists>c \<in> set cs. P c)"
  by (auto simp: filter_empty_conv length_greater_0_conv simp del: length_greater_0_conv
      intro: length_pos_if_in_set)


definition clean :: "(cis_result \<Rightarrow> gostring list) \<Rightarrow> cis_result list \<Rightarrow> gostring \<Rightarrow> bool" where
  "clean refs rs key \<longleftrightarrow>
     (\<exists>c \<in> set rs. key \<in> set (refs c) \<and> cis_Status c = CISPass) \<and>
     \<not> (\<exists>c \<in> set rs. key \<in> set (refs c) \<and> (cis_Status c = CISFail \<or> \<not> cis_Status c \<in> {CISPass, CISFail, CISManual} \<and>
         cis_Unverified c))"

lemma nis2_clean:
  assumes "\<And>c. c \<in> set rs \<Longrightarrow> cis_Status c \<in> {CISPass, CISFail, CISManual, CISSkipped, CISNotApplicable}"
  shows "nis2_status (nis2_bucket rs key) = ''PASS'' \<longleftrightarrow> clean cis_NIS2Refs rs key"
proof -
  let ?cs = "carrying cis_NIS2Refs rs key"
  have skipped: "cis_Status c = CISSkipped \<or> cis_Status c = CISNotApplicable \<longleftrightarrow>
      \<not> cis_Status c \<in> {CISPass, CISFail, CISManual}" if "c \<in> set rs" for c
    using assms [OF that] by auto
  have "nis2_status (nis2_bucket rs key) = ''PASS'' \<longleftrightarrow>
      bucket_pass (nis2_bucket rs key) > 0 \<and> \<not> bucket_fail (nis2_bucket rs key) > 0 \<and>
      \<not> bucket_unverified (nis2_bucket rs key) > 0 \<and> bucket_results (nis2_bucket rs key) \<noteq> []"
    by (auto simp: nis2_status_def)
  also have "\<dots> \<longleftrightarrow> (\<exists>c \<in> set ?cs. cis_Status c = CISPass) \<and> \<not> (\<exists>c \<in> set ?cs. cis_Status c = CISFail) \<and>
      \<not> (\<exists>c \<in> set ?cs. (cis_Status c = CISSkipped \<or> cis_Status c = CISNotApplicable) \<and> cis_Unverified c) \<and> ?cs \<noteq> []"
    unfolding nis2_bucket_carrying [of rs] add_to_buckets
    by (simp add: nis2_bucket_def some_counted [simplified] filter_empty_conv)
  also have "\<dots> \<longleftrightarrow> clean cis_NIS2Refs rs key"
    unfolding clean_def using skipped by (force simp del: set_empty simp: set_empty [symmetric])
  finally show ?thesis .
qed

lemma bsi_clean: "bsi_Status (bsi_group rs baustein req) = ''PASS'' \<longleftrightarrow> clean cis_BSIRefs rs (bsiReq_ID req)"
proof -
  let ?cs = "carrying cis_BSIRefs rs (bsiReq_ID req)"
  let ?g = "\<lparr>bsi_Req = req, bsi_Baustein = baustein, bsi_Status = [], bsi_Pass = 0, bsi_Fail = 0,
               bsi_Manual = 0, bsi_Skipped = 0, bsi_Unverified = 0, bsi_Results = ?cs\<rparr>"
  let ?n = "foldl bsi_count ?g ?cs"
  have "bsi_Status (bsi_group rs baustein req) = ''PASS'' \<longleftrightarrow>
      bsi_Pass ?n > 0 \<and> \<not> bsi_Fail ?n > 0 \<and> \<not> bsi_Unverified ?n > 0 \<and> ?cs \<noteq> []"
    by (simp add: bsi_group_def bsi_matched_carrying bsi_status_def Let_def)
  also have "\<dots> \<longleftrightarrow> clean cis_BSIRefs rs (bsiReq_ID req)"
    unfolding bsi_counts clean_def
    by (simp add: some_counted [simplified] filter_empty_conv) (force simp del: set_empty simp: set_empty [symmetric])
  finally show ?thesis .
qed

text \<open>The references a result of a run carries, when the verdict of its rule was not replaced for want of the
  inputs: those of its rule.\<close>

lemma evaluated_refs:
  assumes "\<not> sshConfigUnverified sec" and "\<not> security_AuditRulesUnreadable sec"
    and "c \<in> set (evaluated env sec ks level False pkgMgr)"
  shows "cis_NIS2Refs c = NIS2Refs (cis_ID c)" and "cis_BSIRefs c = BSIRefs (cis_ID c)"
proof -
  obtain r check where e: "(r, check) \<in> set CISRules" "c = evaluate_rule env sec ks False pkgMgr (r, check)"
    using assms(3) by (auto simp: evaluated_def)
  have id: "cis_ID c = rule_ID r"
    using evaluate_rule_ID(1) [OF e(1), of env sec ks False pkgMgr] e(2) by (simp add: reported_ID_def)
  have "conforms r (check env sec ks)" using check_conforms [OF e(1)] by simp
  then show "cis_NIS2Refs c = NIS2Refs (cis_ID c)" "cis_BSIRefs c = BSIRefs (cis_ID c)"
    unfolding id using assms(1,2)
    by (simp_all add: e(2) evaluate_rule_def stig_result_def overrideAmbiguousVerdict_def with_refs_def Let_def
        conforms_def stage_refs)
qed

lemma clean_cong: "(\<And>c. c \<in> set rs \<Longrightarrow> f c = g c) \<Longrightarrow> clean f rs key = clean g rs key"
  by (simp add: clean_def)



lemma map_get_in: "map_get [] m k \<noteq> [] \<Longrightarrow> (k, map_get [] m k) \<in> set m"
  by (auto simp: map_get_def dest: map_of_SomeD split: option.splits)

text \<open>Every reference a rule has is one of the ten articles, or a requirement of the catalogue: no result is
  dropped for a reference that no group knows.\<close>

theorem refs_known:
  "set (NIS2Refs i) \<subseteq> set (map article_ID NIS2Articles) \<and>
   set (BSIRefs i) \<subseteq> set (map bsiReq_ID (concat (map baustein_Requirements BSIBausteine)))"
proof -
  have "list_all (\<lambda>(k, refs). set refs \<subseteq> set (map article_ID NIS2Articles)) nis2Mapping"
    unfolding nis2Mapping_def by (simp add: NIS2Articles_def)
  moreover have "list_all (\<lambda>(k, refs). set refs \<subseteq> set (map bsiReq_ID (concat (map baustein_Requirements BSIBausteine)))) bsiMapping"
    unfolding bsiMapping_def by (simp add: BSIBausteine_def)
  ultimately show ?thesis
    using map_get_in [of nis2Mapping i] map_get_in [of bsiMapping i]
    by (fastforce simp: NIS2Refs_def BSIRefs_def list_all_iff)
qed

text \<open>The result that replaces an SSH verdict of an unread configuration is unverified and carries no reference:
  the groups are what they are without it, although the rule is mapped, so an article can be a plain PASS.\<close>

theorem unverified_ssh_in_no_group:
  assumes "sshConfigUnverified sec" "rule_Section r = cisCatSSH" "rule_ID r \<noteq> cisRuleSSH52"
    and "cis_Status (c env sec ks) = CISPass \<or> cis_Status (c env sec ks) = CISFail"
  shows "let res = evaluate_rule env sec ks stig pkgMgr (r, c)
    in cis_Unverified res \<and> GroupByNIS2 (xs @ res # ys) = GroupByNIS2 (xs @ ys) \<and>
       GroupByBSI (xs @ res # ys) = GroupByBSI (xs @ ys)"
proof -
  let ?res = "evaluate_rule env sec ks stig pkgMgr (r, c)"
  have res: "?res = stig_result stig r
      (unverifiedr r (''sshd_config not readable (run as root) '' @ em_dash @ '' SSH setting not verified''))"
    unfolding evaluate_rule_def prod.case using assms by (subst override_ssh) (simp_all add: stage_ID)
  have no_refs: "cis_Unverified ?res" "cis_NIS2Refs ?res = []" "cis_BSIRefs ?res = []"
    unfolding res by (simp_all add: stage_ID unverifiedr_def)
  have "bsi_group (xs @ ?res # ys) = bsi_group (xs @ ys)"
    by (intro ext) (simp add: bsi_group_def bsi_matched_carrying carrying_none no_refs)
  moreover have "nis2_bucket (xs @ ?res # ys) = nis2_bucket (xs @ ys)"
    by (intro ext) (simp add: nis2_bucket_carrying [of "xs @ _"] carrying_none no_refs)
  ultimately show ?thesis
    using no_refs by (simp add: Let_def GroupByNIS2_def GroupByBSI_def)
qed

theorem unverified_ssh_in_no_group_witness:
  "NIS2Refs (rule_ID rule_5_2_6) = [nis2ArticleG] \<and>
   (\<forall>env sec ks pkgMgr xs ys.
      let res = evaluate_rule env
        (sec\<lparr>security_SSHConfigUnreadable := True, security_SSHAuditSource := [], security_SSHX11Forwarding := False\<rparr>)
        ks False pkgMgr (rule_5_2_6, \<lambda>_. check_5_2_6)
      in cis_Unverified res \<and> GroupByNIS2 (xs @ res # ys) = GroupByNIS2 (xs @ ys) \<and>
         GroupByBSI (xs @ res # ys) = GroupByBSI (xs @ ys))"
proof (intro conjI allI)
  show "NIS2Refs (rule_ID rule_5_2_6) = [nis2ArticleG]"
    by (simp add: NIS2Refs_def map_get_def nis2Mapping_def rule_5_2_6_def)
next
  fix env :: cis_host and sec :: security_info and ks :: kernel_security_info
    and pkgMgr :: gostring and xs ys :: "cis_result list"
  let ?sec = "sec\<lparr>security_SSHConfigUnreadable := True, security_SSHAuditSource := [], security_SSHX11Forwarding := False\<rparr>"
  show "let res = evaluate_rule env ?sec ks False pkgMgr (rule_5_2_6, \<lambda>_. check_5_2_6)
      in cis_Unverified res \<and> GroupByNIS2 (xs @ res # ys) = GroupByNIS2 (xs @ ys) \<and>
         GroupByBSI (xs @ res # ys) = GroupByBSI (xs @ ys)"
    by (rule unverified_ssh_in_no_group)
      (simp_all add: sshConfigUnverified_def rule_5_2_6_def cisCatSSH_def cisRuleSSH52_def check_5_2_6_def cis_pass_def Let_def)
qed

section \<open>Single checks\<close>

text \<open>C40: a file's mode passes exactly when the file is there and none of its nine permission bits is outside the limit.\<close>

theorem checkFilePerm_pass:
  "cis_Status (checkFilePerm env r path maxMode fix) = CISPass \<longleftrightarrow>
     (\<exists>fi. Stat env path = Some fi \<and> \<not> (\<exists>n<9. bit (file_Mode fi) n \<and> \<not> bit maxMode n))"
proof -
  have "Perm m AND NOT maxMode = 0 \<longleftrightarrow> \<not> (\<exists>n<9. bit m n \<and> \<not> bit maxMode n)" for m :: "32 word"
  proof -
    have mask: "(0b111111111 :: 32 word) = mask 9"
      by (simp add: mask_eq_exp_minus_1)
    show ?thesis
      unfolding Perm_def mask by (auto simp: bit_eq_iff bit_simps)
  qed
  then show ?thesis
    by (auto simp: checkFilePerm_def cis_pass_def failr_def skipr_def split: option.splits)
qed

text \<open>A password that never expires: \<open>PASS_MAX_DAYS -1\<close> switches expiry off, and the rule on expiry passes.\<close>

lemma max_days_never_passes:
  "cis_Status (check_5_4_1 (env\<lparr>ReadFile := \<lambda>p. if p = loginDefsPath then Some ''PASS_MAX_DAYS -1'' else None\<rparr>) sec ks) =
     CISPass"
proof -
  have "split_byte ''PASS_MAX_DAYS -1'' (CHR 0x0A) = [''PASS_MAX_DAYS -1'']" by code_simp
  moreover have "trim_space ''PASS_MAX_DAYS -1'' = ''PASS_MAX_DAYS -1''" by code_simp
  moreover have "Go_Prelude.fields ''PASS_MAX_DAYS -1'' = [''PASS_MAX_DAYS'', ''-1'']" by code_simp
  moreover have "scan_int ''-1'' = Some (-1)" by code_simp
  ultimately show ?thesis
    by (simp add: check_5_4_1_def checkLoginDefsField_def has_prefix_code cis_pass_def Let_def)
qed

text \<open>A configuration that blacklists only \<open>hfsplus\<close> passes the rule on \<open>hfs\<close>.\<close>

lemma blacklist_prefix_passes:
  "cis_Status (check_1_1_1_4 (env\<lparr>
     ReadFile := \<lambda>p. if p = procModulesPath then Some [] else if p = ''/etc/modprobe.d/hfsplus.conf''
       then Some ''blacklist hfsplus'' else None,
     ReadDir := \<lambda>p. Some [\<lparr>entry_Name = ''hfsplus.conf'', entry_IsDir = False, entry_Info = None, entry_InfoErr = []\<rparr>]\<rparr>)
     sec ks) = CISPass"
proof -
  have "split_byte [] (CHR 0x0A) = [[]]" by code_simp
  moreover have "split_byte ''blacklist hfsplus'' (CHR 0x0A) = [''blacklist hfsplus'']" by code_simp
  moreover have "trim_space ''blacklist hfsplus'' = ''blacklist hfsplus''" by code_simp
  moreover have "path_join [modprobeDPath, ''hfsplus.conf''] = ''/etc/modprobe.d/hfsplus.conf''" by code_simp
  moreover have "has_suffix ''hfsplus.conf'' ''.conf''" by code_simp
  ultimately show ?thesis
    by (simp add: check_1_1_1_4_def checkModuleDisabled_def has_prefix_code cis_pass_def procModulesPath_def Let_def)
qed

end
