(* ===== verification/Spec2Isabelle.thy ===== *)
theory Spec2Isabelle
  imports Rpm_Version Dpkg_Version Exit_Codes Baseline Correlate Runner Store Selfupdate
    Report_Output Run_Safety Host_Safety Cis_Safety
begin

text \<open>
  A model of dashdiag (\<open>dsd\<close>), a diagnostic tool for hosts: collectors measure the host, the checks turn each
  measurement into insights, and every output (terminal, JSON, Nagios, Prometheus, exit code, snapshot) derives
  from one verdict over results and insights. A property of the development is a numbered claim in the theory of
  the component it is about.

  \<^bold>\<open>The way of a run.\<close>
  \<^item> \<open>Runner\<close> (internal/runner): the collectors of a run, each a step relation with its grace period, panics and
    cancellation, interleaved with the result channel. Every run ends and delivers one result per collector.
  \<^item> \<open>Run_Model\<close> (internal/models/insight.go, coverage.go): results, errors and their reasons, insights.
  \<^item> \<open>Analysis\<close> (internal/analysis/heuristics.go): \<open>ApplyThresholds\<close>. A result is extended by its \<open>payload\<close>, the
    measurement of one of 105 types; the pre-scan reads facts one check needs of another's measurement, they
    are injected into the payloads, \<open>applyOne\<close> (theory \<open>Payload\<close>) hands each to the check of its type, a failed result
    becomes an unverified insight, and the list goes through the SELinux duplicate and the hint rewriters
    (\<open>Hints\<close>, \<open>Nixos_Hints\<close>).
  \<^item> \<open>Checks_Levels\<close>, \<open>Checks_System\<close>, \<open>Checks_Resources\<close>, \<open>Checks_Host\<close>, \<open>Checks_SteamOS\<close>, \<open>Checks_Network\<close>,
    \<open>Checks_Guests\<close>, \<open>Checks_Storage\<close>, \<open>Checks_Hardware\<close>, \<open>Checks_Services\<close>, \<open>Checks_Virt\<close>, \<open>Checks_Security\<close>: every
    heuristics_*.go. One definition per Go function under its name, one record per struct of internal/models with
    the fields some check reads (\<open>struct_Field\<close>). \<open>Policy\<close> (thresholds.go, policy.go) has the bounds and the policy
    file.
  \<^item> \<open>Correlate\<close> (correlate.go): the rules that infer a cause from several insights.
  \<^item> \<open>Verdict\<close>, \<open>Coverage_Model\<close>, \<open>Monitoring\<close>, \<open>Exit_Codes\<close>, \<open>Report_Output\<close> (internal/render, cmd/exitcode.go): the
    verdict, what was not looked at, the status line, the metrics, the exit codes, the top catch, the JSON document
    and the changes of \<open>--watch\<close>. \<open>Sanitize\<close> cleans what is printed.
  \<^item> \<open>Baseline\<close> (internal/baseline) and \<open>Store\<close> (internal/store): snapshots and their comparison; the history file.
  \<^item> \<open>Rpm_Version\<close>, \<open>Dpkg_Version\<close>, \<open>Version_Order\<close> (internal/cvedata): package versions. \<open>Selfupdate\<close>
    (internal/selfupdate): release versions, the signature and the replacement of the binary.

  \<^bold>\<open>The benchmark\<close> (internal/cis), a second way to look at the host, from files and from the measurements of two collectors.
  \<^item> \<open>Cis_Base\<close>: the host as a rule reads it (\<open>cis_host\<close>: files, modes and owners, directories, groups, a directory
    walk), the records of types.go, and the helpers. \<open>Cis_Rules\<close>: the 330 rules (\<open>rule_<id>\<close>) and \<open>ruleByID\<close>.
  \<^item> \<open>Cis_Ssh\<close>, \<open>Cis_Network\<close>, \<open>Cis_Files\<close>, \<open>Cis_Audit\<close>, \<open>Cis_Auth\<close>, \<open>Cis_Users\<close>: the check of each rule (\<open>check_<id>\<close>), the
    function literal of its entry in \<open>buildRules\<close>.
  \<^item> \<open>Cis_Report\<close>: \<open>Evaluate\<close> with the selection by level and benchmark, remedies by package manager (remediation.go),
    references and overrides; the NIS2 articles and BSI requirements with their groups (nis2.go, bsi.go).

  \<^bold>\<open>Conventions.\<close> \<open>Go_Prelude\<close>, \<open>Go_Float\<close> and \<open>Go_System\<close> hold the part of Go and its standard library the code uses. A string is
  its bytes. An \<open>int\<close> is an integer with its wrap-around at 64 bits written out where a value is computed
  (\<open>wrap64\<close>). A \<open>float64\<close> is an exact rational, an infinity or NaN; every operation rounds to the nearest double,
  and negative zero is not told from zero. A Go map is an association list in the order the runtime iterates, so what is
  proved for every list holds for every order. A slice that is appended to is a list; a loop with several accumulators is
  one fold per accumulator; a variable assigned again is a \<open>let\<close> that shadows it. A nil pointer is \<open>None\<close> or no payload.
  Errors are values: an option, a sum, or an unverified insight with its reason. The only fuel is that of
  \<open>expand_loop\<close> in \<open>Hints\<close>, the template of a replacement; it exceeds the length of the text, which every round
  shortens.

  \<^bold>\<open>Parameters.\<close> What a check asks of the host beside its measurement is the record \<open>environment\<close> (effective user,
  operating system, a file, a link), with \<open>strconv.Quote\<close> and the verb \<open>%g\<close>. The distribution and the init system are
  \<open>host_tools\<close>. What a collector does is the set of its outcomes. The JSON codec, the YAML decoder, the network, URL
  parsing, hashes and signatures, the clock and the failures of system calls are arguments of the definitions that use
  them, with documented laws as hypotheses where a property needs one.

  \<^bold>\<open>What the lemmas show.\<close>
  \<^item> \<open>Check_Base\<close> states when an insight is well-formed and collects the rules (\<open>wf_rules\<close>, \<open>wf_lets\<close>) by which every
    check is shown to return such insights; each check has its lemma \<open>_wf\<close>, \<open>Payload\<close> composes them, \<open>Run_Safety\<close>
    concludes for a run.
  \<^item> \<open>Unmeasured\<close> lists the flags by which a collector reports a measurement it could not take, names the ones it
    leaves out, and shows for each check that a listed flag gives an unverified insight (\<open>gap\<close>); \<open>Run_Safety\<close> carries
    it through the duplicate, the hints and the verdict: no listed gap and no failure ends in a clean verdict. It also gives the exit code of a full disk for every host.
  \<^item> \<open>Storage_Safety\<close> and \<open>Host_Safety\<close>: no drive drops out of the report, rejected readings raise no alarm, lost
    redundancy of arrays and pools is reported by name, a cleaned path does not leave the system directories, and ages are read back.
  \<^item> \<open>Cis_Base\<close> states what a check owes its rule (\<open>conforms\<close>) and collects the rules by which each check is shown to
    keep it; \<open>Cis_Table\<close> lifts this to the table, whose identifiers are distinct; \<open>Cis_Safety\<close> concludes for reports: one
    explained result per selected rule, counters that add up, nothing certified about an unread sshd, and groups
    that pass only on verified results where the configurations could be read.
  \<^item> \<open>Naming\<close> holds the lemmas on composed lists of insights these share.
  \<^item> In the other theories: agreement of the outputs with the verdict, order independence of verdict and diagnoses,
    termination and completeness of the runner, the history's round trip and safe pruning, the version orders as
    refinements of lexicographic orders, soundness of comparisons with a baseline, authenticity of an update.

  \<^bold>\<open>Not modelled.\<close> The collectors (internal/collectors), which parse what other programs and the kernel print: their
  results are the inputs. The terminal,
  Markdown and HTML layouts, the interactive views and the texts of \<open>explain\<close> and \<open>tips\<close>. The commands' flag handling.
  Fleet runs over ssh, recording and replaying of evidence, vulnerability feeds and the detection of the platform.
  In the modelled files, logging and terminal styles are left out.
\<close>

end
